(* ===== verification/Prelude.thy ===== *)
theory Prelude
  imports Main "HOL-Library.Word" "HOL-Library.Monad_Syntax"
begin

text \<open>
  Shared vocabulary of the development.  Machine integers of the C sources are words of their
  width (\<open>UINT8\<close>, \<open>UINT16\<close>, \<open>UINT32\<close>); byte buffers are lists of \<open>u8\<close>; a read of a buffer is an
  option, so that a read past the end is a value of the model and not an arbitrary byte.  The
  collections and generic lemmas on lists, options and words that the component theories share are
  collected here.
\<close>

unbundle bit_operations_syntax

section \<open>Machine types\<close>

type_synonym u8 = "8 word"
type_synonym u16 = "16 word"
type_synonym u32 = "32 word"
type_synonym u64 = "64 word"
type_synonym bytes = "u8 list"

text \<open>A C truth value stored in an integer object: 1 for true, 0 for false.\<close>

abbreviation c_bool :: "bool \<Rightarrow> 'a::len word" where
  "c_bool b \<equiv> (if b then 1 else 0)"

section \<open>Collections\<close>

named_theorems frame_simps \<open>what an operation leaves unchanged\<close>
named_theorems inv_intros \<open>preservation of component invariants\<close>
named_theorems byte_simps \<open>evaluation of byte-level encoders and decoders\<close>

section \<open>Bounded reads of byte buffers\<close>

definition rd :: "'a list \<Rightarrow> nat \<Rightarrow> 'a option" where
  "rd xs i = (if i < length xs then Some (xs ! i) else None)"

lemma rd_Some_iff: "rd xs i = Some x \<longleftrightarrow> i < length xs \<and> x = xs ! i"
  by (auto simp: rd_def)

lemma rd_None_iff: "rd xs i = None \<longleftrightarrow> length xs \<le> i"
  by (auto simp: rd_def)

lemma rd_Cons_0 [simp]: "rd (x # xs) 0 = Some x"
  by (simp add: rd_def)

lemma rd_Cons_Suc [simp]: "rd (x # xs) (Suc i) = rd xs i"
  by (simp add: rd_def)

lemma rd_Cons_numeral [simp]: "rd (x # xs) (numeral n) = rd xs (pred_numeral n)"
  by (simp add: numeral_eq_Suc)

lemma rd_Nil [simp]: "rd [] i = None"
  by (simp add: rd_def)

lemma rd_append: "rd (xs @ ys) i = (if i < length xs then rd xs i else rd ys (i - length xs))"
  by (auto simp: rd_def nth_append)

text \<open>
  \<open>read_at m i n\<close> is the block of \<open>n\<close> cells at offset \<open>i\<close> of the memory object \<open>m\<close>, and \<open>write_at\<close>
  overwrites a block; both are \<open>None\<close> when the block does not lie inside the object.
\<close>

definition read_at :: "'a list \<Rightarrow> nat \<Rightarrow> nat \<Rightarrow> 'a list option" where
  "read_at m i n = (if i + n \<le> length m then Some (take n (drop i m)) else None)"

definition write_at :: "'a list \<Rightarrow> nat \<Rightarrow> 'a list \<Rightarrow> 'a list option" where
  "write_at m i xs =
     (if i + length xs \<le> length m then Some (take i m @ xs @ drop (i + length xs) m) else None)"

lemma write_at_length: "write_at m i xs = Some m' \<Longrightarrow> length m' = length m"
  by (auto simp: write_at_def split: if_splits)

lemma write_at_Some_iff:
  "write_at m i xs = Some m' \<longleftrightarrow>
     i + length xs \<le> length m \<and> m' = take i m @ xs @ drop (i + length xs) m"
  by (auto simp: write_at_def)

lemma write_at_bind:
  "i + length xs \<le> length m \<Longrightarrow>
   Option.bind (write_at m i xs) f = f (take i m @ xs @ drop (i + length xs) m)"
  by (simp add: write_at_def)

lemma read_at_write_at: "write_at m i xs = Some m' \<Longrightarrow> read_at m' i (length xs) = Some xs"
  by (auto simp: write_at_def read_at_def split: if_splits)

lemma read_at_bind:
  "i + n \<le> length m \<Longrightarrow> Option.bind (read_at m i n) f = f (take n (drop i m))"
  by (simp add: read_at_def)

section \<open>Buffers of the stack\<close>

text \<open>
  \<open>BT_HDR\<close>: the header every packet buffer of the stack starts with, and the memory that follows
  it.  The payload is the \<open>bh_len\<close> bytes from \<open>bh_offset\<close>; the bytes outside it belong to the buffer
  and hold whatever was there.
\<close>

record bt_hdr =
  bh_event :: u16
  bh_len :: u16
  bh_offset :: u16
  bh_layer_specific :: u16
  bh_data :: bytes

definition bh_payload :: "bt_hdr \<Rightarrow> bytes" where
  "bh_payload p = take (unat (bh_len p)) (drop (unat (bh_offset p)) (bh_data p))"

section \<open>Words\<close>

lemma unat_lt_pow: "unat (x :: 'a::len word) < 2 ^ LENGTH('a)"
  by (rule unsigned_less)

lemma u8_lt: "unat (x :: u8) < 256"
  using unat_lt_pow [of x] by simp

lemma u16_lt: "unat (x :: u16) < 65536"
  using unat_lt_pow [of x] by simp

lemma u32_lt: "unat (x :: u32) < 4294967296"
  using unat_lt_pow [of x] by simp

lemmas word_ranges = u8_lt u16_lt u32_lt

section \<open>All bytes\<close>

text \<open>The 256 byte values in order: a statement about every byte is a finite check over this list.\<close>

definition all_bytes :: bytes where
  "all_bytes = [
    0, 1, 2, 3, 4, 5, 6, 7, 8, 9, 10, 11, 12, 13, 14, 15, 16, 17, 18, 19, 20, 21, 22, 23, 24,
    25, 26, 27, 28, 29, 30, 31, 32, 33, 34, 35, 36, 37, 38, 39, 40, 41, 42, 43, 44, 45, 46, 47,
    48, 49, 50, 51, 52, 53, 54, 55, 56, 57, 58, 59, 60, 61, 62, 63, 64, 65, 66, 67, 68, 69, 70,
    71, 72, 73, 74, 75, 76, 77, 78, 79, 80, 81, 82, 83, 84, 85, 86, 87, 88, 89, 90, 91, 92, 93,
    94, 95, 96, 97, 98, 99, 100, 101, 102, 103, 104, 105, 106, 107, 108, 109, 110, 111, 112,
    113, 114, 115, 116, 117, 118, 119, 120, 121, 122, 123, 124, 125, 126, 127, 128, 129, 130,
    131, 132, 133, 134, 135, 136, 137, 138, 139, 140, 141, 142, 143, 144, 145, 146, 147, 148,
    149, 150, 151, 152, 153, 154, 155, 156, 157, 158, 159, 160, 161, 162, 163, 164, 165, 166,
    167, 168, 169, 170, 171, 172, 173, 174, 175, 176, 177, 178, 179, 180, 181, 182, 183, 184,
    185, 186, 187, 188, 189, 190, 191, 192, 193, 194, 195, 196, 197, 198, 199, 200, 201, 202,
    203, 204, 205, 206, 207, 208, 209, 210, 211, 212, 213, 214, 215, 216, 217, 218, 219, 220,
    221, 222, 223, 224, 225, 226, 227, 228, 229, 230, 231, 232, 233, 234, 235, 236, 237, 238,
    239, 240, 241, 242, 243, 244, 245, 246, 247, 248, 249, 250, 251, 252, 253, 254, 255]"

lemma upt_256: "[0..<256] = 0 # 1 # [2..<256]"
  by (simp add: upt_conv_Cons numeral_2_eq_2)

lemma all_bytes_upt: "all_bytes = map of_nat [0..<256]"
  unfolding upt_256 all_bytes_def by (simp add: upt_rec_numeral)

lemma length_all_bytes [simp]: "length all_bytes = 256"
  by (simp add: all_bytes_upt)

lemma all_bytes_nth: "i < 256 \<Longrightarrow> all_bytes ! i = of_nat i"
  by (simp add: all_bytes_upt)

lemma all_bytes_unat [simp]: "all_bytes ! unat (b :: u8) = b"
  using u8_lt [of b] by (simp add: all_bytes_nth)

lemma in_all_bytes: "b \<in> set all_bytes"
  using nth_mem [of "unat b" all_bytes] u8_lt [of b] by simp

lemma all_bytesD: "list_all P all_bytes \<Longrightarrow> P b"
  by (auto simp: list_all_iff intro: in_all_bytes)

lemma table_of_all_bytes: "map f all_bytes = t \<Longrightarrow> t ! unat b = f b"
  using u8_lt [of b] by (auto simp: nth_map)

end
