(* ===== verification/OsiList.thy ===== *)
theory OsiList
  imports Prelude
begin

text \<open>
  The singly linked list of the OSI layer (\<open>osi/list.c\<close>), at the level of its node cells: a heap
  that maps addresses to nodes, the list header with its head, tail and length, and one definition
  per function.  An operation is \<open>None\<close> when an assertion of the code fails, when it dereferences an
  address that holds no node, or when one of its loops does not end.  The second half gives the
  representation predicate \<open>list_rep\<close> and the lemmas by which every operation implements the
  operation on HOL lists of the same name.
\<close>

section \<open>Nodes, headers and the heap\<close>

text \<open>An address; 0 is \<open>NULL\<close>.\<close>

type_synonym ptr = nat

record list_node =
  ln_next :: ptr
  ln_data :: ptr

text \<open>
  The node cells, and the data pointers the list's \<open>free_cb\<close> has been called with, latest first.
\<close>

record lheap =
  lh_nodes :: "ptr \<rightharpoonup> list_node"
  lh_freed :: "ptr list"

text \<open>\<open>size_t\<close> is 32 bits wide on the targets of the stack, so that a decrement of 0 wraps.\<close>

record list_t =
  l_head :: ptr
  l_tail :: ptr
  l_length :: u32
  l_free_cb :: bool

text \<open>
  The allocator of a list is not part of the source: a function from the allocated cells to the
  address of a new one, 0 when there is no memory.  What \<open>malloc\<close> promises is that a new cell is
  not one already in use.
\<close>

type_synonym node_alloc = "(ptr \<rightharpoonup> list_node) \<Rightarrow> ptr"

definition alloc_fresh :: "node_alloc \<Rightarrow> bool" where
  "alloc_fresh alloc \<longleftrightarrow> (\<forall>h. alloc h \<noteq> 0 \<longrightarrow> h (alloc h) = None)"

section \<open>The operations\<close>

definition list_new_internal :: "bool \<Rightarrow> bool \<Rightarrow> list_t option" where
  "list_new_internal got callback =
     (if \<not> got then None
      else Some \<lparr>l_head = 0, l_tail = 0, l_length = 0, l_free_cb = callback\<rparr>)"

definition list_new :: "bool \<Rightarrow> bool \<Rightarrow> list_t option" where
  "list_new got callback = list_new_internal got callback"

definition list_is_empty :: "list_t \<Rightarrow> bool" where
  "list_is_empty l = (l_length l = 0)"

definition list_length :: "list_t \<Rightarrow> u32" where
  "list_length l = l_length l"

definition list_begin :: "list_t \<Rightarrow> ptr" where
  "list_begin l = l_head l"

definition list_end :: "list_t \<Rightarrow> ptr" where
  "list_end l = 0"

definition list_next :: "lheap \<Rightarrow> ptr \<Rightarrow> ptr option" where
  "list_next h node = (if node = 0 then None else map_option ln_next (lh_nodes h node))"

definition list_node :: "lheap \<Rightarrow> ptr \<Rightarrow> ptr option" where
  "list_node h node = (if node = 0 then None else map_option ln_data (lh_nodes h node))"

partial_function (option) list_contains_loop ::
    "lheap \<Rightarrow> list_t \<Rightarrow> ptr \<Rightarrow> ptr \<Rightarrow> bool option" where
  "list_contains_loop h l node data =
     (if node = list_end l then Some False
      else do {
        d \<leftarrow> list_node h node;
        if d = data then Some True
        else do { n \<leftarrow> list_next h node; list_contains_loop h l n data } })"

definition list_contains :: "lheap \<Rightarrow> list_t \<Rightarrow> ptr \<Rightarrow> bool option" where
  "list_contains h l data =
     (if data = 0 then None else list_contains_loop h l (list_begin l) data)"

definition list_front :: "lheap \<Rightarrow> list_t \<Rightarrow> ptr option" where
  "list_front h l = (if list_is_empty l then None else map_option ln_data (lh_nodes h (l_head l)))"

definition list_back :: "lheap \<Rightarrow> list_t \<Rightarrow> ptr option" where
  "list_back h l = (if list_is_empty l then None else map_option ln_data (lh_nodes h (l_tail l)))"

definition list_back_node :: "list_t \<Rightarrow> ptr option" where
  "list_back_node l = (if list_is_empty l then None else Some (l_tail l))"

text \<open>Store a node, or overwrite the \<open>next\<close> field of one.\<close>

definition put_node :: "lheap \<Rightarrow> ptr \<Rightarrow> ptr \<Rightarrow> ptr \<Rightarrow> lheap" where
  "put_node h a next data =
     h\<lparr>lh_nodes := (lh_nodes h)(a \<mapsto> \<lparr>ln_next = next, ln_data = data\<rparr>)\<rparr>"

definition set_next :: "lheap \<Rightarrow> ptr \<Rightarrow> ptr \<Rightarrow> lheap option" where
  "set_next h a next = do {
     n \<leftarrow> lh_nodes h a;
     Some (h\<lparr>lh_nodes := (lh_nodes h)(a \<mapsto> n\<lparr>ln_next := next\<rparr>)\<rparr>) }"

definition list_insert_after ::
    "node_alloc \<Rightarrow> lheap \<Rightarrow> list_t \<Rightarrow> ptr \<Rightarrow> ptr \<Rightarrow> (bool \<times> lheap \<times> list_t) option" where
  "list_insert_after alloc h l prev_node data =
     (if prev_node = 0 \<or> data = 0 then None
      else let node = alloc (lh_nodes h) in
        if node = 0 then Some (False, h, l)
        else do {
          next \<leftarrow> list_next h prev_node;
          h \<leftarrow> set_next (put_node h node next data) prev_node node;
          let l = (if l_tail l = prev_node then l\<lparr>l_tail := node\<rparr> else l);
          Some (True, h, l\<lparr>l_length := l_length l + 1\<rparr>) })"

definition list_prepend ::
    "node_alloc \<Rightarrow> lheap \<Rightarrow> list_t \<Rightarrow> ptr \<Rightarrow> (bool \<times> lheap \<times> list_t) option" where
  "list_prepend alloc h l data =
     (if data = 0 then None
      else let node = alloc (lh_nodes h) in
        if node = 0 then Some (False, h, l)
        else
          let h = put_node h node (l_head l) data;
              l = l\<lparr>l_head := node\<rparr>;
              l = (if l_tail l = 0 then l\<lparr>l_tail := l_head l\<rparr> else l)
          in Some (True, h, l\<lparr>l_length := l_length l + 1\<rparr>))"

definition list_append ::
    "node_alloc \<Rightarrow> lheap \<Rightarrow> list_t \<Rightarrow> ptr \<Rightarrow> (bool \<times> lheap \<times> list_t) option" where
  "list_append alloc h l data =
     (if data = 0 then None
      else let node = alloc (lh_nodes h) in
        if node = 0 then Some (False, h, l)
        else do {
          let h = put_node h node 0 data;
          (h, l) \<leftarrow> (if l_tail l = 0 then Some (h, l\<lparr>l_head := node, l_tail := node\<rparr>)
                    else do {
                      h \<leftarrow> set_next h (l_tail l) node;
                      Some (h, l\<lparr>l_tail := node\<rparr>) });
          Some (True, h, l\<lparr>l_length := l_length l + 1\<rparr>) })"

text \<open>The freed cell leaves the heap; a later access to it is \<open>None\<close>.\<close>

definition list_free_node ::
    "lheap \<Rightarrow> list_t \<Rightarrow> ptr \<Rightarrow> (ptr \<times> lheap \<times> list_t) option" where
  "list_free_node h l node =
     (if node = 0 then None
      else do {
        n \<leftarrow> lh_nodes h node;
        let h = (if l_free_cb l then h\<lparr>lh_freed := ln_data n # lh_freed h\<rparr> else h);
        let h = h\<lparr>lh_nodes := (lh_nodes h)(node := None)\<rparr>;
        Some (ln_next n, h, l\<lparr>l_length := l_length l - 1\<rparr>) })"

partial_function (option) list_remove_loop ::
    "lheap \<Rightarrow> list_t \<Rightarrow> ptr \<Rightarrow> ptr \<Rightarrow> ptr \<Rightarrow> (bool \<times> lheap \<times> list_t) option" where
  "list_remove_loop h l prev node data =
     (if node = 0 then Some (False, h, l)
      else do {
        n \<leftarrow> lh_nodes h node;
        if ln_data n = data then do {
          (next, h, l) \<leftarrow> list_free_node h l node;
          h \<leftarrow> set_next h prev next;
          Some (True, h, if l_tail l = node then l\<lparr>l_tail := prev\<rparr> else l) }
        else list_remove_loop h l node (ln_next n) data })"

definition list_remove ::
    "lheap \<Rightarrow> list_t \<Rightarrow> ptr \<Rightarrow> (bool \<times> lheap \<times> list_t) option" where
  "list_remove h l data =
     (if data = 0 then None
      else if list_is_empty l then Some (False, h, l)
      else do {
        hd \<leftarrow> lh_nodes h (l_head l);
        if ln_data hd = data then do {
          (next, h, l) \<leftarrow> list_free_node h l (l_head l);
          let l = (if l_tail l = l_head l then l\<lparr>l_tail := next\<rparr> else l);
          Some (True, h, l\<lparr>l_head := next\<rparr>) }
        else list_remove_loop h l (l_head l) (ln_next hd) data })"

partial_function (option) list_clear_loop ::
    "lheap \<Rightarrow> list_t \<Rightarrow> ptr \<Rightarrow> (lheap \<times> list_t) option" where
  "list_clear_loop h l node =
     (if node = 0 then Some (h, l)
      else do {
        (node, h, l) \<leftarrow> list_free_node h l node;
        list_clear_loop h l node })"

definition list_clear :: "lheap \<Rightarrow> list_t \<Rightarrow> (lheap \<times> list_t) option" where
  "list_clear h l = do {
     (h, l) \<leftarrow> list_clear_loop h l (l_head l);
     Some (h, l\<lparr>l_head := 0, l_tail := 0, l_length := 0\<rparr>) }"

definition list_free :: "lheap \<Rightarrow> list_t option \<Rightarrow> lheap option" where
  "list_free h lp = (case lp of None \<Rightarrow> Some h | Some l \<Rightarrow> map_option fst (list_clear h l))"

text \<open>
  The callback gets the data of a node and may change the heap, the list and the context it was given; the
  iteration ends at the first node it refuses.  The address of the next node is read before the call.
\<close>

type_synonym 's list_state = "lheap \<times> list_t \<times> 's"

partial_function (option) list_foreach_loop ::
    "(ptr \<Rightarrow> 's list_state \<Rightarrow> (bool \<times> 's list_state) option) \<Rightarrow> ptr \<Rightarrow> 's list_state \<Rightarrow> (ptr \<times> 's list_state) option" where
  "list_foreach_loop callback node st =
     (if node = 0 then Some (0, st)
      else do {
        n \<leftarrow> lh_nodes (fst st) node;
        (go_on, st) \<leftarrow> callback (ln_data n) st;
        if \<not> go_on then Some (node, st)
        else list_foreach_loop callback (ln_next n) st })"

definition list_foreach ::
    "lheap \<Rightarrow> list_t \<Rightarrow> (ptr \<Rightarrow> 's list_state \<Rightarrow> (bool \<times> 's list_state) option) \<Rightarrow> 's \<Rightarrow> (ptr \<times> 's list_state) option" where
  "list_foreach h l callback context = list_foreach_loop callback (l_head l) (h, l, context)"

section \<open>Representation\<close>

text \<open>
  \<open>lseg h p ns q\<close>: following \<open>next\<close> from \<open>p\<close> visits the cells \<open>ns\<close>, given as address and data, and
  ends at \<open>q\<close>.
\<close>

fun lseg :: "(ptr \<rightharpoonup> list_node) \<Rightarrow> ptr \<Rightarrow> (ptr \<times> ptr) list \<Rightarrow> ptr \<Rightarrow> bool" where
  "lseg h p [] q = (p = q)"
| "lseg h p ((a, d) # ns) q =
     (p = a \<and> a \<noteq> 0 \<and>
      (case h a of None \<Rightarrow> False | Some n \<Rightarrow> ln_data n = d \<and> lseg h (ln_next n) ns q))"

definition list_rep :: "lheap \<Rightarrow> list_t \<Rightarrow> (ptr \<times> ptr) list \<Rightarrow> bool" where
  "list_rep h l ns \<longleftrightarrow>
     lseg (lh_nodes h) (l_head l) ns 0 \<and> distinct (map fst ns) \<and>
     l_tail l = (if ns = [] then 0 else fst (last ns)) \<and>
     length ns < 2 ^ 32 \<and> l_length l = of_nat (length ns)"

lemma lseg_Cons:
  "lseg h p ((a, d) # ns) q \<longleftrightarrow>
     p = a \<and> a \<noteq> 0 \<and> (\<exists>n. h a = Some n \<and> ln_data n = d \<and> lseg h (ln_next n) ns q)"
  by (auto split: option.splits)

lemma lseg_append: "lseg h p (xs @ ys) q \<longleftrightarrow> (\<exists>m. lseg h p xs m \<and> lseg h m ys q)"
  by (induction h p xs q rule: lseg.induct) (auto split: option.splits)

lemma lseg_upd [simp]:
  "a \<notin> fst ` set ns \<Longrightarrow> lseg (h(a := v)) p ns q = lseg h p ns q"
  by (induction ns arbitrary: p) (auto split: option.splits)

lemma lseg_snoc:
  "lseg h p (ns @ [(a, d)]) q \<longleftrightarrow>
     lseg h p ns a \<and> a \<noteq> 0 \<and> (\<exists>n. h a = Some n \<and> ln_data n = d \<and> ln_next n = q)"
  by (auto simp: lseg_append split: option.splits)

lemma lseg_addr: "lseg h p ns q \<Longrightarrow> a \<in> fst ` set ns \<Longrightarrow> a \<noteq> 0 \<and> h a \<noteq> None"
proof (induction ns arbitrary: p)
  case (Cons n ns)
  then show ?case
    by (cases n) (auto simp del: image_iff split: option.splits)
qed simp

lemma lseg_fresh: "lseg h p ns q \<Longrightarrow> h a = None \<Longrightarrow> a \<notin> fst ` set ns"
  using lseg_addr by fastforce

lemma lseg_hd: "lseg h p ns 0 \<Longrightarrow> p = (if ns = [] then 0 else fst (hd ns))"
  by (cases ns) auto

lemma lseg_last: "lseg h p ns q \<Longrightarrow> ns \<noteq> [] \<Longrightarrow> fst (last ns) \<noteq> 0"
  by (induction ns rule: rev_induct) (auto simp: lseg_append split: option.splits)

lemmas list_rep_simps = list_rep_def put_node_def set_next_def Let_def

lemma list_rep_new: "list_rep h \<lparr>l_head = 0, l_tail = 0, l_length = 0, l_free_cb = cb\<rparr> []"
  by (simp add: list_rep_def)

lemma list_rep_length: "list_rep h l ns \<Longrightarrow> unat (list_length l) = length ns"
  by (simp add: list_rep_def list_length_def unat_of_nat)

lemma list_rep_empty: "list_rep h l ns \<Longrightarrow> list_is_empty l \<longleftrightarrow> ns = []"
proof -
  assume rep: "list_rep h l ns"
  have "list_is_empty l \<longleftrightarrow> unat (l_length l) = 0"
    by (simp add: list_is_empty_def unat_eq_0)
  then show ?thesis
    using list_rep_length [OF rep] by (simp add: list_length_def)
qed

text \<open>
  What an operation that turns the cells \<open>ns\<close> into \<open>ns'\<close> does to the rest of the heap: nothing, and
  the cells that left the list are free.
\<close>

definition list_frame ::
    "lheap \<Rightarrow> (ptr \<times> ptr) list \<Rightarrow> lheap \<Rightarrow> (ptr \<times> ptr) list \<Rightarrow> bool" where
  "list_frame h ns h' ns' \<longleftrightarrow>
     (\<forall>a. a \<notin> fst ` set ns' \<longrightarrow>
        lh_nodes h' a = (if a \<in> fst ` set ns then None else lh_nodes h a))"

text \<open>The heap holds the cells of the list and no other.\<close>

definition heap_owns :: "lheap \<Rightarrow> (ptr \<times> ptr) list \<Rightarrow> bool" where
  "heap_owns h ns \<longleftrightarrow> dom (lh_nodes h) = fst ` set ns"

lemma heap_owns_frame:
  assumes "list_frame h ns h' ns'" "heap_owns h ns" "list_rep h' l' ns'"
  shows "heap_owns h' ns'"
proof -
  have "fst ` set ns' \<subseteq> dom (lh_nodes h')"
    using assms(3) lseg_addr [of "lh_nodes h'"] unfolding list_rep_def by fast
  moreover have "dom (lh_nodes h') \<subseteq> fst ` set ns'"
    using assms(1,2) unfolding list_frame_def heap_owns_def
    by (metis domIff subsetI)
  ultimately show ?thesis
    by (simp add: heap_owns_def)
qed

section \<open>Reading operations\<close>

lemma list_contains_loop_correct:
  "lseg (lh_nodes h) p ns 0 \<Longrightarrow>
   list_contains_loop h l p data = Some (data \<in> snd ` set ns)"
proof (induction ns arbitrary: p)
  case Nil
  then show ?case
    by (simp add: list_contains_loop.simps list_end_def)
next
  case (Cons n ns)
  obtain a d where n: "n = (a, d)" by fastforce
  from Cons.prems obtain c where c: "p = a" "a \<noteq> 0" "lh_nodes h a = Some c" "ln_data c = d"
      "lseg (lh_nodes h) (ln_next c) ns 0"
    unfolding n lseg_Cons by blast
  show ?case
    using Cons.IH [OF c(5)] c(1-4)
    by (subst list_contains_loop.simps) (auto simp: n list_end_def list_node_def list_next_def)
qed

lemma list_contains_correct:
  "list_rep h l ns \<Longrightarrow> data \<noteq> 0 \<Longrightarrow> list_contains h l data = Some (data \<in> set (map snd ns))"
  by (simp add: list_rep_def list_contains_def list_begin_def list_contains_loop_correct)

lemma list_front_correct:
  "list_rep h l ns \<Longrightarrow> list_front h l = (if ns = [] then None else Some (snd (hd ns)))"
  using list_rep_empty [of h l ns]
  by (cases ns) (auto simp: list_front_def list_rep_def split: option.splits)

lemma list_back_correct:
  "list_rep h l ns \<Longrightarrow> list_back h l = (if ns = [] then None else Some (snd (last ns)))"
  using list_rep_empty [of h l ns]
  by (cases ns rule: rev_cases) (auto simp: list_back_def list_rep_def lseg_append split: option.splits)

section \<open>Insertion\<close>

lemma length_bound_Suc: "n < 2 ^ 32 - 1 \<Longrightarrow> (of_nat n :: u32) + 1 = of_nat (Suc n)"
  by simp

lemma list_frame_refl:
  "(\<And>a. a \<in> fst ` set ns \<Longrightarrow> a \<in> fst ` set ns') \<Longrightarrow>
   (\<And>a. a \<notin> fst ` set ns' \<Longrightarrow> lh_nodes h' a = lh_nodes h a) \<Longrightarrow> list_frame h ns h' ns'"
  by (auto simp: list_frame_def)

lemma list_append_correct:
  assumes rep: "list_rep h l ns" and fresh: "alloc_fresh alloc"
    and d: "data \<noteq> 0" and len: "length ns < 2 ^ 32 - 1" and got: "alloc (lh_nodes h) \<noteq> 0"
  shows "\<exists>h' l'. list_append alloc h l data = Some (True, h', l') \<and>
           list_rep h' l' (ns @ [(alloc (lh_nodes h), data)]) \<and> lh_freed h' = lh_freed h \<and>
           list_frame h ns h' (ns @ [(alloc (lh_nodes h), data)])"
proof -
  let ?a = "alloc (lh_nodes h)"
  have new: "lh_nodes h ?a = None"
    using fresh got by (auto simp: alloc_fresh_def)
  have nin: "?a \<notin> fst ` set ns"
    using rep new unfolding list_rep_def by (metis lseg_fresh)
  show ?thesis
  proof (cases ns rule: rev_cases)
    case Nil
    then show ?thesis
      using rep d got by (simp add: list_append_def list_rep_simps list_frame_def)
  next
    case (snoc ns0 z)
    obtain t dt where z: "z = (t, dt)" by fastforce
    obtain c where c: "lseg (lh_nodes h) (l_head l) ns0 t" "t \<noteq> 0" "lh_nodes h t = Some c"
        "ln_data c = dt" "ln_next c = 0"
      using rep by (auto simp: list_rep_def snoc z lseg_snoc)
    have "l_tail l = t" "?a \<noteq> t" "t \<notin> fst ` set ns0" "?a \<notin> fst ` set ns0"
      using rep nin by (auto simp: list_rep_def snoc z)
    then show ?thesis
      using rep d got c len
      by (simp add: list_append_def list_rep_simps snoc z lseg_append lseg_Cons)
        (auto intro!: list_frame_refl)
  qed
qed

lemma list_append_no_memory:
  "data \<noteq> 0 \<Longrightarrow> alloc (lh_nodes h) = 0 \<Longrightarrow> list_append alloc h l data = Some (False, h, l)"
  by (simp add: list_append_def)

lemma list_prepend_correct:
  assumes rep: "list_rep h l ns" and fresh: "alloc_fresh alloc"
    and d: "data \<noteq> 0" and len: "length ns < 2 ^ 32 - 1" and got: "alloc (lh_nodes h) \<noteq> 0"
  shows "\<exists>h' l'. list_prepend alloc h l data = Some (True, h', l') \<and>
           list_rep h' l' ((alloc (lh_nodes h), data) # ns) \<and> lh_freed h' = lh_freed h \<and>
           list_frame h ns h' ((alloc (lh_nodes h), data) # ns)"
proof -
  let ?a = "alloc (lh_nodes h)"
  have new: "lh_nodes h ?a = None"
    using fresh got by (auto simp: alloc_fresh_def)
  have "?a \<notin> fst ` set ns"
    using rep new unfolding list_rep_def by (metis lseg_fresh)
  moreover have "l_tail l \<noteq> 0" if "ns \<noteq> []"
    using rep that lseg_last [of "lh_nodes h" "l_head l" ns 0] by (simp add: list_rep_def)
  ultimately show ?thesis
    using rep d got len by (auto simp: list_prepend_def list_rep_simps intro!: list_frame_refl)
qed

lemma list_insert_after_correct:
  assumes rep: "list_rep h l (xs @ (prev, dp) # ys)" and fresh: "alloc_fresh alloc"
    and d: "data \<noteq> 0" and len: "length xs + length ys < 2 ^ 32 - 2"
    and got: "alloc (lh_nodes h) \<noteq> 0"
  shows "\<exists>h' l'. list_insert_after alloc h l prev data = Some (True, h', l') \<and>
           list_rep h' l' (xs @ (prev, dp) # (alloc (lh_nodes h), data) # ys) \<and>
           lh_freed h' = lh_freed h \<and>
           list_frame h (xs @ (prev, dp) # ys)
             h' (xs @ (prev, dp) # (alloc (lh_nodes h), data) # ys)"
proof -
  let ?a = "alloc (lh_nodes h)"
  have new: "lh_nodes h ?a = None"
    using fresh got by (auto simp: alloc_fresh_def)
  have seg: "lseg (lh_nodes h) (l_head l) (xs @ (prev, dp) # ys) 0"
    and dist: "distinct (map fst (xs @ (prev, dp) # ys))"
    and tail: "l_tail l = fst (last (xs @ (prev, dp) # ys))"
    using rep by (auto simp: list_rep_def)
  have nin: "?a \<notin> fst ` set (xs @ (prev, dp) # ys)"
    by (rule lseg_fresh [OF seg new])
  obtain c where c: "lseg (lh_nodes h) (l_head l) xs prev" "prev \<noteq> 0"
      "lh_nodes h prev = Some c" "ln_data c = dp" "lseg (lh_nodes h) (ln_next c) ys 0"
    using seg by (auto simp: lseg_append lseg_Cons simp del: lseg.simps)
  have "l_tail l = prev \<longleftrightarrow> ys = []"
    using tail dist by (cases ys rule: rev_cases) auto
  then show ?thesis
    using rep d got c len nin dist tail
    by (cases "ys = []")
      (auto simp: list_insert_after_def list_next_def list_rep_simps lseg_append lseg_Cons image_Un
        intro!: list_frame_refl simp del: lseg.simps)
qed

section \<open>Removal\<close>

text \<open>The cells without the first one that holds \<open>data\<close>.\<close>

fun del_data :: "ptr \<Rightarrow> (ptr \<times> ptr) list \<Rightarrow> (ptr \<times> ptr) list" where
  "del_data data [] = []"
| "del_data data ((a, d) # ns) = (if d = data then ns else (a, d) # del_data data ns)"

lemma map_snd_del_data: "map snd (del_data data ns) = remove1 data (map snd ns)"
  by (induction data ns rule: del_data.induct) auto

lemma del_data_append: "data \<notin> snd ` set us \<Longrightarrow> del_data data (us @ vs) = us @ del_data data vs"
  by (induction us) auto

text \<open>What a freed cell leaves behind: the callback's log, and every other cell as it was.\<close>

definition freed_by :: "list_t \<Rightarrow> ptr list \<Rightarrow> lheap \<Rightarrow> lheap \<Rightarrow> bool" where
  "freed_by l ds h h' \<longleftrightarrow> lh_freed h' = (if l_free_cb l then ds @ lh_freed h else lh_freed h)"

lemma list_free_node_eq:
  "node \<noteq> 0 \<Longrightarrow> lh_nodes h node = Some n \<Longrightarrow>
   \<exists>h'. list_free_node h l node = Some (ln_next n, h', l\<lparr>l_length := l_length l - 1\<rparr>) \<and>
        lh_nodes h' = (lh_nodes h)(node := None) \<and> freed_by l [ln_data n] h h'"
  by (auto simp: list_free_node_def freed_by_def Let_def)

lemma list_remove_walk:
  "lseg (lh_nodes h) node us m \<Longrightarrow> data \<notin> snd ` set us \<Longrightarrow>
   list_remove_loop h l prev node data =
     list_remove_loop h l (if us = [] then prev else fst (last us)) m data"
proof (induction us arbitrary: node prev)
  case Nil
  then show ?case by simp
next
  case (Cons u us)
  obtain a d where u: "u = (a, d)" by fastforce
  from Cons.prems obtain c where "node = a" "a \<noteq> 0" "lh_nodes h a = Some c" "ln_data c \<noteq> data"
      and seg: "lseg (lh_nodes h) (ln_next c) us m"
    unfolding u lseg_Cons by auto
  then have "list_remove_loop h l prev node data = list_remove_loop h l a (ln_next c) data"
    by (subst list_remove_loop.simps) simp
  then show ?case
    using Cons.IH [OF seg, of a] Cons.prems(2) by (auto simp: u)
qed

lemma list_remove_absent:
  assumes rep: "list_rep h l ns" and d: "data \<noteq> 0" and absent: "data \<notin> snd ` set ns"
  shows "list_remove h l data = Some (False, h, l)"
proof (cases ns)
  case Nil
  then show ?thesis
    using list_rep_empty [OF rep] d by (simp add: list_remove_def)
next
  case (Cons u us)
  obtain a e where u: "u = (a, e)" by fastforce
  obtain c where c: "l_head l = a" "a \<noteq> 0" "lh_nodes h a = Some c" "ln_data c = e"
      "lseg (lh_nodes h) (ln_next c) us 0"
    using rep unfolding list_rep_def Cons u lseg_Cons by blast
  have "list_remove h l data = list_remove_loop h l a (ln_next c) data"
    using list_rep_empty [OF rep] d absent c by (auto simp: list_remove_def Cons u)
  also have "\<dots> = list_remove_loop h l (if us = [] then a else fst (last us)) 0 data"
    using absent by (intro list_remove_walk [OF c(5)]) (simp add: Cons)
  also have "\<dots> = Some (False, h, l)"
    by (subst list_remove_loop.simps) simp
  finally show ?thesis .
qed

lemma list_remove_head:
  assumes rep: "list_rep h l ((a, data) # vs)" and d: "data \<noteq> 0"
  shows "\<exists>h' l'. list_remove h l data = Some (True, h', l') \<and> list_rep h' l' vs \<and>
           freed_by l [data] h h' \<and> list_frame h ((a, data) # vs) h' vs \<and> l_free_cb l' = l_free_cb l"
proof -
  obtain c where c: "l_head l = a" "a \<noteq> 0" "lh_nodes h a = Some c" "ln_data c = data"
      "lseg (lh_nodes h) (ln_next c) vs 0"
    using rep unfolding list_rep_def lseg_Cons by blast
  obtain h' where h': "list_free_node h l a = Some (ln_next c, h', l\<lparr>l_length := l_length l - 1\<rparr>)"
      "lh_nodes h' = (lh_nodes h)(a := None)" "freed_by l [ln_data c] h h'"
    using list_free_node_eq [of a h c l] c by auto
  have dist: "distinct (map fst ((a, data) # vs))"
    and tail: "l_tail l = fst (last ((a, data) # vs))"
    using rep by (auto simp: list_rep_def)
  have "l_tail l = a \<longleftrightarrow> vs = []"
    using tail dist by (cases vs rule: rev_cases) auto
  then show ?thesis
    using rep d c h' list_rep_empty [OF rep] lseg_hd [OF c(5)] dist
    by (cases "vs = []") (auto simp: list_remove_def list_rep_def list_frame_def)
qed

lemma list_remove_inner:
  assumes rep: "list_rep h l (us @ (p, e) # (a, data) # vs)"
  shows "\<exists>h' l'. list_remove_loop h l p a data = Some (True, h', l') \<and>
           list_rep h' l' (us @ (p, e) # vs) \<and> freed_by l [data] h h' \<and>
           list_frame h (us @ (p, e) # (a, data) # vs) h' (us @ (p, e) # vs) \<and> l_free_cb l' = l_free_cb l"
proof -
  have seg: "lseg (lh_nodes h) (l_head l) (us @ (p, e) # (a, data) # vs) 0"
    and dist: "distinct (map fst (us @ (p, e) # (a, data) # vs))"
    and tail: "l_tail l = fst (last ((a, data) # vs))"
    using rep by (auto simp: list_rep_def)
  obtain b c where c: "lseg (lh_nodes h) (l_head l) us p" "p \<noteq> 0" "lh_nodes h p = Some b"
      "ln_data b = e" "ln_next b = a" "a \<noteq> 0" "lh_nodes h a = Some c" "ln_data c = data"
      "lseg (lh_nodes h) (ln_next c) vs 0"
    using seg unfolding lseg_append lseg_Cons by blast
  obtain h' where h': "list_free_node h l a = Some (ln_next c, h', l\<lparr>l_length := l_length l - 1\<rparr>)"
      "lh_nodes h' = (lh_nodes h)(a := None)" "freed_by l [ln_data c] h h'"
    using list_free_node_eq [of a h c l] c by auto
  have "l_tail l = a \<longleftrightarrow> vs = []"
    using tail dist by (cases vs rule: rev_cases) auto
  then show ?thesis
    using rep c h' dist tail
    by (subst list_remove_loop.simps, cases "vs = []")
      (auto simp: list_rep_def set_next_def lseg_append lseg_Cons freed_by_def image_Un
        list_frame_def simp del: lseg.simps)
qed

theorem list_remove_correct:
  assumes rep: "list_rep h l ns" and d: "data \<noteq> 0"
  shows "\<exists>h' l'. list_remove h l data = Some (data \<in> set (map snd ns), h', l') \<and>
           list_rep h' l' (del_data data ns) \<and>
           freed_by l (if data \<in> set (map snd ns) then [data] else []) h h' \<and>
           list_frame h ns h' (del_data data ns) \<and> l_free_cb l' = l_free_cb l"
proof (cases "data \<in> set (map snd ns)")
  case False
  then show ?thesis
    using list_remove_absent [OF rep d] rep del_data_append [of data ns "[]"]
    by (auto simp: freed_by_def list_frame_def)
next
  case True
  then obtain us' ds where "map snd ns = us' @ data # ds" "data \<notin> set us'"
    by (meson split_list_first)
  then obtain us a vs where ns: "ns = us @ (a, data) # vs" and us: "data \<notin> snd ` set us"
    by (auto simp: map_eq_append_conv)
  show ?thesis
  proof (cases us rule: rev_cases)
    case Nil
    then show ?thesis
      using list_remove_head [of h l a data vs] rep d by (simp add: ns)
  next
    case (snoc ws w)
    obtain p e where w: "w = (p, e)" by fastforce
    obtain c where c: "l_head l = fst (hd us)" "lh_nodes h (l_head l) = Some c"
        "ln_data c = snd (hd us)" "lseg (lh_nodes h) (ln_next c) (tl us) a"
      using rep unfolding list_rep_def ns snoc
      by (cases ws) (auto simp: w lseg_append lseg_Cons lseg.simps(1) simp del: lseg.simps(2))
    have "us \<noteq> []"
      by (simp add: snoc)
    then have "snd (hd us) \<noteq> data"
      using us by (metis hd_in_set image_eqI)
    then have "list_remove h l data = list_remove_loop h l (l_head l) (ln_next c) data"
      using c d list_rep_empty [OF rep] by (auto simp: list_remove_def ns)
    also have "\<dots> = list_remove_loop h l p a data"
      using list_remove_walk [OF c(4), of data l "l_head l"] us c(1) snoc w
      by (cases ws) auto
    finally show ?thesis
      using list_remove_inner [of h l ws p e a data vs] rep us
      by (auto simp: ns snoc w del_data_append)
  qed
qed

section \<open>Clearing and iteration\<close>

lemma list_clear_loop_correct:
  "lseg (lh_nodes h) p ns 0 \<Longrightarrow> distinct (map fst ns) \<Longrightarrow>
   \<exists>h' l'. list_clear_loop h l p = Some (h', l') \<and> freed_by l (rev (map snd ns)) h h' \<and>
           lh_nodes h' = lh_nodes h |` (- fst ` set ns) \<and> l_free_cb l' = l_free_cb l"
proof (induction ns arbitrary: h l p)
  case Nil
  then show ?case
    by (simp add: list_clear_loop.simps freed_by_def)
next
  case (Cons u us)
  obtain a d where u: "u = (a, d)" by fastforce
  from Cons.prems obtain c where c: "p = a" "a \<noteq> 0" "lh_nodes h a = Some c" "ln_data c = d"
      "lseg (lh_nodes h) (ln_next c) us 0"
    unfolding u lseg_Cons by blast
  obtain h1 where h1: "list_free_node h l a = Some (ln_next c, h1, l\<lparr>l_length := l_length l - 1\<rparr>)"
      "lh_nodes h1 = (lh_nodes h)(a := None)" "freed_by l [ln_data c] h h1"
    using list_free_node_eq [of a h c l] c by auto
  have "lseg (lh_nodes h1) (ln_next c) us 0"
    using c(5) Cons.prems(2) by (simp add: h1(2) u)
  from Cons.IH [OF this, of "l\<lparr>l_length := l_length l - 1\<rparr>"] Cons.prems(2)
  obtain h' l' where h': "list_clear_loop h1 (l\<lparr>l_length := l_length l - 1\<rparr>) (ln_next c) = Some (h', l')"
      "freed_by (l\<lparr>l_length := l_length l - 1\<rparr>) (rev (map snd us)) h1 h'"
      "lh_nodes h' = lh_nodes h1 |` (- fst ` set us)" "l_free_cb l' = l_free_cb l"
    by auto
  have "lh_nodes h' = lh_nodes h |` (- fst ` set (u # us))"
    using h'(3) h1(2) by (auto simp: u restrict_map_def fun_eq_iff)
  moreover have "freed_by l (rev (map snd (u # us))) h h'"
    using h'(2) h1(3) c(4) by (auto simp: freed_by_def u)
  ultimately show ?case
    using h' h1 c by (subst list_clear_loop.simps) auto
qed

lemma list_clear_correct:
  assumes "list_rep h l ns"
  shows "\<exists>h' l'. list_clear h l = Some (h', l') \<and> list_rep h' l' [] \<and>
           freed_by l (rev (map snd ns)) h h' \<and>
           lh_nodes h' = lh_nodes h |` (- fst ` set ns)"
  using list_clear_loop_correct [of h "l_head l" ns l] assms
  by (auto simp: list_rep_def list_clear_def)

lemma list_free_correct:
  assumes "list_rep h l ns"
  shows "\<exists>h'. list_free h (Some l) = Some h' \<and> freed_by l (rev (map snd ns)) h h' \<and>
           lh_nodes h' = lh_nodes h |` (- fst ` set ns)"
  using list_clear_correct [OF assms] by (auto simp: list_free_def)

text \<open>
  A callback that reads: it sees the data and the context.  The reference iteration is a fold over the data
  that stops where the callback refuses.
\<close>

definition reading :: "(ptr \<Rightarrow> 's \<Rightarrow> bool \<times> 's) \<Rightarrow> ptr \<Rightarrow> 's list_state \<Rightarrow> (bool \<times> 's list_state) option" where
  "reading cb d st = (case st of (h, l, s) \<Rightarrow> case cb d s of (go_on, s) \<Rightarrow> Some (go_on, h, l, s))"

lemma reading_simp [simp]:
  "reading cb d (h, l, s) = (case cb d s of (go_on, s) \<Rightarrow> Some (go_on, h, l, s))"
  by (simp add: reading_def)

fun foreach_spec :: "(ptr \<Rightarrow> 's \<Rightarrow> bool \<times> 's) \<Rightarrow> (ptr \<times> ptr) list \<Rightarrow> 's \<Rightarrow> ptr \<times> 's" where
  "foreach_spec cb [] s = (0, s)"
| "foreach_spec cb ((a, d) # ns) s =
     (case cb d s of (go_on, s') \<Rightarrow> if go_on then foreach_spec cb ns s' else (a, s'))"

lemma list_foreach_loop_correct:
  "lseg (lh_nodes h) p ns 0 \<Longrightarrow>
   list_foreach_loop (reading cb) p (h, l, s) = Some (case foreach_spec cb ns s of (q, s) \<Rightarrow> (q, h, l, s))"
proof (induction ns arbitrary: p s)
  case Nil
  then show ?case by (simp add: list_foreach_loop.simps)
next
  case (Cons u us)
  obtain a d where u: "u = (a, d)" by fastforce
  from Cons.prems obtain c where c: "p = a" "a \<noteq> 0" "lh_nodes h a = Some c" "ln_data c = d"
      "lseg (lh_nodes h) (ln_next c) us 0"
    unfolding u lseg_Cons by blast
  then show ?case
    using Cons.IH [OF c(5)] by (subst list_foreach_loop.simps) (auto simp: u split: prod.splits)
qed

lemma list_foreach_correct:
  "list_rep h l ns \<Longrightarrow> list_foreach h l (reading cb) s = Some (case foreach_spec cb ns s of (q, s) \<Rightarrow> (q, h, l, s))"
  by (simp add: list_rep_def list_foreach_def list_foreach_loop_correct)

text \<open>
  A callback that may remove the element it is called with: \<open>f\<close> decides of going on, of removing, and of the
  context.  The reference iteration has the address returned, the cells left, the data removed, and the context.
\<close>

definition removing :: "(ptr \<Rightarrow> 's \<Rightarrow> bool \<times> bool \<times> 's) \<Rightarrow> ptr \<Rightarrow> 's list_state \<Rightarrow> (bool \<times> 's list_state) option" where
  "removing f d st =
     (case st of (h, l, s) \<Rightarrow> case f d s of (go_on, remove, s) \<Rightarrow>
        if remove then do { (_, h, l) \<leftarrow> list_remove h l d; Some (go_on, h, l, s) } else Some (go_on, h, l, s))"

fun removing_spec ::
    "(ptr \<Rightarrow> 's \<Rightarrow> bool \<times> bool \<times> 's) \<Rightarrow> (ptr \<times> ptr) list \<Rightarrow> 's \<Rightarrow> ptr \<times> (ptr \<times> ptr) list \<times> ptr list \<times> 's" where
  "removing_spec f [] s = (0, [], [], s)"
| "removing_spec f ((a, d) # ns) s =
     (let (go_on, remove, s) = f d s;
          (p, kept, removed, s) = (if go_on then removing_spec f ns s else (a, ns, [], s))
      in (p, if remove then kept else (a, d) # kept, if remove then d # removed else removed, s))"

lemma removing_simp [simp]:
  "removing f d (h, l, s) = (case f d s of (go_on, remove, s) \<Rightarrow>
     if remove then do { (_, h, l) \<leftarrow> list_remove h l d; Some (go_on, h, l, s) } else Some (go_on, h, l, s))"
  by (simp add: removing_def)

lemma del_data_at: "d \<notin> snd ` set us \<Longrightarrow> del_data d (us @ (a, d) # vs) = us @ vs"
  by (simp add: del_data_append)

lemma freed_by_trans: "freed_by l ds h h1 \<Longrightarrow> freed_by l es h1 h2 \<Longrightarrow> freed_by l (es @ ds) h h2"
  by (simp add: freed_by_def)

lemma list_foreach_loop_removing:
  assumes "list_rep h l (us @ vs)" "distinct (map snd (us @ vs))" "0 \<notin> snd ` set vs"
    and "removing_spec f vs s = (p, kept, removed, s')"
  shows "\<exists>h' l'. list_foreach_loop (removing f) (if vs = [] then 0 else fst (hd vs)) (h, l, s) = Some (p, h', l', s') \<and>
    list_rep h' l' (us @ kept) \<and> freed_by l (rev removed) h h'"
  using assms
proof (induction vs arbitrary: us h l s p kept removed s')
  case Nil
  then show ?case by (auto simp: list_foreach_loop.simps freed_by_def)
next
  case (Cons v vs)
  obtain a d where v: "v = (a, d)" by fastforce
  obtain c where c: "a \<noteq> 0" "lh_nodes h a = Some c" "ln_data c = d" "lseg (lh_nodes h) (ln_next c) vs 0"
    using Cons.prems(1) unfolding list_rep_def v lseg_append lseg_Cons by blast
  note nxt = lseg_hd [OF c(4)]
  have d: "d \<noteq> 0" "d \<notin> snd ` set us" using Cons.prems(2,3) by (auto simp: v)
  obtain go rm s1 where f: "f d s = (go, rm, s1)" by (metis prod_cases3)
  obtain h1 l1 us1 where one: "removing f d (h, l, s) = Some (go, h1, l1, s1)"
    "list_rep h1 l1 (us1 @ vs)" "us1 = (if rm then us else us @ [(a, d)])"
    "freed_by l (if rm then [d] else []) h h1" "l_free_cb l1 = l_free_cb l"
  proof (cases rm)
    case True
    have "d \<in> set (map snd (us @ v # vs))" by (simp add: v)
    then obtain h1 l1 where r: "list_remove h l d = Some (True, h1, l1)" "list_rep h1 l1 (us @ vs)" "freed_by l [d] h h1"
      "l_free_cb l1 = l_free_cb l"
      using list_remove_correct [OF Cons.prems(1) d(1)] del_data_at [OF d(2)] by (auto simp: v)
    show ?thesis by (rule that [of h1 l1 us]) (use True r f in auto)
  next
    case False
    show ?thesis by (rule that [of h l "us @ [v]"]) (use False f Cons.prems(1) in \<open>auto simp: v freed_by_def\<close>)
  qed
  show ?case
  proof (cases go)
    case True
    obtain q ks rs s2 where spec: "removing_spec f vs s1 = (q, ks, rs, s2)" by (metis prod_cases4)
    have "distinct (map snd (us1 @ vs))" "0 \<notin> snd ` set vs" using Cons.prems(2,3) one(3) by (auto simp: v split: if_splits)
    from Cons.IH [OF one(2) this spec] obtain h' l' where
      "list_foreach_loop (removing f) (ln_next c) (h1, l1, s1) = Some (q, h', l', s2)"
      "list_rep h' l' (us1 @ ks)" "freed_by l1 (rev rs) h1 h'"
      by (auto simp: nxt)
    moreover have "freed_by l (rev rs) h1 h'" using calculation(3) one(5) by (simp add: freed_by_def)
    ultimately show ?thesis
      using True Cons.prems(4) f one c spec freed_by_trans [OF one(4)]
      by (subst list_foreach_loop.simps) (auto simp: v simp del: removing_simp)
  next
    case False
    then show ?thesis
      using Cons.prems(4) f one c
      by (subst list_foreach_loop.simps) (auto simp: v simp del: removing_simp)
  qed
qed

lemma list_foreach_removing:
  assumes "list_rep h l ns" "distinct (map snd ns)" "0 \<notin> set (map snd ns)" "removing_spec f ns s = (p, kept, removed, s')"
  shows "\<exists>h' l'. list_foreach h l (removing f) s = Some (p, h', l', s') \<and> list_rep h' l' kept \<and> freed_by l (rev removed) h h'"
  using list_foreach_loop_removing [of h l "[]" ns f s p kept removed s'] assms lseg_hd [of "lh_nodes h" "l_head l" ns]
  by (simp add: list_foreach_def list_rep_def)

lemma list_insert_cases:
  assumes "list_rep h l ns" "alloc_fresh alloc" "data \<noteq> 0" "length ns < 2 ^ 32 - 1" "ns = xs @ (prev, e) # ys"
  shows "if alloc (lh_nodes h) = 0 then list_insert_after alloc h l prev data = Some (False, h, l)
    else \<exists>h' l'. list_insert_after alloc h l prev data = Some (True, h', l') \<and>
      list_rep h' l' (xs @ (prev, e) # (alloc (lh_nodes h), data) # ys) \<and>
      list_frame h ns h' (xs @ (prev, e) # (alloc (lh_nodes h), data) # ys)"
proof -
  have "prev \<noteq> 0" using assms(1,5) by (auto simp: list_rep_def lseg_append lseg_Cons simp del: lseg.simps)
  then show ?thesis
    using list_insert_after_correct [of h l xs prev e ys alloc data] assms by (auto simp: list_insert_after_def)
qed

lemma list_iterate:
  assumes "list_rep h l ns" "ns = xs @ (a, d) # ys"
  shows "list_node h a = Some d" "list_next h a = Some (if ys = [] then list_end l else fst (hd ys))"
proof -
  obtain c where "a \<noteq> 0" "lh_nodes h a = Some c" "ln_data c = d" "lseg (lh_nodes h) (ln_next c) ys 0"
    using assms unfolding list_rep_def assms(2) lseg_append lseg_Cons by blast
  then show "list_node h a = Some d" "list_next h a = Some (if ys = [] then list_end l else fst (hd ys))"
    using lseg_hd [of "lh_nodes h" "ln_next c" ys] by (simp_all add: list_node_def list_next_def list_end_def)
qed

lemma list_ends:
  assumes "list_rep h l ns" "ns \<noteq> []"
  shows "list_begin l = fst (hd ns)" "list_back_node l = Some (fst (last ns))" "\<not> list_is_empty l"
    "list_front h l = Some (snd (hd ns))" "list_back h l = Some (snd (last ns))"
  using list_rep_empty [OF assms(1)] lseg_hd [of "lh_nodes h" "l_head l" ns] assms
    list_front_correct [OF assms(1)] list_back_correct [OF assms(1)]
  by (simp_all add: list_begin_def list_back_node_def list_rep_def)

lemma list_free_node_correct:
  assumes "list_rep h l ns" "ns = xs @ (a, d) # ys"
  shows "\<exists>h'. list_free_node h l a = Some (if ys = [] then 0 else fst (hd ys), h', l\<lparr>l_length := of_nat (length ns) - 1\<rparr>) \<and>
    lh_nodes h' = (lh_nodes h)(a := None) \<and> freed_by l [d] h h'"
proof -
  obtain c where "a \<noteq> 0" "lh_nodes h a = Some c" "ln_data c = d" "lseg (lh_nodes h) (ln_next c) ys 0"
    using assms unfolding list_rep_def assms(2) lseg_append lseg_Cons by blast
  then show ?thesis
    using list_free_node_eq [of a h c l] lseg_hd [of "lh_nodes h" "ln_next c" ys] assms(1) by (auto simp: list_rep_def)
qed

section \<open>Properties\<close>


definition wit_alloc :: "node_alloc" where
  "wit_alloc h = (if h 1 = None then 1 else if h 2 = None then 2 else 0)"

lemma wit_alloc_fresh: "alloc_fresh wit_alloc"
  by (simp add: alloc_fresh_def wit_alloc_def)


definition wit_heap :: lheap where
  "wit_heap = \<lparr>lh_nodes = [1 \<mapsto> \<lparr>ln_next = 2, ln_data = 7\<rparr>, 2 \<mapsto> \<lparr>ln_next = 0, ln_data = 8\<rparr>], lh_freed = []\<rparr>"

definition wit_list :: list_t where
  "wit_list = \<lparr>l_head = 1, l_tail = 2, l_length = 2, l_free_cb = True\<rparr>"

lemma wit_list_rep: "list_rep wit_heap wit_list [(1, 7), (2, 8)]"
  by (simp add: wit_heap_def wit_list_def list_rep_def)

text \<open>
  The callback of \<open>list_foreach\<close> may remove the element it was called with, as it likes, and stop when it
  likes: the iteration goes on with the element behind it, returns the address of the node it stopped at (0 at
  the end), leaves the list of the elements that were not removed, and releases just the removed ones.
\<close>

theorem list_foreach_removes:
  assumes "list_rep h l ns" "distinct (map snd ns)" "0 \<notin> set (map snd ns)"
  shows "case removing_spec f ns s of (p, kept, removed, s') \<Rightarrow>
    \<exists>h' l'. list_foreach h l (removing f) s = Some (p, h', l', s') \<and> list_rep h' l' kept \<and> freed_by l (rev removed) h h'"
  using list_foreach_removing [OF assms] by (auto split: prod.splits)

theorem list_foreach_removes_witness:
  "\<exists>h' l'. list_foreach wit_heap wit_list (removing (\<lambda>d n. (True, d = 7, n + d))) 0 = Some (0, h', l', 15) \<and>
    list_rep h' l' [(2, 8)] \<and> freed_by wit_list [7] wit_heap h'"
  using list_foreach_removes [OF wit_list_rep, of "\<lambda>d n. (True, d = 7, n + d)" 0] by simp

text \<open>A callback that removes the element \<open>e\<close>, whatever it is called with.\<close>

definition removing_other :: "ptr \<Rightarrow> ptr \<Rightarrow> 's list_state \<Rightarrow> (bool \<times> 's list_state) option" where
  "removing_other e d st = (case st of (h, l, s) \<Rightarrow> do { (_, h, l) \<leftarrow> list_remove h l e; Some (True, h, l, s) })"

text \<open>
  A callback that removes the element behind the one it was called with makes \<open>list_foreach\<close> read a freed
  node, although the comment of \<open>list.h\<close> calls it safe to change the list inside the callback.
\<close>

theorem list_foreach_next_freed:
  assumes "list_rep h l ((a, d) # (b, e) # ns)" "d \<noteq> e" "e \<noteq> 0"
  shows "list_foreach h l (removing_other e) s = None"
proof -
  obtain c c' where c: "l_head l = a" "a \<noteq> 0" "lh_nodes h a = Some c" "ln_data c = d" "ln_next c = b" "b \<noteq> 0"
    using assms(1) unfolding list_rep_def lseg_Cons by blast
  obtain h' l' where r: "list_remove h l e = Some (True, h', l')" "list_frame h ((a, d) # (b, e) # ns) h' ((a, d) # ns)"
    using list_remove_correct [OF assms(1,3)] assms(2) by auto
  have "b \<notin> fst ` set ((a, d) # ns)" using assms(1) by (auto simp: list_rep_def)
  then have gone: "lh_nodes h' b = None" using r(2) unfolding list_frame_def by simp
  have "list_foreach h l (removing_other e) s = list_foreach_loop (removing_other e) b (h', l', s)"
    unfolding list_foreach_def by (subst list_foreach_loop.simps) (use c r in \<open>simp add: removing_other_def\<close>)
  also have "\<dots> = None"
    by (subst list_foreach_loop.simps) (use c gone in simp)
  finally show ?thesis .
qed

theorem list_foreach_next_freed_witness: "list_foreach wit_heap wit_list (removing_other 8) () = None"
  using list_foreach_next_freed [OF wit_list_rep, of "()"] by simp

end
