(* ===== verification/OsiQueue.thy ===== *)
theory OsiQueue
  imports OsiList "HOL-Library.Multiset"
begin

text \<open>
  The bounded blocking queue of the OSI layer (\<open>osi/fixed_queue.c\<close>) over the linked list of
  \<open>OsiList\<close>: two counting semaphores, for the free places and for the queued items, and a list
  behind a mutex.  The sequential operations come first, with the section under the mutex as one
  atomic step.  Then follow the queue they implement (\<open>aqueue\<close>), the interface by which a client
  uses it, and the interleavings of threads inside the operations.
\<close>

section \<open>The queue and its operations\<close>

text \<open>An operation returns, blocks on a semaphore for ever, or fails an assertion.\<close>

datatype 'a outcome = Returns 'a | Blocks | Asserts

primrec obind :: "'a outcome \<Rightarrow> ('a \<Rightarrow> 'b outcome) \<Rightarrow> 'b outcome" where
  "obind (Returns x) f = f x"
| "obind Blocks f = Blocks"
| "obind Asserts f = Asserts"

primrec or_assert :: "'a option \<Rightarrow> 'a outcome" where
  "or_assert None = Asserts"
| "or_assert (Some x) = Returns x"

record fixed_queue =
  fq_heap :: lheap
  fq_list :: list_t
  fq_enqueue_sem :: nat
  fq_dequeue_sem :: nat
  fq_capacity :: nat
  fq_dequeue_ready :: bool

definition osi_sem_take :: "nat \<Rightarrow> nat option" where
  "osi_sem_take s = (if s = 0 then None else Some (s - 1))"

definition osi_sem_give :: "nat \<Rightarrow> nat" where
  "osi_sem_give s = s + 1"

text \<open>
  The flags say whether the allocations of the queue, of its list and of its semaphores succeed.
  On failure the queue is freed again, which unregisters the callback of a queue that may be
  \<open>NULL\<close>; \<open>fixed_queue_free\<close> returns first in that case.
\<close>

definition fixed_queue_new :: "bool \<Rightarrow> bool \<Rightarrow> bool \<Rightarrow> lheap \<Rightarrow> nat \<Rightarrow> fixed_queue option" where
  "fixed_queue_new got_q got_l got_sem h capacity =
     (if \<not> got_q then None
      else case list_new got_l False of
        None \<Rightarrow> None
      | Some l \<Rightarrow>
          if \<not> got_sem then None
          else Some \<lparr>fq_heap = h, fq_list = l, fq_enqueue_sem = capacity, fq_dequeue_sem = 0,
                     fq_capacity = capacity, fq_dequeue_ready = False\<rparr>)"

partial_function (option) fq_free_loop :: "lheap \<Rightarrow> list_t \<Rightarrow> ptr \<Rightarrow> ptr list \<Rightarrow> ptr list option" where
  "fq_free_loop h l node freed =
     (if node = list_end l then Some freed
      else do {
        d \<leftarrow> list_node h node;
        n \<leftarrow> list_next h node;
        fq_free_loop h l n (freed @ [d]) })"

text \<open>The heap left behind and the data \<open>free_cb\<close> was called with, in order.\<close>

definition fixed_queue_free ::
    "fixed_queue option \<Rightarrow> bool \<Rightarrow> (lheap option \<times> ptr list) outcome" where
  "fixed_queue_free qp free_cb = (case qp of
     None \<Rightarrow> Returns (None, [])
   | Some q \<Rightarrow>
       obind (if free_cb then or_assert (fq_free_loop (fq_heap q) (fq_list q) (list_begin (fq_list q)) [])
              else Returns []) (\<lambda>freed.
       obind (or_assert (list_free (fq_heap q) (Some (fq_list q)))) (\<lambda>h.
       Returns (Some h, freed))))"

definition fixed_queue_is_empty :: "fixed_queue option \<Rightarrow> bool" where
  "fixed_queue_is_empty qp = (case qp of None \<Rightarrow> True | Some q \<Rightarrow> list_is_empty (fq_list q))"

definition fixed_queue_length :: "fixed_queue option \<Rightarrow> u32" where
  "fixed_queue_length qp = (case qp of None \<Rightarrow> 0 | Some q \<Rightarrow> list_length (fq_list q))"

definition fixed_queue_capacity :: "fixed_queue option \<Rightarrow> nat outcome" where
  "fixed_queue_capacity qp = (case qp of None \<Rightarrow> Asserts | Some q \<Rightarrow> Returns (fq_capacity q))"

text \<open>The sections under the mutex.  The code ignores whether \<open>list_append\<close> succeeded.\<close>

definition enqueue_locked :: "node_alloc \<Rightarrow> fixed_queue \<Rightarrow> ptr \<Rightarrow> fixed_queue outcome" where
  "enqueue_locked alloc q data =
     obind (or_assert (list_append alloc (fq_heap q) (fq_list q) data))
       (\<lambda>(_, h, l). Returns (q\<lparr>fq_heap := h, fq_list := l\<rparr>))"

definition dequeue_locked :: "fixed_queue \<Rightarrow> (ptr \<times> fixed_queue) outcome" where
  "dequeue_locked q =
     obind (or_assert (list_front (fq_heap q) (fq_list q))) (\<lambda>ret.
     obind (or_assert (list_remove (fq_heap q) (fq_list q) ret)) (\<lambda>(_, h, l).
     Returns (ret, q\<lparr>fq_heap := h, fq_list := l\<rparr>)))"

definition remove_locked :: "fixed_queue \<Rightarrow> ptr \<Rightarrow> (bool \<times> fixed_queue) outcome" where
  "remove_locked q data =
     obind (or_assert (list_contains (fq_heap q) (fq_list q) data)) (\<lambda>found.
     if \<not> found then Returns (False, q)
     else case osi_sem_take (fq_dequeue_sem q) of
       None \<Rightarrow> Returns (False, q)
     | Some s \<Rightarrow>
         obind (or_assert (list_remove (fq_heap q) (fq_list q) data)) (\<lambda>(removed, h, l).
         if removed then Returns (True, q\<lparr>fq_heap := h, fq_list := l, fq_dequeue_sem := s\<rparr>)
         else Asserts))"

definition fixed_queue_enqueue ::
    "node_alloc \<Rightarrow> fixed_queue option \<Rightarrow> ptr \<Rightarrow> fixed_queue outcome" where
  "fixed_queue_enqueue alloc qp data = (case qp of
     None \<Rightarrow> Asserts
   | Some q \<Rightarrow>
       if data = 0 then Asserts
       else case osi_sem_take (fq_enqueue_sem q) of
         None \<Rightarrow> Blocks
       | Some s \<Rightarrow>
           obind (enqueue_locked alloc (q\<lparr>fq_enqueue_sem := s\<rparr>) data) (\<lambda>q.
           Returns (q\<lparr>fq_dequeue_sem := osi_sem_give (fq_dequeue_sem q)\<rparr>)))"

definition fixed_queue_dequeue :: "fixed_queue option \<Rightarrow> (ptr \<times> fixed_queue) outcome" where
  "fixed_queue_dequeue qp = (case qp of
     None \<Rightarrow> Asserts
   | Some q \<Rightarrow>
       case osi_sem_take (fq_dequeue_sem q) of
         None \<Rightarrow> Blocks
       | Some s \<Rightarrow>
           obind (dequeue_locked (q\<lparr>fq_dequeue_sem := s\<rparr>)) (\<lambda>(ret, q).
           Returns (ret, q\<lparr>fq_enqueue_sem := osi_sem_give (fq_enqueue_sem q)\<rparr>)))"

definition fixed_queue_try_enqueue ::
    "node_alloc \<Rightarrow> fixed_queue option \<Rightarrow> ptr \<Rightarrow> (bool \<times> fixed_queue) outcome" where
  "fixed_queue_try_enqueue alloc qp data = (case qp of
     None \<Rightarrow> Asserts
   | Some q \<Rightarrow>
       if data = 0 then Asserts
       else case osi_sem_take (fq_enqueue_sem q) of
         None \<Rightarrow> Returns (False, q)
       | Some s \<Rightarrow>
           obind (enqueue_locked alloc (q\<lparr>fq_enqueue_sem := s\<rparr>) data) (\<lambda>q.
           Returns (True, q\<lparr>fq_dequeue_sem := osi_sem_give (fq_dequeue_sem q)\<rparr>)))"

text \<open>The queue operations that accept a \<open>NULL\<close> queue return it as \<open>None\<close>.\<close>

definition fixed_queue_try_dequeue :: "fixed_queue option \<Rightarrow> (ptr \<times> fixed_queue option) outcome" where
  "fixed_queue_try_dequeue qp = (case qp of
     None \<Rightarrow> Returns (0, None)
   | Some q \<Rightarrow>
       case osi_sem_take (fq_dequeue_sem q) of
         None \<Rightarrow> Returns (0, Some q)
       | Some s \<Rightarrow>
           obind (dequeue_locked (q\<lparr>fq_dequeue_sem := s\<rparr>)) (\<lambda>(ret, q).
           Returns (ret, Some (q\<lparr>fq_enqueue_sem := osi_sem_give (fq_enqueue_sem q)\<rparr>))))"

definition fixed_queue_try_peek_first :: "fixed_queue option \<Rightarrow> ptr outcome" where
  "fixed_queue_try_peek_first qp = (case qp of
     None \<Rightarrow> Returns 0
   | Some q \<Rightarrow>
       if list_is_empty (fq_list q) then Returns 0
       else or_assert (list_front (fq_heap q) (fq_list q)))"

definition fixed_queue_try_peek_last :: "fixed_queue option \<Rightarrow> ptr outcome" where
  "fixed_queue_try_peek_last qp = (case qp of
     None \<Rightarrow> Returns 0
   | Some q \<Rightarrow>
       if list_is_empty (fq_list q) then Returns 0
       else or_assert (list_back (fq_heap q) (fq_list q)))"

definition fixed_queue_try_remove_from_queue ::
    "fixed_queue option \<Rightarrow> ptr \<Rightarrow> (ptr \<times> fixed_queue option) outcome" where
  "fixed_queue_try_remove_from_queue qp data = (case qp of
     None \<Rightarrow> Returns (0, None)
   | Some q \<Rightarrow>
       obind (remove_locked q data) (\<lambda>(removed, q).
       if removed
       then Returns (data, Some (q\<lparr>fq_enqueue_sem := osi_sem_give (fq_enqueue_sem q)\<rparr>))
       else Returns (0, Some q)))"

definition fixed_queue_get_list :: "fixed_queue option \<Rightarrow> list_t outcome" where
  "fixed_queue_get_list qp = (case qp of None \<Rightarrow> Asserts | Some q \<Rightarrow> Returns (fq_list q))"

definition fixed_queue_register_dequeue :: "fixed_queue option \<Rightarrow> bool \<Rightarrow> fixed_queue outcome" where
  "fixed_queue_register_dequeue qp ready_cb = (case qp of
     None \<Rightarrow> Asserts
   | Some q \<Rightarrow> if \<not> ready_cb then Asserts else Returns (q\<lparr>fq_dequeue_ready := True\<rparr>))"

definition fixed_queue_unregister_dequeue :: "fixed_queue option \<Rightarrow> fixed_queue outcome" where
  "fixed_queue_unregister_dequeue qp = (case qp of
     None \<Rightarrow> Asserts
   | Some q \<Rightarrow> Returns (q\<lparr>fq_dequeue_ready := False\<rparr>))"

text \<open>The callback may use the queue: it is a function on it.\<close>

definition fixed_queue_process ::
    "(fixed_queue \<Rightarrow> fixed_queue outcome) \<Rightarrow> fixed_queue option \<Rightarrow> fixed_queue outcome" where
  "fixed_queue_process dequeue_ready qp = (case qp of
     None \<Rightarrow> Asserts
   | Some q \<Rightarrow> if fq_dequeue_ready q then dequeue_ready q else Returns q)"

section \<open>The queue they implement\<close>

text \<open>The items in order and the capacity.\<close>

record 'a aqueue =
  aq_items :: "'a list"
  aq_capacity :: nat

definition aq_enqueue :: "'a aqueue \<Rightarrow> 'a \<Rightarrow> 'a aqueue outcome" where
  "aq_enqueue q x =
     (if length (aq_items q) < aq_capacity q then Returns (q\<lparr>aq_items := aq_items q @ [x]\<rparr>)
      else Blocks)"

definition aq_dequeue :: "'a aqueue \<Rightarrow> ('a \<times> 'a aqueue) outcome" where
  "aq_dequeue q = (case aq_items q of
     [] \<Rightarrow> Blocks
   | x # xs \<Rightarrow> Returns (x, q\<lparr>aq_items := xs\<rparr>))"

definition aq_try_dequeue :: "'a aqueue \<Rightarrow> 'a option \<times> 'a aqueue" where
  "aq_try_dequeue q = (case aq_items q of
     [] \<Rightarrow> (None, q)
   | x # xs \<Rightarrow> (Some x, q\<lparr>aq_items := xs\<rparr>))"

section \<open>Representation\<close>

lemma obind_Returns_iff: "obind m f = Returns y \<longleftrightarrow> (\<exists>x. m = Returns x \<and> f x = Returns y)"
  by (cases m) auto

lemma osi_sem_take_iff: "osi_sem_take s = Some t \<longleftrightarrow> s = Suc t"
  by (cases s) (auto simp: osi_sem_take_def)

lemma osi_sem_take_None [simp]: "osi_sem_take s = None \<longleftrightarrow> s = 0"
  by (simp add: osi_sem_take_def)

lemma osi_sem_take_Suc [simp]: "osi_sem_take (Suc s) = Some s" "osi_sem_take 0 = None"
  by (simp_all add: osi_sem_take_def)

lemma osi_sem_give [simp]: "osi_sem_give s = Suc s"
  by (simp add: osi_sem_give_def)

text \<open>The items of the list under the queue, in a heap that holds nothing but its cells.\<close>

definition queue_rep :: "lheap \<Rightarrow> list_t \<Rightarrow> ptr list \<Rightarrow> bool" where
  "queue_rep h l xs \<longleftrightarrow>
     (\<exists>ns. list_rep h l ns \<and> heap_owns h ns \<and> map snd ns = xs) \<and> 0 \<notin> set xs"

text \<open>The allocator provides at least \<open>n\<close> cells.\<close>

definition alloc_room :: "node_alloc \<Rightarrow> nat \<Rightarrow> bool" where
  "alloc_room alloc n \<longleftrightarrow>
     alloc_fresh alloc \<and> (\<forall>h. finite (dom h) \<and> card (dom h) < n \<longrightarrow> alloc h \<noteq> 0)"

lemma heap_owns_card: "list_rep h l ns \<Longrightarrow> heap_owns h ns \<Longrightarrow> card (dom (lh_nodes h)) = length ns"
  by (metis heap_owns_def list_rep_def distinct_card length_map set_map)

lemma queue_rep_empty: "queue_rep h l xs \<Longrightarrow> list_is_empty l \<longleftrightarrow> xs = []"
  by (auto simp: queue_rep_def list_rep_empty)

lemma queue_rep_length: "queue_rep h l xs \<Longrightarrow> unat (list_length l) = length xs"
  by (auto simp: queue_rep_def list_rep_length)

lemma queue_rep_front:
  "queue_rep h l xs \<Longrightarrow> list_front h l = (if xs = [] then None else Some (hd xs))"
  by (auto simp: queue_rep_def list_front_correct hd_map split: if_splits)

lemma queue_rep_back:
  "queue_rep h l xs \<Longrightarrow> list_back h l = (if xs = [] then None else Some (last xs))"
  by (auto simp: queue_rep_def list_back_correct last_map split: if_splits)

lemma queue_rep_contains:
  "queue_rep h l xs \<Longrightarrow> d \<noteq> 0 \<Longrightarrow> list_contains h l d = Some (d \<in> set xs)"
  by (auto simp: queue_rep_def list_contains_correct)

lemma queue_rep_append:
  assumes "queue_rep h l xs" "alloc_room alloc n" "length xs < n" "n < 2 ^ 32" "d \<noteq> 0"
  shows "\<exists>h' l'. list_append alloc h l d = Some (True, h', l') \<and> queue_rep h' l' (xs @ [d])"
proof -
  obtain ns where ns: "list_rep h l ns" "heap_owns h ns" "map snd ns = xs" "0 \<notin> set xs"
    using assms(1) by (auto simp: queue_rep_def)
  have "finite (dom (lh_nodes h))"
    using ns(2) by (simp add: heap_owns_def)
  moreover have "card (dom (lh_nodes h)) < n"
    using heap_owns_card [OF ns(1,2)] ns(3) assms(3) by auto
  ultimately have got: "alloc (lh_nodes h) \<noteq> 0" and fresh: "alloc_fresh alloc"
    using assms(2) by (auto simp: alloc_room_def)
  have len: "length ns < 2 ^ 32 - 1"
    using assms(3,4) ns(3) by auto
  from list_append_correct [OF ns(1) fresh assms(5) len got] ns assms(5) show ?thesis
    by (fastforce simp: queue_rep_def intro: heap_owns_frame)
qed

lemma queue_rep_remove:
  assumes "queue_rep h l xs" "d \<noteq> 0"
  shows "\<exists>h' l'. list_remove h l d = Some (d \<in> set xs, h', l') \<and> queue_rep h' l' (remove1 d xs)"
proof -
  obtain ns where ns: "list_rep h l ns" "heap_owns h ns" "map snd ns = xs" "0 \<notin> set xs"
    using assms(1) by (auto simp: queue_rep_def)
  have "0 \<notin> set (remove1 d xs)"
    using ns(4) set_remove1_subset [of d xs] by auto
  then show ?thesis
    using list_remove_correct [OF ns(1) assms(2)] ns map_snd_del_data [of d ns]
    by (fastforce simp: queue_rep_def intro: heap_owns_frame)
qed

abbreviation fq_rep :: "fixed_queue \<Rightarrow> ptr list \<Rightarrow> bool" where
  "fq_rep q \<equiv> queue_rep (fq_heap q) (fq_list q)"

lemma enqueue_locked_correct:
  assumes "fq_rep q xs" "alloc_room alloc n" "length xs < n" "n < 2 ^ 32" "d \<noteq> 0"
  shows "\<exists>h l. enqueue_locked alloc q d = Returns (q\<lparr>fq_heap := h, fq_list := l\<rparr>) \<and>
           queue_rep h l (xs @ [d])"
  using queue_rep_append [OF assms] by (auto simp: enqueue_locked_def) blast

lemma dequeue_locked_correct:
  assumes "fq_rep q (x # xs)"
  shows "\<exists>h l. dequeue_locked q = Returns (x, q\<lparr>fq_heap := h, fq_list := l\<rparr>) \<and> queue_rep h l xs"
proof -
  have "x \<noteq> 0"
    using assms by (auto simp: queue_rep_def)
  from queue_rep_remove [OF assms this] queue_rep_front [OF assms] show ?thesis
    by (auto simp: dequeue_locked_def) blast
qed

lemma dequeue_locked_empty: "fq_rep q [] \<Longrightarrow> dequeue_locked q = Asserts"
  by (simp add: dequeue_locked_def queue_rep_front)

lemma remove_locked_correct:
  assumes "fq_rep q xs" "d \<noteq> 0"
  shows "remove_locked q d = Returns (False, q) \<and> (d \<notin> set xs \<or> fq_dequeue_sem q = 0) \<or>
         (\<exists>h l s. remove_locked q d =
             Returns (True, q\<lparr>fq_heap := h, fq_list := l, fq_dequeue_sem := s\<rparr>) \<and>
           fq_dequeue_sem q = Suc s \<and> d \<in> set xs \<and> queue_rep h l (remove1 d xs))"
  using queue_rep_remove [OF assms] queue_rep_contains [OF assms]
  by (cases "fq_dequeue_sem q") (auto simp: remove_locked_def, blast)

section \<open>The sequential operations implement the abstract queue\<close>

definition fq_abs :: "fixed_queue \<Rightarrow> ptr aqueue \<Rightarrow> bool" where
  "fq_abs q a \<longleftrightarrow>
     fq_rep q (aq_items a) \<and> fq_capacity q = aq_capacity a \<and> aq_capacity a < 2 ^ 32 \<and>
     fq_dequeue_sem q = length (aq_items a) \<and>
     fq_enqueue_sem q + length (aq_items a) = aq_capacity a"

lemma fixed_queue_new_correct:
  assumes "lh_nodes h = Map.empty" "n < 2 ^ 32" "fixed_queue_new True True True h n = Some q"
  shows "fq_abs q \<lparr>aq_items = [], aq_capacity = n\<rparr>"
  using assms
  by (auto simp: fixed_queue_new_def list_new_def list_new_internal_def fq_abs_def queue_rep_def
      heap_owns_def intro: list_rep_new)

text \<open>A result that matches the abstract one: the same outcome, and related queues.\<close>

fun outcome_rel :: "('a \<Rightarrow> 'b \<Rightarrow> bool) \<Rightarrow> 'a outcome \<Rightarrow> 'b outcome \<Rightarrow> bool" where
  "outcome_rel R (Returns x) (Returns y) = R x y"
| "outcome_rel R Blocks Blocks = True"
| "outcome_rel R Asserts Asserts = True"
| "outcome_rel R _ _ = False"

lemma fixed_queue_enqueue_refines:
  assumes abs: "fq_abs q a" and room: "alloc_room alloc (aq_capacity a)" and d: "d \<noteq> 0"
  shows "outcome_rel fq_abs (fixed_queue_enqueue alloc (Some q) d) (aq_enqueue a d)"
proof (cases "fq_enqueue_sem q")
  case 0
  then show ?thesis
    using abs d by (simp add: fixed_queue_enqueue_def aq_enqueue_def fq_abs_def)
next
  case (Suc s)
  let ?q = "q\<lparr>fq_enqueue_sem := s\<rparr>"
  have rep: "fq_rep ?q (aq_items a)" and lt: "length (aq_items a) < aq_capacity a"
    and cap: "aq_capacity a < 2 ^ 32"
    using abs Suc by (auto simp: fq_abs_def)
  show ?thesis
    using enqueue_locked_correct [OF rep room lt cap d] abs Suc lt d
    by (auto simp: fixed_queue_enqueue_def aq_enqueue_def fq_abs_def)
qed

lemma fixed_queue_try_enqueue_refines:
  assumes abs: "fq_abs q a" and room: "alloc_room alloc (aq_capacity a)" and d: "d \<noteq> 0"
  shows "\<exists>q'. fixed_queue_try_enqueue alloc (Some q) d =
                Returns (length (aq_items a) < aq_capacity a, q') \<and>
           fq_abs q' (if length (aq_items a) < aq_capacity a
                      then a\<lparr>aq_items := aq_items a @ [d]\<rparr> else a)"
proof (cases "fq_enqueue_sem q")
  case 0
  then show ?thesis
    using abs d by (simp add: fixed_queue_try_enqueue_def fq_abs_def)
next
  case (Suc s)
  let ?q = "q\<lparr>fq_enqueue_sem := s\<rparr>"
  have rep: "fq_rep ?q (aq_items a)" and lt: "length (aq_items a) < aq_capacity a"
    and cap: "aq_capacity a < 2 ^ 32"
    using abs Suc by (auto simp: fq_abs_def)
  show ?thesis
    using enqueue_locked_correct [OF rep room lt cap d] abs Suc lt d
    by (auto simp: fixed_queue_try_enqueue_def fq_abs_def)
qed

lemma fixed_queue_dequeue_refines:
  assumes abs: "fq_abs q a"
  shows "outcome_rel (\<lambda>(x, q') (y, a'). x = y \<and> fq_abs q' a')
           (fixed_queue_dequeue (Some q)) (aq_dequeue a)"
proof (cases "aq_items a")
  case Nil
  then show ?thesis
    using abs by (simp add: fixed_queue_dequeue_def aq_dequeue_def fq_abs_def)
next
  case (Cons x xs)
  let ?q = "q\<lparr>fq_dequeue_sem := length xs\<rparr>"
  have rep: "fq_rep ?q (x # xs)"
    using abs Cons by (simp add: fq_abs_def)
  show ?thesis
    using dequeue_locked_correct [OF rep] abs Cons
    by (auto simp: fixed_queue_dequeue_def aq_dequeue_def fq_abs_def)
qed

lemma fixed_queue_try_dequeue_refines:
  assumes abs: "fq_abs q a"
  shows "\<exists>q'. fixed_queue_try_dequeue (Some q) =
                Returns (case fst (aq_try_dequeue a) of None \<Rightarrow> 0 | Some x \<Rightarrow> x, Some q') \<and>
           fq_abs q' (snd (aq_try_dequeue a))"
proof (cases "aq_items a")
  case Nil
  then show ?thesis
    using abs by (simp add: fixed_queue_try_dequeue_def aq_try_dequeue_def fq_abs_def)
next
  case (Cons x xs)
  let ?q = "q\<lparr>fq_dequeue_sem := length xs\<rparr>"
  have rep: "fq_rep ?q (x # xs)"
    using abs Cons by (simp add: fq_abs_def)
  show ?thesis
    using dequeue_locked_correct [OF rep] abs Cons
    by (auto simp: fixed_queue_try_dequeue_def aq_try_dequeue_def fq_abs_def)
qed

lemma fixed_queue_try_remove_refines:
  assumes abs: "fq_abs q a" and d: "d \<noteq> 0"
  shows "\<exists>q'. fixed_queue_try_remove_from_queue (Some q) d =
                Returns (if d \<in> set (aq_items a) then d else 0, Some q') \<and>
           fq_abs q' (a\<lparr>aq_items := remove1 d (aq_items a)\<rparr>)"
proof -
  have rep: "fq_rep q (aq_items a)"
    using abs by (simp add: fq_abs_def)
  have "d \<in> set (aq_items a) \<Longrightarrow> fq_dequeue_sem q \<noteq> 0"
    using abs by (auto simp: fq_abs_def)
  with remove_locked_correct [OF rep d] abs show ?thesis
    by (auto simp: fixed_queue_try_remove_from_queue_def fq_abs_def length_remove1 remove1_idem)
qed

lemma fixed_queue_peek_refines:
  assumes "fq_abs q a"
  shows "fixed_queue_try_peek_first (Some q) =
           Returns (if aq_items a = [] then 0 else hd (aq_items a))"
    and "fixed_queue_try_peek_last (Some q) =
           Returns (if aq_items a = [] then 0 else last (aq_items a))"
    and "fixed_queue_is_empty (Some q) = (aq_items a = [])"
    and "unat (fixed_queue_length (Some q)) = length (aq_items a)"
  using assms
  by (auto simp: fixed_queue_try_peek_first_def fixed_queue_try_peek_last_def fq_abs_def
      fixed_queue_is_empty_def fixed_queue_length_def queue_rep_empty queue_rep_front
      queue_rep_back queue_rep_length)

section \<open>The interface of a bounded queue\<close>

text \<open>What a client of a bounded FIFO may rely on, whatever implements it.\<close>

locale bounded_fifo =
  fixes abs :: "'q \<Rightarrow> 'a aqueue \<Rightarrow> bool"
    and item :: "'a \<Rightarrow> bool"
    and put :: "'q \<Rightarrow> 'a \<Rightarrow> 'q outcome"
    and get :: "'q \<Rightarrow> ('a \<times> 'q) outcome"
  assumes put_refines: "abs q a \<Longrightarrow> item x \<Longrightarrow> outcome_rel abs (put q x) (aq_enqueue a x)"
    and get_refines:
      "abs q a \<Longrightarrow> outcome_rel (\<lambda>(x, q') (y, a'). x = y \<and> abs q' a') (get q) (aq_dequeue a)"

text \<open>Put the items one after the other, and take a given number of items.\<close>

fun put_all :: "('q \<Rightarrow> 'a \<Rightarrow> 'q outcome) \<Rightarrow> 'q \<Rightarrow> 'a list \<Rightarrow> 'q outcome" where
  "put_all put q [] = Returns q"
| "put_all put q (x # xs) = obind (put q x) (\<lambda>q. put_all put q xs)"

fun get_all :: "('q \<Rightarrow> ('a \<times> 'q) outcome) \<Rightarrow> 'q \<Rightarrow> nat \<Rightarrow> ('a list \<times> 'q) outcome" where
  "get_all get q 0 = Returns ([], q)"
| "get_all get q (Suc n) =
     obind (get q) (\<lambda>(x, q). obind (get_all get q n) (\<lambda>(xs, q). Returns (x # xs, q)))"

context bounded_fifo
begin

lemma put_all_items:
  "abs q a \<Longrightarrow> list_all item xs \<Longrightarrow> length (aq_items a) + length xs \<le> aq_capacity a \<Longrightarrow>
   \<exists>q'. put_all put q xs = Returns q' \<and> abs q' (a\<lparr>aq_items := aq_items a @ xs\<rparr>)"
proof (induction xs arbitrary: q a)
  case (Cons x xs)
  have "outcome_rel abs (put q x) (Returns (a\<lparr>aq_items := aq_items a @ [x]\<rparr>))"
    using put_refines [of q a x] Cons.prems by (simp add: aq_enqueue_def)
  then obtain q1 where q1: "put q x = Returns q1" "abs q1 (a\<lparr>aq_items := aq_items a @ [x]\<rparr>)"
    by (cases "put q x") auto
  from Cons.IH [OF q1(2)] Cons.prems q1(1) show ?case
    by simp
qed simp

lemma get_all_items:
  "abs q a \<Longrightarrow> n \<le> length (aq_items a) \<Longrightarrow>
   \<exists>q'. get_all get q n = Returns (take n (aq_items a), q') \<and>
        abs q' (a\<lparr>aq_items := drop n (aq_items a)\<rparr>)"
proof (induction n arbitrary: q a)
  case (Suc n)
  then obtain x xs where xs: "aq_items a = x # xs"
    by (cases "aq_items a") auto
  have "outcome_rel (\<lambda>(x, q') (y, a'). x = y \<and> abs q' a') (get q) (Returns (x, a\<lparr>aq_items := xs\<rparr>))"
    using get_refines [OF Suc.prems(1)] by (simp add: aq_dequeue_def xs)
  then obtain q1 where q1: "get q = Returns (x, q1)" "abs q1 (a\<lparr>aq_items := xs\<rparr>)"
    by (cases "get q") auto
  from Suc.IH [OF q1(2)] Suc.prems(2) q1(1) show ?case
    by (auto simp: xs)
qed simp

text \<open>First in, first out: what was put comes back behind what was there, in order.\<close>

lemma put_get_fifo:
  assumes "abs q a" "list_all item xs" "length (aq_items a) + length xs \<le> aq_capacity a"
  shows "\<exists>q' q''. put_all put q xs = Returns q' \<and>
           get_all get q' (length (aq_items a) + length xs) = Returns (aq_items a @ xs, q'') \<and>
           abs q'' (a\<lparr>aq_items := []\<rparr>)"
proof -
  obtain q' where q': "put_all put q xs = Returns q'" "abs q' (a\<lparr>aq_items := aq_items a @ xs\<rparr>)"
    using put_all_items [OF assms] by blast
  from get_all_items [OF q'(2), of "length (aq_items a) + length xs"] q'(1) show ?thesis
    by auto
qed

end

text \<open>
  The provider: a queue together with the allocator its list uses, which must have room for a full
  queue.
\<close>

definition fq_put :: "node_alloc \<times> fixed_queue \<Rightarrow> ptr \<Rightarrow> (node_alloc \<times> fixed_queue) outcome" where
  "fq_put s d = obind (fixed_queue_enqueue (fst s) (Some (snd s)) d) (\<lambda>q. Returns (fst s, q))"

definition fq_get :: "node_alloc \<times> fixed_queue \<Rightarrow> (ptr \<times> node_alloc \<times> fixed_queue) outcome" where
  "fq_get s = obind (fixed_queue_dequeue (Some (snd s))) (\<lambda>(d, q). Returns (d, fst s, q))"

definition fq_state :: "node_alloc \<times> fixed_queue \<Rightarrow> ptr aqueue \<Rightarrow> bool" where
  "fq_state s a \<longleftrightarrow> fq_abs (snd s) a \<and> alloc_room (fst s) (aq_capacity a)"

lemma fq_put_refines:
  "fq_state s a \<Longrightarrow> d \<noteq> 0 \<Longrightarrow> outcome_rel fq_state (fq_put s d) (aq_enqueue a d)"
  using fixed_queue_enqueue_refines [of "snd s" a "fst s" d]
  by (cases "fixed_queue_enqueue (fst s) (Some (snd s)) d"; cases "aq_enqueue a d")
    (auto simp: fq_put_def fq_state_def aq_enqueue_def split: if_splits)

lemma fq_get_refines:
  "fq_state s a \<Longrightarrow>
   outcome_rel (\<lambda>(x, q') (y, a'). x = y \<and> fq_state q' a') (fq_get s) (aq_dequeue a)"
  using fixed_queue_dequeue_refines [of "snd s" a]
  by (cases "fixed_queue_dequeue (Some (snd s))"; cases "aq_dequeue a")
    (auto simp: fq_get_def fq_state_def aq_dequeue_def split: list.splits)

interpretation fqi: bounded_fifo fq_state "\<lambda>d. d \<noteq> 0" fq_put fq_get
  by unfold_locales (simp_all add: fq_put_refines fq_get_refines)

section \<open>Threads\<close>

text \<open>
  Where a thread stands inside an operation: it has taken the semaphore, or it has left the section
  under the mutex and has not yet given the other semaphore.
\<close>

datatype pc = EnqGot ptr | EnqDone | DeqGot | DeqDone | RemDone

text \<open>
  The queue, the threads inside an operation, and the history: the items appended and removed, each
  in the order of the sections under the mutex, and the items taken out of the middle.
\<close>

record fq_sys =
  s_queue :: fixed_queue
  s_pcs :: "pc multiset"
  s_in :: "ptr list"
  s_out :: "ptr list"
  s_taken :: "ptr list"

inductive fq_step :: "node_alloc \<Rightarrow> fq_sys \<Rightarrow> fq_sys \<Rightarrow> bool" for alloc where
  enq_take: "d \<noteq> 0 \<Longrightarrow> osi_sem_take (fq_enqueue_sem (s_queue s)) = Some n \<Longrightarrow>
     fq_step alloc s (s\<lparr>s_queue := (s_queue s)\<lparr>fq_enqueue_sem := n\<rparr>,
                        s_pcs := add_mset (EnqGot d) (s_pcs s)\<rparr>)"
| enq_lock: "s_pcs s = add_mset (EnqGot d) P \<Longrightarrow> enqueue_locked alloc (s_queue s) d = Returns q \<Longrightarrow>
     fq_step alloc s (s\<lparr>s_queue := q, s_pcs := add_mset EnqDone P, s_in := s_in s @ [d]\<rparr>)"
| enq_give: "s_pcs s = add_mset EnqDone P \<Longrightarrow>
     fq_step alloc s (s\<lparr>s_queue := (s_queue s)\<lparr>fq_dequeue_sem :=
                          osi_sem_give (fq_dequeue_sem (s_queue s))\<rparr>, s_pcs := P\<rparr>)"
| deq_take: "osi_sem_take (fq_dequeue_sem (s_queue s)) = Some n \<Longrightarrow>
     fq_step alloc s (s\<lparr>s_queue := (s_queue s)\<lparr>fq_dequeue_sem := n\<rparr>,
                        s_pcs := add_mset DeqGot (s_pcs s)\<rparr>)"
| deq_lock: "s_pcs s = add_mset DeqGot P \<Longrightarrow> dequeue_locked (s_queue s) = Returns (d, q) \<Longrightarrow>
     fq_step alloc s (s\<lparr>s_queue := q, s_pcs := add_mset DeqDone P, s_out := s_out s @ [d]\<rparr>)"
| deq_give: "s_pcs s = add_mset DeqDone P \<Longrightarrow>
     fq_step alloc s (s\<lparr>s_queue := (s_queue s)\<lparr>fq_enqueue_sem :=
                          osi_sem_give (fq_enqueue_sem (s_queue s))\<rparr>, s_pcs := P\<rparr>)"
| rem_lock: "d \<noteq> 0 \<Longrightarrow> remove_locked (s_queue s) d = Returns (True, q) \<Longrightarrow>
     fq_step alloc s (s\<lparr>s_queue := q, s_pcs := add_mset RemDone (s_pcs s),
                        s_taken := s_taken s @ [d]\<rparr>)"
| rem_give: "s_pcs s = add_mset RemDone P \<Longrightarrow>
     fq_step alloc s (s\<lparr>s_queue := (s_queue s)\<lparr>fq_enqueue_sem :=
                          osi_sem_give (fq_enqueue_sem (s_queue s))\<rparr>, s_pcs := P\<rparr>)"

text \<open>A thread that is about to fail an assertion under the mutex.\<close>

definition fq_asserts :: "node_alloc \<Rightarrow> fq_sys \<Rightarrow> bool" where
  "fq_asserts alloc s \<longleftrightarrow>
     (\<exists>d. EnqGot d \<in># s_pcs s \<and> enqueue_locked alloc (s_queue s) d = Asserts) \<or>
     (DeqGot \<in># s_pcs s \<and> dequeue_locked (s_queue s) = Asserts) \<or>
     (\<exists>d. d \<noteq> 0 \<and> remove_locked (s_queue s) d = Asserts)"

definition fq_start :: "fixed_queue \<Rightarrow> fq_sys" where
  "fq_start q = \<lparr>s_queue = q, s_pcs = {#}, s_in = [], s_out = [], s_taken = []\<rparr>"

abbreviation is_EnqGot :: "pc \<Rightarrow> bool" where
  "is_EnqGot p \<equiv> (case p of EnqGot _ \<Rightarrow> True | _ \<Rightarrow> False)"

text \<open>
  Every place is accounted for: free, reserved by a thread that will append, occupied, or about to
  be given back; every item is accounted for by the second semaphore in the same way.
\<close>

definition fq_accounts :: "nat \<Rightarrow> fq_sys \<Rightarrow> ptr list \<Rightarrow> bool" where
  "fq_accounts cap s xs \<longleftrightarrow>
     fq_rep (s_queue s) xs \<and>
     fq_enqueue_sem (s_queue s) + size (filter_mset is_EnqGot (s_pcs s)) + length xs +
       count (s_pcs s) DeqDone + count (s_pcs s) RemDone = cap \<and>
     fq_dequeue_sem (s_queue s) + count (s_pcs s) EnqDone + count (s_pcs s) DeqGot = length xs \<and>
     (\<forall>d. EnqGot d \<in># s_pcs s \<longrightarrow> d \<noteq> 0) \<and>
     mset (s_in s) = mset (s_out s) + mset (s_taken s) + mset xs \<and>
     (s_taken s = [] \<longrightarrow> s_in s = s_out s @ xs)"

definition fq_inv :: "nat \<Rightarrow> fq_sys \<Rightarrow> bool" where
  "fq_inv cap s \<longleftrightarrow> (\<exists>xs. fq_accounts cap s xs)"

lemma fq_inv_start:
  assumes "fq_abs q \<lparr>aq_items = [], aq_capacity = n\<rparr>"
  shows "fq_inv n (fq_start q)"
  using assms by (auto simp: fq_inv_def fq_accounts_def fq_start_def fq_abs_def)

lemma fq_accounts_step:
  assumes acc: "fq_accounts cap s xs" and room: "alloc_room alloc cap" and cap: "cap < 2 ^ 32"
    and step: "fq_step alloc s s'"
  shows "\<exists>xs'. fq_accounts cap s' xs'"
  using step
proof cases
  case (enq_take d n)
  then show ?thesis
    using acc by (intro exI [of _ xs]) (auto simp: fq_accounts_def osi_sem_take_iff)
next
  case (enq_lock d P q)
  have rep: "fq_rep (s_queue s) xs" and d: "d \<noteq> 0" and lt: "length xs < cap"
    using acc enq_lock(2) by (auto simp: fq_accounts_def)
  obtain h l where "q = (s_queue s)\<lparr>fq_heap := h, fq_list := l\<rparr>" "queue_rep h l (xs @ [d])"
    using enqueue_locked_correct [OF rep room lt cap d] enq_lock(3) by auto
  then show ?thesis
    using acc enq_lock by (intro exI [of _ "xs @ [d]"]) (auto simp: fq_accounts_def)
next
  case (enq_give P)
  then show ?thesis
    using acc by (intro exI [of _ xs]) (auto simp: fq_accounts_def)
next
  case (deq_take n)
  then show ?thesis
    using acc by (intro exI [of _ xs]) (auto simp: fq_accounts_def osi_sem_take_iff)
next
  case (deq_lock P d q)
  have "0 < length xs"
    using acc deq_lock(2) by (auto simp: fq_accounts_def)
  then obtain y ys where xs: "xs = y # ys"
    by (cases xs) auto
  then have rep: "fq_rep (s_queue s) (y # ys)"
    using acc by (simp add: fq_accounts_def)
  obtain h l where "d = y" "q = (s_queue s)\<lparr>fq_heap := h, fq_list := l\<rparr>" "queue_rep h l ys"
    using dequeue_locked_correct [OF rep] deq_lock(3) by auto
  then show ?thesis
    using acc deq_lock xs by (intro exI [of _ ys]) (auto simp: fq_accounts_def)
next
  case (deq_give P)
  then show ?thesis
    using acc by (intro exI [of _ xs]) (auto simp: fq_accounts_def)
next
  case (rem_lock d q)
  have rep: "fq_rep (s_queue s) xs"
    using acc by (simp add: fq_accounts_def)
  obtain h l n where "q = (s_queue s)\<lparr>fq_heap := h, fq_list := l, fq_dequeue_sem := n\<rparr>"
      "fq_dequeue_sem (s_queue s) = Suc n" "d \<in> set xs" "queue_rep h l (remove1 d xs)"
    using remove_locked_correct [OF rep rem_lock(2)] rem_lock(3) by auto
  moreover from this have "mset xs = add_mset d (mset (remove1 d xs))" "0 < length xs"
    by auto
  ultimately show ?thesis
    using acc rem_lock
    by (intro exI [of _ "remove1 d xs"]) (auto simp: fq_accounts_def length_remove1)
next
  case (rem_give P)
  then show ?thesis
    using acc by (intro exI [of _ xs]) (auto simp: fq_accounts_def)
qed

lemma fq_inv_reachable:
  assumes "(fq_step alloc)\<^sup>*\<^sup>* s s'" "fq_inv cap s" "alloc_room alloc cap" "cap < 2 ^ 32"
  shows "fq_inv cap s'"
  using assms
  by (induction rule: rtranclp_induct) (auto simp: fq_inv_def dest: fq_accounts_step)

lemma fq_inv_safe:
  assumes inv: "fq_inv cap s" and room: "alloc_room alloc cap" and cap: "cap < 2 ^ 32"
  shows "\<not> fq_asserts alloc s"
proof -
  obtain xs where acc: "fq_accounts cap s xs"
    using inv by (auto simp: fq_inv_def)
  then have rep: "fq_rep (s_queue s) xs"
    by (simp add: fq_accounts_def)
  have "enqueue_locked alloc (s_queue s) d \<noteq> Asserts" if "EnqGot d \<in># s_pcs s" for d
  proof -
    have "d \<noteq> 0" "length xs < cap"
      using acc that by (auto simp: fq_accounts_def dest: multi_member_split)
    then obtain h l where "enqueue_locked alloc (s_queue s) d = Returns ((s_queue s)\<lparr>fq_heap := h, fq_list := l\<rparr>)"
      using enqueue_locked_correct [OF rep room _ cap] by blast
    then show ?thesis
      by simp
  qed
  moreover have "dequeue_locked (s_queue s) \<noteq> Asserts" if "DeqGot \<in># s_pcs s"
  proof -
    have "0 < length xs"
      using acc that by (auto simp: fq_accounts_def dest: multi_member_split)
    then obtain y ys where "xs = y # ys"
      by (cases xs) auto
    with dequeue_locked_correct [of "s_queue s" y ys] rep show ?thesis
      by auto
  qed
  moreover have "remove_locked (s_queue s) d \<noteq> Asserts" if "d \<noteq> 0" for d
    using remove_locked_correct [OF rep that] by auto
  ultimately show ?thesis
    by (auto simp: fq_asserts_def)
qed

section \<open>Properties\<close>

text \<open>
  A queue made by \<open>fixed_queue_new\<close> is a FIFO of its capacity: as many items as the capacity
  can be enqueued without blocking or failing an assertion, and dequeuing yields them in the order
  in which they were enqueued.
\<close>

theorem fixed_queue_fifo:
  assumes "fixed_queue_new True True True h n = Some q" "lh_nodes h = Map.empty" "n < 2 ^ 32"
    and "alloc_room alloc n" "0 \<notin> set xs" "length xs \<le> n"
  shows "\<exists>q' q''. put_all fq_put (alloc, q) xs = Returns q' \<and>
           get_all fq_get q' (length xs) = Returns (xs, q'') \<and>
           fq_state q'' \<lparr>aq_items = [], aq_capacity = n\<rparr>"
proof -
  have st: "fq_state (alloc, q) \<lparr>aq_items = [], aq_capacity = n\<rparr>"
    using fixed_queue_new_correct [OF assms(2,3,1)] assms(4) by (simp add: fq_state_def)
  have items: "list_all (\<lambda>d. d \<noteq> 0) xs"
    using assms(5) by (auto simp: list_all_iff intro!: gr0I)
  show ?thesis
    using fqi.put_get_fifo [OF st items] assms(6) by simp
qed

definition wit_heap :: lheap where
  "wit_heap = \<lparr>lh_nodes = Map.empty, lh_freed = []\<rparr>"

definition wit_queue :: fixed_queue where
  "wit_queue = the (fixed_queue_new True True True wit_heap 2)"

lemma wit_queue_new: "fixed_queue_new True True True wit_heap 2 = Some wit_queue"
  by (simp add: wit_queue_def fixed_queue_new_def list_new_def list_new_internal_def)

lemma wit_alloc_room: "alloc_room wit_alloc 2"
proof -
  have "wit_alloc h \<noteq> 0" if "finite (dom h)" "card (dom h) < 2" for h
  proof (rule ccontr)
    assume "\<not> wit_alloc h \<noteq> 0"
    then have "{1, 2} \<subseteq> dom h"
      by (auto simp: wit_alloc_def dom_def split: if_splits)
    from card_mono [OF that(1) this] that(2) show False
      by simp
  qed
  then show ?thesis
    by (simp add: alloc_room_def wit_alloc_fresh)
qed

lemma fixed_queue_fifo_witness:
  "\<exists>q' q''. put_all fq_put (wit_alloc, wit_queue) [7, 9] = Returns q' \<and>
     get_all fq_get q' 2 = Returns ([7, 9], q'')"
proof -
  have "\<exists>q' q''. put_all fq_put (wit_alloc, wit_queue) [7, 9] = Returns q' \<and>
      get_all fq_get q' (length [7 :: nat, 9]) = Returns ([7, 9], q'') \<and>
      fq_state q'' \<lparr>aq_items = [], aq_capacity = 2\<rparr>"
    by (rule fixed_queue_fifo [OF wit_queue_new _ _ wit_alloc_room])
      (simp_all add: wit_heap_def)
  then show ?thesis
    by (metis length_Cons list.size(3) numeral_2_eq_2)
qed

text \<open>
  C5: as long as the allocator has room for the cells of a full queue, then whatever the interleaving of
  threads inside the operations, no assertion under the mutex fails, the list never holds more items than
  the capacity, and no item is lost or duplicated; if none was taken from the middle by
  \<open>fixed_queue_try_remove_from_queue\<close>, the items leave in the order in which they entered.  Without the
  room for a cell an item is lost (\<open>enqueue_without_memory\<close>).
\<close>

theorem fixed_queue_threads:
  assumes "fixed_queue_new True True True h n = Some q" "lh_nodes h = Map.empty" "n < 2 ^ 32"
    and "alloc_room alloc n" "(fq_step alloc)\<^sup>*\<^sup>* (fq_start q) s"
  shows "\<not> fq_asserts alloc s \<and> unat (fixed_queue_length (Some (s_queue s))) \<le> n \<and>
         (\<exists>xs. fq_rep (s_queue s) xs \<and>
           mset (s_in s) = mset (s_out s) + mset (s_taken s) + mset xs \<and>
           (s_taken s = [] \<longrightarrow> s_in s = s_out s @ xs))"
proof -
  have "fq_inv n (fq_start q)"
    by (rule fq_inv_start [OF fixed_queue_new_correct [OF assms(2,3,1)]])
  then have inv: "fq_inv n s"
    using fq_inv_reachable [OF assms(5) _ assms(4,3)] by blast
  then obtain xs where "fq_accounts n s xs"
    by (auto simp: fq_inv_def)
  then show ?thesis
    using fq_inv_safe [OF inv assms(4,3)]
    by (auto simp: fq_accounts_def fixed_queue_length_def queue_rep_length)
qed

lemma fixed_queue_threads_witness:
  "\<exists>s. (fq_step wit_alloc)\<^sup>*\<^sup>* (fq_start wit_queue) s \<and> EnqGot 7 \<in># s_pcs s \<and>
       \<not> fq_asserts wit_alloc s"
proof -
  let ?s = "(fq_start wit_queue)\<lparr>s_queue := wit_queue\<lparr>fq_enqueue_sem := 1\<rparr>,
              s_pcs := add_mset (EnqGot 7) {#}\<rparr>"
  have "fq_step wit_alloc (fq_start wit_queue) ?s"
    using fq_step.enq_take [of 7 "fq_start wit_queue" 1 wit_alloc]
    by (simp add: fq_start_def wit_queue_def fixed_queue_new_def list_new_def list_new_internal_def
        osi_sem_take_def)
  then have "(fq_step wit_alloc)\<^sup>*\<^sup>* (fq_start wit_queue) ?s"
    by blast
  moreover from fixed_queue_threads [OF wit_queue_new _ _ wit_alloc_room this]
  have "\<not> fq_asserts wit_alloc ?s"
    by (simp add: wit_heap_def)
  ultimately show ?thesis
    by (intro exI [of _ ?s]) simp
qed

text \<open>
  the result of \<open>list_append\<close> is ignored, so that when no list cell can be allocated
  \<open>fixed_queue_enqueue\<close> still reports an item: the enqueue into an empty queue returns, the item is
  lost, and the next dequeue fails the assertion of \<open>list_front\<close> instead of blocking.
\<close>

theorem enqueue_without_memory:
  assumes "fq_abs q a" "aq_items a = []" "0 < aq_capacity a" "d \<noteq> 0"
    and "alloc (lh_nodes (fq_heap q)) = 0"
  shows "\<exists>q'. fixed_queue_enqueue alloc (Some q) d = Returns q' \<and>
           fixed_queue_is_empty (Some q') \<and> fixed_queue_dequeue (Some q') = Asserts"
proof -
  have rep: "fq_rep q []" and sem: "fq_dequeue_sem q = 0" "fq_enqueue_sem q = aq_capacity a"
    using assms(1,2) by (auto simp: fq_abs_def)
  let ?q = "q\<lparr>fq_enqueue_sem := aq_capacity a - 1, fq_dequeue_sem := 1\<rparr>"
  have "enqueue_locked alloc (q\<lparr>fq_enqueue_sem := aq_capacity a - 1\<rparr>) d =
          Returns (q\<lparr>fq_enqueue_sem := aq_capacity a - 1\<rparr>)"
    using list_append_no_memory [of d alloc "fq_heap q" "fq_list q"] assms(4,5)
    by (simp add: enqueue_locked_def)
  then have "fixed_queue_enqueue alloc (Some q) d = Returns ?q"
    using assms(3,4) sem by (simp add: fixed_queue_enqueue_def osi_sem_take_def)
  moreover have "fixed_queue_dequeue (Some ?q) = Asserts"
    using dequeue_locked_empty [of "?q\<lparr>fq_dequeue_sem := 0\<rparr>"] rep
    by (simp add: fixed_queue_dequeue_def osi_sem_take_def)
  moreover have "fixed_queue_is_empty (Some ?q)"
    using queue_rep_empty [OF rep] by (simp add: fixed_queue_is_empty_def)
  ultimately show ?thesis
    by blast
qed

lemma enqueue_without_memory_witness:
  "\<exists>q'. fixed_queue_enqueue (\<lambda>_. 0) (Some wit_queue) 7 = Returns q' \<and>
     fixed_queue_dequeue (Some q') = Asserts"
proof -
  have "fq_abs wit_queue \<lparr>aq_items = [], aq_capacity = 2\<rparr>"
    by (rule fixed_queue_new_correct [OF _ _ wit_queue_new]) (simp_all add: wit_heap_def)
  from enqueue_without_memory [OF this, of 7 "\<lambda>_. 0"] show ?thesis
    by auto
qed

end
