(* ===== verification/RfcFcs.thy ===== *)
theory RfcFcs
  imports Prelude
begin

text \<open>
  The frame check sequence of RFCOMM (\<open>stack/rfcomm/rfc_utils.c\<close>): the reversed CRC-8 table, its
  computation over a prefix of a frame and the check of a received one.  The lemmas relate the table
  to the bit-serial CRC of GSM 07.10, show that the check accepts what the computation produced, and
  that it detects every corruption confined to one byte.
\<close>

unbundle bit_operations_syntax

section \<open>The table-driven code\<close>

definition rfc_crctable :: "bytes" where
  "rfc_crctable = [
    0x00, 0x91, 0xE3, 0x72, 0x07, 0x96, 0xE4, 0x75,  0x0E, 0x9F, 0xED, 0x7C, 0x09, 0x98, 0xEA, 0x7B,
    0x1C, 0x8D, 0xFF, 0x6E, 0x1B, 0x8A, 0xF8, 0x69,  0x12, 0x83, 0xF1, 0x60, 0x15, 0x84, 0xF6, 0x67,
    0x38, 0xA9, 0xDB, 0x4A, 0x3F, 0xAE, 0xDC, 0x4D,  0x36, 0xA7, 0xD5, 0x44, 0x31, 0xA0, 0xD2, 0x43,
    0x24, 0xB5, 0xC7, 0x56, 0x23, 0xB2, 0xC0, 0x51,  0x2A, 0xBB, 0xC9, 0x58, 0x2D, 0xBC, 0xCE, 0x5F,
    0x70, 0xE1, 0x93, 0x02, 0x77, 0xE6, 0x94, 0x05,  0x7E, 0xEF, 0x9D, 0x0C, 0x79, 0xE8, 0x9A, 0x0B,
    0x6C, 0xFD, 0x8F, 0x1E, 0x6B, 0xFA, 0x88, 0x19,  0x62, 0xF3, 0x81, 0x10, 0x65, 0xF4, 0x86, 0x17,
    0x48, 0xD9, 0xAB, 0x3A, 0x4F, 0xDE, 0xAC, 0x3D,  0x46, 0xD7, 0xA5, 0x34, 0x41, 0xD0, 0xA2, 0x33,
    0x54, 0xC5, 0xB7, 0x26, 0x53, 0xC2, 0xB0, 0x21,  0x5A, 0xCB, 0xB9, 0x28, 0x5D, 0xCC, 0xBE, 0x2F,
    0xE0, 0x71, 0x03, 0x92, 0xE7, 0x76, 0x04, 0x95,  0xEE, 0x7F, 0x0D, 0x9C, 0xE9, 0x78, 0x0A, 0x9B,
    0xFC, 0x6D, 0x1F, 0x8E, 0xFB, 0x6A, 0x18, 0x89,  0xF2, 0x63, 0x11, 0x80, 0xF5, 0x64, 0x16, 0x87,
    0xD8, 0x49, 0x3B, 0xAA, 0xDF, 0x4E, 0x3C, 0xAD,  0xD6, 0x47, 0x35, 0xA4, 0xD1, 0x40, 0x32, 0xA3,
    0xC4, 0x55, 0x27, 0xB6, 0xC3, 0x52, 0x20, 0xB1,  0xCA, 0x5B, 0x29, 0xB8, 0xCD, 0x5C, 0x2E, 0xBF,
    0x90, 0x01, 0x73, 0xE2, 0x97, 0x06, 0x74, 0xE5,  0x9E, 0x0F, 0x7D, 0xEC, 0x99, 0x08, 0x7A, 0xEB,
    0x8C, 0x1D, 0x6F, 0xFE, 0x8B, 0x1A, 0x68, 0xF9,  0x82, 0x13, 0x61, 0xF0, 0x85, 0x14, 0x66, 0xF7,
    0xA8, 0x39, 0x4B, 0xDA, 0xAF, 0x3E, 0x4C, 0xDD,  0xA6, 0x37, 0x45, 0xD4, 0xA1, 0x30, 0x42, 0xD3,
    0xB4, 0x25, 0x57, 0xC6, 0xB3, 0x22, 0x50, 0xC1,  0xBA, 0x2B, 0x59, 0xC8, 0xBD, 0x2C, 0x5E, 0xCF]"

text \<open>The loop \<open>while (len--) fcs = rfc_crctable[fcs ^ *p++]\<close>, \<open>None\<close> when it reads past the buffer.\<close>

fun fcs_loop :: "nat \<Rightarrow> u8 \<Rightarrow> bytes \<Rightarrow> u8 option" where
  "fcs_loop 0 fcs p = Some fcs"
| "fcs_loop (Suc n) fcs [] = None"
| "fcs_loop (Suc n) fcs (b # p) = fcs_loop n (rfc_crctable ! unat (fcs XOR b)) p"

definition rfc_calc_fcs :: "nat \<Rightarrow> bytes \<Rightarrow> u8 option" where
  "rfc_calc_fcs len p = do { fcs \<leftarrow> fcs_loop len 0xFF p; Some (0xFF - fcs) }"

definition rfc_check_fcs :: "nat \<Rightarrow> bytes \<Rightarrow> u8 \<Rightarrow> bool option" where
  "rfc_check_fcs len p received_fcs = do {
     fcs \<leftarrow> fcs_loop len 0xFF p;
     Some (rfc_crctable ! unat (fcs XOR received_fcs) = 0xCF) }"

section \<open>Reference: the bit-serial CRC\<close>

text \<open>One shift of the reversed CRC-8 register, polynomial \<open>x^8 + x^2 + x + 1\<close> (\<open>0xE0\<close> reversed).\<close>

definition crc_shift :: "u8 \<Rightarrow> u8" where
  "crc_shift c = (if c AND 1 = 1 then drop_bit 1 c XOR 0xE0 else drop_bit 1 c)"

definition crc_byte :: "u8 \<Rightarrow> u8 \<Rightarrow> u8" where
  "crc_byte c b = (crc_shift ^^ 8) (c XOR b)"

definition crc_spec :: "bytes \<Rightarrow> u8" where
  "crc_spec p = NOT (foldl crc_byte 0xFF p)"

section \<open>Facts about the table\<close>

lemma length_crctable [simp]: "length rfc_crctable = 256"
  by (simp add: rfc_crctable_def)

lemma pow8: "(f ^^ 8) x = f (f (f (f (f (f (f (f x)))))))"
  by (simp add: numeral_eq_Suc)

lemma crctable_values: "map (crc_shift ^^ 8) all_bytes = rfc_crctable"
  unfolding rfc_crctable_def all_bytes_def pow8 list.map by (simp add: crc_shift_def)

lemma crctable_crc: "rfc_crctable ! unat x = (crc_shift ^^ 8) x"
  by (rule table_of_all_bytes [OF crctable_values])

text \<open>A shift loses no information: bit 7 of the result tells which bit was shifted out.\<close>

definition crc_unshift :: "u8 \<Rightarrow> u8" where
  "crc_unshift c = (if c AND 0x80 = 0 then push_bit 1 c else push_bit 1 (c XOR 0xE0) OR 1)"

lemma crc_unshift_shift: "crc_unshift (crc_shift c) = c"
proof -
  have "map crc_unshift (map crc_shift all_bytes) = all_bytes"
    unfolding all_bytes_def list.map by (simp add: crc_shift_def crc_unshift_def)
  then have "map (crc_unshift \<circ> crc_shift) all_bytes = all_bytes"
    by simp
  from table_of_all_bytes [OF this, of c] show ?thesis
    by simp
qed

lemma crc_shift_inj: "inj crc_shift"
  by (rule inj_on_inverseI [of _ crc_unshift]) (simp add: crc_unshift_shift)

lemma crctable_inj: "rfc_crctable ! unat x = rfc_crctable ! unat y \<longleftrightarrow> x = (y :: u8)"
  using inj_compose [OF crc_shift_inj crc_shift_inj]
  by (auto simp: crctable_crc pow8 inj_eq [OF crc_shift_inj])

lemma crctable_FF: "rfc_crctable ! 255 = 0xCF"
  by (simp add: rfc_crctable_def)

section \<open>Computation and check\<close>

lemma fcs_loop_numeral [simp]:
  "fcs_loop (numeral n) c (b # p) = fcs_loop (pred_numeral n) (rfc_crctable ! unat (c XOR b)) p"
  by (simp add: numeral_eq_Suc)

lemma fcs_loop_take:
  "n \<le> length p \<Longrightarrow>
   fcs_loop n c p = Some (foldl (\<lambda>c b. rfc_crctable ! unat (c XOR b)) c (take n p))"
  by (induction n c p rule: fcs_loop.induct) auto

lemma fcs_loop_short: "length p < n \<Longrightarrow> fcs_loop n c p = None"
  by (induction n c p rule: fcs_loop.induct) auto

lemma fcs_loop_None_iff: "fcs_loop n c p = None \<longleftrightarrow> length p < n"
  using fcs_loop_take [of n p c] fcs_loop_short [of p n c] by (cases "n \<le> length p") auto

lemma fcs_loop_crc:
  "n \<le> length p \<Longrightarrow> fcs_loop n c p = Some (foldl crc_byte c (take n p))"
  by (simp add: fcs_loop_take crctable_crc crc_byte_def [abs_def] cong: foldl_cong)

lemma rfc_calc_fcs_crc:
  "rfc_calc_fcs n p = (if n \<le> length p then Some (crc_spec (take n p)) else None)"
  by (simp add: rfc_calc_fcs_def fcs_loop_crc fcs_loop_short crc_spec_def not_eq_complement)

text \<open>The check is the equality with the sequence the computation gives.\<close>

lemma FF_minus_1: "(0xFF :: u8) = - 1"
  by simp

lemma xor_eq_minus_1: "(c :: u8) XOR r = - 1 \<longleftrightarrow> r = NOT c"
proof
  assume "c XOR r = - 1"
  then have "c XOR (c XOR r) = c XOR - 1" by simp
  then show "r = NOT c" by (simp flip: xor.assoc)
qed simp

lemma check_byte: "rfc_crctable ! unat (c XOR r) = 0xCF \<longleftrightarrow> r = NOT (c :: u8)"
  using crctable_inj [of "c XOR r" "0xFF"]
  by (simp add: crctable_FF) (simp only: FF_minus_1 xor_eq_minus_1)

lemma rfc_check_fcs_iff:
  "rfc_check_fcs n p r = (if n \<le> length p then Some (r = crc_spec (take n p)) else None)"
  by (auto simp: rfc_check_fcs_def fcs_loop_crc fcs_loop_short crc_spec_def check_byte)

section \<open>Detection\<close>

lemma xor_cancel_left: "(c :: u8) XOR b = c XOR b' \<longleftrightarrow> b = b'"
proof
  assume "c XOR b = c XOR b'"
  then have "c XOR (c XOR b) = c XOR (c XOR b')" by simp
  then show "b = b'" by (simp flip: xor.assoc)
qed simp

lemma crctable_step_inj: "crc_byte c b = crc_byte c' b \<longleftrightarrow> c = c'"
  using xor_cancel_left [of b c c']
  by (simp add: crc_byte_def pow8 inj_eq [OF crc_shift_inj] xor.commute)

lemma crctable_byte_inj: "crc_byte c b = crc_byte c b' \<longleftrightarrow> b = b'"
  by (simp add: crc_byte_def pow8 inj_eq [OF crc_shift_inj] xor_cancel_left)

lemma foldl_crc_inj: "foldl crc_byte c p = foldl crc_byte c' p \<longleftrightarrow> c = c'"
  by (induction p arbitrary: c c') (simp_all add: crctable_step_inj)

lemma crc_spec_update:
  "i < length p \<Longrightarrow> crc_spec (p[i := b]) = crc_spec p \<longleftrightarrow> b = p ! i"
proof -
  assume i: "i < length p"
  have "foldl crc_byte c (p[i := b]) = foldl crc_byte c p \<longleftrightarrow> b = p ! i" for c
  proof -
    have p: "p = take i p @ p ! i # drop (Suc i) p"
      using i by (rule id_take_nth_drop)
    have u: "p[i := b] = take i p @ b # drop (Suc i) p"
      using i by (rule upd_conv_take_nth_drop)
    have "foldl crc_byte c p = foldl crc_byte c (take i p @ p ! i # drop (Suc i) p)"
      by (simp only: p [symmetric])
    then show ?thesis
      by (simp add: u foldl_crc_inj crctable_byte_inj)
  qed
  then show ?thesis
    by (simp add: crc_spec_def)
qed

section \<open>Properties\<close>

text \<open>
  C30: the table-driven loop of \<open>rfc_calc_fcs\<close> computes the complement of the bit-serial reversed
  CRC-8 of GSM 07.10 over the first \<open>n\<close> bytes, and \<open>rfc_check_fcs\<close> accepts exactly that value; both
  read past the buffer exactly when it is shorter than \<open>n\<close>.
\<close>

theorem rfc_fcs_is_crc:
  "rfc_calc_fcs n p = (if n \<le> length p then Some (crc_spec (take n p)) else None) \<and>
   rfc_check_fcs n p r = (if n \<le> length p then Some (r = crc_spec (take n p)) else None)"
  by (simp only: rfc_calc_fcs_crc rfc_check_fcs_iff)

text \<open>
  a corruption of a single byte of the covered part of a frame, or of the received check byte,
  is always detected, and an intact frame is always accepted.
\<close>

theorem rfc_fcs_detects:
  assumes "rfc_calc_fcs n p = Some f" "i < n"
  shows "rfc_check_fcs n p f = Some True \<and>
         (b \<noteq> p ! i \<longrightarrow> rfc_check_fcs n (p[i := b]) f = Some False) \<and>
         (r \<noteq> f \<longrightarrow> rfc_check_fcs n p r = Some False)"
proof -
  have n: "n \<le> length p" and f: "f = crc_spec (take n p)"
    using assms(1) by (auto simp: rfc_calc_fcs_crc split: if_splits)
  have "crc_spec ((take n p)[i := b]) = f \<longleftrightarrow> b = p ! i"
    using crc_spec_update [of i "take n p" b] n assms(2) f by simp
  then show ?thesis
    using n f by (auto simp: rfc_check_fcs_iff take_update_swap)
qed

lemma rfc_fcs_detects_witness:
  "rfc_check_fcs 2 [0x03, 0xEF, 0x01] 0x70 = Some True \<and>
   rfc_check_fcs 2 [0x0B, 0xEF, 0x01] 0x70 = Some False"
proof -
  have "rfc_calc_fcs 2 [0x03, 0xEF, 0x01] = Some 0x70"
    by (simp add: rfc_calc_fcs_def rfc_crctable_def)
  from rfc_fcs_detects [OF this, of 0 "0x0B"] show ?thesis
    by simp
qed

end
