(* ===== verification/RfcFrames.thy ===== *)
theory RfcFrames
  imports OsiQueue RfcFcs
begin

text \<open>
  The frames RFCOMM sends (\<open>stack/rfcomm/rfc_ts_frames.c\<close>) and the command queue of a multiplexer
  they go through (\<open>rfc_check_send_cmd\<close> of \<open>stack/rfcomm/rfc_utils.c\<close>).  One definition per function;
  a buffer is its header fields and the memory behind the header, written at byte offsets, and a
  write outside the memory object is \<open>Asserts\<close>.  Constants carry the names of \<open>rfcdefs.h\<close>.
\<close>

unbundle bit_operations_syntax

section \<open>Constants\<close>

abbreviation (input) "RFCOMM_SABME \<equiv> 0x2F :: u8"
abbreviation (input) "RFCOMM_UA \<equiv> 0x63 :: u8"
abbreviation (input) "RFCOMM_DM \<equiv> 0x0F :: u8"
abbreviation (input) "RFCOMM_DISC \<equiv> 0x43 :: u8"
abbreviation (input) "RFCOMM_UIH \<equiv> 0xEF :: u8"
abbreviation (input) "RFCOMM_CTRL_FRAME_LEN \<equiv> 3"
abbreviation (input) "RFCOMM_MIN_OFFSET \<equiv> 5"
abbreviation (input) "RFCOMM_EA \<equiv> 1 :: u8"
abbreviation (input) "RFCOMM_EA_MASK \<equiv> 1 :: u8"
abbreviation (input) "RFCOMM_CR_MASK \<equiv> 2 :: u8"
abbreviation (input) "RFCOMM_SHIFT_CR \<equiv> 1 :: nat"
abbreviation (input) "RFCOMM_SHIFT_DLCI \<equiv> 2 :: nat"
abbreviation (input) "RFCOMM_SHIFT_DLCI2 \<equiv> 6 :: nat"
abbreviation (input) "RFCOMM_PF \<equiv> 0x10 :: u8"
abbreviation (input) "RFCOMM_PF_MASK \<equiv> 0x10 :: u8"
abbreviation (input) "RFCOMM_PF_OFFSET \<equiv> 4 :: nat"
abbreviation (input) "RFCOMM_SHIFT_LENGTH1 \<equiv> 1 :: nat"
abbreviation (input) "RFCOMM_SHIFT_LENGTH2 \<equiv> 7 :: nat"
abbreviation (input) "RFCOMM_MX_DLCI \<equiv> 0 :: u8"
abbreviation (input) "RFCOMM_MX_PN \<equiv> 0x80 :: u8"
abbreviation (input) "RFCOMM_MX_PN_LEN \<equiv> 8"
abbreviation (input) "RFCOMM_MX_TEST \<equiv> 0x20 :: u8"
abbreviation (input) "RFCOMM_MX_FCON \<equiv> 0xA0 :: u8"
abbreviation (input) "RFCOMM_MX_FCON_LEN \<equiv> 0"
abbreviation (input) "RFCOMM_MX_FCOFF \<equiv> 0x60 :: u8"
abbreviation (input) "RFCOMM_MX_FCOFF_LEN \<equiv> 0"
abbreviation (input) "RFCOMM_MX_MSC \<equiv> 0xE0 :: u8"
abbreviation (input) "RFCOMM_MX_MSC_LEN_NO_BREAK \<equiv> 2"
abbreviation (input) "RFCOMM_MX_MSC_LEN_WITH_BREAK \<equiv> 3"
abbreviation (input) "RFCOMM_MX_NSC \<equiv> 0x10 :: u8"
abbreviation (input) "RFCOMM_MX_NSC_LEN \<equiv> 1"
abbreviation (input) "RFCOMM_MX_RPN \<equiv> 0x90 :: u8"
abbreviation (input) "RFCOMM_MX_RPN_REQ_LEN \<equiv> 1"
abbreviation (input) "RFCOMM_MX_RPN_LEN \<equiv> 8"
abbreviation (input) "RFCOMM_MX_RLS \<equiv> 0x50 :: u8"
abbreviation (input) "RFCOMM_MX_RLS_LEN \<equiv> 2"
abbreviation (input) "RFCOMM_RLS_ERROR \<equiv> 1 :: u8"
abbreviation (input) "L2CAP_MIN_OFFSET \<equiv> 13"

definition RFCOMM_CR :: "bool \<Rightarrow> bool \<Rightarrow> u8" where
  "RFCOMM_CR initiator is_command =
     push_bit 1 (c_bool (initiator \<and> is_command \<or> \<not> initiator \<and> \<not> is_command))"

definition RFCOMM_I_CR :: "bool \<Rightarrow> u8" where
  "RFCOMM_I_CR is_command = (if is_command then 0x02 else 0x00)"

section \<open>The multiplexer and its command queue\<close>

text \<open>
  The fields of \<open>tRFC_MCB\<close> the frames use.  \<open>mcb_cmd_q\<close> is the queue that \<open>OsiQueue\<close> implements
  (\<open>None\<close> for \<open>NULL\<close>), and \<open>mcb_written\<close> the log of the calls of \<open>L2CA_DataWrite\<close>.
\<close>

record rfc_mcb =
  mcb_cmd_q :: "bt_hdr aqueue option"
  mcb_is_initiator :: bool
  mcb_lcid :: u16
  mcb_flow :: u8
  mcb_l2cap_congested :: bool
  mcb_written :: "(u16 \<times> bt_hdr) list"

text \<open>
  L2CAP decides, and reports through its congestion callback, whether the channel is congested after
  a write: \<open>lc\<close> is a function of the writes so far.
\<close>

type_synonym congestion = "(u16 \<times> bt_hdr) list \<Rightarrow> bool"

definition L2CA_DataWrite :: "congestion \<Rightarrow> rfc_mcb \<Rightarrow> bt_hdr \<Rightarrow> rfc_mcb" where
  "L2CA_DataWrite lc m p = (let w = mcb_written m @ [(mcb_lcid m, p)] in
     m\<lparr>mcb_written := w, mcb_l2cap_congested := lc w\<rparr>)"

text \<open>The loop that drains the queue until L2CAP is congested; every round takes a buffer.\<close>

function rfc_drain_cmd_q :: "congestion \<Rightarrow> rfc_mcb \<Rightarrow> rfc_mcb" where
  "rfc_drain_cmd_q lc m =
     (if mcb_l2cap_congested m then m
      else case mcb_cmd_q m of
        None \<Rightarrow> m
      | Some q \<Rightarrow> (case aq_try_dequeue q of
          (None, _) \<Rightarrow> m
        | (Some p, q') \<Rightarrow> rfc_drain_cmd_q lc (L2CA_DataWrite lc (m\<lparr>mcb_cmd_q := Some q'\<rparr>) p)))"
  by pat_completeness auto

termination
  by (relation "measure (\<lambda>(lc, m). case mcb_cmd_q m of None \<Rightarrow> 0 | Some q \<Rightarrow> length (aq_items q))")
    (auto simp: aq_try_dequeue_def L2CA_DataWrite_def Let_def split: list.splits)

declare rfc_drain_cmd_q.simps [simp del]

definition rfc_check_send_cmd :: "congestion \<Rightarrow> rfc_mcb \<Rightarrow> bt_hdr option \<Rightarrow> rfc_mcb outcome" where
  "rfc_check_send_cmd lc m p_buf =
     obind (case p_buf of
              None \<Rightarrow> Returns m
            | Some p \<Rightarrow> (case mcb_cmd_q m of
                None \<Rightarrow> Asserts
              | Some q \<Rightarrow> obind (aq_enqueue q p) (\<lambda>q. Returns (m\<lparr>mcb_cmd_q := Some q\<rparr>))))
       (\<lambda>m. Returns (rfc_drain_cmd_q lc m))"

section \<open>Control frames\<close>

text \<open>Write bytes at an offset of the memory behind the header.\<close>

definition put_bytes :: "bt_hdr \<Rightarrow> nat \<Rightarrow> bytes \<Rightarrow> bt_hdr outcome" where
  "put_bytes p i bs = or_assert (map_option (\<lambda>d. p\<lparr>bh_data := d\<rparr>) (write_at (bh_data p) i bs))"

text \<open>\<open>buf\<close> is the result of \<open>osi_malloc(RFCOMM_CMD_BUF_SIZE)\<close>, with arbitrary contents.\<close>

definition rfc_send_sabme ::
    "congestion \<Rightarrow> bt_hdr option \<Rightarrow> rfc_mcb \<Rightarrow> u8 \<Rightarrow> rfc_mcb outcome" where
  "rfc_send_sabme lc buf m dlci =
     (let cr = RFCOMM_CR (mcb_is_initiator m) True in
      case buf of None \<Rightarrow> Returns m
      | Some p \<Rightarrow>
          obind (put_bytes (p\<lparr>bh_offset := L2CAP_MIN_OFFSET\<rparr>) L2CAP_MIN_OFFSET
                   [RFCOMM_EA OR cr OR push_bit RFCOMM_SHIFT_DLCI dlci,
                    RFCOMM_SABME OR RFCOMM_PF, RFCOMM_EA OR 0]) (\<lambda>p.
          obind (or_assert (rfc_calc_fcs 3 (drop L2CAP_MIN_OFFSET (bh_data p)))) (\<lambda>fcs.
          obind (put_bytes p (L2CAP_MIN_OFFSET + 3) [fcs]) (\<lambda>p.
          rfc_check_send_cmd lc m (Some (p\<lparr>bh_len := 4\<rparr>))))))"

definition rfc_send_ua ::
    "congestion \<Rightarrow> bt_hdr option \<Rightarrow> rfc_mcb \<Rightarrow> u8 \<Rightarrow> rfc_mcb outcome" where
  "rfc_send_ua lc buf m dlci =
     (let cr = RFCOMM_CR (mcb_is_initiator m) False in
      case buf of None \<Rightarrow> Returns m
      | Some p \<Rightarrow>
          obind (put_bytes (p\<lparr>bh_offset := L2CAP_MIN_OFFSET\<rparr>) L2CAP_MIN_OFFSET
                   [RFCOMM_EA OR cr OR push_bit RFCOMM_SHIFT_DLCI dlci,
                    RFCOMM_UA OR RFCOMM_PF, RFCOMM_EA OR 0]) (\<lambda>p.
          obind (or_assert (rfc_calc_fcs 3 (drop L2CAP_MIN_OFFSET (bh_data p)))) (\<lambda>fcs.
          obind (put_bytes p (L2CAP_MIN_OFFSET + 3) [fcs]) (\<lambda>p.
          rfc_check_send_cmd lc m (Some (p\<lparr>bh_len := 4\<rparr>))))))"

definition rfc_send_dm ::
    "congestion \<Rightarrow> bt_hdr option \<Rightarrow> rfc_mcb \<Rightarrow> u8 \<Rightarrow> bool \<Rightarrow> rfc_mcb outcome" where
  "rfc_send_dm lc buf m dlci pf =
     (let cr = RFCOMM_CR (mcb_is_initiator m) False in
      case buf of None \<Rightarrow> Returns m
      | Some p \<Rightarrow>
          obind (put_bytes (p\<lparr>bh_offset := L2CAP_MIN_OFFSET\<rparr>) L2CAP_MIN_OFFSET
                   [RFCOMM_EA OR cr OR push_bit RFCOMM_SHIFT_DLCI dlci,
                    RFCOMM_DM OR (if pf then RFCOMM_PF else 0), RFCOMM_EA OR 0]) (\<lambda>p.
          obind (or_assert (rfc_calc_fcs 3 (drop L2CAP_MIN_OFFSET (bh_data p)))) (\<lambda>fcs.
          obind (put_bytes p (L2CAP_MIN_OFFSET + 3) [fcs]) (\<lambda>p.
          rfc_check_send_cmd lc m (Some (p\<lparr>bh_len := 4\<rparr>))))))"

definition rfc_send_disc ::
    "congestion \<Rightarrow> bt_hdr option \<Rightarrow> rfc_mcb \<Rightarrow> u8 \<Rightarrow> rfc_mcb outcome" where
  "rfc_send_disc lc buf m dlci =
     (let cr = RFCOMM_CR (mcb_is_initiator m) True in
      case buf of None \<Rightarrow> Returns m
      | Some p \<Rightarrow>
          obind (put_bytes (p\<lparr>bh_offset := L2CAP_MIN_OFFSET\<rparr>) L2CAP_MIN_OFFSET
                   [RFCOMM_EA OR cr OR push_bit RFCOMM_SHIFT_DLCI dlci,
                    RFCOMM_DISC OR RFCOMM_PF, RFCOMM_EA OR 0]) (\<lambda>p.
          obind (or_assert (rfc_calc_fcs 3 (drop L2CAP_MIN_OFFSET (bh_data p)))) (\<lambda>fcs.
          obind (put_bytes p (L2CAP_MIN_OFFSET + 3) [fcs]) (\<lambda>p.
          rfc_check_send_cmd lc m (Some (p\<lparr>bh_len := 4\<rparr>))))))"

section \<open>UIH frames\<close>

text \<open>The length field: one byte up to 127, two bytes above.\<close>

definition rfc_send_buf_uih ::
    "congestion \<Rightarrow> rfc_mcb \<Rightarrow> u8 \<Rightarrow> bt_hdr \<Rightarrow> rfc_mcb outcome" where
  "rfc_send_buf_uih lc m dlci p =
     (let cr = RFCOMM_CR (mcb_is_initiator m) True;
          p = p\<lparr>bh_offset := bh_offset p - RFCOMM_CTRL_FRAME_LEN\<rparr>;
          p = (if 127 < bh_len p then p\<lparr>bh_offset := bh_offset p - 1\<rparr> else p);
          credits = (if dlci \<noteq> 0 then ucast (bh_layer_specific p) else 0 :: u8);
          p = (if credits \<noteq> 0 then p\<lparr>bh_offset := bh_offset p - 1\<rparr> else p);
          off = unat (bh_offset p);
          ctrl = [RFCOMM_EA OR cr OR push_bit RFCOMM_SHIFT_DLCI dlci,
                  RFCOMM_UIH OR (if credits \<noteq> 0 then RFCOMM_PF else 0)];
          (lenf, n) = (if bh_len p \<le> 127
                       then ([RFCOMM_EA OR ucast (push_bit 1 (bh_len p))], bh_len p + 3)
                       else ([ucast (push_bit 1 (bh_len p AND 0x7f)),
                              ucast (drop_bit RFCOMM_SHIFT_LENGTH2 (bh_len p))], bh_len p + 4));
          (cred, n) = (if credits \<noteq> 0 then ([credits], n + 1) else ([], n))
      in
      obind (put_bytes p off (ctrl @ lenf @ cred)) (\<lambda>p.
      obind (or_assert (rfc_calc_fcs 2 (drop off (bh_data p)))) (\<lambda>fcs.
      obind (put_bytes p (off + unat n) [fcs]) (\<lambda>p.
      let p = p\<lparr>bh_len := n + 1\<rparr> in
      if dlci = RFCOMM_MX_DLCI then rfc_check_send_cmd lc m (Some p)
      else Returns (L2CA_DataWrite lc m p)))))"

definition rfc_send_credit ::
    "congestion \<Rightarrow> bt_hdr option \<Rightarrow> rfc_mcb \<Rightarrow> u8 \<Rightarrow> u8 \<Rightarrow> rfc_mcb outcome" where
  "rfc_send_credit lc buf m dlci credit =
     (let cr = RFCOMM_CR (mcb_is_initiator m) True in
      case buf of None \<Rightarrow> Returns m
      | Some p \<Rightarrow>
          obind (put_bytes (p\<lparr>bh_offset := L2CAP_MIN_OFFSET\<rparr>) L2CAP_MIN_OFFSET
                   [RFCOMM_EA OR cr OR push_bit RFCOMM_SHIFT_DLCI dlci,
                    RFCOMM_UIH OR RFCOMM_PF, RFCOMM_EA OR 0, credit]) (\<lambda>p.
          obind (or_assert (rfc_calc_fcs 2 (drop L2CAP_MIN_OFFSET (bh_data p)))) (\<lambda>fcs.
          obind (put_bytes p (L2CAP_MIN_OFFSET + 4) [fcs]) (\<lambda>p.
          rfc_check_send_cmd lc m (Some (p\<lparr>bh_len := 5\<rparr>))))))"

section \<open>Multiplexer messages\<close>

text \<open>
  \<open>MX_FRAME\<close>.  The members of its union are kept apart: no function reads a member of another
  message than the one it has just parsed.
\<close>

record mx_frame =
  mf_dlci :: u8
  mf_type :: u8
  mf_cr :: u8
  mf_ea :: u8
  mf_pf :: u8
  mf_credit :: u8
  pn_frame_type :: u8
  pn_conv_layer :: u8
  pn_priority :: u8
  pn_t1 :: u8
  pn_mtu :: u16
  pn_n2 :: u8
  pn_k :: u8
  msc_signals :: u8
  msc_break_present :: u8
  msc_break_duration :: u8
  nsc_ea :: u8
  nsc_cr :: u8
  nsc_type :: u8
  rpn_is_request :: bool
  rpn_baud_rate :: u8
  rpn_byte_size :: u8
  rpn_stop_bits :: u8
  rpn_parity :: u8
  rpn_parity_type :: u8
  rpn_fc_type :: u8
  rpn_xon_char :: u8
  rpn_xoff_char :: u8
  rpn_param_mask :: u16
  rls_line_status :: u8

record port_ctrl =
  ctl_modem_signal :: u8
  ctl_break_signal :: u8
  ctl_discard_buffers :: u8
  ctl_break_signal_seq :: u8
  ctl_fc :: bool

record port_state =
  ps_baud_rate :: u8
  ps_byte_size :: u8
  ps_stop_bits :: u8
  ps_parity :: u8
  ps_parity_type :: u8
  ps_fc_type :: u8
  ps_rx_char1 :: u8
  ps_xon_char :: u8
  ps_xoff_char :: u8

text \<open>
  Every message is written behind room for the UIH header, at \<open>L2CAP_MIN_OFFSET +
  RFCOMM_CTRL_FRAME_LEN\<close>, with its length in the header, and sent on DLCI 0.
\<close>

definition mx_start :: "bt_hdr \<Rightarrow> bytes \<Rightarrow> bt_hdr outcome" where
  "mx_start p bs =
     put_bytes (p\<lparr>bh_offset := L2CAP_MIN_OFFSET + RFCOMM_CTRL_FRAME_LEN\<rparr>)
       (L2CAP_MIN_OFFSET + RFCOMM_CTRL_FRAME_LEN) bs"

definition rfc_send_pn ::
    "congestion \<Rightarrow> bt_hdr option \<Rightarrow> mx_frame \<Rightarrow> rfc_mcb \<Rightarrow> u8 \<Rightarrow> bool \<Rightarrow> u16 \<Rightarrow> u8 \<Rightarrow> u8 \<Rightarrow>
     rfc_mcb outcome" where
  "rfc_send_pn lc buf rx m dlci is_command mtu cl k = (case buf of
     None \<Rightarrow> Returns m
   | Some p \<Rightarrow>
       obind (mx_start p
         [RFCOMM_EA OR RFCOMM_I_CR is_command OR RFCOMM_MX_PN,
          RFCOMM_EA OR push_bit 1 RFCOMM_MX_PN_LEN,
          dlci, 0 OR cl,
          (if is_command then 0 else pn_priority rx),
          0, ucast (mtu AND 0xFF), ucast (drop_bit 8 mtu), 0, k]) (\<lambda>p.
       rfc_send_buf_uih lc m RFCOMM_MX_DLCI (p\<lparr>bh_len := RFCOMM_MX_PN_LEN + 2\<rparr>)))"

definition rfc_send_fcon ::
    "congestion \<Rightarrow> bt_hdr option \<Rightarrow> rfc_mcb \<Rightarrow> bool \<Rightarrow> rfc_mcb outcome" where
  "rfc_send_fcon lc buf m is_command = (case buf of
     None \<Rightarrow> Returns m
   | Some p \<Rightarrow>
       obind (mx_start p
         [RFCOMM_EA OR RFCOMM_I_CR is_command OR RFCOMM_MX_FCON,
          RFCOMM_EA OR push_bit 1 RFCOMM_MX_FCON_LEN]) (\<lambda>p.
       rfc_send_buf_uih lc m RFCOMM_MX_DLCI (p\<lparr>bh_len := RFCOMM_MX_FCON_LEN + 2\<rparr>)))"

definition rfc_send_fcoff ::
    "congestion \<Rightarrow> bt_hdr option \<Rightarrow> rfc_mcb \<Rightarrow> bool \<Rightarrow> rfc_mcb outcome" where
  "rfc_send_fcoff lc buf m is_command = (case buf of
     None \<Rightarrow> Returns m
   | Some p \<Rightarrow>
       obind (mx_start p
         [RFCOMM_EA OR RFCOMM_I_CR is_command OR RFCOMM_MX_FCOFF,
          RFCOMM_EA OR push_bit 1 RFCOMM_MX_FCOFF_LEN]) (\<lambda>p.
       rfc_send_buf_uih lc m RFCOMM_MX_DLCI (p\<lparr>bh_len := RFCOMM_MX_FCOFF_LEN + 2\<rparr>)))"

definition rfc_send_msc ::
    "congestion \<Rightarrow> bt_hdr option \<Rightarrow> rfc_mcb \<Rightarrow> u8 \<Rightarrow> bool \<Rightarrow> port_ctrl \<Rightarrow> rfc_mcb outcome" where
  "rfc_send_msc lc buf m dlci is_command pars =
     (let signals = ctl_modem_signal pars; break_duration = ctl_break_signal pars in
      case buf of None \<Rightarrow> Returns m
      | Some p \<Rightarrow>
          let len = (if break_duration \<noteq> 0 then RFCOMM_MX_MSC_LEN_WITH_BREAK
                     else RFCOMM_MX_MSC_LEN_NO_BREAK) :: u8 in
          obind (mx_start p
            ([RFCOMM_EA OR RFCOMM_I_CR is_command OR RFCOMM_MX_MSC,
              RFCOMM_EA OR push_bit 1 len,
              RFCOMM_EA OR RFCOMM_CR_MASK OR push_bit RFCOMM_SHIFT_DLCI dlci,
              RFCOMM_EA OR (if ctl_fc pars then 0x02 else 0)
                OR (if signals AND 0x01 \<noteq> 0 then 0x04 else 0)
                OR (if signals AND 0x02 \<noteq> 0 then 0x08 else 0)
                OR (if signals AND 0x04 \<noteq> 0 then 0x40 else 0)
                OR (if signals AND 0x08 \<noteq> 0 then 0x80 else 0)] @
             (if break_duration \<noteq> 0 then [RFCOMM_EA OR 0x02 OR push_bit 4 break_duration]
              else []))) (\<lambda>p.
          rfc_send_buf_uih lc m RFCOMM_MX_DLCI (p\<lparr>bh_len := ucast len + 2\<rparr>)))"

definition rfc_send_rls ::
    "congestion \<Rightarrow> bt_hdr option \<Rightarrow> rfc_mcb \<Rightarrow> u8 \<Rightarrow> bool \<Rightarrow> u8 \<Rightarrow> rfc_mcb outcome" where
  "rfc_send_rls lc buf m dlci is_command status = (case buf of
     None \<Rightarrow> Returns m
   | Some p \<Rightarrow>
       obind (mx_start p
         [RFCOMM_EA OR RFCOMM_I_CR is_command OR RFCOMM_MX_RLS,
          RFCOMM_EA OR push_bit 1 RFCOMM_MX_RLS_LEN,
          RFCOMM_EA OR RFCOMM_CR_MASK OR push_bit RFCOMM_SHIFT_DLCI dlci,
          RFCOMM_RLS_ERROR OR status]) (\<lambda>p.
       rfc_send_buf_uih lc m RFCOMM_MX_DLCI (p\<lparr>bh_len := RFCOMM_MX_RLS_LEN + 2\<rparr>)))"

definition rfc_send_nsc ::
    "congestion \<Rightarrow> bt_hdr option \<Rightarrow> mx_frame \<Rightarrow> rfc_mcb \<Rightarrow> rfc_mcb outcome" where
  "rfc_send_nsc lc buf rx m = (case buf of
     None \<Rightarrow> Returns m
   | Some p \<Rightarrow>
       obind (mx_start p
         [RFCOMM_EA OR RFCOMM_I_CR False OR RFCOMM_MX_NSC,
          RFCOMM_EA OR push_bit 1 RFCOMM_MX_NSC_LEN,
          mf_ea rx OR push_bit RFCOMM_SHIFT_CR (mf_cr rx) OR mf_type rx]) (\<lambda>p.
       rfc_send_buf_uih lc m RFCOMM_MX_DLCI (p\<lparr>bh_len := RFCOMM_MX_NSC_LEN + 2\<rparr>)))"

definition rfc_send_rpn ::
    "congestion \<Rightarrow> bt_hdr option \<Rightarrow> rfc_mcb \<Rightarrow> u8 \<Rightarrow> bool \<Rightarrow> port_state option \<Rightarrow> u16 \<Rightarrow>
     rfc_mcb outcome" where
  "rfc_send_rpn lc buf m dlci is_command p_pars pmask = (case buf of
     None \<Rightarrow> Returns m
   | Some p \<Rightarrow> (case p_pars of
       None \<Rightarrow>
         obind (mx_start p
           [RFCOMM_EA OR RFCOMM_I_CR is_command OR RFCOMM_MX_RPN,
            RFCOMM_EA OR push_bit 1 RFCOMM_MX_RPN_REQ_LEN,
            RFCOMM_EA OR RFCOMM_CR_MASK OR push_bit RFCOMM_SHIFT_DLCI dlci]) (\<lambda>p.
         rfc_send_buf_uih lc m RFCOMM_MX_DLCI (p\<lparr>bh_len := RFCOMM_MX_RPN_REQ_LEN + 2\<rparr>))
     | Some pars \<Rightarrow>
         obind (mx_start p
           [RFCOMM_EA OR RFCOMM_I_CR is_command OR RFCOMM_MX_RPN,
            RFCOMM_EA OR push_bit 1 RFCOMM_MX_RPN_LEN,
            RFCOMM_EA OR RFCOMM_CR_MASK OR push_bit RFCOMM_SHIFT_DLCI dlci,
            ps_baud_rate pars,
            push_bit 0 (ps_byte_size pars) OR push_bit 2 (ps_stop_bits pars)
              OR push_bit 3 (ps_parity pars) OR push_bit 4 (ps_parity_type pars),
            ps_fc_type pars, ps_xon_char pars, ps_xoff_char pars,
            ucast (pmask AND 0xFF), ucast (drop_bit 8 pmask)]) (\<lambda>p.
         rfc_send_buf_uih lc m RFCOMM_MX_DLCI (p\<lparr>bh_len := RFCOMM_MX_RPN_LEN + 2\<rparr>))))"

text \<open>
  The reply to a TEST command.  \<open>memcpy\<close> copies header, offset and payload of \<open>p_buf\<close> into the new
  buffer; the loop then moves the payload up, byte by byte from its end.
\<close>

fun move_up :: "nat \<Rightarrow> nat \<Rightarrow> nat \<Rightarrow> bytes \<Rightarrow> bytes option" where
  "move_up 0 src dest d = Some d"
| "move_up (Suc n) src dest d = do {
     b \<leftarrow> rd d (src + n);
     d \<leftarrow> write_at d (dest + n) [b];
     move_up n src dest d }"

definition rfc_send_test ::
    "congestion \<Rightarrow> bt_hdr option \<Rightarrow> rfc_mcb \<Rightarrow> bool \<Rightarrow> bt_hdr \<Rightarrow> rfc_mcb outcome" where
  "rfc_send_test lc buf m is_command p_buf = (case buf of
     None \<Rightarrow> Returns m
   | Some new \<Rightarrow>
       let n = unat (bh_offset p_buf) + unat (bh_len p_buf) in
       obind (or_assert (read_at (bh_data p_buf) 0 n)) (\<lambda>src.
       obind (put_bytes (p_buf\<lparr>bh_data := bh_data new\<rparr>) 0 src) (\<lambda>p.
       obind (if bh_offset p < L2CAP_MIN_OFFSET + RFCOMM_MIN_OFFSET + 2
              then obind (or_assert (move_up (unat (bh_len p)) (unat (bh_offset p))
                                       (L2CAP_MIN_OFFSET + RFCOMM_MIN_OFFSET + 2) (bh_data p)))
                     (\<lambda>d. Returns (p\<lparr>bh_data := d,
                                    bh_offset := L2CAP_MIN_OFFSET + RFCOMM_MIN_OFFSET + 2\<rparr>))
              else Returns p) (\<lambda>p.
       let p = p\<lparr>bh_offset := bh_offset p - 2\<rparr> in
       obind (put_bytes p (unat (bh_offset p))
         [RFCOMM_EA OR RFCOMM_I_CR is_command OR RFCOMM_MX_TEST,
          RFCOMM_EA OR ucast (push_bit 1 (bh_len p))]) (\<lambda>p.
       rfc_send_buf_uih lc m RFCOMM_MX_DLCI (p\<lparr>bh_len := bh_len p + 2\<rparr>))))))"

end
