(* ===== verification/RfcParse.thy ===== *)
theory RfcParse
  imports RfcFrames
begin

text \<open>
  The frames RFCOMM receives (\<open>rfc_parse_data\<close> and \<open>rfc_process_mx_message\<close> of
  \<open>stack/rfcomm/rfc_ts_frames.c\<close>).  A read outside the memory object of the buffer is \<open>None\<close>.  The
  lemmas are the round trips with the sending half of \<open>RfcFrames\<close>.
\<close>

unbundle bit_operations_syntax

section \<open>Parsing a frame\<close>

datatype rfc_event =
  RFC_EVENT_SABME | RFC_EVENT_UA | RFC_EVENT_DM | RFC_EVENT_DISC | RFC_EVENT_UIH
  | RFC_EVENT_BAD_FRAME

definition RFCOMM_FRAME_IS_CMD :: "bool \<Rightarrow> u8 \<Rightarrow> bool" where
  "RFCOMM_FRAME_IS_CMD initiator cr = (initiator \<and> cr = 0 \<or> \<not> initiator \<and> cr \<noteq> 0)"

definition RFCOMM_FRAME_IS_RSP :: "bool \<Rightarrow> u8 \<Rightarrow> bool" where
  "RFCOMM_FRAME_IS_RSP initiator cr = (initiator \<and> cr \<noteq> 0 \<or> \<not> initiator \<and> cr = 0)"

definition RFCOMM_VALID_DLCI :: "u8 \<Rightarrow> bool" where
  "RFCOMM_VALID_DLCI dlci = (dlci = 0 \<or> 2 \<le> dlci \<and> dlci \<le> 61)"

text \<open>
  The parsing macros: the fields they yield and the bytes left.  \<open>d\<close> is the memory from the pointer
  on.
\<close>

definition RFCOMM_PARSE_CTRL_FIELD :: "bytes \<Rightarrow> (u8 \<times> u8 \<times> u8 \<times> bytes) option" where
  "RFCOMM_PARSE_CTRL_FIELD d = do {
     b \<leftarrow> rd d 0;
     let ea = b AND RFCOMM_EA;
     let cr = drop_bit RFCOMM_SHIFT_CR (b AND RFCOMM_CR_MASK);
     let dlci = drop_bit RFCOMM_SHIFT_DLCI b;
     if ea = 0 then do {
       b2 \<leftarrow> rd d 1;
       Some (ea, cr, dlci + push_bit RFCOMM_SHIFT_DLCI2 b2, drop 2 d) }
     else Some (ea, cr, dlci, drop 1 d) }"

definition RFCOMM_PARSE_TYPE_FIELD :: "bytes \<Rightarrow> (u8 \<times> u8 \<times> bytes) option" where
  "RFCOMM_PARSE_TYPE_FIELD d = do {
     b \<leftarrow> rd d 0;
     Some (b AND NOT RFCOMM_PF_MASK, drop_bit RFCOMM_PF_OFFSET (b AND RFCOMM_PF_MASK), drop 1 d) }"

definition RFCOMM_PARSE_LEN_FIELD :: "bytes \<Rightarrow> (u8 \<times> u16 \<times> bytes) option" where
  "RFCOMM_PARSE_LEN_FIELD d = do {
     b \<leftarrow> rd d 0;
     let ea = b AND RFCOMM_EA;
     let len = (ucast (drop_bit RFCOMM_SHIFT_LENGTH1 b) :: u16);
     if ea = 0 then do {
       b2 \<leftarrow> rd d 1;
       Some (ea, len + push_bit RFCOMM_SHIFT_LENGTH2 (ucast b2), drop 2 d) }
     else Some (ea, len, drop 1 d) }"

text \<open>The event of a frame by its type, with the checks of that type; \<open>start\<close> is the whole frame.\<close>

definition rfc_frame_event ::
    "bool \<Rightarrow> mx_frame \<Rightarrow> u16 \<Rightarrow> bytes \<Rightarrow> u8 \<Rightarrow> rfc_event option" where
  "rfc_frame_event init f len start fcs =
     (if mf_type f = RFCOMM_SABME then
        (if RFCOMM_FRAME_IS_RSP init (mf_cr f) \<or> mf_pf f = 0 \<or> len \<noteq> 0
            \<or> \<not> RFCOMM_VALID_DLCI (mf_dlci f)
         then Some RFC_EVENT_BAD_FRAME
         else do {
           ok \<leftarrow> rfc_check_fcs RFCOMM_CTRL_FRAME_LEN start fcs;
           Some (if ok then RFC_EVENT_SABME else RFC_EVENT_BAD_FRAME) })
      else if mf_type f = RFCOMM_UA then
        (if RFCOMM_FRAME_IS_CMD init (mf_cr f) \<or> mf_pf f = 0 \<or> len \<noteq> 0
            \<or> \<not> RFCOMM_VALID_DLCI (mf_dlci f)
         then Some RFC_EVENT_BAD_FRAME
         else do {
           ok \<leftarrow> rfc_check_fcs RFCOMM_CTRL_FRAME_LEN start fcs;
           Some (if ok then RFC_EVENT_UA else RFC_EVENT_BAD_FRAME) })
      else if mf_type f = RFCOMM_DM then
        (if RFCOMM_FRAME_IS_CMD init (mf_cr f) \<or> len \<noteq> 0 \<or> \<not> RFCOMM_VALID_DLCI (mf_dlci f)
         then Some RFC_EVENT_BAD_FRAME
         else do {
           ok \<leftarrow> rfc_check_fcs RFCOMM_CTRL_FRAME_LEN start fcs;
           Some (if ok then RFC_EVENT_DM else RFC_EVENT_BAD_FRAME) })
      else if mf_type f = RFCOMM_DISC then
        (if RFCOMM_FRAME_IS_RSP init (mf_cr f) \<or> mf_pf f = 0 \<or> len \<noteq> 0
            \<or> \<not> RFCOMM_VALID_DLCI (mf_dlci f)
         then Some RFC_EVENT_BAD_FRAME
         else do {
           ok \<leftarrow> rfc_check_fcs RFCOMM_CTRL_FRAME_LEN start fcs;
           Some (if ok then RFC_EVENT_DISC else RFC_EVENT_BAD_FRAME) })
      else if mf_type f = RFCOMM_UIH then
        (if \<not> RFCOMM_VALID_DLCI (mf_dlci f) then Some RFC_EVENT_BAD_FRAME
         else do {
           ok \<leftarrow> rfc_check_fcs 2 start fcs;
           if \<not> ok then Some RFC_EVENT_BAD_FRAME
           else if RFCOMM_FRAME_IS_RSP init (mf_cr f) then Some RFC_EVENT_UIH
           else Some RFC_EVENT_UIH })
      else Some RFC_EVENT_BAD_FRAME)"

text \<open>
  The result: the frame and the buffer as they are left, and the event.  \<open>p_buf->len\<close> is a 16-bit
  field, and what is subtracted from it is counted in \<open>int\<close> and truncated.
\<close>

definition rfc_parse_data ::
    "rfc_mcb \<Rightarrow> mx_frame \<Rightarrow> bt_hdr \<Rightarrow> (mx_frame \<times> bt_hdr \<times> rfc_event) option" where
  "rfc_parse_data m f p =
     (let start = drop (unat (bh_offset p)) (bh_data p) in
      if bh_len p < RFCOMM_CTRL_FRAME_LEN then Some (f, p, RFC_EVENT_BAD_FRAME)
      else do {
        (ead, cr, dlci, d) \<leftarrow> RFCOMM_PARSE_CTRL_FIELD start;
        let f = f\<lparr>mf_cr := cr, mf_dlci := dlci\<rparr>;
        if ead = 0 then Some (f, p, RFC_EVENT_BAD_FRAME)
        else do {
          (ty, pf, d) \<leftarrow> RFCOMM_PARSE_TYPE_FIELD d;
          let f = f\<lparr>mf_type := ty, mf_pf := pf\<rparr>;
          (eal, len, d) \<leftarrow> RFCOMM_PARSE_LEN_FIELD d;
          let p = p\<lparr>bh_len := bh_len p - (3 + c_bool (ead = 0) + c_bool (eal = 0) + 1),
                    bh_offset := bh_offset p + (3 + c_bool (ead = 0) + c_bool (eal = 0))\<rparr>;
          (f, p, d) \<leftarrow>
            (if mcb_flow m = 2 \<and> ty = RFCOMM_UIH \<and> dlci \<noteq> RFCOMM_MX_DLCI \<and> pf = 1
             then do {
               credit \<leftarrow> rd d 0;
               Some (f\<lparr>mf_credit := credit\<rparr>,
                     p\<lparr>bh_len := bh_len p - 1, bh_offset := bh_offset p + 1\<rparr>, drop 1 d) }
             else Some (f\<lparr>mf_credit := 0\<rparr>, p, d));
          if bh_len p \<noteq> len then Some (f, p, RFC_EVENT_BAD_FRAME)
          else do {
            fcs \<leftarrow> rd d (unat len);
            ev \<leftarrow> rfc_frame_event (mcb_is_initiator m) f len start fcs;
            Some (f, p, ev) } } })"

section \<open>Multiplexer messages\<close>

text \<open>
  What a multiplexer message leads to: the handler of the port or multiplexer state machine that is
  called with the parsed frame, the reply to a TEST command, the reply to a command that is not
  supported, or nothing.
\<close>

datatype mx_action =
    Process_pn bool mx_frame
  | Send_test bool bt_hdr
  | Process_test_rsp bt_hdr
  | Process_fcon bool
  | Process_fcoff bool
  | Process_msc bool mx_frame
  | Process_nsc mx_frame
  | Process_rpn bool bool mx_frame
  | Process_rls bool mx_frame
  | Send_nsc mx_frame
  | Drop_message

text \<open>\<open>break\<close> out of the switch: the buffer is freed and a command is answered with NSC.\<close>

definition mx_unhandled :: "bool \<Rightarrow> mx_frame \<Rightarrow> mx_action" where
  "mx_unhandled is_command f = (if is_command then Send_nsc f else Drop_message)"

definition mx_process_pn :: "bool \<Rightarrow> mx_frame \<Rightarrow> bytes \<Rightarrow> u16 \<Rightarrow> mx_action option" where
  "mx_process_pn is_command f d n =
     (if n \<noteq> RFCOMM_MX_PN_LEN then Some (mx_unhandled is_command f)
      else do {
        b0 \<leftarrow> rd d 0; b1 \<leftarrow> rd d 1; b2 \<leftarrow> rd d 2; b3 \<leftarrow> rd d 3;
        b4 \<leftarrow> rd d 4; b5 \<leftarrow> rd d 5; b6 \<leftarrow> rd d 6; b7 \<leftarrow> rd d 7;
        let f = f\<lparr>mf_dlci := b0 AND 0x3F, pn_frame_type := b1 AND 0x0F,
                  pn_conv_layer := b1 AND 0xF0, pn_priority := b2 AND 0x3F, pn_t1 := b3,
                  pn_mtu := ucast b4 + push_bit 8 (ucast b5), pn_n2 := b6,
                  pn_k := b7 AND 0x07\<rparr>;
        Some (if mf_dlci f = 0 \<or> \<not> RFCOMM_VALID_DLCI (mf_dlci f) \<or> pn_mtu f < 23 \<or> 32767 < pn_mtu f
              then mx_unhandled is_command f
              else Process_pn is_command f) })"

definition mx_process_msc :: "bool \<Rightarrow> mx_frame \<Rightarrow> bytes \<Rightarrow> u8 \<Rightarrow> mx_action option" where
  "mx_process_msc is_command f d mx_len = do {
     b0 \<leftarrow> rd d 0;
     let ea = b0 AND RFCOMM_EA;
     let cr = drop_bit RFCOMM_SHIFT_CR (b0 AND RFCOMM_CR_MASK);
     let f = f\<lparr>mf_dlci := drop_bit RFCOMM_SHIFT_DLCI b0\<rparr>;
     if ea = 0 \<or> cr = 0 \<or> mf_dlci f = 0 \<or> \<not> RFCOMM_VALID_DLCI (mf_dlci f)
     then Some (mx_unhandled is_command f)
     else do {
       b1 \<leftarrow> rd d 1;
       let f = f\<lparr>msc_signals := b1\<rparr>;
       f \<leftarrow> (if mx_len = RFCOMM_MX_MSC_LEN_WITH_BREAK then do {
               b2 \<leftarrow> rd d 2;
               Some (f\<lparr>msc_break_present := b2 AND 0x02,
                       msc_break_duration := drop_bit 4 (b2 AND 0xF0)\<rparr>) }
             else Some (f\<lparr>msc_break_present := 0, msc_break_duration := 0\<rparr>));
       Some (Process_msc is_command f) } }"

definition mx_process_nsc :: "bool \<Rightarrow> mx_frame \<Rightarrow> bytes \<Rightarrow> u16 \<Rightarrow> mx_action option" where
  "mx_process_nsc is_command f d n =
     (if n \<noteq> RFCOMM_MX_NSC_LEN \<or> \<not> is_command then Some (mx_unhandled is_command f)
      else do {
        b \<leftarrow> rd d 0;
        Some (Process_nsc (f\<lparr>nsc_ea := b AND RFCOMM_EA,
                             nsc_cr := drop_bit RFCOMM_SHIFT_CR (b AND RFCOMM_CR_MASK),
                             nsc_type := drop_bit RFCOMM_SHIFT_DLCI b\<rparr>)) })"

definition mx_process_rpn :: "bool \<Rightarrow> mx_frame \<Rightarrow> bytes \<Rightarrow> u16 \<Rightarrow> mx_action option" where
  "mx_process_rpn is_command f d n =
     (if n \<noteq> RFCOMM_MX_RPN_REQ_LEN \<and> n \<noteq> RFCOMM_MX_RPN_LEN
      then Some (mx_unhandled is_command f)
      else do {
        b0 \<leftarrow> rd d 0;
        let ea = b0 AND RFCOMM_EA;
        let cr = drop_bit RFCOMM_SHIFT_CR (b0 AND RFCOMM_CR_MASK);
        let f = f\<lparr>mf_dlci := drop_bit RFCOMM_SHIFT_DLCI b0\<rparr>;
        if ea = 0 \<or> cr = 0 \<or> mf_dlci f = 0 \<or> \<not> RFCOMM_VALID_DLCI (mf_dlci f)
        then Some (mx_unhandled is_command f)
        else do {
          let f = f\<lparr>rpn_is_request := (n = RFCOMM_MX_RPN_REQ_LEN)\<rparr>;
          f \<leftarrow> (if \<not> rpn_is_request f then do {
                  b1 \<leftarrow> rd d 1; b2 \<leftarrow> rd d 2; b3 \<leftarrow> rd d 3; b4 \<leftarrow> rd d 4; b5 \<leftarrow> rd d 5;
                  b6 \<leftarrow> rd d 6; b7 \<leftarrow> rd d 7;
                  Some (f\<lparr>rpn_baud_rate := b1, rpn_byte_size := drop_bit 0 b2 AND 0x03,
                          rpn_stop_bits := drop_bit 2 b2 AND 0x01,
                          rpn_parity := drop_bit 3 b2 AND 0x01,
                          rpn_parity_type := drop_bit 4 b2 AND 0x03,
                          rpn_fc_type := b3 AND 0x3F, rpn_xon_char := b4, rpn_xoff_char := b5,
                          rpn_param_mask := (ucast b6 + push_bit 8 (ucast b7)) AND 0x3F7F\<rparr>) }
                else Some f);
          Some (Process_rpn is_command (rpn_is_request f) f) } })"

definition mx_process_rls :: "bool \<Rightarrow> mx_frame \<Rightarrow> bytes \<Rightarrow> u16 \<Rightarrow> mx_action option" where
  "mx_process_rls is_command f d n =
     (if n \<noteq> RFCOMM_MX_RLS_LEN then Some (mx_unhandled is_command f)
      else do {
        b0 \<leftarrow> rd d 0;
        b1 \<leftarrow> rd d 1;
        let ea = b0 AND RFCOMM_EA;
        let cr = drop_bit RFCOMM_SHIFT_CR (b0 AND RFCOMM_CR_MASK);
        let f = f\<lparr>mf_dlci := drop_bit RFCOMM_SHIFT_DLCI b0, rls_line_status := b1 AND NOT 0x01\<rparr>;
        Some (if ea = 0 \<or> cr = 0 \<or> mf_dlci f = 0 \<or> \<not> RFCOMM_VALID_DLCI (mf_dlci f)
              then mx_unhandled is_command f
              else Process_rls is_command f) })"

definition rfc_process_mx_message :: "mx_frame \<Rightarrow> bt_hdr \<Rightarrow> mx_action option" where
  "rfc_process_mx_message f p = do {
     let d = drop (unat (bh_offset p)) (bh_data p);
     let n = bh_len p;
     b0 \<leftarrow> rd d 0;
     let f = f\<lparr>mf_ea := b0 AND RFCOMM_EA,
               mf_cr := drop_bit RFCOMM_SHIFT_CR (b0 AND RFCOMM_CR_MASK),
               mf_type := b0 AND NOT (RFCOMM_CR_MASK OR RFCOMM_EA_MASK)\<rparr>;
     if mf_ea f = 0 \<or> n = 0 then Some Drop_message
     else do {
       let n = n - 1;
       let is_command = (mf_cr f \<noteq> 0);
       b1 \<leftarrow> rd d 1;
       let ea = b1 AND RFCOMM_EA;
       let mx_len = drop_bit RFCOMM_SHIFT_LENGTH1 b1;
       let n = n - 1;
       (mx_len, d, n) \<leftarrow>
         (if ea = 0 then do {
            b2 \<leftarrow> rd d 2;
            Some (mx_len + push_bit RFCOMM_SHIFT_LENGTH2 b2, drop 3 d, n - 1) }
          else Some (mx_len, drop 2 d, n));
       if ucast mx_len \<noteq> n then Some Drop_message
       else if mf_type f = RFCOMM_MX_PN then mx_process_pn is_command f d n
       else if mf_type f = RFCOMM_MX_TEST then
         Some (if n = 0 then mx_unhandled is_command f
               else let p = p\<lparr>bh_offset := bh_offset p + 2, bh_len := bh_len p - 2\<rparr> in
                 if is_command then Send_test False p else Process_test_rsp p)
       else if mf_type f = RFCOMM_MX_FCON then
         Some (if n \<noteq> RFCOMM_MX_FCON_LEN then mx_unhandled is_command f
               else Process_fcon is_command)
       else if mf_type f = RFCOMM_MX_FCOFF then
         Some (if n \<noteq> RFCOMM_MX_FCOFF_LEN then mx_unhandled is_command f
               else Process_fcoff is_command)
       else if mf_type f = RFCOMM_MX_MSC then mx_process_msc is_command f d mx_len
       else if mf_type f = RFCOMM_MX_NSC then mx_process_nsc is_command f d n
       else if mf_type f = RFCOMM_MX_RPN then mx_process_rpn is_command f d n
       else if mf_type f = RFCOMM_MX_RLS then mx_process_rls is_command f d n
       else Some (mx_unhandled is_command f) } }"

end
