(* ===== verification/RfcRoundTrip.thy ===== *)
theory RfcRoundTrip
  imports RfcParse
begin

text \<open>
  What one RFCOMM entity sends is what its peer parses: the lemmas that compute the bytes of every
  frame and multiplexer message of \<open>RfcFrames\<close> and run the parser of \<open>RfcParse\<close> over them, the order
  in which the command queue is emptied, and the properties of the two directions together.
\<close>

unbundle bit_operations_syntax

section \<open>Writing frames\<close>

lemma put_bytes_fits:
  "i + length bs \<le> length (bh_data p) \<Longrightarrow>
   put_bytes p i bs =
     Returns (p\<lparr>bh_data := take i (bh_data p) @ bs @ drop (i + length bs) (bh_data p)\<rparr>)"
  by (simp add: put_bytes_def write_at_def)

lemma put_frame:
  assumes fits: "i + length hdr + length pl + 1 \<le> length (bh_data p)"
    and pl: "take (length pl) (drop (i + length hdr) (bh_data p)) = pl"
    and n: "n \<le> length hdr" and j: "j = i + length hdr + length pl"
  shows "\<exists>d. obind (put_bytes p i hdr) (\<lambda>p.
           obind (or_assert (rfc_calc_fcs n (drop i (bh_data p)))) (\<lambda>fcs.
           obind (put_bytes p j [fcs]) k)) = k (p\<lparr>bh_data := d\<rparr>) \<and>
         length d = length (bh_data p) \<and>
         take (length hdr + length pl + 1) (drop i d) = hdr @ pl @ [crc_spec (take n hdr)]"
proof -
  let ?d = "take i (bh_data p) @ hdr @ drop (i + length hdr) (bh_data p)"
  let ?e = "take j ?d @ [crc_spec (take n hdr)] @ drop (j + 1) ?d"
  have rest: "drop (i + length hdr) (bh_data p) = pl @ drop j (bh_data p)"
    using pl append_take_drop_id [of "length pl" "drop (i + length hdr) (bh_data p)"]
    by (simp add: j add.commute add.left_commute)
  have e: "?e = take i (bh_data p) @ hdr @ pl @ [crc_spec (take n hdr)] @ drop (j + 1) (bh_data p)"
    using fits by (simp add: rest j)
  have "obind (put_bytes p i hdr) (\<lambda>p.
           obind (or_assert (rfc_calc_fcs n (drop i (bh_data p)))) (\<lambda>fcs.
           obind (put_bytes p j [fcs]) k)) = k (p\<lparr>bh_data := ?e\<rparr>)"
    using fits n j by (simp add: put_bytes_fits rfc_calc_fcs_crc le_diff_conv2 add_increasing)
  moreover have "take (length hdr + length pl + 1) (drop i ?e) = hdr @ pl @ [crc_spec (take n hdr)]"
    using fits unfolding e by simp
  moreover have "length ?e = length (bh_data p)"
    using fits by (simp add: j)
  ultimately show ?thesis
    by blast
qed

lemma len1:
  "(L :: u16) \<le> 127 \<Longrightarrow> ucast (drop_bit 1 (1 OR ucast (push_bit 1 L) :: u8)) = L \<and>
     (1 OR ucast (push_bit 1 L) :: u8) AND 1 = 1"
  by (auto simp: word_unat_eq_iff unsigned_ucast_eq unsigned_drop_bit_eq unsigned_push_bit_eq drop_bit_eq_div push_bit_eq_mult take_bit_eq_mod unat_word_ariths unsigned_and_eq unsigned_or_eq word_le_nat_alt Suc_0_or_eq)

lemma len2:
  assumes "(L :: u16) \<le> 32767"
  shows "(ucast (drop_bit 1 (ucast (push_bit 1 (L AND 0x7f)) :: u8)) :: u16) +
     push_bit 7 (ucast (ucast (drop_bit 7 L) :: u8)) = L \<and>
     (ucast (push_bit 1 (L AND 0x7f)) :: u8) AND 1 = 0"
proof -
  have m: "(0x7f :: u16) = mask 7" by (simp add: mask_eq_exp_minus_1)
  have "unat L \<le> 32767" using assms by (simp add: word_le_nat_alt)
  then show ?thesis unfolding m
    by (auto simp: word_unat_eq_iff unsigned_ucast_eq unsigned_drop_bit_eq unsigned_push_bit_eq drop_bit_eq_div push_bit_eq_mult take_bit_eq_mod unat_word_ariths unsigned_and_eq simp flip: take_bit_eq_mask)
qed

text \<open>Two buffers that carry the same packet.\<close>

definition carries :: "bt_hdr \<Rightarrow> bytes \<Rightarrow> bool" where
  "carries p bs \<longleftrightarrow>
     unat (bh_len p) = length bs \<and> take (unat (bh_len p)) (drop (unat (bh_offset p)) (bh_data p)) = bs"

lemma carries_mem:
  assumes "carries p bs"
  obtains rest where "drop (unat (bh_offset p)) (bh_data p) = bs @ rest"
  using assms append_take_drop_id [of "length bs" "drop (unat (bh_offset p)) (bh_data p)"]
  unfolding carries_def by metis

definition ctrl_frame :: "bool \<Rightarrow> bool \<Rightarrow> u8 \<Rightarrow> u8 \<Rightarrow> bytes" where
  "ctrl_frame initiator is_command dlci ty =
     (let h = [RFCOMM_EA OR RFCOMM_CR initiator is_command OR push_bit RFCOMM_SHIFT_DLCI dlci, ty, 1]
      in h @ [crc_spec h])"

lemmas put_ctrl = put_frame [of 13 _ "[]"]

lemma put_ctrl3:
  assumes "17 \<le> length (bh_data p)"
  shows "\<exists>d. obind (put_bytes p 13 [a, b, c]) (\<lambda>p.
           obind (or_assert (rfc_calc_fcs 3 (drop 13 (bh_data p)))) (\<lambda>fcs.
           obind (put_bytes p 16 [fcs]) k)) = k (p\<lparr>bh_data := d\<rparr>) \<and>
         length d = length (bh_data p) \<and>
         take 4 (drop 13 d) = [a, b, c, crc_spec [a, b, c]]"
  using put_frame [of 13 "[a, b, c]" "[]" p 3 16 k] assms
  by (simp del: obind.simps add: eval_nat_numeral)

lemma ctrl_sent:
  assumes "17 \<le> length (bh_data b)"
  shows "\<exists>q. obind (put_bytes (b\<lparr>bh_offset := 13\<rparr>) 13 [a, t, RFCOMM_EA OR 0]) (\<lambda>p.
           obind (or_assert (rfc_calc_fcs 3 (drop 13 (bh_data p)))) (\<lambda>fcs.
           obind (put_bytes p (13 + 3) [fcs]) (\<lambda>p. f (p\<lparr>bh_len := 4\<rparr>)))) = f q \<and>
         carries q [a, t, 1, crc_spec [a, t, 1]]"
proof -
  obtain d where d: "obind (put_bytes (b\<lparr>bh_offset := 13\<rparr>) 13 [a, t, 1]) (\<lambda>p.
           obind (or_assert (rfc_calc_fcs 3 (drop 13 (bh_data p)))) (\<lambda>fcs.
           obind (put_bytes p 16 [fcs]) (\<lambda>p. f (p\<lparr>bh_len := 4\<rparr>)))) =
         f (b\<lparr>bh_offset := 13, bh_data := d, bh_len := 4\<rparr>)"
      "take 4 (drop 13 d) = [a, t, 1, crc_spec [a, t, 1]]"
    using put_ctrl3 [of "b\<lparr>bh_offset := 13\<rparr>" a t 1 "\<lambda>p. f (p\<lparr>bh_len := 4\<rparr>)"] assms by auto
  then show ?thesis
    by (intro exI [of _ "b\<lparr>bh_offset := 13, bh_data := d, bh_len := 4\<rparr>"])
      (simp add: carries_def)
qed

lemma ctrl_frames:
  assumes "17 \<le> length (bh_data b)"
  shows "\<exists>q. rfc_send_sabme lc (Some b) m dlci = rfc_check_send_cmd lc m (Some q) \<and>
           carries q (ctrl_frame (mcb_is_initiator m) True dlci (RFCOMM_SABME OR RFCOMM_PF))"
    and "\<exists>q. rfc_send_ua lc (Some b) m dlci = rfc_check_send_cmd lc m (Some q) \<and>
           carries q (ctrl_frame (mcb_is_initiator m) False dlci (RFCOMM_UA OR RFCOMM_PF))"
    and "\<exists>q. rfc_send_dm lc (Some b) m dlci pf = rfc_check_send_cmd lc m (Some q) \<and>
           carries q (ctrl_frame (mcb_is_initiator m) False dlci
             (RFCOMM_DM OR (if pf then RFCOMM_PF else 0)))"
    and "\<exists>q. rfc_send_disc lc (Some b) m dlci = rfc_check_send_cmd lc m (Some q) \<and>
           carries q (ctrl_frame (mcb_is_initiator m) True dlci (RFCOMM_DISC OR RFCOMM_PF))"
  unfolding rfc_send_sabme_def rfc_send_ua_def rfc_send_dm_def rfc_send_disc_def Let_def option.case
    ctrl_frame_def append.simps
  by (rule ctrl_sent [OF assms])+

lemma addr_byte:
  assumes "dlci < 64"
  shows "drop_bit 2 (1 OR RFCOMM_CR i c OR push_bit 2 dlci) = dlci \<and>
     (1 OR RFCOMM_CR i c OR push_bit 2 dlci) AND 1 = 1 \<and>
     drop_bit 1 ((1 OR RFCOMM_CR i c OR push_bit 2 dlci) AND 2) = c_bool (i = c)"
proof -
  have "list_all (\<lambda>d. d < 64 \<longrightarrow> drop_bit 2 (1 OR 2 OR push_bit 2 d) = d \<and>
      drop_bit 2 (1 OR push_bit 2 d) = d \<and>
      (1 OR push_bit 2 d) AND 1 = 1 \<and> (1 OR 2 OR push_bit 2 d) AND 1 = 1 \<and>
      drop_bit 1 ((1 OR push_bit 2 d) AND 2) = 0 \<and>
      drop_bit 1 ((1 OR 2 OR push_bit 2 d) AND 2) = 1) all_bytes"
    unfolding all_bytes_def list.pred_inject by simp
  from all_bytesD [OF this, of dlci] assms show ?thesis
    by (simp add: RFCOMM_CR_def del: drop_bit_and)
qed


lemma valid_dlci_lt: "RFCOMM_VALID_DLCI d \<Longrightarrow> d < 64"
  by (auto simp: RFCOMM_VALID_DLCI_def intro: le_less_trans)

lemma parse_ctrl_frame:
  assumes r: "carries r (ctrl_frame i c dlci t)" and dlci: "dlci < 64"
  shows "\<exists>d0 d1 d2 d3 fcs. drop (unat (bh_offset r)) (bh_data r) = d0 \<and>
    RFCOMM_PARSE_CTRL_FIELD d0 = Some (1, c_bool (i = c), dlci, d1) \<and>
    RFCOMM_PARSE_TYPE_FIELD d1 = Some (t AND NOT 0x10, drop_bit 4 (t AND 0x10), d2) \<and>
    RFCOMM_PARSE_LEN_FIELD d2 = Some (1, 0, d3) \<and>
    rd d3 0 = Some fcs \<and> rfc_check_fcs 3 d0 fcs = Some True \<and> bh_len r = 4"
proof -
  obtain d where d: "drop (unat (bh_offset r)) (bh_data r) = ctrl_frame i c dlci t @ d"
    using carries_mem [OF r] by blast
  have "bh_len r = 4"
    using r by (simp add: carries_def ctrl_frame_def word_unat_eq_iff)
  then show ?thesis
    using d addr_byte [OF dlci, of i c]
    by (intro exI [of _ "ctrl_frame i c dlci t @ d"] exI [of _ "drop 1 (ctrl_frame i c dlci t) @ d"]
        exI [of _ "drop 2 (ctrl_frame i c dlci t) @ d"]
        exI [of _ "drop 3 (ctrl_frame i c dlci t) @ d"]
        exI [of _ "crc_spec (take 3 (ctrl_frame i c dlci t))"])
      (simp add: ctrl_frame_def RFCOMM_PARSE_CTRL_FIELD_def RFCOMM_PARSE_TYPE_FIELD_def
        RFCOMM_PARSE_LEN_FIELD_def rfc_check_fcs_iff Let_def numeral_2_eq_2 numeral_3_eq_3)
qed

lemma parse_sent_ctrl:
  assumes "carries r (ctrl_frame i c dlci (ty OR fin))"
    and dlci: "RFCOMM_VALID_DLCI dlci" and peer: "mcb_is_initiator m' = (\<not> i)"
    and ev: "(ty, fin, c, ev) \<in> {(RFCOMM_SABME, RFCOMM_PF, True, RFC_EVENT_SABME),
                 (RFCOMM_UA, RFCOMM_PF, False, RFC_EVENT_UA),
                 (RFCOMM_DM, RFCOMM_PF, False, RFC_EVENT_DM), (RFCOMM_DM, 0, False, RFC_EVENT_DM),
                 (RFCOMM_DISC, RFCOMM_PF, True, RFC_EVENT_DISC)}"
  shows "\<exists>f' r'. rfc_parse_data m' f r = Some (f', r', ev) \<and> mf_dlci f' = dlci \<and>
           mf_pf f' = drop_bit 4 fin \<and> bh_len r' = 0"
proof -
  obtain d0 d1 d2 d3 fcs where parse: "drop (unat (bh_offset r)) (bh_data r) = d0"
    "RFCOMM_PARSE_CTRL_FIELD d0 = Some (1, c_bool (i = c), dlci, d1)"
    "RFCOMM_PARSE_TYPE_FIELD d1 =
       Some ((ty OR fin) AND NOT 0x10, drop_bit 4 ((ty OR fin) AND 0x10), d2)"
    "RFCOMM_PARSE_LEN_FIELD d2 = Some (1, 0, d3)"
    "rd d3 0 = Some fcs" "rfc_check_fcs 3 d0 fcs = Some True" "bh_len r = 4"
    using parse_ctrl_frame [OF assms(1) valid_dlci_lt [OF dlci]] by blast
  have vals: "(ty OR fin) AND NOT 0x10 = ty" "drop_bit 4 ((ty OR fin) AND 0x10) = drop_bit 4 fin"
    using ev by auto
  from parse(3) have ty: "RFCOMM_PARSE_TYPE_FIELD d1 = Some (ty, drop_bit 4 fin, d2)"
    unfolding vals .
  show ?thesis
    using dlci peer ev
    by (auto simp: rfc_parse_data_def rfc_frame_event_def parse(1,2,4-7) ty Let_def RFCOMM_FRAME_IS_CMD_def
        RFCOMM_FRAME_IS_RSP_def)
qed


section \<open>UIH\<close>

definition uih_credits :: "u8 \<Rightarrow> bt_hdr \<Rightarrow> u8" where
  "uih_credits dlci p = (if dlci \<noteq> 0 then ucast (bh_layer_specific p) else 0)"

definition uih_header :: "bool \<Rightarrow> u8 \<Rightarrow> u8 \<Rightarrow> u16 \<Rightarrow> bytes" where
  "uih_header i dlci credits n =
     [RFCOMM_EA OR RFCOMM_CR i True OR push_bit RFCOMM_SHIFT_DLCI dlci,
      RFCOMM_UIH OR (if credits \<noteq> 0 then RFCOMM_PF else 0)] @
     (if n \<le> 127 then [RFCOMM_EA OR ucast (push_bit 1 n)]
      else [ucast (push_bit 1 (n AND 0x7f)), ucast (drop_bit RFCOMM_SHIFT_LENGTH2 n)]) @
     (if credits \<noteq> 0 then [credits] else [])"

lemma length_uih_header:
  "length (uih_header i dlci credits n) = 3 + of_bool (127 < n) + of_bool (credits \<noteq> 0)"
  by (auto simp: uih_header_def)

lemma unat_sub_le: "k \<le> unat (x :: u16) \<Longrightarrow> unat (x - of_nat k) = unat x - k"
  using u16_lt [of x] by (simp add: unat_sub_if' unat_of_nat)

lemma uih_sent:
  assumes pl: "carries p pl" and len: "bh_len p \<le> 32767"
    and h: "h = uih_header (mcb_is_initiator m) dlci (uih_credits dlci p) (bh_len p)"
    and room: "length h \<le> unat (bh_offset p)" "unat (bh_offset p) + length pl + 1 \<le> length (bh_data p)"
  shows "\<exists>q. rfc_send_buf_uih lc m dlci p =
           (if dlci = 0 then rfc_check_send_cmd lc m (Some q) else Returns (L2CA_DataWrite lc m q)) \<and>
         carries q (h @ pl @ [crc_spec (take 2 h)])"
proof -
  let ?off = "bh_offset p - of_nat (length h)"
  let ?n = "bh_len p + of_nat (length h)"
  let ?p = "p\<lparr>bh_offset := ?off\<rparr>"
  let ?k = "\<lambda>p. let p = p\<lparr>bh_len := ?n + 1\<rparr> in
      if dlci = 0 then rfc_check_send_cmd lc m (Some p) else Returns (L2CA_DataWrite lc m p)"
  have len3: "3 \<le> length h" "length h \<le> 5"
    by (simp_all add: h length_uih_header)
  have off: "unat ?off = unat (bh_offset p) - length h"
    by (rule unat_sub_le [OF room(1)])
  have L: "unat (bh_len p) = length pl" "length pl \<le> 32767"
    using pl len by (auto simp: carries_def word_le_nat_alt)
  have n: "unat ?n = length pl + length h"
    using L len3 by (simp add: unat_word_ariths unat_of_nat)
  have n1: "unat (?n + 1) = length pl + length h + 1"
    using n L len3 by (simp add: unat_word_ariths)
  have send: "rfc_send_buf_uih lc m dlci p =
      obind (put_bytes ?p (unat ?off) h) (\<lambda>p.
      obind (or_assert (rfc_calc_fcs 2 (drop (unat ?off) (bh_data p)))) (\<lambda>fcs.
      obind (put_bytes p (unat ?off + unat ?n) [fcs]) ?k))"
  proof -
    have lt: "127 < bh_len p \<longleftrightarrow> \<not> bh_len p \<le> 127"
      by auto
    show ?thesis
      by (cases "bh_len p \<le> 127"; cases "dlci = 0"; cases "ucast (bh_layer_specific p) = (0 :: u8)")
        (simp_all add: rfc_send_buf_uih_def h uih_header_def uih_credits_def lt Let_def add.commute)
  qed
  obtain d where d: "rfc_send_buf_uih lc m dlci p = ?k (?p\<lparr>bh_data := d\<rparr>)"
      "take (length h + length pl + 1) (drop (unat ?off) d) = h @ pl @ [crc_spec (take 2 h)]"
    using put_frame [of "unat ?off" h pl ?p 2 "unat ?off + unat ?n" ?k] room pl L len3
    by (auto simp: send off n carries_def)
  show ?thesis
    using d n1 by (intro exI [of _ "?p\<lparr>bh_data := d, bh_len := ?n + 1\<rparr>"])
      (simp add: carries_def Let_def add.commute add.left_commute)
qed


lemma parse_len_field:
  assumes "n \<le> 32767"
  shows "RFCOMM_PARSE_LEN_FIELD ((if n \<le> 127 then [RFCOMM_EA OR ucast (push_bit 1 n)]
      else [ucast (push_bit 1 (n AND 0x7f)), ucast (drop_bit RFCOMM_SHIFT_LENGTH2 n)]) @ d) =
    Some (if n \<le> 127 then 1 else 0, n, d)"
  using len1 [of n] len2 [OF assms] by (auto simp: RFCOMM_PARSE_LEN_FIELD_def)

lemma parse_sent_uih:
  assumes r: "carries r (h @ pl @ [crc_spec (take 2 h)])"
    and h: "h = uih_header i dlci credits n"
    and n: "unat n = length pl" "n \<le> 32767" and dlci: "RFCOMM_VALID_DLCI dlci"
    and cred: "credits \<noteq> 0 \<Longrightarrow> dlci \<noteq> 0 \<and> mcb_flow m' = 2"
    and off: "unat (bh_offset r) + length h < 65536"
  shows "\<exists>f' r'. rfc_parse_data m' f r = Some (f', r', RFC_EVENT_UIH) \<and> mf_dlci f' = dlci \<and>
           mf_credit f' = credits \<and> carries r' pl \<and>
           unat (bh_offset r') = unat (bh_offset r) + length h"
proof -
  obtain d where d: "drop (unat (bh_offset r)) (bh_data r) = h @ pl @ [crc_spec (take 2 h)] @ d"
    using carries_mem [OF r] by auto
  have lh: "length h = 3 + of_bool (127 < n) + of_bool (credits \<noteq> 0)"
    by (simp add: h length_uih_header)
  have blen: "bh_len r = n + of_nat (length h) + 1"
    using r n lh by (simp add: carries_def word_unat_eq_iff unat_word_ariths unat_of_nat word_le_nat_alt)
  let ?lenf = "if n \<le> 127 then [RFCOMM_EA OR ucast (push_bit 1 n)]
      else [ucast (push_bit 1 (n AND 0x7f)), ucast (drop_bit RFCOMM_SHIFT_LENGTH2 n)]"
  let ?cred = "if credits \<noteq> 0 then [credits] else []"
  let ?rest = "pl @ [crc_spec (take 2 h)] @ d"
  have parse: "RFCOMM_PARSE_CTRL_FIELD (h @ ?rest) = Some (1, c_bool (i = True), dlci,
      (RFCOMM_UIH OR (if credits \<noteq> 0 then RFCOMM_PF else 0)) # ?lenf @ ?cred @ ?rest)"
    "RFCOMM_PARSE_TYPE_FIELD ((RFCOMM_UIH OR (if credits \<noteq> 0 then RFCOMM_PF else 0)) # ?lenf @ ?cred @ ?rest)
      = Some (RFCOMM_UIH, c_bool (credits \<noteq> 0), ?lenf @ ?cred @ ?rest)"
    "RFCOMM_PARSE_LEN_FIELD (?lenf @ ?cred @ ?rest) = Some (if n \<le> 127 then 1 else 0, n, ?cred @ ?rest)"
    using addr_byte [OF valid_dlci_lt [OF dlci], of i True] parse_len_field [OF n(2)]
    by (simp_all add: h uih_header_def RFCOMM_PARSE_CTRL_FIELD_def RFCOMM_PARSE_TYPE_FIELD_def)
  have fcs: "rfc_check_fcs 2 (h @ ?rest) (crc_spec (take 2 h)) = Some True"
    using lh by (simp add: rfc_check_fcs_iff)
  have fcs_rd: "rd ?rest (unat n) = Some (crc_spec (take 2 h))"
    by (simp add: rd_append n(1))
  have len3: "\<not> bh_len r < 3"
    using r lh by (simp add: carries_def word_less_nat_alt)
  have pl: "take (unat n) (drop (unat (bh_offset r + of_nat (length h))) (bh_data r)) = pl"
  proof -
    have "unat (bh_offset r + of_nat (length h)) = unat (bh_offset r) + length h"
      using off by (simp add: unat_word_ariths unat_of_nat)
    then show ?thesis
      using d n(1) by (simp add: add.commute flip: drop_drop)
  qed
  obtain d0 d1 d2 rest where p: "drop (unat (bh_offset r)) (bh_data r) = d0"
      "RFCOMM_PARSE_CTRL_FIELD d0 = Some (1, c_bool (i = True), dlci, d1)"
      "RFCOMM_PARSE_TYPE_FIELD d1 = Some (RFCOMM_UIH, c_bool (credits \<noteq> 0), d2)"
      "RFCOMM_PARSE_LEN_FIELD d2 = Some (if n \<le> 127 then 1 else 0, n, ?cred @ rest)"
      "rfc_check_fcs 2 d0 (crc_spec (take 2 h)) = Some True"
      "rd rest (unat n) = Some (crc_spec (take 2 h))"
    using d parse fcs fcs_rd by blast
  have lt: "127 < n \<longleftrightarrow> \<not> n \<le> 127"
    by auto
  let ?r = "r\<lparr>bh_len := n, bh_offset := bh_offset r + of_nat (length h)\<rparr>"
  have "\<exists>f'. rfc_parse_data m' f r = Some (f', ?r, RFC_EVENT_UIH) \<and> mf_dlci f' = dlci \<and>
          mf_credit f' = credits"
    using cred dlci len3
    by (cases "credits = 0"; cases "n \<le> 127")
      (simp_all add: rfc_parse_data_def rfc_frame_event_def p Let_def blen lh lt)
  moreover have "carries ?r pl"
    using pl n(1) by (simp add: carries_def)
  moreover have "unat (bh_offset ?r) = unat (bh_offset r) + length h"
    using off by (simp add: unat_word_ariths unat_of_nat)
  ultimately show ?thesis
    by blast
qed


section \<open>Multiplexer messages between peers\<close>

text \<open>A buffer that arrives with the bytes of the one that was sent.\<close>

definition received :: "bt_hdr \<Rightarrow> bt_hdr \<Rightarrow> bool" where
  "received q r \<longleftrightarrow>
     (\<exists>bs. carries q bs \<and> carries r bs) \<and> unat (bh_offset r) + unat (bh_len r) < 65536"

lemma carries_unique: "carries q bs \<Longrightarrow> carries q cs \<Longrightarrow> bs = cs"
  by (auto simp: carries_def)

lemma received_carries: "received q r \<Longrightarrow> carries q bs \<Longrightarrow> carries r bs"
  using carries_unique unfolding received_def by blast

lemma mx_deliver:
  assumes c: "carries p bs" and len: "bh_len p \<le> 32767"
    and room: "4 \<le> unat (bh_offset p)" "unat (bh_offset p) + length bs + 1 \<le> length (bh_data p)"
    and peer: "mcb_is_initiator m' = (\<not> mcb_is_initiator m)"
  shows "\<exists>q. rfc_send_buf_uih lc m 0 p = rfc_check_send_cmd lc m (Some q) \<and>
         (\<forall>r f. received q r \<longrightarrow> (\<exists>f' r'. rfc_parse_data m' f r = Some (f', r', RFC_EVENT_UIH) \<and>
            mf_dlci f' = 0 \<and> carries r' bs \<and> unat (bh_offset r') + length bs < 65535))"
proof -
  let ?h = "uih_header (mcb_is_initiator m) 0 0 (bh_len p)"
  have lh: "length ?h \<le> 4"
    by (simp add: length_uih_header)
  obtain q where q: "rfc_send_buf_uih lc m 0 p = rfc_check_send_cmd lc m (Some q)"
      "carries q (?h @ bs @ [crc_spec (take 2 ?h)])"
    using uih_sent [OF c len refl, of m 0 lc] lh room by (auto simp: uih_credits_def)
  have "\<exists>f' r'. rfc_parse_data m' f r = Some (f', r', RFC_EVENT_UIH) \<and> mf_dlci f' = 0 \<and>
      carries r' bs \<and> unat (bh_offset r') + length bs < 65535" if "received q r" for r f
  proof -
    have r: "carries r (?h @ bs @ [crc_spec (take 2 ?h)])"
      using received_carries [OF that q(2)] .
    have fin: "unat (bh_offset r) + (length ?h + length bs + 1) < 65536"
      using r that by (auto simp: received_def carries_def)
    then have off: "unat (bh_offset r) + length ?h < 65536"
      by simp
    have n: "unat (bh_len p) = length bs"
      using c by (simp add: carries_def)
    have "\<exists>f' r'. rfc_parse_data m' f r = Some (f', r', RFC_EVENT_UIH) \<and> mf_dlci f' = 0 \<and>
        mf_credit f' = 0 \<and> carries r' bs \<and> unat (bh_offset r') = unat (bh_offset r) + length ?h"
      by (rule parse_sent_uih [OF r refl n len _ _ off]) (simp_all add: RFCOMM_VALID_DLCI_def peer)
    then obtain f' r' where "rfc_parse_data m' f r = Some (f', r', RFC_EVENT_UIH)" "mf_dlci f' = 0"
        "carries r' bs" "unat (bh_offset r') = unat (bh_offset r) + length ?h"
      by blast
    then show ?thesis
      using fin by (intro exI [of _ f'] exI [of _ r']) simp
  qed
  then show ?thesis
    using q by blast
qed

lemma mx_sent:
  assumes b: "29 \<le> length (bh_data b)" and bs: "length bs \<le> 10" "unat n = length bs"
    and peer: "mcb_is_initiator m' = (\<not> mcb_is_initiator m)"
  shows "\<exists>q. obind (mx_start b bs) (\<lambda>p. rfc_send_buf_uih lc m 0 (p\<lparr>bh_len := n\<rparr>)) =
           rfc_check_send_cmd lc m (Some q) \<and>
         (\<forall>r f. received q r \<longrightarrow> (\<exists>f' r'. rfc_parse_data m' f r = Some (f', r', RFC_EVENT_UIH) \<and>
            mf_dlci f' = 0 \<and> carries r' bs))"
proof -
  let ?d = "take 16 (bh_data b) @ bs @ drop (16 + length bs) (bh_data b)"
  let ?p = "b\<lparr>bh_offset := 16, bh_data := ?d, bh_len := n\<rparr>"
  have "mx_start b bs = Returns (b\<lparr>bh_offset := 16, bh_data := ?d\<rparr>)"
    using b bs by (simp add: mx_start_def put_bytes_fits)
  moreover have c: "carries ?p bs" and len: "bh_len ?p \<le> 32767"
    using b bs by (simp_all add: carries_def word_le_nat_alt)
  moreover have "4 \<le> unat (bh_offset ?p)" "unat (bh_offset ?p) + length bs + 1 \<le> length (bh_data ?p)"
    using b bs by simp_all
  from mx_deliver [OF c len this peer, of lc] obtain q where
      "rfc_send_buf_uih lc m 0 ?p = rfc_check_send_cmd lc m (Some q)"
      "\<forall>r f. received q r \<longrightarrow> (\<exists>f' r'. rfc_parse_data m' f r = Some (f', r', RFC_EVENT_UIH) \<and>
            mf_dlci f' = 0 \<and> carries r' bs)"
    by blast
  ultimately show ?thesis
    by (intro exI [of _ q]) simp
qed

lemma u16_from_bytes: "(ucast (ucast (x AND 0xFF) :: u8) :: u16) + push_bit 8 (ucast (ucast (drop_bit 8 x) :: u8)) = x"
proof -
  have m: "(0xFF :: u16) = mask 8" by (simp add: mask_eq_exp_minus_1)
  show ?thesis
    using u16_lt [of x] unfolding m
    by (auto simp: word_unat_eq_iff unsigned_ucast_eq unsigned_drop_bit_eq unsigned_push_bit_eq
        drop_bit_eq_div push_bit_eq_mult take_bit_eq_mod unat_word_ariths unsigned_and_eq
        simp flip: take_bit_eq_mask)
qed

lemma dlci_mask: "d < 64 \<Longrightarrow> d AND 0x3F = (d :: u8)"
proof -
  assume d: "d < 64"
  have "d AND 0x3F = take_bit 6 d"
    by (simp add: take_bit_eq_mask mask_eq_exp_minus_1)
  also have "\<dots> = d"
    using d by (simp add: word_unat_eq_iff unsigned_take_bit_eq take_bit_nat_eq_self word_less_nat_alt)
  finally show ?thesis .
qed

text \<open>The address octet inside a message: the command/response bit is always set.\<close>

lemma mx_addr_byte:
  assumes "d < 64"
  shows "drop_bit 2 (1 OR 2 OR push_bit 2 d) = d" "(1 OR 2 OR push_bit 2 d) AND 1 = (1 :: u8)"
    "drop_bit 1 ((1 OR 2 OR push_bit 2 d) AND 2) = (1 :: u8)"
  using addr_byte [OF assms, of True True] by (simp_all add: RFCOMM_CR_def)

lemma carries_start:
  assumes "carries r bs"
  shows "\<exists>d. drop (unat (bh_offset r)) (bh_data r) = bs @ d \<and> bh_len r = of_nat (length bs)"
proof -
  have "bh_len r = of_nat (length bs)"
    using assms unfolding carries_def by (metis of_nat_unat ucast_id)
  then show ?thesis
    using carries_mem [OF assms] by blast
qed


lemma process_pn_message:
  assumes r: "carries r [1 OR RFCOMM_I_CR c OR 0x80, 1 OR push_bit 1 8, dlci, 0 OR cl, pr, 0,
      ucast (mtu AND 0xFF), ucast (drop_bit 8 mtu), 0, k]"
    and dlci: "RFCOMM_VALID_DLCI dlci" "dlci \<noteq> 0" and mtu: "23 \<le> mtu" "mtu \<le> 32767"
  shows "\<exists>f'. rfc_process_mx_message f r = Some (Process_pn c f') \<and> mf_dlci f' = dlci \<and>
           pn_mtu f' = mtu \<and> pn_conv_layer f' = cl AND 0xF0 \<and> pn_priority f' = pr AND 0x3F \<and>
           pn_k f' = k AND 7"
proof -
  note d = dlci_mask [OF valid_dlci_lt [OF dlci(1)]]
  obtain rest where s: "drop (unat (bh_offset r)) (bh_data r) =
      [1 OR RFCOMM_I_CR c OR 0x80, 1 OR push_bit 1 8, dlci, 0 OR cl, pr, 0,
      ucast (mtu AND 0xFF), ucast (drop_bit 8 mtu), 0, k] @ rest" "bh_len r = 10"
    using carries_start [OF r] by auto
  have "\<not> mtu < 23" "\<not> 32767 < mtu"
    using mtu by auto
  then show ?thesis
    using dlci by (cases c)
      (simp_all add: rfc_process_mx_message_def s mx_process_pn_def RFCOMM_I_CR_def Let_def
        d u16_from_bytes)
qed

abbreviation mx_addr :: "u8 \<Rightarrow> u8" where
  "mx_addr dlci \<equiv> 1 OR 2 OR push_bit 2 dlci"

lemmas mx_message_simps = rfc_process_mx_message_def RFCOMM_I_CR_def Let_def

lemma process_fc_message:
  assumes r: "carries r [1 OR RFCOMM_I_CR c OR t, 1 OR push_bit 1 0]" and t: "t = 0xA0 \<or> t = 0x60"
  shows "rfc_process_mx_message f r =
           Some (if t = 0xA0 then Process_fcon c else Process_fcoff c)"
proof -
  obtain rest where s: "drop (unat (bh_offset r)) (bh_data r) =
      [1 OR RFCOMM_I_CR c OR t, 1 OR push_bit 1 0] @ rest" "bh_len r = 2"
    using carries_start [OF r] by auto
  show ?thesis
    using t by (cases c) (auto simp: mx_message_simps s)
qed

lemma process_msc_message:
  assumes r: "carries r ([1 OR RFCOMM_I_CR c OR 0xE0, 1 OR push_bit 1 n, mx_addr dlci, signals] @
                 (if brk \<noteq> 0 then [1 OR 2 OR push_bit 4 brk] else []))"
    and n: "n = (if brk \<noteq> 0 then 3 else 2)" and dlci: "RFCOMM_VALID_DLCI dlci" "dlci \<noteq> 0"
  shows "\<exists>f'. rfc_process_mx_message f r = Some (Process_msc c f') \<and> mf_dlci f' = dlci \<and>
           msc_signals f' = signals \<and> (msc_break_present f' \<noteq> 0) = (brk \<noteq> 0) \<and>
           msc_break_duration f' = brk AND 0x0F"
proof -
  note a = mx_addr_byte [OF valid_dlci_lt [OF dlci(1)]]
  obtain rest where s: "drop (unat (bh_offset r)) (bh_data r) =
      ([1 OR RFCOMM_I_CR c OR 0xE0, 1 OR push_bit 1 n, mx_addr dlci, signals] @
        (if brk \<noteq> 0 then [1 OR 2 OR push_bit 4 brk] else [])) @ rest"
      "bh_len r = of_nat (4 + of_bool (brk \<noteq> 0))"
    using carries_start [OF r] by auto
  have brk: "(1 OR 2 OR push_bit 4 brk) AND 2 = 2"
    "drop_bit 4 ((1 OR 2 OR push_bit 4 brk) AND 0xF0) = brk AND 0x0F"
  proof -
    have "list_all (\<lambda>b. (1 OR 2 OR push_bit 4 b) AND 2 = 2 \<and>
        drop_bit 4 ((1 OR 2 OR push_bit 4 b) AND 0xF0) = b AND 0x0F) all_bytes"
      unfolding all_bytes_def list.pred_inject by simp
    from all_bytesD [OF this, of brk]
    show "(1 OR 2 OR push_bit 4 brk) AND 2 = 2"
      "drop_bit 4 ((1 OR 2 OR push_bit 4 brk) AND 0xF0) = brk AND 0x0F"
      by blast+
  qed
  show ?thesis
    using dlci brk a by (cases c; cases "brk = 0")
      (simp_all add: mx_message_simps s n mx_process_msc_def)
qed

lemma process_rls_message:
  assumes r: "carries r [1 OR RFCOMM_I_CR c OR 0x50, 1 OR push_bit 1 2, mx_addr dlci, 1 OR status]"
    and dlci: "RFCOMM_VALID_DLCI dlci" "dlci \<noteq> 0"
  shows "\<exists>f'. rfc_process_mx_message f r = Some (Process_rls c f') \<and> mf_dlci f' = dlci \<and>
           rls_line_status f' = status AND NOT 1"
proof -
  note a = mx_addr_byte [OF valid_dlci_lt [OF dlci(1)]]
  obtain rest where s: "drop (unat (bh_offset r)) (bh_data r) =
      [1 OR RFCOMM_I_CR c OR 0x50, 1 OR push_bit 1 2, mx_addr dlci, 1 OR status] @ rest" "bh_len r = 4"
    using carries_start [OF r] by auto
  have "(1 OR status) AND NOT 1 = status AND NOT (1 :: u8)"
    by (rule bit_word_eqI) (auto simp: bit_simps)
  then show ?thesis
    using dlci a by (cases c) (simp_all add: mx_message_simps s mx_process_rls_def)
qed

lemma process_nsc_message:
  assumes r: "carries r [1 OR RFCOMM_I_CR False OR 0x10, 1 OR push_bit 1 1, t]"
  shows "rfc_process_mx_message f r = Some Drop_message"
proof -
  obtain rest where s: "drop (unat (bh_offset r)) (bh_data r) =
      [1 OR RFCOMM_I_CR False OR 0x10, 1 OR push_bit 1 1, t] @ rest" "bh_len r = 3"
    using carries_start [OF r] by auto
  show ?thesis
    by (simp add: mx_message_simps s mx_process_nsc_def mx_unhandled_def)
qed


lemma less_4: "(b :: u8) < 4 \<Longrightarrow> b \<in> {0, 1, 2, 3}"
proof -
  have "list_all (\<lambda>b :: u8. b < 4 \<longrightarrow> b \<in> {0, 1, 2, 3}) all_bytes"
    unfolding all_bytes_def list.pred_inject by simp
  from all_bytesD [OF this, of b] show "b < 4 \<Longrightarrow> b \<in> {0, 1, 2, 3}"
    by blast
qed

lemma less_2: "(b :: u8) < 2 \<Longrightarrow> b \<in> {0, 1}"
proof -
  assume b: "b < 2"
  then have "b < 4"
    by (rule less_le_trans) simp
  with less_4 [of b] b show ?thesis
    by auto
qed

text \<open>The packed octet of the port parameters.\<close>

lemma rpn_octet:
  assumes "bs < 4" "sb < 2" "pa < 2" "pt < 4"
  shows "let o8 = push_bit 0 bs OR push_bit 2 sb OR push_bit 3 pa OR push_bit 4 pt in
     drop_bit 0 o8 AND 3 = bs \<and> drop_bit 2 o8 AND 1 = sb \<and> drop_bit 3 o8 AND 1 = pa \<and>
     drop_bit 4 o8 AND 3 = (pt :: u8)"
  using less_4 [OF assms(1)] less_2 [OF assms(2)] less_2 [OF assms(3)] less_4 [OF assms(4)]
  by (elim insertE emptyE) simp_all

lemma process_rpn_request:
  assumes r: "carries r [1 OR RFCOMM_I_CR c OR 0x90, 1 OR push_bit 1 1, mx_addr dlci]"
    and dlci: "RFCOMM_VALID_DLCI dlci" "dlci \<noteq> 0"
  shows "\<exists>f'. rfc_process_mx_message f r = Some (Process_rpn c True f') \<and> mf_dlci f' = dlci"
proof -
  note a = mx_addr_byte [OF valid_dlci_lt [OF dlci(1)]]
  obtain rest where s: "drop (unat (bh_offset r)) (bh_data r) =
      [1 OR RFCOMM_I_CR c OR 0x90, 1 OR push_bit 1 1, mx_addr dlci] @ rest" "bh_len r = 3"
    using carries_start [OF r] by auto
  show ?thesis
    using dlci a by (cases c) (simp_all add: mx_message_simps s mx_process_rpn_def)
qed

definition rpn_params :: "mx_frame \<Rightarrow> port_state \<Rightarrow> u16 \<Rightarrow> bool" where
  "rpn_params f ps pmask \<longleftrightarrow>
     rpn_baud_rate f = ps_baud_rate ps \<and> rpn_byte_size f = ps_byte_size ps \<and>
     rpn_stop_bits f = ps_stop_bits ps \<and> rpn_parity f = ps_parity ps \<and>
     rpn_parity_type f = ps_parity_type ps \<and> rpn_fc_type f = ps_fc_type ps AND 0x3F \<and>
     rpn_xon_char f = ps_xon_char ps \<and> rpn_xoff_char f = ps_xoff_char ps \<and>
     rpn_param_mask f = pmask AND 0x3F7F"

definition port_state_ok :: "port_state \<Rightarrow> bool" where
  "port_state_ok ps \<longleftrightarrow>
     ps_byte_size ps < 4 \<and> ps_stop_bits ps < 2 \<and> ps_parity ps < 2 \<and> ps_parity_type ps < 4"

lemma process_rpn_message:
  assumes r: "carries r [1 OR RFCOMM_I_CR c OR 0x90, 1 OR push_bit 1 8, mx_addr dlci,
      ps_baud_rate ps, push_bit 0 (ps_byte_size ps) OR push_bit 2 (ps_stop_bits ps)
        OR push_bit 3 (ps_parity ps) OR push_bit 4 (ps_parity_type ps),
      ps_fc_type ps, ps_xon_char ps, ps_xoff_char ps,
      ucast (pmask AND 0xFF), ucast (drop_bit 8 pmask)]"
    and dlci: "RFCOMM_VALID_DLCI dlci" "dlci \<noteq> 0" and ok: "port_state_ok ps"
  shows "\<exists>f'. rfc_process_mx_message f r = Some (Process_rpn c False f') \<and> mf_dlci f' = dlci \<and>
           rpn_params f' ps pmask"
proof -
  note a = mx_addr_byte [OF valid_dlci_lt [OF dlci(1)]]
  define o8 where "o8 = push_bit 0 (ps_byte_size ps) OR push_bit 2 (ps_stop_bits ps)
        OR push_bit 3 (ps_parity ps) OR push_bit 4 (ps_parity_type ps)"
  have o: "drop_bit 0 o8 AND 3 = ps_byte_size ps" "drop_bit 2 o8 AND 1 = ps_stop_bits ps"
    "drop_bit 3 o8 AND 1 = ps_parity ps" "drop_bit 4 o8 AND 3 = ps_parity_type ps"
    using ok rpn_octet [of "ps_byte_size ps" "ps_stop_bits ps" "ps_parity ps" "ps_parity_type ps"]
    unfolding port_state_ok_def o8_def Let_def by blast+
  obtain rest where s: "drop (unat (bh_offset r)) (bh_data r) =
      [1 OR RFCOMM_I_CR c OR 0x90, 1 OR push_bit 1 8, mx_addr dlci, ps_baud_rate ps, o8,
      ps_fc_type ps, ps_xon_char ps, ps_xoff_char ps,
      ucast (pmask AND 0xFF), ucast (drop_bit 8 pmask)] @ rest" "bh_len r = 10"
    using carries_start [OF r] by (auto simp: o8_def)
  show ?thesis
    using dlci a o by (cases c)
      (simp_all add: mx_message_simps s mx_process_rpn_def rpn_params_def u16_from_bytes)
qed

lemma move_up_moves:
  "src \<le> dest \<Longrightarrow> dest + n \<le> length d \<Longrightarrow>
   \<exists>d'. move_up n src dest d = Some d' \<and> length d' = length d \<and>
        take n (drop dest d') = take n (drop src d) \<and> drop (dest + n) d' = drop (dest + n) d"
proof (induction n arbitrary: d)
  case (Suc n)
  let ?b = "d ! (src + n)"
  let ?d = "take (dest + n) d @ [?b] @ drop (dest + n + 1) d"
  have len: "length ?d = length d"
    using Suc.prems by simp
  have w: "write_at d (dest + n) [?b] = Some ?d"
    using Suc.prems by (simp add: write_at_def)
  obtain d' where d': "move_up n src dest ?d = Some d'" "length d' = length ?d"
      "take n (drop dest d') = take n (drop src ?d)" "drop (dest + n) d' = drop (dest + n) ?d"
    using Suc.IH [of ?d] Suc.prems len by auto
  have same: "take n (drop src ?d) = take n (drop src d)"
    using Suc.prems by (auto simp: nth_append intro!: nth_equalityI)
  have top: "drop (dest + n) ?d = ?b # drop (dest + n + 1) d"
    using Suc.prems by simp
  have drp: "drop (dest + n) d' = ?b # drop (dest + n + 1) d"
    using d'(4) top by simp
  then have n: "d' ! (dest + n) = ?b"
    by (rule nth_via_drop)
  have "drop (dest + Suc n) d' = drop 1 (drop (dest + n) d')"
    by (simp add: add.commute)
  then have n': "drop (dest + Suc n) d' = drop (dest + Suc n) d"
    using drp by simp
  have "take (Suc n) (drop dest d') = take (Suc n) (drop src d)"
    using Suc.prems d'(2,3) len n same by (simp add: take_Suc_conv_app_nth)
  then show ?case
    using Suc.prems d' w n' len by (simp add: rd_def)
qed simp

text \<open>The buffer of a TEST message after the copy and the shift.\<close>

lemma test_copied:
  assumes new: "length (bh_data new) = 652" and c: "carries p pl"
    and fits: "unat (bh_offset p) + length pl \<le> 631"
    and mem: "unat (bh_offset p) + length pl \<le> length (bh_data p)"
  shows "\<exists>off d. obind (or_assert (read_at (bh_data p) 0 (unat (bh_offset p) + unat (bh_len p)))) (\<lambda>src.
       obind (put_bytes (p\<lparr>bh_data := bh_data new\<rparr>) 0 src) (\<lambda>p.
       obind (if bh_offset p < 13 + 5 + 2
              then obind (or_assert (move_up (unat (bh_len p)) (unat (bh_offset p)) (13 + 5 + 2) (bh_data p)))
                     (\<lambda>d. Returns (p\<lparr>bh_data := d, bh_offset := 13 + 5 + 2\<rparr>))
              else Returns p) k)) = k (p\<lparr>bh_data := d, bh_offset := off\<rparr>) \<and>
     20 \<le> unat off \<and> unat off + length pl \<le> 651 \<and> length d = 652 \<and>
     take (length pl) (drop (unat off) d) = pl"
proof -
  let ?o = "unat (bh_offset p)"
  have n: "unat (bh_len p) = length pl" and pl: "take (length pl) (drop ?o (bh_data p)) = pl"
    using c by (auto simp: carries_def)
  let ?src = "take (?o + length pl) (bh_data p)"
  let ?d = "?src @ drop (?o + length pl) (bh_data new)"
  have copy: "read_at (bh_data p) 0 (?o + unat (bh_len p)) = Some ?src"
      "put_bytes (p\<lparr>bh_data := bh_data new\<rparr>) 0 ?src = Returns (p\<lparr>bh_data := ?d\<rparr>)"
    using mem new fits n by (simp_all add: read_at_def put_bytes_fits min_def)
  have len: "length ?d = 652"
    using mem new fits by simp
  have at: "take (length pl) (drop ?o ?d) = pl"
    using mem pl by (simp add: drop_take)
  show ?thesis
  proof (cases "bh_offset p < 20")
    case True
    then have "?o \<le> 20"
      by (simp add: word_less_nat_alt)
    then obtain d' where "move_up (length pl) ?o 20 ?d = Some d'" "length d' = 652"
        "take (length pl) (drop 20 d') = pl"
      using move_up_moves [of ?o 20 "length pl" ?d] len fits at by auto
    then show ?thesis
      using True copy n fits by (intro exI [of _ 20] exI [of _ d']) simp
  next
    case False
    then have "20 \<le> ?o"
      by (simp add: word_less_nat_alt not_less)
    then show ?thesis
      using False copy n fits at len by (intro exI [of _ "bh_offset p"] exI [of _ ?d]) simp
  qed
qed

lemma test_sent:
  assumes new: "length (bh_data new) = 652" and c: "carries p pl"
    and fits: "unat (bh_offset p) + length pl \<le> 631"
    and mem: "unat (bh_offset p) + length pl \<le> length (bh_data p)"
    and peer: "mcb_is_initiator m' = (\<not> mcb_is_initiator m)"
  shows "\<exists>q. rfc_send_test lc (Some new) m cmd p = rfc_check_send_cmd lc m (Some q) \<and>
         (\<forall>r f. received q r \<longrightarrow> (\<exists>f' r'. rfc_parse_data m' f r = Some (f', r', RFC_EVENT_UIH) \<and>
            mf_dlci f' = 0 \<and>
            carries r' ([1 OR RFCOMM_I_CR cmd OR 0x20, 1 OR ucast (push_bit 1 (bh_len p))] @ pl) \<and>
            unat (bh_offset r') + length pl < 65533))"
proof -
  let ?hdr = "[1 OR RFCOMM_I_CR cmd OR 0x20, 1 OR ucast (push_bit 1 (bh_len p))]"
  let ?k = "\<lambda>p. let p = p\<lparr>bh_offset := bh_offset p - 2\<rparr> in
       obind (put_bytes p (unat (bh_offset p))
         [1 OR RFCOMM_I_CR cmd OR 0x20, 1 OR ucast (push_bit 1 (bh_len p))]) (\<lambda>p.
       rfc_send_buf_uih lc m 0 (p\<lparr>bh_len := bh_len p + 2\<rparr>))"
  have n: "unat (bh_len p) = length pl" "length pl \<le> 631"
    using c fits by (auto simp: carries_def)
  obtain off d where d: "rfc_send_test lc (Some new) m cmd p = ?k (p\<lparr>bh_data := d, bh_offset := off\<rparr>)"
      "20 \<le> unat off" "unat off + length pl \<le> 651" "length d = 652"
      "take (length pl) (drop (unat off) d) = pl"
    using test_copied [OF new c fits mem, of ?k]
    unfolding rfc_send_test_def Let_def option.case by auto
  have off: "unat (off - 2) = unat off - 2"
    using unat_sub_le [of 2 off] d(2) by simp
  let ?d = "take (unat off - 2) d @ ?hdr @ drop (unat off) d"
  let ?p = "p\<lparr>bh_offset := off - 2, bh_data := ?d, bh_len := bh_len p + 2\<rparr>"
  have suc: "Suc (Suc (unat off - 2)) = unat off"
    using d(2) by simp
  have len2: "unat (bh_len p + 2) = length pl + 2"
    using n by (simp add: unat_word_ariths)
  have "rfc_send_test lc (Some new) m cmd p = rfc_send_buf_uih lc m 0 ?p"
    using d off by (simp add: Let_def put_bytes_fits suc)
  moreover have "carries ?p (?hdr @ pl)"
    using d off len2 by (simp add: carries_def suc)
  moreover have "bh_len p + 2 \<le> 32767"
    using len2 n by (simp add: word_le_nat_alt)
  ultimately show ?thesis
    using mx_deliver [of ?p "?hdr @ pl" m' m lc] peer d off by simp
qed

lemma process_test_message:
  assumes r: "carries r ([1 OR RFCOMM_I_CR c OR 0x20, 1 OR ucast (push_bit 1 n)] @ pl)"
    and n: "unat (n :: u16) = length pl" "n \<le> 32765" "pl \<noteq> []" and off: "unat (bh_offset r) < 65533"
  shows "if n \<le> 127
         then \<exists>r'. carries r' pl \<and>
           rfc_process_mx_message f r = Some (if c then Send_test False r' else Process_test_rsp r')
         else rfc_process_mx_message f r = Some Drop_message"
proof -
  obtain rest where s: "drop (unat (bh_offset r)) (bh_data r) =
      [1 OR RFCOMM_I_CR c OR 0x20, 1 OR ucast (push_bit 1 n)] @ pl @ rest"
      "bh_len r = of_nat (length pl + 2)"
    using carries_start [OF r] by auto
  have "of_nat (length pl) = n"
    by (metis n(1) of_nat_unat ucast_id)
  then have len: "bh_len r = n + 2"
    using s(2) by simp
  have nz: "n \<noteq> 0"
    using n by (metis length_0_conv unat_0)
  have nz2: "n + 2 \<noteq> 0"
    using n by (simp add: word_unat_eq_iff unat_word_ariths word_le_nat_alt)
  have byte: "(1 OR ucast (push_bit 1 n) :: u8) AND 1 = 1"
    "drop_bit 1 (1 OR ucast (push_bit 1 n) :: u8) = ucast n AND 0x7F"
  proof -
    have push: "(ucast (push_bit 1 n) :: u8) = push_bit 1 (ucast n)"
      by (simp add: word_unat_eq_iff unsigned_ucast_eq unat_word_ariths take_bit_eq_mod
          mod_mod_cancel mod_mult_left_eq)
    have "list_all (\<lambda>y. (1 OR push_bit 1 y) AND 1 = 1 \<and>
        drop_bit 1 (1 OR push_bit 1 y) = y AND 0x7F) all_bytes"
      unfolding all_bytes_def list.pred_inject by simp
    from all_bytesD [OF this, of "ucast n"]
    show "(1 OR ucast (push_bit 1 n) :: u8) AND 1 = 1"
      "drop_bit 1 (1 OR ucast (push_bit 1 n) :: u8) = ucast n AND 0x7F"
      unfolding push by blast+
  qed
  have byte2: "ucast (ucast n AND 0x7F :: u8) = n \<longleftrightarrow> n \<le> 127"
  proof -
    have f: "(ucast n AND 0x7F :: u8) = take_bit 7 (ucast n)"
      by (simp add: take_bit_eq_mask mask_eq_exp_minus_1)
    have g: "unat (ucast (take_bit 7 (ucast n :: u8)) :: u16) = unat n mod 128"
      by (simp only: unsigned_ucast_eq unsigned_take_bit_eq take_bit_take_bit)
        (simp add: take_bit_eq_mod)
    show ?thesis
      unfolding f word_unat_eq_iff g word_le_nat_alt by auto
  qed
  let ?r = "r\<lparr>bh_offset := bh_offset r + 2, bh_len := n\<rparr>"
  have "unat (bh_offset r + 2) = unat (bh_offset r) + 2"
    using off by (simp add: unat_word_ariths)
  moreover have "drop 2 (drop (unat (bh_offset r)) (bh_data r)) = pl @ rest"
    unfolding s(1) by simp
  ultimately have "carries ?r pl"
    using n(1) by (simp add: carries_def)
  then show ?thesis
    using byte byte2 nz nz2 by (cases c) (auto simp: mx_message_simps s(1) len)
qed

section \<open>The command queue\<close>

lemma rfc_drain_fifo:
  "mcb_cmd_q m = Some q \<Longrightarrow>
   \<exists>k \<le> length (aq_items q).
     mcb_cmd_q (rfc_drain_cmd_q lc m) = Some (q\<lparr>aq_items := drop k (aq_items q)\<rparr>) \<and>
     mcb_written (rfc_drain_cmd_q lc m) =
       mcb_written m @ map (Pair (mcb_lcid m)) (take k (aq_items q)) \<and>
     (k = length (aq_items q) \<or> mcb_l2cap_congested (rfc_drain_cmd_q lc m))"
proof (induction "aq_items q" arbitrary: m q)
  case Nil
  then show ?case
    by (subst (1 2 3) rfc_drain_cmd_q.simps) (simp add: aq_try_dequeue_def)
next
  case (Cons x xs)
  show ?case
  proof (cases "mcb_l2cap_congested m")
    case True
    then show ?thesis
      using Cons.prems by (intro exI [of _ 0]) (simp add: rfc_drain_cmd_q.simps)
  next
    case False
    let ?q = "q\<lparr>aq_items := xs\<rparr>"
    let ?m = "L2CA_DataWrite lc (m\<lparr>mcb_cmd_q := Some ?q\<rparr>) x"
    have step: "rfc_drain_cmd_q lc m = rfc_drain_cmd_q lc ?m"
      using False Cons.prems Cons.hyps(2) [symmetric]
      by (subst rfc_drain_cmd_q.simps) (simp add: aq_try_dequeue_def)
    have "mcb_cmd_q ?m = Some ?q" "mcb_lcid ?m = mcb_lcid m"
      "mcb_written ?m = mcb_written m @ [(mcb_lcid m, x)]"
      by (simp_all add: L2CA_DataWrite_def Let_def)
    then obtain k where "k \<le> length xs"
        "mcb_cmd_q (rfc_drain_cmd_q lc ?m) = Some (?q\<lparr>aq_items := drop k xs\<rparr>)"
        "mcb_written (rfc_drain_cmd_q lc ?m) =
           mcb_written m @ [(mcb_lcid m, x)] @ map (Pair (mcb_lcid m)) (take k xs)"
        "k = length xs \<or> mcb_l2cap_congested (rfc_drain_cmd_q lc ?m)"
      using Cons.hyps(1) [of ?q ?m] by auto
    then show ?thesis
      using Cons.hyps(2) [symmetric] by (intro exI [of _ "Suc k"]) (auto simp: step)
  qed
qed

section \<open>What an accepted frame looks like\<close>

lemma parse_len_bound: "RFCOMM_PARSE_LEN_FIELD d = Some (ea, n, d') \<Longrightarrow> unat n \<le> 32767 \<and>
    d' = drop (1 + of_bool (ea = 0)) d"
proof -
  have a: "unat (ucast (drop_bit 1 (b :: u8)) :: u16) \<le> 127" for b
  proof -
    have "unat (drop_bit 1 b) = unat b div 2"
      by (simp only: unsigned_drop_bit_eq) (simp add: drop_bit_eq_div take_bit_eq_mod u8_lt)
    then show ?thesis
      using u8_lt [of b] by (simp only: unsigned_ucast_eq) (simp add: take_bit_eq_mod)
  qed
  have b: "unat (push_bit 7 (ucast (c :: u8)) :: u16) \<le> 32640" for c
    using u8_lt [of c] by (simp only: unsigned_push_bit_eq unsigned_ucast_eq)
      (simp add: push_bit_eq_mult take_bit_eq_mod)
  have ab: "unat ((ucast (drop_bit 1 (b :: u8)) :: u16) + push_bit 7 (ucast (c :: u8))) \<le> 32767" for b c
    using a [of b] b [of c] by (simp add: unat_word_ariths)
  have a': "unat (ucast (drop_bit 1 (b :: u8)) :: u16) \<le> 32767" for b
    using a [of b] by linarith
  show "RFCOMM_PARSE_LEN_FIELD d = Some (ea, n, d') \<Longrightarrow> unat n \<le> 32767 \<and>
    d' = drop (1 + of_bool (ea = 0)) d"
    using a' ab
    by (auto simp: RFCOMM_PARSE_LEN_FIELD_def Let_def bind_eq_Some_conv numeral_2_eq_2
        split: if_splits)
qed

lemma rd_drop: "rd (drop k d) i = rd d (k + i)"
  by (auto simp: rd_def)

lemma sub_eq_small:
  "(x :: u16) - of_nat k = n \<Longrightarrow> unat n \<le> 32767 \<Longrightarrow> k \<le> 7 \<Longrightarrow> unat x = unat n + k"
proof -
  assume a: "x - of_nat k = n" "unat n \<le> 32767" "k \<le> 7"
  then have "x = n + of_nat k" by (simp add: algebra_simps)
  with a show ?thesis by (simp add: unat_word_ariths unat_of_nat)
qed

lemma frame_event_accepts:
  "rfc_frame_event i f len start fcs = Some ev \<Longrightarrow> ev \<noteq> RFC_EVENT_BAD_FRAME \<Longrightarrow>
   RFCOMM_VALID_DLCI (mf_dlci f) \<and> (ev \<noteq> RFC_EVENT_UIH \<longrightarrow> len = 0) \<and>
   rfc_check_fcs (if ev = RFC_EVENT_UIH then 2 else 3) start fcs = Some True"
  by (auto simp: rfc_frame_event_def bind_eq_Some_conv split: if_splits)

lemma parse_accepted:
  assumes parse: "rfc_parse_data m f p = Some (f', p', ev)" and ev: "ev \<noteq> RFC_EVENT_BAD_FRAME"
  shows "RFCOMM_VALID_DLCI (mf_dlci f') \<and>
    (\<exists>k fcs. k \<le> 5 \<and> unat (bh_len p) = k + unat (bh_len p') + 1 \<and>
       bh_offset p' = bh_offset p + of_nat k \<and>
       rd (drop (unat (bh_offset p)) (bh_data p)) (k + unat (bh_len p')) = Some fcs \<and>
       rfc_check_fcs (if ev = RFC_EVENT_UIH then 2 else 3) (drop (unat (bh_offset p)) (bh_data p)) fcs = Some True) \<and>
    (ev \<noteq> RFC_EVENT_UIH \<longrightarrow> bh_len p' = 0)"
proof -
  let ?s = "drop (unat (bh_offset p)) (bh_data p)"
  obtain ead cr dlci d1 where c: "RFCOMM_PARSE_CTRL_FIELD ?s = Some (ead, cr, dlci, d1)" "ead \<noteq> 0"
    using assms by (auto simp: rfc_parse_data_def Let_def bind_eq_Some_conv split: if_split_asm)
  obtain ty pf d2 eal len d3 where
      t: "RFCOMM_PARSE_TYPE_FIELD d1 = Some (ty, pf, d2)" and
      l: "RFCOMM_PARSE_LEN_FIELD d2 = Some (eal, len, d3)"
    using assms c by (auto simp: rfc_parse_data_def Let_def bind_eq_Some_conv split: if_split_asm)
  have d1: "d1 = drop 1 ?s"
    using c by (auto simp: RFCOMM_PARSE_CTRL_FIELD_def Let_def bind_eq_Some_conv split: if_splits)
  have d2: "d2 = drop 1 d1"
    using t by (auto simp: RFCOMM_PARSE_TYPE_FIELD_def Let_def bind_eq_Some_conv)
  have d3: "d3 = drop (1 + of_bool (eal = 0)) d2" and len: "unat len \<le> 32767"
    using parse_len_bound [OF l] by auto
  let ?cr = "mcb_flow m = 2 \<and> ty = 0xEF \<and> dlci \<noteq> 0 \<and> pf = 1"
  let ?k = "3 + of_bool (eal = 0) + of_bool ?cr :: nat"
  have s: "drop (3 + of_bool (eal = 0)) ?s = d3"
    by (simp add: d1 d2 d3 eval_nat_numeral)
  obtain fcs where main: "bh_len p - of_nat (?k + 1) = len"
      "p' = p\<lparr>bh_len := len, bh_offset := bh_offset p + of_nat ?k\<rparr>"
      "rd (drop (of_bool ?cr) d3) (unat len) = Some fcs"
      "rfc_frame_event (mcb_is_initiator m) f' len ?s fcs = Some ev" "mf_dlci f' = dlci"
    using parse ev c t l
    by (cases ?cr; cases "eal = 0")
      (auto simp: rfc_parse_data_def Let_def bind_eq_Some_conv split: if_split_asm)
  have "rd ?s (?k + unat len) = Some fcs"
    using main(3) unfolding s [symmetric] rd_drop by (simp add: add.assoc)
  moreover have "unat (bh_len p) = unat len + (?k + 1)"
    by (rule sub_eq_small [OF main(1) len]) auto
  moreover have "?k \<le> 5"
    by (simp add: of_bool_def)
  moreover have "rfc_check_fcs (if ev = RFC_EVENT_UIH then 2 else 3) ?s fcs = Some True"
    and "RFCOMM_VALID_DLCI dlci" "ev \<noteq> RFC_EVENT_UIH \<longrightarrow> len = 0"
    using frame_event_accepts [OF main(4) ev] main(5) by simp_all
  ultimately show ?thesis
    using main(2,5) by (intro conjI exI [of _ ?k] exI [of _ fcs]) simp_all
qed


end
