(* ===== verification/RfcPeers.thy ===== *)
theory RfcPeers
  imports RfcRoundTrip
begin

text \<open>
  Two RFCOMM entities with opposite roles: the properties of the sending half (\<open>RfcFrames\<close>) against
  the receiving half (\<open>RfcParse\<close>), for control frames, user data, credits and multiplexer messages,
  and of the command queue.
\<close>

unbundle bit_operations_syntax

section \<open>Properties\<close>

text \<open>A control frame that the peer takes for the event it was sent for.\<close>

definition parsed_as :: "rfc_mcb \<Rightarrow> bt_hdr \<Rightarrow> rfc_event \<Rightarrow> u8 \<Rightarrow> u8 \<Rightarrow> bool" where
  "parsed_as m' q ev dlci pf \<longleftrightarrow>
     (\<forall>r f. received q r \<longrightarrow> (\<exists>f' r'. rfc_parse_data m' f r = Some (f', r', ev) \<and>
        mf_dlci f' = dlci \<and> mf_pf f' = pf \<and> bh_len r' = 0))"

lemma parsed_as_ctrl:
  assumes "carries q (ctrl_frame i c dlci (ty OR fin))"
    and "RFCOMM_VALID_DLCI dlci" "mcb_is_initiator m' = (\<not> i)"
    and "(ty, fin, c, ev) \<in> {(RFCOMM_SABME, RFCOMM_PF, True, RFC_EVENT_SABME),
           (RFCOMM_UA, RFCOMM_PF, False, RFC_EVENT_UA),
           (RFCOMM_DM, RFCOMM_PF, False, RFC_EVENT_DM), (RFCOMM_DM, 0, False, RFC_EVENT_DM),
           (RFCOMM_DISC, RFCOMM_PF, True, RFC_EVENT_DISC)}"
  shows "parsed_as m' q ev dlci (drop_bit 4 fin)"
  using parse_sent_ctrl [OF received_carries [OF _ assms(1)] assms(2-4)]
  unfolding parsed_as_def by blast

text \<open>
  C25: the SABME, UA, DM and DISC frames that one end sends are accepted by the other end of the
  session, for every valid DLCI and either role, as the event they stand for, with the DLCI and the
  poll/final bit that was sent.
\<close>

theorem rfc_control_roundtrip:
  assumes b: "17 \<le> length (bh_data b)" and dlci: "RFCOMM_VALID_DLCI dlci"
    and peer: "mcb_is_initiator m' = (\<not> mcb_is_initiator m)"
  shows "(\<exists>q. rfc_send_sabme lc (Some b) m dlci = rfc_check_send_cmd lc m (Some q) \<and>
            parsed_as m' q RFC_EVENT_SABME dlci 1) \<and>
         (\<exists>q. rfc_send_ua lc (Some b) m dlci = rfc_check_send_cmd lc m (Some q) \<and>
            parsed_as m' q RFC_EVENT_UA dlci 1) \<and>
         (\<exists>q. rfc_send_dm lc (Some b) m dlci pf = rfc_check_send_cmd lc m (Some q) \<and>
            parsed_as m' q RFC_EVENT_DM dlci (c_bool pf)) \<and>
         (\<exists>q. rfc_send_disc lc (Some b) m dlci = rfc_check_send_cmd lc m (Some q) \<and>
            parsed_as m' q RFC_EVENT_DISC dlci 1)"
proof -
  let ?i = "mcb_is_initiator m"
  have sabme: "parsed_as m' q RFC_EVENT_SABME dlci 1"
    if "carries q (ctrl_frame ?i True dlci (RFCOMM_SABME OR RFCOMM_PF))" for q
    using parsed_as_ctrl [OF that dlci peer, of RFC_EVENT_SABME] by simp
  have ua: "parsed_as m' q RFC_EVENT_UA dlci 1"
    if "carries q (ctrl_frame ?i False dlci (RFCOMM_UA OR RFCOMM_PF))" for q
    using parsed_as_ctrl [OF that dlci peer, of RFC_EVENT_UA] by simp
  have dm: "parsed_as m' q RFC_EVENT_DM dlci (c_bool pf)"
    if "carries q (ctrl_frame ?i False dlci (RFCOMM_DM OR (if pf then RFCOMM_PF else 0)))" for q
    using parsed_as_ctrl [OF that dlci peer, of RFC_EVENT_DM] by (cases pf) simp_all
  have disc: "parsed_as m' q RFC_EVENT_DISC dlci 1"
    if "carries q (ctrl_frame ?i True dlci (RFCOMM_DISC OR RFCOMM_PF))" for q
    using parsed_as_ctrl [OF that dlci peer, of RFC_EVENT_DISC] by simp
  show ?thesis
    using ctrl_frames [OF b] sabme ua dm disc by meson
qed

definition wit_buf :: bt_hdr where
  "wit_buf = \<lparr>bh_event = 0, bh_len = 0, bh_offset = 0, bh_layer_specific = 0,
     bh_data = replicate 652 0\<rparr>"

definition wit_mcb :: "bool \<Rightarrow> rfc_mcb" where
  "wit_mcb i = \<lparr>mcb_cmd_q = Some \<lparr>aq_items = [], aq_capacity = 254\<rparr>, mcb_is_initiator = i,
     mcb_lcid = 0x40, mcb_flow = 2, mcb_l2cap_congested = False, mcb_written = []\<rparr>"

definition wit_frame :: mx_frame where
  "wit_frame = \<lparr>mf_dlci = 0, mf_type = 0, mf_cr = 0, mf_ea = 1, mf_pf = 0, mf_credit = 0,
     pn_frame_type = 0, pn_conv_layer = 0, pn_priority = 0, pn_t1 = 0, pn_mtu = 0, pn_n2 = 0,
     pn_k = 0, msc_signals = 0, msc_break_present = 0, msc_break_duration = 0, nsc_ea = 0,
     nsc_cr = 0, nsc_type = 0, rpn_is_request = False, rpn_baud_rate = 0, rpn_byte_size = 0,
     rpn_stop_bits = 0, rpn_parity = 0, rpn_parity_type = 0, rpn_fc_type = 0, rpn_xon_char = 0,
     rpn_xoff_char = 0, rpn_param_mask = 0, rls_line_status = 0\<rparr>"

lemma wit_buf_length: "length (bh_data wit_buf) = 652"
  by (simp add: wit_buf_def)

lemma rfc_control_roundtrip_witness:
  "\<exists>q. rfc_send_sabme (\<lambda>_. False) (Some wit_buf) (wit_mcb True) 4 =
       rfc_check_send_cmd (\<lambda>_. False) (wit_mcb True) (Some q) \<and>
     parsed_as (wit_mcb False) q RFC_EVENT_SABME 4 1"
  using rfc_control_roundtrip [of wit_buf 4 "wit_mcb False" "wit_mcb True"]
  by (simp add: wit_buf_length wit_mcb_def RFCOMM_VALID_DLCI_def)

text \<open>
  C7: user data sent on a DLC arrives unchanged: the UIH frame that \<open>rfc_send_buf_uih\<close> builds in
  front of a payload of up to 32767 bytes, with a one- or two-byte length field and with the credits
  of the buffer if there are any, is parsed by the peer to that DLCI, those credits and that payload.
\<close>

theorem rfc_uih_roundtrip:
  assumes pl: "carries p pl" "bh_len p \<le> 32767" and dlci: "RFCOMM_VALID_DLCI dlci" "dlci \<noteq> 0"
    and peer: "mcb_is_initiator m' = (\<not> mcb_is_initiator m)"
    and flow: "uih_credits dlci p \<noteq> 0 \<Longrightarrow> mcb_flow m' = 2"
    and room: "5 \<le> unat (bh_offset p)" "unat (bh_offset p) + length pl + 1 \<le> length (bh_data p)"
  shows "\<exists>q. rfc_send_buf_uih lc m dlci p = Returns (L2CA_DataWrite lc m q) \<and>
         (\<forall>r f. received q r \<longrightarrow> (\<exists>f' r'. rfc_parse_data m' f r = Some (f', r', RFC_EVENT_UIH) \<and>
            mf_dlci f' = dlci \<and> mf_credit f' = uih_credits dlci p \<and> carries r' pl))"
proof -
  let ?h = "uih_header (mcb_is_initiator m) dlci (uih_credits dlci p) (bh_len p)"
  have lh: "length ?h \<le> 5"
    by (simp add: length_uih_header of_bool_def)
  obtain q where q: "rfc_send_buf_uih lc m dlci p = Returns (L2CA_DataWrite lc m q)"
      "carries q (?h @ pl @ [crc_spec (take 2 ?h)])"
    using uih_sent [OF pl refl, of m dlci lc] lh room dlci(2) by auto
  have "\<exists>f' r'. rfc_parse_data m' f r = Some (f', r', RFC_EVENT_UIH) \<and> mf_dlci f' = dlci \<and>
      mf_credit f' = uih_credits dlci p \<and> carries r' pl" if "received q r" for r f
  proof -
    have r: "carries r (?h @ pl @ [crc_spec (take 2 ?h)])"
      using received_carries [OF that q(2)] .
    have off: "unat (bh_offset r) + length ?h < 65536"
      using r that by (auto simp: received_def carries_def)
    have n: "unat (bh_len p) = length pl"
      using pl(1) by (simp add: carries_def)
    show ?thesis
      using parse_sent_uih [OF r refl n pl(2) dlci(1) _ off, of m' f] flow dlci(2) by blast
  qed
  then show ?thesis
    using q by blast
qed

definition wit_data :: bt_hdr where
  "wit_data = wit_buf\<lparr>bh_len := 2, bh_offset := 20, bh_layer_specific := 3,
     bh_data := replicate 20 0 @ [7, 9] @ replicate 10 0\<rparr>"

lemma rfc_uih_roundtrip_witness:
  "\<exists>q. rfc_send_buf_uih (\<lambda>_. False) (wit_mcb True) 4 wit_data =
       Returns (L2CA_DataWrite (\<lambda>_. False) (wit_mcb True) q) \<and>
     (\<forall>r f. received q r \<longrightarrow>
        (\<exists>f' r'. rfc_parse_data (wit_mcb False) f r = Some (f', r', RFC_EVENT_UIH) \<and>
           mf_dlci f' = 4 \<and> mf_credit f' = 3 \<and> carries r' [7, 9]))"
proof -
  have "carries wit_data [7, 9]"
    by (simp add: carries_def wit_data_def)
  moreover have "uih_credits 4 wit_data = 3"
    by (simp add: uih_credits_def wit_data_def)
  ultimately show ?thesis
    using rfc_uih_roundtrip [of wit_data "[7, 9]" 4 "wit_mcb False" "wit_mcb True" "\<lambda>_. False"]
    by (simp add: RFCOMM_VALID_DLCI_def wit_data_def wit_mcb_def)
qed

lemma credit_sent:
  assumes b: "18 \<le> length (bh_data b)" and cr: "credit \<noteq> 0"
  shows "\<exists>q. rfc_send_credit lc (Some b) m dlci credit = rfc_check_send_cmd lc m (Some q) \<and>
     carries q (uih_header (mcb_is_initiator m) dlci credit 0 @ [] @
       [crc_spec (take 2 (uih_header (mcb_is_initiator m) dlci credit 0))])"
proof -
  let ?h = "uih_header (mcb_is_initiator m) dlci credit 0"
  have h: "?h = [RFCOMM_EA OR RFCOMM_CR (mcb_is_initiator m) True OR push_bit RFCOMM_SHIFT_DLCI dlci,
      RFCOMM_UIH OR RFCOMM_PF, RFCOMM_EA OR 0, credit]"
    using cr by (simp add: uih_header_def)
  let ?k = "\<lambda>p. rfc_check_send_cmd lc m (Some (p\<lparr>bh_len := 5\<rparr>))"
  let ?p = "b\<lparr>bh_offset := 13\<rparr>"
  have len: "length ?h = 4"
    by (simp add: h)
  have send: "rfc_send_credit lc (Some b) m dlci credit =
      obind (put_bytes ?p 13 ?h) (\<lambda>p.
      obind (or_assert (rfc_calc_fcs 2 (drop 13 (bh_data p)))) (\<lambda>fcs.
      obind (put_bytes p 17 [fcs]) ?k))"
    unfolding h by (simp add: rfc_send_credit_def)
  have "\<exists>d. rfc_send_credit lc (Some b) m dlci credit = ?k (?p\<lparr>bh_data := d\<rparr>) \<and>
      length d = length (bh_data ?p) \<and>
      take (length ?h + length ([] :: bytes) + 1) (drop 13 d) = ?h @ [] @ [crc_spec (take 2 ?h)]"
    unfolding send by (rule put_frame) (use b in \<open>simp_all add: len\<close>)
  then obtain d where d: "rfc_send_credit lc (Some b) m dlci credit = ?k (?p\<lparr>bh_data := d\<rparr>)"
      "take (length ?h + length ([] :: bytes) + 1) (drop 13 d) = ?h @ [] @ [crc_spec (take 2 ?h)]"
    by blast
  then show ?thesis
    by (intro exI [of _ "?p\<lparr>bh_data := d, bh_len := 5\<rparr>"]) (simp add: carries_def len)
qed

text \<open>
  a credit frame for a DLC is parsed by a peer with credit-based flow control as an empty UIH
  frame that carries exactly those credits.
\<close>

theorem rfc_credit_roundtrip:
  assumes b: "18 \<le> length (bh_data b)" and dlci: "RFCOMM_VALID_DLCI dlci" "dlci \<noteq> 0"
    and cr: "credit \<noteq> 0" and peer: "mcb_is_initiator m' = (\<not> mcb_is_initiator m)" "mcb_flow m' = 2"
  shows "\<exists>q. rfc_send_credit lc (Some b) m dlci credit = rfc_check_send_cmd lc m (Some q) \<and>
         (\<forall>r f. received q r \<longrightarrow> (\<exists>f' r'. rfc_parse_data m' f r = Some (f', r', RFC_EVENT_UIH) \<and>
            mf_dlci f' = dlci \<and> mf_credit f' = credit \<and> bh_len r' = 0))"
proof -
  let ?h = "uih_header (mcb_is_initiator m) dlci credit 0"
  obtain q where q: "rfc_send_credit lc (Some b) m dlci credit = rfc_check_send_cmd lc m (Some q)"
      "carries q (?h @ [] @ [crc_spec (take 2 ?h)])"
    using credit_sent [OF b cr] by blast
  have "\<exists>f' r'. rfc_parse_data m' f r = Some (f', r', RFC_EVENT_UIH) \<and> mf_dlci f' = dlci \<and>
      mf_credit f' = credit \<and> bh_len r' = 0" if "received q r" for r f
  proof -
    have r: "carries r (?h @ [] @ [crc_spec (take 2 ?h)])"
      using received_carries [OF that q(2)] .
    have off: "unat (bh_offset r) + length ?h < 65536"
      using r that by (auto simp: received_def carries_def)
    have "\<exists>f' r'. rfc_parse_data m' f r = Some (f', r', RFC_EVENT_UIH) \<and> mf_dlci f' = dlci \<and>
        mf_credit f' = credit \<and> carries r' [] \<and> unat (bh_offset r') = unat (bh_offset r) + length ?h"
      by (rule parse_sent_uih [OF r refl _ _ dlci(1) _ off]) (use peer dlci in simp_all)
    then show ?thesis
      by (auto simp: carries_def unat_eq_0)
  qed
  then show ?thesis
    using q by blast
qed

lemma rfc_credit_roundtrip_witness:
  "\<exists>q. rfc_send_credit (\<lambda>_. False) (Some wit_buf) (wit_mcb True) 4 7 =
       rfc_check_send_cmd (\<lambda>_. False) (wit_mcb True) (Some q)"
  using rfc_credit_roundtrip [of wit_buf 4 7 "wit_mcb False" "wit_mcb True" "\<lambda>_. False"]
  by (auto simp: wit_buf_length wit_mcb_def RFCOMM_VALID_DLCI_def)


text \<open>A multiplexer message that leads the peer to an action with a property.\<close>

definition mx_parsed_as :: "rfc_mcb \<Rightarrow> bt_hdr \<Rightarrow> (mx_action \<Rightarrow> bool) \<Rightarrow> bool" where
  "mx_parsed_as m' q P \<longleftrightarrow>
     (\<forall>r f. received q r \<longrightarrow> (\<exists>f' r' a. rfc_parse_data m' f r = Some (f', r', RFC_EVENT_UIH) \<and>
        mf_dlci f' = 0 \<and> rfc_process_mx_message f' r' = Some a \<and> P a))"

lemma mx_sent_parsed:
  assumes b: "29 \<le> length (bh_data b)" and bs: "length bs \<le> 10" "unat n = length bs"
    and peer: "mcb_is_initiator m' = (\<not> mcb_is_initiator m)"
    and act: "\<And>f r. carries r bs \<Longrightarrow> \<exists>a. rfc_process_mx_message f r = Some a \<and> P a"
  shows "\<exists>q. obind (mx_start b bs) (\<lambda>p. rfc_send_buf_uih lc m 0 (p\<lparr>bh_len := n\<rparr>)) =
           rfc_check_send_cmd lc m (Some q) \<and> mx_parsed_as m' q P"
proof -
  obtain q where q: "obind (mx_start b bs) (\<lambda>p. rfc_send_buf_uih lc m 0 (p\<lparr>bh_len := n\<rparr>)) =
        rfc_check_send_cmd lc m (Some q)"
      "\<And>r f. received q r \<Longrightarrow> \<exists>f' r'. rfc_parse_data m' f r = Some (f', r', RFC_EVENT_UIH) \<and>
            mf_dlci f' = 0 \<and> carries r' bs"
    using mx_sent [OF b bs peer, of lc] by blast
  have "mx_parsed_as m' q P"
    unfolding mx_parsed_as_def using q(2) act by meson
  then show ?thesis
    using q(1) by blast
qed

lemma pn_roundtrip:
  assumes b: "29 \<le> length (bh_data b)" and dlci: "RFCOMM_VALID_DLCI dlci" "dlci \<noteq> 0"
    and peer: "mcb_is_initiator m' = (\<not> mcb_is_initiator m)"
    and mtu: "23 \<le> mtu" "mtu \<le> 32767"
  shows "\<exists>q. rfc_send_pn lc (Some b) rx m dlci c mtu cl k = rfc_check_send_cmd lc m (Some q) \<and>
            mx_parsed_as m' q (\<lambda>a. \<exists>f. a = Process_pn c f \<and> mf_dlci f = dlci \<and> pn_mtu f = mtu \<and>
              pn_conv_layer f = cl AND 0xF0 \<and> pn_k f = k AND 7)"
  unfolding rfc_send_pn_def option.case
  by (rule mx_sent_parsed [OF b _ _ peer])
    (simp_all, use process_pn_message [OF _ dlci mtu] in \<open>fastforce\<close>)

lemma msc_signal_bits:
  fixes s :: u8
  assumes "x = 1 OR (if fc then 0x02 else 0) OR (if s AND 0x01 \<noteq> 0 then 0x04 else 0) OR (if s AND 0x02 \<noteq> 0 then 0x08 else 0)
      OR (if s AND 0x04 \<noteq> 0 then 0x40 else 0) OR (if s AND 0x08 \<noteq> 0 then 0x80 else (0 :: u8))"
  shows "(x AND 0x02 \<noteq> 0 \<longleftrightarrow> fc) \<and> (x AND 0x04 \<noteq> 0 \<longleftrightarrow> s AND 0x01 \<noteq> 0) \<and> (x AND 0x08 \<noteq> 0 \<longleftrightarrow> s AND 0x02 \<noteq> 0) \<and>
    (x AND 0x40 \<noteq> 0 \<longleftrightarrow> s AND 0x04 \<noteq> 0) \<and> (x AND 0x80 \<noteq> 0 \<longleftrightarrow> s AND 0x08 \<noteq> 0)"
  unfolding assms by simp

lemma msc_roundtrip:
  assumes b: "29 \<le> length (bh_data b)" and dlci: "RFCOMM_VALID_DLCI dlci" "dlci \<noteq> 0"
    and peer: "mcb_is_initiator m' = (\<not> mcb_is_initiator m)"
  shows "\<exists>q. rfc_send_msc lc (Some b) m dlci c ctl = rfc_check_send_cmd lc m (Some q) \<and>
            mx_parsed_as m' q (\<lambda>a. \<exists>f. a = Process_msc c f \<and> mf_dlci f = dlci \<and>
              (msc_signals f AND 0x02 \<noteq> 0 \<longleftrightarrow> ctl_fc ctl) \<and>
              (msc_signals f AND 0x04 \<noteq> 0 \<longleftrightarrow> ctl_modem_signal ctl AND 0x01 \<noteq> 0) \<and>
              (msc_signals f AND 0x08 \<noteq> 0 \<longleftrightarrow> ctl_modem_signal ctl AND 0x02 \<noteq> 0) \<and>
              (msc_signals f AND 0x40 \<noteq> 0 \<longleftrightarrow> ctl_modem_signal ctl AND 0x04 \<noteq> 0) \<and>
              (msc_signals f AND 0x80 \<noteq> 0 \<longleftrightarrow> ctl_modem_signal ctl AND 0x08 \<noteq> 0) \<and>
              (msc_break_present f \<noteq> 0 \<longleftrightarrow> ctl_break_signal ctl \<noteq> 0) \<and>
              msc_break_duration f = ctl_break_signal ctl AND 0x0F)"
  unfolding rfc_send_msc_def option.case Let_def
proof (rule mx_sent_parsed [OF b _ _ peer], simp, simp)
  fix f r
  assume r: "carries r ([1 OR RFCOMM_I_CR c OR 0xE0, 1 OR push_bit 1 (if ctl_break_signal ctl \<noteq> 0 then 3 else 2), mx_addr dlci,
      1 OR (if ctl_fc ctl then 0x02 else 0) OR (if ctl_modem_signal ctl AND 0x01 \<noteq> 0 then 0x04 else 0)
        OR (if ctl_modem_signal ctl AND 0x02 \<noteq> 0 then 0x08 else 0) OR (if ctl_modem_signal ctl AND 0x04 \<noteq> 0 then 0x40 else 0)
        OR (if ctl_modem_signal ctl AND 0x08 \<noteq> 0 then 0x80 else 0)] @
      (if ctl_break_signal ctl \<noteq> 0 then [1 OR 2 OR push_bit 4 (ctl_break_signal ctl)] else []))"
  obtain f' where f': "rfc_process_mx_message f r = Some (Process_msc c f')" "mf_dlci f' = dlci"
      "(msc_break_present f' \<noteq> 0) = (ctl_break_signal ctl \<noteq> 0)" "msc_break_duration f' = ctl_break_signal ctl AND 0x0F"
    and bits: "msc_signals f' = 1 OR (if ctl_fc ctl then 0x02 else 0) OR (if ctl_modem_signal ctl AND 0x01 \<noteq> 0 then 0x04 else 0)
        OR (if ctl_modem_signal ctl AND 0x02 \<noteq> 0 then 0x08 else 0) OR (if ctl_modem_signal ctl AND 0x04 \<noteq> 0 then 0x40 else 0)
        OR (if ctl_modem_signal ctl AND 0x08 \<noteq> 0 then 0x80 else 0)"
    using process_msc_message [OF r refl dlci, of f] by blast
  show "\<exists>a. rfc_process_mx_message f r = Some a \<and> (\<exists>f. a = Process_msc c f \<and> mf_dlci f = dlci \<and>
              (msc_signals f AND 0x02 \<noteq> 0 \<longleftrightarrow> ctl_fc ctl) \<and>
              (msc_signals f AND 0x04 \<noteq> 0 \<longleftrightarrow> ctl_modem_signal ctl AND 0x01 \<noteq> 0) \<and>
              (msc_signals f AND 0x08 \<noteq> 0 \<longleftrightarrow> ctl_modem_signal ctl AND 0x02 \<noteq> 0) \<and>
              (msc_signals f AND 0x40 \<noteq> 0 \<longleftrightarrow> ctl_modem_signal ctl AND 0x04 \<noteq> 0) \<and>
              (msc_signals f AND 0x80 \<noteq> 0 \<longleftrightarrow> ctl_modem_signal ctl AND 0x08 \<noteq> 0) \<and>
              (msc_break_present f \<noteq> 0 \<longleftrightarrow> ctl_break_signal ctl \<noteq> 0) \<and>
              msc_break_duration f = ctl_break_signal ctl AND 0x0F)"
    using f' msc_signal_bits [OF bits] by blast
qed

lemma rls_roundtrip:
  assumes b: "29 \<le> length (bh_data b)" and dlci: "RFCOMM_VALID_DLCI dlci" "dlci \<noteq> 0"
    and peer: "mcb_is_initiator m' = (\<not> mcb_is_initiator m)"
  shows "\<exists>q. rfc_send_rls lc (Some b) m dlci c status = rfc_check_send_cmd lc m (Some q) \<and>
            mx_parsed_as m' q (\<lambda>a. \<exists>f. a = Process_rls c f \<and> mf_dlci f = dlci \<and>
              rls_line_status f = status AND NOT 1)"
  unfolding rfc_send_rls_def option.case
  by (rule mx_sent_parsed [OF b _ _ peer])
    (simp_all, use process_rls_message [OF _ dlci] in \<open>fastforce\<close>)

lemma rpn_roundtrip:
  assumes b: "29 \<le> length (bh_data b)" and dlci: "RFCOMM_VALID_DLCI dlci" "dlci \<noteq> 0"
    and peer: "mcb_is_initiator m' = (\<not> mcb_is_initiator m)" and ps: "port_state_ok ps"
  shows "\<exists>q. rfc_send_rpn lc (Some b) m dlci c None pmask = rfc_check_send_cmd lc m (Some q) \<and>
            mx_parsed_as m' q (\<lambda>a. \<exists>f. a = Process_rpn c True f \<and> mf_dlci f = dlci)"
    and "\<exists>q. rfc_send_rpn lc (Some b) m dlci c (Some ps) pmask = rfc_check_send_cmd lc m (Some q) \<and>
            mx_parsed_as m' q (\<lambda>a. \<exists>f. a = Process_rpn c False f \<and> mf_dlci f = dlci \<and>
              rpn_params f ps pmask)"
  unfolding rfc_send_rpn_def option.case
   apply (rule mx_sent_parsed [OF b _ _ peer], simp, simp, drule process_rpn_request [OF _ dlci], blast)
  by (rule mx_sent_parsed [OF b _ _ peer], simp, simp,
      drule process_rpn_message [OF _ dlci ps], blast)

lemma fc_roundtrip:
  assumes b: "29 \<le> length (bh_data b)" and peer: "mcb_is_initiator m' = (\<not> mcb_is_initiator m)"
  shows "\<exists>q. rfc_send_fcon lc (Some b) m c = rfc_check_send_cmd lc m (Some q) \<and>
            mx_parsed_as m' q (\<lambda>a. a = Process_fcon c)"
    and "\<exists>q. rfc_send_fcoff lc (Some b) m c = rfc_check_send_cmd lc m (Some q) \<and>
            mx_parsed_as m' q (\<lambda>a. a = Process_fcoff c)"
  unfolding rfc_send_fcon_def rfc_send_fcoff_def option.case
  by (rule mx_sent_parsed [OF b _ _ peer]; simp?; use process_fc_message in \<open>fastforce\<close>)+

text \<open>
  C26: the parameter negotiation, modem status, line status, port negotiation and flow control
  messages of the multiplexer arrive as they were sent: the peer's parser hands the handler of the
  same message the command/response bit, the DLCI and every parameter, reduced to the bits that the
  encoding has room for.  Of the modem status, each signal (flow control, RTC, RTR, IC, DV) and the break
  arrive in their own bits.
\<close>

theorem rfc_mx_roundtrip:
  assumes b: "29 \<le> length (bh_data b)" and dlci: "RFCOMM_VALID_DLCI dlci" "dlci \<noteq> 0"
    and peer: "mcb_is_initiator m' = (\<not> mcb_is_initiator m)"
    and mtu: "23 \<le> mtu" "mtu \<le> 32767" and ps: "port_state_ok ps"
  shows "(\<exists>q. rfc_send_pn lc (Some b) rx m dlci c mtu cl k = rfc_check_send_cmd lc m (Some q) \<and>
            mx_parsed_as m' q (\<lambda>a. \<exists>f. a = Process_pn c f \<and> mf_dlci f = dlci \<and> pn_mtu f = mtu \<and>
              pn_conv_layer f = cl AND 0xF0 \<and> pn_k f = k AND 7)) \<and>
         (\<exists>q. rfc_send_msc lc (Some b) m dlci c ctl = rfc_check_send_cmd lc m (Some q) \<and>
            mx_parsed_as m' q (\<lambda>a. \<exists>f. a = Process_msc c f \<and> mf_dlci f = dlci \<and>
              (msc_signals f AND 0x02 \<noteq> 0 \<longleftrightarrow> ctl_fc ctl) \<and>
              (msc_signals f AND 0x04 \<noteq> 0 \<longleftrightarrow> ctl_modem_signal ctl AND 0x01 \<noteq> 0) \<and>
              (msc_signals f AND 0x08 \<noteq> 0 \<longleftrightarrow> ctl_modem_signal ctl AND 0x02 \<noteq> 0) \<and>
              (msc_signals f AND 0x40 \<noteq> 0 \<longleftrightarrow> ctl_modem_signal ctl AND 0x04 \<noteq> 0) \<and>
              (msc_signals f AND 0x80 \<noteq> 0 \<longleftrightarrow> ctl_modem_signal ctl AND 0x08 \<noteq> 0) \<and>
              (msc_break_present f \<noteq> 0 \<longleftrightarrow> ctl_break_signal ctl \<noteq> 0) \<and>
              msc_break_duration f = ctl_break_signal ctl AND 0x0F)) \<and>
         (\<exists>q. rfc_send_rls lc (Some b) m dlci c status = rfc_check_send_cmd lc m (Some q) \<and>
            mx_parsed_as m' q (\<lambda>a. \<exists>f. a = Process_rls c f \<and> mf_dlci f = dlci \<and>
              rls_line_status f = status AND NOT 1)) \<and>
         (\<exists>q. rfc_send_rpn lc (Some b) m dlci c None pmask = rfc_check_send_cmd lc m (Some q) \<and>
            mx_parsed_as m' q (\<lambda>a. \<exists>f. a = Process_rpn c True f \<and> mf_dlci f = dlci)) \<and>
         (\<exists>q. rfc_send_rpn lc (Some b) m dlci c (Some ps) pmask = rfc_check_send_cmd lc m (Some q) \<and>
            mx_parsed_as m' q (\<lambda>a. \<exists>f. a = Process_rpn c False f \<and> mf_dlci f = dlci \<and>
              rpn_params f ps pmask)) \<and>
         (\<exists>q. rfc_send_fcon lc (Some b) m c = rfc_check_send_cmd lc m (Some q) \<and>
            mx_parsed_as m' q (\<lambda>a. a = Process_fcon c)) \<and>
         (\<exists>q. rfc_send_fcoff lc (Some b) m c = rfc_check_send_cmd lc m (Some q) \<and>
            mx_parsed_as m' q (\<lambda>a. a = Process_fcoff c))"
  using pn_roundtrip [OF b dlci peer mtu] msc_roundtrip [OF b dlci peer]
    rls_roundtrip [OF b dlci peer] rpn_roundtrip [OF b dlci peer ps] fc_roundtrip [OF b peer]
  by (intro conjI)

lemma rfc_mx_roundtrip_witness:
  "\<exists>q. rfc_send_pn (\<lambda>_. False) (Some wit_buf) wit_frame (wit_mcb True) 4 True 127 0xF0 7 =
       rfc_check_send_cmd (\<lambda>_. False) (wit_mcb True) (Some q) \<and>
     mx_parsed_as (wit_mcb False) q (\<lambda>a. \<exists>f. a = Process_pn True f \<and> mf_dlci f = 4 \<and>
       pn_mtu f = 127 \<and> pn_conv_layer f = 0xF0 AND 0xF0 \<and> pn_k f = 7 AND 7)"
proof -
  have ps: "port_state_ok \<lparr>ps_baud_rate = 3, ps_byte_size = 3, ps_stop_bits = 0, ps_parity = 0,
      ps_parity_type = 0, ps_fc_type = 0, ps_rx_char1 = 0, ps_xon_char = 0x11, ps_xoff_char = 0x13\<rparr>"
    by (simp add: port_state_ok_def)
  show ?thesis
    by (rule conjunct1 [OF rfc_mx_roundtrip [OF _ _ _ _ _ _ ps]])
      (simp_all add: wit_buf_length wit_mcb_def RFCOMM_VALID_DLCI_def)
qed

text \<open>
  an NSC reply, which \<open>rfc_send_nsc\<close> sends as a response, is dropped by the parser of the peer,
  which takes NSC only as a command: no port ever learns that its command was not supported.
\<close>

theorem rfc_nsc_reply_dropped:
  assumes b: "29 \<le> length (bh_data b)" and peer: "mcb_is_initiator m' = (\<not> mcb_is_initiator m)"
  shows "\<exists>q. rfc_send_nsc lc (Some b) rx m = rfc_check_send_cmd lc m (Some q) \<and>
           mx_parsed_as m' q (\<lambda>a. a = Drop_message)"
proof -
  have act: "\<exists>a. rfc_process_mx_message f r = Some a \<and> a = Drop_message"
    if "carries r [RFCOMM_EA OR RFCOMM_I_CR False OR RFCOMM_MX_NSC, RFCOMM_EA OR push_bit 1 1,
      mf_ea rx OR push_bit RFCOMM_SHIFT_CR (mf_cr rx) OR mf_type rx]" for f r
    using process_nsc_message [OF that] by blast
  show ?thesis
    unfolding rfc_send_nsc_def option.case by (rule mx_sent_parsed [OF b _ _ peer act]) simp_all
qed

lemma rfc_nsc_reply_dropped_witness:
  "\<exists>q. rfc_send_nsc (\<lambda>_. False) (Some wit_buf) wit_frame (wit_mcb True) =
       rfc_check_send_cmd (\<lambda>_. False) (wit_mcb True) (Some q) \<and>
     mx_parsed_as (wit_mcb False) q (\<lambda>a. a = Drop_message)"
  by (rule rfc_nsc_reply_dropped) (simp_all add: wit_buf_length wit_mcb_def)

text \<open>
  a TEST command or reply with up to 127 bytes of data arrives with the same data (a command is
  answered by \<open>rfc_send_test\<close>, a reply goes to its handler); with 128 bytes or more the one-byte
  length field that \<open>rfc_send_test\<close> writes is truncated and the peer drops the message.
\<close>

theorem rfc_test_roundtrip:
  assumes new: "length (bh_data new) = 652" and c: "carries p pl" "pl \<noteq> []"
    and fits: "unat (bh_offset p) + length pl \<le> 631" "unat (bh_offset p) + length pl \<le> length (bh_data p)"
    and peer: "mcb_is_initiator m' = (\<not> mcb_is_initiator m)"
  shows "\<exists>q. rfc_send_test lc (Some new) m cmd p = rfc_check_send_cmd lc m (Some q) \<and>
         mx_parsed_as m' q (\<lambda>a.
           if length pl \<le> 127
           then \<exists>r. carries r pl \<and> a = (if cmd then Send_test False r else Process_test_rsp r)
           else a = Drop_message)"
proof -
  let ?hdr = "[1 OR RFCOMM_I_CR cmd OR 0x20, 1 OR ucast (push_bit 1 (bh_len p))]"
  have n: "unat (bh_len p) = length pl" "length pl \<le> 631"
    using c fits by (auto simp: carries_def)
  then have n': "bh_len p \<le> 32765" "bh_len p \<le> 127 \<longleftrightarrow> length pl \<le> 127"
    by (simp_all add: word_le_nat_alt)
  obtain q where q: "rfc_send_test lc (Some new) m cmd p = rfc_check_send_cmd lc m (Some q)"
      "\<And>r f. received q r \<Longrightarrow> \<exists>f' r'. rfc_parse_data m' f r = Some (f', r', RFC_EVENT_UIH) \<and>
            mf_dlci f' = 0 \<and> carries r' (?hdr @ pl) \<and> unat (bh_offset r') + length pl < 65533"
    using test_sent [OF new c(1) fits peer, of lc cmd] by blast
  have "mx_parsed_as m' q (\<lambda>a. if length pl \<le> 127
           then \<exists>r. carries r pl \<and> a = (if cmd then Send_test False r else Process_test_rsp r)
           else a = Drop_message)"
    unfolding mx_parsed_as_def
  proof (intro allI impI)
    fix r f
    assume "received q r"
    from q(2) [OF this] obtain f' r' where
      r': "rfc_parse_data m' f r = Some (f', r', RFC_EVENT_UIH)" "mf_dlci f' = 0"
        "carries r' (?hdr @ pl)" "unat (bh_offset r') < 65533"
      by fastforce
    then have "if bh_len p \<le> 127
         then \<exists>r. carries r pl \<and>
           rfc_process_mx_message f' r' = Some (if cmd then Send_test False r else Process_test_rsp r)
         else rfc_process_mx_message f' r' = Some Drop_message"
      by (intro process_test_message [OF _ n(1) n'(1) c(2)])
    then show "\<exists>f' r' a. rfc_parse_data m' f r = Some (f', r', RFC_EVENT_UIH) \<and> mf_dlci f' = 0 \<and>
        rfc_process_mx_message f' r' = Some a \<and>
        (if length pl \<le> 127
         then \<exists>r. carries r pl \<and> a = (if cmd then Send_test False r else Process_test_rsp r)
         else a = Drop_message)"
      using r'(1,2) n'(2) by (cases "length pl \<le> 127") auto
  qed
  then show ?thesis
    using q(1) by blast
qed

lemma rfc_test_roundtrip_witness:
  "\<exists>q. rfc_send_test (\<lambda>_. False) (Some wit_buf) (wit_mcb True) True wit_data =
       rfc_check_send_cmd (\<lambda>_. False) (wit_mcb True) (Some q) \<and>
     mx_parsed_as (wit_mcb False) q (\<lambda>a. \<exists>r. carries r [7, 9] \<and> a = Send_test False r)"
proof -
  have "carries wit_data [7, 9]"
    by (simp add: carries_def wit_data_def)
  from rfc_test_roundtrip [OF wit_buf_length this, of "wit_mcb False" "wit_mcb True" "\<lambda>_. False" True]
  show ?thesis
    by (simp add: wit_data_def wit_mcb_def)
qed

text \<open>
  C33: a frame that \<open>rfc_parse_data\<close> accepts is whole: the DLCI is valid, header, payload and check
  byte fill the received length exactly (so nothing behind the packet is read for them), the check
  byte is right over the first two bytes of a UIH frame and the first three of any other, and only a
  UIH frame has a payload.
\<close>

theorem rfc_parse_data_sound:
  assumes "rfc_parse_data m f p = Some (f', p', ev)" "ev \<noteq> RFC_EVENT_BAD_FRAME"
  shows "RFCOMM_VALID_DLCI (mf_dlci f') \<and>
    (\<exists>k fcs. k \<le> 5 \<and> unat (bh_len p) = k + unat (bh_len p') + 1 \<and>
       bh_offset p' = bh_offset p + of_nat k \<and>
       rd (drop (unat (bh_offset p)) (bh_data p)) (k + unat (bh_len p')) = Some fcs \<and>
       rfc_check_fcs (if ev = RFC_EVENT_UIH then 2 else 3) (drop (unat (bh_offset p)) (bh_data p)) fcs = Some True) \<and>
    (ev \<noteq> RFC_EVENT_UIH \<longrightarrow> bh_len p' = 0)"
  by (rule parse_accepted [OF assms])

lemma rfc_parse_data_sound_witness:
  "\<exists>f' p'. rfc_parse_data (wit_mcb False) wit_frame
       (wit_buf\<lparr>bh_len := 4, bh_data := [0x03, 0x3F, 0x01, 0x1C]\<rparr>) = Some (f', p', RFC_EVENT_SABME) \<and>
     RFCOMM_VALID_DLCI (mf_dlci f')"
proof -
  have fcs: "rfc_check_fcs 3 [0x03, 0x3F, 0x01, 0x1C] 0x1C = Some True"
    by (simp add: rfc_check_fcs_def rfc_crctable_def)
  have "\<exists>f' p'. rfc_parse_data (wit_mcb False) wit_frame
       (wit_buf\<lparr>bh_len := 4, bh_data := [0x03, 0x3F, 0x01, 0x1C]\<rparr>) = Some (f', p', RFC_EVENT_SABME)"
    by (simp add: rfc_parse_data_def rfc_frame_event_def RFCOMM_PARSE_CTRL_FIELD_def
        RFCOMM_PARSE_TYPE_FIELD_def RFCOMM_PARSE_LEN_FIELD_def RFCOMM_FRAME_IS_RSP_def
        RFCOMM_VALID_DLCI_def wit_mcb_def wit_buf_def fcs)
  then show ?thesis
    using rfc_parse_data_sound by blast
qed

text \<open>
  \<open>rfc_check_send_cmd\<close> sends the commands of a multiplexer in the order they were queued: it puts
  the new buffer behind the waiting ones, hands a prefix of the queue to L2CAP in order, keeps the
  rest, and stops before the queue is empty only because L2CAP is congested.
\<close>

theorem rfc_check_send_cmd_fifo:
  assumes q: "mcb_cmd_q m = Some q" and room: "length (aq_items q) < aq_capacity q"
  shows "\<exists>m' k. rfc_check_send_cmd lc m (Some p) = Returns m' \<and>
           mcb_written m' = mcb_written m @ map (Pair (mcb_lcid m)) (take k (aq_items q @ [p])) \<and>
           mcb_cmd_q m' = Some (q\<lparr>aq_items := drop k (aq_items q @ [p])\<rparr>) \<and>
           (k = length (aq_items q) + 1 \<or> mcb_l2cap_congested m')"
proof -
  let ?q = "q\<lparr>aq_items := aq_items q @ [p]\<rparr>"
  let ?m = "m\<lparr>mcb_cmd_q := Some ?q\<rparr>"
  have "rfc_check_send_cmd lc m (Some p) = Returns (rfc_drain_cmd_q lc ?m)"
    using q room by (simp add: rfc_check_send_cmd_def aq_enqueue_def)
  then show ?thesis
    using rfc_drain_fifo [of ?m ?q lc] by auto
qed

lemma rfc_check_send_cmd_fifo_witness:
  "\<exists>m' k. rfc_check_send_cmd (\<lambda>_. False) (wit_mcb True) (Some wit_buf) = Returns m' \<and>
     mcb_written m' = map (Pair 0x40) (take k [wit_buf])"
  using rfc_check_send_cmd_fifo [of "wit_mcb True" "\<lparr>aq_items = [], aq_capacity = 254\<rparr>" "\<lambda>_. False" wit_buf]
  by (auto simp: wit_mcb_def)

end
