(* ===== verification/RfcSys.thy ===== *)
theory RfcSys
  imports RfcParse
begin

text \<open>
  The state of RFCOMM (\<open>tRFC_CB\<close> of \<open>stack/rfcomm/include/rfc_int.h\<close>): the pool of ports, the pool of
  multiplexers, and the table from L2CAP channels to multiplexers.  A pointer to a port or a multiplexer is
  its index in the pool; a result code, also in \<open>error\<close> (a \<open>UINT8\<close>), has the width of an \<open>int\<close>.  Around it (\<open>rfc_sys\<close>) stands the list of the calls that left RFCOMM.  The theory
  also has the timers, the multiplexer pool (\<open>rfc_utils.c\<close>) and the port pool (\<open>port_utils.c\<close>).
\<close>

unbundle bit_operations_syntax

section \<open>Constants\<close>

abbreviation (input) "RFCOMM_MAX_DLCI \<equiv> 61"
abbreviation (input) "MAX_RFC_PORTS \<equiv> 16"
abbreviation (input) "MAX_L2CAP_CHANNELS \<equiv> 16"
abbreviation (input) "L2CAP_BASE_APPL_CID \<equiv> 0x40"
abbreviation (input) "L2CAP_MTU_SIZE \<equiv> 1691"
abbreviation (input) "L2CAP_PKT_OVERHEAD \<equiv> 4"
abbreviation (input) "L2CAP_DEFAULT_MTU \<equiv> 672"
abbreviation (input) "RFCOMM_DATA_OVERHEAD \<equiv> 6"
abbreviation (input) "RFCOMM_DEFAULT_MTU \<equiv> 127"
abbreviation (input) "RFCOMM_K_MAX \<equiv> 7"
abbreviation (input) "PORT_FC_UNDEFINED \<equiv> 0 :: u8"
abbreviation (input) "PORT_FC_TS710 \<equiv> 1 :: u8"
abbreviation (input) "PORT_FC_CREDIT \<equiv> 2 :: u8"
abbreviation (input) "PORT_FC_DEFAULT \<equiv> PORT_FC_CREDIT"
abbreviation (input) "PORT_RX_BUF_LOW_WM \<equiv> 4"
abbreviation (input) "PORT_RX_BUF_HIGH_WM \<equiv> 10"
abbreviation (input) "PORT_RX_BUF_CRITICAL_WM \<equiv> 15"
abbreviation (input) "PORT_TX_BUF_HIGH_WM \<equiv> 10"
abbreviation (input) "PORT_TX_BUF_CRITICAL_WM \<equiv> 15"
abbreviation (input) "BTA_RFC_MTU_SIZE \<equiv> 1672"
abbreviation (input) "PORT_RX_LOW_WM \<equiv> 6688"
abbreviation (input) "PORT_RX_HIGH_WM \<equiv> 16720"
abbreviation (input) "PORT_RX_CRITICAL_WM \<equiv> 25080"
abbreviation (input) "PORT_TX_HIGH_WM \<equiv> 16720"
abbreviation (input) "PORT_TX_CRITICAL_WM \<equiv> 25080"
abbreviation (input) "RFCOMM_PN_CONV_LAYER_TYPE_1 \<equiv> 0 :: u8"
abbreviation (input) "RFCOMM_PN_CONV_LAYER_CBFC_I \<equiv> 0xF0 :: u8"
abbreviation (input) "RFCOMM_PN_CONV_LAYER_CBFC_R \<equiv> 0xE0 :: u8"
abbreviation (input) "QUEUE_SIZE_MAX \<equiv> 254 :: nat"

abbreviation (input) "RFC_T1_TIMEOUT \<equiv> 20 :: u16"
abbreviation (input) "RFC_PORT_T1_TIMEOUT \<equiv> 60 :: u16"
abbreviation (input) "RFC_T2_TIMEOUT \<equiv> 20 :: u16"
abbreviation (input) "RFC_DISC_TIMEOUT \<equiv> 3 :: u16"
abbreviation (input) "RFCOMM_CONN_TIMEOUT \<equiv> 120 :: u16"
abbreviation (input) "RFC_MCB_INIT_INACT_TIMER \<equiv> 60 :: u16"
abbreviation (input) "RFC_MCB_RELEASE_INACT_TIMER \<equiv> 2 :: u16"

abbreviation (input) "RFCOMM_SUCCESS \<equiv> 0 :: u16"
abbreviation (input) "RFCOMM_ERROR \<equiv> 1 :: u16"
abbreviation (input) "RFCOMM_SECURITY_ERR \<equiv> 112 :: u16"
abbreviation (input) "HCI_ERR_PAGE_TIMEOUT \<equiv> 4 :: u16"
abbreviation (input) "L2CAP_CONN_OK \<equiv> 0 :: u16"
abbreviation (input) "L2CAP_CONN_NO_RESOURCES \<equiv> 4 :: u16"
abbreviation (input) "L2CAP_CFG_OK \<equiv> 0 :: u16"
abbreviation (input) "BTM_SUCCESS \<equiv> 0 :: u8"

abbreviation (input) "PORT_SUCCESS \<equiv> 0 :: u32"
abbreviation (input) "PORT_UNKNOWN_ERROR \<equiv> 1 :: u32"
abbreviation (input) "PORT_ALREADY_OPENED \<equiv> 2 :: u32"
abbreviation (input) "PORT_CMD_PENDING \<equiv> 3 :: u32"
abbreviation (input) "PORT_NO_MEM \<equiv> 5 :: u32"
abbreviation (input) "PORT_NO_RESOURCES \<equiv> 6 :: u32"
abbreviation (input) "PORT_BAD_HANDLE \<equiv> 9 :: u32"
abbreviation (input) "PORT_NOT_OPENED \<equiv> 10 :: u32"
abbreviation (input) "PORT_LINE_ERR \<equiv> 11 :: u32"
abbreviation (input) "PORT_START_FAILED \<equiv> 12 :: u32"
abbreviation (input) "PORT_PAR_NEG_FAILED \<equiv> 13 :: u32"
abbreviation (input) "PORT_PORT_NEG_FAILED \<equiv> 14 :: u32"
abbreviation (input) "PORT_SEC_FAILED \<equiv> 15 :: u32"
abbreviation (input) "PORT_PEER_CONNECTION_FAILED \<equiv> 16 :: u32"
abbreviation (input) "PORT_PEER_TIMEOUT \<equiv> 18 :: u32"
abbreviation (input) "PORT_CLOSED \<equiv> 19 :: u32"
abbreviation (input) "PORT_TX_FULL \<equiv> 20 :: u32"
abbreviation (input) "PORT_TX_QUEUE_DISABLED \<equiv> 23 :: u32"
abbreviation (input) "PORT_PAGE_TIMEOUT \<equiv> 24 :: u32"
abbreviation (input) "PORT_INVALID_SCN \<equiv> 25 :: u32"

abbreviation (input) "PORT_EV_RXCHAR \<equiv> 0x00000001 :: u32"
abbreviation (input) "PORT_EV_RXFLAG \<equiv> 0x00000002 :: u32"
abbreviation (input) "PORT_EV_TXEMPTY \<equiv> 0x00000004 :: u32"
abbreviation (input) "PORT_EV_CTS \<equiv> 0x00000008 :: u32"
abbreviation (input) "PORT_EV_DSR \<equiv> 0x00000010 :: u32"
abbreviation (input) "PORT_EV_RLSD \<equiv> 0x00000020 :: u32"
abbreviation (input) "PORT_EV_BREAK \<equiv> 0x00000040 :: u32"
abbreviation (input) "PORT_EV_ERR \<equiv> 0x00000080 :: u32"
abbreviation (input) "PORT_EV_RING \<equiv> 0x00000100 :: u32"
abbreviation (input) "PORT_EV_CONNECTED \<equiv> 0x00000200 :: u32"
abbreviation (input) "PORT_EV_CTSS \<equiv> 0x00000400 :: u32"
abbreviation (input) "PORT_EV_DSRS \<equiv> 0x00000800 :: u32"
abbreviation (input) "PORT_EV_RLSDS \<equiv> 0x00001000 :: u32"
abbreviation (input) "PORT_EV_OVERRUN \<equiv> 0x00002000 :: u32"
abbreviation (input) "PORT_EV_TXCHAR \<equiv> 0x00004000 :: u32"
abbreviation (input) "PORT_EV_CONNECT_ERR \<equiv> 0x00008000 :: u32"
abbreviation (input) "PORT_EV_FC \<equiv> 0x00010000 :: u32"
abbreviation (input) "PORT_EV_FCS \<equiv> 0x00020000 :: u32"

abbreviation (input) "PORT_DTRDSR_ON \<equiv> 0x01 :: u8"
abbreviation (input) "PORT_CTSRTS_ON \<equiv> 0x02 :: u8"
abbreviation (input) "PORT_RING_ON \<equiv> 0x04 :: u8"
abbreviation (input) "PORT_DCD_ON \<equiv> 0x08 :: u8"
abbreviation (input) "LINE_STATUS_OVERRUN \<equiv> 0x02 :: u8"
abbreviation (input) "LINE_STATUS_FAILED \<equiv> 0x10 :: u8"
abbreviation (input) "PORT_CTRL_REQ_SENT \<equiv> 0x01 :: u8"
abbreviation (input) "PORT_CTRL_REQ_CONFIRMED \<equiv> 0x02 :: u8"
abbreviation (input) "PORT_CTRL_IND_RECEIVED \<equiv> 0x04 :: u8"
abbreviation (input) "PORT_CTRL_IND_RYOCONDED \<equiv> 0x08 :: u8"
abbreviation (input) "RFC_RSP_PN \<equiv> 0x01 :: u8"
abbreviation (input) "RFC_RSP_RPN_REPLY \<equiv> 0x02 :: u8"
abbreviation (input) "RFC_RSP_RPN \<equiv> 0x04 :: u8"
abbreviation (input) "RFC_RSP_MSC \<equiv> 0x08 :: u8"
abbreviation (input) "RFC_RSP_RLS \<equiv> 0x10 :: u8"

section \<open>The records\<close>

datatype port_app_state = PORT_STATE_CLOSED | PORT_STATE_OPENING | PORT_STATE_OPENED | PORT_STATE_CLOSING

datatype rfc_port_state =
  RFC_STATE_CLOSED | RFC_STATE_SABME_WAIT_UA | RFC_STATE_ORIG_WAIT_SEC_CHECK
  | RFC_STATE_TERM_WAIT_SEC_CHECK | RFC_STATE_OPENED | RFC_STATE_DISC_WAIT_UA

datatype rfc_mx_state =
  RFC_MX_STATE_IDLE | RFC_MX_STATE_WAIT_CONN_CNF | RFC_MX_STATE_CONFIGURE | RFC_MX_STATE_SABME_WAIT_UA
  | RFC_MX_STATE_WAIT_SABME | RFC_MX_STATE_CONNECTED | RFC_MX_STATE_DISC_WAIT_UA

text \<open>\<open>tPORT_DATA\<close>; \<open>queue\<close> is \<open>None\<close> for \<open>NULL\<close>.\<close>

record tport_data =
  pd_queue :: "bt_hdr aqueue option"
  pd_peer_fc :: bool
  pd_user_fc :: bool
  pd_queue_size :: u32

text \<open>
  \<open>tPORT\<close>.  Of a callback the model keeps whether it is registered; of a timer whether it runs, and for how
  many seconds.
\<close>

record tport =
  pt_inx :: u8
  pt_in_use :: bool
  pt_state :: port_app_state
  pt_scn :: u8
  pt_uuid :: u16
  pt_bd_addr :: bytes
  pt_is_server :: bool
  pt_dlci :: u8
  pt_error :: u32
  pt_line_status :: u8
  pt_default_signal_state :: u8
  pt_mtu :: u16
  pt_peer_mtu :: u16
  pt_tx :: tport_data
  pt_rx :: tport_data
  pt_user_port_pars :: port_state
  pt_peer_port_pars :: port_state
  pt_local_ctrl :: port_ctrl
  pt_peer_ctrl :: port_ctrl
  pt_port_ctrl :: u8
  pt_rx_flag_ev_pending :: bool
  pt_rfc_state :: rfc_port_state
  pt_expected_rsp :: u8
  pt_mcb :: "nat option"
  pt_timer :: "u16 option"
  pt_ev_mask :: u32
  pt_callback :: bool
  pt_mgmt_callback :: bool
  pt_data_callback :: bool
  pt_data_co_callback :: bool
  pt_credit_tx :: u16
  pt_credit_rx :: u16
  pt_credit_rx_max :: u16
  pt_credit_rx_low :: u16
  pt_rx_buf_critical :: u16
  pt_keep_port_handle :: bool
  pt_keep_mtu :: u16

text \<open>\<open>tRFC_MCB\<close>; \<open>mx_link\<close> holds the fields the frames use (\<open>RfcFrames\<close>).\<close>

record tmcb =
  mx_link :: rfc_mcb
  mx_timer :: "u16 option"
  mx_port_inx :: "u8 list"
  mx_bd_addr :: bytes
  mx_peer_l2cap_mtu :: u16
  mx_state :: rfc_mx_state
  mx_local_cfg_sent :: bool
  mx_peer_cfg_rcvd :: bool
  mx_restart_required :: bool
  mx_peer_ready :: bool
  mx_is_disc_initiator :: bool
  mx_pending_lcid :: u16
  mx_pending_id :: u8

text \<open>The calls that leave RFCOMM; frames are in \<open>mcb_written\<close> of their multiplexer.\<close>

datatype rfc_out =
    Out_connect_req bytes u16
  | Out_connect_rsp bytes u8 u16 u16
  | Out_config_req u16 u16
  | Out_config_rsp u16
  | Out_disconnect_req u16
  | Out_disconnect_rsp u16
  | Out_access_request bytes bool u8 nat
  | Out_abort_access bytes
  | Out_callback u32 u8
  | Out_mgmt_callback u32 u8
  | Out_data_callback u8 bytes
  | Out_data_co_callback u8 bt_hdr

record rfc_sys =
  rs_port :: "tport list"
  rs_mcb :: "tmcb list"
  rs_lcid_mcb :: "nat option list"
  rs_rx_frame :: mx_frame
  rs_peer_rx_disabled :: bool
  rs_last_mux :: nat
  rs_last_port :: nat
  rs_out :: "rfc_out list"
  rs_clock :: nat
  rs_bad :: bool

text \<open>
  What RFCOMM asks of other layers: the congestion of L2CAP, the memory of a new buffer and whether a queue
  can be made (by the count of allocations), the channel \<open>L2CA_ConnectReq\<close> returns (0 on failure), the
  packet size of a link, the time since boot, and whether the application takes more data.
\<close>

record rfc_env =
  re_lc :: congestion
  re_mem :: "nat \<Rightarrow> bt_hdr option"
  re_queue :: "nat \<Rightarrow> bool"
  re_connect :: "nat \<Rightarrow> u16"
  re_packet_size :: "bytes \<Rightarrow> u16"
  re_boottime :: "nat \<Rightarrow> u32"
  re_co_take :: "nat \<Rightarrow> bool"

section \<open>Access to the state\<close>

abbreviation the_port :: "rfc_sys \<Rightarrow> nat \<Rightarrow> tport" where
  "the_port s i \<equiv> rs_port s ! i"

abbreviation the_mcb :: "rfc_sys \<Rightarrow> nat \<Rightarrow> tmcb" where
  "the_mcb s m \<equiv> rs_mcb s ! m"

text \<open>
  The mark of behaviour the model does not follow: a null pointer, an index outside a table, a failed
  assertion, a wait that never ends.
\<close>

definition rfc_fault :: "rfc_sys \<Rightarrow> rfc_sys" where
  "rfc_fault s = s\<lparr>rs_bad := True\<rparr>"

definition port_upd :: "nat \<Rightarrow> (tport \<Rightarrow> tport) \<Rightarrow> rfc_sys \<Rightarrow> rfc_sys" where
  "port_upd i f s =
     (if i < length (rs_port s) then s\<lparr>rs_port := (rs_port s)[i := f (the_port s i)]\<rparr> else rfc_fault s)"

definition mcb_upd :: "nat \<Rightarrow> (tmcb \<Rightarrow> tmcb) \<Rightarrow> rfc_sys \<Rightarrow> rfc_sys" where
  "mcb_upd m f s =
     (if m < length (rs_mcb s) then s\<lparr>rs_mcb := (rs_mcb s)[m := f (the_mcb s m)]\<rparr> else rfc_fault s)"

definition rfc_emit :: "rfc_out \<Rightarrow> rfc_sys \<Rightarrow> rfc_sys" where
  "rfc_emit x s = s\<lparr>rs_out := rs_out s @ [x]\<rparr>"

definition rfc_tick :: "rfc_sys \<Rightarrow> rfc_sys" where
  "rfc_tick s = s\<lparr>rs_clock := rs_clock s + 1\<rparr>"

text \<open>The multiplexer of a port; a null pointer that is dereferenced is a fault.\<close>

definition port_mcb :: "nat \<Rightarrow> (nat \<Rightarrow> rfc_sys \<Rightarrow> rfc_sys) \<Rightarrow> rfc_sys \<Rightarrow> rfc_sys" where
  "port_mcb i f s = (case pt_mcb (the_port s i) of None \<Rightarrow> rfc_fault s | Some m \<Rightarrow> f m s)"

text \<open>A callback is called when it is registered and there is an event for it.\<close>

definition call_back :: "nat \<Rightarrow> u32 \<Rightarrow> rfc_sys \<Rightarrow> rfc_sys" where
  "call_back i events s =
     (if pt_callback (the_port s i) \<and> events \<noteq> 0 then rfc_emit (Out_callback events (pt_inx (the_port s i))) s
      else s)"

definition mgmt_call_back :: "nat \<Rightarrow> u32 \<Rightarrow> rfc_sys \<Rightarrow> rfc_sys" where
  "mgmt_call_back i res s =
     (if pt_mgmt_callback (the_port s i) then rfc_emit (Out_mgmt_callback res (pt_inx (the_port s i))) s
      else s)"

definition queue_length :: "bt_hdr aqueue option \<Rightarrow> nat" where
  "queue_length q = (case q of None \<Rightarrow> 0 | Some q \<Rightarrow> length (aq_items q))"

definition queue_take :: "bt_hdr aqueue option \<Rightarrow> bt_hdr option \<times> bt_hdr aqueue option" where
  "queue_take q = (case q of None \<Rightarrow> (None, None) | Some q \<Rightarrow> map_prod id Some (aq_try_dequeue q))"

definition queue_new :: "rfc_env \<Rightarrow> rfc_sys \<Rightarrow> bt_hdr aqueue option \<times> rfc_sys" where
  "queue_new e s =
     (if re_queue e (rs_clock s) then Some \<lparr>aq_items = [], aq_capacity = QUEUE_SIZE_MAX\<rparr> else None,
      rfc_tick s)"

section \<open>Timers\<close>

definition rfc_timer_start :: "nat \<Rightarrow> u16 \<Rightarrow> rfc_sys \<Rightarrow> rfc_sys" where
  "rfc_timer_start m timeout = mcb_upd m (\<lambda>x. x\<lparr>mx_timer := Some timeout\<rparr>)"

definition rfc_timer_stop :: "nat \<Rightarrow> rfc_sys \<Rightarrow> rfc_sys" where
  "rfc_timer_stop m = mcb_upd m (\<lambda>x. x\<lparr>mx_timer := None\<rparr>)"

definition rfc_timer_free :: "nat \<Rightarrow> rfc_sys \<Rightarrow> rfc_sys" where
  "rfc_timer_free m = mcb_upd m (\<lambda>x. x\<lparr>mx_timer := None\<rparr>)"

definition rfc_port_timer_start :: "nat \<Rightarrow> u16 \<Rightarrow> rfc_sys \<Rightarrow> rfc_sys" where
  "rfc_port_timer_start i timeout = port_upd i (\<lambda>p. p\<lparr>pt_timer := Some timeout\<rparr>)"

definition rfc_port_timer_stop :: "nat \<Rightarrow> rfc_sys \<Rightarrow> rfc_sys" where
  "rfc_port_timer_stop i = port_upd i (\<lambda>p. p\<lparr>pt_timer := None\<rparr>)"

definition rfc_port_timer_free :: "nat \<Rightarrow> rfc_sys \<Rightarrow> rfc_sys" where
  "rfc_port_timer_free i = port_upd i (\<lambda>p. p\<lparr>pt_timer := None\<rparr>)"

section \<open>The pool of multiplexers\<close>

text \<open>\<open>memset\<close> of a block; the log of what was written to L2CAP stays.\<close>

definition mcb_zero :: "tmcb \<Rightarrow> tmcb" where
  "mcb_zero x = \<lparr>
     mx_link = \<lparr>mcb_cmd_q = None, mcb_is_initiator = False, mcb_lcid = 0, mcb_flow = PORT_FC_UNDEFINED,
       mcb_l2cap_congested = False, mcb_written = mcb_written (mx_link x)\<rparr>,
     mx_timer = None, mx_port_inx = replicate (RFCOMM_MAX_DLCI + 1) 0, mx_bd_addr = replicate 6 0,
     mx_peer_l2cap_mtu = 0, mx_state = RFC_MX_STATE_IDLE, mx_local_cfg_sent = False,
     mx_peer_cfg_rcvd = False, mx_restart_required = False, mx_peer_ready = False,
     mx_is_disc_initiator = False, mx_pending_lcid = 0, mx_pending_id = 0\<rparr>"

text \<open>The order in which a pool of \<open>n\<close> blocks is searched from the one after the last allocated.\<close>

definition pool_order :: "nat \<Rightarrow> nat \<Rightarrow> nat list" where
  "pool_order n l = (let k = (if n \<le> l + 1 then 0 else l + 1) in [k..<n] @ [0..<k])"

definition rfc_alloc_multiplexer_channel ::
    "rfc_env \<Rightarrow> bytes \<Rightarrow> bool \<Rightarrow> rfc_sys \<Rightarrow> nat option \<times> rfc_sys" where
  "rfc_alloc_multiplexer_channel e bd_addr is_initiator s =
     (case find (\<lambda>m. mx_state (the_mcb s m) \<noteq> RFC_MX_STATE_IDLE \<and> mx_bd_addr (the_mcb s m) = bd_addr)
             [0..<length (rs_mcb s)] of
        Some m \<Rightarrow>
          (Some m, if mx_state (the_mcb s m) = RFC_MX_STATE_CONNECTED then rfc_timer_stop m s else s)
      | None \<Rightarrow>
          (case find (\<lambda>m. mx_state (the_mcb s m) = RFC_MX_STATE_IDLE)
                  (pool_order (length (rs_mcb s)) (rs_last_mux s)) of
             None \<Rightarrow> (None, s)
           | Some m \<Rightarrow>
               let (q, s) = queue_new e (rfc_timer_free m s);
                   s = mcb_upd m (\<lambda>x. let x = mcb_zero x in
                     x\<lparr>mx_bd_addr := bd_addr,
                       mx_link := mx_link x\<lparr>mcb_cmd_q := q, mcb_is_initiator := is_initiator\<rparr>\<rparr>) s;
                   s = rfc_timer_start m RFC_MCB_INIT_INACT_TIMER s
               in (Some m, s\<lparr>rs_last_mux := m\<rparr>)))"

definition rfc_release_multiplexer_channel :: "nat \<Rightarrow> rfc_sys \<Rightarrow> rfc_sys" where
  "rfc_release_multiplexer_channel m s =
     mcb_upd m (\<lambda>x. (mcb_zero x)\<lparr>mx_state := RFC_MX_STATE_IDLE\<rparr>) (rfc_timer_free m s)"

definition port_find_mcb :: "bytes \<Rightarrow> rfc_sys \<Rightarrow> nat option" where
  "port_find_mcb bd_addr s =
     find (\<lambda>m. mx_state (the_mcb s m) \<noteq> RFC_MX_STATE_IDLE \<and> mx_bd_addr (the_mcb s m) = bd_addr)
       [0..<length (rs_mcb s)]"

section \<open>The table of channels\<close>

text \<open>\<open>lcid - L2CAP_BASE_APPL_CID\<close> is an \<open>int\<close>: a smaller identifier gives a negative index.\<close>

definition rfc_find_lcid_mcb :: "u16 \<Rightarrow> rfc_sys \<Rightarrow> nat option \<times> rfc_sys" where
  "rfc_find_lcid_mcb lcid s =
     (if MAX_L2CAP_CHANNELS \<le> (uint lcid - L2CAP_BASE_APPL_CID) then (None, s)
      else if uint lcid < L2CAP_BASE_APPL_CID then (None, rfc_fault s)
      else (case rs_lcid_mcb s ! (unat lcid - L2CAP_BASE_APPL_CID) of
              None \<Rightarrow> (None, s)
            | Some m \<Rightarrow> if mcb_lcid (mx_link (the_mcb s m)) \<noteq> lcid then (None, s) else (Some m, s)))"

definition rfc_save_lcid_mcb :: "nat option \<Rightarrow> u16 \<Rightarrow> rfc_sys \<Rightarrow> rfc_sys" where
  "rfc_save_lcid_mcb m lcid s =
     (if L2CAP_BASE_APPL_CID \<le> unat lcid \<and> unat lcid - L2CAP_BASE_APPL_CID < length (rs_lcid_mcb s)
      then s\<lparr>rs_lcid_mcb := (rs_lcid_mcb s)[unat lcid - L2CAP_BASE_APPL_CID := m]\<rparr>
      else rfc_fault s)"

section \<open>The pool of ports\<close>

definition default_port_pars :: port_state where
  "default_port_pars = \<lparr>ps_baud_rate = 3, ps_byte_size = 3, ps_stop_bits = 0, ps_parity = 0,
     ps_parity_type = 0, ps_fc_type = 0, ps_rx_char1 = 0, ps_xon_char = 0x11, ps_xoff_char = 0x13\<rparr>"

definition zero_port_pars :: port_state where
  "zero_port_pars = \<lparr>ps_baud_rate = 0, ps_byte_size = 0, ps_stop_bits = 0, ps_parity = 0,
     ps_parity_type = 0, ps_fc_type = 0, ps_rx_char1 = 0, ps_xon_char = 0, ps_xoff_char = 0\<rparr>"

definition zero_ctrl :: port_ctrl where
  "zero_ctrl = \<lparr>ctl_modem_signal = 0, ctl_break_signal = 0, ctl_discard_buffers = 0,
     ctl_break_signal_seq = 0, ctl_fc = False\<rparr>"

definition zero_data :: tport_data where
  "zero_data = \<lparr>pd_queue = None, pd_peer_fc = False, pd_user_fc = False, pd_queue_size = 0\<rparr>"

definition port_zero :: tport where
  "port_zero = \<lparr>
     pt_inx = 0, pt_in_use = False, pt_state = PORT_STATE_CLOSED, pt_scn = 0, pt_uuid = 0,
     pt_bd_addr = replicate 6 0, pt_is_server = False, pt_dlci = 0, pt_error = 0, pt_line_status = 0,
     pt_default_signal_state = 0, pt_mtu = 0, pt_peer_mtu = 0, pt_tx = zero_data, pt_rx = zero_data,
     pt_user_port_pars = zero_port_pars, pt_peer_port_pars = zero_port_pars, pt_local_ctrl = zero_ctrl,
     pt_peer_ctrl = zero_ctrl, pt_port_ctrl = 0, pt_rx_flag_ev_pending = False,
     pt_rfc_state = RFC_STATE_CLOSED, pt_expected_rsp = 0, pt_mcb = None, pt_timer = None,
     pt_ev_mask = 0, pt_callback = False, pt_mgmt_callback = False, pt_data_callback = False,
     pt_data_co_callback = False, pt_credit_tx = 0, pt_credit_rx = 0, pt_credit_rx_max = 0,
     pt_credit_rx_low = 0, pt_rx_buf_critical = 0, pt_keep_port_handle = False, pt_keep_mtu = 0\<rparr>"

definition port_set_defaults :: "rfc_env \<Rightarrow> nat \<Rightarrow> rfc_sys \<Rightarrow> rfc_sys" where
  "port_set_defaults e i s =
     (let (tq, s) = queue_new e s; (rq, s) = queue_new e s in
      port_upd i (\<lambda>p. p\<lparr>
        pt_ev_mask := 0, pt_callback := False, pt_port_ctrl := 0, pt_error := 0, pt_line_status := 0,
        pt_rx_flag_ev_pending := False, pt_peer_mtu := RFCOMM_DEFAULT_MTU,
        pt_user_port_pars := default_port_pars, pt_peer_port_pars := default_port_pars,
        pt_credit_tx := 0, pt_credit_rx := 0, pt_local_ctrl := zero_ctrl, pt_peer_ctrl := zero_ctrl,
        pt_rx := zero_data\<lparr>pd_queue := rq\<rparr>, pt_tx := zero_data\<lparr>pd_queue := tq\<rparr>\<rparr>) s)"

definition port_allocate_port ::
    "rfc_env \<Rightarrow> u8 \<Rightarrow> bytes \<Rightarrow> rfc_sys \<Rightarrow> nat option \<times> rfc_sys" where
  "port_allocate_port e dlci bd_addr s =
     (case find (\<lambda>i. \<not> pt_in_use (the_port s i)) (pool_order MAX_RFC_PORTS (rs_last_port s)) of
        None \<Rightarrow> (None, s)
      | Some i \<Rightarrow>
          let s = port_upd i (\<lambda>_. port_zero\<lparr>pt_in_use := True, pt_inx := of_nat i + 1, pt_dlci := dlci,
                    pt_bd_addr := bd_addr\<rparr>) s;
              s = port_set_defaults e i s
          in (Some i, s\<lparr>rs_last_port := i\<rparr>))"

text \<open>The arithmetic of the C code is in \<open>int\<close>; the results fit 16 bits.\<close>

definition port_select_mtu :: "rfc_env \<Rightarrow> nat \<Rightarrow> rfc_sys \<Rightarrow> rfc_sys" where
  "port_select_mtu e i = port_upd i (\<lambda>p.
     let packet_size = re_packet_size e (pt_bd_addr p);
         p = (if pt_mtu p = 0 then p\<lparr>pt_mtu :=
                (if packet_size = 0 then RFCOMM_DEFAULT_MTU
                 else if packet_size \<le> L2CAP_MTU_SIZE + L2CAP_PKT_OVERHEAD
                 then (L2CAP_MTU_SIZE + L2CAP_PKT_OVERHEAD) div packet_size * packet_size
                        - RFCOMM_DATA_OVERHEAD - L2CAP_PKT_OVERHEAD
                 else L2CAP_MTU_SIZE - RFCOMM_DATA_OVERHEAD)\<rparr> else p)
     in p\<lparr>pt_credit_rx_max := min (PORT_RX_HIGH_WM div pt_mtu p) PORT_RX_BUF_HIGH_WM,
          pt_credit_rx_low := min (PORT_RX_LOW_WM div pt_mtu p) PORT_RX_BUF_LOW_WM,
          pt_rx_buf_critical := min (PORT_RX_CRITICAL_WM div pt_mtu p) PORT_RX_BUF_CRITICAL_WM\<rparr>)"

definition port_find_mcb_dlci_port :: "nat \<Rightarrow> u8 \<Rightarrow> rfc_sys \<Rightarrow> nat option" where
  "port_find_mcb_dlci_port m dlci s =
     (if RFCOMM_MAX_DLCI < unat dlci then None
      else let inx = mx_port_inx (the_mcb s m) ! unat dlci in
        if inx = 0 then None else Some (unat inx - 1))"

text \<open>A port that listens on the even DLCI takes a connection on the odd one.\<close>

fun find_dlci_from :: "u8 \<Rightarrow> tport list \<Rightarrow> nat \<Rightarrow> (nat \<times> bool) option" where
  "find_dlci_from dlci [] i = None"
| "find_dlci_from dlci (p # ps) i =
     (if pt_in_use p \<and> pt_mcb p = None \<and> pt_dlci p = dlci then Some (i, False)
      else if pt_in_use p \<and> pt_mcb p = None \<and> dlci AND 1 \<noteq> 0 \<and> pt_dlci p = dlci - 1 then Some (i, True)
      else find_dlci_from dlci ps (Suc i))"

definition port_find_dlci_port :: "u8 \<Rightarrow> rfc_sys \<Rightarrow> nat option \<times> rfc_sys" where
  "port_find_dlci_port dlci s = (case find_dlci_from dlci (rs_port s) 0 of
     None \<Rightarrow> (None, s)
   | Some (i, up) \<Rightarrow> (Some i, if up then port_upd i (\<lambda>p. p\<lparr>pt_dlci := pt_dlci p + 1\<rparr>) s else s))"

definition port_find_port :: "u8 \<Rightarrow> bytes \<Rightarrow> rfc_sys \<Rightarrow> nat option" where
  "port_find_port dlci bd_addr s =
     find (\<lambda>i. pt_in_use (the_port s i) \<and> pt_dlci (the_port s i) = dlci \<and> pt_bd_addr (the_port s i) = bd_addr)
       [0..<MAX_RFC_PORTS]"

section \<open>Initialisation\<close>

definition zero_frame :: mx_frame where
  "zero_frame = \<lparr>mf_dlci = 0, mf_type = 0, mf_cr = 0, mf_ea = 0, mf_pf = 0, mf_credit = 0,
     pn_frame_type = 0, pn_conv_layer = 0, pn_priority = 0, pn_t1 = 0, pn_mtu = 0, pn_n2 = 0, pn_k = 0,
     msc_signals = 0, msc_break_present = 0, msc_break_duration = 0, nsc_ea = 0, nsc_cr = 0, nsc_type = 0,
     rpn_is_request = False, rpn_baud_rate = 0, rpn_byte_size = 0, rpn_stop_bits = 0, rpn_parity = 0,
     rpn_parity_type = 0, rpn_fc_type = 0, rpn_xon_char = 0, rpn_xoff_char = 0, rpn_param_mask = 0,
     rls_line_status = 0\<rparr>"

definition fresh_mcb :: tmcb where
  "fresh_mcb = \<lparr>
     mx_link = \<lparr>mcb_cmd_q = None, mcb_is_initiator = False, mcb_lcid = 0, mcb_flow = PORT_FC_UNDEFINED,
       mcb_l2cap_congested = False, mcb_written = []\<rparr>,
     mx_timer = None, mx_port_inx = replicate (RFCOMM_MAX_DLCI + 1) 0, mx_bd_addr = replicate 6 0,
     mx_peer_l2cap_mtu = 0, mx_state = RFC_MX_STATE_IDLE, mx_local_cfg_sent = False,
     mx_peer_cfg_rcvd = False, mx_restart_required = False, mx_peer_ready = False,
     mx_is_disc_initiator = False, mx_pending_lcid = 0, mx_pending_id = 0\<rparr>"

text \<open>\<open>n\<close> is \<open>MAX_BD_CONNECTIONS\<close>, which the build configures.\<close>

definition RFCOMM_Init :: "nat \<Rightarrow> rfc_sys" where
  "RFCOMM_Init n = \<lparr>rs_port = replicate MAX_RFC_PORTS port_zero, rs_mcb = replicate n fresh_mcb,
     rs_lcid_mcb = replicate MAX_L2CAP_CHANNELS None, rs_rx_frame = zero_frame,
     rs_peer_rx_disabled = False, rs_last_mux = n, rs_last_port = 0, rs_out = [], rs_clock = 0,
     rs_bad = False\<rparr>"

end
