(* ===== verification/RfcPort.thy ===== *)
theory RfcPort
  imports RfcSys
begin

text \<open>
  Flow control, closing, and the requests of a port: \<open>port_utils.c\<close>, \<open>rfc_utils.c\<close>, \<open>rfc_port_if.c\<close> and the
  data path of \<open>port_rfc.c\<close>.  The functions of the C code call each other in circles, but along an event
  that a machine answers without calling further: such an event (\<open>RFC_MX_EVENT_CLOSE_REQ\<close>,
  \<open>RFC_EVENT_CLOSE\<close>, \<open>RFC_EVENT_DATA\<close>, \<open>RFC_EVENT_ESTABLISH_RSP\<close>) is a definition of its own here, which
  the machines of \<open>RfcMachines\<close> use for their branch of it.
\<close>

unbundle bit_operations_syntax

section \<open>Signals and the flow of data from the user\<close>

definition port_get_signal_changes :: "tport \<Rightarrow> u8 \<Rightarrow> u8 \<Rightarrow> u32" where
  "port_get_signal_changes p old_signals signal =
     (let changed = signal XOR old_signals;
          ev = (\<lambda>b c d. if changed AND b \<noteq> 0 then c OR (if signal AND b \<noteq> 0 then d else 0) else 0)
      in pt_ev_mask p AND
        (ev PORT_DTRDSR_ON PORT_EV_DSR PORT_EV_DSRS OR ev PORT_CTSRTS_ON PORT_EV_CTS PORT_EV_CTSS OR
         ev PORT_RING_ON PORT_EV_RING 0 OR ev PORT_DCD_ON PORT_EV_RLSD PORT_EV_RLSDS))"

definition mcb_ready :: "rfc_sys \<Rightarrow> nat option \<Rightarrow> bool" where
  "mcb_ready s m = (case m of None \<Rightarrow> False | Some m \<Rightarrow> mx_peer_ready (the_mcb s m))"

definition port_flow_control_user :: "nat \<Rightarrow> rfc_sys \<Rightarrow> u32 \<times> rfc_sys" where
  "port_flow_control_user i s =
     (let p = the_port s i;
          fc = (pd_peer_fc (pt_tx p) \<or> \<not> mcb_ready s (pt_mcb p) \<or> PORT_TX_HIGH_WM < pd_queue_size (pt_tx p)
                \<or> PORT_TX_BUF_HIGH_WM < queue_length (pd_queue (pt_tx p)))
      in if pd_user_fc (pt_tx p) = fc then (0, s)
         else (if fc then PORT_EV_FC else PORT_EV_FC OR PORT_EV_FCS,
               port_upd i (\<lambda>p. p\<lparr>pt_tx := pt_tx p\<lparr>pd_user_fc := fc\<rparr>\<rparr>) s))"

text \<open>
  \<open>PORT_FlowInd\<close> on DLCI 0 with \<open>FALSE\<close>: no data is sent, since the peer is not ready.
\<close>

definition flow_off_port :: "nat \<Rightarrow> nat \<Rightarrow> rfc_sys \<Rightarrow> rfc_sys" where
  "flow_off_port m i s =
     (let p = the_port s i in
      if \<not> pt_in_use p \<or> pt_mcb p \<noteq> Some m \<or> pt_rfc_state p \<noteq> RFC_STATE_OPENED then s
      else
        let (ev1, s) = port_flow_control_user i s;
            (ev2, s) = (if 0 < pd_queue_size (pt_tx (the_port s i))
                        then apfst ((AND) (pt_ev_mask p)) (port_flow_control_user i s) else (0, s))
        in call_back i ((ev1 OR ev2) AND pt_ev_mask p) s)"

definition flow_off :: "nat \<Rightarrow> rfc_sys \<Rightarrow> rfc_sys" where
  "flow_off m s =
     fold (flow_off_port m) [0..<MAX_RFC_PORTS] (mcb_upd m (\<lambda>x. x\<lparr>mx_peer_ready := False\<rparr>) s)"

section \<open>Sending\<close>

text \<open>
  An operation of \<open>RfcFrames\<close> on a multiplexer.  L2CAP may call \<open>RFCOMM_CongestionStatusInd\<close> from within
  \<open>L2CA_DataWrite\<close> when the channel becomes congested; that it is so no longer is a call of its own.
\<close>

definition rfc_link :: "nat \<Rightarrow> (rfc_mcb \<Rightarrow> rfc_mcb outcome) \<Rightarrow> rfc_sys \<Rightarrow> rfc_sys" where
  "rfc_link m g s =
     (let l = mx_link (the_mcb s m) in
      case g l of
        Returns l' \<Rightarrow>
          let s = mcb_upd m (\<lambda>x. x\<lparr>mx_link :=
                l'\<lparr>mcb_l2cap_congested := mcb_l2cap_congested l \<or> mcb_l2cap_congested l'\<rparr>\<rparr>) s
          in if mcb_l2cap_congested l' \<and> \<not> mcb_l2cap_congested l \<and> \<not> rs_peer_rx_disabled s
             then flow_off m s else s
      | _ \<Rightarrow> rfc_fault s)"

text \<open>The same with a new buffer.\<close>

definition rfc_cmd ::
    "rfc_env \<Rightarrow> nat \<Rightarrow> (bt_hdr option \<Rightarrow> rfc_mcb \<Rightarrow> rfc_mcb outcome) \<Rightarrow> rfc_sys \<Rightarrow> rfc_sys" where
  "rfc_cmd e m g s = rfc_link m (g (re_mem e (rs_clock s))) (rfc_tick s)"

definition send_sabme :: "rfc_env \<Rightarrow> nat \<Rightarrow> u8 \<Rightarrow> rfc_sys \<Rightarrow> rfc_sys" where
  "send_sabme e m dlci = rfc_cmd e m (\<lambda>b l. rfc_send_sabme (re_lc e) b l dlci)"

definition send_ua :: "rfc_env \<Rightarrow> nat \<Rightarrow> u8 \<Rightarrow> rfc_sys \<Rightarrow> rfc_sys" where
  "send_ua e m dlci = rfc_cmd e m (\<lambda>b l. rfc_send_ua (re_lc e) b l dlci)"

definition send_dm :: "rfc_env \<Rightarrow> nat \<Rightarrow> u8 \<Rightarrow> bool \<Rightarrow> rfc_sys \<Rightarrow> rfc_sys" where
  "send_dm e m dlci pf = rfc_cmd e m (\<lambda>b l. rfc_send_dm (re_lc e) b l dlci pf)"

definition send_disc :: "rfc_env \<Rightarrow> nat \<Rightarrow> u8 \<Rightarrow> rfc_sys \<Rightarrow> rfc_sys" where
  "send_disc e m dlci = rfc_cmd e m (\<lambda>b l. rfc_send_disc (re_lc e) b l dlci)"

definition send_pn :: "rfc_env \<Rightarrow> nat \<Rightarrow> u8 \<Rightarrow> bool \<Rightarrow> u16 \<Rightarrow> u8 \<Rightarrow> u8 \<Rightarrow> rfc_sys \<Rightarrow> rfc_sys" where
  "send_pn e m dlci is_command mtu cl k s =
     rfc_cmd e m (\<lambda>b l. rfc_send_pn (re_lc e) b (rs_rx_frame s) l dlci is_command mtu cl k) s"

definition send_msc :: "rfc_env \<Rightarrow> nat \<Rightarrow> u8 \<Rightarrow> bool \<Rightarrow> port_ctrl \<Rightarrow> rfc_sys \<Rightarrow> rfc_sys" where
  "send_msc e m dlci is_command pars = rfc_cmd e m (\<lambda>b l. rfc_send_msc (re_lc e) b l dlci is_command pars)"

definition send_rls :: "rfc_env \<Rightarrow> nat \<Rightarrow> u8 \<Rightarrow> bool \<Rightarrow> u8 \<Rightarrow> rfc_sys \<Rightarrow> rfc_sys" where
  "send_rls e m dlci is_command st = rfc_cmd e m (\<lambda>b l. rfc_send_rls (re_lc e) b l dlci is_command st)"

definition send_rpn ::
    "rfc_env \<Rightarrow> nat \<Rightarrow> u8 \<Rightarrow> bool \<Rightarrow> port_state option \<Rightarrow> u16 \<Rightarrow> rfc_sys \<Rightarrow> rfc_sys" where
  "send_rpn e m dlci is_command pars pmask =
     rfc_cmd e m (\<lambda>b l. rfc_send_rpn (re_lc e) b l dlci is_command pars pmask)"

definition send_credit :: "rfc_env \<Rightarrow> nat \<Rightarrow> u8 \<Rightarrow> u8 \<Rightarrow> rfc_sys \<Rightarrow> rfc_sys" where
  "send_credit e m dlci credit = rfc_cmd e m (\<lambda>b l. rfc_send_credit (re_lc e) b l dlci credit)"

definition send_buf_uih :: "rfc_env \<Rightarrow> nat \<Rightarrow> u8 \<Rightarrow> bt_hdr \<Rightarrow> rfc_sys \<Rightarrow> rfc_sys" where
  "send_buf_uih e m dlci b = rfc_link m (\<lambda>l. rfc_send_buf_uih (re_lc e) l dlci b)"

section \<open>Closing\<close>

text \<open>\<open>RFC_MX_EVENT_CLOSE_REQ\<close> in every state of the multiplexer.\<close>

definition rfc_mx_close_req :: "rfc_env \<Rightarrow> nat \<Rightarrow> rfc_sys \<Rightarrow> rfc_sys" where
  "rfc_mx_close_req e m s =
     (if mx_state (the_mcb s m) = RFC_MX_STATE_CONNECTED then
        send_disc e m RFCOMM_MX_DLCI
          (mcb_upd m (\<lambda>x. x\<lparr>mx_state := RFC_MX_STATE_DISC_WAIT_UA\<rparr>) (rfc_timer_start m RFC_DISC_TIMEOUT s))
      else s)"

text \<open>The loop over the ports of a multiplexer ends before DLCI 61.\<close>

definition rfc_check_mcb_active :: "rfc_env \<Rightarrow> nat \<Rightarrow> rfc_sys \<Rightarrow> rfc_sys" where
  "rfc_check_mcb_active e m s =
     (if list_ex (\<lambda>x. x \<noteq> 0) (take RFCOMM_MAX_DLCI (mx_port_inx (the_mcb s m)))
      then mcb_upd m (\<lambda>x. x\<lparr>mx_is_disc_initiator := False\<rparr>) s
      else if mx_is_disc_initiator (the_mcb s m)
      then rfc_mx_close_req e m (mcb_upd m (\<lambda>x. x\<lparr>mx_is_disc_initiator := False\<rparr>) s)
      else rfc_timer_start m RFC_MCB_RELEASE_INACT_TIMER s)"

definition mcb_set_inx :: "nat \<Rightarrow> u8 \<Rightarrow> u8 \<Rightarrow> rfc_sys \<Rightarrow> rfc_sys" where
  "mcb_set_inx m dlci inx s =
     (if RFCOMM_MAX_DLCI < unat dlci then rfc_fault s
      else mcb_upd m (\<lambda>x. x\<lparr>mx_port_inx := (mx_port_inx x)[unat dlci := inx]\<rparr>) s)"

definition queue_clear :: "tport_data \<Rightarrow> tport_data" where
  "queue_clear d = d\<lparr>pd_queue := map_option (\<lambda>q. q\<lparr>aq_items := []\<rparr>) (pd_queue d), pd_queue_size := 0\<rparr>"

definition port_release_port :: "rfc_env \<Rightarrow> nat \<Rightarrow> rfc_sys \<Rightarrow> rfc_sys" where
  "port_release_port e i s =
     (let s = port_upd i (\<lambda>p. p\<lparr>pt_rx := queue_clear (pt_rx p), pt_tx := queue_clear (pt_tx p),
                pt_state := PORT_STATE_CLOSED\<rparr>) s
      in if pt_rfc_state (the_port s i) \<noteq> RFC_STATE_CLOSED then s
      else
        let s = (case pt_mcb (the_port s i) of
                   None \<Rightarrow> s
                 | Some m \<Rightarrow> rfc_check_mcb_active e m (mcb_set_inx m (pt_dlci (the_port s i)) 0 s));
            s = rfc_port_timer_stop i s;
            s = port_upd i (\<lambda>p. p\<lparr>pt_tx := pt_tx p\<lparr>pd_queue := None\<rparr>, pt_rx := pt_rx p\<lparr>pd_queue := None\<rparr>\<rparr>) s
        in if pt_keep_port_handle (the_port s i) then
          let old = the_port s i;
              s = port_set_defaults e i s
          in port_upd i (\<lambda>p. p\<lparr>
               pt_ev_mask := pt_ev_mask old, pt_callback := pt_callback old,
               pt_user_port_pars := pt_user_port_pars old, pt_mtu := pt_keep_mtu p,
               pt_state := PORT_STATE_OPENING, pt_mcb := None,
               pt_dlci := (if pt_is_server p then pt_dlci p AND 0xfe else pt_dlci p),
               pt_local_ctrl := pt_local_ctrl p\<lparr>ctl_modem_signal := pt_default_signal_state p\<rparr>,
               pt_bd_addr := replicate 6 0xFF\<rparr>) s
        else port_upd i (\<lambda>_. port_zero) (rfc_port_timer_free i s))"

definition port_rfc_closed :: "rfc_env \<Rightarrow> nat \<Rightarrow> u32 \<Rightarrow> rfc_sys \<Rightarrow> rfc_sys" where
  "port_rfc_closed e i res s =
     (let p = the_port s i in
      if pt_state p = PORT_STATE_OPENING \<and> pt_is_server p then
        let s = port_upd i (\<lambda>p. p\<lparr>pt_rfc_state := RFC_STATE_CLOSED\<rparr>) (rfc_port_timer_stop i s);
            s = (case pt_mcb p of
                   None \<Rightarrow> s
                 | Some m \<Rightarrow> port_upd i (\<lambda>p. p\<lparr>pt_mcb := None\<rparr>)
                     (rfc_check_mcb_active e m (mcb_set_inx m (pt_dlci p) 0 s)))
        in port_upd i (\<lambda>p. p\<lparr>pt_dlci := pt_dlci p AND 0xfe\<rparr>) s
      else
        let signals = ctl_modem_signal (pt_peer_ctrl p) AND NOT (PORT_DTRDSR_ON OR PORT_CTSRTS_ON OR PORT_DCD_ON);
            (events, s) =
              (if pt_state p \<noteq> PORT_STATE_CLOSING \<and> pt_state p \<noteq> PORT_STATE_CLOSED then
                 (port_get_signal_changes p (ctl_modem_signal (pt_peer_ctrl p)) signals OR
                    (pt_ev_mask p AND PORT_EV_CONNECT_ERR),
                  port_upd i (\<lambda>p. p\<lparr>pt_line_status := pt_line_status p OR LINE_STATUS_FAILED,
                    pt_peer_ctrl := pt_peer_ctrl p\<lparr>ctl_modem_signal := signals\<rparr>\<rparr>) s)
               else (0, s));
            s = mgmt_call_back i res (call_back i events s)
        in port_release_port e i (port_upd i (\<lambda>p. p\<lparr>pt_rfc_state := RFC_STATE_CLOSED\<rparr>) s))"

definition rfc_port_closed :: "rfc_env \<Rightarrow> nat \<Rightarrow> rfc_sys \<Rightarrow> rfc_sys" where
  "rfc_port_closed e i s =
     (let m = pt_mcb (the_port s i);
          s = port_upd i (\<lambda>p. p\<lparr>pt_rfc_state := RFC_STATE_CLOSED\<rparr>) (rfc_port_timer_stop i s);
          s = (case m of
                 None \<Rightarrow> s
               | Some m \<Rightarrow> rfc_check_mcb_active e m (mcb_set_inx m (pt_dlci (the_port s i)) 0 s))
      in port_rfc_closed e i PORT_CLOSED s)"

section \<open>Requests of a port that send a message\<close>

definition RFCOMM_ParNegReq :: "rfc_env \<Rightarrow> nat \<Rightarrow> u8 \<Rightarrow> u16 \<Rightarrow> rfc_sys \<Rightarrow> rfc_sys" where
  "RFCOMM_ParNegReq e m dlci mtu s =
     (case port_find_mcb_dlci_port m dlci s of
        None \<Rightarrow> s
      | Some i \<Rightarrow>
          if mx_state (the_mcb s m) \<noteq> RFC_MX_STATE_CONNECTED
          then port_upd i (\<lambda>p. p\<lparr>pt_error := PORT_PAR_NEG_FAILED\<rparr>) s
          else
            let l = mx_link (the_mcb s m);
                flow = (if mcb_flow l = PORT_FC_UNDEFINED then PORT_FC_DEFAULT else mcb_flow l);
                (cl, k, s) =
                  (if flow = PORT_FC_CREDIT then
                     let k = (if pt_credit_rx_max (the_port s i) < RFCOMM_K_MAX
                              then ucast (pt_credit_rx_max (the_port s i)) else RFCOMM_K_MAX) :: u8
                     in (RFCOMM_PN_CONV_LAYER_CBFC_I, k, port_upd i (\<lambda>p. p\<lparr>pt_credit_rx := ucast k\<rparr>) s)
                   else (RFCOMM_PN_CONV_LAYER_TYPE_1, 0, s));
                s = port_upd i (\<lambda>p. p\<lparr>pt_expected_rsp := pt_expected_rsp p OR RFC_RSP_PN\<rparr>) s
            in rfc_port_timer_start i RFC_T2_TIMEOUT (send_pn e m dlci True mtu cl k s))"

definition RFCOMM_ParNegRsp :: "rfc_env \<Rightarrow> nat \<Rightarrow> u8 \<Rightarrow> u16 \<Rightarrow> u8 \<Rightarrow> u8 \<Rightarrow> rfc_sys \<Rightarrow> rfc_sys" where
  "RFCOMM_ParNegRsp e m dlci mtu cl k s =
     (if mx_state (the_mcb s m) \<noteq> RFC_MX_STATE_CONNECTED then s else send_pn e m dlci False mtu cl k s)"

definition RFCOMM_PortNegRsp ::
    "rfc_env \<Rightarrow> nat \<Rightarrow> u8 \<Rightarrow> port_state \<Rightarrow> u16 \<Rightarrow> rfc_sys \<Rightarrow> rfc_sys" where
  "RFCOMM_PortNegRsp e m dlci pars pmask s =
     (if mx_state (the_mcb s m) \<noteq> RFC_MX_STATE_CONNECTED then s
      else send_rpn e m dlci False (Some pars) pmask s)"

definition port_is_open :: "tport \<Rightarrow> bool" where
  "port_is_open p = (pt_state p = PORT_STATE_OPENED \<and> pt_rfc_state p = RFC_STATE_OPENED)"

definition RFCOMM_ControlReq :: "rfc_env \<Rightarrow> nat \<Rightarrow> u8 \<Rightarrow> port_ctrl \<Rightarrow> rfc_sys \<Rightarrow> rfc_sys" where
  "RFCOMM_ControlReq e m dlci pars s =
     (case port_find_mcb_dlci_port m dlci s of
        None \<Rightarrow> s
      | Some i \<Rightarrow>
          if \<not> port_is_open (the_port s i) then s
          else rfc_port_timer_start i RFC_T2_TIMEOUT (send_msc e m dlci True pars
            (port_upd i (\<lambda>p. p\<lparr>pt_port_ctrl := pt_port_ctrl p OR PORT_CTRL_REQ_SENT,
               pt_expected_rsp := pt_expected_rsp p OR RFC_RSP_MSC\<rparr>) s)))"

definition RFCOMM_FlowReq :: "rfc_env \<Rightarrow> nat \<Rightarrow> u8 \<Rightarrow> bool \<Rightarrow> rfc_sys \<Rightarrow> rfc_sys" where
  "RFCOMM_FlowReq e m dlci enable s =
     (case port_find_mcb_dlci_port m dlci s of
        None \<Rightarrow> s
      | Some i \<Rightarrow>
          if \<not> port_is_open (the_port s i) then s
          else
            let s = port_upd i (\<lambda>p. p\<lparr>pt_local_ctrl := pt_local_ctrl p\<lparr>ctl_fc := \<not> enable\<rparr>,
                      pt_expected_rsp := pt_expected_rsp p OR RFC_RSP_MSC\<rparr>) s
            in rfc_port_timer_start i RFC_T2_TIMEOUT
                 (send_msc e m dlci True (pt_local_ctrl (the_port s i)) s))"

definition RFCOMM_LineStatusReq :: "rfc_env \<Rightarrow> nat \<Rightarrow> u8 \<Rightarrow> u8 \<Rightarrow> rfc_sys \<Rightarrow> rfc_sys" where
  "RFCOMM_LineStatusReq e m dlci st s =
     (case port_find_mcb_dlci_port m dlci s of
        None \<Rightarrow> s
      | Some i \<Rightarrow>
          if \<not> port_is_open (the_port s i) then s
          else rfc_port_timer_start i RFC_T2_TIMEOUT (send_rls e m dlci True st
            (port_upd i (\<lambda>p. p\<lparr>pt_expected_rsp := pt_expected_rsp p OR RFC_RSP_RLS\<rparr>) s)))"

section \<open>Credits\<close>

text \<open>
  What \<open>RFC_EVENT_DATA\<close> does of credits in state OPENED: a frame that is not full carries the credits that
  are missing to the maximum.
\<close>

definition data_credits :: "u8 \<Rightarrow> bt_hdr \<Rightarrow> tport \<Rightarrow> bt_hdr \<times> tport" where
  "data_credits flow b p =
     (if flow = PORT_FC_CREDIT \<and> bh_len b < pt_peer_mtu p \<and> \<not> pd_user_fc (pt_rx p)
         \<and> pt_credit_rx p < pt_credit_rx_max p
      then (b\<lparr>bh_layer_specific := ucast (ucast (pt_credit_rx_max p - pt_credit_rx p) :: u8)\<rparr>,
            p\<lparr>pt_credit_rx := pt_credit_rx_max p\<rparr>)
      else (b\<lparr>bh_layer_specific := 0\<rparr>, p))"

definition dec_credit :: "u8 \<Rightarrow> tport \<Rightarrow> tport" where
  "dec_credit flow p =
     (if flow = PORT_FC_CREDIT then
        let p = (if 0 < pt_credit_tx p then p\<lparr>pt_credit_tx := pt_credit_tx p - 1\<rparr> else p)
        in if pt_credit_tx p = 0 then p\<lparr>pt_tx := pt_tx p\<lparr>pd_peer_fc := True\<rparr>\<rparr> else p
      else p)"

definition rfc_dec_credit :: "nat \<Rightarrow> rfc_sys \<Rightarrow> rfc_sys" where
  "rfc_dec_credit i =
     port_mcb i (\<lambda>m s. port_upd i (dec_credit (mcb_flow (mx_link (the_mcb s m)))) s)"

text \<open>\<open>RFC_EVENT_DATA\<close> in every state of the port machine; where it is not sent the buffer is freed.\<close>

definition rfc_port_sm_data :: "rfc_env \<Rightarrow> nat \<Rightarrow> bt_hdr \<Rightarrow> rfc_sys \<Rightarrow> rfc_sys" where
  "rfc_port_sm_data e i b s =
     (if pt_rfc_state (the_port s i) \<noteq> RFC_STATE_OPENED then s
      else port_mcb i (\<lambda>m s.
        let (b, p) = data_credits (mcb_flow (mx_link (the_mcb s m))) b (the_port s i);
            s = port_upd i (\<lambda>_. p) s
        in rfc_dec_credit i (send_buf_uih e m (pt_dlci p) b s)) s)"

definition RFCOMM_DataReq :: "rfc_env \<Rightarrow> nat \<Rightarrow> u8 \<Rightarrow> bt_hdr \<Rightarrow> rfc_sys \<Rightarrow> rfc_sys" where
  "RFCOMM_DataReq e m dlci b s =
     (case port_find_mcb_dlci_port m dlci s of None \<Rightarrow> s | Some i \<Rightarrow> rfc_port_sm_data e i b s)"

section \<open>Data to the peer\<close>

text \<open>A round of the loop takes a buffer from the queue: one round more than there are buffers is enough.\<close>

fun tx_data_loop :: "rfc_env \<Rightarrow> nat \<Rightarrow> nat \<Rightarrow> u32 \<Rightarrow> rfc_sys \<Rightarrow> u32 \<times> rfc_sys" where
  "tx_data_loop e i 0 events s = (events, rfc_fault s)"
| "tx_data_loop e i (Suc n) events s =
     (let p = the_port s i in
      if pd_peer_fc (pt_tx p) \<or> \<not> mcb_ready s (pt_mcb p) then (events, s)
      else case queue_take (pd_queue (pt_tx p)) of
        (None, _) \<Rightarrow> (events OR PORT_EV_TXEMPTY, s)
      | (Some b, q) \<Rightarrow>
          let s = port_upd i (\<lambda>p. p\<lparr>pt_tx := pt_tx p\<lparr>pd_queue := q,
                    pd_queue_size := pd_queue_size (pt_tx p) - ucast (bh_len b)\<rparr>\<rparr>) s;
              s = port_mcb i (\<lambda>m. RFCOMM_DataReq e m (pt_dlci p) b) s
          in if pd_queue_size (pt_tx (the_port s i)) = 0
             then (events OR PORT_EV_TXCHAR OR PORT_EV_TXEMPTY, s)
             else tx_data_loop e i n (events OR PORT_EV_TXCHAR) s)"

definition port_rfc_send_tx_data :: "rfc_env \<Rightarrow> nat \<Rightarrow> rfc_sys \<Rightarrow> u32 \<times> rfc_sys" where
  "port_rfc_send_tx_data e i s =
     (let (events, s) =
        (if 0 < pd_queue_size (pt_tx (the_port s i)) then
           let (ev1, s) = tx_data_loop e i (Suc (queue_length (pd_queue (pt_tx (the_port s i))))) 0 s;
               (ev2, s) = port_flow_control_user i s
           in (ev1 OR ev2, s)
         else (0, s))
      in (events AND pt_ev_mask (the_port s i), s))"

definition flow_ind_port :: "rfc_env \<Rightarrow> nat \<Rightarrow> rfc_sys \<Rightarrow> rfc_sys" where
  "flow_ind_port e i s =
     (let (ev1, s) = port_flow_control_user i s;
          (ev2, s) = port_rfc_send_tx_data e i s
      in call_back i ((ev1 OR ev2) AND pt_ev_mask (the_port s i)) s)"

definition PORT_FlowInd :: "rfc_env \<Rightarrow> nat \<Rightarrow> u8 \<Rightarrow> bool \<Rightarrow> rfc_sys \<Rightarrow> rfc_sys" where
  "PORT_FlowInd e m dlci enable_data s =
     (if dlci = 0 then
        fold (\<lambda>i s. let p = the_port s i in
            if \<not> pt_in_use p \<or> pt_mcb p \<noteq> Some m \<or> pt_rfc_state p \<noteq> RFC_STATE_OPENED then s
            else flow_ind_port e i s)
          [0..<MAX_RFC_PORTS] (mcb_upd m (\<lambda>x. x\<lparr>mx_peer_ready := enable_data\<rparr>) s)
      else case port_find_mcb_dlci_port m dlci s of
        None \<Rightarrow> s
      | Some i \<Rightarrow> flow_ind_port e i (port_upd i (\<lambda>p. p\<lparr>pt_tx := pt_tx p\<lparr>pd_peer_fc := \<not> enable_data\<rparr>\<rparr>) s))"

definition rfc_inc_credit :: "rfc_env \<Rightarrow> nat \<Rightarrow> u8 \<Rightarrow> rfc_sys \<Rightarrow> rfc_sys" where
  "rfc_inc_credit e i credit =
     port_mcb i (\<lambda>m s.
       if mcb_flow (mx_link (the_mcb s m)) = PORT_FC_CREDIT then
         let s = port_upd i (\<lambda>p. p\<lparr>pt_credit_tx := pt_credit_tx p + ucast credit\<rparr>) s
         in if pd_peer_fc (pt_tx (the_port s i)) then PORT_FlowInd e m (pt_dlci (the_port s i)) True s else s
       else s)"

section \<open>Data from the peer\<close>

text \<open>
  What \<open>port_flow_control_peer\<close> does of credits when \<open>count\<close> buffers were taken out: the credits to send.
\<close>

definition credit_update :: "u16 \<Rightarrow> tport \<Rightarrow> u8 option \<times> tport" where
  "credit_update cnt p =
     (let p = p\<lparr>pt_credit_rx := (if pt_credit_rx p < cnt then 0 else pt_credit_rx p - cnt)\<rparr> in
      if pt_credit_rx p \<le> pt_credit_rx_low p \<and> \<not> pd_user_fc (pt_rx p) \<and> pt_credit_rx p < pt_credit_rx_max p
      then (Some (ucast (pt_credit_rx_max p - pt_credit_rx p)),
            p\<lparr>pt_credit_rx := pt_credit_rx_max p, pt_rx := pt_rx p\<lparr>pd_peer_fc := False\<rparr>\<rparr>)
      else (None, p))"

definition rx_peer_fc :: "nat \<Rightarrow> bool \<Rightarrow> rfc_sys \<Rightarrow> rfc_sys" where
  "rx_peer_fc i fc = port_upd i (\<lambda>p. p\<lparr>pt_rx := pt_rx p\<lparr>pd_peer_fc := fc\<rparr>\<rparr>)"

definition port_flow_control_peer :: "rfc_env \<Rightarrow> nat \<Rightarrow> bool \<Rightarrow> u16 \<Rightarrow> rfc_sys \<Rightarrow> rfc_sys" where
  "port_flow_control_peer e i enable cnt s =
     (case pt_mcb (the_port s i) of
        None \<Rightarrow> s
      | Some m \<Rightarrow>
          let p = the_port s i; rx = pt_rx p; n = queue_length (pd_queue rx) in
          if mcb_flow (mx_link (the_mcb s m)) = PORT_FC_CREDIT then
            (if enable then
               (case credit_update cnt p of
                  (None, p) \<Rightarrow> port_upd i (\<lambda>_. p) s
                | (Some c, p) \<Rightarrow> port_upd i (\<lambda>q. q\<lparr>pt_credit_rx := pt_credit_rx p, pt_rx := pt_rx p\<rparr>)
                    (send_credit e m (pt_dlci p) c s))
             else if pt_data_callback p \<or> pt_data_co_callback p then rx_peer_fc i True s
             else if unat (pt_credit_rx_max p) \<le> n then rx_peer_fc i True s
             else s)
          else
            (if enable then
               (if pd_peer_fc rx \<and> pd_queue_size rx < PORT_RX_LOW_WM \<and> n < PORT_RX_BUF_LOW_WM then
                  let s = rx_peer_fc i False s
                  in if pd_user_fc rx then s else RFCOMM_FlowReq e m (pt_dlci p) True s
                else s)
             else if pt_data_callback p \<or> pt_data_co_callback p then
               RFCOMM_FlowReq e m (pt_dlci p) False (rx_peer_fc i True s)
             else if (PORT_RX_HIGH_WM < pd_queue_size rx \<or> PORT_RX_BUF_HIGH_WM < n) \<and> \<not> pd_peer_fc rx then
               RFCOMM_FlowReq e m (pt_dlci p) False (rx_peer_fc i True s)
             else s))"

text \<open>A buffer put into the receive queue.\<close>

definition rx_enqueue :: "nat \<Rightarrow> bt_hdr \<Rightarrow> rfc_sys \<Rightarrow> rfc_sys" where
  "rx_enqueue i b s =
     (case pd_queue (pt_rx (the_port s i)) of
        None \<Rightarrow> rfc_fault s
      | Some q \<Rightarrow> (case aq_enqueue q b of
          Returns q \<Rightarrow> port_upd i (\<lambda>p. p\<lparr>pt_rx := pt_rx p\<lparr>pd_queue := Some q,
            pd_queue_size := pd_queue_size (pt_rx p) + ucast (bh_len b)\<rparr>\<rparr>) s
        | _ \<Rightarrow> rfc_fault s))"

definition PORT_DataInd :: "rfc_env \<Rightarrow> nat \<Rightarrow> u8 \<Rightarrow> bt_hdr \<Rightarrow> rfc_sys \<Rightarrow> rfc_sys" where
  "PORT_DataInd e m dlci b s =
     (case port_find_mcb_dlci_port m dlci s of
        None \<Rightarrow> s
      | Some i \<Rightarrow>
          let p = the_port s i; rx = pt_rx p in
          if pt_data_co_callback p then
            let took = re_co_take e (rs_clock s);
                s = rfc_emit (Out_data_co_callback (pt_inx p) b) (rfc_tick s)
            in if took then port_flow_control_peer e i True 1 s else port_flow_control_peer e i False 0 s
          else if pt_data_callback p then
            rfc_emit (Out_data_callback (pt_inx p) (bh_payload b)) (port_flow_control_peer e i True 1 s)
          else if PORT_RX_CRITICAL_WM < pd_queue_size rx + ucast (bh_len b)
              \<or> unat (pt_rx_buf_critical p) < queue_length (pd_queue rx) + 1
          then RFCOMM_LineStatusReq e m dlci LINE_STATUS_OVERRUN s
          else
            let rx_char1 = ps_rx_char1 (pt_user_port_pars p);
                flag = (rx_char1 \<noteq> 0 \<and> pt_ev_mask p AND PORT_EV_RXFLAG \<noteq> 0
                        \<and> list_ex (\<lambda>c. c = rx_char1) (bh_payload b));
                s = port_flow_control_peer e i False 0 (rx_enqueue i b s);
                p = the_port s i
            in if pd_user_fc (pt_rx p) then
                 (if flag then port_upd i (\<lambda>p. p\<lparr>pt_rx_flag_ev_pending := True\<rparr>) s else s)
               else call_back i (((if flag then PORT_EV_RXFLAG else 0) OR PORT_EV_RXCHAR) AND pt_ev_mask p) s)"

end
