(* ===== verification/RfcMachines.thy ===== *)
theory RfcMachines
  imports RfcPort
begin

text \<open>
  The two state machines of RFCOMM with the port entity between them: \<open>rfc_port_fsm.c\<close>, \<open>rfc_mx_fsm.c\<close>, the
  rest of \<open>port_rfc.c\<close> and \<open>rfc_port_if.c\<close>, and the callbacks of L2CAP, of the security manager and of the
  timers (\<open>rfc_l2cap_if.c\<close>, \<open>rfc_utils.c\<close>).
\<close>

unbundle bit_operations_syntax

section \<open>Ending a connection\<close>

text \<open>A call with the multiplexer of a port that does nothing when there is none.\<close>

definition port_mcb_opt :: "nat \<Rightarrow> (nat \<Rightarrow> rfc_sys \<Rightarrow> rfc_sys) \<Rightarrow> rfc_sys \<Rightarrow> rfc_sys" where
  "port_mcb_opt i f s = (case pt_mcb (the_port s i) of None \<Rightarrow> s | Some m \<Rightarrow> f m s)"

definition abort_access :: "nat \<Rightarrow> rfc_sys \<Rightarrow> rfc_sys" where
  "abort_access i = port_mcb i (\<lambda>m s. rfc_emit (Out_abort_access (mx_bd_addr (the_mcb s m))) s)"

text \<open>\<open>RFC_EVENT_CLOSE\<close> in every state of the port machine.\<close>

definition rfc_port_sm_close :: "rfc_env \<Rightarrow> nat \<Rightarrow> rfc_sys \<Rightarrow> rfc_sys" where
  "rfc_port_sm_close e i s =
     (case pt_rfc_state (the_port s i) of
        RFC_STATE_CLOSED \<Rightarrow> s
      | RFC_STATE_ORIG_WAIT_SEC_CHECK \<Rightarrow> rfc_port_closed e i (abort_access i s)
      | RFC_STATE_TERM_WAIT_SEC_CHECK \<Rightarrow> s
      | RFC_STATE_DISC_WAIT_UA \<Rightarrow> s
      | _ \<Rightarrow>
          port_upd i (\<lambda>p. p\<lparr>pt_expected_rsp := 0, pt_rfc_state := RFC_STATE_DISC_WAIT_UA\<rparr>)
            (port_mcb i (\<lambda>m s. send_disc e m (pt_dlci (the_port s i)) s)
              (rfc_port_timer_start i RFC_DISC_TIMEOUT s)))"

definition RFCOMM_DlcReleaseReq :: "rfc_env \<Rightarrow> nat \<Rightarrow> u8 \<Rightarrow> rfc_sys \<Rightarrow> rfc_sys" where
  "RFCOMM_DlcReleaseReq e m dlci s =
     (case port_find_mcb_dlci_port m dlci s of None \<Rightarrow> s | Some i \<Rightarrow> rfc_port_sm_close e i s)"

definition PORT_DlcReleaseInd :: "rfc_env \<Rightarrow> nat \<Rightarrow> u8 \<Rightarrow> rfc_sys \<Rightarrow> rfc_sys" where
  "PORT_DlcReleaseInd e m dlci s =
     (case port_find_mcb_dlci_port m dlci s of None \<Rightarrow> s | Some i \<Rightarrow> port_rfc_closed e i PORT_CLOSED s)"

definition close_ports :: "rfc_env \<Rightarrow> nat option \<Rightarrow> u32 \<Rightarrow> rfc_sys \<Rightarrow> rfc_sys" where
  "close_ports e m res s =
     fold (\<lambda>i s. if pt_mcb (the_port s i) = m then port_rfc_closed e i res s else s)
       [0..<MAX_RFC_PORTS] s"

definition PORT_CloseInd :: "rfc_env \<Rightarrow> nat \<Rightarrow> rfc_sys \<Rightarrow> rfc_sys" where
  "PORT_CloseInd e m s =
     rfc_release_multiplexer_channel m (close_ports e (Some m) PORT_PEER_CONNECTION_FAILED s)"

text \<open>Called for a port without multiplexer, it closes all such ports.\<close>

definition Port_TimeOutCloseMux :: "rfc_env \<Rightarrow> nat option \<Rightarrow> rfc_sys \<Rightarrow> rfc_sys" where
  "Port_TimeOutCloseMux e m = close_ports e m PORT_PEER_TIMEOUT"

section \<open>Starting the multiplexer\<close>

definition start_cnf_port :: "rfc_env \<Rightarrow> nat \<Rightarrow> u16 \<Rightarrow> nat \<Rightarrow> rfc_sys \<Rightarrow> rfc_sys" where
  "start_cnf_port e m result i s =
     (if result = RFCOMM_SUCCESS then
        RFCOMM_ParNegReq e m (pt_dlci (the_port s i)) (pt_mtu (the_port s i)) s
      else
        let s = port_upd i (\<lambda>p. p\<lparr>pt_error :=
                  (if result = HCI_ERR_PAGE_TIMEOUT then PORT_PAGE_TIMEOUT else PORT_START_FAILED)\<rparr>) s;
            s = port_upd i (\<lambda>p. p\<lparr>pt_mcb := None\<rparr>) (rfc_release_multiplexer_channel m s);
            s = call_back i (pt_ev_mask (the_port s i) AND PORT_EV_CONNECT_ERR) s
        in port_release_port e i (mgmt_call_back i PORT_START_FAILED s))"

definition PORT_StartCnf :: "rfc_env \<Rightarrow> nat \<Rightarrow> u16 \<Rightarrow> rfc_sys \<Rightarrow> rfc_sys" where
  "PORT_StartCnf e m result s =
     (let (no_ports_up, s) =
        fold (\<lambda>i (none, s). if pt_mcb (the_port s i) = Some m then (False, start_cnf_port e m result i s)
                            else (none, s))
          [0..<MAX_RFC_PORTS] (True, s)
      in if no_ports_up then rfc_check_mcb_active e m s else s)"

text \<open>\<open>RFC_MX_EVENT_START_RSP\<close> in every state of the multiplexer.\<close>

definition RFCOMM_StartRsp :: "rfc_env \<Rightarrow> nat \<Rightarrow> u16 \<Rightarrow> rfc_sys \<Rightarrow> rfc_sys" where
  "RFCOMM_StartRsp e m result s =
     (if mx_state (the_mcb s m) = RFC_MX_STATE_WAIT_SABME then
        (if result \<noteq> RFCOMM_SUCCESS then send_dm e m RFCOMM_MX_DLCI True s
         else mcb_upd m (\<lambda>x. x\<lparr>mx_state := RFC_MX_STATE_CONNECTED, mx_peer_ready := True\<rparr>)
                (send_ua e m RFCOMM_MX_DLCI s))
      else s)"

definition PORT_StartInd :: "rfc_env \<Rightarrow> nat \<Rightarrow> rfc_sys \<Rightarrow> rfc_sys" where
  "PORT_StartInd e m s =
     RFCOMM_StartRsp e m
       (if list_ex (\<lambda>p. pt_mcb p = None \<or> pt_mcb p = Some m) (rs_port s) then RFCOMM_SUCCESS else RFCOMM_ERROR) s"

section \<open>Establishing a connection\<close>

definition PORT_PortNegCnf :: "rfc_env \<Rightarrow> nat \<Rightarrow> u8 \<Rightarrow> u16 \<Rightarrow> rfc_sys \<Rightarrow> rfc_sys" where
  "PORT_PortNegCnf e m dlci result s =
     (case port_find_mcb_dlci_port m dlci s of
        None \<Rightarrow> s
      | Some i \<Rightarrow>
          if result \<noteq> RFCOMM_SUCCESS then
            port_rfc_closed e i PORT_PORT_NEG_FAILED
              (RFCOMM_DlcReleaseReq e m (pt_dlci (the_port s i))
                (port_upd i (\<lambda>p. p\<lparr>pt_error := PORT_PORT_NEG_FAILED\<rparr>) s))
          else if pt_port_ctrl (the_port s i) AND PORT_CTRL_REQ_SENT = 0 then
            port_mcb_opt i (\<lambda>m s. RFCOMM_ControlReq e m (pt_dlci (the_port s i)) (pt_local_ctrl (the_port s i)) s) s
          else s)"

definition RFCOMM_PortNegReq :: "rfc_env \<Rightarrow> nat \<Rightarrow> u8 \<Rightarrow> port_state option \<Rightarrow> rfc_sys \<Rightarrow> rfc_sys" where
  "RFCOMM_PortNegReq e m dlci pars s =
     (if mx_state (the_mcb s m) \<noteq> RFC_MX_STATE_CONNECTED then PORT_PortNegCnf e m dlci RFCOMM_ERROR s
      else case port_find_mcb_dlci_port m dlci s of
        None \<Rightarrow> s
      | Some i \<Rightarrow>
          rfc_port_timer_start i RFC_T2_TIMEOUT (send_rpn e m dlci True pars 0x3F7F
            (port_upd i (\<lambda>p. p\<lparr>pt_expected_rsp := pt_expected_rsp p OR
               (if pars = None then RFC_RSP_RPN_REPLY else RFC_RSP_RPN)\<rparr>) s)))"

text \<open>If L2CAP's MTU is less than RFCOMM's, take it.\<close>

definition take_mtu :: "u16 \<Rightarrow> tport \<Rightarrow> tport" where
  "take_mtu mtu p = (if mtu \<noteq> 0 \<and> mtu < pt_peer_mtu p then p\<lparr>pt_peer_mtu := mtu\<rparr> else p)"

definition PORT_DlcEstablishCnf :: "rfc_env \<Rightarrow> nat \<Rightarrow> u8 \<Rightarrow> u16 \<Rightarrow> u16 \<Rightarrow> rfc_sys \<Rightarrow> rfc_sys" where
  "PORT_DlcEstablishCnf e m dlci mtu result s =
     (case port_find_mcb_dlci_port m dlci s of
        None \<Rightarrow> s
      | Some i \<Rightarrow>
          if result \<noteq> RFCOMM_SUCCESS then
            port_rfc_closed e i PORT_START_FAILED (port_upd i (\<lambda>p. p\<lparr>pt_error := PORT_START_FAILED\<rparr>) s)
          else
            let s = rfc_timer_stop m (port_upd i (take_mtu mtu) s);
                s = call_back i (pt_ev_mask (the_port s i) AND PORT_EV_CONNECTED) s;
                s = mgmt_call_back i PORT_SUCCESS s;
                s = port_upd i (\<lambda>p. p\<lparr>pt_state := PORT_STATE_OPENED\<rparr>) s;
                p = the_port s i
            in if pt_uuid p = 0x1103 \<or> pt_uuid p = 0x1111
               then port_mcb i (\<lambda>m. RFCOMM_PortNegReq e m (pt_dlci p) None) s
               else port_mcb_opt i (\<lambda>m. RFCOMM_ControlReq e m (pt_dlci p) (pt_local_ctrl p)) s)"

text \<open>\<open>RFC_EVENT_ESTABLISH_RSP\<close> in every state of the port machine; of the result the low byte is read.\<close>

definition rfc_port_sm_establish_rsp :: "rfc_env \<Rightarrow> nat \<Rightarrow> u16 \<Rightarrow> rfc_sys \<Rightarrow> rfc_sys" where
  "rfc_port_sm_establish_rsp e i result s =
     (if pt_rfc_state (the_port s i) = RFC_STATE_TERM_WAIT_SEC_CHECK then
        (if (ucast result :: u8) \<noteq> 0 then
           port_mcb_opt i (\<lambda>m s. send_dm e m (pt_dlci (the_port s i)) True s) s
         else port_upd i (\<lambda>p. p\<lparr>pt_rfc_state := RFC_STATE_OPENED\<rparr>)
                (port_mcb i (\<lambda>m s. send_ua e m (pt_dlci (the_port s i)) s) s))
      else s)"

definition RFCOMM_DlcEstablishRsp :: "rfc_env \<Rightarrow> nat \<Rightarrow> u8 \<Rightarrow> u16 \<Rightarrow> rfc_sys \<Rightarrow> rfc_sys" where
  "RFCOMM_DlcEstablishRsp e m dlci result s =
     (if mx_state (the_mcb s m) \<noteq> RFC_MX_STATE_CONNECTED \<and> result = RFCOMM_SUCCESS
      then PORT_DlcReleaseInd e m dlci s
      else case port_find_mcb_dlci_port m dlci s of
        None \<Rightarrow> s
      | Some i \<Rightarrow> rfc_port_sm_establish_rsp e i result s)"

text \<open>
  The port of a DLCI, or one that waits for a connection on it: this can be the first request for it.
\<close>

definition port_for_dlci :: "nat \<Rightarrow> u8 \<Rightarrow> rfc_sys \<Rightarrow> nat option \<times> rfc_sys" where
  "port_for_dlci m dlci s =
     (case port_find_mcb_dlci_port m dlci s of
        Some i \<Rightarrow> (Some i, s)
      | None \<Rightarrow> (case port_find_dlci_port dlci s of
          (None, s) \<Rightarrow> (None, s)
        | (Some i, s) \<Rightarrow> (Some i, mcb_set_inx m dlci (pt_inx (the_port s i)) s)))"

definition PORT_DlcEstablishInd :: "rfc_env \<Rightarrow> nat \<Rightarrow> u8 \<Rightarrow> u16 \<Rightarrow> rfc_sys \<Rightarrow> rfc_sys" where
  "PORT_DlcEstablishInd e m dlci mtu s =
     (case port_for_dlci m dlci s of
        (None, s) \<Rightarrow> RFCOMM_DlcEstablishRsp e m dlci RFCOMM_ERROR s
      | (Some i, s) \<Rightarrow>
          let s = rfc_timer_stop m (port_upd i (take_mtu mtu) s);
              s = RFCOMM_DlcEstablishRsp e m dlci RFCOMM_SUCCESS s;
              s = call_back i (pt_ev_mask (the_port s i) AND PORT_EV_CONNECTED) s;
              s = mgmt_call_back i PORT_SUCCESS s
          in port_upd i (\<lambda>p. p\<lparr>pt_state := PORT_STATE_OPENED\<rparr>) s)"

definition PORT_PortNegInd :: "rfc_env \<Rightarrow> nat \<Rightarrow> u8 \<Rightarrow> port_state \<Rightarrow> u16 \<Rightarrow> rfc_sys \<Rightarrow> rfc_sys" where
  "PORT_PortNegInd e m dlci pars pmask s =
     (case port_for_dlci m dlci s of
        (None, s) \<Rightarrow> RFCOMM_PortNegRsp e m dlci pars 0 s
      | (Some i, s) \<Rightarrow>
          RFCOMM_PortNegRsp e m dlci pars pmask (port_upd i (\<lambda>p. p\<lparr>pt_peer_port_pars := pars\<rparr>) s))"

section \<open>The port machine\<close>

datatype rfc_port_event =
    PORT_SABME | PORT_UA | PORT_DM | PORT_DISC | PORT_UIH bt_hdr | PORT_TIMEOUT
  | RFC_EVENT_OPEN | RFC_EVENT_ESTABLISH_RSP u16 | RFC_EVENT_CLOSE | RFC_EVENT_CLEAR
  | RFC_EVENT_DATA bt_hdr | RFC_EVENT_SEC_COMPLETE u8

definition access_request :: "nat \<Rightarrow> bool \<Rightarrow> rfc_sys \<Rightarrow> rfc_sys" where
  "access_request i orig =
     port_mcb i (\<lambda>m s. rfc_emit (Out_access_request (mx_bd_addr (the_mcb s m)) orig (pt_dlci (the_port s i) div 2) i) s)"

abbreviation port_set_state :: "nat \<Rightarrow> rfc_port_state \<Rightarrow> rfc_sys \<Rightarrow> rfc_sys" where
  "port_set_state i st \<equiv> port_upd i (\<lambda>p. p\<lparr>pt_rfc_state := st\<rparr>)"

definition port_send :: "(nat \<Rightarrow> u8 \<Rightarrow> rfc_sys \<Rightarrow> rfc_sys) \<Rightarrow> nat \<Rightarrow> rfc_sys \<Rightarrow> rfc_sys" where
  "port_send f i = port_mcb i (\<lambda>m s. f m (pt_dlci (the_port s i)) s)"

definition rfc_port_sm_state_closed :: "rfc_env \<Rightarrow> nat \<Rightarrow> rfc_port_event \<Rightarrow> rfc_sys \<Rightarrow> rfc_sys" where
  "rfc_port_sm_state_closed e i ev s =
     (case ev of
        RFC_EVENT_OPEN \<Rightarrow> access_request i True (port_set_state i RFC_STATE_ORIG_WAIT_SEC_CHECK s)
      | PORT_SABME \<Rightarrow>
          access_request i False (port_set_state i RFC_STATE_TERM_WAIT_SEC_CHECK (port_mcb i rfc_timer_stop s))
      | PORT_DM \<Rightarrow> rfc_port_closed e i s
      | PORT_UIH _ \<Rightarrow> port_send (\<lambda>m d. send_dm e m d False) i s
      | PORT_DISC \<Rightarrow> port_send (\<lambda>m d. send_dm e m d False) i s
      | PORT_TIMEOUT \<Rightarrow> Port_TimeOutCloseMux e (pt_mcb (the_port s i)) s
      | RFC_EVENT_CLOSE \<Rightarrow> rfc_port_sm_close e i s
      | RFC_EVENT_DATA b \<Rightarrow> rfc_port_sm_data e i b s
      | _ \<Rightarrow> s)"

text \<open>The confirmation of an establishment, with the MTU of the L2CAP channel.\<close>

definition establish_cnf :: "rfc_env \<Rightarrow> nat \<Rightarrow> u16 \<Rightarrow> rfc_sys \<Rightarrow> rfc_sys" where
  "establish_cnf e i result =
     port_mcb i (\<lambda>m s. PORT_DlcEstablishCnf e m (pt_dlci (the_port s i)) (mx_peer_l2cap_mtu (the_mcb s m)) result s)"

definition set_disc_initiator :: "nat \<Rightarrow> rfc_sys \<Rightarrow> rfc_sys" where
  "set_disc_initiator i = port_mcb i (\<lambda>m. mcb_upd m (\<lambda>x. x\<lparr>mx_is_disc_initiator := True\<rparr>))"

definition rfc_port_sm_sabme_wait_ua :: "rfc_env \<Rightarrow> nat \<Rightarrow> rfc_port_event \<Rightarrow> rfc_sys \<Rightarrow> rfc_sys" where
  "rfc_port_sm_sabme_wait_ua e i ev s =
     (case ev of
        RFC_EVENT_CLOSE \<Rightarrow> rfc_port_sm_close e i s
      | RFC_EVENT_CLEAR \<Rightarrow> rfc_port_closed e i s
      | RFC_EVENT_DATA b \<Rightarrow> rfc_port_sm_data e i b s
      | PORT_UA \<Rightarrow> establish_cnf e i RFCOMM_SUCCESS (port_set_state i RFC_STATE_OPENED (rfc_port_timer_stop i s))
      | PORT_DM \<Rightarrow> rfc_port_closed e i (establish_cnf e i RFCOMM_ERROR (set_disc_initiator i s))
      | PORT_DISC \<Rightarrow> rfc_port_closed e i (establish_cnf e i RFCOMM_ERROR (port_send (send_ua e) i s))
      | PORT_SABME \<Rightarrow> port_send (send_ua e) i s
      | PORT_TIMEOUT \<Rightarrow> establish_cnf e i RFCOMM_ERROR (port_set_state i RFC_STATE_CLOSED s)
      | _ \<Rightarrow> s)"

definition port_release_ind :: "rfc_env \<Rightarrow> nat \<Rightarrow> rfc_sys \<Rightarrow> rfc_sys" where
  "port_release_ind e i s =
     port_mcb_opt i (\<lambda>m s. PORT_DlcReleaseInd e m (pt_dlci (the_port s i)) s) s"

definition rfc_port_sm_term_wait_sec_check :: "rfc_env \<Rightarrow> nat \<Rightarrow> rfc_port_event \<Rightarrow> rfc_sys \<Rightarrow> rfc_sys" where
  "rfc_port_sm_term_wait_sec_check e i ev s =
     (case ev of
        RFC_EVENT_SEC_COMPLETE res \<Rightarrow>
          if res \<noteq> BTM_SUCCESS then
            (case pt_mcb (the_port s i) of
               None \<Rightarrow> s
             | Some m \<Rightarrow> port_rfc_closed e i PORT_SEC_FAILED
                 (set_disc_initiator i (send_dm e m (pt_dlci (the_port s i)) True s)))
          else port_mcb i (\<lambda>m s. PORT_DlcEstablishInd e m (pt_dlci (the_port s i)) (mx_peer_l2cap_mtu (the_mcb s m)) s) s
      | RFC_EVENT_CLOSE \<Rightarrow> rfc_port_sm_close e i s
      | RFC_EVENT_CLEAR \<Rightarrow> rfc_port_closed e i (abort_access i s)
      | RFC_EVENT_DATA b \<Rightarrow> rfc_port_sm_data e i b s
      | PORT_DISC \<Rightarrow>
          port_release_ind e i (port_send (send_ua e) i (port_set_state i RFC_STATE_CLOSED (abort_access i s)))
      | RFC_EVENT_ESTABLISH_RSP result \<Rightarrow> rfc_port_sm_establish_rsp e i result s
      | _ \<Rightarrow> s)"

definition rfc_port_sm_orig_wait_sec_check :: "rfc_env \<Rightarrow> nat \<Rightarrow> rfc_port_event \<Rightarrow> rfc_sys \<Rightarrow> rfc_sys" where
  "rfc_port_sm_orig_wait_sec_check e i ev s =
     (case ev of
        RFC_EVENT_SEC_COMPLETE res \<Rightarrow>
          if res \<noteq> BTM_SUCCESS then
            rfc_port_closed e i
              (port_mcb i (\<lambda>m s. PORT_DlcEstablishCnf e m (pt_dlci (the_port s i)) 0 RFCOMM_SECURITY_ERR s)
                (set_disc_initiator i s))
          else port_set_state i RFC_STATE_SABME_WAIT_UA
                 (rfc_port_timer_start i RFC_PORT_T1_TIMEOUT (port_send (send_sabme e) i s))
      | RFC_EVENT_CLOSE \<Rightarrow> rfc_port_sm_close e i s
      | RFC_EVENT_DATA b \<Rightarrow> rfc_port_sm_data e i b s
      | _ \<Rightarrow> s)"

definition rfc_port_sm_opened :: "rfc_env \<Rightarrow> nat \<Rightarrow> rfc_port_event \<Rightarrow> rfc_sys \<Rightarrow> rfc_sys" where
  "rfc_port_sm_opened e i ev s =
     (case ev of
        RFC_EVENT_CLOSE \<Rightarrow> rfc_port_sm_close e i s
      | RFC_EVENT_CLEAR \<Rightarrow> rfc_port_closed e i s
      | RFC_EVENT_DATA b \<Rightarrow> rfc_port_sm_data e i b s
      | PORT_SABME \<Rightarrow> port_send (send_ua e) i s
      | PORT_DM \<Rightarrow> rfc_port_closed e i (port_release_ind e i s)
      | PORT_DISC \<Rightarrow>
          (let s = port_send (send_ua e) i (port_set_state i RFC_STATE_CLOSED s) in
           if queue_length (pd_queue (pt_rx (the_port s i))) \<noteq> 0 then rfc_port_timer_start i RFC_DISC_TIMEOUT s
           else port_release_ind e i s)
      | PORT_UIH b \<Rightarrow> port_mcb_opt i (\<lambda>m s. PORT_DataInd e m (pt_dlci (the_port s i)) b s) s
      | PORT_TIMEOUT \<Rightarrow> Port_TimeOutCloseMux e (pt_mcb (the_port s i)) s
      | _ \<Rightarrow> s)"

definition rfc_port_sm_disc_wait_ua :: "rfc_env \<Rightarrow> nat \<Rightarrow> rfc_port_event \<Rightarrow> rfc_sys \<Rightarrow> rfc_sys" where
  "rfc_port_sm_disc_wait_ua e i ev s =
     (case ev of
        RFC_EVENT_CLOSE \<Rightarrow> rfc_port_sm_close e i s
      | RFC_EVENT_CLEAR \<Rightarrow> rfc_port_closed e i s
      | RFC_EVENT_DATA b \<Rightarrow> rfc_port_sm_data e i b s
      | PORT_UA \<Rightarrow> rfc_port_closed e i (set_disc_initiator i s)
      | PORT_DM \<Rightarrow> rfc_port_closed e i s
      | PORT_SABME \<Rightarrow> port_send (\<lambda>m d. send_dm e m d True) i s
      | PORT_DISC \<Rightarrow> port_send (\<lambda>m d. send_dm e m d True) i s
      | PORT_UIH _ \<Rightarrow> port_send (\<lambda>m d. send_dm e m d False) i s
      | PORT_TIMEOUT \<Rightarrow> rfc_port_closed e i s
      | _ \<Rightarrow> s)"

definition rfc_port_sm_execute :: "rfc_env \<Rightarrow> nat option \<Rightarrow> rfc_port_event \<Rightarrow> rfc_sys \<Rightarrow> rfc_sys" where
  "rfc_port_sm_execute e p_port ev s =
     (case p_port of
        None \<Rightarrow> s
      | Some i \<Rightarrow>
          (case pt_rfc_state (the_port s i) of
             RFC_STATE_CLOSED \<Rightarrow> rfc_port_sm_state_closed e i ev s
           | RFC_STATE_SABME_WAIT_UA \<Rightarrow> rfc_port_sm_sabme_wait_ua e i ev s
           | RFC_STATE_ORIG_WAIT_SEC_CHECK \<Rightarrow> rfc_port_sm_orig_wait_sec_check e i ev s
           | RFC_STATE_TERM_WAIT_SEC_CHECK \<Rightarrow> rfc_port_sm_term_wait_sec_check e i ev s
           | RFC_STATE_OPENED \<Rightarrow> rfc_port_sm_opened e i ev s
           | RFC_STATE_DISC_WAIT_UA \<Rightarrow> rfc_port_sm_disc_wait_ua e i ev s))"

text \<open>The branches given above are the machine's.\<close>

lemma rfc_port_sm_execute_branches:
  "rfc_port_sm_execute e (Some i) RFC_EVENT_CLOSE s = rfc_port_sm_close e i s"
  "rfc_port_sm_execute e (Some i) (RFC_EVENT_DATA b) s = rfc_port_sm_data e i b s"
  "rfc_port_sm_execute e (Some i) (RFC_EVENT_ESTABLISH_RSP r) s = rfc_port_sm_establish_rsp e i r s"
  by (auto simp: rfc_port_sm_execute_def rfc_port_sm_state_closed_def rfc_port_sm_sabme_wait_ua_def
      rfc_port_sm_orig_wait_sec_check_def rfc_port_sm_term_wait_sec_check_def rfc_port_sm_opened_def
      rfc_port_sm_disc_wait_ua_def rfc_port_sm_data_def rfc_port_sm_establish_rsp_def
      split: rfc_port_state.splits)

end
