(* ===== verification/RfcMux.thy ===== *)
theory RfcMux
  imports RfcMachines
begin

text \<open>
  The multiplexer machine (\<open>rfc_mx_fsm.c\<close>), the handlers of the multiplexer's messages
  (\<open>rfc_port_fsm.c\<close>), and what L2CAP, the timers and the security manager call (\<open>rfc_l2cap_if.c\<close>,
  \<open>rfc_utils.c\<close>).
\<close>

unbundle bit_operations_syntax

section \<open>Parameter negotiation\<close>

definition RFCOMM_DlcEstablishReq :: "rfc_env \<Rightarrow> nat \<Rightarrow> u8 \<Rightarrow> rfc_sys \<Rightarrow> rfc_sys" where
  "RFCOMM_DlcEstablishReq e m dlci s =
     (if mx_state (the_mcb s m) \<noteq> RFC_MX_STATE_CONNECTED then PORT_DlcEstablishCnf e m dlci 0 RFCOMM_ERROR s
      else rfc_port_sm_execute e (port_find_mcb_dlci_port m dlci s) RFC_EVENT_OPEN s)"

definition port_get_credits :: "u8 \<Rightarrow> tport \<Rightarrow> tport" where
  "port_get_credits k p =
     (let p = p\<lparr>pt_credit_tx := ucast k\<rparr> in
      if pt_credit_tx p = 0 then p\<lparr>pt_tx := pt_tx p\<lparr>pd_peer_fc := True\<rparr>\<rparr> else p)"

definition mcb_set_flow :: "nat \<Rightarrow> u8 \<Rightarrow> rfc_sys \<Rightarrow> rfc_sys" where
  "mcb_set_flow m flow = mcb_upd m (\<lambda>x. x\<lparr>mx_link := mx_link x\<lparr>mcb_flow := flow\<rparr>\<rparr>)"

text \<open>The MTU the two sides agree on.\<close>

definition negotiate_mtu :: "u16 \<Rightarrow> tport \<Rightarrow> tport" where
  "negotiate_mtu mtu p =
     (let p = p\<lparr>pt_mtu := (if pt_mtu p < mtu then pt_mtu p else mtu)\<rparr> in p\<lparr>pt_peer_mtu := pt_mtu p\<rparr>)"

definition PORT_ParNegInd :: "rfc_env \<Rightarrow> nat \<Rightarrow> u8 \<Rightarrow> u16 \<Rightarrow> u8 \<Rightarrow> u8 \<Rightarrow> rfc_sys \<Rightarrow> rfc_sys" where
  "PORT_ParNegInd e m dlci mtu cl k s =
     (case port_for_dlci m dlci s of
        (None, s) \<Rightarrow> rfc_check_mcb_active e m (send_dm e m dlci False s)
      | (Some i, s) \<Rightarrow>
          let s = port_select_mtu e i (port_upd i (\<lambda>p. p\<lparr>pt_bd_addr := mx_bd_addr (the_mcb s m)\<rparr>) s);
              s = port_upd i (\<lambda>p. negotiate_mtu mtu (p\<lparr>pt_mcb := Some m\<rparr>)) s;
              s = (if mcb_flow (mx_link (the_mcb s m)) = PORT_FC_UNDEFINED
                   then mcb_set_flow m (if PORT_FC_DEFAULT = PORT_FC_TS710 \<or> cl = RFCOMM_PN_CONV_LAYER_TYPE_1
                                        then PORT_FC_TS710 else PORT_FC_CREDIT) s
                   else s);
              (our_cl, our_k, s) =
                (if cl = RFCOMM_PN_CONV_LAYER_TYPE_1 then (RFCOMM_PN_CONV_LAYER_TYPE_1, 0, s)
                 else if mcb_flow (mx_link (the_mcb s m)) = PORT_FC_CREDIT then
                   let s = port_upd i (port_get_credits k) s;
                       our_k = (if pt_credit_rx_max (the_port s i) < RFCOMM_K_MAX
                                then ucast (pt_credit_rx_max (the_port s i)) else RFCOMM_K_MAX) :: u8
                   in (RFCOMM_PN_CONV_LAYER_CBFC_R, our_k, port_upd i (\<lambda>p. p\<lparr>pt_credit_rx := ucast our_k\<rparr>) s)
                 else (RFCOMM_PN_CONV_LAYER_TYPE_1, 0, s))
          in RFCOMM_ParNegRsp e m dlci (pt_mtu (the_port s i)) our_cl our_k s)"

definition PORT_ParNegCnf :: "rfc_env \<Rightarrow> nat \<Rightarrow> u8 \<Rightarrow> u16 \<Rightarrow> u8 \<Rightarrow> u8 \<Rightarrow> rfc_sys \<Rightarrow> rfc_sys" where
  "PORT_ParNegCnf e m dlci mtu cl k s =
     (case port_find_mcb_dlci_port m dlci s of
        None \<Rightarrow> s
      | Some i \<Rightarrow>
          let undefined_flow = (mcb_flow (mx_link (the_mcb s m)) = PORT_FC_UNDEFINED) in
          if undefined_flow \<and> PORT_FC_DEFAULT = PORT_FC_TS710 \<and> cl = RFCOMM_PN_CONV_LAYER_CBFC_R
          then rfc_port_closed e i (send_disc e m (pt_dlci (the_port s i)) s)
          else
            let s = (if undefined_flow
                     then mcb_set_flow m (if cl = RFCOMM_PN_CONV_LAYER_CBFC_R then PORT_FC_CREDIT else PORT_FC_TS710) s
                     else s);
                s = port_upd i (negotiate_mtu mtu) s;
                s = (if mcb_flow (mx_link (the_mcb s m)) = PORT_FC_CREDIT then port_upd i (port_get_credits k) s else s)
            in if pt_state (the_port s i) = PORT_STATE_OPENING
               then RFCOMM_DlcEstablishReq e m (pt_dlci (the_port s i)) s else s)"

section \<open>The multiplexer machine\<close>

datatype rfc_mx_event =
    MX_SABME | MX_UA | MX_DM | MX_DISC | MX_UIH | MX_TIMEOUT
  | RFC_MX_EVENT_START_REQ | RFC_MX_EVENT_START_RSP u16 | RFC_MX_EVENT_CLOSE_REQ
  | RFC_MX_EVENT_CONN_CNF u16 | RFC_MX_EVENT_CONN_IND u8
  | RFC_MX_EVENT_CONF_CNF u16 | RFC_MX_EVENT_CONF_IND "u16 option"
  | RFC_MX_EVENT_DISC_IND

abbreviation mcb_lcid_of :: "rfc_sys \<Rightarrow> nat \<Rightarrow> u16" where
  "mcb_lcid_of s m \<equiv> mcb_lcid (mx_link (the_mcb s m))"

abbreviation mcb_set_state :: "nat \<Rightarrow> rfc_mx_state \<Rightarrow> rfc_sys \<Rightarrow> rfc_sys" where
  "mcb_set_state m st \<equiv> mcb_upd m (\<lambda>x. x\<lparr>mx_state := st\<rparr>)"

definition mcb_set_lcid :: "nat \<Rightarrow> u16 \<Rightarrow> rfc_sys \<Rightarrow> rfc_sys" where
  "mcb_set_lcid m lcid = mcb_upd m (\<lambda>x. x\<lparr>mx_link := mx_link x\<lparr>mcb_lcid := lcid\<rparr>\<rparr>)"

definition mcb_set_initiator :: "nat \<Rightarrow> bool \<Rightarrow> rfc_sys \<Rightarrow> rfc_sys" where
  "mcb_set_initiator m b = mcb_upd m (\<lambda>x. x\<lparr>mx_link := mx_link x\<lparr>mcb_is_initiator := b\<rparr>\<rparr>)"

definition disconnect_req :: "nat \<Rightarrow> rfc_sys \<Rightarrow> rfc_sys" where
  "disconnect_req m s = rfc_emit (Out_disconnect_req (mcb_lcid_of s m)) s"

definition L2CA_ConnectReq :: "rfc_env \<Rightarrow> nat \<Rightarrow> rfc_sys \<Rightarrow> rfc_sys" where
  "L2CA_ConnectReq e m s =
     (let lcid = re_connect e (rs_clock s) in
      mcb_set_lcid m lcid (rfc_emit (Out_connect_req (mx_bd_addr (the_mcb s m)) lcid) (rfc_tick s)))"

definition rfc_mx_send_config_req :: "nat \<Rightarrow> rfc_sys \<Rightarrow> rfc_sys" where
  "rfc_mx_send_config_req m s = rfc_emit (Out_config_req (mcb_lcid_of s m) L2CAP_MTU_SIZE) s"

text \<open>Both sides of the channel are configured.\<close>

definition rfc_mx_configured :: "rfc_env \<Rightarrow> nat \<Rightarrow> rfc_sys \<Rightarrow> rfc_sys" where
  "rfc_mx_configured e m s =
     (if mcb_is_initiator (mx_link (the_mcb s m)) then
        rfc_timer_start m RFC_T1_TIMEOUT
          (send_sabme e m RFCOMM_MX_DLCI (mcb_set_state m RFC_MX_STATE_SABME_WAIT_UA s))
      else rfc_timer_start m RFCOMM_CONN_TIMEOUT (mcb_set_state m RFC_MX_STATE_WAIT_SABME s))"

definition rfc_mx_conf_cnf :: "rfc_env \<Rightarrow> nat \<Rightarrow> u16 \<Rightarrow> rfc_sys \<Rightarrow> rfc_sys" where
  "rfc_mx_conf_cnf e m result s =
     (if result \<noteq> L2CAP_CFG_OK then
        rfc_release_multiplexer_channel m
          (if mcb_is_initiator (mx_link (the_mcb s m)) then disconnect_req m (PORT_StartCnf e m result s) else s)
      else
        let s = mcb_upd m (\<lambda>x. x\<lparr>mx_local_cfg_sent := True\<rparr>) s
        in if mx_state (the_mcb s m) = RFC_MX_STATE_CONFIGURE \<and> mx_peer_cfg_rcvd (the_mcb s m)
           then rfc_mx_configured e m s else s)"

definition rfc_mx_conf_ind :: "rfc_env \<Rightarrow> nat \<Rightarrow> u16 option \<Rightarrow> rfc_sys \<Rightarrow> rfc_sys" where
  "rfc_mx_conf_ind e m mtu s =
     (let s = mcb_upd m (\<lambda>x. x\<lparr>mx_peer_l2cap_mtu := (case mtu of
                Some mtu \<Rightarrow> mtu - RFCOMM_MIN_OFFSET - 1 | None \<Rightarrow> L2CAP_DEFAULT_MTU - RFCOMM_MIN_OFFSET - 1)\<rparr>) s;
          s = rfc_emit (Out_config_rsp (mcb_lcid_of s m)) s;
          s = mcb_upd m (\<lambda>x. x\<lparr>mx_peer_cfg_rcvd := True\<rparr>) s
      in if mx_state (the_mcb s m) = RFC_MX_STATE_CONFIGURE \<and> mx_local_cfg_sent (the_mcb s m)
         then rfc_mx_configured e m s else s)"

definition rfc_mx_sm_state_idle :: "rfc_env \<Rightarrow> nat \<Rightarrow> rfc_mx_event \<Rightarrow> rfc_sys \<Rightarrow> rfc_sys" where
  "rfc_mx_sm_state_idle e m ev s =
     (case ev of
        RFC_MX_EVENT_START_REQ \<Rightarrow>
          let s = mcb_upd m (\<lambda>x. x\<lparr>mx_peer_l2cap_mtu := L2CAP_DEFAULT_MTU - RFCOMM_MIN_OFFSET - 1\<rparr>) s;
              s = L2CA_ConnectReq e m s
          in if mcb_lcid_of s m = 0 then PORT_StartCnf e m RFCOMM_ERROR s
             else mcb_set_state m RFC_MX_STATE_WAIT_CONN_CNF (rfc_save_lcid_mcb (Some m) (mcb_lcid_of s m) s)
      | RFC_MX_EVENT_CONN_IND ident \<Rightarrow>
          let s = rfc_timer_start m RFCOMM_CONN_TIMEOUT s;
              s = rfc_emit (Out_connect_rsp (mx_bd_addr (the_mcb s m)) ident (mcb_lcid_of s m) L2CAP_CONN_OK) s
          in mcb_set_state m RFC_MX_STATE_CONFIGURE (rfc_mx_send_config_req m s)
      | MX_DISC \<Rightarrow> send_dm e m RFCOMM_MX_DLCI True s
      | MX_UIH \<Rightarrow> send_dm e m RFCOMM_MX_DLCI False s
      | RFC_MX_EVENT_CLOSE_REQ \<Rightarrow> rfc_mx_close_req e m s
      | _ \<Rightarrow> s)"

text \<open>The loop that turns the DLCIs of an initiator into those of an acceptor.\<close>

definition flip_dlci :: "nat \<Rightarrow> nat \<Rightarrow> rfc_sys \<Rightarrow> rfc_sys" where
  "flip_dlci m i s =
     (let idx = mx_port_inx (the_mcb s m) ! i in
      if idx \<noteq> 0 then
        port_upd (unat idx - 1) (\<lambda>p. p\<lparr>pt_dlci := pt_dlci p + 1\<rparr>)
          (mcb_upd m (\<lambda>x. x\<lparr>mx_port_inx := (mx_port_inx x)[i := 0, i + 1 := idx]\<rparr>) s)
      else s)"

definition update_direction :: "nat \<Rightarrow> rfc_sys \<Rightarrow> rfc_sys" where
  "update_direction m s = fold (flip_dlci m) (map ((*) 2) [0..<31]) s"

text \<open>The peer's own request is taken up instead; the state is idle when this is called.\<close>

definition take_pending_channel :: "nat \<Rightarrow> rfc_sys \<Rightarrow> rfc_sys" where
  "take_pending_channel m s =
     (let s = rfc_save_lcid_mcb None (mcb_lcid_of s m) s;
          s = mcb_set_lcid m (mx_pending_lcid (the_mcb s m)) s;
          s = rfc_save_lcid_mcb (Some m) (mcb_lcid_of s m) s
      in update_direction m (mcb_set_initiator m False s))"

definition rfc_mx_sm_state_wait_conn_cnf :: "rfc_env \<Rightarrow> nat \<Rightarrow> rfc_mx_event \<Rightarrow> rfc_sys \<Rightarrow> rfc_sys" where
  "rfc_mx_sm_state_wait_conn_cnf e m ev s =
     (case ev of
        RFC_MX_EVENT_CONF_IND mtu \<Rightarrow> rfc_mx_conf_ind e m mtu s
      | RFC_MX_EVENT_CONN_CNF result \<Rightarrow>
          if result \<noteq> 0 then PORT_StartCnf e m result (mcb_set_state m RFC_MX_STATE_IDLE s)
          else rfc_mx_send_config_req m (mcb_set_state m RFC_MX_STATE_CONFIGURE s)
      | RFC_MX_EVENT_DISC_IND \<Rightarrow> PORT_CloseInd e m (mcb_set_state m RFC_MX_STATE_IDLE s)
      | MX_TIMEOUT \<Rightarrow>
          let s = disconnect_req m (mcb_set_state m RFC_MX_STATE_IDLE s) in
          if mx_pending_lcid (the_mcb s m) \<noteq> 0 then
            let s = take_pending_channel m s
            in rfc_mx_sm_state_idle e m (RFC_MX_EVENT_CONN_IND (mx_pending_id (the_mcb s m))) s
          else PORT_CloseInd e m s
      | RFC_MX_EVENT_CLOSE_REQ \<Rightarrow> rfc_mx_close_req e m s
      | _ \<Rightarrow> s)"

definition rfc_mx_sm_state_configure :: "rfc_env \<Rightarrow> nat \<Rightarrow> rfc_mx_event \<Rightarrow> rfc_sys \<Rightarrow> rfc_sys" where
  "rfc_mx_sm_state_configure e m ev s =
     (case ev of
        RFC_MX_EVENT_CONF_IND mtu \<Rightarrow> rfc_mx_conf_ind e m mtu s
      | RFC_MX_EVENT_CONF_CNF result \<Rightarrow> rfc_mx_conf_cnf e m result s
      | RFC_MX_EVENT_DISC_IND \<Rightarrow> PORT_CloseInd e m (mcb_set_state m RFC_MX_STATE_IDLE s)
      | MX_TIMEOUT \<Rightarrow> PORT_StartCnf e m RFCOMM_ERROR (disconnect_req m (mcb_set_state m RFC_MX_STATE_IDLE s))
      | RFC_MX_EVENT_CLOSE_REQ \<Rightarrow> rfc_mx_close_req e m s
      | _ \<Rightarrow> s)"

text \<open>\<open>start_failed\<close> gives the channel up before the multiplexer is started.\<close>

definition start_failed :: "rfc_env \<Rightarrow> nat \<Rightarrow> rfc_sys \<Rightarrow> rfc_sys" where
  "start_failed e m s = PORT_StartCnf e m RFCOMM_ERROR (disconnect_req m (mcb_set_state m RFC_MX_STATE_IDLE s))"

definition mcb_connected :: "nat \<Rightarrow> rfc_sys \<Rightarrow> rfc_sys" where
  "mcb_connected m = mcb_upd m (\<lambda>x. x\<lparr>mx_state := RFC_MX_STATE_CONNECTED, mx_peer_ready := True\<rparr>)"

definition rfc_mx_sm_sabme_wait_ua :: "rfc_env \<Rightarrow> nat \<Rightarrow> rfc_mx_event \<Rightarrow> rfc_sys \<Rightarrow> rfc_sys" where
  "rfc_mx_sm_sabme_wait_ua e m ev s =
     (case ev of
        RFC_MX_EVENT_DISC_IND \<Rightarrow> PORT_CloseInd e m (mcb_set_state m RFC_MX_STATE_IDLE s)
      | MX_UA \<Rightarrow> PORT_StartCnf e m RFCOMM_SUCCESS (mcb_connected m (rfc_timer_stop m s))
      | MX_DM \<Rightarrow> start_failed e m (rfc_timer_stop m s)
      | RFC_MX_EVENT_CONF_IND _ \<Rightarrow> start_failed e m s
      | RFC_MX_EVENT_CONF_CNF _ \<Rightarrow> start_failed e m s
      | MX_TIMEOUT \<Rightarrow> start_failed e m s
      | RFC_MX_EVENT_CLOSE_REQ \<Rightarrow> rfc_mx_close_req e m s
      | _ \<Rightarrow> s)"

definition acceptor_gives_up :: "rfc_env \<Rightarrow> nat \<Rightarrow> rfc_sys \<Rightarrow> rfc_sys" where
  "acceptor_gives_up e m s = PORT_CloseInd e m (disconnect_req m (mcb_set_state m RFC_MX_STATE_IDLE s))"

definition rfc_mx_sm_state_wait_sabme :: "rfc_env \<Rightarrow> nat \<Rightarrow> rfc_mx_event \<Rightarrow> rfc_sys \<Rightarrow> rfc_sys" where
  "rfc_mx_sm_state_wait_sabme e m ev s =
     (case ev of
        RFC_MX_EVENT_DISC_IND \<Rightarrow> PORT_CloseInd e m (mcb_set_state m RFC_MX_STATE_IDLE s)
      | MX_SABME \<Rightarrow>
          if mx_pending_lcid (the_mcb s m) \<noteq> 0 then
            let s = send_ua e m RFCOMM_MX_DLCI (mcb_upd m (\<lambda>x. x\<lparr>mx_pending_lcid := 0\<rparr>) s)
            in PORT_StartCnf e m RFCOMM_SUCCESS (mcb_connected m (rfc_timer_stop m s))
          else PORT_StartInd e m (rfc_timer_stop m s)
      | RFC_MX_EVENT_START_RSP result \<Rightarrow> RFCOMM_StartRsp e m result s
      | RFC_MX_EVENT_CONF_IND _ \<Rightarrow> acceptor_gives_up e m s
      | RFC_MX_EVENT_CONF_CNF _ \<Rightarrow> acceptor_gives_up e m s
      | MX_TIMEOUT \<Rightarrow> acceptor_gives_up e m s
      | RFC_MX_EVENT_CLOSE_REQ \<Rightarrow> rfc_mx_close_req e m s
      | _ \<Rightarrow> s)"

definition rfc_mx_sm_state_connected :: "rfc_env \<Rightarrow> nat \<Rightarrow> rfc_mx_event \<Rightarrow> rfc_sys \<Rightarrow> rfc_sys" where
  "rfc_mx_sm_state_connected e m ev s =
     (case ev of
        MX_TIMEOUT \<Rightarrow> rfc_mx_close_req e m s
      | RFC_MX_EVENT_CLOSE_REQ \<Rightarrow> rfc_mx_close_req e m s
      | RFC_MX_EVENT_DISC_IND \<Rightarrow> PORT_CloseInd e m (mcb_set_state m RFC_MX_STATE_IDLE s)
      | MX_DISC \<Rightarrow>
          let s = send_ua e m RFCOMM_MX_DLCI s
          in PORT_CloseInd e m (if mcb_is_initiator (mx_link (the_mcb s m)) then disconnect_req m s else s)
      | _ \<Rightarrow> s)"

text \<open>A start that was asked for while the channel was brought down is made now.\<close>

definition mcb_disconnected :: "rfc_env \<Rightarrow> nat \<Rightarrow> rfc_sys \<Rightarrow> rfc_sys" where
  "mcb_disconnected e m s =
     (let s = disconnect_req m s in
      if mx_restart_required (the_mcb s m) then
        let s = L2CA_ConnectReq e m s in
        if mcb_lcid_of s m = 0 then PORT_StartCnf e m RFCOMM_ERROR s
        else
          let s = rfc_save_lcid_mcb (Some m) (mcb_lcid_of s m) s;
              s = mcb_upd m (\<lambda>x. x\<lparr>mx_link := mx_link x\<lparr>mcb_cmd_q :=
                    map_option (\<lambda>q. q\<lparr>aq_items := []\<rparr>) (mcb_cmd_q (mx_link x))\<rparr>\<rparr>) s;
              s = mcb_set_initiator m True (rfc_timer_start m RFC_MCB_INIT_INACT_TIMER s)
          in mcb_upd m (\<lambda>x. x\<lparr>mx_restart_required := False, mx_local_cfg_sent := False,
               mx_peer_cfg_rcvd := False, mx_state := RFC_MX_STATE_WAIT_CONN_CNF\<rparr>) s
      else rfc_release_multiplexer_channel m s)"

definition rfc_mx_sm_state_disc_wait_ua :: "rfc_env \<Rightarrow> nat \<Rightarrow> rfc_mx_event \<Rightarrow> rfc_sys \<Rightarrow> rfc_sys" where
  "rfc_mx_sm_state_disc_wait_ua e m ev s =
     (case ev of
        MX_UA \<Rightarrow> mcb_disconnected e m s
      | MX_DM \<Rightarrow> mcb_disconnected e m s
      | MX_TIMEOUT \<Rightarrow> mcb_disconnected e m s
      | MX_DISC \<Rightarrow> send_ua e m RFCOMM_MX_DLCI s
      | MX_UIH \<Rightarrow> send_dm e m RFCOMM_MX_DLCI False s
      | RFC_MX_EVENT_START_REQ \<Rightarrow> mcb_upd m (\<lambda>x. x\<lparr>mx_restart_required := True\<rparr>) s
      | RFC_MX_EVENT_DISC_IND \<Rightarrow> PORT_CloseInd e m (mcb_set_state m RFC_MX_STATE_IDLE s)
      | RFC_MX_EVENT_CLOSE_REQ \<Rightarrow> rfc_mx_close_req e m s
      | _ \<Rightarrow> s)"

definition rfc_mx_sm_execute :: "rfc_env \<Rightarrow> nat \<Rightarrow> rfc_mx_event \<Rightarrow> rfc_sys \<Rightarrow> rfc_sys" where
  "rfc_mx_sm_execute e m ev s =
     (case mx_state (the_mcb s m) of
        RFC_MX_STATE_IDLE \<Rightarrow> rfc_mx_sm_state_idle e m ev s
      | RFC_MX_STATE_WAIT_CONN_CNF \<Rightarrow> rfc_mx_sm_state_wait_conn_cnf e m ev s
      | RFC_MX_STATE_CONFIGURE \<Rightarrow> rfc_mx_sm_state_configure e m ev s
      | RFC_MX_STATE_SABME_WAIT_UA \<Rightarrow> rfc_mx_sm_sabme_wait_ua e m ev s
      | RFC_MX_STATE_WAIT_SABME \<Rightarrow> rfc_mx_sm_state_wait_sabme e m ev s
      | RFC_MX_STATE_CONNECTED \<Rightarrow> rfc_mx_sm_state_connected e m ev s
      | RFC_MX_STATE_DISC_WAIT_UA \<Rightarrow> rfc_mx_sm_state_disc_wait_ua e m ev s)"

text \<open>The branches given above are the machine's.\<close>

lemma rfc_mx_sm_execute_branches:
  "rfc_mx_sm_execute e m RFC_MX_EVENT_CLOSE_REQ s = rfc_mx_close_req e m s"
  "rfc_mx_sm_execute e m (RFC_MX_EVENT_START_RSP r) s = RFCOMM_StartRsp e m r s"
  by (auto simp: rfc_mx_sm_execute_def rfc_mx_sm_state_idle_def rfc_mx_sm_state_wait_conn_cnf_def
      rfc_mx_sm_state_configure_def rfc_mx_sm_sabme_wait_ua_def rfc_mx_sm_state_wait_sabme_def
      rfc_mx_sm_state_connected_def rfc_mx_sm_state_disc_wait_ua_def rfc_mx_close_req_def
      RFCOMM_StartRsp_def split: rfc_mx_state.splits)

definition RFCOMM_StartReq :: "rfc_env \<Rightarrow> nat \<Rightarrow> rfc_sys \<Rightarrow> rfc_sys" where
  "RFCOMM_StartReq e m = rfc_mx_sm_execute e m RFC_MX_EVENT_START_REQ"

end
