(* ===== verification/RfcL2cap.thy ===== *)
theory RfcL2cap
  imports RfcMux
begin

text \<open>
  The handlers of the multiplexer's messages (\<open>rfc_port_fsm.c\<close>) and what L2CAP, the timers and the security
  manager call (\<open>rfc_l2cap_if.c\<close>, \<open>rfc_utils.c\<close>).
\<close>

unbundle bit_operations_syntax

section \<open>Handlers of multiplexer messages\<close>

definition rfc_process_pn :: "rfc_env \<Rightarrow> nat \<Rightarrow> bool \<Rightarrow> mx_frame \<Rightarrow> rfc_sys \<Rightarrow> rfc_sys" where
  "rfc_process_pn e m is_command f s =
     (if is_command then
        (if mx_state (the_mcb s m) \<noteq> RFC_MX_STATE_DISC_WAIT_UA
         then PORT_ParNegInd e m (mf_dlci f) (pn_mtu f) (pn_conv_layer f) (pn_k f) s
         else send_dm e m (mf_dlci f) False s)
      else case port_find_mcb_dlci_port m (mf_dlci f) s of
        None \<Rightarrow> s
      | Some i \<Rightarrow>
          if pt_expected_rsp (the_port s i) AND RFC_RSP_PN = 0 then s
          else PORT_ParNegCnf e m (mf_dlci f) (pn_mtu f) (pn_conv_layer f) (pn_k f)
            (rfc_port_timer_stop i
              (port_upd i (\<lambda>p. p\<lparr>pt_expected_rsp := pt_expected_rsp p AND NOT RFC_RSP_PN\<rparr>) s)))"

definition rfc_set_port_state :: "mx_frame \<Rightarrow> port_state \<Rightarrow> port_state" where
  "rfc_set_port_state f ps =
     (let has = (\<lambda>b. rpn_param_mask f AND b \<noteq> 0);
          ps = (if has 0x0001 then ps\<lparr>ps_baud_rate := rpn_baud_rate f\<rparr> else ps);
          ps = (if has 0x0002 then ps\<lparr>ps_byte_size := rpn_byte_size f\<rparr> else ps);
          ps = (if has 0x0004 then ps\<lparr>ps_stop_bits := rpn_stop_bits f\<rparr> else ps);
          ps = (if has 0x0008 then ps\<lparr>ps_parity := rpn_parity f\<rparr> else ps);
          ps = (if has 0x0010 then ps\<lparr>ps_parity_type := rpn_parity_type f\<rparr> else ps);
          ps = (if has 0x3F00 then ps\<lparr>ps_fc_type := rpn_fc_type f\<rparr> else ps);
          ps = (if has 0x0020 then ps\<lparr>ps_xon_char := rpn_xon_char f\<rparr> else ps);
          ps = (if has 0x0040 then ps\<lparr>ps_xoff_char := rpn_xoff_char f\<rparr> else ps)
      in ps)"

abbreviation (input) "RFCOMM_FC_RTR \<equiv> 0x0C :: u8"
abbreviation (input) "RFCOMM_FC_RTC \<equiv> 0x30 :: u8"
abbreviation (input) "RFCOMM_RPN_PM_RTR \<equiv> 0x0C00 :: u16"
abbreviation (input) "RFCOMM_RPN_PM_RTC \<equiv> 0x3000 :: u16"
abbreviation (input) "RFCOMM_RPN_PM_MASK \<equiv> 0x3F7F :: u16"

text \<open>A flow control type is proposed to the peer.\<close>

definition rpn_propose :: "rfc_env \<Rightarrow> nat \<Rightarrow> u8 \<Rightarrow> nat \<Rightarrow> u8 \<Rightarrow> u16 \<Rightarrow> rfc_sys \<Rightarrow> rfc_sys" where
  "rpn_propose e m dlci i fc pmask s =
     (let s = port_upd i (\<lambda>p. p\<lparr>pt_peer_port_pars := pt_peer_port_pars p\<lparr>ps_fc_type := fc\<rparr>,
                pt_expected_rsp := pt_expected_rsp p OR RFC_RSP_RPN\<rparr>) s
      in rfc_port_timer_start i RFC_T2_TIMEOUT
           (send_rpn e m dlci True (Some (pt_peer_port_pars (the_port s i))) pmask s))"

definition rpn_accepted :: "u16 \<Rightarrow> bool" where
  "rpn_accepted pmask =
     (pmask AND RFCOMM_RPN_PM_RTR = RFCOMM_RPN_PM_RTR \<or> pmask AND RFCOMM_RPN_PM_RTC = RFCOMM_RPN_PM_RTC)"

text \<open>The answer to a proposal: what was refused is replaced by RTC, and RTC by no flow control.\<close>

definition rpn_answered :: "rfc_env \<Rightarrow> nat \<Rightarrow> u8 \<Rightarrow> nat \<Rightarrow> u16 \<Rightarrow> rfc_sys \<Rightarrow> rfc_sys" where
  "rpn_answered e m dlci i pmask s =
     (let fc = ps_fc_type (pt_peer_port_pars (the_port s i)) in
      if rpn_accepted pmask then PORT_PortNegCnf e m (pt_dlci (the_port s i)) RFCOMM_SUCCESS s
      else if fc = RFCOMM_FC_RTR then rpn_propose e m dlci i RFCOMM_FC_RTC RFCOMM_RPN_PM_RTC s
      else if fc = RFCOMM_FC_RTC then
        PORT_PortNegCnf e m (pt_dlci (the_port s i)) RFCOMM_SUCCESS
          (port_upd i (\<lambda>p. p\<lparr>pt_peer_port_pars := pt_peer_port_pars p\<lparr>ps_fc_type := 0\<rparr>\<rparr>) s)
      else s)"

definition rfc_process_rpn :: "rfc_env \<Rightarrow> nat \<Rightarrow> bool \<Rightarrow> bool \<Rightarrow> mx_frame \<Rightarrow> rfc_sys \<Rightarrow> rfc_sys" where
  "rfc_process_rpn e m is_command is_request f s =
     (let dlci = mf_dlci f in
      case port_find_mcb_dlci_port m dlci s of
        None \<Rightarrow>
          if is_command
          then PORT_PortNegInd e m dlci (rfc_set_port_state f zero_port_pars) (rpn_param_mask f) s
          else s
      | Some i \<Rightarrow>
          let p = the_port s i; pars = rfc_set_port_state f (pt_peer_port_pars p) in
          if is_command \<and> is_request then send_rpn e m dlci False (Some (pt_peer_port_pars p)) 0 s
          else if is_command then PORT_PortNegInd e m dlci pars (rpn_param_mask f) s
          else if pt_expected_rsp p AND (RFC_RSP_RPN OR RFC_RSP_RPN_REPLY) = 0 then s
          else
            let s = rfc_port_timer_stop i s in
            if pt_expected_rsp p AND RFC_RSP_RPN_REPLY \<noteq> 0 then
              let s = port_upd i (\<lambda>p. p\<lparr>pt_expected_rsp := pt_expected_rsp p AND NOT RFC_RSP_RPN_REPLY,
                        pt_peer_port_pars := pars\<rparr>) s
              in if ps_fc_type pars = RFCOMM_FC_RTR \<or> ps_fc_type pars = RFCOMM_FC_RTC
                 then rpn_answered e m dlci i RFCOMM_RPN_PM_MASK s
                 else rpn_propose e m dlci i RFCOMM_FC_RTR RFCOMM_RPN_PM_RTR s
            else rpn_answered e m dlci i (rpn_param_mask f)
                   (port_upd i (\<lambda>p. p\<lparr>pt_expected_rsp := pt_expected_rsp p AND NOT RFC_RSP_RPN\<rparr>) s))"

definition PORT_ControlInd :: "rfc_env \<Rightarrow> nat \<Rightarrow> u8 \<Rightarrow> port_ctrl \<Rightarrow> rfc_sys \<Rightarrow> rfc_sys" where
  "PORT_ControlInd e m dlci pars s =
     (case port_find_mcb_dlci_port m dlci s of
        None \<Rightarrow> s
      | Some i \<Rightarrow>
          let p = the_port s i;
              ev1 = port_get_signal_changes p (ctl_modem_signal (pt_peer_ctrl p)) (ctl_modem_signal pars);
              s = port_upd i (\<lambda>p. p\<lparr>pt_peer_ctrl := pars\<rparr>) s;
              (ev2, s) =
                (if pt_port_ctrl p AND PORT_CTRL_REQ_SENT = 0 then
                   (0, port_mcb_opt i (\<lambda>m. RFCOMM_ControlReq e m (pt_dlci p) (pt_local_ctrl p)) s)
                 else
                   let ev = (if pt_port_ctrl p AND PORT_CTRL_IND_RECEIVED = 0
                             then PORT_EV_CONNECTED AND pt_ev_mask p else 0);
                       (ev3, s) = (if pt_port_ctrl p AND PORT_CTRL_REQ_CONFIRMED \<noteq> 0
                                   then port_rfc_send_tx_data e i s else (0, s))
                   in (ev OR ev3, s));
              s = port_upd i (\<lambda>p. p\<lparr>pt_port_ctrl :=
                    pt_port_ctrl p OR (PORT_CTRL_IND_RECEIVED OR PORT_CTRL_IND_RYOCONDED)\<rparr>) s
          in call_back i (ev1 OR ev2 OR
               (if ctl_break_signal pars \<noteq> 0 then PORT_EV_BREAK AND pt_ev_mask (the_port s i) else 0)) s)"

definition PORT_ControlCnf :: "rfc_env \<Rightarrow> nat \<Rightarrow> u8 \<Rightarrow> rfc_sys \<Rightarrow> rfc_sys" where
  "PORT_ControlCnf e m dlci s =
     (case port_find_mcb_dlci_port m dlci s of
        None \<Rightarrow> s
      | Some i \<Rightarrow>
          let p = the_port s i;
              first = (pt_port_ctrl p AND PORT_CTRL_REQ_CONFIRMED = 0);
              received = (pt_port_ctrl p AND PORT_CTRL_IND_RECEIVED \<noteq> 0);
              ev1 = (if first \<and> received then pt_ev_mask p AND PORT_EV_CONNECTED else 0);
              s = (if first then port_upd i (\<lambda>p. p\<lparr>pt_port_ctrl := pt_port_ctrl p OR PORT_CTRL_REQ_CONFIRMED\<rparr>) s
                   else s);
              (ev2, s) = (if received then port_rfc_send_tx_data e i s else (0, s))
          in call_back i (ev1 OR ev2) s)"

definition msc_pars :: "mx_frame \<Rightarrow> port_ctrl" where
  "msc_pars f =
     (let has = (\<lambda>b c. if msc_signals f AND b \<noteq> 0 then c else 0) in
      \<lparr>ctl_modem_signal = has 0x04 PORT_DTRDSR_ON OR has 0x08 PORT_CTSRTS_ON OR has 0x40 PORT_RING_ON
         OR has 0x80 PORT_DCD_ON,
       ctl_break_signal = (if msc_break_present f \<noteq> 0 then msc_break_duration f else 0),
       ctl_discard_buffers = 0, ctl_break_signal_seq = 1, ctl_fc = (msc_signals f AND 0x02 = 0x02)\<rparr>)"

definition rfc_process_msc :: "rfc_env \<Rightarrow> nat \<Rightarrow> bool \<Rightarrow> mx_frame \<Rightarrow> rfc_sys \<Rightarrow> rfc_sys" where
  "rfc_process_msc e m is_command f s =
     (case port_find_mcb_dlci_port m (mf_dlci f) s of
        None \<Rightarrow> s
      | Some i \<Rightarrow>
          let pars = msc_pars f in
          if is_command then
            let s = send_msc e m (mf_dlci f) False pars s;
                s = port_mcb i (\<lambda>m' s.
                  if mcb_flow (mx_link (the_mcb s m')) \<noteq> PORT_FC_CREDIT then
                    let s = port_upd i (\<lambda>p. p\<lparr>pt_peer_ctrl := pt_peer_ctrl p\<lparr>ctl_fc := ctl_fc pars\<rparr>\<rparr>) s
                    in if ctl_fc pars \<noteq> pd_peer_fc (pt_tx (the_port s i))
                       then PORT_FlowInd e m (mf_dlci f) (\<not> ctl_fc pars) s else s
                  else s) s
            in PORT_ControlInd e m (mf_dlci f) pars s
          else if pt_expected_rsp (the_port s i) AND RFC_RSP_MSC = 0 then s
          else
            port_mcb_opt i (\<lambda>m s. PORT_ControlCnf e m (pt_dlci (the_port s i)) s)
              (rfc_port_timer_stop i
                (port_upd i (\<lambda>p. p\<lparr>pt_expected_rsp := pt_expected_rsp p AND NOT RFC_RSP_MSC\<rparr>) s)))"

definition PORT_LineStatusInd :: "nat \<Rightarrow> u8 \<Rightarrow> u8 \<Rightarrow> rfc_sys \<Rightarrow> rfc_sys" where
  "PORT_LineStatusInd m dlci line_status s =
     (case port_find_mcb_dlci_port m dlci s of
        None \<Rightarrow> s
      | Some i \<Rightarrow>
          let s = port_upd i (\<lambda>p. p\<lparr>pt_line_status := pt_line_status p OR line_status\<rparr>) s;
              events = (if line_status AND 0x02 \<noteq> 0 then PORT_EV_OVERRUN else 0) OR
                       (if line_status AND 0x01 \<noteq> 0 then PORT_EV_BREAK else 0) OR
                       (if line_status AND NOT 0x03 \<noteq> 0 then PORT_EV_ERR else 0)
          in call_back i (pt_ev_mask (the_port s i) AND events) s)"

definition rfc_process_rls :: "rfc_env \<Rightarrow> nat \<Rightarrow> bool \<Rightarrow> mx_frame \<Rightarrow> rfc_sys \<Rightarrow> rfc_sys" where
  "rfc_process_rls e m is_command f s =
     (if is_command then
        send_rls e m (mf_dlci f) False (rls_line_status f)
          (PORT_LineStatusInd m (mf_dlci f) (rls_line_status f) s)
      else case port_find_mcb_dlci_port m (mf_dlci f) s of
        None \<Rightarrow> s
      | Some i \<Rightarrow>
          if pt_expected_rsp (the_port s i) AND RFC_RSP_RLS = 0 then s
          else rfc_port_timer_stop i
            (port_upd i (\<lambda>p. p\<lparr>pt_expected_rsp := pt_expected_rsp p AND NOT RFC_RSP_RLS\<rparr>) s))"

definition congested :: "rfc_sys \<Rightarrow> nat \<Rightarrow> bool" where
  "congested s m = mcb_l2cap_congested (mx_link (the_mcb s m))"

definition rfc_process_fcon :: "rfc_env \<Rightarrow> nat \<Rightarrow> bool \<Rightarrow> rfc_sys \<Rightarrow> rfc_sys" where
  "rfc_process_fcon e m is_command s =
     (if is_command then
        let s = rfc_cmd e m (\<lambda>b l. rfc_send_fcon (re_lc e) b l False) (s\<lparr>rs_peer_rx_disabled := False\<rparr>)
        in if congested s m then s else PORT_FlowInd e m 0 True s
      else s)"

definition rfc_process_fcoff :: "rfc_env \<Rightarrow> nat \<Rightarrow> bool \<Rightarrow> rfc_sys \<Rightarrow> rfc_sys" where
  "rfc_process_fcoff e m is_command s =
     (if is_command then
        let s = s\<lparr>rs_peer_rx_disabled := True\<rparr>;
            s = (if congested s m then s else PORT_FlowInd e m 0 False s)
        in rfc_cmd e m (\<lambda>b l. rfc_send_fcoff (re_lc e) b l False) s
      else s)"

definition rfc_process_l2cap_congestion :: "rfc_env \<Rightarrow> nat \<Rightarrow> bool \<Rightarrow> rfc_sys \<Rightarrow> rfc_sys" where
  "rfc_process_l2cap_congestion e m is_congested s =
     (let s = mcb_upd m (\<lambda>x. x\<lparr>mx_link := mx_link x\<lparr>mcb_l2cap_congested := is_congested\<rparr>\<rparr>) s;
          s = (if is_congested then s else rfc_link m (\<lambda>l. rfc_check_send_cmd (re_lc e) l None) s)
      in if rs_peer_rx_disabled s then s else PORT_FlowInd e m 0 (\<not> is_congested) s)"

text \<open>The handler that \<open>rfc_process_mx_message\<close> of \<open>RfcParse\<close> chose.\<close>

definition rfc_mx_action :: "rfc_env \<Rightarrow> nat \<Rightarrow> mx_action \<Rightarrow> rfc_sys \<Rightarrow> rfc_sys" where
  "rfc_mx_action e m act s =
     (case act of
        Process_pn c f \<Rightarrow> rfc_process_pn e m c f (s\<lparr>rs_rx_frame := f\<rparr>)
      | Send_test c b \<Rightarrow> rfc_cmd e m (\<lambda>new l. rfc_send_test (re_lc e) new l c b) s
      | Process_test_rsp b \<Rightarrow> s
      | Process_fcon c \<Rightarrow> rfc_process_fcon e m c s
      | Process_fcoff c \<Rightarrow> rfc_process_fcoff e m c s
      | Process_msc c f \<Rightarrow> rfc_process_msc e m c f (s\<lparr>rs_rx_frame := f\<rparr>)
      | Process_nsc f \<Rightarrow> s\<lparr>rs_rx_frame := f\<rparr>
      | Process_rpn c r f \<Rightarrow> rfc_process_rpn e m c r f (s\<lparr>rs_rx_frame := f\<rparr>)
      | Process_rls c f \<Rightarrow> rfc_process_rls e m c f (s\<lparr>rs_rx_frame := f\<rparr>)
      | Send_nsc f \<Rightarrow> rfc_cmd e m (\<lambda>b l. rfc_send_nsc (re_lc e) b f l) (s\<lparr>rs_rx_frame := f\<rparr>)
      | Drop_message \<Rightarrow> s)"

section \<open>Called by L2CAP\<close>

definition with_lcid_mcb :: "u16 \<Rightarrow> (nat \<Rightarrow> rfc_sys \<Rightarrow> rfc_sys) \<Rightarrow> rfc_sys \<Rightarrow> rfc_sys" where
  "with_lcid_mcb lcid f s =
     (case rfc_find_lcid_mcb lcid s of (None, s) \<Rightarrow> s | (Some m, s) \<Rightarrow> f m s)"

definition RFCOMM_ConnectInd :: "rfc_env \<Rightarrow> bytes \<Rightarrow> u16 \<Rightarrow> u8 \<Rightarrow> rfc_sys \<Rightarrow> rfc_sys" where
  "RFCOMM_ConnectInd e bd_addr lcid ident s =
     (let refuse = rfc_emit (Out_connect_rsp bd_addr ident lcid L2CAP_CONN_NO_RESOURCES) in
      case rfc_alloc_multiplexer_channel e bd_addr False s of
        (None, s) \<Rightarrow> refuse (rfc_save_lcid_mcb None lcid s)
      | (Some m, s) \<Rightarrow>
          if mx_state (the_mcb s m) \<noteq> RFC_MX_STATE_IDLE then
            (if mcb_is_initiator (mx_link (the_mcb s m)) \<and> mx_state (the_mcb s m) = RFC_MX_STATE_WAIT_CONN_CNF
             then rfc_timer_start m (ucast (re_boottime e (rs_clock s) mod 10 + 2))
                    (rfc_tick (mcb_upd m (\<lambda>x. x\<lparr>mx_pending_lcid := lcid, mx_pending_id := ident\<rparr>) s))
             else refuse s)
          else
            rfc_mx_sm_execute e m (RFC_MX_EVENT_CONN_IND ident)
              (mcb_set_lcid m lcid (rfc_save_lcid_mcb (Some m) lcid s)))"

definition RFCOMM_ConnectCnf :: "rfc_env \<Rightarrow> u16 \<Rightarrow> u16 \<Rightarrow> rfc_sys \<Rightarrow> rfc_sys" where
  "RFCOMM_ConnectCnf e lcid result = with_lcid_mcb lcid (\<lambda>m s.
     if mx_pending_lcid (the_mcb s m) \<noteq> 0 \<and> result \<noteq> L2CAP_CONN_OK then
       let s = mcb_set_state m RFC_MX_STATE_IDLE (take_pending_channel m s)
       in rfc_mx_sm_execute e m (RFC_MX_EVENT_CONN_IND (mx_pending_id (the_mcb s m))) s
     else
       let s = (if mx_pending_lcid (the_mcb s m) \<noteq> 0 then
                  mcb_upd m (\<lambda>x. x\<lparr>mx_pending_lcid := 0\<rparr>)
                    (rfc_emit (Out_connect_rsp (mx_bd_addr (the_mcb s m)) (mx_pending_id (the_mcb s m))
                       (mx_pending_lcid (the_mcb s m)) L2CAP_CONN_NO_RESOURCES) s)
                else s)
       in rfc_mx_sm_execute e m (RFC_MX_EVENT_CONN_CNF result) (mcb_set_lcid m lcid s))"

definition RFCOMM_ConfigInd :: "rfc_env \<Rightarrow> u16 \<Rightarrow> u16 option \<Rightarrow> rfc_sys \<Rightarrow> rfc_sys" where
  "RFCOMM_ConfigInd e lcid mtu = with_lcid_mcb lcid (\<lambda>m. rfc_mx_sm_execute e m (RFC_MX_EVENT_CONF_IND mtu))"

definition RFCOMM_ConfigCnf :: "rfc_env \<Rightarrow> u16 \<Rightarrow> u16 \<Rightarrow> rfc_sys \<Rightarrow> rfc_sys" where
  "RFCOMM_ConfigCnf e lcid result = with_lcid_mcb lcid (\<lambda>m. rfc_mx_sm_execute e m (RFC_MX_EVENT_CONF_CNF result))"

definition RFCOMM_DisconnectInd :: "rfc_env \<Rightarrow> u16 \<Rightarrow> bool \<Rightarrow> rfc_sys \<Rightarrow> rfc_sys" where
  "RFCOMM_DisconnectInd e lcid is_conf_needed s =
     (case rfc_find_lcid_mcb lcid s of (mo, s) \<Rightarrow>
        let s = (if is_conf_needed then rfc_emit (Out_disconnect_rsp lcid) s else s)
        in case mo of None \<Rightarrow> s | Some m \<Rightarrow> rfc_mx_sm_execute e m RFC_MX_EVENT_DISC_IND s)"

text \<open>The port machine's event for a frame.\<close>

fun port_event_of :: "rfc_event \<Rightarrow> bt_hdr \<Rightarrow> rfc_port_event" where
  "port_event_of RFC_EVENT_SABME b = PORT_SABME"
| "port_event_of RFC_EVENT_UA b = PORT_UA"
| "port_event_of RFC_EVENT_DM b = PORT_DM"
| "port_event_of RFC_EVENT_DISC b = PORT_DISC"
| "port_event_of RFC_EVENT_UIH b = PORT_UIH b"
| "port_event_of RFC_EVENT_BAD_FRAME b = PORT_UIH b"

fun mx_event_of :: "rfc_event \<Rightarrow> rfc_mx_event" where
  "mx_event_of RFC_EVENT_SABME = MX_SABME"
| "mx_event_of RFC_EVENT_UA = MX_UA"
| "mx_event_of RFC_EVENT_DM = MX_DM"
| "mx_event_of RFC_EVENT_DISC = MX_DISC"
| "mx_event_of RFC_EVENT_UIH = MX_UIH"
| "mx_event_of RFC_EVENT_BAD_FRAME = MX_UIH"

text \<open>A frame for a port: user data and credits, or an event of the machine.\<close>

definition rfc_port_frame :: "rfc_env \<Rightarrow> nat \<Rightarrow> rfc_event \<Rightarrow> bt_hdr \<Rightarrow> rfc_sys \<Rightarrow> rfc_sys" where
  "rfc_port_frame e i ev b s =
     (if ev = RFC_EVENT_UIH then
        let s = (if bh_len b \<noteq> 0 then rfc_port_sm_execute e (Some i) (PORT_UIH b) s else s);
            credit = mf_credit (rs_rx_frame s)
        in if credit \<noteq> 0 then rfc_inc_credit e i credit s else s
      else rfc_port_sm_execute e (Some i) (port_event_of ev b) s)"

text \<open>
  A frame on a DLCI without connection: SABME connects a port that waits for it; another command is answered
  with DM.
\<close>

definition rfc_new_dlc ::
    "rfc_env \<Rightarrow> nat \<Rightarrow> mx_frame \<Rightarrow> rfc_event \<Rightarrow> bt_hdr \<Rightarrow> rfc_sys \<Rightarrow> rfc_sys" where
  "rfc_new_dlc e m f ev b s =
     (if ev \<noteq> RFC_EVENT_SABME then
        (if RFCOMM_FRAME_IS_CMD (mcb_is_initiator (mx_link (the_mcb s m))) (mf_cr f)
         then send_dm e m (mf_dlci f) (mf_pf f \<noteq> 0) s else s)
      else (case port_find_dlci_port (mf_dlci f) s of
          (None, s) \<Rightarrow> send_dm e m (mf_dlci f) True s
        | (Some i, s) \<Rightarrow>
            rfc_port_frame e i ev b (port_upd i (\<lambda>p. p\<lparr>pt_mcb := Some m\<rparr>)
              (mcb_set_inx m (mf_dlci f) (pt_inx (the_port s i)) s))))"

definition RFCOMM_BufDataInd :: "rfc_env \<Rightarrow> u16 \<Rightarrow> bt_hdr \<Rightarrow> rfc_sys \<Rightarrow> rfc_sys" where
  "RFCOMM_BufDataInd e lcid buf = with_lcid_mcb lcid (\<lambda>m s.
     case rfc_parse_data (mx_link (the_mcb s m)) (rs_rx_frame s) buf of
       None \<Rightarrow> rfc_fault s
     | Some (f, b, ev) \<Rightarrow>
         let s = s\<lparr>rs_rx_frame := f\<rparr> in
         if ev = RFC_EVENT_BAD_FRAME then s
         else if mf_dlci f = RFCOMM_MX_DLCI then
           (if ev = RFC_EVENT_UIH then
              (case rfc_process_mx_message f b of None \<Rightarrow> rfc_fault s | Some act \<Rightarrow> rfc_mx_action e m act s)
            else rfc_mx_sm_execute e m (mx_event_of ev) s)
         else case port_find_mcb_dlci_port m (mf_dlci f) s of
           Some i \<Rightarrow>
             if pt_mcb (the_port s i) \<noteq> None then rfc_port_frame e i ev b s
             else rfc_new_dlc e m f ev b s
         | None \<Rightarrow> rfc_new_dlc e m f ev b s)"

definition RFCOMM_CongestionStatusInd :: "rfc_env \<Rightarrow> u16 \<Rightarrow> bool \<Rightarrow> rfc_sys \<Rightarrow> rfc_sys" where
  "RFCOMM_CongestionStatusInd e lcid is_congested =
     with_lcid_mcb lcid (\<lambda>m. rfc_process_l2cap_congestion e m is_congested)"

section \<open>Called by timers and by the security manager\<close>

text \<open>A timer that expires runs no longer.\<close>

datatype rfc_timer = BTU_TTYPE_RFCOMM_MFC nat | BTU_TTYPE_RFCOMM_PORT nat

definition rfcomm_process_timeout :: "rfc_env \<Rightarrow> rfc_timer \<Rightarrow> rfc_sys \<Rightarrow> rfc_sys" where
  "rfcomm_process_timeout e t s =
     (case t of
        BTU_TTYPE_RFCOMM_MFC m \<Rightarrow> rfc_mx_sm_execute e m MX_TIMEOUT (rfc_timer_stop m s)
      | BTU_TTYPE_RFCOMM_PORT i \<Rightarrow> rfc_port_sm_execute e (Some i) PORT_TIMEOUT (rfc_port_timer_stop i s))"

definition rfc_sec_check_complete :: "rfc_env \<Rightarrow> nat \<Rightarrow> u8 \<Rightarrow> rfc_sys \<Rightarrow> rfc_sys" where
  "rfc_sec_check_complete e i res s =
     (if \<not> pt_in_use (the_port s i) \<or>
         pt_rfc_state (the_port s i) \<noteq> RFC_STATE_ORIG_WAIT_SEC_CHECK \<and>
         pt_rfc_state (the_port s i) \<noteq> RFC_STATE_TERM_WAIT_SEC_CHECK
      then s else rfc_port_sm_execute e (Some i) (RFC_EVENT_SEC_COMPLETE res) s)"

end
