(* ===== verification/RfcInv.thy ===== *)
theory RfcInv
  imports RfcL2cap
begin

text \<open>
  The invariant of the tables of RFCOMM: every index in a table is one of the pool it points into, so that no
  access to a pool is out of bounds.  Its parameter \<open>A\<close> is the set of ports that may be past the security
  check; an operation that keeps the invariant for \<open>A\<close> takes no other port there.
\<close>

section \<open>The invariant\<close>

definition past_security :: "tport \<Rightarrow> bool" where
  "past_security p = (pt_rfc_state p \<in> {RFC_STATE_SABME_WAIT_UA, RFC_STATE_OPENED})"

definition port_ok :: "nat \<Rightarrow> nat \<Rightarrow> bool \<Rightarrow> tport \<Rightarrow> bool" where
  "port_ok n i a p \<longleftrightarrow> unat (pt_inx p) \<le> 16 \<and> (pt_in_use p \<longrightarrow> unat (pt_inx p) = Suc i) \<and> (case pt_mcb p of None \<Rightarrow> True | Some m \<Rightarrow> m < n) \<and>
     (past_security p \<longrightarrow> a)"

definition mcb_ok :: "tmcb \<Rightarrow> bool" where
  "mcb_ok x \<longleftrightarrow> length (mx_port_inx x) = 62 \<and> (\<forall>v\<in>set (mx_port_inx x). unat v \<le> 16)"

definition rfc_inv :: "nat \<Rightarrow> nat set \<Rightarrow> rfc_sys \<Rightarrow> bool" where
  "rfc_inv n A s \<longleftrightarrow> length (rs_port s) = 16 \<and> length (rs_mcb s) = n \<and> length (rs_lcid_mcb s) = 16 \<and>
     (\<forall>i<16. port_ok n i (i \<in> A) (the_port s i)) \<and> (\<forall>m<n. mcb_ok (the_mcb s m)) \<and>
     (\<forall>m. Some m \<in> set (rs_lcid_mcb s) \<longrightarrow> m < n)"

named_theorems rfc_intros

lemma rfc_inv_port: "rfc_inv n A s \<Longrightarrow> i < 16 \<Longrightarrow> port_ok n i (i \<in> A) (the_port s i)"
  by (simp add: rfc_inv_def)

lemma rfc_inv_mcb: "rfc_inv n A s \<Longrightarrow> m < n \<Longrightarrow> mcb_ok (the_mcb s m)"
  by (simp add: rfc_inv_def)

lemma rfc_inv_fault [rfc_intros]: "rfc_inv n A s \<Longrightarrow> rfc_inv n A (rfc_fault s)"
  by (simp add: rfc_inv_def rfc_fault_def)

lemma rfc_inv_emit [rfc_intros]: "rfc_inv n A s \<Longrightarrow> rfc_inv n A (rfc_emit x s)"
  by (simp add: rfc_inv_def rfc_emit_def)

lemma rfc_inv_tick [rfc_intros]: "rfc_inv n A s \<Longrightarrow> rfc_inv n A (rfc_tick s)"
  by (simp add: rfc_inv_def rfc_tick_def)

lemma rfc_inv_fields [rfc_intros]:
  "rfc_inv n A s \<Longrightarrow> rfc_inv n A (s\<lparr>rs_rx_frame := f\<rparr>)"
  "rfc_inv n A s \<Longrightarrow> rfc_inv n A (s\<lparr>rs_peer_rx_disabled := d\<rparr>)"
  "rfc_inv n A s \<Longrightarrow> rfc_inv n A (s\<lparr>rs_last_mux := k\<rparr>)"
  "rfc_inv n A s \<Longrightarrow> rfc_inv n A (s\<lparr>rs_last_port := k\<rparr>)"
  by (simp_all add: rfc_inv_def)

lemma rfc_inv_port_upd [rfc_intros]:
  assumes "rfc_inv n A s"
    and "i < 16 \<Longrightarrow> port_ok n i (i \<in> A) (the_port s i) \<Longrightarrow> port_ok n i (i \<in> A) (f (the_port s i))"
  shows "rfc_inv n A (port_upd i f s)"
  using assms by (auto simp: rfc_inv_def port_upd_def rfc_fault_def nth_list_update)

lemma rfc_inv_mcb_upd [rfc_intros]:
  assumes "rfc_inv n A s" and "m < n \<Longrightarrow> mcb_ok (the_mcb s m) \<Longrightarrow> mcb_ok (f (the_mcb s m))"
  shows "rfc_inv n A (mcb_upd m f s)"
  using assms by (auto simp: rfc_inv_def mcb_upd_def rfc_fault_def nth_list_update)

lemma rfc_inv_port_mcb [rfc_intros]:
  assumes "rfc_inv n A s" and "i < 16" and "\<And>m. m < n \<Longrightarrow> pt_mcb (the_port s i) = Some m \<Longrightarrow> rfc_inv n A (f m s)"
  shows "rfc_inv n A (port_mcb i f s)"
  using assms rfc_inv_port [OF assms(1,2)]
  by (auto simp: port_mcb_def port_ok_def rfc_inv_fault split: option.splits)

text \<open>Changes of a port and of a multiplexer that keep what the invariant says of them.\<close>

lemma port_ok_simps [simp]:
  "port_ok n i a (p\<lparr>pt_state := st\<rparr>) = port_ok n i a p"
  "port_ok n i a (p\<lparr>pt_bd_addr := bd\<rparr>) = port_ok n i a p" "port_ok n i a (p\<lparr>pt_dlci := d\<rparr>) = port_ok n i a p"
  "port_ok n i a (p\<lparr>pt_error := er\<rparr>) = port_ok n i a p" "port_ok n i a (p\<lparr>pt_line_status := b8\<rparr>) = port_ok n i a p"
  "port_ok n i a (p\<lparr>pt_mtu := w\<rparr>) = port_ok n i a p" "port_ok n i a (p\<lparr>pt_peer_mtu := w\<rparr>) = port_ok n i a p"
  "port_ok n i a (p\<lparr>pt_tx := t\<rparr>) = port_ok n i a p" "port_ok n i a (p\<lparr>pt_rx := t\<rparr>) = port_ok n i a p"
  "port_ok n i a (p\<lparr>pt_user_port_pars := ps\<rparr>) = port_ok n i a p"
  "port_ok n i a (p\<lparr>pt_peer_port_pars := ps\<rparr>) = port_ok n i a p"
  "port_ok n i a (p\<lparr>pt_local_ctrl := c\<rparr>) = port_ok n i a p" "port_ok n i a (p\<lparr>pt_peer_ctrl := c\<rparr>) = port_ok n i a p"
  "port_ok n i a (p\<lparr>pt_port_ctrl := b8\<rparr>) = port_ok n i a p"
  "port_ok n i a (p\<lparr>pt_rx_flag_ev_pending := b\<rparr>) = port_ok n i a p"
  "port_ok n i a (p\<lparr>pt_expected_rsp := b8\<rparr>) = port_ok n i a p" "port_ok n i a (p\<lparr>pt_timer := tm\<rparr>) = port_ok n i a p"
  "port_ok n i a (p\<lparr>pt_ev_mask := ev\<rparr>) = port_ok n i a p" "port_ok n i a (p\<lparr>pt_callback := b\<rparr>) = port_ok n i a p"
  "port_ok n i a (p\<lparr>pt_mgmt_callback := b\<rparr>) = port_ok n i a p"
  "port_ok n i a (p\<lparr>pt_credit_tx := w\<rparr>) = port_ok n i a p" "port_ok n i a (p\<lparr>pt_credit_rx := w\<rparr>) = port_ok n i a p"
  "port_ok n i a (p\<lparr>pt_credit_rx_max := w\<rparr>) = port_ok n i a p"
  "port_ok n i a (p\<lparr>pt_credit_rx_low := w\<rparr>) = port_ok n i a p"
  "port_ok n i a (p\<lparr>pt_rx_buf_critical := w\<rparr>) = port_ok n i a p"
  by (simp_all add: port_ok_def past_security_def)

lemma port_ok_changes:
  "port_ok n i a p \<Longrightarrow> port_ok n i a (p\<lparr>pt_mcb := None\<rparr>)"
  "port_ok n i a p \<Longrightarrow> m < n \<Longrightarrow> port_ok n i a (p\<lparr>pt_mcb := Some m\<rparr>)"
  "port_ok n i a p \<Longrightarrow> st \<notin> {RFC_STATE_SABME_WAIT_UA, RFC_STATE_OPENED} \<or> a \<Longrightarrow> port_ok n i a (p\<lparr>pt_rfc_state := st\<rparr>)"
  by (auto simp: port_ok_def past_security_def)

lemma port_ok_zero [simp]: "port_ok n i a port_zero"
  by (simp add: port_ok_def port_zero_def past_security_def)

lemma mcb_ok_simps [simp]:
  "mcb_ok (x\<lparr>mx_link := l\<rparr>) = mcb_ok x" "mcb_ok (x\<lparr>mx_timer := t\<rparr>) = mcb_ok x"
  "mcb_ok (x\<lparr>mx_bd_addr := bd\<rparr>) = mcb_ok x" "mcb_ok (x\<lparr>mx_peer_l2cap_mtu := w\<rparr>) = mcb_ok x"
  "mcb_ok (x\<lparr>mx_state := st\<rparr>) = mcb_ok x" "mcb_ok (x\<lparr>mx_local_cfg_sent := b\<rparr>) = mcb_ok x"
  "mcb_ok (x\<lparr>mx_peer_cfg_rcvd := b\<rparr>) = mcb_ok x" "mcb_ok (x\<lparr>mx_restart_required := b\<rparr>) = mcb_ok x"
  "mcb_ok (x\<lparr>mx_peer_ready := b\<rparr>) = mcb_ok x" "mcb_ok (x\<lparr>mx_is_disc_initiator := b\<rparr>) = mcb_ok x"
  "mcb_ok (x\<lparr>mx_pending_lcid := w\<rparr>) = mcb_ok x" "mcb_ok (x\<lparr>mx_pending_id := b8\<rparr>) = mcb_ok x"
  by (simp_all add: mcb_ok_def)

lemma mcb_ok_zero [simp]: "mcb_ok (mcb_zero x)"
  by (simp add: mcb_ok_def mcb_zero_def)

lemma mcb_ok_inx: "mcb_ok x \<Longrightarrow> unat v \<le> 16 \<Longrightarrow> mcb_ok (x\<lparr>mx_port_inx := (mx_port_inx x)[d := v]\<rparr>)"
  using set_update_subset_insert by (fastforce simp: mcb_ok_def)

lemma rfc_inv_fold:
  assumes "rfc_inv n A s" and "\<And>i s. i \<in> set xs \<Longrightarrow> rfc_inv n A s \<Longrightarrow> rfc_inv n A (f i s)"
  shows "rfc_inv n A (fold f xs s)"
  using assms by (induction xs arbitrary: s) auto

lemma find_mcb_dlci_lt:
  assumes "port_find_mcb_dlci_port m d s = Some i" "rfc_inv n A s" "m < n"
  shows "i < 16"
proof -
  have "mx_port_inx (the_mcb s m) ! unat d \<in> set (mx_port_inx (the_mcb s m))"
    using rfc_inv_mcb [OF assms(2,3)] assms(1)
    by (intro nth_mem) (auto simp: mcb_ok_def port_find_mcb_dlci_port_def split: if_splits)
  then have "unat (mx_port_inx (the_mcb s m) ! unat d) \<le> 16"
    using rfc_inv_mcb [OF assms(2,3)] by (simp add: mcb_ok_def)
  then show ?thesis
    using assms(1) by (auto simp: port_find_mcb_dlci_port_def Let_def unat_eq_zero split: if_splits)
qed

section \<open>Pools, timers, flow\<close>

lemma rfc_inv_timers [rfc_intros]:
  assumes "rfc_inv n A s"
  shows "rfc_inv n A (rfc_timer_start m t s)" "rfc_inv n A (rfc_timer_stop m s)" "rfc_inv n A (rfc_timer_free m s)"
    "rfc_inv n A (rfc_port_timer_start i t s)" "rfc_inv n A (rfc_port_timer_stop i s)"
    "rfc_inv n A (rfc_port_timer_free i s)"
  using assms by (auto simp: rfc_timer_start_def rfc_timer_stop_def rfc_timer_free_def rfc_port_timer_start_def
      rfc_port_timer_stop_def rfc_port_timer_free_def intro!: rfc_intros)

lemma rfc_inv_call_back [rfc_intros]:
  "rfc_inv n A s \<Longrightarrow> rfc_inv n A (call_back i ev s)" "rfc_inv n A s \<Longrightarrow> rfc_inv n A (mgmt_call_back i r s)"
  by (auto simp: call_back_def mgmt_call_back_def intro!: rfc_intros)

lemma rfc_inv_queue_new [rfc_intros]: "rfc_inv n A s \<Longrightarrow> rfc_inv n A (snd (queue_new e s))"
  by (auto simp: queue_new_def intro!: rfc_intros)

lemma rfc_inv_release_mcb [rfc_intros]: "rfc_inv n A s \<Longrightarrow> rfc_inv n A (rfc_release_multiplexer_channel m s)"
  by (auto simp: rfc_release_multiplexer_channel_def intro!: rfc_intros)

lemma rfc_inv_alloc_mcb [rfc_intros]:
  "rfc_inv n A s \<Longrightarrow> rfc_inv n A (snd (rfc_alloc_multiplexer_channel e bd ini s))"
  by (auto simp: rfc_alloc_multiplexer_channel_def Let_def split_beta split: option.split intro!: rfc_intros)

lemma pool_order_lt: "i \<in> set (pool_order k l) \<Longrightarrow> i < k"
  by (auto simp: pool_order_def Let_def split: if_splits)

lemma find_Some_set: "find P xs = Some i \<Longrightarrow> i \<in> set xs"
  by (auto simp: find_Some_iff)

lemma alloc_mcb_lt:
  assumes "rfc_inv n A s" "fst (rfc_alloc_multiplexer_channel e bd ini s) = Some m"
  shows "m < n"
  using assms
  by (auto simp: rfc_alloc_multiplexer_channel_def Let_def split_beta rfc_inv_def dest!: find_Some_set pool_order_lt
      split: option.splits)

lemma rfc_inv_save_lcid [rfc_intros]:
  assumes "rfc_inv n A s" "m = None \<or> (\<exists>k. m = Some k \<and> k < n)"
  shows "rfc_inv n A (rfc_save_lcid_mcb m lcid s)"
  using assms set_update_subset_insert
  by (fastforce simp: rfc_save_lcid_mcb_def rfc_fault_def rfc_inv_def)

lemma rfc_inv_find_lcid [rfc_intros]: "rfc_inv n A s \<Longrightarrow> rfc_inv n A (snd (rfc_find_lcid_mcb lcid s))"
  by (auto simp: rfc_find_lcid_mcb_def intro!: rfc_intros split: option.split)

lemma find_lcid_lt:
  assumes "rfc_inv n A s" "fst (rfc_find_lcid_mcb lcid s) = Some m"
  shows "m < n"
proof -
  let ?k = "unat lcid - 64"
  have "uint lcid < 80" "rs_lcid_mcb s ! ?k = Some m"
    using assms(2) by (auto simp: rfc_find_lcid_mcb_def split: if_splits option.splits)
  moreover from this have "unat lcid < 80"
    using unat_eq_nat_uint [of lcid] by linarith
  ultimately have "?k < length (rs_lcid_mcb s)"
    using assms(1) by (simp add: rfc_inv_def)
  then have "Some m \<in> set (rs_lcid_mcb s)"
    using \<open>rs_lcid_mcb s ! ?k = Some m\<close> nth_mem by metis
  then show ?thesis
    using assms(1) by (simp add: rfc_inv_def)
qed

lemma rfc_inv_set_defaults [rfc_intros]: "rfc_inv n A s \<Longrightarrow> rfc_inv n A (port_set_defaults e i s)"
  by (auto simp: port_set_defaults_def Let_def split_beta intro!: rfc_intros)

lemma rfc_inv_select_mtu [rfc_intros]: "rfc_inv n A s \<Longrightarrow> rfc_inv n A (port_select_mtu e i s)"
  by (auto simp: port_select_mtu_def Let_def intro!: rfc_intros)

lemma find_dlci_from_lt: "find_dlci_from d ps k = Some (i, b) \<Longrightarrow> i < k + length ps"
  by (induction d ps k rule: find_dlci_from.induct) (auto split: if_splits)

lemma find_dlci_lt:
  assumes "rfc_inv n A s" "fst (port_find_dlci_port d s) = Some i"
  shows "i < 16"
  using assms find_dlci_from_lt [of d "rs_port s" 0]
  by (auto simp: port_find_dlci_port_def rfc_inv_def split: option.splits)

lemma rfc_inv_find_dlci [rfc_intros]: "rfc_inv n A s \<Longrightarrow> rfc_inv n A (snd (port_find_dlci_port d s))"
  by (auto simp: port_find_dlci_port_def split_beta split: option.split intro!: rfc_intros)

lemma rfc_inv_flow_user [rfc_intros]: "rfc_inv n A s \<Longrightarrow> rfc_inv n A (snd (port_flow_control_user i s))"
  by (auto simp: port_flow_control_user_def Let_def intro!: rfc_intros)

lemma rfc_inv_flow_off_port [rfc_intros]: "rfc_inv n A s \<Longrightarrow> rfc_inv n A (flow_off_port m i s)"
  by (auto simp: flow_off_port_def Let_def split_beta intro!: rfc_intros)

lemma rfc_inv_flow_off [rfc_intros]: "rfc_inv n A s \<Longrightarrow> rfc_inv n A (flow_off m s)"
  unfolding flow_off_def by (intro rfc_inv_fold) (auto intro!: rfc_intros)

lemma rfc_inv_link [rfc_intros]: "rfc_inv n A s \<Longrightarrow> rfc_inv n A (rfc_link m g s)"
  by (auto simp: rfc_link_def Let_def intro!: rfc_intros split: outcome.split)

lemma rfc_inv_cmd [rfc_intros]: "rfc_inv n A s \<Longrightarrow> rfc_inv n A (rfc_cmd e m g s)"
  by (auto simp: rfc_cmd_def intro!: rfc_intros)

lemma rfc_inv_sends [rfc_intros]:
  assumes "rfc_inv n A s"
  shows "rfc_inv n A (send_sabme e m d s)" "rfc_inv n A (send_ua e m d s)" "rfc_inv n A (send_dm e m d pf s)"
    "rfc_inv n A (send_disc e m d s)" "rfc_inv n A (send_pn e m d c mtu cl k s)" "rfc_inv n A (send_msc e m d c pars s)"
    "rfc_inv n A (send_rls e m d c st s)" "rfc_inv n A (send_rpn e m d c ps pmask s)"
    "rfc_inv n A (send_credit e m d cr s)" "rfc_inv n A (send_buf_uih e m d b s)"
  using assms by (simp_all add: send_sabme_def send_ua_def send_dm_def send_disc_def send_pn_def send_msc_def
      send_rls_def send_rpn_def send_credit_def send_buf_uih_def rfc_intros)

section \<open>Closing\<close>

lemma rfc_inv_close_req [rfc_intros]: "rfc_inv n A s \<Longrightarrow> rfc_inv n A (rfc_mx_close_req e m s)"
  by (auto simp: rfc_mx_close_req_def intro!: rfc_intros)

lemma rfc_inv_check_active [rfc_intros]: "rfc_inv n A s \<Longrightarrow> rfc_inv n A (rfc_check_mcb_active e m s)"
  by (auto simp: rfc_check_mcb_active_def intro!: rfc_intros)

lemma rfc_inv_set_inx [rfc_intros]: "rfc_inv n A s \<Longrightarrow> unat v \<le> 16 \<Longrightarrow> rfc_inv n A (mcb_set_inx m d v s)"
  by (auto simp: mcb_set_inx_def intro!: rfc_intros mcb_ok_inx)

lemma rfc_inv_release_port [rfc_intros]: "rfc_inv n A s \<Longrightarrow> rfc_inv n A (port_release_port e i s)"
  by (auto simp: port_release_port_def Let_def intro!: rfc_intros port_ok_changes split: option.split)

lemma rfc_inv_port_rfc_closed [rfc_intros]: "rfc_inv n A s \<Longrightarrow> rfc_inv n A (port_rfc_closed e i r s)"
  by (auto simp: port_rfc_closed_def Let_def split_beta intro!: rfc_intros port_ok_changes split: option.split)

lemma rfc_inv_rfc_port_closed [rfc_intros]: "rfc_inv n A s \<Longrightarrow> rfc_inv n A (rfc_port_closed e i s)"
  by (auto simp: rfc_port_closed_def Let_def intro!: rfc_intros port_ok_changes split: option.split)

section \<open>Requests and data\<close>

lemma rfc_inv_requests [rfc_intros]:
  assumes "rfc_inv n A s"
  shows "rfc_inv n A (RFCOMM_ParNegReq e m d mtu s)" "rfc_inv n A (RFCOMM_ParNegRsp e m d mtu cl k s)"
    "rfc_inv n A (RFCOMM_PortNegRsp e m d ps pmask s)" "rfc_inv n A (RFCOMM_ControlReq e m d pars s)"
    "rfc_inv n A (RFCOMM_FlowReq e m d en s)" "rfc_inv n A (RFCOMM_LineStatusReq e m d st s)"
  using assms by (auto simp: RFCOMM_ParNegReq_def RFCOMM_ParNegRsp_def RFCOMM_PortNegRsp_def
      RFCOMM_ControlReq_def RFCOMM_FlowReq_def RFCOMM_LineStatusReq_def Let_def intro!: rfc_intros split: option.split)

lemma port_ok_credits [simp]:
  "port_ok n i a (snd (data_credits flow b p)) = port_ok n i a p" "port_ok n i a (dec_credit flow p) = port_ok n i a p"
  "port_ok n i a (snd (credit_update c p)) = port_ok n i a p"
  by (simp_all add: data_credits_def dec_credit_def credit_update_def Let_def)

lemma rfc_inv_dec_credit [rfc_intros]: "rfc_inv n A s \<Longrightarrow> i < 16 \<Longrightarrow> rfc_inv n A (rfc_dec_credit i s)"
  by (auto simp: rfc_dec_credit_def intro!: rfc_intros)

lemma rfc_inv_sm_data [rfc_intros]: "rfc_inv n A s \<Longrightarrow> i < 16 \<Longrightarrow> rfc_inv n A (rfc_port_sm_data e i b s)"
  by (auto simp: rfc_port_sm_data_def Let_def split_beta intro!: rfc_intros)

lemma rfc_inv_DataReq [rfc_intros]: "rfc_inv n A s \<Longrightarrow> m < n \<Longrightarrow> rfc_inv n A (RFCOMM_DataReq e m d b s)"
  by (auto simp: RFCOMM_DataReq_def intro!: rfc_intros dest: find_mcb_dlci_lt split: option.split)

lemma rfc_inv_tx_loop:
  "rfc_inv n A s \<Longrightarrow> i < 16 \<Longrightarrow> rfc_inv n A (snd (tx_data_loop e i k ev s))"
proof (induction k arbitrary: ev s)
  case (Suc k)
  then show ?case
    by (auto simp: Let_def split_beta intro!: rfc_intros Suc.IH split: option.split)
qed (auto intro!: rfc_intros)

declare tx_data_loop.simps [simp del]

lemma rfc_inv_send_tx [rfc_intros]:
  "rfc_inv n A s \<Longrightarrow> i < 16 \<Longrightarrow> rfc_inv n A (snd (port_rfc_send_tx_data e i s))"
  by (auto simp: port_rfc_send_tx_data_def Let_def split_beta intro!: rfc_intros rfc_inv_tx_loop)

lemma rfc_inv_flow_ind_port [rfc_intros]: "rfc_inv n A s \<Longrightarrow> i < 16 \<Longrightarrow> rfc_inv n A (flow_ind_port e i s)"
  by (auto simp: flow_ind_port_def Let_def split_beta intro!: rfc_intros)

lemma rfc_inv_FlowInd [rfc_intros]:
  assumes "rfc_inv n A s" "m < n"
  shows "rfc_inv n A (PORT_FlowInd e m d en s)"
proof (cases "d = 0")
  case True
  then show ?thesis unfolding PORT_FlowInd_def Let_def using assms
    by (auto intro!: rfc_inv_fold rfc_intros)
next
  case False
  then show ?thesis using assms find_mcb_dlci_lt [OF _ assms]
    by (auto simp: PORT_FlowInd_def intro!: rfc_intros split: option.split)
qed

lemma rfc_inv_inc_credit [rfc_intros]: "rfc_inv n A s \<Longrightarrow> i < 16 \<Longrightarrow> rfc_inv n A (rfc_inc_credit e i c s)"
  by (auto simp: rfc_inc_credit_def Let_def intro!: rfc_intros)

lemma rfc_inv_rx_fc [rfc_intros]: "rfc_inv n A s \<Longrightarrow> rfc_inv n A (rx_peer_fc i b s)"
  by (auto simp: rx_peer_fc_def intro!: rfc_intros)

lemma rfc_inv_flow_peer [rfc_intros]: "rfc_inv n A s \<Longrightarrow> rfc_inv n A (port_flow_control_peer e i en c s)"
  unfolding port_flow_control_peer_def Let_def split_beta
  by (auto intro!: rfc_intros split: option.split)

lemma rfc_inv_rx_enqueue [rfc_intros]: "rfc_inv n A s \<Longrightarrow> rfc_inv n A (rx_enqueue i b s)"
  by (auto simp: rx_enqueue_def intro!: rfc_intros split: option.split outcome.split)

lemma rfc_inv_DataInd [rfc_intros]: "rfc_inv n A s \<Longrightarrow> rfc_inv n A (PORT_DataInd e m d b s)"
  by (auto simp: PORT_DataInd_def Let_def intro!: rfc_intros split: option.split)

section \<open>The port entity\<close>

lemma rfc_inv_mcb_opt [rfc_intros]:
  assumes "rfc_inv n A s" and "i < 16" and "\<And>m. m < n \<Longrightarrow> pt_mcb (the_port s i) = Some m \<Longrightarrow> rfc_inv n A (f m s)"
  shows "rfc_inv n A (port_mcb_opt i f s)"
  using assms rfc_inv_port [OF assms(1,2)] by (auto simp: port_mcb_opt_def port_ok_def split: option.splits)

lemma rfc_inv_abort [rfc_intros]: "rfc_inv n A s \<Longrightarrow> i < 16 \<Longrightarrow> rfc_inv n A (abort_access i s)"
  by (auto simp: abort_access_def intro!: rfc_intros)

lemma rfc_inv_sm_close [rfc_intros]: "rfc_inv n A s \<Longrightarrow> i < 16 \<Longrightarrow> rfc_inv n A (rfc_port_sm_close e i s)"
  by (auto simp: rfc_port_sm_close_def intro!: rfc_intros port_ok_changes split: rfc_port_state.split)

lemma rfc_inv_ReleaseReq [rfc_intros]: "rfc_inv n A s \<Longrightarrow> m < n \<Longrightarrow> rfc_inv n A (RFCOMM_DlcReleaseReq e m d s)"
  by (auto simp: RFCOMM_DlcReleaseReq_def intro!: rfc_intros dest: find_mcb_dlci_lt split: option.split)

lemma rfc_inv_ReleaseInd [rfc_intros]: "rfc_inv n A s \<Longrightarrow> rfc_inv n A (PORT_DlcReleaseInd e m d s)"
  by (auto simp: PORT_DlcReleaseInd_def intro!: rfc_intros split: option.split)

lemma rfc_inv_close_ports [rfc_intros]: "rfc_inv n A s \<Longrightarrow> rfc_inv n A (close_ports e mo r s)"
  unfolding close_ports_def by (intro rfc_inv_fold) (auto intro!: rfc_intros)

lemma rfc_inv_CloseInd [rfc_intros]:
  "rfc_inv n A s \<Longrightarrow> rfc_inv n A (PORT_CloseInd e m s)" "rfc_inv n A s \<Longrightarrow> rfc_inv n A (Port_TimeOutCloseMux e mo s)"
  by (auto simp: PORT_CloseInd_def Port_TimeOutCloseMux_def intro!: rfc_intros)

lemma rfc_inv_start_cnf_port [rfc_intros]: "rfc_inv n A s \<Longrightarrow> rfc_inv n A (start_cnf_port e m r i s)"
  by (auto simp: start_cnf_port_def Let_def intro!: rfc_intros port_ok_changes)

lemma rfc_inv_StartCnf [rfc_intros]:
  assumes "rfc_inv n A s"
  shows "rfc_inv n A (PORT_StartCnf e m r s)"
proof -
  have "rfc_inv n A (snd (fold (\<lambda>i (none, s). if pt_mcb (the_port s i) = Some m
      then (False, start_cnf_port e m r i s) else (none, s)) xs (b, s)))" for xs b
    using assms by (induction xs arbitrary: b s) (auto intro: rfc_inv_start_cnf_port)
  from this [of "[0..<16]" True] show ?thesis
    by (auto simp: PORT_StartCnf_def split_beta intro!: rfc_intros)
qed

lemma rfc_inv_StartRsp [rfc_intros]: "rfc_inv n A s \<Longrightarrow> rfc_inv n A (RFCOMM_StartRsp e m r s)"
  by (auto simp: RFCOMM_StartRsp_def intro!: rfc_intros)

lemma rfc_inv_StartInd [rfc_intros]: "rfc_inv n A s \<Longrightarrow> rfc_inv n A (PORT_StartInd e m s)"
  by (auto simp: PORT_StartInd_def intro!: rfc_intros)

lemma rfc_inv_PortNegCnf [rfc_intros]: "rfc_inv n A s \<Longrightarrow> m < n \<Longrightarrow> rfc_inv n A (PORT_PortNegCnf e m d r s)"
  by (auto simp: PORT_PortNegCnf_def intro!: rfc_intros dest: find_mcb_dlci_lt split: option.split)

lemma rfc_inv_PortNegReq [rfc_intros]: "rfc_inv n A s \<Longrightarrow> m < n \<Longrightarrow> rfc_inv n A (RFCOMM_PortNegReq e m d ps s)"
  by (auto simp: RFCOMM_PortNegReq_def intro!: rfc_intros split: option.split)

lemma port_ok_take_mtu [simp]: "port_ok n i a (take_mtu w p) = port_ok n i a p"
  by (simp add: take_mtu_def)

lemma rfc_inv_EstablishCnf [rfc_intros]:
  "rfc_inv n A s \<Longrightarrow> m < n \<Longrightarrow> rfc_inv n A (PORT_DlcEstablishCnf e m d mtu r s)"
  by (auto simp: PORT_DlcEstablishCnf_def Let_def intro!: rfc_intros dest: find_mcb_dlci_lt split: option.split)

lemma port_for_dlci_lt:
  assumes "rfc_inv n A s" "m < n" "fst (port_for_dlci m d s) = Some i"
  shows "i < 16"
  using assms find_mcb_dlci_lt [OF _ assms(1,2)] find_dlci_lt [OF assms(1)]
  by (auto simp: port_for_dlci_def split_beta split: option.splits prod.splits)

lemma rfc_inv_for_dlci [rfc_intros]:
  assumes "rfc_inv n A s"
  shows "rfc_inv n A (snd (port_for_dlci m d s))"
  using assms rfc_inv_find_dlci [OF assms, of d] find_dlci_lt [OF assms, of d] rfc_inv_port
  by (auto simp: port_for_dlci_def port_ok_def intro!: rfc_intros split: option.splits prod.splits)

section \<open>Establishing\<close>

lemma rfc_inv_establish_rsp [rfc_intros]:
  "rfc_inv n A s \<Longrightarrow> i < 16 \<Longrightarrow> (ucast r :: u8) \<noteq> 0 \<or> i \<in> A \<Longrightarrow> rfc_inv n A (rfc_port_sm_establish_rsp e i r s)"
  by (auto simp: rfc_port_sm_establish_rsp_def intro!: rfc_intros port_ok_changes)

lemma rfc_inv_EstablishRsp:
  assumes "rfc_inv n A s" "m < n" "(ucast r :: u8) \<noteq> 0 \<or> (\<forall>i. port_find_mcb_dlci_port m d s = Some i \<longrightarrow> i \<in> A)"
  shows "rfc_inv n A (RFCOMM_DlcEstablishRsp e m d r s)"
  using assms by (auto simp: RFCOMM_DlcEstablishRsp_def intro!: rfc_intros dest: find_mcb_dlci_lt split: option.split)

text \<open>What is registered for a DLCI does not depend on the other fields.\<close>

lemma port_find_port_upd [simp]: "port_find_mcb_dlci_port m d (port_upd i f s) = port_find_mcb_dlci_port m d s"
  by (simp add: port_find_mcb_dlci_port_def port_upd_def rfc_fault_def)

lemma port_find_fault [simp]: "port_find_mcb_dlci_port m d (rfc_fault s) = port_find_mcb_dlci_port m d s"
  by (simp add: port_find_mcb_dlci_port_def rfc_fault_def)

lemma port_find_mcb_upd:
  "(\<And>x. mx_port_inx (f x) = mx_port_inx x) \<Longrightarrow>
   port_find_mcb_dlci_port m d (mcb_upd k f s) = port_find_mcb_dlci_port m d s"
  by (simp add: port_find_mcb_dlci_port_def mcb_upd_def rfc_fault_def nth_list_update Let_def)

lemma port_find_timer [simp]: "port_find_mcb_dlci_port m d (rfc_timer_stop k s) = port_find_mcb_dlci_port m d s"
  by (simp add: rfc_timer_stop_def port_find_mcb_upd)

lemma port_find_set_inx:
  assumes "port_find_mcb_dlci_port m d (mcb_set_inx m d v s) = Some j" "m < length (rs_mcb s)"
    "length (mx_port_inx (the_mcb s m)) = 62"
  shows "j = unat v - 1"
  using assms by (auto simp: port_find_mcb_dlci_port_def mcb_set_inx_def mcb_upd_def rfc_fault_def Let_def
      split: if_splits)

lemma find_dlci_in_use: "find_dlci_from d ps k = Some (i, b) \<Longrightarrow> k \<le> i \<and> pt_in_use (ps ! (i - k))"
proof (induction ps arbitrary: k)
  case (Cons p ps)
  then show ?case using Cons.IH [of "Suc k"] by (fastforce simp: nth_Cons' split: if_splits)
qed simp

lemma port_for_dlci_registered:
  assumes inv: "rfc_inv n A s" and m: "m < n" and f: "port_for_dlci m d s = (Some i, s')"
    and j: "port_find_mcb_dlci_port m d s' = Some j"
  shows "j = i"
proof (cases "port_find_mcb_dlci_port m d s")
  case (Some k)
  then show ?thesis using f j by (simp add: port_for_dlci_def)
next
  case None
  obtain b where b: "find_dlci_from d (rs_port s) 0 = Some (i, b)"
    using f None by (auto simp: port_for_dlci_def port_find_dlci_port_def split: option.splits prod.splits)
  let ?s = "if b then port_upd i (\<lambda>p. p\<lparr>pt_dlci := pt_dlci p + 1\<rparr>) s else s"
  have i: "i < 16" using find_dlci_from_lt [OF b] inv by (simp add: rfc_inv_def)
  have inv': "rfc_inv n A ?s" using inv by (auto intro!: rfc_intros)
  have s': "s' = mcb_set_inx m d (pt_inx (the_port ?s i)) ?s"
    using f None b by (auto simp: port_for_dlci_def port_find_dlci_port_def split: option.splits prod.splits)
  have "pt_in_use (the_port ?s i)"
    using find_dlci_in_use [OF b] i inv by (simp add: port_upd_def rfc_inv_def)
  then have "unat (pt_inx (the_port ?s i)) = Suc i"
    using rfc_inv_port [OF inv' i] by (simp add: port_ok_def)
  then show ?thesis
    using port_find_set_inx [OF j [unfolded s']] inv' m by (simp add: rfc_inv_def mcb_ok_def)
qed

text \<open>The ports that a passed security check of port \<open>i\<close> may open: \<open>i\<close>, and the port of its channel.\<close>

definition granted :: "rfc_sys \<Rightarrow> nat \<Rightarrow> nat set" where
  "granted s i = insert i {j. \<exists>m. pt_mcb (the_port s i) = Some m \<and>
     fst (port_for_dlci m (pt_dlci (the_port s i)) s) = Some j}"

lemma rfc_inv_EstablishInd:
  assumes inv: "rfc_inv n A s" and m: "m < n" and A: "\<And>j. fst (port_for_dlci m d s) = Some j \<Longrightarrow> j \<in> A"
  shows "rfc_inv n A (PORT_DlcEstablishInd e m d mtu s)"
proof (cases "port_for_dlci m d s")
  case (Pair io s')
  have inv': "rfc_inv n A s'" using rfc_inv_for_dlci [OF inv, of m d] Pair by simp
  show ?thesis
  proof (cases io)
    case None
    then show ?thesis using Pair inv' m
      by (auto simp: PORT_DlcEstablishInd_def intro!: rfc_inv_EstablishRsp)
  next
    case (Some i)
    then have "\<forall>j. port_find_mcb_dlci_port m d s' = Some j \<longrightarrow> j \<in> A"
      using port_for_dlci_registered [OF inv m] A Pair by auto
    then show ?thesis using Pair Some inv' m
      by (auto simp: PORT_DlcEstablishInd_def Let_def intro!: rfc_intros rfc_inv_EstablishRsp)
  qed
qed

lemma rfc_inv_PortNegInd [rfc_intros]: "rfc_inv n A s \<Longrightarrow> rfc_inv n A (PORT_PortNegInd e m d ps pmask s)"
  unfolding PORT_PortNegInd_def split_beta by (auto intro!: rfc_intros split: option.split)

section \<open>The port machine\<close>

lemma rfc_inv_access [rfc_intros]: "rfc_inv n A s \<Longrightarrow> i < 16 \<Longrightarrow> rfc_inv n A (access_request i b s)"
  by (auto simp: access_request_def intro!: rfc_intros)

lemma rfc_inv_port_send [rfc_intros]:
  "rfc_inv n A s \<Longrightarrow> i < 16 \<Longrightarrow> (\<And>m d. rfc_inv n A (f m d s)) \<Longrightarrow> rfc_inv n A (port_send f i s)"
  by (auto simp: port_send_def intro!: rfc_intros)

lemma rfc_inv_establish_cnf [rfc_intros]: "rfc_inv n A s \<Longrightarrow> i < 16 \<Longrightarrow> rfc_inv n A (establish_cnf e i r s)"
  by (auto simp: establish_cnf_def intro!: rfc_intros)

lemma rfc_inv_disc_initiator [rfc_intros]: "rfc_inv n A s \<Longrightarrow> i < 16 \<Longrightarrow> rfc_inv n A (set_disc_initiator i s)"
  by (auto simp: set_disc_initiator_def intro!: rfc_intros)

lemma rfc_inv_release_ind [rfc_intros]: "rfc_inv n A s \<Longrightarrow> i < 16 \<Longrightarrow> rfc_inv n A (port_release_ind e i s)"
  by (auto simp: port_release_ind_def intro!: rfc_intros)

lemma rfc_inv_sm_closed [rfc_intros]:
  "rfc_inv n A s \<Longrightarrow> i < 16 \<Longrightarrow> rfc_inv n A (rfc_port_sm_state_closed e i ev s)"
  by (cases ev) (auto simp: rfc_port_sm_state_closed_def intro!: rfc_intros port_ok_changes)

lemma rfc_inv_sm_sabme_wait_ua:
  "rfc_inv n A s \<Longrightarrow> i < 16 \<Longrightarrow> i \<in> A \<Longrightarrow> rfc_inv n A (rfc_port_sm_sabme_wait_ua e i ev s)"
  by (cases ev) (auto simp: rfc_port_sm_sabme_wait_ua_def intro!: rfc_intros port_ok_changes)

lemma rfc_inv_sm_opened [rfc_intros]:
  "rfc_inv n A s \<Longrightarrow> i < 16 \<Longrightarrow> rfc_inv n A (rfc_port_sm_opened e i ev s)"
  by (cases ev) (auto simp: rfc_port_sm_opened_def Let_def intro!: rfc_intros port_ok_changes)

lemma rfc_inv_sm_disc_wait [rfc_intros]:
  "rfc_inv n A s \<Longrightarrow> i < 16 \<Longrightarrow> rfc_inv n A (rfc_port_sm_disc_wait_ua e i ev s)"
  by (cases ev) (auto simp: rfc_port_sm_disc_wait_ua_def intro!: rfc_intros)

text \<open>An event that may take a port past the security check.\<close>

fun grants :: "rfc_port_event \<Rightarrow> bool" where
  "grants (RFC_EVENT_SEC_COMPLETE res) = (res = 0)"
| "grants (RFC_EVENT_ESTABLISH_RSP r) = ((ucast r :: u8) = 0)"
| "grants _ = False"

lemma rfc_inv_sm_orig:
  "rfc_inv n A s \<Longrightarrow> i < 16 \<Longrightarrow> (grants ev \<Longrightarrow> i \<in> A) \<Longrightarrow> rfc_inv n A (rfc_port_sm_orig_wait_sec_check e i ev s)"
  by (cases ev) (auto simp: rfc_port_sm_orig_wait_sec_check_def intro!: rfc_intros port_ok_changes)

lemma rfc_inv_sm_term:
  assumes "rfc_inv n A s" "i < 16" "grants ev \<Longrightarrow> granted s i \<subseteq> A"
  shows "rfc_inv n A (rfc_port_sm_term_wait_sec_check e i ev s)"
  using assms by (cases ev) (auto simp: rfc_port_sm_term_wait_sec_check_def granted_def
      intro!: rfc_intros port_ok_changes rfc_inv_EstablishInd split: option.split)

lemma rfc_inv_sm_execute [rfc_intros]:
  assumes inv: "rfc_inv n A s" and i: "\<And>i. io = Some i \<Longrightarrow> i < 16 \<and> (grants ev \<longrightarrow> granted s i \<subseteq> A)"
  shows "rfc_inv n A (rfc_port_sm_execute e io ev s)"
proof (cases io)
  case (Some j)
  then have j: "j < 16" "grants ev \<Longrightarrow> granted s j \<subseteq> A" "grants ev \<Longrightarrow> j \<in> A"
    using i by (auto simp: granted_def)
  show ?thesis
  proof (cases "pt_rfc_state (the_port s j)")
    case RFC_STATE_SABME_WAIT_UA
    then have "j \<in> A" using rfc_inv_port [OF inv j(1)] by (simp add: port_ok_def past_security_def)
    then show ?thesis using Some RFC_STATE_SABME_WAIT_UA rfc_inv_sm_sabme_wait_ua [OF inv j(1)]
      by (simp add: rfc_port_sm_execute_def)
  qed (use inv Some j rfc_inv_sm_orig rfc_inv_sm_term in
      \<open>auto simp: rfc_port_sm_execute_def intro!: rfc_intros\<close>)
qed (use inv in \<open>simp add: rfc_port_sm_execute_def\<close>)

section \<open>The multiplexer machine\<close>

lemma rfc_inv_EstablishReq [rfc_intros]: "rfc_inv n A s \<Longrightarrow> m < n \<Longrightarrow> rfc_inv n A (RFCOMM_DlcEstablishReq e m d s)"
  by (auto simp: RFCOMM_DlcEstablishReq_def intro!: rfc_intros dest: find_mcb_dlci_lt)

lemma port_ok_negotiate [simp]:
  "port_ok n i a (port_get_credits k p) = port_ok n i a p" "port_ok n i a (negotiate_mtu mtu p) = port_ok n i a p"
  by (simp_all add: port_get_credits_def negotiate_mtu_def Let_def)

lemma rfc_inv_set_flow [rfc_intros]: "rfc_inv n A s \<Longrightarrow> rfc_inv n A (mcb_set_flow m f s)"
  by (auto simp: mcb_set_flow_def intro!: rfc_intros)

lemma rfc_inv_ParNegInd [rfc_intros]: "rfc_inv n A s \<Longrightarrow> m < n \<Longrightarrow> rfc_inv n A (PORT_ParNegInd e m d mtu cl k s)"
  unfolding PORT_ParNegInd_def split_beta Let_def by (auto intro!: rfc_intros port_ok_changes split: option.split)

lemma rfc_inv_ParNegCnf [rfc_intros]: "rfc_inv n A s \<Longrightarrow> m < n \<Longrightarrow> rfc_inv n A (PORT_ParNegCnf e m d mtu cl k s)"
  unfolding PORT_ParNegCnf_def Let_def by (auto intro!: rfc_intros split: option.split)

lemma rfc_inv_mcb_sets [rfc_intros]:
  assumes "rfc_inv n A s"
  shows "rfc_inv n A (mcb_set_lcid m l s)" "rfc_inv n A (mcb_set_initiator m b s)" "rfc_inv n A (disconnect_req m s)"
    "rfc_inv n A (L2CA_ConnectReq e m s)" "rfc_inv n A (rfc_mx_send_config_req m s)" "rfc_inv n A (mcb_connected m s)"
  using assms by (auto simp: mcb_set_lcid_def mcb_set_initiator_def disconnect_req_def L2CA_ConnectReq_def
      rfc_mx_send_config_req_def mcb_connected_def Let_def intro!: rfc_intros)

lemma rfc_inv_configured [rfc_intros]: "rfc_inv n A s \<Longrightarrow> rfc_inv n A (rfc_mx_configured e m s)"
  by (auto simp: rfc_mx_configured_def intro!: rfc_intros)

lemma rfc_inv_conf [rfc_intros]:
  "rfc_inv n A s \<Longrightarrow> rfc_inv n A (rfc_mx_conf_cnf e m r s)" "rfc_inv n A s \<Longrightarrow> rfc_inv n A (rfc_mx_conf_ind e m mtu s)"
  by (auto simp: rfc_mx_conf_cnf_def rfc_mx_conf_ind_def Let_def intro!: rfc_intros)

lemma rfc_inv_idle [rfc_intros]: "rfc_inv n A s \<Longrightarrow> m < n \<Longrightarrow> rfc_inv n A (rfc_mx_sm_state_idle e m ev s)"
  by (cases ev) (auto simp: rfc_mx_sm_state_idle_def Let_def intro!: rfc_intros)

lemma rfc_inv_flip:
  assumes inv: "rfc_inv n A s" and m: "m < n" and i: "i < 61"
  shows "rfc_inv n A (flip_dlci m i s)"
proof -
  let ?x = "the_mcb s m"
  have ok: "mcb_ok ?x" by (rule rfc_inv_mcb [OF inv m])
  then have v: "unat (mx_port_inx ?x ! i) \<le> 16" using i by (simp add: mcb_ok_def)
  have "mcb_ok (?x\<lparr>mx_port_inx := (mx_port_inx ?x)[i := 0, i + 1 := v]\<rparr>)" if "unat v \<le> 16" for v
    using mcb_ok_inx [OF mcb_ok_inx [OF ok, of 0 i] that, of "i + 1"] by simp
  then show ?thesis using inv v by (auto simp: flip_dlci_def Let_def intro!: rfc_intros)
qed

lemma rfc_inv_direction [rfc_intros]: "rfc_inv n A s \<Longrightarrow> m < n \<Longrightarrow> rfc_inv n A (update_direction m s)"
  unfolding update_direction_def by (intro rfc_inv_fold) (auto intro!: rfc_inv_flip)

lemma rfc_inv_take_pending [rfc_intros]: "rfc_inv n A s \<Longrightarrow> m < n \<Longrightarrow> rfc_inv n A (take_pending_channel m s)"
  by (auto simp: take_pending_channel_def Let_def intro!: rfc_intros)

lemma rfc_inv_mx_states [rfc_intros]:
  assumes "rfc_inv n A s" "m < n"
  shows "rfc_inv n A (rfc_mx_sm_state_wait_conn_cnf e m ev s)" "rfc_inv n A (rfc_mx_sm_state_configure e m ev s)"
    "rfc_inv n A (rfc_mx_sm_sabme_wait_ua e m ev s)" "rfc_inv n A (rfc_mx_sm_state_wait_sabme e m ev s)"
    "rfc_inv n A (rfc_mx_sm_state_connected e m ev s)" "rfc_inv n A (rfc_mx_sm_state_disc_wait_ua e m ev s)"
  using assms by (cases ev;
    auto simp: rfc_mx_sm_state_wait_conn_cnf_def rfc_mx_sm_state_configure_def rfc_mx_sm_sabme_wait_ua_def
      rfc_mx_sm_state_wait_sabme_def rfc_mx_sm_state_connected_def rfc_mx_sm_state_disc_wait_ua_def
      start_failed_def acceptor_gives_up_def mcb_disconnected_def Let_def intro!: rfc_intros)+

lemma rfc_inv_mx_execute [rfc_intros]: "rfc_inv n A s \<Longrightarrow> m < n \<Longrightarrow> rfc_inv n A (rfc_mx_sm_execute e m ev s)"
  by (auto simp: rfc_mx_sm_execute_def intro!: rfc_intros split: rfc_mx_state.split)

section \<open>Messages of the multiplexer\<close>

lemma rfc_inv_ControlInd [rfc_intros]: "rfc_inv n A s \<Longrightarrow> m < n \<Longrightarrow> rfc_inv n A (PORT_ControlInd e m d pars s)"
  unfolding PORT_ControlInd_def Let_def split_beta
  by (auto intro!: rfc_intros dest: find_mcb_dlci_lt split: option.split)

lemma rfc_inv_ControlCnf [rfc_intros]: "rfc_inv n A s \<Longrightarrow> m < n \<Longrightarrow> rfc_inv n A (PORT_ControlCnf e m d s)"
  unfolding PORT_ControlCnf_def Let_def split_beta
  by (auto intro!: rfc_intros dest: find_mcb_dlci_lt split: option.split)

lemma rfc_inv_LineStatusInd [rfc_intros]: "rfc_inv n A s \<Longrightarrow> rfc_inv n A (PORT_LineStatusInd m d l s)"
  by (auto simp: PORT_LineStatusInd_def Let_def intro!: rfc_intros split: option.split)

lemma rfc_inv_rpn [rfc_intros]:
  assumes "rfc_inv n A s" "m < n"
  shows "rfc_inv n A (rpn_propose e m d i fc pmask s)" "rfc_inv n A (rpn_answered e m d i pmask s)"
  using assms by (auto simp: rpn_answered_def rpn_propose_def Let_def intro!: rfc_intros)

lemma rfc_inv_process_pn [rfc_intros]: "rfc_inv n A s \<Longrightarrow> m < n \<Longrightarrow> rfc_inv n A (rfc_process_pn e m c f s)"
  by (auto simp: rfc_process_pn_def intro!: rfc_intros split: option.split)

lemma rfc_inv_process_rpn [rfc_intros]: "rfc_inv n A s \<Longrightarrow> m < n \<Longrightarrow> rfc_inv n A (rfc_process_rpn e m c r f s)"
  by (auto simp: rfc_process_rpn_def Let_def intro!: rfc_intros split: option.split)

lemma rfc_inv_process_msc [rfc_intros]:
  assumes "rfc_inv n A s" "m < n"
  shows "rfc_inv n A (rfc_process_msc e m c f s)"
  using assms find_mcb_dlci_lt [OF _ assms, of "mf_dlci f"]
  by (auto simp: rfc_process_msc_def Let_def intro!: rfc_intros split: option.split)

lemma rfc_inv_process_rls [rfc_intros]: "rfc_inv n A s \<Longrightarrow> rfc_inv n A (rfc_process_rls e m c f s)"
  by (auto simp: rfc_process_rls_def intro!: rfc_intros split: option.split)

lemma rfc_inv_fc [rfc_intros]:
  assumes "rfc_inv n A s" "m < n"
  shows "rfc_inv n A (rfc_process_fcon e m c s)" "rfc_inv n A (rfc_process_fcoff e m c s)"
    "rfc_inv n A (rfc_process_l2cap_congestion e m c s)"
  using assms by (auto simp: rfc_process_fcon_def rfc_process_fcoff_def rfc_process_l2cap_congestion_def Let_def
      intro!: rfc_intros)

lemma rfc_inv_mx_action [rfc_intros]: "rfc_inv n A s \<Longrightarrow> m < n \<Longrightarrow> rfc_inv n A (rfc_mx_action e m act s)"
  by (auto simp: rfc_mx_action_def intro!: rfc_intros split: mx_action.split)

section \<open>The callbacks\<close>

lemma rfc_inv_with_lcid [rfc_intros]:
  assumes "rfc_inv n A s" "\<And>m s. rfc_inv n A s \<Longrightarrow> m < n \<Longrightarrow> rfc_inv n A (f m s)"
  shows "rfc_inv n A (with_lcid_mcb lcid f s)"
  using rfc_inv_find_lcid [OF assms(1), of lcid] find_lcid_lt [OF assms(1), of lcid] assms(2)
  by (auto simp: with_lcid_mcb_def split: prod.split option.split)

lemma rfc_inv_ConnectInd [rfc_intros]: "rfc_inv n A s \<Longrightarrow> rfc_inv n A (RFCOMM_ConnectInd e bd lcid k s)"
  unfolding RFCOMM_ConnectInd_def Let_def split_beta
  by (auto intro!: rfc_intros dest: alloc_mcb_lt split: option.split)

lemma rfc_inv_callbacks [rfc_intros]:
  assumes "rfc_inv n A s"
  shows "rfc_inv n A (RFCOMM_ConnectCnf e lcid r s)" "rfc_inv n A (RFCOMM_ConfigInd e lcid mtu s)"
    "rfc_inv n A (RFCOMM_ConfigCnf e lcid r s)" "rfc_inv n A (RFCOMM_CongestionStatusInd e lcid c s)"
  using assms by (auto simp: RFCOMM_ConnectCnf_def RFCOMM_ConfigInd_def RFCOMM_ConfigCnf_def
      RFCOMM_CongestionStatusInd_def Let_def intro!: rfc_intros)

lemma rfc_inv_DisconnectInd [rfc_intros]:
  assumes "rfc_inv n A s"
  shows "rfc_inv n A (RFCOMM_DisconnectInd e lcid c s)"
  using rfc_inv_find_lcid [OF assms, of lcid] find_lcid_lt [OF assms, of lcid]
  by (auto simp: RFCOMM_DisconnectInd_def Let_def intro!: rfc_intros split: prod.split option.split)

lemma rfc_inv_port_frame [rfc_intros]: "rfc_inv n A s \<Longrightarrow> i < 16 \<Longrightarrow> rfc_inv n A (rfc_port_frame e i ev b s)"
  by (cases ev) (auto simp: rfc_port_frame_def Let_def intro!: rfc_intros)

lemma rfc_inv_new_dlc [rfc_intros]:
  assumes "rfc_inv n A s" "m < n"
  shows "rfc_inv n A (rfc_new_dlc e m f ev b s)"
  using assms rfc_inv_find_dlci [OF assms(1), of "mf_dlci f"] find_dlci_lt [OF assms(1), of "mf_dlci f"]
  by (auto simp: rfc_new_dlc_def intro!: rfc_intros port_ok_changes split: option.split prod.split)
    (auto dest: rfc_inv_port simp: port_ok_def)

lemma rfc_inv_BufDataInd [rfc_intros]: "rfc_inv n A s \<Longrightarrow> rfc_inv n A (RFCOMM_BufDataInd e lcid b s)"
  unfolding RFCOMM_BufDataInd_def Let_def
  by (rule rfc_inv_with_lcid, assumption)
    (auto intro!: rfc_intros dest: find_mcb_dlci_lt [OF _ rfc_inv_fields(1)] split: option.split prod.split)

lemma rfc_inv_timeout [rfc_intros]:
  assumes "rfc_inv n A s" "case t of BTU_TTYPE_RFCOMM_MFC m \<Rightarrow> m < n | BTU_TTYPE_RFCOMM_PORT i \<Rightarrow> i < 16"
  shows "rfc_inv n A (rfcomm_process_timeout e t s)"
  using assms by (cases t) (auto simp: rfcomm_process_timeout_def intro!: rfc_intros)

lemma rfc_inv_sec_complete:
  "rfc_inv n A s \<Longrightarrow> i < 16 \<Longrightarrow> (r = 0 \<Longrightarrow> granted s i \<subseteq> A) \<Longrightarrow> rfc_inv n A (rfc_sec_check_complete e i r s)"
  by (auto simp: rfc_sec_check_complete_def intro!: rfc_intros)

end
