(* ===== verification/RfcApi.thy ===== *)
theory RfcApi
  imports RfcL2cap
begin

text \<open>
  The functions of \<open>port_api.c\<close> by which an application uses RFCOMM, with the functions of \<open>port_rfc.c\<close> they
  start from.  A function returns its result code and the state; results returned through pointers
  come in between.
\<close>

unbundle bit_operations_syntax

section \<open>Opening and closing\<close>

definition port_open_continue :: "rfc_env \<Rightarrow> nat \<Rightarrow> rfc_sys \<Rightarrow> u32 \<times> rfc_sys" where
  "port_open_continue e i s =
     (case rfc_alloc_multiplexer_channel e (pt_bd_addr (the_port s i)) True s of
        (None, s) \<Rightarrow> (PORT_NO_RESOURCES, port_release_port e i s)
      | (Some m, s) \<Rightarrow>
          let s = port_upd i (\<lambda>p. p\<lparr>pt_mcb := Some m\<rparr>) s;
              s = mcb_set_inx m (pt_dlci (the_port s i)) (pt_inx (the_port s i)) s;
              s = port_select_mtu e i s;
              p = the_port s i
          in (PORT_SUCCESS,
              case mx_state (the_mcb s m) of
                RFC_MX_STATE_CONNECTED \<Rightarrow> RFCOMM_ParNegReq e m (pt_dlci p) (pt_mtu p) s
              | RFC_MX_STATE_IDLE \<Rightarrow> RFCOMM_StartReq e m s
              | RFC_MX_STATE_DISC_WAIT_UA \<Rightarrow> RFCOMM_StartReq e m s
              | _ \<Rightarrow> s))"

definition default_signals :: "u16 \<Rightarrow> u8" where
  "default_signals uuid = (if uuid = 0x1103 \<or> uuid = 0x1111 then PORT_DTRDSR_ON OR PORT_CTSRTS_ON
     else PORT_DTRDSR_ON OR PORT_CTSRTS_ON OR PORT_DCD_ON)"

definition init_port :: "u16 \<Rightarrow> u8 \<Rightarrow> bool \<Rightarrow> u16 \<Rightarrow> bytes \<Rightarrow> bool \<Rightarrow> tport \<Rightarrow> tport" where
  "init_port uuid scn is_server mtu bd_addr mgmt p =
     (let rfcomm_mtu = L2CAP_MTU_SIZE - RFCOMM_DATA_OVERHEAD;
          mtu = (if mtu \<noteq> 0 then (if mtu < rfcomm_mtu then mtu else rfcomm_mtu) else rfcomm_mtu)
      in p\<lparr>
        pt_default_signal_state := default_signals uuid, pt_state := PORT_STATE_OPENING,
        pt_uuid := uuid, pt_is_server := is_server, pt_scn := scn, pt_ev_mask := 0, pt_mtu := mtu,
        pt_keep_port_handle := (if is_server then True else pt_keep_port_handle p),
        pt_keep_mtu := (if is_server then mtu else pt_keep_mtu p),
        pt_local_ctrl := pt_local_ctrl p\<lparr>ctl_modem_signal := default_signals uuid, ctl_fc := False\<rparr>,
        pt_mgmt_callback := mgmt, pt_bd_addr := bd_addr\<rparr>)"

text \<open>The result code, the handle, and the state.\<close>

definition RFCOMM_CreateConnection ::
    "rfc_env \<Rightarrow> u16 \<Rightarrow> u8 \<Rightarrow> bool \<Rightarrow> u16 \<Rightarrow> bytes \<Rightarrow> bool \<Rightarrow> rfc_sys \<Rightarrow> u32 \<times> u16 \<times> rfc_sys" where
  "RFCOMM_CreateConnection e uuid scn is_server mtu bd_addr mgmt s =
     (if scn = 0 \<or> 31 \<le> scn then (PORT_INVALID_SCN, 0, s)
      else
        let other = (case port_find_mcb bd_addr s of
                       None \<Rightarrow> False | Some m \<Rightarrow> \<not> mcb_is_initiator (mx_link (the_mcb s m)));
            dlci = (if other \<and> \<not> is_server then push_bit 1 scn + 1 else push_bit 1 scn);
            taken = (case port_find_port dlci bd_addr s of
                       None \<Rightarrow> False | Some i \<Rightarrow> \<not> pt_is_server (the_port s i))
        in if \<not> is_server \<and> taken then (PORT_ALREADY_OPENED, 0, s)
        else (case port_allocate_port e dlci bd_addr s of
            (None, s) \<Rightarrow> (PORT_NO_RESOURCES, 0, s)
          | (Some i, s) \<Rightarrow>
              let handle = ucast (pt_inx (the_port s i));
                  s = port_upd i (init_port uuid scn is_server mtu bd_addr mgmt) s
              in if is_server then (PORT_SUCCESS, handle, s)
                 else (case port_open_continue e i s of (r, s) \<Rightarrow> (r, handle, s))))"

definition port_start_close :: "rfc_env \<Rightarrow> nat \<Rightarrow> rfc_sys \<Rightarrow> rfc_sys" where
  "port_start_close e i s =
     (let p = the_port s i;
          signals = ctl_modem_signal (pt_peer_ctrl p) AND NOT (PORT_DTRDSR_ON OR PORT_CTSRTS_ON OR PORT_DCD_ON);
          events = port_get_signal_changes p (ctl_modem_signal (pt_peer_ctrl p)) signals
            OR (pt_ev_mask p AND PORT_EV_CONNECT_ERR) OR (pt_ev_mask p AND PORT_EV_ERR);
          s = port_upd i (\<lambda>p. p\<lparr>pt_line_status := pt_line_status p OR LINE_STATUS_FAILED,
                pt_peer_ctrl := pt_peer_ctrl p\<lparr>ctl_modem_signal := signals\<rparr>\<rparr>) s;
          s = call_back i events s
      in case pt_mcb p of
           None \<Rightarrow> port_release_port e i (mgmt_call_back i PORT_CLOSED s)
         | Some m \<Rightarrow>
             if pt_rfc_state (the_port s i) = RFC_STATE_CLOSED
             then port_release_port e i (mgmt_call_back i PORT_CLOSED s)
             else RFCOMM_DlcReleaseReq e m (pt_dlci (the_port s i)) s)"

text \<open>The port of a handle: 1 to 16.  An open port is one that is in use and not closed.\<close>

definition handle_port :: "u16 \<Rightarrow> nat option" where
  "handle_port handle = (if handle = 0 \<or> MAX_RFC_PORTS < handle then None else Some (unat handle - 1))"

definition port_not_open :: "tport \<Rightarrow> bool" where
  "port_not_open p = (\<not> pt_in_use p \<or> pt_state p = PORT_STATE_CLOSED)"

definition RFCOMM_RemoveConnection :: "rfc_env \<Rightarrow> u16 \<Rightarrow> rfc_sys \<Rightarrow> u32 \<times> rfc_sys" where
  "RFCOMM_RemoveConnection e handle s =
     (case handle_port handle of
        None \<Rightarrow> (PORT_BAD_HANDLE, s)
      | Some i \<Rightarrow>
          if port_not_open (the_port s i) then (PORT_SUCCESS, s)
          else (PORT_SUCCESS, port_start_close e i (port_upd i (\<lambda>p. p\<lparr>pt_state := PORT_STATE_CLOSING\<rparr>) s)))"

definition RFCOMM_RemoveServer :: "rfc_env \<Rightarrow> u16 \<Rightarrow> rfc_sys \<Rightarrow> u32 \<times> rfc_sys" where
  "RFCOMM_RemoveServer e handle s =
     (case handle_port handle of
        None \<Rightarrow> (PORT_BAD_HANDLE, s)
      | Some i \<Rightarrow>
          let s = port_upd i (\<lambda>p. p\<lparr>pt_mgmt_callback := False\<rparr>) s in
          if port_not_open (the_port s i) then (PORT_SUCCESS, s)
          else (PORT_SUCCESS, port_start_close e i
            (port_upd i (\<lambda>p. p\<lparr>pt_keep_port_handle := False, pt_state := PORT_STATE_CLOSING\<rparr>) s)))"

section \<open>Settings\<close>

text \<open>What most functions begin with.\<close>

definition with_open_port :: "u16 \<Rightarrow> (nat \<Rightarrow> rfc_sys \<Rightarrow> u32 \<times> rfc_sys) \<Rightarrow> rfc_sys \<Rightarrow> u32 \<times> rfc_sys" where
  "with_open_port handle f s =
     (case handle_port handle of
        None \<Rightarrow> (PORT_BAD_HANDLE, s)
      | Some i \<Rightarrow> if port_not_open (the_port s i) then (PORT_NOT_OPENED, s) else f i s)"

definition PORT_SetEventCallback :: "u16 \<Rightarrow> bool \<Rightarrow> rfc_sys \<Rightarrow> u32 \<times> rfc_sys" where
  "PORT_SetEventCallback handle cb =
     with_open_port handle (\<lambda>i s. (PORT_SUCCESS, port_upd i (\<lambda>p. p\<lparr>pt_callback := cb\<rparr>) s))"

definition PORT_ClearKeepHandleFlag :: "u16 \<Rightarrow> rfc_sys \<Rightarrow> u32 \<times> rfc_sys" where
  "PORT_ClearKeepHandleFlag handle s =
     (case handle_port handle of
        None \<Rightarrow> (PORT_BAD_HANDLE, s)
      | Some i \<Rightarrow> (PORT_SUCCESS, port_upd i (\<lambda>p. p\<lparr>pt_keep_port_handle := False\<rparr>) s))"

definition PORT_SetDataCallback :: "u16 \<Rightarrow> bool \<Rightarrow> rfc_sys \<Rightarrow> u32 \<times> rfc_sys" where
  "PORT_SetDataCallback handle cb =
     with_open_port handle (\<lambda>i s. (PORT_SUCCESS, port_upd i (\<lambda>p. p\<lparr>pt_data_callback := cb\<rparr>) s))"

definition PORT_SetDataCOCallback :: "u16 \<Rightarrow> bool \<Rightarrow> rfc_sys \<Rightarrow> u32 \<times> rfc_sys" where
  "PORT_SetDataCOCallback handle cb =
     with_open_port handle (\<lambda>i s. (PORT_SUCCESS, port_upd i (\<lambda>p. p\<lparr>pt_data_co_callback := cb\<rparr>) s))"

definition PORT_SetEventMask :: "u16 \<Rightarrow> u32 \<Rightarrow> rfc_sys \<Rightarrow> u32 \<times> rfc_sys" where
  "PORT_SetEventMask handle ev =
     with_open_port handle (\<lambda>i s. (PORT_SUCCESS, port_upd i (\<lambda>p. p\<lparr>pt_ev_mask := ev\<rparr>) s))"

definition PORT_SetState :: "rfc_env \<Rightarrow> u16 \<Rightarrow> port_state \<Rightarrow> rfc_sys \<Rightarrow> u32 \<times> rfc_sys" where
  "PORT_SetState e handle settings =
     with_open_port handle (\<lambda>i s.
       let p = the_port s i in
       if pt_line_status p \<noteq> 0 then (PORT_LINE_ERR, s)
       else
         let s = port_upd i (\<lambda>p. p\<lparr>pt_user_port_pars := settings\<rparr>) s
         in (PORT_SUCCESS,
             if ps_baud_rate (pt_user_port_pars p) \<noteq> ps_baud_rate settings
             then port_mcb_opt i (\<lambda>m. RFCOMM_PortNegReq e m (pt_dlci p) (Some settings)) s else s))"

definition port_start_control :: "rfc_env \<Rightarrow> nat \<Rightarrow> rfc_sys \<Rightarrow> rfc_sys" where
  "port_start_control e i =
     port_mcb_opt i (\<lambda>m s. RFCOMM_ControlReq e m (pt_dlci (the_port s i)) (pt_local_ctrl (the_port s i)) s)"

text \<open>The modem signals after \<open>PORT_SET_DTRDSR\<close> (1) to \<open>PORT_CLR_DCD\<close> (8).\<close>

definition control_signal :: "u8 \<Rightarrow> u8 \<Rightarrow> u8" where
  "control_signal signal ms =
     (if signal = 1 then ms OR PORT_DTRDSR_ON else if signal = 2 then ms AND NOT PORT_DTRDSR_ON
      else if signal = 3 then ms OR PORT_CTSRTS_ON else if signal = 4 then ms AND NOT PORT_CTSRTS_ON
      else if signal = 5 then ms OR PORT_RING_ON else if signal = 6 then ms AND NOT PORT_RING_ON
      else if signal = 7 then ms OR PORT_DCD_ON else if signal = 8 then ms AND NOT PORT_DCD_ON else ms)"

definition PORT_Control :: "rfc_env \<Rightarrow> u16 \<Rightarrow> u8 \<Rightarrow> rfc_sys \<Rightarrow> u32 \<times> rfc_sys" where
  "PORT_Control e handle signal =
     with_open_port handle (\<lambda>i s.
       let old = ctl_modem_signal (pt_local_ctrl (the_port s i));
           ms = control_signal signal old;
           s = port_upd i (\<lambda>p. p\<lparr>pt_local_ctrl := pt_local_ctrl p\<lparr>ctl_modem_signal := ms,
                 ctl_break_signal := (if signal = 9 then 1 else 0)\<rparr>\<rparr>) s
       in (PORT_SUCCESS, if signal \<noteq> 9 \<and> ms = old then s else port_start_control e i s))"

text \<open>\<open>all\<close> is the number of credits \<open>PORT_FlowControl_MaxCredit\<close> gives, and 0 in \<open>PORT_FlowControl\<close>.\<close>

definition flow_control :: "rfc_env \<Rightarrow> (tport \<Rightarrow> u16) \<Rightarrow> u16 \<Rightarrow> bool \<Rightarrow> rfc_sys \<Rightarrow> u32 \<times> rfc_sys" where
  "flow_control e all handle enable =
     with_open_port handle (\<lambda>i s. case pt_mcb (the_port s i) of
       None \<Rightarrow> (PORT_NOT_OPENED, s)
     | Some m \<Rightarrow>
         let s = port_upd i (\<lambda>p. p\<lparr>pt_rx := pt_rx p\<lparr>pd_user_fc := \<not> enable\<rparr>\<rparr>) s;
             p = the_port s i;
             s = (if mcb_flow (mx_link (the_mcb s m)) = PORT_FC_CREDIT then
                    (if enable then port_flow_control_peer e i True (all p) s else s)
                  else
                    let fc = (pd_user_fc (pt_rx p) \<or> pd_peer_fc (pt_rx p));
                        s = port_upd i (\<lambda>p. p\<lparr>pt_local_ctrl := pt_local_ctrl p\<lparr>ctl_fc := fc\<rparr>\<rparr>) s
                    in if fc \<noteq> ctl_fc (pt_local_ctrl p) then port_start_control e i s else s);
             p = the_port s i
         in (PORT_SUCCESS,
             if enable \<and> pd_queue_size (pt_rx p) \<noteq> 0 then
               let ev = PORT_EV_RXCHAR OR (if pt_rx_flag_ev_pending p then PORT_EV_RXFLAG else 0)
               in call_back i (ev AND pt_ev_mask p) (port_upd i (\<lambda>p. p\<lparr>pt_rx_flag_ev_pending := False\<rparr>) s)
             else s))"

definition PORT_FlowControl :: "rfc_env \<Rightarrow> u16 \<Rightarrow> bool \<Rightarrow> rfc_sys \<Rightarrow> u32 \<times> rfc_sys" where
  "PORT_FlowControl e = flow_control e (\<lambda>_. 0)"

definition PORT_FlowControl_MaxCredit :: "rfc_env \<Rightarrow> u16 \<Rightarrow> bool \<Rightarrow> rfc_sys \<Rightarrow> u32 \<times> rfc_sys" where
  "PORT_FlowControl_MaxCredit e = flow_control e pt_credit_rx"

definition PORT_SendError :: "rfc_env \<Rightarrow> u16 \<Rightarrow> u8 \<Rightarrow> rfc_sys \<Rightarrow> u32 \<times> rfc_sys" where
  "PORT_SendError e handle errors =
     with_open_port handle (\<lambda>i s. case pt_mcb (the_port s i) of
       None \<Rightarrow> (PORT_NOT_OPENED, s)
     | Some m \<Rightarrow> (PORT_SUCCESS, RFCOMM_LineStatusReq e m (pt_dlci (the_port s i)) errors s))"

section \<open>Queries\<close>

definition PORT_CheckConnection :: "u16 \<Rightarrow> rfc_sys \<Rightarrow> u32 \<times> (bytes \<times> u16) option" where
  "PORT_CheckConnection handle s =
     (case handle_port handle of
        None \<Rightarrow> (PORT_BAD_HANDLE, None)
      | Some i \<Rightarrow>
          let p = the_port s i in
          if port_not_open p then (PORT_NOT_OPENED, None)
          else (case pt_mcb p of
              None \<Rightarrow> (PORT_LINE_ERR, None)
            | Some m \<Rightarrow>
                if \<not> mx_peer_ready (the_mcb s m) \<or> pt_rfc_state p \<noteq> RFC_STATE_OPENED then (PORT_LINE_ERR, None)
                else (PORT_SUCCESS, Some (mx_bd_addr (the_mcb s m), mcb_lcid_of s m))))"

text \<open>A state before OPENED in the order of the numbers of \<open>rfc_int.h\<close>.\<close>

fun before_opened :: "rfc_port_state \<Rightarrow> bool" where
  "before_opened RFC_STATE_OPENED = False"
| "before_opened RFC_STATE_DISC_WAIT_UA = False"
| "before_opened _ = True"

definition mcb_is_opening :: "rfc_sys \<Rightarrow> nat \<Rightarrow> bool" where
  "mcb_is_opening s m =
     (case mx_state (the_mcb s m) of
        RFC_MX_STATE_IDLE \<Rightarrow> False
      | RFC_MX_STATE_DISC_WAIT_UA \<Rightarrow> False
      | RFC_MX_STATE_CONNECTED \<Rightarrow>
          (case find (\<lambda>p. pt_mcb p = Some m) (rs_port s) of
             None \<Rightarrow> True | Some p \<Rightarrow> before_opened (pt_rfc_state p))
      | _ \<Rightarrow> True)"

definition PORT_IsOpening :: "rfc_sys \<Rightarrow> bytes option" where
  "PORT_IsOpening s =
     map_option (\<lambda>m. mx_bd_addr (the_mcb s m)) (find (mcb_is_opening s) [0..<length (rs_mcb s)])"

definition with_line :: "u16 \<Rightarrow> (tport \<Rightarrow> 'a) \<Rightarrow> rfc_sys \<Rightarrow> u32 \<times> 'a option" where
  "with_line handle f s =
     (case handle_port handle of
        None \<Rightarrow> (PORT_BAD_HANDLE, None)
      | Some i \<Rightarrow>
          let p = the_port s i in
          if port_not_open p then (PORT_NOT_OPENED, None)
          else if pt_line_status p \<noteq> 0 then (PORT_LINE_ERR, None)
          else (PORT_SUCCESS, Some (f p)))"

definition PORT_GetRxQueueCnt :: "u16 \<Rightarrow> rfc_sys \<Rightarrow> u32 \<times> u16 option" where
  "PORT_GetRxQueueCnt handle = with_line handle (\<lambda>p. ucast (pd_queue_size (pt_rx p)))"

definition PORT_GetState :: "u16 \<Rightarrow> rfc_sys \<Rightarrow> u32 \<times> port_state option" where
  "PORT_GetState handle = with_line handle pt_user_port_pars"

section \<open>Reading\<close>

text \<open>
  The data of at most \<open>n\<close> bytes, the buffers left, and the number of buffers read to the end.
\<close>

fun read_buffers :: "nat \<Rightarrow> bt_hdr list \<Rightarrow> bytes \<times> bt_hdr list \<times> nat" where
  "read_buffers n [] = ([], [], 0)"
| "read_buffers n (b # bs) =
     (if n = 0 then ([], b # bs, 0)
      else if n < unat (bh_len b) then
        (take n (bh_payload b), b\<lparr>bh_offset := bh_offset b + of_nat n, bh_len := bh_len b - of_nat n\<rparr> # bs, 0)
      else let (d, q, k) = read_buffers (n - unat (bh_len b)) bs in (bh_payload b @ d, q, Suc k))"

definition PORT_ReadData :: "rfc_env \<Rightarrow> u16 \<Rightarrow> u16 \<Rightarrow> rfc_sys \<Rightarrow> u32 \<times> bytes \<times> rfc_sys" where
  "PORT_ReadData e handle max_len s =
     (case handle_port handle of
        None \<Rightarrow> (PORT_BAD_HANDLE, [], s)
      | Some i \<Rightarrow>
          let p = the_port s i in
          if port_not_open p then (PORT_NOT_OPENED, [], s)
          else if pt_line_status p \<noteq> 0 then (PORT_LINE_ERR, [], s)
          else (case pd_queue (pt_rx p) of
              None \<Rightarrow> (PORT_SUCCESS, [], s)
            | Some q \<Rightarrow>
                if aq_items q = [] then (PORT_SUCCESS, [], s)
                else
                  let (d, bs, k) = read_buffers (unat max_len) (aq_items q);
                      s = port_upd i (\<lambda>p. p\<lparr>pt_rx := pt_rx p\<lparr>pd_queue := Some (q\<lparr>aq_items := bs\<rparr>),
                            pd_queue_size := pd_queue_size (pt_rx p) - of_nat (length d)\<rparr>\<rparr>) s
                  in (PORT_SUCCESS, d, port_flow_control_peer e i True (of_nat k) s)))"

definition PORT_Read :: "rfc_env \<Rightarrow> u16 \<Rightarrow> rfc_sys \<Rightarrow> u32 \<times> bt_hdr option \<times> rfc_sys" where
  "PORT_Read e handle s =
     (case handle_port handle of
        None \<Rightarrow> (PORT_BAD_HANDLE, None, s)
      | Some i \<Rightarrow>
          let p = the_port s i in
          if port_not_open p then (PORT_NOT_OPENED, None, s)
          else if pt_line_status p \<noteq> 0 then (PORT_LINE_ERR, None, s)
          else (case queue_take (pd_queue (pt_rx p)) of
              (None, _) \<Rightarrow> (PORT_SUCCESS, None, s)
            | (Some b, q) \<Rightarrow>
                (PORT_SUCCESS, Some b, port_flow_control_peer e i True 1
                  (port_upd i (\<lambda>p. p\<lparr>pt_rx := pt_rx p\<lparr>pd_queue := q,
                     pd_queue_size := pd_queue_size (pt_rx p) - ucast (bh_len b)\<rparr>\<rparr>) s))))"

definition PORT_Purge :: "rfc_env \<Rightarrow> u16 \<Rightarrow> u8 \<Rightarrow> rfc_sys \<Rightarrow> u32 \<times> rfc_sys" where
  "PORT_Purge e handle purge_flags =
     with_open_port handle (\<lambda>i s.
       let s = (if purge_flags AND 0x02 \<noteq> 0 then
                  let n = queue_length (pd_queue (pt_rx (the_port s i)));
                      s = port_upd i (\<lambda>p. p\<lparr>pt_rx := queue_clear (pt_rx p)\<rparr>) s
                  in if n \<noteq> 0 then port_flow_control_peer e i True (of_nat n) s else s
                else s);
           s = (if purge_flags AND 0x01 \<noteq> 0 then
                  let s = port_upd i (\<lambda>p. p\<lparr>pt_tx := queue_clear (pt_tx p)\<rparr>) s;
                      (ev, s) = port_flow_control_user i s
                  in call_back i ((PORT_EV_TXEMPTY OR ev) AND pt_ev_mask (the_port s i)) s
                else s)
       in (PORT_SUCCESS, s))"

section \<open>Writing\<close>

definition tx_enqueue :: "nat \<Rightarrow> bt_hdr \<Rightarrow> rfc_sys \<Rightarrow> rfc_sys" where
  "tx_enqueue i b s =
     (case pd_queue (pt_tx (the_port s i)) of
        None \<Rightarrow> rfc_fault s
      | Some q \<Rightarrow> (case aq_enqueue q b of
          Returns q \<Rightarrow> port_upd i (\<lambda>p. p\<lparr>pt_tx := pt_tx p\<lparr>pd_queue := Some q,
            pd_queue_size := pd_queue_size (pt_tx p) + ucast (bh_len b)\<rparr>\<rparr>) s
        | _ \<Rightarrow> rfc_fault s))"

definition port_may_send :: "rfc_sys \<Rightarrow> tport \<Rightarrow> bool" where
  "port_may_send s p =
     (\<not> pd_peer_fc (pt_tx p) \<and> mcb_ready s (pt_mcb p) \<and> pt_rfc_state p = RFC_STATE_OPENED \<and>
      pt_port_ctrl p AND (PORT_CTRL_REQ_SENT OR PORT_CTRL_IND_RECEIVED) = (PORT_CTRL_REQ_SENT OR PORT_CTRL_IND_RECEIVED))"

definition port_write :: "rfc_env \<Rightarrow> nat \<Rightarrow> bt_hdr \<Rightarrow> rfc_sys \<Rightarrow> u32 \<times> rfc_sys" where
  "port_write e i b s =
     (let p = the_port s i; tx = pt_tx p in
      if pt_is_server p \<and> pt_rfc_state p \<noteq> RFC_STATE_OPENED then (PORT_CLOSED, s)
      else if \<not> port_may_send s p then
        (if PORT_TX_CRITICAL_WM < pd_queue_size tx \<or> PORT_TX_BUF_CRITICAL_WM < queue_length (pd_queue tx)
         then (PORT_TX_FULL, call_back i (pt_ev_mask p AND PORT_EV_ERR) s)
         else (PORT_CMD_PENDING, tx_enqueue i b s))
      else (PORT_SUCCESS, port_mcb i (\<lambda>m. RFCOMM_DataReq e m (pt_dlci p) b) s))"

definition PORT_Write :: "rfc_env \<Rightarrow> u16 \<Rightarrow> bt_hdr \<Rightarrow> rfc_sys \<Rightarrow> u32 \<times> rfc_sys" where
  "PORT_Write e handle b =
     with_open_port handle (\<lambda>i s.
       if pt_line_status (the_port s i) \<noteq> 0 then (PORT_LINE_ERR, s)
       else
         let (rc, s) = port_write e i b s;
             (ev, s) = port_flow_control_user i s;
             ev = ev OR (if rc = PORT_TX_FULL then PORT_EV_ERR
                         else if rc = PORT_SUCCESS then PORT_EV_TXCHAR OR PORT_EV_TXEMPTY else 0)
         in (PORT_SUCCESS, call_back i (ev AND pt_ev_mask (the_port s i)) s))"

text \<open>The longest payload of a buffer of \<open>RFCOMM_DATA_BUF_SIZE\<close> bytes; the header of a buffer has 8.\<close>

abbreviation (input) "DATA_BUF_PAYLOAD \<equiv> 4085"

text \<open>A buffer with the payload \<open>d\<close>; \<open>None\<close> when it is out of its memory.\<close>

definition data_buffer :: "bt_hdr \<Rightarrow> u16 \<Rightarrow> bytes \<Rightarrow> bt_hdr outcome" where
  "data_buffer b handle d =
     put_bytes (b\<lparr>bh_offset := L2CAP_MIN_OFFSET + RFCOMM_MIN_OFFSET, bh_layer_specific := handle,
                  bh_len := of_nat (length d)\<rparr>) (L2CAP_MIN_OFFSET + RFCOMM_MIN_OFFSET) d"

text \<open>
  The loop of the two functions that write bytes: the number of bytes written, the events and the last
  result code.  A round writes at least one byte: as many rounds as there are bytes are enough.
  \<open>PORT_WriteDataCO\<close> (\<open>co\<close>) allocates a buffer of just the size it needs, and reports a full queue.
\<close>

primrec write_loop ::
    "rfc_env \<Rightarrow> bool \<Rightarrow> u16 \<Rightarrow> nat \<Rightarrow> nat \<Rightarrow> nat \<Rightarrow> bytes \<Rightarrow> nat \<Rightarrow> u32 \<Rightarrow> u32 \<Rightarrow> rfc_sys
      \<Rightarrow> nat \<times> u32 \<times> u32 \<times> rfc_sys" where
  "write_loop e co handle i 0 len d done ev rc s = (done, ev, rc, if d = [] then s else rfc_fault s)"
| "write_loop e co handle i (Suc n) len d done ev rc s =
     (let tx = pt_tx (the_port s i) in
      if d = [] then (done, ev, rc, s)
      else if PORT_TX_HIGH_WM < pd_queue_size tx \<or> PORT_TX_BUF_HIGH_WM < queue_length (pd_queue tx)
      then (if co then (done, ev OR PORT_EV_FC, rc, snd (port_flow_control_user i s)) else (done, ev, rc, s))
      else (case re_mem e (rs_clock s) of
          None \<Rightarrow> (done, ev, rc, rfc_tick s)
        | Some b \<Rightarrow>
            let len = min (min len (unat (pt_peer_mtu (the_port s i)))) (length d);
                b = (if co then b\<lparr>bh_data := take (len + L2CAP_MIN_OFFSET + RFCOMM_DATA_OVERHEAD) (bh_data b)\<rparr> else b)
            in case data_buffer b handle (take len d) of
                 Returns b \<Rightarrow>
                   let (rc, s) = port_write e i b (rfc_tick s);
                       (ev2, s) = port_flow_control_user i s;
                       ev = ev OR ev2 OR (if rc = PORT_SUCCESS then PORT_EV_TXCHAR else 0)
                   in if rc \<noteq> PORT_SUCCESS \<and> rc \<noteq> PORT_CMD_PENDING then (done, ev, rc, s)
                      else write_loop e co handle i n len (drop len d) (done + len) ev rc s
               | _ \<Rightarrow> (done, ev, rc, rfc_fault s)))"

definition write_done :: "nat \<Rightarrow> nat \<Rightarrow> bytes \<Rightarrow> u32 \<Rightarrow> u32 \<Rightarrow> rfc_sys \<Rightarrow> rfc_sys" where
  "write_done i done d ev rc s =
     (let ev = ev OR (if done = length d \<and> rc \<noteq> PORT_CMD_PENDING \<and> rc \<noteq> PORT_TX_QUEUE_DISABLED
                      then PORT_EV_TXEMPTY else 0)
      in call_back i (ev AND pt_ev_mask (the_port s i)) s)"

text \<open>Data that fits into the last buffer of the queue is put behind what it holds.\<close>

definition append_to_last :: "nat \<Rightarrow> bytes \<Rightarrow> bt_hdr aqueue \<Rightarrow> rfc_sys \<Rightarrow> rfc_sys" where
  "append_to_last i d q s =
     (let b = last (aq_items q) in
      case put_bytes b (unat (bh_offset b) + unat (bh_len b)) d of
        Returns b \<Rightarrow> port_upd i (\<lambda>p. p\<lparr>pt_tx := pt_tx p\<lparr>
          pd_queue := Some (q\<lparr>aq_items := butlast (aq_items q) @ [b\<lparr>bh_len := bh_len b + of_nat (length d)\<rparr>]\<rparr>),
          pd_queue_size := pd_queue_size (pt_tx p) + of_nat (length d)\<rparr>\<rparr>) s
      | _ \<Rightarrow> rfc_fault s)"

text \<open>The result code, the number of bytes written, and the state; \<open>d\<close> has at most 65535 bytes.\<close>

definition PORT_WriteData :: "rfc_env \<Rightarrow> u16 \<Rightarrow> bytes \<Rightarrow> rfc_sys \<Rightarrow> u32 \<times> nat \<times> rfc_sys" where
  "PORT_WriteData e handle d s =
     (case handle_port handle of
        None \<Rightarrow> (PORT_BAD_HANDLE, 0, s)
      | Some i \<Rightarrow>
          let p = the_port s i in
          if port_not_open p then (PORT_NOT_OPENED, 0, s)
          else if d = [] \<or> pt_peer_mtu p = 0 then (PORT_UNKNOWN_ERROR, 0, s)
          else
            let fresh = (case write_loop e False handle i (Suc (length d)) DATA_BUF_PAYLOAD d 0 0 0 s of
                  (n, ev, rc, s) \<Rightarrow> (PORT_SUCCESS, n, write_done i n d ev rc s))
            in case pd_queue (pt_tx p) of
                 None \<Rightarrow> fresh
               | Some q \<Rightarrow>
                   if aq_items q \<noteq> [] \<and>
                      unat (bh_len (last (aq_items q))) + length d \<le> unat (pt_peer_mtu p) \<and>
                      unat (bh_len (last (aq_items q))) + length d \<le> DATA_BUF_PAYLOAD
                   then (PORT_SUCCESS, length d, append_to_last i d q s)
                   else fresh)"

definition PORT_WriteDataCO :: "rfc_env \<Rightarrow> u16 \<Rightarrow> bytes \<Rightarrow> rfc_sys \<Rightarrow> u32 \<times> nat \<times> rfc_sys" where
  "PORT_WriteDataCO e handle d s =
     (case handle_port handle of
        None \<Rightarrow> (PORT_BAD_HANDLE, 0, s)
      | Some i \<Rightarrow>
          let p = the_port s i in
          if port_not_open p then (PORT_NOT_OPENED, 0, s)
          else if pt_peer_mtu p = 0 then (PORT_UNKNOWN_ERROR, 0, s)
          else if d = [] then (PORT_SUCCESS, 0, s)
          else (case write_loop e True handle i (Suc (length d)) DATA_BUF_PAYLOAD d 0 0 0 s of
                  (n, ev, rc, s) \<Rightarrow> (PORT_SUCCESS, n, write_done i n d ev rc s)))"

definition PORT_Test :: "rfc_env \<Rightarrow> u16 \<Rightarrow> bytes \<Rightarrow> rfc_sys \<Rightarrow> u32 \<times> rfc_sys" where
  "PORT_Test e handle d =
     with_open_port handle (\<lambda>i s.
       let p = the_port s i in
       if (if pt_mtu p = 0 then RFCOMM_DEFAULT_MTU else unat (pt_mtu p)) < length d then (PORT_UNKNOWN_ERROR, s)
       else (case re_mem e (rs_clock s) of
           None \<Rightarrow> (PORT_NO_MEM, rfc_tick s)
         | Some b \<Rightarrow>
             (case put_bytes (b\<lparr>bh_offset := L2CAP_MIN_OFFSET + RFCOMM_MIN_OFFSET + 2, bh_len := of_nat (length d)\<rparr>)
                     (L2CAP_MIN_OFFSET + RFCOMM_MIN_OFFSET + 2) d of
                Returns b \<Rightarrow>
                  (PORT_SUCCESS, port_mcb i (\<lambda>m. rfc_cmd e m (\<lambda>new l. rfc_send_test (re_lc e) new l True b)) (rfc_tick s))
              | _ \<Rightarrow> (PORT_SUCCESS, rfc_fault s))))"

section \<open>Status\<close>

definition PORT_GetModemStatus :: "u16 \<Rightarrow> rfc_sys \<Rightarrow> u32 \<times> u8 option" where
  "PORT_GetModemStatus handle s =
     (case handle_port handle of
        None \<Rightarrow> (PORT_BAD_HANDLE, None)
      | Some i \<Rightarrow> if port_not_open (the_port s i) then (PORT_NOT_OPENED, None)
                 else (PORT_SUCCESS, Some (ctl_modem_signal (pt_peer_ctrl (the_port s i)))))"

text \<open>\<open>tPORT_STATUS\<close>: flags, sizes of the two queues, MTU.\<close>

definition PORT_GetQueueStatus :: "u16 \<Rightarrow> rfc_sys \<Rightarrow> u32 \<times> (u16 \<times> u16 \<times> u16 \<times> u16) option" where
  "PORT_GetQueueStatus handle s =
     (case handle_port handle of
        None \<Rightarrow> (PORT_BAD_HANDLE, None)
      | Some i \<Rightarrow>
          let p = the_port s i; ms = ctl_modem_signal (pt_peer_ctrl p) in
          if port_not_open p then (PORT_NOT_OPENED, None)
          else (PORT_SUCCESS, Some
            ((if ms AND PORT_CTSRTS_ON = 0 then 1 else 0) OR (if ms AND PORT_DTRDSR_ON = 0 then 2 else 0) OR
             (if ms AND PORT_DCD_ON = 0 then 4 else 0),
             ucast (pd_queue_size (pt_rx p)), ucast (pd_queue_size (pt_tx p)), pt_peer_mtu p)))"

definition PORT_ClearError :: "u16 \<Rightarrow> rfc_sys \<Rightarrow> u32 \<times> rfc_sys" where
  "PORT_ClearError handle =
     with_open_port handle (\<lambda>i s. (PORT_SUCCESS,
       port_upd i (\<lambda>p. p\<lparr>pt_line_status := pt_line_status p AND LINE_STATUS_FAILED\<rparr>) s))"

end
