(* ===== verification/RfcSafety.thy ===== *)
theory RfcSafety
  imports RfcInv RfcApi
begin

text \<open>
  What every sequence of calls of RFCOMM keeps: the indices in its tables are those of the pools, and no
  connection passes the security check without its success.
\<close>

section \<open>The application's calls keep the invariant\<close>

text \<open>The branches of a function whose result holds the state behind other results.\<close>

lemma via_branch:
  "P (f x) \<Longrightarrow> P (f y) \<Longrightarrow> P (f (if b then x else y))"
  "(\<And>x. x = a \<Longrightarrow> P (f (g x))) \<Longrightarrow> P (f (Let a g))"
  "(\<And>a' b'. b' = snd p \<Longrightarrow> P (f (h a' b'))) \<Longrightarrow> P (f (case p of (a, b) \<Rightarrow> h a b))"
  "(q = None \<Longrightarrow> P (f x)) \<Longrightarrow> (\<And>z. q = Some z \<Longrightarrow> P (f (k z))) \<Longrightarrow> P (f (case q of None \<Rightarrow> x | Some z \<Rightarrow> k z))"
  "(\<And>z. r = Returns z \<Longrightarrow> P (f (l z))) \<Longrightarrow> P (f l') \<Longrightarrow> P (f l'') \<Longrightarrow>
     P (f (case r of Returns z \<Rightarrow> l z | Blocks \<Rightarrow> l' | Asserts \<Rightarrow> l''))"
  by (auto split: prod.split option.split outcome.split)

lemmas via_state = via_branch [where P = "rfc_inv n A" and f = "\<lambda>x. x"] for n A
lemmas via_snd = via_branch [where P = "rfc_inv n A" and f = snd] for n A

lemmas via_snd2 = via_branch [where P = "rfc_inv n A" and f = "\<lambda>x. snd (snd x)"] for n A
lemmas via_snd3 = via_branch [where P = "rfc_inv n A" and f = "\<lambda>x. snd (snd (snd x))"] for n A

lemma rfc_inv_allocate_port [rfc_intros]:
  assumes "rfc_inv n A s"
  shows "rfc_inv n A (snd (port_allocate_port e d bd s))"
proof -
  have "port_ok n i (i \<in> A) (port_zero\<lparr>pt_in_use := True, pt_inx := of_nat i + 1, pt_dlci := d, pt_bd_addr := bd\<rparr>)"
    if "i < 16" for i
  proof -
    have "unat (of_nat i + 1 :: u8) = Suc i"
      using that unat_of_nat [of "Suc i", where ?'a = 8] by (simp add: add.commute)
    then show ?thesis using that by (simp add: port_ok_def port_zero_def past_security_def)
  qed
  then show ?thesis using assms
    by (auto simp: port_allocate_port_def Let_def intro!: rfc_intros split: option.split)
qed

lemma allocate_port_lt:
  assumes "rfc_inv n A s" "fst (port_allocate_port e d bd s) = Some i"
  shows "i < 16"
  using assms by (auto simp: port_allocate_port_def Let_def dest!: find_Some_set pool_order_lt split: option.splits)

lemma rfc_inv_set_port_inx:
  assumes "rfc_inv n A s" "i < 16"
  shows "rfc_inv n A (mcb_set_inx m d (pt_inx (the_port s i)) s)"
  using assms rfc_inv_port [OF assms] by (intro rfc_intros) (simp_all add: port_ok_def)

lemma rfc_inv_open_continue [rfc_intros]:
  assumes "rfc_inv n A s" "i < 16"
  shows "rfc_inv n A (snd (port_open_continue e i s))"
proof (cases "rfc_alloc_multiplexer_channel e (pt_bd_addr (the_port s i)) True s")
  case (Pair mo s')
  have inv: "rfc_inv n A s'" "mo = Some m \<Longrightarrow> m < n" for m
    using rfc_inv_alloc_mcb [OF assms(1)] alloc_mcb_lt [OF assms(1)] Pair by (metis fst_conv snd_conv)+
  show ?thesis
  proof (cases mo)
    case None
    then show ?thesis using Pair inv by (simp add: port_open_continue_def rfc_intros)
  next
    case (Some m)
    let ?s1 = "port_upd i (\<lambda>p. p\<lparr>pt_mcb := Some m\<rparr>) s'"
    let ?s2 = "port_select_mtu e i (mcb_set_inx m (pt_dlci (the_port ?s1 i)) (pt_inx (the_port ?s1 i)) ?s1)"
    have "rfc_inv n A ?s1" using inv Some by (intro rfc_intros port_ok_changes) simp_all
    then have "rfc_inv n A ?s2" using assms(2) by (intro rfc_inv_select_mtu rfc_inv_set_port_inx)
    then show ?thesis using Pair Some inv(2)
      by (auto simp: port_open_continue_def Let_def RFCOMM_StartReq_def rfc_intros split: rfc_mx_state.split)
  qed
qed

lemma port_ok_init [simp]: "port_ok n i a (init_port uuid scn srv mtu bd mgmt p) = port_ok n i a p"
  by (simp add: init_port_def Let_def port_ok_def past_security_def)

lemma rfc_inv_CreateConnection [rfc_intros]:
  assumes inv: "rfc_inv n A s"
  shows "rfc_inv n A (snd (snd (RFCOMM_CreateConnection e uuid scn srv mtu bd mgmt s)))"
proof -
  have new: "rfc_inv n A (snd (snd (case port_allocate_port e d bd s of
      (None, s) \<Rightarrow> (r, 0, s)
    | (Some i, s) \<Rightarrow>
        let handle = ucast (pt_inx (the_port s i)); s = port_upd i (init_port uuid scn srv mtu bd mgmt) s
        in if srv then (r', handle, s) else (case port_open_continue e i s of (r, s) \<Rightarrow> (r, handle, s)))))" for d r r'
  proof (cases "port_allocate_port e d bd s")
    case (Pair io s')
    have "rfc_inv n A s'" "io = Some i \<Longrightarrow> i < 16" for i
      using rfc_inv_allocate_port [OF inv, of e d bd] allocate_port_lt [OF inv, of e d bd] Pair by simp_all
    then show ?thesis using Pair
      by (auto simp: Let_def split_beta intro!: rfc_intros split: option.split)
  qed
  show ?thesis unfolding RFCOMM_CreateConnection_def
    by (intro via_snd2(1,2) new) (simp_all add: inv)
qed

lemma port_mcb_lt: "rfc_inv n A s \<Longrightarrow> i < 16 \<Longrightarrow> pt_mcb (the_port s i) = Some m \<Longrightarrow> m < n"
  using rfc_inv_port [of n A s i] by (simp add: port_ok_def)

lemma rfc_inv_start_close [rfc_intros]:
  assumes "rfc_inv n A s" "i < 16"
  shows "rfc_inv n A (port_start_close e i s)"
  using assms port_mcb_lt [OF assms]
  by (auto simp: port_start_close_def Let_def intro!: rfc_intros split: option.split)

lemma handle_port_lt: "handle_port h = Some i \<Longrightarrow> i < 16"
  by (auto simp: handle_port_def word_le_nat_alt word_less_nat_alt unat_eq_zero split: if_splits)

lemma rfc_inv_with_open [rfc_intros]:
  assumes "rfc_inv n A s" "\<And>i. i < 16 \<Longrightarrow> rfc_inv n A (snd (f i s))"
  shows "rfc_inv n A (snd (with_open_port h f s))"
  using assms handle_port_lt [of h] by (auto simp: with_open_port_def split: option.split)

lemma port_ok_api_simps [simp]:
  "port_ok n i a (p\<lparr>pt_keep_port_handle := b\<rparr>) = port_ok n i a p"
  "port_ok n i a (p\<lparr>pt_data_callback := b\<rparr>) = port_ok n i a p"
  "port_ok n i a (p\<lparr>pt_data_co_callback := b\<rparr>) = port_ok n i a p"
  by (simp_all add: port_ok_def past_security_def)

lemma rfc_inv_Remove [rfc_intros]:
  assumes "rfc_inv n A s"
  shows "rfc_inv n A (snd (RFCOMM_RemoveConnection e h s))" "rfc_inv n A (snd (RFCOMM_RemoveServer e h s))"
  using assms handle_port_lt [of h]
  by (auto simp: RFCOMM_RemoveConnection_def RFCOMM_RemoveServer_def Let_def intro!: rfc_intros split: option.split)

lemma rfc_inv_settings [rfc_intros]:
  assumes "rfc_inv n A s"
  shows "rfc_inv n A (snd (PORT_SetEventCallback h b s))" "rfc_inv n A (snd (PORT_ClearKeepHandleFlag h s))"
    "rfc_inv n A (snd (PORT_SetDataCallback h b s))" "rfc_inv n A (snd (PORT_SetDataCOCallback h b s))"
    "rfc_inv n A (snd (PORT_SetEventMask h ev s))" "rfc_inv n A (snd (PORT_ClearError h s))"
  using assms by (auto simp: PORT_SetEventCallback_def PORT_ClearKeepHandleFlag_def PORT_SetDataCallback_def
      PORT_SetDataCOCallback_def PORT_SetEventMask_def PORT_ClearError_def intro!: rfc_intros split: option.split)

lemma rfc_inv_start_control [rfc_intros]: "rfc_inv n A s \<Longrightarrow> i < 16 \<Longrightarrow> rfc_inv n A (port_start_control e i s)"
  by (auto simp: port_start_control_def intro!: rfc_intros)

lemma rfc_inv_api_requests [rfc_intros]:
  assumes "rfc_inv n A s"
  shows "rfc_inv n A (snd (PORT_SetState e h ps s))" "rfc_inv n A (snd (PORT_Control e h sg s))"
    "rfc_inv n A (snd (PORT_SendError e h er s))"
  using assms by (auto simp: PORT_SetState_def PORT_Control_def PORT_SendError_def Let_def
      intro!: rfc_intros split: option.split)

lemma via_let_state:
  "rfc_inv n A a \<Longrightarrow> (\<And>s. rfc_inv n A s \<Longrightarrow> rfc_inv n A (snd (f s))) \<Longrightarrow> rfc_inv n A (snd (Let a f))"
  by simp

lemma rfc_inv_flow_control [rfc_intros]:
  assumes "rfc_inv n A s"
  shows "rfc_inv n A (snd (flow_control e c h en s))"
  unfolding flow_control_def
proof (rule rfc_inv_with_open [OF assms], goal_cases)
  case (1 i)
  have told: "rfc_inv n A (if b then (if en then port_flow_control_peer e i True k s else s)
      else let fc = x; s = port_upd i (\<lambda>p. p\<lparr>pt_local_ctrl := g fc p\<rparr>) s
           in if h' fc then port_start_control e i s else s)" if "rfc_inv n A s" for b k x g h' s
    using that 1 by (simp add: Let_def rfc_intros)
  have "rfc_inv n A (port_upd i (\<lambda>p. p\<lparr>pt_rx := pt_rx p\<lparr>pd_user_fc := \<not> en\<rparr>\<rparr>) s)"
    using assms by (intro rfc_intros) simp_all
  then show ?case
    by (intro via_snd(4) via_let_state via_snd(2) told) (auto simp: assms Let_def intro!: rfc_intros)
qed

lemma rfc_inv_read [rfc_intros]:
  assumes "rfc_inv n A s"
  shows "rfc_inv n A (snd (snd (PORT_ReadData e h k s)))" "rfc_inv n A (snd (snd (PORT_Read e h s)))"
proof -
  have read: "rfc_inv n A (snd (snd (case r of (d, bs, k) \<Rightarrow>
      let s = port_upd i (\<lambda>p. p\<lparr>pt_rx := pt_rx p\<lparr>pd_queue := f bs, pd_queue_size := g d p\<rparr>\<rparr>) s
      in (c, d, port_flow_control_peer e i True (of_nat k) s))))" for r :: "bytes \<times> bt_hdr list \<times> nat" and f g c i
    using assms by (simp add: split_beta Let_def rfc_intros)
  show "rfc_inv n A (snd (snd (PORT_ReadData e h k s)))"
    unfolding PORT_ReadData_def by (intro via_snd2(1,2,4) read) (simp_all add: assms)
  show "rfc_inv n A (snd (snd (PORT_Read e h s)))"
    unfolding PORT_Read_def by (intro via_snd2) (auto simp: assms intro!: rfc_intros)
qed

lemma rfc_inv_Purge [rfc_intros]: "rfc_inv n A s \<Longrightarrow> rfc_inv n A (snd (PORT_Purge e h fl s))"
  unfolding PORT_Purge_def
  by (intro rfc_inv_with_open via_snd) (auto simp: Let_def split_beta intro!: rfc_intros)

lemma rfc_inv_tx_enqueue [rfc_intros]: "rfc_inv n A s \<Longrightarrow> rfc_inv n A (tx_enqueue i b s)"
  by (auto simp: tx_enqueue_def intro!: rfc_intros split: option.split outcome.split)

lemma rfc_inv_port_write [rfc_intros]: "rfc_inv n A s \<Longrightarrow> i < 16 \<Longrightarrow> rfc_inv n A (snd (port_write e i b s))"
  by (auto simp: port_write_def Let_def intro!: rfc_intros)

lemma rfc_inv_Write [rfc_intros]: "rfc_inv n A s \<Longrightarrow> rfc_inv n A (snd (PORT_Write e h b s))"
  by (auto simp: PORT_Write_def Let_def split_beta intro!: rfc_intros)

lemma rfc_inv_write_loop [rfc_intros]:
  "rfc_inv n A s \<Longrightarrow> i < 16 \<Longrightarrow> rfc_inv n A (snd (snd (snd (write_loop e co h i k len d dn ev rc s))))"
proof (induction k arbitrary: len d dn ev rc s)
  case (Suc k)
  show ?case unfolding write_loop.simps
    by (intro via_snd3) (auto intro!: rfc_intros Suc)
qed (auto intro!: rfc_intros)

lemma rfc_inv_write_done [rfc_intros]: "rfc_inv n A s \<Longrightarrow> rfc_inv n A (write_done i k d ev rc s)"
  by (auto simp: write_done_def Let_def intro!: rfc_intros)

lemma rfc_inv_append [rfc_intros]: "rfc_inv n A s \<Longrightarrow> rfc_inv n A (append_to_last i d q s)"
  by (auto simp: append_to_last_def Let_def intro!: rfc_intros split: outcome.split)

lemma rfc_inv_WriteData [rfc_intros]:
  assumes "rfc_inv n A s"
  shows "rfc_inv n A (snd (snd (PORT_WriteData e h d s)))" "rfc_inv n A (snd (snd (PORT_WriteDataCO e h d s)))"
  using assms handle_port_lt [of h]
  by (auto simp: PORT_WriteData_def PORT_WriteDataCO_def Let_def split_beta simp del: write_loop.simps
      intro!: rfc_intros split: option.split)

lemma rfc_inv_Test [rfc_intros]: "rfc_inv n A s \<Longrightarrow> rfc_inv n A (snd (PORT_Test e h d s))"
  by (auto simp: PORT_Test_def Let_def intro!: rfc_intros split: option.split outcome.split)

section \<open>The calls\<close>

text \<open>
  What RFCOMM is called with: the callbacks of L2CAP, its timers, the result of a security check, and the
  functions of an application that change the state.
\<close>

datatype rfc_call =
    Connect_ind bytes u16 u8
  | Connect_cnf u16 u16
  | Config_ind u16 "u16 option"
  | Config_cnf u16 u16
  | Disconnect_ind u16 bool
  | Data_ind u16 bt_hdr
  | Congestion_ind u16 bool
  | Timeout rfc_timer
  | Sec_complete nat u8
  | Create_connection u16 u8 bool u16 bytes bool
  | Remove_connection u16
  | Remove_server u16
  | Set_event_callback u16 bool
  | Clear_keep_handle u16
  | Set_data_callback u16 bool
  | Set_data_co_callback u16 bool
  | Set_event_mask u16 u32
  | Set_state u16 port_state
  | Control u16 u8
  | Flow_control u16 bool
  | Flow_control_max_credit u16 bool
  | Send_error u16 u8
  | Clear_error u16
  | Read_data u16 u16
  | Read u16
  | Purge u16 u8
  | Write u16 bt_hdr
  | Write_data u16 bytes
  | Write_data_co u16 bytes
  | Test u16 bytes

definition rfc_step :: "rfc_env \<Rightarrow> rfc_call \<Rightarrow> rfc_sys \<Rightarrow> rfc_sys" where
  "rfc_step e c s =
     (case c of
        Connect_ind bd lcid ident \<Rightarrow> RFCOMM_ConnectInd e bd lcid ident s
      | Connect_cnf lcid res \<Rightarrow> RFCOMM_ConnectCnf e lcid res s
      | Config_ind lcid mtu \<Rightarrow> RFCOMM_ConfigInd e lcid mtu s
      | Config_cnf lcid res \<Rightarrow> RFCOMM_ConfigCnf e lcid res s
      | Disconnect_ind lcid cnf \<Rightarrow> RFCOMM_DisconnectInd e lcid cnf s
      | Data_ind lcid b \<Rightarrow> RFCOMM_BufDataInd e lcid b s
      | Congestion_ind lcid cong \<Rightarrow> RFCOMM_CongestionStatusInd e lcid cong s
      | Timeout t \<Rightarrow> rfcomm_process_timeout e t s
      | Sec_complete i res \<Rightarrow> rfc_sec_check_complete e i res s
      | Create_connection uuid scn srv mtu bd mgmt \<Rightarrow>
          snd (snd (RFCOMM_CreateConnection e uuid scn srv mtu bd mgmt s))
      | Remove_connection h \<Rightarrow> snd (RFCOMM_RemoveConnection e h s)
      | Remove_server h \<Rightarrow> snd (RFCOMM_RemoveServer e h s)
      | Set_event_callback h cb \<Rightarrow> snd (PORT_SetEventCallback h cb s)
      | Clear_keep_handle h \<Rightarrow> snd (PORT_ClearKeepHandleFlag h s)
      | Set_data_callback h cb \<Rightarrow> snd (PORT_SetDataCallback h cb s)
      | Set_data_co_callback h cb \<Rightarrow> snd (PORT_SetDataCOCallback h cb s)
      | Set_event_mask h ev \<Rightarrow> snd (PORT_SetEventMask h ev s)
      | Set_state h ps \<Rightarrow> snd (PORT_SetState e h ps s)
      | Control h sg \<Rightarrow> snd (PORT_Control e h sg s)
      | Flow_control h en \<Rightarrow> snd (PORT_FlowControl e h en s)
      | Flow_control_max_credit h en \<Rightarrow> snd (PORT_FlowControl_MaxCredit e h en s)
      | Send_error h er \<Rightarrow> snd (PORT_SendError e h er s)
      | Clear_error h \<Rightarrow> snd (PORT_ClearError h s)
      | Read_data h k \<Rightarrow> snd (snd (PORT_ReadData e h k s))
      | Read h \<Rightarrow> snd (snd (PORT_Read e h s))
      | Purge h fl \<Rightarrow> snd (PORT_Purge e h fl s)
      | Write h b \<Rightarrow> snd (PORT_Write e h b s)
      | Write_data h d \<Rightarrow> snd (snd (PORT_WriteData e h d s))
      | Write_data_co h d \<Rightarrow> snd (snd (PORT_WriteDataCO e h d s))
      | Test h d \<Rightarrow> snd (PORT_Test e h d s))"

text \<open>
  The pointer a timer or the security manager gives back is one that RFCOMM gave them: to a block of its pools.
\<close>

definition call_ok :: "nat \<Rightarrow> rfc_call \<Rightarrow> bool" where
  "call_ok n c =
     (case c of
        Timeout (BTU_TTYPE_RFCOMM_MFC m) \<Rightarrow> m < n
      | Timeout (BTU_TTYPE_RFCOMM_PORT i) \<Rightarrow> i < 16
      | Sec_complete i res \<Rightarrow> i < 16
      | _ \<Rightarrow> True)"

inductive rfc_reachable :: "rfc_env \<Rightarrow> nat \<Rightarrow> rfc_sys \<Rightarrow> bool" for e n where
  rfc_start: "rfc_reachable e n (RFCOMM_Init n)"
| rfc_next: "rfc_reachable e n s \<Longrightarrow> call_ok n c \<Longrightarrow> rfc_reachable e n (rfc_step e c s)"

text \<open>A call opens no port, but for the result of a security check.\<close>

lemma rfc_inv_step:
  assumes "rfc_inv n A s" "call_ok n c" "\<And>j. c = Sec_complete j 0 \<Longrightarrow> granted s j \<subseteq> A"
  shows "rfc_inv n A (rfc_step e c s)"
proof (cases c)
  case (Timeout t)
  then show ?thesis using assms by (cases t) (simp_all add: rfc_step_def call_ok_def rfc_inv_timeout)
next
  case (Sec_complete i res)
  then show ?thesis using assms by (simp add: rfc_step_def call_ok_def rfc_inv_sec_complete)
qed (simp_all add: rfc_step_def assms(1) rfc_intros PORT_FlowControl_def PORT_FlowControl_MaxCredit_def)

lemma rfc_inv_mono:
  assumes "rfc_inv n A s" "\<And>i. i < 16 \<Longrightarrow> i \<in> A \<Longrightarrow> past_security (the_port s i) \<Longrightarrow> i \<in> B"
  shows "rfc_inv n B s"
  using assms by (auto simp: rfc_inv_def port_ok_def)

lemma rfc_inv_Init: "rfc_inv n A (RFCOMM_Init n)"
  by (simp add: rfc_inv_def RFCOMM_Init_def mcb_ok_def fresh_mcb_def)

lemma rfc_reachable_inv: "rfc_reachable e n s \<Longrightarrow> rfc_inv n UNIV s"
  by (induction rule: rfc_reachable.induct) (simp_all add: rfc_inv_Init rfc_inv_step)

text \<open>A result for a port that does not wait for it changes nothing.\<close>

lemma sec_complete_waits:
  "rfc_sec_check_complete e i res s \<noteq> s \<Longrightarrow>
     pt_in_use (the_port s i) \<and> pt_rfc_state (the_port s i) \<in> {RFC_STATE_ORIG_WAIT_SEC_CHECK, RFC_STATE_TERM_WAIT_SEC_CHECK}"
  by (auto simp: rfc_sec_check_complete_def split: if_splits)

section \<open>A run of RFCOMM\<close>

text \<open>
  A server on channel 1 of one port, whose peer connects: the L2CAP channel, its configuration, SABME for the
  multiplexer and for the port.
\<close>

definition demo_hdr :: bt_hdr where
  "demo_hdr = \<lparr>bh_event = 0, bh_len = 0, bh_offset = 0, bh_layer_specific = 0, bh_data = replicate 17 0\<rparr>"

definition demo_env :: rfc_env where
  "demo_env = \<lparr>re_lc = (\<lambda>_. False), re_mem = (\<lambda>_. Some demo_hdr), re_queue = (\<lambda>_. True), re_connect = (\<lambda>_. 0x40),
     re_packet_size = (\<lambda>_. 339), re_boottime = (\<lambda>_. 0), re_co_take = (\<lambda>_. True)\<rparr>"

definition demo_frame :: "bytes \<Rightarrow> bt_hdr" where
  "demo_frame d = demo_hdr\<lparr>bh_len := of_nat (length d), bh_data := d\<rparr>"

definition demo_calls :: "rfc_call list" where
  "demo_calls = [Create_connection 0 1 True 0 [1, 2, 3, 4, 5, 6] True, Connect_ind [1, 2, 3, 4, 5, 6] 0x40 1,
     Config_cnf 0x40 0, Config_ind 0x40 (Some 1000), Data_ind 0x40 (demo_frame [0x03, 0x3F, 0x01, 0x1C]),
     Data_ind 0x40 (demo_frame [0x0B, 0x3F, 0x01, 0x59])]"

definition demo_state :: rfc_sys where
  "demo_state = fold (rfc_step demo_env) demo_calls (RFCOMM_Init 1)"

lemma rfc_reachable_fold:
  "rfc_reachable e n s \<Longrightarrow> list_all (call_ok n) cs \<Longrightarrow> rfc_reachable e n (fold (rfc_step e) cs s)"
  by (induction cs arbitrary: s) (simp_all add: rfc_next)

lemma demo_reachable: "rfc_reachable demo_env 1 demo_state"
  unfolding demo_state_def
  by (rule rfc_reachable_fold [OF rfc_start]) (simp add: demo_calls_def call_ok_def)

definition waits_then_opens :: "rfc_env \<Rightarrow> nat \<Rightarrow> rfc_sys \<Rightarrow> bool" where
  "waits_then_opens e i s \<longleftrightarrow> pt_rfc_state (the_port s i) = RFC_STATE_TERM_WAIT_SEC_CHECK \<and>
     pt_rfc_state (the_port (rfc_step e (Sec_complete i 0) s) i) = RFC_STATE_OPENED"

lemma demo_opens: "waits_then_opens demo_env 1 demo_state"
  by code_simp

section \<open>The properties\<close>

text \<open>
  C28: In every state that RFCOMM can reach, whatever L2CAP, the timers, the security manager and the
  application call, each index in its tables lies within the pool it points into: the multiplexer of a port,
  the ports of a multiplexer by DLCI, the multiplexer of a channel; and a port in use knows its own number.
\<close>

theorem rfc_tables_safe:
  assumes "rfc_reachable e n s"
  shows "length (rs_port s) = 16 \<and> length (rs_mcb s) = n \<and> length (rs_lcid_mcb s) = 16 \<and>
    (\<forall>i<16. (pt_in_use (the_port s i) \<longrightarrow> unat (pt_inx (the_port s i)) = i + 1) \<and>
             (\<forall>m. pt_mcb (the_port s i) = Some m \<longrightarrow> m < n)) \<and>
    (\<forall>m<n. length (mx_port_inx (the_mcb s m)) = 62 \<and> (\<forall>v\<in>set (mx_port_inx (the_mcb s m)). unat v \<le> 16)) \<and>
    (\<forall>m. Some m \<in> set (rs_lcid_mcb s) \<longrightarrow> m < n)"
  using rfc_reachable_inv [OF assms] by (auto simp: rfc_inv_def port_ok_def mcb_ok_def)

theorem rfc_tables_safe_witness:
  "length (rs_port demo_state) = 16 \<and> length (rs_lcid_mcb demo_state) = 16 \<and>
    length (mx_port_inx (the_mcb demo_state 0)) = 62"
  using rfc_tables_safe [OF demo_reachable] by simp

text \<open>
  C3: No connection passes the security check without its success: when a call brings a port into one of the
  states behind the check (SABME sent, or open), the call is the successful result of a security check, for a
  port in use that waits for it, and the port is that port or the port of its channel.
\<close>

theorem rfc_security_gate:
  assumes "rfc_reachable e n s" "call_ok n c" "i < 16"
    and "past_security (the_port (rfc_step e c s) i)" "\<not> past_security (the_port s i)"
  shows "\<exists>j. c = Sec_complete j 0 \<and> i \<in> granted s j \<and> pt_in_use (the_port s j) \<and>
    pt_rfc_state (the_port s j) \<in> {RFC_STATE_ORIG_WAIT_SEC_CHECK, RFC_STATE_TERM_WAIT_SEC_CHECK}"
proof -
  let ?A = "{k. past_security (the_port s k)}"
  let ?B = "{k. \<exists>j. c = Sec_complete j 0 \<and> k \<in> granted s j}"
  have "rfc_inv n (?A \<union> ?B) s"
    using rfc_reachable_inv [OF assms(1)] by (rule rfc_inv_mono) simp
  then have "rfc_inv n (?A \<union> ?B) (rfc_step e c s)"
    using assms(2) by (rule rfc_inv_step) auto
  then have "i \<in> ?A \<union> ?B"
    using assms(3,4) by (auto simp: rfc_inv_def port_ok_def)
  then obtain j where j: "c = Sec_complete j 0" "i \<in> granted s j"
    using assms(5) by auto
  moreover have "rfc_sec_check_complete e j 0 s \<noteq> s"
    using assms(4,5) j by (auto simp: rfc_step_def)
  ultimately show ?thesis using sec_complete_waits by blast
qed

theorem rfc_security_gate_witness:
  "\<exists>j. Sec_complete 1 0 = Sec_complete j 0 \<and> 1 \<in> granted demo_state j \<and> pt_in_use (the_port demo_state j) \<and>
    pt_rfc_state (the_port demo_state j) \<in> {RFC_STATE_ORIG_WAIT_SEC_CHECK, RFC_STATE_TERM_WAIT_SEC_CHECK}"
  using rfc_security_gate [OF demo_reachable, of "Sec_complete 1 0" 1] demo_opens
  by (simp add: waits_then_opens_def call_ok_def past_security_def)

end
