(* ===== verification/RfcCredit.thy ===== *)
theory RfcCredit
  imports RfcSafety
begin

text \<open>
  Credit based flow control between the two ends of a connection: the credits of an end are those the other
  end counts, no data arrives that the other end has no room for, and the two ends never wait for each other.
\<close>

section \<open>A connection\<close>

text \<open>
  The two ends (\<open>True\<close> and \<open>False\<close>) with their ports; the frames an end sent that have not arrived, each with
  or without user data and with a number of credits; and the number of buffers an end has received and its
  application has not taken.
\<close>

record credit_link =
  cl_port :: "bool \<Rightarrow> tport"
  cl_wire :: "bool \<Rightarrow> (bool \<times> u8) list"
  cl_unread :: "bool \<Rightarrow> nat"

abbreviation end_upd :: "bool \<Rightarrow> (tport \<Rightarrow> tport) \<Rightarrow> credit_link \<Rightarrow> credit_link" where
  "end_upd x f l \<equiv> l\<lparr>cl_port := (cl_port l)(x := f (cl_port l x))\<rparr>"

abbreviation put_wire :: "bool \<Rightarrow> bool \<times> u8 \<Rightarrow> credit_link \<Rightarrow> credit_link" where
  "put_wire x fr l \<equiv> l\<lparr>cl_wire := (cl_wire l)(x := cl_wire l x @ [fr])\<rparr>"

text \<open>User data goes out as \<open>rfc_port_sm_data\<close> sends it.\<close>

definition link_send :: "bool \<Rightarrow> bt_hdr \<Rightarrow> credit_link \<Rightarrow> credit_link" where
  "link_send x b l =
     (let (b, p) = data_credits PORT_FC_CREDIT b (cl_port l x)
      in put_wire x (True, ucast (bh_layer_specific b)) (end_upd x (\<lambda>_. dec_credit PORT_FC_CREDIT p) l))"

text \<open>Credits that come in, and with them the flow of data (\<open>rfc_inc_credit\<close>).\<close>

definition inc_credit :: "u8 \<Rightarrow> tport \<Rightarrow> tport" where
  "inc_credit c p = p\<lparr>pt_credit_tx := pt_credit_tx p + ucast c, pt_tx := pt_tx p\<lparr>pd_peer_fc := False\<rparr>\<rparr>"

definition link_receive :: "bool \<Rightarrow> bool \<times> u8 \<Rightarrow> credit_link \<Rightarrow> credit_link" where
  "link_receive x fr l =
     (let l = l\<lparr>cl_unread := (cl_unread l)(x := cl_unread l x + (if fst fr then 1 else 0))\<rparr>
      in if snd fr = 0 then l else end_upd x (inc_credit (snd fr)) l)"

text \<open>Buffers that were taken, or the user's wish for more (\<open>port_flow_control_peer\<close>).\<close>

definition link_grant :: "bool \<Rightarrow> nat \<Rightarrow> credit_link \<Rightarrow> credit_link" where
  "link_grant x k l =
     (case credit_update (of_nat k) (cl_port l x) of
        (None, p) \<Rightarrow> end_upd x (\<lambda>_. p) l
      | (Some c, p) \<Rightarrow> put_wire x (False, c) (end_upd x (\<lambda>_. p) l))"

definition user_flow :: "bool \<Rightarrow> tport \<Rightarrow> tport" where
  "user_flow enable p = p\<lparr>pt_rx := pt_rx p\<lparr>pd_user_fc := \<not> enable\<rparr>\<rparr>"

text \<open>
  The start is what parameter negotiation leaves behind: each end has the credits the other offered
  (\<open>RFCOMM_ParNegReq\<close>, \<open>PORT_ParNegInd\<close>, \<open>PORT_ParNegCnf\<close>), at most 7 and no more than its receive queue
  may hold by \<open>port_select_mtu\<close>.
\<close>

definition offered :: "tport \<Rightarrow> u8" where
  "offered p = (if pt_credit_rx_max p < RFCOMM_K_MAX then ucast (pt_credit_rx_max p) else RFCOMM_K_MAX)"

definition limits_ok :: "tport \<Rightarrow> bool" where
  "limits_ok p \<longleftrightarrow> 0 < pt_credit_rx_max p \<and> pt_credit_rx_max p \<le> PORT_RX_BUF_HIGH_WM \<and>
     pt_credit_rx_low p \<le> PORT_RX_BUF_LOW_WM"

definition link_start :: "(bool \<Rightarrow> tport) \<Rightarrow> credit_link" where
  "link_start p = \<lparr>
     cl_port = (\<lambda>x. (port_get_credits (offered (p (\<not> x))) (p x))\<lparr>pt_credit_rx := ucast (offered (p x))\<rparr>),
     cl_wire = (\<lambda>_. []), cl_unread = (\<lambda>_. 0)\<rparr>"

inductive credit_run :: "(bool \<Rightarrow> tport) \<Rightarrow> credit_link \<Rightarrow> bool" for p where
  run_start: "credit_run p (link_start p)"
| run_send: "credit_run p l \<Longrightarrow> \<not> pd_peer_fc (pt_tx (cl_port l x)) \<Longrightarrow> credit_run p (link_send x b l)"
| run_receive: "credit_run p l \<Longrightarrow> cl_wire l (\<not> x) = fr # w \<Longrightarrow>
    credit_run p (link_receive x fr (l\<lparr>cl_wire := (cl_wire l)((\<not> x) := w)\<rparr>))"
| run_take: "credit_run p l \<Longrightarrow> k \<le> cl_unread l x \<Longrightarrow>
    credit_run p (link_grant x k (l\<lparr>cl_unread := (cl_unread l)(x := cl_unread l x - k)\<rparr>))"
| run_hold: "credit_run p l \<Longrightarrow> credit_run p (end_upd x (user_flow False) l)"
| run_resume: "credit_run p l \<Longrightarrow> credit_run p (link_grant x 0 (end_upd x (user_flow True) l))"

section \<open>The invariant\<close>

definition wire_data :: "(bool \<times> u8) list \<Rightarrow> nat" where
  "wire_data w = length (filter fst w)"

definition wire_credits :: "(bool \<times> u8) list \<Rightarrow> nat" where
  "wire_credits w = sum_list (map (unat \<circ> snd) w)"

lemma wire_simps [simp]:
  "wire_data [] = 0" "wire_data (fr # w) = (if fst fr then 1 else 0) + wire_data w"
  "wire_data (v @ w) = wire_data v + wire_data w"
  "wire_credits [] = 0" "wire_credits (fr # w) = unat (snd fr) + wire_credits w"
  "wire_credits (v @ w) = wire_credits v + wire_credits w"
  by (simp_all add: wire_data_def wire_credits_def)

text \<open>An end that sends, the other end, and what is between them.\<close>

definition credits_ok :: "tport \<Rightarrow> tport \<Rightarrow> nat \<Rightarrow> bool" where
  "credits_ok p q k \<longleftrightarrow> unat (pt_credit_rx q) = unat (pt_credit_tx p) + k \<and>
     pt_credit_rx q \<le> pt_credit_rx_max q \<and> limits_ok q \<and> (pd_peer_fc (pt_tx p) \<longleftrightarrow> pt_credit_tx p = 0) \<and>
     (pd_user_fc (pt_rx q) \<or> pt_credit_rx_low q < pt_credit_rx q \<or> pt_credit_rx q = pt_credit_rx_max q)"

definition between :: "bool \<Rightarrow> credit_link \<Rightarrow> nat" where
  "between x l = wire_data (cl_wire l x) + wire_credits (cl_wire l (\<not> x)) + cl_unread l (\<not> x)"

definition link_ok :: "credit_link \<Rightarrow> bool" where
  "link_ok l \<longleftrightarrow> (\<forall>x. credits_ok (cl_port l x) (cl_port l (\<not> x)) (between x l))"

lemmas unat_cmp = word_le_nat_alt word_less_nat_alt word_unat_eq_iff

lemma unat_ucast_less [simp]: "unat (w :: 'a::len word) < 2 ^ LENGTH('b) \<Longrightarrow> unat (ucast w :: 'b::len word) = unat w"
  by (simp add: unsigned_ucast_eq take_bit_nat_eq_self)

lemma unat_minus: "b \<le> a \<Longrightarrow> unat (a - b :: u16) = unat a - unat b"
  by (simp add: unat_sub)

lemma limits_grant: "limits_ok q \<Longrightarrow> pt_credit_rx_max q - a \<le> pt_credit_rx_max q \<Longrightarrow> pt_credit_rx_max q - a \<le> 10"
  by (auto simp: limits_ok_def)

lemma minus_le: "(b :: u16) \<le> a \<Longrightarrow> a - b \<le> a"
  by (simp add: unat_cmp unat_sub)

text \<open>The granted credits fit the byte that carries them.\<close>

lemma grant_fits:
  assumes "limits_ok q" "pt_credit_rx q \<le> pt_credit_rx_max q"
  shows "unat (ucast (ucast (ucast (pt_credit_rx_max q - pt_credit_rx q) :: u8) :: u16) :: u8) =
      unat (pt_credit_rx_max q) - unat (pt_credit_rx q)"
    "unat (ucast (pt_credit_rx_max q - pt_credit_rx q) :: u8) = unat (pt_credit_rx_max q) - unat (pt_credit_rx q)"
proof -
  have "pt_credit_rx_max q - pt_credit_rx q \<le> 10"
    using limits_grant [OF assms(1) minus_le [OF assms(2)]] .
  then show "unat (ucast (ucast (ucast (pt_credit_rx_max q - pt_credit_rx q) :: u8) :: u16) :: u8) =
      unat (pt_credit_rx_max q) - unat (pt_credit_rx q)"
    "unat (ucast (pt_credit_rx_max q - pt_credit_rx q) :: u8) = unat (pt_credit_rx_max q) - unat (pt_credit_rx q)"
    using unat_minus [OF assms(2)] by (simp_all add: word_le_nat_alt)
qed

lemma send_sender:
  assumes "credits_ok p q k" "\<not> pd_peer_fc (pt_tx p)"
  shows "credits_ok (dec_credit PORT_FC_CREDIT (snd (data_credits PORT_FC_CREDIT b p))) q (Suc k)"
proof -
  have "pt_credit_tx p \<noteq> 0" using assms by (simp add: credits_ok_def)
  then have pos: "0 < unat (pt_credit_tx p)" and "0 < pt_credit_tx p" by (simp_all add: unat_gt_0 word_neq_0_conv)
  then have "unat (pt_credit_tx p - 1) = unat (pt_credit_tx p) - 1" by (simp add: unat_sub word_le_nat_alt)
  then show ?thesis using assms pos \<open>0 < pt_credit_tx p\<close>
    by (auto simp: credits_ok_def dec_credit_def data_credits_def Let_def)
qed

lemma send_receiver:
  assumes "credits_ok q p k" "data_credits PORT_FC_CREDIT b p = (b', p')"
  shows "credits_ok q (dec_credit PORT_FC_CREDIT p') (k + unat (ucast (bh_layer_specific b') :: u8))"
proof -
  have "pt_credit_rx p \<le> pt_credit_rx_max p" "limits_ok p" using assms(1) by (simp_all add: credits_ok_def)
  then show ?thesis using assms grant_fits [of p]
    by (auto simp: credits_ok_def dec_credit_def data_credits_def Let_def limits_ok_def word_le_nat_alt split: if_splits)
qed

lemma receive_sender:
  assumes "credits_ok p q (k + unat c)" "c \<noteq> 0"
  shows "credits_ok (inc_credit c p) q k"
proof -
  have le: "unat (pt_credit_tx p) + unat c \<le> 10"
    using assms(1) by (auto simp: credits_ok_def limits_ok_def word_le_nat_alt)
  then have "unat (pt_credit_tx p + ucast c) = unat (pt_credit_tx p) + unat c"
    by (subst unat_add_lem [THEN iffD1]) simp_all
  moreover have "0 < unat c" using assms(2) by (simp add: unat_gt_0)
  ultimately show ?thesis using assms(1)
    by (auto simp: credits_ok_def inc_credit_def word_unat_eq_iff)
qed

lemma receive_receiver [simp]: "credits_ok q (inc_credit c p) k = credits_ok q p k"
  by (simp add: credits_ok_def inc_credit_def limits_ok_def)

lemma user_flow_sender [simp]: "credits_ok (user_flow b p) q k = credits_ok p q k"
  by (simp add: credits_ok_def user_flow_def)

lemma user_hold: "credits_ok q p k \<Longrightarrow> credits_ok q (user_flow False p) k"
  by (simp add: credits_ok_def user_flow_def limits_ok_def)

lemma hold_flow [simp]: "user_flow False (user_flow b p) = user_flow False p"
  by (simp add: user_flow_def)

lemma grant_sender: "credits_ok (snd (credit_update c p)) q k = credits_ok p q k"
  by (simp add: credits_ok_def credit_update_def Let_def)

lemma grant_receiver:
  assumes "credits_ok q (user_flow False p) (k + c)"
  shows "credits_ok q (snd (credit_update (of_nat c) p))
    (k + (case fst (credit_update (of_nat c) p) of None \<Rightarrow> 0 | Some d \<Rightarrow> unat d))"
proof -
  have c: "unat (of_nat c :: u16) = c" and le: "c \<le> unat (pt_credit_rx p)"
    using assms unat_of_nat [of c, where 'a = 16]
    by (auto simp: credits_ok_def limits_ok_def user_flow_def word_le_nat_alt)
  let ?p = "p\<lparr>pt_credit_rx := pt_credit_rx p - of_nat c\<rparr>"
  have nolt: "\<not> pt_credit_rx p < of_nat c" and rx: "unat (pt_credit_rx ?p) = unat (pt_credit_rx p) - c"
    using c le unat_sub [of "of_nat c" "pt_credit_rx p"] by (simp_all add: word_le_nat_alt word_less_nat_alt)
  have lim: "limits_ok ?p" "pt_credit_rx ?p \<le> pt_credit_rx_max ?p"
    using assms rx by (auto simp: credits_ok_def limits_ok_def user_flow_def word_le_nat_alt)
  note fit = grant_fits(2) [OF lim, simplified]
  show ?thesis using assms rx lim fit le
    by (auto simp: credits_ok_def user_flow_def credit_update_def Let_def limits_ok_def c unat_cmp)
qed

section \<open>Every step keeps it\<close>

lemma link_okI:
  assumes "credits_ok (cl_port l x) (cl_port l (\<not> x)) (between x l)"
    and "credits_ok (cl_port l (\<not> x)) (cl_port l x) (between (\<not> x) l)"
  shows "link_ok l"
  using assms by (cases x) (auto simp: link_ok_def all_bool_eq)

lemma link_okD:
  assumes "link_ok l"
  shows "credits_ok (cl_port l x) (cl_port l (\<not> x)) (between x l)"
    "credits_ok (cl_port l (\<not> x)) (cl_port l x) (between (\<not> x) l)"
  using assms by (cases x; simp add: link_ok_def all_bool_eq)+

lemma neq_not [simp]: "(x \<noteq> (\<not> x)) = True" "((\<not> x) = x) = False" "(x = (\<not> x)) = False"
  by auto

lemma link_ok_send:
  assumes "link_ok l" "\<not> pd_peer_fc (pt_tx (cl_port l x))"
  shows "link_ok (link_send x b l)"
proof (cases "data_credits PORT_FC_CREDIT b (cl_port l x)")
  case (Pair b' p')
  show ?thesis
    using Pair send_sender [OF link_okD(1) [OF assms(1)] assms(2), of b]
      send_receiver [OF link_okD(2) [OF assms(1)] Pair]
    by (intro link_okI [where x = x]) (simp_all add: link_send_def between_def add_ac)
qed

lemma link_ok_receive:
  assumes "link_ok l" "cl_wire l (\<not> x) = fr # w"
  shows "link_ok (link_receive x fr (l\<lparr>cl_wire := (cl_wire l)((\<not> x) := w)\<rparr>))"
  using assms(2) link_okD [OF assms(1), of x]
    receive_sender [of "cl_port l x" "cl_port l (\<not> x)"
      "wire_data (cl_wire l x) + wire_credits w + cl_unread l (\<not> x)" "snd fr"]
  by (intro link_okI [where x = x]) (auto simp: link_receive_def between_def Let_def add_ac)

text \<open>The port is one with which the invariant holds when its user asks for no more data.\<close>

lemma link_ok_grant:
  assumes "link_ok (end_upd x (user_flow False) l)" "k \<le> cl_unread l x"
  shows "link_ok (link_grant x k (l\<lparr>cl_unread := (cl_unread l)(x := cl_unread l x - k)\<rparr>))"
proof (cases "credit_update (of_nat k) (cl_port l x)")
  case (Pair d p')
  have "credits_ok (cl_port l (\<not> x)) (user_flow False (cl_port l x))
      (wire_data (cl_wire l (\<not> x)) + wire_credits (cl_wire l x) + (cl_unread l x - k) + k)"
    using link_okD(2) [OF assms(1), of x] assms(2) by (simp add: between_def)
  note grant = grant_receiver [OF this]
  have send: "credits_ok p' (cl_port l (\<not> x)) (between x l)"
    using link_okD(1) [OF assms(1), of x] Pair grant_sender [of "of_nat k" "cl_port l x"]
    by (simp add: between_def)
  show ?thesis
    using Pair grant send
    by (intro link_okI [where x = x]) (auto simp: link_grant_def between_def add_ac split: option.split)
qed

lemma link_ok_hold: "link_ok l \<Longrightarrow> link_ok (end_upd x (user_flow False) l)"
  using link_okD [of l x] user_hold by (intro link_okI [where x = x]) (simp_all add: between_def)

lemma link_ok_start:
  assumes "\<And>x. limits_ok (p x) \<and> \<not> pd_peer_fc (pt_tx (p x))"
  shows "link_ok (link_start p)"
proof -
  have "credits_ok ((port_get_credits (offered q) p)\<lparr>pt_credit_rx := c\<rparr>)
      ((port_get_credits d q)\<lparr>pt_credit_rx := ucast (offered q)\<rparr>) 0"
    if "limits_ok q" "\<not> pd_peer_fc (pt_tx p)" for p q c d
    using that
    by (auto simp: credits_ok_def port_get_credits_def offered_def limits_ok_def Let_def unat_cmp)
  then show ?thesis using assms
    by (simp add: link_ok_def link_start_def between_def)
qed

lemma credit_run_ok:
  assumes "credit_run p l" "\<And>x. limits_ok (p x) \<and> \<not> pd_peer_fc (pt_tx (p x))"
  shows "link_ok l"
  using assms(1)
proof induction
  case run_start
  then show ?case using assms(2) by (rule link_ok_start)
next
  case (run_resume l x)
  then show ?case using link_ok_grant [where x = x and l = "end_upd x (user_flow True) l" and k = 0] link_ok_hold [of l x]
    by simp
qed (simp_all add: link_ok_send link_ok_receive link_ok_grant link_ok_hold)

section \<open>The handlers\<close>

text \<open>What of a port flow control depends on; no other call of a handler touches it.\<close>

definition credit_view :: "tport \<Rightarrow> u16 \<times> u16 \<times> u16 \<times> u16 \<times> bool \<times> bool \<times> nat option" where
  "credit_view p = (pt_credit_tx p, pt_credit_rx p, pt_credit_rx_max p, pt_credit_rx_low p,
     pd_peer_fc (pt_tx p), pd_user_fc (pt_rx p), pt_mcb p)"

named_theorems view_simps

lemma view_basic [view_simps]:
  "credit_view (the_port (rfc_fault s) i) = credit_view (the_port s i)"
  "credit_view (the_port (rfc_emit x s) i) = credit_view (the_port s i)"
  "credit_view (the_port (rfc_tick s) i) = credit_view (the_port s i)"
  "credit_view (the_port (mcb_upd m g s) i) = credit_view (the_port s i)"
  by (simp_all add: rfc_fault_def rfc_emit_def rfc_tick_def mcb_upd_def)

lemma view_port_upd:
  "(\<And>p. credit_view (f p) = credit_view p) \<Longrightarrow> credit_view (the_port (port_upd j f s) i) = credit_view (the_port s i)"
  by (cases "i = j") (simp_all add: port_upd_def rfc_fault_def)

lemma view_call_back [view_simps]: "credit_view (the_port (call_back j ev s) i) = credit_view (the_port s i)"
  by (simp add: call_back_def view_simps)

lemma view_flow_user [view_simps]:
  "credit_view (the_port (snd (port_flow_control_user j s)) i) = credit_view (the_port s i)"
proof -
  have "credit_view (the_port (port_upd j (\<lambda>p. p\<lparr>pt_tx := pt_tx p\<lparr>pd_user_fc := b\<rparr>\<rparr>) s) i) = credit_view (the_port s i)" for b
    by (rule view_port_upd) (simp add: credit_view_def)
  then show ?thesis by (simp add: port_flow_control_user_def Let_def)
qed

lemma view_flow_off_port [view_simps]: "credit_view (the_port (flow_off_port m j s) i) = credit_view (the_port s i)"
  by (simp add: flow_off_port_def Let_def split_beta view_simps)

lemma view_fold:
  "(\<And>j s. credit_view (the_port (f j s) i) = credit_view (the_port s i)) \<Longrightarrow>
    credit_view (the_port (fold f xs s) i) = credit_view (the_port s i)"
  by (induction xs arbitrary: s) simp_all

lemma view_flow_off [view_simps]: "credit_view (the_port (flow_off m s) i) = credit_view (the_port s i)"
  by (simp add: flow_off_def view_fold view_simps)

lemma view_link [view_simps]: "credit_view (the_port (rfc_link m g s) i) = credit_view (the_port s i)"
  by (simp add: rfc_link_def Let_def view_simps split: outcome.split)

lemma view_cmd [view_simps]: "credit_view (the_port (rfc_cmd e m g s) i) = credit_view (the_port s i)"
  by (simp add: rfc_cmd_def view_simps)

lemma drain_flow: "mcb_flow (rfc_drain_cmd_q lc l) = mcb_flow l"
proof (induction lc l rule: rfc_drain_cmd_q.induct)
  case (1 lc l)
  then show ?case
    by (subst rfc_drain_cmd_q.simps) (auto simp: L2CA_DataWrite_def Let_def split: option.split prod.split)
qed

lemma check_send_flow: "rfc_check_send_cmd lc l b = Returns l' \<Longrightarrow> mcb_flow l' = mcb_flow l"
  by (auto simp: rfc_check_send_cmd_def drain_flow obind_Returns_iff split: option.splits)

lemma buf_uih_flow: "rfc_send_buf_uih lc l d b = Returns l' \<Longrightarrow> mcb_flow l' = mcb_flow l"
  by (auto simp: rfc_send_buf_uih_def Let_def split_beta L2CA_DataWrite_def obind_Returns_iff
      dest!: check_send_flow split: if_splits)

lemma flow_off_link: "mx_link (the_mcb (flow_off k s) m) = mx_link (the_mcb s m)"
proof -
  have user: "rs_mcb (snd (port_flow_control_user j s)) = rs_mcb s" for j s
    by (simp add: port_flow_control_user_def port_upd_def rfc_fault_def Let_def)
  have "rs_mcb (call_back j ev s) = rs_mcb s" for j ev s
    by (simp add: call_back_def rfc_emit_def)
  then have port: "mx_link (the_mcb (flow_off_port k j s) m) = mx_link (the_mcb s m)" for j s
    by (simp add: flow_off_port_def Let_def split_beta user)
  have "mx_link (the_mcb (fold (flow_off_port k) xs s) m) = mx_link (the_mcb s m)" for xs s
    by (induction xs arbitrary: s) (simp_all add: port)
  then show ?thesis
    by (cases "m = k") (simp_all add: flow_off_def mcb_upd_def rfc_fault_def)
qed

lemma link_flow:
  assumes "\<And>l l'. g l = Returns l' \<Longrightarrow> mcb_flow l' = mcb_flow l"
  shows "mcb_flow (mx_link (the_mcb (rfc_link k g s) m)) = mcb_flow (mx_link (the_mcb s m))"
proof (cases "g (mx_link (the_mcb s k))")
  case (Returns l')
  then show ?thesis using assms [OF Returns]
    by (cases "m = k") (simp_all add: rfc_link_def Let_def flow_off_link mcb_upd_def rfc_fault_def)
qed (simp_all add: rfc_link_def Let_def rfc_fault_def)

lemma port_upd_at: "i < length (rs_port s) \<Longrightarrow> the_port (port_upd i f s) i = f (the_port s i)"
  by (simp add: port_upd_def)

lemma view_dec_credit:
  "credit_view p = credit_view q \<Longrightarrow> credit_view (dec_credit f p) = credit_view (dec_credit f q)"
  by (auto simp: credit_view_def dec_credit_def Let_def)

lemma sm_data_view:
  assumes "rfc_inv n A s" "i < 16" "pt_rfc_state (the_port s i) = RFC_STATE_OPENED"
    and m: "pt_mcb (the_port s i) = Some m" "mcb_flow (mx_link (the_mcb s m)) = PORT_FC_CREDIT"
  shows "credit_view (the_port (rfc_port_sm_data e i b s) i) =
    credit_view (dec_credit PORT_FC_CREDIT (snd (data_credits PORT_FC_CREDIT b (the_port s i))))"
proof (cases "data_credits PORT_FC_CREDIT b (the_port s i)")
  case (Pair b' p)
  let ?s1 = "port_upd i (\<lambda>_. p) s" let ?s2 = "send_buf_uih e m (pt_dlci p) b' ?s1"
  have len: "i < length (rs_port s)" using assms(1,2) by (simp add: rfc_inv_def)
  have view: "credit_view (the_port ?s2 i) = credit_view p"
    by (simp add: send_buf_uih_def view_simps port_upd_at [OF len])
  have "pt_mcb p = Some m" using Pair m(1) by (auto simp: data_credits_def split: if_splits)
  then have mcb: "pt_mcb (the_port ?s2 i) = Some m" using view by (simp add: credit_view_def)
  have "rs_mcb ?s1 = rs_mcb s" by (simp add: port_upd_def rfc_fault_def)
  then have flow: "mcb_flow (mx_link (the_mcb ?s2 m)) = PORT_FC_CREDIT"
    using m(2) link_flow [of "\<lambda>l. rfc_send_buf_uih (re_lc e) l (pt_dlci p) b'" m ?s1 m] buf_uih_flow
    by (simp add: send_buf_uih_def)
  have "port_ok n i (i \<in> A) (the_port s i) = port_ok n i (i \<in> A) p"
    using port_ok_credits(1) [of n i "i \<in> A" PORT_FC_CREDIT b "the_port s i"] Pair by simp
  then have "rfc_inv n A ?s2" using assms(1,2) by (intro rfc_intros) simp_all
  then have "i < length (rs_port ?s2)" using assms(2) by (simp add: rfc_inv_def)
  then have "credit_view (the_port (rfc_dec_credit i ?s2) i) = credit_view (dec_credit PORT_FC_CREDIT p)"
    using mcb flow view_dec_credit [OF view] by (simp add: port_mcb_def rfc_dec_credit_def port_upd_at)
  moreover have "rfc_port_sm_data e i b s = rfc_dec_credit i ?s2"
    using Pair assms(3) m by (simp add: rfc_port_sm_data_def port_mcb_def)
  ultimately show ?thesis using Pair by simp
qed

lemma flow_peer_view:
  assumes "rfc_inv n A s" "i < 16" and m: "pt_mcb (the_port s i) = Some m" "mcb_flow (mx_link (the_mcb s m)) = PORT_FC_CREDIT"
  shows "credit_view (the_port (port_flow_control_peer e i True k s) i) = credit_view (snd (credit_update k (the_port s i)))"
proof -
  have len: "i < length (rs_port s)" "i < length (rs_port (send_credit e m d c s))" for d c
    using assms(1,2) rfc_inv_sends(9) [OF assms(1), of e m d c] by (simp_all add: rfc_inv_def)
  have view: "credit_view (the_port (send_credit e m d c s) i) = credit_view (the_port s i)" for d c
    by (simp add: send_credit_def view_simps)
  show ?thesis using m view len
    by (cases "credit_update k (the_port s i)")
      (auto simp: port_flow_control_peer_def Let_def port_upd_at credit_view_def credit_update_def split: if_splits)
qed

text \<open>With no data waiting to be sent, credits that come in are added and let the data flow.\<close>

lemma inc_credit_view:
  assumes "rfc_inv n A s" "i < 16" and m: "pt_mcb (the_port s i) = Some m" "mcb_flow (mx_link (the_mcb s m)) = PORT_FC_CREDIT"
    and dlci: "pt_dlci (the_port s i) \<noteq> 0" "port_find_mcb_dlci_port m (pt_dlci (the_port s i)) s = Some i"
    and idle: "pd_queue_size (pt_tx (the_port s i)) = 0"
  shows "credit_view (the_port (rfc_inc_credit e i c s) i) = credit_view (inc_credit c (the_port s i))"
proof -
  let ?s1 = "port_upd i (\<lambda>p. p\<lparr>pt_credit_tx := pt_credit_tx p + ucast c\<rparr>) s"
  let ?s2 = "port_upd i (\<lambda>p. p\<lparr>pt_tx := pt_tx p\<lparr>pd_peer_fc := False\<rparr>\<rparr>) ?s1"
  have len: "i < length (rs_port s)" "i < length (rs_port ?s1)" using assms(1,2) by (simp_all add: rfc_inv_def port_upd_def)
  have p1: "the_port ?s1 i = (the_port s i)\<lparr>pt_credit_tx := pt_credit_tx (the_port s i) + ucast c\<rparr>"
    by (rule port_upd_at [OF len(1)])
  have p2: "the_port ?s2 i = inc_credit c (the_port s i)"
    by (simp only: port_upd_at [OF len(2)] p1) (simp add: inc_credit_def)
  have find: "port_find_mcb_dlci_port m (pt_dlci (the_port s i)) ?s1 = Some i"
    using dlci(2) by (simp add: port_find_mcb_dlci_port_def port_upd_def rfc_fault_def split: if_splits)
  have idle2: "pd_queue_size (pt_tx (the_port (snd (port_flow_control_user i t)) i)) = pd_queue_size (pt_tx (the_port t i))" for t
    by (simp add: port_flow_control_user_def port_upd_def rfc_fault_def Let_def nth_list_update)
  have "pd_queue_size (pt_tx (the_port ?s2 i)) = 0" by (simp only: p2) (simp add: inc_credit_def idle)
  then have "credit_view (the_port (flow_ind_port e i ?s2) i) = credit_view (the_port ?s2 i)"
    using idle2 [of ?s2] by (simp add: flow_ind_port_def port_rfc_send_tx_data_def split_beta view_simps)
  then have ind: "credit_view (the_port (PORT_FlowInd e m (pt_dlci (the_port s i)) True ?s1) i) = credit_view (inc_credit c (the_port s i))"
    using dlci(1) find p2 by (simp add: PORT_FlowInd_def)
  show ?thesis
  proof (cases "pd_peer_fc (pt_tx (the_port s i))")
    case True
    then have "rfc_inc_credit e i c s = PORT_FlowInd e m (pt_dlci (the_port s i)) True ?s1"
      using m p1 by (simp add: rfc_inc_credit_def port_mcb_def)
    then show ?thesis using ind by simp
  next
    case False
    then have "rfc_inc_credit e i c s = ?s1" using m p1 by (simp add: rfc_inc_credit_def port_mcb_def)
    then show ?thesis using False p1 by (simp add: credit_view_def inc_credit_def)
  qed
qed

text \<open>The buffers in the receive queue of a port.\<close>

definition rx_items :: "rfc_sys \<Rightarrow> nat \<Rightarrow> bt_hdr list option" where
  "rx_items s i = map_option aq_items (pd_queue (pt_rx (the_port s i)))"

lemma rx_items_calls:
  "rx_items (call_back j ev s) i = rx_items s i" "rx_items (rx_peer_fc j b s) i = rx_items s i"
  "rx_items (port_upd j (\<lambda>p. p\<lparr>pt_rx_flag_ev_pending := True\<rparr>) s) i = rx_items s i"
  "rx_items (port_upd j (\<lambda>p. p\<lparr>pt_local_ctrl := lc p, pt_expected_rsp := er p\<rparr>) s) i = rx_items s i"
  "rx_items (port_upd j (\<lambda>p. p\<lparr>pt_timer := t\<rparr>) s) i = rx_items s i"
  by (cases "i = j"; simp add: rx_items_def call_back_def rfc_emit_def rx_peer_fc_def port_upd_def rfc_fault_def)+

section \<open>Instances\<close>

definition demo_port :: tport where
  "demo_port = port_zero\<lparr>pt_peer_mtu := 127, pt_credit_rx_max := 10, pt_credit_rx_low := 4, pt_rx_buf_critical := 15\<rparr>"

lemma demo_port_ok: "limits_ok demo_port \<and> \<not> pd_peer_fc (pt_tx demo_port)"
  by (simp add: demo_port_def limits_ok_def port_zero_def zero_data_def)

lemma demo_start: "\<not> pd_peer_fc (pt_tx (cl_port (link_start (\<lambda>_. demo_port)) x))"
  by (simp add: link_start_def demo_port_def offered_def port_get_credits_def port_zero_def zero_data_def Let_def)

text \<open>A port that is open, on a multiplexer with credit based flow control.\<close>

definition demo_open :: rfc_sys where
  "demo_open = mcb_set_inx 0 2 1 (mcb_set_flow 0 PORT_FC_CREDIT (port_upd 0 (\<lambda>p. demo_port\<lparr>pt_in_use := True, pt_inx := 1,
     pt_dlci := 2, pt_mcb := Some 0, pt_state := PORT_STATE_OPENED, pt_rfc_state := RFC_STATE_OPENED,
     pt_rx := zero_data\<lparr>pd_queue := Some \<lparr>aq_items = [], aq_capacity = QUEUE_SIZE_MAX\<rparr>\<rparr>,
     pt_credit_tx := 7, pt_credit_rx := 7\<rparr>) (RFCOMM_Init 1)))"

lemma demo_open_inv: "rfc_inv 1 UNIV demo_open"
  unfolding demo_open_def
  by (intro rfc_intros rfc_inv_Init) (simp_all add: port_ok_def)

lemma demo_open_state:
  "the_port demo_open 0 = demo_port\<lparr>pt_in_use := True, pt_inx := 1,
     pt_dlci := 2, pt_mcb := Some 0, pt_state := PORT_STATE_OPENED, pt_rfc_state := RFC_STATE_OPENED,
     pt_rx := zero_data\<lparr>pd_queue := Some \<lparr>aq_items = [], aq_capacity = QUEUE_SIZE_MAX\<rparr>\<rparr>,
     pt_credit_tx := 7, pt_credit_rx := 7\<rparr>"
  "mcb_flow (mx_link (the_mcb demo_open 0)) = PORT_FC_CREDIT" "port_find_mcb_dlci_port 0 2 demo_open = Some 0"
  "length (rs_port demo_open) = 16"
  by (simp_all add: demo_open_def mcb_set_inx_def mcb_set_flow_def mcb_upd_def port_upd_def RFCOMM_Init_def
      port_find_mcb_dlci_port_def fresh_mcb_def)

section \<open>The properties\<close>





text \<open>
  C29: The handlers do with the flow control of a port just what the steps of the connection do: sending a
  buffer takes a credit and gives the peer the credits it lacks, taking buffers gives back the credits of
  \<open>credit_update\<close>, and, with no data waiting to be sent, credits that come in are added and let the data
  flow; the frames sent on the way, and what L2CAP reports meanwhile, change none of it.
\<close>

theorem credit_handlers:
  assumes "rfc_inv n A s" "i < 16" "pt_mcb (the_port s i) = Some m" "mcb_flow (mx_link (the_mcb s m)) = PORT_FC_CREDIT"
  shows "credit_view (the_port (port_flow_control_peer e i True k s) i) = credit_view (snd (credit_update k (the_port s i))) \<and>
    (if pt_rfc_state (the_port s i) = RFC_STATE_OPENED
     then credit_view (the_port (rfc_port_sm_data e i b s) i) =
       credit_view (dec_credit PORT_FC_CREDIT (snd (data_credits PORT_FC_CREDIT b (the_port s i))))
     else rfc_port_sm_data e i b s = s) \<and>
    (pt_dlci (the_port s i) \<noteq> 0 \<and> port_find_mcb_dlci_port m (pt_dlci (the_port s i)) s = Some i \<and>
       pd_queue_size (pt_tx (the_port s i)) = 0 \<longrightarrow>
     credit_view (the_port (rfc_inc_credit e i c s) i) = credit_view (inc_credit c (the_port s i)))"
  using flow_peer_view [OF assms] sm_data_view [OF assms(1,2) _ assms(3,4)] inc_credit_view [OF assms]
  by (simp add: rfc_port_sm_data_def)

theorem credit_handlers_witness:
  "credit_view (the_port (rfc_port_sm_data demo_env 0 demo_hdr demo_open) 0) =
    credit_view (dec_credit PORT_FC_CREDIT (snd (data_credits PORT_FC_CREDIT demo_hdr (the_port demo_open 0))))"
  using credit_handlers [OF demo_open_inv, of 0 0 demo_env 0 demo_hdr] by (simp add: demo_open_state)

text \<open>
  User data that arrives in a frame is put behind what the receive queue of the port of its DLCI holds,
  when the application has no data callback and the queue is within its limits: it is not dropped.
\<close>

theorem data_ind_room:
  assumes "port_find_mcb_dlci_port m d s = Some i" "i < length (rs_port s)"
    and "pt_mcb (the_port s i) = Some m" "mcb_flow (mx_link (the_mcb s m)) = PORT_FC_CREDIT"
    and "\<not> pt_data_callback (the_port s i)" "\<not> pt_data_co_callback (the_port s i)"
    and "pd_queue (pt_rx (the_port s i)) = Some q" "length (aq_items q) < unat (pt_rx_buf_critical (the_port s i))"
    and "length (aq_items q) < aq_capacity q"
    and "pd_queue_size (pt_rx (the_port s i)) + ucast (bh_len b) \<le> PORT_RX_CRITICAL_WM"
  shows "rx_items (PORT_DataInd e m d b s) i = Some (aq_items q @ [b])"
proof -
  let ?s1 = "rx_enqueue i b s"
  have items: "rx_items ?s1 i = Some (aq_items q @ [b])"
    and same: "pt_mcb (the_port ?s1 i) = Some m" "mcb_flow (mx_link (the_mcb ?s1 m)) = PORT_FC_CREDIT"
    using assms by (simp_all add: rx_enqueue_def rx_items_def aq_enqueue_def port_upd_def)
  have "rx_items (port_flow_control_peer e i False 0 ?s1) i = rx_items ?s1 i"
    using same by (simp add: port_flow_control_peer_def Let_def rx_items_calls)
  moreover have "\<not> PORT_RX_CRITICAL_WM < pd_queue_size (pt_rx (the_port s i)) + ucast (bh_len b)"
    using assms(10) by (simp add: not_less)
  moreover have "\<not> unat (pt_rx_buf_critical (the_port s i)) < Suc (queue_length (pd_queue (pt_rx (the_port s i))))"
    using assms(7,8) by (simp add: queue_length_def)
  ultimately show ?thesis using assms(1,5,6) items
    by (simp add: PORT_DataInd_def Let_def rx_items_calls)
qed

theorem data_ind_room_witness: "rx_items (PORT_DataInd demo_env 0 2 demo_hdr demo_open) 0 = Some [demo_hdr]"
  using data_ind_room [of 0 2 demo_open 0 "\<lparr>aq_items = [], aq_capacity = QUEUE_SIZE_MAX\<rparr>" demo_hdr demo_env]
  by (simp add: demo_open_state demo_port_def port_zero_def zero_data_def demo_hdr_def)

end
