(* ===== verification/OsiHashMap.thy ===== *)
theory OsiHashMap
  imports Prelude
begin

text \<open>
  The hash map of the OS layer, \<open>osi/hash_map.c\<close>, and its hash functions, \<open>osi/hash_functions.c\<close>.
  A bucket is the list object of \<open>OsiList\<close>, here by its contents (the refinement of that component
  is what makes this a faithful view), or \<open>None\<close> before its list is created; an entry is its key and
  data.  The results of the allocations of one call are parameters, the calls a removal makes (the
  key and data destructors, the release of the entry) are returned.  Reads of the bucket array are
  bounded, and a failed assertion is \<open>None\<close>.
\<close>

section \<open>The map and its operations\<close>

type_synonym size_t = u32

record ('k, 'd) hash_map =
  bucket :: "('k \<times> 'd) list option list"
  num_bucket :: size_t
  hash_size :: size_t
  hash_fn :: "'k \<Rightarrow> size_t"
  key_fn :: bool
  data_fn :: bool
  keys_are_equal :: "'k \<Rightarrow> 'k \<Rightarrow> bool"

datatype ('k, 'd) hm_call = Key_fn 'k | Data_fn 'd | Free_entry 'k 'd

text \<open>Which of the allocations of a call succeed: the bucket's list, the entry, the list's node.\<close>

record hm_mem =
  mem_list :: bool
  mem_entry :: bool
  mem_node :: bool

abbreviation "plenty \<equiv> \<lparr>mem_list = True, mem_entry = True, mem_node = True\<rparr>"

definition default_key_equality :: "'k \<Rightarrow> 'k \<Rightarrow> bool" where
  "default_key_equality x y \<longleftrightarrow> x = y"

text \<open>
  \<open>None\<close> is the failed assertion on the number of buckets, \<open>Some None\<close> a failed allocation of the map
  or of its buckets.
\<close>

definition hash_map_new_internal ::
    "bool \<Rightarrow> bool \<Rightarrow> size_t \<Rightarrow> ('k \<Rightarrow> size_t) \<Rightarrow> bool \<Rightarrow> bool \<Rightarrow> ('k \<Rightarrow> 'k \<Rightarrow> bool) option \<Rightarrow>
     ('k, 'd) hash_map option option" where
  "hash_map_new_internal map_ok bucket_ok n hash kfn dfn equality_fn =
     (if n = 0 then None
      else if \<not> map_ok then Some None
      else if \<not> bucket_ok then Some None
      else Some (Some \<lparr>bucket = replicate (unat n) None, num_bucket = n, hash_size = 0, hash_fn = hash,
             key_fn = kfn, data_fn = dfn,
             keys_are_equal = (case equality_fn of None \<Rightarrow> default_key_equality | Some f \<Rightarrow> f)\<rparr>))"

definition hash_map_new ::
    "bool \<Rightarrow> bool \<Rightarrow> size_t \<Rightarrow> ('k \<Rightarrow> size_t) \<Rightarrow> bool \<Rightarrow> bool \<Rightarrow> ('k \<Rightarrow> 'k \<Rightarrow> bool) option \<Rightarrow>
     ('k, 'd) hash_map option option" where
  "hash_map_new = hash_map_new_internal"

definition bucket_free :: "('k, 'd) hash_map \<Rightarrow> 'k \<times> 'd \<Rightarrow> ('k, 'd) hm_call list" where
  "bucket_free hm e =
     (if key_fn hm then [Key_fn (fst e)] else []) @ (if data_fn hm then [Data_fn (snd e)] else []) @
     [Free_entry (fst e) (snd e)]"

fun find_bucket_entry :: "('k \<Rightarrow> 'k \<Rightarrow> bool) \<Rightarrow> ('k \<times> 'd) list \<Rightarrow> 'k \<Rightarrow> ('k \<times> 'd) option" where
  "find_bucket_entry eq [] key = None"
| "find_bucket_entry eq (e # es) key = (if eq (fst e) key then Some e else find_bucket_entry eq es key)"

definition hash_key :: "('k, 'd) hash_map \<Rightarrow> 'k \<Rightarrow> nat" where
  "hash_key hm key = unat (hash_fn hm key mod num_bucket hm)"

text \<open>The entry of a key, through a bucket list that may be NULL.\<close>

definition find_in_bucket :: "('k, 'd) hash_map \<Rightarrow> ('k \<times> 'd) list option \<Rightarrow> 'k \<Rightarrow> ('k \<times> 'd) option" where
  "find_in_bucket hm lst key = (case lst of None \<Rightarrow> None | Some es \<Rightarrow> find_bucket_entry (keys_are_equal hm) es key)"

definition hash_map_has_key :: "('k, 'd) hash_map \<Rightarrow> 'k \<Rightarrow> bool option" where
  "hash_map_has_key hm key = do {
     lst \<leftarrow> rd (bucket hm) (hash_key hm key);
     Some (find_in_bucket hm lst key \<noteq> None)
   }"

definition hash_map_get :: "('k, 'd) hash_map \<Rightarrow> 'k \<Rightarrow> 'd option option" where
  "hash_map_get hm key = do {
     lst \<leftarrow> rd (bucket hm) (hash_key hm key);
     Some (map_option snd (find_in_bucket hm lst key))
   }"

definition put_list :: "('k, 'd) hash_map \<Rightarrow> nat \<Rightarrow> ('k \<times> 'd) list option \<Rightarrow> ('k, 'd) hash_map" where
  "put_list hm i lst = hm\<lparr>bucket := (bucket hm)[i := lst]\<rparr>"

text \<open>
  The entry found is removed from the list by its address; the entries of a list are distinct
  objects and the first one with an equal key was found, so that this is the first equal entry.
\<close>

definition hash_map_set ::
    "hm_mem \<Rightarrow> ('k, 'd) hash_map \<Rightarrow> 'k \<Rightarrow> 'd \<Rightarrow> (bool \<times> ('k, 'd) hash_map \<times> ('k, 'd) hm_call list) option" where
  "hash_map_set mem hm key data = do {
     let i = hash_key hm key;
     lst \<leftarrow> rd (bucket hm) i;
     case (if lst = None \<and> mem_list mem then Some [] else lst) of
       None \<Rightarrow> Some (False, hm, [])
     | Some es \<Rightarrow> do {
         let hm = put_list hm i (Some es);
         (es, hm, calls) \<leftarrow> (case find_in_bucket hm (Some es) key of
             Some e \<Rightarrow> (if e \<in> set es then Some (remove1 e es, hm, bucket_free hm e) else None)
           | None \<Rightarrow> Some (es, hm\<lparr>hash_size := hash_size hm + 1\<rparr>, []));
         let hm = put_list hm i (Some es);
         if \<not> mem_entry mem then Some (False, hm, calls)
         else if \<not> mem_node mem then Some (False, hm, calls)
         else Some (True, put_list hm i (Some (es @ [(key, data)])), calls)
       }
   }"

definition hash_map_erase ::
    "('k, 'd) hash_map \<Rightarrow> 'k \<Rightarrow> (bool \<times> ('k, 'd) hash_map \<times> ('k, 'd) hm_call list) option" where
  "hash_map_erase hm key = do {
     let i = hash_key hm key;
     lst \<leftarrow> rd (bucket hm) i;
     case lst of
       None \<Rightarrow> Some (False, hm, [])
     | Some es \<Rightarrow>
        (case find_in_bucket hm (Some es) key of
           None \<Rightarrow> Some (False, hm, [])
         | Some e \<Rightarrow> (let hm = hm\<lparr>hash_size := hash_size hm - 1\<rparr> in
             Some (e \<in> set es, put_list hm i (Some (remove1 e es)), bucket_free hm e)))
   }"

text \<open>The loops over the bucket array, from bucket \<open>i\<close> on.\<close>

function hash_map_clear_from :: "('k, 'd) hash_map \<Rightarrow> nat \<Rightarrow> (('k, 'd) hash_map \<times> ('k, 'd) hm_call list) option" where
  "hash_map_clear_from hm i =
     (if i < unat (num_bucket hm) then do {
        lst \<leftarrow> rd (bucket hm) i;
        case lst of
          None \<Rightarrow> hash_map_clear_from hm (i + 1)
        | Some es \<Rightarrow> do {
            (hm', calls) \<leftarrow> hash_map_clear_from (put_list hm i None) (i + 1);
            Some (hm', concat (map (bucket_free hm) es) @ calls)
          }
      } else Some (hm, []))"
  by pat_completeness auto
termination
  by (relation "measure (\<lambda>(hm, i). unat (num_bucket hm) - i)") (auto simp: put_list_def)

definition hash_map_clear :: "('k, 'd) hash_map \<Rightarrow> (('k, 'd) hash_map \<times> ('k, 'd) hm_call list) option" where
  "hash_map_clear hm = hash_map_clear_from hm 0"

definition hash_map_free :: "('k, 'd) hash_map option \<Rightarrow> ('k, 'd) hm_call list option" where
  "hash_map_free hm = (case hm of None \<Rightarrow> Some [] | Some hm \<Rightarrow> map_option snd (hash_map_clear hm))"

text \<open>The callback returns whether to go on, and the context it updates.\<close>

fun foreach_list :: "('k \<times> 'd \<Rightarrow> 'c \<Rightarrow> bool \<times> 'c) \<Rightarrow> ('k \<times> 'd) list \<Rightarrow> 'c \<Rightarrow> bool \<times> 'c" where
  "foreach_list f [] c = (True, c)"
| "foreach_list f (e # es) c = (case f e c of (go, c') \<Rightarrow> if go then foreach_list f es c' else (False, c'))"

function hash_map_foreach_from ::
    "('k, 'd) hash_map \<Rightarrow> ('k \<times> 'd \<Rightarrow> 'c \<Rightarrow> bool \<times> 'c) \<Rightarrow> nat \<Rightarrow> 'c \<Rightarrow> 'c option" where
  "hash_map_foreach_from hm f i c =
     (if i < unat (num_bucket hm) then do {
        lst \<leftarrow> rd (bucket hm) i;
        case lst of
          None \<Rightarrow> hash_map_foreach_from hm f (i + 1) c
        | Some es \<Rightarrow>
           (case foreach_list f es c of (go, c') \<Rightarrow>
              if go then hash_map_foreach_from hm f (i + 1) c' else Some c')
      } else Some c)"
  by pat_completeness auto
termination
  by (relation "measure (\<lambda>(hm, f, i, c). unat (num_bucket hm) - i)") auto

definition hash_map_foreach :: "('k, 'd) hash_map \<Rightarrow> ('k \<times> 'd \<Rightarrow> 'c \<Rightarrow> bool \<times> 'c) \<Rightarrow> 'c \<Rightarrow> 'c option" where
  "hash_map_foreach hm f c = hash_map_foreach_from hm f 0 c"

declare hash_map_clear_from.simps [simp del] hash_map_foreach_from.simps [simp del]

section \<open>Hash functions\<close>

text \<open>Keys that are pointers or integers cast to pointers are their 32-bit addresses.\<close>

definition hash_function_naive :: "u32 \<Rightarrow> size_t" where
  "hash_function_naive key = key"

definition hash_function_integer :: "u32 \<Rightarrow> size_t" where
  "hash_function_integer key = key * 2654435761"

definition hash_function_pointer :: "u32 \<Rightarrow> size_t" where
  "hash_function_pointer key = key * 2654435761"

text \<open>
  The characters of the name before its NUL; whether \<open>char\<close> is signed is the compiler's choice and a
  parameter, the conversion of a character to \<open>size_t\<close>.
\<close>

fun hash_string_loop :: "(u8 \<Rightarrow> size_t) \<Rightarrow> size_t \<Rightarrow> bytes \<Rightarrow> size_t" where
  "hash_string_loop char_val hash [] = hash"
| "hash_string_loop char_val hash (c # cs) =
     hash_string_loop char_val ((push_bit 5 hash + hash) + char_val c) cs"

definition hash_function_string :: "(u8 \<Rightarrow> size_t) \<Rightarrow> bytes \<Rightarrow> size_t" where
  "hash_function_string char_val name = hash_string_loop char_val 5381 name"

text \<open>
  One byte of a blob: \<open>h[3]\<close>, \<open>h[2]\<close>, \<open>h[1]\<close> in this order and then \<open>h[0]\<close>, computed in \<open>int\<close> and
  stored in \<open>unsigned char\<close>; the low byte of an \<open>int\<close> sum is the sum of the low bytes.
\<close>

definition hash_blob_step :: "u8 \<times> u8 \<times> u8 \<times> u8 \<Rightarrow> u8 \<Rightarrow> u8 \<times> u8 \<times> u8 \<times> u8" where
  "hash_blob_step h b = (case h of (h0, h1, h2, h3) \<Rightarrow>
     (push_bit 7 h0 + h0 + b,
      (push_bit 7 h1 OR drop_bit 1 h0) + h1,
      (push_bit 7 h2 OR drop_bit 1 h1) + h2,
      (push_bit 7 h3 OR drop_bit 1 h2) + h3))"

definition hash_function_blob :: "bytes \<Rightarrow> u8 \<times> u8 \<times> u8 \<times> u8 \<Rightarrow> u8 \<times> u8 \<times> u8 \<times> u8" where
  "hash_function_blob s h = foldl hash_blob_step h s"

section \<open>Invariant and abstraction\<close>

definition entries_of :: "('k \<times> 'd) list option \<Rightarrow> ('k \<times> 'd) list" where
  "entries_of lst = (case lst of None \<Rightarrow> [] | Some es \<Rightarrow> es)"

lemma entries_of_simps [simp]: "entries_of None = []" "entries_of (Some es) = es"
  by (simp_all add: entries_of_def)

definition all_entries :: "('k, 'd) hash_map \<Rightarrow> ('k \<times> 'd) list" where
  "all_entries hm = concat (map entries_of (bucket hm))"

definition distinct_keys :: "('k \<Rightarrow> 'k \<Rightarrow> bool) \<Rightarrow> ('k \<times> 'd) list \<Rightarrow> bool" where
  "distinct_keys eq es \<longleftrightarrow> sorted_wrt (\<lambda>a b. \<not> eq (fst a) (fst b)) es"

text \<open>Equality of keys is an equivalence that the hash function respects.\<close>

definition key_contract :: "('k \<Rightarrow> 'k \<Rightarrow> bool) \<Rightarrow> ('k \<Rightarrow> size_t) \<Rightarrow> bool" where
  "key_contract eq hash \<longleftrightarrow> equivp eq \<and> (\<forall>x y. eq x y \<longrightarrow> hash x = hash y)"

lemma key_contract_default [simp]: "key_contract default_key_equality hash"
  unfolding key_contract_def default_key_equality_def by (auto intro: equivpI reflpI sympI transpI)

definition hm_ok :: "('k, 'd) hash_map \<Rightarrow> bool" where
  "hm_ok hm \<longleftrightarrow> num_bucket hm \<noteq> 0 \<and> length (bucket hm) = unat (num_bucket hm) \<and>
     key_contract (keys_are_equal hm) (hash_fn hm) \<and>
     (\<forall>i < length (bucket hm). distinct_keys (keys_are_equal hm) (entries_of (bucket hm ! i)) \<and>
        (\<forall>e \<in> set (entries_of (bucket hm ! i)). hash_key hm (fst e) = i)) \<and>
     hash_size hm = of_nat (length (all_entries hm))"

text \<open>What the map holds for a key.\<close>

definition hm_map :: "('k, 'd) hash_map \<Rightarrow> 'k \<Rightarrow> 'd option" where
  "hm_map hm key = map_option snd
     (find_bucket_entry (keys_are_equal hm) (entries_of (bucket hm ! hash_key hm key)) key)"

lemma find_in_bucket: "find_in_bucket hm lst key = find_bucket_entry (keys_are_equal hm) (entries_of lst) key"
  by (simp add: find_in_bucket_def split: option.splits)

lemma hash_key_less:
  "num_bucket hm \<noteq> 0 \<Longrightarrow> length (bucket hm) = unat (num_bucket hm) \<Longrightarrow> hash_key hm key < length (bucket hm)"
  by (simp add: hash_key_def unat_mod word_unat_eq_iff)

lemma hm_ok_key: "hm_ok hm \<Longrightarrow> hash_key hm key < length (bucket hm)"
  unfolding hm_ok_def using hash_key_less [of hm key] by blast

lemma hm_ok_rd: "hm_ok hm \<Longrightarrow> rd (bucket hm) (hash_key hm key) = Some (bucket hm ! hash_key hm key)"
  by (simp add: rd_def hm_ok_key)

section \<open>Buckets as association lists\<close>

lemma find_entry_set: "find_bucket_entry eq es k = Some e \<Longrightarrow> e \<in> set es \<and> eq (fst e) k"
  by (induction es) (auto split: if_splits)

lemma find_entry_None: "find_bucket_entry eq es k = None \<longleftrightarrow> (\<forall>e \<in> set es. \<not> eq (fst e) k)"
  by (induction es) auto

lemma find_entry_append:
  "find_bucket_entry eq (es @ es') k =
     (case find_bucket_entry eq es k of None \<Rightarrow> find_bucket_entry eq es' k | Some e \<Rightarrow> Some e)"
  by (induction es) auto

lemma find_entry_cong:
  assumes "equivp eq" "eq k k'"
  shows "find_bucket_entry eq es k = find_bucket_entry eq es k'"
proof (induction es)
  case (Cons e es)
  have "eq (fst e) k \<longleftrightarrow> eq (fst e) k'" using assms equivp_symp equivp_transp by metis
  with Cons show ?case by simp
qed simp

text \<open>An equal key is found nowhere in the rest of the list.\<close>

lemma distinct_keys_remove:
  assumes "equivp eq" "distinct_keys eq es" "find_bucket_entry eq es k = Some e"
  shows "distinct_keys eq (remove1 e es) \<and>
    find_bucket_entry eq (remove1 e es) k' = (if eq k k' then None else find_bucket_entry eq es k')"
  using assms(2,3)
proof (induction es)
  case (Cons a es)
  show ?case
  proof (cases "eq (fst a) k")
    case True
    have "eq (fst a) k' \<longleftrightarrow> eq k k'" using True assms(1) equivp_symp equivp_transp by metis
    moreover have "eq (fst a) k' \<Longrightarrow> find_bucket_entry eq es k' = None"
      using Cons.prems(1) assms(1) equivp_symp equivp_transp
      unfolding find_entry_None distinct_keys_def by (metis sorted_wrt.simps(2))
    ultimately show ?thesis using Cons.prems True by (simp add: distinct_keys_def)
  next
    case False
    then have e: "find_bucket_entry eq es k = Some e" using Cons.prems by simp
    then have "e \<in> set es" "eq (fst e) k" using find_entry_set by fast+
    then have "e \<noteq> a" using False by auto
    moreover have "\<not> (eq k k' \<and> eq (fst a) k')" using False assms(1) equivp_symp equivp_transp by metis
    moreover have "set (remove1 e es) \<subseteq> set es" by (rule set_remove1_subset)
    ultimately show ?thesis
      using Cons.IH [OF _ e] Cons.prems(1) by (auto simp: distinct_keys_def)
  qed
qed simp

lemma distinct_keys_snoc:
  assumes "equivp eq" "distinct_keys eq es" "find_bucket_entry eq es k = None"
  shows "distinct_keys eq (es @ [(k, d)])"
    "find_bucket_entry eq (es @ [(k, d)]) k' = (if eq k k' then Some (k, d) else find_bucket_entry eq es k')"
proof -
  have none: "\<forall>e \<in> set es. \<not> eq (fst e) k" using assms(3) by (simp add: find_entry_None)
  then show "distinct_keys eq (es @ [(k, d)])"
    using assms(2) by (auto simp: distinct_keys_def sorted_wrt_append)
  have "eq k k' \<Longrightarrow> find_bucket_entry eq es k' = None"
    using find_entry_cong [OF assms(1)] assms(3) by metis
  then show "find_bucket_entry eq (es @ [(k, d)]) k' =
      (if eq k k' then Some (k, d) else find_bucket_entry eq es k')"
    by (simp add: find_entry_append split: option.splits)
qed

section \<open>One bucket changes\<close>

lemma put_list_simps [simp]:
  "bucket (put_list hm i l) = (bucket hm)[i := l]" "num_bucket (put_list hm i l) = num_bucket hm"
  "hash_size (put_list hm i l) = hash_size hm" "hash_fn (put_list hm i l) = hash_fn hm"
  "keys_are_equal (put_list hm i l) = keys_are_equal hm" "key_fn (put_list hm i l) = key_fn hm"
  "data_fn (put_list hm i l) = data_fn hm" "put_list (put_list hm i l) i l' = put_list hm i l'"
  "hash_key (put_list hm i l) k = hash_key hm k"
  "hash_size_update f (put_list hm i l) = put_list (hash_size_update f hm) i l"
  by (simp_all add: put_list_def hash_key_def)

lemma hash_key_size [simp]: "hash_key (hash_size_update f hm) k = hash_key hm k"
  by (simp add: hash_key_def)

lemma length_concat_update:
  "i < length xs \<Longrightarrow> length (concat (map entries_of (xs[i := l]))) + length (entries_of (xs ! i)) =
     length (concat (map entries_of xs)) + length (entries_of l)"
proof (induction xs arbitrary: i)
  case (Cons x xs)
  then show ?case by (cases i) auto
qed simp

text \<open>
  The step both updates take: the bucket of \<open>k\<close> becomes \<open>es'\<close>, with the same answers but for keys
  equal to \<open>k\<close>, and the counter follows the number of entries.
\<close>

lemma hm_bucket_step:
  fixes hm :: "('k, 'd) hash_map"
  assumes ok: "hm_ok hm" and i: "i = hash_key hm k"
    and d: "distinct_keys (keys_are_equal hm) es'"
    and h: "\<And>e. e \<in> set es' \<Longrightarrow> e \<in> set (entries_of (bucket hm ! i)) \<or> fst e = k"
    and f: "\<And>k'. find_bucket_entry (keys_are_equal hm) es' k' =
      (if keys_are_equal hm k k' then v else find_bucket_entry (keys_are_equal hm) (entries_of (bucket hm ! i)) k')"
    and n: "n + of_nat (length (entries_of (bucket hm ! i))) = hash_size hm + of_nat (length es')"
  shows "hm_ok (put_list (hm\<lparr>hash_size := n\<rparr>) i (Some es'))"
    and "hm_map (put_list (hm\<lparr>hash_size := n\<rparr>) i (Some es')) k' =
      (if keys_are_equal hm k k' then map_option snd v else hm_map hm k')"
proof -
  have i_lt: "i < length (bucket hm)" using hm_ok_key [OF ok] i by simp
  let ?old = "entries_of (bucket hm ! i)"
  let ?hm = "put_list (hm\<lparr>hash_size := n\<rparr>) i (Some es')"
  have len: "length (all_entries ?hm) + length ?old = length (all_entries hm) + length es'"
    using length_concat_update [OF i_lt, of "Some es'"] by (simp add: all_entries_def)
  have "n = of_nat (length (all_entries ?hm))"
  proof -
    have "(of_nat (length (all_entries ?hm)) :: size_t) + of_nat (length ?old) =
        of_nat (length (all_entries hm)) + of_nat (length es')"
      using arg_cong [OF len, of "of_nat :: nat \<Rightarrow> size_t"] by simp
    with n ok show ?thesis unfolding hm_ok_def by (metis add_right_cancel)
  qed
  moreover have "\<forall>e \<in> set es'. hash_key hm (fst e) = i"
    using h ok i i_lt unfolding hm_ok_def by blast
  ultimately show "hm_ok ?hm"
    using ok d i_lt unfolding hm_ok_def by (auto simp: nth_list_update)
  have key: "keys_are_equal hm k k' \<Longrightarrow> hash_key hm k' = i"
    using ok i unfolding hm_ok_def key_contract_def hash_key_def by metis
  show "hm_map ?hm k' = (if keys_are_equal hm k k' then map_option snd v else hm_map hm k')"
  proof (cases "hash_key hm k' = i")
    case True
    with i_lt f [of k'] show ?thesis by (simp add: hm_map_def nth_list_update)
  next
    case False
    with key show ?thesis by (auto simp: hm_map_def nth_list_update)
  qed
qed

lemma equivp_ok: "hm_ok hm \<Longrightarrow> equivp (keys_are_equal hm)"
  by (simp add: hm_ok_def key_contract_def)

lemma bucket_distinct: "hm_ok hm \<Longrightarrow> distinct_keys (keys_are_equal hm) (entries_of (bucket hm ! hash_key hm k))"
  using hm_ok_key [of hm k] by (simp add: hm_ok_def)

lemma hash_size_same: "hm\<lparr>hash_size := hash_size hm\<rparr> = (hm :: ('k, 'd) hash_map)"
  by (cases hm) simp

text \<open>Removal of the entry of a key that is there.\<close>

lemma hm_remove_step:
  assumes ok: "hm_ok hm" and e: "find_bucket_entry (keys_are_equal hm) (entries_of (bucket hm ! hash_key hm k)) k = Some e"
  defines "hm' \<equiv> put_list (hm\<lparr>hash_size := hash_size hm - 1\<rparr>) (hash_key hm k)
    (Some (remove1 e (entries_of (bucket hm ! hash_key hm k))))"
  shows "hm_ok hm'" and "hm_map hm' k' = (if keys_are_equal hm k k' then None else hm_map hm k')"
proof -
  let ?es = "entries_of (bucket hm ! hash_key hm k)"
  have mem: "e \<in> set ?es" using find_entry_set [OF e] by simp
  have f: "distinct_keys (keys_are_equal hm) (remove1 e ?es) \<and>
    find_bucket_entry (keys_are_equal hm) (remove1 e ?es) k' =
      (if keys_are_equal hm k k' then None else find_bucket_entry (keys_are_equal hm) ?es k')" for k'
    using distinct_keys_remove [OF equivp_ok [OF ok] bucket_distinct [OF ok] e] by blast
  have n: "hash_size hm - 1 + of_nat (length ?es) = hash_size hm + of_nat (length (remove1 e ?es))"
  proof -
    obtain m where m: "length ?es = Suc m" using mem by (cases ?es) auto
    then have "length (remove1 e ?es) = m" using mem by (simp add: length_remove1)
    then show ?thesis unfolding m by simp
  qed
  have s: "a \<in> set (remove1 e ?es) \<Longrightarrow> a \<in> set ?es \<or> fst a = k" for a
    using set_remove1_subset [of e ?es] by blast
  note step = hm_bucket_step [OF ok refl conjunct1 [OF f] s conjunct2 [OF f] n]
  show "hm_ok hm'" unfolding hm'_def by (rule step(1))
  show "hm_map hm' k' = (if keys_are_equal hm k k' then None else hm_map hm k')"
    unfolding hm'_def using step(2) [of k'] by simp
qed

text \<open>Appending an entry for a key that is not there.\<close>

lemma hm_append_step:
  fixes d :: 'd
  assumes ok: "hm_ok hm" and e: "find_bucket_entry (keys_are_equal hm) (entries_of (bucket hm ! hash_key hm k)) k = None"
  defines "hm' \<equiv> put_list (hm\<lparr>hash_size := hash_size hm + 1\<rparr>) (hash_key hm k)
    (Some (entries_of (bucket hm ! hash_key hm k) @ [(k, d)]))"
  shows "hm_ok hm'" and "hm_map hm' k' = (if keys_are_equal hm k k' then Some d else hm_map hm k')"
proof -
  let ?es = "entries_of (bucket hm ! hash_key hm k)"
  note f = distinct_keys_snoc [OF equivp_ok [OF ok] bucket_distinct [OF ok] e]
  have n: "hash_size hm + 1 + of_nat (length ?es) = hash_size hm + of_nat (length (?es @ [(k, d)]))"
    by simp
  have s: "a \<in> set (?es @ [(k, d)]) \<Longrightarrow> a \<in> set ?es \<or> fst a = k" for a by auto
  note step = hm_bucket_step [OF ok refl f(1) s f(2) n]
  show "hm_ok hm'" unfolding hm'_def by (rule step(1))
  show "hm_map hm' k' = (if keys_are_equal hm k k' then Some d else hm_map hm k')"
    unfolding hm'_def using step(2) [of k'] by simp
qed

section \<open>The operations\<close>

text \<open>\<open>replaced hm k\<close> is the entry an insertion finds for an equal key.\<close>

definition replaced :: "('k, 'd) hash_map \<Rightarrow> 'k \<Rightarrow> ('k \<times> 'd) option" where
  "replaced hm k = find_bucket_entry (keys_are_equal hm) (entries_of (bucket hm ! hash_key hm k)) k"

lemma hm_map_replaced: "hm_map hm k = map_option snd (replaced hm k)"
  by (simp add: hm_map_def replaced_def)

lemma hash_map_get_ok: "hm_ok hm \<Longrightarrow> hash_map_get hm k = Some (hm_map hm k)"
  by (simp add: hash_map_get_def hm_ok_rd find_in_bucket hm_map_def)

lemma hash_map_has_key_ok: "hm_ok hm \<Longrightarrow> hash_map_has_key hm k = Some (hm_map hm k \<noteq> None)"
  by (simp add: hash_map_has_key_def hm_ok_rd find_in_bucket hm_map_def)

lemma hm_ok_new:
  assumes "n \<noteq> 0" "key_contract (case eq of None \<Rightarrow> default_key_equality | Some f \<Rightarrow> f) hash"
  shows "\<exists>hm. hash_map_new True True n hash kf df eq = Some (Some hm) \<and> hm_ok hm \<and>
    (\<forall>k. hm_map hm k = None) \<and> keys_are_equal hm = (case eq of None \<Rightarrow> default_key_equality | Some f \<Rightarrow> f)"
proof -
  have "concat (map entries_of (replicate m None)) = []" for m by (induction m) simp_all
  with assms show ?thesis
    by (auto simp: hash_map_new_def hash_map_new_internal_def hm_ok_def all_entries_def distinct_keys_def
        hm_map_def hash_key_def unat_mod word_unat_eq_iff)
qed

text \<open>With memory, an insertion is the removal of an equal key followed by an append.\<close>

lemma hash_map_set_fresh:
  assumes "hm_ok hm" "replaced hm k = None"
  shows "hash_map_set plenty hm k d = Some (True, put_list (hm\<lparr>hash_size := hash_size hm + 1\<rparr>)
      (hash_key hm k) (Some (entries_of (bucket hm ! hash_key hm k) @ [(k, d)])), [])"
  using assms
  by (cases "bucket hm ! hash_key hm k")
     (simp_all add: hash_map_set_def hm_ok_rd find_in_bucket replaced_def Let_def)

lemma hash_map_set_again:
  assumes "hm_ok hm" "replaced hm k = Some e"
  shows "hash_map_set plenty hm k d = Some (True, put_list hm
      (hash_key hm k) (Some (remove1 e (entries_of (bucket hm ! hash_key hm k)) @ [(k, d)])), bucket_free hm e)"
  using assms find_entry_set [of "keys_are_equal hm" "entries_of (bucket hm ! hash_key hm k)" k e]
  by (cases "bucket hm ! hash_key hm k")
     (simp_all add: hash_map_set_def hm_ok_rd find_in_bucket replaced_def Let_def bucket_free_def)

lemma hash_map_erase_found:
  assumes "hm_ok hm" "replaced hm k = Some e"
  shows "hash_map_erase hm k = Some (True, put_list (hm\<lparr>hash_size := hash_size hm - 1\<rparr>)
      (hash_key hm k) (Some (remove1 e (entries_of (bucket hm ! hash_key hm k)))), bucket_free hm e)"
  using assms find_entry_set [of "keys_are_equal hm" "entries_of (bucket hm ! hash_key hm k)" k e]
  by (cases "bucket hm ! hash_key hm k")
     (simp_all add: hash_map_erase_def hm_ok_rd find_in_bucket replaced_def Let_def bucket_free_def)

lemma hash_map_erase_missing:
  assumes "hm_ok hm" "replaced hm k = None"
  shows "hash_map_erase hm k = Some (False, hm, [])"
  using assms
  by (cases "bucket hm ! hash_key hm k")
     (simp_all add: hash_map_erase_def hm_ok_rd find_in_bucket replaced_def Let_def)

lemma put_list_bump:
  fixes hm :: "('k, 'd) hash_map"
  shows "put_list ((put_list (hm\<lparr>hash_size := n\<rparr>) i l)\<lparr>hash_size := hash_size hm\<rparr>) i l' = put_list hm i l'"
  by (cases hm) (simp add: put_list_def)

lemma hash_map_set_ok:
  assumes ok: "hm_ok hm"
  shows "\<exists>hm'. hash_map_set plenty hm k d =
      Some (True, hm', case replaced hm k of None \<Rightarrow> [] | Some e \<Rightarrow> bucket_free hm e) \<and>
    hm_ok hm' \<and> (\<forall>k'. hm_map hm' k' = (if keys_are_equal hm k k' then Some d else hm_map hm k'))"
proof (cases "replaced hm k")
  case None
  then show ?thesis
    using hash_map_set_fresh [OF ok None, of d] hm_append_step [OF ok None [unfolded replaced_def], of d]
    by auto
next
  case (Some e)
  let ?i = "hash_key hm k" and ?es = "entries_of (bucket hm ! hash_key hm k)"
  define hm1 where "hm1 = put_list (hm\<lparr>hash_size := hash_size hm - 1\<rparr>) ?i (Some (remove1 e ?es))"
  note r = hm_remove_step [OF ok Some [unfolded replaced_def], folded hm1_def]
  have i: "?i < length (bucket hm)" using hm_ok_key [OF ok] .
  have b: "entries_of (bucket hm1 ! ?i) = remove1 e ?es" and ks: "hash_key hm1 k = ?i"
    "keys_are_equal hm1 = keys_are_equal hm" "hash_size hm1 + 1 = hash_size hm"
    using i by (simp_all add: hm1_def)
  have "keys_are_equal hm k k" using equivp_ok [OF ok] equivp_reflp by metis
  then have "hm_map hm1 k = None" using r(2) [of k] by simp
  then have n: "find_bucket_entry (keys_are_equal hm1) (entries_of (bucket hm1 ! hash_key hm1 k)) k = None"
    by (simp add: hm_map_def)
  note a = hm_append_step [OF r(1) n, of d]
  have "put_list (hm1\<lparr>hash_size := hash_size hm1 + 1\<rparr>) (hash_key hm1 k)
      (Some (entries_of (bucket hm1 ! hash_key hm1 k) @ [(k, d)])) =
    put_list hm ?i (Some (remove1 e ?es @ [(k, d)]))"
    unfolding ks b unfolding hm1_def by (rule put_list_bump)
  with a r(2) hash_map_set_again [OF ok Some, of d] Some show ?thesis by (auto simp: ks)
qed

lemma hash_map_erase_ok:
  assumes ok: "hm_ok hm"
  shows "\<exists>hm'. hash_map_erase hm k =
      Some (hm_map hm k \<noteq> None, hm', case replaced hm k of None \<Rightarrow> [] | Some e \<Rightarrow> bucket_free hm e) \<and>
    hm_ok hm' \<and> (\<forall>k'. hm_map hm' k' = (if keys_are_equal hm k k' then None else hm_map hm k'))"
proof (cases "replaced hm k")
  case None
  have "hm_map hm k' = None" if "keys_are_equal hm k k'" for k'
  proof -
    have "hash_key hm k' = hash_key hm k"
      using that ok unfolding hm_ok_def key_contract_def hash_key_def by metis
    with None find_entry_cong [OF equivp_ok [OF ok] that, of "entries_of (bucket hm ! hash_key hm k)"]
    show ?thesis unfolding hm_map_def replaced_def by simp
  qed
  then show ?thesis
    using hash_map_erase_missing [OF ok None] ok None by (auto simp: hm_map_replaced)
next
  case (Some e)
  then show ?thesis
    using hash_map_erase_found [OF ok Some] hm_remove_step [OF ok Some [unfolded replaced_def]]
    by (auto simp: hm_map_replaced)
qed

section \<open>The map as a dictionary\<close>

text \<open>An update of a dictionary, and what a sequence of them, latest first, says of a key.\<close>

datatype ('k, 'd) dict_op = Store 'k 'd | Erase 'k

fun latest :: "('k \<Rightarrow> 'k \<Rightarrow> bool) \<Rightarrow> ('k, 'd) dict_op list \<Rightarrow> ('k \<Rightarrow> 'd option) \<Rightarrow> 'k \<Rightarrow> 'd option" where
  "latest eq [] m k = m k"
| "latest eq (Store k d # ops) m k' = (if eq k k' then Some d else latest eq ops m k')"
| "latest eq (Erase k # ops) m k' = (if eq k k' then None else latest eq ops m k')"

locale dictionary =
  fixes valid :: "'s \<Rightarrow> bool" and lookup :: "'s \<Rightarrow> 'k \<Rightarrow> 'd option" and same :: "'s \<Rightarrow> 'k \<Rightarrow> 'k \<Rightarrow> bool"
    and store :: "'s \<Rightarrow> 'k \<Rightarrow> 'd \<Rightarrow> 's" and erase :: "'s \<Rightarrow> 'k \<Rightarrow> 's"
  assumes valid_store: "valid s \<Longrightarrow> valid (store s k d)"
    and valid_erase: "valid s \<Longrightarrow> valid (erase s k)"
    and lookup_store: "valid s \<Longrightarrow> lookup (store s k d) k' = (if same s k k' then Some d else lookup s k')"
    and lookup_erase: "valid s \<Longrightarrow> lookup (erase s k) k' = (if same s k k' then None else lookup s k')"
    and same_store: "valid s \<Longrightarrow> same (store s k d) = same s"
    and same_erase: "valid s \<Longrightarrow> same (erase s k) = same s"
begin

definition apply_op :: "('k, 'd) dict_op \<Rightarrow> 's \<Rightarrow> 's" where
  "apply_op op s = (case op of Store k d \<Rightarrow> store s k d | Erase k \<Rightarrow> erase s k)"

lemma apply_op_simps [simp]: "apply_op (Store k d) s = store s k d" "apply_op (Erase k) s = erase s k"
  by (simp_all add: apply_op_def)

lemma run_valid: "valid s \<Longrightarrow> valid (foldr apply_op ops s) \<and> same (foldr apply_op ops s) = same s"
proof (induction ops)
  case (Cons op ops)
  then show ?case by (cases op) (auto simp: valid_store valid_erase same_store same_erase)
qed simp

lemma run_lookup: "valid s \<Longrightarrow> lookup (foldr apply_op ops s) k = latest (same s) ops (lookup s) k"
proof (induction ops)
  case (Cons op ops)
  then show ?case by (cases op) (auto simp: lookup_store lookup_erase run_valid)
qed simp

end

definition hm_store :: "('k, 'd) hash_map \<Rightarrow> 'k \<Rightarrow> 'd \<Rightarrow> ('k, 'd) hash_map" where
  "hm_store hm k d = (case hash_map_set plenty hm k d of Some (_, hm', _) \<Rightarrow> hm' | None \<Rightarrow> hm)"

definition hm_erase :: "('k, 'd) hash_map \<Rightarrow> 'k \<Rightarrow> ('k, 'd) hash_map" where
  "hm_erase hm k = (case hash_map_erase hm k of Some (_, hm', _) \<Rightarrow> hm' | None \<Rightarrow> hm)"

lemma hm_store_fields: "hm_ok hm \<Longrightarrow> keys_are_equal (hm_store hm k d) = keys_are_equal hm"
  by (cases "replaced hm k") (simp_all add: hm_store_def hash_map_set_fresh hash_map_set_again)

lemma hm_erase_fields: "hm_ok hm \<Longrightarrow> keys_are_equal (hm_erase hm k) = keys_are_equal hm"
  by (cases "replaced hm k") (simp_all add: hm_erase_def hash_map_erase_found hash_map_erase_missing)

interpretation hmd: dictionary hm_ok hm_map keys_are_equal hm_store hm_erase
proof unfold_locales
  fix s :: "('k, 'd) hash_map" and k k' d
  assume ok: "hm_ok s"
  obtain hm' c where s: "hash_map_set plenty s k d = Some (True, hm', c)" "hm_ok hm'"
      "\<And>k'. hm_map hm' k' = (if keys_are_equal s k k' then Some d else hm_map s k')"
    using hash_map_set_ok [OF ok, of k d] by auto
  then show "hm_ok (hm_store s k d)"
    "hm_map (hm_store s k d) k' = (if keys_are_equal s k k' then Some d else hm_map s k')"
    by (simp_all add: hm_store_def)
  obtain b hm'' c where e: "hash_map_erase s k = Some (b, hm'', c)" "hm_ok hm''"
      "\<And>k'. hm_map hm'' k' = (if keys_are_equal s k k' then None else hm_map s k')"
    using hash_map_erase_ok [OF ok, of k] by auto
  then show "hm_ok (hm_erase s k)"
    "hm_map (hm_erase s k) k' = (if keys_are_equal s k k' then None else hm_map s k')"
    by (simp_all add: hm_erase_def)
  show "keys_are_equal (hm_store s k d) = keys_are_equal s" by (rule hm_store_fields [OF ok])
  show "keys_are_equal (hm_erase s k) = keys_are_equal s" by (rule hm_erase_fields [OF ok])
qed

text \<open>A sequence of calls on a map, latest first, none of which may fail.\<close>

fun hm_calls :: "('k, 'd) dict_op list \<Rightarrow> ('k, 'd) hash_map \<Rightarrow> ('k, 'd) hash_map option" where
  "hm_calls [] hm = Some hm"
| "hm_calls (Store k d # ops) hm = do {
     hm \<leftarrow> hm_calls ops hm;
     (rc, hm, _) \<leftarrow> hash_map_set plenty hm k d;
     if rc then Some hm else None
   }"
| "hm_calls (Erase k # ops) hm = do {
     hm \<leftarrow> hm_calls ops hm;
     (_, hm, _) \<leftarrow> hash_map_erase hm k;
     Some hm
   }"

lemma hm_calls_run: "hm_ok hm \<Longrightarrow> hm_calls ops hm = Some (foldr hmd.apply_op ops hm)"
proof (induction ops)
  case (Cons op ops)
  let ?s = "foldr hmd.apply_op ops hm"
  have ok: "hm_ok ?s" using hmd.run_valid Cons.prems by blast
  show ?case
  proof (cases op)
    case (Store k d)
    obtain hm' c where s: "hash_map_set plenty ?s k d = Some (True, hm', c)"
      using hash_map_set_ok [OF ok, of k d] by auto
    then have "hm_store ?s k d = hm'" by (simp add: hm_store_def)
    with s Cons Store show ?thesis by simp
  next
    case (Erase k)
    obtain b hm' c where e: "hash_map_erase ?s k = Some (b, hm', c)"
      using hash_map_erase_ok [OF ok, of k] by auto
    then have "hm_erase ?s k = hm'" by (simp add: hm_erase_def)
    with e Cons Erase show ?thesis by simp
  qed
qed simp

text \<open>
  C8: After any sequence of insertions and removals on a new hash map, with whatever number of
  buckets, hash function and compatible equality of keys, every call succeeds and the map returns
  for a key the data of the latest insertion of an equal key, and nothing if none was inserted or
  the key was removed since; the counter of entries is the number of entries.
\<close>
theorem hash_map_history:
  fixes ops :: "('k, 'd) dict_op list"
  assumes "n \<noteq> 0" and "key_contract (case eq of None \<Rightarrow> default_key_equality | Some f \<Rightarrow> f) hash"
  shows "\<exists>hm hm'. hash_map_new True True n hash kf df eq = Some (Some hm) \<and> hm_calls ops hm = Some hm' \<and>
    hash_map_get hm' k = Some (latest (case eq of None \<Rightarrow> default_key_equality | Some f \<Rightarrow> f) ops (\<lambda>_. None) k) \<and>
    hash_map_has_key hm' k = Some (latest (case eq of None \<Rightarrow> default_key_equality | Some f \<Rightarrow> f) ops (\<lambda>_. None) k \<noteq> None) \<and>
    hash_size hm' = of_nat (length (all_entries hm'))"
proof -
  let ?eq = "case eq of None \<Rightarrow> default_key_equality | Some f \<Rightarrow> f"
  obtain hm :: "('k, 'd) hash_map" where hm: "hash_map_new True True n hash kf df eq = Some (Some hm)" "hm_ok hm"
      "\<And>k. hm_map hm k = None" "keys_are_equal hm = ?eq"
    using hm_ok_new [OF assms] by blast
  then have empty: "hm_map hm = (\<lambda>_. None)" by (simp add: fun_eq_iff)
  have r: "hm_calls ops hm = Some (foldr hmd.apply_op ops hm)" "hm_ok (foldr hmd.apply_op ops hm)"
    using hm_calls_run [OF hm(2)] hmd.run_valid [OF hm(2)] by blast+
  moreover have "hm_map (foldr hmd.apply_op ops hm) k = latest ?eq ops (\<lambda>_. None) k"
    using hmd.run_lookup [OF hm(2), of ops k] empty hm(4) by simp
  moreover have "hash_size (foldr hmd.apply_op ops hm) = of_nat (length (all_entries (foldr hmd.apply_op ops hm)))"
    using r(2) by (simp add: hm_ok_def)
  ultimately show ?thesis
    using hm(1) hash_map_get_ok [OF r(2), of k] hash_map_has_key_ok [OF r(2), of k] by auto
qed

theorem hash_map_history_witness:
  "\<exists>hm hm'. hash_map_new True True 42 hash_function_naive False False None = Some (Some hm) \<and>
     hm_calls [Erase 1, Store 43 ''b'', Store 1 ''a''] hm = Some hm' \<and> hash_map_get hm' 43 = Some (Some ''b'')"
  using hash_map_history [of 42 None hash_function_naive False False "[Erase 1, Store 43 ''b'', Store 1 ''a'']" 43]
  by (auto simp: default_key_equality_def)

section \<open>Failed insertions, clearing and iteration\<close>

text \<open>
  An insertion that finds no memory for its entry or for its list node reports failure, but it
  has removed, and released, the entry of an equal key that was there before; and the counter of
  entries is one too high from then on, for a new key and for a known one.
\<close>
theorem hash_map_set_without_memory:
  assumes ok: "hm_ok hm" and mem: "mem_list mem" "\<not> mem_entry mem \<or> \<not> mem_node mem"
  shows "\<exists>hm'. hash_map_set mem hm k d =
      Some (False, hm', case replaced hm k of None \<Rightarrow> [] | Some e \<Rightarrow> bucket_free hm e) \<and>
    hash_map_get hm' k = Some None \<and>
    hash_size hm' = of_nat (length (all_entries hm')) + 1"
proof (cases "replaced hm k")
  case None
  let ?i = "hash_key hm k" and ?es = "entries_of (bucket hm ! hash_key hm k)"
  define hm' where "hm' = put_list (hm\<lparr>hash_size := hash_size hm + 1\<rparr>) ?i (Some ?es)"
  have i: "?i < length (bucket hm)" by (rule hm_ok_key [OF ok])
  have "hash_map_set mem hm k d = Some (False, hm', [])"
    using ok None mem
    by (cases "bucket hm ! ?i")
       (auto simp: hash_map_set_def hm_ok_rd find_in_bucket replaced_def Let_def hm'_def)
  moreover have "hash_map_get hm' k = Some None"
    using None i by (simp add: hash_map_get_def rd_def find_in_bucket hm'_def replaced_def)
  moreover have "length (all_entries hm') = length (all_entries hm)"
    using length_concat_update [OF i, of "Some ?es"] by (simp add: all_entries_def hm'_def)
  then have "hash_size hm' = of_nat (length (all_entries hm')) + 1"
    using ok by (simp add: hm'_def hm_ok_def)
  ultimately show ?thesis using None by auto
next
  case (Some e)
  let ?i = "hash_key hm k" and ?es = "entries_of (bucket hm ! hash_key hm k)"
  define hm' where "hm' = put_list hm ?i (Some (remove1 e ?es))"
  define hm1 where "hm1 = put_list (hm\<lparr>hash_size := hash_size hm - 1\<rparr>) ?i (Some (remove1 e ?es))"
  note r = hm_remove_step [OF ok Some [unfolded replaced_def], folded hm1_def]
  have i: "?i < length (bucket hm)" by (rule hm_ok_key [OF ok])
  have e: "e \<in> set ?es" using Some find_entry_set by (fastforce simp: replaced_def)
  then obtain l where l: "bucket hm ! ?i = Some l" by (cases "bucket hm ! ?i") auto
  have "hash_map_set mem hm k d = Some (False, hm', bucket_free hm e)"
    using ok Some mem e l
    by (auto simp: hash_map_set_def hm_ok_rd find_in_bucket replaced_def Let_def hm'_def bucket_free_def)
  moreover have "hm_map hm1 k = None" using r(2) [of k] equivp_ok [OF ok] equivp_reflp by metis
  then have "hash_map_get hm' k = Some None"
    using i by (simp add: hash_map_get_def rd_def find_in_bucket hm'_def hm1_def hm_map_def)
  moreover have "hash_size hm' = of_nat (length (all_entries hm')) + 1"
  proof -
    have "all_entries hm1 = all_entries hm'" by (simp add: hm1_def hm'_def all_entries_def)
    moreover have "hash_size hm1 = of_nat (length (all_entries hm1))" using r(1) by (simp add: hm_ok_def)
    moreover have "hash_size hm' = hash_size hm1 + 1" by (simp add: hm1_def hm'_def)
    ultimately show ?thesis by simp
  qed
  ultimately show ?thesis using Some by auto
qed

theorem hash_map_set_without_memory_witness:
  "\<exists>hm hm' calls. hash_map_new True True 42 hash_function_naive False True None = Some (Some hm) \<and>
     hash_map_set \<lparr>mem_list = True, mem_entry = False, mem_node = True\<rparr> hm 7 ''data'' = Some (False, hm', calls) \<and>
     hash_size hm' = of_nat (length (all_entries hm')) + 1"
proof -
  obtain hm :: "(u32, string) hash_map" where
      "hash_map_new True True 42 hash_function_naive False True None = Some (Some hm)" "hm_ok hm"
    using hm_ok_new [of 42 None hash_function_naive False True] by auto
  with hash_map_set_without_memory [of hm "\<lparr>mem_list = True, mem_entry = False, mem_node = True\<rparr>" 7 "''data''"]
  show ?thesis by auto
qed

lemma drop_Suc_nth: "i < length xs \<Longrightarrow> drop i xs = xs ! i # drop (Suc i) xs"
  by (simp add: Cons_nth_drop_Suc)

lemma bucket_free_put_list [simp]: "bucket_free (put_list hm i l) e = bucket_free hm e"
  by (simp add: bucket_free_def)

lemma update_at_length_take:
  "i < length xs \<Longrightarrow> take (Suc i) (xs[i := y]) = take i xs @ [y]"
  by (simp add: take_Suc_conv_app_nth)

lemma put_list_buckets: "i < length (bucket hm) \<Longrightarrow> bucket_update (\<lambda>_. b) (put_list hm i l) = bucket_update (\<lambda>_. b) hm"
  by (simp add: put_list_def)

lemma hash_map_clear_loop:
  assumes "length (bucket hm) = unat (num_bucket hm)" "i \<le> unat (num_bucket hm)"
  shows "hash_map_clear_from hm i =
    Some (hm\<lparr>bucket := take i (bucket hm) @ replicate (unat (num_bucket hm) - i) None\<rparr>,
      concat (map (bucket_free hm) (concat (map entries_of (drop i (bucket hm))))))"
  using assms
proof (induction hm i rule: hash_map_clear_from.induct)
  case (1 hm i)
  show ?case
  proof (cases "i < unat (num_bucket hm)")
    case lt: True
    then have r: "rd (bucket hm) i = Some (bucket hm ! i)" using 1 by (simp add: rd_def)
    have n: "unat (num_bucket hm) - i = Suc (unat (num_bucket hm) - Suc i)" using lt by simp
    have d: "drop i (bucket hm) = bucket hm ! i # drop (Suc i) (bucket hm)" using lt 1 by (simp add: drop_Suc_nth)
    show ?thesis
    proof (cases "bucket hm ! i")
      case None
      have t: "take (Suc i) (bucket hm) = take i (bucket hm) @ [None]"
        using lt 1 None by (simp add: take_Suc_conv_app_nth)
      show ?thesis
        using "1.IH"(1) [OF lt r None] 1 lt
        by (subst hash_map_clear_from.simps) (simp add: r None d n t)
    next
      case (Some es)
      have t: "take (Suc i) ((bucket hm)[i := None]) = take i (bucket hm) @ [None]"
        using lt 1 by (simp add: update_at_length_take)
      have "drop (Suc i) ((bucket hm)[i := None]) = drop (Suc i) (bucket hm)" by simp
      with "1.IH"(2) [OF lt r Some] 1 lt show ?thesis
        by (subst hash_map_clear_from.simps) (simp add: r Some d n t put_list_buckets)
    qed
  next
    case False
    with 1 show ?thesis by (subst hash_map_clear_from.simps) simp
  qed
qed

text \<open>
  Clearing a map releases every entry once, with the destructors of the map, and leaves every
  bucket without a list, so that no key is found; but it leaves the counter of entries as it was,
  although the map is documented to be back in the state of a new one.
\<close>
theorem hash_map_clear_spec:
  assumes "hm_ok hm"
  shows "\<exists>hm'. hash_map_clear hm = Some (hm', concat (map (bucket_free hm) (all_entries hm))) \<and>
    bucket hm' = replicate (unat (num_bucket hm)) None \<and> hash_map_get hm' k = Some None \<and>
    hash_size hm' = of_nat (length (all_entries hm))"
proof -
  have len: "length (bucket hm) = unat (num_bucket hm)" using assms by (simp add: hm_ok_def)
  define hm' where "hm' = hm\<lparr>bucket := replicate (unat (num_bucket hm)) None\<rparr>"
  have c: "hash_map_clear hm = Some (hm', concat (map (bucket_free hm) (all_entries hm)))"
    using hash_map_clear_loop [OF len, of 0] by (simp add: hash_map_clear_def all_entries_def hm'_def)
  have "hash_key hm' k < unat (num_bucket hm)"
    using hm_ok_key [OF assms, of k] len by (simp add: hash_key_def hm'_def)
  then have "hash_map_get hm' k = Some None"
    by (simp add: hash_map_get_def rd_def find_in_bucket hm'_def)
  then show ?thesis using c assms by (auto simp: hm'_def hm_ok_def)
qed

theorem hash_map_clear_spec_witness:
  "\<exists>hm hm' hm''. hash_map_new True True 42 hash_function_naive False True None = Some (Some hm) \<and>
     hash_map_set plenty hm 7 ''data'' = Some (True, hm', []) \<and>
     hash_map_clear hm' = Some (hm'', [Data_fn ''data'', Free_entry 7 ''data'']) \<and> hash_size hm'' = 1"
proof -
  define hm :: "(u32, string) hash_map" where "hm = \<lparr>bucket = replicate 42 None, num_bucket = 42, hash_size = 0,
    hash_fn = hash_function_naive, key_fn = False, data_fn = True, keys_are_equal = default_key_equality\<rparr>"
  have new: "hash_map_new True True 42 hash_function_naive False True None = Some (Some hm)"
    by (simp add: hash_map_new_def hash_map_new_internal_def hm_def)
  then have ok: "hm_ok hm" and none: "replaced hm 7 = None"
    using hm_ok_new [of 42 None hash_function_naive False True, where ?'b = string]
    unfolding new by (auto simp: hm_map_replaced)
  define hm' where "hm' = hm_store hm 7 ''data''"
  have set: "hash_map_set plenty hm 7 ''data'' = Some (True, hm', [])"
    using hash_map_set_fresh [OF ok none, of "''data''"] by (simp add: hm'_def hm_store_def)
  have ok': "hm_ok hm'" unfolding hm'_def by (rule hmd.valid_store [OF ok])
  have k: "hash_key hm 7 = 7" by (simp add: hm_def hash_key_def hash_function_naive_def)
  have hm': "hm' = put_list (hm\<lparr>hash_size := 1\<rparr>) 7 (Some [(7, ''data'')])"
    using hash_map_set_fresh [OF ok none, of "''data''"] set k by (simp add: hm_def)
  have all: "all_entries hm' = [(7, ''data'')]"
    by (simp add: hm' all_entries_def hm_def eval_nat_numeral)
  have "bucket_free hm' (7, ''data'') = [Data_fn ''data'', Free_entry 7 ''data'']"
    by (simp add: bucket_free_def hm' hm_def)
  with hash_map_clear_spec [OF ok'] all obtain hm'' where
    "hash_map_clear hm' = Some (hm'', [Data_fn ''data'', Free_entry 7 ''data''])" "hash_size hm'' = 1"
    by auto
  with new set show ?thesis by blast
qed

lemma foreach_list_append:
  "foreach_list f (xs @ ys) c =
     (case foreach_list f xs c of (go, c') \<Rightarrow> if go then foreach_list f ys c' else (False, c'))"
  by (induction xs arbitrary: c) (auto split: prod.splits)

lemma hash_map_foreach_loop:
  assumes "length (bucket hm) = unat (num_bucket hm)" "i \<le> unat (num_bucket hm)"
  shows "hash_map_foreach_from hm f i c =
    Some (snd (foreach_list f (concat (map entries_of (drop i (bucket hm)))) c))"
  using assms
proof (induction hm f i c rule: hash_map_foreach_from.induct)
  case (1 hm f i c)
  show ?case
  proof (cases "i < unat (num_bucket hm)")
    case lt: True
    then have r: "rd (bucket hm) i = Some (bucket hm ! i)" using 1 by (simp add: rd_def)
    have d: "drop i (bucket hm) = bucket hm ! i # drop (Suc i) (bucket hm)" using lt 1 by (simp add: drop_Suc_nth)
    show ?thesis
    proof (cases "bucket hm ! i")
      case None
      with "1.IH"(1) [OF lt r None] 1 lt show ?thesis
        by (subst hash_map_foreach_from.simps) (simp add: r None d)
    next
      case (Some es)
      obtain go c' where f: "foreach_list f es c = (go, c')" by fastforce
      with "1.IH"(2) [OF lt r Some f [symmetric]] 1 lt Some show ?thesis
        by (subst hash_map_foreach_from.simps) (auto simp: r d f foreach_list_append)
    qed
  next
    case False
    with 1 show ?thesis by (subst hash_map_foreach_from.simps) simp
  qed
qed

text \<open>The iteration visits every entry once, bucket by bucket, until the callback stops it.\<close>

lemma hash_map_foreach_spec:
  "hm_ok hm \<Longrightarrow> hash_map_foreach hm f c = Some (snd (foreach_list f (all_entries hm) c))"
  using hash_map_foreach_loop [of hm 0 f c] by (simp add: hm_ok_def hash_map_foreach_def all_entries_def)

section \<open>The string hash\<close>

lemma hash_string_loop_foldl: "hash_string_loop cv h s = foldl (\<lambda>h c. 33 * h + cv c) h s"
proof (induction s arbitrary: h)
  case (Cons c s)
  have "push_bit 5 h + h = 33 * h" for h :: size_t
    by (simp add: push_bit_eq_mult distrib_right flip: mult.commute [of h])
  with Cons show ?case by simp
qed simp

end
