(* ===== verification/HciFragmenter.thy ===== *)
theory HciFragmenter
  imports OsiHashMap
begin

text \<open>
  The packet fragmenter of the HCI layer, \<open>hci/packet_fragmenter.c\<close>: it cuts outgoing ACL packets to
  the size of the controller's buffers, one fragment per call, and puts incoming fragments together.
  The partial packets are memory objects, by address in \<open>fg_heap\<close>; the hash map of \<open>OsiHashMap\<close> holds
  their addresses by connection handle.  The calls of the three callbacks and the buffers released
  are returned.  An access outside a buffer, a failed assertion and a dereference of \<open>NULL\<close> are \<open>None\<close>.
\<close>

unbundle bit_operations_syntax

section \<open>Streams\<close>

text \<open>\<open>STREAM_TO_UINT16\<close> and \<open>UINT16_TO_STREAM\<close> at an offset of a buffer.\<close>

definition le16 :: "u16 \<Rightarrow> bytes" where
  "le16 v = [ucast v, ucast (drop_bit 8 v)]"

definition of_le16 :: "u8 \<Rightarrow> u8 \<Rightarrow> u16" where
  "of_le16 a b = ucast a + push_bit 8 (ucast b)"

definition get16 :: "bytes \<Rightarrow> nat \<Rightarrow> u16 option" where
  "get16 d i = do {
     a \<leftarrow> rd d i;
     b \<leftarrow> rd d (i + 1);
     Some (of_le16 a b)
   }"

definition put16 :: "bytes \<Rightarrow> nat \<Rightarrow> u16 \<Rightarrow> bytes option" where
  "put16 d i v = write_at d i (le16 v)"

section \<open>Fragmentation\<close>

abbreviation (input) "MSG_STACK_TO_HC_HCI_ACL \<equiv> 0x2100 :: u16"
abbreviation (input) "MSG_HC_TO_STACK_HCI_ACL \<equiv> 0x1100 :: u16"
abbreviation (input) "MSG_HC_TO_STACK_L2C_SEG_XMIT \<equiv> 0x1900 :: u16"
abbreviation (input) "HCI_ACL_PREAMBLE_SIZE \<equiv> 4 :: u16"
abbreviation (input) "L2CAP_HEADER_SIZE \<equiv> 4 :: u16"
abbreviation (input) "START_PACKET_BOUNDARY \<equiv> 2 :: u16"

definition APPLY_CONTINUATION_FLAG :: "u16 \<Rightarrow> u16" where
  "APPLY_CONTINUATION_FLAG handle = (handle AND 0xCFFF) OR 0x1000"

definition GET_BOUNDARY_FLAG :: "u16 \<Rightarrow> u16" where
  "GET_BOUNDARY_FLAG handle = drop_bit 12 handle AND 3"

definition MSG_EVT :: "u16 \<Rightarrow> u16" where
  "MSG_EVT event = event AND 0xFF00"

definition SUB_EVENT :: "u16 \<Rightarrow> u16" where
  "SUB_EVENT event = event AND 0x00FF"

text \<open>The buffer sizes the controller reports.\<close>

record acl_sizes =
  acl_data_size_classic :: u16
  acl_data_size_ble :: u16

datatype frag_out = Fragmented bt_hdr bool | Transmit_finished bt_hdr bool | Reassembled bt_hdr | Freed bt_hdr

text \<open>
  One call: the new value of \<open>current_fragment_packet\<close>, the packet afterwards, and the callbacks with
  the packet as it is when they are called.
\<close>

definition fragment_and_dispatch ::
    "acl_sizes \<Rightarrow> bt_hdr option \<Rightarrow> bt_hdr \<Rightarrow> (bt_hdr option \<times> bt_hdr \<times> frag_out list) option" where
  "fragment_and_dispatch ctl current p =
     (if MSG_EVT (bh_event p) \<noteq> MSG_STACK_TO_HC_HCI_ACL then Some (current, p, [Fragmented p True])
      else do {
        let max_data_size = (if SUB_EVENT (bh_event p) = 0 then acl_data_size_classic ctl else acl_data_size_ble ctl);
        let max_packet_size = max_data_size + HCI_ACL_PREAMBLE_SIZE;
        let remaining_length = bh_len p;
        handle \<leftarrow> get16 (bh_data p) (unat (bh_offset p));
        let continuation_handle = APPLY_CONTINUATION_FLAG handle;
        if max_packet_size < remaining_length then do {
          d \<leftarrow> put16 (bh_data p) (unat (bh_offset p) + 2) max_data_size;
          let sent = p\<lparr>bh_len := max_packet_size, bh_data := d\<rparr>;
          let offset = bh_offset p + max_data_size;
          let remaining_length = remaining_length - max_data_size;
          d \<leftarrow> put16 d (unat offset) continuation_handle;
          d \<leftarrow> put16 d (unat offset + 2) (remaining_length - HCI_ACL_PREAMBLE_SIZE);
          let rest = p\<lparr>bh_len := remaining_length, bh_offset := offset, bh_data := d\<rparr>;
          if bh_layer_specific p \<noteq> 0 then
            (let ls = bh_layer_specific p - 1 in
             if ls = 0
             then (let back = rest\<lparr>bh_event := MSG_HC_TO_STACK_L2C_SEG_XMIT, bh_layer_specific := ls\<rparr> in
               Some (None, back, [Fragmented sent False, Transmit_finished back False]))
             else (let rest = rest\<lparr>bh_layer_specific := ls\<rparr> in
               Some (Some rest, rest, [Fragmented sent False])))
          else Some (Some rest, rest, [Fragmented sent False])
        } else Some (None, p, [Fragmented p True])
      })"

text \<open>
  The HCI host task (\<open>hci_host_thread_handler\<close> of \<open>hci_layer.c\<close>) calls the fragmenter again as long as
  there is a current packet.  The calls are bounded by fuel, \<open>None\<close> when it runs out.
\<close>

fun fragment_all :: "nat \<Rightarrow> acl_sizes \<Rightarrow> bt_hdr \<Rightarrow> frag_out list option" where
  "fragment_all 0 ctl p = None"
| "fragment_all (Suc n) ctl p = do {
     (current, _, out) \<leftarrow> fragment_and_dispatch ctl None p;
     case current of
       None \<Rightarrow> Some out
     | Some q \<Rightarrow> map_option (\<lambda>out'. out @ out') (fragment_all n ctl q)
   }"

section \<open>Reassembly\<close>

record fragmenter =
  fg_partial :: "(u32, nat) hash_map"
  fg_heap :: "nat \<Rightarrow> bt_hdr option"

text \<open>\<open>init\<close>: the map has 42 buckets, keys are handles cast to pointers and compared as such.\<close>

definition fragmenter_init :: "bool \<Rightarrow> bool \<Rightarrow> fragmenter option" where
  "fragmenter_init map_ok bucket_ok =
     (case hash_map_new map_ok bucket_ok 42 hash_function_naive False False None of
        Some (Some hm) \<Rightarrow> Some \<lparr>fg_partial = hm, fg_heap = Map.empty\<rparr>
      | _ \<Rightarrow> None)"

definition fragmenter_cleanup :: "(u32, nat) hash_map option \<Rightarrow> (u32, nat) hm_call list option" where
  "fragmenter_cleanup hm = hash_map_free hm"

text \<open>
  \<open>alloc n\<close> is the result of the buffer allocator for a buffer with \<open>n\<close> bytes of data: its address and
  its arbitrary contents, or \<open>None\<close>; \<open>mem\<close> are the allocations of the hash map.
\<close>

definition drop_partial :: "fragmenter \<Rightarrow> u32 \<Rightarrow> nat \<Rightarrow> fragmenter option" where
  "drop_partial st key a = do {
     (_, hm, _) \<leftarrow> hash_map_erase (fg_partial st) key;
     _ \<leftarrow> fg_heap st a;
     Some \<lparr>fg_partial = hm, fg_heap = (fg_heap st)(a := None)\<rparr>
   }"

text \<open>A start fragment.\<close>

definition reassemble_start ::
    "(nat \<Rightarrow> (nat \<times> bt_hdr) option) \<Rightarrow> hm_mem \<Rightarrow> fragmenter \<Rightarrow> bt_hdr \<Rightarrow> u32 \<Rightarrow> nat option \<Rightarrow> u16 \<Rightarrow>
     (fragmenter \<times> frag_out list) option" where
  "reassemble_start alloc mem st p key partial l2cap_length = do {
     st \<leftarrow> (case partial of None \<Rightarrow> Some st | Some a \<Rightarrow> drop_partial st key a);
     let full_length = l2cap_length + L2CAP_HEADER_SIZE + HCI_ACL_PREAMBLE_SIZE;
     if full_length \<le> bh_len p then Some (st, [Reassembled p])
     else do {
       (a, t) \<leftarrow> alloc (unat full_length);
       bs \<leftarrow> read_at (bh_data p) (unat (bh_offset p)) (unat (bh_len p));
       m \<leftarrow> write_at (bh_data t) 0 bs;
       m \<leftarrow> put16 m 2 (full_length - HCI_ACL_PREAMBLE_SIZE);
       let q = t\<lparr>bh_event := bh_event p, bh_len := full_length, bh_offset := bh_len p, bh_data := m\<rparr>;
       (_, hm, _) \<leftarrow> hash_map_set mem (fg_partial st) key a;
       Some (\<lparr>fg_partial = hm, fg_heap = (fg_heap st)(a \<mapsto> q)\<rparr>, [Freed p])
     }
   }"

text \<open>A continuation of the partial packet at address \<open>a\<close>.\<close>

definition reassemble_continuation ::
    "fragmenter \<Rightarrow> bt_hdr \<Rightarrow> u32 \<Rightarrow> nat \<Rightarrow> (fragmenter \<times> frag_out list) option" where
  "reassemble_continuation st p key a = do {
     q \<leftarrow> fg_heap st a;
     let p = p\<lparr>bh_len := bh_len p - HCI_ACL_PREAMBLE_SIZE, bh_offset := bh_offset p + HCI_ACL_PREAMBLE_SIZE\<rparr>;
     let projected_offset = bh_offset q + bh_len p;
     let p_len = (if bh_len q < projected_offset then bh_len q - bh_offset q else bh_len p);
     let projected_offset = (if bh_len q < projected_offset then bh_len q else projected_offset);
     bs \<leftarrow> read_at (bh_data p) (unat (bh_offset p)) (unat p_len);
     m \<leftarrow> write_at (bh_data q) (unat (bh_offset q)) bs;
     let p = p\<lparr>bh_len := p_len\<rparr>;
     let q = q\<lparr>bh_offset := projected_offset, bh_data := m\<rparr>;
     if bh_offset q = bh_len q then do {
       st \<leftarrow> drop_partial st key a;
       Some (st, [Freed p, Reassembled (q\<lparr>bh_offset := 0\<rparr>)])
     } else Some (st\<lparr>fg_heap := (fg_heap st)(a \<mapsto> q)\<rparr>, [Freed p])
   }"

definition reassemble_and_dispatch ::
    "(nat \<Rightarrow> (nat \<times> bt_hdr) option) \<Rightarrow> hm_mem \<Rightarrow> fragmenter \<Rightarrow> bt_hdr \<Rightarrow>
     (fragmenter \<times> frag_out list) option" where
  "reassemble_and_dispatch alloc mem st p =
     (if MSG_EVT (bh_event p) = MSG_HC_TO_STACK_HCI_ACL then do {
        let stream = unat (bh_offset p);
        handle \<leftarrow> get16 (bh_data p) stream;
        acl_length \<leftarrow> get16 (bh_data p) (stream + 2);
        l2cap_length \<leftarrow> get16 (bh_data p) (stream + 4);
        if uint acl_length \<noteq> uint (bh_len p) - 4 then None
        else do {
          let boundary_flag = GET_BOUNDARY_FLAG handle;
          let key = (ucast (handle AND 0x0FFF) :: u32);
          partial \<leftarrow> hash_map_get (fg_partial st) key;
          if boundary_flag = START_PACKET_BOUNDARY
          then reassemble_start alloc mem st p key partial l2cap_length
          else (case partial of
                  None \<Rightarrow> Some (st, [Freed p])
                | Some a \<Rightarrow> reassemble_continuation st p key a)
        }
      } else Some (st, [Reassembled p]))"

text \<open>Fragments that arrive one after the other.\<close>

fun reassemble_all ::
    "(nat \<Rightarrow> nat \<Rightarrow> (nat \<times> bt_hdr) option) \<Rightarrow> fragmenter \<Rightarrow> bt_hdr list \<Rightarrow> (fragmenter \<times> frag_out list) option" where
  "reassemble_all alloc st [] = Some (st, [])"
| "reassemble_all alloc st (p # ps) = do {
     (st, out) \<leftarrow> reassemble_and_dispatch (alloc (length ps)) plenty st p;
     (st, out') \<leftarrow> reassemble_all alloc st ps;
     Some (st, out @ out')
   }"

section \<open>Bytes\<close>

lemma length_le16 [simp]: "length (le16 v) = 2"
  by (simp add: le16_def)

lemma of_le16_le16: "of_le16 (le16 v ! 0) (le16 v ! 1) = v"
proof -
  have lo: "unat (ucast (ucast v :: u8) :: u16) = unat v mod 256"
    by (simp add: unsigned_ucast_eq take_bit_eq_mod unat_mod)
  have b: "unat v div 256 < 256" using u16_lt [of v] by simp
  then have hi: "unat (push_bit 8 (ucast (ucast (drop_bit 8 v) :: u8)) :: u16) = unat v div 256 * 256"
    by (simp add: push_bit_eq_mult unat_word_ariths unsigned_ucast_eq take_bit_eq_mod
        unsigned_drop_bit_eq drop_bit_eq_div)
  have "unat (of_le16 (le16 v ! 0) (le16 v ! 1)) = unat v mod 256 + unat v div 256 * 256"
    unfolding of_le16_def le16_def using b
    by (simp add: unat_word_ariths lo hi del: unsigned_ucast_eq)
  then show ?thesis by (simp add: word_unat_eq_iff)
qed

lemma get16_at: "get16 (pre @ le16 v @ post) (length pre) = Some v"
  using of_le16_le16 [of v] by (simp add: get16_def rd_def nth_append le16_def)

lemma write_at_mid: "length xs = length ys \<Longrightarrow> write_at (pre @ xs @ post) (length pre) ys = Some (pre @ ys @ post)"
  by (simp add: write_at_def)

lemma put16_mid: "length xs = 2 \<Longrightarrow> put16 (pre @ xs @ post) (length pre) v = Some (pre @ le16 v @ post)"
  by (simp add: put16_def write_at_mid)

text \<open>A buffer whose payload lies inside it, at offsets that fit 16 bits.\<close>

definition buf_ok :: "bt_hdr \<Rightarrow> bool" where
  "buf_ok p \<longleftrightarrow> unat (bh_offset p) + unat (bh_len p) \<le> length (bh_data p) \<and>
     unat (bh_offset p) + unat (bh_len p) < 65536"

lemma buf_split:
  assumes "buf_ok p"
  obtains pre post where "bh_data p = pre @ bh_payload p @ post" "length pre = unat (bh_offset p)"
    "length (bh_payload p) = unat (bh_len p)"
proof -
  let ?o = "unat (bh_offset p)" and ?n = "unat (bh_len p)"
  have "bh_data p = take ?o (bh_data p) @ bh_payload p @ drop (?o + ?n) (bh_data p)"
    unfolding bh_payload_def by (metis append_take_drop_id add.commute drop_drop)
  then show thesis
    by (rule that) (use assms in \<open>auto simp: bh_payload_def buf_ok_def\<close>)
qed

lemma payload_eqI:
  "bh_data p = pre @ xs @ post \<Longrightarrow> length pre = unat (bh_offset p) \<Longrightarrow> length xs = unat (bh_len p) \<Longrightarrow>
   bh_payload p = xs"
  by (simp add: bh_payload_def)

section \<open>What the fragments are\<close>

text \<open>An ACL packet: the handle with its flags, the length of the data, the data.\<close>

definition acl_bytes :: "u16 \<Rightarrow> bytes \<Rightarrow> bytes" where
  "acl_bytes h c = le16 h @ le16 (of_nat (length c)) @ c"

lemma length_acl_bytes [simp]: "length (acl_bytes h c) = 4 + length c"
  by (simp add: acl_bytes_def)

lemma continuation_idem [simp]: "APPLY_CONTINUATION_FLAG (APPLY_CONTINUATION_FLAG h) = APPLY_CONTINUATION_FLAG h"
  unfolding APPLY_CONTINUATION_FLAG_def by (rule bit_word_eqI) (auto simp: bit_simps)

function chunks :: "nat \<Rightarrow> 'a list \<Rightarrow> 'a list list" where
  "chunks m xs = (if m = 0 \<or> length xs \<le> m then [xs] else take m xs # chunks m (drop m xs))"
  by pat_completeness auto
termination by (relation "measure (\<lambda>(m, xs). length xs)") auto

declare chunks.simps [simp del]

lemma chunks_concat: "concat (chunks m xs) = xs"
  by (induction m xs rule: chunks.induct) (subst chunks.simps, simp)

lemma chunks_small: "0 < m \<Longrightarrow> c \<in> set (chunks m xs) \<Longrightarrow> length c \<le> m"
proof (induction m xs rule: chunks.induct)
  case (1 m xs)
  then show ?case by (subst (asm) (2) chunks.simps) (auto split: if_splits)
qed

text \<open>The size the controller reports for the link of a packet.\<close>

definition acl_data_size :: "acl_sizes \<Rightarrow> u16 \<Rightarrow> u16" where
  "acl_data_size ctl event = (if SUB_EVENT event = 0 then acl_data_size_classic ctl else acl_data_size_ble ctl)"

lemma acl_handle:
  assumes "buf_ok p" "bh_payload p = acl_bytes h c"
  shows "get16 (bh_data p) (unat (bh_offset p)) = Some h"
proof -
  obtain pre post where "bh_data p = pre @ bh_payload p @ post" "length pre = unat (bh_offset p)"
    using buf_split [OF assms(1)] by blast
  then show ?thesis using get16_at [of pre h] assms(2) by (simp add: acl_bytes_def)
qed

text \<open>A packet that does not fit is cut: its first part is sent, what is left follows its own header.\<close>

lemma fragment_step:
  assumes p: "buf_ok p" "bh_payload p = acl_bytes h c" "MSG_EVT (bh_event p) = MSG_STACK_TO_HC_HCI_ACL"
    and m: "unat m + 4 < 65536" "m = acl_data_size ctl (bh_event p)" "unat m < length c"
    and ls: "bh_layer_specific p = 0"
  shows "\<exists>sent rest. fragment_and_dispatch ctl cur p = Some (Some rest, rest, [Fragmented sent False]) \<and>
    bh_payload sent = acl_bytes h (take (unat m) c) \<and>
    buf_ok rest \<and> bh_payload rest = acl_bytes (APPLY_CONTINUATION_FLAG h) (drop (unat m) c) \<and>
    bh_event rest = bh_event p \<and> bh_layer_specific rest = 0"
proof -
  define n where "n = unat m"
  obtain pre post where d: "bh_data p = pre @ bh_payload p @ post" "length pre = unat (bh_offset p)"
      "length (bh_payload p) = unat (bh_len p)"
    using buf_split [OF p(1)] by blast
  have len: "unat (bh_len p) = 4 + length c" using d(3) p(2) by simp
  define c1 c2 where "c1 = take n c" and "c2 = drop n c"
  have c: "c = c1 @ c2" "length c1 = n" using m(3) by (simp_all add: c1_def c2_def n_def)
  define all where "all = le16 h @ le16 m @ c1"
  define u v1 v2 where "u = take n all" and "v1 = take 2 (drop n all)" and "v2 = drop 2 (drop n all)"
  have "length all = n + 4" using c by (simp add: all_def)
  then have all: "all = u @ v1 @ v2" "length u = n" "length v1 = 2" "length v2 = 2"
    unfolding u_def v1_def v2_def append_take_drop_id by simp_all
  have data: "bh_data p = (pre @ le16 h) @ le16 (of_nat (length c)) @ (c1 @ c2 @ post)"
    using d(1) p(2) c(1) by (simp add: acl_bytes_def)
  have w1: "put16 (bh_data p) (unat (bh_offset p) + 2) m = Some (pre @ all @ c2 @ post)"
    using put16_mid [of "le16 (of_nat (length c))" "pre @ le16 h" "c1 @ c2 @ post" m] d(2)
    by (simp add: data all_def)
  have bounds: "unat (bh_offset p) + 4 + length c < 65536" using p(1) len by (simp add: buf_ok_def)
  have off: "unat (bh_offset p + m) = length (pre @ u)"
    using bounds m(3) d(2) all(2) by (simp add: unat_word_ariths n_def)
  have w2: "put16 (pre @ all @ c2 @ post) (unat (bh_offset p + m)) h' = Some ((pre @ u) @ le16 h' @ v2 @ c2 @ post)" for h'
    using put16_mid [of v1 "pre @ u" "v2 @ c2 @ post" h'] all(1,3) off by simp
  have w3: "put16 ((pre @ u) @ le16 h' @ v2 @ c2 @ post) (unat (bh_offset p + m) + 2) l =
      Some ((pre @ u) @ le16 h' @ le16 l @ c2 @ post)" for h' l
    using put16_mid [of v2 "pre @ u @ le16 h'" "c2 @ post" l] all(4) off by simp
  have max: "unat (m + 4) = n + 4" using m(1) by (simp add: unat_word_ariths n_def)
  have gt: "m + HCI_ACL_PREAMBLE_SIZE < bh_len p"
    using max len m(3) by (simp add: word_less_nat_alt n_def)
  have rem: "unat (bh_len p - m) = 4 + length c2"
    using len m(3) c by (simp add: unat_sub word_le_nat_alt n_def)
  have reml: "bh_len p - m - HCI_ACL_PREAMBLE_SIZE = of_nat (length c2)"
  proof -
    have "unat (bh_len p - m - 4) = length c2"
      using rem by (simp add: unat_sub_if' word_le_nat_alt)
    then have "of_nat (unat (bh_len p - m - 4)) = (of_nat (length c2) :: u16)" by simp
    then show ?thesis by simp
  qed
  define h' where "h' = APPLY_CONTINUATION_FLAG h"
  define sent where "sent = p\<lparr>bh_len := m + 4, bh_data := pre @ all @ c2 @ post\<rparr>"
  define rest where "rest = p\<lparr>bh_len := bh_len p - m, bh_offset := bh_offset p + m,
    bh_data := (pre @ u) @ le16 h' @ le16 (of_nat (length c2)) @ c2 @ post\<rparr>"
  have "fragment_and_dispatch ctl cur p = Some (Some rest, rest, [Fragmented sent False])"
    using p(3) acl_handle [OF p(1,2)] gt w1 w2 w3 ls m(2) [symmetric]
    unfolding fragment_and_dispatch_def Let_def
    by (simp add: acl_data_size_def [symmetric] sent_def rest_def h'_def reml)
  moreover have "bh_payload sent = acl_bytes h (take (unat m) c)"
  proof (rule payload_eqI [of sent pre _ "c2 @ post"])
    have mm: "m = of_nat (length c1)" using c(2) by (simp add: n_def)
    show "bh_data sent = pre @ acl_bytes h (take (unat m) c) @ c2 @ post"
      by (simp add: sent_def all_def acl_bytes_def c1_def [symmetric, unfolded n_def] mm [symmetric])
    show "length pre = unat (bh_offset sent)" by (simp add: sent_def d)
    show "length (acl_bytes h (take (unat m) c)) = unat (bh_len sent)"
      using c(2) max by (simp add: sent_def c1_def n_def)
  qed
  moreover have "bh_payload rest = acl_bytes h' (drop (unat m) c)"
  proof (rule payload_eqI [of rest "pre @ u" _ post])
    show "bh_data rest = (pre @ u) @ acl_bytes h' (drop (unat m) c) @ post"
      by (simp add: rest_def acl_bytes_def c2_def n_def)
    show "length (pre @ u) = unat (bh_offset rest)" using off by (simp add: rest_def)
    show "length (acl_bytes h' (drop (unat m) c)) = unat (bh_len rest)"
      using rem by (simp add: rest_def c2_def n_def)
  qed
  moreover have "buf_ok rest"
    using off rem bounds c d(2) all(2) by (simp add: buf_ok_def rest_def)
  ultimately show ?thesis using ls by (auto simp: rest_def h'_def)
qed

lemma fragment_last:
  assumes "buf_ok p" "bh_payload p = acl_bytes h c" "MSG_EVT (bh_event p) = MSG_STACK_TO_HC_HCI_ACL"
    and "unat m + 4 < 65536" "m = acl_data_size ctl (bh_event p)" "length c \<le> unat m"
  shows "fragment_and_dispatch ctl cur p = Some (None, p, [Fragmented p True])"
proof -
  have "unat (bh_len p) = 4 + length c"
    using buf_split [OF assms(1)] assms(2) by (metis length_acl_bytes)
  then have "\<not> m + HCI_ACL_PREAMBLE_SIZE < bh_len p"
    using assms(4,6) by (simp add: word_less_nat_alt unat_word_ariths)
  then show ?thesis
    using acl_handle [OF assms(1,2)] assms(3,5)
    unfolding fragment_and_dispatch_def Let_def
    by (simp add: acl_data_size_def [symmetric])
qed

text \<open>What the controller is handed: the payloads with the flag for the last fragment.\<close>

fun sent_of :: "frag_out list \<Rightarrow> (bytes \<times> bool) list" where
  "sent_of [] = []"
| "sent_of (Fragmented p fin # out) = (bh_payload p, fin) # sent_of out"
| "sent_of (_ # out) = sent_of out"

text \<open>The fragments of data \<open>c\<close>: the first one under the handle as it is, the others as continuations.\<close>

fun acl_fragments :: "u16 \<Rightarrow> bytes list \<Rightarrow> (bytes \<times> bool) list" where
  "acl_fragments h [] = []"
| "acl_fragments h (c # cs) = (acl_bytes h c, cs = []) # acl_fragments (APPLY_CONTINUATION_FLAG h) cs"

lemma chunks_not_Nil: "chunks m xs \<noteq> []"
  by (subst chunks.simps) simp

lemma sent_of_append [simp]: "sent_of (xs @ ys) = sent_of xs @ sent_of ys"
  by (induction xs rule: sent_of.induct) auto

lemma fragment_all_frames:
  assumes "buf_ok p" "bh_payload p = acl_bytes h c" "MSG_EVT (bh_event p) = MSG_STACK_TO_HC_HCI_ACL"
    and "bh_layer_specific p = 0"
    and "0 < acl_data_size ctl (bh_event p)" "unat (acl_data_size ctl (bh_event p)) + 4 < 65536"
    and "length c < fuel"
  shows "\<exists>out. fragment_all fuel ctl p = Some out \<and>
    sent_of out = acl_fragments h (chunks (unat (acl_data_size ctl (bh_event p))) c)"
  using assms
proof (induction fuel arbitrary: p h c)
  case (Suc fuel)
  let ?m = "acl_data_size ctl (bh_event p)"
  have pos: "0 < unat ?m" using Suc.prems(5) by (simp add: word_less_nat_alt)
  show ?case
  proof (cases "length c \<le> unat ?m")
    case True
    then have "chunks (unat ?m) c = [c]" by (subst chunks.simps) simp
    with True Suc.prems fragment_last [OF Suc.prems(1,2,3) Suc.prems(6) refl True, of None] show ?thesis
      by simp
  next
    case False
    obtain sent rest where s: "fragment_and_dispatch ctl None p = Some (Some rest, rest, [Fragmented sent False])"
        "bh_payload sent = acl_bytes h (take (unat ?m) c)"
        "buf_ok rest" "bh_payload rest = acl_bytes (APPLY_CONTINUATION_FLAG h) (drop (unat ?m) c)"
        "bh_event rest = bh_event p" "bh_layer_specific rest = 0"
      using fragment_step [OF Suc.prems(1,2,3) Suc.prems(6) refl _ Suc.prems(4), of None] False by auto
    have "length (drop (unat ?m) c) < fuel" using Suc.prems(7) pos False by simp
    from Suc.IH [OF s(3,4) _ s(6) _ _ this] s(5) Suc.prems
    obtain out where o: "fragment_all fuel ctl rest = Some out"
        "sent_of out = acl_fragments (APPLY_CONTINUATION_FLAG h) (chunks (unat ?m) (drop (unat ?m) c))"
      by auto
    have "chunks (unat ?m) c = take (unat ?m) c # chunks (unat ?m) (drop (unat ?m) c)"
      using False pos by (subst chunks.simps) simp
    with s(1,2) o show ?thesis by (simp add: chunks_not_Nil)
  qed
qed simp

text \<open>
  C34: An ACL packet whose link may take any number of fragments is cut into pieces of at most the
  controller's size: the pieces, in order, are the consecutive chunks of the data, each under a
  header with its own length, the first with the flags of the packet and the others marked as
  continuations; only the last one is reported as the end of the packet, and the host task needs no
  more calls than the packet has bytes.
\<close>
theorem fragment_all_correct:
  assumes "buf_ok p" "bh_payload p = acl_bytes h c" "MSG_EVT (bh_event p) = MSG_STACK_TO_HC_HCI_ACL"
    and "bh_layer_specific p = 0"
    and "0 < acl_data_size ctl (bh_event p)" "unat (acl_data_size ctl (bh_event p)) + 4 < 65536"
    and "length c < fuel"
  shows "\<exists>out. fragment_all fuel ctl p = Some out \<and>
    sent_of out = acl_fragments h (chunks (unat (acl_data_size ctl (bh_event p))) c)"
  by (rule fragment_all_frames [OF assms])

theorem fragment_all_correct_witness:
  "\<exists>out. fragment_all 6 \<lparr>acl_data_size_classic = 2, acl_data_size_ble = 0\<rparr>
      \<lparr>bh_event = MSG_STACK_TO_HC_HCI_ACL, bh_len = 9, bh_offset = 0, bh_layer_specific = 0,
       bh_data = acl_bytes 0x2001 [1, 2, 3, 4, 5]\<rparr> = Some out \<and>
    sent_of out = [(acl_bytes 0x2001 [1, 2], False), (acl_bytes 0x1001 [3, 4], False), (acl_bytes 0x1001 [5], True)]"
proof -
  let ?p = "\<lparr>bh_event = MSG_STACK_TO_HC_HCI_ACL, bh_len = 9, bh_offset = 0, bh_layer_specific = 0,
       bh_data = acl_bytes 0x2001 [1, 2, 3, 4, 5]\<rparr> :: bt_hdr"
  let ?c = "\<lparr>acl_data_size_classic = 2, acl_data_size_ble = 0\<rparr> :: acl_sizes"
  have "acl_data_size ?c (bh_event ?p) = 2" by (simp add: acl_data_size_def SUB_EVENT_def)
  moreover have "chunks 2 [1, 2, 3, 4, 5 :: u8] = [[1, 2], [3, 4], [5]]"
    by (simp add: chunks.simps)
  ultimately show ?thesis
    using fragment_all_correct [of ?p "0x2001" "[1, 2, 3, 4, 5]" ?c 6]
    by (simp add: buf_ok_def bh_payload_def MSG_EVT_def APPLY_CONTINUATION_FLAG_def)
qed

end
