(* ===== verification/HciReassembly.thy ===== *)
theory HciReassembly
  imports HciFragmenter
begin

text \<open>
  Reassembly of ACL fragments.  An abstract state holds, by connection handle, how much of a packet
  has arrived; \<open>reassemble_and_dispatch\<close> is shown to refine its step, for fragments of any number of
  connections in any order, as long as the 16-bit lengths do not wrap around, and the cases in which
  they do are shown to go wrong.
\<close>

unbundle bit_operations_syntax

section \<open>What reassembly does to the partial packets\<close>

text \<open>
  A partial packet is the event it came with, the length expected in all and the bytes received so
  far, by handle.  An arriving ACL packet is given by its event, its handle with flags and its data.
\<close>

type_synonym partials = "u16 \<Rightarrow> (u16 \<times> nat \<times> bytes) option"

definition reassembly_spec :: "partials \<Rightarrow> u16 \<Rightarrow> u16 \<Rightarrow> bytes \<Rightarrow> partials \<times> (u16 \<times> bytes) list" where
  "reassembly_spec A ev h body =
     (let key = h AND 0x0FFF; total = unat (of_le16 (body ! 0) (body ! 1)) + 8 in
      if GET_BOUNDARY_FLAG h = START_PACKET_BOUNDARY
      then if total \<le> 4 + length body then (A(key := None), [(ev, acl_bytes h body)])
           else (A(key \<mapsto> (ev, total, le16 h @ le16 (of_nat (total - 4)) @ body)), [])
      else (case A key of
              None \<Rightarrow> (A, [])
            | Some (ev, len, got) \<Rightarrow>
               (let got = got @ take (len - length got) body in
                if length got = len then (A(key := None), [(ev, got)])
                else (A(key \<mapsto> (ev, len, got)), []))))"

definition partial_ok :: "bt_hdr \<Rightarrow> bool" where
  "partial_ok q \<longleftrightarrow> length (bh_data q) = unat (bh_len q) \<and> bh_offset q < bh_len q"

definition fg_ok :: "fragmenter \<Rightarrow> bool" where
  "fg_ok st \<longleftrightarrow> hm_ok (fg_partial st) \<and> keys_are_equal (fg_partial st) = default_key_equality \<and>
     (\<forall>k a. hm_map (fg_partial st) k = Some a \<longrightarrow> (\<exists>q. fg_heap st a = Some q \<and> partial_ok q)) \<and>
     inj_on (hm_map (fg_partial st)) (dom (hm_map (fg_partial st)))"

definition fg_abs :: "fragmenter \<Rightarrow> partials" where
  "fg_abs st h = (case hm_map (fg_partial st) (ucast h) of None \<Rightarrow> None
     | Some a \<Rightarrow> map_option (\<lambda>q. (bh_event q, unat (bh_len q), take (unat (bh_offset q)) (bh_data q))) (fg_heap st a))"

fun delivered :: "frag_out list \<Rightarrow> (u16 \<times> bytes) list" where
  "delivered [] = []"
| "delivered (Reassembled p # out) = (bh_event p, bh_payload p) # delivered out"
| "delivered (_ # out) = delivered out"

lemma delivered_append [simp]: "delivered (xs @ ys) = delivered xs @ delivered ys"
  by (induction xs rule: delivered.induct) auto

lemma key_inj: "(ucast (h :: u16) :: u32) = ucast h' \<longleftrightarrow> h = h'"
  using u16_lt [of h] u16_lt [of h']
  by (simp add: word_unat_eq_iff unsigned_ucast_eq take_bit_eq_mod)

lemma hm_erase_default:
  assumes "hm_ok hm" "keys_are_equal hm = default_key_equality"
  obtains b hm' c where "hash_map_erase hm k = Some (b, hm', c)" "hm_ok hm'"
    "keys_are_equal hm' = default_key_equality" "hm_map hm' = (hm_map hm)(k := None)"
proof -
  obtain b hm' c where e: "hash_map_erase hm k = Some (b, hm', c)" "hm_ok hm'"
      "\<forall>k'. hm_map hm' k' = (if keys_are_equal hm k k' then None else hm_map hm k')"
    using hash_map_erase_ok [OF assms(1), of k] by auto
  moreover have "keys_are_equal hm' = default_key_equality"
    using hm_erase_fields [OF assms(1), of k] e(1) assms(2) by (simp add: hm_erase_def)
  moreover have "hm_map hm' = (hm_map hm)(k := None)"
    using e(3) assms(2) by (auto simp: default_key_equality_def fun_eq_iff)
  ultimately show thesis using that by blast
qed

lemma hm_set_default:
  assumes "hm_ok hm" "keys_are_equal hm = default_key_equality"
  obtains hm' c where "hash_map_set plenty hm k d = Some (True, hm', c)" "hm_ok hm'"
    "keys_are_equal hm' = default_key_equality" "hm_map hm' = (hm_map hm)(k \<mapsto> d)"
proof -
  obtain hm' c where e: "hash_map_set plenty hm k d = Some (True, hm', c)" "hm_ok hm'"
      "\<forall>k'. hm_map hm' k' = (if keys_are_equal hm k k' then Some d else hm_map hm k')"
    using hash_map_set_ok [OF assms(1), of k d] by auto
  moreover have "keys_are_equal hm' = default_key_equality"
    using hm_store_fields [OF assms(1), of k d] e(1) assms(2) by (simp add: hm_store_def)
  moreover have "hm_map hm' = (hm_map hm)(k \<mapsto> d)"
    using e(3) assms(2) by (auto simp: default_key_equality_def fun_eq_iff)
  ultimately show thesis using that by blast
qed

lemma drop_partial_ok:
  assumes ok: "fg_ok st" and a: "hm_map (fg_partial st) (ucast h) = Some a"
  obtains st' where "drop_partial st (ucast h) a = Some st'" "fg_ok st'" "fg_abs st' = (fg_abs st)(h := None)"
    "fg_heap st' = (fg_heap st)(a := None)" "hm_map (fg_partial st') (ucast h) = None"
proof -
  let ?m = "hm_map (fg_partial st)"
  have hm: "hm_ok (fg_partial st)" "keys_are_equal (fg_partial st) = default_key_equality"
    and inj: "inj_on ?m (dom ?m)" using ok by (auto simp: fg_ok_def)
  obtain q where q: "fg_heap st a = Some q" using ok a by (auto simp: fg_ok_def)
  obtain b hm' c where e: "hash_map_erase (fg_partial st) (ucast h) = Some (b, hm', c)" "hm_ok hm'"
    "keys_are_equal hm' = default_key_equality" "hm_map hm' = ?m(ucast h := None)"
    using hm_erase_default [OF hm] by blast
  define st' where "st' = \<lparr>fg_partial = hm', fg_heap = (fg_heap st)(a := None)\<rparr>"
  have other: "?m k = Some a' \<Longrightarrow> k \<noteq> ucast h \<Longrightarrow> a' \<noteq> a" for k a'
    using inj a by (metis domI inj_onD)
  have "drop_partial st (ucast h) a = Some st'" using e(1) q by (simp add: drop_partial_def st'_def)
  moreover have "fg_ok st'"
  proof -
    have "inj_on (hm_map hm') (dom (hm_map hm'))"
      using inj unfolding e(4) by (auto simp: inj_on_def)
    moreover have "\<exists>q. fg_heap st' a' = Some q \<and> partial_ok q" if "hm_map hm' k = Some a'" for k a'
    proof -
      have *: "k \<noteq> ucast h" "?m k = Some a'" using that e(4) by (auto split: if_splits)
      from other [OF *(2,1)] * ok show ?thesis by (simp add: st'_def fg_ok_def)
    qed
    ultimately show ?thesis using e(2,3) by (simp add: fg_ok_def st'_def)
  qed
  moreover have "fg_abs st' = (fg_abs st)(h := None)"
    using other by (auto simp: fg_abs_def st'_def e(4) fun_eq_iff key_inj split: option.splits)
  ultimately show thesis using that e(4) by (simp add: st'_def)
qed

text \<open>A partial packet of a handle is there anew, or grew at its address.\<close>

lemma put_partial_ok:
  assumes hm: "hm_ok hm" "keys_are_equal hm = default_key_equality" "hm_map hm = (hm_map (fg_partial st))(ucast h \<mapsto> a)"
    and ok: "fg_ok st" and q: "partial_ok q"
    and a: "\<And>k. hm_map (fg_partial st) k = Some a \<Longrightarrow> k = ucast h"
  defines "st' \<equiv> \<lparr>fg_partial = hm, fg_heap = (fg_heap st)(a \<mapsto> q)\<rparr>"
  shows "fg_ok st'"
    and "fg_abs st' = (fg_abs st)(h \<mapsto> (bh_event q, unat (bh_len q), take (unat (bh_offset q)) (bh_data q)))"
proof -
  let ?m = "hm_map (fg_partial st)"
  have inj: "inj_on ?m (dom ?m)" using ok by (simp add: fg_ok_def)
  have "inj_on (?m(ucast h \<mapsto> a)) (dom (?m(ucast h \<mapsto> a)))"
    using inj a by (auto simp: inj_on_def)
  moreover have "\<exists>q. fg_heap st' a' = Some q \<and> partial_ok q" if "hm_map hm k = Some a'" for k a'
    using that ok q by (auto simp: st'_def hm(3) fg_ok_def split: if_splits)
  ultimately show "fg_ok st'" using hm by (simp add: fg_ok_def st'_def)
  show "fg_abs st' = (fg_abs st)(h \<mapsto> (bh_event q, unat (bh_len q), take (unat (bh_offset q)) (bh_data q)))"
  proof
    fix x
    have "hm_map (fg_partial st) (ucast x) \<noteq> Some a" if "x \<noteq> h"
      using a [of "ucast x"] that key_inj by auto
    then show "fg_abs st' x =
        ((fg_abs st)(h \<mapsto> (bh_event q, unat (bh_len q), take (unat (bh_offset q)) (bh_data q)))) x"
      by (auto simp: fg_abs_def st'_def hm(3) key_inj split: option.splits)
  qed
qed

section \<open>The steps of the code\<close>

text \<open>
  A well-formed ACL packet from the controller: its length field says how much data follows.  The
  code reads the L2CAP length from every packet, so that six bytes must be readable.
\<close>

definition acl_packet :: "bt_hdr \<Rightarrow> u16 \<Rightarrow> bytes \<Rightarrow> bool" where
  "acl_packet p h body \<longleftrightarrow> buf_ok p \<and> MSG_EVT (bh_event p) = MSG_HC_TO_STACK_HCI_ACL \<and>
     bh_payload p = acl_bytes h body \<and> unat (bh_offset p) + 6 \<le> length (bh_data p)"

definition l2cap_total :: "bytes \<Rightarrow> nat" where
  "l2cap_total body = unat (of_le16 (body ! 0) (body ! 1)) + 8"

text \<open>
  The lengths the code computes in 16 bits fit: that of the whole packet for a start fragment, that
  of what has arrived for a continuation.
\<close>

definition no_wrap :: "partials \<Rightarrow> u16 \<Rightarrow> bytes \<Rightarrow> bool" where
  "no_wrap A h body =
     (if GET_BOUNDARY_FLAG h = START_PACKET_BOUNDARY then 2 \<le> length body \<and> l2cap_total body < 65536
      else (case A (h AND 0x0FFF) of None \<Rightarrow> True
            | Some (ev, len, got) \<Rightarrow> length got + length body < 65536))"

text \<open>The buffer allocator hands out a buffer of the size asked for that is in no other use.\<close>

definition alloc_ok :: "(nat \<Rightarrow> (nat \<times> bt_hdr) option) \<Rightarrow> fragmenter \<Rightarrow> bool" where
  "alloc_ok alloc st \<longleftrightarrow> (\<forall>n. \<exists>a t. alloc n = Some (a, t) \<and> length (bh_data t) = n \<and> fg_heap st a = None)"

lemma acl_packet_split:
  assumes "acl_packet p h body"
  obtains pre post where "bh_data p = pre @ le16 h @ le16 (of_nat (length body)) @ body @ post"
    "length pre = unat (bh_offset p)" "unat (bh_len p) = 4 + length body"
    "unat (bh_offset p) + 4 + length body < 65536"
proof -
  obtain pre post where "bh_data p = pre @ bh_payload p @ post" "length pre = unat (bh_offset p)"
      "length (bh_payload p) = unat (bh_len p)"
    using buf_split assms unfolding acl_packet_def by blast
  with assms show thesis
    by (intro that [of pre post]) (auto simp: acl_packet_def acl_bytes_def buf_ok_def)
qed

lemma acl_packet_reads:
  assumes "acl_packet p h body"
  defines "off \<equiv> unat (bh_offset p)"
  shows "get16 (bh_data p) off = Some h" "get16 (bh_data p) (off + 2) = Some (of_nat (length body))"
    "get16 (bh_data p) (off + 4) \<noteq> None"
    "2 \<le> length body \<Longrightarrow> get16 (bh_data p) (off + 4) = Some (of_le16 (body ! 0) (body ! 1))"
    "uint (of_nat (length body) :: u16) = uint (bh_len p) - 4"
    "read_at (bh_data p) off (unat (bh_len p)) = Some (acl_bytes h body)"
proof -
  obtain pre post where d: "bh_data p = pre @ le16 h @ le16 (of_nat (length body)) @ body @ post"
    "length pre = off" "unat (bh_len p) = 4 + length body" "off + 4 + length body < 65536"
    using acl_packet_split [OF assms(1)] unfolding off_def by blast
  show "get16 (bh_data p) off = Some h" using get16_at [of pre h] d(1,2) by simp
  show "get16 (bh_data p) (off + 2) = Some (of_nat (length body))"
    using get16_at [of "pre @ le16 h" "of_nat (length body)" "body @ post"] d(1,2) by simp
  show "get16 (bh_data p) (off + 4) \<noteq> None"
    using assms(1) by (simp add: get16_def rd_def acl_packet_def off_def)
  show "get16 (bh_data p) (off + 4) = Some (of_le16 (body ! 0) (body ! 1))" if two: "2 \<le> length body"
  proof -
    obtain b0 b1 bs where body: "body = b0 # b1 # bs"
      using two by (cases body; cases "tl body") auto
    show ?thesis unfolding get16_def rd_def d(1) by (simp add: d(2) [symmetric] nth_append body)
  qed
  have "uint (bh_len p) = int (4 + length body)" using d(3) by (metis uint_nat)
  moreover have "uint (of_nat (length body) :: u16) = int (length body)"
    using d(4) by (simp add: uint_nat unsigned_of_nat take_bit_nat_eq_self)
  ultimately show "uint (of_nat (length body) :: u16) = uint (bh_len p) - 4" by simp
  show "read_at (bh_data p) off (unat (bh_len p)) = Some (acl_bytes h body)"
    unfolding read_at_def d(1) by (simp add: d(2) [symmetric] d(3) acl_bytes_def)
qed

text \<open>The value of the map that the code starts from.\<close>

lemma fg_abs_partial:
  assumes "fg_ok st"
  shows "hm_map (fg_partial st) (ucast h) = None \<Longrightarrow> fg_abs st h = None"
    and "hm_map (fg_partial st) (ucast h) = Some a \<Longrightarrow> \<exists>q. fg_heap st a = Some q \<and> partial_ok q \<and>
      fg_abs st h = Some (bh_event q, unat (bh_len q), take (unat (bh_offset q)) (bh_data q))"
proof -
  show "hm_map (fg_partial st) (ucast h) = None \<Longrightarrow> fg_abs st h = None" by (simp add: fg_abs_def)
  assume a: "hm_map (fg_partial st) (ucast h) = Some a"
  then obtain q where "fg_heap st a = Some q" "partial_ok q" using assms by (auto simp: fg_ok_def)
  then show "\<exists>q. fg_heap st a = Some q \<and> partial_ok q \<and>
      fg_abs st h = Some (bh_event q, unat (bh_len q), take (unat (bh_offset q)) (bh_data q))"
    using a by (simp add: fg_abs_def)
qed

lemma start_step:
  assumes ok: "fg_ok st" and p: "acl_packet p h body" and mem: "alloc_ok alloc st"
    and tot: "l2cap_total body < 65536"
  defines "key \<equiv> h AND 0x0FFF" and "tot \<equiv> l2cap_total body"
  shows "\<exists>st' out. reassemble_start alloc plenty st p (ucast key) (hm_map (fg_partial st) (ucast key))
      (of_le16 (body ! 0) (body ! 1)) = Some (st', out) \<and> fg_ok st' \<and>
    (fg_abs st', delivered out) =
      (if tot \<le> 4 + length body then ((fg_abs st)(key := None), [(bh_event p, acl_bytes h body)])
       else ((fg_abs st)(key \<mapsto> (bh_event p, tot, le16 h @ le16 (of_nat (tot - 4)) @ body)), []))"
proof -
  let ?l = "of_le16 (body ! 0) (body ! 1)"
  define st1 where "st1 = (case hm_map (fg_partial st) (ucast key) of None \<Rightarrow> st
    | Some a \<Rightarrow> the (drop_partial st (ucast key) a))"
  have st1: "(case hm_map (fg_partial st) (ucast key) of None \<Rightarrow> Some st | Some a \<Rightarrow> drop_partial st (ucast key) a) = Some st1 \<and>
    fg_ok st1 \<and> fg_abs st1 = (fg_abs st)(key := None) \<and> hm_map (fg_partial st1) (ucast key) = None \<and>
    (\<forall>a. fg_heap st a = None \<longrightarrow> fg_heap st1 a = None)"
  proof (cases "hm_map (fg_partial st) (ucast key)")
    case None
    then show ?thesis using ok fg_abs_partial(1) [OF ok None] by (auto simp: st1_def fun_eq_iff)
  next
    case (Some a)
    obtain st' where "drop_partial st (ucast key) a = Some st'" "fg_ok st'" "fg_abs st' = (fg_abs st)(key := None)"
        "fg_heap st' = (fg_heap st)(a := None)" "hm_map (fg_partial st') (ucast key) = None"
      using drop_partial_ok [OF ok Some] by blast
    with Some show ?thesis by (simp add: st1_def)
  qed
  obtain pre post where d: "bh_data p = pre @ le16 h @ le16 (of_nat (length body)) @ body @ post"
    "length pre = unat (bh_offset p)" "unat (bh_len p) = 4 + length body"
    "unat (bh_offset p) + 4 + length body < 65536"
    using acl_packet_split [OF p] by blast
  have full: "unat (?l + L2CAP_HEADER_SIZE + HCI_ACL_PREAMBLE_SIZE) = tot"
    using tot by (simp add: tot_def l2cap_total_def unat_word_ariths)
  have fullw: "?l + L2CAP_HEADER_SIZE + HCI_ACL_PREAMBLE_SIZE = of_nat tot"
    unfolding full [symmetric] by simp
  have le: "?l + L2CAP_HEADER_SIZE + HCI_ACL_PREAMBLE_SIZE \<le> bh_len p \<longleftrightarrow> tot \<le> 4 + length body"
    using full d(3) by (simp add: word_le_nat_alt)
  have payload: "bh_payload p = acl_bytes h body" using p by (simp add: acl_packet_def)
  show ?thesis
  proof (cases "tot \<le> 4 + length body")
    case True
    then show ?thesis
      using st1 le payload unfolding reassemble_start_def Let_def by simp
  next
    case False
    obtain a t where t: "alloc tot = Some (a, t)" "length (bh_data t) = tot" "fg_heap st1 a = None"
      using mem st1 unfolding alloc_ok_def by metis
    have read: "read_at (bh_data p) (unat (bh_offset p)) (unat (bh_len p)) = Some (acl_bytes h body)"
      using acl_packet_reads(6) [OF p] .
    define rest where "rest = drop (4 + length body) (bh_data t)"
    have w: "write_at (bh_data t) 0 (acl_bytes h body) = Some (acl_bytes h body @ rest)"
      using t(2) False by (simp add: write_at_def rest_def)
    have m: "put16 (acl_bytes h body @ rest) 2 v = Some (le16 h @ le16 v @ body @ rest)" for v
      using put16_mid [of "le16 (of_nat (length body))" "le16 h" "body @ rest" v] by (simp add: acl_bytes_def)
    have sub: "(of_nat tot :: u16) - HCI_ACL_PREAMBLE_SIZE = of_nat (tot - 4)"
      by (simp add: tot_def l2cap_total_def)
    define q where "q = t\<lparr>bh_event := bh_event p, bh_len := of_nat tot, bh_offset := bh_len p,
      bh_data := le16 h @ le16 (of_nat (tot - 4)) @ body @ rest\<rparr>"
    have q: "partial_ok q"
      using full fullw t(2) False d(3) tot
      by (simp add: partial_ok_def q_def rest_def word_less_nat_alt)
    have hm1: "hm_ok (fg_partial st1)" "keys_are_equal (fg_partial st1) = default_key_equality"
      using st1 by (auto simp: fg_ok_def)
    obtain hm c where s: "hash_map_set plenty (fg_partial st1) (ucast key) a = Some (True, hm, c)" "hm_ok hm"
        "keys_are_equal hm = default_key_equality" "hm_map hm = (hm_map (fg_partial st1))(ucast key \<mapsto> a)"
      using hm_set_default [OF hm1] by blast
    have fresh: "hm_map (fg_partial st1) k = Some a \<Longrightarrow> k = ucast key" for k
      using st1 t(3) unfolding fg_ok_def by force
    note put = put_partial_ok [OF s(2,3,4) _ q fresh]
    have "reassemble_start alloc plenty st p (ucast key) (hm_map (fg_partial st) (ucast key)) ?l =
        Some (\<lparr>fg_partial = hm, fg_heap = (fg_heap st1)(a \<mapsto> q)\<rparr>, [Freed p])"
      unfolding reassemble_start_def Let_def conjunct1 [OF st1] bind.bind_lunit le if_not_P [OF False]
        full t(1) prod.case read w m s(1)
      by (simp only: fullw sub q_def bind.bind_lunit prod.case)
    moreover have "take (unat (bh_offset q)) (bh_data q) = le16 h @ le16 (of_nat (tot - 4)) @ body"
      using d(3) by (simp add: q_def)
    moreover have "unat (bh_len q) = tot" using full fullw by (simp add: q_def)
    moreover have "bh_event q = bh_event p" by (simp add: q_def)
    moreover have "fg_ok st1" "fg_abs st1 = (fg_abs st)(key := None)" using st1 by blast+
    ultimately show ?thesis
      using put False
      by (intro exI [of _ "\<lparr>fg_partial = hm, fg_heap = (fg_heap st1)(a \<mapsto> q)\<rparr>"] exI [of _ "[Freed p]"]) simp
  qed
qed

lemma continuation_step:
  assumes ok: "fg_ok st" and p: "acl_packet p h body"
    and a: "hm_map (fg_partial st) (ucast key) = Some a"
    and abs: "fg_abs st key = Some (ev, len, got)" and wrap: "length got + length body < 65536"
  shows "\<exists>st' out. reassemble_continuation st p (ucast key) a = Some (st', out) \<and> fg_ok st' \<and>
    (fg_abs st', delivered out) = (let got = got @ take (len - length got) body in
       if length got = len then ((fg_abs st)(key := None), [(ev, got)])
       else ((fg_abs st)(key \<mapsto> (ev, len, got)), []))"
proof -
  obtain q where q: "fg_heap st a = Some q" "partial_ok q"
      and abs_q: "fg_abs st key = Some (bh_event q, unat (bh_len q), take (unat (bh_offset q)) (bh_data q))"
    using fg_abs_partial(2) [OF ok a] by blast
  have ev: "ev = bh_event q" and len: "len = unat (bh_len q)" and got: "got = take (unat (bh_offset q)) (bh_data q)"
    using abs abs_q by simp_all
  have qlen: "length (bh_data q) = len" and qoff: "unat (bh_offset q) = length got" and lt: "length got < len"
    using q(2) by (auto simp: partial_ok_def len got word_less_nat_alt)
  obtain pre post where d: "bh_data p = pre @ le16 h @ le16 (of_nat (length body)) @ body @ post"
    "length pre = unat (bh_offset p)" "unat (bh_len p) = 4 + length body"
    "unat (bh_offset p) + 4 + length body < 65536"
    using acl_packet_split [OF p] by blast
  define p1 where "p1 = p\<lparr>bh_len := bh_len p - HCI_ACL_PREAMBLE_SIZE, bh_offset := bh_offset p + HCI_ACL_PREAMBLE_SIZE\<rparr>"
  have p1: "unat (bh_len p1) = length body" "unat (bh_offset p1) = length (pre @ le16 h @ le16 (of_nat (length body)))"
    using d by (simp_all add: p1_def unat_sub word_le_nat_alt unat_word_ariths)
  define part where "part = take (len - length got) body"
  have proj: "unat (bh_offset q + bh_len p1) = length got + length body"
    using qoff p1(1) wrap by (simp add: unat_word_ariths)
  have over: "bh_len q < bh_offset q + bh_len p1 \<longleftrightarrow> len < length got + length body"
    using proj by (simp add: word_less_nat_alt len)
  define plen where "plen = (if bh_len q < bh_offset q + bh_len p1 then bh_len q - bh_offset q else bh_len p1)"
  define noff where "noff = (if bh_len q < bh_offset q + bh_len p1 then bh_len q else bh_offset q + bh_len p1)"
  have le: "bh_offset q \<le> bh_len q" using lt qoff len by (simp add: word_le_nat_alt)
  have plen: "unat plen = length part"
    using over p1(1) lt qoff len unat_sub [OF le] by (auto simp: plen_def part_def)
  have noff: "unat noff = length got + length part"
    using over lt proj len by (auto simp: noff_def part_def)
  have read: "read_at (bh_data p1) (unat (bh_offset p1)) (unat plen) = Some part"
  proof -
    have "bh_data p1 = (pre @ le16 h @ le16 (of_nat (length body))) @ body @ post" by (simp add: p1_def d)
    moreover have "take (length part) (body @ post) = part"
      by (cases "length body \<le> len - length got") (simp_all add: part_def)
    ultimately show ?thesis using plen unfolding read_at_def p1(2) by (simp add: part_def)
  qed
  define rest where "rest = drop (length got + length part) (bh_data q)"
  have fits: "length got + length part \<le> len" using lt by (simp add: part_def)
  have tg: "take (length got) (bh_data q) = got" unfolding qoff [symmetric] by (rule got [symmetric])
  have wr: "write_at (bh_data q) (unat (bh_offset q)) part = Some (got @ part @ rest)"
    using fits unfolding write_at_def qoff by (simp add: qlen rest_def tg)
  define q' where "q' = q\<lparr>bh_offset := noff, bh_data := got @ part @ rest\<rparr>"
  have take': "take (unat noff) (bh_data q') = got @ part" by (simp add: q'_def noff)
  have len': "length (bh_data q') = len" using fits qlen by (simp add: q'_def rest_def)
  have eq: "bh_offset q' = bh_len q' \<longleftrightarrow> length (got @ part) = len"
    by (simp add: q'_def word_unat_eq_iff noff len)
  have step: "reassemble_continuation st p (ucast key) a =
    (if bh_offset q' = bh_len q' then do {
       st \<leftarrow> drop_partial st (ucast key) a;
       Some (st, [Freed (p1\<lparr>bh_len := plen\<rparr>), Reassembled (q'\<lparr>bh_offset := 0\<rparr>)])
     } else Some (st\<lparr>fg_heap := (fg_heap st)(a \<mapsto> q')\<rparr>, [Freed (p1\<lparr>bh_len := plen\<rparr>)]))"
    unfolding reassemble_continuation_def Let_def p1_def [symmetric]
    by (simp add: q(1) plen_def [symmetric] noff_def [symmetric] read wr q'_def)
  show ?thesis
  proof (cases "length (got @ part) = len")
    case True
    obtain st' where st': "drop_partial st (ucast key) a = Some st'" "fg_ok st'" "fg_abs st' = (fg_abs st)(key := None)"
      using drop_partial_ok [OF ok a] by blast
    have "bh_payload (q'\<lparr>bh_offset := 0\<rparr>) = got @ part"
      using True len' take' eq noff by (simp add: bh_payload_def q'_def len)
    moreover have "bh_event (q'\<lparr>bh_offset := 0\<rparr>) = ev" by (simp add: q'_def ev)
    ultimately have "delivered [Freed (p1\<lparr>bh_len := plen\<rparr>), Reassembled (q'\<lparr>bh_offset := 0\<rparr>)] = [(ev, got @ part)]"
      by simp
    with True st' step eq show ?thesis unfolding Let_def part_def [symmetric] by simp
  next
    case False
    have ok': "partial_ok q'"
      using len' False fits noff by (simp add: partial_ok_def q'_def word_less_nat_alt len)
    have hm: "hm_ok (fg_partial st)" "keys_are_equal (fg_partial st) = default_key_equality"
      and inj: "inj_on (hm_map (fg_partial st)) (dom (hm_map (fg_partial st)))"
      using ok by (auto simp: fg_ok_def)
    have same: "hm_map (fg_partial st) = (hm_map (fg_partial st))(ucast key \<mapsto> a)" using a by auto
    have only: "hm_map (fg_partial st) k = Some a \<Longrightarrow> k = ucast key" for k
      using inj a by (metis domI inj_onD)
    have st': "st\<lparr>fg_heap := (fg_heap st)(a \<mapsto> q')\<rparr> = \<lparr>fg_partial = fg_partial st, fg_heap = (fg_heap st)(a \<mapsto> q')\<rparr>"
      by simp
    have "unat (bh_len q') = len" "bh_event q' = ev" "unat (bh_offset q') = unat noff"
      by (simp_all add: q'_def ev len)
    with put_partial_ok [OF hm same ok ok' only] False step eq take' show ?thesis
      unfolding Let_def part_def [symmetric] st' by simp
  qed
qed

lemma reassembly_step:
  assumes ok: "fg_ok st" and p: "acl_packet p h body" and nw: "no_wrap (fg_abs st) h body"
    and mem: "GET_BOUNDARY_FLAG h = START_PACKET_BOUNDARY \<Longrightarrow> alloc_ok alloc st"
  shows "\<exists>st' out. reassemble_and_dispatch alloc plenty st p = Some (st', out) \<and> fg_ok st' \<and>
    (fg_abs st', delivered out) = reassembly_spec (fg_abs st) (bh_event p) h body"
proof -
  let ?key = "h AND 0x0FFF"
  note reads = acl_packet_reads [OF p]
  obtain l where l: "get16 (bh_data p) (unat (bh_offset p) + 4) = Some l"
      "2 \<le> length body \<Longrightarrow> l = of_le16 (body ! 0) (body ! 1)"
    using reads(3,4) by auto
  have get: "hash_map_get (fg_partial st) (ucast ?key) = Some (hm_map (fg_partial st) (ucast ?key))"
    using ok by (intro hash_map_get_ok) (simp add: fg_ok_def)
  have code: "reassemble_and_dispatch alloc plenty st p =
    (if GET_BOUNDARY_FLAG h = START_PACKET_BOUNDARY
     then reassemble_start alloc plenty st p (ucast ?key) (hm_map (fg_partial st) (ucast ?key)) l
     else (case hm_map (fg_partial st) (ucast ?key) of None \<Rightarrow> Some (st, [Freed p])
           | Some a \<Rightarrow> reassemble_continuation st p (ucast ?key) a))"
    using p unfolding reassemble_and_dispatch_def Let_def
    by (simp only: reads(1,2,5) l(1) get bind.bind_lunit) (simp add: acl_packet_def)
  show ?thesis
  proof (cases "GET_BOUNDARY_FLAG h = START_PACKET_BOUNDARY")
    case True
    then have t: "2 \<le> length body" "l2cap_total body < 65536" using nw by (simp_all add: no_wrap_def)
    from start_step [OF ok p mem [OF True] t(2)] show ?thesis
      unfolding code reassembly_spec_def Let_def l2cap_total_def l(2) [OF t(1)] using True by simp
  next
    case False
    show ?thesis
    proof (cases "hm_map (fg_partial st) (ucast ?key)")
      case None
      with False fg_abs_partial(1) [OF ok None] ok show ?thesis
        unfolding code reassembly_spec_def Let_def by simp
    next
      case (Some a)
      then obtain ev len got where abs: "fg_abs st ?key = Some (ev, len, got)"
        using fg_abs_partial(2) [OF ok Some] by auto
      then have "length got + length body < 65536" using nw False by (simp add: no_wrap_def)
      from continuation_step [OF ok p Some abs this] show ?thesis
        unfolding code reassembly_spec_def using False Some abs by (simp add: Let_def)
    qed
  qed
qed

text \<open>
  C20: For well-formed ACL packets of any connections in any order, with memory and as long as the
  16-bit lengths do not wrap around, the code never reads or writes outside a buffer, keeps its
  partial packets well formed and does what the specification says: a start fragment is delivered if
  it is complete and replaces what was pending for its handle otherwise, a continuation without a
  start is dropped, and a continuation extends the pending bytes, up to the expected length, at
  which the packet is delivered.
\<close>
theorem reassembly_refines:
  assumes "fg_ok st" and "acl_packet p h body" and "no_wrap (fg_abs st) h body"
    and "GET_BOUNDARY_FLAG h = START_PACKET_BOUNDARY \<Longrightarrow> alloc_ok alloc st"
  shows "\<exists>st' out. reassemble_and_dispatch alloc plenty st p = Some (st', out) \<and> fg_ok st' \<and>
    (fg_abs st', delivered out) = reassembly_spec (fg_abs st) (bh_event p) h body"
  by (rule reassembly_step [OF assms])

text \<open>An initial fragmenter has no partial packet.\<close>

lemma fragmenter_init_ok:
  "\<exists>st. fragmenter_init True True = Some st \<and> fg_ok st \<and> fg_abs st = (\<lambda>_. None) \<and> fg_heap st = Map.empty"
proof -
  obtain hm :: "(u32, nat) hash_map" where hm: "hash_map_new True True 42 hash_function_naive False False None = Some (Some hm)"
      "hm_ok hm" "\<And>k. hm_map hm k = None" "keys_are_equal hm = default_key_equality"
    using hm_ok_new [of 42 None hash_function_naive False False] by auto
  then have "hm_map hm = (\<lambda>_. None)" by (simp add: fun_eq_iff)
  then have "fg_ok \<lparr>fg_partial = hm, fg_heap = Map.empty\<rparr>"
      "fg_abs \<lparr>fg_partial = hm, fg_heap = Map.empty\<rparr> = (\<lambda>_. None)"
    using hm(2,4) by (auto simp: fg_ok_def fg_abs_def)
  with hm(1) show ?thesis by (simp add: fragmenter_init_def)
qed

definition heap_template :: "nat \<Rightarrow> bt_hdr" where
  "heap_template n = \<lparr>bh_event = 0, bh_len = 0, bh_offset = 0, bh_layer_specific = 0, bh_data = replicate n 0\<rparr>"

theorem reassembly_refines_witness:
  "\<exists>st st' out. fragmenter_init True True = Some st \<and>
     reassemble_and_dispatch (\<lambda>n. Some (0, heap_template n)) plenty st
       \<lparr>bh_event = 0x1100, bh_len = 7, bh_offset = 0, bh_layer_specific = 0, bh_data = acl_bytes 0x2003 [4, 0, 64]\<rparr> = Some (st', out) \<and>
     fg_abs st' 3 = Some (0x1100, 12, le16 0x2003 @ le16 8 @ [4, 0, 64]) \<and> delivered out = []"
proof -
  obtain st where st: "fragmenter_init True True = Some st" "fg_ok st" "fg_abs st = (\<lambda>_. None)" "fg_heap st = Map.empty"
    using fragmenter_init_ok by blast
  let ?p = "\<lparr>bh_event = 0x1100, bh_len = 7, bh_offset = 0, bh_layer_specific = 0,
    bh_data = acl_bytes 0x2003 [4, 0, 64]\<rparr> :: bt_hdr"
  have "acl_packet ?p 0x2003 [4, 0, 64]"
    by (simp add: acl_packet_def buf_ok_def bh_payload_def MSG_EVT_def)
  moreover have "no_wrap (fg_abs st) 0x2003 [4, 0, 64]"
    by (simp add: no_wrap_def st GET_BOUNDARY_FLAG_def l2cap_total_def of_le16_def)
  moreover have "alloc_ok (\<lambda>n. Some (0, heap_template n)) st" by (simp add: alloc_ok_def heap_template_def st)
  ultimately obtain st' out where r:
    "reassemble_and_dispatch (\<lambda>n. Some (0, heap_template n)) plenty st ?p = Some (st', out)"
    "(fg_abs st', delivered out) = reassembly_spec (fg_abs st) (bh_event ?p) 0x2003 [4, 0, 64]"
    using reassembly_refines [OF st(2)] by blast
  have "reassembly_spec (fg_abs st) (bh_event ?p) 0x2003 [4, 0, 64] =
    ((\<lambda>_. None)(3 \<mapsto> (0x1100, 12, le16 0x2003 @ le16 8 @ [4, 0, 64])), [])"
    by (simp add: reassembly_spec_def st GET_BOUNDARY_FLAG_def of_le16_def)
  with r st(1) show ?thesis by auto
qed

section \<open>Fragments are put together again\<close>

lemma continuation_key [simp]: "APPLY_CONTINUATION_FLAG h AND 0x0FFF = h AND 0x0FFF"
  unfolding APPLY_CONTINUATION_FLAG_def by (simp add: bit.conj_disj_distrib2 and.assoc)

lemma continuation_boundary [simp]: "GET_BOUNDARY_FLAG (APPLY_CONTINUATION_FLAG h) = 1"
proof -
  have "drop_bit 12 (h AND 0xCFFF) AND 3 = drop_bit 12 h AND (drop_bit 12 0xCFFF AND 3)"
    by (simp add: drop_bit_and and.assoc)
  then show ?thesis
    by (simp add: GET_BOUNDARY_FLAG_def APPLY_CONTINUATION_FLAG_def drop_bit_or bit.conj_disj_distrib2)
qed

lemma chunks_nonempty: "0 < m \<Longrightarrow> xs \<noteq> [] \<Longrightarrow> [] \<notin> set (chunks m xs)"
proof (induction m xs rule: chunks.induct)
  case (1 m xs)
  then show ?case by (subst chunks.simps) auto
qed

text \<open>The continuations of a pending packet, up to the last one.\<close>

lemma reassemble_continuations:
  assumes "fg_ok st" "list_all2 (\<lambda>p c. acl_packet p (APPLY_CONTINUATION_FLAG h) c) ps cs"
    and "fg_abs st (h AND 0x0FFF) = Some (ev, len, got)"
    and "length got + length (concat cs) = len" "len < 65536" "[] \<notin> set cs" "cs \<noteq> []"
  shows "\<exists>st' out. reassemble_all alloc st ps = Some (st', out) \<and> fg_ok st' \<and>
    fg_abs st' = (fg_abs st)(h AND 0x0FFF := None) \<and> delivered out = [(ev, got @ concat cs)]"
  using assms
proof (induction ps arbitrary: st cs got)
  case (Cons p ps)
  let ?key = "h AND 0x0FFF"
  obtain c cs' where cs: "cs = c # cs'" "acl_packet p (APPLY_CONTINUATION_FLAG h) c"
      "list_all2 (\<lambda>p c. acl_packet p (APPLY_CONTINUATION_FLAG h) c) ps cs'"
    using Cons.prems(2) by (auto simp: list_all2_Cons1)
  have "no_wrap (fg_abs st) (APPLY_CONTINUATION_FLAG h) c"
    using Cons.prems(3-5) cs(1) by (simp add: no_wrap_def)
  from reassembly_step [OF Cons.prems(1) cs(2) this, of "alloc (length ps)"]
  obtain st1 out1 where s: "reassemble_and_dispatch (alloc (length ps)) plenty st p = Some (st1, out1)" "fg_ok st1"
    "(fg_abs st1, delivered out1) = reassembly_spec (fg_abs st) (bh_event p) (APPLY_CONTINUATION_FLAG h) c"
    by auto
  have t: "length c \<le> len - length got" using Cons.prems(4) cs(1) by simp
  have spec: "(fg_abs st1, delivered out1) =
     (if length (got @ c) = len then ((fg_abs st)(?key := None), [(ev, got @ c)])
      else ((fg_abs st)(?key \<mapsto> (ev, len, got @ c)), []))"
    unfolding s(3) reassembly_spec_def using Cons.prems(3) t by (simp add: Let_def min_absorb1)
  show ?case
  proof (cases "cs' = []")
    case True
    then have "length (got @ c) = len" "ps = []" using Cons.prems(4) cs by auto
    with s(1,2) spec cs(1) True show ?thesis by (simp add: fun_upd_def)
  next
    case False
    have "0 < length (concat cs')" using False Cons.prems(6) cs(1) by (cases cs') auto
    moreover have "length (got @ c) + length (concat cs') = len" using Cons.prems(4) cs(1) by simp
    ultimately have "length (got @ c) \<noteq> len" by linarith
    then have a: "fg_abs st1 = (fg_abs st)(?key \<mapsto> (ev, len, got @ c))" "delivered out1 = []"
      using spec by simp_all
    have k: "fg_abs st1 ?key = Some (ev, len, got @ c)" using a by simp
    have "length (got @ c) + length (concat cs') = len" "[] \<notin> set cs'" using Cons.prems(4,6) cs(1) by auto
    from Cons.IH [OF s(2) cs(3) k this(1) Cons.prems(5) this(2) False]
    obtain st' out where "reassemble_all alloc st1 ps = Some (st', out)" "fg_ok st'"
      "fg_abs st' = (fg_abs st1)(?key := None)" "delivered out = [(ev, (got @ c) @ concat cs')]"
      by blast
    with s(1) a cs(1) show ?thesis by (auto simp: fun_eq_iff)
  qed
qed simp

text \<open>
  C6: What the fragmenter of one host makes of an L2CAP packet is put together again by the
  fragmenter of its peer: if the packets received carry, in order, the payloads that were sent, then
  exactly one packet is delivered, with the handle, the flags, the length and the data of the one
  that was cut, and nothing is left pending for the handle; whatever was pending for other handles
  is untouched.
\<close>
theorem fragments_reassemble:
  assumes sent: "buf_ok p" "bh_payload p = acl_bytes h c" "MSG_EVT (bh_event p) = MSG_STACK_TO_HC_HCI_ACL"
      "bh_layer_specific p = 0" "length c < fuel"
      "2 \<le> unat (acl_data_size ctl (bh_event p))" "unat (acl_data_size ctl (bh_event p)) + 4 < 65536"
      "fragment_all fuel ctl p = Some out"
    and l2cap: "GET_BOUNDARY_FLAG h = START_PACKET_BOUNDARY" "4 \<le> length c" "l2cap_total c = 4 + length c"
    and received: "map bh_payload ps = map fst (sent_of out)"
      "list_all (\<lambda>q. buf_ok q \<and> MSG_EVT (bh_event q) = MSG_HC_TO_STACK_HCI_ACL \<and>
         unat (bh_offset q) + 6 \<le> length (bh_data q)) ps"
    and st: "fg_ok st" "alloc_ok (alloc (length ps - 1)) st"
  shows "\<exists>st' out'. reassemble_all alloc st ps = Some (st', out') \<and> fg_ok st' \<and>
    delivered out' = [(bh_event (hd ps), acl_bytes h c)] \<and>
    fg_abs st' = (fg_abs st)(h AND 0x0FFF := None)"
proof -
  let ?m = "unat (acl_data_size ctl (bh_event p))" and ?key = "h AND 0x0FFF"
  have "0 < acl_data_size ctl (bh_event p)" using sent(6) by (simp add: word_less_nat_alt)
  from fragment_all_frames [OF sent(1-4) this sent(7,5)] sent(8)
  have out: "sent_of out = acl_fragments h (chunks ?m c)" by simp
  obtain c0 cs where ch: "chunks ?m c = c0 # cs" by (cases "chunks ?m c") (auto simp: chunks_not_Nil)
  have cat: "c0 @ concat cs = c" using chunks_concat [of ?m c] ch by simp
  have "c \<noteq> []" "0 < ?m" using l2cap(2) sent(6) by auto
  then have ne: "[] \<notin> set cs" using chunks_nonempty [of ?m c] ch by simp
  have c0: "2 \<le> length c0"
    using ch sent(6) l2cap(2) by (subst (asm) chunks.simps) (auto split: if_splits)
  have l2: "l2cap_total c0 = 4 + length c" "l2cap_total c < 65536"
  proof -
    obtain b0 b1 bs where "c0 = b0 # b1 # bs" using c0 by (cases c0; cases "tl c0") auto
    then have "c ! 0 = c0 ! 0" "c ! 1 = c0 ! 1" by (simp_all add: cat [symmetric])
    then show "l2cap_total c0 = 4 + length c" using l2cap(3) by (simp add: l2cap_total_def)
    show "l2cap_total c < 65536"
      using l2cap(3) buf_split [OF sent(1)] sent(1,2) by (metis buf_ok_def length_acl_bytes add_lessD1 add.commute)
  qed
  have "map fst (acl_fragments (APPLY_CONTINUATION_FLAG h) ds) = map (acl_bytes (APPLY_CONTINUATION_FLAG h)) ds" for ds
    by (induction ds) simp_all
  then have "map bh_payload ps = acl_bytes h c0 # map (acl_bytes (APPLY_CONTINUATION_FLAG h)) cs"
    using received(1) out ch by simp
  then obtain p0 qs where ps: "ps = p0 # qs" "bh_payload p0 = acl_bytes h c0"
      "map bh_payload qs = map (acl_bytes (APPLY_CONTINUATION_FLAG h)) cs" by (cases ps) auto
  have p0: "acl_packet p0 h c0" using received(2) ps by (simp add: acl_packet_def)
  have qs: "list_all2 (\<lambda>p c. acl_packet p (APPLY_CONTINUATION_FLAG h) c) qs cs"
    using ps(3) received(2) unfolding ps(1)
    by (auto simp: list_all2_conv_all_nth acl_packet_def list_all_length dest: map_eq_imp_length_eq)
       (metis map_eq_imp_length_eq nth_map)
  have "no_wrap (fg_abs st) h c0" using l2 l2cap c0 by (simp add: no_wrap_def)
  from reassembly_step [OF st(1) p0 this, of "alloc (length qs)"] st(2) ps(1)
  obtain st1 out1 where s: "reassemble_and_dispatch (alloc (length qs)) plenty st p0 = Some (st1, out1)" "fg_ok st1"
    "(fg_abs st1, delivered out1) = reassembly_spec (fg_abs st) (bh_event p0) h c0"
    by auto
  have spec: "(fg_abs st1, delivered out1) =
    (if l2cap_total c0 \<le> 4 + length c0 then ((fg_abs st)(?key := None), [(bh_event p0, acl_bytes h c0)])
     else ((fg_abs st)(?key \<mapsto> (bh_event p0, l2cap_total c0, le16 h @ le16 (of_nat (l2cap_total c0 - 4)) @ c0)), []))"
    unfolding s(3) reassembly_spec_def using l2cap(1) by (simp add: Let_def l2cap_total_def)
  show ?thesis
  proof (cases "cs = []")
    case True
    then have "qs = []" "c0 = c" using ps(3) cat by auto
    with s(1,2) spec l2 ps(1) show ?thesis by simp
  next
    case False
    have "0 < length (concat cs)" using False ne by (cases cs) auto
    moreover have "length c = length c0 + length (concat cs)" unfolding cat [symmetric] by simp
    ultimately have "\<not> l2cap_total c0 \<le> 4 + length c0" using l2(1) by linarith
    then have a: "fg_abs st1 = (fg_abs st)(?key \<mapsto> (bh_event p0, 4 + length c, le16 h @ le16 (of_nat (length c)) @ c0))"
        "delivered out1 = []"
      using spec l2 by simp_all
    then have k: "fg_abs st1 ?key = Some (bh_event p0, 4 + length c, le16 h @ le16 (of_nat (length c)) @ c0)" by simp
    have "length (le16 h @ le16 (of_nat (length c)) @ c0) + length (concat cs) = 4 + length c"
      unfolding cat [symmetric] by simp
    moreover have "4 + length c < 65536" using l2(2) l2cap(3) by simp
    ultimately obtain st' out' where "reassemble_all alloc st1 qs = Some (st', out')" "fg_ok st'"
      "fg_abs st' = (fg_abs st1)(?key := None)"
      "delivered out' = [(bh_event p0, (le16 h @ le16 (of_nat (length c)) @ c0) @ concat cs)]"
      using reassemble_continuations [OF s(2) qs k _ _ ne False] by blast
    moreover have "(le16 h @ le16 (of_nat (length c)) @ c0) @ concat cs = acl_bytes h c"
      by (simp add: acl_bytes_def cat)
    ultimately show ?thesis using s(1) a ps(1) by simp
  qed
qed

definition received_fragment :: "u16 \<Rightarrow> bytes \<Rightarrow> bt_hdr" where
  "received_fragment h c = \<lparr>bh_event = 0x1100, bh_len = of_nat (4 + length c), bh_offset = 0,
     bh_layer_specific = 0, bh_data = acl_bytes h c @ [0, 0]\<rparr>"

theorem fragments_reassemble_witness:
  "\<exists>st st' out'. fragmenter_init True True = Some st \<and>
     reassemble_all (\<lambda>_ n. Some (0, heap_template n)) st
       [received_fragment 0x2003 [1, 0], received_fragment 0x1003 [64, 0], received_fragment 0x1003 [7]] = Some (st', out') \<and>
     delivered out' = [(0x1100, acl_bytes 0x2003 [1, 0, 64, 0, 7])]"
proof -
  let ?c = "[1, 0, 64, 0, 7] :: bytes"
  let ?p = "\<lparr>bh_event = 0x2100, bh_len = 9, bh_offset = 0, bh_layer_specific = 0, bh_data = acl_bytes 0x2003 ?c\<rparr> :: bt_hdr"
  let ?ctl = "\<lparr>acl_data_size_classic = 2, acl_data_size_ble = 0\<rparr> :: acl_sizes"
  let ?ps = "[received_fragment 0x2003 [1, 0], received_fragment 0x1003 [64, 0], received_fragment 0x1003 [7]]"
  obtain st where st: "fragmenter_init True True = Some st" "fg_ok st" "fg_heap st = Map.empty"
    using fragmenter_init_ok by blast
  have m: "acl_data_size ?ctl (bh_event ?p) = 2" by (simp add: acl_data_size_def SUB_EVENT_def)
  have ch: "chunks 2 ?c = [[1, 0], [64, 0], [7]]" by (simp add: chunks.simps)
  have p: "buf_ok ?p" "bh_payload ?p = acl_bytes 0x2003 ?c" "MSG_EVT (bh_event ?p) = MSG_STACK_TO_HC_HCI_ACL"
    "bh_layer_specific ?p = 0"
    by (simp_all add: buf_ok_def bh_payload_def MSG_EVT_def)
  obtain out where out: "fragment_all 6 ?ctl ?p = Some out" "sent_of out = acl_fragments 0x2003 (chunks 2 ?c)"
    using fragment_all_frames [OF p, of ?ctl 6] m by auto
  have r: "map bh_payload ?ps = map fst (sent_of out)"
    unfolding out(2) ch by (simp add: bh_payload_def received_fragment_def APPLY_CONTINUATION_FLAG_def)
  have ok: "list_all (\<lambda>q. buf_ok q \<and> MSG_EVT (bh_event q) = MSG_HC_TO_STACK_HCI_ACL \<and>
         unat (bh_offset q) + 6 \<le> length (bh_data q)) ?ps"
    by (simp add: buf_ok_def MSG_EVT_def received_fragment_def)
  have a: "alloc_ok ((\<lambda>_ n. Some (0, heap_template n)) (length ?ps - 1)) st"
    by (simp add: alloc_ok_def heap_template_def st)
  have "GET_BOUNDARY_FLAG 0x2003 = START_PACKET_BOUNDARY" by (simp add: GET_BOUNDARY_FLAG_def)
  moreover have "l2cap_total ?c = 4 + length ?c" by (simp add: l2cap_total_def of_le16_def)
  ultimately show ?thesis
    using fragments_reassemble [OF p _ _ _ out(1) _ _ _ r ok st(2) a] m st(1)
    by (auto simp: received_fragment_def)
qed

section \<open>Where the 16-bit lengths wrap around\<close>

text \<open>
  A start fragment whose L2CAP length is 65528 or more is delivered at once as a complete packet,
  although most of it is missing: the full length is computed modulo 65536.
\<close>
theorem reassembly_length_wraps:
  assumes "acl_packet p h body" and "2 \<le> length body" and "GET_BOUNDARY_FLAG h = START_PACKET_BOUNDARY"
    and "65536 \<le> l2cap_total body" and "l2cap_total body - 65536 \<le> 4 + length body"
    and "fg_ok st" and "fg_abs st (h AND 0x0FFF) = None"
  shows "reassemble_and_dispatch alloc mem st p = Some (st, [Reassembled p])"
proof -
  let ?l = "of_le16 (body ! 0) (body ! 1)"
  note reads = acl_packet_reads [OF assms(1)]
  have none: "hm_map (fg_partial st) (ucast (h AND 0x0FFF)) = None"
  proof (rule ccontr)
    assume "hm_map (fg_partial st) (ucast (h AND 0x0FFF)) \<noteq> None"
    then obtain a where "hm_map (fg_partial st) (ucast (h AND 0x0FFF)) = Some a" by blast
    from fg_abs_partial(2) [OF assms(6) this] assms(7) show False by simp
  qed
  have get: "hash_map_get (fg_partial st) (ucast (h AND 0x0FFF)) = Some None"
    using assms(6) none by (subst hash_map_get_ok) (simp_all add: fg_ok_def)
  have "unat (bh_len p) = 4 + length body" using acl_packet_split [OF assms(1)] by metis
  moreover have "unat (?l + L2CAP_HEADER_SIZE + HCI_ACL_PREAMBLE_SIZE) = l2cap_total body - 65536"
  proof -
    have "?l + L2CAP_HEADER_SIZE + HCI_ACL_PREAMBLE_SIZE = 8 + ?l" by simp
    moreover have "unat (8 + ?l) = (8 + unat ?l) mod 65536" by (simp add: unat_word_ariths)
    ultimately have "unat (?l + L2CAP_HEADER_SIZE + HCI_ACL_PREAMBLE_SIZE) = (unat ?l + 8) mod 65536"
      by (simp only: add.commute)
    then show ?thesis using assms(4) u16_lt [of ?l] by (simp add: l2cap_total_def mod_if)
  qed
  ultimately have "?l + L2CAP_HEADER_SIZE + HCI_ACL_PREAMBLE_SIZE \<le> bh_len p"
    using assms(5) by (simp add: word_le_nat_alt)
  then have "reassemble_start alloc mem st p (ucast (h AND 0x0FFF)) None ?l = Some (st, [Reassembled p])"
    by (simp add: reassemble_start_def Let_def)
  with assms(1,3) get show ?thesis
    unfolding reassemble_and_dispatch_def Let_def
    by (simp only: reads(1,2,5) reads(4) [OF assms(2)] get bind.bind_lunit) (simp add: acl_packet_def)
qed

theorem reassembly_length_wraps_witness:
  "\<exists>st. fragmenter_init True True = Some st \<and>
     reassemble_and_dispatch (\<lambda>n. None) plenty st (received_fragment 0x2003 [0xFF, 0xFF, 64, 0]) =
       Some (st, [Reassembled (received_fragment 0x2003 [0xFF, 0xFF, 64, 0])])"
proof -
  let ?p = "received_fragment 0x2003 [0xFF, 0xFF, 64, 0]"
  obtain st where st: "fragmenter_init True True = Some st" "fg_ok st" "fg_abs st = (\<lambda>_. None)"
    using fragmenter_init_ok by blast
  have "acl_packet ?p 0x2003 [0xFF, 0xFF, 64, 0]"
    by (simp add: acl_packet_def received_fragment_def buf_ok_def bh_payload_def MSG_EVT_def)
  moreover have "l2cap_total [0xFF, 0xFF, 64, 0] = 65543" by (simp add: l2cap_total_def of_le16_def)
  ultimately show ?thesis
    using reassembly_length_wraps [of ?p "0x2003" "[0xFF, 0xFF, 64, 0]" st "\<lambda>n. None" plenty] st
    by (auto simp: GET_BOUNDARY_FLAG_def)
qed

text \<open>
  C35: A continuation that brings what has arrived to 65536 bytes or more escapes the truncation to
  the expected length: the sum wraps around to a small offset and the copy runs past the end of the
  buffer.
\<close>
theorem reassembly_offset_wraps:
  assumes "acl_packet p h body" and "GET_BOUNDARY_FLAG h \<noteq> START_PACKET_BOUNDARY" and "fg_ok st"
    and "fg_abs st (h AND 0x0FFF) = Some (ev, len, got)"
    and "65536 \<le> length got + length body" and "length got + length body - 65536 \<le> len"
  shows "reassemble_and_dispatch alloc mem st p = None"
proof -
  let ?key = "h AND 0x0FFF"
  note reads = acl_packet_reads [OF assms(1)]
  obtain l where l: "get16 (bh_data p) (unat (bh_offset p) + 4) = Some l" using reads(3) by auto
  obtain a where a: "hm_map (fg_partial st) (ucast ?key) = Some a"
    using fg_abs_partial(1) [OF assms(3)] assms(4) by (cases "hm_map (fg_partial st) (ucast ?key)") auto
  have get: "hash_map_get (fg_partial st) (ucast ?key) = Some (Some a)"
    using assms(3) a by (subst hash_map_get_ok) (simp_all add: fg_ok_def)
  obtain q where q: "fg_heap st a = Some q" "partial_ok q"
      "Some (ev, len, got) = Some (bh_event q, unat (bh_len q), take (unat (bh_offset q)) (bh_data q))"
    using fg_abs_partial(2) [OF assms(3) a] assms(4) by auto
  have qo: "unat (bh_offset q) = length got" and ql: "length (bh_data q) = len" "unat (bh_len q) = len"
    using q(2,3) by (auto simp: partial_ok_def word_less_nat_alt)
  obtain pre post where d: "unat (bh_len p) = 4 + length body" "unat (bh_offset p) + 4 + length body < 65536"
    using acl_packet_split [OF assms(1)] by metis
  define plen where "plen = bh_len p - HCI_ACL_PREAMBLE_SIZE"
  have plen: "unat plen = length body" using d by (simp add: plen_def unat_sub word_le_nat_alt)
  have "unat (bh_offset q + plen) = (length got + length body) mod 65536"
    by (simp add: unat_word_ariths qo plen)
  also have "\<dots> = length got + length body - 65536"
  proof -
    have "length got < 65536" "length body < 65536" using qo u16_lt [of "bh_offset q"] d by auto
    then show ?thesis using assms(5) by (simp add: mod_if)
  qed
  finally have small: "\<not> bh_len q < bh_offset q + plen"
    using assms(6) ql(2) by (simp add: word_less_nat_alt)
  have len_le: "len < 65536" using ql(2) u16_lt [of "bh_len q"] by simp
  have nowrite: "length bs = length body \<Longrightarrow> write_at (bh_data q) (unat (bh_offset q)) bs = None" for bs
    using assms(5) len_le ql(1) qo by (simp add: write_at_def)
  have "read_at (bh_data p) i (unat plen) = Some bs \<Longrightarrow> length bs = length body" for i bs
    using plen by (auto simp: read_at_def split: if_splits)
  then have "reassemble_continuation st p (ucast ?key) a = None"
    unfolding reassemble_continuation_def Let_def
    by (cases "read_at (bh_data p) (unat (bh_offset p + 4)) (unat plen)")
       (simp_all add: q(1) plen_def [symmetric] small nowrite)
  with assms(1,2) show ?thesis
    unfolding reassemble_and_dispatch_def Let_def
    by (simp only: reads(1,2,5) l get bind.bind_lunit) (simp add: acl_packet_def)
qed

theorem reassembly_offset_wraps_witness:
  "\<exists>st st1 out. fragmenter_init True True = Some st \<and>
     reassemble_and_dispatch (\<lambda>n. Some (0, heap_template n)) plenty st
       (received_fragment 0x2003 (le16 60000 @ replicate 50000 0)) = Some (st1, out) \<and> fg_ok st1 \<and>
     reassemble_and_dispatch (\<lambda>n. None) plenty st1 (received_fragment 0x1003 (replicate 15600 0)) = None"
proof -
  have packet: "acl_packet (received_fragment h c) h c" if "2 \<le> length c" "4 + length c < 65536" for h c
  proof -
    have l: "unat (of_nat (4 + length c) :: u16) = 4 + length c"
      using that(2) by (simp add: unsigned_of_nat take_bit_nat_eq_self del: of_nat_add)
    show ?thesis
      unfolding acl_packet_def received_fragment_def buf_ok_def bh_payload_def bt_hdr.simps l
      using that by (simp add: MSG_EVT_def)
  qed
  define b1 b2 :: bytes where "b1 = le16 60000 @ replicate 50000 0" and "b2 = replicate 15600 0"
  have len: "length b1 = 50002" "length b2 = 15600" by (simp_all add: b1_def b2_def)
  have total: "l2cap_total b1 = 60008" by (simp add: b1_def l2cap_total_def le16_def of_le16_def)
  have flags: "GET_BOUNDARY_FLAG 0x2003 = START_PACKET_BOUNDARY" "GET_BOUNDARY_FLAG 0x1003 \<noteq> START_PACKET_BOUNDARY"
    by (simp_all add: GET_BOUNDARY_FLAG_def)
  obtain st where st: "fragmenter_init True True = Some st" "fg_ok st" "fg_abs st = (\<lambda>_. None)" "fg_heap st = Map.empty"
    using fragmenter_init_ok by blast
  have "no_wrap (fg_abs st) 0x2003 b1" by (simp add: no_wrap_def flags total len)
  moreover have "alloc_ok (\<lambda>n. Some (0, heap_template n)) st" by (simp add: alloc_ok_def heap_template_def st)
  ultimately obtain st1 out where r:
      "reassemble_and_dispatch (\<lambda>n. Some (0, heap_template n)) plenty st (received_fragment 0x2003 b1) = Some (st1, out)"
      "fg_ok st1" "(fg_abs st1, delivered out) = reassembly_spec (fg_abs st) 0x1100 0x2003 b1"
    using reassembly_step [OF st(2) packet [of b1 "0x2003"], of "\<lambda>n. Some (0, heap_template n)"] len
    by (auto simp: received_fragment_def)
  have "fg_abs st1 3 = Some (0x1100, 60008, le16 0x2003 @ le16 (of_nat 60004) @ b1)"
    using r(3) unfolding reassembly_spec_def Let_def l2cap_total_def [symmetric] total
    by (simp add: flags len)
  from reassembly_offset_wraps [OF packet flags(2) r(2), of b2 _ _ _ "\<lambda>n. None" plenty] this len
  have "reassemble_and_dispatch (\<lambda>n. None) plenty st1 (received_fragment 0x1003 b2) = None" by simp
  with st(1) r(1,2) show ?thesis unfolding b1_def b2_def by blast
qed

text \<open>
  The L2CAP length is read from every packet, also from a continuation that does not hold one:
  for a fragment with fewer than two bytes of data at the end of its buffer the code reads behind
  the buffer.
\<close>
theorem short_fragment_overread:
  assumes "bh_payload p = acl_bytes h body" and "length body < 2" and "buf_ok p"
    and "length (bh_data p) = unat (bh_offset p) + unat (bh_len p)"
    and "MSG_EVT (bh_event p) = MSG_HC_TO_STACK_HCI_ACL"
  shows "reassemble_and_dispatch alloc mem st p = None"
proof -
  have "unat (bh_len p) = 4 + length body"
    using buf_split [OF assms(3)] assms(1) by (metis length_acl_bytes)
  then have "get16 (bh_data p) (unat (bh_offset p) + 4) = None"
    using assms(2,4) by (auto simp: get16_def rd_def)
  with assms(5) show ?thesis
    unfolding reassemble_and_dispatch_def Let_def
    by (auto simp: bind_eq_None_conv)
qed

theorem short_fragment_overread_witness:
  "\<exists>st. fragmenter_init True True = Some st \<and>
     reassemble_and_dispatch (\<lambda>n. None) plenty st
       \<lparr>bh_event = 0x1100, bh_len = 5, bh_offset = 0, bh_layer_specific = 0, bh_data = acl_bytes 0x1003 [7]\<rparr> = None"
proof -
  let ?p = "\<lparr>bh_event = 0x1100, bh_len = 5, bh_offset = 0, bh_layer_specific = 0, bh_data = acl_bytes 0x1003 [7]\<rparr> :: bt_hdr"
  have "bh_payload ?p = acl_bytes 0x1003 [7]" "buf_ok ?p" "MSG_EVT (bh_event ?p) = MSG_HC_TO_STACK_HCI_ACL"
    by (simp_all add: bh_payload_def buf_ok_def MSG_EVT_def)
  with short_fragment_overread [of ?p "0x1003" "[7]"] fragmenter_init_ok show ?thesis by auto
qed

end
