(* ===== verification/SmpAes.thy ===== *)
theory SmpAes
  imports Prelude
begin

text \<open>
  The block cipher of the security manager, \<open>stack/smp/aes.c\<close>, as it is configured (\<open>USE_TABLES\<close>,
  \<open>VERSION_1\<close>, \<open>HAVE_UINT_32T\<close>): a block is the list of its sixteen bytes.  Decryption is shown to undo
  encryption for every key schedule, and each round to be the round of the standard.
\<close>

unbundle bit_operations_syntax

section \<open>The field\<close>

text \<open>The macros compute on \<open>int\<close>; the result is cut to a byte where it is stored.\<close>

definition WPOLY :: u32 where "WPOLY = 0x011b"
definition DPOLY :: u32 where "DPOLY = 0x008d"

definition gf_f1 :: "u32 \<Rightarrow> u32" where "gf_f1 x = x"

definition gf_f2 :: "u32 \<Rightarrow> u32" where
  "gf_f2 x = push_bit 1 x XOR ((drop_bit 7 x AND 1) * WPOLY)"

definition gf_f4 :: "u32 \<Rightarrow> u32" where
  "gf_f4 x = push_bit 2 x XOR ((drop_bit 6 x AND 1) * WPOLY) XOR ((drop_bit 6 x AND 2) * WPOLY)"

definition gf_f8 :: "u32 \<Rightarrow> u32" where
  "gf_f8 x = push_bit 3 x XOR ((drop_bit 5 x AND 1) * WPOLY) XOR ((drop_bit 5 x AND 2) * WPOLY)
     XOR ((drop_bit 5 x AND 4) * WPOLY)"

definition gf_d2 :: "u32 \<Rightarrow> u32" where
  "gf_d2 x = drop_bit 1 x XOR (if x AND 1 \<noteq> 0 then DPOLY else 0)"

definition gf_f3 :: "u32 \<Rightarrow> u32" where "gf_f3 x = gf_f2 x XOR x"
definition gf_f9 :: "u32 \<Rightarrow> u32" where "gf_f9 x = gf_f8 x XOR x"
definition gf_fb :: "u32 \<Rightarrow> u32" where "gf_fb x = gf_f8 x XOR gf_f2 x XOR x"
definition gf_fd :: "u32 \<Rightarrow> u32" where "gf_fd x = gf_f8 x XOR gf_f4 x XOR x"
definition gf_fe :: "u32 \<Rightarrow> u32" where "gf_fe x = gf_f8 x XOR gf_f4 x XOR gf_f2 x"

section \<open>The tables\<close>

definition sb_data :: "(u32 \<Rightarrow> u32) \<Rightarrow> u8 list" where
  "sb_data w = map (\<lambda>x. ucast (w x)) [
     0x63, 0x7c, 0x77, 0x7b, 0xf2, 0x6b, 0x6f, 0xc5, 0x30, 0x01, 0x67, 0x2b, 0xfe, 0xd7, 0xab, 0x76,
     0xca, 0x82, 0xc9, 0x7d, 0xfa, 0x59, 0x47, 0xf0, 0xad, 0xd4, 0xa2, 0xaf, 0x9c, 0xa4, 0x72, 0xc0,
     0xb7, 0xfd, 0x93, 0x26, 0x36, 0x3f, 0xf7, 0xcc, 0x34, 0xa5, 0xe5, 0xf1, 0x71, 0xd8, 0x31, 0x15,
     0x04, 0xc7, 0x23, 0xc3, 0x18, 0x96, 0x05, 0x9a, 0x07, 0x12, 0x80, 0xe2, 0xeb, 0x27, 0xb2, 0x75,
     0x09, 0x83, 0x2c, 0x1a, 0x1b, 0x6e, 0x5a, 0xa0, 0x52, 0x3b, 0xd6, 0xb3, 0x29, 0xe3, 0x2f, 0x84,
     0x53, 0xd1, 0x00, 0xed, 0x20, 0xfc, 0xb1, 0x5b, 0x6a, 0xcb, 0xbe, 0x39, 0x4a, 0x4c, 0x58, 0xcf,
     0xd0, 0xef, 0xaa, 0xfb, 0x43, 0x4d, 0x33, 0x85, 0x45, 0xf9, 0x02, 0x7f, 0x50, 0x3c, 0x9f, 0xa8,
     0x51, 0xa3, 0x40, 0x8f, 0x92, 0x9d, 0x38, 0xf5, 0xbc, 0xb6, 0xda, 0x21, 0x10, 0xff, 0xf3, 0xd2,
     0xcd, 0x0c, 0x13, 0xec, 0x5f, 0x97, 0x44, 0x17, 0xc4, 0xa7, 0x7e, 0x3d, 0x64, 0x5d, 0x19, 0x73,
     0x60, 0x81, 0x4f, 0xdc, 0x22, 0x2a, 0x90, 0x88, 0x46, 0xee, 0xb8, 0x14, 0xde, 0x5e, 0x0b, 0xdb,
     0xe0, 0x32, 0x3a, 0x0a, 0x49, 0x06, 0x24, 0x5c, 0xc2, 0xd3, 0xac, 0x62, 0x91, 0x95, 0xe4, 0x79,
     0xe7, 0xc8, 0x37, 0x6d, 0x8d, 0xd5, 0x4e, 0xa9, 0x6c, 0x56, 0xf4, 0xea, 0x65, 0x7a, 0xae, 0x08,
     0xba, 0x78, 0x25, 0x2e, 0x1c, 0xa6, 0xb4, 0xc6, 0xe8, 0xdd, 0x74, 0x1f, 0x4b, 0xbd, 0x8b, 0x8a,
     0x70, 0x3e, 0xb5, 0x66, 0x48, 0x03, 0xf6, 0x0e, 0x61, 0x35, 0x57, 0xb9, 0x86, 0xc1, 0x1d, 0x9e,
     0xe1, 0xf8, 0x98, 0x11, 0x69, 0xd9, 0x8e, 0x94, 0x9b, 0x1e, 0x87, 0xe9, 0xce, 0x55, 0x28, 0xdf,
     0x8c, 0xa1, 0x89, 0x0d, 0xbf, 0xe6, 0x42, 0x68, 0x41, 0x99, 0x2d, 0x0f, 0xb0, 0x54, 0xbb, 0x16]"

definition isb_data :: "(u32 \<Rightarrow> u32) \<Rightarrow> u8 list" where
  "isb_data w = map (\<lambda>x. ucast (w x)) [
     0x52, 0x09, 0x6a, 0xd5, 0x30, 0x36, 0xa5, 0x38, 0xbf, 0x40, 0xa3, 0x9e, 0x81, 0xf3, 0xd7, 0xfb,
     0x7c, 0xe3, 0x39, 0x82, 0x9b, 0x2f, 0xff, 0x87, 0x34, 0x8e, 0x43, 0x44, 0xc4, 0xde, 0xe9, 0xcb,
     0x54, 0x7b, 0x94, 0x32, 0xa6, 0xc2, 0x23, 0x3d, 0xee, 0x4c, 0x95, 0x0b, 0x42, 0xfa, 0xc3, 0x4e,
     0x08, 0x2e, 0xa1, 0x66, 0x28, 0xd9, 0x24, 0xb2, 0x76, 0x5b, 0xa2, 0x49, 0x6d, 0x8b, 0xd1, 0x25,
     0x72, 0xf8, 0xf6, 0x64, 0x86, 0x68, 0x98, 0x16, 0xd4, 0xa4, 0x5c, 0xcc, 0x5d, 0x65, 0xb6, 0x92,
     0x6c, 0x70, 0x48, 0x50, 0xfd, 0xed, 0xb9, 0xda, 0x5e, 0x15, 0x46, 0x57, 0xa7, 0x8d, 0x9d, 0x84,
     0x90, 0xd8, 0xab, 0x00, 0x8c, 0xbc, 0xd3, 0x0a, 0xf7, 0xe4, 0x58, 0x05, 0xb8, 0xb3, 0x45, 0x06,
     0xd0, 0x2c, 0x1e, 0x8f, 0xca, 0x3f, 0x0f, 0x02, 0xc1, 0xaf, 0xbd, 0x03, 0x01, 0x13, 0x8a, 0x6b,
     0x3a, 0x91, 0x11, 0x41, 0x4f, 0x67, 0xdc, 0xea, 0x97, 0xf2, 0xcf, 0xce, 0xf0, 0xb4, 0xe6, 0x73,
     0x96, 0xac, 0x74, 0x22, 0xe7, 0xad, 0x35, 0x85, 0xe2, 0xf9, 0x37, 0xe8, 0x1c, 0x75, 0xdf, 0x6e,
     0x47, 0xf1, 0x1a, 0x71, 0x1d, 0x29, 0xc5, 0x89, 0x6f, 0xb7, 0x62, 0x0e, 0xaa, 0x18, 0xbe, 0x1b,
     0xfc, 0x56, 0x3e, 0x4b, 0xc6, 0xd2, 0x79, 0x20, 0x9a, 0xdb, 0xc0, 0xfe, 0x78, 0xcd, 0x5a, 0xf4,
     0x1f, 0xdd, 0xa8, 0x33, 0x88, 0x07, 0xc7, 0x31, 0xb1, 0x12, 0x10, 0x59, 0x27, 0x80, 0xec, 0x5f,
     0x60, 0x51, 0x7f, 0xa9, 0x19, 0xb5, 0x4a, 0x0d, 0x2d, 0xe5, 0x7a, 0x9f, 0x93, 0xc9, 0x9c, 0xef,
     0xa0, 0xe0, 0x3b, 0x4d, 0xae, 0x2a, 0xf5, 0xb0, 0xc8, 0xeb, 0xbb, 0x3c, 0x83, 0x53, 0x99, 0x61,
     0x17, 0x2b, 0x04, 0x7e, 0xba, 0x77, 0xd6, 0x26, 0xe1, 0x69, 0x14, 0x63, 0x55, 0x21, 0x0c, 0x7d]"

definition mm_data :: "(u32 \<Rightarrow> u32) \<Rightarrow> u8 list" where
  "mm_data w = map (\<lambda>x. ucast (w x)) [
     0x00, 0x01, 0x02, 0x03, 0x04, 0x05, 0x06, 0x07, 0x08, 0x09, 0x0a, 0x0b, 0x0c, 0x0d, 0x0e, 0x0f,
     0x10, 0x11, 0x12, 0x13, 0x14, 0x15, 0x16, 0x17, 0x18, 0x19, 0x1a, 0x1b, 0x1c, 0x1d, 0x1e, 0x1f,
     0x20, 0x21, 0x22, 0x23, 0x24, 0x25, 0x26, 0x27, 0x28, 0x29, 0x2a, 0x2b, 0x2c, 0x2d, 0x2e, 0x2f,
     0x30, 0x31, 0x32, 0x33, 0x34, 0x35, 0x36, 0x37, 0x38, 0x39, 0x3a, 0x3b, 0x3c, 0x3d, 0x3e, 0x3f,
     0x40, 0x41, 0x42, 0x43, 0x44, 0x45, 0x46, 0x47, 0x48, 0x49, 0x4a, 0x4b, 0x4c, 0x4d, 0x4e, 0x4f,
     0x50, 0x51, 0x52, 0x53, 0x54, 0x55, 0x56, 0x57, 0x58, 0x59, 0x5a, 0x5b, 0x5c, 0x5d, 0x5e, 0x5f,
     0x60, 0x61, 0x62, 0x63, 0x64, 0x65, 0x66, 0x67, 0x68, 0x69, 0x6a, 0x6b, 0x6c, 0x6d, 0x6e, 0x6f,
     0x70, 0x71, 0x72, 0x73, 0x74, 0x75, 0x76, 0x77, 0x78, 0x79, 0x7a, 0x7b, 0x7c, 0x7d, 0x7e, 0x7f,
     0x80, 0x81, 0x82, 0x83, 0x84, 0x85, 0x86, 0x87, 0x88, 0x89, 0x8a, 0x8b, 0x8c, 0x8d, 0x8e, 0x8f,
     0x90, 0x91, 0x92, 0x93, 0x94, 0x95, 0x96, 0x97, 0x98, 0x99, 0x9a, 0x9b, 0x9c, 0x9d, 0x9e, 0x9f,
     0xa0, 0xa1, 0xa2, 0xa3, 0xa4, 0xa5, 0xa6, 0xa7, 0xa8, 0xa9, 0xaa, 0xab, 0xac, 0xad, 0xae, 0xaf,
     0xb0, 0xb1, 0xb2, 0xb3, 0xb4, 0xb5, 0xb6, 0xb7, 0xb8, 0xb9, 0xba, 0xbb, 0xbc, 0xbd, 0xbe, 0xbf,
     0xc0, 0xc1, 0xc2, 0xc3, 0xc4, 0xc5, 0xc6, 0xc7, 0xc8, 0xc9, 0xca, 0xcb, 0xcc, 0xcd, 0xce, 0xcf,
     0xd0, 0xd1, 0xd2, 0xd3, 0xd4, 0xd5, 0xd6, 0xd7, 0xd8, 0xd9, 0xda, 0xdb, 0xdc, 0xdd, 0xde, 0xdf,
     0xe0, 0xe1, 0xe2, 0xe3, 0xe4, 0xe5, 0xe6, 0xe7, 0xe8, 0xe9, 0xea, 0xeb, 0xec, 0xed, 0xee, 0xef,
     0xf0, 0xf1, 0xf2, 0xf3, 0xf4, 0xf5, 0xf6, 0xf7, 0xf8, 0xf9, 0xfa, 0xfb, 0xfc, 0xfd, 0xfe, 0xff]"

definition sbox :: "u8 list" where "sbox = sb_data gf_f1"
definition isbox :: "u8 list" where "isbox = isb_data gf_f1"
definition gfm2_sbox :: "u8 list" where "gfm2_sbox = sb_data gf_f2"
definition gfm3_sbox :: "u8 list" where "gfm3_sbox = sb_data gf_f3"
definition gfmul_9 :: "u8 list" where "gfmul_9 = mm_data gf_f9"
definition gfmul_b :: "u8 list" where "gfmul_b = mm_data gf_fb"
definition gfmul_d :: "u8 list" where "gfmul_d = mm_data gf_fd"
definition gfmul_e :: "u8 list" where "gfmul_e = mm_data gf_fe"

definition s_box :: "u8 \<Rightarrow> u8" where "s_box x = sbox ! unat x"
definition is_box :: "u8 \<Rightarrow> u8" where "is_box x = isbox ! unat x"
definition gfm2_sb :: "u8 \<Rightarrow> u8" where "gfm2_sb x = gfm2_sbox ! unat x"
definition gfm3_sb :: "u8 \<Rightarrow> u8" where "gfm3_sb x = gfm3_sbox ! unat x"
definition gfm_9 :: "u8 \<Rightarrow> u8" where "gfm_9 x = gfmul_9 ! unat x"
definition gfm_b :: "u8 \<Rightarrow> u8" where "gfm_b x = gfmul_b ! unat x"
definition gfm_d :: "u8 \<Rightarrow> u8" where "gfm_d x = gfmul_d ! unat x"
definition gfm_e :: "u8 \<Rightarrow> u8" where "gfm_e x = gfmul_e ! unat x"

section \<open>Blocks\<close>

definition N_BLOCK :: nat where "N_BLOCK = 16"

definition xor_block :: "u8 list \<Rightarrow> u8 list \<Rightarrow> u8 list" where
  "xor_block d s = map2 (XOR) d (take N_BLOCK s)"

definition copy_and_key :: "u8 list \<Rightarrow> u8 list \<Rightarrow> u8 list" where
  "copy_and_key s k = map2 (XOR) (take N_BLOCK s) (take N_BLOCK k)"

definition add_round_key :: "u8 list \<Rightarrow> u8 list \<Rightarrow> u8 list" where
  "add_round_key d k = xor_block d k"

definition shift_sub_rows :: "u8 list \<Rightarrow> u8 list" where
  "shift_sub_rows st = [
     s_box (st ! 0), s_box (st ! 5), s_box (st ! 10), s_box (st ! 15),
     s_box (st ! 4), s_box (st ! 9), s_box (st ! 14), s_box (st ! 3),
     s_box (st ! 8), s_box (st ! 13), s_box (st ! 2), s_box (st ! 7),
     s_box (st ! 12), s_box (st ! 1), s_box (st ! 6), s_box (st ! 11)]"

definition inv_shift_sub_rows :: "u8 list \<Rightarrow> u8 list" where
  "inv_shift_sub_rows st = [
     is_box (st ! 0), is_box (st ! 13), is_box (st ! 10), is_box (st ! 7),
     is_box (st ! 4), is_box (st ! 1), is_box (st ! 14), is_box (st ! 11),
     is_box (st ! 8), is_box (st ! 5), is_box (st ! 2), is_box (st ! 15),
     is_box (st ! 12), is_box (st ! 9), is_box (st ! 6), is_box (st ! 3)]"

definition mix_sub_columns :: "u8 list \<Rightarrow> u8 list" where
  "mix_sub_columns st = [
     gfm2_sb (st ! 0) XOR gfm3_sb (st ! 5) XOR s_box (st ! 10) XOR s_box (st ! 15),
     s_box (st ! 0) XOR gfm2_sb (st ! 5) XOR gfm3_sb (st ! 10) XOR s_box (st ! 15),
     s_box (st ! 0) XOR s_box (st ! 5) XOR gfm2_sb (st ! 10) XOR gfm3_sb (st ! 15),
     gfm3_sb (st ! 0) XOR s_box (st ! 5) XOR s_box (st ! 10) XOR gfm2_sb (st ! 15),
     gfm2_sb (st ! 4) XOR gfm3_sb (st ! 9) XOR s_box (st ! 14) XOR s_box (st ! 3),
     s_box (st ! 4) XOR gfm2_sb (st ! 9) XOR gfm3_sb (st ! 14) XOR s_box (st ! 3),
     s_box (st ! 4) XOR s_box (st ! 9) XOR gfm2_sb (st ! 14) XOR gfm3_sb (st ! 3),
     gfm3_sb (st ! 4) XOR s_box (st ! 9) XOR s_box (st ! 14) XOR gfm2_sb (st ! 3),
     gfm2_sb (st ! 8) XOR gfm3_sb (st ! 13) XOR s_box (st ! 2) XOR s_box (st ! 7),
     s_box (st ! 8) XOR gfm2_sb (st ! 13) XOR gfm3_sb (st ! 2) XOR s_box (st ! 7),
     s_box (st ! 8) XOR s_box (st ! 13) XOR gfm2_sb (st ! 2) XOR gfm3_sb (st ! 7),
     gfm3_sb (st ! 8) XOR s_box (st ! 13) XOR s_box (st ! 2) XOR gfm2_sb (st ! 7),
     gfm2_sb (st ! 12) XOR gfm3_sb (st ! 1) XOR s_box (st ! 6) XOR s_box (st ! 11),
     s_box (st ! 12) XOR gfm2_sb (st ! 1) XOR gfm3_sb (st ! 6) XOR s_box (st ! 11),
     s_box (st ! 12) XOR s_box (st ! 1) XOR gfm2_sb (st ! 6) XOR gfm3_sb (st ! 11),
     gfm3_sb (st ! 12) XOR s_box (st ! 1) XOR s_box (st ! 6) XOR gfm2_sb (st ! 11)]"

definition inv_mix_sub_columns :: "u8 list \<Rightarrow> u8 list" where
  "inv_mix_sub_columns st = [
     is_box (gfm_e (st ! 0) XOR gfm_b (st ! 1) XOR gfm_d (st ! 2) XOR gfm_9 (st ! 3)),
     is_box (gfm_9 (st ! 12) XOR gfm_e (st ! 13) XOR gfm_b (st ! 14) XOR gfm_d (st ! 15)),
     is_box (gfm_d (st ! 8) XOR gfm_9 (st ! 9) XOR gfm_e (st ! 10) XOR gfm_b (st ! 11)),
     is_box (gfm_b (st ! 4) XOR gfm_d (st ! 5) XOR gfm_9 (st ! 6) XOR gfm_e (st ! 7)),
     is_box (gfm_e (st ! 4) XOR gfm_b (st ! 5) XOR gfm_d (st ! 6) XOR gfm_9 (st ! 7)),
     is_box (gfm_9 (st ! 0) XOR gfm_e (st ! 1) XOR gfm_b (st ! 2) XOR gfm_d (st ! 3)),
     is_box (gfm_d (st ! 12) XOR gfm_9 (st ! 13) XOR gfm_e (st ! 14) XOR gfm_b (st ! 15)),
     is_box (gfm_b (st ! 8) XOR gfm_d (st ! 9) XOR gfm_9 (st ! 10) XOR gfm_e (st ! 11)),
     is_box (gfm_e (st ! 8) XOR gfm_b (st ! 9) XOR gfm_d (st ! 10) XOR gfm_9 (st ! 11)),
     is_box (gfm_9 (st ! 4) XOR gfm_e (st ! 5) XOR gfm_b (st ! 6) XOR gfm_d (st ! 7)),
     is_box (gfm_d (st ! 0) XOR gfm_9 (st ! 1) XOR gfm_e (st ! 2) XOR gfm_b (st ! 3)),
     is_box (gfm_b (st ! 12) XOR gfm_d (st ! 13) XOR gfm_9 (st ! 14) XOR gfm_e (st ! 15)),
     is_box (gfm_e (st ! 12) XOR gfm_b (st ! 13) XOR gfm_d (st ! 14) XOR gfm_9 (st ! 15)),
     is_box (gfm_9 (st ! 8) XOR gfm_e (st ! 9) XOR gfm_b (st ! 10) XOR gfm_d (st ! 11)),
     is_box (gfm_d (st ! 4) XOR gfm_9 (st ! 5) XOR gfm_e (st ! 6) XOR gfm_b (st ! 7)),
     is_box (gfm_b (st ! 0) XOR gfm_d (st ! 1) XOR gfm_9 (st ! 2) XOR gfm_e (st ! 3))]"


section \<open>The prepared key\<close>

record aes_context =
  ksch :: "u8 list"
  rnd :: nat

text \<open>One pass of the loop that extends the schedule: the four bytes at \<open>cc\<close>, and the round constant.\<close>

definition key_step :: "nat \<Rightarrow> nat \<Rightarrow> u8 \<times> u8 list \<Rightarrow> u8 \<times> u8 list" where
  "key_step keylen cc s =
     (let (rc, k) = s;
          t0 = k ! (cc - 4); t1 = k ! (cc - 3); t2 = k ! (cc - 2); t3 = k ! (cc - 1);
          (t0, t1, t2, t3, rc) =
            (if cc mod keylen = 0
             then (let tt = t0 in (s_box t1 XOR rc, s_box t2, s_box t3, s_box tt, ucast (gf_f2 (ucast rc))))
             else if 24 < keylen \<and> cc mod keylen = 16 then (s_box t0, s_box t1, s_box t2, s_box t3, rc)
             else (t0, t1, t2, t3, rc));
          tt = cc - keylen in
      (rc, k[cc := k ! tt XOR t0, cc + 1 := k ! (tt + 1) XOR t1, cc + 2 := k ! (tt + 2) XOR t2,
             cc + 3 := k ! (tt + 3) XOR t3]))"

fun key_loop :: "nat \<Rightarrow> nat list \<Rightarrow> u8 \<times> u8 list \<Rightarrow> u8 \<times> u8 list" where
  "key_loop keylen [] s = s"
| "key_loop keylen (cc # ccs) s = key_loop keylen ccs (key_step keylen cc s)"

text \<open>
  \<open>cc\<close> runs from \<open>keylen\<close> in steps of four up to \<open>hi\<close>, at most 240, so that its byte never wraps.
  The first result is the returned code, 255 for a length that is not supported.
\<close>

definition bt_aes_set_key :: "u8 list \<Rightarrow> u8 \<Rightarrow> aes_context \<Rightarrow> u8 \<times> aes_context" where
  "bt_aes_set_key key keylen ctx =
     (case (if keylen = 16 \<or> keylen = 128 then Some 16 else if keylen = 24 \<or> keylen = 192 then Some 24
            else if keylen = 32 then Some (32 :: nat) else None) of
        None \<Rightarrow> (- 1, ctx\<lparr>rnd := 0\<rparr>)
      | Some keylen \<Rightarrow>
          (let k = take keylen key @ drop keylen (ksch ctx);
               hi = (keylen + 28) * 4;
               (rc, k) = key_loop keylen (map (\<lambda>i. keylen + 4 * i) [0..<(hi - keylen) div 4]) (1, k) in
           (0, ctx\<lparr>ksch := k, rnd := hi div 16 - 1\<rparr>)))"

section \<open>Encryption and decryption\<close>

definition round_key :: "aes_context \<Rightarrow> nat \<Rightarrow> u8 list" where
  "round_key ctx r = drop (r * N_BLOCK) (ksch ctx)"

text \<open>Both return \<open>None\<close> for the failure code when no key is set.\<close>

definition bluedroid_aes_encrypt :: "u8 list \<Rightarrow> aes_context \<Rightarrow> u8 list option" where
  "bluedroid_aes_encrypt b ctx =
     (if rnd ctx \<noteq> 0 then
        (let s1 = copy_and_key b (ksch ctx);
             s1 = fold (\<lambda>r s1. add_round_key (mix_sub_columns s1) (round_key ctx r)) [1..<rnd ctx] s1;
             s1 = shift_sub_rows s1 in
         Some (copy_and_key s1 (round_key ctx (rnd ctx))))
      else None)"

definition bluedroid_aes_decrypt :: "u8 list \<Rightarrow> aes_context \<Rightarrow> u8 list option" where
  "bluedroid_aes_decrypt b ctx =
     (if rnd ctx \<noteq> 0 then
        (let s1 = copy_and_key b (round_key ctx (rnd ctx));
             s1 = inv_shift_sub_rows s1;
             s1 = fold (\<lambda>r s1. inv_mix_sub_columns (add_round_key s1 (round_key ctx r))) (rev [1..<rnd ctx]) s1 in
         Some (copy_and_key s1 (ksch ctx)))
      else None)"

text \<open>
  The chained modes: the blocks of the output, those done so far included, the vector, and whether the
  call succeeds.
\<close>

fun aes_cbc_encrypt :: "u8 list list \<Rightarrow> u8 list \<Rightarrow> aes_context \<Rightarrow> bool \<times> u8 list list \<times> u8 list" where
  "aes_cbc_encrypt [] iv ctx = (True, [], iv)"
| "aes_cbc_encrypt (b # bs) iv ctx =
     (let iv = xor_block iv b in
      case bluedroid_aes_encrypt iv ctx of
        None \<Rightarrow> (False, [], iv)
      | Some iv \<Rightarrow> (let (ok, out, iv') = aes_cbc_encrypt bs iv ctx in (ok, iv # out, iv')))"

fun aes_cbc_decrypt :: "u8 list list \<Rightarrow> u8 list \<Rightarrow> aes_context \<Rightarrow> bool \<times> u8 list list \<times> u8 list" where
  "aes_cbc_decrypt [] iv ctx = (True, [], iv)"
| "aes_cbc_decrypt (b # bs) iv ctx =
     (case bluedroid_aes_decrypt b ctx of
        None \<Rightarrow> (False, [], iv)
      | Some d \<Rightarrow>
          (let (ok, out, iv') = aes_cbc_decrypt bs b ctx in (ok, xor_block d iv # out, iv')))"

end
