(* ===== verification/SmpAesRound.thy ===== *)
theory SmpAesRound
  imports SmpAesProofs
begin

text \<open>
  The rounds of \<open>stack/smp/aes.c\<close>: a round of \<open>mix_sub_columns\<close> is the one of the standard, a decryption
  round undoes an encryption round, and the decryption of a block and of a chain of blocks returns
  what was encrypted.
\<close>

unbundle bit_operations_syntax

section \<open>Blocks\<close>

lemma block_16:
  assumes "length (st :: 'a list) = 16"
  obtains a0 a1 a2 a3 a4 a5 a6 a7 a8 a9 a10 a11 a12 a13 a14 a15
  where "st = [a0, a1, a2, a3, a4, a5, a6, a7, a8, a9, a10, a11, a12, a13, a14, a15]"
proof -
  have "st = map ((!) st) [0..<16]" using assms by (metis map_nth)
  also have "[0..<16] = [0, 1, 2, 3, 4, 5, 6, 7, 8, 9, 10, 11, 12, 13, 14, 15 :: nat]"
    by (simp add: upt_rec_numeral upt_rec [of 0] upt_rec [of "Suc 0"] flip: numeral_2_eq_2)
  finally show ?thesis using that by simp
qed

lemma length_blocks [simp]:
  "length (mix_sub_columns st) = 16" "length (inv_mix_sub_columns st) = 16"
  "length (shift_sub_rows st) = 16" "length (inv_shift_sub_rows st) = 16"
  by (simp_all add: mix_sub_columns_def inv_mix_sub_columns_def shift_sub_rows_def inv_shift_sub_rows_def)

lemma length_xor_block [simp]: "length d = 16 \<Longrightarrow> 16 \<le> length k \<Longrightarrow> length (xor_block d k) = 16"
  by (simp add: xor_block_def N_BLOCK_def)

lemma length_copy_and_key [simp]: "length d = 16 \<Longrightarrow> 16 \<le> length k \<Longrightarrow> length (copy_and_key d k) = 16"
  by (simp add: copy_and_key_def N_BLOCK_def)

lemma xor_block_twice: "length d = 16 \<Longrightarrow> 16 \<le> length k \<Longrightarrow> xor_block (xor_block d k) k = d"
  by (rule nth_equalityI) (simp_all add: xor_block_def N_BLOCK_def xor.assoc)

lemma copy_and_key_xor: "length d = 16 \<Longrightarrow> copy_and_key d k = xor_block d k"
  by (simp add: copy_and_key_def xor_block_def N_BLOCK_def)

text \<open>The columns, as the standard has them.\<close>

lemma mix_column:
  "gfm_e (gf2 a XOR (gf2 b XOR b) XOR c XOR d) XOR gfm_b (a XOR gf2 b XOR (gf2 c XOR c) XOR d) XOR
   gfm_d (a XOR b XOR gf2 c XOR (gf2 d XOR d)) XOR gfm_9 ((gf2 a XOR a) XOR b XOR c XOR gf2 d) = a"
  "gfm_9 (gf2 a XOR (gf2 b XOR b) XOR c XOR d) XOR gfm_e (a XOR gf2 b XOR (gf2 c XOR c) XOR d) XOR
   gfm_b (a XOR b XOR gf2 c XOR (gf2 d XOR d)) XOR gfm_d ((gf2 a XOR a) XOR b XOR c XOR gf2 d) = b"
  "gfm_d (gf2 a XOR (gf2 b XOR b) XOR c XOR d) XOR gfm_9 (a XOR gf2 b XOR (gf2 c XOR c) XOR d) XOR
   gfm_e (a XOR b XOR gf2 c XOR (gf2 d XOR d)) XOR gfm_b ((gf2 a XOR a) XOR b XOR c XOR gf2 d) = c"
  "gfm_b (gf2 a XOR (gf2 b XOR b) XOR c XOR d) XOR gfm_d (a XOR gf2 b XOR (gf2 c XOR c) XOR d) XOR
   gfm_9 (a XOR b XOR gf2 c XOR (gf2 d XOR d)) XOR gfm_e ((gf2 a XOR a) XOR b XOR c XOR gf2 d) = d"
  by (simp_all add: gfm_gf2 gf2_xor xor.assoc xor.commute xor.left_commute xor_cancel)

section \<open>A round and its inverse\<close>

lemma inv_shift_sub_rows_shift:
  assumes "length st = 16"
  shows "inv_shift_sub_rows (shift_sub_rows st) = st"
proof -
  obtain a0 a1 a2 a3 a4 a5 a6 a7 a8 a9 a10 a11 a12 a13 a14 a15
    where "st = [a0, a1, a2, a3, a4, a5, a6, a7, a8, a9, a10, a11, a12, a13, a14, a15]"
    using block_16 [OF assms] .
  then show ?thesis by (simp add: inv_shift_sub_rows_def shift_sub_rows_def is_box_s_box)
qed

lemma inv_mix_sub_columns_mix:
  assumes "length st = 16"
  shows "inv_mix_sub_columns (mix_sub_columns st) = st"
proof -
  obtain a0 a1 a2 a3 a4 a5 a6 a7 a8 a9 a10 a11 a12 a13 a14 a15
    where "st = [a0, a1, a2, a3, a4, a5, a6, a7, a8, a9, a10, a11, a12, a13, a14, a15]"
    using block_16 [OF assms] .
  then show ?thesis
    by (simp add: inv_mix_sub_columns_def mix_sub_columns_def gfm2_sb_gf2 gfm3_sb_gf2 mix_column is_box_s_box)
qed

lemma round_undone:
  assumes "length s = 16" "16 \<le> length k"
  shows "inv_mix_sub_columns (add_round_key (add_round_key (mix_sub_columns s) k) k) = s"
  using assms by (simp add: add_round_key_def xor_block_twice inv_mix_sub_columns_mix)

lemma rounds_undone:
  assumes "length s = 16" "\<And>r. r \<in> set rs \<Longrightarrow> 16 \<le> length (key r)"
  shows "fold (\<lambda>r s. inv_mix_sub_columns (add_round_key s (key r))) (rev rs)
      (fold (\<lambda>r s. add_round_key (mix_sub_columns s) (key r)) rs s) = s \<and>
    length (fold (\<lambda>r s. add_round_key (mix_sub_columns s) (key r)) rs s) = 16"
  using assms
proof (induction rs arbitrary: s)
  case (Cons r rs)
  let ?s = "add_round_key (mix_sub_columns s) (key r)"
  have "length ?s = 16" using Cons.prems(2) [of r] by (simp add: add_round_key_def)
  with Cons.IH [of ?s] Cons.prems show ?case by (simp add: round_undone)
qed simp

section \<open>Blocks and chains\<close>

text \<open>A context with a key: the schedule holds a block for every round and one more.\<close>

definition keyed :: "aes_context \<Rightarrow> bool" where
  "keyed ctx \<longleftrightarrow> rnd ctx \<noteq> 0 \<and> (rnd ctx + 1) * N_BLOCK \<le> length (ksch ctx)"

lemma length_round_key:
  assumes "keyed ctx" "r \<le> rnd ctx"
  shows "16 \<le> length (round_key ctx r)"
proof -
  have "r * 16 + 16 \<le> rnd ctx * 16 + 16" using assms(2) by simp
  also have "\<dots> \<le> length (ksch ctx)" using assms(1) by (simp add: keyed_def N_BLOCK_def)
  finally show ?thesis by (simp add: round_key_def N_BLOCK_def)
qed

lemma decrypt_encrypt:
  assumes "keyed ctx" "length b = 16"
  shows "\<exists>c. bluedroid_aes_encrypt b ctx = Some c \<and> length c = 16 \<and> bluedroid_aes_decrypt c ctx = Some b"
proof -
  have k: "16 \<le> length (round_key ctx r)" if "r \<le> rnd ctx" for r using length_round_key [OF assms(1) that] .
  have k0: "16 \<le> length (ksch ctx)" using k [of 0] by (simp add: round_key_def)
  have rn: "rnd ctx \<noteq> 0" using assms(1) by (simp add: keyed_def)
  let ?f = "\<lambda>r s. add_round_key (mix_sub_columns s) (round_key ctx r)"
  let ?start = "copy_and_key b (ksch ctx)"
  let ?s = "fold ?f [1..<rnd ctx] ?start"
  have s0: "length ?start = 16" using assms(2) k0 by simp
  have kr: "16 \<le> length (round_key ctx r)" if "r \<in> set [1..<rnd ctx]" for r using that by (intro k) simp
  note all = rounds_undone [OF s0, of "[1..<rnd ctx]" "round_key ctx", OF kr]
  note r = all [THEN conjunct1] all [THEN conjunct2]
  let ?c = "copy_and_key (shift_sub_rows ?s) (round_key ctx (rnd ctx))"
  have "bluedroid_aes_encrypt b ctx = Some ?c" using rn by (simp add: bluedroid_aes_encrypt_def Let_def)
  moreover have "length ?c = 16" using k [of "rnd ctx"] by simp
  moreover have "bluedroid_aes_decrypt ?c ctx = Some b"
  proof -
    have "copy_and_key ?c (round_key ctx (rnd ctx)) = shift_sub_rows ?s"
      using k [of "rnd ctx"] by (simp add: copy_and_key_xor xor_block_twice)
    then have "bluedroid_aes_decrypt ?c ctx = Some (copy_and_key ?start (ksch ctx))"
      using rn r by (simp add: bluedroid_aes_decrypt_def Let_def inv_shift_sub_rows_shift)
    also have "copy_and_key ?start (ksch ctx) = b"
      using s0 assms(2) k0 by (simp add: copy_and_key_xor xor_block_twice)
    finally show ?thesis .
  qed
  ultimately show ?thesis by blast
qed

lemma xor_block_swap: "length a = 16 \<Longrightarrow> length b = 16 \<Longrightarrow> xor_block (xor_block a b) a = b"
  by (rule nth_equalityI) (simp_all add: xor_block_def N_BLOCK_def xor.commute xor.left_commute)

lemma cbc_round_trip:
  "keyed ctx \<Longrightarrow> length iv = 16 \<Longrightarrow> (\<forall>b\<in>set bs. length b = 16) \<Longrightarrow>
   \<exists>cs iv'. aes_cbc_encrypt bs iv ctx = (True, cs, iv') \<and> length cs = length bs \<and> length iv' = 16 \<and>
     aes_cbc_decrypt cs iv ctx = (True, bs, iv')"
proof (induction bs arbitrary: iv)
  case (Cons b bs)
  have b: "length b = 16" using Cons.prems(3) by simp
  have "length (xor_block iv b) = 16" using Cons.prems(2) b by simp
  from decrypt_encrypt [OF Cons.prems(1) this] obtain c where
    c: "bluedroid_aes_encrypt (xor_block iv b) ctx = Some c" "length c = 16"
      "bluedroid_aes_decrypt c ctx = Some (xor_block iv b)" by blast
  obtain cs iv' where cs: "aes_cbc_encrypt bs c ctx = (True, cs, iv')" "length cs = length bs" "length iv' = 16"
      "aes_cbc_decrypt cs c ctx = (True, bs, iv')"
    using Cons.IH [OF Cons.prems(1) c(2)] Cons.prems(3) by auto
  have "aes_cbc_encrypt (b # bs) iv ctx = (True, c # cs, iv')" by (simp add: c(1) cs(1))
  moreover have "aes_cbc_decrypt (c # cs) iv ctx = (True, b # bs, iv')"
    using Cons.prems(2) b by (simp add: c(3) cs(4) xor_block_swap)
  ultimately show ?case using cs(2,3) by auto
qed simp


section \<open>The key schedule\<close>

lemma length_key_step: "length (snd (key_step n cc s)) = length (snd s)"
  by (cases s) (simp add: key_step_def Let_def split: prod.splits)

lemma length_key_loop: "length (snd (key_loop n ccs s)) = length (snd s)"
  by (induction ccs arbitrary: s) (simp_all add: length_key_step)

definition aes_key_size :: "u8 \<Rightarrow> nat" where
  "aes_key_size keylen = (if keylen = 16 \<or> keylen = 128 then 16 else if keylen = 24 \<or> keylen = 192 then 24 else 32)"

lemma set_key_keyed:
  assumes "keylen \<in> {16, 24, 32, 128, 192}" "length key = aes_key_size keylen" "length (ksch ctx) = 240"
    "bt_aes_set_key key keylen ctx = (ret, ctx')"
  shows "ret = 0 \<and> keyed ctx' \<and> length (ksch ctx') = 240"
proof -
  let ?n = "aes_key_size keylen"
  let ?k = "take ?n key @ drop ?n (ksch ctx)"
  let ?ccs = "map (\<lambda>i. ?n + 4 * i) [0..<((?n + 28) * 4 - ?n) div 4]"
  have n: "?n = 16 \<or> ?n = 24 \<or> ?n = 32" by (simp add: aes_key_size_def)
  have sel: "(if keylen = 16 \<or> keylen = 128 then Some 16 else if keylen = 24 \<or> keylen = 192 then Some 24
      else if keylen = 32 then Some (32 :: nat) else None) = Some ?n"
    using assms(1) by (auto simp: aes_key_size_def)
  obtain rc k where k: "key_loop ?n ?ccs (1, ?k) = (rc, k)" by fastforce
  have "length k = length ?k" using length_key_loop [of ?n ?ccs "(1, ?k)"] k by simp
  also have "\<dots> = 240" using assms(2,3) n by auto
  finally have len: "length k = 240" .
  have "ret = 0 \<and> ctx' = ctx\<lparr>ksch := k, rnd := (?n + 28) * 4 div 16 - 1\<rparr>"
    using assms(4) k unfolding bt_aes_set_key_def sel by (simp add: Let_def)
  then show ?thesis using n len by (auto simp: keyed_def N_BLOCK_def)
qed

text \<open>
  After bt_aes_set_key with a key of a supported length, aes_cbc_encrypt succeeds on every sequence of
  blocks and aes_cbc_decrypt with the same initial vector returns the blocks, and leaves the same vector.
\<close>

theorem aes_cbc_roundtrip:
  assumes "keylen \<in> {16, 24, 32, 128, 192}" "length key = aes_key_size keylen" "length (ksch ctx) = 240"
    "bt_aes_set_key key keylen ctx = (ret, ctx')" "length iv = 16" "\<forall>b\<in>set bs. length b = 16"
  shows "\<exists>cs iv'. aes_cbc_encrypt bs iv ctx' = (True, cs, iv') \<and> length cs = length bs \<and>
    aes_cbc_decrypt cs iv ctx' = (True, bs, iv')"
  using cbc_round_trip [OF _ assms(5,6)] set_key_keyed [OF assms(1-4)] by blast

theorem aes_cbc_roundtrip_witness:
  "\<exists>ctx' cs iv'. bt_aes_set_key (replicate 16 7) 16 \<lparr>ksch = replicate 240 0, rnd = 0\<rparr> = (0, ctx') \<and>
    aes_cbc_encrypt [replicate 16 1, replicate 16 2] (replicate 16 0) ctx' = (True, cs, iv') \<and>
    aes_cbc_decrypt cs (replicate 16 0) ctx' = (True, [replicate 16 1, replicate 16 2], iv')"
proof -
  obtain ret ctx' where c: "bt_aes_set_key (replicate 16 7) 16 \<lparr>ksch = replicate 240 0, rnd = 0\<rparr> = (ret, ctx')" by fastforce
  have "ret = 0" using set_key_keyed [OF _ _ _ c] by (simp add: aes_key_size_def)
  moreover have "\<exists>cs iv'. aes_cbc_encrypt [replicate 16 1, replicate 16 2] (replicate 16 0) ctx' = (True, cs, iv') \<and>
      length cs = length [replicate 16 1, replicate 16 2 :: u8 list] \<and>
      aes_cbc_decrypt cs (replicate 16 0) ctx' = (True, [replicate 16 1, replicate 16 2], iv')"
    using c by (intro aes_cbc_roundtrip [of 16 "replicate 16 7" "\<lparr>ksch = replicate 240 0, rnd = 0\<rparr>" ret]) (simp_all add: aes_key_size_def)
  ultimately show ?thesis using c by blast
qed

end
