(* ===== verification/SmpAesOtf.thy ===== *)
theory SmpAesOtf
  imports SmpAesRound
begin

text \<open>
  The routines of \<open>stack/smp/aes.c\<close> that make the round keys on the fly, for keys of 128 and of 256
  bits.  For 128 bits encryption is shown to agree with the one with a prepared schedule; for both
  sizes decryption with the key that encryption leaves returns the block and the key.
\<close>

unbundle bit_operations_syntax

section \<open>Key updates\<close>

text \<open>The body of the loops that chain the words of a key, and the words made with the S-box.\<close>

definition chain_word :: "nat \<Rightarrow> u8 list \<Rightarrow> u8 list" where
  "chain_word cc k = k[cc := k ! cc XOR k ! (cc - 4), cc + 1 := k ! (cc + 1) XOR k ! (cc - 3),
     cc + 2 := k ! (cc + 2) XOR k ! (cc - 2), cc + 3 := k ! (cc + 3) XOR k ! (cc - 1)]"

definition rot_word :: "nat \<Rightarrow> u8 \<Rightarrow> u8 list \<Rightarrow> u8 list" where
  "rot_word i rc k = k[0 := k ! 0 XOR (s_box (k ! (i + 1)) XOR rc), 1 := k ! 1 XOR s_box (k ! (i + 2)),
     2 := k ! 2 XOR s_box (k ! (i + 3)), 3 := k ! 3 XOR s_box (k ! i)]"

definition sub_bytes_16 :: "u8 list \<Rightarrow> u8 list" where
  "sub_bytes_16 k = k[16 := k ! 16 XOR s_box (k ! 12), 17 := k ! 17 XOR s_box (k ! 13),
     18 := k ! 18 XOR s_box (k ! 14), 19 := k ! 19 XOR s_box (k ! 15)]"

definition update_encrypt_key_128 :: "u8 list \<times> u8 \<Rightarrow> u8 list \<times> u8" where
  "update_encrypt_key_128 s =
     (let (k, rc) = s; k = rot_word 12 rc k; rc = ucast (gf_f2 (ucast rc)) in
      (chain_word 12 (chain_word 8 (chain_word 4 k)), rc))"

definition update_decrypt_key_128 :: "u8 list \<times> u8 \<Rightarrow> u8 list \<times> u8" where
  "update_decrypt_key_128 s =
     (let (k, rc) = s; k = chain_word 4 (chain_word 8 (chain_word 12 k)); rc = ucast (gf_d2 (ucast rc)) in
      (rot_word 12 rc k, rc))"

definition update_encrypt_key_256 :: "u8 list \<times> u8 \<Rightarrow> u8 list \<times> u8" where
  "update_encrypt_key_256 s =
     (let (k, rc) = s; k = rot_word 28 rc k; rc = ucast (gf_f2 (ucast rc));
          k = chain_word 12 (chain_word 8 (chain_word 4 k));
          k = sub_bytes_16 k in
      (chain_word 28 (chain_word 24 (chain_word 20 k)), rc))"

definition update_decrypt_key_256 :: "u8 list \<times> u8 \<Rightarrow> u8 list \<times> u8" where
  "update_decrypt_key_256 s =
     (let (k, rc) = s; k = chain_word 20 (chain_word 24 (chain_word 28 k));
          k = sub_bytes_16 k;
          k = chain_word 4 (chain_word 8 (chain_word 12 k));
          rc = ucast (gf_d2 (ucast rc)) in
      (rot_word 28 rc k, rc))"

section \<open>Blocks\<close>

text \<open>The second result is what is left in \<open>o_key\<close>.\<close>

definition bluedroid_aes_encrypt_128 :: "u8 list \<Rightarrow> u8 list \<Rightarrow> u8 list \<times> u8 list" where
  "bluedroid_aes_encrypt_128 b key =
     (let s1 = copy_and_key b key;
          (s1, o_key) = fold (\<lambda>r (s1, o_key). let s1 = mix_sub_columns s1; o_key = update_encrypt_key_128 o_key in
              (add_round_key s1 (fst o_key), o_key)) [1..<10] (s1, (key, 1));
          s1 = shift_sub_rows s1;
          o_key = update_encrypt_key_128 o_key in
      (copy_and_key s1 (fst o_key), fst o_key))"

definition bluedroid_aes_decrypt_128 :: "u8 list \<Rightarrow> u8 list \<Rightarrow> u8 list \<times> u8 list" where
  "bluedroid_aes_decrypt_128 b key =
     (let s1 = copy_and_key b key;
          s1 = inv_shift_sub_rows s1;
          (s1, o_key) = fold (\<lambda>r (s1, o_key). let o_key = update_decrypt_key_128 o_key; s1 = add_round_key s1 (fst o_key) in
              (inv_mix_sub_columns s1, o_key)) (rev [1..<10]) (s1, (key, 0x6c));
          o_key = update_decrypt_key_128 o_key in
      (copy_and_key s1 (fst o_key), fst o_key))"

definition bluedroid_aes_encrypt_256 :: "u8 list \<Rightarrow> u8 list \<Rightarrow> u8 list \<times> u8 list" where
  "bluedroid_aes_encrypt_256 b key =
     (let s1 = copy_and_key b key;
          (s1, o_key) = fold (\<lambda>r (s1, o_key).
              let s1 = mix_sub_columns s1 in
              if odd r then (add_round_key s1 (drop 16 (fst o_key)), o_key)
              else (let o_key = update_encrypt_key_256 o_key in (add_round_key s1 (fst o_key), o_key)))
            [1..<14] (s1, (key, 1));
          s1 = shift_sub_rows s1;
          o_key = update_encrypt_key_256 o_key in
      (copy_and_key s1 (fst o_key), fst o_key))"

definition bluedroid_aes_decrypt_256 :: "u8 list \<Rightarrow> u8 list \<Rightarrow> u8 list \<times> u8 list" where
  "bluedroid_aes_decrypt_256 b key =
     (let s1 = copy_and_key b key;
          s1 = inv_shift_sub_rows s1;
          (s1, o_key) = fold (\<lambda>r (s1, o_key).
              let (s1, o_key) =
                (if odd r then (let o_key = update_decrypt_key_256 o_key in (add_round_key s1 (drop 16 (fst o_key)), o_key))
                 else (add_round_key s1 (fst o_key), o_key)) in
              (inv_mix_sub_columns s1, o_key)) (rev [1..<14]) (s1, (key, 0x80)) in
      (copy_and_key s1 (fst o_key), fst o_key))"

section \<open>Updates undone\<close>

lemma gf_d2_f2: "ucast (gf_d2 (ucast (ucast (gf_f2 (ucast x)) :: u8))) = (x :: u8)"
proof -
  have "list_all (\<lambda>x. ucast (gf_d2 (ucast (ucast (gf_f2 (ucast x)) :: u8))) = (x :: u8)) (map word_of_nat [0..<256])"
    by code_simp
  then show ?thesis by (rule all_bytes)
qed

lemma length_words [simp]:
  "length (chain_word cc k) = length k" "length (rot_word i rc k) = length k" "length (sub_bytes_16 k) = length k"
  by (simp_all add: chain_word_def rot_word_def sub_bytes_16_def)

lemma chain_word_twice:
  assumes "4 \<le> cc" "cc + 3 < length k"
  shows "chain_word cc (chain_word cc k) = k"
  using assms by (intro nth_equalityI) (auto simp: chain_word_def nth_list_update xor.assoc)

lemma rot_word_twice:
  assumes "4 \<le> i" "i + 3 < length k"
  shows "rot_word i rc (rot_word i rc k) = k"
proof -
  have "0 < length k" "1 < length k" "2 < length k" "3 < length k" using assms by linarith+
  then show ?thesis
    using assms by (intro nth_equalityI) (auto simp: rot_word_def nth_list_update xor.assoc)
qed

lemma sub_bytes_16_twice: "19 < length k \<Longrightarrow> sub_bytes_16 (sub_bytes_16 k) = k"
  by (intro nth_equalityI) (auto simp: sub_bytes_16_def nth_list_update xor.assoc)

lemma length_update [simp]:
  "length (fst (update_encrypt_key_128 s)) = length (fst s)"
  "length (fst (update_decrypt_key_128 s)) = length (fst s)"
  "length (fst (update_encrypt_key_256 s)) = length (fst s)"
  "length (fst (update_decrypt_key_256 s)) = length (fst s)"
  by (simp_all add: update_encrypt_key_128_def update_decrypt_key_128_def update_encrypt_key_256_def
      update_decrypt_key_256_def Let_def split: prod.splits)

lemma update_128_undone:
  "length (fst s) = 16 \<Longrightarrow> update_decrypt_key_128 (update_encrypt_key_128 s) = s"
  by (cases s) (simp add: update_encrypt_key_128_def update_decrypt_key_128_def chain_word_twice rot_word_twice gf_d2_f2)

lemma update_256_undone:
  "length (fst s) = 32 \<Longrightarrow> update_decrypt_key_256 (update_encrypt_key_256 s) = s"
  by (cases s) (simp add: update_encrypt_key_256_def update_decrypt_key_256_def chain_word_twice rot_word_twice
      sub_bytes_16_twice gf_d2_f2)

text \<open>\<open>n\<close> updates undone one by one.\<close>

lemma update_128_pow:
  assumes "length k = 16"
  shows "length (fst ((update_encrypt_key_128 ^^ n) (k, 1))) = 16"
    "update_decrypt_key_128 ((update_encrypt_key_128 ^^ Suc n) (k, 1)) = (update_encrypt_key_128 ^^ n) (k, 1)"
proof -
  show "length (fst ((update_encrypt_key_128 ^^ n) (k, 1))) = 16" by (induction n) (simp_all add: assms)
  then show "update_decrypt_key_128 ((update_encrypt_key_128 ^^ Suc n) (k, 1)) = (update_encrypt_key_128 ^^ n) (k, 1)"
    by (simp add: update_128_undone)
qed

lemma update_256_pow:
  assumes "length k = 32"
  shows "length (fst ((update_encrypt_key_256 ^^ n) (k, 1))) = 32"
    "update_decrypt_key_256 ((update_encrypt_key_256 ^^ Suc n) (k, 1)) = (update_encrypt_key_256 ^^ n) (k, 1)"
proof -
  show "length (fst ((update_encrypt_key_256 ^^ n) (k, 1))) = 32" by (induction n) (simp_all add: assms)
  then show "update_decrypt_key_256 ((update_encrypt_key_256 ^^ Suc n) (k, 1)) = (update_encrypt_key_256 ^^ n) (k, 1)"
    by (simp add: update_256_undone)
qed

lemma rc_update:
  "snd (update_encrypt_key_128 s) = ucast (gf_f2 (ucast (snd s)))"
  "snd (update_encrypt_key_256 s) = ucast (gf_f2 (ucast (snd s)))"
  by (simp_all add: update_encrypt_key_128_def update_encrypt_key_256_def Let_def split: prod.splits)

lemma rc_last:
  "snd ((update_encrypt_key_128 ^^ 10) (k, 1)) = 0x6c"
  "snd ((update_encrypt_key_256 ^^ 7) (k, 1)) = 0x80"
  by (simp_all add: eval_nat_numeral rc_update) (simp_all add: gf_f2_def WPOLY_def)


section \<open>Decryption returns the block and the key\<close>

text \<open>The keys do not depend on the block: the state of the loop is split.\<close>

lemma enc_128_split:
  "fold (\<lambda>r (s1, o_key). let s1 = mix_sub_columns s1; o_key = update_encrypt_key_128 o_key in
      (add_round_key s1 (fst o_key), o_key)) [1..<Suc n] (s1, o_key) =
   (fold (\<lambda>r s1. add_round_key (mix_sub_columns s1) (fst ((update_encrypt_key_128 ^^ r) o_key))) [1..<Suc n] s1,
    (update_encrypt_key_128 ^^ n) o_key)"
  by (induction n) (simp_all add: Let_def)

lemma dec_128_split:
  assumes "length k = 16"
  shows "fold (\<lambda>r (s1, o_key). let o_key = update_decrypt_key_128 o_key; s1 = add_round_key s1 (fst o_key) in
      (inv_mix_sub_columns s1, o_key)) (rev [1..<Suc n]) (s1, (update_encrypt_key_128 ^^ Suc n) (k, 1)) =
   (fold (\<lambda>r s1. inv_mix_sub_columns (add_round_key s1 (fst ((update_encrypt_key_128 ^^ r) (k, 1))))) (rev [1..<Suc n]) s1,
    (update_encrypt_key_128 ^^ 1) (k, 1))"
proof (induction n arbitrary: s1)
  case (Suc n)
  have r: "rev [1..<Suc (Suc n)] = Suc n # rev [1..<Suc n]" by simp
  show ?case
    unfolding r fold_simps prod.case Let_def update_128_pow(2) [OF assms] by (rule Suc.IH [unfolded Let_def])
qed simp


text \<open>For 256 bits the two halves of a key are used for two rounds.\<close>

definition round_key_256 :: "u8 list \<Rightarrow> nat \<Rightarrow> u8 list" where
  "round_key_256 k r = (let o_key = fst ((update_encrypt_key_256 ^^ (r div 2)) (k, 1)) in if odd r then drop 16 o_key else o_key)"

lemma enc_256_split:
  "fold (\<lambda>r (s1, o_key).
      let s1 = mix_sub_columns s1 in
      if odd r then (add_round_key s1 (drop 16 (fst o_key)), o_key)
      else (let o_key = update_encrypt_key_256 o_key in (add_round_key s1 (fst o_key), o_key)))
    [1..<Suc n] (s1, (k, 1)) =
   (fold (\<lambda>r s1. add_round_key (mix_sub_columns s1) (round_key_256 k r)) [1..<Suc n] s1,
    (update_encrypt_key_256 ^^ (n div 2)) (k, 1))"
proof (induction n)
  case (Suc n)
  have r: "[1..<Suc (Suc n)] = [1..<Suc n] @ [Suc n]" by simp
  have "odd (Suc n) \<Longrightarrow> Suc n div 2 = n div 2" "even (Suc n) \<Longrightarrow> Suc n div 2 = Suc (n div 2)" by (auto elim: oddE evenE)
  then show ?case
    unfolding r fold_append comp_def Suc.IH
    by (simp add: Let_def round_key_256_def)
qed (simp add: round_key_256_def)

lemma dec_256_split:
  assumes "length k = 32"
  shows "fold (\<lambda>r (s1, o_key).
      let (s1, o_key) =
        (if odd r then (let o_key = update_decrypt_key_256 o_key in (add_round_key s1 (drop 16 (fst o_key)), o_key))
         else (add_round_key s1 (fst o_key), o_key)) in
      (inv_mix_sub_columns s1, o_key)) (rev [1..<Suc n]) (s1, (update_encrypt_key_256 ^^ (Suc n div 2)) (k, 1)) =
   (fold (\<lambda>r s1. inv_mix_sub_columns (add_round_key s1 (round_key_256 k r))) (rev [1..<Suc n]) s1, (k, 1))"
proof (induction n arbitrary: s1)
  case (Suc n)
  have r: "rev [1..<Suc (Suc n)] = Suc n # rev [1..<Suc n]" by simp
  let ?u = "\<lambda>n. (update_encrypt_key_256 ^^ n) (k, 1)"
  have u: "(if odd (Suc n) then update_decrypt_key_256 (?u (Suc (Suc n) div 2)) else ?u (Suc (Suc n) div 2)) = ?u (Suc n div 2)"
  proof (cases "odd (Suc n)")
    case True
    then have "Suc (Suc n) div 2 = Suc (Suc n div 2)" by (auto elim: oddE)
    with True show ?thesis by (simp only: if_True simp_thms update_256_pow(2) [OF assms])
  next
    case False
    then have "Suc (Suc n) div 2 = Suc n div 2" by (auto elim: evenE)
    with False show ?thesis by (simp only: if_False)
  qed
  have "(let (s1, o_key) =
        (if odd (Suc n) then (let o_key = update_decrypt_key_256 (?u (Suc (Suc n) div 2)) in (add_round_key s1 (drop 16 (fst o_key)), o_key))
         else (add_round_key s1 (fst (?u (Suc (Suc n) div 2))), ?u (Suc (Suc n) div 2))) in
      (inv_mix_sub_columns s1, o_key)) = (inv_mix_sub_columns (add_round_key s1 (round_key_256 k (Suc n))), ?u (Suc n div 2))"
    using u by (cases "odd (Suc n)") (simp_all add: Let_def round_key_256_def)
  then show ?case unfolding r fold_simps prod.case Suc.IH [symmetric] by (simp only:)
qed simp

lemma round_key_lengths:
  "length k = 16 \<Longrightarrow> 16 \<le> length (fst ((update_encrypt_key_128 ^^ r) (k, 1)))"
  "length k = 32 \<Longrightarrow> 16 \<le> length (round_key_256 k r)"
  by (simp_all add: update_128_pow(1) update_256_pow(1) round_key_256_def Let_def)

text \<open>Whatever the round keys are, the rounds with the keys in the reverse order return the block.\<close>

lemma rounds_return:
  fixes m :: nat and b :: "u8 list" and kf :: "nat \<Rightarrow> u8 list"
  assumes "length b = 16" "\<And>r. 16 \<le> length (kf r)"
  defines "e \<equiv> fold (\<lambda>r s1. add_round_key (mix_sub_columns s1) (kf r)) [1..<m] (copy_and_key b (kf 0))"
  defines "c \<equiv> copy_and_key (shift_sub_rows e) (kf m)"
  shows "length c = 16"
    "copy_and_key (fold (\<lambda>r s1. inv_mix_sub_columns (add_round_key s1 (kf r))) (rev [1..<m])
       (inv_shift_sub_rows (copy_and_key c (kf m)))) (kf 0) = b"
proof -
  have s: "length (copy_and_key b (kf 0)) = 16" using assms(1,2) by simp
  note und = rounds_undone [OF s, of "[1..<m]" kf, OF assms(2)]
  note r = und [THEN conjunct1, folded e_def] und [THEN conjunct2, folded e_def]
  show "length c = 16" using assms(2) by (simp add: c_def)
  have "copy_and_key c (kf m) = shift_sub_rows e"
    using assms(2) [of m] by (simp add: c_def copy_and_key_xor xor_block_twice)
  then show "copy_and_key (fold (\<lambda>r s1. inv_mix_sub_columns (add_round_key s1 (kf r))) (rev [1..<m])
       (inv_shift_sub_rows (copy_and_key c (kf m)))) (kf 0) = b"
    using r s assms(1) assms(2) [of 0]
    by (simp add: inv_shift_sub_rows_shift copy_and_key_xor xor_block_twice)
qed

lemma decrypt_128_encrypt:
  assumes "length b = 16" "length key = 16" "bluedroid_aes_encrypt_128 b key = (c, o_key)"
  shows "bluedroid_aes_decrypt_128 c o_key = (b, key) \<and> length c = 16 \<and> length o_key = 16"
proof -
  let ?u = "\<lambda>r. (update_encrypt_key_128 ^^ r) (key, 1)"
  let ?kf = "\<lambda>r. fst (?u r)"
  have len: "length (?kf r) = 16" for r by (rule update_128_pow(1) [OF assms(2)])
  have len': "16 \<le> length (?kf r)" for r by (simp only: len)
  note ret = rounds_return [OF assms(1), of ?kf "Suc 9", OF len']
  have eq: "[1..<10] = [1..<Suc 9]" by simp
  have u0: "?kf 0 = key" by simp
  have u10: "update_encrypt_key_128 (?u 9) = ?u (Suc 9)" by (simp only: funpow.simps comp_def)
  have last: "(?kf (Suc 9), 0x6c) = ?u (Suc 9)" using rc_last(1) [of key] by (simp add: prod_eq_iff)
  have first: "update_decrypt_key_128 ((update_encrypt_key_128 ^^ 1) (key, 1)) = (key, 1)"
    using assms(2) by (simp add: update_128_undone)
  have c: "c = copy_and_key (shift_sub_rows (fold (\<lambda>r s1. add_round_key (mix_sub_columns s1) (?kf r)) [1..<Suc 9]
      (copy_and_key b (?kf 0)))) (?kf (Suc 9))" and o: "o_key = ?kf (Suc 9)"
    using assms(3) unfolding bluedroid_aes_encrypt_128_def Let_def eq enc_128_split [unfolded Let_def] prod.case u10 u0 by auto
  have "bluedroid_aes_decrypt_128 c o_key = (b, key)"
    unfolding bluedroid_aes_decrypt_128_def Let_def eq o last dec_128_split [OF assms(2), unfolded Let_def] prod.case first
      fst_conv using ret(2) [folded c] unfolding u0 by (simp only:)
  then show ?thesis using ret(1) [folded c] by (simp add: o len)
qed

lemma decrypt_256_encrypt:
  assumes "length b = 16" "length key = 32" "bluedroid_aes_encrypt_256 b key = (c, o_key)"
  shows "bluedroid_aes_decrypt_256 c o_key = (b, key) \<and> length c = 16 \<and> length o_key = 32"
proof -
  let ?u = "\<lambda>r. (update_encrypt_key_256 ^^ r) (key, 1)"
  let ?kf = "round_key_256 key"
  have len: "length (fst (?u r)) = 32" for r by (rule update_256_pow(1) [OF assms(2)])
  have len': "16 \<le> length (?kf r)" for r by (rule round_key_lengths(2) [OF assms(2)])
  note ret = rounds_return [OF assms(1), of ?kf "Suc 13", OF len']
  have eq: "[1..<14] = [1..<Suc 13]" by simp
  have u0: "?kf 0 = key" by (simp add: round_key_256_def)
  have d: "13 div 2 = (6::nat)" "Suc 13 div 2 = Suc 6" by simp_all
  have u14: "update_encrypt_key_256 (?u 6) = ?u (Suc 6)" by (simp only: funpow.simps comp_def)
  have k14: "fst (?u (Suc 6)) = ?kf (Suc 13)" by (simp add: round_key_256_def)
  have last: "(fst (?u (Suc 6)), 0x80) = ?u (Suc 13 div 2)"
    unfolding d using rc_last(2) [of key] by (simp add: prod_eq_iff)
  have c: "c = copy_and_key (shift_sub_rows (fold (\<lambda>r s1. add_round_key (mix_sub_columns s1) (?kf r)) [1..<Suc 13]
      (copy_and_key b (?kf 0)))) (?kf (Suc 13))" and o: "o_key = fst (?u (Suc 6))"
    using assms(3) unfolding bluedroid_aes_encrypt_256_def Let_def eq enc_256_split [unfolded Let_def] prod.case d u14 u0 k14
    by auto
  have "bluedroid_aes_decrypt_256 c o_key = (copy_and_key (fold (\<lambda>r s1. inv_mix_sub_columns (add_round_key s1 (?kf r))) (rev [1..<Suc 13])
       (inv_shift_sub_rows (copy_and_key c (?kf (Suc 13))))) key, key)"
    unfolding bluedroid_aes_decrypt_256_def Let_def eq o last dec_256_split [OF assms(2), unfolded Let_def] prod.case
      fst_conv by (simp only: k14)
  then show ?thesis using ret [folded c] unfolding u0 by (simp only: o len simp_thms)
qed


section \<open>The keys made on the fly are those of the schedule\<close>

text \<open>Four steps of the schedule write the next block, the one of the update.\<close>

lemma key_loop_append: "key_loop n (xs @ ys) s = key_loop n ys (key_loop n xs s)"
  by (induction xs arbitrary: s) simp_all

text \<open>One step, with the four words of the key that it reads and the word that it writes.\<close>

lemma key_step_word:
  assumes "length p = 4 * n" "length b = 4" "length c = 4"
  shows "key_step 16 (4 * n + 16) (rc, p @ [a0, a1, a2, a3] @ b @ c @ [d0, d1, d2, d3] @ [e0, e1, e2, e3] @ z) =
    (if n mod 4 = 0
     then (ucast (gf_f2 (ucast rc)), p @ [a0, a1, a2, a3] @ b @ c @ [d0, d1, d2, d3] @
             [a0 XOR (s_box d1 XOR rc), a1 XOR s_box d2, a2 XOR s_box d3, a3 XOR s_box d0] @ z)
     else (rc, p @ [a0, a1, a2, a3] @ b @ c @ [d0, d1, d2, d3] @ [a0 XOR d0, a1 XOR d1, a2 XOR d2, a3 XOR d3] @ z))"
proof -
  have md: "(4 * n + 16) mod 16 = 0 \<longleftrightarrow> n mod 4 = 0" by presburger
  let ?k = "p @ [a0, a1, a2, a3] @ b @ c @ [d0, d1, d2, d3] @ [e0, e1, e2, e3] @ z"
  have at: "4 * n + 16 - 4 = 4 * n + 12" "4 * n + 16 - 3 = 4 * n + 13" "4 * n + 16 - 2 = 4 * n + 14" "4 * n + 16 - 1 = 4 * n + 15"
    "4 * n + 16 - 16 = 4 * n" by simp_all
  have rd: "?k ! (4 * n + 12) = d0" "?k ! (4 * n + 13) = d1" "?k ! (4 * n + 14) = d2" "?k ! (4 * n + 15) = d3"
    "?k ! (4 * n) = a0" "?k ! (4 * n + 1) = a1" "?k ! (4 * n + 2) = a2" "?k ! (4 * n + 3) = a3"
    by (simp_all add: nth_append assms)
  have wr: "?k[4 * n + 16 := f0, 4 * n + 16 + 1 := f1, 4 * n + 16 + 2 := f2, 4 * n + 16 + 3 := f3] =
      p @ [a0, a1, a2, a3] @ b @ c @ [d0, d1, d2, d3] @ [f0, f1, f2, f3] @ z" for f0 f1 f2 f3
    by (simp add: list_update_append assms)
  show ?thesis
    unfolding key_step_def Let_def prod.case at rd md
    by (cases "n mod 4 = 0") (simp_all only: if_True if_False wr prod.case simp_thms, simp_all)
qed

definition key_block :: "nat \<Rightarrow> nat list" where
  "key_block m = [16 * m + 16, 16 * m + 20, 16 * m + 24, 16 * m + 28]"

lemma key_block_step:
  assumes "length p = 16 * m" "length x = 16" "length y = 16"
  shows "key_loop 16 (key_block m) (rc, p @ x @ y @ z) =
    (snd (update_encrypt_key_128 (x, rc)), p @ x @ fst (update_encrypt_key_128 (x, rc)) @ z)"
proof -
  obtain a0 a1 a2 a3 b0 b1 b2 b3 c0 c1 c2 c3 d0 d1 d2 d3
    where x: "x = [a0, a1, a2, a3, b0, b1, b2, b3, c0, c1, c2, c3, d0, d1, d2, d3]"
    using block_16 [OF assms(2)] .
  obtain e0 e1 e2 e3 f0 f1 f2 f3 g0 g1 g2 g3 h0 h1 h2 h3
    where y: "y = [e0, e1, e2, e3, f0, f1, f2, f3, g0, g1, g2, g3, h0, h1, h2, h3]"
    using block_16 [OF assms(3)] .
  define w where "w = rot_word 12 rc x"
  let ?a = "[a0 XOR (s_box d1 XOR rc), a1 XOR s_box d2, a2 XOR s_box d3, a3 XOR s_box d0]"
  let ?b = "map2 (XOR) [b0, b1, b2, b3] ?a"
  let ?c = "map2 (XOR) [c0, c1, c2, c3] ?b"
  let ?d = "map2 (XOR) [d0, d1, d2, d3] ?c"
  have p: "length p = 4 * (4 * m)" "length (p @ [a0, a1, a2, a3]) = 4 * (4 * m + 1)"
    "length (p @ [a0, a1, a2, a3] @ [b0, b1, b2, b3]) = 4 * (4 * m + 2)"
    "length (p @ [a0, a1, a2, a3] @ [b0, b1, b2, b3] @ [c0, c1, c2, c3]) = 4 * (4 * m + 3)"
    using assms(1) by simp_all
  have n: "4 * m mod 4 = 0" "(4 * m + 1) mod 4 = 1" "(4 * m + 2) mod 4 = 2" "(4 * m + 3) mod 4 = 3" by presburger+
  have q: "16 * m + 16 = 4 * (4 * m) + 16" "16 * m + 20 = 4 * (4 * m + 1) + 16" "16 * m + 24 = 4 * (4 * m + 2) + 16"
    "16 * m + 28 = 4 * (4 * m + 3) + 16" by simp_all
  let ?r = "ucast (gf_f2 (ucast rc)) :: u8"
  have s1: "key_step 16 (16 * m + 16) (rc, p @ x @ y @ z) = (?r, p @ x @ ?a @ drop 4 y @ z)"
    unfolding q(1) using key_step_word [OF p(1), of "[b0, b1, b2, b3]" "[c0, c1, c2, c3]" rc a0 a1 a2 a3 d0 d1 d2 d3 e0 e1 e2 e3 "drop 4 y @ z"] n
    by (simp add: x y)
  have s2: "key_step 16 (16 * m + 20) (?r, p @ x @ ?a @ drop 4 y @ z) = (?r, p @ x @ ?a @ ?b @ drop 8 y @ z)"
    unfolding q(2) using key_step_word [OF p(2), of "[c0, c1, c2, c3]" "[d0, d1, d2, d3]" ?r b0 b1 b2 b3 "?a ! 0" "?a ! 1" "?a ! 2" "?a ! 3"
      f0 f1 f2 f3 "drop 8 y @ z"] n
    by (simp add: x y)
  have s3: "key_step 16 (16 * m + 24) (?r, p @ x @ ?a @ ?b @ drop 8 y @ z) = (?r, p @ x @ ?a @ ?b @ ?c @ drop 12 y @ z)"
    unfolding q(3) using key_step_word [OF p(3), of "[d0, d1, d2, d3]" ?a ?r c0 c1 c2 c3 "?b ! 0" "?b ! 1" "?b ! 2" "?b ! 3"
      g0 g1 g2 g3 "drop 12 y @ z"] n
    by (simp add: x y)
  have s4: "key_step 16 (16 * m + 28) (?r, p @ x @ ?a @ ?b @ ?c @ drop 12 y @ z) = (?r, p @ x @ ?a @ ?b @ ?c @ ?d @ z)"
    unfolding q(4) using key_step_word [OF p(4), of ?a ?b ?r d0 d1 d2 d3 "?c ! 0" "?c ! 1" "?c ! 2" "?c ! 3"
      h0 h1 h2 h3 z] n
    by (simp add: x y)
  have u: "update_encrypt_key_128 (x, rc) = (?a @ ?b @ ?c @ ?d, ?r)"
    by (simp add: update_encrypt_key_128_def rot_word_def chain_word_def x)
  show ?thesis unfolding key_block_def key_loop.simps s1 s2 s3 s4 u fst_conv snd_conv append_assoc ..
qed

text \<open>The schedule of ten blocks is that of the ten updates.\<close>

lemma blocks_of_key:
  assumes "length key = 16" "16 * n + 16 \<le> length (key @ z)"
  shows "key_loop 16 (concat (map key_block [0..<n])) (1, key @ z) =
    (snd ((update_encrypt_key_128 ^^ n) (key, 1)),
     concat (map (\<lambda>m. fst ((update_encrypt_key_128 ^^ m) (key, 1))) [0..<Suc n]) @ drop (16 * n) z)"
  using assms(2)
proof (induction n)
  case 0
  then show ?case by simp
next
  case (Suc n)
  let ?u = "\<lambda>m. (update_encrypt_key_128 ^^ m) (key, 1)"
  let ?p = "concat (map (\<lambda>m. fst (?u m)) [0..<n])"
  let ?y = "take 16 (drop (16 * n) z)"
  have len: "length (fst (?u m)) = 16" for m by (rule update_128_pow(1) [OF assms(1)])
  have p: "length ?p = 16 * n" by (induction n) (simp_all add: len)
  have y: "length ?y = 16" using Suc.prems assms(1) by simp
  have z: "drop (16 * n) z = ?y @ drop (16 * Suc n) z"
    by (metis append_take_drop_id drop_drop mult_Suc_right)
  have st: "key_loop 16 (concat (map key_block [0..<n])) (1, key @ z) =
      (snd (?u n), ?p @ fst (?u n) @ ?y @ drop (16 * Suc n) z)"
    using Suc z by simp
  have "key_loop 16 (concat (map key_block [0..<Suc n])) (1, key @ z) =
      key_loop 16 (key_block n) (snd (?u n), ?p @ fst (?u n) @ ?y @ drop (16 * Suc n) z)"
    by (simp add: key_loop_append st)
  also have "\<dots> = (snd (?u (Suc n)), ?p @ fst (?u n) @ fst (?u (Suc n)) @ drop (16 * Suc n) z)"
    unfolding key_block_step [OF p len y] by simp
  finally show ?case by simp
qed

lemma concat_block:
  assumes "\<And>m. length (f m) = 16" "r < n"
  shows "take 16 (drop (16 * r) (concat (map f [0..<n]) @ z)) = f r"
proof -
  have len: "length (concat (map f [0..<r])) = 16 * r" for r by (induction r) (simp_all add: assms(1))
  have "[0..<n] = [0..<r] @ r # [Suc r..<n]" using upt_add_eq_append [of 0 r "n - r"] upt_conv_Cons [of r n] assms(2) by simp
  then have "concat (map f [0..<n]) = concat (map f [0..<r]) @ f r @ concat (map f [Suc r..<n])" by simp
  then show ?thesis using len [of r] assms(1) [of r] by simp
qed

lemma round_key_taken:
  "copy_and_key b (take 16 k) = copy_and_key b k" "add_round_key b (take 16 k) = add_round_key b k"
  by (simp_all add: copy_and_key_def add_round_key_def xor_block_def N_BLOCK_def)

lemma encrypt_128_schedule:
  assumes "length key = 16" "length (ksch ctx) = 240" "bt_aes_set_key key 16 ctx = (ret, ctx')"
  shows "bluedroid_aes_encrypt b ctx' = Some (fst (bluedroid_aes_encrypt_128 b key))"
proof -
  let ?kf = "\<lambda>m. fst ((update_encrypt_key_128 ^^ m) (key, 1))"
  have blocks: "map (\<lambda>i. 16 + 4 * i) [0..<(176 - 16) div 4] = concat (map key_block [0..<10])" by code_simp
  let ?z = "drop 16 (ksch ctx)"
  have len: "length (?kf m) = 16" for m by (rule update_128_pow(1) [OF assms(1)])
  have "key_loop 16 (concat (map key_block [0..<10])) (1, key @ ?z) =
      (snd ((update_encrypt_key_128 ^^ 10) (key, 1)), concat (map ?kf [0..<Suc 10]) @ drop (16 * 10) ?z)"
    using assms(1,2) by (intro blocks_of_key) simp_all
  then have ctx': "ctx' = ctx\<lparr>ksch := concat (map ?kf [0..<Suc 10]) @ drop (16 * 10) ?z, rnd := 10\<rparr>"
    using assms(1,3) blocks unfolding bt_aes_set_key_def by (simp add: Let_def)
  have ks: "ksch ctx' = concat (map ?kf [0..<Suc 10]) @ drop (16 * 10) ?z" unfolding ctx' by simp
  have kr: "take 16 (round_key ctx' r) = ?kf r" if "r < Suc 10" for r
    using concat_block [of ?kf r "Suc 10", OF len that] by (simp only: ks round_key_def N_BLOCK_def mult.commute)
  have k0: "take 16 (ksch ctx') = key" using kr [of 0] by (simp add: round_key_def)
  have rn: "rnd ctx' = 10" by (simp add: ctx')
  have rounds: "fold (\<lambda>r s1. add_round_key (mix_sub_columns s1) (round_key ctx' r)) [1..<10] s =
      fold (\<lambda>r s1. add_round_key (mix_sub_columns s1) (?kf r)) [1..<10] s" for s
  proof (rule fold_cong [OF refl refl])
    fix r assume "r \<in> set [1..<10 :: nat]"
    then have "r < Suc 10" by simp
    then show "(\<lambda>s1. add_round_key (mix_sub_columns s1) (round_key ctx' r)) = (\<lambda>s1. add_round_key (mix_sub_columns s1) (?kf r))"
      using kr [of r] round_key_taken(2) [of _ "round_key ctx' r"] by simp
  qed
  have "10 < Suc (10 :: nat)" by simp
  note k10 = kr [OF this]
  have eq: "[1..<10] = [1..<Suc 9]" by simp
  have u10: "update_encrypt_key_128 ((update_encrypt_key_128 ^^ 9) (key, 1)) = (update_encrypt_key_128 ^^ Suc 9) (key, 1)"
    by (simp only: funpow.simps comp_def)
  have ten: "Suc 9 = (10 :: nat)" by simp
  have "bluedroid_aes_encrypt b ctx' = Some (copy_and_key (shift_sub_rows
      (fold (\<lambda>r s1. add_round_key (mix_sub_columns s1) (?kf r)) [1..<10] (copy_and_key b key))) (?kf 10))"
    using round_key_taken(1) [of b "ksch ctx'", unfolded k0] round_key_taken(1) [of _ "round_key ctx' 10", unfolded k10]
    by (simp only: bluedroid_aes_encrypt_def rn rounds Let_def) simp
  then show ?thesis
    unfolding bluedroid_aes_encrypt_128_def Let_def eq enc_128_split [unfolded Let_def] prod.case u10 fst_conv
    by (simp only: ten)
qed

section \<open>Properties\<close>

text \<open>
  C36: With the keys made on the fly, for 128 and for 256 bits, decryption with the key that encryption
  leaves in \<open>o_key\<close> returns the block and leaves the key that encryption started from.
\<close>

theorem aes_otf_roundtrip:
  assumes "length b = 16" "length key = 16" "length key' = 32"
  shows "case_prod bluedroid_aes_decrypt_128 (bluedroid_aes_encrypt_128 b key) = (b, key) \<and>
    case_prod bluedroid_aes_decrypt_256 (bluedroid_aes_encrypt_256 b key') = (b, key')"
  using decrypt_128_encrypt [OF assms(1,2) surjective_pairing] decrypt_256_encrypt [OF assms(1,3) surjective_pairing]
  by (simp only: case_prod_beta simp_thms)

lemma aes_otf_roundtrip_witness:
  "case_prod bluedroid_aes_decrypt_128 (bluedroid_aes_encrypt_128 (replicate 16 7) (replicate 16 9)) = (replicate 16 7, replicate 16 9) \<and>
   case_prod bluedroid_aes_decrypt_256 (bluedroid_aes_encrypt_256 (replicate 16 7) (replicate 32 9)) = (replicate 16 7, replicate 32 9)"
  by (rule aes_otf_roundtrip) simp_all

text \<open>
  A block encrypted with the prepared schedule of a 128-bit key is the block encrypted with the round
  keys made on the fly: \<open>bt_aes_set_key\<close> and \<open>update_encrypt_key_128\<close> make the same eleven keys.
\<close>

theorem aes_otf_schedule:
  assumes "length key = 16" "length (ksch ctx) = 240"
  shows "bluedroid_aes_encrypt b (snd (bt_aes_set_key key 16 ctx)) = Some (fst (bluedroid_aes_encrypt_128 b key))"
  using encrypt_128_schedule [OF assms surjective_pairing] .

lemma aes_otf_schedule_witness:
  "bluedroid_aes_encrypt (replicate 16 7) (snd (bt_aes_set_key (replicate 16 9) 16 \<lparr>ksch = replicate 240 0, rnd = 0\<rparr>)) =
   Some (fst (bluedroid_aes_encrypt_128 (replicate 16 7) (replicate 16 9)))"
  by (rule aes_otf_schedule) simp_all

end
