(* ===== verification/SmpCmac.thy ===== *)
theory SmpCmac
  imports SmpAesOtf
begin

text \<open>
  \<open>SMP_Encrypt\<close> (\<open>stack/smp/smp_api.c\<close>, \<open>smp_encrypt_data\<close> of \<open>smp_keys.c\<close>) and the message
  authentication code of \<open>stack/smp/smp_cmac.c\<close>, with the control block \<open>cmac_cb\<close> that the code keeps
  between its steps.  All arrays have their least significant byte first, as in the code.  \<open>mem k\<close> says
  whether the k-th allocation of a call succeeds; \<open>None\<close> is an access outside a buffer.
\<close>

unbundle bit_operations_syntax

section \<open>Encryption of one block\<close>

definition SMP_ENCRYT_KEY_SIZE :: u8 where "SMP_ENCRYT_KEY_SIZE = 16"
definition SMP_ENCRYT_DATA_SIZE :: u8 where "SMP_ENCRYT_DATA_SIZE = 16"

record tSMP_ENC =
  enc_status :: u8
  enc_param_len :: u8
  enc_opcode :: u16
  enc_param_buf :: bytes

text \<open>
  \<open>p_start\<close> is cleared and holds the text, its reverse, the reversed key and the reversed output.  The
  context on the stack is not initialised; the result does not depend on it (\<open>encrypt_data_any_context\<close>).
\<close>

definition stack_context :: aes_context where
  "stack_context = \<lparr>ksch = replicate 240 0, rnd = 0\<rparr>"

definition smp_encrypt_data :: "bool \<Rightarrow> bytes \<Rightarrow> u8 \<Rightarrow> bytes \<Rightarrow> u8 \<Rightarrow> tSMP_ENC option" where
  "smp_encrypt_data mem key key_len plain_text pt_len =
     (if key_len \<noteq> SMP_ENCRYT_KEY_SIZE then None
      else if \<not> mem then None
      else (let pt_len = (if SMP_ENCRYT_DATA_SIZE < pt_len then SMP_ENCRYT_DATA_SIZE else pt_len);
                p_start = take (unat pt_len) plain_text @ replicate (16 - unat pt_len) 0;
                p_rev_data = rev p_start;
                p_rev_key = rev (take 16 key);
                (_, ctx) = bt_aes_set_key p_rev_key SMP_ENCRYT_KEY_SIZE stack_context;
                p_rev_output = (case bluedroid_aes_encrypt p_rev_data ctx of None \<Rightarrow> replicate 16 0 | Some c \<Rightarrow> c) in
            Some \<lparr>enc_status = 0, enc_param_len = SMP_ENCRYT_KEY_SIZE, enc_opcode = 0x2017,
                  enc_param_buf = rev p_rev_output\<rparr>))"

definition SMP_Encrypt :: "bool \<Rightarrow> bytes \<Rightarrow> u8 \<Rightarrow> bytes \<Rightarrow> u8 \<Rightarrow> tSMP_ENC option" where
  "SMP_Encrypt mem key key_len plain_text pt_len = smp_encrypt_data mem key key_len plain_text pt_len"

section \<open>The authentication code\<close>

record cmac_cb =
  cm_text :: "bytes option"
  cm_len :: u16
  cm_round :: u16

definition const_Rb :: bytes where
  "const_Rb = 0x87 # replicate 15 0"

text \<open>\<open>smp_xor_128\<close> of \<open>stack/smp/smp_utils.c\<close>: the first 16 bytes at the address.\<close>

definition smp_xor_128 :: "bytes \<Rightarrow> bytes \<Rightarrow> bytes" where
  "smp_xor_128 a b = map2 (XOR) (take 16 a) (take 16 b) @ drop 16 a"

definition padding :: "bytes \<Rightarrow> u8 \<Rightarrow> bytes" where
  "padding dest len = fold (\<lambda>i p. p[16 - i - 1 := (if i = unat len then 0x80 else 0)]) [unat len..<16] dest"

fun leftshift_from :: "u8 \<Rightarrow> bytes \<Rightarrow> bytes" where
  "leftshift_from overflow [] = []"
| "leftshift_from overflow (b # bs) =
     (let next_overflow = (if b AND 0x80 \<noteq> 0 then 1 else 0) in
      (push_bit 1 b OR overflow) # leftshift_from next_overflow bs)"

definition leftshift_onebit :: "bytes \<Rightarrow> bytes" where
  "leftshift_onebit input = leftshift_from 0 (take 16 input)"

definition cmac_aes_cleanup :: "cmac_cb \<Rightarrow> cmac_cb" where
  "cmac_aes_cleanup cb = \<lparr>cm_text = None, cm_len = 0, cm_round = 0\<rparr>"

text \<open>
  The rounds: the result is \<open>x\<close>, or that an encryption failed, with the control block whose text the
  rounds overwrite.  \<open>i\<close> is a byte, \<open>round\<close> has 16 bits.
\<close>

partial_function (option) cmac_rounds ::
    "(nat \<Rightarrow> bool) \<Rightarrow> bytes \<Rightarrow> u8 \<Rightarrow> bytes \<Rightarrow> cmac_cb \<Rightarrow> (bytes option \<times> cmac_cb) option" where
  "cmac_rounds mem key i x cb =
     (if ucast i \<le> cm_round cb
      then (case cm_text cb of
              None \<Rightarrow> None
            | Some text \<Rightarrow>
                (let at = (unat (cm_round cb) - unat i) * 16 in
                 if length text < at + 16 then None
                 else let text = take at text @ smp_xor_128 (drop at text) x;
                          cb = cb\<lparr>cm_text := Some text\<rparr> in
                      case SMP_Encrypt (mem (unat i)) key 16 (drop at text) 16 of
                        None \<Rightarrow> Some (None, cb)
                      | Some output \<Rightarrow> cmac_rounds mem key (i + 1) (enc_param_buf output) cb))
      else Some (Some x, cb))"

text \<open>
  The result is the code returned and the signature; \<open>p_mac\<close> points \<open>tlen\<close> bytes before the end of
  the output.
\<close>

definition cmac_aes_k_calculate ::
    "(nat \<Rightarrow> bool) \<Rightarrow> bytes \<Rightarrow> bytes \<Rightarrow> u16 \<Rightarrow> cmac_cb \<Rightarrow> (bool \<times> bytes \<times> cmac_cb) option" where
  "cmac_aes_k_calculate mem key p_signature tlen cb =
     (case cmac_rounds mem key 1 (replicate 16 0) cb of
        None \<Rightarrow> None
      | Some (None, cb) \<Rightarrow> Some (False, p_signature, cb)
      | Some (Some output, cb) \<Rightarrow>
          if 16 < unat tlen then None
          else Some (True, take (unat tlen) (drop (16 - unat tlen) output) @ drop (unat tlen) p_signature, cb))"

definition cmac_prepare_last_block :: "bytes \<Rightarrow> bytes \<Rightarrow> cmac_cb \<Rightarrow> cmac_cb option" where
  "cmac_prepare_last_block k1 k2 cb =
     (case cm_text cb of
        None \<Rightarrow> None
      | Some text \<Rightarrow>
          if length text < 16 then None
          else (let flag = (cm_len cb mod 16 = 0 \<and> cm_len cb \<noteq> 0) in
                Some (cb\<lparr>cm_text := Some (if flag then smp_xor_128 text k1
                         else smp_xor_128 (padding text (ucast (cm_len cb mod 16))) k2)\<rparr>)))"

definition cmac_subkey_cont :: "tSMP_ENC \<Rightarrow> cmac_cb \<Rightarrow> cmac_cb option" where
  "cmac_subkey_cont p cb =
     (let pp = enc_param_buf p;
          k1 = (if pp ! 15 AND 0x80 \<noteq> 0 then smp_xor_128 (leftshift_onebit pp) const_Rb else leftshift_onebit pp);
          k2 = (if k1 ! 15 AND 0x80 \<noteq> 0 then smp_xor_128 (leftshift_onebit k1) const_Rb else leftshift_onebit k1) in
      cmac_prepare_last_block k1 k2 cb)"

definition cmac_generate_subkey :: "bool \<Rightarrow> bytes \<Rightarrow> cmac_cb \<Rightarrow> (bool \<times> cmac_cb) option" where
  "cmac_generate_subkey mem key cb =
     (case SMP_Encrypt mem key 16 (replicate 16 0) 16 of
        Some output \<Rightarrow> map_option (Pair True) (cmac_subkey_cont output cb)
      | None \<Rightarrow> Some (False, cb))"

text \<open>
  \<open>len\<close> has 16 bits; the copy of the input is inside the buffer if there are \<open>length\<close> bytes after \<open>diff\<close>.
  Allocation 0 is the text, 1 the one of the subkeys, and those after it belong to the rounds.
\<close>

definition aes_cipher_msg_auth_code ::
    "(nat \<Rightarrow> bool) \<Rightarrow> bytes \<Rightarrow> bytes option \<Rightarrow> u16 \<Rightarrow> u16 \<Rightarrow> bytes \<Rightarrow> cmac_cb \<Rightarrow> (bool \<times> bytes \<times> cmac_cb) option" where
  "aes_cipher_msg_auth_code mem key input len' tlen p_signature cb =
     (let n = (of_nat ((unat len' + 15) div 16) :: u16);
          n = (if n = 0 then 1 else n);
          len = n * 16 in
      if mem 0 then
        (let cb = cb\<lparr>cm_round := n\<rparr>;
             text = replicate (unat len) 0;
             diff = len - len';
             copied = (case input of
                 Some inp \<Rightarrow>
                   if 0 < len' then
                     (if unat diff + unat len' \<le> unat len \<and> unat len' \<le> length inp
                      then Some (take (unat diff) text @ take (unat len') inp, len') else None)
                   else Some (text, 0)
               | None \<Rightarrow> Some (text, 0)) in
         case copied of
           None \<Rightarrow> None
         | Some (text, l) \<Rightarrow>
             (case cmac_generate_subkey (mem 1) key (cb\<lparr>cm_text := Some text, cm_len := l\<rparr>) of
                None \<Rightarrow> None
              | Some (True, cb) \<Rightarrow>
                  map_option (\<lambda>(ret, sig, cb). (ret, sig, cmac_aes_cleanup cb))
                    (cmac_aes_k_calculate (\<lambda>k. mem (k + 1)) key p_signature tlen cb)
              | Some (False, cb) \<Rightarrow> Some (False, p_signature, cmac_aes_cleanup cb)))
      else Some (False, p_signature, cb\<lparr>cm_text := None\<rparr>))"

end
