(* ===== verification/SmpCmacProofs.thy ===== *)
theory SmpCmacProofs
  imports SmpCmac
begin

text \<open>
  The authentication code of \<open>stack/smp/smp_cmac.c\<close> is AES-CMAC of RFC 4493.  The code of the RFC is
  stated over 128-bit words and any block cipher; a locale relates a cipher on byte arrays to one on
  words, and the cipher of the stack is an interpretation of it.
\<close>

unbundle bit_operations_syntax

section \<open>Byte arrays as 128-bit words\<close>

fun le128 :: "bytes \<Rightarrow> 128 word" where
  "le128 [] = 0"
| "le128 (b # bs) = ucast b OR push_bit 8 (le128 bs)"

definition be128 :: "bytes \<Rightarrow> 128 word" where
  "be128 bs = le128 (rev bs)"

definition bytes128 :: "128 word \<Rightarrow> bytes" where
  "bytes128 w = map (\<lambda>i. ucast (drop_bit (8 * i) w)) [0..<16]"

lemma bit_le128: "bit (le128 bs) n \<longleftrightarrow> n < 128 \<and> n div 8 < length bs \<and> bit (bs ! (n div 8)) (n mod 8)"
proof (induction bs arbitrary: n)
  case (Cons b bs)
  show ?case
  proof (cases "n < 8")
    case True
    then show ?thesis by (simp add: bit_or_iff bit_push_bit_iff bit_ucast_iff)
  next
    case False
    then have d: "n div 8 = Suc ((n - 8) div 8)" "n mod 8 = (n - 8) mod 8" by (simp_all add: le_div_geq le_mod_geq)
    have "\<not> bit b n" using False bit_imp_le_length [of b n] by auto
    then show ?thesis using False Cons.IH [of "n - 8"] unfolding d by (auto simp add: bit_or_iff bit_push_bit_iff bit_ucast_iff)
  qed
qed simp

lemma length_bytes128 [simp]: "length (bytes128 w) = 16"
  by (simp add: bytes128_def)

lemma le128_bytes128 [simp]: "le128 (bytes128 w) = w"
proof (rule bit_eqI)
  fix n :: nat assume "possible_bit TYPE(128 word) n"
  then have n: "n < 128" by simp
  then have "n div 8 < 16" by simp
  then show "bit (le128 (bytes128 w)) n \<longleftrightarrow> bit w n"
    using n by (simp add: bit_le128 bytes128_def bit_ucast_iff bit_drop_bit_eq)
qed

lemma bytes128_le128: "length b = 16 \<Longrightarrow> bytes128 (le128 b) = b"
proof (rule nth_equalityI)
  fix i assume "length b = 16" "i < length (bytes128 (le128 b))"
  then have i: "i < 16" and b: "length b = 16" by simp_all
  show "bytes128 (le128 b) ! i = b ! i"
  proof (rule bit_eqI)
    fix n :: nat assume "possible_bit TYPE(8 word) n"
    then have n: "n < 8" by simp
    then have "8 * i + n < 128" "(8 * i + n) div 8 = i" "(8 * i + n) mod 8 = n" using i by simp_all
    then show "bit (bytes128 (le128 b) ! i) n \<longleftrightarrow> bit (b ! i) n"
      using i b n by (simp add: bytes128_def bit_ucast_iff bit_drop_bit_eq bit_le128)
  qed
qed simp

lemma le128_inject: "length a = 16 \<Longrightarrow> length b = 16 \<Longrightarrow> le128 a = le128 b \<longleftrightarrow> a = b"
  using bytes128_le128 by metis

lemma le128_xor: "length a = length b \<Longrightarrow> le128 (map2 (XOR) a b) = le128 a XOR le128 b"
  by (rule bit_eqI) (auto simp add: bit_le128 bit_xor_iff)

lemma le128_zeros [simp]: "le128 (replicate n 0) = 0"
  by (rule bit_eqI) (simp add: bit_le128)

text \<open>Shifts and the polynomial.\<close>

lemma bit_times_2: "bit (w * 2 :: 'a::len word) n \<longleftrightarrow> n < LENGTH('a) \<and> 0 < n \<and> bit w (n - 1)"
proof -
  have "w * 2 = push_bit 1 w" by simp
  then show ?thesis by (simp only: bit_push_bit_iff) auto
qed

lemma and_0x80: "(b :: u8) AND 0x80 \<noteq> 0 \<longleftrightarrow> bit b 7"
proof -
  have "0x80 = (push_bit 7 1 :: u8)" by simp
  then show ?thesis by (simp only: and_exp_eq_0_iff_not_bit [of b 7, folded push_bit_of_1] not_not)
qed

lemma length_leftshift_from [simp]: "length (leftshift_from c bs) = length bs"
  by (induction bs arbitrary: c) (simp_all add: Let_def)

lemma bit_leftshift_from:
  assumes "c = 0 \<or> c = 1"
  shows "bit (le128 (leftshift_from c bs)) n \<longleftrightarrow>
    n < 128 \<and> n < 8 * length bs \<and> (if n = 0 then bit c 0 else bit (le128 bs) (n - 1))"
  using assms
proof (induction bs arbitrary: c n)
  case (Cons b bs)
  let ?c = "if b AND 0x80 \<noteq> 0 then 1 else 0 :: u8"
  have c: "?c = 0 \<or> ?c = 1" by simp
  have high: "\<not> bit (v :: u8) k" if "8 \<le> k" for v k using that bit_imp_le_length [of v k] by auto
  have c': "\<not> bit c k" if "0 < k" for k using Cons.prems that by (auto simp: bit_1_iff)
  have "bit ?c 0 \<longleftrightarrow> bit b 7" by (simp add: and_0x80)
  consider "n = 0" | "0 < n" "n < 8" | "n = 8" | "8 < n" by linarith
  then show ?case
  proof cases
    case 1
    then show ?thesis by (simp add: Let_def bit_or_iff bit_push_bit_iff bit_ucast_iff bit_times_2)
  next
    case 2
    then show ?thesis using c' by (auto simp add: Let_def bit_or_iff bit_push_bit_iff bit_ucast_iff bit_times_2)
  next
    case 3
    then show ?thesis
      using Cons.IH [OF c, of 0] high [of 8] and_0x80 [of b] by (simp add: Let_def bit_or_iff bit_push_bit_iff bit_ucast_iff bit_times_2)
  next
    case 4
    then have "bit (le128 (leftshift_from c (b # bs))) n \<longleftrightarrow> n < 128 \<and> bit (le128 (leftshift_from ?c bs)) (n - 8)"
      using high [of n] by (simp only: leftshift_from.simps le128.simps Let_def)
        (auto simp add: bit_or_iff bit_push_bit_iff bit_ucast_iff)
    also have "\<dots> \<longleftrightarrow> n < 128 \<and> n < 8 * length (b # bs) \<and> bit (le128 bs) (n - 9)"
      unfolding Cons.IH [OF c] using 4 by auto
    also have "\<dots> \<longleftrightarrow> n < 128 \<and> n < 8 * length (b # bs) \<and> (if n = 0 then bit c 0 else bit (le128 (b # bs)) (n - 1))"
      using 4 high [of "n - 1" b] by (auto simp add: bit_or_iff bit_push_bit_iff bit_ucast_iff)
    finally show ?thesis .
  qed
qed simp

lemma le128_leftshift_onebit: "length b = 16 \<Longrightarrow> le128 (leftshift_onebit b) = push_bit 1 (le128 b)"
  by (rule bit_eqI) (auto simp add: leftshift_onebit_def bit_leftshift_from bit_times_2)

section \<open>The code of RFC 4493\<close>

text \<open>\<open>M\<close> has its most significant byte first; \<open>dbl\<close> multiplies by x in the field.\<close>

definition dbl :: "128 word \<Rightarrow> 128 word" where
  "dbl w = push_bit 1 w XOR (if bit w 127 then 0x87 else 0)"

definition cmac_K1 :: "(128 word \<Rightarrow> 128 word) \<Rightarrow> 128 word" where
  "cmac_K1 E = dbl (E 0)"

definition cmac_K2 :: "(128 word \<Rightarrow> 128 word) \<Rightarrow> 128 word" where
  "cmac_K2 E = dbl (cmac_K1 E)"

definition cmac_last :: "(128 word \<Rightarrow> 128 word) \<Rightarrow> bytes \<Rightarrow> 128 word" where
  "cmac_last E M = (if length M = 16 then be128 M XOR cmac_K1 E
     else be128 (M @ 0x80 # replicate (15 - length M) 0) XOR cmac_K2 E)"

fun cmac_chain :: "(128 word \<Rightarrow> 128 word) \<Rightarrow> 128 word \<Rightarrow> bytes \<Rightarrow> 128 word" where
  "cmac_chain E x M =
     (if length M \<le> 16 then E (x XOR cmac_last E M)
      else cmac_chain E (E (x XOR be128 (take 16 M))) (drop 16 M))"

declare cmac_chain.simps [simp del]

definition AES_CMAC :: "(128 word \<Rightarrow> 128 word) \<Rightarrow> bytes \<Rightarrow> 128 word" where
  "AES_CMAC E M = cmac_chain E 0 M"

section \<open>A cipher on byte arrays\<close>

locale le_cipher =
  fixes enc :: "bytes \<Rightarrow> bytes" and E :: "128 word \<Rightarrow> 128 word"
  assumes enc_length: "length b = 16 \<Longrightarrow> length (enc b) = 16"
    and enc_word: "length b = 16 \<Longrightarrow> le128 (enc b) = E (le128 b)"

text \<open>The subkeys as the code makes them, the last block, and the rounds over the blocks of a text.\<close>

definition subkey :: "bytes \<Rightarrow> bytes" where
  "subkey b = (if b ! 15 AND 0x80 \<noteq> 0 then smp_xor_128 (leftshift_onebit b) const_Rb else leftshift_onebit b)"

definition prepared :: "bytes \<Rightarrow> bytes \<Rightarrow> nat \<Rightarrow> bytes \<Rightarrow> bytes" where
  "prepared k1 k2 n text =
     (if n mod 16 = 0 \<and> n \<noteq> 0 then smp_xor_128 text k1 else smp_xor_128 (padding text (of_nat (n mod 16))) k2)"

definition block_at :: "bytes \<Rightarrow> nat \<Rightarrow> bytes" where
  "block_at text k = take 16 (drop (16 * k) text)"

definition run_rounds :: "(bytes \<Rightarrow> bytes) \<Rightarrow> bytes \<Rightarrow> nat \<Rightarrow> bytes \<Rightarrow> bytes" where
  "run_rounds enc text n x = foldl (\<lambda>x k. enc (smp_xor_128 (block_at text k) x)) x (rev [0..<n])"

lemma smp_xor_128_block:
  "length a = 16 \<Longrightarrow> length b = 16 \<Longrightarrow> smp_xor_128 a b = map2 (XOR) a b"
  by (simp add: smp_xor_128_def)

lemma length_smp_xor_128 [simp]: "16 \<le> length b \<Longrightarrow> length (smp_xor_128 a b) = length a"
  by (simp add: smp_xor_128_def)

lemma length_leftshift_onebit [simp]: "length (leftshift_onebit b) = min (length b) 16"
  by (simp add: leftshift_onebit_def)

lemma length_subkey: "length b = 16 \<Longrightarrow> length (subkey b) = 16"
  by (simp add: subkey_def const_Rb_def)

lemma le128_subkey:
  assumes "length b = 16"
  shows "le128 (subkey b) = dbl (le128 b)"
proof -
  have top: "bit (le128 b) 127 \<longleftrightarrow> bit (b ! 15) 7" using assms by (simp add: bit_le128)
  have rb: "le128 const_Rb = 0x87" by (simp add: const_Rb_def)
  show ?thesis
    using assms by (simp add: subkey_def dbl_def and_0x80 top smp_xor_128_block le128_xor const_Rb_def
        le128_leftshift_onebit)
qed

text \<open>The padding of a short block: a one bit and zeros below the bytes of the message.\<close>

lemma replicate_numeral: "replicate (numeral k) x = x # replicate (pred_numeral k) x"
  by (simp add: numeral_eq_Suc)

lemma padding_block:
  assumes "r < 16" "length b = 16"
  shows "padding (b @ rest) (of_nat r) = replicate (15 - r) 0 @ 0x80 # drop (16 - r) b @ rest"
proof -
  obtain b0 b1 b2 b3 b4 b5 b6 b7 b8 b9 b10 b11 b12 b13 b14 b15
    where b: "b = [b0, b1, b2, b3, b4, b5, b6, b7, b8, b9, b10, b11, b12, b13, b14, b15]"
    using block_16 [OF assms(2)] .
  have "r = 0 \<or> r = 1 \<or> r = 2 \<or> r = 3 \<or> r = 4 \<or> r = 5 \<or> r = 6 \<or> r = 7 \<or> r = 8 \<or> r = 9 \<or> r = 10 \<or> r = 11 \<or>
    r = 12 \<or> r = 13 \<or> r = 14 \<or> r = 15" using assms(1) by presburger
  then show ?thesis
    by (elim disjE) (simp_all add: padding_def b upt_rec replicate_numeral)
qed

lemma prepared_append:
  assumes "16 \<le> length t" "length k1 = 16" "length k2 = 16"
  shows "prepared k1 k2 l (t @ s) = prepared k1 k2 l t @ s" "length (prepared k1 k2 l t) = length t"
proof -
  let ?r = "l mod 16"
  have r: "?r < 16" by simp
  have b: "length (take 16 t) = 16" using assms(1) by simp
  have ts: "take 16 t @ drop 16 t @ s = t @ s" by (metis append.assoc append_take_drop_id)
  have p: "padding (t @ s) (of_nat ?r) = padding t (of_nat ?r) @ s" "length (padding t (of_nat ?r)) = length t"
    using padding_block [OF r b, of "drop 16 t @ s"] padding_block [OF r b, of "drop 16 t"] assms(1) r unfolding ts by simp_all
  have x: "smp_xor_128 (u @ s) k = smp_xor_128 u k @ s" if "16 \<le> length u" for u k
    using that by (simp add: smp_xor_128_def)
  show "prepared k1 k2 l (t @ s) = prepared k1 k2 l t @ s" "length (prepared k1 k2 l t) = length t"
    using assms p x [of t k1] x [of "padding t (of_nat ?r)" k2] by (simp_all add: prepared_def)
qed

lemma block_at_append:
  "length b = 16 \<Longrightarrow> block_at (b @ text) 0 = b"
  "length b = 16 \<Longrightarrow> block_at (b @ text) (Suc k) = block_at text k"
  "length text = 16 * k \<Longrightarrow> length b = 16 \<Longrightarrow> block_at (text @ b) k = b"
  "length text = 16 * n \<Longrightarrow> k < n \<Longrightarrow> block_at (text @ b) k = block_at text k"
  by (simp_all add: block_at_def)

lemma run_rounds_Suc:
  "run_rounds enc text (Suc n) x = run_rounds enc text n (enc (smp_xor_128 (block_at text n) x))"
  by (simp add: run_rounds_def)

lemma run_rounds_append:
  "length text = 16 * n \<Longrightarrow> run_rounds enc (text @ b) n x = run_rounds enc text n x"
  unfolding run_rounds_def by (rule foldl_cong) (auto simp: block_at_append)

context le_cipher begin

lemma enc_xor:
  "length b = 16 \<Longrightarrow> length x = 16 \<Longrightarrow> le128 (enc (smp_xor_128 b x)) = E (le128 b XOR le128 x) \<and>
    length (enc (smp_xor_128 b x)) = 16"
  by (simp add: enc_word enc_length smp_xor_128_block le128_xor)

text \<open>The subkeys are those of the RFC.\<close>

lemma subkeys:
  "le128 (subkey (enc (replicate 16 0))) = cmac_K1 E" "le128 (subkey (subkey (enc (replicate 16 0)))) = cmac_K2 E"
  by (simp_all add: le128_subkey length_subkey enc_length enc_word cmac_K1_def cmac_K2_def)

text \<open>The block at address 0, which holds the end of the message.\<close>

lemma last_block:
  fixes k1 k2 :: bytes
  assumes "length M \<le> 16" "M = [] \<longrightarrow> n = 0" "M \<noteq> [] \<longrightarrow> n mod 16 = length M mod 16 \<and> n \<noteq> 0"
    "length k1 = 16" "length k2 = 16" "le128 k1 = cmac_K1 E" "le128 k2 = cmac_K2 E"
  shows "\<exists>b. prepared k1 k2 n (replicate (16 - length M) 0 @ rev M @ rest) = b @ rest \<and> length b = 16 \<and>
    le128 b = cmac_last E M"
proof -
  let ?t = "replicate (16 - length M) 0 @ rev M"
  have t: "length ?t = 16" using assms(1) by simp
  show ?thesis
  proof (cases "length M = 16")
    case True
    then have "n mod 16 = 0 \<and> n \<noteq> 0" using assms(3) by auto
    then have "prepared k1 k2 n (?t @ rest) = map2 (XOR) ?t k1 @ rest"
      using t assms(4) by (simp add: prepared_def smp_xor_128_def)
    moreover have "le128 (map2 (XOR) ?t k1) = cmac_last E M"
      using t assms(4,6) True by (simp add: le128_xor cmac_last_def be128_def)
    moreover have "length (map2 (XOR) ?t k1) = 16" using t assms(4) by simp
    ultimately show ?thesis unfolding append_assoc by blast
  next
    case False
    then have l: "length M < 16" using assms(1) by simp
    have n: "n mod 16 = length M" "\<not> (n mod 16 = 0 \<and> n \<noteq> 0)" using l assms(2,3) by (cases "M = []"; auto)+
    let ?b = "replicate (15 - length M) 0 @ 0x80 # rev M"
    have b: "length ?b = 16" using l by simp
    have "padding (?t @ rest) (of_nat (n mod 16)) = ?b @ rest"
      unfolding n(1) using padding_block [OF l t] l by simp
    then have "prepared k1 k2 n (?t @ rest) = smp_xor_128 (?b @ rest) k2"
      unfolding prepared_def if_not_P [OF n(2)] by (simp only:)
    then have "prepared k1 k2 n (?t @ rest) = map2 (XOR) ?b k2 @ rest"
      using b assms(5) by (simp add: smp_xor_128_def)
    moreover have "le128 (map2 (XOR) ?b k2) = cmac_last E M"
      using b assms(5,7) False by (simp add: le128_xor cmac_last_def be128_def)
    moreover have "length (map2 (XOR) ?b k2) = 16" using b assms(5) by simp
    ultimately show ?thesis unfolding append_assoc by blast
  qed
qed

text \<open>The rounds over a message are the chain of the RFC.\<close>

lemma rounds_chain:
  assumes "length k1 = 16" "length k2 = 16" "le128 k1 = cmac_K1 E" "le128 k2 = cmac_K2 E"
  shows "length M \<le> 16 * Suc n \<Longrightarrow> (n = 0 \<or> 16 * n < length M) \<Longrightarrow> length x = 16 \<Longrightarrow>
    l mod 16 = length M mod 16 \<Longrightarrow> (l = 0 \<longleftrightarrow> M = []) \<Longrightarrow>
    le128 (run_rounds enc (prepared k1 k2 l (replicate (16 * Suc n - length M) 0 @ rev M)) (Suc n) x) =
      cmac_chain E (le128 x) M \<and>
    length (run_rounds enc (prepared k1 k2 l (replicate (16 * Suc n - length M) 0 @ rev M)) (Suc n) x) = 16"
proof (induction n arbitrary: M x)
  case 0
  have "length M \<le> 16" using 0 by simp
  moreover have "M = [] \<longrightarrow> l = 0" "M \<noteq> [] \<longrightarrow> l mod 16 = length M mod 16 \<and> l \<noteq> 0" using 0 by simp_all
  ultimately obtain b where b: "prepared k1 k2 l (replicate (16 - length M) 0 @ rev M @ []) = b @ []" "length b = 16"
    "le128 b = cmac_last E M"
    using last_block [OF _ _ _ assms, of M l "[]"] by blast
  have "run_rounds enc b (Suc 0) x = enc (smp_xor_128 b x)"
    using b(2) block_at_append(1) [OF b(2), of "[]"] by (simp add: run_rounds_def)
  moreover have "cmac_chain E (le128 x) M = E (le128 x XOR cmac_last E M)"
    using 0 by (simp add: cmac_chain.simps)
  ultimately show ?case
    using b enc_xor [OF b(2) "0.prems"(3)] by (simp add: xor.commute)
next
  case (Suc n)
  let ?M = "drop 16 M" and ?m = "take 16 M"
  let ?t = "\<lambda>n M. prepared k1 k2 l (replicate (16 * Suc n - length M) 0 @ rev M)"
  have gt: "16 < length M" "length ?m = 16" using Suc.prems(2) by simp_all
  have M: "rev M = rev ?M @ rev ?m" by (metis append_take_drop_id rev_append)
  have len: "length (replicate (16 * Suc n - length ?M) 0 @ rev ?M) = 16 * Suc n"
    using Suc.prems(1) by simp
  have z: "16 * Suc (Suc n) - length M = 16 * Suc n - length ?M" using gt by simp
  have long: "16 \<le> length (replicate (16 * Suc n - length ?M) 0 @ rev ?M)" unfolding len by simp
  have split: "?t (Suc n) M = ?t n ?M @ rev ?m"
    unfolding z M append_assoc [symmetric] by (rule prepared_append(1) [OF long assms(1,2)])
  have lt: "length (?t n ?M) = 16 * Suc n"
    unfolding prepared_append(2) [OF long assms(1,2)] by (rule len)
  have "block_at (?t (Suc n) M) (Suc n) = rev ?m"
    unfolding split using block_at_append(3) [OF lt, of "rev ?m"] gt by simp
  then have run: "run_rounds enc (?t (Suc n) M) (Suc (Suc n)) x = run_rounds enc (?t n ?M) (Suc n) (enc (smp_xor_128 (rev ?m) x))"
    unfolding run_rounds_Suc [of _ _ "Suc n"] split run_rounds_append [OF lt] by simp
  have e: "le128 (enc (smp_xor_128 (rev ?m) x)) = E (le128 x XOR be128 ?m)" "length (enc (smp_xor_128 (rev ?m) x)) = 16"
    using enc_xor [of "rev ?m" x] gt Suc.prems(3) by (simp_all add: be128_def xor.commute)
  have md: "l mod 16 = length ?M mod 16" using Suc.prems(4) gt by (simp add: le_mod_geq)
  have ne: "l = 0 \<longleftrightarrow> ?M = []" using Suc.prems(5) gt by auto
  have "cmac_chain E (le128 x) M = cmac_chain E (E (le128 x XOR be128 ?m)) ?M"
    using gt by (simp add: cmac_chain.simps)
  moreover have "length ?M \<le> 16 * Suc n" "n = 0 \<or> 16 * n < length ?M" using Suc.prems(1,2) by auto
  note Suc.IH [OF this e(2) md ne]
  ultimately show ?case unfolding run e(1) by (simp only:)
qed

text \<open>A whole message in a text of as many blocks as it takes.\<close>

lemma message_rounds:
  assumes "n = max 1 ((length M + 15) div 16)" "k1 = subkey (enc (replicate 16 0))" "k2 = subkey k1"
  shows "run_rounds enc (prepared k1 k2 (length M) (replicate (16 * n - length M) 0 @ rev M)) n (replicate 16 0) =
    bytes128 (AES_CMAC E M)"
proof -
  have z: "length (enc (replicate 16 0)) = 16" by (simp add: enc_length)
  have k: "length k1 = 16" "length k2 = 16" "le128 k1 = cmac_K1 E" "le128 k2 = cmac_K2 E"
    using subkeys z by (simp_all add: assms(2,3) length_subkey)
  obtain j where j: "n = Suc j" using assms(1) not0_implies_Suc [of n] by auto
  have "(length M + 15) div 16 < j + 2" "j = 0 \<or> j + 1 \<le> (length M + 15) div 16"
    using assms(1) unfolding j by (simp_all add: max_def split: if_splits)
  then have "length M \<le> 16 * Suc j" "j = 0 \<or> 16 * j < length M"
    by (simp_all add: div_less_iff_less_mult less_eq_div_iff_mult_less_eq) linarith
  from rounds_chain [OF k this, of "replicate 16 0" "length M"] bytes128_le128 show ?thesis
    unfolding j AES_CMAC_def by (metis le128_zeros length_0_conv length_replicate)
qed

end

section \<open>The cipher of the stack\<close>

definition aes_block :: "bytes \<Rightarrow> bytes \<Rightarrow> bytes" where
  "aes_block key b = rev (fst (bluedroid_aes_encrypt_128 (rev b) (rev key)))"

definition aes_word :: "bytes \<Rightarrow> 128 word \<Rightarrow> 128 word" where
  "aes_word key w = le128 (aes_block key (bytes128 w))"

lemma aes_cipher: "length key = 16 \<Longrightarrow> le_cipher (aes_block key) (aes_word key)"
  using decrypt_128_encrypt [OF _ _ surjective_pairing]
  by unfold_locales (simp_all add: aes_block_def aes_word_def bytes128_le128)

definition key16 :: "bytes \<Rightarrow> bytes" where
  "key16 key = (if length key = 16 then key else replicate 16 0)"

interpretation aes: le_cipher "aes_block (key16 key)" "aes_word (key16 key)" for key
  by (rule aes_cipher) (simp add: key16_def)

lemma encrypt_data:
  assumes "length key = 16" "16 \<le> length b"
  shows "SMP_Encrypt mem key 16 b 16 =
    (if mem then Some \<lparr>enc_status = 0, enc_param_len = 16, enc_opcode = 0x2017, enc_param_buf = aes_block key (take 16 b)\<rparr>
     else None)"
proof -
  have key: "length (rev (take 16 key)) = 16" "length (ksch stack_context) = 240"
    using assms(1) by (simp_all add: stack_context_def)
  show ?thesis
    using encrypt_128_schedule [OF key surjective_pairing, of "rev (take 16 b)"] assms
    by (simp add: SMP_Encrypt_def smp_encrypt_data_def SMP_ENCRYT_KEY_SIZE_def SMP_ENCRYT_DATA_SIZE_def aes_block_def
        split_beta Let_def)
qed

text \<open>What is on the stack where the context lies makes no difference.\<close>

lemma encrypt_data_any_context:
  assumes "length key = 16" "length (ksch c) = 240" "length (ksch c') = 240"
  shows "bluedroid_aes_encrypt b (snd (bt_aes_set_key key 16 c)) = bluedroid_aes_encrypt b (snd (bt_aes_set_key key 16 c'))"
  using encrypt_128_schedule [OF assms(1,2) surjective_pairing] encrypt_128_schedule [OF assms(1,3) surjective_pairing] by simp

lemma length_aes_block: "length key = 16 \<Longrightarrow> length b = 16 \<Longrightarrow> length (aes_block key b) = 16"
  using aes.enc_length [of b key] by (simp add: key16_def)

section \<open>The rounds of the code\<close>

lemma xor_at:
  assumes "16 * k + 16 \<le> length t"
  shows "take (16 * k) t @ smp_xor_128 (drop (16 * k) t) x = take (16 * k) t @ smp_xor_128 (block_at t k) x @ drop (16 * k + 16) t"
  using assms by (simp add: smp_xor_128_def block_at_def add.commute)

lemma byte_counter: "i \<le> 255 \<Longrightarrow> ucast (of_nat i :: u8) \<le> (r :: u16) \<longleftrightarrow> i \<le> unat r"
  by (simp add: word_le_nat_alt unat_of_nat unsigned_ucast_eq take_bit_nat_eq_self)

definition round_text :: "bytes \<Rightarrow> nat \<Rightarrow> bytes \<Rightarrow> bytes" where
  "round_text text m x = take (16 * m) text @ smp_xor_128 (block_at text m) x @ drop (16 * m + 16) text"

text \<open>A round, with \<open>m\<close> rounds after it.\<close>

lemma cmac_rounds_step:
  assumes key: "length key = 16" and i: "0 < i" "i \<le> 255" "i + m = unat (cm_round cb)"
    and t: "cm_text cb = Some text" "length text = 16 * unat (cm_round cb)" and x: "length x = 16"
  shows "cmac_rounds mem key (of_nat i) x cb =
      (if mem i then cmac_rounds mem key (of_nat (Suc i)) (aes_block key (smp_xor_128 (block_at text m) x))
                       (cb\<lparr>cm_text := Some (round_text text m x)\<rparr>)
       else Some (None, cb\<lparr>cm_text := Some (round_text text m x)\<rparr>))"
    "length (round_text text m x) = length text"
    "length (aes_block key (smp_xor_128 (block_at text m) x)) = 16"
proof -
  have u: "unat (of_nat i :: u8) = i" using i by (simp add: unat_of_nat)
  have le: "ucast (of_nat i :: u8) \<le> cm_round cb" using i byte_counter [of i "cm_round cb"] by simp
  have at: "(unat (cm_round cb) - i) * 16 = 16 * m" using i by simp
  have lt: "16 * m + 16 \<le> length text" using i t by simp
  have b: "length (smp_xor_128 (block_at text m) x) = 16" using lt x by (simp add: block_at_def)
  then show "length (round_text text m x) = length text" using lt by (simp add: round_text_def)
  show "length (aes_block key (smp_xor_128 (block_at text m) x)) = 16" by (rule length_aes_block [OF key b])
  have bt: "take 16 (drop (16 * m) (round_text text m x)) = smp_xor_128 (block_at text m) x"
    "16 \<le> length (drop (16 * m) (round_text text m x))" using b lt by (simp_all add: round_text_def)
  show "cmac_rounds mem key (of_nat i) x cb =
      (if mem i then cmac_rounds mem key (of_nat (Suc i)) (aes_block key (smp_xor_128 (block_at text m) x))
                       (cb\<lparr>cm_text := Some (round_text text m x)\<rparr>)
       else Some (None, cb\<lparr>cm_text := Some (round_text text m x)\<rparr>))"
    using le lt t(1) xor_at [OF lt, of x, folded round_text_def] encrypt_data [OF key bt(2), of "mem i"] bt(1)
    by (subst cmac_rounds.simps) (simp add: u at Let_def add.commute)
qed

text \<open>
  From round \<open>i\<close> on, with \<open>m\<close> rounds to go: the rounds fail if and only if an allocation does, and
  otherwise their result is that of the blocks below.
\<close>

lemma cmac_rounds_run:
  assumes key: "length key = 16" and i: "0 < i" "i + m \<le> 255" "i + m = Suc (unat (cm_round cb))"
    and t: "cm_text cb = Some text" "length text = 16 * unat (cm_round cb)" and x: "length x = 16"
  shows "\<exists>text'. cmac_rounds mem key (of_nat i) x cb =
    Some (if \<forall>k\<in>{i..<i + m}. mem k then Some (run_rounds (aes_block key) text m x) else None, cb\<lparr>cm_text := Some text'\<rparr>)"
  using i t x
proof (induction m arbitrary: i "text" x cb)
  case 0
  have "\<not> ucast (of_nat i :: u8) \<le> cm_round cb" using 0 byte_counter [of i "cm_round cb"] by simp
  then have "cmac_rounds mem key (of_nat i) x cb = Some (Some x, cb)" by (simp add: cmac_rounds.simps)
  moreover have "cb = cb\<lparr>cm_text := Some text\<rparr>" using 0 by simp
  ultimately show ?case by (auto simp: run_rounds_def intro!: exI [of _ "text"])
next
  case (Suc m)
  have "i \<le> 255" "i + m = unat (cm_round cb)" using Suc.prems by simp_all
  note step = cmac_rounds_step [OF key Suc.prems(1) this Suc.prems(4,5,6)]
  let ?t = "round_text text m x" and ?e = "aes_block key (smp_xor_128 (block_at text m) x)"
  show ?case
  proof (cases "mem i")
    case True
    obtain text' where ih: "cmac_rounds mem key (of_nat (Suc i)) ?e (cb\<lparr>cm_text := Some ?t\<rparr>) =
        Some (if \<forall>k\<in>{Suc i..<Suc i + m}. mem k then Some (run_rounds (aes_block key) ?t m ?e) else None,
          cb\<lparr>cm_text := Some text'\<rparr>)"
      using Suc.IH [of "Suc i" "cb\<lparr>cm_text := Some ?t\<rparr>" ?t ?e] Suc.prems step(2,3) by auto
    have "run_rounds (aes_block key) ?t m y = run_rounds (aes_block key) text m y" for y
    proof -
      have l: "length (take (16 * m) text) = 16 * m" using Suc.prems by simp
      show ?thesis
        using run_rounds_append [OF l, of "aes_block key" "smp_xor_128 (block_at text m) x @ drop (16 * m + 16) text" y]
          run_rounds_append [OF l, of "aes_block key" "drop (16 * m) text" y] by (simp add: round_text_def)
    qed
    moreover have "{i..<i + Suc m} = insert i {Suc i..<Suc i + m}" by auto
    ultimately show ?thesis using True ih unfolding step(1)
      by (intro exI [of _ text']) (simp add: run_rounds_Suc)
  next
    case False
    then show ?thesis unfolding step(1) by (auto intro!: exI [of _ ?t])
  qed
qed

text \<open>With more than 254 rounds the byte wraps to 0, whose block is behind the text.\<close>

lemma cmac_rounds_overrun:
  assumes key: "length key = 16" and i: "0 < i" "i + m = 255" "255 \<le> unat (cm_round cb)"
    and t: "cm_text cb = Some text" "length text = 16 * unat (cm_round cb)" and x: "length x = 16" and mem: "\<forall>k. mem k"
  shows "cmac_rounds mem key (of_nat i) x cb = None"
  using i t x
proof (induction m arbitrary: i "text" x cb)
  case 0
  have "i \<le> 255" "i + (unat (cm_round cb) - i) = unat (cm_round cb)" using 0 by simp_all
  note step = cmac_rounds_step [OF key "0.prems"(1) this "0.prems"(4,5,6)]
  have z: "of_nat (Suc i) = (0 :: u8)" using 0 by simp
  have "cmac_rounds mem key 0 y (cb\<lparr>cm_text := Some t\<rparr>) = None" if "length t = 16 * unat (cm_round cb)" for y t
    using that by (subst cmac_rounds.simps) simp
  then show ?case unfolding step(1) z using mem step(2) "0.prems"(5) by simp
next
  case (Suc m)
  have "i \<le> 255" "i + (unat (cm_round cb) - i) = unat (cm_round cb)" using Suc.prems by simp_all
  note step = cmac_rounds_step [OF key Suc.prems(1) this Suc.prems(4,5,6)]
  have "cmac_rounds mem key (of_nat (Suc i)) (aes_block key (smp_xor_128 (block_at text (unat (cm_round cb) - i)) x))
      (cb\<lparr>cm_text := Some (round_text text (unat (cm_round cb) - i) x)\<rparr>) = None"
    by (rule Suc.IH [of "Suc i" _ "round_text text (unat (cm_round cb) - i) x"]) (use Suc.prems step(2,3) in simp_all)
  then show ?case unfolding step(1) using mem by (simp only: if_True simp_thms)
qed

text \<open>The last block of the text, with the subkeys made from the encrypted zeros.\<close>

lemma subkey_cont:
  assumes "cm_text cb = Some text" "16 \<le> length text"
  shows "cmac_subkey_cont p cb =
    (let k1 = subkey (enc_param_buf p) in Some (cb\<lparr>cm_text := Some (prepared k1 (subkey k1) (unat (cm_len cb)) text)\<rparr>))"
proof -
  have "cm_len cb mod 16 = 0 \<and> cm_len cb \<noteq> 0 \<longleftrightarrow> unat (cm_len cb) mod 16 = 0 \<and> unat (cm_len cb) \<noteq> 0"
    by (simp add: unat_mod_distrib word_unat_eq_iff)
  moreover have "ucast (cm_len cb mod 16) = (of_nat (unat (cm_len cb) mod 16) :: u8)"
  proof -
    have "of_nat (unat (cm_len cb mod 16)) = (ucast (cm_len cb mod 16) :: u8)" by (rule of_nat_unat)
    moreover have "unat (cm_len cb mod 16) = unat (cm_len cb) mod 16" by (simp add: unat_mod_distrib)
    ultimately show ?thesis by metis
  qed
  ultimately show ?thesis
    using assms by (simp add: cmac_subkey_cont_def cmac_prepare_last_block_def prepared_def subkey_def Let_def)
qed

section \<open>The whole call\<close>

definition cmac_blocks :: "u16 \<Rightarrow> nat" where
  "cmac_blocks len = max 1 ((unat len + 15) div 16)"

definition cleared :: cmac_cb where
  "cleared = \<lparr>cm_text = None, cm_len = 0, cm_round = 0\<rparr>"

lemma cmac_sizes:
  assumes "unat len \<le> 65520"
  shows "(if of_nat ((unat len + 15) div 16) = (0 :: u16) then 1 else of_nat ((unat len + 15) div 16)) =
      (of_nat (cmac_blocks len) :: u16)"
    "unat (of_nat (cmac_blocks len) :: u16) = cmac_blocks len"
    "unat (of_nat (cmac_blocks len) * 16 :: u16) = 16 * cmac_blocks len"
    "unat len \<le> 16 * cmac_blocks len"
    "unat (of_nat (cmac_blocks len) * 16 - len) = 16 * cmac_blocks len - unat len"
proof -
  let ?k = "(unat len + 15) div 16"
  have k: "?k \<le> 4095" using assms by simp
  have "unat (of_nat ?k :: u16) = ?k" using k by (simp add: unat_of_nat)
  then show "(if of_nat ?k = (0 :: u16) then 1 else of_nat ?k) = (of_nat (cmac_blocks len) :: u16)"
    by (cases "?k = 0") (auto simp: cmac_blocks_def word_unat_eq_iff max_def)
  have b: "cmac_blocks len \<le> 4095" using k by (simp add: cmac_blocks_def)
  then show u: "unat (of_nat (cmac_blocks len) :: u16) = cmac_blocks len" by (simp add: unat_of_nat)
  show m: "unat (of_nat (cmac_blocks len) * 16 :: u16) = 16 * cmac_blocks len"
    using b u by (simp add: unat_mult_lem [THEN iffD1])
  show le: "unat len \<le> 16 * cmac_blocks len" by (simp add: cmac_blocks_def max_def) presburger
  show "unat (of_nat (cmac_blocks len) * 16 - len) = 16 * cmac_blocks len - unat len"
    using le m by (simp add: unat_sub word_le_nat_alt)
qed

text \<open>The start of the call: the text, the subkeys and the last block.\<close>

lemma mac_start:
  fixes len' :: u16
  assumes key: "length key = 16" and inp: "length inp = unat len'" "unat len' \<le> 65520"
  defines "k1 \<equiv> subkey (aes_block key (replicate 16 0))"
  shows "aes_cipher_msg_auth_code mem key (Some inp) len' tlen sig cb =
    (if \<not> mem 0 then Some (False, sig, cb\<lparr>cm_text := None\<rparr>)
     else if \<not> mem 1 then Some (False, sig, cleared)
     else map_option (\<lambda>(ret, sig, cb). (ret, sig, cleared))
       (cmac_aes_k_calculate (\<lambda>k. mem (k + 1)) key sig tlen
         \<lparr>cm_text = Some (prepared k1 (subkey k1) (unat len') (replicate (16 * cmac_blocks len' - unat len') 0 @ inp)),
          cm_len = len', cm_round = of_nat (cmac_blocks len')\<rparr>))"
proof -
  note sz = cmac_sizes [OF inp(2)]
  let ?n = "cmac_blocks len'"
  let ?t = "replicate (16 * ?n - unat len') 0 @ inp"
  have t: "(if 0 < len' then
       (if (16 * ?n - unat len') + unat len' \<le> 16 * ?n \<and> unat len' \<le> length inp
        then Some (take (16 * ?n - unat len') (replicate (16 * ?n) 0) @ take (unat len') inp, len') else None)
     else Some (replicate (16 * ?n) 0, 0)) = Some (?t, len')"
    using inp sz(4) by (auto simp: word_gt_0 take_replicate)
  have lt: "16 \<le> length ?t" using sz(4) inp by (simp add: cmac_blocks_def)
  have z: "16 \<le> length (replicate 16 (0 :: u8))" by simp
  have gen: "cmac_generate_subkey m key \<lparr>cm_text = Some ?t, cm_len = len', cm_round = of_nat ?n\<rparr> =
      Some (if m then (True, \<lparr>cm_text = Some (prepared k1 (subkey k1) (unat len') ?t), cm_len = len', cm_round = of_nat ?n\<rparr>)
            else (False, \<lparr>cm_text = Some ?t, cm_len = len', cm_round = of_nat ?n\<rparr>))" for m
    using lt unfolding cmac_generate_subkey_def encrypt_data [OF key z]
    by (simp add: subkey_cont Let_def k1_def)
  have set: "cb\<lparr>cm_round := r, cm_text := x, cm_len := l\<rparr> = \<lparr>cm_text = x, cm_len = l, cm_round = r\<rparr>" for r x l
    by (cases cb) simp
  show ?thesis
    unfolding aes_cipher_msg_auth_code_def Let_def sz(1) sz(3) sz(5) option.case t prod.case set
    using gen by (cases "mem 0"; cases "mem 1") (simp_all add: cmac_aes_cleanup_def cleared_def)
qed

text \<open>For messages of at most 4064 bytes the call computes the code of the RFC, or reports a failed allocation.\<close>

lemma mac_result:
  fixes len' tlen :: u16
  assumes key: "length key = 16" and inp: "length inp = unat len'" "unat len' \<le> 4064" and tlen: "unat tlen \<le> 16"
  shows "aes_cipher_msg_auth_code mem key (Some inp) len' tlen sig cb =
    Some (if \<forall>k \<le> cmac_blocks len' + 1. mem k
          then (True, take (unat tlen) (drop (16 - unat tlen) (bytes128 (AES_CMAC (aes_word key) (rev inp)))) @ drop (unat tlen) sig, cleared)
          else (False, sig, if mem 0 then cleared else cb\<lparr>cm_text := None\<rparr>))"
proof -
  let ?n = "cmac_blocks len'"
  have n: "?n \<le> 254" "1 \<le> ?n" using inp(2) by (auto simp: cmac_blocks_def)
  have inp': "unat len' \<le> 65520" using inp(2) by simp
  note sz = cmac_sizes [OF inp']
  define k1 where "k1 = subkey (aes_block key (replicate 16 0))"
  define t where "t = prepared k1 (subkey k1) (unat len') (replicate (16 * ?n - unat len') 0 @ inp)"
  let ?cb = "\<lparr>cm_text = Some t, cm_len = len', cm_round = of_nat ?n\<rparr>"
  have k: "length k1 = 16" "length (subkey k1) = 16"
    by (simp_all add: k1_def length_subkey length_aes_block [OF key])
  have "16 \<le> length (replicate (16 * ?n - unat len') 0 @ inp)" using sz(4) n inp(1) by simp
  from prepared_append(2) [OF this k] have lt: "length t = 16 * unat (cm_round ?cb)"
    using sz(2,4) inp(1) by (simp add: t_def)
  have "0 < (1 :: nat)" "1 + ?n \<le> 255" "1 + ?n = Suc (unat (cm_round ?cb))" using n sz(2) by simp_all
  from cmac_rounds_run [OF key this _ lt, of "replicate 16 0" "\<lambda>k. mem (k + 1)"]
  obtain t' where rounds: "cmac_rounds (\<lambda>k. mem (k + 1)) key 1 (replicate 16 0) ?cb =
      Some (if \<forall>k\<in>{1..<1 + ?n}. mem (k + 1) then Some (run_rounds (aes_block key) t ?n (replicate 16 0)) else None,
        ?cb\<lparr>cm_text := Some t'\<rparr>)" by auto
  have "run_rounds (aes_block (key16 key)) (prepared k1 (subkey k1) (length (rev inp)) (replicate (16 * ?n - length (rev inp)) 0 @ rev (rev inp)))
      ?n (replicate 16 0) = bytes128 (AES_CMAC (aes_word (key16 key)) (rev inp))"
    by (rule aes.message_rounds) (simp_all add: cmac_blocks_def inp(1) k1_def key16_def key)
  then have run: "run_rounds (aes_block key) t ?n (replicate 16 0) = bytes128 (AES_CMAC (aes_word key) (rev inp))"
    by (simp add: t_def inp(1) key16_def key)
  have all: "(\<forall>k \<le> ?n + 1. mem k) \<longleftrightarrow> mem 0 \<and> mem 1 \<and> (\<forall>k\<in>{1..<1 + ?n}. mem (k + 1))"
  proof
    assume r: "mem 0 \<and> mem 1 \<and> (\<forall>k\<in>{1..<1 + ?n}. mem (k + 1))"
    show "\<forall>k \<le> ?n + 1. mem k"
    proof (intro allI impI)
      fix k assume "k \<le> ?n + 1"
      then have "k = 0 \<or> k = 1 \<or> k - 1 \<in> {1..<1 + ?n}" by auto
      then show "mem k" using r by (metis One_nat_def Suc_pred' add.commute bot_nat_0.not_eq_extremum plus_1_eq_Suc)
    qed
  qed auto
  show ?thesis
    unfolding mac_start [OF key inp(1) inp', folded k1_def, folded t_def] cmac_aes_k_calculate_def rounds run all
    using tlen by (auto intro: exI [of _ True] exI [of _ False])
qed

text \<open>For longer messages the rounds leave the text.\<close>

lemma mac_overrun:
  fixes len' tlen :: u16
  assumes key: "length key = 16" and inp: "length inp = unat len'" "4064 < unat len'" and mem: "\<forall>k. mem k"
  shows "aes_cipher_msg_auth_code mem key (Some inp) len' tlen sig cb = None"
proof (cases "unat len' \<le> 65520")
  case True
  let ?n = "cmac_blocks len'"
  note sz = cmac_sizes [OF True]
  define k1 where "k1 = subkey (aes_block key (replicate 16 0))"
  define t where "t = prepared k1 (subkey k1) (unat len') (replicate (16 * ?n - unat len') 0 @ inp)"
  let ?cb = "\<lparr>cm_text = Some t, cm_len = len', cm_round = of_nat ?n\<rparr>"
  have n: "255 \<le> ?n" using inp(2) by (simp add: cmac_blocks_def)
  have k: "length k1 = 16" "length (subkey k1) = 16"
    by (simp_all add: k1_def length_subkey length_aes_block [OF key])
  have "16 \<le> length (replicate (16 * ?n - unat len') 0 @ inp)" using sz(4) n inp(1) by simp
  from prepared_append(2) [OF this k] have lt: "length t = 16 * unat (cm_round ?cb)"
    using sz(2,4) inp(1) by (simp add: t_def)
  have i: "0 < (1 :: nat)" "1 + 254 = (255 :: nat)" "255 \<le> unat (cm_round ?cb)" using n sz(2) by simp_all
  have "cmac_rounds (\<lambda>k. mem (k + 1)) key 1 (replicate 16 0) ?cb = None"
    using cmac_rounds_overrun [OF key i _ lt, of "replicate 16 0" "\<lambda>k. mem (k + 1)"] mem by simp
  then show ?thesis
    unfolding mac_start [OF key inp(1) True, folded k1_def, folded t_def] cmac_aes_k_calculate_def using mem by simp
next
  case False
  let ?k = "(unat len' + 15) div 16"
  have "unat len' < 65536" using unsigned_less [of len', where ?'a = nat] by simp
  then have k: "?k = 4096" using False by simp
  have "(4096 :: u16) * 16 = 0" by simp
  then show ?thesis
    using False mem unfolding aes_cipher_msg_auth_code_def Let_def k
    by (simp add: word_gt_0 word_unat_eq_iff)
qed

section \<open>Properties\<close>

text \<open>
  C17: For a key of 16 bytes, a message of at most 4064 bytes and at most 16 bytes asked for, with memory,
  \<open>aes_cipher_msg_auth_code\<close> succeeds, writes the \<open>tlen\<close> most significant bytes of AES-CMAC (RFC 4493)
  of the message to the signature and leaves \<open>cmac_cb\<close> cleared.
\<close>

theorem cmac_is_rfc4493:
  fixes len' tlen :: u16
  assumes "length key = 16" "length inp = unat len'" "unat len' \<le> 4064" "unat tlen \<le> 16" "\<forall>k. mem k"
  shows "aes_cipher_msg_auth_code mem key (Some inp) len' tlen sig cb =
    Some (True, drop (16 - unat tlen) (bytes128 (AES_CMAC (aes_word key) (rev inp))) @ drop (unat tlen) sig,
          \<lparr>cm_text = None, cm_len = 0, cm_round = 0\<rparr>)"
  using mac_result [OF assms(1-4)] assms(4,5) by (simp add: cleared_def)

lemma cmac_is_rfc4493_witness:
  "aes_cipher_msg_auth_code (\<lambda>k. True) (replicate 16 1) (Some [1, 2, 3]) 3 8 (replicate 8 0) cleared =
    Some (True, drop (16 - unat (8 :: u16)) (bytes128 (AES_CMAC (aes_word (replicate 16 1)) (rev [1, 2, 3]))) @
            drop (unat (8 :: u16)) (replicate 8 0), \<lparr>cm_text = None, cm_len = 0, cm_round = 0\<rparr>)"
  by (rule cmac_is_rfc4493) simp_all

text \<open>
  C37: For a message of at most 4064 bytes the call always returns, with no text kept; it reports success
  exactly when every one of its allocations (the text, the subkeys, one for each block) succeeds, and writes
  the signature then, and leaves the signature unchanged otherwise.  For a message of more than 4064 bytes,
  with memory, the rounds access the text outside its buffer: the counter \<open>i\<close> has 8 bits and never
  exceeds \<open>round\<close>.
\<close>

theorem cmac_failures:
  fixes len' tlen :: u16
  assumes "length key = 16" "length inp = unat len'" "unat tlen \<le> 16"
  shows "(unat len' \<le> 4064 \<longrightarrow>
      (\<exists>ok sig' cb'. aes_cipher_msg_auth_code mem key (Some inp) len' tlen sig cb = Some (ok, sig', cb') \<and> cm_text cb' = None \<and>
         (ok \<longleftrightarrow> (\<forall>k \<le> max 1 ((unat len' + 15) div 16) + 1. mem k)) \<and>
         sig' = (if ok then drop (16 - unat tlen) (bytes128 (AES_CMAC (aes_word key) (rev inp))) @ drop (unat tlen) sig else sig))) \<and>
    (4064 < unat len' \<longrightarrow> aes_cipher_msg_auth_code (\<lambda>k. True) key (Some inp) len' tlen sig cb = None)"
  using mac_result [OF assms(1,2) _ assms(3), of mem sig cb] mac_overrun [OF assms(1,2), of "\<lambda>k. True" tlen sig cb] assms(3)
  by (auto simp: cmac_blocks_def cleared_def)

lemma cmac_failures_witness:
  "(\<exists>cb'. aes_cipher_msg_auth_code (\<lambda>k. k \<noteq> 2) (replicate 16 1) (Some [1, 2, 3]) 3 8 (replicate 8 0) cleared =
      Some (False, replicate 8 0, cb') \<and> cm_text cb' = None) \<and>
   aes_cipher_msg_auth_code (\<lambda>k. True) (replicate 16 1) (Some (replicate 4065 0)) 4065 8 (replicate 8 0) cleared = None"
proof -
  have no: "\<not> (\<forall>k \<le> Suc (Suc 0). k \<noteq> (2 :: nat))" by auto
  show ?thesis
    using cmac_failures [of "replicate 16 1" "[1, 2, 3]" 3 8 "\<lambda>k. k \<noteq> 2" "replicate 8 0" cleared] no
      cmac_failures [of "replicate 16 1" "replicate 4065 0" 4065 8 "\<lambda>k. True" "replicate 8 0" cleared] by auto
qed

end
