(* ===== verification/SmpToolbox.thy ===== *)
theory SmpToolbox
  imports SmpCmacProofs
begin

text \<open>
  The cryptographic functions of LE Secure Connections in \<open>stack/smp/smp_keys.c\<close>: f4, g2, f5, f6 and h6,
  each one AES-CMAC of a concatenation.  As in the code every array has its least significant byte
  first, so that the message is put together from its end.  \<open>mem\<close> answers the allocations of a call and
  \<open>stack\<close> is what the local array \<open>cmac\<close> holds before it is written.
\<close>

unbundle bit_operations_syntax

section \<open>One authentication code\<close>

text \<open>\<open>cmac_cb\<close> is clear between calls (\<open>cmac_is_rfc4493\<close>, \<open>cmac_failures\<close>).\<close>

definition cmac_call :: "(nat \<Rightarrow> bool) \<Rightarrow> bytes \<Rightarrow> bytes \<Rightarrow> bytes \<Rightarrow> bool \<times> bytes" where
  "cmac_call mem stack key msg =
     (case aes_cipher_msg_auth_code mem key (Some msg) (of_nat (length msg)) 16 stack
             \<lparr>cm_text = None, cm_len = 0, cm_round = 0\<rparr> of
        Some (ret, cmac, cb) \<Rightarrow> (ret, take 16 cmac)
      | None \<Rightarrow> (False, take 16 stack))"

section \<open>The functions\<close>

definition smp_calculate_f4 :: "(nat \<Rightarrow> bool) \<Rightarrow> bytes \<Rightarrow> bytes \<Rightarrow> bytes \<Rightarrow> bytes \<Rightarrow> u8 \<Rightarrow> bytes" where
  "smp_calculate_f4 mem stack u v x z = snd (cmac_call mem stack (take 16 x) (z # take 32 v @ take 32 u))"

abbreviation (input) BTM_MAX_PASSKEY_VAL :: u32 where "BTM_MAX_PASSKEY_VAL \<equiv> 999999"

text \<open>The loop that reduces the number.\<close>

function g2_reduce :: "u32 \<Rightarrow> u32" where
  "g2_reduce vres = (if BTM_MAX_PASSKEY_VAL < vres then g2_reduce (vres - (BTM_MAX_PASSKEY_VAL + 1)) else vres)"
  by pat_completeness auto
termination
  by (relation "measure unat") (auto simp: unat_sub word_less_nat_alt word_le_nat_alt)

declare g2_reduce.simps [simp del]

text \<open>\<open>STREAM_TO_UINT32\<close> of the first bytes.\<close>

definition get_u32 :: "bytes \<Rightarrow> u32" where
  "get_u32 p = ucast (p ! 0) + push_bit 8 (ucast (p ! 1)) + push_bit 16 (ucast (p ! 2)) + push_bit 24 (ucast (p ! 3))"

definition smp_calculate_g2 :: "(nat \<Rightarrow> bool) \<Rightarrow> bytes \<Rightarrow> bytes \<Rightarrow> bytes \<Rightarrow> bytes \<Rightarrow> bytes \<Rightarrow> u32" where
  "smp_calculate_g2 mem stack u v x y =
     (let (ok, cmac) = cmac_call mem stack (take 16 x) (take 16 y @ take 32 v @ take 32 u) in
      if \<not> ok then BTM_MAX_PASSKEY_VAL + 1 else g2_reduce (get_u32 cmac))"

definition f5_salt :: bytes where
  "f5_salt = [0xBE, 0x83, 0x60, 0x5A, 0xDB, 0x0B, 0x37, 0x60, 0x38, 0xA5, 0xF5, 0xAA, 0x91, 0x83, 0x88, 0x6C]"

definition smp_calculate_f5_key :: "(nat \<Rightarrow> bool) \<Rightarrow> bytes \<Rightarrow> bytes \<Rightarrow> bool \<times> bytes" where
  "smp_calculate_f5_key mem stack w = cmac_call mem stack (take 16 f5_salt) (take 32 w)"

definition smp_calculate_f5_mackey_or_long_term_key ::
    "(nat \<Rightarrow> bool) \<Rightarrow> bytes \<Rightarrow> bytes \<Rightarrow> bytes \<Rightarrow> bytes \<Rightarrow> bytes \<Rightarrow> bytes \<Rightarrow> bytes \<Rightarrow> bytes \<Rightarrow> bytes \<Rightarrow> bool \<times> bytes" where
  "smp_calculate_f5_mackey_or_long_term_key mem stack t counter key_id n1 n2 a1 a2 len =
     cmac_call mem stack (take 16 t)
       (take 2 len @ take 7 a2 @ take 7 a1 @ take 16 n2 @ take 16 n1 @ take 4 key_id @ take 1 counter)"

text \<open>The three codes are computations of their own; the keys are written as far as the function gets.\<close>

definition smp_calculate_f5 ::
    "(nat \<Rightarrow> nat \<Rightarrow> bool) \<Rightarrow> (nat \<Rightarrow> bytes) \<Rightarrow> bytes \<Rightarrow> bytes \<Rightarrow> bytes \<Rightarrow> bytes \<Rightarrow> bytes \<Rightarrow> bytes \<Rightarrow> bytes \<Rightarrow>
       bool \<times> bytes \<times> bytes" where
  "smp_calculate_f5 mem stack w n1 n2 a1 a2 mac_key ltk =
     (let counter_mac_key = [0]; counter_ltk = [1];
          key_id = [0x65, 0x6c, 0x74, 0x62];
          len = [0x00, 0x01];
          (ok, t) = smp_calculate_f5_key (mem 0) (stack 0) w in
      if \<not> ok then (False, mac_key, ltk)
      else let (ok, mac_key) = smp_calculate_f5_mackey_or_long_term_key (mem 1) (stack 1) t counter_mac_key
                                 key_id n1 n2 a1 a2 len in
           if \<not> ok then (False, mac_key, ltk)
           else let (ok, ltk) = smp_calculate_f5_mackey_or_long_term_key (mem 2) (stack 2) t counter_ltk
                                 key_id n1 n2 a1 a2 len in
                if \<not> ok then (False, mac_key, ltk) else (True, mac_key, ltk))"

definition smp_calculate_f6 ::
    "(nat \<Rightarrow> bool) \<Rightarrow> bytes \<Rightarrow> bytes \<Rightarrow> bytes \<Rightarrow> bytes \<Rightarrow> bytes \<Rightarrow> bytes \<Rightarrow> bytes \<Rightarrow> bytes \<Rightarrow> bool \<times> bytes" where
  "smp_calculate_f6 mem stack w n1 n2 r iocap a1 a2 =
     cmac_call mem stack (take 16 w) (take 7 a2 @ take 7 a1 @ take 3 iocap @ take 16 r @ take 16 n2 @ take 16 n1)"

definition smp_calculate_h6 :: "(nat \<Rightarrow> bool) \<Rightarrow> bytes \<Rightarrow> bytes \<Rightarrow> bytes \<Rightarrow> bool \<times> bytes" where
  "smp_calculate_h6 mem stack w keyid = cmac_call mem stack (take 16 w) (take 4 keyid)"

text \<open>The loop that halves a random passkey, after its top bits were masked off.\<close>

function passkey_truncate :: "u32 \<Rightarrow> u32" where
  "passkey_truncate passkey = (if BTM_MAX_PASSKEY_VAL < passkey then passkey_truncate (drop_bit 1 passkey) else passkey)"
  by pat_completeness auto
termination
  by (relation "measure unat") (auto simp: word_less_nat_alt drop_bit_Suc unat_div_distrib)

declare passkey_truncate.simps [simp del]

section \<open>The functions are those of the specification\<close>

lemma cmac_call_value:
  assumes "length key = 16" "length msg \<le> 4064"
  shows "cmac_call mem stack key msg =
    (if \<forall>k \<le> cmac_blocks (of_nat (length msg)) + 1. mem k
     then (True, bytes128 (AES_CMAC (aes_word key) (rev msg))) else (False, take 16 stack))"
proof -
  have l: "unat (of_nat (length msg) :: u16) = length msg"
    using assms(2) by (simp add: unat_of_nat take_bit_nat_eq_self)
  show ?thesis
    unfolding cmac_call_def using mac_result [of key msg "of_nat (length msg)" 16 mem stack] assms l by simp
qed

lemma cmac_call_ok:
  "length key = 16 \<Longrightarrow> length msg \<le> 4064 \<Longrightarrow> \<forall>k. mem k \<Longrightarrow>
    cmac_call mem stack key msg = (True, bytes128 (AES_CMAC (aes_word key) (rev msg)))"
  by (simp add: cmac_call_value)

lemma unat_g2_reduce: "unat (g2_reduce v) = unat v mod 1000000"
proof (induction v rule: g2_reduce.induct)
  case (1 v)
  show ?case
  proof (cases "BTM_MAX_PASSKEY_VAL < v")
    case True
    then have "1000000 \<le> unat v" by (simp add: word_less_nat_alt)
    moreover from this have "unat (v - 1000000) = unat v - 1000000" by (simp add: unat_sub word_le_nat_alt)
    ultimately show ?thesis
      using 1 True by (subst g2_reduce.simps) (simp add: le_mod_geq)
  next
    case False
    then show ?thesis by (subst g2_reduce.simps) (simp add: word_less_nat_alt)
  qed
qed

lemma unat_passkey_truncate:
  "unat (passkey_truncate v) \<le> 999999 \<and> (unat v < 2000000 \<longrightarrow>
     unat (passkey_truncate v) = (if unat v \<le> 999999 then unat v else unat v div 2))"
proof (induction v rule: passkey_truncate.induct)
  case (1 v)
  show ?case
  proof (cases "BTM_MAX_PASSKEY_VAL < v")
    case True
    then have "1000000 \<le> unat v" by (simp add: word_less_nat_alt)
    then show ?thesis
      using 1 True by (subst (1 2) passkey_truncate.simps) (auto simp add: unat_div_distrib drop_bit_Suc)
  next
    case False
    then show ?thesis by (subst (1 2) passkey_truncate.simps) (simp add: word_less_nat_alt)
  qed
qed

end
