(* ===== verification/SmpSpec.thy ===== *)
theory SmpSpec
  imports SmpToolbox
begin

text \<open>
  The security functions of the Bluetooth Core Specification (volume 3, part H, 2.2.5 to 2.2.10), written
  down as they stand there, most significant byte first, and the functions of \<open>smp_keys.c\<close> compared
  with them.  AES-CMAC is the one of \<open>SmpCmacProofs\<close>, over the cipher of \<open>aes.c\<close>.
\<close>

section \<open>The specification\<close>

definition be_cmac :: "bytes \<Rightarrow> bytes \<Rightarrow> bytes" where
  "be_cmac k m = rev (bytes128 (AES_CMAC (aes_word (rev k)) m))"

definition be_num :: "bytes \<Rightarrow> nat" where
  "be_num bs = foldl (\<lambda>n b. 256 * n + unat b) 0 bs"

definition bt_f4 :: "bytes \<Rightarrow> bytes \<Rightarrow> bytes \<Rightarrow> u8 \<Rightarrow> bytes" where
  "bt_f4 U V X Z = be_cmac X (U @ V @ [Z])"

text \<open>The last 32 bits of the code, as a number of six digits.\<close>

definition bt_g2 :: "bytes \<Rightarrow> bytes \<Rightarrow> bytes \<Rightarrow> bytes \<Rightarrow> nat" where
  "bt_g2 U V X Y = be_num (drop 12 (be_cmac X (U @ V @ Y))) mod 10 ^ 6"

definition bt_SALT :: bytes where
  "bt_SALT = [0x6C, 0x88, 0x83, 0x91, 0xAA, 0xF5, 0xA5, 0x38, 0x60, 0x37, 0x0B, 0xDB, 0x5A, 0x60, 0x83, 0xBE]"

text \<open>\<open>keyID\<close> is \<open>btle\<close> and \<open>Length\<close> is 256.\<close>

definition bt_f5 :: "u8 \<Rightarrow> bytes \<Rightarrow> bytes \<Rightarrow> bytes \<Rightarrow> bytes \<Rightarrow> bytes \<Rightarrow> bytes" where
  "bt_f5 counter W N1 N2 A1 A2 =
     be_cmac (be_cmac bt_SALT W) ([counter] @ [0x62, 0x74, 0x6C, 0x65] @ N1 @ N2 @ A1 @ A2 @ [1, 0])"

definition bt_f6 :: "bytes \<Rightarrow> bytes \<Rightarrow> bytes \<Rightarrow> bytes \<Rightarrow> bytes \<Rightarrow> bytes \<Rightarrow> bytes \<Rightarrow> bytes" where
  "bt_f6 W N1 N2 R IOcap A1 A2 = be_cmac W (N1 @ N2 @ R @ IOcap @ A1 @ A2)"

definition bt_h6 :: "bytes \<Rightarrow> bytes \<Rightarrow> bytes" where
  "bt_h6 W keyID = be_cmac W keyID"

section \<open>The code\<close>

lemma length_bytes128' [simp]: "length (be_cmac k m) = 16"
  by (simp add: be_cmac_def bytes128_def)

lemma cmac_call_be:
  "length key = 16 \<Longrightarrow> length msg \<le> 4064 \<Longrightarrow> \<forall>k. mem k \<Longrightarrow>
    cmac_call mem stack key msg = (True, rev (be_cmac (rev key) (rev msg)))"
  by (simp add: cmac_call_ok be_cmac_def)

lemma f4_spec:
  assumes "length U = 32" "length V = 32" "length X = 16" "\<forall>k. mem k"
  shows "smp_calculate_f4 mem stack (rev U) (rev V) (rev X) Z = rev (bt_f4 U V X Z)"
  using assms by (simp add: smp_calculate_f4_def bt_f4_def cmac_call_be)

lemma unat_byte_u32: "unat (ucast x :: u32) = unat x" for x :: u8
  using u8_lt [of x] by (simp add: unsigned_ucast_eq take_bit_nat_eq_self)

lemma unat_shifted_byte:
  fixes x :: u8
  assumes "k \<le> 24"
  shows "unat (push_bit k (ucast x :: u32)) = unat x * 2 ^ k"
proof -
  have "unat x * 2 ^ k < 256 * 2 ^ k" using u8_lt [of x] by simp
  also have "\<dots> \<le> 256 * 2 ^ 24" using assms power_increasing [of k 24 "2 :: nat"] by simp
  finally have lt: "unat x * 2 ^ k < 2 ^ 32" by simp
  have "unat (push_bit k (ucast x :: u32)) = take_bit 32 (unat x * 2 ^ k)"
    by (simp add: unsigned_push_bit_eq unat_byte_u32 flip: push_bit_eq_mult)
  then show ?thesis using take_bit_nat_eq_self [OF lt] by simp
qed

lemma unat_get_u32:
  assumes "length p = 4"
  shows "unat (get_u32 (rev p)) = be_num p"
proof -
  obtain a b c d where p: "p = [a, b, c, d]" using assms by (auto simp: length_Suc_conv numeral_eq_Suc)
  have "unat (get_u32 (rev p)) = unat d + unat c * 2 ^ 8 + unat b * 2 ^ 16 + unat a * 2 ^ 24"
    using unat_shifted_byte [of 8 c] unat_shifted_byte [of 16 b] unat_shifted_byte [of 24 a] u8_lt [of a] u8_lt [of b] u8_lt [of c] u8_lt [of d]
    by (simp add: get_u32_def p unat_word_ariths unat_byte_u32)
  then show ?thesis by (simp add: be_num_def p)
qed

lemma get_u32_take: "4 \<le> length p \<Longrightarrow> get_u32 (take 4 p) = get_u32 p"
  by (simp add: get_u32_def)

lemma g2_spec:
  assumes "length U = 32" "length V = 32" "length X = 16" "length Y = 16" "\<forall>k. mem k"
  shows "unat (smp_calculate_g2 mem stack (rev U) (rev V) (rev X) (rev Y)) = bt_g2 U V X Y"
proof -
  let ?c = "be_cmac X (U @ V @ Y)"
  have "unat (get_u32 (rev ?c)) = be_num (drop 12 ?c)"
    using unat_get_u32 [of "drop 12 ?c"] get_u32_take [of "rev ?c"] by (simp add: rev_drop)
  then show ?thesis
    using assms by (simp add: smp_calculate_g2_def bt_g2_def cmac_call_be unat_g2_reduce)
qed

lemma f5_spec:
  assumes "length W = 32" "length N1 = 16" "length N2 = 16" "length A1 = 7" "length A2 = 7" "\<forall>j k. mem j k"
  shows "smp_calculate_f5 mem stack (rev W) (rev N1) (rev N2) (rev A1) (rev A2) mk lk =
    (True, rev (bt_f5 0 W N1 N2 A1 A2), rev (bt_f5 1 W N1 N2 A1 A2))"
proof -
  have s: "rev f5_salt = bt_SALT" "length f5_salt = 16" by (simp_all add: f5_salt_def bt_SALT_def)
  have t: "smp_calculate_f5_key (mem 0) (stack 0) (rev W) = (True, rev (be_cmac bt_SALT W))"
    using assms s by (simp add: smp_calculate_f5_key_def cmac_call_be)
  show ?thesis
    unfolding smp_calculate_f5_def t Let_def
    using assms by (simp add: smp_calculate_f5_mackey_or_long_term_key_def cmac_call_be bt_f5_def)
qed

lemma f6_spec:
  assumes "length W = 16" "length N1 = 16" "length N2 = 16" "length R = 16" "length IO = 3" "length A1 = 7" "length A2 = 7" "\<forall>k. mem k"
  shows "smp_calculate_f6 mem stack (rev W) (rev N1) (rev N2) (rev R) (rev IO) (rev A1) (rev A2) =
    (True, rev (bt_f6 W N1 N2 R IO A1 A2))"
  using assms by (simp add: smp_calculate_f6_def bt_f6_def cmac_call_be)

lemma h6_spec:
  assumes "length W = 16" "length K = 4" "\<forall>k. mem k"
  shows "smp_calculate_h6 mem stack (rev W) (rev K) = (True, rev (bt_h6 W K))"
  using assms by (simp add: smp_calculate_h6_def bt_h6_def cmac_call_be)

section \<open>Property\<close>

text \<open>
  C18: With memory, the functions f4, g2, f5, f6 and h6 of the code, on arrays with the least significant
  byte first, are the functions of the specification: f4 and h6 are one code, g2 its last four bytes modulo
  a million, f5 the MacKey and the LTK under the key made from the DHKey, f6 the check value
  under the MacKey \<open>W\<close> of the two nonces, the value \<open>R\<close> of the other side, the capabilities and the addresses.
\<close>
theorem toolbox_is_spec:
  assumes "length U = 32" "length V = 32" "length W = 16" "length X = 16" "length Y = 16" "length R = 16"
    "length IO = 3" "length A1 = 7" "length A2 = 7" "length K = 4" "\<forall>j k. mem j k"
  shows "smp_calculate_f4 (mem 0) st (rev U) (rev V) (rev X) Z = rev (bt_f4 U V X Z) \<and>
    unat (smp_calculate_g2 (mem 0) st (rev U) (rev V) (rev X) (rev Y)) = bt_g2 U V X Y \<and>
    smp_calculate_f5 mem stack (rev U) (rev X) (rev Y) (rev A1) (rev A2) mk lk =
      (True, rev (bt_f5 0 U X Y A1 A2), rev (bt_f5 1 U X Y A1 A2)) \<and>
    smp_calculate_f6 (mem 0) st (rev W) (rev X) (rev Y) (rev R) (rev IO) (rev A1) (rev A2) =
      (True, rev (bt_f6 W X Y R IO A1 A2)) \<and>
    smp_calculate_h6 (mem 0) st (rev W) (rev K) = (True, rev (bt_h6 W K))"
  using assms by (simp add: f4_spec g2_spec f5_spec f6_spec h6_spec)

lemma toolbox_is_spec_witness:
  "smp_calculate_h6 (\<lambda>k. True) (replicate 16 7) (rev (replicate 16 9)) (rev [0x74, 0x6D, 0x70, 0x31]) =
     (True, rev (bt_h6 (replicate 16 9) [0x74, 0x6D, 0x70, 0x31])) \<and>
   smp_calculate_f6 (\<lambda>k. True) (replicate 16 7) (rev (replicate 16 9)) (rev (replicate 16 4)) (rev (replicate 16 5))
       (rev (replicate 16 6)) (rev [1, 2, 3]) (rev (replicate 7 1)) (rev (replicate 7 2)) =
     (True, rev (bt_f6 (replicate 16 9) (replicate 16 4) (replicate 16 5) (replicate 16 6) [1, 2, 3] (replicate 7 1) (replicate 7 2)))"
  using toolbox_is_spec [of "replicate 32 1" "replicate 32 2" "replicate 16 9" "replicate 16 4" "replicate 16 5" "replicate 16 6"
      "[1, 2, 3]" "replicate 7 1" "replicate 7 2" "[0x74, 0x6D, 0x70, 0x31]" "\<lambda>j k. True"] by simp

end
