(* ===== verification/SmpMain.thy ===== *)
theory SmpMain
  imports Prelude
begin

text \<open>
  The state machine of the LE security manager, \<open>stack/smp/smp_main.c\<close>: its constants, its transition
  tables and its driver \<open>smp_sm_event\<close>.  A table is a list of rows, a row the two action codes and the
  next state, a map of entries the list of its rows by event; every access of the driver is a
  bounded read, so that an access outside a table, or through the table a state does not have, is
  the outcome \<open>None\<close>.  The action functions of \<open>smp_act.c\<close> are a parameter of the driver: what is
  stated of it holds whatever they do.
\<close>

unbundle bit_operations_syntax

section \<open>States, events and action codes\<close>

abbreviation (input) SMP_STATE_IDLE :: u8 where "SMP_STATE_IDLE \<equiv> 0"
abbreviation (input) SMP_STATE_WAIT_APP_RSP :: u8 where "SMP_STATE_WAIT_APP_RSP \<equiv> 1"
abbreviation (input) SMP_STATE_SEC_REQ_PENDING :: u8 where "SMP_STATE_SEC_REQ_PENDING \<equiv> 2"
abbreviation (input) SMP_STATE_PAIR_REQ_RSP :: u8 where "SMP_STATE_PAIR_REQ_RSP \<equiv> 3"
abbreviation (input) SMP_STATE_WAIT_CONFIRM :: u8 where "SMP_STATE_WAIT_CONFIRM \<equiv> 4"
abbreviation (input) SMP_STATE_CONFIRM :: u8 where "SMP_STATE_CONFIRM \<equiv> 5"
abbreviation (input) SMP_STATE_RAND :: u8 where "SMP_STATE_RAND \<equiv> 6"
abbreviation (input) SMP_STATE_PUBLIC_KEY_EXCH :: u8 where "SMP_STATE_PUBLIC_KEY_EXCH \<equiv> 7"
abbreviation (input) SMP_STATE_SEC_CONN_PHS1_START :: u8 where "SMP_STATE_SEC_CONN_PHS1_START \<equiv> 8"
abbreviation (input) SMP_STATE_WAIT_COMMITMENT :: u8 where "SMP_STATE_WAIT_COMMITMENT \<equiv> 9"
abbreviation (input) SMP_STATE_WAIT_NONCE :: u8 where "SMP_STATE_WAIT_NONCE \<equiv> 10"
abbreviation (input) SMP_STATE_SEC_CONN_PHS2_START :: u8 where "SMP_STATE_SEC_CONN_PHS2_START \<equiv> 11"
abbreviation (input) SMP_STATE_WAIT_DHK_CHECK :: u8 where "SMP_STATE_WAIT_DHK_CHECK \<equiv> 12"
abbreviation (input) SMP_STATE_DHK_CHECK :: u8 where "SMP_STATE_DHK_CHECK \<equiv> 13"
abbreviation (input) SMP_STATE_ENCRYPTION_PENDING :: u8 where "SMP_STATE_ENCRYPTION_PENDING \<equiv> 14"
abbreviation (input) SMP_STATE_BOND_PENDING :: u8 where "SMP_STATE_BOND_PENDING \<equiv> 15"
abbreviation (input) SMP_STATE_CREATE_LOCAL_SEC_CONN_OOB_DATA :: u8 where "SMP_STATE_CREATE_LOCAL_SEC_CONN_OOB_DATA \<equiv> 16"
abbreviation (input) SMP_STATE_MAX :: u8 where "SMP_STATE_MAX \<equiv> 17"

abbreviation (input) SMP_PAIRING_REQ_EVT :: u8 where "SMP_PAIRING_REQ_EVT \<equiv> 1"
abbreviation (input) SMP_PAIRING_RSP_EVT :: u8 where "SMP_PAIRING_RSP_EVT \<equiv> 2"
abbreviation (input) SMP_CONFIRM_EVT :: u8 where "SMP_CONFIRM_EVT \<equiv> 3"
abbreviation (input) SMP_RAND_EVT :: u8 where "SMP_RAND_EVT \<equiv> 4"
abbreviation (input) SMP_PAIRING_FAILED_EVT :: u8 where "SMP_PAIRING_FAILED_EVT \<equiv> 5"
abbreviation (input) SMP_ENCRPTION_INFO_EVT :: u8 where "SMP_ENCRPTION_INFO_EVT \<equiv> 6"
abbreviation (input) SMP_MASTER_ID_EVT :: u8 where "SMP_MASTER_ID_EVT \<equiv> 7"
abbreviation (input) SMP_ID_INFO_EVT :: u8 where "SMP_ID_INFO_EVT \<equiv> 8"
abbreviation (input) SMP_ID_ADDR_EVT :: u8 where "SMP_ID_ADDR_EVT \<equiv> 9"
abbreviation (input) SMP_SIGN_INFO_EVT :: u8 where "SMP_SIGN_INFO_EVT \<equiv> 10"
abbreviation (input) SMP_SECURITY_REQ_EVT :: u8 where "SMP_SECURITY_REQ_EVT \<equiv> 11"
abbreviation (input) SMP_PAIR_PUBLIC_KEY_EVT :: u8 where "SMP_PAIR_PUBLIC_KEY_EVT \<equiv> 12"
abbreviation (input) SMP_PAIR_KEYPRESS_NOTIFICATION_EVT :: u8 where "SMP_PAIR_KEYPRESS_NOTIFICATION_EVT \<equiv> 14"
abbreviation (input) SMP_PAIR_COMMITM_EVT :: u8 where "SMP_PAIR_COMMITM_EVT \<equiv> 15"
abbreviation (input) SMP_KEY_READY_EVT :: u8 where "SMP_KEY_READY_EVT \<equiv> 16"
abbreviation (input) SMP_ENCRYPTED_EVT :: u8 where "SMP_ENCRYPTED_EVT \<equiv> 17"
abbreviation (input) SMP_L2CAP_CONN_EVT :: u8 where "SMP_L2CAP_CONN_EVT \<equiv> 18"
abbreviation (input) SMP_L2CAP_DISCONN_EVT :: u8 where "SMP_L2CAP_DISCONN_EVT \<equiv> 19"
abbreviation (input) SMP_IO_RSP_EVT :: u8 where "SMP_IO_RSP_EVT \<equiv> 20"
abbreviation (input) SMP_API_SEC_GRANT_EVT :: u8 where "SMP_API_SEC_GRANT_EVT \<equiv> 21"
abbreviation (input) SMP_TK_REQ_EVT :: u8 where "SMP_TK_REQ_EVT \<equiv> 22"
abbreviation (input) SMP_AUTH_CMPL_EVT :: u8 where "SMP_AUTH_CMPL_EVT \<equiv> 23"
abbreviation (input) SMP_ENC_REQ_EVT :: u8 where "SMP_ENC_REQ_EVT \<equiv> 24"
abbreviation (input) SMP_BOND_REQ_EVT :: u8 where "SMP_BOND_REQ_EVT \<equiv> 25"
abbreviation (input) SMP_DISCARD_SEC_REQ_EVT :: u8 where "SMP_DISCARD_SEC_REQ_EVT \<equiv> 26"
abbreviation (input) SMP_PAIR_DHKEY_CHCK_EVT :: u8 where "SMP_PAIR_DHKEY_CHCK_EVT \<equiv> 13"
abbreviation (input) SMP_PUBL_KEY_EXCH_REQ_EVT :: u8 where "SMP_PUBL_KEY_EXCH_REQ_EVT \<equiv> 27"
abbreviation (input) SMP_LOC_PUBL_KEY_CRTD_EVT :: u8 where "SMP_LOC_PUBL_KEY_CRTD_EVT \<equiv> 28"
abbreviation (input) SMP_BOTH_PUBL_KEYS_RCVD_EVT :: u8 where "SMP_BOTH_PUBL_KEYS_RCVD_EVT \<equiv> 29"
abbreviation (input) SMP_SC_DHKEY_CMPLT_EVT :: u8 where "SMP_SC_DHKEY_CMPLT_EVT \<equiv> 30"
abbreviation (input) SMP_HAVE_LOC_NONCE_EVT :: u8 where "SMP_HAVE_LOC_NONCE_EVT \<equiv> 31"
abbreviation (input) SMP_SC_PHASE1_CMPLT_EVT :: u8 where "SMP_SC_PHASE1_CMPLT_EVT \<equiv> 32"
abbreviation (input) SMP_SC_CALC_NC_EVT :: u8 where "SMP_SC_CALC_NC_EVT \<equiv> 33"
abbreviation (input) SMP_SC_DSPL_NC_EVT :: u8 where "SMP_SC_DSPL_NC_EVT \<equiv> 34"
abbreviation (input) SMP_SC_NC_OK_EVT :: u8 where "SMP_SC_NC_OK_EVT \<equiv> 35"
abbreviation (input) SMP_SC_2_DHCK_CHKS_PRES_EVT :: u8 where "SMP_SC_2_DHCK_CHKS_PRES_EVT \<equiv> 36"
abbreviation (input) SMP_SC_KEY_READY_EVT :: u8 where "SMP_SC_KEY_READY_EVT \<equiv> 37"
abbreviation (input) SMP_KEYPRESS_NOTIFICATION_EVENT :: u8 where "SMP_KEYPRESS_NOTIFICATION_EVENT \<equiv> 38"
abbreviation (input) SMP_SC_OOB_DATA_EVT :: u8 where "SMP_SC_OOB_DATA_EVT \<equiv> 39"
abbreviation (input) SMP_CR_LOC_SC_OOB_DATA_EVT :: u8 where "SMP_CR_LOC_SC_OOB_DATA_EVT \<equiv> 40"
abbreviation (input) SMP_MAX_EVT :: u8 where "SMP_MAX_EVT \<equiv> 40"

abbreviation (input) SMP_PROC_SEC_REQ :: u8 where "SMP_PROC_SEC_REQ \<equiv> 0"
abbreviation (input) SMP_SEND_PAIR_REQ :: u8 where "SMP_SEND_PAIR_REQ \<equiv> 1"
abbreviation (input) SMP_SEND_PAIR_RSP :: u8 where "SMP_SEND_PAIR_RSP \<equiv> 2"
abbreviation (input) SMP_SEND_CONFIRM :: u8 where "SMP_SEND_CONFIRM \<equiv> 3"
abbreviation (input) SMP_SEND_PAIR_FAIL :: u8 where "SMP_SEND_PAIR_FAIL \<equiv> 4"
abbreviation (input) SMP_SEND_RAND :: u8 where "SMP_SEND_RAND \<equiv> 5"
abbreviation (input) SMP_SEND_ENC_INFO :: u8 where "SMP_SEND_ENC_INFO \<equiv> 6"
abbreviation (input) SMP_SEND_ID_INFO :: u8 where "SMP_SEND_ID_INFO \<equiv> 7"
abbreviation (input) SMP_SEND_LTK_REPLY :: u8 where "SMP_SEND_LTK_REPLY \<equiv> 8"
abbreviation (input) SMP_PROC_PAIR_CMD :: u8 where "SMP_PROC_PAIR_CMD \<equiv> 9"
abbreviation (input) SMP_PROC_PAIR_FAIL :: u8 where "SMP_PROC_PAIR_FAIL \<equiv> 10"
abbreviation (input) SMP_PROC_CONFIRM :: u8 where "SMP_PROC_CONFIRM \<equiv> 11"
abbreviation (input) SMP_PROC_RAND :: u8 where "SMP_PROC_RAND \<equiv> 12"
abbreviation (input) SMP_PROC_ENC_INFO :: u8 where "SMP_PROC_ENC_INFO \<equiv> 13"
abbreviation (input) SMP_PROC_MASTER_ID :: u8 where "SMP_PROC_MASTER_ID \<equiv> 14"
abbreviation (input) SMP_PROC_ID_INFO :: u8 where "SMP_PROC_ID_INFO \<equiv> 15"
abbreviation (input) SMP_PROC_ID_ADDR :: u8 where "SMP_PROC_ID_ADDR \<equiv> 16"
abbreviation (input) SMP_PROC_SRK_INFO :: u8 where "SMP_PROC_SRK_INFO \<equiv> 17"
abbreviation (input) SMP_PROC_SEC_GRANT :: u8 where "SMP_PROC_SEC_GRANT \<equiv> 18"
abbreviation (input) SMP_PROC_SL_KEY :: u8 where "SMP_PROC_SL_KEY \<equiv> 19"
abbreviation (input) SMP_PROC_COMPARE :: u8 where "SMP_PROC_COMPARE \<equiv> 20"
abbreviation (input) SMP_PROC_IO_RSP :: u8 where "SMP_PROC_IO_RSP \<equiv> 21"
abbreviation (input) SMP_GENERATE_COMPARE :: u8 where "SMP_GENERATE_COMPARE \<equiv> 22"
abbreviation (input) SMP_GENERATE_CONFIRM :: u8 where "SMP_GENERATE_CONFIRM \<equiv> 23"
abbreviation (input) SMP_GENERATE_STK :: u8 where "SMP_GENERATE_STK \<equiv> 24"
abbreviation (input) SMP_KEY_DISTRIBUTE :: u8 where "SMP_KEY_DISTRIBUTE \<equiv> 25"
abbreviation (input) SMP_START_ENC :: u8 where "SMP_START_ENC \<equiv> 26"
abbreviation (input) SMP_PAIRING_CMPL :: u8 where "SMP_PAIRING_CMPL \<equiv> 27"
abbreviation (input) SMP_DECIDE_ASSO_MODEL :: u8 where "SMP_DECIDE_ASSO_MODEL \<equiv> 28"
abbreviation (input) SMP_SEND_APP_CBACK :: u8 where "SMP_SEND_APP_CBACK \<equiv> 29"
abbreviation (input) SMP_CHECK_AUTH_REQ :: u8 where "SMP_CHECK_AUTH_REQ \<equiv> 30"
abbreviation (input) SMP_PAIR_TERMINATE :: u8 where "SMP_PAIR_TERMINATE \<equiv> 31"
abbreviation (input) SMP_ENC_CMPL :: u8 where "SMP_ENC_CMPL \<equiv> 32"
abbreviation (input) SMP_PROC_DISCARD :: u8 where "SMP_PROC_DISCARD \<equiv> 33"
abbreviation (input) SMP_CREATE_PRIVATE_KEY :: u8 where "SMP_CREATE_PRIVATE_KEY \<equiv> 34"
abbreviation (input) SMP_USE_OOB_PRIVATE_KEY :: u8 where "SMP_USE_OOB_PRIVATE_KEY \<equiv> 35"
abbreviation (input) SMP_SEND_PAIR_PUBLIC_KEY :: u8 where "SMP_SEND_PAIR_PUBLIC_KEY \<equiv> 36"
abbreviation (input) SMP_PROCESS_PAIR_PUBLIC_KEY :: u8 where "SMP_PROCESS_PAIR_PUBLIC_KEY \<equiv> 37"
abbreviation (input) SMP_HAVE_BOTH_PUBLIC_KEYS :: u8 where "SMP_HAVE_BOTH_PUBLIC_KEYS \<equiv> 38"
abbreviation (input) SMP_START_SEC_CONN_PHASE1 :: u8 where "SMP_START_SEC_CONN_PHASE1 \<equiv> 39"
abbreviation (input) SMP_PROCESS_LOCAL_NONCE :: u8 where "SMP_PROCESS_LOCAL_NONCE \<equiv> 40"
abbreviation (input) SMP_SEND_COMMITMENT :: u8 where "SMP_SEND_COMMITMENT \<equiv> 41"
abbreviation (input) SMP_PROCESS_PAIRING_COMMITMENT :: u8 where "SMP_PROCESS_PAIRING_COMMITMENT \<equiv> 42"
abbreviation (input) SMP_PROCESS_PEER_NONCE :: u8 where "SMP_PROCESS_PEER_NONCE \<equiv> 43"
abbreviation (input) SMP_CALCULATE_LOCAL_DHKEY_CHECK :: u8 where "SMP_CALCULATE_LOCAL_DHKEY_CHECK \<equiv> 44"
abbreviation (input) SMP_SEND_DHKEY_CHECK :: u8 where "SMP_SEND_DHKEY_CHECK \<equiv> 45"
abbreviation (input) SMP_PROCESS_DHKEY_CHECK :: u8 where "SMP_PROCESS_DHKEY_CHECK \<equiv> 46"
abbreviation (input) SMP_CALCULATE_PEER_DHKEY_CHECK :: u8 where "SMP_CALCULATE_PEER_DHKEY_CHECK \<equiv> 47"
abbreviation (input) SMP_MATCH_DHKEY_CHECKS :: u8 where "SMP_MATCH_DHKEY_CHECKS \<equiv> 48"
abbreviation (input) SMP_CALCULATE_NUMERIC_COMPARISON_DISPLAY_NUMBER :: u8 where "SMP_CALCULATE_NUMERIC_COMPARISON_DISPLAY_NUMBER \<equiv> 49"
abbreviation (input) SMP_MOVE_TO_SEC_CONN_PHASE2 :: u8 where "SMP_MOVE_TO_SEC_CONN_PHASE2 \<equiv> 50"
abbreviation (input) SMP_PH2_DHKEY_CHECKS_ARE_PRESENT :: u8 where "SMP_PH2_DHKEY_CHECKS_ARE_PRESENT \<equiv> 51"
abbreviation (input) SMP_WAIT_FOR_BOTH_PUBLIC_KEYS :: u8 where "SMP_WAIT_FOR_BOTH_PUBLIC_KEYS \<equiv> 52"
abbreviation (input) SMP_START_PASSKEY_VERIFICATION :: u8 where "SMP_START_PASSKEY_VERIFICATION \<equiv> 53"
abbreviation (input) SMP_SEND_KEYPRESS_NOTIFICATION :: u8 where "SMP_SEND_KEYPRESS_NOTIFICATION \<equiv> 54"
abbreviation (input) SMP_PROCESS_KEYPRESS_NOTIFICATION :: u8 where "SMP_PROCESS_KEYPRESS_NOTIFICATION \<equiv> 55"
abbreviation (input) SMP_PROCESS_SECURE_CONNECTION_OOB_DATA :: u8 where "SMP_PROCESS_SECURE_CONNECTION_OOB_DATA \<equiv> 56"
abbreviation (input) SMP_SET_LOCAL_OOB_KEYS :: u8 where "SMP_SET_LOCAL_OOB_KEYS \<equiv> 57"
abbreviation (input) SMP_SET_LOCAL_OOB_RAND_COMMITMENT :: u8 where "SMP_SET_LOCAL_OOB_RAND_COMMITMENT \<equiv> 58"
abbreviation (input) SMP_IDLE_TERMINATE :: u8 where "SMP_IDLE_TERMINATE \<equiv> 59"
abbreviation (input) SMP_FAST_CONN_PARAM :: u8 where "SMP_FAST_CONN_PARAM \<equiv> 60"
abbreviation (input) SMP_SM_NO_ACTION :: u8 where "SMP_SM_NO_ACTION \<equiv> 61"

text \<open>
  The action functions, those of \<open>smp_sm_action\<close> first and then the ones only the table of the
  BR/EDR machine points to.
\<close>

datatype smp_act =
    smp_proc_sec_req | smp_send_pair_req | smp_send_pair_rsp | smp_send_confirm |
    smp_send_pair_fail | smp_send_rand | smp_send_enc_info | smp_send_id_info |
    smp_send_ltk_reply | smp_proc_pair_cmd | smp_proc_pair_fail | smp_proc_confirm |
    smp_proc_rand | smp_proc_enc_info | smp_proc_master_id | smp_proc_id_info |
    smp_proc_id_addr | smp_proc_srk_info | smp_proc_sec_grant | smp_proc_sl_key |
    smp_proc_compare | smp_process_io_response | smp_generate_compare |
    smp_generate_srand_mrand_confirm | smp_generate_stk | smp_key_distribution |
    smp_start_enc | smp_pairing_cmpl | smp_decide_association_model | smp_send_app_cback |
    smp_check_auth_req | smp_pair_terminate | smp_enc_cmpl | smp_proc_discard |
    smp_create_private_key | smp_use_oob_private_key | smp_send_pair_public_key |
    smp_process_pairing_public_key | smp_both_have_public_keys |
    smp_start_secure_connection_phase1 | smp_process_local_nonce | smp_send_commitment |
    smp_process_pairing_commitment | smp_process_peer_nonce | smp_calculate_local_dhkey_check |
    smp_send_dhkey_check | smp_process_dhkey_check | smp_calculate_peer_dhkey_check |
    smp_match_dhkey_checks | smp_calculate_numeric_comparison_display_number |
    smp_move_to_secure_connections_phase2 | smp_phase_2_dhkey_checks_are_present |
    smp_wait_for_both_public_keys | smp_start_passkey_verification |
    smp_send_keypress_notification | smp_process_keypress_notification |
    smp_process_secure_connection_oob_data | smp_set_local_oob_keys |
    smp_set_local_oob_random_commitment | smp_idle_terminate | smp_fast_conn_param |
    smp_br_send_pair_response | smp_br_process_pairing_command |
    smp_br_process_security_grant | smp_br_process_slave_keys_response |
    smp_br_select_next_key | smp_br_pairing_complete | smp_br_check_authorization_request

definition smp_sm_action :: "smp_act list" where
  "smp_sm_action = [
    smp_proc_sec_req, smp_send_pair_req, smp_send_pair_rsp, smp_send_confirm,
    smp_send_pair_fail, smp_send_rand, smp_send_enc_info, smp_send_id_info, smp_send_ltk_reply,
    smp_proc_pair_cmd, smp_proc_pair_fail, smp_proc_confirm, smp_proc_rand, smp_proc_enc_info,
    smp_proc_master_id, smp_proc_id_info, smp_proc_id_addr, smp_proc_srk_info,
    smp_proc_sec_grant, smp_proc_sl_key, smp_proc_compare, smp_process_io_response,
    smp_generate_compare, smp_generate_srand_mrand_confirm, smp_generate_stk,
    smp_key_distribution, smp_start_enc, smp_pairing_cmpl, smp_decide_association_model,
    smp_send_app_cback, smp_check_auth_req, smp_pair_terminate, smp_enc_cmpl, smp_proc_discard,
    smp_create_private_key, smp_use_oob_private_key, smp_send_pair_public_key,
    smp_process_pairing_public_key, smp_both_have_public_keys,
    smp_start_secure_connection_phase1, smp_process_local_nonce, smp_send_commitment,
    smp_process_pairing_commitment, smp_process_peer_nonce, smp_calculate_local_dhkey_check,
    smp_send_dhkey_check, smp_process_dhkey_check, smp_calculate_peer_dhkey_check,
    smp_match_dhkey_checks, smp_calculate_numeric_comparison_display_number,
    smp_move_to_secure_connections_phase2, smp_phase_2_dhkey_checks_are_present,
    smp_wait_for_both_public_keys, smp_start_passkey_verification,
    smp_send_keypress_notification, smp_process_keypress_notification,
    smp_process_secure_connection_oob_data, smp_set_local_oob_keys,
    smp_set_local_oob_random_commitment, smp_idle_terminate, smp_fast_conn_param]"

definition smp_state_name :: "string list" where
  "smp_state_name = [
    ''SMP_STATE_IDLE'', ''SMP_STATE_WAIT_APP_RSP'', ''SMP_STATE_SEC_REQ_PENDING'',
    ''SMP_STATE_PAIR_REQ_RSP'', ''SMP_STATE_WAIT_CONFIRM'', ''SMP_STATE_CONFIRM'',
    ''SMP_STATE_RAND'', ''SMP_STATE_PUBLIC_KEY_EXCH'', ''SMP_STATE_SEC_CONN_PHS1_START'',
    ''SMP_STATE_WAIT_COMMITMENT'', ''SMP_STATE_WAIT_NONCE'', ''SMP_STATE_SEC_CONN_PHS2_START'',
    ''SMP_STATE_WAIT_DHK_CHECK'', ''SMP_STATE_DHK_CHECK'', ''SMP_STATE_ENCRYPTION_PENDING'',
    ''SMP_STATE_BOND_PENDING'', ''SMP_STATE_CREATE_LOCAL_SEC_CONN_OOB_DATA'', ''SMP_STATE_MAX'']"

definition smp_event_name :: "string list" where
  "smp_event_name = [
    ''PAIRING_REQ_EVT'', ''PAIRING_RSP_EVT'', ''CONFIRM_EVT'', ''RAND_EVT'',
    ''PAIRING_FAILED_EVT'', ''ENC_INFO_EVT'', ''MASTER_ID_EVT'', ''ID_INFO_EVT'',
    ''ID_ADDR_EVT'', ''SIGN_INFO_EVT'', ''SECURITY_REQ_EVT'', ''PAIR_PUBLIC_KEY_EVT'',
    ''PAIR_DHKEY_CHECK_EVT'', ''PAIR_KEYPRESS_NOTIFICATION_EVT'', ''PAIR_COMMITMENT_EVT'',
    ''KEY_READY_EVT'', ''ENCRYPTED_EVT'', ''L2CAP_CONN_EVT'', ''L2CAP_DISCONN_EVT'',
    ''API_IO_RSP_EVT'', ''API_SEC_GRANT_EVT'', ''TK_REQ_EVT'', ''AUTH_CMPL_EVT'',
    ''ENC_REQ_EVT'', ''BOND_REQ_EVT'', ''DISCARD_SEC_REQ_EVT'',
    ''PUBLIC_KEY_EXCHANGE_REQ_EVT'', ''LOCAL_PUBLIC_KEY_CRTD_EVT'',
    ''BOTH_PUBLIC_KEYS_RCVD_EVT'', ''SEC_CONN_DHKEY_COMPLETE_EVT'', ''HAVE_LOCAL_NONCE_EVT'',
    ''SEC_CONN_PHASE1_CMPLT_EVT'', ''SEC_CONN_CALC_NC_EVT'', ''SEC_CONN_DISPLAY_NC_EVT'',
    ''SEC_CONN_OK_EVT'', ''SEC_CONN_2_DHCK_CHECKS_PRESENT_EVT'', ''SEC_CONN_KEY_READY_EVT'',
    ''KEYPRESS_NOTIFICATION_EVT'', ''SEC_CONN_OOB_DATA_EVT'',
    ''CREATE_LOCAL_SEC_CONN_OOB_DATA_EVT'', ''OUT_OF_RANGE_EVT'']"

section \<open>Transition tables\<close>

type_synonym smp_sm_tbl = "u8 list list"

text \<open>
  An entry of a map is 0 for an event to ignore, the number of a row of the state's table counted
  from 1, or with the top bit set the number of a row of the table common to all states.
\<close>

definition smp_master_entry_map :: "u8 list list" where
  "smp_master_entry_map = [
    [0, 0, 0, 0, 0, 0, 0, 0, 0, 0, 0, 0, 0, 0, 0, 0, 0],
    [0, 0, 0, 1, 0, 0, 0, 0, 0, 0, 0, 0, 0, 0, 0, 0, 0],
    [0, 0, 0, 0, 0, 1, 0, 0, 0, 0, 0, 0, 0, 0, 0, 0, 0],
    [0, 0, 0, 0, 0, 0, 1, 0, 0, 0, 1, 0, 0, 0, 0, 0, 0],
    [0, 0x81, 0, 0x81, 0x81, 0x81, 0x81, 0x81, 0x81, 0x81, 0x81, 0x81, 0x81, 0x81, 0, 0x81, 0],
    [0, 0, 0, 0, 0, 0, 0, 0, 0, 0, 0, 0, 0, 0, 0, 1, 0],
    [0, 0, 0, 0, 0, 0, 0, 0, 0, 0, 0, 0, 0, 0, 0, 4, 0],
    [0, 0, 0, 0, 0, 0, 0, 0, 0, 0, 0, 0, 0, 0, 0, 2, 0],
    [0, 0, 0, 0, 0, 0, 0, 0, 0, 0, 0, 0, 0, 0, 0, 5, 0],
    [0, 0, 0, 0, 0, 0, 0, 0, 0, 0, 0, 0, 0, 0, 0, 3, 0],
    [2, 0, 0, 0, 0, 0, 0, 0, 0, 0, 0, 0, 0, 0, 0, 0, 0],
    [0, 0, 0, 0, 0, 0, 0, 2, 0, 0, 0, 0, 0, 0, 0, 0, 0],
    [0, 0, 0, 0, 0, 0, 0, 0, 0, 0, 0, 0, 1, 0, 0, 0, 0],
    [0, 8, 0, 0, 0, 0, 0, 0, 5, 2, 0, 0, 0, 0, 0, 0, 0],
    [0, 0, 0, 0, 0, 0, 0, 0, 6, 1, 0, 0, 0, 0, 0, 0, 0],
    [0, 3, 0, 3, 1, 0, 2, 0, 4, 0, 0, 0, 0, 0, 1, 6, 0],
    [0, 0, 0, 0, 0, 0, 0, 0, 0, 0, 0, 0, 0, 0, 2, 0, 0],
    [1, 0, 0, 0, 0, 0, 0, 0, 0, 0, 0, 0, 0, 0, 0, 0, 0],
    [3, 0x83, 0, 0x83, 0x83, 0x83, 0x83, 0x83, 0x83, 0x83, 0x83, 0x83, 0x83, 0x83, 0x83, 0x83, 0],
    [0, 2, 0, 0, 0, 0, 0, 0, 0, 0, 0, 0, 0, 0, 0, 0, 0],
    [0, 1, 0, 0, 0, 0, 0, 0, 0, 0, 0, 0, 0, 0, 0, 0, 0],
    [0, 0, 0, 2, 0, 0, 0, 0, 3, 0, 0, 0, 0, 0, 0, 0, 0],
    [4, 0x82, 0, 0x82, 0x82, 0x82, 0x82, 0x82, 0x82, 0x82, 0x82, 0x82, 0x82, 0x82, 0x82, 0x82, 0],
    [0, 4, 0, 0, 0, 0, 3, 0, 0, 0, 0, 0, 0, 2, 0, 0, 0],
    [0, 0, 0, 0, 0, 0, 0, 0, 0, 0, 0, 0, 0, 0, 3, 0, 0],
    [0, 5, 0, 0, 0, 0, 0, 0, 0, 0, 0, 0, 0, 0, 3, 0, 0],
    [0, 0, 0, 4, 0, 0, 0, 0, 0, 0, 0, 0, 0, 0, 0, 0, 0],
    [0, 0, 0, 0, 0, 0, 0, 1, 0, 0, 0, 0, 0, 0, 0, 0, 1],
    [0, 0, 0, 0, 0, 0, 0, 3, 0, 0, 0, 0, 0, 0, 0, 0, 0],
    [0, 0, 0, 0, 0, 0, 0, 0, 1, 0, 0, 0, 0, 0, 0, 0, 0],
    [0, 0, 0, 0, 0, 0, 0, 0, 2, 0, 0, 0, 0, 0, 0, 0, 2],
    [0, 0, 0, 0, 0, 0, 0, 0, 0, 0, 0, 1, 0, 0, 0, 0, 0],
    [0, 0, 0, 0, 0, 0, 0, 0, 0, 0, 2, 0, 0, 0, 0, 0, 0],
    [0, 0, 0, 0, 0, 0, 0, 0, 0, 0, 3, 0, 0, 0, 0, 0, 0],
    [0, 6, 0, 0, 0, 0, 0, 0, 0, 0, 0, 0, 0, 0, 0, 0, 0],
    [0, 0, 0, 0, 0, 0, 0, 0, 0, 0, 0, 0, 0, 0, 0, 0, 0],
    [0, 7, 0, 0, 0, 0, 0, 0, 0, 0, 0, 0, 0, 1, 0, 0, 0],
    [0, 9, 0, 0, 0, 0, 0, 0, 0, 0, 0, 0, 0, 0, 0, 0, 0],
    [0, 10, 0, 0, 0, 0, 0, 0, 0, 0, 0, 0, 0, 0, 0, 0, 0],
    [5, 0, 0, 0, 0, 0, 0, 0, 0, 0, 0, 0, 0, 0, 0, 0, 0]]"

definition smp_all_table :: smp_sm_tbl where
  "smp_all_table = [
    [SMP_PROC_PAIR_FAIL, SMP_PAIRING_CMPL, SMP_STATE_IDLE],
    [SMP_SEND_PAIR_FAIL, SMP_PAIRING_CMPL, SMP_STATE_IDLE],
    [SMP_PAIR_TERMINATE, SMP_SM_NO_ACTION, SMP_STATE_IDLE]]"

definition smp_master_idle_table :: smp_sm_tbl where
  "smp_master_idle_table = [
    [SMP_SEND_APP_CBACK, SMP_SM_NO_ACTION, SMP_STATE_WAIT_APP_RSP],
    [SMP_PROC_SEC_REQ, SMP_SEND_APP_CBACK, SMP_STATE_WAIT_APP_RSP],
    [SMP_IDLE_TERMINATE, SMP_SM_NO_ACTION, SMP_STATE_IDLE],
    [SMP_PAIRING_CMPL, SMP_SM_NO_ACTION, SMP_STATE_IDLE],
    [SMP_CREATE_PRIVATE_KEY, SMP_SM_NO_ACTION, SMP_STATE_CREATE_LOCAL_SEC_CONN_OOB_DATA]]"

definition smp_master_wait_for_app_response_table :: smp_sm_tbl where
  "smp_master_wait_for_app_response_table = [
    [SMP_PROC_SEC_GRANT, SMP_SEND_APP_CBACK, SMP_STATE_WAIT_APP_RSP],
    [SMP_SEND_PAIR_REQ, SMP_FAST_CONN_PARAM, SMP_STATE_PAIR_REQ_RSP],
    [SMP_GENERATE_CONFIRM, SMP_SM_NO_ACTION, SMP_STATE_WAIT_CONFIRM],
    [SMP_START_ENC, SMP_FAST_CONN_PARAM, SMP_STATE_ENCRYPTION_PENDING],
    [SMP_PROC_DISCARD, SMP_SM_NO_ACTION, SMP_STATE_IDLE],
    [SMP_MOVE_TO_SEC_CONN_PHASE2, SMP_SM_NO_ACTION, SMP_STATE_SEC_CONN_PHS2_START],
    [SMP_START_PASSKEY_VERIFICATION, SMP_SM_NO_ACTION, SMP_STATE_SEC_CONN_PHS1_START],
    [SMP_PROCESS_KEYPRESS_NOTIFICATION, SMP_SEND_APP_CBACK, SMP_STATE_WAIT_APP_RSP],
    [SMP_SEND_KEYPRESS_NOTIFICATION, SMP_SM_NO_ACTION, SMP_STATE_WAIT_APP_RSP],
    [SMP_USE_OOB_PRIVATE_KEY, SMP_SM_NO_ACTION, SMP_STATE_PUBLIC_KEY_EXCH]]"

definition smp_master_pair_request_response_table :: smp_sm_tbl where
  "smp_master_pair_request_response_table = [
    [SMP_PROC_PAIR_CMD, SMP_SM_NO_ACTION, SMP_STATE_PAIR_REQ_RSP],
    [SMP_SEND_APP_CBACK, SMP_SM_NO_ACTION, SMP_STATE_WAIT_APP_RSP],
    [SMP_GENERATE_CONFIRM, SMP_SM_NO_ACTION, SMP_STATE_WAIT_CONFIRM],
    [SMP_CREATE_PRIVATE_KEY, SMP_SM_NO_ACTION, SMP_STATE_PUBLIC_KEY_EXCH]]"

definition smp_master_wait_for_confirm_table :: smp_sm_tbl where
  "smp_master_wait_for_confirm_table = [
    [SMP_SEND_CONFIRM, SMP_SM_NO_ACTION, SMP_STATE_CONFIRM]]"

definition smp_master_confirm_table :: smp_sm_tbl where
  "smp_master_confirm_table = [
    [SMP_PROC_CONFIRM, SMP_SEND_RAND, SMP_STATE_RAND]]"

definition smp_master_rand_table :: smp_sm_tbl where
  "smp_master_rand_table = [
    [SMP_PROC_RAND, SMP_GENERATE_COMPARE, SMP_STATE_RAND],
    [SMP_PROC_COMPARE, SMP_SM_NO_ACTION, SMP_STATE_RAND],
    [SMP_GENERATE_STK, SMP_SM_NO_ACTION, SMP_STATE_ENCRYPTION_PENDING]]"

definition smp_master_public_key_exchange_table :: smp_sm_tbl where
  "smp_master_public_key_exchange_table = [
    [SMP_SEND_PAIR_PUBLIC_KEY, SMP_SM_NO_ACTION, SMP_STATE_PUBLIC_KEY_EXCH],
    [SMP_PROCESS_PAIR_PUBLIC_KEY, SMP_SM_NO_ACTION, SMP_STATE_PUBLIC_KEY_EXCH],
    [SMP_HAVE_BOTH_PUBLIC_KEYS, SMP_SM_NO_ACTION, SMP_STATE_SEC_CONN_PHS1_START]]"

definition smp_master_sec_conn_phs1_start_table :: smp_sm_tbl where
  "smp_master_sec_conn_phs1_start_table = [
    [SMP_START_SEC_CONN_PHASE1, SMP_SM_NO_ACTION, SMP_STATE_SEC_CONN_PHS1_START],
    [SMP_PROCESS_LOCAL_NONCE, SMP_SM_NO_ACTION, SMP_STATE_WAIT_COMMITMENT],
    [SMP_SEND_APP_CBACK, SMP_SM_NO_ACTION, SMP_STATE_WAIT_APP_RSP],
    [SMP_START_PASSKEY_VERIFICATION, SMP_SM_NO_ACTION, SMP_STATE_SEC_CONN_PHS1_START],
    [SMP_PROCESS_KEYPRESS_NOTIFICATION, SMP_SEND_APP_CBACK, SMP_STATE_SEC_CONN_PHS1_START],
    [SMP_PROCESS_PAIRING_COMMITMENT, SMP_SM_NO_ACTION, SMP_STATE_SEC_CONN_PHS1_START]]"

definition smp_master_wait_commitment_table :: smp_sm_tbl where
  "smp_master_wait_commitment_table = [
    [SMP_PROCESS_PAIRING_COMMITMENT, SMP_SEND_RAND, SMP_STATE_WAIT_NONCE],
    [SMP_PROCESS_KEYPRESS_NOTIFICATION, SMP_SEND_APP_CBACK, SMP_STATE_WAIT_COMMITMENT]]"

definition smp_master_wait_nonce_table :: smp_sm_tbl where
  "smp_master_wait_nonce_table = [
    [SMP_PROC_RAND, SMP_PROCESS_PEER_NONCE, SMP_STATE_SEC_CONN_PHS2_START],
    [SMP_CALCULATE_NUMERIC_COMPARISON_DISPLAY_NUMBER, SMP_SM_NO_ACTION, SMP_STATE_WAIT_NONCE],
    [SMP_SEND_APP_CBACK, SMP_SM_NO_ACTION, SMP_STATE_WAIT_APP_RSP]]"

definition smp_master_sec_conn_phs2_start_table :: smp_sm_tbl where
  "smp_master_sec_conn_phs2_start_table = [
    [SMP_CALCULATE_LOCAL_DHKEY_CHECK, SMP_SEND_DHKEY_CHECK, SMP_STATE_WAIT_DHK_CHECK]]"

definition smp_master_wait_dhk_check_table :: smp_sm_tbl where
  "smp_master_wait_dhk_check_table = [
    [SMP_PROCESS_DHKEY_CHECK, SMP_CALCULATE_PEER_DHKEY_CHECK, SMP_STATE_DHK_CHECK]]"

definition smp_master_dhk_check_table :: smp_sm_tbl where
  "smp_master_dhk_check_table = [
    [SMP_MATCH_DHKEY_CHECKS, SMP_SM_NO_ACTION, SMP_STATE_DHK_CHECK],
    [SMP_GENERATE_STK, SMP_SM_NO_ACTION, SMP_STATE_ENCRYPTION_PENDING]]"

definition smp_master_enc_pending_table :: smp_sm_tbl where
  "smp_master_enc_pending_table = [
    [SMP_START_ENC, SMP_SM_NO_ACTION, SMP_STATE_ENCRYPTION_PENDING],
    [SMP_CHECK_AUTH_REQ, SMP_SM_NO_ACTION, SMP_STATE_ENCRYPTION_PENDING],
    [SMP_KEY_DISTRIBUTE, SMP_SM_NO_ACTION, SMP_STATE_BOND_PENDING]]"

definition smp_master_bond_pending_table :: smp_sm_tbl where
  "smp_master_bond_pending_table = [
    [SMP_PROC_ENC_INFO, SMP_SM_NO_ACTION, SMP_STATE_BOND_PENDING],
    [SMP_PROC_ID_INFO, SMP_SM_NO_ACTION, SMP_STATE_BOND_PENDING],
    [SMP_PROC_SRK_INFO, SMP_SM_NO_ACTION, SMP_STATE_BOND_PENDING],
    [SMP_PROC_MASTER_ID, SMP_SM_NO_ACTION, SMP_STATE_BOND_PENDING],
    [SMP_PROC_ID_ADDR, SMP_SM_NO_ACTION, SMP_STATE_BOND_PENDING],
    [SMP_SEND_ENC_INFO, SMP_SM_NO_ACTION, SMP_STATE_BOND_PENDING]]"

definition smp_master_create_local_sec_conn_oob_data :: smp_sm_tbl where
  "smp_master_create_local_sec_conn_oob_data = [
    [SMP_SET_LOCAL_OOB_KEYS, SMP_SM_NO_ACTION, SMP_STATE_CREATE_LOCAL_SEC_CONN_OOB_DATA],
    [SMP_SET_LOCAL_OOB_RAND_COMMITMENT, SMP_SM_NO_ACTION, SMP_STATE_IDLE]]"

definition smp_slave_entry_map :: "u8 list list" where
  "smp_slave_entry_map = [
    [2, 0, 1, 0, 0, 0, 0, 0, 0, 0, 0, 0, 0, 0, 0, 0, 0],
    [0, 0, 0, 0, 0, 0, 0, 0, 0, 0, 0, 0, 0, 0, 0, 0, 0],
    [0, 4, 0, 1, 1, 0, 0, 0, 0, 0, 0, 0, 0, 0, 0, 0, 0],
    [0, 0, 0, 0, 0, 1, 2, 0, 0, 0, 1, 0, 0, 0, 0, 0, 0],
    [0, 0x81, 0x81, 0x81, 0x81, 0x81, 0x81, 0x81, 0x81, 0x81, 0x81, 0x81, 0x81, 0x81, 0x81, 0, 0],
    [0, 0, 0, 0, 0, 0, 0, 0, 0, 0, 0, 0, 0, 0, 0, 3, 0],
    [0, 0, 0, 0, 0, 0, 0, 0, 0, 0, 0, 0, 0, 0, 0, 5, 0],
    [0, 0, 0, 0, 0, 0, 0, 0, 0, 0, 0, 0, 0, 0, 0, 4, 0],
    [0, 0, 0, 0, 0, 0, 0, 0, 0, 0, 0, 0, 0, 0, 0, 6, 0],
    [0, 0, 0, 0, 0, 0, 0, 0, 0, 0, 0, 0, 0, 0, 0, 2, 0],
    [0, 0, 0, 0, 0, 0, 0, 0, 0, 0, 0, 0, 0, 0, 0, 0, 0],
    [0, 0, 0, 5, 0, 0, 0, 2, 0, 0, 0, 0, 0, 0, 0, 0, 0],
    [0, 5, 0, 0, 0, 0, 0, 0, 0, 0, 0, 2, 1, 2, 0, 0, 0],
    [0, 9, 0, 0, 0, 0, 0, 0, 5, 2, 0, 0, 0, 0, 0, 0, 0],
    [0, 8, 0, 0, 0, 0, 0, 0, 6, 1, 0, 0, 0, 0, 0, 0, 0],
    [0, 3, 0, 3, 2, 2, 1, 0, 4, 0, 0, 0, 0, 0, 2, 1, 0],
    [0, 0, 2, 0, 0, 0, 0, 0, 0, 0, 0, 0, 0, 0, 3, 0, 0],
    [1, 0, 0, 0, 0, 0, 0, 0, 0, 0, 0, 0, 0, 0, 0, 0, 0],
    [0, 0x83, 0x83, 0x83, 0x83, 0x83, 0x83, 0x83, 0x83, 0x83, 0x83, 0x83, 0x83, 0x83, 0x83, 0x83, 0],
    [0, 1, 0, 0, 0, 0, 0, 0, 0, 0, 0, 0, 0, 0, 0, 0, 0],
    [0, 2, 0, 0, 0, 0, 0, 0, 0, 0, 0, 0, 0, 0, 0, 0, 0],
    [0, 0, 0, 2, 0, 0, 0, 0, 3, 0, 0, 0, 0, 0, 0, 0, 0],
    [0, 0x82, 0x82, 0x82, 0x82, 0x82, 0x82, 0x82, 0x82, 0x82, 0x82, 0x82, 0x82, 0x82, 0x82, 0x82, 0],
    [0, 0, 0, 0, 0, 0, 0, 0, 0, 0, 0, 0, 0, 0, 1, 0, 0],
    [0, 0, 0, 0, 0, 0, 0, 0, 0, 0, 0, 0, 0, 0, 4, 0, 0],
    [0, 0, 0, 0, 0, 0, 0, 0, 0, 0, 0, 0, 0, 0, 0, 0, 0],
    [0, 0, 0, 4, 0, 0, 0, 0, 0, 0, 0, 0, 0, 0, 0, 0, 0],
    [0, 0, 0, 0, 0, 0, 0, 1, 0, 0, 0, 0, 0, 0, 0, 0, 1],
    [0, 0, 0, 0, 0, 0, 0, 3, 0, 0, 0, 0, 0, 0, 0, 0, 0],
    [0, 0, 0, 0, 0, 0, 0, 0, 1, 0, 0, 0, 0, 0, 0, 0, 0],
    [0, 0, 0, 0, 0, 0, 0, 0, 2, 0, 0, 0, 0, 0, 0, 0, 2],
    [0, 0, 0, 0, 0, 0, 0, 0, 0, 0, 0, 1, 0, 0, 0, 0, 0],
    [0, 0, 0, 0, 0, 0, 0, 0, 0, 0, 2, 0, 0, 0, 0, 0, 0],
    [0, 0, 0, 0, 0, 0, 0, 0, 0, 0, 3, 0, 0, 0, 0, 0, 0],
    [0, 6, 0, 0, 0, 0, 0, 0, 0, 0, 0, 0, 0, 0, 0, 0, 0],
    [0, 0, 0, 0, 0, 0, 0, 0, 0, 0, 0, 0, 2, 0, 0, 0, 0],
    [0, 7, 0, 0, 0, 0, 0, 0, 0, 0, 0, 0, 0, 1, 0, 0, 0],
    [0, 10, 0, 0, 0, 0, 0, 0, 0, 0, 0, 0, 0, 0, 0, 0, 0],
    [0, 11, 0, 0, 0, 0, 0, 0, 0, 0, 0, 0, 0, 0, 0, 0, 0],
    [3, 0, 0, 0, 0, 0, 0, 0, 0, 0, 0, 0, 0, 0, 0, 0, 0]]"

definition smp_slave_idle_table :: smp_sm_tbl where
  "smp_slave_idle_table = [
    [SMP_SEND_APP_CBACK, SMP_SM_NO_ACTION, SMP_STATE_WAIT_APP_RSP],
    [SMP_PROC_PAIR_CMD, SMP_SEND_APP_CBACK, SMP_STATE_WAIT_APP_RSP],
    [SMP_CREATE_PRIVATE_KEY, SMP_SM_NO_ACTION, SMP_STATE_CREATE_LOCAL_SEC_CONN_OOB_DATA]]"

definition smp_slave_wait_for_app_response_table :: smp_sm_tbl where
  "smp_slave_wait_for_app_response_table = [
    [SMP_PROC_IO_RSP, SMP_FAST_CONN_PARAM, SMP_STATE_PAIR_REQ_RSP],
    [SMP_PROC_SEC_GRANT, SMP_SEND_APP_CBACK, SMP_STATE_WAIT_APP_RSP],
    [SMP_PROC_SL_KEY, SMP_SM_NO_ACTION, SMP_STATE_WAIT_APP_RSP],
    [SMP_PROC_CONFIRM, SMP_SM_NO_ACTION, SMP_STATE_CONFIRM],
    [SMP_PROCESS_DHKEY_CHECK, SMP_SM_NO_ACTION, SMP_STATE_WAIT_APP_RSP],
    [SMP_MOVE_TO_SEC_CONN_PHASE2, SMP_SM_NO_ACTION, SMP_STATE_SEC_CONN_PHS2_START],
    [SMP_START_PASSKEY_VERIFICATION, SMP_SM_NO_ACTION, SMP_STATE_SEC_CONN_PHS1_START],
    [SMP_PROCESS_PAIRING_COMMITMENT, SMP_SM_NO_ACTION, SMP_STATE_WAIT_APP_RSP],
    [SMP_PROCESS_KEYPRESS_NOTIFICATION, SMP_SEND_APP_CBACK, SMP_STATE_WAIT_APP_RSP],
    [SMP_SEND_KEYPRESS_NOTIFICATION, SMP_SM_NO_ACTION, SMP_STATE_WAIT_APP_RSP],
    [SMP_SEND_PAIR_RSP, SMP_SM_NO_ACTION, SMP_STATE_PAIR_REQ_RSP]]"

definition smp_slave_sec_request_table :: smp_sm_tbl where
  "smp_slave_sec_request_table = [
    [SMP_PROC_PAIR_CMD, SMP_SM_NO_ACTION, SMP_STATE_PAIR_REQ_RSP],
    [SMP_ENC_CMPL, SMP_SM_NO_ACTION, SMP_STATE_PAIR_REQ_RSP]]"

definition smp_slave_pair_request_response_table :: smp_sm_tbl where
  "smp_slave_pair_request_response_table = [
    [SMP_PROC_CONFIRM, SMP_SM_NO_ACTION, SMP_STATE_CONFIRM],
    [SMP_SEND_APP_CBACK, SMP_SM_NO_ACTION, SMP_STATE_WAIT_APP_RSP],
    [SMP_PROC_SL_KEY, SMP_SM_NO_ACTION, SMP_STATE_PAIR_REQ_RSP],
    [SMP_CREATE_PRIVATE_KEY, SMP_SM_NO_ACTION, SMP_STATE_PUBLIC_KEY_EXCH],
    [SMP_PROCESS_PAIR_PUBLIC_KEY, SMP_SM_NO_ACTION, SMP_STATE_PAIR_REQ_RSP]]"

definition smp_slave_wait_confirm_table :: smp_sm_tbl where
  "smp_slave_wait_confirm_table = [
    [SMP_PROC_CONFIRM, SMP_SEND_CONFIRM, SMP_STATE_CONFIRM],
    [SMP_PROC_SL_KEY, SMP_SM_NO_ACTION, SMP_STATE_WAIT_CONFIRM]]"

definition smp_slave_confirm_table :: smp_sm_tbl where
  "smp_slave_confirm_table = [
    [SMP_PROC_RAND, SMP_GENERATE_COMPARE, SMP_STATE_RAND],
    [SMP_PROC_SL_KEY, SMP_SM_NO_ACTION, SMP_STATE_CONFIRM]]"

definition smp_slave_rand_table :: smp_sm_tbl where
  "smp_slave_rand_table = [
    [SMP_PROC_COMPARE, SMP_SM_NO_ACTION, SMP_STATE_RAND],
    [SMP_SEND_RAND, SMP_SM_NO_ACTION, SMP_STATE_ENCRYPTION_PENDING]]"

definition smp_slave_public_key_exch_table :: smp_sm_tbl where
  "smp_slave_public_key_exch_table = [
    [SMP_WAIT_FOR_BOTH_PUBLIC_KEYS, SMP_SM_NO_ACTION, SMP_STATE_PUBLIC_KEY_EXCH],
    [SMP_PROCESS_PAIR_PUBLIC_KEY, SMP_SM_NO_ACTION, SMP_STATE_PUBLIC_KEY_EXCH],
    [SMP_HAVE_BOTH_PUBLIC_KEYS, SMP_SM_NO_ACTION, SMP_STATE_SEC_CONN_PHS1_START]]"

definition smp_slave_sec_conn_phs1_start_table :: smp_sm_tbl where
  "smp_slave_sec_conn_phs1_start_table = [
    [SMP_START_SEC_CONN_PHASE1, SMP_SM_NO_ACTION, SMP_STATE_SEC_CONN_PHS1_START],
    [SMP_PROCESS_LOCAL_NONCE, SMP_SM_NO_ACTION, SMP_STATE_WAIT_COMMITMENT],
    [SMP_SEND_APP_CBACK, SMP_SM_NO_ACTION, SMP_STATE_WAIT_APP_RSP],
    [SMP_START_PASSKEY_VERIFICATION, SMP_SM_NO_ACTION, SMP_STATE_SEC_CONN_PHS1_START],
    [SMP_PROCESS_KEYPRESS_NOTIFICATION, SMP_SEND_APP_CBACK, SMP_STATE_SEC_CONN_PHS1_START],
    [SMP_PROCESS_PAIRING_COMMITMENT, SMP_SM_NO_ACTION, SMP_STATE_SEC_CONN_PHS1_START]]"

definition smp_slave_wait_commitment_table :: smp_sm_tbl where
  "smp_slave_wait_commitment_table = [
    [SMP_PROCESS_PAIRING_COMMITMENT, SMP_SEND_COMMITMENT, SMP_STATE_WAIT_NONCE],
    [SMP_PROCESS_KEYPRESS_NOTIFICATION, SMP_SEND_APP_CBACK, SMP_STATE_WAIT_COMMITMENT]]"

definition smp_slave_wait_nonce_table :: smp_sm_tbl where
  "smp_slave_wait_nonce_table = [
    [SMP_PROC_RAND, SMP_PROCESS_PEER_NONCE, SMP_STATE_SEC_CONN_PHS2_START],
    [SMP_CALCULATE_NUMERIC_COMPARISON_DISPLAY_NUMBER, SMP_SM_NO_ACTION, SMP_STATE_WAIT_NONCE],
    [SMP_SEND_APP_CBACK, SMP_SM_NO_ACTION, SMP_STATE_WAIT_APP_RSP]]"

definition smp_slave_sec_conn_phs2_start_table :: smp_sm_tbl where
  "smp_slave_sec_conn_phs2_start_table = [
    [SMP_CALCULATE_LOCAL_DHKEY_CHECK, SMP_PH2_DHKEY_CHECKS_ARE_PRESENT, SMP_STATE_WAIT_DHK_CHECK],
    [SMP_PROCESS_DHKEY_CHECK, SMP_SM_NO_ACTION, SMP_STATE_SEC_CONN_PHS2_START]]"

definition smp_slave_wait_dhk_check_table :: smp_sm_tbl where
  "smp_slave_wait_dhk_check_table = [
    [SMP_PROCESS_DHKEY_CHECK, SMP_CALCULATE_PEER_DHKEY_CHECK, SMP_STATE_DHK_CHECK],
    [SMP_CALCULATE_PEER_DHKEY_CHECK, SMP_SM_NO_ACTION, SMP_STATE_DHK_CHECK]]"

definition smp_slave_dhk_check_table :: smp_sm_tbl where
  "smp_slave_dhk_check_table = [
    [SMP_MATCH_DHKEY_CHECKS, SMP_SM_NO_ACTION, SMP_STATE_DHK_CHECK],
    [SMP_SEND_DHKEY_CHECK, SMP_SM_NO_ACTION, SMP_STATE_ENCRYPTION_PENDING]]"

definition smp_slave_enc_pending_table :: smp_sm_tbl where
  "smp_slave_enc_pending_table = [
    [SMP_GENERATE_STK, SMP_SM_NO_ACTION, SMP_STATE_ENCRYPTION_PENDING],
    [SMP_SEND_LTK_REPLY, SMP_SM_NO_ACTION, SMP_STATE_ENCRYPTION_PENDING],
    [SMP_CHECK_AUTH_REQ, SMP_SM_NO_ACTION, SMP_STATE_ENCRYPTION_PENDING],
    [SMP_KEY_DISTRIBUTE, SMP_SM_NO_ACTION, SMP_STATE_BOND_PENDING]]"

definition smp_slave_bond_pending_table :: smp_sm_tbl where
  "smp_slave_bond_pending_table = [
    [SMP_SEND_ENC_INFO, SMP_SM_NO_ACTION, SMP_STATE_BOND_PENDING],
    [SMP_PROC_SRK_INFO, SMP_SM_NO_ACTION, SMP_STATE_BOND_PENDING],
    [SMP_PROC_ENC_INFO, SMP_SM_NO_ACTION, SMP_STATE_BOND_PENDING],
    [SMP_PROC_ID_INFO, SMP_SM_NO_ACTION, SMP_STATE_BOND_PENDING],
    [SMP_PROC_MASTER_ID, SMP_SM_NO_ACTION, SMP_STATE_BOND_PENDING],
    [SMP_PROC_ID_ADDR, SMP_SM_NO_ACTION, SMP_STATE_BOND_PENDING]]"

definition smp_slave_create_local_sec_conn_oob_data :: smp_sm_tbl where
  "smp_slave_create_local_sec_conn_oob_data = [
    [SMP_SET_LOCAL_OOB_KEYS, SMP_SM_NO_ACTION, SMP_STATE_CREATE_LOCAL_SEC_CONN_OOB_DATA],
    [SMP_SET_LOCAL_OOB_RAND_COMMITMENT, SMP_SM_NO_ACTION, SMP_STATE_IDLE]]"

text \<open>The tables by state and role; the master has no table for \<open>SMP_STATE_SEC_REQ_PENDING\<close>.\<close>

definition smp_state_table :: "smp_sm_tbl option list list" where
  "smp_state_table = [
    [Some smp_master_idle_table, Some smp_slave_idle_table],
    [Some smp_master_wait_for_app_response_table, Some smp_slave_wait_for_app_response_table],
    [None, Some smp_slave_sec_request_table],
    [Some smp_master_pair_request_response_table, Some smp_slave_pair_request_response_table],
    [Some smp_master_wait_for_confirm_table, Some smp_slave_wait_confirm_table],
    [Some smp_master_confirm_table, Some smp_slave_confirm_table],
    [Some smp_master_rand_table, Some smp_slave_rand_table],
    [Some smp_master_public_key_exchange_table, Some smp_slave_public_key_exch_table],
    [Some smp_master_sec_conn_phs1_start_table, Some smp_slave_sec_conn_phs1_start_table],
    [Some smp_master_wait_commitment_table, Some smp_slave_wait_commitment_table],
    [Some smp_master_wait_nonce_table, Some smp_slave_wait_nonce_table],
    [Some smp_master_sec_conn_phs2_start_table, Some smp_slave_sec_conn_phs2_start_table],
    [Some smp_master_wait_dhk_check_table, Some smp_slave_wait_dhk_check_table],
    [Some smp_master_dhk_check_table, Some smp_slave_dhk_check_table],
    [Some smp_master_enc_pending_table, Some smp_slave_enc_pending_table],
    [Some smp_master_bond_pending_table, Some smp_slave_bond_pending_table],
    [Some smp_master_create_local_sec_conn_oob_data, Some smp_slave_create_local_sec_conn_oob_data]]"

definition smp_entry_table :: "u8 list list list" where
  "smp_entry_table = [smp_master_entry_map, smp_slave_entry_map]"

text \<open>
  What the comments of the tables say: each row is labelled with the event it is meant for.
\<close>

definition smp_row_events :: "u8 list list list" where
  "smp_row_events = [
    [
      [SMP_L2CAP_CONN_EVT, SMP_SECURITY_REQ_EVT, SMP_L2CAP_DISCONN_EVT, SMP_AUTH_CMPL_EVT,
       SMP_CR_LOC_SC_OOB_DATA_EVT],
      [SMP_L2CAP_CONN_EVT, SMP_PAIRING_REQ_EVT, SMP_CR_LOC_SC_OOB_DATA_EVT]],
    [
      [SMP_API_SEC_GRANT_EVT, SMP_IO_RSP_EVT, SMP_KEY_READY_EVT, SMP_ENC_REQ_EVT,
       SMP_DISCARD_SEC_REQ_EVT, SMP_SC_NC_OK_EVT, SMP_SC_KEY_READY_EVT,
       SMP_PAIR_KEYPRESS_NOTIFICATION_EVT, SMP_KEYPRESS_NOTIFICATION_EVENT, SMP_SC_OOB_DATA_EVT],
      [SMP_IO_RSP_EVT, SMP_API_SEC_GRANT_EVT, SMP_KEY_READY_EVT, SMP_CONFIRM_EVT,
       SMP_PAIR_DHKEY_CHCK_EVT, SMP_SC_NC_OK_EVT, SMP_SC_KEY_READY_EVT, SMP_PAIR_COMMITM_EVT,
       SMP_PAIR_KEYPRESS_NOTIFICATION_EVT, SMP_KEYPRESS_NOTIFICATION_EVENT, SMP_SC_OOB_DATA_EVT]],
    [
      [],
      [SMP_PAIRING_REQ_EVT, SMP_ENCRYPTED_EVT]],
    [
      [SMP_PAIRING_RSP_EVT, SMP_TK_REQ_EVT, SMP_KEY_READY_EVT, SMP_PUBL_KEY_EXCH_REQ_EVT],
      [SMP_CONFIRM_EVT, SMP_TK_REQ_EVT, SMP_KEY_READY_EVT, SMP_PUBL_KEY_EXCH_REQ_EVT,
       SMP_PAIR_PUBLIC_KEY_EVT]],
    [
      [SMP_KEY_READY_EVT],
      [SMP_CONFIRM_EVT, SMP_KEY_READY_EVT]],
    [
      [SMP_CONFIRM_EVT],
      [SMP_RAND_EVT, SMP_KEY_READY_EVT]],
    [
      [SMP_RAND_EVT, SMP_KEY_READY_EVT, SMP_ENC_REQ_EVT],
      [SMP_KEY_READY_EVT, SMP_RAND_EVT]],
    [
      [SMP_LOC_PUBL_KEY_CRTD_EVT, SMP_PAIR_PUBLIC_KEY_EVT, SMP_BOTH_PUBL_KEYS_RCVD_EVT],
      [SMP_LOC_PUBL_KEY_CRTD_EVT, SMP_PAIR_PUBLIC_KEY_EVT, SMP_BOTH_PUBL_KEYS_RCVD_EVT]],
    [
      [SMP_SC_DHKEY_CMPLT_EVT, SMP_HAVE_LOC_NONCE_EVT, SMP_TK_REQ_EVT, SMP_KEY_READY_EVT,
       SMP_PAIR_KEYPRESS_NOTIFICATION_EVT, SMP_PAIR_COMMITM_EVT],
      [SMP_SC_DHKEY_CMPLT_EVT, SMP_HAVE_LOC_NONCE_EVT, SMP_TK_REQ_EVT, SMP_KEY_READY_EVT,
       SMP_PAIR_KEYPRESS_NOTIFICATION_EVT, SMP_PAIR_COMMITM_EVT]],
    [
      [SMP_PAIR_COMMITM_EVT, SMP_PAIR_KEYPRESS_NOTIFICATION_EVT],
      [SMP_PAIR_COMMITM_EVT, SMP_PAIR_KEYPRESS_NOTIFICATION_EVT]],
    [
      [SMP_RAND_EVT, SMP_SC_CALC_NC_EVT, SMP_SC_DSPL_NC_EVT],
      [SMP_RAND_EVT, SMP_SC_CALC_NC_EVT, SMP_SC_DSPL_NC_EVT]],
    [
      [SMP_SC_PHASE1_CMPLT_EVT],
      [SMP_SC_PHASE1_CMPLT_EVT, SMP_PAIR_DHKEY_CHCK_EVT]],
    [
      [SMP_PAIR_DHKEY_CHCK_EVT],
      [SMP_PAIR_DHKEY_CHCK_EVT, SMP_SC_2_DHCK_CHKS_PRES_EVT]],
    [
      [SMP_SC_KEY_READY_EVT, SMP_ENC_REQ_EVT],
      [SMP_SC_KEY_READY_EVT, SMP_PAIR_DHKEY_CHCK_EVT]],
    [
      [SMP_KEY_READY_EVT, SMP_ENCRYPTED_EVT, SMP_BOND_REQ_EVT],
      [SMP_ENC_REQ_EVT, SMP_KEY_READY_EVT, SMP_ENCRYPTED_EVT, SMP_BOND_REQ_EVT]],
    [
      [SMP_ENCRPTION_INFO_EVT, SMP_ID_INFO_EVT, SMP_SIGN_INFO_EVT, SMP_MASTER_ID_EVT,
       SMP_ID_ADDR_EVT, SMP_KEY_READY_EVT],
      [SMP_KEY_READY_EVT, SMP_SIGN_INFO_EVT, SMP_ENCRPTION_INFO_EVT, SMP_ID_INFO_EVT,
       SMP_MASTER_ID_EVT, SMP_ID_ADDR_EVT]],
    [
      [SMP_LOC_PUBL_KEY_CRTD_EVT, SMP_HAVE_LOC_NONCE_EVT],
      [SMP_LOC_PUBL_KEY_CRTD_EVT, SMP_HAVE_LOC_NONCE_EVT]]]"

definition smp_all_events :: "u8 list" where
  "smp_all_events = [SMP_PAIRING_FAILED_EVT, SMP_AUTH_CMPL_EVT, SMP_L2CAP_DISCONN_EVT]"

section \<open>The driver\<close>

text \<open>
  The fields of the control block \<open>tSMP_CB\<close> the two machines work on; \<open>smp_cb_scheme\<close> leaves room for
  the others.  \<open>smp_sm_event\<close> is always called with the address of the one control block
  \<open>smp_cb\<close>, so that the block it is given and the one \<open>smp_set_state\<close> writes are the same.
\<close>

record smp_cb =
  smp_state :: u8
  smp_role :: u8
  smp_br_state :: u8

definition smp_set_state :: "u8 \<Rightarrow> 'z smp_cb_scheme \<Rightarrow> 'z smp_cb_scheme" where
  "smp_set_state st cb = (if st < SMP_STATE_MAX then cb\<lparr>smp_state := st\<rparr> else cb)"

definition smp_get_state :: "'z smp_cb_scheme \<Rightarrow> u8" where
  "smp_get_state cb = smp_state cb"

text \<open>\<open>t[i - 1]\<close>, with the index computed in \<open>int\<close>: \<open>i = 0\<close> reads before the table.\<close>

definition rd1 :: "'a list \<Rightarrow> u8 \<Rightarrow> 'a option" where
  "rd1 t i = (if i = 0 then None else rd t (unat i - 1))"

text \<open>
  The row an event selects: \<open>None\<close> is an access out of bounds, \<open>Some None\<close> an ignored event.
\<close>

definition smp_lookup :: "u8 \<Rightarrow> u8 \<Rightarrow> u8 \<Rightarrow> u8 list option option" where
  "smp_lookup role st event = do {
     entry_table \<leftarrow> rd smp_entry_table (unat role);
     if event \<le> SMP_MAX_EVT then do {
       entries \<leftarrow> rd1 entry_table event;
       entry \<leftarrow> rd entries (unat st);
       if entry = 0 then Some None
       else if entry AND 0x80 \<noteq> 0 then do {
         row \<leftarrow> rd1 smp_all_table (entry AND NOT 0x80);
         Some (Some row)
       } else do {
         tables \<leftarrow> rd smp_state_table (unat st);
         state_table \<leftarrow> rd tables (unat role);
         rows \<leftarrow> state_table;
         row \<leftarrow> rd1 rows entry;
         Some (Some row)
       }
     } else Some None
   }"

text \<open>The loop over the action columns: it stops at the first \<open>SMP_SM_NO_ACTION\<close>.\<close>

fun smp_actions :: "(smp_act \<Rightarrow> 'd \<Rightarrow> 'c \<Rightarrow> 'c) \<Rightarrow> smp_act list \<Rightarrow> u8 \<Rightarrow> 'd \<Rightarrow> u8 list \<Rightarrow> 'c \<Rightarrow> 'c option" where
  "smp_actions act table no_action p_data [] cb = Some cb"
| "smp_actions act table no_action p_data (action # as) cb =
     (if action \<noteq> no_action then do {
        f \<leftarrow> rd table (unat action);
        smp_actions act table no_action p_data as (act f p_data cb)
      } else Some cb)"

definition smp_sm_event ::
    "(smp_act \<Rightarrow> 'd \<Rightarrow> 'z smp_cb_scheme \<Rightarrow> 'z smp_cb_scheme) \<Rightarrow>
     'z smp_cb_scheme \<Rightarrow> u8 \<Rightarrow> 'd \<Rightarrow> 'z smp_cb_scheme option" where
  "smp_sm_event act p_cb event p_data =
     (if SMP_STATE_MAX \<le> smp_state p_cb then Some p_cb
      else do {
        sel \<leftarrow> smp_lookup (smp_role p_cb) (smp_state p_cb) event;
        case sel of
          None \<Rightarrow> Some p_cb
        | Some row \<Rightarrow> do {
            next_state \<leftarrow> rd row 2;
            smp_actions act smp_sm_action SMP_SM_NO_ACTION p_data (take 2 row)
              (smp_set_state next_state p_cb)
          }
      })"

definition smp_get_state_name :: "u8 \<Rightarrow> string option" where
  "smp_get_state_name st =
     (if st < SMP_STATE_MAX then rd smp_state_name (unat st) else rd smp_state_name (unat (SMP_STATE_MAX :: u8)))"

definition smp_get_event_name :: "u8 \<Rightarrow> string option" where
  "smp_get_event_name event =
     (if event \<le> SMP_MAX_EVT then rd1 smp_event_name event else rd smp_event_name (unat (SMP_MAX_EVT :: u8)))"

end
