(* ===== verification/SmpCb.thy ===== *)
theory SmpCb
  imports SmpMain
begin

text \<open>
  The control block of the security manager, \<open>tSMP_CB\<close> of \<open>stack/smp/include/smp_int.h\<close>, the types and
  constants of \<open>stack/include/stack/smp_api.h\<close> it uses, and what lies around it: the records of the
  device database that the security manager reads and writes, the calls it makes of other parts of the
  stack, kept as a list, and the answers of those parts, which are a parameter (\<open>smp_env\<close>).
\<close>

unbundle bit_operations_syntax

section \<open>Constants\<close>

abbreviation (input) SMP_OPCODE_PAIRING_REQ :: u8 where "SMP_OPCODE_PAIRING_REQ \<equiv> 1"
abbreviation (input) SMP_OPCODE_PAIRING_RSP :: u8 where "SMP_OPCODE_PAIRING_RSP \<equiv> 2"
abbreviation (input) SMP_OPCODE_CONFIRM :: u8 where "SMP_OPCODE_CONFIRM \<equiv> 3"
abbreviation (input) SMP_OPCODE_RAND :: u8 where "SMP_OPCODE_RAND \<equiv> 4"
abbreviation (input) SMP_OPCODE_PAIRING_FAILED :: u8 where "SMP_OPCODE_PAIRING_FAILED \<equiv> 5"
abbreviation (input) SMP_OPCODE_ENCRYPT_INFO :: u8 where "SMP_OPCODE_ENCRYPT_INFO \<equiv> 6"
abbreviation (input) SMP_OPCODE_MASTER_ID :: u8 where "SMP_OPCODE_MASTER_ID \<equiv> 7"
abbreviation (input) SMP_OPCODE_IDENTITY_INFO :: u8 where "SMP_OPCODE_IDENTITY_INFO \<equiv> 8"
abbreviation (input) SMP_OPCODE_ID_ADDR :: u8 where "SMP_OPCODE_ID_ADDR \<equiv> 9"
abbreviation (input) SMP_OPCODE_SIGN_INFO :: u8 where "SMP_OPCODE_SIGN_INFO \<equiv> 10"
abbreviation (input) SMP_OPCODE_SEC_REQ :: u8 where "SMP_OPCODE_SEC_REQ \<equiv> 11"
abbreviation (input) SMP_OPCODE_PAIR_PUBLIC_KEY :: u8 where "SMP_OPCODE_PAIR_PUBLIC_KEY \<equiv> 12"
abbreviation (input) SMP_OPCODE_PAIR_DHKEY_CHECK :: u8 where "SMP_OPCODE_PAIR_DHKEY_CHECK \<equiv> 13"
abbreviation (input) SMP_OPCODE_PAIR_KEYPR_NOTIF :: u8 where "SMP_OPCODE_PAIR_KEYPR_NOTIF \<equiv> 14"
abbreviation (input) SMP_OPCODE_PAIR_COMMITM :: u8 where "SMP_OPCODE_PAIR_COMMITM \<equiv> 15"
abbreviation (input) SMP_OPCODE_MAX :: u8 where "SMP_OPCODE_MAX \<equiv> 14"
abbreviation (input) SMP_OPCODE_MIN :: u8 where "SMP_OPCODE_MIN \<equiv> 1"
abbreviation (input) SMP_OPCODE_INIT :: u8 where "SMP_OPCODE_INIT \<equiv> 4"

abbreviation (input) SMP_MODEL_ENCRYPTION_ONLY :: u8 where "SMP_MODEL_ENCRYPTION_ONLY \<equiv> 0"
abbreviation (input) SMP_MODEL_PASSKEY :: u8 where "SMP_MODEL_PASSKEY \<equiv> 1"
abbreviation (input) SMP_MODEL_OOB :: u8 where "SMP_MODEL_OOB \<equiv> 2"
abbreviation (input) SMP_MODEL_KEY_NOTIF :: u8 where "SMP_MODEL_KEY_NOTIF \<equiv> 3"
abbreviation (input) SMP_MODEL_SEC_CONN_JUSTWORKS :: u8 where "SMP_MODEL_SEC_CONN_JUSTWORKS \<equiv> 4"
abbreviation (input) SMP_MODEL_SEC_CONN_NUM_COMP :: u8 where "SMP_MODEL_SEC_CONN_NUM_COMP \<equiv> 5"
abbreviation (input) SMP_MODEL_SEC_CONN_PASSKEY_ENT :: u8 where "SMP_MODEL_SEC_CONN_PASSKEY_ENT \<equiv> 6"
abbreviation (input) SMP_MODEL_SEC_CONN_PASSKEY_DISP :: u8 where "SMP_MODEL_SEC_CONN_PASSKEY_DISP \<equiv> 7"
abbreviation (input) SMP_MODEL_SEC_CONN_OOB :: u8 where "SMP_MODEL_SEC_CONN_OOB \<equiv> 8"
abbreviation (input) SMP_MODEL_OUT_OF_RANGE :: u8 where "SMP_MODEL_OUT_OF_RANGE \<equiv> 9"

abbreviation (input) SMP_IO_CAP_REQ_EVT :: u8 where "SMP_IO_CAP_REQ_EVT \<equiv> 1"
abbreviation (input) SMP_SEC_REQUEST_EVT :: u8 where "SMP_SEC_REQUEST_EVT \<equiv> 2"
abbreviation (input) SMP_PASSKEY_NOTIF_EVT :: u8 where "SMP_PASSKEY_NOTIF_EVT \<equiv> 3"
abbreviation (input) SMP_PASSKEY_REQ_EVT :: u8 where "SMP_PASSKEY_REQ_EVT \<equiv> 4"
abbreviation (input) SMP_OOB_REQ_EVT :: u8 where "SMP_OOB_REQ_EVT \<equiv> 5"
abbreviation (input) SMP_NC_REQ_EVT :: u8 where "SMP_NC_REQ_EVT \<equiv> 6"
abbreviation (input) SMP_COMPLT_EVT :: u8 where "SMP_COMPLT_EVT \<equiv> 7"
abbreviation (input) SMP_PEER_KEYPR_NOT_EVT :: u8 where "SMP_PEER_KEYPR_NOT_EVT \<equiv> 8"
abbreviation (input) SMP_SC_OOB_REQ_EVT :: u8 where "SMP_SC_OOB_REQ_EVT \<equiv> 9"
abbreviation (input) SMP_SC_LOC_OOB_DATA_UP_EVT :: u8 where "SMP_SC_LOC_OOB_DATA_UP_EVT \<equiv> 10"
abbreviation (input) SMP_BR_KEYS_REQ_EVT :: u8 where "SMP_BR_KEYS_REQ_EVT \<equiv> 12"

abbreviation (input) SMP_SUCCESS :: u8 where "SMP_SUCCESS \<equiv> 0"
abbreviation (input) SMP_PASSKEY_ENTRY_FAIL :: u8 where "SMP_PASSKEY_ENTRY_FAIL \<equiv> 1"
abbreviation (input) SMP_OOB_FAIL :: u8 where "SMP_OOB_FAIL \<equiv> 2"
abbreviation (input) SMP_PAIR_AUTH_FAIL :: u8 where "SMP_PAIR_AUTH_FAIL \<equiv> 3"
abbreviation (input) SMP_CONFIRM_VALUE_ERR :: u8 where "SMP_CONFIRM_VALUE_ERR \<equiv> 4"
abbreviation (input) SMP_PAIR_NOT_SUPPORT :: u8 where "SMP_PAIR_NOT_SUPPORT \<equiv> 5"
abbreviation (input) SMP_ENC_KEY_SIZE :: u8 where "SMP_ENC_KEY_SIZE \<equiv> 6"
abbreviation (input) SMP_PAIR_FAIL_UNKNOWN :: u8 where "SMP_PAIR_FAIL_UNKNOWN \<equiv> 8"
abbreviation (input) SMP_INVALID_PARAMETERS :: u8 where "SMP_INVALID_PARAMETERS \<equiv> 10"
abbreviation (input) SMP_DHKEY_CHK_FAIL :: u8 where "SMP_DHKEY_CHK_FAIL \<equiv> 11"
abbreviation (input) SMP_XTRANS_DERIVE_NOT_ALLOW :: u8 where "SMP_XTRANS_DERIVE_NOT_ALLOW \<equiv> 14"
abbreviation (input) SMP_MAX_FAIL_RSN_PER_SPEC :: u8 where "SMP_MAX_FAIL_RSN_PER_SPEC \<equiv> 14"
abbreviation (input) SMP_PAIR_INTERNAL_ERR :: u8 where "SMP_PAIR_INTERNAL_ERR \<equiv> 15"
abbreviation (input) SMP_UNKNOWN_IO_CAP :: u8 where "SMP_UNKNOWN_IO_CAP \<equiv> 16"
abbreviation (input) SMP_ENC_FAIL :: u8 where "SMP_ENC_FAIL \<equiv> 20"
abbreviation (input) SMP_RSP_TIMEOUT :: u8 where "SMP_RSP_TIMEOUT \<equiv> 22"
abbreviation (input) SMP_FAIL :: u8 where "SMP_FAIL \<equiv> 24"
abbreviation (input) SMP_CONN_TOUT :: u8 where "SMP_CONN_TOUT \<equiv> 25"

abbreviation (input) SMP_IO_CAP_MAX :: u8 where "SMP_IO_CAP_MAX \<equiv> 5"
abbreviation (input) SMP_DEFAULT_IO_CAPS :: u8 where "SMP_DEFAULT_IO_CAPS \<equiv> 4"
abbreviation (input) SMP_OOB_NONE :: u8 where "SMP_OOB_NONE \<equiv> 0"
abbreviation (input) SMP_OOB_PRESENT :: u8 where "SMP_OOB_PRESENT \<equiv> 1"
abbreviation (input) SMP_OOB_INVALID_TYPE :: u8 where "SMP_OOB_INVALID_TYPE \<equiv> 0"
abbreviation (input) SMP_OOB_PEER :: u8 where "SMP_OOB_PEER \<equiv> 1"
abbreviation (input) SMP_OOB_LOCAL :: u8 where "SMP_OOB_LOCAL \<equiv> 2"
abbreviation (input) SMP_OOB_BOTH :: u8 where "SMP_OOB_BOTH \<equiv> 3"
abbreviation (input) SMP_AUTH_NO_BOND :: u8 where "SMP_AUTH_NO_BOND \<equiv> 0"
abbreviation (input) SMP_AUTH_GEN_BOND :: u8 where "SMP_AUTH_GEN_BOND \<equiv> 1"
abbreviation (input) SMP_AUTH_BOND :: u8 where "SMP_AUTH_BOND \<equiv> 1"
abbreviation (input) SMP_AUTH_YN_BIT :: u8 where "SMP_AUTH_YN_BIT \<equiv> 4"
abbreviation (input) SMP_SC_SUPPORT_BIT :: u8 where "SMP_SC_SUPPORT_BIT \<equiv> 8"
abbreviation (input) SMP_KP_SUPPORT_BIT :: u8 where "SMP_KP_SUPPORT_BIT \<equiv> 16"
abbreviation (input) SMP_SEC_UNAUTHENTICATE :: u8 where "SMP_SEC_UNAUTHENTICATE \<equiv> 1"
abbreviation (input) SMP_SEC_AUTHENTICATED :: u8 where "SMP_SEC_AUTHENTICATED \<equiv> 4"
abbreviation (input) SMP_ENCR_KEY_SIZE_MIN :: u8 where "SMP_ENCR_KEY_SIZE_MIN \<equiv> 7"
abbreviation (input) SMP_ENCR_KEY_SIZE_MAX :: u8 where "SMP_ENCR_KEY_SIZE_MAX \<equiv> 16"
abbreviation (input) SMP_MAX_ENC_KEY_SIZE :: u8 where "SMP_MAX_ENC_KEY_SIZE \<equiv> 16"
abbreviation (input) SMP_SEC_KEY_TYPE_ENC :: u8 where "SMP_SEC_KEY_TYPE_ENC \<equiv> 1"
abbreviation (input) SMP_SEC_KEY_TYPE_ID :: u8 where "SMP_SEC_KEY_TYPE_ID \<equiv> 2"
abbreviation (input) SMP_SEC_KEY_TYPE_CSRK :: u8 where "SMP_SEC_KEY_TYPE_CSRK \<equiv> 4"
abbreviation (input) SMP_SEC_KEY_TYPE_LK :: u8 where "SMP_SEC_KEY_TYPE_LK \<equiv> 8"
abbreviation (input) SMP_BR_SEC_DEFAULT_KEY :: u8 where "SMP_BR_SEC_DEFAULT_KEY \<equiv> 7"
abbreviation (input) SMP_SEC_DEFAULT_KEY :: u8 where "SMP_SEC_DEFAULT_KEY \<equiv> 15"
abbreviation (input) BTM_SP_KEY_OUT_OF_RANGE :: u8 where "BTM_SP_KEY_OUT_OF_RANGE \<equiv> 5"
abbreviation (input) HCI_ROLE_MASTER :: u8 where "HCI_ROLE_MASTER \<equiv> 0"
abbreviation (input) HCI_ROLE_SLAVE :: u8 where "HCI_ROLE_SLAVE \<equiv> 1"

abbreviation (input) SMP_GEN_COMPARE :: u8 where "SMP_GEN_COMPARE \<equiv> 1"
abbreviation (input) SMP_GEN_CONFIRM :: u8 where "SMP_GEN_CONFIRM \<equiv> 2"
abbreviation (input) SMP_GEN_DIV_LTK :: u8 where "SMP_GEN_DIV_LTK \<equiv> 3"
abbreviation (input) SMP_GEN_DIV_CSRK :: u8 where "SMP_GEN_DIV_CSRK \<equiv> 4"
abbreviation (input) SMP_GEN_RAND_V :: u8 where "SMP_GEN_RAND_V \<equiv> 5"
abbreviation (input) SMP_GEN_TK :: u8 where "SMP_GEN_TK \<equiv> 6"
abbreviation (input) SMP_GEN_SRAND_MRAND :: u8 where "SMP_GEN_SRAND_MRAND \<equiv> 7"
abbreviation (input) SMP_GEN_SRAND_MRAND_CONT :: u8 where "SMP_GEN_SRAND_MRAND_CONT \<equiv> 8"
abbreviation (input) SMP_GENERATE_PRIVATE_KEY_0_7 :: u8 where "SMP_GENERATE_PRIVATE_KEY_0_7 \<equiv> 9"
abbreviation (input) SMP_GENERATE_PRIVATE_KEY_8_15 :: u8 where "SMP_GENERATE_PRIVATE_KEY_8_15 \<equiv> 10"
abbreviation (input) SMP_GENERATE_PRIVATE_KEY_16_23 :: u8 where "SMP_GENERATE_PRIVATE_KEY_16_23 \<equiv> 11"
abbreviation (input) SMP_GENERATE_PRIVATE_KEY_24_31 :: u8 where "SMP_GENERATE_PRIVATE_KEY_24_31 \<equiv> 12"
abbreviation (input) SMP_GEN_NONCE_0_7 :: u8 where "SMP_GEN_NONCE_0_7 \<equiv> 13"
abbreviation (input) SMP_GEN_NONCE_8_15 :: u8 where "SMP_GEN_NONCE_8_15 \<equiv> 14"

abbreviation (input) SMP_KEY_TYPE_TK :: u8 where "SMP_KEY_TYPE_TK \<equiv> 0"
abbreviation (input) SMP_KEY_TYPE_CFM :: u8 where "SMP_KEY_TYPE_CFM \<equiv> 1"
abbreviation (input) SMP_KEY_TYPE_CMP :: u8 where "SMP_KEY_TYPE_CMP \<equiv> 2"
abbreviation (input) SMP_KEY_TYPE_PEER_DHK_CHCK :: u8 where "SMP_KEY_TYPE_PEER_DHK_CHCK \<equiv> 3"
abbreviation (input) SMP_KEY_TYPE_STK :: u8 where "SMP_KEY_TYPE_STK \<equiv> 4"
abbreviation (input) SMP_KEY_TYPE_LTK :: u8 where "SMP_KEY_TYPE_LTK \<equiv> 5"

abbreviation (input) SMP_PAIR_FLAGS_WE_STARTED_DD :: u16 where "SMP_PAIR_FLAGS_WE_STARTED_DD \<equiv> 1"
abbreviation (input) SMP_PAIR_FLAGS_PEER_STARTED_DD :: u16 where "SMP_PAIR_FLAGS_PEER_STARTED_DD \<equiv> 2"
abbreviation (input) SMP_PAIR_FLAGS_CMD_CONFIRM :: u16 where "SMP_PAIR_FLAGS_CMD_CONFIRM \<equiv> 8"
abbreviation (input) SMP_PAIR_FLAG_ENC_AFTER_PAIR :: u16 where "SMP_PAIR_FLAG_ENC_AFTER_PAIR \<equiv> 16"
abbreviation (input) SMP_PAIR_FLAG_HAVE_PEER_DHK_CHK :: u16 where "SMP_PAIR_FLAG_HAVE_PEER_DHK_CHK \<equiv> 32"
abbreviation (input) SMP_PAIR_FLAG_HAVE_PEER_PUBL_KEY :: u16 where "SMP_PAIR_FLAG_HAVE_PEER_PUBL_KEY \<equiv> 64"
abbreviation (input) SMP_PAIR_FLAG_HAVE_PEER_COMM :: u16 where "SMP_PAIR_FLAG_HAVE_PEER_COMM \<equiv> 128"
abbreviation (input) SMP_PAIR_FLAG_HAVE_LOCAL_PUBL_KEY :: u16 where "SMP_PAIR_FLAG_HAVE_LOCAL_PUBL_KEY \<equiv> 256"

abbreviation (input) BTM_LE_KEY_PENC :: u8 where "BTM_LE_KEY_PENC \<equiv> 1"
abbreviation (input) BTM_LE_KEY_PID :: u8 where "BTM_LE_KEY_PID \<equiv> 2"
abbreviation (input) BTM_LE_KEY_PCSRK :: u8 where "BTM_LE_KEY_PCSRK \<equiv> 4"
abbreviation (input) BTM_LE_KEY_LENC :: u8 where "BTM_LE_KEY_LENC \<equiv> 16"
abbreviation (input) BTM_LE_KEY_LID :: u8 where "BTM_LE_KEY_LID \<equiv> 32"
abbreviation (input) BTM_LE_KEY_LCSRK :: u8 where "BTM_LE_KEY_LCSRK \<equiv> 64"

section \<open>The control block\<close>

record tSMP_PUBLIC_KEY =
  pk_x :: bytes
  pk_y :: bytes

record tSMP_LOC_OOB_DATA =
  lo_present :: bool
  lo_randomizer :: bytes
  lo_commitment :: bytes
  lo_addr_sent_to :: bytes
  lo_private_key_used :: bytes
  lo_publ_key_used :: tSMP_PUBLIC_KEY

record tSMP_PEER_OOB_DATA =
  po_present :: bool
  po_randomizer :: bytes
  po_commitment :: bytes
  po_addr_rcvd_from :: bytes

record tSMP_SC_OOB_DATA =
  loc_oob_data :: tSMP_LOC_OOB_DATA
  peer_oob_data :: tSMP_PEER_OOB_DATA

text \<open>The timer is among the calls of \<open>smp_out\<close>; the callback is whether one is registered.\<close>

record tSMP_CB = smp_cb +
  p_callback :: bool
  trace_level :: u8
  pairing_bda :: bytes
  derive_lk :: bool
  id_addr_rcvd :: bool
  id_addr_type :: u8
  id_addr :: bytes
  smp_over_br :: bool
  failure :: u8
  status :: u8
  flags :: u16
  cb_evt :: u8
  sec_level :: u8
  connect_initialized :: bool
  confirm :: bytes
  rconfirm :: bytes
  rrand :: bytes
  rand :: bytes
  private_key :: bytes
  dhkey :: bytes
  commitment :: bytes
  remote_commitment :: bytes
  local_random :: bytes
  peer_random :: bytes
  dhkey_check :: bytes
  remote_dhkey_check :: bytes
  loc_publ_key :: tSMP_PUBLIC_KEY
  peer_publ_key :: tSMP_PUBLIC_KEY
  req_oob_type :: u8
  sc_oob_data :: tSMP_SC_OOB_DATA
  peer_io_caps :: u8
  local_io_capability :: u8
  peer_oob_flag :: u8
  loc_oob_flag :: u8
  peer_auth_req :: u8
  loc_auth_req :: u8
  auth_mode :: u8
  secure_connections_only_mode_required :: bool
  selected_association_model :: u8
  le_secure_connections_mode_is_used :: bool
  le_sc_kp_notif_is_used :: bool
  local_keypress_notification :: u8
  peer_keypress_notification :: u8
  round :: u8
  number_to_display :: u32
  mac_key :: bytes
  peer_enc_size :: u8
  loc_enc_size :: u8
  peer_i_key :: u8
  peer_r_key :: u8
  local_i_key :: u8
  local_r_key :: u8
  tk :: bytes
  ltk :: bytes
  pcb_div :: u16
  csrk :: bytes
  ediv :: u16
  enc_rand :: bytes
  rand_enc_proc_state :: u8
  addr_type :: u8
  local_bda :: bytes
  is_pair_cancel :: bool
  discard_sec_req :: bool
  rcvd_cmd_code :: u8
  rcvd_cmd_len :: u8
  total_tx_unacked :: u16
  wait_for_authorization_complete :: bool
  use_static_passkey :: bool
  static_passkey :: u32
  accept_specified_sec_auth :: bool
  origin_loc_auth_req :: u8

text \<open>The block after \<open>memset\<close> to 0.\<close>

definition zeros :: "nat \<Rightarrow> bytes" where "zeros n = replicate n 0"

definition zero_public_key :: tSMP_PUBLIC_KEY where
  "zero_public_key = \<lparr>pk_x = zeros 32, pk_y = zeros 32\<rparr>"

definition zero_oob_data :: tSMP_SC_OOB_DATA where
  "zero_oob_data = \<lparr>
     loc_oob_data = \<lparr>lo_present = False, lo_randomizer = zeros 16, lo_commitment = zeros 16, lo_addr_sent_to = zeros 7,
       lo_private_key_used = zeros 32, lo_publ_key_used = zero_public_key\<rparr>,
     peer_oob_data = \<lparr>po_present = False, po_randomizer = zeros 16, po_commitment = zeros 16, po_addr_rcvd_from = zeros 7\<rparr>\<rparr>"

definition zero_smp_cb :: tSMP_CB where
  "zero_smp_cb = \<lparr>smp_state = 0, smp_role = 0, smp_br_state = 0,
     p_callback = False, trace_level = 0, pairing_bda = zeros 6, derive_lk = False, id_addr_rcvd = False,
     id_addr_type = 0, id_addr = zeros 6, smp_over_br = False, failure = 0, status = 0, flags = 0,
     cb_evt = 0, sec_level = 0, connect_initialized = False, confirm = zeros 16, rconfirm = zeros 16,
     rrand = zeros 16, rand = zeros 16, private_key = zeros 32, dhkey = zeros 32, commitment = zeros 16,
     remote_commitment = zeros 16, local_random = zeros 16, peer_random = zeros 16, dhkey_check = zeros 16,
     remote_dhkey_check = zeros 16, loc_publ_key = zero_public_key, peer_publ_key = zero_public_key,
     req_oob_type = 0, sc_oob_data = zero_oob_data, peer_io_caps = 0, local_io_capability = 0,
     peer_oob_flag = 0, loc_oob_flag = 0, peer_auth_req = 0, loc_auth_req = 0, auth_mode = 0,
     secure_connections_only_mode_required = False, selected_association_model = 0,
     le_secure_connections_mode_is_used = False, le_sc_kp_notif_is_used = False,
     local_keypress_notification = 0, peer_keypress_notification = 0, round = 0, number_to_display = 0,
     mac_key = zeros 16, peer_enc_size = 0, loc_enc_size = 0, peer_i_key = 0, peer_r_key = 0,
     local_i_key = 0, local_r_key = 0, tk = zeros 16, ltk = zeros 16, pcb_div = 0, csrk = zeros 16, ediv = 0,
     enc_rand = zeros 8, rand_enc_proc_state = 0, addr_type = 0, local_bda = zeros 6, is_pair_cancel = False,
     discard_sec_req = False, rcvd_cmd_code = 0, rcvd_cmd_len = 0, total_tx_unacked = 0,
     wait_for_authorization_complete = False, use_static_passkey = False, static_passkey = 0,
     accept_specified_sec_auth = False, origin_loc_auth_req = 0\<rparr>"

section \<open>Around the control block\<close>

text \<open>The fields of a device record (\<open>tBTM_SEC_DEV_REC\<close>) that the security manager uses.\<close>

record dev_rec =
  dr_auth_mode :: u8
  dr_skip_update_conn_param :: bool
  dr_new_encryption_key_is_p256 :: bool
  dr_link_key :: bytes
  dr_enc_init_by_we :: bool
  dr_pseudo_addr :: bytes

record tSMP_IO_REQ =
  io_cap :: u8
  oob_data :: u8
  auth_req :: u8
  max_key_size :: u8
  init_keys :: u8
  ryoc_keys :: u8

record tSMP_CMPL =
  cm_reason :: u8
  cm_sec_level :: u8
  cm_is_pair_cancel :: bool
  cm_smp_over_br :: bool
  cm_auth_mode :: u8

datatype smp_evt_data =
    Evt_Unset | Evt_Passkey u32 | Evt_Io tSMP_IO_REQ | Evt_Oob_Type u8 |
    Evt_Loc_Oob tSMP_LOC_OOB_DATA | Evt_Cmpl tSMP_CMPL

datatype le_key =
    Lenc_Key bytes u16 u8 u8 | Penc_Key bytes bytes u16 u8 u8 | Lid_Key |
    Lcsrk_Key u16 u8 u32 bytes | Pid_Key u8 bytes bytes | Pcsrk_Key u8 u32 bytes

text \<open>The calls that leave the security manager.\<close>

datatype smp_out =
    Out_Timer_Start | Out_Timer_Stop | Out_Timer_Free |
    Out_L2cap u16 bytes bytes | Out_Callback u8 bytes smp_evt_data |
    Out_Save_Key bytes u8 le_key | Out_Clear_Keys bytes |
    Out_Start_Encrypt bytes "bytes option" | Out_Ltk_Reply bytes bytes |
    Out_Update_Conn_Params bytes bool | Out_Idle_Timeout bytes | Out_Remove_Channel u16 bytes |
    Out_Remove_Acl bytes | Out_Connect u16 bytes | Out_Register u16 | Out_Rand | Out_Link_Key bytes bytes u8 | Out_Key_Size bytes u8

text \<open>
  The system: the block, the device records, the calls so far, and a counter that tells the answers of
  the environment apart.  \<open>s_bad\<close> is set by an access outside an array or a recursion deeper than the
  bound; from then on the model says nothing of the code.
\<close>

record smp_sys = tSMP_CB +
  s_dev :: "bytes \<Rightarrow> dev_rec option"
  s_out :: "smp_out list"
  s_clock :: nat
  s_bad :: bool

text \<open>
  The answers.  \<open>e_mem t k\<close>: the k-th allocation of the t-th computation succeeds; \<open>e_stack t\<close>: what an
  uninitialised array holds; the others are named after the function they answer for.
\<close>

record smp_env =
  e_mem :: "nat \<Rightarrow> nat \<Rightarrow> bool"
  e_stack :: "nat \<Rightarrow> bytes"
  e_send_ok :: "nat \<Rightarrow> bool"
  e_rand_ok :: "nat \<Rightarrow> bool"
  e_remote_addr :: "bytes \<Rightarrow> (bytes \<times> u8) option"
  e_local_addr :: "bytes \<Rightarrow> bytes \<times> u8"
  e_controller_addr :: bytes
  e_er :: bytes
  e_irk :: bytes
  e_dhk :: bytes
  e_local_div :: "bytes \<Rightarrow> u16 option"
  e_security_mode :: u8
  e_supports_sc :: bool
  e_link_key_type :: "bytes \<Rightarrow> u8"
  e_accept_auth_enable :: bool
  e_auth_req :: u8
  e_acl_up :: "bytes \<Rightarrow> bool"
  e_lmp_version :: "bytes \<Rightarrow> u8 option"
  e_interop_no_sc :: "bytes \<Rightarrow> bool"
  e_sec_check :: "bytes \<Rightarrow> u8 \<Rightarrow> u8"
  e_start_encrypt :: "nat \<Rightarrow> u8"
  e_callback :: "nat \<Rightarrow> u8 \<Rightarrow> smp_evt_data \<Rightarrow> u8 \<times> smp_evt_data"
  e_ble_role :: "bytes \<Rightarrow> u8"
  e_connect_ok :: "nat \<Rightarrow> bool"

text \<open>What an event carries: the pointer \<open>p_data\<close>, with what it points to.\<close>

datatype smp_data = No_Data | Cmd bytes | Key u8 bytes | Status u8 | Passkey u32 | Oob_Type u8 | Disc_Reason u16 | Sc_Oob tSMP_SC_OOB_DATA

text \<open>\<open>*(UINT8 *)p_data\<close>\<close>

fun data_byte :: "smp_data \<Rightarrow> u8 option" where
  "data_byte No_Data = None"
| "data_byte (Cmd p) = rd p 0"
| "data_byte (Key t p) = Some t"
| "data_byte (Status x) = Some x"
| "data_byte (Passkey x) = Some (ucast x)"
| "data_byte (Oob_Type x) = Some x"
| "data_byte (Disc_Reason x) = Some (ucast x)"
| "data_byte (Sc_Oob x) = Some (if lo_present (loc_oob_data x) then 1 else 0)"

text \<open>\<open>len\<close> bytes at the address, and the bytes from an offset on.\<close>

definition data_bytes :: "nat \<Rightarrow> nat \<Rightarrow> smp_data \<Rightarrow> bytes option" where
  "data_bytes off len d = (case d of Cmd p \<Rightarrow> if off + len \<le> length p then Some (take len (drop off p)) else None | _ \<Rightarrow> None)"

definition bad :: "smp_sys \<Rightarrow> smp_sys" where
  "bad s = s\<lparr>s_bad := True\<rparr>"

definition out :: "smp_out \<Rightarrow> smp_sys \<Rightarrow> smp_sys" where
  "out x s = s\<lparr>s_out := s_out s @ [x], s_clock := s_clock s + 1\<rparr>"

definition tick :: "smp_sys \<Rightarrow> smp_sys" where
  "tick s = s\<lparr>s_clock := s_clock s + 1\<rparr>"

text \<open>The two state machines, as the functions that the action functions call.\<close>

type_synonym smp_event_fun = "u8 \<Rightarrow> smp_data \<Rightarrow> smp_sys \<Rightarrow> smp_sys"

end
