(* ===== verification/SmpSafety.thy ===== *)
theory SmpSafety
  imports SmpMain
begin

text \<open>
  What the tables of the LE security manager guarantee.  The tables are evaluated once, row by row:
  every entry of a map selects an existing row of an existing table, and the rows hold valid codes and
  next states.
\<close>

section \<open>Evaluation of the tables\<close>

lemmas smp_master_tables =
  smp_master_idle_table_def smp_master_wait_for_app_response_table_def
  smp_master_pair_request_response_table_def smp_master_wait_for_confirm_table_def
  smp_master_confirm_table_def smp_master_rand_table_def smp_master_public_key_exchange_table_def
  smp_master_sec_conn_phs1_start_table_def smp_master_wait_commitment_table_def
  smp_master_wait_nonce_table_def smp_master_sec_conn_phs2_start_table_def
  smp_master_wait_dhk_check_table_def smp_master_dhk_check_table_def smp_master_enc_pending_table_def
  smp_master_bond_pending_table_def smp_master_create_local_sec_conn_oob_data_def

lemmas smp_slave_tables =
  smp_slave_idle_table_def smp_slave_wait_for_app_response_table_def smp_slave_sec_request_table_def
  smp_slave_pair_request_response_table_def smp_slave_wait_confirm_table_def
  smp_slave_confirm_table_def smp_slave_rand_table_def smp_slave_public_key_exch_table_def
  smp_slave_sec_conn_phs1_start_table_def smp_slave_wait_commitment_table_def
  smp_slave_wait_nonce_table_def smp_slave_sec_conn_phs2_start_table_def
  smp_slave_wait_dhk_check_table_def smp_slave_dhk_check_table_def smp_slave_enc_pending_table_def
  smp_slave_bond_pending_table_def smp_slave_create_local_sec_conn_oob_data_def

definition smp_states :: "u8 list" where
  "smp_states = [0, 1, 2, 3, 4, 5, 6, 7, 8, 9, 10, 11, 12, 13, 14, 15, 16]"

definition smp_events :: "u8 list" where
  "smp_events = [1, 2, 3, 4, 5, 6, 7, 8, 9, 10, 11, 12, 13, 14, 15, 16, 17, 18, 19, 20, 21, 22, 23, 24,
     25, 26, 27, 28, 29, 30, 31, 32, 33, 34, 35, 36, 37, 38, 39, 40]"

text \<open>
  The one entry that selects a row meant for another event: \<open>DISCARD_SEC_REQ\<close> of a master in
  \<open>SMP_STATE_ENCRYPTION_PENDING\<close> takes the row of \<open>BOND_REQ\<close>.
\<close>

definition smp_mislabelled :: "u8 \<Rightarrow> u8 \<Rightarrow> u8 \<Rightarrow> bool" where
  "smp_mislabelled role st event \<longleftrightarrow>
     role = 0 \<and> st = SMP_STATE_ENCRYPTION_PENDING \<and> event = SMP_DISCARD_SEC_REQ_EVT"

definition entry_ok :: "u8 \<Rightarrow> u8 \<Rightarrow> u8 \<Rightarrow> u8 list list option \<Rightarrow> u8 list \<Rightarrow> u8 \<Rightarrow> bool" where
  "entry_ok role event st tbl labels e \<longleftrightarrow> e = 0 \<or>
     (if e AND 0x80 \<noteq> 0
      then (let i = e AND NOT 0x80 in
              i \<noteq> 0 \<and> unat i \<le> length smp_all_table \<and> smp_all_events ! (unat i - 1) = event)
      else (case tbl of None \<Rightarrow> False
            | Some t \<Rightarrow> unat e \<le> length t \<and>
                (labels ! (unat e - 1) = event \<or> smp_mislabelled role st event)))"

definition entries_ok :: "u8 \<Rightarrow> bool" where
  "entries_ok role \<longleftrightarrow> length (smp_entry_table ! unat role) = 40 \<and>
     list_all (\<lambda>(event, entries). length entries = 17 \<and>
       list_all (\<lambda>(st, tbls, labels, e). entry_ok role event st (tbls ! unat role) (labels ! unat role) e)
         (zip smp_states (zip smp_state_table (zip smp_row_events entries))))
       (zip smp_events (smp_entry_table ! unat role))"

lemma entries_ok_master: "entries_ok 0"
  by (simp add: entries_ok_def smp_entry_table_def smp_master_entry_map_def smp_state_table_def
      smp_row_events_def smp_states_def smp_events_def entry_ok_def smp_all_table_def
      smp_all_events_def smp_mislabelled_def smp_master_tables)

lemma entries_ok_slave: "entries_ok 1"
  by (simp add: entries_ok_def smp_entry_table_def smp_slave_entry_map_def smp_state_table_def
      smp_row_events_def smp_states_def smp_events_def entry_ok_def smp_all_table_def
      smp_all_events_def smp_mislabelled_def smp_slave_tables)

text \<open>The successor states of a state, for the states whose predecessors matter below.\<close>

definition smp_before :: "u8 \<Rightarrow> u8 \<Rightarrow> bool" where
  "smp_before st next \<longleftrightarrow> st = next \<or>
     (if next = SMP_STATE_BOND_PENDING then st = SMP_STATE_ENCRYPTION_PENDING
      else if next = SMP_STATE_DHK_CHECK then st = SMP_STATE_WAIT_DHK_CHECK
      else if next = SMP_STATE_WAIT_DHK_CHECK then st = SMP_STATE_SEC_CONN_PHS2_START
      else if next = SMP_STATE_WAIT_COMMITMENT then st = SMP_STATE_SEC_CONN_PHS1_START
      else if next = SMP_STATE_RAND then st = SMP_STATE_CONFIRM
      else True)"

definition row_ok :: "u8 \<Rightarrow> u8 list \<Rightarrow> bool" where
  "row_ok st row \<longleftrightarrow> length row = 3 \<and> row ! 0 < SMP_SM_NO_ACTION \<and> row ! 1 \<le> SMP_SM_NO_ACTION \<and>
     row ! 2 < SMP_STATE_MAX \<and> smp_before st (row ! 2)"

lemma rows_ok_all: "list_all (\<lambda>st. list_all (row_ok st) smp_all_table) smp_states"
  by (simp add: smp_all_table_def row_ok_def smp_before_def smp_states_def)

lemma rows_ok_master:
  "list_all (\<lambda>(st, tbls). case tbls ! 0 of None \<Rightarrow> True | Some t \<Rightarrow> list_all (row_ok st) t)
     (zip smp_states smp_state_table)"
  by (simp add: smp_states_def smp_state_table_def row_ok_def smp_before_def smp_master_tables)

lemma rows_ok_slave:
  "list_all (\<lambda>(st, tbls). case tbls ! 1 of None \<Rightarrow> True | Some t \<Rightarrow> list_all (row_ok st) t)
     (zip smp_states smp_state_table)"
  by (simp add: smp_states_def smp_state_table_def row_ok_def smp_before_def smp_slave_tables)

section \<open>Lookups\<close>

lemma smp_states_nth: "st < SMP_STATE_MAX \<Longrightarrow> unat st < 17 \<and> smp_states ! unat st = st"
proof -
  assume "st < SMP_STATE_MAX"
  then have *: "unat st < 17" by (simp add: word_less_nat_alt)
  have "map unat smp_states = [0..<17]"
    by (simp add: smp_states_def upt_rec_numeral upt_rec [of 0 17] upt_rec [of "Suc 0" 17] flip: numeral_2_eq_2)
  moreover have "length smp_states = 17" by (simp add: smp_states_def)
  ultimately have "unat (smp_states ! unat st) = unat st"
    using * nth_map [of "unat st" smp_states unat] by simp
  with * show ?thesis by (simp add: word_unat_eq_iff)
qed

lemma smp_events_nth:
  assumes "1 \<le> event" "event \<le> SMP_MAX_EVT"
  shows "unat event - 1 < 40 \<and> smp_events ! (unat event - 1) = event"
proof -
  have *: "unat event \<le> 40" "1 \<le> unat event" using assms by (simp_all add: word_le_nat_alt)
  have "map unat smp_events = map Suc [0..<40]"
    by (simp add: smp_events_def upt_rec_numeral upt_rec [of 0 40] upt_rec [of "Suc 0" 40] flip: numeral_2_eq_2)
  moreover have "length smp_events = 40" by (simp add: smp_events_def)
  moreover have lt: "unat event - 1 < 40" using * by simp
  ultimately have "unat (smp_events ! (unat event - 1)) = Suc (unat event - 1)"
    using nth_map [of "unat event - 1" smp_events unat] by simp
  with * lt show ?thesis by (simp add: word_unat_eq_iff)
qed

lemma role_cases: "(role :: u8) < 2 \<Longrightarrow> role = 0 \<or> role = 1"
  by (simp add: word_less_nat_alt word_unat_eq_iff) arith

lemma entries_ok: "role < 2 \<Longrightarrow> entries_ok role"
  using role_cases [of role] entries_ok_master entries_ok_slave by auto

lemma state_table_dims:
  "length smp_state_table = 17" "length smp_row_events = 17" "length smp_entry_table = 2"
  "length smp_sm_action = 61"
  by (simp_all add: smp_state_table_def smp_row_events_def smp_entry_table_def smp_sm_action_def)

lemma state_table_pairs: "st < SMP_STATE_MAX \<Longrightarrow> length (smp_state_table ! unat st) = 2"
proof -
  have "list_all (\<lambda>t. length t = 2) smp_state_table" by (simp add: smp_state_table_def)
  then show "st < SMP_STATE_MAX \<Longrightarrow> ?thesis"
    using smp_states_nth [of st] by (simp add: list_all_length state_table_dims)
qed

lemma smp_entry:
  assumes "role < 2" "st < SMP_STATE_MAX" "1 \<le> event" "event \<le> SMP_MAX_EVT"
  obtains es e where
    "rd1 (smp_entry_table ! unat role) event = Some es" "rd es (unat st) = Some e"
    "entry_ok role event st (smp_state_table ! unat st ! unat role) (smp_row_events ! unat st ! unat role) e"
proof -
  let ?m = "smp_entry_table ! unat role" and ?i = "unat event - 1"
  note st = smp_states_nth [OF assms(2)] and ev = smp_events_nth [OF assms(3,4)]
  have len: "length ?m = 40" using entries_ok [OF assms(1)] by (simp add: entries_ok_def)
  have *: "length (?m ! ?i) = 17 \<and>
       list_all (\<lambda>(st, tbls, labels, e). entry_ok role event st (tbls ! unat role) (labels ! unat role) e)
         (zip smp_states (zip smp_state_table (zip smp_row_events (?m ! ?i))))"
    using entries_ok [OF assms(1)] ev len
    by (auto simp: entries_ok_def list_all_length smp_events_def dest: spec [of _ ?i])
  have "entry_ok role event st (smp_state_table ! unat st ! unat role)
      (smp_row_events ! unat st ! unat role) (?m ! ?i ! unat st)"
    using * st by (auto simp: list_all_length state_table_dims smp_states_def dest: spec [of _ "unat st"])
  moreover have "rd1 ?m event = Some (?m ! ?i)" "rd (?m ! ?i) (unat st) = Some (?m ! ?i ! unat st)"
    using assms(3) ev len * st by (auto simp: rd1_def rd_def)
  ultimately show thesis using that by blast
qed

text \<open>The row an event selects: one of the common table or of the state's own, and the right one.\<close>

definition smp_selected :: "u8 \<Rightarrow> u8 \<Rightarrow> u8 \<Rightarrow> u8 list \<Rightarrow> bool" where
  "smp_selected role st event row \<longleftrightarrow>
     (\<exists>i < length smp_all_table. row = smp_all_table ! i \<and> smp_all_events ! i = event) \<or>
     (\<exists>t i. smp_state_table ! unat st ! unat role = Some t \<and> i < length t \<and> row = t ! i \<and>
        (smp_row_events ! unat st ! unat role ! i = event \<or> smp_mislabelled role st event))"

lemma smp_lookup_selected:
  assumes "role < 2" "st < SMP_STATE_MAX" "1 \<le> event" "event \<le> SMP_MAX_EVT"
  shows "smp_lookup role st event = Some None \<or>
    (\<exists>row. smp_lookup role st event = Some (Some row) \<and> smp_selected role st event row)"
proof -
  obtain es e where e: "rd1 (smp_entry_table ! unat role) event = Some es" "rd es (unat st) = Some e"
    and ok: "entry_ok role event st (smp_state_table ! unat st ! unat role) (smp_row_events ! unat st ! unat role) e"
    using smp_entry [OF assms] by blast
  have role: "unat role < 2" using assms(1) by (simp add: word_less_nat_alt)
  then have tab: "rd smp_entry_table (unat role) = Some (smp_entry_table ! unat role)"
    by (simp add: rd_def state_table_dims)
  have tab2: "rd smp_state_table (unat st) = Some (smp_state_table ! unat st)"
    "rd (smp_state_table ! unat st) (unat role) = Some (smp_state_table ! unat st ! unat role)"
    using smp_states_nth [OF assms(2)] state_table_pairs [OF assms(2)] role
    by (simp_all add: rd_def state_table_dims)
  consider "e = 0" | "e \<noteq> 0" "e AND 0x80 \<noteq> 0" | "e \<noteq> 0" "e AND 0x80 = 0" by blast
  then show ?thesis
  proof cases
    case 1
    with e assms(4) show ?thesis
      by (simp add: smp_lookup_def tab)
  next
    case 2
    let ?i = "unat (e AND NOT 0x80) - 1"
    have i: "e AND NOT 0x80 \<noteq> 0" "?i < length smp_all_table" "smp_all_events ! ?i = event"
      using ok 2 by (auto simp: entry_ok_def Let_def word_unat_eq_iff)
    then have "rd1 smp_all_table (e AND NOT 0x80) = Some (smp_all_table ! ?i)"
      by (simp add: rd1_def rd_def)
    with e assms(4) 2 have "smp_lookup role st event = Some (Some (smp_all_table ! ?i))"
      by (simp add: smp_lookup_def tab)
    with i show ?thesis by (auto simp: smp_selected_def)
  next
    case 3
    let ?i = "unat e - 1"
    obtain t where t: "smp_state_table ! unat st ! unat role = Some t" "unat e \<le> length t"
        "smp_row_events ! unat st ! unat role ! ?i = event \<or> smp_mislabelled role st event"
      using ok 3 by (auto simp: entry_ok_def split: option.splits)
    moreover have i: "?i < length t" using t(2) 3(1) by (auto simp: word_unat_eq_iff)
    then have "rd1 t e = Some (t ! ?i)" using 3(1) by (simp add: rd1_def rd_def)
    with e assms(4) t(1) 3 have "smp_lookup role st event = Some (Some (t ! ?i))"
      by (simp add: smp_lookup_def tab tab2)
    ultimately show ?thesis using i by (auto simp: smp_selected_def)
  qed
qed

lemma smp_selected_row:
  assumes "smp_selected role st event row" "role < 2" "st < SMP_STATE_MAX"
  shows "row_ok st row"
proof -
  note st = smp_states_nth [OF assms(3)]
  have "list_all (row_ok st) smp_all_table"
    using rows_ok_all st by (auto simp: list_all_length smp_states_def dest: spec [of _ "unat st"])
  moreover have "case smp_state_table ! unat st ! unat role of None \<Rightarrow> True | Some t \<Rightarrow> list_all (row_ok st) t"
    using role_cases [OF assms(2)] rows_ok_master rows_ok_slave st
    by (auto simp: list_all_length state_table_dims smp_states_def split: option.splits dest: spec [of _ "unat st"])
  ultimately show ?thesis
    using assms(1) by (auto simp: smp_selected_def list_all_length)
qed

section \<open>The driver stays inside its tables\<close>

definition smp_row_actions :: "u8 list \<Rightarrow> smp_act list" where
  "smp_row_actions row = map (\<lambda>a. smp_sm_action ! unat a) (takeWhile (\<lambda>a. a \<noteq> SMP_SM_NO_ACTION) (take 2 row))"

lemma smp_actions_run:
  assumes "list_all (\<lambda>a. a \<le> SMP_SM_NO_ACTION) as"
  shows "smp_actions act smp_sm_action SMP_SM_NO_ACTION d as cb =
    Some (fold (\<lambda>f. act f d) (map (\<lambda>a. smp_sm_action ! unat a) (takeWhile (\<lambda>a. a \<noteq> SMP_SM_NO_ACTION) as)) cb)"
  using assms
proof (induction as arbitrary: cb)
  case (Cons a as)
  have "a \<noteq> SMP_SM_NO_ACTION \<Longrightarrow> rd smp_sm_action (unat a) = Some (smp_sm_action ! unat a)"
    using Cons.prems by (simp add: rd_def state_table_dims word_le_nat_alt word_unat_eq_iff)
  with Cons show ?case by simp
qed simp

lemma length_3_cases: "length xs = 3 \<Longrightarrow> xs = [xs ! 0, xs ! 1, xs ! 2]"
  by (auto simp: numeral_3_eq_3 length_Suc_conv)

lemma smp_sm_event_row:
  assumes "smp_lookup (smp_role cb) (smp_state cb) event = Some (Some row)"
    and "row_ok (smp_state cb) row" and "smp_state cb < SMP_STATE_MAX"
  shows "smp_sm_event act cb event d =
    Some (fold (\<lambda>f. act f d) (smp_row_actions row) (cb\<lparr>smp_state := row ! 2\<rparr>))"
proof -
  obtain a b n where row: "row = [a, b, n]"
    using assms(2) length_3_cases [of row] unfolding row_ok_def by blast
  have ok: "list_all (\<lambda>a. a \<le> SMP_SM_NO_ACTION) [a, b]" "n < SMP_STATE_MAX"
    using assms(2) row by (auto simp: row_ok_def)
  show ?thesis
    using assms(1,3) smp_actions_run [OF ok(1), of act d] ok(2)
    unfolding smp_sm_event_def smp_row_actions_def
    by (simp add: row rd_def smp_set_state_def not_le)
qed

lemma smp_sm_event_ignored:
  "smp_lookup (smp_role cb) (smp_state cb) event = Some None \<Longrightarrow> smp_sm_event act cb event d = Some cb"
  by (simp add: smp_sm_event_def)

lemma smp_lookup_unknown: "role < 2 \<Longrightarrow> SMP_MAX_EVT < event \<Longrightarrow> smp_lookup role st event = Some None"
  by (auto simp: smp_lookup_def rd_def state_table_dims word_less_nat_alt word_le_nat_alt)

text \<open>
  Whatever the action functions do, the driver stays inside its tables for every event but 0
  and every state of the control block of a master or a slave: it never reads past a table, never
  uses the table the master does not have and never calls through an action code that is none.  It
  either leaves the block alone or sets a valid state and then runs one or two actions, in the
  order of the row; and the row is the one the comments of the tables give for the event, but for
  the entry of DISCARD_SEC_REQ, which takes the row of BOND_REQ.
\<close>
theorem smp_sm_event_in_bounds:
  assumes "smp_role cb < 2" and "event \<noteq> 0"
  shows "smp_sm_event act cb event d = Some cb \<or>
    (\<exists>row. smp_selected (smp_role cb) (smp_state cb) event row \<and> row ! 2 < SMP_STATE_MAX \<and>
       length (smp_row_actions row) \<in> {1, 2} \<and>
       smp_sm_event act cb event d =
         Some (fold (\<lambda>f. act f d) (smp_row_actions row) (cb\<lparr>smp_state := row ! 2\<rparr>)))"
proof (cases "smp_state cb < SMP_STATE_MAX \<and> event \<le> SMP_MAX_EVT")
  case True
  then have st: "smp_state cb < SMP_STATE_MAX" and ev: "1 \<le> event" "event \<le> SMP_MAX_EVT"
    using assms(2) by (auto simp: word_le_nat_alt word_unat_eq_iff)
  from smp_lookup_selected [OF assms(1) st ev] show ?thesis
  proof
    assume "\<exists>row. smp_lookup (smp_role cb) (smp_state cb) event = Some (Some row) \<and>
      smp_selected (smp_role cb) (smp_state cb) event row"
    then obtain row where row: "smp_lookup (smp_role cb) (smp_state cb) event = Some (Some row)"
      and sel: "smp_selected (smp_role cb) (smp_state cb) event row" by blast
    have ok: "row_ok (smp_state cb) row" by (rule smp_selected_row [OF sel assms(1) st])
    then obtain a b n where abn: "row = [a, b, n]"
      using length_3_cases [of row] unfolding row_ok_def by blast
    have "length (smp_row_actions row) \<in> {1, 2}"
      using ok by (auto simp: smp_row_actions_def row_ok_def abn)
    moreover have "row ! 2 < SMP_STATE_MAX" using ok by (simp add: row_ok_def)
    ultimately show ?thesis
      by (intro disjI2 exI [of _ row] conjI sel smp_sm_event_row [OF row ok st])
  qed (simp add: smp_sm_event_ignored)
next
  case False
  then show ?thesis
    using smp_lookup_unknown [OF assms(1), of event]
    by (auto simp: smp_sm_event_def not_le not_less)
qed

theorem smp_sm_event_in_bounds_witness:
  "smp_sm_event (\<lambda>f d c. c) \<lparr>smp_state = 3, smp_role = 0, smp_br_state = 0\<rparr> 2 () \<noteq> None"
  using smp_sm_event_in_bounds [of "\<lparr>smp_state = 3, smp_role = 0, smp_br_state = 0\<rparr>" 2 "\<lambda>f d c. c" "()"]
  by auto

section \<open>Keys are taken only while bonding\<close>

definition smp_key_action :: "u8 \<Rightarrow> smp_act" where
  "smp_key_action event =
     (if event = SMP_ENCRPTION_INFO_EVT then smp_proc_enc_info
      else if event = SMP_MASTER_ID_EVT then smp_proc_master_id
      else if event = SMP_ID_INFO_EVT then smp_proc_id_info
      else if event = SMP_ID_ADDR_EVT then smp_proc_id_addr
      else smp_proc_srk_info)"

abbreviation smp_key_events :: "u8 set" where
  "smp_key_events \<equiv> {SMP_ENCRPTION_INFO_EVT, SMP_MASTER_ID_EVT, SMP_ID_INFO_EVT, SMP_ID_ADDR_EVT, SMP_SIGN_INFO_EVT}"

lemma key_labels:
  "list_all (\<lambda>(st, labels). st = SMP_STATE_BOND_PENDING \<or>
     list_all (\<lambda>l. list_all (\<lambda>e. e < SMP_ENCRPTION_INFO_EVT \<or> SMP_SIGN_INFO_EVT < e) l) labels)
   (zip smp_states smp_row_events)"
  "list_all (\<lambda>e. e < SMP_ENCRPTION_INFO_EVT \<or> SMP_SIGN_INFO_EVT < e) smp_all_events"
  by (simp_all add: smp_states_def smp_row_events_def smp_all_events_def)

lemma row_events_dims:
  "list_all (\<lambda>(t, l). list_all2 (\<lambda>a b. case a of None \<Rightarrow> True | Some a \<Rightarrow> length a = length b) t l)
     (zip smp_state_table smp_row_events)"
  "length smp_all_events = length smp_all_table"
  by (simp_all add: smp_state_table_def smp_row_events_def smp_all_events_def smp_all_table_def
      smp_master_tables smp_slave_tables)

lemma smp_selected_label:
  assumes "smp_selected role st event row" "role < 2" "st < SMP_STATE_MAX" "\<not> smp_mislabelled role st event"
  shows "event \<in> set smp_all_events \<or> event \<in> set (smp_row_events ! unat st ! unat role)"
proof -
  note st = smp_states_nth [OF assms(3)] state_table_pairs [OF assms(3)]
  have "list_all2 (\<lambda>a b. case a of None \<Rightarrow> True | Some a \<Rightarrow> length a = length b)
      (smp_state_table ! unat st) (smp_row_events ! unat st)"
    using row_events_dims(1) st by (auto simp: list_all_length state_table_dims dest: spec [of _ "unat st"])
  then have "smp_state_table ! unat st ! unat role = Some t \<Longrightarrow>
      length t = length (smp_row_events ! unat st ! unat role)" for t
    using st assms(2) by (auto simp: list_all2_conv_all_nth word_less_nat_alt dest: spec [of _ "unat role"])
  then show ?thesis
    using assms(1,4) row_events_dims(2) unfolding smp_selected_def by (auto intro: nth_mem)
qed

lemma smp_lookup_unlabelled:
  assumes "role < 2" "st < SMP_STATE_MAX" "1 \<le> event" "event \<le> SMP_MAX_EVT"
    and "\<not> smp_mislabelled role st event"
    and "event \<notin> set smp_all_events" "event \<notin> set (smp_row_events ! unat st ! unat role)"
  shows "smp_lookup role st event = Some None"
  using smp_lookup_selected [OF assms(1-4)] smp_selected_label [OF _ assms(1,2,5)] assms(6,7) by blast

lemma key_lookup_elsewhere:
  assumes "role < 2" "st < SMP_STATE_MAX" "st \<noteq> SMP_STATE_BOND_PENDING" "event \<in> smp_key_events"
  shows "smp_lookup role st event = Some None"
proof -
  note st = smp_states_nth [OF assms(2)]
  have len: "length (smp_row_events ! unat st) = 2"
  proof -
    have "list_all (\<lambda>l. length l = 2) smp_row_events" by (simp add: smp_row_events_def)
    with st show ?thesis by (simp add: list_all_length state_table_dims)
  qed
  have ev: "1 \<le> event" "event \<le> SMP_MAX_EVT" "\<not> smp_mislabelled role st event"
      "\<not> (event < SMP_ENCRPTION_INFO_EVT \<or> SMP_SIGN_INFO_EVT < event)"
    using assms(4) by (auto simp: smp_mislabelled_def)
  have "list_all (list_all (\<lambda>e. e < SMP_ENCRPTION_INFO_EVT \<or> SMP_SIGN_INFO_EVT < e)) (smp_row_events ! unat st)"
    using key_labels(1) st assms(3)
    by (auto simp: list_all_length [of _ "zip _ _"] state_table_dims smp_states_def dest: spec [of _ "unat st"])
  then have "list_all (\<lambda>e. e < SMP_ENCRPTION_INFO_EVT \<or> SMP_SIGN_INFO_EVT < e)
      (smp_row_events ! unat st ! unat role)"
    using assms(1) len by (simp add: list_all_length [of _ "smp_row_events ! unat st"] word_less_nat_alt)
  then have "event \<notin> set (smp_row_events ! unat st ! unat role)"
    using ev(4) by (auto simp: list_all_iff)
  moreover have "event \<notin> set smp_all_events" using key_labels(2) ev(4) by (auto simp: list_all_iff)
  ultimately show ?thesis using smp_lookup_unlabelled assms(1,2) ev by blast
qed

lemma key_lookup_bonding_master:
  "list_all (\<lambda>(event, code). smp_lookup 0 SMP_STATE_BOND_PENDING event =
      Some (Some [code, SMP_SM_NO_ACTION, SMP_STATE_BOND_PENDING]))
    [(SMP_ENCRPTION_INFO_EVT, SMP_PROC_ENC_INFO), (SMP_MASTER_ID_EVT, SMP_PROC_MASTER_ID),
     (SMP_ID_INFO_EVT, SMP_PROC_ID_INFO), (SMP_ID_ADDR_EVT, SMP_PROC_ID_ADDR), (SMP_SIGN_INFO_EVT, SMP_PROC_SRK_INFO)]"
  by (simp add: smp_lookup_def rd_def rd1_def smp_entry_table_def smp_master_entry_map_def
      smp_state_table_def smp_master_bond_pending_table_def)

lemma key_lookup_bonding_slave:
  "list_all (\<lambda>(event, code). smp_lookup 1 SMP_STATE_BOND_PENDING event =
      Some (Some [code, SMP_SM_NO_ACTION, SMP_STATE_BOND_PENDING]))
    [(SMP_ENCRPTION_INFO_EVT, SMP_PROC_ENC_INFO), (SMP_MASTER_ID_EVT, SMP_PROC_MASTER_ID),
     (SMP_ID_INFO_EVT, SMP_PROC_ID_INFO), (SMP_ID_ADDR_EVT, SMP_PROC_ID_ADDR), (SMP_SIGN_INFO_EVT, SMP_PROC_SRK_INFO)]"
  by (simp add: smp_lookup_def rd_def rd1_def smp_entry_table_def smp_slave_entry_map_def
      smp_state_table_def smp_slave_bond_pending_table_def)

lemma smp_action_codes:
  "smp_sm_action ! 13 = smp_proc_enc_info" "smp_sm_action ! 14 = smp_proc_master_id"
  "smp_sm_action ! 15 = smp_proc_id_info" "smp_sm_action ! 16 = smp_proc_id_addr"
  "smp_sm_action ! 17 = smp_proc_srk_info"
  by (simp_all add: smp_sm_action_def)

lemma key_lookup_bonding:
  assumes "role < 2" "event \<in> smp_key_events"
  obtains code where "smp_lookup role SMP_STATE_BOND_PENDING event =
      Some (Some [code, SMP_SM_NO_ACTION, SMP_STATE_BOND_PENDING])"
    "code < SMP_SM_NO_ACTION" "smp_sm_action ! unat code = smp_key_action event"
  using role_cases [OF assms(1)] key_lookup_bonding_master key_lookup_bonding_slave assms(2)
  by (auto simp: smp_key_action_def smp_action_codes)

text \<open>
  C24: The five messages that carry keys (encryption information, master identification, identity
  information, identity address and signing information) are processed while bonds are pending and
  in no other state: there each runs its own action function once and leaves the state; anywhere
  else they change nothing, for a master and for a slave.
\<close>
theorem smp_keys_only_while_bonding:
  assumes "smp_role cb < 2" and "event \<in> smp_key_events"
  shows "smp_sm_event act cb event d =
    Some (if smp_state cb = SMP_STATE_BOND_PENDING then act (smp_key_action event) d cb else cb)"
proof (cases "smp_state cb < SMP_STATE_MAX")
  case True
  show ?thesis
  proof (cases "smp_state cb = SMP_STATE_BOND_PENDING")
    case bond: True
    obtain code where c: "smp_lookup (smp_role cb) SMP_STATE_BOND_PENDING event =
        Some (Some [code, SMP_SM_NO_ACTION, SMP_STATE_BOND_PENDING])"
      "code < SMP_SM_NO_ACTION" "smp_sm_action ! unat code = smp_key_action event"
      using key_lookup_bonding [OF assms] by blast
    have "row_ok (smp_state cb) [code, SMP_SM_NO_ACTION, SMP_STATE_BOND_PENDING]"
      using c(2) bond by (simp add: row_ok_def smp_before_def)
    then have "smp_sm_event act cb event d =
        Some (act (smp_key_action event) d (cb\<lparr>smp_state := SMP_STATE_BOND_PENDING\<rparr>))"
      using smp_sm_event_row [of cb event "[code, SMP_SM_NO_ACTION, SMP_STATE_BOND_PENDING]" act d] True c bond
      by (simp add: smp_row_actions_def less_le)
    also have "cb\<lparr>smp_state := SMP_STATE_BOND_PENDING\<rparr> = cb" using bond by (cases cb) simp
    finally show ?thesis using bond by simp
  next
    case False
    with key_lookup_elsewhere [OF assms(1) True False assms(2)] show ?thesis
      by (simp add: smp_sm_event_ignored)
  qed
next
  case False
  then show ?thesis by (auto simp: smp_sm_event_def not_less)
qed

theorem smp_keys_only_while_bonding_witness:
  "smp_sm_event (\<lambda>f d c. if f = smp_proc_id_info then c\<lparr>smp_br_state := 1\<rparr> else c)
     \<lparr>smp_state = SMP_STATE_BOND_PENDING, smp_role = 1, smp_br_state = 0\<rparr> SMP_ID_INFO_EVT () =
   Some \<lparr>smp_state = SMP_STATE_BOND_PENDING, smp_role = 1, smp_br_state = 1\<rparr>"
  using smp_keys_only_while_bonding [of "\<lparr>smp_state = SMP_STATE_BOND_PENDING, smp_role = 1, smp_br_state = 0\<rparr>"
      SMP_ID_INFO_EVT "\<lambda>f d c. if f = smp_proc_id_info then c\<lparr>smp_br_state := 1\<rparr> else c" "()"]
  by (simp add: smp_key_action_def)

section \<open>Aborts\<close>

text \<open>The states in which no pairing is under way, by role.\<close>

definition smp_resting :: "u8 \<Rightarrow> u8 \<Rightarrow> bool" where
  "smp_resting role st \<longleftrightarrow> st = SMP_STATE_IDLE \<or> st = SMP_STATE_CREATE_LOCAL_SEC_CONN_OOB_DATA \<or>
     (role = 0 \<and> st = SMP_STATE_SEC_REQ_PENDING)"

lemma abort_entries:
  "smp_master_entry_map ! 18 = [3, 0x83, 0, 0x83, 0x83, 0x83, 0x83, 0x83, 0x83, 0x83, 0x83, 0x83, 0x83, 0x83, 0x83, 0x83, 0]"
  "smp_slave_entry_map ! 18 = [0, 0x83, 0x83, 0x83, 0x83, 0x83, 0x83, 0x83, 0x83, 0x83, 0x83, 0x83, 0x83, 0x83, 0x83, 0x83, 0]"
  "smp_master_entry_map ! 22 = [4, 0x82, 0, 0x82, 0x82, 0x82, 0x82, 0x82, 0x82, 0x82, 0x82, 0x82, 0x82, 0x82, 0x82, 0x82, 0]"
  "smp_slave_entry_map ! 22 = [0, 0x82, 0x82, 0x82, 0x82, 0x82, 0x82, 0x82, 0x82, 0x82, 0x82, 0x82, 0x82, 0x82, 0x82, 0x82, 0]"
  "length smp_master_entry_map = 40" "length smp_slave_entry_map = 40"
  by (simp_all add: smp_master_entry_map_def smp_slave_entry_map_def)

lemma abort_rows:
  "rd smp_all_table 0 = Some [SMP_PROC_PAIR_FAIL, SMP_PAIRING_CMPL, SMP_STATE_IDLE]"
  "rd smp_all_table (Suc 0) = Some [SMP_SEND_PAIR_FAIL, SMP_PAIRING_CMPL, SMP_STATE_IDLE]"
  "rd smp_all_table 2 = Some [SMP_PAIR_TERMINATE, SMP_SM_NO_ACTION, SMP_STATE_IDLE]"
  by (simp_all add: smp_all_table_def rd_def)

lemma abort_lookups:
  "list_all (\<lambda>st. list_all (\<lambda>role. smp_resting role st \<or>
       smp_lookup role st SMP_L2CAP_DISCONN_EVT = Some (Some [SMP_PAIR_TERMINATE, SMP_SM_NO_ACTION, SMP_STATE_IDLE]) \<and>
       smp_lookup role st SMP_AUTH_CMPL_EVT = Some (Some [SMP_SEND_PAIR_FAIL, SMP_PAIRING_CMPL, SMP_STATE_IDLE]))
     [0, 1]) smp_states"
  by (simp add: smp_states_def smp_resting_def smp_lookup_def smp_entry_table_def rd1_def abort_rows
      rd_def [of smp_master_entry_map] rd_def [of smp_slave_entry_map] rd_def [of "_ # _"] abort_entries)

lemma abort_actions:
  "smp_sm_action ! 31 = smp_pair_terminate" "smp_sm_action ! 4 = smp_send_pair_fail"
  "smp_sm_action ! 27 = smp_pairing_cmpl"
  by (simp_all add: smp_sm_action_def)

text \<open>
  A disconnection or the end of the authentication ends the pairing in every state in which one
  is under way: the machine is idle before the first action runs, then a disconnection terminates
  the pairing, and the end of the authentication sends the failure before it completes the pairing.
\<close>
theorem smp_abort:
  assumes "smp_role cb < 2" and "smp_state cb < SMP_STATE_MAX" and "\<not> smp_resting (smp_role cb) (smp_state cb)"
  shows "smp_sm_event act cb SMP_L2CAP_DISCONN_EVT d =
      Some (act smp_pair_terminate d (cb\<lparr>smp_state := SMP_STATE_IDLE\<rparr>)) \<and>
    smp_sm_event act cb SMP_AUTH_CMPL_EVT d =
      Some (act smp_pairing_cmpl d (act smp_send_pair_fail d (cb\<lparr>smp_state := SMP_STATE_IDLE\<rparr>)))"
proof -
  have "smp_state cb \<in> set smp_states" "smp_role cb \<in> set [0, 1]"
    using smp_states_nth [OF assms(2)] role_cases [OF assms(1)] nth_mem [of "unat (smp_state cb)" smp_states]
    by (auto simp: smp_states_def)
  then have l: "smp_lookup (smp_role cb) (smp_state cb) SMP_L2CAP_DISCONN_EVT =
        Some (Some [SMP_PAIR_TERMINATE, SMP_SM_NO_ACTION, SMP_STATE_IDLE])"
      "smp_lookup (smp_role cb) (smp_state cb) SMP_AUTH_CMPL_EVT =
        Some (Some [SMP_SEND_PAIR_FAIL, SMP_PAIRING_CMPL, SMP_STATE_IDLE])"
    using abort_lookups assms(3) unfolding list_all_iff by blast+
  have ok: "row_ok (smp_state cb) [SMP_PAIR_TERMINATE, SMP_SM_NO_ACTION, SMP_STATE_IDLE]"
    "row_ok (smp_state cb) [SMP_SEND_PAIR_FAIL, SMP_PAIRING_CMPL, SMP_STATE_IDLE]"
    by (simp_all add: row_ok_def smp_before_def)
  show ?thesis
    unfolding smp_sm_event_row [OF l(1) ok(1) assms(2)] smp_sm_event_row [OF l(2) ok(2) assms(2)]
    by (simp add: smp_row_actions_def abort_actions)
qed

theorem smp_abort_witness:
  "smp_sm_event (\<lambda>f d c. c) \<lparr>smp_state = SMP_STATE_RAND, smp_role = 0, smp_br_state = 0\<rparr> SMP_L2CAP_DISCONN_EVT () =
     Some \<lparr>smp_state = SMP_STATE_IDLE, smp_role = 0, smp_br_state = 0\<rparr>"
  using smp_abort [of "\<lparr>smp_state = SMP_STATE_RAND, smp_role = 0, smp_br_state = 0\<rparr>" "\<lambda>f d c. c" "()"]
  by (simp add: smp_resting_def)

text \<open>
  For a master that waits for encryption, the event that discards the security request has the
  effect of the request to bond: the machine moves on to bonding and distributes its keys, as for
  BOND_REQ, the event the selected row is labelled with.
\<close>
theorem smp_discard_distributes_keys:
  assumes "smp_role cb = 0" and "smp_state cb = SMP_STATE_ENCRYPTION_PENDING"
    and "event \<in> {SMP_BOND_REQ_EVT, SMP_DISCARD_SEC_REQ_EVT}"
  shows "smp_sm_event act cb event d =
    Some (act smp_key_distribution d (cb\<lparr>smp_state := SMP_STATE_BOND_PENDING\<rparr>))"
proof -
  have l: "list_all (\<lambda>event. smp_lookup 0 SMP_STATE_ENCRYPTION_PENDING event =
      Some (Some [SMP_KEY_DISTRIBUTE, SMP_SM_NO_ACTION, SMP_STATE_BOND_PENDING]))
      [SMP_BOND_REQ_EVT, SMP_DISCARD_SEC_REQ_EVT]"
    by (simp add: smp_lookup_def rd_def rd1_def smp_entry_table_def smp_master_entry_map_def
        smp_state_table_def smp_master_enc_pending_table_def)
  have ok: "row_ok SMP_STATE_ENCRYPTION_PENDING [SMP_KEY_DISTRIBUTE, SMP_SM_NO_ACTION, SMP_STATE_BOND_PENDING]"
    by (simp add: row_ok_def smp_before_def)
  show ?thesis
    using smp_sm_event_row [of cb event "[SMP_KEY_DISTRIBUTE, SMP_SM_NO_ACTION, SMP_STATE_BOND_PENDING]" act d]
      l ok assms by (auto simp: smp_row_actions_def smp_sm_action_def)
qed

theorem smp_discard_distributes_keys_witness:
  "smp_sm_event (\<lambda>f d c. c) \<lparr>smp_state = SMP_STATE_ENCRYPTION_PENDING, smp_role = 0, smp_br_state = 0\<rparr>
     SMP_DISCARD_SEC_REQ_EVT () =
   Some \<lparr>smp_state = SMP_STATE_BOND_PENDING, smp_role = 0, smp_br_state = 0\<rparr>"
  using smp_discard_distributes_keys [of
      "\<lparr>smp_state = SMP_STATE_ENCRYPTION_PENDING, smp_role = 0, smp_br_state = 0\<rparr>"
      SMP_DISCARD_SEC_REQ_EVT "\<lambda>f d c. c" "()"]
  by simp

section \<open>Names\<close>

text \<open>
  The names the traces print: every state, in or out of range, has one; an event has one but for
  event 0, whose name is read from before the table.
\<close>

lemma smp_get_state_name_defined: "smp_get_state_name st \<noteq> None"
proof -
  have "length smp_state_name = 18" by (simp add: smp_state_name_def)
  then show ?thesis
    by (auto simp: smp_get_state_name_def rd_def word_less_nat_alt)
qed

lemma smp_get_event_name_defined: "smp_get_event_name event = None \<longleftrightarrow> event = 0"
proof -
  have "length smp_event_name = 41" by (simp add: smp_event_name_def)
  then show ?thesis
    by (auto simp: smp_get_event_name_def rd_def rd1_def word_le_nat_alt word_less_nat_alt)
qed

end
