(* ===== verification/SmpBr.thy ===== *)
theory SmpBr
  imports SmpSafety
begin

text \<open>
  The state machine of the security manager over BR/EDR, \<open>stack/smp/smp_br_main.c\<close>, in the manner
  of \<open>SmpMain\<close>: constants, tables, driver and what the tables guarantee.  The enumeration of the
  action codes has names of its own in the C file; the names it shares with \<open>smp_main.c\<close>, with other
  values, have the prefix \<open>BR_\<close> here.
\<close>

unbundle bit_operations_syntax

section \<open>States, events and action codes\<close>

abbreviation (input) SMP_BR_STATE_IDLE :: u8 where "SMP_BR_STATE_IDLE \<equiv> 0"
abbreviation (input) SMP_BR_STATE_WAIT_APP_RSP :: u8 where "SMP_BR_STATE_WAIT_APP_RSP \<equiv> 1"
abbreviation (input) SMP_BR_STATE_PAIR_REQ_RSP :: u8 where "SMP_BR_STATE_PAIR_REQ_RSP \<equiv> 2"
abbreviation (input) SMP_BR_STATE_BOND_PENDING :: u8 where "SMP_BR_STATE_BOND_PENDING \<equiv> 3"
abbreviation (input) SMP_BR_STATE_MAX :: u8 where "SMP_BR_STATE_MAX \<equiv> 4"

abbreviation (input) SMP_BR_PAIRING_REQ_EVT :: u8 where "SMP_BR_PAIRING_REQ_EVT \<equiv> 1"
abbreviation (input) SMP_BR_PAIRING_RSP_EVT :: u8 where "SMP_BR_PAIRING_RSP_EVT \<equiv> 2"
abbreviation (input) SMP_BR_CONFIRM_EVT :: u8 where "SMP_BR_CONFIRM_EVT \<equiv> 3"
abbreviation (input) SMP_BR_RAND_EVT :: u8 where "SMP_BR_RAND_EVT \<equiv> 4"
abbreviation (input) SMP_BR_PAIRING_FAILED_EVT :: u8 where "SMP_BR_PAIRING_FAILED_EVT \<equiv> 5"
abbreviation (input) SMP_BR_ENCRPTION_INFO_EVT :: u8 where "SMP_BR_ENCRPTION_INFO_EVT \<equiv> 6"
abbreviation (input) SMP_BR_MASTER_ID_EVT :: u8 where "SMP_BR_MASTER_ID_EVT \<equiv> 7"
abbreviation (input) SMP_BR_ID_INFO_EVT :: u8 where "SMP_BR_ID_INFO_EVT \<equiv> 8"
abbreviation (input) SMP_BR_ID_ADDR_EVT :: u8 where "SMP_BR_ID_ADDR_EVT \<equiv> 9"
abbreviation (input) SMP_BR_SIGN_INFO_EVT :: u8 where "SMP_BR_SIGN_INFO_EVT \<equiv> 10"
abbreviation (input) SMP_BR_SECURITY_REQ_EVT :: u8 where "SMP_BR_SECURITY_REQ_EVT \<equiv> 11"
abbreviation (input) SMP_BR_PAIR_PUBLIC_KEY_EVT :: u8 where "SMP_BR_PAIR_PUBLIC_KEY_EVT \<equiv> 12"
abbreviation (input) SMP_BR_PAIR_DHKEY_CHCK_EVT :: u8 where "SMP_BR_PAIR_DHKEY_CHCK_EVT \<equiv> 13"
abbreviation (input) SMP_BR_PAIR_KEYPR_NOTIF_EVT :: u8 where "SMP_BR_PAIR_KEYPR_NOTIF_EVT \<equiv> 14"
abbreviation (input) SMP_BR_KEY_READY_EVT :: u8 where "SMP_BR_KEY_READY_EVT \<equiv> 15"
abbreviation (input) SMP_BR_ENCRYPTED_EVT :: u8 where "SMP_BR_ENCRYPTED_EVT \<equiv> 16"
abbreviation (input) SMP_BR_L2CAP_CONN_EVT :: u8 where "SMP_BR_L2CAP_CONN_EVT \<equiv> 17"
abbreviation (input) SMP_BR_L2CAP_DISCONN_EVT :: u8 where "SMP_BR_L2CAP_DISCONN_EVT \<equiv> 18"
abbreviation (input) SMP_BR_KEYS_RSP_EVT :: u8 where "SMP_BR_KEYS_RSP_EVT \<equiv> 19"
abbreviation (input) SMP_BR_API_SEC_GRANT_EVT :: u8 where "SMP_BR_API_SEC_GRANT_EVT \<equiv> 20"
abbreviation (input) SMP_BR_TK_REQ_EVT :: u8 where "SMP_BR_TK_REQ_EVT \<equiv> 21"
abbreviation (input) SMP_BR_AUTH_CMPL_EVT :: u8 where "SMP_BR_AUTH_CMPL_EVT \<equiv> 22"
abbreviation (input) SMP_BR_ENC_REQ_EVT :: u8 where "SMP_BR_ENC_REQ_EVT \<equiv> 23"
abbreviation (input) SMP_BR_BOND_REQ_EVT :: u8 where "SMP_BR_BOND_REQ_EVT \<equiv> 24"
abbreviation (input) SMP_BR_DISCARD_SEC_REQ_EVT :: u8 where "SMP_BR_DISCARD_SEC_REQ_EVT \<equiv> 25"
abbreviation (input) SMP_BR_MAX_EVT :: u8 where "SMP_BR_MAX_EVT \<equiv> 26"

abbreviation (input) BR_SMP_SEND_PAIR_REQ :: u8 where "BR_SMP_SEND_PAIR_REQ \<equiv> 0"
abbreviation (input) SMP_BR_SEND_PAIR_RSP :: u8 where "SMP_BR_SEND_PAIR_RSP \<equiv> 1"
abbreviation (input) BR_SMP_SEND_PAIR_FAIL :: u8 where "BR_SMP_SEND_PAIR_FAIL \<equiv> 2"
abbreviation (input) BR_SMP_SEND_ID_INFO :: u8 where "BR_SMP_SEND_ID_INFO \<equiv> 3"
abbreviation (input) SMP_BR_PROC_PAIR_CMD :: u8 where "SMP_BR_PROC_PAIR_CMD \<equiv> 4"
abbreviation (input) BR_SMP_PROC_PAIR_FAIL :: u8 where "BR_SMP_PROC_PAIR_FAIL \<equiv> 5"
abbreviation (input) BR_SMP_PROC_ID_INFO :: u8 where "BR_SMP_PROC_ID_INFO \<equiv> 6"
abbreviation (input) BR_SMP_PROC_ID_ADDR :: u8 where "BR_SMP_PROC_ID_ADDR \<equiv> 7"
abbreviation (input) BR_SMP_PROC_SRK_INFO :: u8 where "BR_SMP_PROC_SRK_INFO \<equiv> 8"
abbreviation (input) SMP_BR_PROC_SEC_GRANT :: u8 where "SMP_BR_PROC_SEC_GRANT \<equiv> 9"
abbreviation (input) SMP_BR_PROC_SL_KEYS_RSP :: u8 where "SMP_BR_PROC_SL_KEYS_RSP \<equiv> 10"
abbreviation (input) SMP_BR_KEY_DISTRIBUTION :: u8 where "SMP_BR_KEY_DISTRIBUTION \<equiv> 11"
abbreviation (input) SMP_BR_PAIRING_COMPLETE :: u8 where "SMP_BR_PAIRING_COMPLETE \<equiv> 12"
abbreviation (input) BR_SMP_SEND_APP_CBACK :: u8 where "BR_SMP_SEND_APP_CBACK \<equiv> 13"
abbreviation (input) SMP_BR_CHECK_AUTH_REQ :: u8 where "SMP_BR_CHECK_AUTH_REQ \<equiv> 14"
abbreviation (input) BR_SMP_PAIR_TERMINATE :: u8 where "BR_SMP_PAIR_TERMINATE \<equiv> 15"
abbreviation (input) BR_SMP_IDLE_TERMINATE :: u8 where "BR_SMP_IDLE_TERMINATE \<equiv> 16"
abbreviation (input) SMP_BR_SM_NO_ACTION :: u8 where "SMP_BR_SM_NO_ACTION \<equiv> 17"

definition smp_br_sm_action :: "smp_act list" where
  "smp_br_sm_action = [
    smp_send_pair_req, smp_br_send_pair_response, smp_send_pair_fail, smp_send_id_info,
    smp_br_process_pairing_command, smp_proc_pair_fail, smp_proc_id_info, smp_proc_id_addr,
    smp_proc_srk_info, smp_br_process_security_grant, smp_br_process_slave_keys_response,
    smp_br_select_next_key, smp_br_pairing_complete, smp_send_app_cback,
    smp_br_check_authorization_request, smp_pair_terminate, smp_idle_terminate]"

definition smp_br_state_name :: "string list" where
  "smp_br_state_name = [
    ''SMP_BR_STATE_IDLE'', ''SMP_BR_STATE_WAIT_APP_RSP'', ''SMP_BR_STATE_PAIR_REQ_RSP'',
    ''SMP_BR_STATE_BOND_PENDING'', ''SMP_BR_STATE_OUT_OF_RANGE'']"

definition smp_br_event_name :: "string list" where
  "smp_br_event_name = [
    ''BR_PAIRING_REQ_EVT'', ''BR_PAIRING_RSP_EVT'', ''BR_CONFIRM_EVT'', ''BR_RAND_EVT'',
    ''BR_PAIRING_FAILED_EVT'', ''BR_ENCRPTION_INFO_EVT'', ''BR_MASTER_ID_EVT'',
    ''BR_ID_INFO_EVT'', ''BR_ID_ADDR_EVT'', ''BR_SIGN_INFO_EVT'', ''BR_SECURITY_REQ_EVT'',
    ''BR_PAIR_PUBLIC_KEY_EVT'', ''BR_PAIR_DHKEY_CHCK_EVT'', ''BR_PAIR_KEYPR_NOTIF_EVT'',
    ''BR_KEY_READY_EVT'', ''BR_ENCRYPTED_EVT'', ''BR_L2CAP_CONN_EVT'',
    ''BR_L2CAP_DISCONN_EVT'', ''BR_KEYS_RSP_EVT'', ''BR_API_SEC_GRANT_EVT'', ''BR_TK_REQ_EVT'',
    ''BR_AUTH_CMPL_EVT'', ''BR_ENC_REQ_EVT'', ''BR_BOND_REQ_EVT'', ''BR_DISCARD_SEC_REQ_EVT'',
    ''BR_OUT_OF_RANGE_EVT'']"

section \<open>Transition tables\<close>

definition smp_br_master_entry_map :: "u8 list list" where
  "smp_br_master_entry_map = [
    [0, 0, 0, 0],
    [0, 0, 1, 0],
    [0, 0, 0, 0],
    [0, 0, 0, 0],
    [0, 0x81, 0x81, 0],
    [0, 0, 0, 0],
    [0, 0, 0, 0],
    [0, 0, 0, 1],
    [0, 0, 0, 2],
    [0, 0, 0, 3],
    [0, 0, 0, 0],
    [0, 0, 0, 0],
    [0, 0, 0, 0],
    [0, 0, 0, 0],
    [0, 0, 0, 0],
    [0, 0, 0, 0],
    [1, 0, 0, 0],
    [2, 0x83, 0x83, 0x83],
    [0, 1, 0, 0],
    [0, 0, 0, 0],
    [0, 0, 0, 0],
    [0, 0x82, 0x82, 0x82],
    [0, 0, 0, 0],
    [0, 0, 2, 0],
    [0, 0, 0, 0]]"

definition smp_br_all_table :: smp_sm_tbl where
  "smp_br_all_table = [
    [BR_SMP_PROC_PAIR_FAIL, SMP_BR_PAIRING_COMPLETE, SMP_BR_STATE_IDLE],
    [BR_SMP_SEND_PAIR_FAIL, SMP_BR_PAIRING_COMPLETE, SMP_BR_STATE_IDLE],
    [BR_SMP_PAIR_TERMINATE, SMP_BR_SM_NO_ACTION, SMP_BR_STATE_IDLE]]"

definition smp_br_master_idle_table :: smp_sm_tbl where
  "smp_br_master_idle_table = [
    [BR_SMP_SEND_APP_CBACK, SMP_BR_SM_NO_ACTION, SMP_BR_STATE_WAIT_APP_RSP],
    [BR_SMP_IDLE_TERMINATE, SMP_BR_SM_NO_ACTION, SMP_BR_STATE_IDLE]]"

definition smp_br_master_wait_appln_response_table :: smp_sm_tbl where
  "smp_br_master_wait_appln_response_table = [
    [BR_SMP_SEND_PAIR_REQ, SMP_BR_SM_NO_ACTION, SMP_BR_STATE_PAIR_REQ_RSP]]"

definition smp_br_master_pair_request_response_table :: smp_sm_tbl where
  "smp_br_master_pair_request_response_table = [
    [SMP_BR_PROC_PAIR_CMD, SMP_BR_CHECK_AUTH_REQ, SMP_BR_STATE_PAIR_REQ_RSP],
    [SMP_BR_SM_NO_ACTION, SMP_BR_SM_NO_ACTION, SMP_BR_STATE_BOND_PENDING]]"

definition smp_br_master_bond_pending_table :: smp_sm_tbl where
  "smp_br_master_bond_pending_table = [
    [BR_SMP_PROC_ID_INFO, SMP_BR_SM_NO_ACTION, SMP_BR_STATE_BOND_PENDING],
    [BR_SMP_PROC_ID_ADDR, SMP_BR_SM_NO_ACTION, SMP_BR_STATE_BOND_PENDING],
    [BR_SMP_PROC_SRK_INFO, SMP_BR_SM_NO_ACTION, SMP_BR_STATE_BOND_PENDING]]"

definition smp_br_slave_entry_map :: "u8 list list" where
  "smp_br_slave_entry_map = [
    [1, 0, 0, 0],
    [0, 0, 0, 0],
    [0, 0, 0, 0],
    [0, 0, 0, 0],
    [0, 0x81, 0x81, 0x81],
    [0, 0, 0, 0],
    [0, 0, 0, 0],
    [0, 0, 0, 1],
    [0, 0, 0, 2],
    [0, 0, 0, 3],
    [0, 0, 0, 0],
    [0, 0, 0, 0],
    [0, 0, 0, 0],
    [0, 0, 0, 0],
    [0, 0, 0, 0],
    [0, 0, 0, 0],
    [0, 0, 0, 0],
    [0, 0x83, 0x83, 0x83],
    [0, 2, 0, 0],
    [0, 1, 0, 0],
    [0, 0, 0, 0],
    [0, 0x82, 0x82, 0x82],
    [0, 0, 0, 0],
    [0, 3, 0, 0],
    [0, 0, 0, 0]]"

definition smp_br_slave_idle_table :: smp_sm_tbl where
  "smp_br_slave_idle_table = [
    [SMP_BR_PROC_PAIR_CMD, BR_SMP_SEND_APP_CBACK, SMP_BR_STATE_WAIT_APP_RSP]]"

definition smp_br_slave_wait_appln_response_table :: smp_sm_tbl where
  "smp_br_slave_wait_appln_response_table = [
    [SMP_BR_PROC_SEC_GRANT, BR_SMP_SEND_APP_CBACK, SMP_BR_STATE_WAIT_APP_RSP],
    [SMP_BR_PROC_SL_KEYS_RSP, SMP_BR_CHECK_AUTH_REQ, SMP_BR_STATE_WAIT_APP_RSP],
    [SMP_BR_KEY_DISTRIBUTION, SMP_BR_SM_NO_ACTION, SMP_BR_STATE_BOND_PENDING]]"

definition smp_br_slave_bond_pending_table :: smp_sm_tbl where
  "smp_br_slave_bond_pending_table = [
    [BR_SMP_PROC_ID_INFO, SMP_BR_SM_NO_ACTION, SMP_BR_STATE_BOND_PENDING],
    [BR_SMP_PROC_ID_ADDR, SMP_BR_SM_NO_ACTION, SMP_BR_STATE_BOND_PENDING],
    [BR_SMP_PROC_SRK_INFO, SMP_BR_SM_NO_ACTION, SMP_BR_STATE_BOND_PENDING]]"

definition smp_br_state_table :: "smp_sm_tbl option list list" where
  "smp_br_state_table = [
    [Some smp_br_master_idle_table, Some smp_br_slave_idle_table],
    [Some smp_br_master_wait_appln_response_table, Some smp_br_slave_wait_appln_response_table],
    [Some smp_br_master_pair_request_response_table, None],
    [Some smp_br_master_bond_pending_table, Some smp_br_slave_bond_pending_table]]"

definition smp_br_entry_table :: "u8 list list list" where
  "smp_br_entry_table = [smp_br_master_entry_map, smp_br_slave_entry_map]"

text \<open>The event each row is labelled with in the comments of the tables.\<close>

definition smp_br_row_events :: "u8 list list list" where
  "smp_br_row_events = [
    [
      [SMP_BR_L2CAP_CONN_EVT, SMP_BR_L2CAP_DISCONN_EVT],
      [SMP_BR_PAIRING_REQ_EVT]],
    [
      [SMP_BR_KEYS_RSP_EVT],
      [SMP_BR_API_SEC_GRANT_EVT, SMP_BR_KEYS_RSP_EVT, SMP_BR_BOND_REQ_EVT]],
    [
      [SMP_BR_PAIRING_RSP_EVT, SMP_BR_BOND_REQ_EVT],
      []],
    [
      [SMP_BR_ID_INFO_EVT, SMP_BR_ID_ADDR_EVT, SMP_BR_SIGN_INFO_EVT],
      [SMP_BR_ID_INFO_EVT, SMP_BR_ID_ADDR_EVT, SMP_BR_SIGN_INFO_EVT]]]"

definition smp_br_all_events :: "u8 list" where
  "smp_br_all_events = [SMP_BR_PAIRING_FAILED_EVT, SMP_BR_AUTH_CMPL_EVT, SMP_BR_L2CAP_DISCONN_EVT]"

section \<open>The driver\<close>

definition smp_set_br_state :: "u8 \<Rightarrow> 'z smp_cb_scheme \<Rightarrow> 'z smp_cb_scheme" where
  "smp_set_br_state st cb = (if st < SMP_BR_STATE_MAX then cb\<lparr>smp_br_state := st\<rparr> else cb)"

definition smp_get_br_state :: "'z smp_cb_scheme \<Rightarrow> u8" where
  "smp_get_br_state cb = smp_br_state cb"

definition smp_get_br_state_name :: "u8 \<Rightarrow> string option" where
  "smp_get_br_state_name st =
     (if st < SMP_BR_STATE_MAX then rd smp_br_state_name (unat st)
      else rd smp_br_state_name (unat (SMP_BR_STATE_MAX :: u8)))"

definition smp_get_br_event_name :: "u8 \<Rightarrow> string option" where
  "smp_get_br_event_name event =
     (if event < SMP_BR_MAX_EVT then rd1 smp_br_event_name event
      else rd smp_br_event_name (unat (SMP_BR_MAX_EVT :: u8) - 1))"

text \<open>The row an event selects, as \<open>smp_lookup\<close>.\<close>

definition smp_br_lookup :: "u8 \<Rightarrow> u8 \<Rightarrow> u8 \<Rightarrow> u8 list option option" where
  "smp_br_lookup role st event = do {
     entry_table \<leftarrow> rd smp_br_entry_table (unat role);
     if event \<le> SMP_BR_MAX_EVT then do {
       entries \<leftarrow> rd1 entry_table event;
       entry \<leftarrow> rd entries (unat st);
       if entry = 0 then Some None
       else if entry AND 0x80 \<noteq> 0 then do {
         row \<leftarrow> rd1 smp_br_all_table (entry AND NOT 0x80);
         Some (Some row)
       } else do {
         tables \<leftarrow> rd smp_br_state_table (unat st);
         state_table \<leftarrow> rd tables (unat role);
         rows \<leftarrow> state_table;
         row \<leftarrow> rd1 rows entry;
         Some (Some row)
       }
     } else Some None
   }"

definition smp_br_state_machine_event ::
    "(smp_act \<Rightarrow> 'd \<Rightarrow> 'z smp_cb_scheme \<Rightarrow> 'z smp_cb_scheme) \<Rightarrow>
     'z smp_cb_scheme \<Rightarrow> u8 \<Rightarrow> 'd \<Rightarrow> 'z smp_cb_scheme option" where
  "smp_br_state_machine_event act p_cb event p_data =
     (if SMP_BR_STATE_MAX \<le> smp_br_state p_cb then Some p_cb
      else do {
        sel \<leftarrow> smp_br_lookup (smp_role p_cb) (smp_br_state p_cb) event;
        case sel of
          None \<Rightarrow> Some p_cb
        | Some row \<Rightarrow> do {
            next_state \<leftarrow> rd row 2;
            smp_actions act smp_br_sm_action SMP_BR_SM_NO_ACTION p_data (take 2 row)
              (smp_set_br_state next_state p_cb)
          }
      })"

section \<open>Evaluation of the tables\<close>

text \<open>
  With four states and twenty-five events, all lookups are evaluated: the row of every event, state
  and role with the label of its row.
\<close>

lemmas smp_br_tables =
  smp_br_master_idle_table_def smp_br_master_wait_appln_response_table_def
  smp_br_master_pair_request_response_table_def smp_br_master_bond_pending_table_def
  smp_br_slave_idle_table_def smp_br_slave_wait_appln_response_table_def
  smp_br_slave_bond_pending_table_def smp_br_all_table_def

definition smp_br_states :: "u8 list" where
  "smp_br_states = [0, 1, 2, 3]"

definition smp_br_events :: "u8 list" where
  "smp_br_events = [1, 2, 3, 4, 5, 6, 7, 8, 9, 10, 11, 12, 13, 14, 15, 16, 17, 18, 19, 20, 21, 22, 23, 24, 25]"

definition br_entry_ok :: "u8 \<Rightarrow> u8 list list option \<Rightarrow> u8 list \<Rightarrow> u8 \<Rightarrow> bool" where
  "br_entry_ok event tbl labels e \<longleftrightarrow> e = 0 \<or>
     (if e AND 0x80 \<noteq> 0
      then (let i = e AND NOT 0x80 in
              i \<noteq> 0 \<and> unat i \<le> length smp_br_all_table \<and> smp_br_all_events ! (unat i - 1) = event)
      else (case tbl of None \<Rightarrow> False
            | Some t \<Rightarrow> unat e \<le> length t \<and> labels ! (unat e - 1) = event))"

definition br_entries_ok :: "u8 \<Rightarrow> bool" where
  "br_entries_ok role \<longleftrightarrow> length (smp_br_entry_table ! unat role) = 25 \<and>
     list_all (\<lambda>(event, entries). length entries = 4 \<and>
       list_all (\<lambda>(tbls, labels, e). br_entry_ok event (tbls ! unat role) (labels ! unat role) e)
         (zip smp_br_state_table (zip smp_br_row_events entries)))
       (zip smp_br_events (smp_br_entry_table ! unat role))"

lemma br_entries_ok_both: "br_entries_ok 0" "br_entries_ok 1"
  by (simp_all add: br_entries_ok_def smp_br_entry_table_def smp_br_master_entry_map_def
      smp_br_slave_entry_map_def smp_br_state_table_def smp_br_row_events_def smp_br_events_def
      br_entry_ok_def smp_br_all_events_def smp_br_tables)

text \<open>A row of valid codes; keys are awaited after the pairing was negotiated only.\<close>

definition br_row_ok :: "u8 \<Rightarrow> u8 list \<Rightarrow> bool" where
  "br_row_ok st row \<longleftrightarrow> length row = 3 \<and> row ! 0 \<le> SMP_BR_SM_NO_ACTION \<and> row ! 1 \<le> SMP_BR_SM_NO_ACTION \<and>
     row ! 2 < SMP_BR_STATE_MAX \<and>
     (row ! 2 = SMP_BR_STATE_BOND_PENDING \<longrightarrow> st \<noteq> SMP_BR_STATE_IDLE)"

lemma br_rows_ok:
  "list_all (\<lambda>(st, tbls). list_all (br_row_ok st) smp_br_all_table \<and> length tbls = 2 \<and>
     list_all (\<lambda>t. case t of None \<Rightarrow> True | Some t \<Rightarrow> list_all (br_row_ok st) t) tbls)
     (zip smp_br_states smp_br_state_table)"
  by (simp add: smp_br_states_def smp_br_state_table_def br_row_ok_def smp_br_tables)

lemma br_dims:
  "length smp_br_state_table = 4" "length smp_br_row_events = 4" "length smp_br_entry_table = 2"
  "length smp_br_sm_action = 17"
  by (simp_all add: smp_br_state_table_def smp_br_row_events_def smp_br_entry_table_def smp_br_sm_action_def)

lemma br_states_nth: "st < SMP_BR_STATE_MAX \<Longrightarrow> unat st < 4 \<and> smp_br_states ! unat st = st"
proof -
  assume "st < SMP_BR_STATE_MAX"
  then have *: "unat st < 4" by (simp add: word_less_nat_alt)
  then have "st = 0 \<or> st = 1 \<or> st = 2 \<or> st = 3" by (simp add: word_unat_eq_iff) arith
  with * show ?thesis by (auto simp: smp_br_states_def)
qed

lemma br_events_nth:
  assumes "1 \<le> event" "event < SMP_BR_MAX_EVT"
  shows "unat event - 1 < 25 \<and> smp_br_events ! (unat event - 1) = event"
proof -
  have *: "unat event \<le> 25" "1 \<le> unat event" using assms by (simp_all add: word_le_nat_alt word_less_nat_alt)
  have "map unat smp_br_events = map Suc [0..<25]"
    by (simp add: smp_br_events_def upt_rec_numeral upt_rec [of 0 25] upt_rec [of "Suc 0" 25] flip: numeral_2_eq_2)
  moreover have "length smp_br_events = 25" by (simp add: smp_br_events_def)
  moreover have lt: "unat event - 1 < 25" using * by simp
  ultimately have "unat (smp_br_events ! (unat event - 1)) = Suc (unat event - 1)"
    using nth_map [of "unat event - 1" smp_br_events unat] by simp
  with * lt show ?thesis by (simp add: word_unat_eq_iff)
qed

definition smp_br_selected :: "u8 \<Rightarrow> u8 \<Rightarrow> u8 \<Rightarrow> u8 list \<Rightarrow> bool" where
  "smp_br_selected role st event row \<longleftrightarrow>
     (\<exists>i < length smp_br_all_table. row = smp_br_all_table ! i \<and> smp_br_all_events ! i = event) \<or>
     (\<exists>t i. smp_br_state_table ! unat st ! unat role = Some t \<and> i < length t \<and> row = t ! i \<and>
        smp_br_row_events ! unat st ! unat role ! i = event)"

lemma smp_br_lookup_selected:
  assumes "role < 2" "st < SMP_BR_STATE_MAX" "1 \<le> event" "event < SMP_BR_MAX_EVT"
  shows "smp_br_lookup role st event = Some None \<or>
    (\<exists>row. smp_br_lookup role st event = Some (Some row) \<and> smp_br_selected role st event row)"
proof -
  let ?m = "smp_br_entry_table ! unat role" and ?i = "unat event - 1"
  note st = br_states_nth [OF assms(2)] and ev = br_events_nth [OF assms(3,4)]
  have role: "unat role < 2" using assms(1) by (simp add: word_less_nat_alt)
  have rok: "br_entries_ok role" using role_cases [OF assms(1)] br_entries_ok_both by auto
  have len: "length ?m = 25" using rok by (simp add: br_entries_ok_def)
  have *: "length (?m ! ?i) = 4 \<and>
       list_all (\<lambda>(tbls, labels, e). br_entry_ok event (tbls ! unat role) (labels ! unat role) e)
         (zip smp_br_state_table (zip smp_br_row_events (?m ! ?i)))"
    using rok ev len
    by (auto simp: br_entries_ok_def list_all_length smp_br_events_def dest: spec [of _ ?i])
  define e where "e = ?m ! ?i ! unat st"
  have ok: "br_entry_ok event (smp_br_state_table ! unat st ! unat role)
      (smp_br_row_events ! unat st ! unat role) e"
    using * st by (auto simp: e_def list_all_length br_dims dest: spec [of _ "unat st"])
  have rds: "rd1 ?m event = Some (?m ! ?i)" "rd (?m ! ?i) (unat st) = Some e"
    using assms(3) ev len * st by (auto simp: e_def rd1_def rd_def)
  have tab: "rd smp_br_entry_table (unat role) = Some ?m"
    using role by (simp add: rd_def br_dims)
  have "length (smp_br_state_table ! unat st) = 2"
    using br_rows_ok st by (auto simp: list_all_length br_dims smp_br_states_def dest: spec [of _ "unat st"])
  then have tab2: "rd smp_br_state_table (unat st) = Some (smp_br_state_table ! unat st)"
    "rd (smp_br_state_table ! unat st) (unat role) = Some (smp_br_state_table ! unat st ! unat role)"
    using st role by (simp_all add: rd_def br_dims)
  have le: "event \<le> SMP_BR_MAX_EVT" using assms(4) by simp
  consider "e = 0" | "e \<noteq> 0" "e AND 0x80 \<noteq> 0" | "e \<noteq> 0" "e AND 0x80 = 0" by blast
  then show ?thesis
  proof cases
    case 1
    with rds le show ?thesis by (simp add: smp_br_lookup_def tab)
  next
    case 2
    let ?j = "unat (e AND NOT 0x80) - 1"
    have i: "e AND NOT 0x80 \<noteq> 0" "?j < length smp_br_all_table" "smp_br_all_events ! ?j = event"
      using ok 2 by (auto simp: br_entry_ok_def Let_def word_unat_eq_iff)
    then have "rd1 smp_br_all_table (e AND NOT 0x80) = Some (smp_br_all_table ! ?j)"
      by (simp add: rd1_def rd_def)
    with rds le 2 have "smp_br_lookup role st event = Some (Some (smp_br_all_table ! ?j))"
      by (simp add: smp_br_lookup_def tab)
    with i show ?thesis by (auto simp: smp_br_selected_def)
  next
    case 3
    let ?j = "unat e - 1"
    obtain t where t: "smp_br_state_table ! unat st ! unat role = Some t" "unat e \<le> length t"
        "smp_br_row_events ! unat st ! unat role ! ?j = event"
      using ok 3 by (auto simp: br_entry_ok_def split: option.splits)
    moreover have i: "?j < length t" using t(2) 3(1) by (auto simp: word_unat_eq_iff)
    then have "rd1 t e = Some (t ! ?j)" using 3(1) by (simp add: rd1_def rd_def)
    with rds le t(1) 3 have "smp_br_lookup role st event = Some (Some (t ! ?j))"
      by (simp add: smp_br_lookup_def tab tab2)
    ultimately show ?thesis using i by (auto simp: smp_br_selected_def)
  qed
qed

lemma smp_br_selected_row:
  assumes "smp_br_selected role st event row" "role < 2" "st < SMP_BR_STATE_MAX"
  shows "br_row_ok st row"
proof -
  note st = br_states_nth [OF assms(3)]
  have *: "list_all (br_row_ok st) smp_br_all_table \<and> length (smp_br_state_table ! unat st) = 2 \<and>
     list_all (\<lambda>t. case t of None \<Rightarrow> True | Some t \<Rightarrow> list_all (br_row_ok st) t) (smp_br_state_table ! unat st)"
    using br_rows_ok st
    by (auto simp: list_all_length [of _ "zip _ _"] br_dims smp_br_states_def dest: spec [of _ "unat st"])
  then have "case smp_br_state_table ! unat st ! unat role of None \<Rightarrow> True | Some t \<Rightarrow> list_all (br_row_ok st) t"
    using assms(2) by (simp add: list_all_length [of _ "smp_br_state_table ! _"] word_less_nat_alt)
  with * assms(1) show ?thesis
    by (auto simp: smp_br_selected_def list_all_length)
qed

section \<open>The driver stays inside its tables for the events it names\<close>

definition smp_br_row_actions :: "u8 list \<Rightarrow> smp_act list" where
  "smp_br_row_actions row =
     map (\<lambda>a. smp_br_sm_action ! unat a) (takeWhile (\<lambda>a. a \<noteq> SMP_BR_SM_NO_ACTION) (take 2 row))"

lemma smp_br_actions_run:
  assumes "list_all (\<lambda>a. a \<le> SMP_BR_SM_NO_ACTION) as"
  shows "smp_actions act smp_br_sm_action SMP_BR_SM_NO_ACTION d as cb =
    Some (fold (\<lambda>f. act f d) (map (\<lambda>a. smp_br_sm_action ! unat a) (takeWhile (\<lambda>a. a \<noteq> SMP_BR_SM_NO_ACTION) as)) cb)"
  using assms
proof (induction as arbitrary: cb)
  case (Cons a as)
  have "a \<noteq> SMP_BR_SM_NO_ACTION \<Longrightarrow> rd smp_br_sm_action (unat a) = Some (smp_br_sm_action ! unat a)"
    using Cons.prems by (simp add: rd_def br_dims word_le_nat_alt word_unat_eq_iff)
  with Cons show ?case by simp
qed simp

lemma smp_br_event_row:
  assumes "smp_br_lookup (smp_role cb) (smp_br_state cb) event = Some (Some row)"
    and "br_row_ok (smp_br_state cb) row" and "smp_br_state cb < SMP_BR_STATE_MAX"
  shows "smp_br_state_machine_event act cb event d =
    Some (fold (\<lambda>f. act f d) (smp_br_row_actions row) (cb\<lparr>smp_br_state := row ! 2\<rparr>))"
proof -
  obtain a b n where row: "row = [a, b, n]"
    using assms(2) length_3_cases [of row] unfolding br_row_ok_def by blast
  have ok: "list_all (\<lambda>a. a \<le> SMP_BR_SM_NO_ACTION) [a, b]" "n < SMP_BR_STATE_MAX"
    using assms(2) row by (auto simp: br_row_ok_def)
  show ?thesis
    using assms(1,3) smp_br_actions_run [OF ok(1), of act d] ok(2)
    unfolding smp_br_state_machine_event_def smp_br_row_actions_def
    by (simp add: row rd_def smp_set_br_state_def not_le)
qed

text \<open>
  For each of the twenty-five events of the BR/EDR machine and whatever the action functions
  do, the driver stays inside its tables: it either leaves the control block alone or takes the row
  the comments of the tables give for the event, sets a valid state, bonding never straight from
  idle, and runs the actions of the row in order.
\<close>
theorem smp_br_event_in_bounds:
  assumes "smp_role cb < 2" and "event \<noteq> 0" and "event \<noteq> SMP_BR_MAX_EVT"
  shows "smp_br_state_machine_event act cb event d = Some cb \<or>
    (\<exists>row. smp_br_selected (smp_role cb) (smp_br_state cb) event row \<and> row ! 2 < SMP_BR_STATE_MAX \<and>
       (row ! 2 = SMP_BR_STATE_BOND_PENDING \<longrightarrow> smp_br_state cb \<noteq> SMP_BR_STATE_IDLE) \<and>
       smp_br_state_machine_event act cb event d =
         Some (fold (\<lambda>f. act f d) (smp_br_row_actions row) (cb\<lparr>smp_br_state := row ! 2\<rparr>)))"
proof (cases "smp_br_state cb < SMP_BR_STATE_MAX \<and> event < SMP_BR_MAX_EVT")
  case True
  then have st: "smp_br_state cb < SMP_BR_STATE_MAX" and ev: "1 \<le> event" "event < SMP_BR_MAX_EVT"
    using assms(2) by (auto simp: word_le_nat_alt word_unat_eq_iff)
  from smp_br_lookup_selected [OF assms(1) st ev] show ?thesis
  proof
    assume "\<exists>row. smp_br_lookup (smp_role cb) (smp_br_state cb) event = Some (Some row) \<and>
      smp_br_selected (smp_role cb) (smp_br_state cb) event row"
    then obtain row where row: "smp_br_lookup (smp_role cb) (smp_br_state cb) event = Some (Some row)"
      and sel: "smp_br_selected (smp_role cb) (smp_br_state cb) event row" by blast
    have ok: "br_row_ok (smp_br_state cb) row" by (rule smp_br_selected_row [OF sel assms(1) st])
    then have *: "row ! 2 < SMP_BR_STATE_MAX"
      "row ! 2 = SMP_BR_STATE_BOND_PENDING \<longrightarrow> smp_br_state cb \<noteq> SMP_BR_STATE_IDLE"
      unfolding br_row_ok_def by blast+
    show ?thesis
      by (intro disjI2 exI [of _ row] conjI sel * smp_br_event_row [OF row ok st])
  qed (simp add: smp_br_state_machine_event_def)
next
  case False
  have "SMP_BR_MAX_EVT < event \<Longrightarrow> smp_br_lookup (smp_role cb) (smp_br_state cb) event = Some None"
    using assms(1) by (auto simp: smp_br_lookup_def rd_def br_dims word_less_nat_alt word_le_nat_alt)
  with False assms(3) show ?thesis
    by (auto simp: smp_br_state_machine_event_def not_le not_less le_less)
qed

theorem smp_br_event_in_bounds_witness:
  "smp_br_state_machine_event (\<lambda>f d c. c) \<lparr>smp_state = 0, smp_role = 1, smp_br_state = 1\<rparr> SMP_BR_BOND_REQ_EVT () \<noteq> None"
  using smp_br_event_in_bounds [of "\<lparr>smp_state = 0, smp_role = 1, smp_br_state = 1\<rparr>" SMP_BR_BOND_REQ_EVT "\<lambda>f d c. c" "()"]
  by auto

text \<open>
  The guard of the BR/EDR driver admits one event too many: \<open>SMP_BR_MAX_EVT\<close> itself passes it, and
  its row lies behind the end of both entry maps, in every state.
\<close>
theorem smp_br_event_max_out_of_bounds:
  assumes "smp_role cb < 2" and "smp_br_state cb < SMP_BR_STATE_MAX"
  shows "smp_br_state_machine_event act cb SMP_BR_MAX_EVT d = None"
proof -
  have "length smp_br_master_entry_map = 25" "length smp_br_slave_entry_map = 25"
    by (simp_all add: smp_br_master_entry_map_def smp_br_slave_entry_map_def)
  then have "smp_br_lookup (smp_role cb) (smp_br_state cb) SMP_BR_MAX_EVT = None"
    using role_cases [OF assms(1)] by (auto simp: smp_br_lookup_def rd_def rd1_def smp_br_entry_table_def)
  with assms(2) show ?thesis by (simp add: smp_br_state_machine_event_def not_le)
qed

theorem smp_br_event_max_out_of_bounds_witness:
  "smp_br_state_machine_event (\<lambda>f d c. c) \<lparr>smp_state = 0, smp_role = 0, smp_br_state = 0\<rparr> SMP_BR_MAX_EVT () = None"
  by (rule smp_br_event_max_out_of_bounds) simp_all

lemma smp_get_br_event_name_defined: "smp_get_br_event_name event = None \<longleftrightarrow> event = 0"
proof -
  have "length smp_br_event_name = 26" by (simp add: smp_br_event_name_def)
  then show ?thesis
    by (auto simp: smp_get_br_event_name_def rd_def rd1_def word_le_nat_alt word_less_nat_alt)
qed

end
