(* ===== verification/SmpUtils.thy ===== *)
theory SmpUtils
  imports SmpCb SmpBr SmpToolbox
begin

text \<open>
  \<open>stack/smp/smp_utils.c\<close>: building and sending commands, the checks of received ones, the association
  models, and the end of a pairing.  A function that calls back into the state machines has them as
  parameters \<open>sm\<close> (\<open>smp_sm_event\<close>) and \<open>br\<close> (\<open>smp_br_state_machine_event\<close>).
\<close>

unbundle bit_operations_syntax

section \<open>Bytes of a command\<close>

text \<open>\<open>UINT16_TO_STREAM\<close>, \<open>UINT32_TO_STREAM\<close>, \<open>ARRAY_TO_STREAM\<close> and \<open>BDADDR_TO_STREAM\<close> of \<open>bt_types.h\<close>.\<close>

definition put_u16 :: "u16 \<Rightarrow> bytes" where
  "put_u16 x = [ucast x, ucast (drop_bit 8 x)]"

definition put_u32 :: "u32 \<Rightarrow> bytes" where
  "put_u32 x = [ucast x, ucast (drop_bit 8 x), ucast (drop_bit 16 x), ucast (drop_bit 24 x)]"

definition put_bda :: "bytes \<Rightarrow> bytes" where
  "put_bda a = rev (take 6 a)"

definition get_u16 :: "bytes \<Rightarrow> u16" where
  "get_u16 p = ucast (p ! 0) + push_bit 8 (ucast (p ! 1))"

section \<open>Building commands\<close>

text \<open>The data of the buffer from its offset on; \<open>None\<close> if there is no memory for it.\<close>

type_synonym tSMP_CMD_ACT = "smp_env \<Rightarrow> u8 \<Rightarrow> smp_sys \<Rightarrow> bytes option"

definition cmd_buf :: "smp_env \<Rightarrow> smp_sys \<Rightarrow> bytes \<Rightarrow> bytes option" where
  "cmd_buf e s p = (if e_mem e (s_clock s) 0 then Some p else None)"

definition smp_build_pairing_cmd :: tSMP_CMD_ACT where
  "smp_build_pairing_cmd e cmd_code s =
     cmd_buf e s [cmd_code, local_io_capability s, loc_oob_flag s, loc_auth_req s, loc_enc_size s, local_i_key s, local_r_key s]"

definition smp_build_confirm_cmd :: tSMP_CMD_ACT where
  "smp_build_confirm_cmd e cmd_code s = cmd_buf e s (SMP_OPCODE_CONFIRM # take 16 (confirm s))"

definition smp_build_rand_cmd :: tSMP_CMD_ACT where
  "smp_build_rand_cmd e cmd_code s = cmd_buf e s (SMP_OPCODE_RAND # take 16 (rand s))"

definition smp_build_encrypt_info_cmd :: tSMP_CMD_ACT where
  "smp_build_encrypt_info_cmd e cmd_code s = cmd_buf e s (SMP_OPCODE_ENCRYPT_INFO # take 16 (ltk s))"

definition smp_build_master_id_cmd :: tSMP_CMD_ACT where
  "smp_build_master_id_cmd e cmd_code s = cmd_buf e s (SMP_OPCODE_MASTER_ID # put_u16 (ediv s) @ take 8 (enc_rand s))"

definition smp_build_identity_info_cmd :: tSMP_CMD_ACT where
  "smp_build_identity_info_cmd e cmd_code s = cmd_buf e s (SMP_OPCODE_IDENTITY_INFO # take 16 (e_irk e))"

definition smp_build_id_addr_cmd :: tSMP_CMD_ACT where
  "smp_build_id_addr_cmd e cmd_code s = cmd_buf e s (SMP_OPCODE_ID_ADDR # 0 # put_bda (e_controller_addr e))"

definition smp_build_signing_info_cmd :: tSMP_CMD_ACT where
  "smp_build_signing_info_cmd e cmd_code s = cmd_buf e s (SMP_OPCODE_SIGN_INFO # take 16 (csrk s))"

definition smp_build_pairing_fail :: tSMP_CMD_ACT where
  "smp_build_pairing_fail e cmd_code s = cmd_buf e s [SMP_OPCODE_PAIRING_FAILED, failure s]"

definition smp_build_security_request :: tSMP_CMD_ACT where
  "smp_build_security_request e cmd_code s = cmd_buf e s [SMP_OPCODE_SEC_REQ, loc_auth_req s]"

definition smp_build_pair_public_key_cmd :: tSMP_CMD_ACT where
  "smp_build_pair_public_key_cmd e cmd_code s =
     cmd_buf e s (SMP_OPCODE_PAIR_PUBLIC_KEY # take 32 (pk_x (loc_publ_key s)) @ take 32 (pk_y (loc_publ_key s)))"

definition smp_build_pairing_commitment_cmd :: tSMP_CMD_ACT where
  "smp_build_pairing_commitment_cmd e cmd_code s = cmd_buf e s (SMP_OPCODE_CONFIRM # take 16 (commitment s))"

definition smp_build_pair_dhkey_check_cmd :: tSMP_CMD_ACT where
  "smp_build_pair_dhkey_check_cmd e cmd_code s = cmd_buf e s (SMP_OPCODE_PAIR_DHKEY_CHECK # take 16 (dhkey_check s))"

definition smp_build_pairing_keypress_notification_cmd :: tSMP_CMD_ACT where
  "smp_build_pairing_keypress_notification_cmd e cmd_code s =
     cmd_buf e s [SMP_OPCODE_PAIR_KEYPR_NOTIF, local_keypress_notification s]"

definition smp_cmd_build_act :: "tSMP_CMD_ACT option list" where
  "smp_cmd_build_act = [
     None,
     Some smp_build_pairing_cmd,
     Some smp_build_pairing_cmd,
     Some smp_build_confirm_cmd,
     Some smp_build_rand_cmd,
     Some smp_build_pairing_fail,
     Some smp_build_encrypt_info_cmd,
     Some smp_build_master_id_cmd,
     Some smp_build_identity_info_cmd,
     Some smp_build_id_addr_cmd,
     Some smp_build_signing_info_cmd,
     Some smp_build_security_request,
     Some smp_build_pair_public_key_cmd,
     Some smp_build_pair_dhkey_check_cmd,
     Some smp_build_pairing_keypress_notification_cmd,
     Some smp_build_pairing_commitment_cmd]"

section \<open>Sending\<close>

abbreviation (input) L2CAP_SMP_CID :: u16 where "L2CAP_SMP_CID \<equiv> 6"
abbreviation (input) L2CAP_SMP_BR_CID :: u16 where "L2CAP_SMP_BR_CID \<equiv> 7"

definition smp_send_msg_to_L2CAP :: "smp_env \<Rightarrow> bytes \<Rightarrow> bytes \<Rightarrow> smp_sys \<Rightarrow> bool \<times> smp_sys" where
  "smp_send_msg_to_L2CAP e rem_bda p s =
     (let fixed_cid = (if smp_over_br s then L2CAP_SMP_BR_CID else L2CAP_SMP_CID);
          s = s\<lparr>total_tx_unacked := total_tx_unacked s + 1\<rparr>;
          ok = e_send_ok e (s_clock s);
          s = out (Out_L2cap fixed_cid rem_bda p) s in
      if \<not> ok then (False, s\<lparr>total_tx_unacked := total_tx_unacked s - 1\<rparr>) else (True, s))"

text \<open>The failure event of the machine in use.\<close>

definition auth_cmpl :: "smp_event_fun \<Rightarrow> smp_event_fun \<Rightarrow> u8 \<Rightarrow> smp_sys \<Rightarrow> smp_sys" where
  "auth_cmpl sm br reason s =
     (if smp_over_br s then br SMP_BR_AUTH_CMPL_EVT (Status reason) s else sm SMP_AUTH_CMPL_EVT (Status reason) s)"

definition smp_send_cmd :: "smp_env \<Rightarrow> smp_event_fun \<Rightarrow> smp_event_fun \<Rightarrow> u8 \<Rightarrow> smp_sys \<Rightarrow> bool \<times> smp_sys" where
  "smp_send_cmd e sm br cmd_code s =
     (let (sent, s) =
        (if cmd_code \<le> SMP_OPCODE_MAX + 1 then
           (case rd smp_cmd_build_act (unat cmd_code) of
              Some (Some act) \<Rightarrow>
                (case act e cmd_code s of
                   Some p_buf \<Rightarrow>
                     (let (ok, s) = smp_send_msg_to_L2CAP e (pairing_bda s) p_buf s in
                      if ok then (True, out Out_Timer_Start (out Out_Timer_Stop s)) else (False, s))
                 | None \<Rightarrow> (False, tick s))
            | _ \<Rightarrow> (False, s))
         else (False, s)) in
      if \<not> sent then (sent, auth_cmpl sm br SMP_PAIR_INTERNAL_ERR s) else (sent, s))"

definition smp_rsp_timeout :: "smp_event_fun \<Rightarrow> smp_event_fun \<Rightarrow> smp_sys \<Rightarrow> smp_sys" where
  "smp_rsp_timeout sm br s = auth_cmpl sm br SMP_RSP_TIMEOUT s"

definition smp_reject_unexpected_pairing_command :: "smp_env \<Rightarrow> bytes \<Rightarrow> smp_sys \<Rightarrow> smp_sys" where
  "smp_reject_unexpected_pairing_command e bd_addr s =
     (case cmd_buf e s [SMP_OPCODE_PAIRING_FAILED, SMP_PAIR_NOT_SUPPORT] of
        Some p_buf \<Rightarrow> snd (smp_send_msg_to_L2CAP e bd_addr p_buf s)
      | None \<Rightarrow> tick s)"

section \<open>Checks of received commands\<close>

definition smp_cmd_size_per_spec :: "u8 list" where
  "smp_cmd_size_per_spec = [0, 7, 7, 17, 17, 2, 17, 11, 17, 8, 17, 2, 65, 17, 2, 17]"

definition smp_parameter_unconditionally_valid :: "smp_sys \<Rightarrow> bool" where
  "smp_parameter_unconditionally_valid s = True"

definition smp_parameter_unconditionally_invalid :: "smp_sys \<Rightarrow> bool" where
  "smp_parameter_unconditionally_invalid s = False"

definition smp_command_has_valid_fixed_length :: "smp_sys \<Rightarrow> bool" where
  "smp_command_has_valid_fixed_length s =
     (case rd smp_cmd_size_per_spec (unat (rcvd_cmd_code s)) of
        Some sz \<Rightarrow> if rcvd_cmd_len s \<noteq> sz then False else True
      | None \<Rightarrow> False)"

definition smp_pairing_request_response_parameters_are_valid :: "smp_sys \<Rightarrow> bool" where
  "smp_pairing_request_response_parameters_are_valid s =
     (let io_caps = peer_io_caps s; oob_flag = peer_oob_flag s; bond_flag = peer_auth_req s AND 0x03;
          enc_size = peer_enc_size s in
      if SMP_IO_CAP_MAX \<le> io_caps then False
      else if \<not> (oob_flag = SMP_OOB_NONE \<or> oob_flag = SMP_OOB_PRESENT) then False
      else if \<not> (bond_flag = SMP_AUTH_NO_BOND \<or> bond_flag = SMP_AUTH_BOND) then False
      else if enc_size < SMP_ENCR_KEY_SIZE_MIN \<or> SMP_ENCR_KEY_SIZE_MAX < enc_size then False
      else True)"

definition smp_pairing_keypress_notification_is_valid :: "smp_sys \<Rightarrow> bool" where
  "smp_pairing_keypress_notification_is_valid s =
     (if BTM_SP_KEY_OUT_OF_RANGE \<le> peer_keypress_notification s then False else True)"

definition smp_cmd_len_is_valid :: "(smp_sys \<Rightarrow> bool) list" where
  "smp_cmd_len_is_valid = smp_parameter_unconditionally_invalid # replicate 15 smp_command_has_valid_fixed_length"

definition smp_cmd_param_ranges_are_valid :: "(smp_sys \<Rightarrow> bool) list" where
  "smp_cmd_param_ranges_are_valid = [
     smp_parameter_unconditionally_invalid,
     smp_pairing_request_response_parameters_are_valid,
     smp_pairing_request_response_parameters_are_valid,
     smp_parameter_unconditionally_valid,
     smp_parameter_unconditionally_valid,
     smp_parameter_unconditionally_valid,
     smp_parameter_unconditionally_valid,
     smp_parameter_unconditionally_valid,
     smp_parameter_unconditionally_valid,
     smp_parameter_unconditionally_valid,
     smp_parameter_unconditionally_valid,
     smp_parameter_unconditionally_valid,
     smp_parameter_unconditionally_valid,
     smp_parameter_unconditionally_valid,
     smp_pairing_keypress_notification_is_valid,
     smp_parameter_unconditionally_valid]"

definition smp_command_has_invalid_parameters :: "smp_sys \<Rightarrow> bool" where
  "smp_command_has_invalid_parameters s =
     (let cmd_code = rcvd_cmd_code s in
      if SMP_OPCODE_MAX + 1 < cmd_code \<or> cmd_code < SMP_OPCODE_MIN then True
      else if \<not> (smp_cmd_len_is_valid ! unat cmd_code) s then True
      else if \<not> (smp_cmd_param_ranges_are_valid ! unat cmd_code) s then True
      else False)"

section \<open>Association models\<close>

definition smp_association_table :: "u8 list list list" where
  "smp_association_table = [
     [[SMP_MODEL_ENCRYPTION_ONLY, SMP_MODEL_ENCRYPTION_ONLY, SMP_MODEL_PASSKEY, SMP_MODEL_ENCRYPTION_ONLY, SMP_MODEL_PASSKEY],
      [SMP_MODEL_ENCRYPTION_ONLY, SMP_MODEL_ENCRYPTION_ONLY, SMP_MODEL_PASSKEY, SMP_MODEL_ENCRYPTION_ONLY, SMP_MODEL_PASSKEY],
      [SMP_MODEL_KEY_NOTIF, SMP_MODEL_KEY_NOTIF, SMP_MODEL_PASSKEY, SMP_MODEL_ENCRYPTION_ONLY, SMP_MODEL_KEY_NOTIF],
      [SMP_MODEL_ENCRYPTION_ONLY, SMP_MODEL_ENCRYPTION_ONLY, SMP_MODEL_ENCRYPTION_ONLY, SMP_MODEL_ENCRYPTION_ONLY,
       SMP_MODEL_ENCRYPTION_ONLY],
      [SMP_MODEL_KEY_NOTIF, SMP_MODEL_KEY_NOTIF, SMP_MODEL_PASSKEY, SMP_MODEL_ENCRYPTION_ONLY, SMP_MODEL_KEY_NOTIF]],
     [[SMP_MODEL_ENCRYPTION_ONLY, SMP_MODEL_ENCRYPTION_ONLY, SMP_MODEL_KEY_NOTIF, SMP_MODEL_ENCRYPTION_ONLY, SMP_MODEL_KEY_NOTIF],
      [SMP_MODEL_ENCRYPTION_ONLY, SMP_MODEL_ENCRYPTION_ONLY, SMP_MODEL_KEY_NOTIF, SMP_MODEL_ENCRYPTION_ONLY, SMP_MODEL_KEY_NOTIF],
      [SMP_MODEL_PASSKEY, SMP_MODEL_PASSKEY, SMP_MODEL_PASSKEY, SMP_MODEL_ENCRYPTION_ONLY, SMP_MODEL_PASSKEY],
      [SMP_MODEL_ENCRYPTION_ONLY, SMP_MODEL_ENCRYPTION_ONLY, SMP_MODEL_ENCRYPTION_ONLY, SMP_MODEL_ENCRYPTION_ONLY,
       SMP_MODEL_ENCRYPTION_ONLY],
      [SMP_MODEL_PASSKEY, SMP_MODEL_PASSKEY, SMP_MODEL_KEY_NOTIF, SMP_MODEL_ENCRYPTION_ONLY, SMP_MODEL_PASSKEY]]]"

definition smp_association_table_sc :: "u8 list list list" where
  "smp_association_table_sc = [
     [[SMP_MODEL_SEC_CONN_JUSTWORKS, SMP_MODEL_SEC_CONN_JUSTWORKS, SMP_MODEL_SEC_CONN_PASSKEY_ENT,
       SMP_MODEL_SEC_CONN_JUSTWORKS, SMP_MODEL_SEC_CONN_PASSKEY_ENT],
      [SMP_MODEL_SEC_CONN_JUSTWORKS, SMP_MODEL_SEC_CONN_NUM_COMP, SMP_MODEL_SEC_CONN_PASSKEY_ENT,
       SMP_MODEL_SEC_CONN_JUSTWORKS, SMP_MODEL_SEC_CONN_NUM_COMP],
      [SMP_MODEL_SEC_CONN_PASSKEY_DISP, SMP_MODEL_SEC_CONN_PASSKEY_DISP, SMP_MODEL_SEC_CONN_PASSKEY_ENT,
       SMP_MODEL_SEC_CONN_JUSTWORKS, SMP_MODEL_SEC_CONN_PASSKEY_DISP],
      [SMP_MODEL_SEC_CONN_JUSTWORKS, SMP_MODEL_SEC_CONN_JUSTWORKS, SMP_MODEL_SEC_CONN_JUSTWORKS,
       SMP_MODEL_SEC_CONN_JUSTWORKS, SMP_MODEL_SEC_CONN_JUSTWORKS],
      [SMP_MODEL_SEC_CONN_PASSKEY_DISP, SMP_MODEL_SEC_CONN_NUM_COMP, SMP_MODEL_SEC_CONN_PASSKEY_ENT,
       SMP_MODEL_SEC_CONN_JUSTWORKS, SMP_MODEL_SEC_CONN_NUM_COMP]],
     [[SMP_MODEL_SEC_CONN_JUSTWORKS, SMP_MODEL_SEC_CONN_JUSTWORKS, SMP_MODEL_SEC_CONN_PASSKEY_DISP,
       SMP_MODEL_SEC_CONN_JUSTWORKS, SMP_MODEL_SEC_CONN_PASSKEY_DISP],
      [SMP_MODEL_SEC_CONN_JUSTWORKS, SMP_MODEL_SEC_CONN_NUM_COMP, SMP_MODEL_SEC_CONN_PASSKEY_DISP,
       SMP_MODEL_SEC_CONN_JUSTWORKS, SMP_MODEL_SEC_CONN_NUM_COMP],
      [SMP_MODEL_SEC_CONN_PASSKEY_ENT, SMP_MODEL_SEC_CONN_PASSKEY_ENT, SMP_MODEL_SEC_CONN_PASSKEY_ENT,
       SMP_MODEL_SEC_CONN_JUSTWORKS, SMP_MODEL_SEC_CONN_PASSKEY_ENT],
      [SMP_MODEL_SEC_CONN_JUSTWORKS, SMP_MODEL_SEC_CONN_JUSTWORKS, SMP_MODEL_SEC_CONN_JUSTWORKS,
       SMP_MODEL_SEC_CONN_JUSTWORKS, SMP_MODEL_SEC_CONN_JUSTWORKS],
      [SMP_MODEL_SEC_CONN_PASSKEY_ENT, SMP_MODEL_SEC_CONN_NUM_COMP, SMP_MODEL_SEC_CONN_PASSKEY_DISP,
       SMP_MODEL_SEC_CONN_JUSTWORKS, SMP_MODEL_SEC_CONN_NUM_COMP]]]"

definition SMP_NO_MITM_REQUIRED :: "u8 \<Rightarrow> bool" where
  "SMP_NO_MITM_REQUIRED x \<longleftrightarrow> x AND SMP_AUTH_YN_BIT = 0"

text \<open>\<open>table[role][i][j]\<close>; a role other than the two is an access outside the table.\<close>

definition model_at :: "u8 list list list \<Rightarrow> u8 \<Rightarrow> u8 \<Rightarrow> u8 \<Rightarrow> u8 option" where
  "model_at table role i j = do { t \<leftarrow> rd table (unat role); r \<leftarrow> rd t (unat i); rd r (unat j) }"

definition model_by_io :: "u8 list list list \<Rightarrow> smp_sys \<Rightarrow> u8 option" where
  "model_by_io table s =
     (if peer_io_caps s < SMP_IO_CAP_MAX \<and> local_io_capability s < SMP_IO_CAP_MAX then
        (if smp_role s = HCI_ROLE_MASTER then model_at table (smp_role s) (peer_io_caps s) (local_io_capability s)
         else model_at table (smp_role s) (local_io_capability s) (peer_io_caps s))
      else Some SMP_MODEL_OUT_OF_RANGE)"

definition smp_select_legacy_association_model :: "smp_sys \<Rightarrow> u8 option" where
  "smp_select_legacy_association_model s =
     (if peer_oob_flag s = SMP_OOB_PRESENT \<and> loc_oob_flag s = SMP_OOB_PRESENT then Some SMP_MODEL_OOB
      else if SMP_NO_MITM_REQUIRED (peer_auth_req s) \<and> SMP_NO_MITM_REQUIRED (loc_auth_req s)
      then Some SMP_MODEL_ENCRYPTION_ONLY
      else model_by_io smp_association_table s)"

definition smp_select_association_model_secure_connections :: "smp_sys \<Rightarrow> u8 option" where
  "smp_select_association_model_secure_connections s =
     (if peer_oob_flag s = SMP_OOB_PRESENT \<or> loc_oob_flag s = SMP_OOB_PRESENT then Some SMP_MODEL_SEC_CONN_OOB
      else if SMP_NO_MITM_REQUIRED (peer_auth_req s) \<and> SMP_NO_MITM_REQUIRED (loc_auth_req s)
      then Some SMP_MODEL_SEC_CONN_JUSTWORKS
      else model_by_io smp_association_table_sc s)"

text \<open>The model and the block with the mode it sets.\<close>

definition smp_select_association_model :: "smp_sys \<Rightarrow> u8 \<times> smp_sys" where
  "smp_select_association_model s =
     (let s = s\<lparr>le_secure_connections_mode_is_used :=
                  (peer_auth_req s AND SMP_SC_SUPPORT_BIT \<noteq> 0 \<and> loc_auth_req s AND SMP_SC_SUPPORT_BIT \<noteq> 0)\<rparr> in
      case (if le_secure_connections_mode_is_used s then smp_select_association_model_secure_connections s
            else smp_select_legacy_association_model s) of
        Some model \<Rightarrow> (model, s)
      | None \<Rightarrow> (SMP_MODEL_OUT_OF_RANGE, bad s))"

section \<open>Keys and addresses\<close>

definition smp_mask_enc_key :: "u8 \<Rightarrow> bytes \<Rightarrow> bytes" where
  "smp_mask_enc_key enc_size p = (if enc_size < 16 then fold (\<lambda>i p. p[i := 0]) [unat enc_size..<16] p else p)"

definition smp_reverse_array :: "bytes \<Rightarrow> u8 \<Rightarrow> bytes" where
  "smp_reverse_array arr len =
     fold (\<lambda>i arr. arr[i := arr ! (unat len - 1 - i), unat len - 1 - i := arr ! i]) [0..<unat len div 2] arr"

definition smp_convert_string_to_tk :: "smp_event_fun \<Rightarrow> u32 \<Rightarrow> smp_sys \<Rightarrow> smp_sys" where
  "smp_convert_string_to_tk sm passkey s =
     (let s = s\<lparr>tk := put_u32 passkey @ drop 4 (tk s)\<rparr> in sm SMP_KEY_READY_EVT (Key SMP_KEY_TYPE_TK (tk s)) s)"

definition smp_calculate_random_input :: "bytes \<Rightarrow> u8 \<Rightarrow> u8 option" where
  "smp_calculate_random_input random r =
     (let i = r div 8; j = r mod 8 in
      map_option (\<lambda>b. (drop_bit (unat j) b AND 1) OR 0x80) (rd random (unat i)))"

definition smp_collect_local_io_capabilities :: "smp_sys \<Rightarrow> bytes" where
  "smp_collect_local_io_capabilities s = [local_io_capability s, loc_oob_flag s, loc_auth_req s]"

definition smp_collect_peer_io_capabilities :: "smp_sys \<Rightarrow> bytes" where
  "smp_collect_peer_io_capabilities s = [peer_io_caps s, peer_oob_flag s, peer_auth_req s]"

definition smp_collect_local_ble_address :: "smp_env \<Rightarrow> smp_sys \<Rightarrow> bytes" where
  "smp_collect_local_ble_address e s =
     (let (bda, ty) = e_local_addr e (pairing_bda s) in put_bda bda @ [ty])"

text \<open>For an unknown device the array is left as it is.\<close>

definition smp_collect_peer_ble_address :: "smp_env \<Rightarrow> bytes \<Rightarrow> smp_sys \<Rightarrow> bytes" where
  "smp_collect_peer_ble_address e le_addr s =
     (case e_remote_addr e (pairing_bda s) of
        Some (bda, ty) \<Rightarrow> put_bda bda @ [ty]
      | None \<Rightarrow> le_addr)"

definition smp_save_secure_connections_long_term_key :: "smp_sys \<Rightarrow> smp_sys" where
  "smp_save_secure_connections_long_term_key s =
     out (Out_Save_Key (pairing_bda s) BTM_LE_KEY_PENC (Penc_Key (ltk s) (zeros 8) 0 (sec_level s) (loc_enc_size s)))
       (out (Out_Save_Key (pairing_bda s) BTM_LE_KEY_LENC (Lenc_Key (ltk s) 0 (loc_enc_size s) (sec_level s))) s)"

text \<open>Whether the application is asked, and what comes of the event.\<close>

definition smp_request_oob_data :: "smp_event_fun \<Rightarrow> smp_sys \<Rightarrow> bool \<times> smp_sys" where
  "smp_request_oob_data sm s =
     (let oob_type =
        (if peer_oob_flag s = SMP_OOB_PRESENT \<and> loc_oob_flag s = SMP_OOB_PRESENT then SMP_OOB_BOTH
         else if peer_oob_flag s = SMP_OOB_PRESENT then SMP_OOB_LOCAL
         else if loc_oob_flag s = SMP_OOB_PRESENT then SMP_OOB_PEER
         else SMP_OOB_INVALID_TYPE) in
      if oob_type = SMP_OOB_INVALID_TYPE then (False, s)
      else (True, sm SMP_TK_REQ_EVT (Oob_Type oob_type) (s\<lparr>req_oob_type := oob_type, cb_evt := SMP_SC_OOB_REQ_EVT\<rparr>)))"

section \<open>The end of a pairing\<close>

definition smp_cb_cleanup :: "smp_sys \<Rightarrow> smp_sys" where
  "smp_cb_cleanup s =
     tSMP_CB.extend
       (zero_smp_cb\<lparr>p_callback := p_callback s, trace_level := trace_level s,
          use_static_passkey := use_static_passkey s,
          static_passkey := (if use_static_passkey s then static_passkey s else 0)\<rparr>)
       (tSMP_CB.more s)"

definition smp_remove_fixed_channel :: "smp_sys \<Rightarrow> smp_sys" where
  "smp_remove_fixed_channel s =
     (if smp_over_br s then out (Out_Remove_Channel L2CAP_SMP_BR_CID (pairing_bda s)) s
      else out (Out_Remove_Channel L2CAP_SMP_CID (pairing_bda s)) s)"

definition smp_reset_control_value :: "smp_sys \<Rightarrow> smp_sys" where
  "smp_reset_control_value s =
     (let s = out Out_Timer_Stop s;
          s = s\<lparr>flags := 0\<rparr>;
          s = out (Out_Idle_Timeout (pairing_bda s)) s;
          s = smp_remove_fixed_channel s in
      smp_cb_cleanup s)"

definition smp_proc_pairing_cmpl :: "smp_sys \<Rightarrow> smp_sys" where
  "smp_proc_pairing_cmpl s =
     (let callback = p_callback s;
          bda = pairing_bda s;
          p_rec = s_dev s bda;
          cmplt = \<lparr>cm_reason = status s, cm_sec_level = 0, cm_is_pair_cancel = False,
                   cm_smp_over_br = smp_over_br s, cm_auth_mode = 0\<rparr>;
          (cmplt, s) =
            (if status s = SMP_SUCCESS then
               (let cmplt = cmplt\<lparr>cm_sec_level := sec_level s\<rparr> in
                if auth_mode s \<noteq> 0 then
                  (cmplt\<lparr>cm_auth_mode := auth_mode s\<rparr>,
                   (case p_rec of Some r \<Rightarrow> s\<lparr>s_dev := (s_dev s)(bda \<mapsto> r\<lparr>dr_auth_mode := auth_mode s\<rparr>)\<rparr> | None \<Rightarrow> s))
                else (case p_rec of Some r \<Rightarrow> (cmplt\<lparr>cm_auth_mode := dr_auth_mode r\<rparr>, s) | None \<Rightarrow> (cmplt, s)))
             else (cmplt, s));
          cmplt = (if is_pair_cancel s then cmplt\<lparr>cm_is_pair_cancel := True\<rparr> else cmplt);
          s = (if smp_role s = HCI_ROLE_SLAVE then
                 (case s_dev s bda of
                    Some r \<Rightarrow> if dr_skip_update_conn_param r
                       then s\<lparr>s_dev := (s_dev s)(bda \<mapsto> r\<lparr>dr_skip_update_conn_param := False\<rparr>)\<rparr>
                       else out (Out_Update_Conn_Params bda True) s
                  | None \<Rightarrow> out (Out_Update_Conn_Params bda True) s)
               else s);
          s = smp_reset_control_value s in
      if callback then out (Out_Callback SMP_COMPLT_EVT bda (Evt_Cmpl cmplt)) s else s)"

end
