(* ===== verification/MpArith.thy ===== *)
theory MpArith
  imports Prelude
begin

text \<open>
  Multi-word arithmetic of the security manager, \<open>stack/smp/p_256_multprecision.c\<close>: the routines that
  know no modulus.  A number is the list of its 32-bit words, least significant first, of the length
  the C functions get as \<open>keyLength\<close>.  The loops of the code read the words of an index before they
  write it, so that a result may share its array with an operand; \<open>multiprecision_mult\<close>, which may not
  be called so, is only called with an array of its own.  Each routine is shown to compute what it
  is named for on the numbers the lists stand for.
\<close>

unbundle bit_operations_syntax

section \<open>The routines\<close>

type_synonym dword = u32

definition multiprecision_init :: "nat \<Rightarrow> dword list" where
  "multiprecision_init n = replicate n 0"

definition multiprecision_copy :: "dword list \<Rightarrow> dword list" where
  "multiprecision_copy a = a"

text \<open>The comparison runs from the most significant word down.\<close>

fun compare_loop :: "dword list \<Rightarrow> dword list \<Rightarrow> int" where
  "compare_loop (a # as) (b # bs) = (if b < a then 1 else if a < b then - 1 else compare_loop as bs)"
| "compare_loop _ _ = 0"

definition multiprecision_compare :: "dword list \<Rightarrow> dword list \<Rightarrow> int" where
  "multiprecision_compare a b = compare_loop (rev a) (rev b)"

fun multiprecision_iszero :: "dword list \<Rightarrow> bool" where
  "multiprecision_iszero [] = True"
| "multiprecision_iszero (a # as) = (if a \<noteq> 0 then False else multiprecision_iszero as)"

fun dword_bits_loop :: "nat \<Rightarrow> dword \<Rightarrow> nat" where
  "dword_bits_loop 0 a = 0"
| "dword_bits_loop (Suc n) a = (if a = 0 then 0 else Suc (dword_bits_loop n (drop_bit 1 a)))"

definition multiprecision_dword_bits :: "dword \<Rightarrow> nat" where
  "multiprecision_dword_bits a = dword_bits_loop 32 a"

definition multiprecision_most_signdwords :: "dword list \<Rightarrow> nat" where
  "multiprecision_most_signdwords a = length (dropWhile (\<lambda>w. w = 0) (rev a))"

definition multiprecision_most_signbits :: "dword list \<Rightarrow> nat" where
  "multiprecision_most_signbits a =
     (let n = multiprecision_most_signdwords a in
      if n = 0 then 0 else push_bit 5 (n - 1) + multiprecision_dword_bits (a ! (n - 1)))"

definition add_word :: "dword \<Rightarrow> dword \<Rightarrow> dword \<Rightarrow> dword \<times> dword" where
  "add_word carrier a b =
     (let temp = a + carrier;
          carrier = c_bool (temp < carrier);
          temp = temp + b;
          carrier = carrier OR c_bool (temp < b) in
      (temp, carrier))"

fun add_loop :: "dword \<Rightarrow> dword list \<Rightarrow> dword list \<Rightarrow> dword list \<times> dword" where
  "add_loop carrier (a # as) (b # bs) =
     (let (temp, carrier) = add_word carrier a b; (cs, k) = add_loop carrier as bs in (temp # cs, k))"
| "add_loop carrier _ _ = ([], carrier)"

definition multiprecision_add :: "dword list \<Rightarrow> dword list \<Rightarrow> dword list \<times> dword" where
  "multiprecision_add a b = add_loop 0 a b"

definition sub_word :: "dword \<Rightarrow> dword \<Rightarrow> dword \<Rightarrow> dword \<times> dword" where
  "sub_word borrow a b =
     (let temp = a - borrow;
          borrow = c_bool (a < temp);
          c = temp - b;
          borrow = borrow OR c_bool (temp < c) in
      (c, borrow))"

fun sub_loop :: "dword \<Rightarrow> dword list \<Rightarrow> dword list \<Rightarrow> dword list \<times> dword" where
  "sub_loop borrow (a # as) (b # bs) =
     (let (c, borrow) = sub_word borrow a b; (cs, k) = sub_loop borrow as bs in (c # cs, k))"
| "sub_loop borrow _ _ = ([], borrow)"

definition multiprecision_sub :: "dword list \<Rightarrow> dword list \<Rightarrow> dword list \<times> dword" where
  "multiprecision_sub a b = sub_loop 0 a b"

fun lshift_loop :: "dword \<Rightarrow> dword list \<Rightarrow> dword list \<times> dword" where
  "lshift_loop carrier (a # as) =
     (let (cs, k) = lshift_loop (drop_bit 31 a) as in ((push_bit 1 a OR carrier) # cs, k))"
| "lshift_loop carrier [] = ([], carrier)"

definition multiprecision_lshift :: "dword list \<Rightarrow> dword list \<times> dword" where
  "multiprecision_lshift a = lshift_loop 0 a"

text \<open>The right shift runs from the most significant word down as well.\<close>

fun rshift_loop :: "dword \<Rightarrow> dword list \<Rightarrow> dword list" where
  "rshift_loop carrier (a # as) = (drop_bit 1 a OR carrier) # rshift_loop (push_bit 31 a) as"
| "rshift_loop carrier [] = []"

definition multiprecision_rshift :: "dword list \<Rightarrow> dword list" where
  "multiprecision_rshift a = rev (rshift_loop 0 (rev a))"

text \<open>
  The inner loop of the multiplication adds \<open>a[i] * b\<close> to the words of \<open>c\<close> from \<open>i\<close> on; the product
  of two words is computed in 64 bits for its upper half and in 32 bits for its lower half.
\<close>

definition mult_step :: "dword \<Rightarrow> dword \<Rightarrow> dword \<Rightarrow> dword \<Rightarrow> dword \<times> dword" where
  "mult_step U a b c =
     (let result = (ucast a :: u64) * ucast b;
          W = (ucast (drop_bit 32 result) :: dword);
          V = a * b;
          V = V + U;
          U = c_bool (V < U);
          U = U + W;
          V = V + c;
          U = U + c_bool (V < c) in
      (V, U))"

fun mult_row :: "dword \<Rightarrow> dword \<Rightarrow> dword list \<Rightarrow> dword list \<Rightarrow> dword list \<times> dword" where
  "mult_row U a (b # bs) (c # cs) =
     (let (V, U) = mult_step U a b c; (cs, k) = mult_row U a bs cs in (V # cs, k))"
| "mult_row U a _ _ = ([], U)"

text \<open>
  The outer loop: after row \<open>i\<close> the word \<open>c[i]\<close> is final and the word \<open>c[i + keyLength]\<close> is the last
  carry.  \<open>cs\<close> are the words of \<open>c\<close> from \<open>i\<close> to \<open>i + keyLength - 1\<close>.
\<close>

fun mult_rows :: "dword list \<Rightarrow> dword list \<Rightarrow> dword list \<Rightarrow> dword list" where
  "mult_rows (a # as) b cs =
     (let (cs, k) = mult_row 0 a b cs in
      case cs @ [k] of [] \<Rightarrow> [] | c # cs \<Rightarrow> c # mult_rows as b cs)"
| "mult_rows [] b cs = cs"

definition multiprecision_mult :: "dword list \<Rightarrow> dword list \<Rightarrow> dword list" where
  "multiprecision_mult a b = mult_rows a b (multiprecision_init (length a))"

section \<open>Numbers\<close>

text \<open>The number a list of words stands for.\<close>

primrec mp_val :: "dword list \<Rightarrow> nat" where
  "mp_val [] = 0"
| "mp_val (w # ws) = unat w + 2 ^ 32 * mp_val ws"

definition mp_base :: "nat \<Rightarrow> nat" where
  "mp_base n = 2 ^ (32 * n)"

lemma mp_base_0 [simp]: "mp_base 0 = 1"
  by (simp add: mp_base_def)

lemma mp_base_Suc: "mp_base (Suc n) = 2 ^ 32 * mp_base n"
  by (simp add: mp_base_def power_add)

lemma mp_base_pos [simp]: "0 < mp_base n"
  by (simp add: mp_base_def)

lemma mp_val_append: "mp_val (xs @ ys) = mp_val xs + mp_base (length xs) * mp_val ys"
  by (induction xs) (simp_all add: mp_base_Suc algebra_simps)

lemma mp_val_lt: "mp_val xs < mp_base (length xs)"
proof (induction xs)
  case (Cons w ws)
  then have "mp_val ws + 1 \<le> mp_base (length ws)" by simp
  then have "2 ^ 32 * (mp_val ws + 1) \<le> 2 ^ 32 * mp_base (length ws)" by (rule mult_le_mono2)
  with u32_lt [of w] show ?case by (simp add: mp_base_Suc)
qed simp

lemma mp_val_inj: "length xs = length ys \<Longrightarrow> mp_val xs = mp_val ys \<Longrightarrow> xs = ys"
proof (induction xs ys rule: list_induct2)
  case (Cons x xs y ys)
  have "unat x mod 2 ^ 32 = unat y mod 2 ^ 32"
    using Cons.prems by (metis mp_val.simps(2) mod_mult_self2)
  then have "x = y" using u32_lt [of x] u32_lt [of y] by (simp add: word_unat_eq_iff)
  with Cons show ?case by simp
qed simp

lemma mp_val_replicate [simp]: "mp_val (replicate n 0) = 0"
  by (induction n) simp_all

lemma mp_val_init [simp]: "mp_val (multiprecision_init n) = 0"
  by (simp add: multiprecision_init_def)


section \<open>Carries\<close>

lemma unat_add32: "unat ((x :: dword) + y) = unat x + unat y - (if 2 ^ 32 \<le> unat x + unat y then 2 ^ 32 else 0)"
  using u32_lt [of x] u32_lt [of y] by (simp add: unat_word_ariths mod_if)

lemma unat_add_flags:
  fixes x :: dword
  assumes "unat x + of_bool p + of_bool q < 2 ^ 32"
  shows "unat (x + c_bool p + c_bool q) = unat x + of_bool p + of_bool q"
  using assms by (cases p; cases q) (simp_all add: unat_word_ariths)

lemma unat_sub32: "unat ((x :: dword) - y) = (if unat y \<le> unat x then unat x - unat y else unat x + 2 ^ 32 - unat y)"
  by (simp add: unat_sub_if')

lemma u64_mult:
  fixes a b :: dword
  shows "unat ((ucast a :: u64) * ucast b) = unat a * unat b"
proof -
  have "unat a \<le> 4294967295" "unat b \<le> 4294967295" using u32_lt [of a] u32_lt [of b] by simp_all
  then have "unat a * unat b \<le> 4294967295 * 4294967295" by (rule mult_le_mono)
  then show ?thesis
    using u32_lt [of a] u32_lt [of b]
    by (simp add: unat_word_ariths unsigned_ucast_eq take_bit_eq_mod)
qed

section \<open>Addition and subtraction\<close>

lemma add_step:
  fixes a b :: dword
  assumes "unat k \<le> 1"
  defines "t \<equiv> a + k"
  defines "k' \<equiv> (c_bool (t < k) OR c_bool (t + b < b) :: dword)"
  shows "unat (t + b) + 2 ^ 32 * unat k' = unat a + unat b + unat k" "unat k' \<le> 1"
proof -
  have k': "unat k' = of_bool (t < k \<or> t + b < b)" by (simp add: k'_def)
  then show "unat k' \<le> 1" by simp
  have t: "t < k \<longleftrightarrow> 2 ^ 32 \<le> unat a + unat k"
    using u32_lt [of a] u32_lt [of k] by (auto simp: t_def word_less_nat_alt unat_add32)
  have tb: "t + b < b \<longleftrightarrow> 2 ^ 32 \<le> unat t + unat b"
    using u32_lt [of t] u32_lt [of b] by (auto simp: word_less_nat_alt unat_add32)
  show "unat (t + b) + 2 ^ 32 * unat k' = unat a + unat b + unat k"
    unfolding k' t tb
    using assms(1) u32_lt [of a] u32_lt [of b] unat_add32 [of a k, folded t_def] unat_add32 [of t b]
    by (auto split: if_splits)
qed

lemma add_loop_correct:
  "length as = length bs \<Longrightarrow> unat k \<le> 1 \<Longrightarrow> add_loop k as bs = (cs, k') \<Longrightarrow>
   mp_val cs + mp_base (length as) * unat k' = mp_val as + mp_val bs + unat k \<and> unat k' \<le> 1 \<and>
   length cs = length as"
proof (induction as bs arbitrary: k cs k' rule: list_induct2)
  case (Cons a as b bs)
  let ?t = "a + k"
  let ?k = "c_bool (?t < k) OR c_bool (?t + b < b) :: dword"
  obtain cs' where cs: "add_loop ?k as bs = (cs', k')" "cs = (?t + b) # cs'"
    using Cons.prems(2) by (auto simp: add_word_def Let_def split: prod.splits)
  note s = add_step [OF Cons.prems(1), of a b]
  have ih: "mp_val cs' + mp_base (length as) * unat k' = mp_val as + mp_val bs + unat ?k"
      "unat k' \<le> 1" "length cs' = length as"
    using Cons.IH [OF s(2) cs(1)] by blast+
  have "2 ^ 32 * (mp_val cs' + mp_base (length as) * unat k') = 2 ^ 32 * (mp_val as + mp_val bs + unat ?k)"
    by (simp only: ih(1))
  with s(1) ih(2,3) show ?case unfolding cs(2) by (simp add: mp_base_Suc distrib_left mult.assoc)
qed simp

lemma multiprecision_add_correct:
  assumes "length a = length b" "multiprecision_add a b = (c, k)"
  shows "mp_val c + mp_base (length a) * unat k = mp_val a + mp_val b" "unat k \<le> 1" "length c = length a"
  using add_loop_correct [OF assms(1), of 0] assms(2) by (auto simp: multiprecision_add_def)

lemma sub_step:
  fixes a b :: dword
  assumes "unat k \<le> 1"
  defines "t \<equiv> a - k"
  defines "k' \<equiv> (c_bool (a < t) OR c_bool (t < t - b) :: dword)"
  shows "unat (t - b) + unat b + unat k = unat a + 2 ^ 32 * unat k'" "unat k' \<le> 1"
proof -
  have k': "unat k' = of_bool (a < t \<or> t < t - b)" by (simp add: k'_def)
  then show "unat k' \<le> 1" by simp
  have t: "a < t \<longleftrightarrow> unat a < unat k"
    using u32_lt [of a] u32_lt [of k] assms(1) by (auto simp: t_def word_less_nat_alt unat_sub32)
  have tb: "t < t - b \<longleftrightarrow> unat t < unat b"
    using u32_lt [of t] u32_lt [of b] by (auto simp: word_less_nat_alt unat_sub32)
  show "unat (t - b) + unat b + unat k = unat a + 2 ^ 32 * unat k'"
    unfolding k' t tb
    using assms(1) u32_lt [of a] u32_lt [of b] unat_sub32 [of a k, folded t_def] unat_sub32 [of t b]
    by (auto split: if_splits)
qed

lemma sub_loop_correct:
  "length as = length bs \<Longrightarrow> unat k \<le> 1 \<Longrightarrow> sub_loop k as bs = (cs, k') \<Longrightarrow>
   mp_val cs + mp_val bs + unat k = mp_val as + mp_base (length as) * unat k' \<and> unat k' \<le> 1 \<and>
   length cs = length as"
proof (induction as bs arbitrary: k cs k' rule: list_induct2)
  case (Cons a as b bs)
  let ?t = "a - k"
  let ?k = "c_bool (a < ?t) OR c_bool (?t < ?t - b) :: dword"
  obtain cs' where cs: "sub_loop ?k as bs = (cs', k')" "cs = (?t - b) # cs'"
    using Cons.prems(2) by (auto simp: sub_word_def Let_def split: prod.splits)
  note s = sub_step [OF Cons.prems(1), of a b]
  have ih: "mp_val cs' + mp_val bs + unat ?k = mp_val as + mp_base (length as) * unat k'"
      "unat k' \<le> 1" "length cs' = length as"
    using Cons.IH [OF s(2) cs(1)] by blast+
  have "2 ^ 32 * (mp_val cs' + mp_val bs + unat ?k) = 2 ^ 32 * (mp_val as + mp_base (length as) * unat k')"
    by (simp only: ih(1))
  with s(1) ih(2,3) show ?case unfolding cs(2) by (simp add: mp_base_Suc distrib_left mult.assoc)
qed simp

lemma multiprecision_sub_correct:
  assumes "length a = length b" "multiprecision_sub a b = (c, k)"
  shows "mp_val c + mp_val b = mp_val a + mp_base (length a) * unat k" "unat k \<le> 1" "length c = length a"
  using sub_loop_correct [OF assms(1), of 0] assms(2) by (auto simp: multiprecision_sub_def)

text \<open>Without a borrow the subtraction is the one of natural numbers.\<close>

lemma multiprecision_sub_le:
  assumes "length a = length b" "mp_val b \<le> mp_val a"
  shows "mp_val (fst (multiprecision_sub a b)) = mp_val a - mp_val b"
    "length (fst (multiprecision_sub a b)) = length a" "snd (multiprecision_sub a b) = 0"
proof -
  obtain c k where s: "multiprecision_sub a b = (c, k)" by fastforce
  note c = multiprecision_sub_correct [OF assms(1) s]
  have "mp_val c < mp_base (length a)" using mp_val_lt [of c] c(3) by simp
  then have "unat k = 0" using c(1,2) assms(2) by (cases "unat k") auto
  with c s show "mp_val (fst (multiprecision_sub a b)) = mp_val a - mp_val b"
    "length (fst (multiprecision_sub a b)) = length a" "snd (multiprecision_sub a b) = 0"
    by (auto simp: word_unat_eq_iff)
qed

section \<open>Comparison\<close>

lemma compare_loop_correct:
  "length as = length bs \<Longrightarrow>
   compare_loop as bs = (if mp_val (rev bs) < mp_val (rev as) then 1
                         else if mp_val (rev as) < mp_val (rev bs) then - 1 else 0)"
proof (induction as bs rule: list_induct2)
  case (Cons a as b bs)
  let ?m = "mp_base (length as)"
  have v: "mp_val (rev as) < ?m" "mp_val (rev bs) < ?m"
    using mp_val_lt [of "rev as"] mp_val_lt [of "rev bs"] Cons.hyps by simp_all
  have less: "mp_val (rev xs) + ?m * unat x < mp_val (rev ys) + ?m * unat y"
    if "x < y" "mp_val (rev xs) < ?m" for xs ys and x y :: dword
  proof -
    have "?m * (unat x + 1) \<le> ?m * unat y" using that(1) by (intro mult_le_mono2) (simp add: word_less_nat_alt)
    with that(2) show ?thesis by (simp add: algebra_simps)
  qed
  consider "b < a" | "a < b" | "a = b" by (rule linorder_cases)
  then show ?case
  proof cases
    case 1
    with less [OF 1 v(2), of as] Cons.hyps show ?thesis by (simp add: mp_val_append)
  next
    case 2
    with less [OF 2 v(1), of bs] Cons.hyps show ?thesis by (simp add: mp_val_append)
  next
    case 3
    with Cons show ?thesis by (simp add: mp_val_append)
  qed
qed simp

lemma multiprecision_compare_correct:
  "length a = length b \<Longrightarrow>
   multiprecision_compare a b = (if mp_val b < mp_val a then 1 else if mp_val a < mp_val b then - 1 else 0)"
  by (simp add: multiprecision_compare_def compare_loop_correct)

lemma multiprecision_iszero_correct: "multiprecision_iszero a \<longleftrightarrow> mp_val a = 0"
  by (induction a) (auto simp: word_unat_eq_iff)

section \<open>Shifts\<close>

lemma lshift_loop_correct:
  "unat k \<le> 1 \<Longrightarrow> lshift_loop k as = (cs, k') \<Longrightarrow>
   mp_val cs + mp_base (length as) * unat k' = 2 * mp_val as + unat k \<and> unat k' \<le> 1 \<and> length cs = length as"
proof (induction as arbitrary: k cs k')
  case (Cons a as)
  let ?k = "drop_bit 31 a"
  obtain cs' where cs: "lshift_loop ?k as = (cs', k')" "cs = (push_bit 1 a OR k) # cs'"
    using Cons.prems(2) by (auto split: prod.splits)
  have k1: "unat ?k = unat a div 2 ^ 31" by (simp add: unsigned_drop_bit_eq drop_bit_eq_div unat_div)
  then have "unat ?k \<le> 1" using u32_lt [of a] by simp
  from Cons.IH [OF this cs(1)]
  have ih: "mp_val cs' + mp_base (length as) * unat k' = 2 * mp_val as + unat ?k"
      "unat k' \<le> 1" "length cs' = length as" by blast+
  have "push_bit 1 a AND k = 0"
  proof (rule bit_word_eqI)
    fix n
    have k: "k = 0 \<or> k = 1" using Cons.prems(1) by (auto simp: word_unat_eq_iff le_Suc_eq)
    have "\<not> bit (push_bit 1 a) 0" by (simp only: bit_push_bit_iff) simp
    with k show "bit (push_bit 1 a AND k) n = bit 0 n"
      by (auto simp: bit_and_iff bit_1_iff simp del: push_bit_eq_mult push_bit_Suc)
  qed
  then have "push_bit 1 a OR k = push_bit 1 a + k" by (simp add: disjunctive_add_eq_or)
  moreover have "unat (push_bit 1 a) = 2 * unat a mod 2 ^ 32"
    by (simp add: push_bit_eq_mult unat_word_ariths mult.commute)
  moreover have "2 * unat a mod 2 ^ 32 + unat k < 2 ^ 32"
  proof -
    have "2 * unat a mod 2 ^ 32 = 2 * (unat a mod 2 ^ 31)" by (simp add: mult_mod_right)
    also have "\<dots> \<le> 2 ^ 32 - 2" using mod_less_divisor [of "2 ^ 31" "unat a"] by simp
    finally show ?thesis using Cons.prems(1) by simp
  qed
  ultimately have v: "unat (push_bit 1 a OR k) = 2 * unat a mod 2 ^ 32 + unat k"
    by (simp add: unat_add32)
  have "2 * unat a = 2 * unat a mod 2 ^ 32 + 2 ^ 32 * (unat a div 2 ^ 31)"
  proof -
    have "2 * unat a div 2 ^ 32 = unat a div 2 ^ 31" by (simp add: div_mult2_eq)
    then show ?thesis by (metis mod_mult_div_eq)
  qed
  with ih v k1 show ?case unfolding cs(2) by (simp add: mp_base_Suc algebra_simps)
qed simp

lemma multiprecision_lshift_correct:
  assumes "multiprecision_lshift a = (c, k)"
  shows "mp_val c + mp_base (length a) * unat k = 2 * mp_val a" "unat k \<le> 1" "length c = length a"
  using lshift_loop_correct [of 0 a c k] assms by (auto simp: multiprecision_lshift_def)


lemma rshift_head:
  fixes a w :: dword
  shows "unat (drop_bit 1 a OR push_bit 31 w) = unat a div 2 + 2 ^ 31 * (unat w mod 2)"
proof -
  have "drop_bit 1 a AND push_bit 31 w = 0"
  proof (rule bit_word_eqI)
    fix n
    show "bit (drop_bit 1 a AND push_bit 31 w) n = bit 0 n"
      using bit_imp_le_length [of a "Suc n"] by (auto simp: bit_and_iff bit_push_bit_iff bit_drop_bit_eq)
  qed
  then have or: "drop_bit 1 a OR push_bit 31 w = drop_bit 1 a + push_bit 31 w" by (simp add: disjunctive_add_eq_or)
  have d: "unat (drop_bit 1 a) = unat a div 2" by (simp add: unsigned_drop_bit_eq drop_bit_eq_div unat_div)
  have p: "unat (push_bit 31 w) = 2 ^ 31 * (unat w mod 2)"
  proof -
    have "unat (push_bit 31 w) = 2 ^ 31 * unat w mod (2 ^ 31 * 2)"
      by (simp add: push_bit_eq_mult unat_word_ariths mult.commute)
    then show ?thesis by (simp only: mult_mod_right)
  qed
  have "unat a div 2 < 2 ^ 31" using u32_lt [of a] by simp
  moreover have "unat w mod 2 \<le> 1" by simp
  ultimately show ?thesis unfolding or unat_add32 d p by (cases "unat w mod 2") simp_all
qed

lemma rshift_loop_correct:
  "mp_val (rev (rshift_loop (push_bit 31 w) as)) = (mp_val (rev as) + mp_base (length as) * (unat w mod 2)) div 2 \<and>
   length (rshift_loop (push_bit 31 w) as) = length as"
proof (induction as arbitrary: w)
  case (Cons a as)
  let ?m = "mp_base (length as)"
  have a: "unat a = unat a mod 2 + 2 * (unat a div 2)" by simp
  have "mp_val (rev (rshift_loop (push_bit 31 w) (a # as))) =
      (mp_val (rev as) + ?m * (unat a mod 2)) div 2 + ?m * (unat a div 2 + 2 ^ 31 * (unat w mod 2))"
    by (simp only: rshift_loop.simps rev.simps mp_val_append mp_val.simps rshift_head Cons.IH length_rev) simp
  also have "\<dots> = (mp_val (rev as) + ?m * (unat a mod 2) + 2 * (?m * (unat a div 2 + 2 ^ 31 * (unat w mod 2)))) div 2"
    by simp
  also have "mp_val (rev as) + ?m * (unat a mod 2) + 2 * (?m * (unat a div 2 + 2 ^ 31 * (unat w mod 2))) =
      mp_val (rev as) + ?m * (unat a mod 2 + 2 * (unat a div 2)) + 2 ^ 32 * ?m * (unat w mod 2)"
    by (simp only: distrib_left) simp
  also have "\<dots> = mp_val (rev (a # as)) + mp_base (length (a # as)) * (unat w mod 2)"
    by (simp add: mp_val_append mp_base_Suc)
  finally show ?case using Cons.IH by simp
qed simp

lemma multiprecision_rshift_correct:
  "mp_val (multiprecision_rshift a) = mp_val a div 2" "length (multiprecision_rshift a) = length a"
  using rshift_loop_correct [of 0 "rev a"] by (simp_all add: multiprecision_rshift_def)

section \<open>Multiplication\<close>

lemma mult_step_correct:
  assumes "mult_step U a b c = (V, U')"
  shows "unat V + 2 ^ 32 * unat U' = unat a * unat b + unat U + unat c"
proof -
  let ?r = "(ucast a :: u64) * ucast b"
  let ?W = "ucast (drop_bit 32 ?r) :: dword"
  let ?V1 = "a * b + U"
  let ?U1 = "c_bool (?V1 < U) + ?W"
  have V: "V = ?V1 + c" and U': "U' = ?U1 + c_bool (?V1 + c < c)"
    using assms by (auto simp: mult_step_def Let_def)
  have lt: "unat a * unat b + unat U + unat c < 2 ^ 64"
  proof -
    have "unat a * unat b \<le> 4294967295 * 4294967295"
      using u32_lt [of a] u32_lt [of b] by (intro mult_le_mono) simp_all
    then show ?thesis using u32_lt [of U] u32_lt [of c] by simp
  qed
  have W: "unat ?W = unat a * unat b div 2 ^ 32"
  proof -
    have "unat ?W = unat ?r div 2 ^ 32 mod 2 ^ 32"
      by (simp add: unsigned_ucast_eq unsigned_drop_bit_eq drop_bit_eq_div unat_div take_bit_eq_mod)
    also have "\<dots> = unat a * unat b div 2 ^ 32" unfolding u64_mult using lt by (simp add: div_less_iff_less_mult)
    finally show ?thesis .
  qed
  have ab: "unat (a * b) = unat a * unat b mod 2 ^ 32" by (simp add: unat_word_ariths)
  have c1: "?V1 < U \<longleftrightarrow> 2 ^ 32 \<le> unat (a * b) + unat U"
    using u32_lt [of "a * b"] u32_lt [of U] by (auto simp: word_less_nat_alt unat_add32)
  have c2: "?V1 + c < c \<longleftrightarrow> 2 ^ 32 \<le> unat ?V1 + unat c"
    using u32_lt [of ?V1] u32_lt [of c] by (auto simp: word_less_nat_alt unat_add32)
  let ?n = "unat a * unat b div 2 ^ 32 + of_bool (2 ^ 32 \<le> unat (a * b) + unat U) + of_bool (2 ^ 32 \<le> unat ?V1 + unat c)"
  have split: "2 ^ 32 * (unat a * unat b div 2 ^ 32) + unat (a * b) = unat a * unat b"
    unfolding ab by (simp only: mult_div_mod_eq)
  have sum: "unat V + 2 ^ 32 * ?n = unat a * unat b + unat U + unat c"
    using split unat_add32 [of "a * b" U] unat_add32 [of ?V1 c] unfolding V by (auto split: if_splits)
  then have "?n < 2 ^ 32" using lt by simp
  then have "unat (?W + c_bool (2 ^ 32 \<le> unat (a * b) + unat U) + c_bool (2 ^ 32 \<le> unat ?V1 + unat c)) = ?n"
    unfolding W [symmetric] by (rule unat_add_flags)
  then have "unat U' = ?n" unfolding U' c1 c2 by (simp only: add.commute [of ?W])
  with sum show ?thesis by simp
qed

lemma mult_row_correct:
  "length bs = length cs \<Longrightarrow> mult_row U a bs cs = (cs', k) \<Longrightarrow>
   mp_val cs' + mp_base (length bs) * unat k = unat a * mp_val bs + mp_val cs + unat U \<and> length cs' = length bs"
proof (induction bs cs arbitrary: U cs' k rule: list_induct2)
  case (Cons b bs c cs)
  obtain V U' where s: "mult_step U a b c = (V, U')" by fastforce
  then obtain ds where ds: "mult_row U' a bs cs = (ds, k)" "cs' = V # ds"
    using Cons.prems by (auto split: prod.splits)
  note ih = Cons.IH [OF ds(1)]
  have "2 ^ 32 * (mp_val ds + mp_base (length bs) * unat k) = 2 ^ 32 * (unat a * mp_val bs + mp_val cs + unat U')"
    using ih by simp
  with ih mult_step_correct [OF s] show ?case
    unfolding ds(2) by (simp add: mp_base_Suc distrib_left mult.assoc mult.left_commute [of "unat a"])
qed simp

lemma mult_rows_correct:
  "length b = length cs \<Longrightarrow>
   mp_val (mult_rows as b cs) = mp_val as * mp_val b + mp_val cs \<and> length (mult_rows as b cs) = length as + length cs"
proof (induction as arbitrary: cs)
  case (Cons a as)
  obtain ds k where ds: "mult_row 0 a b cs = (ds, k)" by fastforce
  note row = mult_row_correct [OF Cons.prems ds]
  obtain e es where es: "ds @ [k] = e # es" by (cases "ds @ [k]") auto
  then have len: "length es = length b" using row by (metis length_append_singleton length_Cons nat.inject)
  have "mp_val (ds @ [k]) = unat a * mp_val b + mp_val cs" using row by (simp add: mp_val_append)
  then have e: "unat e + 2 ^ 32 * mp_val es = unat a * mp_val b + mp_val cs" by (simp add: es)
  have "mult_rows (a # as) b cs = e # mult_rows as b es" by (simp add: ds es)
  with Cons.IH [OF len [symmetric]] e len Cons.prems show ?case
    by (simp add: distrib_left distrib_right mult.assoc)
qed simp

lemma multiprecision_mult_correct:
  assumes "length a = length b"
  shows "mp_val (multiprecision_mult a b) = mp_val a * mp_val b" "length (multiprecision_mult a b) = 2 * length a"
  using mult_rows_correct [of b "multiprecision_init (length a)" a] assms
  by (simp_all add: multiprecision_mult_def multiprecision_init_def)


section \<open>Sizes\<close>

lemma dword_bits_loop_correct:
  "unat a < 2 ^ n \<Longrightarrow> unat a < 2 ^ dword_bits_loop n a \<and> (a \<noteq> 0 \<longrightarrow> 2 ^ dword_bits_loop n a \<le> 2 * unat a) \<and>
   dword_bits_loop n a \<le> n \<and> (a \<noteq> 0 \<longrightarrow> 0 < dword_bits_loop n a)"
proof (induction n arbitrary: a)
  case (Suc n)
  have d: "unat (drop_bit 1 a) = unat a div 2" by (simp add: unsigned_drop_bit_eq drop_bit_eq_div unat_div)
  have "unat (drop_bit 1 a) < 2 ^ n" using Suc.prems unfolding d by simp
  note ih = Suc.IH [OF this, unfolded d]
  show ?case
  proof (cases "drop_bit 1 a = 0")
    case True
    then have "unat a div 2 = 0" using d by simp
    then have "unat a < 2" by simp
    moreover from True have "dword_bits_loop n (drop_bit 1 a) = 0" by (cases n) simp_all
    ultimately show ?thesis by (auto simp: word_unat_eq_iff)
  next
    case False
    then have "a \<noteq> 0" by auto
    let ?l = "dword_bits_loop n (drop_bit 1 a)"
    from False ih have "unat a div 2 < 2 ^ ?l" "2 ^ ?l \<le> 2 * (unat a div 2)" "?l \<le> n" by auto
    then have "unat a < 2 * 2 ^ ?l" "2 * 2 ^ ?l \<le> 2 * unat a" "?l \<le> n" by linarith+
    with \<open>a \<noteq> 0\<close> show ?thesis by simp
  qed
qed (simp add: word_unat_eq_iff)

lemma multiprecision_dword_bits_correct:
  "unat a < 2 ^ multiprecision_dword_bits a" "a \<noteq> 0 \<Longrightarrow> 2 ^ multiprecision_dword_bits a \<le> 2 * unat a"
  "multiprecision_dword_bits a \<le> 32"
  using dword_bits_loop_correct [of a 32] u32_lt [of a] by (auto simp: multiprecision_dword_bits_def)

lemma most_signdwords_correct:
  fixes a
  defines "n \<equiv> multiprecision_most_signdwords a"
  shows "n \<le> length a" "mp_val a = mp_val (take n a)" "n \<noteq> 0 \<Longrightarrow> a ! (n - 1) \<noteq> 0"
proof -
  let ?p = "\<lambda>w :: dword. w = 0"
  have t: "takeWhile ?p (rev a) = replicate (length (takeWhile ?p (rev a))) 0"
    by (metis (mono_tags, lifting) replicate_length_same set_takeWhileD)
  have "a = rev (dropWhile ?p (rev a)) @ rev (takeWhile ?p (rev a))"
    by (metis rev_append rev_rev_ident takeWhile_dropWhile_id)
  then have a: "a = rev (dropWhile ?p (rev a)) @ replicate (length (takeWhile ?p (rev a))) 0"
    by (metis rev_replicate t)
  have n: "n = length (rev (dropWhile ?p (rev a)))" by (simp add: n_def multiprecision_most_signdwords_def)
  show "n \<le> length a" unfolding n by (metis length_dropWhile_le length_rev)
  have take: "take n a = rev (dropWhile ?p (rev a))" using a n by (metis append_eq_conv_conj)
  show "mp_val a = mp_val (take n a)" unfolding take by (subst a) (simp add: mp_val_append)
  assume "n \<noteq> 0"
  then have ne: "dropWhile ?p (rev a) \<noteq> []" using n by auto
  have "a ! (n - 1) = take n a ! (n - 1)" using \<open>n \<noteq> 0\<close> by simp
  also have "\<dots> = hd (dropWhile ?p (rev a))" unfolding take using ne n by (simp add: rev_nth hd_conv_nth)
  finally show "a ! (n - 1) \<noteq> 0" using hd_dropWhile [OF ne] by simp
qed

lemma multiprecision_most_signbits_correct:
  "mp_val a < 2 ^ multiprecision_most_signbits a"
  "mp_val a \<noteq> 0 \<Longrightarrow> 2 ^ multiprecision_most_signbits a \<le> 2 * mp_val a"
  "multiprecision_most_signbits a \<le> 32 * length a"
proof -
  let ?n = "multiprecision_most_signdwords a"
  note n = most_signdwords_correct [of a]
  have *: "mp_val a < 2 ^ multiprecision_most_signbits a \<and>
      (mp_val a \<noteq> 0 \<longrightarrow> 2 ^ multiprecision_most_signbits a \<le> 2 * mp_val a) \<and>
      multiprecision_most_signbits a \<le> 32 * length a"
  proof (cases "?n = 0")
    case True
    with n(2) show ?thesis by (simp add: multiprecision_most_signbits_def)
  next
    case False
    then obtain m where m: "?n = Suc m" by (cases ?n) auto
    with n(1) have len: "m < length a" by simp
    let ?w = "a ! m" and ?b = "multiprecision_dword_bits (a ! m)"
    have w: "?w \<noteq> 0" using n(3) m by simp
    have bits: "multiprecision_most_signbits a = 32 * m + ?b"
      using m by (simp add: multiprecision_most_signbits_def push_bit_eq_mult)
    have v: "mp_val a = mp_val (take m a) + mp_base m * unat ?w"
      using n(2) len unfolding m by (simp add: take_Suc_conv_app_nth mp_val_append)
    have lo: "mp_val (take m a) < mp_base m" using mp_val_lt [of "take m a"] len by simp
    have "mp_base m * (unat ?w + 1) \<le> mp_base m * 2 ^ ?b"
      using multiprecision_dword_bits_correct(1) [of ?w] by (intro mult_le_mono2) simp
    then have "mp_val a < 2 ^ (32 * m + ?b)" using lo by (simp add: v power_add mp_base_def)
    moreover have "mp_base m * 2 ^ ?b \<le> mp_base m * (2 * unat ?w)"
      using multiprecision_dword_bits_correct(2) [OF w] by (intro mult_le_mono2)
    then have "2 ^ (32 * m + ?b) \<le> 2 * (mp_base m * unat ?w)" by (simp add: power_add mp_base_def)
    then have "2 ^ (32 * m + ?b) \<le> 2 * mp_val a" unfolding v by (rule order_trans) simp
    ultimately show ?thesis
      unfolding bits using len multiprecision_dword_bits_correct(3) [of ?w] by auto
  qed
  then show "mp_val a < 2 ^ multiprecision_most_signbits a"
    "mp_val a \<noteq> 0 \<Longrightarrow> 2 ^ multiprecision_most_signbits a \<le> 2 * mp_val a"
    "multiprecision_most_signbits a \<le> 32 * length a" by blast+
qed

end
