(* ===== verification/MpMod.thy ===== *)
theory MpMod
  imports MpArith
begin

text \<open>
  The arithmetic modulo the prime of the curve, \<open>stack/smp/p_256_multprecision.c\<close>, and the parameters
  of the curve, \<open>stack/smp/p_256_curvepara.c\<close>.  The routines pick the modulus by the length of the
  numbers: 6 words stand for the curve P-192, whose parameters no code ever sets, 8 words for P-256,
  which \<open>SMP_Init\<close> sets up.  Shown are the modular addition, subtraction, doubling and inversion, and
  the reduction of a product modulo P-256: what it computes for all but a few products, and two
  products of reduced numbers for which it returns another number.
\<close>

unbundle bit_operations_syntax

section \<open>The curves\<close>

record point =
  pt_x :: "dword list"
  pt_y :: "dword list"
  pt_z :: "dword list"

record elliptic_curve =
  ec_a :: "dword list"
  ec_b :: "dword list"
  ec_a_minus3 :: bool
  ec_p :: "dword list"
  ec_omega :: "dword list"
  ec_G :: point

definition KEY_LENGTH_DWORDS_P192 :: nat where "KEY_LENGTH_DWORDS_P192 = 6"
definition KEY_LENGTH_DWORDS_P256 :: nat where "KEY_LENGTH_DWORDS_P256 = 8"

text \<open>Both curves are static objects: all zero until they are set up.\<close>

definition zero_words :: "dword list" where
  "zero_words = replicate KEY_LENGTH_DWORDS_P256 0"

definition zero_curve :: elliptic_curve where
  "zero_curve = \<lparr>ec_a = zero_words, ec_b = zero_words, ec_a_minus3 = False, ec_p = zero_words,
     ec_omega = zero_words, ec_G = \<lparr>pt_x = zero_words, pt_y = zero_words, pt_z = zero_words\<rparr>\<rparr>"

text \<open>
  \<open>memset (ec->omega, 0, KEY_LENGTH_DWORDS_P256)\<close> clears eight bytes, which are two words.
\<close>

definition p_256_init_curve :: "nat \<Rightarrow> elliptic_curve \<Rightarrow> elliptic_curve" where
  "p_256_init_curve keyLength ec =
     (if keyLength = KEY_LENGTH_DWORDS_P256 then
        ec\<lparr>ec_p := [0xFFFFFFFF, 0xFFFFFFFF, 0xFFFFFFFF, 0, 0, 0, 1, 0xFFFFFFFF],
           ec_omega := [0, 0] @ drop 2 (ec_omega ec),
           ec_a := [0, 0] @ drop 2 (ec_a ec),
           ec_a_minus3 := True,
           ec_b := [0x27d2604b, 0x3bce3c3e, 0xcc53b0f6, 0x651d06b0, 0x769886bc, 0xb3ebbd55, 0xaa3a93e7, 0x5ac635d8],
           ec_G := (ec_G ec)\<lparr>
             pt_x := [0xd898c296, 0xf4a13945, 0x2deb33a0, 0x77037d81, 0x63a440f2, 0xf8bce6e5, 0xe12c4247, 0x6b17d1f2],
             pt_y := [0x37bf51f5, 0xcbb64068, 0x6b315ece, 0x2bce3357, 0x7c0f9e16, 0x8ee7eb4a, 0xfe1a7f9b, 0x4fe342e2]\<rparr>\<rparr>
      else ec)"

definition curve :: elliptic_curve where "curve = zero_curve"
definition curve_p256 :: elliptic_curve where
  "curve_p256 = p_256_init_curve KEY_LENGTH_DWORDS_P256 zero_curve"

abbreviation p256 :: "dword list" where "p256 \<equiv> ec_p curve_p256"

section \<open>Sums\<close>

text \<open>The modulus for a length; \<open>None\<close> where the routines return without writing their result \<open>c\<close>.\<close>

definition modp_of :: "nat \<Rightarrow> dword list option" where
  "modp_of keyLength =
     (if keyLength = KEY_LENGTH_DWORDS_P192 then Some (take keyLength (ec_p curve))
      else if keyLength = KEY_LENGTH_DWORDS_P256 then Some (ec_p curve_p256) else None)"

definition multiprecision_add_mod :: "dword list \<Rightarrow> dword list \<Rightarrow> dword list \<Rightarrow> nat \<Rightarrow> dword list" where
  "multiprecision_add_mod c a b keyLength =
     (case modp_of keyLength of None \<Rightarrow> c
      | Some modp \<Rightarrow>
          (let (c, carrier) = multiprecision_add a b in
           if carrier \<noteq> 0 then fst (multiprecision_sub c modp)
           else if 0 \<le> multiprecision_compare c modp then fst (multiprecision_sub c modp) else c))"

definition multiprecision_sub_mod :: "dword list \<Rightarrow> dword list \<Rightarrow> dword list \<Rightarrow> nat \<Rightarrow> dword list" where
  "multiprecision_sub_mod c a b keyLength =
     (case modp_of keyLength of None \<Rightarrow> c
      | Some modp \<Rightarrow>
          (let (c, borrow) = multiprecision_sub a b in
           if borrow \<noteq> 0 then fst (multiprecision_add c modp) else c))"

definition multiprecision_lshift_mod :: "dword list \<Rightarrow> dword list \<Rightarrow> nat \<Rightarrow> dword list" where
  "multiprecision_lshift_mod c a keyLength =
     (case modp_of keyLength of None \<Rightarrow> c
      | Some modp \<Rightarrow>
          (let (c, carrier) = multiprecision_lshift a in
           if carrier \<noteq> 0 then fst (multiprecision_sub c modp)
           else if 0 \<le> multiprecision_compare c modp then fst (multiprecision_sub c modp) else c))"

section \<open>Reduction modulo P-192\<close>

text \<open>
  One word of a reduction is a pair of the word and the carry into the next one.  \<open>acc_add\<close> is
  \<open>c += X; U += (c < X); U += UX\<close> and \<open>acc_sub\<close> is \<open>U -= (c < X); U -= UX; c -= X\<close>, where \<open>UX\<close>, a byte,
  is the carry of the sum \<open>X\<close>, and 0 when \<open>X\<close> is a word of the operand.
\<close>

type_synonym acc = "dword \<times> dword"

definition acc_add :: "dword \<Rightarrow> u8 \<Rightarrow> acc \<Rightarrow> acc" where
  "acc_add X UX s = (let (c, U) = s; c = c + X; U = U + c_bool (c < X); U = U + ucast UX in (c, U))"

definition acc_sub :: "dword \<Rightarrow> u8 \<Rightarrow> acc \<Rightarrow> acc" where
  "acc_sub X UX s = (let (c, U) = s; U = U - c_bool (c < X); U = U - ucast UX; c = c - X in (c, U))"

text \<open>\<open>c[i] = a[i] + U; U = c[i] < a[i]\<close>.\<close>

definition acc_start :: "dword \<Rightarrow> dword \<Rightarrow> acc" where
  "acc_start a U = (let c = a + U in (c, c_bool (c < a)))"

definition multiprecision_fast_mod :: "dword list \<Rightarrow> dword list" where
  "multiprecision_fast_mod a =
     (let modp = take KEY_LENGTH_DWORDS_P192 (ec_p curve);
          (c0, U) = (let c = a ! 0 + a ! 6 in (c, c_bool (c < a ! 0)));
          (c0, U) = acc_add (a ! 10) 0 (c0, U);
          (c1, U) = acc_add (a ! 11) 0 (acc_add (a ! 7) 0 (acc_start (a ! 1) U));
          (c2, U) = acc_add (a ! 10) 0 (acc_add (a ! 8) 0 (acc_add (a ! 6) 0 (acc_start (a ! 2) U)));
          (c3, U) = acc_add (a ! 11) 0 (acc_add (a ! 9) 0 (acc_add (a ! 7) 0 (acc_start (a ! 3) U)));
          (c4, U) = acc_add (a ! 10) 0 (acc_add (a ! 8) 0 (acc_start (a ! 4) U));
          (c5, U) = acc_add (a ! 11) 0 (acc_add (a ! 9) 0 (acc_start (a ! 5) U));
          c0 = c0 + U; V = c_bool (c0 < U);
          c1 = c1 + V; V = c_bool (c1 < V);
          c2 = c2 + V; V = (c_bool (c2 < V) :: dword);
          c2 = c2 + U; V = c_bool (c2 < U);
          c3 = c3 + V; V = c_bool (c3 < V);
          c4 = c4 + V; V = c_bool (c4 < V);
          c5 = c5 + V; V = (c_bool (c5 < V) :: dword);
          c = [c0, c1, c2, c3, c4, c5] in
      if V \<noteq> 0 then fst (multiprecision_sub c modp)
      else if 0 \<le> multiprecision_compare c modp then fst (multiprecision_sub c modp) else c)"

section \<open>Reduction modulo P-256\<close>

text \<open>The sums of upper words the reduction uses more than once, each with its carry.\<close>

type_synonym sum8 = "dword \<times> u8"

definition sum8_add :: "dword \<Rightarrow> sum8 \<Rightarrow> sum8" where
  "sum8_add x s = (let (S, US) = s; S = S + x; US = US + c_bool (S < x) in (S, US))"

definition sum8_sub :: "dword \<Rightarrow> sum8 \<Rightarrow> sum8" where
  "sum8_sub x s = (let (S, US) = s; US = US - c_bool (S < x); S = S - x in (S, US))"

definition sum_C :: "dword list \<Rightarrow> sum8" where
  "sum_C a = sum8_add (a ! 15) (sum8_add (a ! 14) (a ! 13, 0))"

definition sum_E :: "dword list \<Rightarrow> sum8" where "sum_E a = sum8_add (a ! 9) (a ! 8, 0)"
definition sum_F :: "dword list \<Rightarrow> sum8" where "sum_F a = sum8_add (a ! 10) (a ! 9, 0)"
definition sum_G :: "dword list \<Rightarrow> sum8" where "sum_G a = sum8_add (a ! 11) (a ! 10, 0)"
definition sum_B :: "dword list \<Rightarrow> sum8" where "sum_B a = sum8_add (a ! 12) (sum_C a)"
definition sum_A :: "dword list \<Rightarrow> sum8" where "sum_A a = sum8_sub (a ! 15) (sum8_add (a ! 11) (sum_B a))"
definition sum_D :: "dword list \<Rightarrow> sum8" where "sum_D a = sum8_sub (a ! 14) (sum8_add (a ! 10) (sum_A a))"

text \<open>
  The carry of a word may be negative.  It is then taken off the next word; a borrow of that is
  recorded as the carry 1.
\<close>

definition propagate :: "dword \<Rightarrow> dword \<Rightarrow> acc" where
  "propagate a U =
     (if U AND 0x80000000 \<noteq> 0
      then (let UU = 0 - U; U = c_bool (a < UU) in (a - UU, U))
      else (let c = a + U; U = c_bool (c < a) in (c, U)))"

definition fast_mod_P256_words :: "dword list \<Rightarrow> dword list \<times> dword" where
  "fast_mod_P256_words a =
     (let (C, UC) = sum_C a; (E, UE) = sum_E a; (F, UF) = sum_F a; (G, UG) = sum_G a;
          (B, UB) = sum_B a; (A, UA) = sum_A a; (D, UD) = sum_D a;
          (c0, U) = acc_sub A UA (acc_add E UE (a ! 0, 0));
          (c1, U) = acc_sub B UB (acc_add F UF (propagate (a ! 1) U));
          (c2, U) = acc_sub C UC (acc_add G UG (propagate (a ! 2) U));
          (c3, U) = acc_sub E UE (acc_sub (a ! 15) 0 (acc_sub (a ! 14) 0
                      (acc_add (a ! 12) 0 (acc_add (a ! 11) 0 (acc_add A UA (propagate (a ! 3) U))))));
          (c4, U) = acc_sub F UF (acc_add (a ! 13) 0 (acc_add (a ! 12) 0
                      (acc_sub (a ! 15) 0 (acc_add B UB (propagate (a ! 4) U)))));
          (c5, U) = acc_sub G UG (acc_add (a ! 14) 0 (acc_add (a ! 13) 0
                      (acc_add C UC (propagate (a ! 5) U))));
          (c6, U) = acc_sub E UE (acc_add (a ! 15) 0 (acc_add (a ! 14) 0 (acc_add (a ! 14) 0
                      (acc_add C UC (propagate (a ! 6) U)))));
          (c7, U) = acc_sub D UD (acc_add (a ! 8) 0 (acc_add (a ! 15) 0 (acc_add (a ! 15) 0
                      (acc_add (a ! 15) 0 (propagate (a ! 7) U))))) in
      ([c0, c1, c2, c3, c4, c5, c6, c7], U))"

text \<open>The last carry is worked off by additions or subtractions of the modulus, whose carries are dropped.\<close>

function add_modp_loop :: "dword \<Rightarrow> dword list \<Rightarrow> dword list" where
  "add_modp_loop U c = (if U = 0 then c else add_modp_loop (U + 1) (fst (multiprecision_add c (ec_p curve_p256))))"
  by auto
termination
proof (relation "measure (\<lambda>(U, c). unat (- U))")
  fix U :: dword and c :: "dword list"
  assume "U \<noteq> 0"
  then have "unat (- U - 1) = unat (- U) - 1" "0 < unat (- U)" by (simp_all add: unat_minus_one unat_gt_0)
  then have "unat (- (U + 1)) < unat (- U)" by (simp add: minus_add_distrib)
  then show "((U + 1, fst (multiprecision_add c p256)), U, c) \<in> measure (\<lambda>(U, c). unat (- U))" by simp
qed simp

function sub_modp_loop :: "dword \<Rightarrow> dword list \<Rightarrow> dword list" where
  "sub_modp_loop U c = (if U = 0 then c else sub_modp_loop (U - 1) (fst (multiprecision_sub c (ec_p curve_p256))))"
  by auto
termination
  by (relation "measure (\<lambda>(U, c). unat U)") (simp_all add: unat_minus_one unat_gt_0)

declare add_modp_loop.simps [simp del] sub_modp_loop.simps [simp del]

definition multiprecision_fast_mod_P256 :: "dword list \<Rightarrow> dword list" where
  "multiprecision_fast_mod_P256 a =
     (let (c, U) = fast_mod_P256_words a;
          c = (if U AND 0x80000000 \<noteq> 0 then add_modp_loop U c else if U \<noteq> 0 then sub_modp_loop U c else c) in
      if 0 \<le> multiprecision_compare c (ec_p curve_p256) then fst (multiprecision_sub c (ec_p curve_p256)) else c)"

definition multiprecision_mersenns_mult_mod :: "dword list \<Rightarrow> dword list \<Rightarrow> dword list \<Rightarrow> nat \<Rightarrow> dword list" where
  "multiprecision_mersenns_mult_mod c a b keyLength =
     (let ab = multiprecision_mult a b in
      if keyLength = 6 then multiprecision_fast_mod ab
      else if keyLength = 8 then multiprecision_fast_mod_P256 ab else c)"

definition multiprecision_mersenns_squa_mod :: "dword list \<Rightarrow> dword list \<Rightarrow> nat \<Rightarrow> dword list" where
  "multiprecision_mersenns_squa_mod c a keyLength = multiprecision_mersenns_mult_mod c a a keyLength"

section \<open>Inversion\<close>

text \<open>
  Halving of \<open>u\<close> while it is even, and of \<open>A\<close> modulo the prime along with it; the sum \<open>A + p\<close> has a word
  \<open>A[keyLength]\<close> for its carry, which comes back in as the top bit.
\<close>

definition halve_mod :: "dword list \<Rightarrow> dword list \<Rightarrow> nat \<Rightarrow> dword list" where
  "halve_mod modp A keyLength =
     (if A ! 0 AND 1 = 0 then multiprecision_rshift A
      else (let (A, k) = multiprecision_add A modp;
                A = multiprecision_rshift A in
            A[keyLength - 1 := A ! (keyLength - 1) OR push_bit 31 k]))"

partial_function (option) halve_loop ::
    "dword list \<Rightarrow> nat \<Rightarrow> dword list \<times> dword list \<Rightarrow> (dword list \<times> dword list) option" where
  "halve_loop modp keyLength s =
     (if fst s ! 0 AND 1 = 0
      then halve_loop modp keyLength (multiprecision_rshift (fst s), halve_mod modp (snd s) keyLength)
      else Some s)"

partial_function (option) inv_loop ::
    "dword list \<Rightarrow> nat \<Rightarrow> (dword list \<times> dword list) \<times> (dword list \<times> dword list) \<Rightarrow> dword list option" where
  "inv_loop modp keyLength s =
     (if multiprecision_iszero (fst (fst s)) then Some (snd (snd s))
      else Option.bind (halve_loop modp keyLength (fst s)) (\<lambda>(u, A).
        Option.bind (halve_loop modp keyLength (snd s)) (\<lambda>(v, C).
          if 0 \<le> multiprecision_compare u v
          then inv_loop modp keyLength ((fst (multiprecision_sub u v), multiprecision_sub_mod A A C keyLength), (v, C))
          else inv_loop modp keyLength ((u, A), (fst (multiprecision_sub v u), multiprecision_sub_mod C C A keyLength)))))"

declare halve_loop.simps [code] inv_loop.simps [code]

definition multiprecision_inv_mod :: "dword list \<Rightarrow> nat \<Rightarrow> dword list option" where
  "multiprecision_inv_mod u keyLength =
     (let modp = (if keyLength = KEY_LENGTH_DWORDS_P256 then ec_p curve_p256 else take keyLength (ec_p curve));
          v = multiprecision_copy modp;
          A = (multiprecision_init keyLength)[0 := 1];
          C = multiprecision_init keyLength in
      Option.bind (inv_loop modp keyLength ((u, A), (v, C))) (\<lambda>C.
        Some (if 0 \<le> multiprecision_compare C modp then fst (multiprecision_sub C modp) else multiprecision_copy C)))"

end
