(* ===== verification/MpModSum.thy ===== *)
theory MpModSum
  imports MpMod
begin

text \<open>
  The modular addition, subtraction and doubling of \<open>stack/smp/p_256_multprecision.c\<close> on numbers
  below the prime of P-256, and the halving step of the inversion.
\<close>

unbundle bit_operations_syntax

section \<open>The prime\<close>

definition P256 :: nat where
  "P256 = 115792089210356248762697446949407573530086143415290314195533631308867097853951"

lemma p256_words: "p256 = [0xFFFFFFFF, 0xFFFFFFFF, 0xFFFFFFFF, 0, 0, 0, 1, 0xFFFFFFFF]"
  by (simp add: curve_p256_def p_256_init_curve_def KEY_LENGTH_DWORDS_P256_def)

lemma length_p256 [simp]: "length p256 = 8"
  by (simp add: p256_words)

lemma mp_val_p256 [simp]: "mp_val p256 = P256"
  by (simp add: p256_words P256_def)

lemma P256_form: "P256 + 2 ^ 224 + 1 = 2 ^ 256 + 2 ^ 192 + 2 ^ 96"
  by (simp add: P256_def)

lemma P256_lt: "P256 < 2 ^ 256" "2 ^ 256 < 2 * P256" "0 < P256" "odd P256"
  by (simp_all add: P256_def)

lemma mp_base_8: "mp_base 8 = 2 ^ 256"
  by (simp add: mp_base_def)

lemma modp_of_8 [simp]: "modp_of 8 = Some p256"
  by (simp add: modp_of_def KEY_LENGTH_DWORDS_P192_def KEY_LENGTH_DWORDS_P256_def)

text \<open>The numbers the routines are meant for.\<close>

definition p256_num :: "dword list \<Rightarrow> bool" where
  "p256_num a \<longleftrightarrow> length a = 8 \<and> mp_val a < P256"

lemma p256_numD [simp, dest]: "p256_num a \<Longrightarrow> length a = 8" "p256_num a \<Longrightarrow> mp_val a < P256"
  by (simp_all add: p256_num_def)

section \<open>One reduction\<close>

definition reduce_once :: "dword list \<Rightarrow> dword \<Rightarrow> dword list" where
  "reduce_once c k =
     (if k \<noteq> 0 then fst (multiprecision_sub c p256)
      else if 0 \<le> multiprecision_compare c p256 then fst (multiprecision_sub c p256) else c)"

lemma reduce_once_correct:
  assumes "length c = 8" "unat k \<le> 1" "mp_val c + 2 ^ 256 * unat k < 2 * P256"
  shows "mp_val (reduce_once c k) = (mp_val c + 2 ^ 256 * unat k) mod P256" "length (reduce_once c k) = 8"
proof -
  obtain d b where d: "multiprecision_sub c p256 = (d, b)" by fastforce
  have len: "length c = length p256" using assms(1) by simp
  note d' = multiprecision_sub_correct [OF len d, unfolded assms(1) mp_base_8 mp_val_p256]
  have dlt: "mp_val d < 2 ^ 256" using mp_val_lt [of d] d'(3) by (simp add: mp_base_8)
  have cmp: "0 \<le> multiprecision_compare c p256 \<longleftrightarrow> P256 \<le> mp_val c"
    using len by (simp add: multiprecision_compare_correct)
  have "mp_val (reduce_once c k) = (mp_val c + 2 ^ 256 * unat k) mod P256 \<and> length (reduce_once c k) = 8"
  proof (cases "k = 0")
    case k: True
    show ?thesis
    proof (cases "P256 \<le> mp_val c")
      case True
      with d'(1,2) dlt have "mp_val d = mp_val c - P256" by (cases "unat b") auto
      moreover have "mp_val c mod P256 = mp_val c - P256" using True assms(3) k by (simp add: mod_if)
      ultimately show ?thesis using k True d d'(3) cmp by (simp add: reduce_once_def)
    qed (use k cmp assms(1) in \<open>simp add: reduce_once_def\<close>)
  next
    case False
    then have k: "unat k = 1" using assms(2) by (auto simp: word_unat_eq_iff le_Suc_eq)
    have less: "mp_val c < P256" using assms(3) k P256_lt(1) by simp
    then have "unat b = 1" using d'(1,2) by (cases "unat b") auto
    then have "mp_val d + P256 = mp_val c + 2 ^ 256" using d'(1) by simp
    moreover have "(mp_val c + 2 ^ 256) mod P256 = mp_val c + 2 ^ 256 - P256"
      using assms(3) k P256_lt(1) by (simp add: mod_if)
    ultimately show ?thesis using False k d d'(3) by (simp add: reduce_once_def)
  qed
  then show "mp_val (reduce_once c k) = (mp_val c + 2 ^ 256 * unat k) mod P256" "length (reduce_once c k) = 8"
    by blast+
qed

section \<open>Addition, subtraction, doubling\<close>

lemma add_mod_value:
  assumes "p256_num a" "p256_num b"
  shows "mp_val (multiprecision_add_mod c a b 8) = (mp_val a + mp_val b) mod P256"
    "p256_num (multiprecision_add_mod c a b 8)"
proof -
  obtain d k where d: "multiprecision_add a b = (d, k)" by fastforce
  have "length a = length b" using assms by simp
  note d' = multiprecision_add_correct [OF this d, unfolded p256_numD(1) [OF assms(1)] mp_base_8]
  have r: "multiprecision_add_mod c a b 8 = reduce_once d k" by (simp add: multiprecision_add_mod_def d reduce_once_def)
  have "mp_val d + 2 ^ 256 * unat k < 2 * P256"
    unfolding d'(1) using p256_numD(2) [OF assms(1)] p256_numD(2) [OF assms(2)] by simp
  from reduce_once_correct [OF d'(3,2) this] show "mp_val (multiprecision_add_mod c a b 8) = (mp_val a + mp_val b) mod P256"
    "p256_num (multiprecision_add_mod c a b 8)"
    unfolding r d'(1) using P256_lt(3) by (simp_all add: p256_num_def)
qed

lemma lshift_mod_value:
  assumes "p256_num a"
  shows "mp_val (multiprecision_lshift_mod c a 8) = 2 * mp_val a mod P256" "p256_num (multiprecision_lshift_mod c a 8)"
proof -
  obtain d k where d: "multiprecision_lshift a = (d, k)" by fastforce
  note d' = multiprecision_lshift_correct [OF d, unfolded p256_numD(1) [OF assms] mp_base_8]
  have r: "multiprecision_lshift_mod c a 8 = reduce_once d k" by (simp add: multiprecision_lshift_mod_def d reduce_once_def)
  have "mp_val d + 2 ^ 256 * unat k < 2 * P256" unfolding d'(1) using p256_numD(2) [OF assms] by simp
  from reduce_once_correct [OF d'(3,2) this] show "mp_val (multiprecision_lshift_mod c a 8) = 2 * mp_val a mod P256"
    "p256_num (multiprecision_lshift_mod c a 8)"
    unfolding r d'(1) using P256_lt(3) by (simp_all add: p256_num_def)
qed

lemma sub_mod_value:
  assumes "p256_num a" "p256_num b"
  shows "int (mp_val (multiprecision_sub_mod c a b 8)) = (int (mp_val a) - int (mp_val b)) mod int P256"
    "p256_num (multiprecision_sub_mod c a b 8)"
proof -
  obtain d k where d: "multiprecision_sub a b = (d, k)" by fastforce
  have len: "length a = length b" using assms by simp
  note d' = multiprecision_sub_correct [OF len d, unfolded p256_numD(1) [OF assms(1)] mp_base_8]
  have dlt: "mp_val d < 2 ^ 256" using mp_val_lt [of d] d'(3) by (simp add: mp_base_8)
  note lt = p256_numD(2) [OF assms(1)] p256_numD(2) [OF assms(2)]
  have "int (mp_val (multiprecision_sub_mod c a b 8)) = (int (mp_val a) - int (mp_val b)) mod int P256 \<and>
    length (multiprecision_sub_mod c a b 8) = 8"
  proof (cases "k = 0")
    case True
    then have "mp_val d + mp_val b = mp_val a" using d'(1) by simp
    then have "int (mp_val d) = int (mp_val a) - int (mp_val b)" by linarith
    moreover have "multiprecision_sub_mod c a b 8 = d" using True by (simp add: multiprecision_sub_mod_def d)
    ultimately show ?thesis using lt d'(3) by simp
  next
    case False
    then have k: "unat k = 1" using d'(2) by (auto simp: word_unat_eq_iff le_Suc_eq)
    obtain e l where e: "multiprecision_add d p256 = (e, l)" by fastforce
    have "length d = length p256" using d'(3) by simp
    note e' = multiprecision_add_correct [OF this e, unfolded d'(3) mp_base_8 mp_val_p256]
    have elt: "mp_val e < 2 ^ 256" using mp_val_lt [of e] e'(3) by (simp add: mp_base_8)
    have db: "mp_val d + mp_val b = mp_val a + 2 ^ 256" using d'(1) k by simp
    then have ab: "mp_val a < mp_val b" using dlt by linarith
    have sum: "mp_val e + 2 ^ 256 * unat l + mp_val b = mp_val a + 2 ^ 256 + P256" using e'(1) db by linarith
    have "unat l = 1"
    proof (cases "unat l")
      case 0
      with sum have "mp_val e + mp_val b = mp_val a + 2 ^ 256 + P256" by simp
      with elt lt(2) show ?thesis by linarith
    qed (use e'(2) in simp)
    then have "mp_val e + mp_val b = mp_val a + P256" using sum by simp
    then have ev: "int (mp_val e) = int (mp_val a) - int (mp_val b) + int P256" by linarith
    have "(int (mp_val a) - int (mp_val b)) mod int P256 = (int (mp_val a) - int (mp_val b) + int P256) mod int P256"
      by simp
    also have "\<dots> = int (mp_val a) - int (mp_val b) + int P256"
      using ab lt by (intro mod_pos_pos_trivial) linarith+
    finally have "(int (mp_val a) - int (mp_val b)) mod int P256 = int (mp_val e)" using ev by simp
    moreover have "multiprecision_sub_mod c a b 8 = e" using False by (simp add: multiprecision_sub_mod_def d e)
    ultimately show ?thesis using e'(3) by simp
  qed
  then have v: "int (mp_val (multiprecision_sub_mod c a b 8)) = (int (mp_val a) - int (mp_val b)) mod int P256"
    and l: "length (multiprecision_sub_mod c a b 8) = 8" by blast+
  have "int (mp_val (multiprecision_sub_mod c a b 8)) < int P256" unfolding v using P256_lt(3) by simp
  with l show "p256_num (multiprecision_sub_mod c a b 8)" by (simp only: p256_num_def of_nat_less_iff simp_thms)
  show "int (mp_val (multiprecision_sub_mod c a b 8)) = (int (mp_val a) - int (mp_val b)) mod int P256" by (rule v)
qed

text \<open>
  C32: On numbers of 8 words below the prime p of P-256, multiprecision_add_mod, multiprecision_sub_mod
  and multiprecision_lshift_mod return the number of 8 words below p that is the sum, the difference
  and the double modulo p.
\<close>

theorem p256_sums_modulo:
  assumes "p256_num a" "p256_num b"
  shows "mp_val (multiprecision_add_mod c a b 8) = (mp_val a + mp_val b) mod P256 \<and>
    int (mp_val (multiprecision_sub_mod c a b 8)) = (int (mp_val a) - int (mp_val b)) mod int P256 \<and>
    mp_val (multiprecision_lshift_mod c a 8) = 2 * mp_val a mod P256 \<and>
    length (multiprecision_add_mod c a b 8) = 8 \<and> length (multiprecision_sub_mod c a b 8) = 8 \<and>
    length (multiprecision_lshift_mod c a 8) = 8"
  using add_mod_value [OF assms] sub_mod_value [OF assms] lshift_mod_value [OF assms(1)] by simp

theorem p256_sums_modulo_witness:
  "mp_val (multiprecision_add_mod [] [7, 0, 0, 0, 0, 0, 0, 0] [5, 0, 0, 0, 0, 0, 0, 0] 8) = 12"
  using p256_sums_modulo [of "[7, 0, 0, 0, 0, 0, 0, 0]" "[5, 0, 0, 0, 0, 0, 0, 0]" "[]"]
  by (simp add: p256_num_def P256_def)

end
