(* ===== verification/MpFastMod.thy ===== *)
theory MpFastMod
  imports MpModSum
begin

text \<open>
  The reduction of a product modulo the prime of P-256, \<open>multiprecision_fast_mod_P256\<close> of
  \<open>stack/smp/p_256_multprecision.c\<close>.  The words of the result with the last carry stand for the sum
  of nine numbers the standard gives; the loop after it takes the carry off.
\<close>

unbundle bit_operations_syntax

text \<open>Words are read as natural numbers here, also where integers are needed.\<close>

declare of_nat_unat [simp del]

section \<open>Signed carries\<close>

definition sval :: "dword \<Rightarrow> int" where
  "sval U = (if unat U < 2 ^ 31 then int (unat U) else int (unat U) - 2 ^ 32)"

lemma sval_0 [simp]: "sval 0 = 0"
  by (simp add: sval_def)

lemma sval_small: "unat U < 2 ^ 31 \<Longrightarrow> sval U = int (unat U)"
  by (simp add: sval_def)

lemma sval_eq_0: "sval U = 0 \<longleftrightarrow> U = 0"
  using u32_lt [of U] by (auto simp: sval_def word_unat_eq_iff)

lemma sval_add:
  assumes "- (2 ^ 31) \<le> sval U + sval V" "sval U + sval V < 2 ^ 31"
  shows "sval (U + V) = sval U + sval V"
  using assms u32_lt [of U] u32_lt [of V] by (auto simp: sval_def unat_add32 of_nat_diff split: if_splits)

lemma sval_sub:
  assumes "- (2 ^ 31) \<le> sval U - sval V" "sval U - sval V < 2 ^ 31"
  shows "sval (U - V) = sval U - sval V"
  using assms u32_lt [of U] u32_lt [of V] by (auto simp: sval_def unat_sub32 of_nat_diff split: if_splits)

lemma sval_negative: "U AND 0x80000000 \<noteq> 0 \<longleftrightarrow> sval U < 0"
proof -
  have "U AND 0x80000000 \<noteq> 0 \<longleftrightarrow> bit U 31"
    using and_exp_eq_0_iff_not_bit [of U 31] by simp
  also have "\<dots> \<longleftrightarrow> bit (unat U) 31" by (simp add: bit_unsigned_iff)
  also have "\<dots> \<longleftrightarrow> odd (unat U div 2 ^ 31)" by (simp add: bit_iff_odd)
  also have "\<dots> \<longleftrightarrow> 2 ^ 31 \<le> unat U"
  proof -
    have "unat U div 2 ^ 31 < 2" using u32_lt [of U] by (simp add: div_less_iff_less_mult)
    then have "odd (unat U div 2 ^ 31) \<longleftrightarrow> 1 \<le> unat U div 2 ^ 31"
      unfolding less_2_cases_iff by auto
    then show ?thesis by (simp add: less_eq_div_iff_mult_less_eq)
  qed
  finally show ?thesis using u32_lt [of U] by (auto simp: sval_def)
qed

section \<open>One word\<close>

definition acc_ok :: "int \<Rightarrow> acc \<Rightarrow> int \<Rightarrow> bool" where
  "acc_ok k s v \<longleftrightarrow> \<bar>sval (snd s)\<bar> \<le> k \<and> int (unat (fst s)) + 2 ^ 32 * sval (snd s) = v"

lemma sval_flag [simp]: "sval (c_bool f) = of_bool f"
  by (simp add: sval_def)

lemma sval_ucast8 [simp]: "sval (ucast (u :: u8)) = int (unat u)"
  using u8_lt [of u] by (simp add: sval_def unsigned_ucast_eq take_bit_nat_eq_self)

lemma acc_add_ok:
  assumes "acc_ok k s v" "int (unat UX) \<le> m" "k + m + 1 < 2 ^ 31"
  shows "acc_ok (k + m + 1) (acc_add X UX s) (v + int (unat X) + 2 ^ 32 * int (unat UX))"
proof -
  obtain c U where s: "s = (c, U)" by fastforce
  let ?f = "c + X < X"
  have f: "?f \<longleftrightarrow> 2 ^ 32 \<le> unat c + unat X"
    using u32_lt [of c] u32_lt [of X] by (auto simp: word_less_nat_alt unat_add32)
  have c: "int (unat (c + X)) + 2 ^ 32 * of_bool ?f = int (unat c) + int (unat X)"
    unfolding f by (simp add: unat_add32 of_nat_diff)
  have U: "\<bar>sval U\<bar> \<le> k" "int (unat c) + 2 ^ 32 * sval U = v" using assms(1) by (simp_all add: s acc_ok_def)
  have U1: "sval (U + c_bool ?f) = sval U + of_bool ?f"
    using U(1) assms(2,3) by (subst sval_add) auto
  have U2: "sval (U + c_bool ?f + ucast UX) = sval U + of_bool ?f + int (unat UX)"
    unfolding U1 [symmetric] using U(1) assms(2,3) by (subst sval_add) (auto simp: U1)
  have "acc_add X UX s = (c + X, U + c_bool ?f + ucast UX)" by (simp add: s acc_add_def Let_def)
  moreover have "\<bar>sval U + of_bool ?f + int (unat UX)\<bar> \<le> k + m + 1" using U(1) assms(2) by (auto simp: of_bool_def)
  ultimately show ?thesis using U(2) c unfolding acc_ok_def by (simp only: fst_conv snd_conv U2) (auto simp: algebra_simps)
qed

lemma acc_sub_ok:
  assumes "acc_ok k s v" "int (unat UX) \<le> m" "k + m + 1 < 2 ^ 31"
  shows "acc_ok (k + m + 1) (acc_sub X UX s) (v - int (unat X) - 2 ^ 32 * int (unat UX))"
proof -
  obtain c U where s: "s = (c, U)" by fastforce
  let ?f = "c < X"
  have c: "int (unat (c - X)) = int (unat c) - int (unat X) + 2 ^ 32 * of_bool ?f"
    using u32_lt [of X] by (auto simp: unat_sub32 word_less_nat_alt of_nat_diff)
  have U: "\<bar>sval U\<bar> \<le> k" "int (unat c) + 2 ^ 32 * sval U = v" using assms(1) by (simp_all add: s acc_ok_def)
  have U1: "sval (U - c_bool ?f) = sval U - of_bool ?f"
    using U(1) assms(2,3) by (subst sval_sub) auto
  have U2: "sval (U - c_bool ?f - ucast UX) = sval U - of_bool ?f - int (unat UX)"
    unfolding U1 [symmetric] using U(1) assms(2,3) by (subst sval_sub) (auto simp: U1)
  have "acc_sub X UX s = (c - X, U - c_bool ?f - ucast UX)" by (simp add: s acc_sub_def Let_def)
  moreover have "\<bar>sval U - of_bool ?f - int (unat UX)\<bar> \<le> k + m + 1" using U(1) assms(2) by (auto simp: of_bool_def)
  ultimately show ?thesis using U(2) c unfolding acc_ok_def by (simp only: fst_conv snd_conv U2) (auto simp: algebra_simps)
qed

text \<open>A carry that reaches the next word without a borrow is added to it.\<close>

lemma propagate_ok:
  assumes "\<bar>sval U\<bar> \<le> 15" "16 \<le> unat a"
  shows "acc_ok 1 (propagate a U) (int (unat a) + sval U)"
proof (cases "sval U < 0")
  case True
  then have U: "int (unat (0 - U)) = - sval U"
    using u32_lt [of U] assms(1) unat_sub32 [of 0 U] by (auto simp: sval_def of_nat_diff split: if_splits)
  then have "unat (0 - U) \<le> unat a" using assms by linarith
  moreover from this have "int (unat (a - (0 - U))) = int (unat a) + sval U"
    unfolding unat_sub32 [of a "0 - U"] by (simp only: if_True of_nat_diff U)
  ultimately have "\<not> a < 0 - U" "int (unat (a - (0 - U))) = int (unat a) + sval U"
    by (simp_all only: word_less_nat_alt not_less)
  moreover have "propagate a U = (a - (0 - U), c_bool (a < 0 - U))"
    using True unfolding propagate_def Let_def by (simp only: sval_negative if_True)
  ultimately show ?thesis by (simp add: acc_ok_def del: diff_0)
next
  case False
  then have U: "int (unat U) = sval U" using u32_lt [of U] by (auto simp: sval_def split: if_splits)
  let ?f = "a + U < a"
  have f: "?f \<longleftrightarrow> 2 ^ 32 \<le> unat a + unat U"
    using u32_lt [of a] u32_lt [of U] by (auto simp: word_less_nat_alt unat_add32)
  have "int (unat (a + U)) + 2 ^ 32 * of_bool ?f = int (unat a) + int (unat U)"
    unfolding f by (simp add: unat_add32 of_nat_diff)
  moreover have "propagate a U = (a + U, c_bool ?f)"
    using False unfolding propagate_def Let_def by (simp only: sval_negative if_False)
  ultimately show ?thesis using U by (auto simp: acc_ok_def of_bool_def)
qed

section \<open>The sums of upper words\<close>

definition sum8_is :: "sum8 \<Rightarrow> nat \<Rightarrow> bool" where
  "sum8_is s v \<longleftrightarrow> unat (fst s) + 2 ^ 32 * unat (snd s) = v"

lemma sum8_add_is:
  assumes "sum8_is s v" "v < 2 ^ 39"
  shows "sum8_is (sum8_add x s) (v + unat x)"
proof -
  obtain S US where s: "s = (S, US)" by fastforce
  have v: "unat S + 2 ^ 32 * unat US = v" using assms(1) by (simp add: s sum8_is_def)
  then have "2 ^ 32 * unat US < 2 ^ 32 * 2 ^ 7" using assms(2) by simp
  then have US: "unat US < 2 ^ 7" by simp
  let ?f = "S + x < x"
  have f: "?f \<longleftrightarrow> 2 ^ 32 \<le> unat S + unat x"
    using u32_lt [of S] u32_lt [of x] by (auto simp: word_less_nat_alt unat_add32)
  have "unat (US + c_bool ?f) = unat US + of_bool ?f" using US by (auto simp: unat_word_ariths)
  moreover have "unat (S + x) + 2 ^ 32 * of_bool ?f = unat S + unat x" unfolding f by (simp add: unat_add32)
  moreover have "sum8_add x s = (S + x, US + c_bool ?f)" by (simp add: s sum8_add_def Let_def)
  ultimately show ?thesis using v by (simp add: sum8_is_def distrib_left del: of_bool_eq_0_iff)
qed

lemma sum8_sub_is:
  assumes "sum8_is s (v + unat x)"
  shows "sum8_is (sum8_sub x s) v"
proof -
  obtain S US where s: "s = (S, US)" by fastforce
  have v: "unat S + 2 ^ 32 * unat US = v + unat x" using assms(1) by (simp add: s sum8_is_def)
  have e: "sum8_sub x s = (S - x, US - c_bool (S < x))" by (simp add: s sum8_sub_def Let_def)
  show ?thesis
  proof (cases "S < x")
    case True
    then have "unat S < unat x" by (simp add: word_less_nat_alt)
    with v have "unat US \<noteq> 0" by (cases "unat US") auto
    then obtain n where n: "unat US = Suc n" by (cases "unat US") auto
    then have "US \<noteq> 0" by auto
    then have "unat (US - 1) = n" using n by (simp add: unat_minus_one)
    moreover have "unat (S - x) = unat S + 2 ^ 32 - unat x" using \<open>unat S < unat x\<close> by (simp add: unat_sub32)
    ultimately show ?thesis using True v n u32_lt [of x] by (simp add: e sum8_is_def)
  next
    case False
    then have "unat (S - x) = unat S - unat x" "unat x \<le> unat S" by (simp_all add: unat_sub32 word_less_nat_alt)
    then show ?thesis using False v by (simp add: e sum8_is_def)
  qed
qed

lemma sum8_start: "sum8_is (x, 0) (unat x)"
  by (simp add: sum8_is_def)

lemma u32_le: "unat (x :: dword) \<le> 4294967295"
  using u32_lt [of x] by simp

lemma sums_are:
  "sum8_is (sum_C a) (unat (a ! 13) + unat (a ! 14) + unat (a ! 15))"
  "sum8_is (sum_E a) (unat (a ! 8) + unat (a ! 9))"
  "sum8_is (sum_F a) (unat (a ! 9) + unat (a ! 10))"
  "sum8_is (sum_G a) (unat (a ! 10) + unat (a ! 11))"
  "sum8_is (sum_B a) (unat (a ! 13) + unat (a ! 14) + unat (a ! 15) + unat (a ! 12))"
  "sum8_is (sum_A a) (unat (a ! 13) + unat (a ! 14) + unat (a ! 12) + unat (a ! 11))"
  "sum8_is (sum_D a) (unat (a ! 13) + unat (a ! 12) + unat (a ! 11) + unat (a ! 10))"
proof -
  note le = u32_le [of "a ! 8"] u32_le [of "a ! 9"] u32_le [of "a ! 10"] u32_le [of "a ! 11"] u32_le [of "a ! 12"]
    u32_le [of "a ! 13"] u32_le [of "a ! 14"] u32_le [of "a ! 15"]
  show C: "sum8_is (sum_C a) (unat (a ! 13) + unat (a ! 14) + unat (a ! 15))"
    unfolding sum_C_def using le by (intro sum8_add_is sum8_start) simp_all
  show "sum8_is (sum_E a) (unat (a ! 8) + unat (a ! 9))"
    unfolding sum_E_def using le by (intro sum8_add_is sum8_start) simp_all
  show "sum8_is (sum_F a) (unat (a ! 9) + unat (a ! 10))"
    unfolding sum_F_def using le by (intro sum8_add_is sum8_start) simp_all
  show "sum8_is (sum_G a) (unat (a ! 10) + unat (a ! 11))"
    unfolding sum_G_def using le by (intro sum8_add_is sum8_start) simp_all
  show B: "sum8_is (sum_B a) (unat (a ! 13) + unat (a ! 14) + unat (a ! 15) + unat (a ! 12))"
    unfolding sum_B_def using le by (intro sum8_add_is C) simp
  have "sum8_is (sum8_add (a ! 11) (sum_B a)) (unat (a ! 13) + unat (a ! 14) + unat (a ! 15) + unat (a ! 12) + unat (a ! 11))"
    using le by (intro sum8_add_is B) simp
  then show A: "sum8_is (sum_A a) (unat (a ! 13) + unat (a ! 14) + unat (a ! 12) + unat (a ! 11))"
    unfolding sum_A_def by (intro sum8_sub_is) (simp add: ac_simps)
  have "sum8_is (sum8_add (a ! 10) (sum_A a)) (unat (a ! 13) + unat (a ! 14) + unat (a ! 12) + unat (a ! 11) + unat (a ! 10))"
    using le by (intro sum8_add_is A) simp
  then show "sum8_is (sum_D a) (unat (a ! 13) + unat (a ! 12) + unat (a ! 11) + unat (a ! 10))"
    unfolding sum_D_def by (intro sum8_sub_is) (simp add: ac_simps)
qed

text \<open>The carry of a sum of at most four words is at most three.\<close>

lemma sum8_carry: "sum8_is (S, US) v \<Longrightarrow> v \<le> 4 * 4294967295 \<Longrightarrow> int (unat US) \<le> 3"
  by (simp add: sum8_is_def)


section \<open>The words of the result\<close>

lemma acc_add_word:
  "acc_ok k s v \<Longrightarrow> k < 1000 \<Longrightarrow> acc_ok (k + 1) (acc_add X 0 s) (v + int (unat X))"
  using acc_add_ok [of k s v 0 0 X] by simp

lemma acc_sub_word:
  "acc_ok k s v \<Longrightarrow> k < 1000 \<Longrightarrow> acc_ok (k + 1) (acc_sub X 0 s) (v - int (unat X))"
  using acc_sub_ok [of k s v 0 0 X] by simp

lemma sum8_int: "sum8_is (S, US) v \<Longrightarrow> int (unat S) + 2 ^ 32 * int (unat US) = int v"
  by (simp add: sum8_is_def flip: of_nat_add of_nat_mult)

lemma acc_add_sum:
  assumes "acc_ok k s v" "sum8_is (S, US) w" "w \<le> 4 * 4294967295" "k < 1000"
  shows "acc_ok (k + 4) (acc_add S US s) (v + int w)"
  using acc_add_ok [OF assms(1) sum8_carry [OF assms(2,3)], of S] assms(4) sum8_int [OF assms(2)]
  by (simp add: add.assoc)

lemma acc_sub_sum:
  assumes "acc_ok k s v" "sum8_is (S, US) w" "w \<le> 4 * 4294967295" "k < 1000"
  shows "acc_ok (k + 4) (acc_sub S US s) (v - int w)"
  using acc_sub_ok [OF assms(1) sum8_carry [OF assms(2,3)], of S] assms(4) sum8_int [OF assms(2)]
  by (simp add: diff_diff_eq add.commute [of k])

lemma acc_start_word: "acc_ok 0 (x, 0) (int (unat x))"
  by (simp add: acc_ok_def)

lemma acc_okD: "acc_ok k (c, U) v \<Longrightarrow> \<bar>sval U\<bar> \<le> k" "acc_ok k (c, U) v \<Longrightarrow> int (unat c) = v - 2 ^ 32 * sval U"
  by (auto simp: acc_ok_def)

lemma propagate_word:
  assumes "acc_ok k (c, U) v" "k \<le> 15" "16 \<le> unat x"
  shows "acc_ok 1 (propagate x U) (int (unat x) + sval U)"
  using acc_okD(1) [OF assms(1)] assms(2,3) by (intro propagate_ok) simp_all

text \<open>
  The sum the words stand for: the lower eight words plus twice the numbers \<open>s1\<close> and \<open>s2\<close> and once
  \<open>s3\<close> and \<open>s4\<close>, less \<open>d1\<close> to \<open>d4\<close>, of the standard.
\<close>

definition nist_sum :: "(nat \<Rightarrow> int) \<Rightarrow> int" where
  "nist_sum a =
     (a 0 + 2 ^ 32 * a 1 + 2 ^ 64 * a 2 + 2 ^ 96 * a 3 + 2 ^ 128 * a 4 + 2 ^ 160 * a 5 + 2 ^ 192 * a 6 + 2 ^ 224 * a 7)
     + 2 * (2 ^ 96 * a 11 + 2 ^ 128 * a 12 + 2 ^ 160 * a 13 + 2 ^ 192 * a 14 + 2 ^ 224 * a 15)
     + 2 * (2 ^ 96 * a 12 + 2 ^ 128 * a 13 + 2 ^ 160 * a 14 + 2 ^ 192 * a 15)
     + (a 8 + 2 ^ 32 * a 9 + 2 ^ 64 * a 10 + 2 ^ 192 * a 14 + 2 ^ 224 * a 15)
     + (a 9 + 2 ^ 32 * a 10 + 2 ^ 64 * a 11 + 2 ^ 96 * a 13 + 2 ^ 128 * a 14 + 2 ^ 160 * a 15 + 2 ^ 192 * a 13 + 2 ^ 224 * a 8)
     - (a 11 + 2 ^ 32 * a 12 + 2 ^ 64 * a 13 + 2 ^ 192 * a 8 + 2 ^ 224 * a 10)
     - (a 12 + 2 ^ 32 * a 13 + 2 ^ 64 * a 14 + 2 ^ 96 * a 15 + 2 ^ 192 * a 9 + 2 ^ 224 * a 11)
     - (a 13 + 2 ^ 32 * a 14 + 2 ^ 64 * a 15 + 2 ^ 96 * a 8 + 2 ^ 128 * a 9 + 2 ^ 160 * a 10 + 2 ^ 224 * a 12)
     - (a 14 + 2 ^ 32 * a 15 + 2 ^ 96 * a 9 + 2 ^ 128 * a 10 + 2 ^ 160 * a 11 + 2 ^ 224 * a 13)"

definition word_at :: "dword list \<Rightarrow> nat \<Rightarrow> int" where
  "word_at a i = int (unat (a ! i))"

lemma fast_mod_words_sum:
  assumes low: "\<And>i. 1 \<le> i \<Longrightarrow> i \<le> 7 \<Longrightarrow> 16 \<le> unat (a ! i)"
    and r: "fast_mod_P256_words a = (c, U)"
  shows "int (mp_val c) + 2 ^ 256 * sval U = nist_sum (word_at a)" "\<bar>sval U\<bar> \<le> 12" "length c = 8"
proof -
  obtain C UC E UE F UF G UG B UB A UA D UD where s:
    "sum_C a = (C, UC)" "sum_E a = (E, UE)" "sum_F a = (F, UF)" "sum_G a = (G, UG)" "sum_B a = (B, UB)"
    "sum_A a = (A, UA)" "sum_D a = (D, UD)" by fastforce
  note sums = sums_are [of a, unfolded s]
  note bound = u32_le [of "a ! 8"] u32_le [of "a ! 9"] u32_le [of "a ! 10"] u32_le [of "a ! 11"] u32_le [of "a ! 12"]
    u32_le [of "a ! 13"] u32_le [of "a ! 14"] u32_le [of "a ! 15"]
  obtain c0 U0 where 0: "acc_sub A UA (acc_add E UE (a ! 0, 0)) = (c0, U0)" by fastforce
  obtain c1 U1 where 1: "acc_sub B UB (acc_add F UF (propagate (a ! 1) U0)) = (c1, U1)" by fastforce
  obtain c2 U2 where 2: "acc_sub C UC (acc_add G UG (propagate (a ! 2) U1)) = (c2, U2)" by fastforce
  obtain c3 U3 where 3: "acc_sub E UE (acc_sub (a ! 15) 0 (acc_sub (a ! 14) 0
    (acc_add (a ! 12) 0 (acc_add (a ! 11) 0 (acc_add A UA (propagate (a ! 3) U2)))))) = (c3, U3)" by fastforce
  obtain c4 U4 where 4: "acc_sub F UF (acc_add (a ! 13) 0 (acc_add (a ! 12) 0
    (acc_sub (a ! 15) 0 (acc_add B UB (propagate (a ! 4) U3))))) = (c4, U4)" by fastforce
  obtain c5 U5 where 5: "acc_sub G UG (acc_add (a ! 14) 0 (acc_add (a ! 13) 0
    (acc_add C UC (propagate (a ! 5) U4)))) = (c5, U5)" by fastforce
  obtain c6 U6 where 6: "acc_sub E UE (acc_add (a ! 15) 0 (acc_add (a ! 14) 0 (acc_add (a ! 14) 0
    (acc_add C UC (propagate (a ! 6) U5))))) = (c6, U6)" by fastforce
  obtain c7 U7 where 7: "acc_sub D UD (acc_add (a ! 8) 0 (acc_add (a ! 15) 0 (acc_add (a ! 15) 0
    (acc_add (a ! 15) 0 (propagate (a ! 7) U6))))) = (c7, U7)" by fastforce
  have c: "c = [c0, c1, c2, c3, c4, c5, c6, c7]" "U = U7"
    using r unfolding fast_mod_P256_words_def s 0 1 2 3 4 5 6 7 Let_def prod.case by simp_all
  have "acc_ok (0 + 4 + 4) (c0, U0) (int (unat (a ! 0)) + int (unat (a ! 8) + unat (a ! 9)) -
      int (unat (a ! 13) + unat (a ! 14) + unat (a ! 12) + unat (a ! 11)))"
    unfolding 0 [symmetric] using bound by (intro acc_sub_sum acc_add_sum acc_start_word sums) simp_all
  note e0 = this [simplified]
  note p1 = propagate_word [OF e0 _ low [of 1], simplified]
  have "acc_ok (1 + 4 + 4) (c1, U1) (int (unat (a ! 1)) + sval U0 + int (unat (a ! 9) + unat (a ! 10)) -
      int (unat (a ! 13) + unat (a ! 14) + unat (a ! 15) + unat (a ! 12)))"
    unfolding 1 [symmetric] using bound p1 by (intro acc_sub_sum acc_add_sum sums) simp_all
  note e1 = this [simplified]
  note p2 = propagate_word [OF e1 _ low [of 2], simplified]
  have "acc_ok (1 + 4 + 4) (c2, U2) (int (unat (a ! 2)) + sval U1 + int (unat (a ! 10) + unat (a ! 11)) -
      int (unat (a ! 13) + unat (a ! 14) + unat (a ! 15)))"
    unfolding 2 [symmetric] using bound p2 by (intro acc_sub_sum acc_add_sum sums) simp_all
  note e2 = this [simplified]
  note p3 = propagate_word [OF e2 _ low [of 3], simplified]
  have "acc_ok (1 + 4 + 1 + 1 + 1 + 1 + 4) (c3, U3) (int (unat (a ! 3)) + sval U2 +
      int (unat (a ! 13) + unat (a ! 14) + unat (a ! 12) + unat (a ! 11)) + int (unat (a ! 11)) + int (unat (a ! 12)) -
      int (unat (a ! 14)) - int (unat (a ! 15)) - int (unat (a ! 8) + unat (a ! 9)))"
    unfolding 3 [symmetric] using bound p3
    by (intro acc_sub_sum acc_sub_word acc_add_word acc_add_sum sums) simp_all
  note e3 = this [simplified]
  note p4 = propagate_word [OF e3 _ low [of 4], simplified]
  have "acc_ok (1 + 4 + 1 + 1 + 1 + 4) (c4, U4) (int (unat (a ! 4)) + sval U3 +
      int (unat (a ! 13) + unat (a ! 14) + unat (a ! 15) + unat (a ! 12)) - int (unat (a ! 15)) + int (unat (a ! 12)) +
      int (unat (a ! 13)) - int (unat (a ! 9) + unat (a ! 10)))"
    unfolding 4 [symmetric] using bound p4
    by (intro acc_sub_sum acc_sub_word acc_add_word acc_add_sum sums) simp_all
  note e4 = this [simplified]
  note p5 = propagate_word [OF e4 _ low [of 5], simplified]
  have "acc_ok (1 + 4 + 1 + 1 + 4) (c5, U5) (int (unat (a ! 5)) + sval U4 +
      int (unat (a ! 13) + unat (a ! 14) + unat (a ! 15)) + int (unat (a ! 13)) + int (unat (a ! 14)) -
      int (unat (a ! 10) + unat (a ! 11)))"
    unfolding 5 [symmetric] using bound p5
    by (intro acc_sub_sum acc_add_word acc_add_sum sums) simp_all
  note e5 = this [simplified]
  note p6 = propagate_word [OF e5 _ low [of 6], simplified]
  have "acc_ok (1 + 4 + 1 + 1 + 1 + 4) (c6, U6) (int (unat (a ! 6)) + sval U5 +
      int (unat (a ! 13) + unat (a ! 14) + unat (a ! 15)) + int (unat (a ! 14)) + int (unat (a ! 14)) + int (unat (a ! 15)) -
      int (unat (a ! 8) + unat (a ! 9)))"
    unfolding 6 [symmetric] using bound p6
    by (intro acc_sub_sum acc_add_word acc_add_sum sums) simp_all
  note e6 = this [simplified]
  note p7 = propagate_word [OF e6 _ low [of 7], simplified]
  have "acc_ok (1 + 1 + 1 + 1 + 1 + 4) (c7, U7) (int (unat (a ! 7)) + sval U6 + int (unat (a ! 15)) +
      int (unat (a ! 15)) + int (unat (a ! 15)) + int (unat (a ! 8)) -
      int (unat (a ! 13) + unat (a ! 12) + unat (a ! 11) + unat (a ! 10)))"
    unfolding 7 [symmetric] using bound p7
    by (intro acc_sub_sum acc_add_word sums) simp_all
  note e7 = this [simplified]
  have w: "int (mp_val c) = int (unat c0) + 2 ^ 32 * (int (unat c1) + 2 ^ 32 * (int (unat c2) + 2 ^ 32 *
      (int (unat c3) + 2 ^ 32 * (int (unat c4) + 2 ^ 32 * (int (unat c5) + 2 ^ 32 * (int (unat c6) + 2 ^ 32 * int (unat c7)))))))"
    by (simp add: c)
  show "int (mp_val c) + 2 ^ 256 * sval U = nist_sum (word_at a)"
    unfolding w acc_okD(2) [OF e0] acc_okD(2) [OF e1] acc_okD(2) [OF e2] acc_okD(2) [OF e3] acc_okD(2) [OF e4]
      acc_okD(2) [OF e5] acc_okD(2) [OF e6] acc_okD(2) [OF e7] c(2)
    by (simp add: nist_sum_def word_at_def algebra_simps)
  show "\<bar>sval U\<bar> \<le> 12" using acc_okD(1) [OF e7] by (simp add: c)
  show "length c = 8" by (simp add: c)
qed


section \<open>The sum modulo the prime\<close>

text \<open>The multiple of the prime by which a number of sixteen words and its sum differ.\<close>

definition nist_multiple :: "(nat \<Rightarrow> int) \<Rightarrow> int" where
  "nist_multiple a =
     (1 * a 8 +
     4294967297 * a 9 +
     18446744078004518912 * a 10 +
     79228162532711081667253501951 * a 11 +
     340282367000166625977638945021017194495 * a 12 +
     1461501637671185285124623296161210883009696235519 * a 13 +
     6277101736848182401166692341332123086285927382448418586623 * a 14 +
     26959946673427741530053695850515137729844644212646842236464328081408 * a 15)"

lemma nist_sum_16:
  assumes "length a = 16"
  shows "int (mp_val a) = nist_sum (word_at a) + int P256 * nist_multiple (word_at a)"
proof -
  have "a = map ((!) a) [0..<16]" using assms by (metis map_nth)
  also have "[0..<16] = [0, 1, 2, 3, 4, 5, 6, 7, 8, 9, 10, 11, 12, 13, 14, 15 :: nat]"
    by (simp add: upt_rec_numeral upt_rec [of 0] upt_rec [of "Suc 0"] flip: numeral_2_eq_2)
  finally have "mp_val a = mp_val (map ((!) a) [0, 1, 2, 3, 4, 5, 6, 7, 8, 9, 10, 11, 12, 13, 14, 15])"
    by (rule arg_cong)
  then show ?thesis
    by (simp add: nist_sum_def nist_multiple_def word_at_def P256_def algebra_simps)
qed

end
