(* ===== verification/MpReduce.thy ===== *)
theory MpReduce
  imports MpFastMod
begin

text \<open>
  The rest of the reduction modulo the prime of P-256: the loop that takes the last carry off, and the
  value of \<open>multiprecision_fast_mod_P256\<close> and \<open>multiprecision_mersenns_mult_mod\<close>, with the
  two ways in which they miss the residue.
\<close>

unbundle bit_operations_syntax

declare of_nat_unat [simp del]

section \<open>The last carry\<close>

lemma mod_sub_multiple: "((x :: int) - m * k) mod m = x mod m"
  by (simp add: mod_eq_dvd_iff)

lemma mod_step: "x' = x + m * k \<Longrightarrow> (x' :: int) mod m = x mod m"
  by simp

lemma sval_1 [simp]: "sval 1 = 1"
  by (simp add: sval_def)

lemma add_modp_loop_value:
  "length c = 8 \<Longrightarrow> sval U \<le> 0 \<Longrightarrow> - 100 \<le> sval U \<Longrightarrow>
   int (mp_val (add_modp_loop U c)) = (int (mp_val c) - sval U * int P256) mod 2 ^ 256 \<and>
   length (add_modp_loop U c) = 8"
proof (induction U c rule: add_modp_loop.induct)
  case (1 U c)
  note len = "1.prems"(1)
  show ?case
  proof (cases "U = 0")
    case True
    have "mp_val c < 2 ^ 256" using mp_val_lt [of c] len by (simp add: mp_base_8)
    then have "int (mp_val c) < 2 ^ 256" by simp
    then show ?thesis using True len by (simp add: add_modp_loop.simps [of 0])
  next
    case False
    obtain d k where d: "multiprecision_add c p256 = (d, k)" by fastforce
    have "length c = length p256" using len by simp
    note d' = multiprecision_add_correct [OF this d, unfolded len mp_base_8 mp_val_p256]
    have "sval U \<noteq> 0" using False by (simp add: sval_eq_0)
    with "1.prems"(2,3) have U: "sval (U + 1) = sval U + 1" "sval (U + 1) \<le> 0" "- 100 \<le> sval (U + 1)"
      using sval_add [of U 1] by simp_all
    have ih: "int (mp_val (add_modp_loop (U + 1) d)) = (int (mp_val d) - sval (U + 1) * int P256) mod 2 ^ 256"
        "length (add_modp_loop (U + 1) d) = 8"
      using "1.IH" [OF False] d d'(3) U(2,3) by simp_all
    have "int (mp_val d) + 2 ^ 256 * int (unat k) = int (mp_val c) + int P256"
      using arg_cong [OF d'(1), of int] by simp
    then have "int (mp_val d) - sval (U + 1) * int P256 = int (mp_val c) - sval U * int P256 + 2 ^ 256 * - int (unat k)"
      unfolding U distrib_right by linarith
    from mod_step [OF this] ih have "int (mp_val (add_modp_loop (U + 1) d)) = (int (mp_val c) - sval U * int P256) mod 2 ^ 256"
      by (simp only:)
    moreover have "add_modp_loop U c = add_modp_loop (U + 1) d" using False d by (simp add: add_modp_loop.simps [of U])
    ultimately show ?thesis using ih(2) by (simp only: simp_thms)
  qed
qed

lemma sub_modp_loop_value:
  "length c = 8 \<Longrightarrow> 0 \<le> sval U \<Longrightarrow> sval U \<le> 100 \<Longrightarrow>
   int (mp_val (sub_modp_loop U c)) = (int (mp_val c) - sval U * int P256) mod 2 ^ 256 \<and>
   length (sub_modp_loop U c) = 8"
proof (induction U c rule: sub_modp_loop.induct)
  case (1 U c)
  note len = "1.prems"(1)
  show ?case
  proof (cases "U = 0")
    case True
    have "mp_val c < 2 ^ 256" using mp_val_lt [of c] len by (simp add: mp_base_8)
    then have "int (mp_val c) < 2 ^ 256" by simp
    then show ?thesis using True len by (simp add: sub_modp_loop.simps [of 0])
  next
    case False
    obtain d k where d: "multiprecision_sub c p256 = (d, k)" by fastforce
    have "length c = length p256" using len by simp
    note d' = multiprecision_sub_correct [OF this d, unfolded len mp_base_8 mp_val_p256]
    have "sval U \<noteq> 0" using False by (simp add: sval_eq_0)
    with "1.prems"(2,3) have U: "sval (U - 1) = sval U - 1" "0 \<le> sval (U - 1)" "sval (U - 1) \<le> 100"
      using sval_sub [of U 1] by simp_all
    have ih: "int (mp_val (sub_modp_loop (U - 1) d)) = (int (mp_val d) - sval (U - 1) * int P256) mod 2 ^ 256"
        "length (sub_modp_loop (U - 1) d) = 8"
      using "1.IH" [OF False] d d'(3) U(2,3) by simp_all
    have "int (mp_val d) + int P256 = int (mp_val c) + 2 ^ 256 * int (unat k)"
      using arg_cong [OF d'(1), of int] by simp
    then have "int (mp_val d) - sval (U - 1) * int P256 = int (mp_val c) - sval U * int P256 + 2 ^ 256 * int (unat k)"
      unfolding U left_diff_distrib by linarith
    from mod_step [OF this] ih have "int (mp_val (sub_modp_loop (U - 1) d)) = (int (mp_val c) - sval U * int P256) mod 2 ^ 256"
      by (simp only:)
    moreover have "sub_modp_loop U c = sub_modp_loop (U - 1) d" using False d by (simp add: sub_modp_loop.simps [of U])
    ultimately show ?thesis using ih(2) by (simp only: simp_thms)
  qed
qed

section \<open>The reduction\<close>

text \<open>
  The sum less its carry times the prime: the number the loop is after.  The loop works modulo
  \<open>2 ^ 256\<close> and finds it when it is a number of eight words.
\<close>

definition carry_reduced :: "dword list \<Rightarrow> int" where
  "carry_reduced a = nist_sum (word_at a) - nist_sum (word_at a) div 2 ^ 256 * int P256"

definition fast_mod_exact :: "dword list \<Rightarrow> bool" where
  "fast_mod_exact a \<longleftrightarrow> length a = 16 \<and> list_all (\<lambda>w. 16 \<le> w) (take 7 (drop 1 a)) \<and>
     0 \<le> carry_reduced a \<and> carry_reduced a < 2 ^ 256"

lemma fast_mod_value:
  assumes "fast_mod_exact a"
  shows "mp_val (multiprecision_fast_mod_P256 a) = mp_val a mod P256" "p256_num (multiprecision_fast_mod_P256 a)"
proof -
  obtain c U where r: "fast_mod_P256_words a = (c, U)" by fastforce
  have len: "length a = 16" using assms by (simp add: fast_mod_exact_def)
  have low: "16 \<le> unat (a ! i)" if "1 \<le> i" "i \<le> 7" for i
  proof -
    have "a ! i = take 7 (drop 1 a) ! (i - 1)" using that len by simp
    also have "\<dots> \<in> set (take 7 (drop 1 a))" using that len by (intro nth_mem) simp
    finally show ?thesis using assms by (auto simp: fast_mod_exact_def list_all_iff word_le_nat_alt)
  qed
  note w = fast_mod_words_sum [OF low r]
  let ?S = "nist_sum (word_at a)"
  have "mp_val c < 2 ^ 256" using mp_val_lt [of c] w(3) by (simp add: mp_base_8)
  then have c: "0 \<le> int (mp_val c)" "int (mp_val c) < 2 ^ 256" by simp_all
  have S: "?S = int (mp_val c) + 2 ^ 256 * sval U" using w(1) by simp
  have "?S div 2 ^ 256 = sval U + int (mp_val c) div 2 ^ 256" unfolding S by (rule div_mult_self2) simp
  then have q: "?S div 2 ^ 256 = sval U" by (simp only: div_pos_pos_trivial [OF c] add_0_right)
  have red: "carry_reduced a = int (mp_val c) - sval U * int P256 + 2 ^ 256 * sval U"
    unfolding carry_reduced_def q unfolding S by simp
  define d where "d = (if U AND 0x80000000 \<noteq> 0 then add_modp_loop U c else if U \<noteq> 0 then sub_modp_loop U c else c)"
  have "int (mp_val d) = (int (mp_val c) - sval U * int P256) mod 2 ^ 256 \<and> length d = 8"
  proof (cases "sval U < 0")
    case True
    then have "d = add_modp_loop U c" unfolding d_def by (simp only: sval_negative if_True)
    then show ?thesis using add_modp_loop_value [OF w(3)] True w(2) by simp
  next
    case False
    then have "d = sub_modp_loop U c"
      unfolding d_def by (cases "U = 0") (simp_all only: sval_negative if_False sub_modp_loop.simps [of 0] if_True simp_thms)
    then show ?thesis using sub_modp_loop_value [OF w(3)] False w(2) by simp
  qed
  then have d: "int (mp_val d) = carry_reduced a" "length d = 8"
    using mod_step [OF red] assms by (simp_all add: fast_mod_exact_def)
  have "int (mp_val a) = carry_reduced a + int P256 * (?S div 2 ^ 256 + nist_multiple (word_at a))"
    unfolding nist_sum_16 [OF len] carry_reduced_def by (simp add: distrib_left)
  from mod_step [OF this] have "int (mp_val d mod P256) = int (mp_val a mod P256)"
    by (simp only: d(1) [symmetric] of_nat_mod)
  then have eq: "mp_val d mod P256 = mp_val a mod P256" by (simp only: of_nat_eq_iff)
  have f: "multiprecision_fast_mod_P256 a = reduce_once d 0"
    by (simp add: multiprecision_fast_mod_P256_def r reduce_once_def Let_def flip: d_def)
  have "mp_val d + 2 ^ 256 * unat (0 :: dword) < 2 * P256"
    using mp_val_lt [of d] d(2) P256_lt(2) by (simp add: mp_base_8)
  from reduce_once_correct [OF d(2) _ this]
  have v: "mp_val (multiprecision_fast_mod_P256 a) = mp_val a mod P256"
    and l: "length (multiprecision_fast_mod_P256 a) = 8"
    unfolding f eq [symmetric] by simp_all
  show "mp_val (multiprecision_fast_mod_P256 a) = mp_val a mod P256" by (rule v)
  have "mp_val a mod P256 < P256" using P256_lt(3) by (rule mod_less_divisor)
  then show "p256_num (multiprecision_fast_mod_P256 a)" unfolding p256_num_def v l by simp
qed

lemma mult_mod_value:
  assumes "length a = 8" "length b = 8" "fast_mod_exact (multiprecision_mult a b)"
  shows "mp_val (multiprecision_mersenns_mult_mod c a b 8) = mp_val a * mp_val b mod P256"
    "p256_num (multiprecision_mersenns_mult_mod c a b 8)"
  using fast_mod_value [OF assms(3)] multiprecision_mult_correct [of a b] assms(1,2)
  by (simp_all add: multiprecision_mersenns_mult_mod_def)

text \<open>A product of concrete words is found by its value.\<close>

lemma mult_by_value:
  assumes "length a = length b" "length c = 2 * length a" "mp_val c = mp_val a * mp_val b"
  shows "multiprecision_mult a b = c"
  by (rule mp_val_inj) (simp_all add: assms multiprecision_mult_correct)

text \<open>
  C10: multiprecision_mersenns_mult_mod on two numbers of 8 words returns their product modulo the
  prime of P-256, as a number of 8 words below it, whenever the words 1 to 7 of the product are at
  least 16 and the sum of the standard less its last carry times the prime fits 8 words.
\<close>

theorem p256_mult_modulo:
  assumes "length a = 8" "length b = 8" "fast_mod_exact (multiprecision_mult a b)"
  shows "mp_val (multiprecision_mersenns_mult_mod c a b 8) = mp_val a * mp_val b mod P256 \<and>
    length (multiprecision_mersenns_mult_mod c a b 8) = 8"
  using mult_mod_value [OF assms] by simp

theorem p256_mult_modulo_witness:
  "mp_val (multiprecision_mersenns_mult_mod [] (ec_b curve_p256) (ec_b curve_p256) 8) =
   mp_val (ec_b curve_p256) * mp_val (ec_b curve_p256) mod P256"
proof -
  have b: "ec_b curve_p256 = [0x27d2604b, 0x3bce3c3e, 0xcc53b0f6, 0x651d06b0, 0x769886bc, 0xb3ebbd55, 0xaa3a93e7, 0x5ac635d8]"
    by (simp add: curve_p256_def p_256_init_curve_def KEY_LENGTH_DWORDS_P256_def)
  have m: "multiprecision_mult (ec_b curve_p256) (ec_b curve_p256) =
    [0xf94455f9, 0x77ef928c, 0x6dea70db, 0x4db4fb21, 0x7811adf2, 0x39821a67, 0x591ced4d, 0x19c9050d, 0xc3b65463, 0xfd73cc78, 0x6f57a115, 0x6541dbbc, 0x47321e9e, 0xaa35731f, 0xae2bf077, 0x202ff753]"
    unfolding b by (rule mult_by_value) simp_all
  have "nist_sum (word_at (multiprecision_mult (ec_b curve_p256) (ec_b curve_p256))) = -61489474318550449692852244345490616291376843124841272755997539748319301396252"
    unfolding m by (simp add: nist_sum_def word_at_def)
  then have "fast_mod_exact (multiprecision_mult (ec_b curve_p256) (ec_b curve_p256))"
    unfolding fast_mod_exact_def carry_reduced_def by (simp add: m P256_def)
  moreover have "length (ec_b curve_p256) = 8" by (simp add: b)
  ultimately show ?thesis by (intro p256_mult_modulo [THEN conjunct1])
qed

section \<open>Products that are not reduced\<close>

lemma add_modp_loop_2:
  "add_modp_loop 4294967294 c = fst (multiprecision_add (fst (multiprecision_add c p256)) p256)"
proof -
  have "add_modp_loop (- 2) c = fst (multiprecision_add (fst (multiprecision_add c p256)) p256)"
    by (simp add: add_modp_loop.simps [of "- 2"] add_modp_loop.simps [of "- 1"] add_modp_loop.simps [of 0])
  moreover have "(- 2 :: dword) = 4294967294" by simp
  ultimately show ?thesis by (simp only:)
qed

text \<open>
  Word 1 of the first product is 0 and the carry into it is negative: the borrow of the word
  is recorded as the carry 1.
\<close>

definition borrow_x :: "dword list" where
  "borrow_x = [0x9f767c45, 0x4164d839, 0xbde5c099, 0x5bc8fbbc, 0xcb91ce37, 0xb0c11fde, 0xf1446bea, 0xd76d4330]"

definition borrow_y :: "dword list" where
  "borrow_y = [0x83deee4, 0xf682bd9d, 0xa6233255, 0xd464138, 0xe6a16a3b, 0x2827688d, 0x1cfb10f6, 0x5f2dd97f]"

lemma borrow_product: "multiprecision_mult borrow_x borrow_y =
    [0xf17fd374, 0x0, 0xf54377a3, 0x6c09dcd0, 0x274d3172, 0xbd200c4, 0x278951ff, 0xb1549a59, 0x9cd8a023, 0x6c35094b, 0x9260ba37, 0xddd28c26, 0xf32baf61, 0xf4a01c27, 0x8eaed89d, 0x5018212a]"
  unfolding borrow_x_def borrow_y_def by (rule mult_by_value) simp_all

lemma borrow_words: "fast_mod_P256_words (multiprecision_mult borrow_x borrow_y) =
    ([0xa6404c97, 0x3802fe31, 0x920fa812, 0xa980a56d, 0x86fddda0, 0xf254c51c, 0x5f5890e4, 0xe6768c17], 4294967294)"
  unfolding borrow_product
  by (simp add: fast_mod_P256_words_def sum_A_def sum_B_def sum_C_def sum_D_def sum_E_def sum_F_def sum_G_def sum8_add_def sum8_sub_def
      acc_add_def acc_sub_def propagate_def)

lemma borrow_result: "multiprecision_fast_mod_P256 (multiprecision_mult borrow_x borrow_y) =
    [0xa6404c95, 0x3802fe31, 0x920fa812, 0xa980a56f, 0x86fddda0, 0xf254c51c, 0x5f5890e6, 0xe6768c15]"
  by (simp add: multiprecision_fast_mod_P256_def borrow_words add_modp_loop_2 p256_words multiprecision_add_def
      multiprecision_sub_def multiprecision_compare_def add_word_def sub_word_def)

text \<open>
  The last carry of the second product is negative and the upper word of its sum is small: the
  addition of the prime borrows from beyond the eight words, which the loop does not see.
\<close>

definition wrap_x :: "dword list" where
  "wrap_x = [0xa080c6a6, 0xefe8b3b5, 0x7fd39898, 0xde28123c, 0x56a68b41, 0x2e1c5d3a, 0x16d1b5ac, 0x7deaab64]"

definition wrap_y :: "dword list" where
  "wrap_y = [0xa2d73c3, 0x99affcee, 0xfd13a507, 0x1a162ce1, 0xe1cf7112, 0x48020379, 0xb29df48, 0x41d1967]"

lemma wrap_product: "multiprecision_mult wrap_x wrap_y =
    [0x8281e272, 0xf2ebcf2c, 0xe92f2b55, 0x261693ac, 0x37816f77, 0x24536f8c, 0xb2c4d3f7, 0x33f5204, 0x4ca966d7, 0x71bef380, 0xef1dd026, 0x2d5449ee, 0x9276ef6e, 0xa7119f9d, 0x945745dd, 0x205fac1]"
  unfolding wrap_x_def wrap_y_def by (rule mult_by_value) simp_all

lemma wrap_words: "fast_mod_P256_words (multiprecision_mult wrap_x wrap_y) =
    ([0x45b61df3, 0x83e2c328, 0xc832652e, 0x8c5050e9, 0xde0d0fc5, 0x80b91b2e, 0x5c7fe057, 0x1], 4294967294)"
  unfolding wrap_product
  by (simp add: fast_mod_P256_words_def sum_A_def sum_B_def sum_C_def sum_D_def sum_E_def sum_F_def sum_G_def sum8_add_def sum8_sub_def
      acc_add_def acc_sub_def propagate_def)

lemma wrap_result: "multiprecision_fast_mod_P256 (multiprecision_mult wrap_x wrap_y) =
    [0x45b61df2, 0x83e2c328, 0xc832652e, 0x8c5050ea, 0xde0d0fc5, 0x80b91b2e, 0x5c7fe058, 0x0]"
  by (simp add: multiprecision_fast_mod_P256_def wrap_words add_modp_loop_2 p256_words multiprecision_add_def
      multiprecision_sub_def multiprecision_compare_def add_word_def sub_word_def)

text \<open>
  The ranges that are left out are needed: multiprecision_mersenns_mult_mod does not always return the product modulo the prime of P-256 of
  two numbers below it.  In the first example fast_mod_P256 records the borrow of a word that a
  negative carry is taken off as a carry of plus one.  In the second no word of the product is small,
  and the loop that adds the prime for a negative last carry drops the carries of its additions.
\<close>

theorem p256_mult_not_reduced:
  "(p256_num borrow_x \<and> p256_num borrow_y \<and>
    mp_val (multiprecision_mersenns_mult_mod [] borrow_x borrow_y 8) \<noteq> mp_val borrow_x * mp_val borrow_y mod P256) \<and>
   (p256_num wrap_x \<and> p256_num wrap_y \<and>
    list_all (\<lambda>w. 16 \<le> w) (take 7 (drop 1 (multiprecision_mult wrap_x wrap_y))) \<and>
    mp_val (multiprecision_mersenns_mult_mod [] wrap_x wrap_y 8) \<noteq> mp_val wrap_x * mp_val wrap_y mod P256)"
proof (rule conjI)
  show "p256_num borrow_x \<and> p256_num borrow_y \<and>
    mp_val (multiprecision_mersenns_mult_mod [] borrow_x borrow_y 8) \<noteq> mp_val borrow_x * mp_val borrow_y mod P256"
    by (simp add: multiprecision_mersenns_mult_mod_def borrow_result)
      (simp add: borrow_x_def borrow_y_def p256_num_def P256_def)
  show "p256_num wrap_x \<and> p256_num wrap_y \<and>
    list_all (\<lambda>w. 16 \<le> w) (take 7 (drop 1 (multiprecision_mult wrap_x wrap_y))) \<and>
    mp_val (multiprecision_mersenns_mult_mod [] wrap_x wrap_y 8) \<noteq> mp_val wrap_x * mp_val wrap_y mod P256"
    by (simp add: multiprecision_mersenns_mult_mod_def wrap_product wrap_result [unfolded wrap_product])
      (simp add: wrap_x_def wrap_y_def p256_num_def P256_def)
qed

end
