(* ===== verification/MpInv.thy ===== *)
theory MpInv
  imports MpModSum
begin

text \<open>
  The inversion modulo the prime of P-256, \<open>multiprecision_inv_mod\<close> of
  \<open>stack/smp/p_256_multprecision.c\<close>: the binary algorithm of Euclid.  It returns for every number and
  finds the inverse of every number without a common divisor with the prime.
\<close>

unbundle bit_operations_syntax

section \<open>Halving\<close>

lemma mp_val_last:
  assumes "length a = Suc n"
  shows "mp_val a = mp_val (take n a) + mp_base n * unat (a ! n)"
proof -
  have "a = take n a @ [a ! n]" using assms by (metis lessI order_refl take_Suc_conv_app_nth take_all)
  then have "mp_val a = mp_val (take n a @ [a ! n])" by (rule arg_cong)
  then show ?thesis using assms by (simp add: mp_val_append)
qed

lemma even_word: "(a :: dword) AND 1 = 0 \<longleftrightarrow> even (unat a)"
proof -
  have "unat (a AND 1) = unat a mod 2" by (simp add: and_one_eq unat_mod)
  then show ?thesis by (auto simp: word_unat_eq_iff even_iff_mod_2_eq_zero)
qed

lemma even_mp_val: "a \<noteq> [] \<Longrightarrow> a ! 0 AND 1 = 0 \<longleftrightarrow> even (mp_val a)"
  by (cases a) (simp_all add: even_word)

lemma top_bit:
  assumes "unat (x :: dword) < 2 ^ 31" "unat k \<le> 1"
  shows "unat (x OR push_bit 31 k) = unat x + 2 ^ 31 * unat k"
proof -
  have "unat (2 * x) = 2 * unat x" using assms(1) by (simp add: unat_word_ariths)
  then have "drop_bit 1 (2 * x) = x"
    by (simp add: word_unat_eq_iff unsigned_drop_bit_eq drop_bit_eq_div unat_div)
  then have "unat (x OR push_bit 31 k) = unat (drop_bit 1 (2 * x) OR push_bit 31 k)" by simp
  also have "\<dots> = unat (2 * x) div 2 + 2 ^ 31 * (unat k mod 2)" by (rule rshift_head)
  also have "unat k mod 2 = unat k" using assms(2) by simp
  finally show ?thesis using \<open>unat (2 * x) = 2 * unat x\<close> by simp
qed

lemma halve_mod_value:
  assumes "p256_num A"
  shows "mp_val (halve_mod p256 A 8) = (if even (mp_val A) then mp_val A div 2 else (mp_val A + P256) div 2)"
    "p256_num (halve_mod p256 A 8)"
proof -
  have len: "length A = 8" "mp_val A < P256" using assms by simp_all
  then have e: "A ! 0 AND 1 = 0 \<longleftrightarrow> even (mp_val A)" by (intro even_mp_val) auto
  obtain S k where s: "multiprecision_add A p256 = (S, k)" by fastforce
  have "length A = length p256" using len by simp
  note s' = multiprecision_add_correct [OF this s, unfolded len(1) mp_base_8 mp_val_p256]
  let ?R = "multiprecision_rshift S"
  let ?H = "?R[7 := ?R ! 7 OR push_bit 31 k]"
  have R: "mp_val ?R = mp_val S div 2" "length ?R = 8" using multiprecision_rshift_correct [of S] s'(3) by simp_all
  have "mp_val S < 2 ^ 256" using mp_val_lt [of S] s'(3) by (simp add: mp_base_8)
  then have "mp_val ?R < 2 ^ 255" unfolding R by simp
  moreover have Rv: "mp_val ?R = mp_val (take 7 ?R) + 2 ^ 224 * unat (?R ! 7)"
    using mp_val_last [of ?R 7] R(2) by (simp add: mp_base_def)
  ultimately have "2 ^ 224 * unat (?R ! 7) < 2 ^ 224 * 2 ^ 31" by simp
  then have top: "unat (?R ! 7) < 2 ^ 31" by (simp only: nat_mult_less_cancel_disj)
  have "mp_val ?H = mp_val (take 7 ?R) + 2 ^ 224 * unat (?R ! 7 OR push_bit 31 k)"
    using mp_val_last [of ?H 7] R(2) by (simp add: mp_base_def)
  also have "\<dots> = mp_val ?R + 2 ^ 255 * unat k"
    unfolding top_bit [OF top s'(2)] Rv by simp
  also have "\<dots> = (mp_val S + 2 ^ 256 * unat k) div 2"
  proof -
    have "mp_val S + 2 ^ 256 * unat k = mp_val S + (2 ^ 255 * unat k) * 2" by simp
    then show ?thesis unfolding R by (simp only: div_mult_self1)
  qed
  also have "\<dots> = (mp_val A + P256) div 2" by (simp only: s'(1))
  finally have H: "mp_val ?H = (mp_val A + P256) div 2" .
  have h: "halve_mod p256 A 8 = (if even (mp_val A) then multiprecision_rshift A else ?H)"
    by (simp add: halve_mod_def e s Let_def)
  have A: "mp_val (multiprecision_rshift A) = mp_val A div 2" "length (multiprecision_rshift A) = 8"
    using multiprecision_rshift_correct [of A] len by simp_all
  show v: "mp_val (halve_mod p256 A 8) = (if even (mp_val A) then mp_val A div 2 else (mp_val A + P256) div 2)"
    by (simp add: h H A)
  have "mp_val A div 2 < P256" "(mp_val A + P256) div 2 < P256"
    using len(2) by (intro less_mult_imp_div_less; linarith)+
  then have "mp_val (halve_mod p256 A 8) < P256" unfolding v by (cases "even (mp_val A)") (simp_all only: if_True if_False)
  moreover have "length (halve_mod p256 A 8) = 8" using A R(2) by (simp add: h)
  ultimately show "p256_num (halve_mod p256 A 8)" by (simp only: p256_num_def simp_thms)
qed

text \<open>The invariant of the algorithm: \<open>A * x\<close> is \<open>u\<close> modulo the prime.\<close>

definition inv_rel :: "int \<Rightarrow> dword list \<Rightarrow> dword list \<Rightarrow> bool" where
  "inv_rel x u A \<longleftrightarrow> length u = 8 \<and> p256_num A \<and> int P256 dvd int (mp_val A) * x - int (mp_val u)"

lemma coprime_2_P256: "coprime (int P256) 2"
  using P256_lt(4) by simp

lemma inv_rel_halve:
  assumes "inv_rel x u A" "even (mp_val u)"
  shows "inv_rel x (multiprecision_rshift u) (halve_mod p256 A 8)"
proof -
  let ?A = "halve_mod p256 A 8" and ?u = "multiprecision_rshift u"
  have A: "p256_num A" "length u = 8" "int P256 dvd int (mp_val A) * x - int (mp_val u)"
    using assms(1) by (simp_all add: inv_rel_def)
  have u: "2 * int (mp_val ?u) = int (mp_val u)" "length ?u = 8"
    using multiprecision_rshift_correct [of u] assms(2) A(2) by auto
  have "2 * mp_val ?A = mp_val A \<or> 2 * mp_val ?A = mp_val A + P256"
    using halve_mod_value(1) [OF A(1)] P256_lt(4) by auto
  then have "2 * int (mp_val ?A) = int (mp_val A) \<or> 2 * int (mp_val ?A) = int (mp_val A) + int P256" by linarith
  then have "2 * (int (mp_val ?A) * x - int (mp_val ?u)) = int (mp_val A) * x - int (mp_val u) \<or>
      2 * (int (mp_val ?A) * x - int (mp_val ?u)) = int (mp_val A) * x - int (mp_val u) + int P256 * x"
    using u(1) by (auto simp: right_diff_distrib distrib_right simp flip: mult.assoc)
  then have "int P256 dvd 2 * (int (mp_val ?A) * x - int (mp_val ?u))" using A(3) by auto
  then have "int P256 dvd int (mp_val ?A) * x - int (mp_val ?u)"
    using coprime_2_P256 by (simp only: coprime_dvd_mult_right_iff)
  then show ?thesis using u(2) halve_mod_value(2) [OF A(1)] by (simp add: inv_rel_def)
qed

lemma halve_loop_returns:
  "inv_rel x u A \<Longrightarrow> 0 < mp_val u \<Longrightarrow>
   \<exists>u' A'. halve_loop p256 8 (u, A) = Some (u', A') \<and> inv_rel x u' A' \<and> mp_val u' dvd mp_val u \<and> 0 < mp_val u'"
proof (induction "mp_val u" arbitrary: u A rule: less_induct)
  case less
  have "u \<noteq> []" using less.prems by (auto simp: inv_rel_def)
  note e = even_mp_val [OF this]
  show ?case
  proof (cases "even (mp_val u)")
    case False
    then have "halve_loop p256 8 (u, A) = Some (u, A)" using e by (simp add: halve_loop.simps [of _ _ "(u, A)"])
    then show ?thesis using less.prems by (intro exI [of _ u] exI [of _ A]) simp
  next
    case True
    let ?u = "multiprecision_rshift u" and ?A = "halve_mod p256 A 8"
    have v: "mp_val ?u = mp_val u div 2" by (rule multiprecision_rshift_correct)
    with True less.prems(2) have "mp_val ?u < mp_val u" "0 < mp_val ?u" by (auto elim: evenE)
    from less.hyps [OF this(1) inv_rel_halve [OF less.prems(1) True] this(2)]
    obtain u' A' where "halve_loop p256 8 (?u, ?A) = Some (u', A')" "inv_rel x u' A'" "mp_val u' dvd mp_val ?u" "0 < mp_val u'"
      by blast
    moreover have "mp_val ?u dvd mp_val u" using True by (auto simp: v elim: evenE)
    moreover have "halve_loop p256 8 (u, A) = halve_loop p256 8 (?u, ?A)"
      using True e by (simp add: halve_loop.simps [of _ _ "(u, A)"])
    ultimately show ?thesis by (intro exI [of _ u'] exI [of _ A']) (auto intro: dvd_trans)
  qed
qed

section \<open>The loop\<close>

lemma inv_rel_sub:
  assumes "inv_rel x u A" "inv_rel x v C" "mp_val v \<le> mp_val u"
  shows "inv_rel x (fst (multiprecision_sub u v)) (multiprecision_sub_mod c A C 8)"
proof -
  have u: "length u = 8" "p256_num A" "int P256 dvd int (mp_val A) * x - int (mp_val u)"
    and v: "length v = 8" "p256_num C" "int P256 dvd int (mp_val C) * x - int (mp_val v)"
    using assms(1,2) by (simp_all add: inv_rel_def)
  let ?D = "multiprecision_sub_mod c A C 8"
  have "length u = length v" using u(1) v(1) by simp
  note s = multiprecision_sub_le [OF this assms(3)]
  have m: "int (mp_val ?D) = (int (mp_val A) - int (mp_val C)) mod int P256"
    by (rule sub_mod_value(1) [OF u(2) v(2)])
  have d1: "int P256 dvd (int (mp_val A) - int (mp_val C)) - int (mp_val ?D)" unfolding m by (rule dvd_minus_mod)
  have d2: "int P256 dvd (int (mp_val A) * x - int (mp_val u)) - (int (mp_val C) * x - int (mp_val v))"
    using u(3) v(3) by (rule dvd_diff)
  have "int (mp_val ?D) * x - int (mp_val u - mp_val v) =
      ((int (mp_val A) * x - int (mp_val u)) - (int (mp_val C) * x - int (mp_val v))) -
      ((int (mp_val A) - int (mp_val C)) - int (mp_val ?D)) * x"
    using assms(3) by (simp add: of_nat_diff algebra_simps)
  also have "int P256 dvd \<dots>" by (rule dvd_diff [OF d2 dvd_mult2 [OF d1]])
  finally show ?thesis using s u(1) sub_mod_value(2) [OF u(2) v(2)] by (simp add: inv_rel_def)
qed

lemma compare_ge: "length a = length b \<Longrightarrow> 0 \<le> multiprecision_compare a b \<longleftrightarrow> mp_val b \<le> mp_val a"
  by (simp add: multiprecision_compare_correct)

lemma inv_loop_returns:
  "inv_rel x u A \<Longrightarrow> inv_rel x v C \<Longrightarrow> 0 < mp_val v \<Longrightarrow>
   \<exists>D w. inv_loop p256 8 ((u, A), (v, C)) = Some D \<and> inv_rel x w D \<and>
     (coprime (mp_val u) (mp_val v) \<longrightarrow> mp_val w = 1)"
proof (induction "mp_val u + mp_val v" arbitrary: u A v C rule: less_induct)
  case less
  show ?case
  proof (cases "mp_val u = 0")
    case True
    then have "inv_loop p256 8 ((u, A), (v, C)) = Some C"
      by (simp add: inv_loop.simps [of _ _ "((u, A), (v, C))"] multiprecision_iszero_correct)
    with True less.prems(2) show ?thesis by auto
  next
    case False
    then obtain u' A' where u': "halve_loop p256 8 (u, A) = Some (u', A')" "inv_rel x u' A'" "mp_val u' dvd mp_val u" "0 < mp_val u'"
      using halve_loop_returns [OF less.prems(1)] by blast
    obtain v' C' where v': "halve_loop p256 8 (v, C) = Some (v', C')" "inv_rel x v' C'" "mp_val v' dvd mp_val v" "0 < mp_val v'"
      using halve_loop_returns [OF less.prems(2,3)] by blast
    have le: "mp_val u' \<le> mp_val u" "mp_val v' \<le> mp_val v"
      using u'(3) v'(3) False less.prems(3) by (simp_all add: dvd_imp_le)
    have len: "length u' = length v'" using u'(2) v'(2) by (simp add: inv_rel_def)
    have cop: "coprime (mp_val u') (mp_val v')" if "coprime (mp_val u) (mp_val v)"
      using coprime_divisors [OF u'(3) v'(3) that] .
    show ?thesis
    proof (cases "mp_val v' \<le> mp_val u'")
      case True
      let ?u = "fst (multiprecision_sub u' v')" and ?A = "multiprecision_sub_mod A' A' C' 8"
      have su: "mp_val ?u = mp_val u' - mp_val v'" by (rule multiprecision_sub_le [OF len True])
      have "mp_val ?u + mp_val v' < mp_val u + mp_val v" using su True le v'(4) by simp
      from less.hyps [OF this inv_rel_sub [OF u'(2) v'(2) True] v'(2,4)]
      obtain D w where D: "inv_loop p256 8 ((?u, ?A), (v', C')) = Some D" "inv_rel x w D"
          "coprime (mp_val ?u) (mp_val v') \<longrightarrow> mp_val w = 1" by blast
      have "coprime (mp_val ?u) (mp_val v')" if "coprime (mp_val u) (mp_val v)"
        using cop [OF that] True unfolding su by (metis coprime_iff_gcd_eq_1 gcd_diff1_nat)
      moreover have "inv_loop p256 8 ((u, A), (v, C)) = Some D"
        using False u'(1) v'(1) D(1) len True
        by (simp add: inv_loop.simps [of _ _ "((u, A), (v, C))"] multiprecision_iszero_correct compare_ge)
      ultimately show ?thesis using D(2,3) by blast
    next
      case lt: False
      let ?v = "fst (multiprecision_sub v' u')" and ?C = "multiprecision_sub_mod C' C' A' 8"
      have le': "mp_val u' \<le> mp_val v'" using lt by simp
      have sv: "mp_val ?v = mp_val v' - mp_val u'" by (rule multiprecision_sub_le [OF len [symmetric] le'])
      have "mp_val u' + mp_val ?v < mp_val u + mp_val v" "0 < mp_val ?v" using sv lt le u'(4) by simp_all
      from less.hyps [OF this(1) u'(2) inv_rel_sub [OF v'(2) u'(2) le'] this(2)]
      obtain D w where D: "inv_loop p256 8 ((u', A'), (?v, ?C)) = Some D" "inv_rel x w D"
          "coprime (mp_val u') (mp_val ?v) \<longrightarrow> mp_val w = 1" by blast
      have "coprime (mp_val u') (mp_val ?v)" if "coprime (mp_val u) (mp_val v)"
        using cop [OF that] le' unfolding sv by (metis coprime_iff_gcd_eq_1 gcd.commute gcd_diff1_nat)
      moreover have "inv_loop p256 8 ((u, A), (v, C)) = Some D"
        using False u'(1) v'(1) D(1) len lt
        by (simp add: inv_loop.simps [of _ _ "((u, A), (v, C))"] multiprecision_iszero_correct compare_ge)
      ultimately show ?thesis using D(2,3) by blast
    qed
  qed
qed

section \<open>The inverse\<close>

lemma inv_mod_value:
  assumes "length u = 8"
  shows "\<exists>c. multiprecision_inv_mod u 8 = Some c \<and> p256_num c \<and>
    (coprime (mp_val u) P256 \<longrightarrow> mp_val c * mp_val u mod P256 = 1)"
proof -
  let ?A = "(multiprecision_init 8)[0 := 1]" and ?C = "multiprecision_init 8"
  have "multiprecision_init 8 = [0, 0, 0, 0, 0, 0, 0, 0]"
    by (simp add: multiprecision_init_def eval_nat_numeral)
  then have A: "mp_val ?A = 1" "length ?A = 8" by simp_all
  have u: "inv_rel (int (mp_val u)) u ?A"
    using A assms by (simp add: inv_rel_def p256_num_def P256_def)
  have v: "inv_rel (int (mp_val u)) p256 ?C"
    using P256_lt(3) by (simp add: inv_rel_def p256_num_def) (simp add: multiprecision_init_def)
  have "0 < mp_val p256" using P256_lt(3) by simp
  from inv_loop_returns [OF u v this] obtain D w where
    "inv_loop p256 8 ((u, ?A), (p256, ?C)) = Some D \<and> inv_rel (int (mp_val u)) w D \<and>
     (coprime (mp_val u) (mp_val p256) \<longrightarrow> mp_val w = 1)" by (elim exE)
  note this [unfolded mp_val_p256]
  note D = this [THEN conjunct1] this [THEN conjunct2, THEN conjunct1] this [THEN conjunct2, THEN conjunct2]
  have num: "p256_num D" using D(2) by (simp add: inv_rel_def)
  then have "\<not> 0 \<le> multiprecision_compare D p256" by (simp add: compare_ge not_le)
  then have r: "multiprecision_inv_mod u 8 = Some D"
    by (simp add: multiprecision_inv_mod_def multiprecision_copy_def KEY_LENGTH_DWORDS_P256_def D(1))
  have "mp_val D * mp_val u mod P256 = 1" if "coprime (mp_val u) P256"
  proof -
    have "int P256 dvd int (mp_val D) * int (mp_val u) - 1" using D(2,3) that by (simp add: inv_rel_def)
    then have "int P256 dvd int (mp_val D * mp_val u) - int 1" by simp
    then have "int (mp_val D * mp_val u) mod int P256 = int 1 mod int P256" by (simp only: mod_eq_dvd_iff)
    then have "mp_val D * mp_val u mod P256 = 1 mod P256" by (simp only: of_nat_eq_iff flip: of_nat_mod)
    then show ?thesis using P256_lt by (simp add: P256_def)
  qed
  with r num show ?thesis by blast
qed


text \<open>
  C11: multiprecision_inv_mod returns for every number of 8 words.  Its result is a number below the
  prime of P-256, and the inverse of the argument modulo the prime when the two have no common divisor.
\<close>

theorem p256_inverse:
  assumes "length u = 8"
  shows "\<exists>c. multiprecision_inv_mod u 8 = Some c \<and> length c = 8 \<and> mp_val c < P256 \<and>
    (coprime (mp_val u) P256 \<longrightarrow> mp_val c * mp_val u mod P256 = 1)"
  using inv_mod_value [OF assms] by (simp only: p256_num_def conj_assoc)

theorem p256_inverse_witness:
  "\<exists>c. multiprecision_inv_mod [2, 0, 0, 0, 0, 0, 0, 0] 8 = Some c \<and> mp_val c * 2 mod P256 = 1"
proof -
  have v: "mp_val [2, 0, 0, 0, 0, 0, 0, 0] = 2" by simp
  have "length [2, 0, 0, 0, 0, 0, 0, 0 :: dword] = 8" by simp
  from p256_inverse [OF this] obtain c where
    c: "multiprecision_inv_mod [2, 0, 0, 0, 0, 0, 0, 0] 8 = Some c \<and> length c = 8 \<and> mp_val c < P256 \<and>
      (coprime 2 P256 \<longrightarrow> mp_val c * 2 mod P256 = 1)" unfolding v by (elim exE)
  have "coprime 2 P256" using P256_lt(4) by simp
  with c show ?thesis by (intro exI [of _ c]) (simp only: simp_thms)
qed

end
