(* ===== verification/EccPoint.thy ===== *)
theory EccPoint
  imports MpReduce MpInv
begin

text \<open>
  The points of the curve, \<open>stack/smp/p_256_ecc_pp.c\<close>: doubling, addition, the signed digits of the
  multiplier, the multiplication of a point and the check of the peer's public key.  The fields of a
  point hold the \<open>keyLength\<close> words in use.  A result that is only partly written keeps the rest of the
  point it is written to, which is therefore an argument.
\<close>

unbundle bit_operations_syntax

declare of_nat_unat [simp del]

section \<open>Doubling and addition\<close>

definition p_256_init_point :: point where
  "p_256_init_point = \<lparr>pt_x = zero_words, pt_y = zero_words, pt_z = zero_words\<rparr>"

definition p_256_copy_point :: "point \<Rightarrow> point" where
  "p_256_copy_point p = p"

text \<open>
  The locals \<open>t1\<close>, \<open>t2\<close>, \<open>t3\<close> are written before they are read for both lengths there is a curve for;
  \<open>zero_words\<close> stands for what they hold before.
\<close>

definition ECC_Double :: "point \<Rightarrow> point \<Rightarrow> nat \<Rightarrow> point" where
  "ECC_Double q p n =
     (if multiprecision_iszero (pt_z p) then q\<lparr>pt_z := multiprecision_init n\<rparr>
      else
        (let x1 = pt_x p; y1 = pt_y p; z1 = pt_z p;
             t1 = multiprecision_mersenns_squa_mod zero_words z1 n;
             t2 = multiprecision_sub_mod zero_words x1 t1 n;
             t1 = multiprecision_add_mod t1 x1 t1 n;
             t2 = multiprecision_mersenns_mult_mod t2 t1 t2 n;
             t3 = multiprecision_lshift_mod zero_words t2 n;
             t2 = multiprecision_add_mod t2 t3 t2 n;
             z3 = multiprecision_mersenns_mult_mod (pt_z q) y1 z1 n;
             z3 = multiprecision_lshift_mod z3 z3 n;
             y3 = multiprecision_mersenns_squa_mod (pt_y q) y1 n;
             y3 = multiprecision_lshift_mod y3 y3 n;
             t3 = multiprecision_mersenns_mult_mod t3 y3 x1 n;
             t3 = multiprecision_lshift_mod t3 t3 n;
             y3 = multiprecision_mersenns_squa_mod y3 y3 n;
             y3 = multiprecision_lshift_mod y3 y3 n;
             x3 = multiprecision_mersenns_squa_mod (pt_x q) t2 n;
             t1 = multiprecision_lshift_mod t1 t3 n;
             x3 = multiprecision_sub_mod x3 x3 t1 n;
             t1 = multiprecision_sub_mod t1 t3 x3 n;
             t1 = multiprecision_mersenns_mult_mod t1 t1 t2 n;
             y3 = multiprecision_sub_mod y3 t1 y3 n in
         \<lparr>pt_x = x3, pt_y = y3, pt_z = z3\<rparr>))"

text \<open>
  \<open>ECC_Add\<close> uses \<open>z1\<close>, a field of its operand \<open>p\<close>, for a temporary: the pair is the result and what is
  left of \<open>p\<close>.
\<close>

definition ECC_Add :: "point \<Rightarrow> point \<Rightarrow> point \<Rightarrow> nat \<Rightarrow> point \<times> point" where
  "ECC_Add r p q n =
     (let x1 = pt_x p; y1 = pt_y p; z1 = pt_z p; x2 = pt_x q; y2 = pt_y q; z2 = pt_z q in
      if multiprecision_iszero z2 then (p_256_copy_point p, p)
      else if multiprecision_iszero z1 then (p_256_copy_point q, p)
      else
        (let t1 = multiprecision_mersenns_squa_mod zero_words z1 n;
             t2 = multiprecision_mersenns_mult_mod zero_words z1 t1 n;
             t1 = multiprecision_mersenns_mult_mod t1 x2 t1 n;
             t2 = multiprecision_mersenns_mult_mod t2 y2 t2 n;
             t1 = multiprecision_sub_mod t1 t1 x1 n;
             t2 = multiprecision_sub_mod t2 t2 y1 n in
         if multiprecision_iszero t1 then
           (if multiprecision_iszero t2 then (ECC_Double r q n, p) else (r\<lparr>pt_z := multiprecision_init n\<rparr>, p))
         else
           (let z3 = multiprecision_mersenns_mult_mod (pt_z r) z1 t1 n;
                y3 = multiprecision_mersenns_squa_mod (pt_y r) t1 n;
                z1 = multiprecision_mersenns_mult_mod z1 y3 t1 n;
                y3 = multiprecision_mersenns_mult_mod y3 y3 x1 n;
                t1 = multiprecision_lshift_mod t1 y3 n;
                x3 = multiprecision_mersenns_squa_mod (pt_x r) t2 n;
                x3 = multiprecision_sub_mod x3 x3 t1 n;
                x3 = multiprecision_sub_mod x3 x3 z1 n;
                y3 = multiprecision_sub_mod y3 y3 x3 n;
                y3 = multiprecision_mersenns_mult_mod y3 y3 t2 n;
                z1 = multiprecision_mersenns_mult_mod z1 z1 y1 n;
                y3 = multiprecision_sub_mod y3 y3 z1 n in
            (\<lparr>pt_x = x3, pt_y = y3, pt_z = z3\<rparr>, p\<lparr>pt_z := z1\<rparr>))))"

section \<open>Signed digits\<close>

text \<open>
  The increment of the multiplier carries into the next word as long as a word becomes 0; \<open>None\<close>
  stands for a write past the last word.
\<close>

primrec increment :: "dword list \<Rightarrow> dword list option" where
  "increment [] = None"
| "increment (w # ws) = (let w = w + 1 in if w = 0 then map_option ((#) w) (increment ws) else Some (w # ws))"

text \<open>The body of the loop on the multiplier: the digit and the multiplier left.\<close>

definition naf_step :: "dword list \<Rightarrow> (dword \<times> dword list) option" where
  "naf_step k =
     (if k ! 0 AND 1 \<noteq> 0 then
        (let sign = k ! 0 AND 3 in
         if sign = 1 then Some (sign, multiprecision_rshift (k[0 := k ! 0 AND 0xFFFFFFFE]))
         else map_option (\<lambda>k. (sign, multiprecision_rshift k)) (increment k))
      else Some (0, multiprecision_rshift k))"

text \<open>\<open>naf\<close> holds four digits to a byte, two bits each.\<close>

definition naf_put :: "u8 list \<Rightarrow> nat \<Rightarrow> dword \<Rightarrow> u8 list" where
  "naf_put naf i sign = naf[i div 4 := naf ! (i div 4) OR ucast (push_bit (i mod 4 * 2) sign)]"

definition naf_sign :: "u8 list \<Rightarrow> nat \<Rightarrow> u8" where
  "naf_sign naf i = drop_bit (i mod 4 * 2) (naf ! (i div 4)) AND 3"

lemma word_succ: "unat ((w :: dword) + 1) = (if w + 1 = 0 then 0 else unat w + 1)" "w + 1 = 0 \<longleftrightarrow> unat w + 1 = 2 ^ 32"
  using u32_lt [of w] unat_add32 [of w 1] by (auto simp: word_unat_eq_iff split: if_splits)

lemma increment_value:
  "increment k = Some k' \<Longrightarrow> mp_val k' = mp_val k + 1 \<and> length k' = length k"
proof (induction k arbitrary: k')
  case (Cons w ws)
  show ?case
  proof (cases "w + 1 = 0")
    case True
    then have "unat w = 4294967295" by (simp add: word_succ(2))
    then show ?thesis using Cons True by (auto simp: Let_def)
  next
    case False
    then have "unat (w + 1) = unat w + 1" by (simp add: word_succ(1))
    then show ?thesis using Cons.prems False by (auto simp: Let_def)
  qed
qed simp

lemma increment_None: "increment k = None \<longleftrightarrow> mp_val k + 1 = mp_base (length k)"
proof (induction k)
  case (Cons w ws)
  show ?case
  proof (cases "w + 1 = 0")
    case True
    then have "unat w = 4294967295" by (simp add: word_succ(2))
    then have "mp_val (w # ws) + 1 = 2 ^ 32 * (mp_val ws + 1)" by simp
    moreover have "2 ^ 32 * (mp_val ws + 1) = 2 ^ 32 * mp_base (length ws) \<longleftrightarrow> mp_val ws + 1 = mp_base (length ws)"
      by (rule mult_cancel1 [THEN trans]) simp
    ultimately have "mp_val (w # ws) + 1 = mp_base (length (w # ws)) \<longleftrightarrow> increment ws = None"
      by (simp only: list.size mp_base_Suc Cons.IH plus_nat.simps One_nat_def add_Suc_right add_0_right)
    then show ?thesis using True by (simp add: Let_def del: mp_val.simps)
  next
    case False
    then have w: "unat w + 1 < 2 ^ 32" using u32_lt [of w] by (simp add: word_succ(2))
    have "mp_val ws + 1 \<le> mp_base (length ws)" using mp_val_lt [of ws] by simp
    then have "2 ^ 32 * (mp_val ws + 1) \<le> 2 ^ 32 * mp_base (length ws)" by (rule mult_le_mono2)
    then have "mp_val (w # ws) + 1 \<noteq> mp_base (length (w # ws))" using w by (simp add: mp_base_Suc)
    then show ?thesis using False by (simp add: Let_def)
  qed
qed simp

text \<open>The value of a digit: 1 for one, 3 for minus one.\<close>

definition digit_val :: "'a::len word \<Rightarrow> int" where
  "digit_val s = (if s = 1 then 1 else if s = 3 then - 1 else 0)"

lemma word_low_bits:
  fixes w :: dword
  shows "w AND 1 \<noteq> 0 \<longleftrightarrow> odd (unat w)" "unat (w AND 3) = unat w mod 4" "odd (unat w) \<Longrightarrow> unat (w AND 0xFFFFFFFE) = unat w - 1"
proof -
  show "w AND 1 \<noteq> 0 \<longleftrightarrow> odd (unat w)" using even_word [of w] by simp
  have "w AND 3 = take_bit 2 w" by (simp add: take_bit_eq_mask mask_eq_exp_minus_1)
  then show "unat (w AND 3) = unat w mod 4" by (simp add: take_bit_eq_mod unat_mod)
  assume "odd (unat w)"
  have "0xFFFFFFFE = (NOT 1 :: dword)" by simp
  then have "w AND 0xFFFFFFFE = w AND NOT 1" by (simp only:)
  also have "\<dots> = w - 1"
  proof (rule disjunctive_diff [symmetric])
    fix n
    assume "bit (1 :: dword) n"
    then have "n = 0" by (simp add: bit_1_iff)
    moreover have "odd w" using \<open>odd (unat w)\<close> even_word [of w] by (simp add: and_one_eq even_iff_mod_2_eq_zero)
    ultimately show "bit w n" by (simp add: bit_0)
  qed
  finally show "unat (w AND 0xFFFFFFFE) = unat w - 1" using \<open>odd (unat w)\<close> by (simp add: unat_sub32 odd_pos Suc_leI)
qed

lemma naf_step_value:
  assumes "k \<noteq> []" "naf_step k = Some (s, k')"
  shows "int (mp_val k) = 2 * int (mp_val k') + digit_val s" "s = 0 \<or> s = 1 \<or> s = 3"
    "s \<noteq> 0 \<Longrightarrow> even (mp_val k')" "length k' = length k" "s = 0 \<longleftrightarrow> even (mp_val k)"
proof -
  obtain w ws where k: "k = w # ws" using assms(1) by (cases k) auto
  have par: "odd (mp_val k) \<longleftrightarrow> odd (unat w)" by (simp add: k)
  have *: "int (mp_val k) = 2 * int (mp_val k') + digit_val s \<and> (s = 0 \<or> s = 1 \<or> s = 3) \<and>
      (s \<noteq> 0 \<longrightarrow> even (mp_val k')) \<and> length k' = length k \<and> (s = 0 \<longleftrightarrow> even (mp_val k))"
  proof (cases "odd (unat w)")
    case False
    then have "s = 0" "k' = multiprecision_rshift k" using assms(2) by (simp_all add: naf_step_def k word_low_bits(1))
    moreover have "even (mp_val k)" using False par by simp
    ultimately show ?thesis using multiprecision_rshift_correct [of k] by (auto simp: digit_val_def elim!: evenE)
  next
    case True
    then have m4: "unat w mod 4 = 1 \<or> unat w mod 4 = 3" by presburger
    show ?thesis
    proof (cases "unat w mod 4 = 1")
      case one: True
      then have sign: "w AND 3 = 1" by (simp add: word_unat_eq_iff word_low_bits(2))
      let ?e = "(w AND 0xFFFFFFFE) # ws"
      have e: "mp_val ?e + 1 = mp_val k" using True by (simp add: k word_low_bits(3) odd_pos Suc_leI)
      have r: "s = 1" "k' = multiprecision_rshift ?e"
        using assms(2) True sign by (simp_all add: naf_step_def k word_low_bits(1))
      have "unat w = 4 * (unat w div 4) + 1" using one by (metis mult_div_mod_eq)
      then have "mp_val k = 2 * (2 * (unat w div 4 + 2 ^ 30 * mp_val ws)) + 1" by (simp add: k)
      then have "mp_val k' = 2 * (unat w div 4 + 2 ^ 30 * mp_val ws)"
        using e by (simp add: r(2) multiprecision_rshift_correct)
      then show ?thesis
        using \<open>mp_val k = _\<close> by (simp add: r digit_val_def k multiprecision_rshift_correct del: mp_val.simps)
    next
      case False
      then have three: "unat w mod 4 = 3" using m4 by simp
      then have sign: "w AND 3 = 3" by (simp add: word_unat_eq_iff word_low_bits(2))
      obtain i where i: "increment k = Some i" "s = 3" "k' = multiprecision_rshift i"
        using assms(2) True sign by (auto simp: naf_step_def k word_low_bits(1))
      note iv = increment_value [OF i(1)]
      have "unat w = 4 * (unat w div 4) + 3" using three by (metis mult_div_mod_eq)
      then have v: "mp_val k + 1 = 2 * (2 * (unat w div 4 + 1 + 2 ^ 30 * mp_val ws))" by (simp add: k)
      then have "mp_val k' = 2 * (unat w div 4 + 1 + 2 ^ 30 * mp_val ws)"
        using iv by (simp add: i(3) multiprecision_rshift_correct)
      moreover have "odd (mp_val k)" using True par by simp
      ultimately show ?thesis
        using v iv by (simp add: i digit_val_def multiprecision_rshift_correct)
    qed
  qed
  then show "int (mp_val k) = 2 * int (mp_val k') + digit_val s" "s = 0 \<or> s = 1 \<or> s = 3"
    "s \<noteq> 0 \<Longrightarrow> even (mp_val k')" "length k' = length k" "s = 0 \<longleftrightarrow> even (mp_val k)" by blast+
qed


text \<open>The loop of \<open>ECC_NAF\<close>; a write to \<open>naf\<close> past its end is \<open>None\<close> as well.\<close>

function naf_loop :: "u8 list \<Rightarrow> nat \<Rightarrow> dword list \<Rightarrow> (u8 list \<times> nat \<times> dword list) option" where
  "naf_loop naf i k =
     (if 1 \<le> multiprecision_most_signbits k then
        (case naf_step k of None \<Rightarrow> None
         | Some (sign, k') \<Rightarrow>
             if length naf \<le> i div 4 then None else naf_loop (naf_put naf i sign) (i + 1) k')
      else Some (naf, i, k))"
  by auto

lemma mp_val_0: "mp_val k = 0 \<Longrightarrow> w \<in> set k \<Longrightarrow> w = 0"
  by (induction k) (auto simp: word_unat_eq_iff)

lemma signbits_pos: "1 \<le> multiprecision_most_signbits k \<longleftrightarrow> mp_val k \<noteq> 0"
proof
  assume "mp_val k \<noteq> 0"
  then show "1 \<le> multiprecision_most_signbits k"
    using multiprecision_most_signbits_correct(1) [of k] by (cases "multiprecision_most_signbits k") auto
next
  have "multiprecision_most_signbits k = 0" if "mp_val k = 0"
    using mp_val_0 [OF that] by (simp add: multiprecision_most_signbits_def multiprecision_most_signdwords_def)
  then show "1 \<le> multiprecision_most_signbits k \<Longrightarrow> mp_val k \<noteq> 0" by auto
qed

lemma naf_step_less:
  assumes "mp_val k \<noteq> 0" "naf_step k = Some (s, k')"
  shows "mp_val k' < mp_val k"
proof -
  have ne: "k \<noteq> []" using assms(1) by auto
  note v = naf_step_value [OF ne assms(2)]
  have "digit_val s = 1 \<or> digit_val s = - 1 \<or> digit_val s = 0" by (simp add: digit_val_def)
  moreover have "mp_val k \<noteq> 1 \<or> digit_val s \<noteq> - 1"
  proof (rule disjCI)
    assume "\<not> digit_val s \<noteq> - 1"
    then have "s \<noteq> 0" "int (mp_val k) = 2 * int (mp_val k') - 1" using v(1) by (auto simp: digit_val_def split: if_splits)
    moreover from this(1) have "even (mp_val k')" by (rule v(3))
    ultimately show "mp_val k \<noteq> 1" by auto
  qed
  ultimately show ?thesis using v(1) assms(1) by auto
qed

termination naf_loop
proof (relation "measure (\<lambda>(naf, i, k). mp_val k)")
  fix naf i k x and sign :: dword and k'
  assume "1 \<le> multiprecision_most_signbits k" "naf_step k = Some x" "(sign, k') = x"
  then have "mp_val k' < mp_val k" by (intro naf_step_less [of k sign] signbits_pos [THEN iffD1]) simp_all
  then show "((naf_put naf i sign, i + 1, k'), naf, i, k) \<in> measure (\<lambda>(naf, i, k). mp_val k)" by simp
qed simp

declare naf_loop.simps [simp del]

definition ECC_NAF :: "u8 list \<Rightarrow> dword list \<Rightarrow> (u8 list \<times> nat \<times> dword list) option" where
  "ECC_NAF naf k = naf_loop naf 0 k"

section \<open>Multiplication of a point\<close>

text \<open>
  One round of the multiplication: the digit \<open>i\<close> doubles the result \<open>q\<close> and then adds \<open>p\<close> or \<open>-p\<close>.
\<close>

definition mult_round :: "point \<Rightarrow> point \<Rightarrow> u8 list \<Rightarrow> nat \<Rightarrow> nat \<Rightarrow> point \<Rightarrow> point" where
  "mult_round p minus_p naf n i q =
     (let r = p_256_copy_point q;
          q = ECC_Double q r n;
          sign = naf_sign naf i in
      if sign = 1 then (let r = p_256_copy_point q in fst (ECC_Add q r p n))
      else if sign = 3 then (let r = p_256_copy_point q in fst (ECC_Add q r minus_p n))
      else q)"

text \<open>The rounds run from the last digit to the first.\<close>

definition ECC_PointMult_Bin_NAF :: "point \<Rightarrow> dword list \<Rightarrow> nat \<Rightarrow> (point \<times> point \<times> dword list) option" where
  "ECC_PointMult_Bin_NAF p k n =
     (let modp = (if n = KEY_LENGTH_DWORDS_P256 then ec_p curve_p256 else take n (ec_p curve));
          p = p\<lparr>pt_z := (multiprecision_init n)[0 := 1]\<rparr>;
          q = p_256_init_point;
          minus_p = \<lparr>pt_x = multiprecision_copy (pt_x p), pt_y = fst (multiprecision_sub modp (pt_y p)),
                     pt_z = (multiprecision_init n)[0 := 1]\<rparr>;
          naf = replicate 65 0 in
      Option.bind (ECC_NAF naf k) (\<lambda>(naf, NumNaf, k).
        let q = fold (mult_round p minus_p naf n) (rev [0..<NumNaf]) q in
        Option.bind (multiprecision_inv_mod (pt_z q) n) (\<lambda>inv.
          let z = multiprecision_mersenns_squa_mod (pt_z q) inv n;
              x = multiprecision_mersenns_mult_mod (pt_x q) (pt_x q) z n;
              z = multiprecision_mersenns_mult_mod z z inv n;
              y = multiprecision_mersenns_mult_mod (pt_y q) (pt_y q) z n in
          Some (\<lparr>pt_x = x, pt_y = y, pt_z = z\<rparr>, p, k))))"

section \<open>The check of a public key\<close>

definition ECC_CheckPointIsInElliCur_P256 :: "point \<Rightarrow> bool" where
  "ECC_CheckPointIsInElliCur_P256 p =
     (let n = KEY_LENGTH_DWORDS_P256;
          y_y_q = multiprecision_mersenns_squa_mod zero_words (pt_y p) n;
          x_x = multiprecision_mult (pt_x p) (pt_x p);
          x_x = x_x[0 := x_x ! 0 - 3];
          x_x_q = multiprecision_fast_mod_P256 x_x;
          x_x = multiprecision_mult x_x_q (pt_x p);
          x_q = multiprecision_fast_mod_P256 x_x;
          x_x_q = multiprecision_add_mod x_x_q x_q (ec_b curve_p256) n in
      if multiprecision_compare y_y_q x_x_q \<noteq> 0 then False else True)"


section \<open>The digits are those of the multiplier\<close>

lemma bit_3: "bit (3 :: u8) n \<longleftrightarrow> n < 2" "bit (3 :: dword) n \<longleftrightarrow> n < 2"
proof -
  have m: "(3 :: u8) = mask 2" "(3 :: dword) = mask 2" by (simp_all add: mask_eq_exp_minus_1)
  show "bit (3 :: u8) n \<longleftrightarrow> n < 2" unfolding m(1) bit_mask_iff by auto
  show "bit (3 :: dword) n \<longleftrightarrow> n < 2" unfolding m(2) bit_mask_iff by auto
qed

lemma two_bits: "bit (drop_bit q b AND 3 :: u8) n \<longleftrightarrow> n < 2 \<and> bit b (q + n)"
  by (auto simp only: bit_and_iff bit_drop_bit_eq bit_3 comp_def)

lemma digit_bits:
  assumes "s = 0 \<or> s = 1 \<or> s = (3 :: dword)" "bit s r"
  shows "r < 2"
  using assms(1)
proof (elim disjE)
  assume "s = 3"
  with assms(2) show ?thesis by (simp only: bit_3)
qed (use assms(2) in \<open>simp_all add: bit_1_iff\<close>)

lemma naf_sign_put:
  assumes "i div 4 < length naf" "naf_sign naf i = 0" "s = 0 \<or> s = 1 \<or> s = (3 :: dword)"
  shows "naf_sign (naf_put naf i s) j = (if j = i then ucast s else naf_sign naf j)"
proof (cases "j div 4 = i div 4")
  case False
  then show ?thesis by (auto simp: naf_sign_def naf_put_def)
next
  case True
  let ?p = "i mod 4 * 2" and ?q = "j mod 4 * 2" and ?b = "naf ! (i div 4)"
  have sgn: "naf_sign (naf_put naf i s) j = drop_bit ?q (?b OR ucast (push_bit ?p s)) AND 3"
    using True assms(1) by (simp add: naf_sign_def naf_put_def)
  have "\<not> bit (drop_bit ?p ?b AND 3) n" for n using assms(2) by (simp add: naf_sign_def)
  then have free: "\<not> bit ?b (?p + n)" if "n < 2" for n using that unfolding two_bits by blast
  have ij: "j = i \<longleftrightarrow> ?q = ?p" using True by (metis mult_div_mod_eq mult_right_cancel zero_neq_numeral)
  have par: "?q = ?p \<or> ?q + 2 \<le> ?p \<or> ?p + 2 \<le> ?q" by (cases "i mod 4" "j mod 4" rule: linorder_cases) simp_all
  have lt: "?p < 7" "?q < 7" using mod_less_divisor [of 4 i] mod_less_divisor [of 4 j] by linarith+
  show ?thesis
  proof (cases "j = i")
    case eq: True
    have "drop_bit ?q (?b OR ucast (push_bit ?p s)) AND 3 = ucast s"
    proof (rule bit_word_eqI)
      fix n assume "n < LENGTH(8)"
      show "bit (drop_bit ?q (?b OR ucast (push_bit ?p s)) AND 3 :: u8) n = bit (ucast s :: u8) n"
        unfolding two_bits using free [of n] digit_bits [OF assms(3), of n] lt \<open>n < LENGTH(8)\<close> eq
        by (auto simp: bit_or_iff bit_ucast_iff bit_push_bit_iff)
    qed
    then show ?thesis using sgn eq by simp
  next
    case ne: False
    have "drop_bit ?q (?b OR ucast (push_bit ?p s)) AND 3 = drop_bit ?q ?b AND 3"
    proof (rule bit_word_eqI)
      fix n assume "n < LENGTH(8)"
      have "\<not> bit (ucast (push_bit ?p s) :: u8) (?q + n)" if "n < 2"
        using that ne ij par digit_bits [OF assms(3), of "?q + n - ?p"]
        by (auto simp: bit_ucast_iff bit_push_bit_iff)
      then show "bit (drop_bit ?q (?b OR ucast (push_bit ?p s)) AND 3 :: u8) n = bit (drop_bit ?q ?b AND 3 :: u8) n"
        unfolding two_bits by (auto simp: bit_or_iff)
    qed
    then show ?thesis using sgn ne True by (simp add: naf_sign_def)
  qed
qed

lemma digit_val_ucast:
  assumes "s = 0 \<or> s = 1 \<or> s = (3 :: dword)"
  shows "digit_val (ucast s :: u8) = digit_val s"
  using assms by (auto simp: digit_val_def)


text \<open>What the loop leaves in \<open>naf\<close> from the digit \<open>i\<close> on, for the multiplier \<open>v\<close> it has there.\<close>

definition naf_digits :: "u8 list \<Rightarrow> nat \<Rightarrow> nat \<Rightarrow> nat \<Rightarrow> bool" where
  "naf_digits naf i num v \<longleftrightarrow>
     (\<Sum>j=i..<num. digit_val (naf_sign naf j) * 2 ^ j) = 2 ^ i * int v \<and>
     (\<forall>j\<in>{i..<num}. naf_sign naf j = 0 \<or> naf_sign naf j = 1 \<or> naf_sign naf j = 3) \<and>
     (\<forall>j\<in>{i..<num}. Suc j < num \<longrightarrow> naf_sign naf j = 0 \<or> naf_sign naf (Suc j) = 0) \<and>
     (i < num \<longrightarrow> even v \<longrightarrow> naf_sign naf i = 0)"

lemma naf_digits_step:
  assumes "naf_digits naf (Suc i) num v'" "Suc i \<le> num"
    and "int v = 2 * int v' + digit_val (naf_sign naf i)"
    and "naf_sign naf i = 0 \<or> naf_sign naf i = 1 \<or> naf_sign naf i = 3"
    and "naf_sign naf i \<noteq> 0 \<longrightarrow> even v'" "naf_sign naf i = 0 \<longleftrightarrow> even v"
  shows "naf_digits naf i num v"
proof -
  have split: "{i..<num} = insert i {Suc i..<num}" using assms(2) by auto
  have "(\<Sum>j=i..<num. digit_val (naf_sign naf j) * 2 ^ j) = digit_val (naf_sign naf i) * 2 ^ i + 2 ^ Suc i * int v'"
    unfolding split using assms(1) by (simp add: naf_digits_def)
  also have "\<dots> = 2 ^ i * int v" unfolding assms(3) by (simp add: algebra_simps)
  finally show ?thesis using assms(1,2,4-6) unfolding naf_digits_def split by auto
qed

lemma naf_loop_digits:
  "length naf = 65 \<Longrightarrow> k \<noteq> [] \<Longrightarrow> (mp_val k \<noteq> 0 \<longrightarrow> mp_val k \<le> 2 ^ m \<and> i + m \<le> 256) \<Longrightarrow>
   mp_val k + 1 < mp_base (length k) \<Longrightarrow> (\<forall>j\<in>{i..<260}. naf_sign naf j = 0) \<Longrightarrow>
   \<exists>naf' num k'. naf_loop naf i k = Some (naf', num, k') \<and> length naf' = 65 \<and> i \<le> num \<and>
     num \<le> i + (if mp_val k = 0 then 0 else m + 1) \<and> mp_val k' = 0 \<and>
     (\<forall>j<i. naf_sign naf' j = naf_sign naf j) \<and> naf_digits naf' i num (mp_val k)"
proof (induction "mp_val k" arbitrary: naf i k m rule: less_induct)
  case less
  show ?case
  proof (cases "mp_val k = 0")
    case True
    then have "naf_loop naf i k = Some (naf, i, k)" by (simp only: naf_loop.simps [of naf i k] signbits_pos) simp
    with True less.prems(1) show ?thesis by (simp add: naf_digits_def)
  next
    case False
    have m: "mp_val k \<le> 2 ^ m" "i + m \<le> 256" using less.prems(3) False by simp_all
    have "naf_step k \<noteq> None"
      using increment_None [of k] less.prems(4) by (auto simp: naf_step_def Let_def)
    then obtain s k' where s: "naf_step k = Some (s, k')" by auto
    note sv = naf_step_value [OF less.prems(2) s]
    have less': "mp_val k' < mp_val k" by (rule naf_step_less [OF False s])
    have room: "i div 4 < length naf" "i < 260" using m(2) less.prems(1) by simp_all
    have free: "naf_sign naf i = 0" using less.prems(5) room(2) by simp
    note put = naf_sign_put [OF room(1) free sv(2)]
    let ?naf = "naf_put naf i s"
    have half: "2 * mp_val k' \<le> mp_val k + 1" using sv(1) by (auto simp: digit_val_def split: if_splits)
    have m': "mp_val k' \<noteq> 0 \<longrightarrow> mp_val k' \<le> 2 ^ (m - 1) \<and> Suc i + (m - 1) \<le> 256 \<and> m \<noteq> 0"
    proof
      assume nz: "mp_val k' \<noteq> 0"
      have "m \<noteq> 0"
      proof
        assume "m = 0"
        with m(1) half less' nz show False by simp
      qed
      then obtain l where l: "m = Suc l" by (cases m) auto
      then have "2 * mp_val k' \<le> 2 * 2 ^ l + 1" using half m(1) by simp
      then have "mp_val k' \<le> 2 ^ l" by linarith
      with l m(2) show "mp_val k' \<le> 2 ^ (m - 1) \<and> Suc i + (m - 1) \<le> 256 \<and> m \<noteq> 0" by simp
    qed
    have prems: "length ?naf = 65" "k' \<noteq> []" "mp_val k' \<noteq> 0 \<longrightarrow> mp_val k' \<le> 2 ^ (m - 1) \<and> Suc i + (m - 1) \<le> 256"
        "mp_val k' + 1 < mp_base (length k')" "\<forall>j\<in>{Suc i..<260}. naf_sign ?naf j = 0"
      using less.prems sv(4) less' m' by (auto simp: put) (auto simp: naf_put_def)
    from less.hyps [OF less' prems] obtain naf' num l where ih:
        "naf_loop ?naf (Suc i) k' = Some (naf', num, l)" "length naf' = 65" "Suc i \<le> num"
        "num \<le> Suc i + (if mp_val k' = 0 then 0 else m - 1 + 1)" "mp_val l = 0"
        "\<forall>j<Suc i. naf_sign naf' j = naf_sign ?naf j" "naf_digits naf' (Suc i) num (mp_val k')" by blast
    have "naf_loop naf i k = Some (naf', num, l)"
      using ih(1) False s room(1) by (simp add: naf_loop.simps [of naf i k] signbits_pos [simplified])
    moreover have "num \<le> i + (if mp_val k = 0 then 0 else m + 1)" using ih(4) False m' by (auto split: if_splits)
    moreover have "\<forall>j<i. naf_sign naf' j = naf_sign naf j" using ih(6) by (simp add: put)
    moreover have "naf_digits naf' i num (mp_val k)"
    proof (rule naf_digits_step [OF ih(7,3)])
      have i: "naf_sign naf' i = ucast s" using ih(6) by (simp add: put)
      have z: "naf_sign naf' i = 0 \<longleftrightarrow> s = 0" using sv(2) i by auto
      show "int (mp_val k) = 2 * int (mp_val k') + digit_val (naf_sign naf' i)"
        using sv(1) by (simp add: i digit_val_ucast [OF sv(2)])
      show "naf_sign naf' i = 0 \<or> naf_sign naf' i = 1 \<or> naf_sign naf' i = 3" using sv(2) i by auto
      show "naf_sign naf' i \<noteq> 0 \<longrightarrow> even (mp_val k')" using sv(3) z by blast
      show "naf_sign naf' i = 0 \<longleftrightarrow> even (mp_val k)" using sv(5) z by blast
    qed
    ultimately show ?thesis using ih(2,3,5) by (intro exI [of _ naf'] exI [of _ num] exI [of _ l]) simp
  qed
qed

lemma naf_sign_replicate: "j div 4 < n \<Longrightarrow> naf_sign (replicate n 0) j = 0"
  by (simp add: naf_sign_def)

lemma ecc_naf_value:
  assumes "length k = 8" "mp_val k + 1 \<noteq> 2 ^ 256"
  shows "\<exists>naf num k'. ECC_NAF (replicate 65 0) k = Some (naf, num, k') \<and> length naf = 65 \<and> num \<le> 257 \<and>
    naf_digits naf 0 num (mp_val k)"
proof -
  have lt: "mp_val k < 2 ^ 256" using mp_val_lt [of k] assms(1) by (simp add: mp_base_8)
  have "\<exists>naf num k'. naf_loop (replicate 65 0) 0 k = Some (naf, num, k') \<and> length naf = 65 \<and> 0 \<le> num \<and>
     num \<le> 0 + (if mp_val k = 0 then 0 else 256 + 1) \<and> mp_val k' = 0 \<and>
     (\<forall>j<0. naf_sign naf j = naf_sign (replicate 65 0) j) \<and> naf_digits naf 0 num (mp_val k)"
  proof (rule naf_loop_digits)
    show "mp_val k + 1 < mp_base (length k)" using lt assms by (simp add: mp_base_8)
    show "\<forall>j\<in>{0..<260}. naf_sign (replicate 65 0) j = 0" by (auto intro!: naf_sign_replicate)
  qed (use assms lt in auto)
  then show ?thesis unfolding ECC_NAF_def by (fastforce split: if_splits)
qed

text \<open>The multiplier with all bits set is incremented past its last word.\<close>

lemma ecc_naf_none:
  assumes "length k = 8" "mp_val k + 1 = 2 ^ 256"
  shows "ECC_NAF (replicate 65 0) k = None"
proof -
  have ne: "k \<noteq> []" "mp_val k \<noteq> 0" using assms by auto
  then obtain w ws where k: "k = w # ws" by (cases k) auto
  have "increment k = None" using assms by (simp add: increment_None mp_base_8)
  moreover have "k ! 0 AND 3 = 3"
  proof -
    have "(mp_val k + 1) mod 4 = (unat w + 1) mod 4"
    proof -
      have "mp_val k + 1 = unat w + 1 + 4 * (2 ^ 30 * mp_val ws)" by (simp add: k)
      then show ?thesis by (metis mod_mult_self2)
    qed
    then have "(unat w + 1) mod 4 = 0" unfolding assms(2) by simp
    then have "unat w mod 4 = 3" by presburger
    then show ?thesis by (simp add: k word_unat_eq_iff word_low_bits(2))
  qed
  moreover from this have "k ! 0 AND 1 \<noteq> 0"
    using word_low_bits(2) [of w] by (simp add: k word_low_bits(1)) presburger
  ultimately have "naf_step k = None" by (simp add: naf_step_def)
  then show ?thesis using ne by (simp add: ECC_NAF_def naf_loop.simps [of _ 0 k] signbits_pos [simplified])
qed

text \<open>
  C21: For a multiplier of 8 words other than the one with all bits set, ECC_NAF returns with at most
  257 digits, all written inside the 65 bytes of its array, each 0, 1 or -1, no two of them that are not
  0 next to each other, and their sum with the powers of two is the multiplier.  For the one with
  all bits set it increments the word behind the multiplier.
\<close>

theorem ecc_naf_digits:
  assumes "length k = 8"
  shows "if mp_val k + 1 = 2 ^ 256 then ECC_NAF (replicate 65 0) k = None
    else \<exists>naf num k'. ECC_NAF (replicate 65 0) k = Some (naf, num, k') \<and> length naf = 65 \<and> num \<le> 257 \<and>
      (\<Sum>j<num. digit_val (naf_sign naf j) * 2 ^ j) = int (mp_val k) \<and>
      (\<forall>j<num. naf_sign naf j = 0 \<or> naf_sign naf j = 1 \<or> naf_sign naf j = 3) \<and>
      (\<forall>j. Suc j < num \<longrightarrow> naf_sign naf j = 0 \<or> naf_sign naf (Suc j) = 0)"
proof (cases "mp_val k + 1 = 2 ^ 256")
  case True
  then show ?thesis using ecc_naf_none [OF assms True] by (simp only: refl if_True)
next
  case False
  obtain naf num k' where n: "ECC_NAF (replicate 65 0) k = Some (naf, num, k')" "length naf = 65" "num \<le> 257"
      "naf_digits naf 0 num (mp_val k)" using ecc_naf_value [OF assms False] by blast
  have "(\<Sum>j<num. digit_val (naf_sign naf j) * 2 ^ j) = int (mp_val k) \<and>
      (\<forall>j<num. naf_sign naf j = 0 \<or> naf_sign naf j = 1 \<or> naf_sign naf j = 3) \<and>
      (\<forall>j. Suc j < num \<longrightarrow> naf_sign naf j = 0 \<or> naf_sign naf (Suc j) = 0)"
    using n(4) by (auto simp: naf_digits_def lessThan_atLeast0)
  with n(1-3) False show ?thesis
    by (simp only: if_False) (intro exI [of _ naf] exI [of _ num] exI [of _ k'], simp)
qed

theorem ecc_naf_digits_witness:
  "\<exists>naf num k'. ECC_NAF (replicate 65 0) [7, 0, 0, 0, 0, 0, 0, 0] = Some (naf, num, k') \<and>
    (\<Sum>j<num. digit_val (naf_sign naf j) * 2 ^ j) = 7"
proof -
  have v: "mp_val [7, 0, 0, 0, 0, 0, 0, 0] = 7" by simp
  have "length [7, 0, 0, 0, 0, 0, 0, 0 :: dword] = 8" and ne: "(7 + 1 = (2 :: nat) ^ 256) = False" by simp_all
  from ecc_naf_digits [OF this(1)] show ?thesis unfolding v ne if_False of_nat_numeral by blast
qed

end
