(* ===== verification/SmpKeys.thy ===== *)
theory SmpKeys
  imports SmpUtils EccPoint
begin

text \<open>
  \<open>stack/smp/smp_keys.c\<close> over the control block: the confirm values and the short term key of legacy
  pairing, the private key, DHKey, commitments, numeric comparison and DHKey checks of LE Secure
  Connections, and the derivation of keys across transports.  The controller is asked for random
  numbers (\<open>btsnd_hcic_ble_rand\<close>) and answers later with \<open>smp_rand_back\<close> (\<open>SmpAct\<close>).  Every computation
  has a time of its own (\<open>s_clock\<close>) that selects the answers of the allocator and the content of
  uninitialised arrays.  What would clash with the names of actions has the suffix \<open>_act\<close>.
\<close>

unbundle bit_operations_syntax

section \<open>Computations\<close>

text \<open>An array of \<open>n\<close> bytes on the stack at time \<open>t\<close>.\<close>

definition stack_bytes :: "smp_env \<Rightarrow> nat \<Rightarrow> nat \<Rightarrow> bytes" where
  "stack_bytes e t n = take n (e_stack e t @ zeros n)"

definition enc_at :: "smp_env \<Rightarrow> nat \<Rightarrow> bytes \<Rightarrow> bytes \<Rightarrow> u8 \<Rightarrow> bytes option" where
  "enc_at e t key plain_text pt_len = map_option enc_param_buf (SMP_Encrypt (e_mem e t 0) key 16 plain_text pt_len)"

definition ticks :: "nat \<Rightarrow> smp_sys \<Rightarrow> smp_sys" where
  "ticks n s = s\<lparr>s_clock := s_clock s + n\<rparr>"

text \<open>A request for random numbers; \<open>smp_rand_back(NULL)\<close> if it cannot be sent.\<close>

definition smp_rand_failed :: "smp_event_fun \<Rightarrow> smp_sys \<Rightarrow> smp_sys" where
  "smp_rand_failed sm s = sm SMP_AUTH_CMPL_EVT (Status SMP_PAIR_FAIL_UNKNOWN) s"

definition ask_rand :: "smp_env \<Rightarrow> smp_event_fun \<Rightarrow> smp_sys \<Rightarrow> smp_sys" where
  "ask_rand e sm s = (if e_rand_ok e (s_clock s) then out Out_Rand s else smp_rand_failed sm (tick s))"

section \<open>Passkeys\<close>

definition passkey_ready :: "smp_event_fun \<Rightarrow> u32 \<Rightarrow> smp_sys \<Rightarrow> smp_sys" where
  "passkey_ready sm passkey s =
     (let s = s\<lparr>tk := put_u32 passkey @ zeros 12\<rparr>;
          s = (if p_callback s then out (Out_Callback SMP_PASSKEY_NOTIF_EVT (pairing_bda s) (Evt_Passkey passkey)) s else s) in
      if selected_association_model s = SMP_MODEL_SEC_CONN_PASSKEY_DISP then sm SMP_KEY_READY_EVT (Passkey passkey) s
      else sm SMP_KEY_READY_EVT (Key SMP_KEY_TYPE_TK (tk s)) s)"

definition smp_use_static_passkey :: "smp_event_fun \<Rightarrow> smp_sys \<Rightarrow> smp_sys" where
  "smp_use_static_passkey sm s = passkey_ready sm (static_passkey s) s"

definition smp_generate_passkey :: "smp_env \<Rightarrow> smp_event_fun \<Rightarrow> smp_sys \<Rightarrow> smp_sys" where
  "smp_generate_passkey e sm s =
     (if use_static_passkey s then smp_use_static_passkey sm s
      else ask_rand e sm (s\<lparr>rand_enc_proc_state := SMP_GEN_TK\<rparr>))"

definition random_passkey :: "bytes \<Rightarrow> u32" where
  "random_passkey param_buf = passkey_truncate (get_u32 param_buf AND NOT 0xfff00000)"

definition smp_proc_passkey :: "smp_event_fun \<Rightarrow> bytes \<Rightarrow> smp_sys \<Rightarrow> smp_sys" where
  "smp_proc_passkey sm param_buf s = passkey_ready sm (random_passkey param_buf) s"

section \<open>Legacy pairing\<close>

definition smp_generate_srand_mrand_confirm_act :: "smp_env \<Rightarrow> smp_event_fun \<Rightarrow> smp_sys \<Rightarrow> smp_sys" where
  "smp_generate_srand_mrand_confirm_act e sm s = ask_rand e sm (s\<lparr>rand_enc_proc_state := SMP_GEN_SRAND_MRAND\<rparr>)"

definition smp_generate_rand_cont :: "smp_env \<Rightarrow> smp_event_fun \<Rightarrow> smp_sys \<Rightarrow> smp_sys" where
  "smp_generate_rand_cont e sm s = ask_rand e sm (s\<lparr>rand_enc_proc_state := SMP_GEN_SRAND_MRAND_CONT\<rparr>)"

definition smp_concatenate_local :: "u8 \<Rightarrow> smp_sys \<Rightarrow> bytes" where
  "smp_concatenate_local op_code s =
     [op_code, local_io_capability s, loc_oob_flag s, loc_auth_req s, loc_enc_size s, local_i_key s, local_r_key s]"

definition smp_concatenate_peer :: "u8 \<Rightarrow> smp_sys \<Rightarrow> bytes" where
  "smp_concatenate_peer op_code s =
     [op_code, peer_io_caps s, peer_oob_flag s, peer_auth_req s, peer_enc_size s, peer_i_key s, peer_r_key s]"

text \<open>For an unknown device the array stays as it is.\<close>

definition smp_gen_p1_4_confirm :: "smp_env \<Rightarrow> bytes \<Rightarrow> smp_sys \<Rightarrow> bytes \<times> smp_sys" where
  "smp_gen_p1_4_confirm e p1 s =
     (case e_remote_addr e (pairing_bda s) of
        None \<Rightarrow> (p1, s)
      | Some (remote_bda, remote_type) \<Rightarrow>
          (let (bda, ty) = e_local_addr e (pairing_bda s);
               s = s\<lparr>local_bda := bda, addr_type := ty\<rparr> in
           (if smp_role s = HCI_ROLE_MASTER
            then [addr_type s, remote_type] @ smp_concatenate_local SMP_OPCODE_PAIRING_REQ s @
                   smp_concatenate_peer SMP_OPCODE_PAIRING_RSP s
            else [remote_type, addr_type s] @ smp_concatenate_peer SMP_OPCODE_PAIRING_REQ s @
                   smp_concatenate_local SMP_OPCODE_PAIRING_RSP s, s)))"

definition smp_gen_p2_4_confirm :: "smp_env \<Rightarrow> bytes \<Rightarrow> smp_sys \<Rightarrow> bytes" where
  "smp_gen_p2_4_confirm e p2 s =
     (case e_remote_addr e (pairing_bda s) of
        None \<Rightarrow> p2
      | Some (remote_bda, remote_type) \<Rightarrow>
          (if smp_role s = HCI_ROLE_MASTER then put_bda remote_bda @ put_bda (local_bda s)
           else put_bda (local_bda s) @ put_bda remote_bda) @ zeros 4)"

definition smp_process_confirm :: "smp_event_fun \<Rightarrow> bytes \<Rightarrow> smp_sys \<Rightarrow> smp_sys" where
  "smp_process_confirm sm p s = sm SMP_KEY_READY_EVT (Key SMP_KEY_TYPE_CFM p) (s\<lparr>confirm := take 16 p\<rparr>)"

definition smp_process_compare :: "smp_event_fun \<Rightarrow> bytes \<Rightarrow> smp_sys \<Rightarrow> smp_sys" where
  "smp_process_compare sm p s = sm SMP_KEY_READY_EVT (Key SMP_KEY_TYPE_CMP p) s"

definition smp_calculate_comfirm_cont :: "smp_env \<Rightarrow> smp_event_fun \<Rightarrow> bytes \<Rightarrow> smp_sys \<Rightarrow> smp_sys" where
  "smp_calculate_comfirm_cont e sm p s =
     (let p2 = smp_xor_128 (smp_gen_p2_4_confirm e (stack_bytes e (s_clock s) 16) s) p in
      case enc_at e (s_clock s) (tk s) p2 16 of
        None \<Rightarrow> sm SMP_AUTH_CMPL_EVT (Status SMP_PAIR_FAIL_UNKNOWN) (tick s)
      | Some output \<Rightarrow>
          if rand_enc_proc_state s = SMP_GEN_CONFIRM then smp_process_confirm sm output (tick s)
          else if rand_enc_proc_state s = SMP_GEN_COMPARE then smp_process_compare sm output (tick s)
          else tick s)"

definition smp_calculate_comfirm :: "smp_env \<Rightarrow> smp_event_fun \<Rightarrow> bytes \<Rightarrow> smp_sys \<Rightarrow> smp_sys" where
  "smp_calculate_comfirm e sm rv s =
     (let (p1, s) = smp_gen_p1_4_confirm e (stack_bytes e (s_clock s) 16) s;
          p1 = smp_xor_128 p1 rv in
      case enc_at e (s_clock s) (tk s) p1 16 of
        None \<Rightarrow> sm SMP_AUTH_CMPL_EVT (Status SMP_PAIR_FAIL_UNKNOWN) (tick s)
      | Some output \<Rightarrow> smp_calculate_comfirm_cont e sm output (tick s))"

definition smp_generate_confirm :: "smp_env \<Rightarrow> smp_event_fun \<Rightarrow> smp_sys \<Rightarrow> smp_sys" where
  "smp_generate_confirm e sm s = (let s = s\<lparr>rand_enc_proc_state := SMP_GEN_CONFIRM\<rparr> in smp_calculate_comfirm e sm (rand s) s)"

definition smp_generate_compare_act :: "smp_env \<Rightarrow> smp_event_fun \<Rightarrow> smp_sys \<Rightarrow> smp_sys" where
  "smp_generate_compare_act e sm s = (let s = s\<lparr>rand_enc_proc_state := SMP_GEN_COMPARE\<rparr> in smp_calculate_comfirm e sm (rrand s) s)"

definition smp_calculate_legacy_short_term_key :: "smp_env \<Rightarrow> smp_sys \<Rightarrow> bytes option" where
  "smp_calculate_legacy_short_term_key e s =
     (let ptext = (if smp_role s = HCI_ROLE_MASTER then take 8 (rand s) @ take 8 (rrand s)
                   else take 8 (rrand s) @ take 8 (rand s)) in
      enc_at e (s_clock s) (tk s) ptext 16)"

definition smp_process_stk :: "smp_event_fun \<Rightarrow> bytes \<Rightarrow> smp_sys \<Rightarrow> smp_sys" where
  "smp_process_stk sm p s = sm SMP_KEY_READY_EVT (Key SMP_KEY_TYPE_STK (smp_mask_enc_key (loc_enc_size s) p)) s"

definition smp_generate_stk_act :: "smp_env \<Rightarrow> smp_event_fun \<Rightarrow> smp_sys \<Rightarrow> smp_sys" where
  "smp_generate_stk_act e sm s =
     (if le_secure_connections_mode_is_used s then smp_process_stk sm (take 16 (ltk s)) s
      else case smp_calculate_legacy_short_term_key e s of
             None \<Rightarrow> sm SMP_AUTH_CMPL_EVT (Status SMP_PAIR_FAIL_UNKNOWN) (tick s)
           | Some output \<Rightarrow> smp_process_stk sm output (tick s))"

section \<open>Keys that are distributed\<close>

definition smp_generate_rand_vector :: "smp_env \<Rightarrow> smp_event_fun \<Rightarrow> smp_sys \<Rightarrow> smp_sys" where
  "smp_generate_rand_vector e sm s = ask_rand e sm (s\<lparr>rand_enc_proc_state := SMP_GEN_RAND_V\<rparr>)"

definition smp_generate_ltk_cont :: "smp_env \<Rightarrow> smp_event_fun \<Rightarrow> smp_sys \<Rightarrow> smp_sys" where
  "smp_generate_ltk_cont e sm s =
     (case enc_at e (s_clock s) (take 16 (e_er e)) (put_u16 (pcb_div s)) 2 of
        None \<Rightarrow> sm SMP_AUTH_CMPL_EVT (Status SMP_PAIR_FAIL_UNKNOWN) (tick s)
      | Some output \<Rightarrow> smp_generate_rand_vector e sm (tick (s\<lparr>ltk := take 16 (smp_mask_enc_key (loc_enc_size s) output)\<rparr>)))"

definition smp_process_ediv :: "smp_event_fun \<Rightarrow> bytes \<Rightarrow> smp_sys \<Rightarrow> smp_sys" where
  "smp_process_ediv sm p s = sm SMP_KEY_READY_EVT (Key SMP_KEY_TYPE_LTK p) (s\<lparr>ediv := pcb_div s XOR get_u16 p\<rparr>)"

definition smp_generate_y :: "smp_env \<Rightarrow> smp_event_fun \<Rightarrow> smp_sys \<Rightarrow> smp_sys" where
  "smp_generate_y e sm s =
     (case enc_at e (s_clock s) (take 16 (e_dhk e)) (enc_rand s) 8 of
        None \<Rightarrow> sm SMP_AUTH_CMPL_EVT (Status SMP_PAIR_FAIL_UNKNOWN) (tick s)
      | Some output \<Rightarrow> smp_process_ediv sm output (tick s))"

section \<open>Private key and DHKey\<close>

text \<open>The 32 bytes of a number read as eight words, and back.\<close>

fun dwords_of :: "bytes \<Rightarrow> dword list" where
  "dwords_of (a # b # c # d # bs) = get_u32 [a, b, c, d] # dwords_of bs"
| "dwords_of bs = []"

definition bytes_of_dwords :: "dword list \<Rightarrow> bytes" where
  "bytes_of_dwords ws = concat (map put_u32 ws)"

definition key_point :: "tSMP_PUBLIC_KEY \<Rightarrow> point" where
  "key_point k = \<lparr>pt_x = dwords_of (take 32 (pk_x k)), pt_y = dwords_of (take 32 (pk_y k)), pt_z = zero_words\<rparr>"

definition smp_create_private_key_act :: "smp_env \<Rightarrow> smp_event_fun \<Rightarrow> smp_sys \<Rightarrow> smp_sys" where
  "smp_create_private_key_act e sm s = ask_rand e sm (s\<lparr>rand_enc_proc_state := SMP_GENERATE_PRIVATE_KEY_0_7\<rparr>)"

definition smp_process_private_key :: "smp_event_fun \<Rightarrow> smp_sys \<Rightarrow> smp_sys" where
  "smp_process_private_key sm s =
     (case ECC_PointMult_Bin_NAF (ec_G curve_p256) (dwords_of (take 32 (private_key s))) KEY_LENGTH_DWORDS_P256 of
        None \<Rightarrow> bad s
      | Some (public_key, _, _) \<Rightarrow>
          sm SMP_LOC_PUBL_KEY_CRTD_EVT No_Data
            (s\<lparr>loc_publ_key := \<lparr>pk_x = bytes_of_dwords (pt_x public_key), pk_y = bytes_of_dwords (pt_y public_key)\<rparr>,
               flags := flags s OR SMP_PAIR_FLAG_HAVE_LOCAL_PUBL_KEY\<rparr>))"

definition smp_compute_dhkey :: "smp_sys \<Rightarrow> smp_sys" where
  "smp_compute_dhkey s =
     (case ECC_PointMult_Bin_NAF (key_point (peer_publ_key s)) (dwords_of (take 32 (private_key s))) KEY_LENGTH_DWORDS_P256 of
        None \<Rightarrow> bad s
      | Some (new_publ_key, _, _) \<Rightarrow> s\<lparr>dhkey := bytes_of_dwords (pt_x new_publ_key)\<rparr>)"

text \<open>\<open>memcpy(dst + off, p->param_buf, p->param_len)\<close>\<close>

definition mem_put :: "nat \<Rightarrow> tSMP_ENC \<Rightarrow> bytes \<Rightarrow> bytes option" where
  "mem_put off p dst =
     (let n = unat (enc_param_len p) in
      if n \<le> length (enc_param_buf p) \<and> off + n \<le> length dst
      then Some (take off dst @ take n (enc_param_buf p) @ drop (off + n) dst) else None)"

definition smp_continue_private_key_creation :: "smp_env \<Rightarrow> smp_event_fun \<Rightarrow> tSMP_ENC \<Rightarrow> smp_sys \<Rightarrow> smp_sys" where
  "smp_continue_private_key_creation e sm p s =
     (let st = rand_enc_proc_state s AND NOT 0x80;
          put = (\<lambda>off cont. case mem_put off p (private_key s) of None \<Rightarrow> bad s | Some k \<Rightarrow> cont (s\<lparr>private_key := k\<rparr>)) in
      if st = SMP_GENERATE_PRIVATE_KEY_0_7
      then put 0 (\<lambda>s. ask_rand e sm (s\<lparr>rand_enc_proc_state := SMP_GENERATE_PRIVATE_KEY_8_15\<rparr>))
      else if st = SMP_GENERATE_PRIVATE_KEY_8_15
      then put 8 (\<lambda>s. ask_rand e sm (s\<lparr>rand_enc_proc_state := SMP_GENERATE_PRIVATE_KEY_16_23\<rparr>))
      else if st = SMP_GENERATE_PRIVATE_KEY_16_23
      then put 16 (\<lambda>s. ask_rand e sm (s\<lparr>rand_enc_proc_state := SMP_GENERATE_PRIVATE_KEY_24_31\<rparr>))
      else if st = SMP_GENERATE_PRIVATE_KEY_24_31 then put 24 (smp_process_private_key sm)
      else s)"

section \<open>Commitments and checks\<close>

definition smp_calculate_local_commitment :: "smp_env \<Rightarrow> smp_sys \<Rightarrow> smp_sys" where
  "smp_calculate_local_commitment e s =
     (let m = selected_association_model s;
          f4 = (\<lambda>u v x z. smp_calculate_f4 (e_mem e (s_clock s)) (stack_bytes e (s_clock s) 16) u v x z);
          u = pk_x (loc_publ_key s) in
      if m = SMP_MODEL_SEC_CONN_JUSTWORKS \<or> m = SMP_MODEL_SEC_CONN_NUM_COMP
      then tick (s\<lparr>commitment := f4 u (pk_x (peer_publ_key s)) (rand s) 0\<rparr>)
      else if m = SMP_MODEL_SEC_CONN_PASSKEY_ENT \<or> m = SMP_MODEL_SEC_CONN_PASSKEY_DISP
      then (case smp_calculate_random_input (local_random s) (round s) of
              None \<Rightarrow> bad s
            | Some r \<Rightarrow> tick (s\<lparr>commitment := f4 u (pk_x (peer_publ_key s)) (rand s) r\<rparr>))
      else if m = SMP_MODEL_SEC_CONN_OOB then tick (s\<lparr>commitment := f4 u u (local_random s) 0\<rparr>)
      else s)"

definition smp_calculate_peer_commitment :: "smp_env \<Rightarrow> bytes \<Rightarrow> smp_sys \<Rightarrow> bytes \<times> smp_sys" where
  "smp_calculate_peer_commitment e output_buf s =
     (let m = selected_association_model s;
          f4 = (\<lambda>u v x z. smp_calculate_f4 (e_mem e (s_clock s)) (stack_bytes e (s_clock s) 16) u v x z);
          u = pk_x (peer_publ_key s) in
      if m = SMP_MODEL_SEC_CONN_JUSTWORKS \<or> m = SMP_MODEL_SEC_CONN_NUM_COMP
      then (f4 u (pk_x (loc_publ_key s)) (rrand s) 0, tick s)
      else if m = SMP_MODEL_SEC_CONN_PASSKEY_ENT \<or> m = SMP_MODEL_SEC_CONN_PASSKEY_DISP
      then (case smp_calculate_random_input (peer_random s) (round s) of
              None \<Rightarrow> (output_buf, bad s)
            | Some ri \<Rightarrow> (f4 u (pk_x (loc_publ_key s)) (rrand s) ri, tick s))
      else if m = SMP_MODEL_SEC_CONN_OOB then (f4 u u (peer_random s) 0, tick s)
      else (output_buf, s))"

text \<open>\<open>smp_check_commitment\<close> of \<open>smp_utils.c\<close>\<close>

definition smp_check_commitment :: "smp_env \<Rightarrow> smp_sys \<Rightarrow> bool \<times> smp_sys" where
  "smp_check_commitment e s =
     (let (expected, s) = smp_calculate_peer_commitment e (stack_bytes e (s_clock s) 16) s in
      if take 16 (remote_commitment s) \<noteq> take 16 expected then (False, s) else (True, s))"

definition smp_calculate_numeric_comparison_display_number_act ::
    "smp_env \<Rightarrow> smp_event_fun \<Rightarrow> smp_sys \<Rightarrow> smp_sys" where
  "smp_calculate_numeric_comparison_display_number_act e sm s =
     (let g2 = smp_calculate_g2 (e_mem e (s_clock s)) (stack_bytes e (s_clock s) 16);
          loc = pk_x (loc_publ_key s); peer = pk_x (peer_publ_key s);
          s = tick (s\<lparr>number_to_display := (if smp_role s = HCI_ROLE_MASTER then g2 loc peer (rand s) (rrand s)
                                            else g2 peer loc (rrand s) (rand s))\<rparr>) in
      if BTM_MAX_PASSKEY_VAL + 1 \<le> number_to_display s
      then sm SMP_AUTH_CMPL_EVT (Status SMP_PAIR_FAIL_UNKNOWN) (s\<lparr>failure := SMP_PAIR_FAIL_UNKNOWN\<rparr>)
      else sm SMP_SC_DSPL_NC_EVT (Passkey (number_to_display s)) (s\<lparr>cb_evt := SMP_NC_REQ_EVT\<rparr>))"

text \<open>\<open>smp_calculate_f5_mackey_and_long_term_key\<close> of \<open>smp_utils.c\<close>\<close>

definition smp_calculate_f5_mackey_and_long_term_key :: "smp_env \<Rightarrow> smp_sys \<Rightarrow> bool \<times> smp_sys" where
  "smp_calculate_f5_mackey_and_long_term_key e s =
     (let t = s_clock s;
          loc = smp_collect_local_ble_address e s;
          peer = smp_collect_peer_ble_address e (stack_bytes e t 7) s;
          (a, b, na, nb) = (if smp_role s = HCI_ROLE_MASTER then (loc, peer, rand s, rrand s)
                            else (peer, loc, rrand s, rand s));
          (ok, mk, lk) = smp_calculate_f5 (\<lambda>k. e_mem e (t + k)) (\<lambda>k. stack_bytes e (t + k) 16) (dhkey s) na nb a b
                           (mac_key s) (ltk s) in
      (ok, ticks 3 (s\<lparr>mac_key := mk, ltk := lk\<rparr>)))"

definition smp_calculate_local_dhkey_check_act :: "smp_env \<Rightarrow> smp_sys \<Rightarrow> smp_sys" where
  "smp_calculate_local_dhkey_check_act e s =
     (let (_, s) = smp_calculate_f5_mackey_and_long_term_key e s;
          t = s_clock s;
          iocap = smp_collect_local_io_capabilities s;
          a = smp_collect_local_ble_address e s;
          b = smp_collect_peer_ble_address e (stack_bytes e t 7) s;
          (_, c) = smp_calculate_f6 (e_mem e t) (stack_bytes e t 16) (mac_key s) (rand s) (rrand s) (peer_random s) iocap a b in
      tick (s\<lparr>dhkey_check := c\<rparr>))"

definition smp_calculate_peer_dhkey_check_act :: "smp_env \<Rightarrow> smp_event_fun \<Rightarrow> smp_sys \<Rightarrow> smp_sys" where
  "smp_calculate_peer_dhkey_check_act e sm s =
     (let t = s_clock s;
          iocap = smp_collect_peer_io_capabilities s;
          a = smp_collect_local_ble_address e s;
          b = smp_collect_peer_ble_address e (stack_bytes e t 7) s;
          (ret, param_buf) = smp_calculate_f6 (e_mem e t) (stack_bytes e t 16) (mac_key s) (rrand s) (rand s)
                               (local_random s) iocap b a in
      if ret then sm SMP_SC_KEY_READY_EVT (Key SMP_KEY_TYPE_PEER_DHK_CHCK param_buf) (tick s)
      else sm SMP_AUTH_CMPL_EVT (Status SMP_PAIR_FAIL_UNKNOWN) (tick s))"

section \<open>Keys of the other transport\<close>

abbreviation (input) BTM_LKEY_TYPE_UNAUTH_COMB :: u8 where "BTM_LKEY_TYPE_UNAUTH_COMB \<equiv> 4"
abbreviation (input) BTM_LKEY_TYPE_AUTH_COMB :: u8 where "BTM_LKEY_TYPE_AUTH_COMB \<equiv> 5"
abbreviation (input) BTM_LKEY_TYPE_UNAUTH_COMB_P_256 :: u8 where "BTM_LKEY_TYPE_UNAUTH_COMB_P_256 \<equiv> 7"
abbreviation (input) BTM_LKEY_TYPE_AUTH_COMB_P_256 :: u8 where "BTM_LKEY_TYPE_AUTH_COMB_P_256 \<equiv> 8"
abbreviation (input) BTM_LTK_DERIVED_LKEY_OFFSET :: u8 where "BTM_LTK_DERIVED_LKEY_OFFSET \<equiv> 0x20"
abbreviation (input) BTM_LKEY_TYPE_IGNORE :: u8 where "BTM_LKEY_TYPE_IGNORE \<equiv> 0xff"
abbreviation (input) BTM_SEC_MODE_SP :: u8 where "BTM_SEC_MODE_SP \<equiv> 4"
abbreviation (input) BTM_SEC_MODE_SC :: u8 where "BTM_SEC_MODE_SC \<equiv> 6"
abbreviation (input) BLE_ADDR_PUBLIC :: u8 where "BLE_ADDR_PUBLIC \<equiv> 0"

text \<open>The device address the link key is for: the identity address, or that of the connection.\<close>

definition bda_for_link_key :: "smp_env \<Rightarrow> smp_sys \<Rightarrow> bytes option" where
  "bda_for_link_key e s =
     (if id_addr_rcvd s \<and> id_addr_type s = BLE_ADDR_PUBLIC then Some (id_addr s)
      else case e_remote_addr e (pairing_bda s) of
             Some (bda, conn_addr_type) \<Rightarrow> if conn_addr_type = BLE_ADDR_PUBLIC then Some bda else None
           | None \<Rightarrow> None)"

definition link_key_type_of :: "smp_env \<Rightarrow> smp_sys \<Rightarrow> u8 option" where
  "link_key_type_of e s =
     (if e_security_mode e = BTM_SEC_MODE_SC then Some BTM_LKEY_TYPE_AUTH_COMB_P_256
      else if e_supports_sc e then
        (if sec_level s = SMP_SEC_AUTHENTICATED then Some BTM_LKEY_TYPE_AUTH_COMB_P_256
         else Some BTM_LKEY_TYPE_UNAUTH_COMB_P_256)
      else if e_security_mode e = BTM_SEC_MODE_SP then
        (if sec_level s = SMP_SEC_AUTHENTICATED then Some BTM_LKEY_TYPE_AUTH_COMB
         else Some BTM_LKEY_TYPE_UNAUTH_COMB)
      else None)"

text \<open>The key identifiers are \<open>tmp1\<close>, \<open>lebr\<close>, \<open>tmp2\<close> and \<open>brle\<close>, reversed.\<close>

definition smp_calculate_link_key_from_long_term_key :: "smp_env \<Rightarrow> smp_sys \<Rightarrow> bool \<times> smp_sys" where
  "smp_calculate_link_key_from_long_term_key e s =
     (case bda_for_link_key e s of
        None \<Rightarrow> (False, s)
      | Some bda_for_lk \<Rightarrow>
          if s_dev s (pairing_bda s) = None then (False, s)
          else let (ret, intermediate_link_key) = smp_calculate_h6 (e_mem e (s_clock s)) (stack_bytes e (s_clock s) 16)
                                                    (ltk s) [0x31, 0x70, 0x6d, 0x74];
                   s = tick s in
               if \<not> ret then (ret, s)
               else let (ret, link_key) = smp_calculate_h6 (e_mem e (s_clock s)) (stack_bytes e (s_clock s) 16)
                                            intermediate_link_key [0x72, 0x62, 0x65, 0x6c];
                        s = tick s in
                    if \<not> ret then (ret, s)
                    else case link_key_type_of e s of
                           None \<Rightarrow> (False, s)
                         | Some link_key_type \<Rightarrow>
                             (ret, out (Out_Link_Key bda_for_lk (rev (take 16 link_key))
                                          (link_key_type + BTM_LTK_DERIVED_LKEY_OFFSET)) s))"

definition smp_calculate_long_term_key_from_link_key :: "smp_env \<Rightarrow> smp_sys \<Rightarrow> bool \<times> smp_sys" where
  "smp_calculate_long_term_key_from_link_key e s =
     (case s_dev s (pairing_bda s) of
        None \<Rightarrow> (False, s)
      | Some p_dev_rec \<Rightarrow>
          (let br_link_key_type = e_link_key_type e (pairing_bda s) in
           if br_link_key_type = BTM_LKEY_TYPE_IGNORE then (False, s)
           else if br_link_key_type \<noteq> BTM_LKEY_TYPE_AUTH_COMB_P_256 \<and>
                   br_link_key_type \<noteq> BTM_LKEY_TYPE_UNAUTH_COMB_P_256 then (False, s)
           else let (ret, intermediate_long_term_key) =
                      smp_calculate_h6 (e_mem e (s_clock s)) (stack_bytes e (s_clock s) 16)
                        (rev (take 16 (dr_link_key p_dev_rec))) [0x32, 0x70, 0x6d, 0x74];
                    s = tick s in
                if \<not> ret then (ret, s)
                else let (ret, key) = smp_calculate_h6 (e_mem e (s_clock s)) (stack_bytes e (s_clock s) 16)
                                        intermediate_long_term_key [0x65, 0x6c, 0x72, 0x62];
                         s = tick (s\<lparr>ltk := key\<rparr>) in
                     if \<not> ret then (ret, s)
                     else (ret, s\<lparr>sec_level := (if br_link_key_type = BTM_LKEY_TYPE_AUTH_COMB_P_256
                                    then SMP_SEC_AUTHENTICATED else SMP_SEC_UNAUTHENTICATE)\<rparr>)))"

section \<open>Nonces\<close>

definition smp_start_nonce_generation :: "smp_env \<Rightarrow> smp_event_fun \<Rightarrow> smp_sys \<Rightarrow> smp_sys" where
  "smp_start_nonce_generation e sm s = ask_rand e sm (s\<lparr>rand_enc_proc_state := SMP_GEN_NONCE_0_7\<rparr>)"

definition smp_finish_nonce_generation :: "smp_env \<Rightarrow> smp_event_fun \<Rightarrow> smp_sys \<Rightarrow> smp_sys" where
  "smp_finish_nonce_generation e sm s = ask_rand e sm (s\<lparr>rand_enc_proc_state := SMP_GEN_NONCE_8_15\<rparr>)"

definition smp_process_new_nonce :: "smp_event_fun \<Rightarrow> smp_sys \<Rightarrow> smp_sys" where
  "smp_process_new_nonce sm s = sm SMP_HAVE_LOC_NONCE_EVT No_Data s"

end
