(* ===== verification/EccCheck.thy ===== *)
theory EccCheck
  imports EccPoint
begin

text \<open>
  The check of a peer's public key, \<open>ECC_CheckPointIsInElliCur_P256\<close> of \<open>stack/smp/p_256_ecc_pp.c\<close>: it
  decides the equation of the curve when the subtraction of 3 from the square of x does not borrow, and
  turns down a point of the curve where it does.
\<close>

declare of_nat_unat [simp del]

section \<open>What the check computes\<close>

lemma p256_b: "ec_b curve_p256 = [0x27d2604b, 0x3bce3c3e, 0xcc53b0f6, 0x651d06b0, 0x769886bc, 0xb3ebbd55, 0xaa3a93e7, 0x5ac635d8]"
  by (simp add: curve_p256_def p_256_init_curve_def KEY_LENGTH_DWORDS_P256_def)

definition P256_b :: nat where
  "P256_b = 41058363725152142129326129780047268409114441015993725554835256314039467401291"

lemma p256_num_b: "p256_num (ec_b curve_p256)" "mp_val (ec_b curve_p256) = P256_b"
  by (simp_all add: p256_b p256_num_def P256_def P256_b_def)

lemma fast_mod_by_value:
  assumes "fast_mod_exact a" "length c = 8" "mp_val c = mp_val a mod P256"
  shows "multiprecision_fast_mod_P256 a = c"
  using fast_mod_value [OF assms(1)] assms(2,3) by (intro mp_val_inj) simp_all

lemma mod_by_quotient: "(x :: nat) = r + m * k \<Longrightarrow> r < m \<Longrightarrow> x mod m = r"
  by simp

text \<open>\<open>x_x\<close> after \<open>x_x[0] -= 3\<close>.\<close>

definition square_less_3 :: "dword list \<Rightarrow> dword list" where
  "square_less_3 x = (let x_x = multiprecision_mult x x in x_x[0 := x_x ! 0 - 3])"

definition check_exact :: "point \<Rightarrow> bool" where
  "check_exact p \<longleftrightarrow> length (pt_x p) = 8 \<and> length (pt_y p) = 8 \<and>
     fast_mod_exact (multiprecision_mult (pt_y p) (pt_y p)) \<and> fast_mod_exact (square_less_3 (pt_x p)) \<and>
     fast_mod_exact (multiprecision_mult (multiprecision_fast_mod_P256 (square_less_3 (pt_x p))) (pt_x p))"

lemma check_value:
  assumes "check_exact p"
  shows "ECC_CheckPointIsInElliCur_P256 p \<longleftrightarrow>
    mp_val (pt_y p) * mp_val (pt_y p) mod P256 = (mp_val (square_less_3 (pt_x p)) * mp_val (pt_x p) + P256_b) mod P256"
proof -
  let ?s = "square_less_3 (pt_x p)"
  let ?r = "multiprecision_fast_mod_P256 ?s"
  let ?q = "multiprecision_fast_mod_P256 (multiprecision_mult ?r (pt_x p))"
  let ?yy = "multiprecision_mersenns_mult_mod zero_words (pt_y p) (pt_y p) 8"
  let ?xx = "multiprecision_add_mod ?r ?q (ec_b curve_p256) 8"
  have e: "length (pt_x p) = 8" "length (pt_y p) = 8" "fast_mod_exact (multiprecision_mult (pt_y p) (pt_y p))"
      "fast_mod_exact ?s" "fast_mod_exact (multiprecision_mult ?r (pt_x p))"
    using assms by (simp_all add: check_exact_def)
  note yy = mult_mod_value [OF e(2,2,3), of zero_words]
  note r = fast_mod_value [OF e(4)]
  note q = fast_mod_value [OF e(5)]
  have m: "mp_val (multiprecision_mult ?r (pt_x p)) = mp_val ?r * mp_val (pt_x p)"
    using r(2) e(1) by (intro multiprecision_mult_correct) simp
  have xx: "mp_val ?xx = (mp_val ?s * mp_val (pt_x p) + P256_b) mod P256" "p256_num ?xx"
    using add_mod_value [OF q(2) p256_num_b(1), of ?r] unfolding q(1) m r(1) p256_num_b(2)
    by (simp_all add: mod_simps)
  have len: "length ?yy = length ?xx" using yy(2) xx(2) by simp
  have "ECC_CheckPointIsInElliCur_P256 p \<longleftrightarrow> multiprecision_compare ?yy ?xx = 0"
    by (simp add: ECC_CheckPointIsInElliCur_P256_def KEY_LENGTH_DWORDS_P256_def multiprecision_mersenns_squa_mod_def
        square_less_3_def Let_def)
  also have "\<dots> \<longleftrightarrow> mp_val ?yy = mp_val ?xx" unfolding multiprecision_compare_correct [OF len] by auto
  finally show ?thesis unfolding yy(1) xx(1) .
qed

lemma square_less_3_value:
  assumes "length x = 8"
  shows "length (square_less_3 x) = 16"
    "3 \<le> multiprecision_mult x x ! 0 \<Longrightarrow> mp_val (square_less_3 x) + 3 = mp_val x * mp_val x"
proof -
  note m = multiprecision_mult_correct [of x x]
  obtain w ws where w: "multiprecision_mult x x = w # ws"
    using m(2) assms by (cases "multiprecision_mult x x") auto
  show "length (square_less_3 x) = 16" using m(2) assms by (simp add: square_less_3_def Let_def)
  assume "3 \<le> multiprecision_mult x x ! 0"
  then have "3 \<le> unat w" by (simp add: w word_le_nat_alt)
  moreover have "mp_val (w # ws) = mp_val x * mp_val x" using m(1) w by simp
  ultimately show "mp_val (square_less_3 x) + 3 = mp_val x * mp_val x"
    by (simp add: square_less_3_def w unat_sub32 Let_def)
qed

text \<open>
  C31: When the lowest word of the square of x is at least 3 and the three reductions of the check are in
  the range where the reduction is exact, ECC_CheckPointIsInElliCur_P256 returns true exactly for the
  points whose coordinates satisfy the equation of the curve, y^2 = x^3 - 3 x + b modulo the prime.
\<close>

theorem ecc_check_point:
  assumes "check_exact p" "3 \<le> multiprecision_mult (pt_x p) (pt_x p) ! 0"
  shows "ECC_CheckPointIsInElliCur_P256 p \<longleftrightarrow>
    int (mp_val (pt_y p)) ^ 2 mod int P256 =
    (int (mp_val (pt_x p)) ^ 3 - 3 * int (mp_val (pt_x p)) + int P256_b) mod int P256"
proof -
  let ?x = "mp_val (pt_x p)" and ?y = "mp_val (pt_y p)" and ?s = "mp_val (square_less_3 (pt_x p))"
  have "length (pt_x p) = 8" using assms(1) by (simp add: check_exact_def)
  from square_less_3_value(2) [OF this assms(2)] have "int (?s + 3) = int (?x * ?x)" by (simp only:)
  then have "int ?s = int ?x * int ?x - 3" by simp
  then have "int (?s * ?x + P256_b) = int ?x ^ 3 - 3 * int ?x + int P256_b"
    by (simp only: of_nat_add of_nat_mult) (simp add: algebra_simps power3_eq_cube)
  moreover have "int (?y * ?y) = int ?y ^ 2" by (simp add: power2_eq_square)
  moreover have "?y * ?y mod P256 = (?s * ?x + P256_b) mod P256 \<longleftrightarrow>
      int (?y * ?y) mod int P256 = int (?s * ?x + P256_b) mod int P256"
    by (simp only: of_nat_eq_iff flip: of_nat_mod)
  ultimately show ?thesis unfolding check_value [OF assms(1)] by (simp only:)
qed

section \<open>Two points of the curve\<close>

lemma base_products:
  "multiprecision_mult [0x37bf51f5, 0xcbb64068, 0x6b315ece, 0x2bce3357, 0x7c0f9e16, 0x8ee7eb4a, 0xfe1a7f9b, 0x4fe342e2]
     [0x37bf51f5, 0xcbb64068, 0x6b315ece, 0x2bce3357, 0x7c0f9e16, 0x8ee7eb4a, 0xfe1a7f9b, 0x4fe342e2] =
   [0xabd2f479, 0x16ecdb42, 0x52aec89c, 0x6c3354d5, 0xbb50a6da, 0x6dbafda0, 0x3862ca17, 0xf323bdcf, 0x85221580, 0x8b9f77ed, 0x9b3cdac4, 0x34d2a065, 0x407313, 0x9ce0aed2, 0xc8dcd20b, 0x18ee0d07]"
  "multiprecision_mult [0xd898c296, 0xf4a13945, 0x2deb33a0, 0x77037d81, 0x63a440f2, 0xf8bce6e5, 0xe12c4247, 0x6b17d1f2]
     [0xd898c296, 0xf4a13945, 0x2deb33a0, 0x77037d81, 0x63a440f2, 0xf8bce6e5, 0xe12c4247, 0x6b17d1f2] =
   [0xc607afe4, 0x30edd460, 0xd36cd015, 0x1ffd1a5b, 0xe3a13eca, 0xc89de54f, 0x9b64b5c2, 0xb8d5b111, 0x7a032f22, 0x70387d12, 0x207ebdf8, 0xd92ade46, 0x51cd0b7c, 0xd4d24355, 0x6e0def74, 0x2cccebb8]"
  "multiprecision_mult [0x426b3f89, 0x2ae56c, 0x5d694dd1, 0x33b69949, 0xe3690d8, 0x81819a5e, 0x29bef2b2, 0x98f6b84d]
     [0xd898c296, 0xf4a13945, 0x2deb33a0, 0x77037d81, 0x63a440f2, 0xf8bce6e5, 0xe12c4247, 0x6b17d1f2] =
   [0x82550c46, 0x7c8705fa, 0x6e64353b, 0xe814ea85, 0xe146a03c, 0xfb90b757, 0xf6b01c6f, 0x90436465, 0x16625226, 0xacbda743, 0x7b9f3830, 0x69abde5f, 0xa5e4adcf, 0xe054da9e, 0x5b9e119c, 0x3ffd5aa5]"
  by (rule mult_by_value; simp)+

lemma base_exact_yy: "fast_mod_exact
    [0xabd2f479, 0x16ecdb42, 0x52aec89c, 0x6c3354d5, 0xbb50a6da, 0x6dbafda0, 0x3862ca17, 0xf323bdcf, 0x85221580, 0x8b9f77ed, 0x9b3cdac4, 0x34d2a065, 0x407313, 0x9ce0aed2, 0xc8dcd20b, 0x18ee0d07]"
proof -
  have "nist_sum (word_at [0xabd2f479, 0x16ecdb42, 0x52aec89c, 0x6c3354d5, 0xbb50a6da, 0x6dbafda0, 0x3862ca17, 0xf323bdcf, 0x85221580, 0x8b9f77ed, 0x9b3cdac4, 0x34d2a065, 0x407313, 0x9ce0aed2, 0xc8dcd20b, 0x18ee0d07]) =
      38841243268434338802906935583467503580982897597684987572860931569745790234001"
    by (simp add: nist_sum_def word_at_def)
  then show ?thesis unfolding fast_mod_exact_def carry_reduced_def by (simp add: P256_def)
qed

lemma base_exact_xx: "fast_mod_exact
    [0xc607afe1, 0x30edd460, 0xd36cd015, 0x1ffd1a5b, 0xe3a13eca, 0xc89de54f, 0x9b64b5c2, 0xb8d5b111, 0x7a032f22, 0x70387d12, 0x207ebdf8, 0xd92ade46, 0x51cd0b7c, 0xd4d24355, 0x6e0def74, 0x2cccebb8]"
proof -
  have "nist_sum (word_at [0xc607afe1, 0x30edd460, 0xd36cd015, 0x1ffd1a5b, 0xe3a13eca, 0xc89de54f, 0x9b64b5c2, 0xb8d5b111, 0x7a032f22, 0x70387d12, 0x207ebdf8, 0xd92ade46, 0x51cd0b7c, 0xd4d24355, 0x6e0def74, 0x2cccebb8]) =
      -46604619846124216926148625417436419721355067760564508191417555256500345421942"
    by (simp add: nist_sum_def word_at_def)
  then show ?thesis unfolding fast_mod_exact_def carry_reduced_def by (simp add: P256_def)
qed

lemma base_exact_qx: "fast_mod_exact
    [0x82550c46, 0x7c8705fa, 0x6e64353b, 0xe814ea85, 0xe146a03c, 0xfb90b757, 0xf6b01c6f, 0x90436465, 0x16625226, 0xacbda743, 0x7b9f3830, 0x69abde5f, 0xa5e4adcf, 0xe054da9e, 0x5b9e119c, 0x3ffd5aa5]"
proof -
  have "nist_sum (word_at [0x82550c46, 0x7c8705fa, 0x6e64353b, 0xe814ea85, 0xe146a03c, 0xfb90b757, 0xf6b01c6f, 0x90436465, 0x16625226, 0xacbda743, 0x7b9f3830, 0x69abde5f, 0xa5e4adcf, 0xe054da9e, 0x5b9e119c, 0x3ffd5aa5]) =
      -118009209667074052089116641145987338358217686833599052177507956053160775021241"
    by (simp add: nist_sum_def word_at_def)
  then show ?thesis unfolding fast_mod_exact_def carry_reduced_def by (simp add: P256_def)
qed

lemma base_reduced: "multiprecision_fast_mod_P256
    [0xc607afe1, 0x30edd460, 0xd36cd015, 0x1ffd1a5b, 0xe3a13eca, 0xc89de54f, 0x9b64b5c2, 0xb8d5b111, 0x7a032f22, 0x70387d12, 0x207ebdf8, 0xd92ade46, 0x51cd0b7c, 0xd4d24355, 0x6e0def74, 0x2cccebb8] =
   [0x426b3f89, 0x2ae56c, 0x5d694dd1, 0x33b69949, 0xe3690d8, 0x81819a5e, 0x29bef2b2, 0x98f6b84d]"
  proof (rule fast_mod_by_value [OF base_exact_xx])
  show "mp_val [0x426b3f89, 0x2ae56c, 0x5d694dd1, 0x33b69949, 0xe3690d8, 0x81819a5e, 0x29bef2b2, 0x98f6b84d] =
      mp_val [0xc607afe1, 0x30edd460, 0xd36cd015, 0x1ffd1a5b, 0xe3a13eca, 0xc89de54f, 0x9b64b5c2, 0xb8d5b111, 0x7a032f22, 0x70387d12, 0x207ebdf8, 0xd92ade46, 0x51cd0b7c, 0xd4d24355, 0x6e0def74, 0x2cccebb8] mod P256"
    unfolding P256_def by (rule sym, rule mod_by_quotient [of _ _ _ 20263829026208319148741897648061519306900348706441333533955064566616791682984]) simp_all
qed simp

text \<open>The base point passes.\<close>

definition base_point :: point where
  "base_point = ec_G curve_p256"

lemma base_point_fields:
  "pt_x base_point = [0xd898c296, 0xf4a13945, 0x2deb33a0, 0x77037d81, 0x63a440f2, 0xf8bce6e5, 0xe12c4247, 0x6b17d1f2]"
  "pt_y base_point = [0x37bf51f5, 0xcbb64068, 0x6b315ece, 0x2bce3357, 0x7c0f9e16, 0x8ee7eb4a, 0xfe1a7f9b, 0x4fe342e2]"
  by (simp_all add: base_point_def curve_p256_def p_256_init_curve_def KEY_LENGTH_DWORDS_P256_def)

lemma base_point_values:
  "mp_val (pt_x base_point) = 48439561293906451759052585252797914202762949526041747995844080717082404635286"
  "mp_val (pt_y base_point) = 36134250956749795798585127919587881956611106672985015071877198253568414405109"
  by (simp_all add: base_point_fields)

lemma base_point_exact: "check_exact base_point" "3 \<le> multiprecision_mult (pt_x base_point) (pt_x base_point) ! 0"
  unfolding check_exact_def square_less_3_def base_point_fields base_products
  by (simp_all add: base_reduced base_products base_exact_yy base_exact_xx base_exact_qx)

theorem ecc_check_point_witness:
  "ECC_CheckPointIsInElliCur_P256 base_point"
proof -
  have "int (mp_val (pt_y base_point)) ^ 2 mod int P256 =
    (int (mp_val (pt_x base_point)) ^ 3 - 3 * int (mp_val (pt_x base_point)) + int P256_b) mod int P256"
    unfolding base_point_values P256_def P256_b_def
    by (rule mod_step [of _ _ _ 981570988164258562257936101525215858910690391106138407341175333813841188485201771743408849884010754226965632845910189239885256093057339116530079505515608, symmetric]) simp
  then show ?thesis by (rule ecc_check_point [OF base_point_exact, THEN iffD2])
qed

lemma refused_products:
  "multiprecision_mult [0x29b05382, 0x634a58a2, 0x4b79e40e, 0xb1dfcbe7, 0xdb448072, 0x4671793f, 0xa3265112, 0xdeebb967]
     [0x29b05382, 0x634a58a2, 0x4b79e40e, 0xb1dfcbe7, 0xdb448072, 0x4671793f, 0xa3265112, 0xdeebb967] =
   [0x91fd8e04, 0xd68504ba, 0x899b1020, 0x5f60bc5c, 0xcd75051a, 0x2717bfd5, 0x74724a79, 0x546e058d, 0x6e33f7a1, 0xcb138bf7, 0xa7873f3c, 0x4c17e225, 0x7ce336cf, 0x9bb59a1d, 0xa982f0b6, 0xc21dae9d]"
  "multiprecision_mult [0xb4380000, 0x4de452e6, 0xd37f2a7, 0x270e269e, 0xa4506513, 0x7fd0a6a3, 0x2f330c5c, 0xd23f128b]
     [0xb4380000, 0x4de452e6, 0xd37f2a7, 0x270e269e, 0xa4506513, 0x7fd0a6a3, 0x2f330c5c, 0xd23f128b] =
   [0x0, 0x337ecc40, 0x8f434f1c, 0x86e29b4b, 0x62b4fd88, 0xb186be31, 0x39803b47, 0xa2060ae, 0x6103cf0f, 0x1f6e825a, 0x3aed1101, 0x11f5ae2d, 0x868515ef, 0x4f19713a, 0x7b48d9b7, 0xacab89f6]"
  "multiprecision_mult [0x1d95425a, 0x904774c5, 0x65183961, 0xd9d3b95c, 0x2edf5236, 0xa6141edd, 0xd358fc2a, 0x4ea5874b]
     [0xb4380000, 0x4de452e6, 0xd37f2a7, 0x270e269e, 0xa4506513, 0x7fd0a6a3, 0x2f330c5c, 0xd23f128b] =
   [0xcbb00000, 0xb16ddc29, 0x2c4574e8, 0x1177b2d0, 0x9fe26030, 0x3be72f12, 0xc32044ad, 0x24f050fc, 0xdacefe65, 0xd80fc7da, 0xebf10514, 0x1f8949eb, 0xf7d35bc1, 0x1ac82116, 0xe4ebdf66, 0x4097296a]"
  by (rule mult_by_value; simp)+

lemma refused_exact_yy: "fast_mod_exact
    [0x91fd8e04, 0xd68504ba, 0x899b1020, 0x5f60bc5c, 0xcd75051a, 0x2717bfd5, 0x74724a79, 0x546e058d, 0x6e33f7a1, 0xcb138bf7, 0xa7873f3c, 0x4c17e225, 0x7ce336cf, 0x9bb59a1d, 0xa982f0b6, 0xc21dae9d]"
proof -
  have "nist_sum (word_at [0x91fd8e04, 0xd68504ba, 0x899b1020, 0x5f60bc5c, 0xcd75051a, 0x2717bfd5, 0x74724a79, 0x546e058d, 0x6e33f7a1, 0xcb138bf7, 0xa7873f3c, 0x4c17e225, 0x7ce336cf, 0x9bb59a1d, 0xa982f0b6, 0xc21dae9d]) =
      114327529909774438005645032459883460731065700477602579540409111658943810203093"
    by (simp add: nist_sum_def word_at_def)
  then show ?thesis unfolding fast_mod_exact_def carry_reduced_def by (simp add: P256_def)
qed

lemma refused_exact_xx: "fast_mod_exact
    [0xfffffffd, 0x337ecc40, 0x8f434f1c, 0x86e29b4b, 0x62b4fd88, 0xb186be31, 0x39803b47, 0xa2060ae, 0x6103cf0f, 0x1f6e825a, 0x3aed1101, 0x11f5ae2d, 0x868515ef, 0x4f19713a, 0x7b48d9b7, 0xacab89f6]"
proof -
  have "nist_sum (word_at [0xfffffffd, 0x337ecc40, 0x8f434f1c, 0x86e29b4b, 0x62b4fd88, 0xb186be31, 0x39803b47, 0xa2060ae, 0x6103cf0f, 0x1f6e825a, 0x3aed1101, 0x11f5ae2d, 0x868515ef, 0x4f19713a, 0x7b48d9b7, 0xacab89f6]) =
      151364954945549777091031558225468346276816486151322279756502843942688653656665"
    by (simp add: nist_sum_def word_at_def)
  then show ?thesis unfolding fast_mod_exact_def carry_reduced_def by (simp add: P256_def)
qed

lemma refused_exact_qx: "fast_mod_exact
    [0xcbb00000, 0xb16ddc29, 0x2c4574e8, 0x1177b2d0, 0x9fe26030, 0x3be72f12, 0xc32044ad, 0x24f050fc, 0xdacefe65, 0xd80fc7da, 0xebf10514, 0x1f8949eb, 0xf7d35bc1, 0x1ac82116, 0xe4ebdf66, 0x4097296a]"
proof -
  have "nist_sum (word_at [0xcbb00000, 0xb16ddc29, 0x2c4574e8, 0x1177b2d0, 0x9fe26030, 0x3be72f12, 0xc32044ad, 0x24f050fc, 0xdacefe65, 0xd80fc7da, 0xebf10514, 0x1f8949eb, 0xf7d35bc1, 0x1ac82116, 0xe4ebdf66, 0x4097296a]) =
      -41868976313348952881625162727803519784223347298403523380787170515595720515561"
    by (simp add: nist_sum_def word_at_def)
  then show ?thesis unfolding fast_mod_exact_def carry_reduced_def by (simp add: P256_def)
qed

lemma refused_reduced: "multiprecision_fast_mod_P256
    [0xfffffffd, 0x337ecc40, 0x8f434f1c, 0x86e29b4b, 0x62b4fd88, 0xb186be31, 0x39803b47, 0xa2060ae, 0x6103cf0f, 0x1f6e825a, 0x3aed1101, 0x11f5ae2d, 0x868515ef, 0x4f19713a, 0x7b48d9b7, 0xacab89f6] =
   [0x1d95425a, 0x904774c5, 0x65183961, 0xd9d3b95c, 0x2edf5236, 0xa6141edd, 0xd358fc2a, 0x4ea5874b]"
  proof (rule fast_mod_by_value [OF refused_exact_xx])
  show "mp_val [0x1d95425a, 0x904774c5, 0x65183961, 0xd9d3b95c, 0x2edf5236, 0xa6141edd, 0xd358fc2a, 0x4ea5874b] =
      mp_val [0xfffffffd, 0x337ecc40, 0x8f434f1c, 0x86e29b4b, 0x62b4fd88, 0xb186be31, 0x39803b47, 0xa2060ae, 0x6103cf0f, 0x1f6e825a, 0x3aed1101, 0x11f5ae2d, 0x868515ef, 0x4f19713a, 0x7b48d9b7, 0xacab89f6] mod P256"
    unfolding P256_def by (rule sym, rule mod_by_quotient [of _ _ _ 78100893006962974944855153143777439619683026652425476178563721356673853768285]) simp_all
qed simp

definition refused_point :: point where
  "refused_point = \<lparr>pt_x = [0xb4380000, 0x4de452e6, 0xd37f2a7, 0x270e269e, 0xa4506513, 0x7fd0a6a3, 0x2f330c5c, 0xd23f128b],
     pt_y = [0x29b05382, 0x634a58a2, 0x4b79e40e, 0xb1dfcbe7, 0xdb448072, 0x4671793f, 0xa3265112, 0xdeebb967],
     pt_z = zero_words\<rparr>"

lemma refused_point_values:
  "mp_val (pt_x refused_point) = 95097137551404486490660866310311438259436882003911451354292299469631019024384"
  "mp_val (pt_y refused_point) = 100829941062838387619112665480095168117308278958520664212225407507147032384386"
  "length (pt_x refused_point) = 8" "length (pt_y refused_point) = 8"
  by (simp_all add: refused_point_def)

lemma minus_3: "(- 3 :: dword) = 0xFFFFFFFD"
  by simp

lemma refused_point_exact: "check_exact refused_point"
  unfolding check_exact_def square_less_3_def refused_point_def point.simps refused_products
  by (simp add: minus_3 refused_reduced refused_products refused_exact_yy refused_exact_xx refused_exact_qx)

text \<open>
  There is a point with coordinates below the prime that satisfies the equation of the curve and that
  ECC_CheckPointIsInElliCur_P256 turns down: the lowest word of the square of its x is 0, and the
  subtraction of 3 from that word alone adds 2^32.
\<close>

theorem ecc_check_point_refused:
  "p256_num (pt_x refused_point) \<and> p256_num (pt_y refused_point) \<and>
   int (mp_val (pt_y refused_point)) ^ 2 mod int P256 =
     (int (mp_val (pt_x refused_point)) ^ 3 - 3 * int (mp_val (pt_x refused_point)) + int P256_b) mod int P256 \<and>
   \<not> ECC_CheckPointIsInElliCur_P256 refused_point"
proof -
  have "square_less_3 (pt_x refused_point) = [0xfffffffd, 0x337ecc40, 0x8f434f1c, 0x86e29b4b, 0x62b4fd88, 0xb186be31, 0x39803b47, 0xa2060ae, 0x6103cf0f, 0x1f6e825a, 0x3aed1101, 0x11f5ae2d, 0x868515ef, 0x4f19713a, 0x7b48d9b7, 0xacab89f6]"
    unfolding square_less_3_def refused_point_def point.simps refused_products by (simp add: minus_3)
  then have s: "mp_val (square_less_3 (pt_x refused_point)) = 9043465570470745292480958970130144530701497376673974940689683435870479411518361369356810291596977232531557804350342762842599686644782867513326539481546749"
    by simp
  have "\<not> ECC_CheckPointIsInElliCur_P256 refused_point"
  proof -
    have x: "(mp_val (square_less_3 (pt_x refused_point)) * mp_val (pt_x refused_point) + P256_b) mod P256 = 114981476622159438010398414001651322154977237132880516369581717107310844739681"
      unfolding s refused_point_values P256_def P256_b_def
      by (rule mod_by_quotient [of _ _ _ 7427171365170682785224923386573915691434116491459712346321129744387473217147235275758149278365066272781339329030415621037205919193714954452794991597461526]) simp_all
    have y: "mp_val (pt_y refused_point) * mp_val (pt_y refused_point) mod P256 = 114327529909774438005645032459883460731065700477602579540409111658943810203093"
      unfolding refused_point_values P256_def by (rule mod_by_quotient [of _ _ _ 87801136364902658880834244831934073022204337403592488439556176776123827609553]) simp_all
    show ?thesis unfolding check_value [OF refused_point_exact] x y by simp
  qed
  moreover have "int (mp_val (pt_y refused_point)) ^ 2 mod int P256 =
     (int (mp_val (pt_x refused_point)) ^ 3 - 3 * int (mp_val (pt_x refused_point)) + int P256_b) mod int P256"
    unfolding refused_point_values P256_def P256_b_def
    by (rule mod_step [of _ _ _ 7427171365170682785224923386573915691434116491459712346321129744387473217147147474621784375706185438536507394957393416699802326705275398276018864242503097, symmetric]) simp
  moreover have "p256_num (pt_x refused_point) \<and> p256_num (pt_y refused_point)"
    unfolding p256_num_def refused_point_values P256_def by simp
  ultimately show ?thesis by (simp only: simp_thms)
qed

end
