(* ===== verification/SmpAct.thy ===== *)
theory SmpAct
  imports SmpKeys EccCheck
begin

text \<open>
  The action functions of \<open>stack/smp/smp_act.c\<close>, with the two state machines they call as the parameters
  \<open>sm\<close> and \<open>br\<close>.  Key distribution calls itself through the functions it picks: each of them has the next
  distribution as a parameter, and \<open>key_dist\<close> ties them.  The callback of the application answers with
  data and does not call back into the security manager.
\<close>

unbundle bit_operations_syntax

section \<open>Sending\<close>

definition send_cmd :: "smp_env \<Rightarrow> smp_event_fun \<Rightarrow> smp_event_fun \<Rightarrow> u8 \<Rightarrow> smp_sys \<Rightarrow> smp_sys" where
  "send_cmd e sm br cmd s = snd (smp_send_cmd e sm br cmd s)"

definition smp_send_pair_fail_act :: "smp_env \<Rightarrow> smp_event_fun \<Rightarrow> smp_event_fun \<Rightarrow> smp_data \<Rightarrow> smp_sys \<Rightarrow> smp_sys" where
  "smp_send_pair_fail_act e sm br d s =
     (case data_byte d of
        None \<Rightarrow> bad s
      | Some x \<Rightarrow>
          (let s = s\<lparr>status := x, failure := x\<rparr> in
           if status s \<le> SMP_MAX_FAIL_RSN_PER_SPEC \<and> status s \<noteq> SMP_SUCCESS
           then (send_cmd e sm br SMP_OPCODE_PAIRING_FAILED s)\<lparr>wait_for_authorization_complete := True\<rparr> else s))"

definition smp_send_pair_req_act :: "smp_env \<Rightarrow> smp_event_fun \<Rightarrow> smp_event_fun \<Rightarrow> smp_sys \<Rightarrow> smp_sys" where
  "smp_send_pair_req_act e sm br s =
     send_cmd e sm br SMP_OPCODE_PAIRING_REQ
       (if s_dev s (pairing_bda s) \<noteq> None then out (Out_Clear_Keys (pairing_bda s)) s else s)"

definition smp_send_confirm_act :: "smp_env \<Rightarrow> smp_event_fun \<Rightarrow> smp_event_fun \<Rightarrow> smp_sys \<Rightarrow> smp_sys" where
  "smp_send_confirm_act e sm br s = send_cmd e sm br SMP_OPCODE_CONFIRM s"

definition smp_send_init :: "smp_env \<Rightarrow> smp_event_fun \<Rightarrow> smp_event_fun \<Rightarrow> smp_sys \<Rightarrow> smp_sys" where
  "smp_send_init e sm br s = send_cmd e sm br SMP_OPCODE_INIT s"

definition smp_send_rand_act :: "smp_env \<Rightarrow> smp_event_fun \<Rightarrow> smp_event_fun \<Rightarrow> smp_sys \<Rightarrow> smp_sys" where
  "smp_send_rand_act e sm br s = send_cmd e sm br SMP_OPCODE_RAND s"

definition smp_send_pair_public_key_act :: "smp_env \<Rightarrow> smp_event_fun \<Rightarrow> smp_event_fun \<Rightarrow> smp_sys \<Rightarrow> smp_sys" where
  "smp_send_pair_public_key_act e sm br s = send_cmd e sm br SMP_OPCODE_PAIR_PUBLIC_KEY s"

definition smp_send_commitment_act :: "smp_env \<Rightarrow> smp_event_fun \<Rightarrow> smp_event_fun \<Rightarrow> smp_sys \<Rightarrow> smp_sys" where
  "smp_send_commitment_act e sm br s = send_cmd e sm br SMP_OPCODE_PAIR_COMMITM s"

definition smp_send_dhkey_check_act :: "smp_env \<Rightarrow> smp_event_fun \<Rightarrow> smp_event_fun \<Rightarrow> smp_sys \<Rightarrow> smp_sys" where
  "smp_send_dhkey_check_act e sm br s = send_cmd e sm br SMP_OPCODE_PAIR_DHKEY_CHECK s"

definition smp_send_keypress_notification_act ::
    "smp_env \<Rightarrow> smp_event_fun \<Rightarrow> smp_event_fun \<Rightarrow> smp_data \<Rightarrow> smp_sys \<Rightarrow> smp_sys" where
  "smp_send_keypress_notification_act e sm br d s =
     (case data_byte d of
        None \<Rightarrow> bad s
      | Some x \<Rightarrow> send_cmd e sm br SMP_OPCODE_PAIR_KEYPR_NOTIF (s\<lparr>local_keypress_notification := x\<rparr>))"

definition smp_send_ltk_reply_act :: "smp_data \<Rightarrow> smp_sys \<Rightarrow> smp_sys" where
  "smp_send_ltk_reply_act d s =
     (case d of Key ty p \<Rightarrow> out (Out_Ltk_Reply (pairing_bda s) p) s | _ \<Rightarrow> bad s)"

section \<open>The application\<close>

abbreviation (input) HCI_PROTO_VERSION_4_2 :: u8 where "HCI_PROTO_VERSION_4_2 \<equiv> 8"

definition lmp_version_below :: "smp_env \<Rightarrow> bytes \<Rightarrow> u8 \<Rightarrow> bool" where
  "lmp_version_below e bda version =
     (case e_lmp_version e bda of None \<Rightarrow> False | Some v \<Rightarrow> if v = 0 then False else v < version)"

definition data_passkey :: "smp_data \<Rightarrow> u32 option" where
  "data_passkey d = (case d of
      Passkey x \<Rightarrow> Some x
    | Cmd p \<Rightarrow> if 4 \<le> length p then Some (get_u32 p) else None
    | _ \<Rightarrow> None)"

text \<open>What the application is told: \<open>cb_data\<close>.\<close>

definition app_evt_data :: "smp_data \<Rightarrow> smp_sys \<Rightarrow> smp_evt_data option" where
  "app_evt_data d s =
     (if cb_evt s = SMP_IO_CAP_REQ_EVT then
        Some (Evt_Io \<lparr>io_cap = SMP_DEFAULT_IO_CAPS, oob_data = SMP_OOB_NONE, auth_req = peer_auth_req s,
                 max_key_size = SMP_MAX_ENC_KEY_SIZE, init_keys = local_i_key s, ryoc_keys = local_r_key s\<rparr>)
      else if cb_evt s = SMP_NC_REQ_EVT then map_option Evt_Passkey (data_passkey d)
      else if cb_evt s = SMP_SC_OOB_REQ_EVT then map_option Evt_Oob_Type (data_byte d)
      else if cb_evt s = SMP_SC_LOC_OOB_DATA_UP_EVT then Some (Evt_Loc_Oob (loc_oob_data (sc_oob_data s)))
      else if cb_evt s = SMP_BR_KEYS_REQ_EVT then
        Some (Evt_Io \<lparr>io_cap = 0, oob_data = SMP_OOB_NONE, auth_req = 0, max_key_size = SMP_MAX_ENC_KEY_SIZE,
                 init_keys = SMP_BR_SEC_DEFAULT_KEY, ryoc_keys = SMP_BR_SEC_DEFAULT_KEY\<rparr>)
      else Some Evt_Unset)"

text \<open>What the answer of the application sets.\<close>

definition io_cap_answer :: "smp_env \<Rightarrow> tSMP_IO_REQ \<Rightarrow> smp_sys \<Rightarrow> smp_sys" where
  "io_cap_answer e r s =
     (let s = s\<lparr>loc_auth_req := auth_req r, local_io_capability := io_cap r, loc_oob_flag := oob_data r,
                loc_enc_size := max_key_size r, local_i_key := init_keys r, local_r_key := ryoc_keys r\<rparr>;
          s = (if loc_auth_req s AND SMP_AUTH_BOND = 0 then s\<lparr>local_i_key := 0, local_r_key := 0\<rparr> else s);
          s = s\<lparr>secure_connections_only_mode_required := (e_security_mode e = BTM_SEC_MODE_SC)\<rparr>;
          s = (if secure_connections_only_mode_required s
               then s\<lparr>loc_auth_req := loc_auth_req s OR SMP_SC_SUPPORT_BIT\<rparr> else s) in
      if loc_auth_req s AND SMP_SC_SUPPORT_BIT = 0 \<or> lmp_version_below e (pairing_bda s) HCI_PROTO_VERSION_4_2 \<or>
         e_interop_no_sc e (pairing_bda s)
      then s\<lparr>loc_auth_req := loc_auth_req s AND NOT SMP_KP_SUPPORT_BIT,
             local_i_key := local_i_key s AND NOT SMP_SEC_KEY_TYPE_LK,
             local_r_key := local_r_key s AND NOT SMP_SEC_KEY_TYPE_LK\<rparr>
      else s)"

definition br_keys_answer :: "tSMP_IO_REQ \<Rightarrow> smp_sys \<Rightarrow> smp_sys" where
  "br_keys_answer r s =
     s\<lparr>loc_enc_size := max_key_size r, local_i_key := init_keys r AND NOT SMP_SEC_KEY_TYPE_LK,
       local_r_key := ryoc_keys r AND NOT SMP_SEC_KEY_TYPE_LK\<rparr>"

definition app_answer :: "smp_env \<Rightarrow> smp_event_fun \<Rightarrow> smp_event_fun \<Rightarrow> u8 \<Rightarrow> smp_evt_data \<Rightarrow> smp_sys \<Rightarrow> smp_sys" where
  "app_answer e sm br rc cb_data s =
     (if rc = SMP_SUCCESS then
        (if cb_evt s = SMP_IO_CAP_REQ_EVT then
           (case cb_data of Evt_Io r \<Rightarrow> sm SMP_IO_RSP_EVT No_Data (io_cap_answer e r s) | _ \<Rightarrow> bad s)
         else if cb_evt s = SMP_BR_KEYS_REQ_EVT then
           (case cb_data of Evt_Io r \<Rightarrow> br SMP_BR_KEYS_RSP_EVT No_Data (br_keys_answer r s) | _ \<Rightarrow> bad s)
         else s)
      else s)"

definition smp_send_app_cback_act ::
    "smp_env \<Rightarrow> smp_event_fun \<Rightarrow> smp_event_fun \<Rightarrow> smp_data \<Rightarrow> smp_sys \<Rightarrow> smp_sys" where
  "smp_send_app_cback_act e sm br d s =
     (let s = (if p_callback s \<and> cb_evt s \<noteq> 0 then
                 (case app_evt_data d s of
                    None \<Rightarrow> bad s
                  | Some cb_data \<Rightarrow>
                      (let (rc, answer) = e_callback e (s_clock s) (cb_evt s) cb_data in
                       app_answer e sm br rc answer (out (Out_Callback (cb_evt s) (pairing_bda s) cb_data) s)))
               else s) in
      if cb_evt s = 0 \<and> discard_sec_req s
      then sm SMP_DISCARD_SEC_REQ_EVT No_Data (s\<lparr>discard_sec_req := False\<rparr>) else s)"

section \<open>Distribution of keys\<close>

definition smp_update_key_mask :: "u8 \<Rightarrow> bool \<Rightarrow> smp_sys \<Rightarrow> smp_sys" where
  "smp_update_key_mask key_type recv s =
     (let i = s\<lparr>local_i_key := local_i_key s AND NOT key_type\<rparr>;
          r = s\<lparr>local_r_key := local_r_key s AND NOT key_type\<rparr> in
      if (le_secure_connections_mode_is_used s \<or> smp_over_br s) \<and>
         (key_type = SMP_SEC_KEY_TYPE_ENC \<or> key_type = SMP_SEC_KEY_TYPE_LK)
      then s\<lparr>local_i_key := local_i_key s AND NOT key_type, local_r_key := local_r_key s AND NOT key_type\<rparr>
      else if smp_role s = HCI_ROLE_SLAVE then (if recv then i else r)
      else (if recv then r else i))"

definition both_bond :: "smp_sys \<Rightarrow> bool" where
  "both_bond s \<longleftrightarrow> peer_auth_req s AND SMP_AUTH_BOND \<noteq> 0 \<and> loc_auth_req s AND SMP_AUTH_BOND \<noteq> 0"

definition save_if_bond :: "u8 \<Rightarrow> le_key \<Rightarrow> smp_sys \<Rightarrow> smp_sys" where
  "save_if_bond ty k s = (if both_bond s then out (Out_Save_Key (pairing_bda s) ty k) s else s)"

definition smp_key_distribution_by_transport :: "(smp_sys \<Rightarrow> smp_sys) \<Rightarrow> (smp_sys \<Rightarrow> smp_sys) \<Rightarrow> smp_sys \<Rightarrow> smp_sys" where
  "smp_key_distribution_by_transport dist next s = (if smp_over_br s then next s else dist s)"

definition smp_send_enc_info_act ::
    "smp_env \<Rightarrow> smp_event_fun \<Rightarrow> smp_event_fun \<Rightarrow> (smp_sys \<Rightarrow> smp_sys) \<Rightarrow> smp_sys \<Rightarrow> smp_sys" where
  "smp_send_enc_info_act e sm br dist s =
     (let s = smp_update_key_mask SMP_SEC_KEY_TYPE_ENC False s;
          s = send_cmd e sm br SMP_OPCODE_ENCRYPT_INFO s;
          s = send_cmd e sm br SMP_OPCODE_MASTER_ID s in
      dist (save_if_bond BTM_LE_KEY_LENC (Lenc_Key (ltk s) (pcb_div s) (loc_enc_size s) (sec_level s)) s))"

definition smp_send_id_info_act ::
    "smp_env \<Rightarrow> smp_event_fun \<Rightarrow> smp_event_fun \<Rightarrow> (smp_sys \<Rightarrow> smp_sys) \<Rightarrow> smp_sys \<Rightarrow> smp_sys" where
  "smp_send_id_info_act e sm br cont s =
     (let s = smp_update_key_mask SMP_SEC_KEY_TYPE_ID False s;
          s = send_cmd e sm br SMP_OPCODE_IDENTITY_INFO s;
          s = send_cmd e sm br SMP_OPCODE_ID_ADDR s in
      cont (save_if_bond BTM_LE_KEY_LID Lid_Key s))"

definition smp_send_csrk_info ::
    "smp_env \<Rightarrow> smp_event_fun \<Rightarrow> smp_event_fun \<Rightarrow> (smp_sys \<Rightarrow> smp_sys) \<Rightarrow> smp_sys \<Rightarrow> smp_sys" where
  "smp_send_csrk_info e sm br cont s =
     (let s = smp_update_key_mask SMP_SEC_KEY_TYPE_CSRK False s;
          (sent, s) = smp_send_cmd e sm br SMP_OPCODE_SIGN_INFO s in
      cont (if sent
             then out (Out_Save_Key (pairing_bda s) BTM_LE_KEY_LCSRK (Lcsrk_Key (pcb_div s) (sec_level s) 0 (csrk s))) s
             else s))"

text \<open>\<open>smp_compute_csrk\<close> and \<open>smp_generate_csrk\<close> of \<open>smp_keys.c\<close>: d1(ER, DIV, 1).\<close>

definition smp_compute_csrk ::
    "smp_env \<Rightarrow> smp_event_fun \<Rightarrow> smp_event_fun \<Rightarrow> (smp_sys \<Rightarrow> smp_sys) \<Rightarrow> smp_sys \<Rightarrow> smp_sys" where
  "smp_compute_csrk e sm br cont s =
     (case enc_at e (s_clock s) (take 16 (e_er e)) (put_u16 (pcb_div s) @ put_u16 1) 4 of
        None \<Rightarrow> auth_cmpl sm br SMP_PAIR_FAIL_UNKNOWN (tick s)
      | Some output \<Rightarrow> smp_send_csrk_info e sm br cont (tick (s\<lparr>csrk := take 16 output\<rparr>)))"

definition smp_generate_csrk ::
    "smp_env \<Rightarrow> smp_event_fun \<Rightarrow> smp_event_fun \<Rightarrow> (smp_sys \<Rightarrow> smp_sys) \<Rightarrow> smp_sys \<Rightarrow> smp_sys" where
  "smp_generate_csrk e sm br cont s =
     (case e_local_div e (pairing_bda s) of
        Some dv \<Rightarrow> smp_compute_csrk e sm br cont (s\<lparr>pcb_div := dv\<rparr>)
      | None \<Rightarrow> ask_rand e sm (s\<lparr>rand_enc_proc_state := SMP_GEN_DIV_CSRK\<rparr>))"

definition smp_process_secure_connection_long_term_key :: "(smp_sys \<Rightarrow> smp_sys) \<Rightarrow> smp_sys \<Rightarrow> smp_sys" where
  "smp_process_secure_connection_long_term_key dist s =
     dist (smp_update_key_mask SMP_SEC_KEY_TYPE_ENC False (smp_save_secure_connections_long_term_key s))"

definition smp_br_process_link_key :: "smp_env \<Rightarrow> smp_event_fun \<Rightarrow> (smp_sys \<Rightarrow> smp_sys) \<Rightarrow> smp_sys \<Rightarrow> smp_sys" where
  "smp_br_process_link_key e sm next s =
     (let (ok, s) = smp_calculate_long_term_key_from_link_key e s in
      if \<not> ok then sm SMP_BR_AUTH_CMPL_EVT (Status SMP_PAIR_FAIL_UNKNOWN) s
      else next (smp_update_key_mask SMP_SEC_KEY_TYPE_ENC False (smp_save_secure_connections_long_term_key s)))"

text \<open>\<open>smp_generate_ltk\<close> of \<open>smp_keys.c\<close>\<close>

definition smp_generate_ltk ::
    "smp_env \<Rightarrow> smp_event_fun \<Rightarrow> (smp_sys \<Rightarrow> smp_sys) \<Rightarrow> (smp_sys \<Rightarrow> smp_sys) \<Rightarrow> smp_sys \<Rightarrow> smp_sys" where
  "smp_generate_ltk e sm dist next s =
     (if smp_get_br_state s = SMP_BR_STATE_BOND_PENDING then smp_br_process_link_key e sm next s
      else if le_secure_connections_mode_is_used s then smp_process_secure_connection_long_term_key dist s
      else case e_local_div e (pairing_bda s) of
             Some dv \<Rightarrow> smp_generate_ltk_cont e sm (s\<lparr>pcb_div := dv\<rparr>)
           | None \<Rightarrow> ask_rand e sm (s\<lparr>rand_enc_proc_state := SMP_GEN_DIV_LTK\<rparr>))"

definition smp_set_derive_link_key :: "(smp_sys \<Rightarrow> smp_sys) \<Rightarrow> smp_sys \<Rightarrow> smp_sys" where
  "smp_set_derive_link_key dist s = dist (smp_update_key_mask SMP_SEC_KEY_TYPE_LK False (s\<lparr>derive_lk := True\<rparr>))"

definition smp_derive_link_key_from_long_term_key :: "smp_env \<Rightarrow> smp_event_fun \<Rightarrow> smp_sys \<Rightarrow> smp_sys" where
  "smp_derive_link_key_from_long_term_key e sm s =
     (let (ok, s) = smp_calculate_link_key_from_long_term_key e s in
      if \<not> ok then sm SMP_AUTH_CMPL_EVT (Status SMP_PAIR_FAIL_UNKNOWN) s else s)"

text \<open>\<open>smp_distribute_act\<close>: one function for each bit of the key mask.\<close>

definition smp_distribute_act ::
    "smp_env \<Rightarrow> smp_event_fun \<Rightarrow> smp_event_fun \<Rightarrow> (smp_sys \<Rightarrow> smp_sys) \<Rightarrow> (smp_sys \<Rightarrow> smp_sys) \<Rightarrow> (smp_sys \<Rightarrow> smp_sys) list" where
  "smp_distribute_act e sm br dist next = [
     smp_generate_ltk e sm dist next,
     smp_send_id_info_act e sm br (smp_key_distribution_by_transport dist next),
     smp_generate_csrk e sm br (smp_key_distribution_by_transport dist next),
     smp_set_derive_link_key dist]"

text \<open>The loop: the function of the lowest bit that is set.\<close>

fun pick_key :: "(smp_sys \<Rightarrow> smp_sys) list \<Rightarrow> u8 \<Rightarrow> nat \<Rightarrow> smp_sys \<Rightarrow> smp_sys" where
  "pick_key [] key_to_dist i s = s"
| "pick_key (f # fs) key_to_dist i s =
     (if key_to_dist AND push_bit i 1 \<noteq> 0 then f s else pick_key fs key_to_dist (Suc i) s)"

definition smp_key_pick_key ::
    "smp_env \<Rightarrow> smp_event_fun \<Rightarrow> smp_event_fun \<Rightarrow> (smp_sys \<Rightarrow> smp_sys) \<Rightarrow> (smp_sys \<Rightarrow> smp_sys) \<Rightarrow> smp_sys \<Rightarrow> smp_sys" where
  "smp_key_pick_key e sm br dist next s =
     pick_key (smp_distribute_act e sm br dist next)
       (if smp_role s = HCI_ROLE_SLAVE then local_r_key s else local_i_key s) 0 s"

text \<open>One call of \<open>smp_key_distribution\<close> and one of \<open>smp_br_select_next_key\<close>, with the calls inside as parameters.\<close>

definition key_distribution_step ::
    "smp_env \<Rightarrow> smp_event_fun \<Rightarrow> smp_event_fun \<Rightarrow> (smp_sys \<Rightarrow> smp_sys) \<Rightarrow> (smp_sys \<Rightarrow> smp_sys) \<Rightarrow> smp_sys \<Rightarrow> smp_sys" where
  "key_distribution_step e sm br dist next s =
     (let s = (if smp_role s = HCI_ROLE_SLAVE \<or> (local_r_key s = 0 \<and> smp_role s = HCI_ROLE_MASTER)
               then smp_key_pick_key e sm br dist next s else s) in
      if local_i_key s = 0 \<and> local_r_key s = 0 \<and> smp_get_state s = SMP_STATE_BOND_PENDING then
        (let s = (if derive_lk s then (smp_derive_link_key_from_long_term_key e sm s)\<lparr>derive_lk := False\<rparr> else s) in
         if total_tx_unacked s = 0 then sm SMP_AUTH_CMPL_EVT (Status SMP_SUCCESS) s
         else s\<lparr>wait_for_authorization_complete := True\<rparr>)
      else s)"

definition br_select_next_key_step ::
    "smp_env \<Rightarrow> smp_event_fun \<Rightarrow> smp_event_fun \<Rightarrow> (smp_sys \<Rightarrow> smp_sys) \<Rightarrow> (smp_sys \<Rightarrow> smp_sys) \<Rightarrow> smp_sys \<Rightarrow> smp_sys" where
  "br_select_next_key_step e sm br dist next s =
     (let s = (if smp_role s = HCI_ROLE_SLAVE \<or> (local_r_key s = 0 \<and> smp_role s = HCI_ROLE_MASTER)
               then smp_key_pick_key e sm br dist next s else s) in
      if local_i_key s = 0 \<and> local_r_key s = 0 \<and> smp_get_br_state s = SMP_BR_STATE_BOND_PENDING then
        (if total_tx_unacked s = 0 then br SMP_BR_AUTH_CMPL_EVT (Status SMP_SUCCESS) s
         else s\<lparr>wait_for_authorization_complete := True\<rparr>)
      else s)"

text \<open>A picked function clears its bit before it distributes further: the masks have eight bits.\<close>

fun key_dist :: "smp_env \<Rightarrow> smp_event_fun \<Rightarrow> smp_event_fun \<Rightarrow> nat \<Rightarrow> bool \<Rightarrow> smp_sys \<Rightarrow> smp_sys" where
  "key_dist e sm br 0 over_br s = bad s"
| "key_dist e sm br (Suc n) over_br s =
     (if over_br then br_select_next_key_step e sm br (key_dist e sm br n False) (key_dist e sm br n True) s
      else key_distribution_step e sm br (key_dist e sm br n False) (key_dist e sm br n True) s)"

definition smp_key_distribution_act :: "smp_env \<Rightarrow> smp_event_fun \<Rightarrow> smp_event_fun \<Rightarrow> smp_sys \<Rightarrow> smp_sys" where
  "smp_key_distribution_act e sm br s = key_dist e sm br 17 False s"

definition smp_br_select_next_key_act :: "smp_env \<Rightarrow> smp_event_fun \<Rightarrow> smp_event_fun \<Rightarrow> smp_sys \<Rightarrow> smp_sys" where
  "smp_br_select_next_key_act e sm br s = key_dist e sm br 17 True s"

definition distribute_by_transport :: "smp_env \<Rightarrow> smp_event_fun \<Rightarrow> smp_event_fun \<Rightarrow> smp_sys \<Rightarrow> smp_sys" where
  "distribute_by_transport e sm br =
     smp_key_distribution_by_transport (smp_key_distribution_act e sm br) (smp_br_select_next_key_act e sm br)"

section \<open>Association model and start of a pairing\<close>

definition smp_decide_association_model_act :: "smp_env \<Rightarrow> smp_event_fun \<Rightarrow> smp_sys \<Rightarrow> smp_sys" where
  "smp_decide_association_model_act e sm s =
     (let m = selected_association_model s in
      if m = SMP_MODEL_ENCRYPTION_ONLY then
        (let s = s\<lparr>sec_level := SMP_SEC_UNAUTHENTICATE, tk := zeros 16\<rparr> in
         sm SMP_KEY_READY_EVT (Key SMP_KEY_TYPE_TK (tk s)) s)
      else if m = SMP_MODEL_PASSKEY then
        sm SMP_TK_REQ_EVT No_Data (s\<lparr>sec_level := SMP_SEC_AUTHENTICATED, cb_evt := SMP_PASSKEY_REQ_EVT\<rparr>)
      else if m = SMP_MODEL_OOB then
        sm SMP_TK_REQ_EVT No_Data (s\<lparr>sec_level := SMP_SEC_AUTHENTICATED, cb_evt := SMP_OOB_REQ_EVT\<rparr>)
      else if m = SMP_MODEL_KEY_NOTIF then smp_generate_passkey e sm (s\<lparr>sec_level := SMP_SEC_AUTHENTICATED\<rparr>)
      else if m = SMP_MODEL_SEC_CONN_JUSTWORKS \<or> m = SMP_MODEL_SEC_CONN_NUM_COMP \<or> m = SMP_MODEL_SEC_CONN_PASSKEY_ENT \<or>
              m = SMP_MODEL_SEC_CONN_PASSKEY_DISP \<or> m = SMP_MODEL_SEC_CONN_OOB
      then sm SMP_PUBL_KEY_EXCH_REQ_EVT No_Data s
      else sm SMP_AUTH_CMPL_EVT (Status SMP_UNKNOWN_IO_CAP) s)"

text \<open>\<open>smp_use_oob_private_key\<close> of \<open>smp_keys.c\<close>\<close>

definition smp_use_oob_private_key_act :: "smp_env \<Rightarrow> smp_event_fun \<Rightarrow> smp_sys \<Rightarrow> smp_sys" where
  "smp_use_oob_private_key_act e sm s =
     (if req_oob_type s = SMP_OOB_BOTH \<or> req_oob_type s = SMP_OOB_LOCAL
      then smp_process_private_key sm (s\<lparr>private_key := lo_private_key_used (loc_oob_data (sc_oob_data s))\<rparr>)
      else smp_decide_association_model_act e sm (smp_set_state SMP_STATE_PAIR_REQ_RSP s))"

definition smp_send_pair_rsp_act :: "smp_env \<Rightarrow> smp_event_fun \<Rightarrow> smp_event_fun \<Rightarrow> smp_sys \<Rightarrow> smp_sys" where
  "smp_send_pair_rsp_act e sm br s =
     (let s = s\<lparr>local_i_key := local_i_key s AND peer_i_key s, local_r_key := local_r_key s AND peer_r_key s\<rparr>;
          (sent, s) = smp_send_cmd e sm br SMP_OPCODE_PAIRING_RSP s in
      if sent then
        (if selected_association_model s = SMP_MODEL_SEC_CONN_OOB then smp_use_oob_private_key_act e sm s
         else smp_decide_association_model_act e sm s)
      else s)"

abbreviation (input) BTM_BLE_SEC_REQ_ACT_NONE :: u8 where "BTM_BLE_SEC_REQ_ACT_NONE \<equiv> 0"
abbreviation (input) BTM_BLE_SEC_REQ_ACT_ENCRYPT :: u8 where "BTM_BLE_SEC_REQ_ACT_ENCRYPT \<equiv> 1"
abbreviation (input) BTM_BLE_SEC_REQ_ACT_PAIR :: u8 where "BTM_BLE_SEC_REQ_ACT_PAIR \<equiv> 2"
abbreviation (input) BTM_BLE_SEC_REQ_ACT_DISCARD :: u8 where "BTM_BLE_SEC_REQ_ACT_DISCARD \<equiv> 3"

definition smp_proc_sec_req_act :: "smp_env \<Rightarrow> smp_event_fun \<Rightarrow> smp_data \<Rightarrow> smp_sys \<Rightarrow> smp_sys" where
  "smp_proc_sec_req_act e sm d s =
     (case data_byte d of
        None \<Rightarrow> bad s
      | Some areq \<Rightarrow>
          (let s = s\<lparr>cb_evt := 0\<rparr>; act = e_sec_check e (pairing_bda s) areq in
           if act = BTM_BLE_SEC_REQ_ACT_ENCRYPT then sm SMP_ENC_REQ_EVT No_Data s
           else if act = BTM_BLE_SEC_REQ_ACT_PAIR then
             (let s = s\<lparr>secure_connections_only_mode_required := (e_security_mode e = BTM_SEC_MODE_SC)\<rparr> in
              if secure_connections_only_mode_required s \<and> areq AND SMP_SC_SUPPORT_BIT = 0
              then sm SMP_AUTH_CMPL_EVT (Status SMP_PAIR_AUTH_FAIL) s
              else s\<lparr>peer_auth_req := areq, local_i_key := SMP_SEC_DEFAULT_KEY, local_r_key := SMP_SEC_DEFAULT_KEY,
                     cb_evt := SMP_SEC_REQUEST_EVT\<rparr>)
           else if act = BTM_BLE_SEC_REQ_ACT_DISCARD then s\<lparr>discard_sec_req := True\<rparr>
           else s))"

definition smp_proc_sec_grant_act :: "smp_event_fun \<Rightarrow> smp_data \<Rightarrow> smp_sys \<Rightarrow> smp_sys" where
  "smp_proc_sec_grant_act sm d s =
     (case data_byte d of
        None \<Rightarrow> bad s
      | Some res \<Rightarrow> if res \<noteq> SMP_SUCCESS then sm SMP_AUTH_CMPL_EVT d s else s\<lparr>cb_evt := SMP_IO_CAP_REQ_EVT\<rparr>)"

definition smp_proc_pair_fail_act :: "smp_data \<Rightarrow> smp_sys \<Rightarrow> smp_sys" where
  "smp_proc_pair_fail_act d s = (case data_byte d of None \<Rightarrow> bad s | Some x \<Rightarrow> s\<lparr>status := x\<rparr>)"

definition smp_get_auth_mode :: "u8 \<Rightarrow> u8" where
  "smp_get_auth_mode model =
     (if model = SMP_MODEL_ENCRYPTION_ONLY \<or> model = SMP_MODEL_SEC_CONN_JUSTWORKS
      then (if model = SMP_MODEL_SEC_CONN_JUSTWORKS then SMP_SC_SUPPORT_BIT else 0)
      else if model \<le> SMP_MODEL_KEY_NOTIF then SMP_AUTH_YN_BIT
      else if model \<le> SMP_MODEL_SEC_CONN_OOB then SMP_SC_SUPPORT_BIT OR SMP_AUTH_YN_BIT
      else 0)"

text \<open>
  The two checks that \<open>smp_proc_pair_cmd\<close> (for both roles) and \<open>smp_process_io_response\<close> make in the same
  words once the association model is selected; \<open>k\<close> is what follows when both are passed.
\<close>

definition security_checks ::
    "smp_env \<Rightarrow> smp_event_fun \<Rightarrow> (smp_sys \<Rightarrow> smp_sys) \<Rightarrow> smp_sys \<Rightarrow> smp_sys" where
  "security_checks e sm k s =
     (if secure_connections_only_mode_required s \<and>
         (\<not> le_secure_connections_mode_is_used s \<or> selected_association_model s = SMP_MODEL_SEC_CONN_JUSTWORKS)
      then sm SMP_AUTH_CMPL_EVT (Status SMP_PAIR_AUTH_FAIL) s
      else let auth = smp_get_auth_mode (selected_association_model s);
               auth = (if peer_auth_req s AND loc_auth_req s AND SMP_AUTH_GEN_BOND \<noteq> 0 then auth OR SMP_AUTH_GEN_BOND else auth);
               s = s\<lparr>auth_mode := auth\<rparr> in
           if accept_specified_sec_auth s \<and> auth AND origin_loc_auth_req s \<noteq> origin_loc_auth_req s
           then sm SMP_AUTH_CMPL_EVT (Status SMP_PAIR_AUTH_FAIL)
                  (if e_acl_up e (pairing_bda s) then out (Out_Remove_Acl (pairing_bda s)) s else s)
           else k s)"

definition select_model :: "smp_sys \<Rightarrow> smp_sys" where
  "select_model s = (let (m, s) = smp_select_association_model s in s\<lparr>selected_association_model := m\<rparr>)"

text \<open>The six fields of a pairing command, read off the pointer.\<close>

definition read_pair_cmd :: "bytes \<Rightarrow> smp_sys \<Rightarrow> smp_sys" where
  "read_pair_cmd p s =
     s\<lparr>peer_io_caps := p ! 0, peer_oob_flag := p ! 1, peer_auth_req := p ! 2, peer_enc_size := p ! 3,
       peer_i_key := p ! 4, peer_r_key := p ! 5\<rparr>"

definition smp_proc_pair_cmd_act :: "smp_env \<Rightarrow> smp_event_fun \<Rightarrow> smp_event_fun \<Rightarrow> smp_data \<Rightarrow> smp_sys \<Rightarrow> smp_sys" where
  "smp_proc_pair_cmd_act e sm br d s =
     (let s = (if s_dev s (pairing_bda s) \<noteq> None \<and> smp_role s = HCI_ROLE_SLAVE then out (Out_Clear_Keys (pairing_bda s)) s else s);
          s = s\<lparr>flags := flags s OR SMP_PAIR_FLAG_ENC_AFTER_PAIR\<rparr> in
      case data_bytes 0 6 d of
        None \<Rightarrow> bad s
      | Some p \<Rightarrow>
          (let s = read_pair_cmd p s in
           if smp_command_has_invalid_parameters s then sm SMP_AUTH_CMPL_EVT (Status SMP_INVALID_PARAMETERS) s
           else let s = s\<lparr>accept_specified_sec_auth := e_accept_auth_enable e, origin_loc_auth_req := e_auth_req e\<rparr> in
             if smp_role s = HCI_ROLE_SLAVE then
               (if flags s AND SMP_PAIR_FLAGS_WE_STARTED_DD = 0
                then s\<lparr>local_i_key := peer_i_key s, local_r_key := peer_r_key s, cb_evt := SMP_SEC_REQUEST_EVT\<rparr>
                else let s = s\<lparr>local_i_key := local_i_key s AND peer_i_key s,
                               local_r_key := local_r_key s AND peer_r_key s\<rparr> in
                  security_checks e sm (\<lambda>s.
                    if selected_association_model s = SMP_MODEL_SEC_CONN_OOB then snd (smp_request_oob_data sm s)
                    else smp_send_pair_rsp_act e sm br s) (select_model s))
             else security_checks e sm (\<lambda>s.
                    if selected_association_model s = SMP_MODEL_SEC_CONN_OOB then snd (smp_request_oob_data sm s)
                    else smp_decide_association_model_act e sm s) (select_model s)))"

definition smp_process_io_response_act :: "smp_env \<Rightarrow> smp_event_fun \<Rightarrow> smp_event_fun \<Rightarrow> smp_sys \<Rightarrow> smp_sys" where
  "smp_process_io_response_act e sm br s =
     (if flags s AND SMP_PAIR_FLAGS_WE_STARTED_DD \<noteq> 0
      then send_cmd e sm br SMP_OPCODE_SEC_REQ (smp_set_state SMP_STATE_SEC_REQ_PENDING s)
      else security_checks e sm (\<lambda>s.
             if selected_association_model s = SMP_MODEL_SEC_CONN_OOB then
               (let (asked, s) = smp_request_oob_data sm s in if asked then s else smp_send_pair_rsp_act e sm br s)
             else smp_send_pair_rsp_act e sm br s) (select_model s))"

section \<open>Received values\<close>

text \<open>
  The common form: the check of the command, then \<open>len\<close> bytes copied from the pointer, with or without
  a test for \<open>NULL\<close>.
\<close>

definition checked :: "smp_event_fun \<Rightarrow> (smp_sys \<Rightarrow> smp_sys) \<Rightarrow> smp_sys \<Rightarrow> smp_sys" where
  "checked sm k s =
     (if smp_command_has_invalid_parameters s then sm SMP_AUTH_CMPL_EVT (Status SMP_INVALID_PARAMETERS) s else k s)"

definition copied :: "nat \<Rightarrow> nat \<Rightarrow> smp_data \<Rightarrow> (bytes \<Rightarrow> smp_sys \<Rightarrow> smp_sys) \<Rightarrow> smp_sys \<Rightarrow> smp_sys" where
  "copied off len d put s = (case data_bytes off len d of None \<Rightarrow> bad s | Some p \<Rightarrow> put p s)"

definition copied_if :: "nat \<Rightarrow> nat \<Rightarrow> smp_data \<Rightarrow> (bytes \<Rightarrow> smp_sys \<Rightarrow> smp_sys) \<Rightarrow> smp_sys \<Rightarrow> smp_sys" where
  "copied_if off len d put s = (if d = No_Data then s else copied off len d put s)"

definition smp_proc_confirm_act :: "smp_event_fun \<Rightarrow> smp_data \<Rightarrow> smp_sys \<Rightarrow> smp_sys" where
  "smp_proc_confirm_act sm d = checked sm (\<lambda>s.
     (let s = copied_if 0 16 d (\<lambda>p s. s\<lparr>rconfirm := p\<rparr>) s in s\<lparr>flags := flags s OR SMP_PAIR_FLAGS_CMD_CONFIRM\<rparr>))"

definition smp_proc_init :: "smp_event_fun \<Rightarrow> smp_data \<Rightarrow> smp_sys \<Rightarrow> smp_sys" where
  "smp_proc_init sm d = checked sm (copied 0 16 d (\<lambda>p s. s\<lparr>rrand := p\<rparr>))"

definition smp_proc_rand_act :: "smp_event_fun \<Rightarrow> smp_data \<Rightarrow> smp_sys \<Rightarrow> smp_sys" where
  "smp_proc_rand_act sm d = checked sm (copied 0 16 d (\<lambda>p s. s\<lparr>rrand := p\<rparr>))"

definition smp_wait_for_both_public_keys_act :: "smp_event_fun \<Rightarrow> smp_sys \<Rightarrow> smp_sys" where
  "smp_wait_for_both_public_keys_act sm s =
     (if flags s AND SMP_PAIR_FLAG_HAVE_PEER_PUBL_KEY \<noteq> 0 \<and> flags s AND SMP_PAIR_FLAG_HAVE_LOCAL_PUBL_KEY \<noteq> 0 then
        sm SMP_BOTH_PUBL_KEYS_RCVD_EVT No_Data
          (if smp_role s = HCI_ROLE_SLAVE \<and> (req_oob_type s = SMP_OOB_LOCAL \<or> req_oob_type s = SMP_OOB_BOTH)
           then smp_set_state SMP_STATE_PUBLIC_KEY_EXCH s else s)
      else s)"

definition smp_process_pairing_public_key_act :: "smp_event_fun \<Rightarrow> smp_data \<Rightarrow> smp_sys \<Rightarrow> smp_sys" where
  "smp_process_pairing_public_key_act sm d = checked sm (\<lambda>s.
     (let s = copied 0 32 d (\<lambda>p s. s\<lparr>peer_publ_key := (peer_publ_key s)\<lparr>pk_x := p\<rparr>\<rparr>) s;
          s = copied 32 32 d (\<lambda>p s. s\<lparr>peer_publ_key := (peer_publ_key s)\<lparr>pk_y := p\<rparr>\<rparr>) s;
          s = (if \<not> ECC_CheckPointIsInElliCur_P256 (key_point (peer_publ_key s))
               then sm SMP_AUTH_CMPL_EVT (Status SMP_INVALID_PARAMETERS) s else s);
          s = s\<lparr>flags := flags s OR SMP_PAIR_FLAG_HAVE_PEER_PUBL_KEY\<rparr> in
      smp_wait_for_both_public_keys_act sm s))"

definition smp_process_pairing_commitment_act :: "smp_event_fun \<Rightarrow> smp_data \<Rightarrow> smp_sys \<Rightarrow> smp_sys" where
  "smp_process_pairing_commitment_act sm d = checked sm (\<lambda>s.
     (let s = s\<lparr>flags := flags s OR SMP_PAIR_FLAG_HAVE_PEER_COMM\<rparr> in
      copied_if 0 16 d (\<lambda>p s. s\<lparr>remote_commitment := p\<rparr>) s))"

definition smp_process_dhkey_check_act :: "smp_event_fun \<Rightarrow> smp_data \<Rightarrow> smp_sys \<Rightarrow> smp_sys" where
  "smp_process_dhkey_check_act sm d = checked sm (\<lambda>s.
     (let s = copied_if 0 16 d (\<lambda>p s. s\<lparr>remote_dhkey_check := p\<rparr>) s in
      s\<lparr>flags := flags s OR SMP_PAIR_FLAG_HAVE_PEER_DHK_CHK\<rparr>))"

definition smp_process_keypress_notification_act :: "smp_event_fun \<Rightarrow> smp_data \<Rightarrow> smp_sys \<Rightarrow> smp_sys" where
  "smp_process_keypress_notification_act sm d s =
     (case data_byte d of
        None \<Rightarrow> bad s
      | Some x \<Rightarrow> checked sm (\<lambda>s. s\<lparr>peer_keypress_notification := x, cb_evt := SMP_PEER_KEYPR_NOT_EVT\<rparr>) (s\<lparr>status := x\<rparr>))"

section \<open>Pairing over BR/EDR\<close>

text \<open>\<open>p_dev_rec\<close> is read before it is tested: an unknown device is an access through a null pointer.\<close>

definition smp_br_process_pairing_command_act :: "smp_event_fun \<Rightarrow> smp_data \<Rightarrow> smp_sys \<Rightarrow> smp_sys" where
  "smp_br_process_pairing_command_act br d s =
     (case s_dev s (pairing_bda s) of
        None \<Rightarrow> bad s
      | Some p_dev_rec \<Rightarrow>
          if \<not> dr_new_encryption_key_is_p256 p_dev_rec \<and> smp_role s = HCI_ROLE_SLAVE
          then br SMP_BR_AUTH_CMPL_EVT (Status SMP_XTRANS_DERIVE_NOT_ALLOW) s
          else let s = (if smp_role s = HCI_ROLE_SLAVE then out (Out_Clear_Keys (pairing_bda s)) s else s);
                   s = s\<lparr>flags := flags s OR SMP_PAIR_FLAG_ENC_AFTER_PAIR\<rparr> in
               case data_bytes 0 6 d of
                 None \<Rightarrow> bad s
               | Some p \<Rightarrow>
                   (let s = read_pair_cmd p s in
                    if smp_command_has_invalid_parameters s then br SMP_BR_AUTH_CMPL_EVT (Status SMP_INVALID_PARAMETERS) s
                    else let s = s\<lparr>local_i_key := peer_i_key s, local_r_key := peer_r_key s\<rparr>;
                             s = (if smp_role s = HCI_ROLE_SLAVE
                                  then s\<lparr>s_dev := (s_dev s)(pairing_bda s \<mapsto> p_dev_rec\<lparr>dr_new_encryption_key_is_p256 := False\<rparr>),
                                         cb_evt := SMP_BR_KEYS_REQ_EVT\<rparr>
                                  else s) in
                         s\<lparr>peer_auth_req := peer_auth_req s OR SMP_AUTH_BOND, loc_auth_req := loc_auth_req s OR SMP_AUTH_BOND\<rparr>))"

definition smp_br_process_security_grant_act :: "smp_event_fun \<Rightarrow> smp_data \<Rightarrow> smp_sys \<Rightarrow> smp_sys" where
  "smp_br_process_security_grant_act br d s =
     (case data_byte d of
        None \<Rightarrow> bad s
      | Some res \<Rightarrow> if res \<noteq> SMP_SUCCESS then br SMP_BR_AUTH_CMPL_EVT d s else s\<lparr>cb_evt := SMP_BR_KEYS_REQ_EVT\<rparr>)"

definition smp_br_check_authorization_request_act ::
    "smp_env \<Rightarrow> smp_event_fun \<Rightarrow> smp_event_fun \<Rightarrow> smp_sys \<Rightarrow> smp_sys" where
  "smp_br_check_authorization_request_act e sm br s =
     (let s = s\<lparr>local_i_key := local_i_key s AND NOT SMP_SEC_KEY_TYPE_LK,
                local_r_key := local_r_key s AND NOT SMP_SEC_KEY_TYPE_LK\<rparr>;
          s = (if smp_role s = HCI_ROLE_MASTER
               then s\<lparr>local_r_key := local_r_key s AND (SMP_SEC_KEY_TYPE_ID OR SMP_SEC_KEY_TYPE_CSRK)\<rparr> else s) in
      if local_i_key s \<noteq> 0 \<or> local_r_key s \<noteq> 0 then
        (let s = br SMP_BR_BOND_REQ_EVT No_Data s in
         if smp_role s = HCI_ROLE_MASTER \<and> local_r_key s = 0 then distribute_by_transport e sm br s else s)
      else br SMP_BR_AUTH_CMPL_EVT (Status SMP_SUCCESS) s)"

definition smp_br_send_pair_response_act :: "smp_env \<Rightarrow> smp_event_fun \<Rightarrow> smp_event_fun \<Rightarrow> smp_sys \<Rightarrow> smp_sys" where
  "smp_br_send_pair_response_act e sm br s =
     send_cmd e sm br SMP_OPCODE_PAIRING_RSP
       (s\<lparr>local_i_key := local_i_key s AND peer_i_key s, local_r_key := local_r_key s AND peer_r_key s\<rparr>)"

definition smp_br_process_slave_keys_response_act :: "smp_env \<Rightarrow> smp_event_fun \<Rightarrow> smp_event_fun \<Rightarrow> smp_sys \<Rightarrow> smp_sys" where
  "smp_br_process_slave_keys_response_act e sm br s = smp_br_send_pair_response_act e sm br s"

section \<open>Received keys\<close>

definition smp_proc_enc_info_act :: "smp_env \<Rightarrow> smp_event_fun \<Rightarrow> smp_event_fun \<Rightarrow> smp_data \<Rightarrow> smp_sys \<Rightarrow> smp_sys" where
  "smp_proc_enc_info_act e sm br d s = smp_key_distribution_act e sm br (copied 0 16 d (\<lambda>p s. s\<lparr>ltk := p\<rparr>) s)"

definition smp_proc_master_id_act :: "smp_env \<Rightarrow> smp_event_fun \<Rightarrow> smp_event_fun \<Rightarrow> smp_data \<Rightarrow> smp_sys \<Rightarrow> smp_sys" where
  "smp_proc_master_id_act e sm br d s =
     smp_key_distribution_act e sm br (copied 0 10 d (\<lambda>p s.
       save_if_bond BTM_LE_KEY_PENC (Penc_Key (ltk s) (drop 2 p) (get_u16 p) (sec_level s) (loc_enc_size s)) s)
       (smp_update_key_mask SMP_SEC_KEY_TYPE_ENC True s))"

definition smp_proc_id_info_act :: "smp_env \<Rightarrow> smp_event_fun \<Rightarrow> smp_event_fun \<Rightarrow> smp_data \<Rightarrow> smp_sys \<Rightarrow> smp_sys" where
  "smp_proc_id_info_act e sm br d s = distribute_by_transport e sm br (copied 0 16 d (\<lambda>p s. s\<lparr>tk := p\<rparr>) s)"

definition smp_proc_id_addr_act :: "smp_env \<Rightarrow> smp_event_fun \<Rightarrow> smp_event_fun \<Rightarrow> smp_data \<Rightarrow> smp_sys \<Rightarrow> smp_sys" where
  "smp_proc_id_addr_act e sm br d s =
     distribute_by_transport e sm br (copied 0 7 d (\<lambda>p s.
       (let s = s\<lparr>id_addr_rcvd := True, id_addr_type := p ! 0, id_addr := rev (drop 1 p)\<rparr> in
        save_if_bond BTM_LE_KEY_PID (Pid_Key (id_addr_type s) (id_addr s) (take 16 (tk s))) s))
       (smp_update_key_mask SMP_SEC_KEY_TYPE_ID True s))"

definition smp_proc_srk_info_act :: "smp_env \<Rightarrow> smp_event_fun \<Rightarrow> smp_event_fun \<Rightarrow> smp_data \<Rightarrow> smp_sys \<Rightarrow> smp_sys" where
  "smp_proc_srk_info_act e sm br d s =
     distribute_by_transport e sm br (copied 0 16 d (\<lambda>p s.
       save_if_bond BTM_LE_KEY_PCSRK (Pcsrk_Key (sec_level s) 0 p) s)
       (smp_update_key_mask SMP_SEC_KEY_TYPE_CSRK True s))"

section \<open>Comparison, encryption, completion\<close>

definition smaller_key_size :: "smp_sys \<Rightarrow> smp_sys" where
  "smaller_key_size s = (if peer_enc_size s < loc_enc_size s then s\<lparr>loc_enc_size := peer_enc_size s\<rparr> else s)"

definition smp_proc_compare_act :: "smp_event_fun \<Rightarrow> smp_data \<Rightarrow> smp_sys \<Rightarrow> smp_sys" where
  "smp_proc_compare_act sm d s =
     (case d of
        Key ty p \<Rightarrow>
          if take 16 (rconfirm s) = take 16 p then
            (let s = smaller_key_size s in
             if smp_role s = HCI_ROLE_SLAVE then sm SMP_RAND_EVT No_Data s
             else sm SMP_ENC_REQ_EVT No_Data (s\<lparr>local_i_key := peer_i_key s, local_r_key := peer_r_key s\<rparr>))
          else sm SMP_AUTH_CMPL_EVT (Status SMP_CONFIRM_VALUE_ERR) (s\<lparr>failure := SMP_CONFIRM_VALUE_ERR\<rparr>)
      | _ \<Rightarrow> bad s)"

definition smp_proc_sl_key_act :: "smp_env \<Rightarrow> smp_event_fun \<Rightarrow> smp_data \<Rightarrow> smp_sys \<Rightarrow> smp_sys" where
  "smp_proc_sl_key_act e sm d s =
     (case data_byte d of
        None \<Rightarrow> bad s
      | Some key_type \<Rightarrow>
          if key_type = SMP_KEY_TYPE_TK then smp_generate_srand_mrand_confirm_act e sm s
          else if key_type = SMP_KEY_TYPE_CFM then
            (let s = smp_set_state SMP_STATE_WAIT_CONFIRM s in
             if flags s AND SMP_PAIR_FLAGS_CMD_CONFIRM \<noteq> 0 then sm SMP_CONFIRM_EVT No_Data s else s)
          else s)"

abbreviation (input) BTM_CMD_STARTED :: u8 where "BTM_CMD_STARTED \<equiv> 1"
abbreviation (input) BTM_BUSY :: u8 where "BTM_BUSY \<equiv> 2"

definition smp_start_enc_act :: "smp_env \<Rightarrow> smp_event_fun \<Rightarrow> smp_data \<Rightarrow> smp_sys \<Rightarrow> smp_sys" where
  "smp_start_enc_act e sm d s =
     (let start = (\<lambda>stk. let cmd = e_start_encrypt e (s_clock s);
                             s = out (Out_Start_Encrypt (pairing_bda s) stk) s in
                         if cmd \<noteq> BTM_CMD_STARTED \<and> cmd \<noteq> BTM_BUSY then sm SMP_AUTH_CMPL_EVT (Status SMP_ENC_FAIL) s else s) in
      case d of No_Data \<Rightarrow> start None | Key ty p \<Rightarrow> start (Some p) | _ \<Rightarrow> bad s)"

definition smp_proc_discard_act :: "smp_sys \<Rightarrow> smp_sys" where
  "smp_proc_discard_act s = (if flags s AND SMP_PAIR_FLAGS_WE_STARTED_DD = 0 then smp_reset_control_value s else s)"

definition smp_enc_cmpl_act :: "smp_event_fun \<Rightarrow> smp_data \<Rightarrow> smp_sys \<Rightarrow> smp_sys" where
  "smp_enc_cmpl_act sm d s =
     (case data_byte d of
        None \<Rightarrow> bad s
      | Some enc_enable \<Rightarrow> sm SMP_AUTH_CMPL_EVT (Status (if enc_enable \<noteq> 0 then SMP_SUCCESS else SMP_ENC_FAIL)) s)"

text \<open>The keys to be distributed once the link is encrypted.\<close>

definition keys_to_distribute :: "smp_sys \<Rightarrow> smp_sys" where
  "keys_to_distribute s =
     (if le_secure_connections_mode_is_used s then
        (let s = s\<lparr>local_i_key := local_i_key s OR SMP_SEC_KEY_TYPE_ENC, local_r_key := local_r_key s OR SMP_SEC_KEY_TYPE_ENC\<rparr>;
             s = (if local_i_key s AND SMP_SEC_KEY_TYPE_LK = 0 \<or> local_r_key s AND SMP_SEC_KEY_TYPE_LK = 0
                  then s\<lparr>local_i_key := local_i_key s AND NOT SMP_SEC_KEY_TYPE_LK,
                         local_r_key := local_r_key s AND NOT SMP_SEC_KEY_TYPE_LK\<rparr> else s) in
         if smp_role s = HCI_ROLE_MASTER
         then s\<lparr>local_r_key := local_r_key s AND (SMP_SEC_KEY_TYPE_ID OR SMP_SEC_KEY_TYPE_CSRK)\<rparr> else s)
      else s\<lparr>local_i_key := local_i_key s AND NOT SMP_SEC_KEY_TYPE_LK,
             local_r_key := local_r_key s AND NOT SMP_SEC_KEY_TYPE_LK\<rparr>)"

definition smp_check_auth_req_act :: "smp_event_fun \<Rightarrow> smp_data \<Rightarrow> smp_sys \<Rightarrow> smp_sys" where
  "smp_check_auth_req_act sm d s =
     (case data_byte d of
        None \<Rightarrow> bad s
      | Some enc_enable \<Rightarrow>
          (let reason = (if enc_enable \<noteq> 0 then SMP_SUCCESS else SMP_ENC_FAIL) in
           if enc_enable = 1 then
             (let s = keys_to_distribute s in
              if local_i_key s \<noteq> 0 \<or> local_r_key s \<noteq> 0 then sm SMP_BOND_REQ_EVT No_Data s
              else sm SMP_AUTH_CMPL_EVT (Status reason) s)
           else if enc_enable = 0 then
             (if flags s AND SMP_PAIR_FLAG_ENC_AFTER_PAIR \<noteq> 0 then sm SMP_AUTH_CMPL_EVT (Status reason) s
              else if smp_role s = HCI_ROLE_MASTER then sm SMP_AUTH_CMPL_EVT (Status reason) s
              else s)
           else s))"

definition smp_pairing_cmpl_act :: "smp_sys \<Rightarrow> smp_sys" where
  "smp_pairing_cmpl_act s = (if total_tx_unacked s = 0 then smp_proc_pairing_cmpl s else s)"

definition smp_pair_terminate_act :: "smp_sys \<Rightarrow> smp_sys" where
  "smp_pair_terminate_act s = smp_proc_pairing_cmpl (s\<lparr>status := SMP_CONN_TOUT\<rparr>)"

definition smp_idle_terminate_act :: "smp_sys \<Rightarrow> smp_sys" where
  "smp_idle_terminate_act s =
     (if flags s AND SMP_PAIR_FLAGS_WE_STARTED_DD \<noteq> 0 then smp_proc_pairing_cmpl (s\<lparr>status := SMP_FAIL\<rparr>) else s)"

definition smp_br_pairing_complete_act :: "smp_sys \<Rightarrow> smp_sys" where
  "smp_br_pairing_complete_act s = (if total_tx_unacked s = 0 then smp_proc_pairing_cmpl s else s)"

definition smp_fast_conn_param_act :: "smp_sys \<Rightarrow> smp_sys" where
  "smp_fast_conn_param_act s =
     (case s_dev s (pairing_bda s) of
        Some r \<Rightarrow> if dr_skip_update_conn_param r then s else out (Out_Update_Conn_Params (pairing_bda s) False) s
      | None \<Rightarrow> out (Out_Update_Conn_Params (pairing_bda s) False) s)"

section \<open>LE Secure Connections\<close>

definition smp_both_have_public_keys_act :: "smp_env \<Rightarrow> smp_event_fun \<Rightarrow> smp_event_fun \<Rightarrow> smp_sys \<Rightarrow> smp_sys" where
  "smp_both_have_public_keys_act e sm br s =
     (let s = smp_compute_dhkey s;
          s = (if smp_role s = HCI_ROLE_SLAVE then smp_send_pair_public_key_act e sm br s else s) in
      sm SMP_SC_DHKEY_CMPLT_EVT No_Data s)"

definition smp_process_secure_connection_oob_data_act :: "smp_env \<Rightarrow> smp_event_fun \<Rightarrow> smp_sys \<Rightarrow> smp_sys" where
  "smp_process_secure_connection_oob_data_act e sm s =
     (let loc = loc_oob_data (sc_oob_data s); peer = peer_oob_data (sc_oob_data s);
          s = s\<lparr>local_random := (if lo_present loc then take 16 (lo_randomizer loc) else zeros 16)\<rparr> in
      if \<not> po_present peer then smp_start_nonce_generation e sm (s\<lparr>peer_random := zeros 16\<rparr>)
      else let s = s\<lparr>peer_random := take 16 (po_randomizer peer), remote_commitment := take 16 (po_commitment peer)\<rparr>;
               (ok, s) = smp_check_commitment e s in
           if \<not> ok then sm SMP_AUTH_CMPL_EVT (Status SMP_CONFIRM_VALUE_ERR) (s\<lparr>failure := SMP_CONFIRM_VALUE_ERR\<rparr>)
           else smp_start_nonce_generation e sm
                  (if peer_oob_flag s \<noteq> SMP_OOB_PRESENT then s\<lparr>local_random := zeros 16\<rparr> else s))"

definition smp_start_secure_connection_phase1_act :: "smp_env \<Rightarrow> smp_event_fun \<Rightarrow> smp_sys \<Rightarrow> smp_sys" where
  "smp_start_secure_connection_phase1_act e sm s =
     (let m = selected_association_model s;
          s = s\<lparr>sec_level := (if m = SMP_MODEL_SEC_CONN_JUSTWORKS then SMP_SEC_UNAUTHENTICATE else SMP_SEC_AUTHENTICATED)\<rparr> in
      if m = SMP_MODEL_SEC_CONN_JUSTWORKS \<or> m = SMP_MODEL_SEC_CONN_NUM_COMP
      then smp_start_nonce_generation e sm (s\<lparr>local_random := zeros 16\<rparr>)
      else if m = SMP_MODEL_SEC_CONN_PASSKEY_ENT then sm SMP_TK_REQ_EVT No_Data (s\<lparr>cb_evt := SMP_PASSKEY_REQ_EVT\<rparr>)
      else if m = SMP_MODEL_SEC_CONN_PASSKEY_DISP then smp_generate_passkey e sm s
      else if m = SMP_MODEL_SEC_CONN_OOB then smp_process_secure_connection_oob_data_act e sm s
      else s)"

definition smp_process_local_nonce_act :: "smp_env \<Rightarrow> smp_event_fun \<Rightarrow> smp_event_fun \<Rightarrow> smp_sys \<Rightarrow> smp_sys" where
  "smp_process_local_nonce_act e sm br s =
     (let m = selected_association_model s in
      if m = SMP_MODEL_SEC_CONN_JUSTWORKS \<or> m = SMP_MODEL_SEC_CONN_NUM_COMP then
        (if smp_role s = HCI_ROLE_SLAVE
         then smp_set_state SMP_STATE_WAIT_NONCE (smp_send_commitment_act e sm br (smp_calculate_local_commitment e s))
         else if flags s AND SMP_PAIR_FLAG_HAVE_PEER_COMM \<noteq> 0
         then smp_set_state SMP_STATE_WAIT_NONCE
                (smp_send_rand_act e sm br (s\<lparr>flags := flags s AND NOT SMP_PAIR_FLAG_HAVE_PEER_COMM\<rparr>))
         else s)
      else if m = SMP_MODEL_SEC_CONN_PASSKEY_ENT \<or> m = SMP_MODEL_SEC_CONN_PASSKEY_DISP then
        (let s = smp_calculate_local_commitment e s in
         if smp_role s = HCI_ROLE_MASTER then smp_send_commitment_act e sm br s
         else if flags s AND SMP_PAIR_FLAG_HAVE_PEER_COMM \<noteq> 0
         then smp_set_state SMP_STATE_WAIT_NONCE (smp_send_commitment_act e sm br s)
         else s)
      else if m = SMP_MODEL_SEC_CONN_OOB then
        smp_set_state SMP_STATE_WAIT_NONCE (if smp_role s = HCI_ROLE_MASTER then smp_send_rand_act e sm br s else s)
      else s)"

definition commitment_failed :: "smp_event_fun \<Rightarrow> smp_sys \<Rightarrow> smp_sys" where
  "commitment_failed sm s = sm SMP_AUTH_CMPL_EVT (Status SMP_CONFIRM_VALUE_ERR) (s\<lparr>failure := SMP_CONFIRM_VALUE_ERR\<rparr>)"

definition smp_process_peer_nonce_act :: "smp_env \<Rightarrow> smp_event_fun \<Rightarrow> smp_event_fun \<Rightarrow> smp_sys \<Rightarrow> smp_sys" where
  "smp_process_peer_nonce_act e sm br s =
     (let m = selected_association_model s in
      if m = SMP_MODEL_SEC_CONN_JUSTWORKS \<or> m = SMP_MODEL_SEC_CONN_NUM_COMP then
        (let (ok, s) = (if smp_role s = HCI_ROLE_MASTER then smp_check_commitment e s
                        else (True, smp_send_rand_act e sm br s)) in
         if \<not> ok then commitment_failed sm s
         else if selected_association_model s = SMP_MODEL_SEC_CONN_JUSTWORKS then sm SMP_SC_PHASE1_CMPLT_EVT No_Data s
         else sm SMP_SC_CALC_NC_EVT No_Data (smp_set_state SMP_STATE_WAIT_NONCE s))
      else if m = SMP_MODEL_SEC_CONN_PASSKEY_ENT \<or> m = SMP_MODEL_SEC_CONN_PASSKEY_DISP then
        (let (ok, s) = smp_check_commitment e s in
         if \<not> ok then commitment_failed sm s
         else let s = (if smp_role s = HCI_ROLE_SLAVE then smp_send_rand_act e sm br s else s);
                  s = s\<lparr>round := round s + 1\<rparr> in
              if round s < 20 then
                smp_start_nonce_generation e sm
                  ((smp_set_state SMP_STATE_SEC_CONN_PHS1_START s)\<lparr>flags := flags s AND NOT SMP_PAIR_FLAG_HAVE_PEER_COMM\<rparr>)
              else sm SMP_SC_PHASE1_CMPLT_EVT No_Data s)
      else if m = SMP_MODEL_SEC_CONN_OOB then
        sm SMP_SC_PHASE1_CMPLT_EVT No_Data (if smp_role s = HCI_ROLE_SLAVE then smp_send_rand_act e sm br s else s)
      else s)"

definition smp_match_dhkey_checks_act :: "smp_event_fun \<Rightarrow> smp_data \<Rightarrow> smp_sys \<Rightarrow> smp_sys" where
  "smp_match_dhkey_checks_act sm d s =
     (case d of
        Key ty p \<Rightarrow>
          if take 16 p \<noteq> take 16 (remote_dhkey_check s)
          then sm SMP_AUTH_CMPL_EVT (Status SMP_DHKEY_CHK_FAIL) (s\<lparr>failure := SMP_DHKEY_CHK_FAIL\<rparr>)
          else let s = smaller_key_size s in
            if smp_role s = HCI_ROLE_SLAVE then sm SMP_PAIR_DHKEY_CHCK_EVT No_Data s
            else sm SMP_ENC_REQ_EVT No_Data (s\<lparr>local_i_key := peer_i_key s, local_r_key := peer_r_key s\<rparr>)
      | _ \<Rightarrow> bad s)"

definition smp_move_to_secure_connections_phase2_act :: "smp_event_fun \<Rightarrow> smp_sys \<Rightarrow> smp_sys" where
  "smp_move_to_secure_connections_phase2_act sm s = sm SMP_SC_PHASE1_CMPLT_EVT No_Data s"

definition smp_phase_2_dhkey_checks_are_present_act :: "smp_event_fun \<Rightarrow> smp_sys \<Rightarrow> smp_sys" where
  "smp_phase_2_dhkey_checks_are_present_act sm s =
     (if flags s AND SMP_PAIR_FLAG_HAVE_PEER_DHK_CHK \<noteq> 0 then sm SMP_SC_2_DHCK_CHKS_PRES_EVT No_Data s else s)"

definition smp_start_passkey_verification_act :: "smp_env \<Rightarrow> smp_event_fun \<Rightarrow> smp_data \<Rightarrow> smp_sys \<Rightarrow> smp_sys" where
  "smp_start_passkey_verification_act e sm d s =
     (case data_passkey d of
        None \<Rightarrow> bad s
      | Some passkey \<Rightarrow>
          smp_start_nonce_generation e sm
            (s\<lparr>local_random := put_u32 passkey @ drop 4 (local_random s),
               peer_random := put_u32 passkey @ drop 4 (peer_random s), round := 0\<rparr>))"

definition smp_set_local_oob_keys_act :: "smp_env \<Rightarrow> smp_event_fun \<Rightarrow> smp_sys \<Rightarrow> smp_sys" where
  "smp_set_local_oob_keys_act e sm s =
     (let oob = sc_oob_data s in
      smp_start_nonce_generation e sm
        (s\<lparr>sc_oob_data := oob\<lparr>loc_oob_data := (loc_oob_data oob)\<lparr>lo_private_key_used := private_key s,
                                              lo_publ_key_used := loc_publ_key s\<rparr>\<rparr>\<rparr>))"

definition smp_set_local_oob_random_commitment_act :: "smp_env \<Rightarrow> smp_event_fun \<Rightarrow> smp_event_fun \<Rightarrow> smp_sys \<Rightarrow> smp_sys" where
  "smp_set_local_oob_random_commitment_act e sm br s =
     (let oob = sc_oob_data s;
          x = pk_x (lo_publ_key_used (loc_oob_data oob));
          c = smp_calculate_f4 (e_mem e (s_clock s)) (stack_bytes e (s_clock s) 16) x x (rand s) 0;
          s = tick (s\<lparr>sc_oob_data := oob\<lparr>loc_oob_data := (loc_oob_data oob)\<lparr>lo_randomizer := take 16 (rand s),
                                                                 lo_commitment := c\<rparr>\<rparr>,
                      cb_evt := SMP_SC_LOC_OOB_DATA_UP_EVT\<rparr>) in
      smp_cb_cleanup (smp_send_app_cback_act e sm br No_Data s))"

end
