(* ===== verification/SmpRun.thy ===== *)
theory SmpRun
  imports SmpAct
begin

text \<open>
  The security manager as a whole: the action table filled with the functions of \<open>smp_act.c\<close>, the two
  state machines that call them and are called by them (\<open>smp_sm_event\<close>, \<open>smp_br_state_machine_event\<close>),
  the answer of the controller to a request for random numbers (\<open>smp_rand_back\<close> of \<open>smp_keys.c\<close>), the
  events of L2CAP (\<open>smp_l2c.c\<close>) and of the link (\<open>smp_act.c\<close>).
\<close>

unbundle bit_operations_syntax

section \<open>The actions\<close>

definition smp_action :: "smp_env \<Rightarrow> smp_event_fun \<Rightarrow> smp_event_fun \<Rightarrow> smp_act \<Rightarrow> smp_data \<Rightarrow> smp_sys \<Rightarrow> smp_sys" where
  "smp_action e sm br a d s = (case a of
     smp_proc_sec_req \<Rightarrow> smp_proc_sec_req_act e sm d s
   | smp_send_pair_req \<Rightarrow> smp_send_pair_req_act e sm br s
   | smp_send_pair_rsp \<Rightarrow> smp_send_pair_rsp_act e sm br s
   | smp_send_confirm \<Rightarrow> smp_send_confirm_act e sm br s
   | smp_send_pair_fail \<Rightarrow> smp_send_pair_fail_act e sm br d s
   | smp_send_rand \<Rightarrow> smp_send_rand_act e sm br s
   | smp_send_enc_info \<Rightarrow> smp_send_enc_info_act e sm br (smp_key_distribution_act e sm br) s
   | smp_send_id_info \<Rightarrow> smp_send_id_info_act e sm br (distribute_by_transport e sm br) s
   | smp_send_ltk_reply \<Rightarrow> smp_send_ltk_reply_act d s
   | smp_proc_pair_cmd \<Rightarrow> smp_proc_pair_cmd_act e sm br d s
   | smp_proc_pair_fail \<Rightarrow> smp_proc_pair_fail_act d s
   | smp_proc_confirm \<Rightarrow> smp_proc_confirm_act sm d s
   | smp_proc_rand \<Rightarrow> smp_proc_rand_act sm d s
   | smp_proc_enc_info \<Rightarrow> smp_proc_enc_info_act e sm br d s
   | smp_proc_master_id \<Rightarrow> smp_proc_master_id_act e sm br d s
   | smp_proc_id_info \<Rightarrow> smp_proc_id_info_act e sm br d s
   | smp_proc_id_addr \<Rightarrow> smp_proc_id_addr_act e sm br d s
   | smp_proc_srk_info \<Rightarrow> smp_proc_srk_info_act e sm br d s
   | smp_proc_sec_grant \<Rightarrow> smp_proc_sec_grant_act sm d s
   | smp_proc_sl_key \<Rightarrow> smp_proc_sl_key_act e sm d s
   | smp_proc_compare \<Rightarrow> smp_proc_compare_act sm d s
   | smp_process_io_response \<Rightarrow> smp_process_io_response_act e sm br s
   | smp_generate_compare \<Rightarrow> smp_generate_compare_act e sm s
   | smp_generate_srand_mrand_confirm \<Rightarrow> smp_generate_srand_mrand_confirm_act e sm s
   | smp_generate_stk \<Rightarrow> smp_generate_stk_act e sm s
   | smp_key_distribution \<Rightarrow> smp_key_distribution_act e sm br s
   | smp_start_enc \<Rightarrow> smp_start_enc_act e sm d s
   | smp_pairing_cmpl \<Rightarrow> smp_pairing_cmpl_act s
   | smp_decide_association_model \<Rightarrow> smp_decide_association_model_act e sm s
   | smp_send_app_cback \<Rightarrow> smp_send_app_cback_act e sm br d s
   | smp_check_auth_req \<Rightarrow> smp_check_auth_req_act sm d s
   | smp_pair_terminate \<Rightarrow> smp_pair_terminate_act s
   | smp_enc_cmpl \<Rightarrow> smp_enc_cmpl_act sm d s
   | smp_proc_discard \<Rightarrow> smp_proc_discard_act s
   | smp_create_private_key \<Rightarrow> smp_create_private_key_act e sm s
   | smp_use_oob_private_key \<Rightarrow> smp_use_oob_private_key_act e sm s
   | smp_send_pair_public_key \<Rightarrow> smp_send_pair_public_key_act e sm br s
   | smp_process_pairing_public_key \<Rightarrow> smp_process_pairing_public_key_act sm d s
   | smp_both_have_public_keys \<Rightarrow> smp_both_have_public_keys_act e sm br s
   | smp_start_secure_connection_phase1 \<Rightarrow> smp_start_secure_connection_phase1_act e sm s
   | smp_process_local_nonce \<Rightarrow> smp_process_local_nonce_act e sm br s
   | smp_send_commitment \<Rightarrow> smp_send_commitment_act e sm br s
   | smp_process_pairing_commitment \<Rightarrow> smp_process_pairing_commitment_act sm d s
   | smp_process_peer_nonce \<Rightarrow> smp_process_peer_nonce_act e sm br s
   | smp_calculate_local_dhkey_check \<Rightarrow> smp_calculate_local_dhkey_check_act e s
   | smp_send_dhkey_check \<Rightarrow> smp_send_dhkey_check_act e sm br s
   | smp_process_dhkey_check \<Rightarrow> smp_process_dhkey_check_act sm d s
   | smp_calculate_peer_dhkey_check \<Rightarrow> smp_calculate_peer_dhkey_check_act e sm s
   | smp_match_dhkey_checks \<Rightarrow> smp_match_dhkey_checks_act sm d s
   | smp_calculate_numeric_comparison_display_number \<Rightarrow> smp_calculate_numeric_comparison_display_number_act e sm s
   | smp_move_to_secure_connections_phase2 \<Rightarrow> smp_move_to_secure_connections_phase2_act sm s
   | smp_phase_2_dhkey_checks_are_present \<Rightarrow> smp_phase_2_dhkey_checks_are_present_act sm s
   | smp_wait_for_both_public_keys \<Rightarrow> smp_wait_for_both_public_keys_act sm s
   | smp_start_passkey_verification \<Rightarrow> smp_start_passkey_verification_act e sm d s
   | smp_send_keypress_notification \<Rightarrow> smp_send_keypress_notification_act e sm br d s
   | smp_process_keypress_notification \<Rightarrow> smp_process_keypress_notification_act sm d s
   | smp_process_secure_connection_oob_data \<Rightarrow> smp_process_secure_connection_oob_data_act e sm s
   | smp_set_local_oob_keys \<Rightarrow> smp_set_local_oob_keys_act e sm s
   | smp_set_local_oob_random_commitment \<Rightarrow> smp_set_local_oob_random_commitment_act e sm br s
   | smp_idle_terminate \<Rightarrow> smp_idle_terminate_act s
   | smp_fast_conn_param \<Rightarrow> smp_fast_conn_param_act s
   | smp_br_send_pair_response \<Rightarrow> smp_br_send_pair_response_act e sm br s
   | smp_br_process_pairing_command \<Rightarrow> smp_br_process_pairing_command_act br d s
   | smp_br_process_security_grant \<Rightarrow> smp_br_process_security_grant_act br d s
   | smp_br_process_slave_keys_response \<Rightarrow> smp_br_process_slave_keys_response_act e sm br s
   | smp_br_select_next_key \<Rightarrow> smp_br_select_next_key_act e sm br s
   | smp_br_pairing_complete \<Rightarrow> smp_br_pairing_complete_act s
   | smp_br_check_authorization_request \<Rightarrow> smp_br_check_authorization_request_act e sm br s)"

section \<open>The machines\<close>

text \<open>
  Actions raise events, which run further actions.  \<open>n\<close> bounds the depth of that nesting; a deeper one
  sets \<open>s_bad\<close>, as does a table entry out of bounds.
\<close>

fun smp_events :: "smp_env \<Rightarrow> nat \<Rightarrow> bool \<Rightarrow> u8 \<Rightarrow> smp_data \<Rightarrow> smp_sys \<Rightarrow> smp_sys" where
  "smp_events e 0 over_br event d s = bad s"
| "smp_events e (Suc n) over_br event d s =
     (let act = smp_action e (smp_events e n False) (smp_events e n True) in
      case (if over_br then smp_br_state_machine_event act s event d else smp_sm_event act s event d) of
        None \<Rightarrow> bad s
      | Some s \<Rightarrow> s)"

abbreviation sm_of :: "smp_env \<Rightarrow> nat \<Rightarrow> smp_event_fun" where "sm_of e n \<equiv> smp_events e n False"
abbreviation br_of :: "smp_env \<Rightarrow> nat \<Rightarrow> smp_event_fun" where "br_of e n \<equiv> smp_events e n True"

section \<open>Random numbers\<close>

definition smp_rand_back :: "smp_env \<Rightarrow> smp_event_fun \<Rightarrow> smp_event_fun \<Rightarrow> tSMP_ENC option \<Rightarrow> smp_sys \<Rightarrow> smp_sys" where
  "smp_rand_back e sm br answer s =
     (case answer of
        Some p \<Rightarrow>
          if enc_status p = 0 then
            (let st = rand_enc_proc_state s AND NOT 0x80;
                 buf = enc_param_buf p;
                 put = (\<lambda>off cont. case mem_put off p (rand s) of None \<Rightarrow> bad s | Some r \<Rightarrow> cont (s\<lparr>rand := r\<rparr>)) in
             if st = SMP_GEN_SRAND_MRAND then put 0 (smp_generate_rand_cont e sm)
             else if st = SMP_GEN_SRAND_MRAND_CONT then put 8 (smp_generate_confirm e sm)
             else if st = SMP_GEN_DIV_LTK then smp_generate_ltk_cont e sm (s\<lparr>pcb_div := get_u16 buf\<rparr>)
             else if st = SMP_GEN_DIV_CSRK
             then smp_compute_csrk e sm br (distribute_by_transport e sm br) (s\<lparr>pcb_div := get_u16 buf\<rparr>)
             else if st = SMP_GEN_TK then smp_proc_passkey sm buf s
             else if st = SMP_GEN_RAND_V then smp_generate_y e sm (s\<lparr>enc_rand := take 8 buf\<rparr>)
             else if st = SMP_GENERATE_PRIVATE_KEY_0_7 \<or> st = SMP_GENERATE_PRIVATE_KEY_8_15 \<or>
                     st = SMP_GENERATE_PRIVATE_KEY_16_23 \<or> st = SMP_GENERATE_PRIVATE_KEY_24_31
             then smp_continue_private_key_creation e sm p s
             else if st = SMP_GEN_NONCE_0_7 then put 0 (smp_finish_nonce_generation e sm)
             else if st = SMP_GEN_NONCE_8_15 then put 8 (smp_process_new_nonce sm)
             else s)
          else smp_rand_failed sm s
      | None \<Rightarrow> smp_rand_failed sm s)"

section \<open>L2CAP\<close>

abbreviation (input) BT_TRANSPORT_BR_EDR :: u8 where "BT_TRANSPORT_BR_EDR \<equiv> 1"
abbreviation (input) SMP_DEFAULT_AUTH_REQ :: u8 where "SMP_DEFAULT_AUTH_REQ \<equiv> 0"

definition smp_l2cap_if_init :: "smp_sys \<Rightarrow> smp_sys" where
  "smp_l2cap_if_init s = out (Out_Register L2CAP_SMP_BR_CID) (out (Out_Register L2CAP_SMP_CID) s)"

definition smp_connect_callback ::
    "smp_env \<Rightarrow> smp_event_fun \<Rightarrow> bytes \<Rightarrow> bool \<Rightarrow> u16 \<Rightarrow> u8 \<Rightarrow> smp_sys \<Rightarrow> smp_sys" where
  "smp_connect_callback e sm bd_addr connected reason transport s =
     (if transport = BT_TRANSPORT_BR_EDR \<or> bd_addr = zeros 6 then s
      else let s = (if \<not> connected then out Out_Timer_Free s else s) in
        if bd_addr = pairing_bda s then
          (if connected then
             (if \<not> connect_initialized s then
                sm SMP_L2CAP_CONN_EVT No_Data
                  (s\<lparr>connect_initialized := True, smp_role := e_ble_role e bd_addr,
                     local_i_key := SMP_SEC_DEFAULT_KEY, local_r_key := SMP_SEC_DEFAULT_KEY,
                     loc_auth_req := SMP_DEFAULT_AUTH_REQ, peer_auth_req := SMP_DEFAULT_AUTH_REQ,
                     cb_evt := SMP_IO_CAP_REQ_EVT\<rparr>)
              else s)
           else sm SMP_L2CAP_DISCONN_EVT (Disc_Reason reason) s)
        else s)"

text \<open>\<open>p_buf\<close> is the data of the packet; \<open>p_buf->len\<close> its length.\<close>

definition smp_data_received :: "smp_env \<Rightarrow> smp_event_fun \<Rightarrow> bytes \<Rightarrow> bytes \<Rightarrow> smp_sys \<Rightarrow> smp_sys" where
  "smp_data_received e sm bd_addr p_buf s =
     (case p_buf of
        [] \<Rightarrow> bad s
      | cmd # p \<Rightarrow>
          if SMP_OPCODE_MAX < cmd \<or> cmd < SMP_OPCODE_MIN then s
          else
            (let is_req = (cmd = SMP_OPCODE_PAIRING_REQ \<or> cmd = SMP_OPCODE_SEC_REQ);
                 idle = (smp_state s = SMP_STATE_IDLE \<and> smp_br_state s = SMP_BR_STATE_IDLE \<and>
                         flags s AND SMP_PAIR_FLAGS_WE_STARTED_DD = 0) in
             if is_req \<and> \<not> idle \<and> bd_addr \<noteq> pairing_bda s then smp_reject_unexpected_pairing_command e bd_addr s
             else let s = (if is_req \<and> idle then s\<lparr>smp_role := e_ble_role e bd_addr, pairing_bda := bd_addr\<rparr> else s) in
               if bd_addr = pairing_bda s then
                 (let s = out Out_Timer_Start (out Out_Timer_Stop s);
                      cmd = (if cmd = SMP_OPCODE_CONFIRM \<and> peer_auth_req s AND SMP_SC_SUPPORT_BIT \<noteq> 0 \<and>
                                loc_auth_req s AND SMP_SC_SUPPORT_BIT \<noteq> 0
                             then SMP_OPCODE_PAIR_COMMITM else cmd) in
                  sm cmd (Cmd p) (s\<lparr>rcvd_cmd_code := cmd, rcvd_cmd_len := of_nat (length p_buf)\<rparr>))
               else s))"

definition smp_tx_complete_callback :: "smp_event_fun \<Rightarrow> smp_event_fun \<Rightarrow> u16 \<Rightarrow> u16 \<Rightarrow> smp_sys \<Rightarrow> smp_sys" where
  "smp_tx_complete_callback sm br cid num_pkt s =
     (let s = (if num_pkt \<le> total_tx_unacked s then s\<lparr>total_tx_unacked := total_tx_unacked s - num_pkt\<rparr> else s) in
      if total_tx_unacked s = 0 \<and> wait_for_authorization_complete s then
        (if cid = L2CAP_SMP_CID then sm SMP_AUTH_CMPL_EVT (Status SMP_SUCCESS) s
         else br SMP_BR_AUTH_CMPL_EVT (Status SMP_SUCCESS) s)
      else s)"

definition smp_br_connect_callback ::
    "smp_event_fun \<Rightarrow> bytes \<Rightarrow> bool \<Rightarrow> u16 \<Rightarrow> u8 \<Rightarrow> smp_sys \<Rightarrow> smp_sys" where
  "smp_br_connect_callback br bd_addr connected reason transport s =
     (if transport \<noteq> BT_TRANSPORT_BR_EDR then s
      else if bd_addr \<noteq> pairing_bda s then s
      else if connected then
        (if \<not> connect_initialized s then
           br SMP_BR_L2CAP_CONN_EVT No_Data
             (s\<lparr>connect_initialized := True, local_i_key := SMP_BR_SEC_DEFAULT_KEY, local_r_key := SMP_BR_SEC_DEFAULT_KEY,
                loc_auth_req := 0, peer_auth_req := 0, cb_evt := SMP_BR_KEYS_REQ_EVT\<rparr>)
         else s)
      else br SMP_BR_L2CAP_DISCONN_EVT (Disc_Reason reason) s)"

definition smp_br_data_received :: "smp_env \<Rightarrow> smp_event_fun \<Rightarrow> bytes \<Rightarrow> bytes \<Rightarrow> smp_sys \<Rightarrow> smp_sys" where
  "smp_br_data_received e br bd_addr p_buf s =
     (case p_buf of
        [] \<Rightarrow> bad s
      | cmd # p \<Rightarrow>
          if SMP_OPCODE_MAX < cmd \<or> cmd < SMP_OPCODE_MIN then s
          else
            (let is_req = (cmd = SMP_OPCODE_PAIRING_REQ);
                 idle = (smp_state s = SMP_STATE_IDLE \<and> smp_br_state s = SMP_BR_STATE_IDLE) in
             if is_req \<and> \<not> idle \<and> bd_addr \<noteq> pairing_bda s then smp_reject_unexpected_pairing_command e bd_addr s
             else let s = (if is_req \<and> idle
                           then s\<lparr>smp_role := HCI_ROLE_SLAVE, smp_over_br := True, pairing_bda := bd_addr\<rparr> else s) in
               if bd_addr = pairing_bda s then
                 br cmd (Cmd p)
                   ((out Out_Timer_Start (out Out_Timer_Stop s))\<lparr>rcvd_cmd_code := cmd, rcvd_cmd_len := of_nat (length p_buf)\<rparr>)
               else s))"

section \<open>The link\<close>

definition smp_link_encrypted :: "smp_event_fun \<Rightarrow> bytes \<Rightarrow> u8 \<Rightarrow> smp_sys \<Rightarrow> smp_sys" where
  "smp_link_encrypted sm bda encr_enable s =
     (if pairing_bda s = bda then
        sm SMP_ENCRYPTED_EVT (Status encr_enable)
          (if loc_enc_size s \<noteq> 0 \<and> encr_enable \<noteq> 0 then out (Out_Key_Size bda (loc_enc_size s)) s else s)
      else case s_dev s bda of
             Some r \<Rightarrow>
               if \<not> dr_enc_init_by_we r then
                 sm SMP_ENCRYPTED_EVT (Status encr_enable)
                   (s\<lparr>pairing_bda := bda, smp_state := SMP_STATE_ENCRYPTION_PENDING, smp_role := HCI_ROLE_SLAVE,
                      s_dev := (s_dev s)(bda \<mapsto> r\<lparr>dr_enc_init_by_we := False\<rparr>)\<rparr>)
               else s
           | None \<Rightarrow> s)"

definition smp_proc_ltk_request :: "smp_event_fun \<Rightarrow> bytes \<Rightarrow> smp_sys \<Rightarrow> bool \<times> smp_sys" where
  "smp_proc_ltk_request sm bda s =
     (let match = (if bda = pairing_bda s then True
                   else case s_dev s bda of
                          Some r \<Rightarrow> dr_pseudo_addr r = pairing_bda s \<and> dr_pseudo_addr r \<noteq> zeros 6
                        | None \<Rightarrow> False) in
      if match \<and> smp_state s = SMP_STATE_ENCRYPTION_PENDING then (True, sm SMP_ENC_REQ_EVT No_Data s) else (False, s))"

end
