(* ===== verification/SmpApi.thy ===== *)
theory SmpApi
  imports SmpRun
begin

text \<open>
  The interface of the security manager, \<open>stack/smp/smp_api.c\<close>: what the application and the Bluetooth
  manager call.
\<close>

unbundle bit_operations_syntax

abbreviation (input) SMP_BUSY :: u8 where "SMP_BUSY \<equiv> 0x13"
abbreviation (input) SMP_STARTED :: u8 where "SMP_STARTED \<equiv> 0x15"
abbreviation (input) SMP_NUMERIC_COMPAR_FAIL :: u8 where "SMP_NUMERIC_COMPAR_FAIL \<equiv> 0x0C"
abbreviation (input) SMP_IO_CAP_IN :: u8 where "SMP_IO_CAP_IN \<equiv> 2"

text \<open>\<open>level\<close> is the initial trace level of the configuration; the curve is set up in \<open>MpMod\<close>.\<close>

definition SMP_Init :: "u8 \<Rightarrow> smp_sys \<Rightarrow> smp_sys" where
  "SMP_Init level s = smp_l2cap_if_init (tSMP_CB.extend (zero_smp_cb\<lparr>trace_level := level\<rparr>) (tSMP_CB.more s))"

definition SMP_Free :: "smp_sys \<Rightarrow> smp_sys" where
  "SMP_Free s = tSMP_CB.extend zero_smp_cb (tSMP_CB.more s)"

definition SMP_SetTraceLevel :: "u8 \<Rightarrow> smp_sys \<Rightarrow> u8 \<times> smp_sys" where
  "SMP_SetTraceLevel new_level s =
     (let s = (if new_level \<noteq> 0xFF then s\<lparr>trace_level := new_level\<rparr> else s) in (trace_level s, s))"

definition SMP_Register :: "bool \<Rightarrow> smp_sys \<Rightarrow> bool \<times> smp_sys" where
  "SMP_Register p_cback s = (True, s\<lparr>p_callback := p_cback\<rparr>)"

definition SMP_Pair :: "smp_env \<Rightarrow> smp_event_fun \<Rightarrow> bytes \<Rightarrow> smp_sys \<Rightarrow> u8 \<times> smp_sys" where
  "SMP_Pair e sm bd_addr s =
     (if smp_state s \<noteq> SMP_STATE_IDLE \<or> flags s AND SMP_PAIR_FLAGS_WE_STARTED_DD \<noteq> 0 \<or> smp_over_br s then (SMP_BUSY, s)
      else let s = s\<lparr>flags := SMP_PAIR_FLAGS_WE_STARTED_DD, pairing_bda := bd_addr\<rparr>;
               ok = e_connect_ok e (s_clock s);
               s = out (Out_Connect L2CAP_SMP_CID bd_addr) s in
        if \<not> ok then (SMP_PAIR_INTERNAL_ERR, sm SMP_AUTH_CMPL_EVT (Status SMP_PAIR_INTERNAL_ERR) s) else (SMP_STARTED, s))"

definition SMP_BR_PairWith :: "smp_env \<Rightarrow> smp_event_fun \<Rightarrow> bytes \<Rightarrow> smp_sys \<Rightarrow> u8 \<times> smp_sys" where
  "SMP_BR_PairWith e br bd_addr s =
     (if smp_state s \<noteq> SMP_STATE_IDLE \<or> smp_over_br s \<or> flags s AND SMP_PAIR_FLAGS_WE_STARTED_DD \<noteq> 0 then (SMP_BUSY, s)
      else let s = s\<lparr>smp_role := HCI_ROLE_MASTER, flags := SMP_PAIR_FLAGS_WE_STARTED_DD, smp_over_br := True,
                     pairing_bda := bd_addr\<rparr>;
               ok = e_connect_ok e (s_clock s);
               s = out (Out_Connect L2CAP_SMP_BR_CID bd_addr) s in
        if \<not> ok then (SMP_PAIR_INTERNAL_ERR, br SMP_BR_AUTH_CMPL_EVT (Status SMP_PAIR_INTERNAL_ERR) s) else (SMP_STARTED, s))"

definition SMP_PairCancel :: "smp_event_fun \<Rightarrow> bytes \<Rightarrow> smp_sys \<Rightarrow> bool \<times> smp_sys" where
  "SMP_PairCancel sm bd_addr s =
     (if smp_state s \<noteq> SMP_STATE_IDLE \<and> pairing_bda s = bd_addr
      then (True, sm SMP_AUTH_CMPL_EVT (Status SMP_PAIR_FAIL_UNKNOWN) (s\<lparr>is_pair_cancel := True\<rparr>))
      else (False, s))"

definition SMP_SecurityGrant :: "smp_event_fun \<Rightarrow> smp_event_fun \<Rightarrow> bytes \<Rightarrow> u8 \<Rightarrow> smp_sys \<Rightarrow> smp_sys" where
  "SMP_SecurityGrant sm br bd_addr res s =
     (if smp_over_br s then
        (if smp_br_state s \<noteq> SMP_BR_STATE_WAIT_APP_RSP \<or> cb_evt s \<noteq> SMP_SEC_REQUEST_EVT \<or> pairing_bda s \<noteq> bd_addr then s
         else br SMP_BR_API_SEC_GRANT_EVT (Status res) (s\<lparr>cb_evt := 0\<rparr>))
      else if smp_state s \<noteq> SMP_STATE_WAIT_APP_RSP \<or> cb_evt s \<noteq> SMP_SEC_REQUEST_EVT \<or> pairing_bda s \<noteq> bd_addr then s
      else sm SMP_API_SEC_GRANT_EVT (Status res) (s\<lparr>cb_evt := 0\<rparr>))"

definition SMP_PasskeyReply :: "smp_event_fun \<Rightarrow> bytes \<Rightarrow> u8 \<Rightarrow> u32 \<Rightarrow> smp_sys \<Rightarrow> smp_sys" where
  "SMP_PasskeyReply sm bd_addr res passkey s =
     (if cb_evt s \<noteq> SMP_PASSKEY_REQ_EVT then s
      else if bd_addr \<noteq> pairing_bda s then s
      else if s_dev s bd_addr = None then s
      else if BTM_MAX_PASSKEY_VAL < passkey \<or> res \<noteq> SMP_SUCCESS
      then sm SMP_AUTH_CMPL_EVT (Status SMP_PASSKEY_ENTRY_FAIL) s
      else if selected_association_model s = SMP_MODEL_SEC_CONN_PASSKEY_ENT
      then sm SMP_SC_KEY_READY_EVT (Passkey passkey) s
      else smp_convert_string_to_tk sm passkey s)"

definition SMP_SetStaticPasskey :: "bool \<Rightarrow> u32 \<Rightarrow> smp_sys \<Rightarrow> smp_sys" where
  "SMP_SetStaticPasskey add passkey s =
     (if add then s\<lparr>static_passkey := passkey, use_static_passkey := True\<rparr>
      else s\<lparr>static_passkey := 0, use_static_passkey := False\<rparr>)"

definition SMP_ConfirmReply :: "smp_event_fun \<Rightarrow> bytes \<Rightarrow> u8 \<Rightarrow> smp_sys \<Rightarrow> smp_sys" where
  "SMP_ConfirmReply sm bd_addr res s =
     (if cb_evt s \<noteq> SMP_NC_REQ_EVT then s
      else if bd_addr \<noteq> pairing_bda s then s
      else if s_dev s bd_addr = None then s
      else if res \<noteq> SMP_SUCCESS then sm SMP_AUTH_CMPL_EVT (Status SMP_NUMERIC_COMPAR_FAIL) s
      else sm SMP_SC_NC_OK_EVT No_Data s)"

text \<open>\<open>p_data\<close> is \<open>None\<close> for a null pointer; \<open>len\<close> bytes are copied from it.\<close>

definition SMP_OobDataReply :: "smp_event_fun \<Rightarrow> u8 \<Rightarrow> u8 \<Rightarrow> bytes option \<Rightarrow> smp_sys \<Rightarrow> smp_sys" where
  "SMP_OobDataReply sm res len p_data s =
     (if smp_state s \<noteq> SMP_STATE_WAIT_APP_RSP \<or> cb_evt s \<noteq> SMP_OOB_REQ_EVT then s
      else case p_data of
             Some p \<Rightarrow>
               if res \<noteq> SMP_SUCCESS \<or> len = 0 then sm SMP_AUTH_CMPL_EVT (Status SMP_OOB_FAIL) s
               else let n = min 16 (unat len) in
                 if length p < n then bad s
                 else let s = s\<lparr>tk := take n p @ drop n (tk s)\<rparr> in
                   sm SMP_KEY_READY_EVT (Key SMP_KEY_TYPE_TK (tk s)) s
           | None \<Rightarrow> sm SMP_AUTH_CMPL_EVT (Status SMP_OOB_FAIL) s)"

definition oob_data_missing :: "u8 \<Rightarrow> tSMP_SC_OOB_DATA \<Rightarrow> bool" where
  "oob_data_missing req p_oob =
     (if req = SMP_OOB_PEER then \<not> po_present (peer_oob_data p_oob)
      else if req = SMP_OOB_LOCAL then \<not> lo_present (loc_oob_data p_oob)
      else if req = SMP_OOB_BOTH then \<not> lo_present (loc_oob_data p_oob) \<or> \<not> po_present (peer_oob_data p_oob)
      else True)"

definition SMP_SecureConnectionOobDataReply :: "smp_event_fun \<Rightarrow> tSMP_SC_OOB_DATA option \<Rightarrow> smp_sys \<Rightarrow> smp_sys" where
  "SMP_SecureConnectionOobDataReply sm p_data s =
     (case p_data of
        None \<Rightarrow> sm SMP_AUTH_CMPL_EVT (Status SMP_OOB_FAIL) s
      | Some p_oob \<Rightarrow>
          if smp_state s \<noteq> SMP_STATE_WAIT_APP_RSP \<or> cb_evt s \<noteq> SMP_SC_OOB_REQ_EVT then s
          else if oob_data_missing (req_oob_type s) p_oob then sm SMP_AUTH_CMPL_EVT (Status SMP_OOB_FAIL) s
          else sm SMP_SC_OOB_DATA_EVT (Sc_Oob p_oob) (s\<lparr>sc_oob_data := p_oob\<rparr>))"

definition SMP_KeypressNotification :: "smp_event_fun \<Rightarrow> bytes \<Rightarrow> u8 \<Rightarrow> smp_sys \<Rightarrow> smp_sys" where
  "SMP_KeypressNotification sm bd_addr val s =
     (if bd_addr \<noteq> pairing_bda s then s
      else if s_dev s bd_addr = None then s
      else if local_io_capability s \<noteq> SMP_IO_CAP_IN then s
      else if selected_association_model s \<noteq> SMP_MODEL_SEC_CONN_PASSKEY_ENT then s
      else sm SMP_KEYPRESS_NOTIFICATION_EVENT (Status val) s)"

definition SMP_CreateLocalSecureConnectionsOobData :: "smp_event_fun \<Rightarrow> bytes option \<Rightarrow> smp_sys \<Rightarrow> bool \<times> smp_sys" where
  "SMP_CreateLocalSecureConnectionsOobData sm addr_to_send_to s =
     (case addr_to_send_to of
        None \<Rightarrow> (False, s)
      | Some a \<Rightarrow>
          if smp_state s \<noteq> SMP_STATE_IDLE \<or> smp_over_br s then (False, s)
          else let oob = sc_oob_data s in
            (True, sm SMP_CR_LOC_SC_OOB_DATA_EVT No_Data
                     (s\<lparr>sc_oob_data := oob\<lparr>loc_oob_data := (loc_oob_data oob)\<lparr>lo_addr_sent_to := a\<rparr>\<rparr>\<rparr>)))"

end
