(* ===== verification/SmpWf.thy ===== *)
theory SmpWf
  imports SmpApi
begin

text \<open>
  The typing of the control block: every array has the length it is declared with, the states and the
  role are those of the tables.  Every action keeps it, whatever the allocator, the peer, the
  application and the controller do; the theory proves it operation by operation, ties the machines
  and states it for every reachable state of the security manager.
\<close>

unbundle bit_operations_syntax

section \<open>The invariant\<close>

definition key_wf :: "tSMP_PUBLIC_KEY \<Rightarrow> bool" where
  "key_wf k \<longleftrightarrow> length (pk_x k) = 32 \<and> length (pk_y k) = 32"

definition loc_oob_wf :: "tSMP_LOC_OOB_DATA \<Rightarrow> bool" where
  "loc_oob_wf o1 \<longleftrightarrow> length (lo_randomizer o1) = 16 \<and> length (lo_commitment o1) = 16 \<and>
     length (lo_private_key_used o1) = 32 \<and> key_wf (lo_publ_key_used o1)"

definition oob_wf :: "tSMP_SC_OOB_DATA \<Rightarrow> bool" where
  "oob_wf o2 \<longleftrightarrow> loc_oob_wf (loc_oob_data o2) \<and>
     length (po_randomizer (peer_oob_data o2)) = 16 \<and> length (po_commitment (peer_oob_data o2)) = 16"

definition dev_wf :: "(bytes \<Rightarrow> dev_rec option) \<Rightarrow> bool" where
  "dev_wf m \<longleftrightarrow> (\<forall>a r. m a = Some r \<longrightarrow> length (dr_link_key r) = 16)"

definition smp_wf :: "smp_sys \<Rightarrow> bool" where
  "smp_wf s \<longleftrightarrow>
     length (pairing_bda s) = 6 \<and> length (id_addr s) = 6 \<and> length (confirm s) = 16 \<and>
     length (rconfirm s) = 16 \<and> length (rrand s) = 16 \<and> length (rand s) = 16 \<and>
     length (private_key s) = 32 \<and> length (dhkey s) = 32 \<and> length (commitment s) = 16 \<and>
     length (remote_commitment s) = 16 \<and> length (local_random s) = 16 \<and> length (peer_random s) = 16 \<and>
     length (dhkey_check s) = 16 \<and> length (remote_dhkey_check s) = 16 \<and> length (mac_key s) = 16 \<and>
     length (tk s) = 16 \<and> length (ltk s) = 16 \<and> length (csrk s) = 16 \<and>
     length (enc_rand s) = 8 \<and> length (local_bda s) = 6 \<and>
     smp_state s < 17 \<and> smp_role s \<le> 1 \<and> smp_br_state s < 4 \<and>
     key_wf (loc_publ_key s) \<and> key_wf (peer_publ_key s) \<and> oob_wf (sc_oob_data s) \<and> dev_wf (s_dev s)"

lemma smp_wf_scalars [simp]:
  "smp_wf (s\<lparr>p_callback := v0\<rparr>) \<longleftrightarrow> smp_wf s"
  "smp_wf (s\<lparr>trace_level := v1\<rparr>) \<longleftrightarrow> smp_wf s"
  "smp_wf (s\<lparr>derive_lk := v2\<rparr>) \<longleftrightarrow> smp_wf s"
  "smp_wf (s\<lparr>id_addr_rcvd := v3\<rparr>) \<longleftrightarrow> smp_wf s"
  "smp_wf (s\<lparr>id_addr_type := v4\<rparr>) \<longleftrightarrow> smp_wf s"
  "smp_wf (s\<lparr>smp_over_br := v5\<rparr>) \<longleftrightarrow> smp_wf s"
  "smp_wf (s\<lparr>failure := v6\<rparr>) \<longleftrightarrow> smp_wf s"
  "smp_wf (s\<lparr>status := v7\<rparr>) \<longleftrightarrow> smp_wf s"
  "smp_wf (s\<lparr>flags := v8\<rparr>) \<longleftrightarrow> smp_wf s"
  "smp_wf (s\<lparr>cb_evt := v9\<rparr>) \<longleftrightarrow> smp_wf s"
  "smp_wf (s\<lparr>sec_level := v10\<rparr>) \<longleftrightarrow> smp_wf s"
  "smp_wf (s\<lparr>connect_initialized := v11\<rparr>) \<longleftrightarrow> smp_wf s"
  "smp_wf (s\<lparr>req_oob_type := v12\<rparr>) \<longleftrightarrow> smp_wf s"
  "smp_wf (s\<lparr>peer_io_caps := v13\<rparr>) \<longleftrightarrow> smp_wf s"
  "smp_wf (s\<lparr>local_io_capability := v14\<rparr>) \<longleftrightarrow> smp_wf s"
  "smp_wf (s\<lparr>peer_oob_flag := v15\<rparr>) \<longleftrightarrow> smp_wf s"
  "smp_wf (s\<lparr>loc_oob_flag := v16\<rparr>) \<longleftrightarrow> smp_wf s"
  "smp_wf (s\<lparr>peer_auth_req := v17\<rparr>) \<longleftrightarrow> smp_wf s"
  "smp_wf (s\<lparr>loc_auth_req := v18\<rparr>) \<longleftrightarrow> smp_wf s"
  "smp_wf (s\<lparr>auth_mode := v19\<rparr>) \<longleftrightarrow> smp_wf s"
  "smp_wf (s\<lparr>secure_connections_only_mode_required := v20\<rparr>) \<longleftrightarrow> smp_wf s"
  "smp_wf (s\<lparr>selected_association_model := v21\<rparr>) \<longleftrightarrow> smp_wf s"
  "smp_wf (s\<lparr>le_secure_connections_mode_is_used := v22\<rparr>) \<longleftrightarrow> smp_wf s"
  "smp_wf (s\<lparr>le_sc_kp_notif_is_used := v23\<rparr>) \<longleftrightarrow> smp_wf s"
  "smp_wf (s\<lparr>local_keypress_notification := v24\<rparr>) \<longleftrightarrow> smp_wf s"
  "smp_wf (s\<lparr>peer_keypress_notification := v25\<rparr>) \<longleftrightarrow> smp_wf s"
  "smp_wf (s\<lparr>round := v26\<rparr>) \<longleftrightarrow> smp_wf s"
  "smp_wf (s\<lparr>number_to_display := v27\<rparr>) \<longleftrightarrow> smp_wf s"
  "smp_wf (s\<lparr>peer_enc_size := v28\<rparr>) \<longleftrightarrow> smp_wf s"
  "smp_wf (s\<lparr>loc_enc_size := v29\<rparr>) \<longleftrightarrow> smp_wf s"
  "smp_wf (s\<lparr>peer_i_key := v30\<rparr>) \<longleftrightarrow> smp_wf s"
  "smp_wf (s\<lparr>peer_r_key := v31\<rparr>) \<longleftrightarrow> smp_wf s"
  "smp_wf (s\<lparr>local_i_key := v32\<rparr>) \<longleftrightarrow> smp_wf s"
  "smp_wf (s\<lparr>local_r_key := v33\<rparr>) \<longleftrightarrow> smp_wf s"
  "smp_wf (s\<lparr>pcb_div := v34\<rparr>) \<longleftrightarrow> smp_wf s"
  "smp_wf (s\<lparr>ediv := v35\<rparr>) \<longleftrightarrow> smp_wf s"
  "smp_wf (s\<lparr>rand_enc_proc_state := v36\<rparr>) \<longleftrightarrow> smp_wf s"
  "smp_wf (s\<lparr>addr_type := v37\<rparr>) \<longleftrightarrow> smp_wf s"
  "smp_wf (s\<lparr>is_pair_cancel := v38\<rparr>) \<longleftrightarrow> smp_wf s"
  "smp_wf (s\<lparr>discard_sec_req := v39\<rparr>) \<longleftrightarrow> smp_wf s"
  "smp_wf (s\<lparr>rcvd_cmd_code := v40\<rparr>) \<longleftrightarrow> smp_wf s"
  "smp_wf (s\<lparr>rcvd_cmd_len := v41\<rparr>) \<longleftrightarrow> smp_wf s"
  "smp_wf (s\<lparr>total_tx_unacked := v42\<rparr>) \<longleftrightarrow> smp_wf s"
  "smp_wf (s\<lparr>wait_for_authorization_complete := v43\<rparr>) \<longleftrightarrow> smp_wf s"
  "smp_wf (s\<lparr>use_static_passkey := v44\<rparr>) \<longleftrightarrow> smp_wf s"
  "smp_wf (s\<lparr>static_passkey := v45\<rparr>) \<longleftrightarrow> smp_wf s"
  "smp_wf (s\<lparr>accept_specified_sec_auth := v46\<rparr>) \<longleftrightarrow> smp_wf s"
  "smp_wf (s\<lparr>origin_loc_auth_req := v47\<rparr>) \<longleftrightarrow> smp_wf s"
  "smp_wf (s\<lparr>s_out := v49\<rparr>) \<longleftrightarrow> smp_wf s"
  "smp_wf (s\<lparr>s_clock := v50\<rparr>) \<longleftrightarrow> smp_wf s"
  "smp_wf (s\<lparr>s_bad := v51\<rparr>) \<longleftrightarrow> smp_wf s"
  by (simp_all add: smp_wf_def)

lemma smp_wf_arrays:
  "smp_wf s \<Longrightarrow> length b0 = 6 \<Longrightarrow> smp_wf (s\<lparr>pairing_bda := b0\<rparr>)"
  "smp_wf s \<Longrightarrow> length b1 = 6 \<Longrightarrow> smp_wf (s\<lparr>id_addr := b1\<rparr>)"
  "smp_wf s \<Longrightarrow> length b2 = 16 \<Longrightarrow> smp_wf (s\<lparr>confirm := b2\<rparr>)"
  "smp_wf s \<Longrightarrow> length b3 = 16 \<Longrightarrow> smp_wf (s\<lparr>rconfirm := b3\<rparr>)"
  "smp_wf s \<Longrightarrow> length b4 = 16 \<Longrightarrow> smp_wf (s\<lparr>rrand := b4\<rparr>)"
  "smp_wf s \<Longrightarrow> length b5 = 16 \<Longrightarrow> smp_wf (s\<lparr>rand := b5\<rparr>)"
  "smp_wf s \<Longrightarrow> length b6 = 32 \<Longrightarrow> smp_wf (s\<lparr>private_key := b6\<rparr>)"
  "smp_wf s \<Longrightarrow> length b7 = 32 \<Longrightarrow> smp_wf (s\<lparr>dhkey := b7\<rparr>)"
  "smp_wf s \<Longrightarrow> length b8 = 16 \<Longrightarrow> smp_wf (s\<lparr>commitment := b8\<rparr>)"
  "smp_wf s \<Longrightarrow> length b9 = 16 \<Longrightarrow> smp_wf (s\<lparr>remote_commitment := b9\<rparr>)"
  "smp_wf s \<Longrightarrow> length b10 = 16 \<Longrightarrow> smp_wf (s\<lparr>local_random := b10\<rparr>)"
  "smp_wf s \<Longrightarrow> length b11 = 16 \<Longrightarrow> smp_wf (s\<lparr>peer_random := b11\<rparr>)"
  "smp_wf s \<Longrightarrow> length b12 = 16 \<Longrightarrow> smp_wf (s\<lparr>dhkey_check := b12\<rparr>)"
  "smp_wf s \<Longrightarrow> length b13 = 16 \<Longrightarrow> smp_wf (s\<lparr>remote_dhkey_check := b13\<rparr>)"
  "smp_wf s \<Longrightarrow> length b14 = 16 \<Longrightarrow> smp_wf (s\<lparr>mac_key := b14\<rparr>)"
  "smp_wf s \<Longrightarrow> length b15 = 16 \<Longrightarrow> smp_wf (s\<lparr>tk := b15\<rparr>)"
  "smp_wf s \<Longrightarrow> length b16 = 16 \<Longrightarrow> smp_wf (s\<lparr>ltk := b16\<rparr>)"
  "smp_wf s \<Longrightarrow> length b17 = 16 \<Longrightarrow> smp_wf (s\<lparr>csrk := b17\<rparr>)"
  "smp_wf s \<Longrightarrow> length b18 = 8 \<Longrightarrow> smp_wf (s\<lparr>enc_rand := b18\<rparr>)"
  "smp_wf s \<Longrightarrow> length b19 = 6 \<Longrightarrow> smp_wf (s\<lparr>local_bda := b19\<rparr>)"
  "smp_wf s \<Longrightarrow> v < 17 \<Longrightarrow> smp_wf (s\<lparr>smp_state := v\<rparr>)"
  "smp_wf s \<Longrightarrow> v \<le> 1 \<Longrightarrow> smp_wf (s\<lparr>smp_role := v\<rparr>)"
  "smp_wf s \<Longrightarrow> v < 4 \<Longrightarrow> smp_wf (s\<lparr>smp_br_state := v\<rparr>)"
  "smp_wf s \<Longrightarrow> key_wf k \<Longrightarrow> smp_wf (s\<lparr>loc_publ_key := k\<rparr>)"
  "smp_wf s \<Longrightarrow> key_wf k \<Longrightarrow> smp_wf (s\<lparr>peer_publ_key := k\<rparr>)"
  "smp_wf s \<Longrightarrow> oob_wf k1 \<Longrightarrow> smp_wf (s\<lparr>sc_oob_data := k1\<rparr>)"
  "smp_wf s \<Longrightarrow> dev_wf m1 \<Longrightarrow> smp_wf (s\<lparr>s_dev := m1\<rparr>)"
  by (simp_all add: smp_wf_def)

lemma smp_wf_lengths [simp]:
  "smp_wf s \<Longrightarrow> length (pairing_bda s) = 6"
  "smp_wf s \<Longrightarrow> length (id_addr s) = 6"
  "smp_wf s \<Longrightarrow> length (confirm s) = 16"
  "smp_wf s \<Longrightarrow> length (rconfirm s) = 16"
  "smp_wf s \<Longrightarrow> length (rrand s) = 16"
  "smp_wf s \<Longrightarrow> length (rand s) = 16"
  "smp_wf s \<Longrightarrow> length (private_key s) = 32"
  "smp_wf s \<Longrightarrow> length (dhkey s) = 32"
  "smp_wf s \<Longrightarrow> length (commitment s) = 16"
  "smp_wf s \<Longrightarrow> length (remote_commitment s) = 16"
  "smp_wf s \<Longrightarrow> length (local_random s) = 16"
  "smp_wf s \<Longrightarrow> length (peer_random s) = 16"
  "smp_wf s \<Longrightarrow> length (dhkey_check s) = 16"
  "smp_wf s \<Longrightarrow> length (remote_dhkey_check s) = 16"
  "smp_wf s \<Longrightarrow> length (mac_key s) = 16"
  "smp_wf s \<Longrightarrow> length (tk s) = 16"
  "smp_wf s \<Longrightarrow> length (ltk s) = 16"
  "smp_wf s \<Longrightarrow> length (csrk s) = 16"
  "smp_wf s \<Longrightarrow> length (enc_rand s) = 8"
  "smp_wf s \<Longrightarrow> length (local_bda s) = 6"
  "smp_wf s \<Longrightarrow> key_wf (loc_publ_key s)" "smp_wf s \<Longrightarrow> key_wf (peer_publ_key s)" "smp_wf s \<Longrightarrow> oob_wf (sc_oob_data s)"
  "smp_wf s \<Longrightarrow> dev_wf (s_dev s)"
  by (simp_all add: smp_wf_def)

lemmas smp_wf_intros = smp_wf_arrays
declare smp_wf_arrays [inv_intros]

lemma dev_wf_upd [simp]: "dev_wf m \<Longrightarrow> length (dr_link_key r) = 16 \<Longrightarrow> dev_wf (m(a \<mapsto> r))"
  by (simp add: dev_wf_def)

lemma dev_wf_key: "smp_wf s \<Longrightarrow> s_dev s a = Some r \<Longrightarrow> length (dr_link_key r) = 16"
  using smp_wf_lengths(24) by (auto simp: dev_wf_def)

lemma zero_wf [simp]: "length (zeros n) = n" "key_wf zero_public_key" "oob_wf zero_oob_data"
  by (simp_all add: zeros_def key_wf_def oob_wf_def loc_oob_wf_def zero_public_key_def zero_oob_data_def)

text \<open>What the rest of the stack answers: addresses of six bytes, keys of sixteen.\<close>

definition env_wf :: "smp_env \<Rightarrow> bool" where
  "env_wf e \<longleftrightarrow> (\<forall>a. length (fst (e_local_addr e a)) = 6) \<and> (\<forall>a x. e_remote_addr e a = Some x \<longrightarrow> length (fst x) = 6) \<and>
     length (e_er e) = 16 \<and> length (e_dhk e) = 16 \<and> (\<forall>a. e_ble_role e a \<le> 1)"

section \<open>Rules for the forms of the code\<close>

lemma wf_simple [simp]:
  "smp_wf (bad s) \<longleftrightarrow> smp_wf s" "smp_wf (out x s) \<longleftrightarrow> smp_wf s" "smp_wf (tick s) \<longleftrightarrow> smp_wf s" "smp_wf (ticks n s) \<longleftrightarrow> smp_wf s"
  by (simp_all add: bad_def out_def tick_def ticks_def)

lemma wf_set_state [inv_intros]:
  "smp_wf s \<Longrightarrow> smp_wf (smp_set_state st s)" "smp_wf s \<Longrightarrow> smp_wf (smp_set_br_state bst s)"
  by (simp_all add: smp_set_state_def smp_set_br_state_def smp_wf_arrays)

lemma wf_let_state [inv_intros]: "smp_wf a \<Longrightarrow> (\<And>s. smp_wf s \<Longrightarrow> smp_wf (f s)) \<Longrightarrow> smp_wf (Let a f)"
  by simp

lemma wf_let: "(\<And>x. x = a \<Longrightarrow> smp_wf (f x)) \<Longrightarrow> smp_wf (Let a f)"
  by simp

lemma wf_if [inv_intros]: "(b \<Longrightarrow> smp_wf x) \<Longrightarrow> (\<not> b \<Longrightarrow> smp_wf y) \<Longrightarrow> smp_wf (if b then x else y)"
  by simp

lemma wf_case_option [inv_intros]:
  "(v = None \<Longrightarrow> smp_wf x) \<Longrightarrow> (\<And>a. v = Some a \<Longrightarrow> smp_wf (f a)) \<Longrightarrow> smp_wf (case v of None \<Rightarrow> x | Some a \<Rightarrow> f a)"
  by (simp split: option.split)

lemma wf_case_pair [inv_intros]:
  "smp_wf (snd p) \<Longrightarrow> (\<And>a s. smp_wf s \<Longrightarrow> p = (a, s) \<Longrightarrow> smp_wf (f a s)) \<Longrightarrow> smp_wf (case p of (a, s) \<Rightarrow> f a s)"
  by (cases p) simp

section \<open>Lengths of what is computed\<close>

lemma length_stack_bytes [simp]: "length (stack_bytes e t n) = n"
  by (simp add: stack_bytes_def)

lemma length_put [simp]: "length (put_u16 x) = 2" "length (put_u32 y) = 4"
  by (simp_all add: put_u16_def put_u32_def)

lemma length_put_bda [simp]: "length a = 6 \<Longrightarrow> length (put_bda a) = 6"
  by (simp add: put_bda_def)

lemma length_smp_mask_enc_key [simp]: "length (smp_mask_enc_key n p) = length p"
proof -
  have "length (fold (\<lambda>i p. p[i := 0]) xs p) = length p" for xs and p :: bytes
    by (induction xs arbitrary: p) simp_all
  then show ?thesis by (simp add: smp_mask_enc_key_def)
qed

text \<open>A shorter text is filled up with zeros.\<close>

definition padded :: "bytes \<Rightarrow> u8 \<Rightarrow> bytes" where
  "padded txt n = take (unat n) txt @ replicate (16 - unat n) 0"

lemma encrypt_padded:
  assumes "length key = 16" "unat n \<le> length txt" "unat n \<le> 16"
  shows "SMP_Encrypt mem key 16 txt n =
    (if mem then Some \<lparr>enc_status = 0, enc_param_len = 16, enc_opcode = 0x2017, enc_param_buf = aes_block key (padded txt n)\<rparr> else None)"
proof -
  have l: "length (padded txt n) = 16" using assms(2,3) by (simp add: padded_def)
  have n: "\<not> 16 < n" using assms(3) by (simp add: word_less_nat_alt)
  have "SMP_Encrypt mem key 16 txt n = SMP_Encrypt mem key 16 (padded txt n) 16"
    using assms(2,3) n by (simp add: SMP_Encrypt_def smp_encrypt_data_def SMP_ENCRYT_KEY_SIZE_def SMP_ENCRYT_DATA_SIZE_def
        padded_def Let_def min_def)
  with encrypt_data [OF assms(1), of "padded txt n" mem] l show ?thesis by simp
qed

lemma enc_at_value:
  "length key = 16 \<Longrightarrow> unat n \<le> length txt \<Longrightarrow> unat n \<le> 16 \<Longrightarrow>
    enc_at e t key txt n = (if e_mem e t 0 then Some (aes_block key (padded txt n)) else None)"
  by (simp add: enc_at_def encrypt_padded)

lemma length_padded [simp]: "unat n \<le> length txt \<Longrightarrow> unat n \<le> 16 \<Longrightarrow> length (padded txt n) = 16"
  by (simp add: padded_def)

lemma length_enc_at:
  "enc_at e t key txt n = Some o1 \<Longrightarrow> length key = 16 \<Longrightarrow> unat n \<le> length txt \<Longrightarrow> unat n \<le> 16 \<Longrightarrow> length o1 = 16"
  by (auto simp: enc_at_value length_aes_block split: if_splits)

lemma length_cmac_call:
  assumes "length key = 16" "length msg \<le> 4064" "16 \<le> length stack"
  shows "length (snd (cmac_call mem stack key msg)) = 16"
  using assms by (simp add: cmac_call_value bytes128_def)

lemma length_bytes_of_dwords [simp]: "length (bytes_of_dwords ws) = 4 * length ws"
  by (induction ws) (simp_all add: bytes_of_dwords_def)

lemma length_sub_loop: "length (fst (sub_loop k a b)) = min (length a) (length b)"
proof (induction a arbitrary: k b)
  case (Cons x a)
  then show ?case by (cases b) (simp_all add: case_prod_unfold Let_def)
qed simp

lemma length_add_loop: "length (fst (add_loop k a b)) = min (length a) (length b)"
proof (induction a arbitrary: k b)
  case (Cons x a)
  then show ?case by (cases b) (simp_all add: case_prod_unfold Let_def)
qed simp

lemma length_p256_p: "length (ec_p curve_p256) = 8"
  by (simp add: curve_p256_def p_256_init_curve_def KEY_LENGTH_DWORDS_P256_def)

lemma length_modp_loops: "length c = 8 \<Longrightarrow> length (add_modp_loop U c) = 8" "length c = 8 \<Longrightarrow> length (sub_modp_loop V c) = 8"
proof -
  show "length c = 8 \<Longrightarrow> length (add_modp_loop U c) = 8"
    by (induction U c rule: add_modp_loop.induct)
      (subst add_modp_loop.simps, simp add: multiprecision_add_def length_add_loop length_p256_p)
  show "length c = 8 \<Longrightarrow> length (sub_modp_loop V c) = 8"
    by (induction V c rule: sub_modp_loop.induct)
      (subst sub_modp_loop.simps, simp add: multiprecision_sub_def length_sub_loop length_p256_p)
qed

lemma length_fast_mod: "length (multiprecision_fast_mod_P256 a) = 8"
proof -
  have "length (fst (fast_mod_P256_words a)) = 8"
    unfolding fast_mod_P256_words_def Let_def by (simp add: case_prod_unfold)
  then show ?thesis
    unfolding multiprecision_fast_mod_P256_def Let_def
    by (cases "fast_mod_P256_words a") (simp add: length_modp_loops multiprecision_sub_def length_sub_loop length_p256_p)
qed

lemma length_point_mult:
  assumes "ECC_PointMult_Bin_NAF p k KEY_LENGTH_DWORDS_P256 = Some (q, r)"
  shows "length (pt_x q) = 8" "length (pt_y q) = 8"
  using assms unfolding ECC_PointMult_Bin_NAF_def Let_def
  by (auto simp: multiprecision_mersenns_mult_mod_def multiprecision_mersenns_squa_mod_def KEY_LENGTH_DWORDS_P256_def
      length_fast_mod split: Option.bind_splits)

section \<open>The block that is cleared\<close>

lemma extend_fields:
  "pairing_bda (tSMP_CB.extend r m) = pairing_bda r"
  "id_addr (tSMP_CB.extend r m) = id_addr r"
  "confirm (tSMP_CB.extend r m) = confirm r"
  "rconfirm (tSMP_CB.extend r m) = rconfirm r"
  "rrand (tSMP_CB.extend r m) = rrand r"
  "rand (tSMP_CB.extend r m) = rand r"
  "private_key (tSMP_CB.extend r m) = private_key r"
  "dhkey (tSMP_CB.extend r m) = dhkey r"
  "commitment (tSMP_CB.extend r m) = commitment r"
  "remote_commitment (tSMP_CB.extend r m) = remote_commitment r"
  "local_random (tSMP_CB.extend r m) = local_random r"
  "peer_random (tSMP_CB.extend r m) = peer_random r"
  "dhkey_check (tSMP_CB.extend r m) = dhkey_check r"
  "remote_dhkey_check (tSMP_CB.extend r m) = remote_dhkey_check r"
  "mac_key (tSMP_CB.extend r m) = mac_key r"
  "tk (tSMP_CB.extend r m) = tk r"
  "ltk (tSMP_CB.extend r m) = ltk r"
  "csrk (tSMP_CB.extend r m) = csrk r"
  "enc_rand (tSMP_CB.extend r m) = enc_rand r"
  "local_bda (tSMP_CB.extend r m) = local_bda r"
  "smp_state (tSMP_CB.extend r m) = smp_state r"
  "smp_role (tSMP_CB.extend r m) = smp_role r"
  "smp_br_state (tSMP_CB.extend r m) = smp_br_state r"
  "loc_publ_key (tSMP_CB.extend r m) = loc_publ_key r"
  "peer_publ_key (tSMP_CB.extend r m) = peer_publ_key r"
  "sc_oob_data (tSMP_CB.extend r m) = sc_oob_data r"
  by (simp_all add: tSMP_CB.extend_def)

lemma zero_fields:
  "pairing_bda zero_smp_cb = zeros 6"
  "id_addr zero_smp_cb = zeros 6"
  "confirm zero_smp_cb = zeros 16"
  "rconfirm zero_smp_cb = zeros 16"
  "rrand zero_smp_cb = zeros 16"
  "rand zero_smp_cb = zeros 16"
  "private_key zero_smp_cb = zeros 32"
  "dhkey zero_smp_cb = zeros 32"
  "commitment zero_smp_cb = zeros 16"
  "remote_commitment zero_smp_cb = zeros 16"
  "local_random zero_smp_cb = zeros 16"
  "peer_random zero_smp_cb = zeros 16"
  "dhkey_check zero_smp_cb = zeros 16"
  "remote_dhkey_check zero_smp_cb = zeros 16"
  "mac_key zero_smp_cb = zeros 16"
  "tk zero_smp_cb = zeros 16"
  "ltk zero_smp_cb = zeros 16"
  "csrk zero_smp_cb = zeros 16"
  "enc_rand zero_smp_cb = zeros 8"
  "local_bda zero_smp_cb = zeros 6"
  "smp_state zero_smp_cb = 0"
  "smp_role zero_smp_cb = 0"
  "smp_br_state zero_smp_cb = 0"
  "loc_publ_key zero_smp_cb = zero_public_key"
  "peer_publ_key zero_smp_cb = zero_public_key"
  "sc_oob_data zero_smp_cb = zero_oob_data"
  by (simp_all add: zero_smp_cb_def)

lemma extend_dev: "s_dev (tSMP_CB.extend r (tSMP_CB.more s)) = s_dev s" for s :: smp_sys
  by (cases s, cases r) (simp add: tSMP_CB.extend_def)

lemma extend_updates:
  "tSMP_CB.extend (r\<lparr>p_callback := a\<rparr>) m = (tSMP_CB.extend r m)\<lparr>p_callback := a\<rparr>"
  "tSMP_CB.extend (r\<lparr>trace_level := b\<rparr>) m = (tSMP_CB.extend r m)\<lparr>trace_level := b\<rparr>"
  "tSMP_CB.extend (r\<lparr>use_static_passkey := c\<rparr>) m = (tSMP_CB.extend r m)\<lparr>use_static_passkey := c\<rparr>"
  "tSMP_CB.extend (r\<lparr>static_passkey := d\<rparr>) m = (tSMP_CB.extend r m)\<lparr>static_passkey := d\<rparr>"
  by (cases r; simp add: tSMP_CB.extend_def)+

lemma wf_cleared: "dev_wf (s_dev s) \<Longrightarrow> smp_wf (tSMP_CB.extend zero_smp_cb (tSMP_CB.more s))"
  by (simp add: smp_wf_def extend_fields zero_fields extend_dev del: smp_wf_lengths)

lemma wf_cb_cleanup: "smp_wf s \<Longrightarrow> smp_wf (smp_cb_cleanup s)"
  using wf_cleared [OF smp_wf_lengths(24)] by (simp add: smp_cb_cleanup_def extend_updates)

section \<open>Every operation keeps the typing\<close>

locale wf_machines =
  fixes e :: smp_env and sm :: smp_event_fun and br :: smp_event_fun
  assumes sm_wf: "env_wf e \<Longrightarrow> smp_wf s \<Longrightarrow> smp_wf (sm ev d s)"
    and br_wf: "env_wf e \<Longrightarrow> smp_wf s \<Longrightarrow> smp_wf (br ev d s)"
begin

lemmas wf_rules = sm_wf br_wf inv_intros

lemma wf_send:
  assumes "env_wf e" "smp_wf s"
  shows "smp_wf (snd (smp_send_msg_to_L2CAP e a p s))" "smp_wf (auth_cmpl sm br r s)"
    "smp_wf (snd (smp_send_cmd e sm br cmd s))" "smp_wf (send_cmd e sm br cmd s)"
    "smp_wf (smp_reject_unexpected_pairing_command e a s)"
proof -
  have l2cap: "smp_wf (snd (smp_send_msg_to_L2CAP e a p s))" if "smp_wf s" for a p s
    using that by (simp add: smp_send_msg_to_L2CAP_def Let_def)
  then show "smp_wf (snd (smp_send_msg_to_L2CAP e a p s))" using assms(2) by blast
  have cmpl: "smp_wf (auth_cmpl sm br r s)" if "smp_wf s" for r s
    using that assms(1) by (simp add: auth_cmpl_def sm_wf br_wf)
  then show "smp_wf (auth_cmpl sm br r s)" using assms(2) by blast
  show cmd: "smp_wf (snd (smp_send_cmd e sm br cmd s))"
    using assms(2) l2cap cmpl by (auto simp: smp_send_cmd_def case_prod_unfold Let_def split: option.splits)
  then show "smp_wf (send_cmd e sm br cmd s)" by (simp add: send_cmd_def)
  show "smp_wf (smp_reject_unexpected_pairing_command e a s)"
    using assms(2) l2cap by (auto simp: smp_reject_unexpected_pairing_command_def split: option.splits)
qed

lemma wf_ask_rand: "env_wf e \<Longrightarrow> smp_wf s \<Longrightarrow> smp_wf (ask_rand e sm s)"
  by (simp add: ask_rand_def smp_rand_failed_def sm_wf)

lemma wf_passkey_ready: "env_wf e \<Longrightarrow> smp_wf s \<Longrightarrow> smp_wf (passkey_ready sm k s)"
  by (simp add: passkey_ready_def Let_def sm_wf smp_wf_arrays)

lemma wf_passkeys:
  assumes "env_wf e" "smp_wf s"
  shows "smp_wf (smp_use_static_passkey sm s)" "smp_wf (smp_generate_passkey e sm s)" "smp_wf (smp_proc_passkey sm buf s)"
  using assms
  by (simp_all add: smp_use_static_passkey_def smp_generate_passkey_def smp_proc_passkey_def wf_passkey_ready wf_ask_rand)

lemma wf_comfirm_cont:
  assumes "env_wf e" "smp_wf s" "length p = 16"
  shows "smp_wf (smp_calculate_comfirm_cont e sm p s)"
proof -
  have "length (smp_gen_p2_4_confirm e (stack_bytes e (s_clock s) 16) s) = 16"
    using assms by (auto simp: smp_gen_p2_4_confirm_def env_wf_def split: option.splits)
  then have "length (smp_xor_128 (smp_gen_p2_4_confirm e (stack_bytes e (s_clock s) 16) s) p) = 16"
    using assms(3) by simp
  then show ?thesis
    using assms unfolding smp_calculate_comfirm_cont_def Let_def
    by (auto split: option.splits dest!: length_enc_at
        intro!: sm_wf smp_wf_arrays simp: smp_process_confirm_def smp_process_compare_def)
qed

lemma wf_gen_p1:
  assumes "env_wf e" "smp_wf s" "length p1 = 16" "smp_gen_p1_4_confirm e p1 s = (q, s')"
  shows "length q = 16 \<and> smp_wf s'"
  using assms by (auto simp: smp_gen_p1_4_confirm_def smp_concatenate_local_def smp_concatenate_peer_def env_wf_def
      case_prod_unfold Let_def smp_wf_arrays split: option.splits)

lemma wf_comfirm:
  assumes "env_wf e" "smp_wf s" "length r = 16"
  shows "smp_wf (smp_calculate_comfirm e sm r s)"
proof -
  obtain q s' where g: "smp_gen_p1_4_confirm e (stack_bytes e (s_clock s) 16) s = (q, s')" by fastforce
  have w: "length q = 16" "smp_wf s'" using wf_gen_p1 [OF assms(1,2) _ g] by simp_all
  then have x: "length (smp_xor_128 q r) = 16" using assms(3) by simp
  show ?thesis
    using w x assms(1) unfolding smp_calculate_comfirm_def g prod.case Let_def
    by (auto split: option.splits intro!: sm_wf wf_comfirm_cont dest: length_enc_at)
qed

lemma wf_generate_confirm:
  assumes "env_wf e" "smp_wf s"
  shows "smp_wf (smp_generate_confirm e sm s)" "smp_wf (smp_generate_compare_act e sm s)"
  using assms by (simp_all add: smp_generate_confirm_def smp_generate_compare_act_def wf_comfirm)

lemma wf_generate_stk: "env_wf e \<Longrightarrow> smp_wf s \<Longrightarrow> smp_wf (smp_generate_stk_act e sm s)"
  by (simp add: smp_generate_stk_act_def smp_process_stk_def sm_wf split: option.splits)

lemma wf_keys_generated:
  assumes "env_wf e" "smp_wf s"
  shows "smp_wf (smp_generate_rand_vector e sm s)" "smp_wf (smp_generate_ltk_cont e sm s)" "smp_wf (smp_generate_y e sm s)"
proof -
  have v: "smp_wf (smp_generate_rand_vector e sm s)" if "smp_wf s" for s
    using that assms(1) by (simp add: smp_generate_rand_vector_def wf_ask_rand)
  then show "smp_wf (smp_generate_rand_vector e sm s)" using assms(2) by blast
  show "smp_wf (smp_generate_ltk_cont e sm s)"
    unfolding smp_generate_ltk_cont_def using assms
    by (auto split: option.splits intro!: v sm_wf smp_wf_arrays dest!: length_enc_at simp: env_wf_def)
  show "smp_wf (smp_generate_y e sm s)"
    unfolding smp_generate_y_def smp_process_ediv_def using assms by (auto split: option.splits intro!: sm_wf)
qed

lemma wf_private_key: "env_wf e \<Longrightarrow> smp_wf s \<Longrightarrow> smp_wf (smp_process_private_key sm s)"
  unfolding smp_process_private_key_def
  by (auto split: option.splits prod.splits intro!: sm_wf smp_wf_arrays simp: key_wf_def length_point_mult)

lemma wf_compute_dhkey: "smp_wf s \<Longrightarrow> smp_wf (smp_compute_dhkey s)"
  unfolding smp_compute_dhkey_def
  by (auto split: option.splits prod.splits intro!: smp_wf_arrays simp: length_point_mult)

lemma length_mem_put: "mem_put off p dst = Some r \<Longrightarrow> length r = length dst"
  by (auto simp: mem_put_def Let_def split: if_splits)

lemma wf_private_key_bytes: "env_wf e \<Longrightarrow> smp_wf s \<Longrightarrow> smp_wf (smp_continue_private_key_creation e sm p s)"
  unfolding smp_continue_private_key_creation_def Let_def
  by (auto split: option.splits intro!: wf_ask_rand wf_private_key smp_wf_arrays dest: length_mem_put)

lemma wf_commitments:
  assumes "smp_wf s"
  shows "smp_wf (smp_calculate_local_commitment e s)" "smp_wf (snd (smp_check_commitment e s))"
proof -
  have f4: "length (smp_calculate_f4 mem stack u v x z) = 16"
    if "length x = 16" "length u = 32" "length v = 32" "length stack = 16" for mem stack u v x z
    using that by (simp add: smp_calculate_f4_def length_cmac_call)
  have k: "length (pk_x (loc_publ_key s)) = 32" "length (pk_x (peer_publ_key s)) = 32"
    using smp_wf_lengths(21,22) [OF assms] by (simp_all add: key_wf_def)
  show "smp_wf (smp_calculate_local_commitment e s)"
    unfolding smp_calculate_local_commitment_def Let_def
    using assms k by (auto intro!: smp_wf_arrays f4 split: option.splits)
  show "smp_wf (snd (smp_check_commitment e s))"
    unfolding smp_check_commitment_def smp_calculate_peer_commitment_def Let_def
    using assms by (auto split: option.splits prod.splits if_splits)
qed

lemma wf_numeric: "env_wf e \<Longrightarrow> smp_wf s \<Longrightarrow> smp_wf (smp_calculate_numeric_comparison_display_number_act e sm s)"
  unfolding smp_calculate_numeric_comparison_display_number_act_def Let_def by (auto intro!: sm_wf)

lemma length_ble_addresses:
  "env_wf e \<Longrightarrow> length (smp_collect_local_ble_address e s) = 7"
  "env_wf e \<Longrightarrow> length b = 7 \<Longrightarrow> length (smp_collect_peer_ble_address e b s) = 7"
  by (auto simp: smp_collect_local_ble_address_def smp_collect_peer_ble_address_def env_wf_def case_prod_unfold Let_def
      split: option.splits)

lemma length_f5:
  assumes "length w = 32" "length n1 = 16" "length n2 = 16" "length a1 = 7" "length a2 = 7" "length mk = 16" "length lk = 16"
    "\<And>k. length (st k) = 16" "smp_calculate_f5 mem st w n1 n2 a1 a2 mk lk = (ok, mk', lk')"
  shows "length mk' = 16 \<and> length lk' = 16"
proof -
  have t: "length (snd (smp_calculate_f5_key m s w)) = 16" if "length s = 16" for m s
    using that assms(1) by (simp add: smp_calculate_f5_key_def length_cmac_call f5_salt_def)
  have k: "length (snd (smp_calculate_f5_mackey_or_long_term_key m s t c i n1 n2 a1 a2 l)) = 16"
    if "length s = 16" "length t = 16" for m s t c i l
    using that assms(2-5) by (simp add: smp_calculate_f5_mackey_or_long_term_key_def length_cmac_call)
  show ?thesis
    using assms(6-9) t k unfolding smp_calculate_f5_def Let_def
    by (auto simp: case_prod_unfold split: if_splits)
qed

lemma length_f6:
  assumes "length w = 16" "length n1 = 16" "length n2 = 16" "length r = 16" "length io = 3" "length a1 = 7" "length a2 = 7" "length st = 16"
  shows "length (snd (smp_calculate_f6 mem st w n1 n2 r io a1 a2)) = 16"
  using assms by (simp add: smp_calculate_f6_def length_cmac_call)

lemma wf_mackey:
  assumes "env_wf e" "smp_wf s"
  shows "smp_wf (snd (smp_calculate_f5_mackey_and_long_term_key e s))"
proof -
  have a: "length (smp_collect_local_ble_address e s) = 7"
    "length (smp_collect_peer_ble_address e (stack_bytes e (s_clock s) 7) s) = 7"
    using assms(1) by (simp_all add: length_ble_addresses)
  show ?thesis
    unfolding smp_calculate_f5_mackey_and_long_term_key_def Let_def
    using assms a by (auto split: prod.splits if_splits intro!: smp_wf_arrays dest!: length_f5 [rotated -1])
qed

lemma wf_dhkey_checks:
  assumes "env_wf e" "smp_wf s"
  shows "smp_wf (smp_calculate_local_dhkey_check_act e s)" "smp_wf (smp_calculate_peer_dhkey_check_act e sm s)"
proof -
  have f6: "length (snd (smp_calculate_f6 (e_mem e t) (stack_bytes e t 16) (mac_key u) (rand u) (rrand u) (peer_random u)
      (smp_collect_local_io_capabilities u) (smp_collect_local_ble_address e u)
      (smp_collect_peer_ble_address e (stack_bytes e t 7) u))) = 16" if "smp_wf u" for t u
    using that assms(1) by (intro length_f6) (simp_all add: smp_collect_local_io_capabilities_def length_ble_addresses)
  obtain ok u where u: "smp_calculate_f5_mackey_and_long_term_key e s = (ok, u)" by fastforce
  then have "smp_wf u" using wf_mackey [OF assms] by simp
  then show "smp_wf (smp_calculate_local_dhkey_check_act e s)"
    using f6 [OF \<open>smp_wf u\<close>, of "s_clock u"] unfolding smp_calculate_local_dhkey_check_act_def u Let_def prod.case
    by (simp add: case_prod_unfold smp_wf_arrays)
  show "smp_wf (smp_calculate_peer_dhkey_check_act e sm s)"
    unfolding smp_calculate_peer_dhkey_check_act_def Let_def using assms by (auto split: prod.splits intro!: sm_wf)
qed

lemma length_h6: "length w = 16 \<Longrightarrow> length st = 16 \<Longrightarrow> length (snd (smp_calculate_h6 mem st w i)) = 16"
  by (simp add: smp_calculate_h6_def length_cmac_call)

lemma wf_transport_keys:
  assumes "smp_wf s"
  shows "smp_wf (snd (smp_calculate_link_key_from_long_term_key e s))"
    "smp_wf (snd (smp_calculate_long_term_key_from_link_key e s))"
proof -
  show "smp_wf (snd (smp_calculate_link_key_from_long_term_key e s))"
    unfolding smp_calculate_link_key_from_long_term_key_def Let_def
    using assms by (auto simp: case_prod_unfold split: option.splits)
  have t: "length (snd (smp_calculate_h6 m (stack_bytes e t 16) (snd (smp_calculate_h6 m' (stack_bytes e t' 16) w i)) i')) = 16"
    if "length w = 16" for m m' t t' w i i'
    using that by (intro length_h6) simp_all
  show "smp_wf (snd (smp_calculate_long_term_key_from_link_key e s))"
    unfolding smp_calculate_long_term_key_from_link_key_def Let_def
    using assms by (auto simp: case_prod_unfold split: option.splits intro!: smp_wf_arrays t dest: dev_wf_key)
qed

lemma wf_nonces:
  assumes "env_wf e" "smp_wf s"
  shows "smp_wf (smp_start_nonce_generation e sm s)" "smp_wf (smp_finish_nonce_generation e sm s)"
    "smp_wf (smp_process_new_nonce sm s)"
  using assms by (simp_all add: smp_start_nonce_generation_def smp_finish_nonce_generation_def smp_process_new_nonce_def
      wf_ask_rand sm_wf)

lemma wf_update_key_mask: "smp_wf s \<Longrightarrow> smp_wf (smp_update_key_mask k r s)"
  by (simp add: smp_update_key_mask_def Let_def)

lemma wf_save_if_bond: "smp_wf s \<Longrightarrow> smp_wf (save_if_bond ty k s)"
  by (simp add: save_if_bond_def)

lemma wf_save_ltk: "smp_wf s \<Longrightarrow> smp_wf (smp_save_secure_connections_long_term_key s)"
  by (simp add: smp_save_secure_connections_long_term_key_def)

lemma wf_send_csrk_info:
  assumes "env_wf e" "smp_wf s" and cont: "\<And>s. smp_wf s \<Longrightarrow> smp_wf (cont s)"
  shows "smp_wf (smp_send_csrk_info e sm br cont s)"
  using assms wf_send(3) [OF assms(1) wf_update_key_mask [OF assms(2)]]
  by (auto simp: smp_send_csrk_info_def Let_def case_prod_unfold)

lemma wf_compute_csrk:
  assumes "env_wf e" "smp_wf s" and cont: "\<And>s. smp_wf s \<Longrightarrow> smp_wf (cont s)"
  shows "smp_wf (smp_compute_csrk e sm br cont s)"
  using assms unfolding smp_compute_csrk_def
  by (auto split: option.splits intro!: wf_send(2) wf_send_csrk_info smp_wf_arrays dest!: length_enc_at simp: env_wf_def)

text \<open>The functions that key distribution picks, for distributions that keep the typing.\<close>

lemma wf_picked:
  assumes "env_wf e" and dist: "\<And>s. smp_wf s \<Longrightarrow> smp_wf (dist s)" and nxt: "\<And>s. smp_wf s \<Longrightarrow> smp_wf (nx s)"
    and "f \<in> set (smp_distribute_act e sm br dist nx)" "smp_wf s"
  shows "smp_wf (f s)"
proof -
  have bt: "smp_wf (smp_key_distribution_by_transport dist nx s)" if "smp_wf s" for s
    using that dist nxt by (simp add: smp_key_distribution_by_transport_def)
  have ltk: "smp_wf (smp_generate_ltk e sm dist nx s)"
    using assms(1,5) wf_transport_keys(2) [OF assms(5)] dist nxt
    unfolding smp_generate_ltk_def smp_br_process_link_key_def smp_process_secure_connection_long_term_key_def
    by (auto simp: Let_def case_prod_unfold sm_wf wf_update_key_mask wf_save_ltk wf_keys_generated wf_ask_rand split: option.splits)
  have ident: "smp_wf (smp_send_id_info_act e sm br (smp_key_distribution_by_transport dist nx) s)"
    using assms(1,5) by (simp add: smp_send_id_info_act_def Let_def bt wf_save_if_bond wf_send wf_update_key_mask)
  have sign: "smp_wf (smp_generate_csrk e sm br (smp_key_distribution_by_transport dist nx) s)"
    using assms(1,5) by (auto simp: smp_generate_csrk_def wf_compute_csrk wf_ask_rand bt split: option.splits)
  have lk: "smp_wf (smp_set_derive_link_key dist s)"
    using assms(5) by (simp add: smp_set_derive_link_key_def dist wf_update_key_mask)
  show ?thesis using assms(4) ltk ident sign lk by (auto simp: smp_distribute_act_def)
qed

lemma wf_pick_key:
  "(\<And>f s. f \<in> set fs \<Longrightarrow> smp_wf s \<Longrightarrow> smp_wf (f s)) \<Longrightarrow> smp_wf s \<Longrightarrow> smp_wf (pick_key fs k i s)"
  by (induction fs k i s rule: pick_key.induct) auto

lemma wf_key_steps:
  assumes "env_wf e" and dist: "\<And>s. smp_wf s \<Longrightarrow> smp_wf (dist s)" and nxt: "\<And>s. smp_wf s \<Longrightarrow> smp_wf (nx s)" and "smp_wf s"
  shows "smp_wf (key_distribution_step e sm br dist nx s)" "smp_wf (br_select_next_key_step e sm br dist nx s)"
proof -
  have p: "smp_wf (smp_key_pick_key e sm br dist nx s)"
    unfolding smp_key_pick_key_def by (rule wf_pick_key [OF _ assms(4)]) (rule wf_picked [OF assms(1) dist nxt])
  have lk: "smp_wf (smp_derive_link_key_from_long_term_key e sm s)" if "smp_wf s" for s
    using wf_transport_keys(1) [OF that] assms(1)
    by (simp add: smp_derive_link_key_from_long_term_key_def Let_def case_prod_unfold sm_wf)
  show "smp_wf (key_distribution_step e sm br dist nx s)"
    unfolding key_distribution_step_def Let_def using p assms(1,4) lk by (simp add: sm_wf)
  show "smp_wf (br_select_next_key_step e sm br dist nx s)"
    unfolding br_select_next_key_step_def Let_def using p assms(1,4) by (simp add: br_wf)
qed

lemma wf_key_dist: "env_wf e \<Longrightarrow> smp_wf s \<Longrightarrow> smp_wf (key_dist e sm br n b s)"
proof (induction n arbitrary: b s)
  case (Suc n)
  have "smp_wf (key_dist e sm br n b' s')" if "smp_wf s'" for b' s'
    using Suc.IH that Suc.prems(1) by blast
  then show ?case
    using wf_key_steps [of "key_dist e sm br n False" "key_dist e sm br n True" s] Suc.prems by simp
qed simp

lemma wf_distribution:
  assumes "env_wf e" "smp_wf s"
  shows "smp_wf (smp_key_distribution_act e sm br s)" "smp_wf (smp_br_select_next_key_act e sm br s)"
    "smp_wf (distribute_by_transport e sm br s)"
  using assms by (simp_all add: smp_key_distribution_act_def smp_br_select_next_key_act_def
      distribute_by_transport_def smp_key_distribution_by_transport_def wf_key_dist)

lemma wf_compute_csrk_act:
  "env_wf e \<Longrightarrow> smp_wf s \<Longrightarrow> smp_wf (smp_compute_csrk e sm br (distribute_by_transport e sm br) s)"
  by (simp add: wf_compute_csrk wf_distribution)

lemma wf_send_acts:
  assumes "env_wf e" "smp_wf s"
  shows "smp_wf (smp_send_pair_fail_act e sm br d s)" "smp_wf (smp_send_pair_req_act e sm br s)"
    "smp_wf (smp_send_confirm_act e sm br s)" "smp_wf (smp_send_init e sm br s)" "smp_wf (smp_send_rand_act e sm br s)"
    "smp_wf (smp_send_pair_public_key_act e sm br s)" "smp_wf (smp_send_commitment_act e sm br s)"
    "smp_wf (smp_send_dhkey_check_act e sm br s)" "smp_wf (smp_send_keypress_notification_act e sm br d s)"
    "smp_wf (smp_send_ltk_reply_act d s)"
    "smp_wf (smp_send_enc_info_act e sm br (smp_key_distribution_act e sm br) s)"
    "smp_wf (smp_send_id_info_act e sm br (distribute_by_transport e sm br) s)"
  using assms
  by (auto simp: smp_send_pair_fail_act_def smp_send_pair_req_act_def smp_send_confirm_act_def smp_send_init_def smp_send_rand_act_def
      smp_send_pair_public_key_act_def smp_send_commitment_act_def smp_send_dhkey_check_act_def
      smp_send_keypress_notification_act_def smp_send_ltk_reply_act_def smp_send_enc_info_act_def smp_send_id_info_act_def
      Let_def wf_send wf_distribution wf_save_if_bond wf_update_key_mask split: option.splits smp_data.splits)

lemma wf_app_cback:
  assumes "env_wf e" "smp_wf s"
  shows "smp_wf (smp_send_app_cback_act e sm br d s)"
proof -
  have io: "smp_wf (io_cap_answer e r s)" if "smp_wf s" for r s
    using that by (simp add: io_cap_answer_def Let_def)
  have keys: "smp_wf (br_keys_answer r s)" if "smp_wf s" for r s
    using that by (simp add: br_keys_answer_def)
  have answer: "smp_wf (app_answer e sm br rc c s)" if "smp_wf s" for rc c s
    using that assms(1) io keys by (auto simp: app_answer_def sm_wf br_wf split: smp_evt_data.splits)
  show ?thesis
    using assms answer by (simp add: smp_send_app_cback_act_def Let_def sm_wf case_prod_unfold split: option.splits)
qed

lemma wf_decide:
  assumes "env_wf e" "smp_wf s"
  shows "smp_wf (smp_decide_association_model_act e sm s)"
  using assms by (simp add: smp_decide_association_model_act_def Let_def sm_wf wf_passkeys smp_wf_arrays)

lemma wf_oob_private_key:
  assumes "env_wf e" "smp_wf s"
  shows "smp_wf (smp_use_oob_private_key_act e sm s)"
  using assms smp_wf_lengths(23) [OF assms(2)]
  by (simp add: smp_use_oob_private_key_act_def wf_decide wf_private_key smp_wf_arrays wf_set_state
      oob_wf_def loc_oob_wf_def)

lemma wf_pair_rsp: "env_wf e \<Longrightarrow> smp_wf s \<Longrightarrow> smp_wf (smp_send_pair_rsp_act e sm br s)"
  using wf_send(3) [of "s\<lparr>local_i_key := local_i_key s AND peer_i_key s, local_r_key := local_r_key s AND peer_r_key s\<rparr>"]
  by (simp add: smp_send_pair_rsp_act_def Let_def case_prod_unfold wf_oob_private_key wf_decide)

lemma wf_security_checks:
  assumes "env_wf e" "smp_wf s" "\<And>s. smp_wf s \<Longrightarrow> smp_wf (k s)"
  shows "smp_wf (security_checks e sm k s)"
  using assms by (simp add: security_checks_def Let_def sm_wf)

lemma wf_select_model: "smp_wf s \<Longrightarrow> smp_wf (select_model s)"
  by (simp add: select_model_def smp_select_association_model_def Let_def case_prod_unfold split: option.splits)

lemma wf_request_oob: "env_wf e \<Longrightarrow> smp_wf s \<Longrightarrow> smp_wf (snd (smp_request_oob_data sm s))"
  by (simp add: smp_request_oob_data_def Let_def sm_wf)

lemma wf_pair_cmd:
  assumes "env_wf e" "smp_wf s"
  shows "smp_wf (smp_proc_pair_cmd_act e sm br d s)"
proof -
  have rd: "smp_wf (read_pair_cmd p s)" if "smp_wf s" for p s
    using that by (simp add: read_pair_cmd_def)
  have slave: "smp_wf (if selected_association_model s = 8 then snd (smp_request_oob_data sm s) else smp_send_pair_rsp_act e sm br s)"
    if "smp_wf s" for s using that assms(1) by (simp add: wf_request_oob wf_pair_rsp)
  have master: "smp_wf (if selected_association_model s = 8 then snd (smp_request_oob_data sm s) else smp_decide_association_model_act e sm s)"
    if "smp_wf s" for s using that assms(1) by (simp add: wf_request_oob wf_decide)
  show ?thesis
    using assms rd unfolding smp_proc_pair_cmd_act_def Let_def
    by (auto split: option.splits intro!: sm_wf wf_security_checks wf_select_model slave master)
qed

lemma wf_io_response:
  assumes "env_wf e" "smp_wf s"
  shows "smp_wf (smp_process_io_response_act e sm br s)"
proof -
  have k: "smp_wf (if selected_association_model s = 8 then
      (let (asked, s) = smp_request_oob_data sm s in if asked then s else smp_send_pair_rsp_act e sm br s)
      else smp_send_pair_rsp_act e sm br s)" if "smp_wf s" for s
    using wf_request_oob [OF assms(1) that] that assms(1)
    by (simp add: Let_def case_prod_unfold wf_pair_rsp)
  show ?thesis
    using assms unfolding smp_process_io_response_act_def
    by (auto intro!: wf_send wf_set_state wf_security_checks wf_select_model k)
qed

lemma wf_copied:
  assumes "smp_wf s" "\<And>p s. length p = len \<Longrightarrow> smp_wf s \<Longrightarrow> smp_wf (put p s)"
  shows "smp_wf (copied off len d put s)" "smp_wf (copied_if off len d put s)"
proof -
  show c: "smp_wf (copied off len d put s)"
    using assms by (auto simp: copied_def data_bytes_def split: option.splits smp_data.splits if_splits)
  show "smp_wf (copied_if off len d put s)" using assms(1) c by (simp add: copied_if_def)
qed

lemma wf_checked:
  "env_wf e \<Longrightarrow> smp_wf s \<Longrightarrow> (\<And>s. smp_wf s \<Longrightarrow> smp_wf (k s)) \<Longrightarrow> smp_wf (checked sm k s)"
  by (simp add: checked_def sm_wf)

lemma wf_both_public_keys: "env_wf e \<Longrightarrow> smp_wf s \<Longrightarrow> smp_wf (smp_wait_for_both_public_keys_act sm s)"
  by (simp add: smp_wait_for_both_public_keys_act_def sm_wf wf_set_state)

lemma wf_public_key:
  assumes "env_wf e" "smp_wf s"
  shows "smp_wf (smp_process_pairing_public_key_act sm d s)"
proof -
  have x: "smp_wf (copied 0 32 d (\<lambda>p s. s\<lparr>peer_publ_key := (peer_publ_key s)\<lparr>pk_x := p\<rparr>\<rparr>) s)" if "smp_wf s" for s
    by (rule wf_copied [OF that]) (auto intro!: smp_wf_arrays dest: smp_wf_lengths(22) simp: key_wf_def)
  have y: "smp_wf (copied 32 32 d (\<lambda>p s. s\<lparr>peer_publ_key := (peer_publ_key s)\<lparr>pk_y := p\<rparr>\<rparr>) s)" if "smp_wf s" for s
    by (rule wf_copied [OF that]) (auto intro!: smp_wf_arrays dest: smp_wf_lengths(22) simp: key_wf_def)
  show ?thesis
    unfolding smp_process_pairing_public_key_act_def Let_def
    by (rule wf_checked [OF assms]) (simp add: wf_both_public_keys assms(1) sm_wf x y)
qed

lemma wf_received:
  assumes "env_wf e" "smp_wf s"
  shows "smp_wf (smp_proc_confirm_act sm d s)" "smp_wf (smp_proc_init sm d s)" "smp_wf (smp_proc_rand_act sm d s)"
    "smp_wf (smp_process_pairing_commitment_act sm d s)" "smp_wf (smp_process_dhkey_check_act sm d s)"
    "smp_wf (smp_process_keypress_notification_act sm d s)"
proof -
  note c = wf_copied smp_wf_arrays wf_checked [OF assms] wf_checked [OF assms(1)]
  show "smp_wf (smp_proc_confirm_act sm d s)"
    unfolding smp_proc_confirm_act_def Let_def by (intro c) (auto intro!: wf_copied smp_wf_arrays)
  show "smp_wf (smp_proc_init sm d s)" "smp_wf (smp_proc_rand_act sm d s)"
    unfolding smp_proc_init_def smp_proc_rand_act_def by (intro c; auto intro!: smp_wf_arrays)+
  show "smp_wf (smp_process_pairing_commitment_act sm d s)" "smp_wf (smp_process_dhkey_check_act sm d s)"
    unfolding smp_process_pairing_commitment_act_def smp_process_dhkey_check_act_def Let_def
    by (intro c; auto intro!: wf_copied smp_wf_arrays)+
  show "smp_wf (smp_process_keypress_notification_act sm d s)"
    unfolding smp_process_keypress_notification_act_def using assms
    by (auto split: option.splits intro!: wf_checked)
qed

lemma wf_br_acts:
  assumes "env_wf e" "smp_wf s"
  shows "smp_wf (smp_br_process_pairing_command_act br d s)" "smp_wf (smp_br_process_security_grant_act br d s)"
    "smp_wf (smp_br_check_authorization_request_act e sm br s)" "smp_wf (smp_br_send_pair_response_act e sm br s)"
    "smp_wf (smp_br_process_slave_keys_response_act e sm br s)"
proof -
  have rd: "smp_wf (read_pair_cmd p s)" if "smp_wf s" for p s
    using that by (simp add: read_pair_cmd_def)
  have dev: "dev_wf ((s_dev u)(a \<mapsto> r\<lparr>dr_new_encryption_key_is_p256 := False\<rparr>))"
    if "smp_wf u" "s_dev s b = Some r" for u a b r
    using that dev_wf_key [OF assms(2)] by simp
  show "smp_wf (smp_br_process_pairing_command_act br d s)"
    using assms unfolding smp_br_process_pairing_command_act_def Let_def
    by (auto split: option.splits intro!: br_wf smp_wf_arrays dev rd)
  show "smp_wf (smp_br_process_security_grant_act br d s)"
    using assms by (auto simp: smp_br_process_security_grant_act_def intro!: br_wf split: option.splits)
  show "smp_wf (smp_br_check_authorization_request_act e sm br s)"
    using assms by (simp add: smp_br_check_authorization_request_act_def Let_def wf_distribution br_wf)
  show "smp_wf (smp_br_send_pair_response_act e sm br s)" "smp_wf (smp_br_process_slave_keys_response_act e sm br s)"
    using assms by (simp_all add: smp_br_process_slave_keys_response_act_def smp_br_send_pair_response_act_def wf_send)
qed

lemma wf_received_keys:
  assumes "env_wf e" "smp_wf s"
  shows "smp_wf (smp_proc_enc_info_act e sm br d s)" "smp_wf (smp_proc_master_id_act e sm br d s)"
    "smp_wf (smp_proc_id_info_act e sm br d s)" "smp_wf (smp_proc_id_addr_act e sm br d s)"
    "smp_wf (smp_proc_srk_info_act e sm br d s)"
proof -
  have u: "smp_wf (smp_update_key_mask k r s)" for k r using assms(2) by (rule wf_update_key_mask)
  show "smp_wf (smp_proc_enc_info_act e sm br d s)" unfolding smp_proc_enc_info_act_def
    by (rule wf_distribution [OF assms(1)], rule wf_copied [OF assms(2)]) (rule smp_wf_arrays)
  show "smp_wf (smp_proc_id_info_act e sm br d s)" unfolding smp_proc_id_info_act_def
    by (rule wf_distribution [OF assms(1)], rule wf_copied [OF assms(2)]) (rule smp_wf_arrays)
  show "smp_wf (smp_proc_master_id_act e sm br d s)" unfolding smp_proc_master_id_act_def
    by (rule wf_distribution [OF assms(1)], rule wf_copied [OF u]) (rule wf_save_if_bond)
  show "smp_wf (smp_proc_srk_info_act e sm br d s)" unfolding smp_proc_srk_info_act_def
    by (rule wf_distribution [OF assms(1)], rule wf_copied [OF u]) (rule wf_save_if_bond)
  show "smp_wf (smp_proc_id_addr_act e sm br d s)" unfolding smp_proc_id_addr_act_def
    by (rule wf_distribution [OF assms(1)], rule wf_copied [OF u]) (simp add: Let_def wf_save_if_bond smp_wf_arrays)
qed

lemma wf_smaller_key_size: "smp_wf s \<Longrightarrow> smp_wf (smaller_key_size s)"
  by (simp add: smaller_key_size_def)

lemma wf_remove_channel: "smp_wf s \<Longrightarrow> smp_wf (smp_remove_fixed_channel s)"
  by (simp add: smp_remove_fixed_channel_def)

lemma wf_pairing_cmpl:
  assumes "smp_wf s"
  shows "smp_wf (smp_reset_control_value s)" "smp_wf (smp_proc_pairing_cmpl s)"
proof -
  have r: "smp_wf (smp_reset_control_value s)" if "smp_wf s" for s
    using that by (simp add: smp_reset_control_value_def Let_def wf_cb_cleanup wf_remove_channel)
  then show "smp_wf (smp_reset_control_value s)" using assms by blast
  have dev: "dev_wf ((s_dev u)(a \<mapsto> y))" if "smp_wf u" "s_dev u a = Some x" "dr_link_key y = dr_link_key x" for u a x y
    using that dev_wf_key [OF that(1,2)] by simp
  show "smp_wf (smp_proc_pairing_cmpl s)"
    unfolding smp_proc_pairing_cmpl_def Let_def using assms dev_wf_key [OF assms]
    by (simp add: case_prod_unfold r smp_wf_arrays dev split: option.split)
qed

lemma wf_completion:
  assumes "env_wf e" "smp_wf s"
  shows "smp_wf (smp_proc_compare_act sm d s)" "smp_wf (smp_proc_sl_key_act e sm d s)" "smp_wf (smp_start_enc_act e sm d s)"
    "smp_wf (smp_proc_discard_act s)" "smp_wf (smp_enc_cmpl_act sm d s)" "smp_wf (smp_check_auth_req_act sm d s)"
    "smp_wf (smp_pairing_cmpl_act s)" "smp_wf (smp_pair_terminate_act s)" "smp_wf (smp_idle_terminate_act s)"
    "smp_wf (smp_br_pairing_complete_act s)" "smp_wf (smp_fast_conn_param_act s)"
    "smp_wf (smp_proc_sec_req_act e sm d s)" "smp_wf (smp_proc_sec_grant_act sm d s)" "smp_wf (smp_proc_pair_fail_act d s)"
proof -
  have keys: "smp_wf (keys_to_distribute s)" using assms(2) by (simp add: keys_to_distribute_def Let_def)
  show "smp_wf (smp_proc_compare_act sm d s)" "smp_wf (smp_start_enc_act e sm d s)" "smp_wf (smp_enc_cmpl_act sm d s)"
    using assms unfolding smp_proc_compare_act_def smp_start_enc_act_def smp_enc_cmpl_act_def
    by (auto simp: Let_def split: smp_data.splits option.splits intro!: sm_wf wf_smaller_key_size)
  show "smp_wf (smp_proc_sl_key_act e sm d s)"
    using assms by (auto simp: smp_proc_sl_key_act_def Let_def smp_generate_srand_mrand_confirm_act_def
        split: option.splits intro!: sm_wf wf_ask_rand wf_set_state)
  show "smp_wf (smp_check_auth_req_act sm d s)"
    using assms keys by (auto simp: smp_check_auth_req_act_def Let_def split: option.splits intro!: sm_wf)
  show "smp_wf (smp_proc_discard_act s)" "smp_wf (smp_pairing_cmpl_act s)" "smp_wf (smp_pair_terminate_act s)"
    "smp_wf (smp_idle_terminate_act s)" "smp_wf (smp_br_pairing_complete_act s)"
    using assms by (simp_all add: smp_proc_discard_act_def smp_pairing_cmpl_act_def smp_pair_terminate_act_def
        smp_idle_terminate_act_def smp_br_pairing_complete_act_def wf_pairing_cmpl)
  show "smp_wf (smp_fast_conn_param_act s)" "smp_wf (smp_proc_pair_fail_act d s)"
    using assms by (auto simp: smp_fast_conn_param_act_def smp_proc_pair_fail_act_def split: option.splits)
  show "smp_wf (smp_proc_sec_req_act e sm d s)" "smp_wf (smp_proc_sec_grant_act sm d s)"
    using assms by (auto simp: smp_proc_sec_req_act_def smp_proc_sec_grant_act_def Let_def split: option.splits intro!: sm_wf)
qed

lemma wf_commitment_checked:
  assumes "smp_wf s" "\<And>ok s. smp_wf s \<Longrightarrow> smp_wf (f ok s)"
  shows "smp_wf (case smp_check_commitment e s of (ok, s) \<Rightarrow> f ok s)"
  using wf_commitments(2) [OF assms(1)] assms(2) by (simp add: case_prod_unfold)

lemma wf_secure_connections:
  assumes "env_wf e" "smp_wf s"
  shows "smp_wf (smp_both_have_public_keys_act e sm br s)" "smp_wf (smp_process_secure_connection_oob_data_act e sm s)"
    "smp_wf (smp_start_secure_connection_phase1_act e sm s)" "smp_wf (smp_process_local_nonce_act e sm br s)"
    "smp_wf (smp_match_dhkey_checks_act sm d s)" "smp_wf (smp_start_passkey_verification_act e sm d s)"
proof -
  have nonce: "smp_wf (smp_start_nonce_generation e sm s)" if "smp_wf s" for s
    using that assms(1) by (rule wf_nonces(1) [rotated])
  show "smp_wf (smp_both_have_public_keys_act e sm br s)"
    using assms by (simp add: smp_both_have_public_keys_act_def Let_def sm_wf wf_send_acts wf_compute_dhkey)
  have oob: "smp_wf (smp_process_secure_connection_oob_data_act e sm s)" if "smp_wf s" for s
    using that assms(1) smp_wf_lengths(23) [OF that]
    unfolding smp_process_secure_connection_oob_data_act_def Let_def
    by (auto intro!: nonce wf_commitment_checked sm_wf smp_wf_arrays simp: oob_wf_def loc_oob_wf_def)
  then show "smp_wf (smp_process_secure_connection_oob_data_act e sm s)" using assms(2) by blast
  show "smp_wf (smp_start_secure_connection_phase1_act e sm s)"
    using assms by (auto simp: smp_start_secure_connection_phase1_act_def Let_def intro!: nonce sm_wf wf_passkeys oob smp_wf_arrays)
  show "smp_wf (smp_process_local_nonce_act e sm br s)"
    using assms by (simp add: smp_process_local_nonce_act_def Let_def wf_set_state wf_send_acts wf_commitments)
  show "smp_wf (smp_match_dhkey_checks_act sm d s)"
    using assms unfolding smp_match_dhkey_checks_act_def
    by (auto simp: Let_def split: smp_data.splits intro!: sm_wf wf_smaller_key_size)
  show "smp_wf (smp_start_passkey_verification_act e sm d s)"
    using assms by (auto simp: smp_start_passkey_verification_act_def split: option.splits intro!: nonce smp_wf_arrays)
qed

lemma wf_peer_nonce:
  assumes "env_wf e" "smp_wf s"
  shows "smp_wf (smp_process_peer_nonce_act e sm br s)"
proof -
  have c: "smp_wf (snd (if b then smp_check_commitment e s else (True, smp_send_rand_act e sm br s)))" if "smp_wf s" for b s
    using that assms(1) by (simp add: wf_commitments wf_send_acts)
  have cf: "smp_wf (commitment_failed sm s)" if "smp_wf s" for s
    using that assms(1) by (simp add: commitment_failed_def sm_wf)
  show ?thesis
    using assms unfolding smp_process_peer_nonce_act_def Let_def
    by (auto simp: case_prod_unfold split: if_splits
        intro!: sm_wf wf_nonces wf_set_state c cf wf_send_acts wf_commitments)
qed

lemma wf_local_oob:
  assumes "env_wf e" "smp_wf s"
  shows "smp_wf (smp_set_local_oob_keys_act e sm s)" "smp_wf (smp_set_local_oob_random_commitment_act e sm br s)"
proof -
  note o1 = smp_wf_lengths(23) [OF assms(2)]
  show "smp_wf (smp_set_local_oob_keys_act e sm s)"
    using assms o1 unfolding smp_set_local_oob_keys_act_def Let_def
    by (intro wf_nonces smp_wf_arrays) (simp_all add: oob_wf_def loc_oob_wf_def)
  have f4: "length (smp_calculate_f4 mem stack u u x z) = 16"
    if "length x = 16" "length u = 32" "length stack = 16" for mem stack u x z
    using that by (simp add: smp_calculate_f4_def length_cmac_call)
  show "smp_wf (smp_set_local_oob_random_commitment_act e sm br s)"
    using assms o1 unfolding smp_set_local_oob_random_commitment_act_def Let_def
    by (intro wf_cb_cleanup wf_app_cback) (auto intro!: smp_wf_arrays f4 simp: oob_wf_def loc_oob_wf_def key_wf_def)
qed

lemma wf_action: "env_wf e \<Longrightarrow> smp_wf s \<Longrightarrow> smp_wf (smp_action e sm br a d s)"
  by (cases a) (simp_all add: smp_action_def wf_send_acts wf_completion wf_br_acts wf_received_keys wf_secure_connections
      wf_peer_nonce wf_local_oob wf_pair_cmd wf_io_response wf_pair_rsp wf_public_key wf_received wf_both_public_keys
      wf_decide wf_app_cback wf_oob_private_key wf_distribution wf_generate_stk wf_generate_confirm wf_dhkey_checks wf_numeric
      smp_create_private_key_act_def wf_ask_rand smp_generate_srand_mrand_confirm_act_def
      smp_move_to_secure_connections_phase2_act_def smp_phase_2_dhkey_checks_are_present_act_def sm_wf)

lemma wf_convert_passkey: "env_wf e \<Longrightarrow> smp_wf s \<Longrightarrow> smp_wf (smp_convert_string_to_tk sm k s)"
  by (simp add: smp_convert_string_to_tk_def Let_def sm_wf smp_wf_arrays)

lemma wf_timeout: "env_wf e \<Longrightarrow> smp_wf s \<Longrightarrow> smp_wf (smp_rsp_timeout sm br s)"
  by (simp add: smp_rsp_timeout_def wf_send)

lemma wf_rand_back:
  assumes "env_wf e" "smp_wf s"
    and "\<And>p. answer = Some p \<Longrightarrow> enc_status p = 0 \<Longrightarrow> rand_enc_proc_state s AND NOT 0x80 = SMP_GEN_RAND_V \<Longrightarrow> 8 \<le> length (enc_param_buf p)"
  shows "smp_wf (smp_rand_back e sm br answer s)"
proof -
  have put: "smp_wf (case mem_put off p (rand s) of None \<Rightarrow> bad s | Some r \<Rightarrow> k (s\<lparr>rand := r\<rparr>))"
    if "\<And>s. smp_wf s \<Longrightarrow> smp_wf (k s)" for off p k
    using assms(2) by (auto split: option.split intro!: that smp_wf_arrays dest: length_mem_put)
  have failed: "smp_wf (smp_rand_failed sm s)" using assms by (simp add: smp_rand_failed_def sm_wf)
  show ?thesis
  proof (cases answer)
    case (Some p)
    have nonce: "smp_wf (smp_finish_nonce_generation e sm s)" "smp_wf (smp_process_new_nonce sm s)"
      "smp_wf (smp_generate_rand_cont e sm s)" "smp_wf (smp_generate_confirm e sm s)" if "smp_wf s" for s
      using that assms(1) by (simp_all add: wf_nonces wf_generate_confirm smp_generate_rand_cont_def wf_ask_rand)
    show ?thesis
      using assms Some failed unfolding smp_rand_back_def Let_def
      by (auto intro!: put nonce wf_keys_generated wf_compute_csrk_act wf_passkeys wf_private_key_bytes smp_wf_arrays)
  qed (simp add: smp_rand_back_def failed)
qed

lemma wf_callbacks:
  assumes "env_wf e" "smp_wf s" "length a = 6"
  shows "smp_wf (smp_connect_callback e sm a c r t s)" "smp_wf (smp_data_received e sm a p s)"
    "smp_wf (smp_tx_complete_callback sm br cid k s)" "smp_wf (smp_br_connect_callback br a c r t s)"
    "smp_wf (smp_br_data_received e br a p s)" "smp_wf (smp_link_encrypted sm a en s)"
    "smp_wf (snd (smp_proc_ltk_request sm a s))"
proof -
  have role: "e_ble_role e a \<le> 1" for a using assms(1) by (simp add: env_wf_def)
  note w = sm_wf [OF assms(1)] br_wf [OF assms(1)] wf_send(5) [OF assms(1)] smp_wf_arrays
  show "smp_wf (smp_connect_callback e sm a c r t s)"
    using assms(2,3) role by (simp add: smp_connect_callback_def Let_def w)
  show "smp_wf (smp_data_received e sm a p s)"
    using assms(2,3) role by (simp add: smp_data_received_def Let_def w split: list.split)
  show "smp_wf (smp_tx_complete_callback sm br cid k s)"
    using assms(2) by (simp add: smp_tx_complete_callback_def Let_def w)
  show "smp_wf (smp_br_connect_callback br a c r t s)"
    using assms(2) by (simp add: smp_br_connect_callback_def w)
  show "smp_wf (smp_br_data_received e br a p s)"
    using assms(2,3) by (simp add: smp_br_data_received_def Let_def w split: list.split)
  show "smp_wf (smp_link_encrypted sm a en s)"
    using assms(2,3) dev_wf_key [OF assms(2), of a] by (simp add: smp_link_encrypted_def w split: option.split)
  show "smp_wf (snd (smp_proc_ltk_request sm a s))"
    using assms(2) by (simp add: smp_proc_ltk_request_def Let_def w)
qed

lemma wf_api:
  assumes "env_wf e" "smp_wf s"
  shows "length a = 6 \<Longrightarrow> smp_wf (snd (SMP_Pair e sm a s))" "length a = 6 \<Longrightarrow> smp_wf (snd (SMP_BR_PairWith e br a s))"
    "smp_wf (snd (SMP_PairCancel sm a s))" "smp_wf (SMP_SecurityGrant sm br a res s)" "smp_wf (SMP_PasskeyReply sm a res k s)"
    "smp_wf (SMP_ConfirmReply sm a res s)" "smp_wf (SMP_OobDataReply sm res len p s)"
    "(\<And>o1. oob = Some o1 \<Longrightarrow> oob_wf o1) \<Longrightarrow> smp_wf (SMP_SecureConnectionOobDataReply sm oob s)"
    "smp_wf (SMP_KeypressNotification sm a val s)" "smp_wf (snd (SMP_CreateLocalSecureConnectionsOobData sm to s))"
proof -
  note w = sm_wf [OF assms(1)] br_wf [OF assms(1)] smp_wf_arrays
  show "smp_wf (snd (SMP_Pair e sm a s))" "smp_wf (snd (SMP_BR_PairWith e br a s))" if "length a = 6"
    using assms(2) that by (simp_all add: SMP_Pair_def SMP_BR_PairWith_def Let_def w)
  show "smp_wf (snd (SMP_PairCancel sm a s))" "smp_wf (SMP_SecurityGrant sm br a res s)" "smp_wf (SMP_ConfirmReply sm a res s)"
    "smp_wf (SMP_KeypressNotification sm a val s)"
    using assms(2) by (simp_all add: SMP_PairCancel_def SMP_SecurityGrant_def SMP_ConfirmReply_def SMP_KeypressNotification_def w)
  show "smp_wf (SMP_PasskeyReply sm a res k s)"
    using assms by (simp add: SMP_PasskeyReply_def w wf_convert_passkey)
  show "smp_wf (SMP_OobDataReply sm res len p s)"
    using assms(2) by (auto simp: SMP_OobDataReply_def Let_def intro!: w split: option.split)
  show "smp_wf (SMP_SecureConnectionOobDataReply sm oob s)" if "\<And>o1. oob = Some o1 \<Longrightarrow> oob_wf o1"
    using assms(2) that by (auto simp: SMP_SecureConnectionOobDataReply_def intro!: w split: option.split)
  show "smp_wf (snd (SMP_CreateLocalSecureConnectionsOobData sm to s))"
    using assms(2) smp_wf_lengths(23) [OF assms(2)]
    by (auto simp: SMP_CreateLocalSecureConnectionsOobData_def Let_def oob_wf_def loc_oob_wf_def intro!: w split: option.split)
qed

end

section \<open>The machines\<close>

lemma wf_actions:
  "(\<And>a s. smp_wf s \<Longrightarrow> smp_wf (act a d s)) \<Longrightarrow> smp_wf s \<Longrightarrow> smp_actions act table none d as s = Some s' \<Longrightarrow> smp_wf s'"
  by (induction as arbitrary: s) (auto split: if_splits Option.bind_splits)

lemma wf_sm_event:
  assumes act: "\<And>a s. smp_wf s \<Longrightarrow> smp_wf (act a d s)" and "smp_wf s"
  shows "smp_sm_event act s event d = Some s' \<Longrightarrow> smp_wf s'"
    "smp_br_state_machine_event act s event d = Some s' \<Longrightarrow> smp_wf s'"
  using assms(2)
  by (auto simp: smp_sm_event_def smp_br_state_machine_event_def split: if_splits Option.bind_splits option.splits
      intro: wf_actions [of act, OF act] wf_set_state)

lemma wf_events: "env_wf e \<Longrightarrow> smp_wf s \<Longrightarrow> smp_wf (smp_events e n over_br event d s)"
proof (induction n arbitrary: over_br event d s)
  case (Suc n)
  have "wf_machines e (sm_of e n) (br_of e n)"
    using Suc.IH by unfold_locales
  then have act: "smp_wf (smp_action e (sm_of e n) (br_of e n) a d s)" if "smp_wf s" for a s
    using Suc.prems(1) that by (rule wf_machines.wf_action)
  show ?case
    using wf_sm_event [of "smp_action e (sm_of e n) (br_of e n)" d s, OF act Suc.prems(2)] Suc.prems(2)
    by (auto simp: Let_def split: option.split)
qed simp

interpretation smp: wf_machines e "sm_of e n" "br_of e n" for e n
  by unfold_locales (rule wf_events; assumption)+

end
