(* ===== verification/SmpEntry.thy ===== *)
theory SmpEntry
  imports SmpWf
begin

text \<open>
  The ways into the security manager: the functions of \<open>smp_api.c\<close>, the callbacks it registers with L2CAP,
  the answers of the controller, the events of the link and the response timer, and what the rest of the
  stack does to the device records between them.  A run is a sequence of such calls after \<open>SMP_Init\<close>.
\<close>

section \<open>Calls\<close>

datatype smp_call =
    Call_Register bool
  | Call_SetTraceLevel u8
  | Call_Pair bytes
  | Call_BR_PairWith bytes
  | Call_PairCancel bytes
  | Call_SecurityGrant bytes u8
  | Call_PasskeyReply bytes u8 u32
  | Call_SetStaticPasskey bool u32
  | Call_ConfirmReply bytes u8
  | Call_OobDataReply u8 u8 "bytes option"
  | Call_ScOobDataReply "tSMP_SC_OOB_DATA option"
  | Call_KeypressNotification bytes u8
  | Call_CreateLocalOob "bytes option"
  | Connected bytes bool u16 u8
  | Received bytes bytes
  | Tx_Complete u16 u16
  | Br_Connected bytes bool u16 u8
  | Br_Received bytes bytes
  | Rand_Answer "tSMP_ENC option"
  | Link_Encrypted bytes u8
  | Ltk_Request bytes
  | Timeout
  | Devices "bytes \<Rightarrow> dev_rec option"

text \<open>\<open>n\<close> bounds the nesting of events that a call may cause.\<close>

definition smp_enter :: "smp_env \<Rightarrow> nat \<Rightarrow> smp_call \<Rightarrow> smp_sys \<Rightarrow> smp_sys" where
  "smp_enter e n c s = (case c of
     Call_Register cb \<Rightarrow> snd (SMP_Register cb s)
   | Call_SetTraceLevel l \<Rightarrow> snd (SMP_SetTraceLevel l s)
   | Call_Pair a \<Rightarrow> snd (SMP_Pair e (sm_of e n) a s)
   | Call_BR_PairWith a \<Rightarrow> snd (SMP_BR_PairWith e (br_of e n) a s)
   | Call_PairCancel a \<Rightarrow> snd (SMP_PairCancel (sm_of e n) a s)
   | Call_SecurityGrant a res \<Rightarrow> SMP_SecurityGrant (sm_of e n) (br_of e n) a res s
   | Call_PasskeyReply a res k \<Rightarrow> SMP_PasskeyReply (sm_of e n) a res k s
   | Call_SetStaticPasskey add k \<Rightarrow> SMP_SetStaticPasskey add k s
   | Call_ConfirmReply a res \<Rightarrow> SMP_ConfirmReply (sm_of e n) a res s
   | Call_OobDataReply res len p \<Rightarrow> SMP_OobDataReply (sm_of e n) res len p s
   | Call_ScOobDataReply p \<Rightarrow> SMP_SecureConnectionOobDataReply (sm_of e n) p s
   | Call_KeypressNotification a v \<Rightarrow> SMP_KeypressNotification (sm_of e n) a v s
   | Call_CreateLocalOob a \<Rightarrow> snd (SMP_CreateLocalSecureConnectionsOobData (sm_of e n) a s)
   | Connected a c r t \<Rightarrow> smp_connect_callback e (sm_of e n) a c r t s
   | Received a p \<Rightarrow> smp_data_received e (sm_of e n) a p s
   | Tx_Complete cid k \<Rightarrow> smp_tx_complete_callback (sm_of e n) (br_of e n) cid k s
   | Br_Connected a c r t \<Rightarrow> smp_br_connect_callback (br_of e n) a c r t s
   | Br_Received a p \<Rightarrow> smp_br_data_received e (br_of e n) a p s
   | Rand_Answer x \<Rightarrow> smp_rand_back e (sm_of e n) (br_of e n) x s
   | Link_Encrypted a en \<Rightarrow> smp_link_encrypted (sm_of e n) a en s
   | Ltk_Request a \<Rightarrow> snd (smp_proc_ltk_request (sm_of e n) a s)
   | Timeout \<Rightarrow> smp_rsp_timeout (sm_of e n) (br_of e n) s
   | Devices m \<Rightarrow> s\<lparr>s_dev := m\<rparr>)"

text \<open>Addresses have six bytes; random numbers come eight at a time; the application's data is of its type.\<close>

definition rand_answer_ok :: "tSMP_ENC option \<Rightarrow> bool" where
  "rand_answer_ok x = (case x of None \<Rightarrow> True | Some p \<Rightarrow> 8 \<le> length (enc_param_buf p))"

definition call_wf :: "smp_call \<Rightarrow> bool" where
  "call_wf c = (case c of
     Call_Pair a \<Rightarrow> length a = 6
   | Call_BR_PairWith a \<Rightarrow> length a = 6
   | Call_ScOobDataReply p \<Rightarrow> (case p of None \<Rightarrow> True | Some o1 \<Rightarrow> oob_wf o1)
   | Connected a c r t \<Rightarrow> length a = 6
   | Received a p \<Rightarrow> length a = 6
   | Br_Connected a c r t \<Rightarrow> length a = 6
   | Br_Received a p \<Rightarrow> length a = 6
   | Rand_Answer x \<Rightarrow> rand_answer_ok x
   | Link_Encrypted a en \<Rightarrow> length a = 6
   | Ltk_Request a \<Rightarrow> length a = 6
   | Devices m \<Rightarrow> dev_wf m
   | _ \<Rightarrow> True)"

lemma enter_wf:
  assumes "env_wf e" "call_wf c" "smp_wf s"
  shows "smp_wf (smp_enter e n c s)"
proof -
  have tx: "smp_wf (smp_tx_complete_callback (sm_of e n) (br_of e n) cid k s)" for cid k
    using smp.wf_callbacks(3) [OF assms(1,3), of "zeros 6"] by simp
  have dev: "smp_wf (s\<lparr>s_dev := m\<rparr>)" if "dev_wf m" for m using assms(3) that by (simp add: smp_wf_arrays)
  note w = smp.wf_api [OF assms(1,3)] smp.wf_callbacks(1,2,4-7) [OF assms(1,3)] smp.wf_timeout [OF assms(1,3)]
    smp.wf_rand_back [OF assms(1,3)] dev tx
  show ?thesis
    using assms(2,3) by (cases c) (auto simp: smp_enter_def call_wf_def SMP_Register_def SMP_SetTraceLevel_def Let_def
        SMP_SetStaticPasskey_def rand_answer_ok_def intro!: w)
qed

section \<open>Runs\<close>

inductive smp_reachable :: "smp_env \<Rightarrow> smp_sys \<Rightarrow> bool" for e where
  init: "smp_wf s \<Longrightarrow> smp_reachable e (SMP_Init level s)"
| enter: "smp_reachable e s \<Longrightarrow> call_wf c \<Longrightarrow> smp_reachable e (smp_enter e n c s)"

text \<open>The memory the block starts in; only the device records matter.\<close>

definition smp_start :: "(bytes \<Rightarrow> dev_rec option) \<Rightarrow> smp_sys" where
  "smp_start m = tSMP_CB.extend zero_smp_cb \<lparr>s_dev = m, s_out = [], s_clock = 0, s_bad = False\<rparr>"

lemma smp_start_wf: "dev_wf m \<Longrightarrow> smp_wf (smp_start m)"
  by (simp add: smp_start_def smp_wf_def extend_fields zero_fields del: smp_wf_lengths) (simp add: tSMP_CB.extend_def)

lemma init_wf: "smp_wf s \<Longrightarrow> smp_wf (SMP_Init level s)"
  using wf_cleared [OF smp_wf_lengths(24)] by (simp add: SMP_Init_def smp_l2cap_if_init_def extend_updates)

text \<open>
  C12: Whatever calls are made and whatever peer, application, controller and allocator answer, the control
  block keeps the types it is declared with: in every reachable state every key, random value and address
  has the length of its array, the states are states of their machines and the role is master or slave.
\<close>
theorem smp_block_typed:
  assumes "env_wf e" "smp_reachable e s"
  shows "smp_wf s"
  using assms(2) by induction (simp_all add: init_wf enter_wf assms(1))

definition wit_env :: smp_env where
  "wit_env = \<lparr>e_mem = (\<lambda>t k. True), e_stack = (\<lambda>t. []), e_send_ok = (\<lambda>t. True), e_rand_ok = (\<lambda>t. True),
     e_remote_addr = (\<lambda>a. Some ([6, 5, 4, 3, 2, 1], 0)), e_local_addr = (\<lambda>a. (zeros 6, 0)), e_controller_addr = zeros 6, e_er = zeros 16,
     e_irk = zeros 16, e_dhk = zeros 16, e_local_div = (\<lambda>a. None), e_security_mode = 4, e_supports_sc = True,
     e_link_key_type = (\<lambda>a. 0), e_accept_auth_enable = False, e_auth_req = 0, e_acl_up = (\<lambda>a. True),
     e_lmp_version = (\<lambda>a. Some 8), e_interop_no_sc = (\<lambda>a. False), e_sec_check = (\<lambda>a b. 2), e_start_encrypt = (\<lambda>t. 1),
     e_callback = (\<lambda>t ev d. (0, d)), e_ble_role = (\<lambda>a. 0), e_connect_ok = (\<lambda>t. True)\<rparr>"

lemma wit_env_wf: "env_wf wit_env"
  by (simp add: env_wf_def wit_env_def)

lemma smp_block_typed_witness:
  "smp_wf (smp_enter wit_env 9 Timeout (smp_enter wit_env 9 (Received [1, 2, 3, 4, 5, 6] [1, 3, 0, 5, 16, 1, 1])
     (smp_enter wit_env 9 (Call_Pair [1, 2, 3, 4, 5, 6]) (SMP_Init 2 (smp_start (\<lambda>a. None))))))"
  by (rule smp_block_typed [OF wit_env_wf], intro smp_reachable.intros smp_start_wf) (simp_all add: call_wf_def dev_wf_def)

end
