(* ===== verification/SmpPeers.thy ===== *)
theory SmpPeers
  imports SmpSpec SmpEntry
begin

text \<open>
  Two devices that run this code and have exchanged the values of a pairing: each holds as the peer's
  what the other holds as its own.  The theory shows that the two sides choose association models that fit,
  compute the same confirm values, commitments, numbers to compare, keys and checks, and that these are
  the ones of the specification.
\<close>

unbundle bit_operations_syntax

section \<open>Mirrored control blocks\<close>

text \<open>\<open>a\<close> and \<open>b\<close> have exchanged pairing commands, random values and public keys.\<close>

definition mirrored :: "smp_sys \<Rightarrow> smp_sys \<Rightarrow> bool" where
  "mirrored a b \<longleftrightarrow>
     local_io_capability a = peer_io_caps b \<and> loc_oob_flag a = peer_oob_flag b \<and> loc_auth_req a = peer_auth_req b \<and>
     peer_io_caps a = local_io_capability b \<and> peer_oob_flag a = loc_oob_flag b \<and> peer_auth_req a = loc_auth_req b \<and>
     loc_enc_size a = peer_enc_size b \<and> peer_enc_size a = loc_enc_size b \<and>
     local_i_key a = peer_i_key b \<and> local_r_key a = peer_r_key b \<and>
     peer_i_key a = local_i_key b \<and> peer_r_key a = local_r_key b \<and>
     rand a = rrand b \<and> rrand a = rand b \<and> local_random a = peer_random b \<and> peer_random a = local_random b \<and>
     loc_publ_key a = peer_publ_key b \<and> peer_publ_key a = loc_publ_key b \<and> dhkey a = dhkey b \<and> tk a = tk b"

text \<open>Each knows the address of the other, and there is memory.\<close>

definition linked :: "smp_env \<Rightarrow> smp_env \<Rightarrow> smp_sys \<Rightarrow> smp_sys \<Rightarrow> bool" where
  "linked ea eb a b \<longleftrightarrow>
     e_remote_addr ea (pairing_bda a) = Some (e_local_addr eb (pairing_bda b)) \<and>
     e_remote_addr eb (pairing_bda b) = Some (e_local_addr ea (pairing_bda a)) \<and>
     env_wf ea \<and> env_wf eb \<and> smp_wf a \<and> smp_wf b \<and> (\<forall>t k. e_mem ea t k) \<and> (\<forall>t k. e_mem eb t k)"

lemma mirrored_sym: "mirrored a b \<Longrightarrow> mirrored b a"
  by (simp add: mirrored_def)

lemma linked_sym: "linked ea eb a b \<Longrightarrow> linked eb ea b a"
  by (simp add: linked_def)

text \<open>Two concrete blocks: a master with a keyboard and a slave with a display, both with LE Secure Connections.\<close>

definition wit_peer_env :: smp_env where
  "wit_peer_env = wit_env\<lparr>e_remote_addr := (\<lambda>a. Some (zeros 6, 0))\<rparr>"

definition wit_master :: smp_sys where
  "wit_master = (smp_start (\<lambda>a. None))\<lparr>local_io_capability := 2, peer_io_caps := 1, loc_auth_req := 13, peer_auth_req := 9,
     loc_enc_size := 16, peer_enc_size := 16, selected_association_model := 6\<rparr>"

definition wit_slave :: smp_sys where
  "wit_slave = (smp_start (\<lambda>a. None))\<lparr>local_io_capability := 1, peer_io_caps := 2, loc_auth_req := 9, peer_auth_req := 13,
     loc_enc_size := 16, peer_enc_size := 16, smp_role := 1, selected_association_model := 7\<rparr>"

lemma wit_mirrored: "mirrored wit_master wit_slave"
  by (simp add: mirrored_def wit_master_def wit_slave_def smp_start_def tSMP_CB.extend_def zero_smp_cb_def)

lemma wit_roles: "smp_role wit_master = 0" "smp_role wit_slave = 1" "local_io_capability wit_master = 2"
  "local_io_capability wit_slave = 1" "selected_association_model wit_master = 6" "selected_association_model wit_slave = 7"
  "round wit_master = 0" "round wit_slave = 0"
  by (simp_all add: wit_master_def wit_slave_def smp_start_def tSMP_CB.extend_def zero_smp_cb_def)

lemma wit_linked: "linked wit_peer_env wit_peer_env wit_master wit_slave"
proof -
  have "smp_wf (smp_start (\<lambda>a. None))" by (rule smp_start_wf) (simp add: dev_wf_def)
  then have "smp_wf wit_master" "smp_wf wit_slave" by (simp_all add: wit_master_def wit_slave_def smp_wf_arrays)
  then show ?thesis by (simp add: linked_def wit_peer_env_def wit_env_def env_wf_def)
qed

section \<open>Association models\<close>

definition legacy_pairs :: "(u8 \<times> u8) list" where
  "legacy_pairs = [(SMP_MODEL_ENCRYPTION_ONLY, SMP_MODEL_ENCRYPTION_ONLY), (SMP_MODEL_PASSKEY, SMP_MODEL_KEY_NOTIF),
     (SMP_MODEL_KEY_NOTIF, SMP_MODEL_PASSKEY), (SMP_MODEL_PASSKEY, SMP_MODEL_PASSKEY), (SMP_MODEL_OOB, SMP_MODEL_OOB)]"

definition sc_pairs :: "(u8 \<times> u8) list" where
  "sc_pairs = [(SMP_MODEL_SEC_CONN_JUSTWORKS, SMP_MODEL_SEC_CONN_JUSTWORKS), (SMP_MODEL_SEC_CONN_NUM_COMP, SMP_MODEL_SEC_CONN_NUM_COMP),
     (SMP_MODEL_SEC_CONN_PASSKEY_ENT, SMP_MODEL_SEC_CONN_PASSKEY_DISP), (SMP_MODEL_SEC_CONN_PASSKEY_DISP, SMP_MODEL_SEC_CONN_PASSKEY_ENT),
     (SMP_MODEL_SEC_CONN_PASSKEY_ENT, SMP_MODEL_SEC_CONN_PASSKEY_ENT), (SMP_MODEL_SEC_CONN_OOB, SMP_MODEL_SEC_CONN_OOB)]"

definition io_caps :: "u8 list" where
  "io_caps = [0, 1, 2, 3, 4]"

lemma io_caps: "x < SMP_IO_CAP_MAX \<Longrightarrow> x \<in> set io_caps"
proof -
  assume "x < SMP_IO_CAP_MAX"
  then have "unat x < 5" by (simp add: word_less_nat_alt)
  then have "unat x = 0 \<or> unat x = 1 \<or> unat x = 2 \<or> unat x = 3 \<or> unat x = 4" by linarith
  then show ?thesis by (auto simp: io_caps_def word_unat_eq_iff)
qed

text \<open>All entries of the tables: the model of the master at its row, that of the slave at its.\<close>

lemma table_pairs:
  "list_all (\<lambda>i. list_all (\<lambda>j. \<exists>x \<in> set legacy_pairs.
     model_at smp_association_table 0 j i = Some (fst x) \<and> model_at smp_association_table 1 j i = Some (snd x)) io_caps) io_caps"
  "list_all (\<lambda>i. list_all (\<lambda>j. \<exists>x \<in> set sc_pairs.
     model_at smp_association_table_sc 0 j i = Some (fst x) \<and> model_at smp_association_table_sc 1 j i = Some (snd x)) io_caps) io_caps"
  by (simp_all add: io_caps_def model_at_def smp_association_table_def smp_association_table_sc_def legacy_pairs_def sc_pairs_def)

lemma legacy_models:
  assumes "mirrored m s" "smp_role m = HCI_ROLE_MASTER" "smp_role s = HCI_ROLE_SLAVE"
    "local_io_capability m < SMP_IO_CAP_MAX" "local_io_capability s < SMP_IO_CAP_MAX"
  shows "\<exists>x \<in> set legacy_pairs. smp_select_legacy_association_model m = Some (fst x) \<and> smp_select_legacy_association_model s = Some (snd x)"
proof -
  define oob where "oob \<longleftrightarrow> peer_oob_flag m = SMP_OOB_PRESENT \<and> loc_oob_flag m = SMP_OOB_PRESENT"
  define free where "free \<longleftrightarrow> SMP_NO_MITM_REQUIRED (peer_auth_req m) \<and> SMP_NO_MITM_REQUIRED (loc_auth_req m)"
  note io = io_caps [OF assms(4)] io_caps [OF assms(5)]
  have "\<exists>x \<in> set legacy_pairs. model_at smp_association_table 0 (local_io_capability s) (local_io_capability m) = Some (fst x) \<and>
      model_at smp_association_table 1 (local_io_capability s) (local_io_capability m) = Some (snd x)"
    using table_pairs(1) [unfolded list_all_iff] io by blast
  moreover have "\<exists>x \<in> set legacy_pairs. fst x = SMP_MODEL_OOB \<and> snd x = SMP_MODEL_OOB"
    "\<exists>x \<in> set legacy_pairs. fst x = SMP_MODEL_ENCRYPTION_ONLY \<and> snd x = SMP_MODEL_ENCRYPTION_ONLY"
    by (simp_all add: legacy_pairs_def)
  moreover have "smp_select_legacy_association_model m = (if oob then Some SMP_MODEL_OOB else if free then Some SMP_MODEL_ENCRYPTION_ONLY
      else model_at smp_association_table 0 (local_io_capability s) (local_io_capability m))"
    using assms by (simp add: smp_select_legacy_association_model_def model_by_io_def oob_def free_def mirrored_def)
  moreover have "smp_select_legacy_association_model s = (if oob then Some SMP_MODEL_OOB else if free then Some SMP_MODEL_ENCRYPTION_ONLY
      else model_at smp_association_table 1 (local_io_capability s) (local_io_capability m))"
    using assms by (simp add: smp_select_legacy_association_model_def model_by_io_def oob_def free_def mirrored_def conj_commute disj_commute)
  ultimately show ?thesis by (cases oob; cases free) simp_all
qed

lemma sc_models:
  assumes "mirrored m s" "smp_role m = HCI_ROLE_MASTER" "smp_role s = HCI_ROLE_SLAVE"
    "local_io_capability m < SMP_IO_CAP_MAX" "local_io_capability s < SMP_IO_CAP_MAX"
  shows "\<exists>x \<in> set sc_pairs. smp_select_association_model_secure_connections m = Some (fst x) \<and>
    smp_select_association_model_secure_connections s = Some (snd x)"
proof -
  define oob where "oob \<longleftrightarrow> peer_oob_flag m = SMP_OOB_PRESENT \<or> loc_oob_flag m = SMP_OOB_PRESENT"
  define free where "free \<longleftrightarrow> SMP_NO_MITM_REQUIRED (peer_auth_req m) \<and> SMP_NO_MITM_REQUIRED (loc_auth_req m)"
  note io = io_caps [OF assms(4)] io_caps [OF assms(5)]
  have "\<exists>x \<in> set sc_pairs. model_at smp_association_table_sc 0 (local_io_capability s) (local_io_capability m) = Some (fst x) \<and>
      model_at smp_association_table_sc 1 (local_io_capability s) (local_io_capability m) = Some (snd x)"
    using table_pairs(2) [unfolded list_all_iff] io by blast
  moreover have "\<exists>x \<in> set sc_pairs. fst x = SMP_MODEL_SEC_CONN_OOB \<and> snd x = SMP_MODEL_SEC_CONN_OOB"
    "\<exists>x \<in> set sc_pairs. fst x = SMP_MODEL_SEC_CONN_JUSTWORKS \<and> snd x = SMP_MODEL_SEC_CONN_JUSTWORKS"
    by (simp_all add: sc_pairs_def)
  moreover have "smp_select_association_model_secure_connections m = (if oob then Some SMP_MODEL_SEC_CONN_OOB else if free then Some SMP_MODEL_SEC_CONN_JUSTWORKS
      else model_at smp_association_table_sc 0 (local_io_capability s) (local_io_capability m))"
    using assms by (simp add: smp_select_association_model_secure_connections_def model_by_io_def oob_def free_def mirrored_def)
  moreover have "smp_select_association_model_secure_connections s = (if oob then Some SMP_MODEL_SEC_CONN_OOB else if free then Some SMP_MODEL_SEC_CONN_JUSTWORKS
      else model_at smp_association_table_sc 1 (local_io_capability s) (local_io_capability m))"
    using assms by (simp add: smp_select_association_model_secure_connections_def model_by_io_def oob_def free_def mirrored_def conj_commute disj_commute)
  ultimately show ?thesis by (cases oob; cases free) simp_all
qed

text \<open>
  C15: When master and slave have exchanged their pairing commands with valid input and output capabilities,
  the association models they select fit: the same mode on both sides, never two displays, a displayed
  passkey only where the other side enters it, and otherwise the same model; no read leaves the tables.
\<close>
theorem association_models_fit:
  assumes "mirrored m s" "smp_role m = HCI_ROLE_MASTER" "smp_role s = HCI_ROLE_SLAVE"
    "local_io_capability m < SMP_IO_CAP_MAX" "local_io_capability s < SMP_IO_CAP_MAX"
  shows "\<exists>x y sc. smp_select_association_model m = (x, m\<lparr>le_secure_connections_mode_is_used := sc\<rparr>) \<and>
    smp_select_association_model s = (y, s\<lparr>le_secure_connections_mode_is_used := sc\<rparr>) \<and>
    (x, y) \<in> set (if sc then sc_pairs else legacy_pairs)"
proof -
  define sc where "sc = (peer_auth_req m AND SMP_SC_SUPPORT_BIT \<noteq> 0 \<and> loc_auth_req m AND SMP_SC_SUPPORT_BIT \<noteq> 0)"
  let ?m = "m\<lparr>le_secure_connections_mode_is_used := sc\<rparr>" and ?s = "s\<lparr>le_secure_connections_mode_is_used := sc\<rparr>"
  have sc': "sc = (peer_auth_req s AND SMP_SC_SUPPORT_BIT \<noteq> 0 \<and> loc_auth_req s AND SMP_SC_SUPPORT_BIT \<noteq> 0)"
    using assms(1) by (auto simp: sc_def mirrored_def)
  have p: "mirrored ?m ?s" "smp_role ?m = 0" "smp_role ?s = 1" "local_io_capability ?m < 5" "local_io_capability ?s < 5"
    using assms by (simp_all add: mirrored_def)
  have "\<exists>x \<in> set (if sc then sc_pairs else legacy_pairs).
      (if sc then smp_select_association_model_secure_connections ?m else smp_select_legacy_association_model ?m) = Some (fst x) \<and>
      (if sc then smp_select_association_model_secure_connections ?s else smp_select_legacy_association_model ?s) = Some (snd x)"
    using legacy_models [OF p] sc_models [OF p] by (cases sc) simp_all
  then obtain x where x: "x \<in> set (if sc then sc_pairs else legacy_pairs)"
    and "(if sc then smp_select_association_model_secure_connections ?m else smp_select_legacy_association_model ?m) = Some (fst x)"
    and "(if sc then smp_select_association_model_secure_connections ?s else smp_select_legacy_association_model ?s) = Some (snd x)"
    by blast
  then have "smp_select_association_model m = (fst x, ?m)" "smp_select_association_model s = (snd x, ?s)"
    by (simp_all add: smp_select_association_model_def Let_def sc_def [symmetric] sc' [symmetric])
  with x show ?thesis by (metis prod.collapse)
qed

lemma association_models_fit_witness:
  "\<exists>x y sc. smp_select_association_model wit_master = (x, wit_master\<lparr>le_secure_connections_mode_is_used := sc\<rparr>) \<and>
    smp_select_association_model wit_slave = (y, wit_slave\<lparr>le_secure_connections_mode_is_used := sc\<rparr>) \<and>
    (x, y) \<in> set (if sc then sc_pairs else legacy_pairs)"
  by (rule association_models_fit [OF wit_mirrored]) (simp_all add: wit_roles)

section \<open>Commitments\<close>

lemma f4_value:
  "length u = 32 \<Longrightarrow> length v = 32 \<Longrightarrow> length x = 16 \<Longrightarrow> \<forall>k. mem k \<Longrightarrow>
    smp_calculate_f4 mem stack u v x z = rev (bt_f4 (rev u) (rev v) (rev x) z)"
  using f4_spec [of "rev u" "rev v" "rev x" mem stack z] by simp

lemma length_bt_f4 [simp]: "length (bt_f4 U V X Z) = 16"
  by (simp add: bt_f4_def)

lemma random_input_defined: "unat r < 128 \<Longrightarrow> length p = 16 \<Longrightarrow> \<exists>z. smp_calculate_random_input p r = Some z"
  by (auto simp: smp_calculate_random_input_def rd_def unat_div)

lemma typed_keys:
  assumes "smp_wf s"
  shows "length (pk_x (loc_publ_key s)) = 32" "length (pk_x (peer_publ_key s)) = 32"
  using smp_wf_lengths(21,22) [OF assms] by (simp_all add: key_wf_def)

text \<open>The value each model commits to, and the bit of the passkey in the round.\<close>

definition commitment_value :: "smp_sys \<Rightarrow> bytes" where
  "commitment_value s =
     (let m = selected_association_model s; u = rev (pk_x (loc_publ_key s)); v = rev (pk_x (peer_publ_key s)) in
      if m = SMP_MODEL_SEC_CONN_OOB then rev (bt_f4 u u (rev (local_random s)) 0)
      else if m = SMP_MODEL_SEC_CONN_PASSKEY_ENT \<or> m = SMP_MODEL_SEC_CONN_PASSKEY_DISP
      then rev (bt_f4 u v (rev (rand s)) (the (smp_calculate_random_input (local_random s) (round s))))
      else rev (bt_f4 u v (rev (rand s)) 0))"

definition sc_model :: "u8 \<Rightarrow> nat" where
  "sc_model m = (if m = SMP_MODEL_SEC_CONN_JUSTWORKS \<or> m = SMP_MODEL_SEC_CONN_NUM_COMP then 1
     else if m = SMP_MODEL_SEC_CONN_PASSKEY_ENT \<or> m = SMP_MODEL_SEC_CONN_PASSKEY_DISP then 2
     else if m = SMP_MODEL_SEC_CONN_OOB then 3 else 0)"

lemma local_commitment_value:
  assumes "smp_wf s" "\<forall>t k. e_mem e t k" "sc_model (selected_association_model s) \<noteq> 0" "unat (round s) < 128"
  shows "commitment (smp_calculate_local_commitment e s) = commitment_value s"
  using assms(2,3) typed_keys [OF assms(1)] random_input_defined [OF assms(4), of "local_random s"] assms(1)
  by (auto simp: smp_calculate_local_commitment_def commitment_value_def sc_model_def Let_def f4_value tick_def split: if_splits)

lemma peer_commitment_value:
  assumes "smp_wf a" "mirrored a b" "\<forall>t k. e_mem e t k" "sc_model (selected_association_model a) = sc_model (selected_association_model b)"
    "sc_model (selected_association_model b) \<noteq> 0" "unat (round a) < 128" "round a = round b"
  shows "smp_calculate_peer_commitment e buf a = (commitment_value b, tick a)"
  using assms(2-5,7) typed_keys [OF assms(1)] random_input_defined [OF assms(6), of "peer_random a"] assms(1)
    smp_wf_lengths(10,12) [OF assms(1)] smp_wf_lengths(5) [OF assms(1)]
  by (auto simp: smp_calculate_peer_commitment_def commitment_value_def sc_model_def Let_def f4_value mirrored_def split: if_splits)

text \<open>
  C14: Where both sides use the same kind of model and are in the same round, each accepts exactly the
  commitment that the code of the other computes, and this is f4 of the specification: over both public
  keys, the committing side's random value and the round's bit of the passkey, or for out of band data over
  its public key alone.
\<close>
theorem commitments_agree:
  assumes "linked ea eb a b" "mirrored a b" "sc_model (selected_association_model a) = sc_model (selected_association_model b)"
    "sc_model (selected_association_model b) \<noteq> 0" "unat (round b) < 128" "round a = round b"
  shows "commitment (smp_calculate_local_commitment eb b) = commitment_value b \<and>
    (fst (smp_check_commitment ea a) \<longleftrightarrow> remote_commitment a = commitment (smp_calculate_local_commitment eb b))"
proof -
  have w: "smp_wf a" "smp_wf b" "\<forall>t k. e_mem ea t k" "\<forall>t k. e_mem eb t k"
    using assms(1) by (simp_all add: linked_def)
  have loc: "commitment (smp_calculate_local_commitment eb b) = commitment_value b"
    using local_commitment_value [OF w(2,4) assms(4,5)] .
  have "length (commitment_value b) = 16" by (simp add: commitment_value_def Let_def)
  then show ?thesis
    using loc w(1) peer_commitment_value [OF w(1) assms(2) w(3) assms(3,4) _ assms(6)] assms(5,6)
    by (simp add: smp_check_commitment_def tick_def)
qed

lemma commitments_agree_witness:
  "commitment (smp_calculate_local_commitment wit_peer_env wit_slave) = commitment_value wit_slave \<and>
    (fst (smp_check_commitment wit_peer_env wit_master) \<longleftrightarrow>
       remote_commitment wit_master = commitment (smp_calculate_local_commitment wit_peer_env wit_slave))"
  by (rule commitments_agree [OF wit_linked wit_mirrored]) (simp_all add: wit_roles sc_model_def)

section \<open>Numbers to compare\<close>

lemma g2_value:
  "length u = 32 \<Longrightarrow> length v = 32 \<Longrightarrow> length x = 16 \<Longrightarrow> length y = 16 \<Longrightarrow> \<forall>k. mem k \<Longrightarrow>
    unat (smp_calculate_g2 mem stack u v x y) = bt_g2 (rev u) (rev v) (rev x) (rev y)"
  using g2_spec [of "rev u" "rev v" "rev x" "rev y" mem stack] by simp

lemma displayed_number:
  assumes "smp_wf s" "\<forall>t k. e_mem e t k"
  shows "\<exists>n. smp_calculate_numeric_comparison_display_number_act e sm s =
      sm SMP_SC_DSPL_NC_EVT (Passkey n) ((tick (s\<lparr>number_to_display := n\<rparr>))\<lparr>cb_evt := SMP_NC_REQ_EVT\<rparr>) \<and>
    unat n = (let l = rev (pk_x (loc_publ_key s)); p = rev (pk_x (peer_publ_key s)) in
      if smp_role s = HCI_ROLE_MASTER then bt_g2 l p (rev (rand s)) (rev (rrand s)) else bt_g2 p l (rev (rrand s)) (rev (rand s)))"
    (is "\<exists>n. _ \<and> unat n = ?v")
proof -
  let ?g = "smp_calculate_g2 (e_mem e (s_clock s)) (stack_bytes e (s_clock s) 16)"
  let ?l = "pk_x (loc_publ_key s)" and ?p = "pk_x (peer_publ_key s)"
  let ?n = "if smp_role s = HCI_ROLE_MASTER then ?g ?l ?p (rand s) (rrand s) else ?g ?p ?l (rrand s) (rand s)"
  have v: "unat ?n = ?v" using assms typed_keys [OF assms(1)] by (simp add: g2_value Let_def)
  also have "\<dots> < 1000000" by (simp add: bt_g2_def Let_def)
  finally have "\<not> BTM_MAX_PASSKEY_VAL + 1 \<le> ?n" by (simp add: word_le_nat_alt)
  then show ?thesis
    using v unfolding smp_calculate_numeric_comparison_display_number_act_def Let_def tick_def by (intro exI [of _ ?n]) simp
qed

text \<open>
  C9: In numeric comparison both sides show the same number, of at most six digits, which is g2 of the
  specification over the master's and the slave's public keys and random values.
\<close>
theorem numbers_agree:
  assumes "linked em es m s" "mirrored m s" "smp_role m = HCI_ROLE_MASTER" "smp_role s = HCI_ROLE_SLAVE"
  shows "\<exists>n. unat n < 1000000 \<and>
    unat n = bt_g2 (rev (pk_x (loc_publ_key m))) (rev (pk_x (loc_publ_key s))) (rev (rand m)) (rev (rand s)) \<and>
    smp_calculate_numeric_comparison_display_number_act em sm m =
      sm SMP_SC_DSPL_NC_EVT (Passkey n) ((tick (m\<lparr>number_to_display := n\<rparr>))\<lparr>cb_evt := SMP_NC_REQ_EVT\<rparr>) \<and>
    smp_calculate_numeric_comparison_display_number_act es sm' s =
      sm' SMP_SC_DSPL_NC_EVT (Passkey n) ((tick (s\<lparr>number_to_display := n\<rparr>))\<lparr>cb_evt := SMP_NC_REQ_EVT\<rparr>)"
proof -
  have w: "smp_wf m" "smp_wf s" "\<forall>t k. e_mem em t k" "\<forall>t k. e_mem es t k"
    using assms(1) by (simp_all add: linked_def)
  obtain n where n: "smp_calculate_numeric_comparison_display_number_act em sm m =
      sm SMP_SC_DSPL_NC_EVT (Passkey n) ((tick (m\<lparr>number_to_display := n\<rparr>))\<lparr>cb_evt := SMP_NC_REQ_EVT\<rparr>)"
    and vn: "unat n = bt_g2 (rev (pk_x (loc_publ_key m))) (rev (pk_x (loc_publ_key s))) (rev (rand m)) (rev (rand s))"
    using displayed_number [OF w(1,3), of sm] assms(2,3) by (auto simp: mirrored_def Let_def)
  obtain k where k: "smp_calculate_numeric_comparison_display_number_act es sm' s =
      sm' SMP_SC_DSPL_NC_EVT (Passkey k) ((tick (s\<lparr>number_to_display := k\<rparr>))\<lparr>cb_evt := SMP_NC_REQ_EVT\<rparr>)"
    and vk: "unat k = bt_g2 (rev (pk_x (loc_publ_key m))) (rev (pk_x (loc_publ_key s))) (rev (rand m)) (rev (rand s))"
    using displayed_number [OF w(2,4), of sm'] assms(2,4) by (auto simp: mirrored_def Let_def)
  have "n = k" using vn vk by (simp add: word_unat_eq_iff)
  moreover have "unat n < 1000000" using vn by (simp add: bt_g2_def)
  ultimately show ?thesis using n k vn by blast
qed

lemma numbers_agree_witness:
  "\<exists>n. unat n < 1000000 \<and>
    unat n = bt_g2 (rev (pk_x (loc_publ_key wit_master))) (rev (pk_x (loc_publ_key wit_slave))) (rev (rand wit_master)) (rev (rand wit_slave)) \<and>
    smp_calculate_numeric_comparison_display_number_act wit_peer_env (\<lambda>ev d s. s) wit_master =
      (\<lambda>ev d s. s) SMP_SC_DSPL_NC_EVT (Passkey n) ((tick (wit_master\<lparr>number_to_display := n\<rparr>))\<lparr>cb_evt := SMP_NC_REQ_EVT\<rparr>) \<and>
    smp_calculate_numeric_comparison_display_number_act wit_peer_env (\<lambda>ev d s. s) wit_slave =
      (\<lambda>ev d s. s) SMP_SC_DSPL_NC_EVT (Passkey n) ((tick (wit_slave\<lparr>number_to_display := n\<rparr>))\<lparr>cb_evt := SMP_NC_REQ_EVT\<rparr>)"
  by (rule numbers_agree [OF wit_linked wit_mirrored]) (simp_all add: wit_roles)

section \<open>Keys and checks of phase 2\<close>

lemma own_address:
  assumes "env_wf e"
  shows "length (smp_collect_local_ble_address e s) = 7"
  using assms by (rule smp.length_ble_addresses(1))

lemma peer_address:
  assumes "linked ea eb a b"
  shows "smp_collect_peer_ble_address ea buf a = smp_collect_local_ble_address eb b"
  using assms by (simp add: linked_def smp_collect_peer_ble_address_def smp_collect_local_ble_address_def case_prod_unfold Let_def)

lemma f5_value:
  assumes "length w = 32" "length n1 = 16" "length n2 = 16" "length a1 = 7" "length a2 = 7" "\<forall>j k. mem j k"
  shows "smp_calculate_f5 mem stack w n1 n2 a1 a2 mk lk =
    (True, rev (bt_f5 0 (rev w) (rev n1) (rev n2) (rev a1) (rev a2)), rev (bt_f5 1 (rev w) (rev n1) (rev n2) (rev a1) (rev a2)))"
  using f5_spec [of "rev w" "rev n1" "rev n2" "rev a1" "rev a2" mem stack mk lk] assms by simp

lemma f6_value:
  assumes "length w = 16" "length n1 = 16" "length n2 = 16" "length r = 16" "length io = 3" "length a1 = 7" "length a2 = 7" "\<forall>k. mem k"
  shows "smp_calculate_f6 mem stack w n1 n2 r io a1 a2 =
    (True, rev (bt_f6 (rev w) (rev n1) (rev n2) (rev r) (rev io) (rev a1) (rev a2)))"
  using f6_spec [of "rev w" "rev n1" "rev n2" "rev r" "rev io" "rev a1" "rev a2" mem stack] assms by simp

text \<open>MacKey (counter 0) and LTK (counter 1) of a pairing between \<open>m\<close> and \<open>s\<close>.\<close>

definition phase2_key :: "smp_env \<Rightarrow> smp_env \<Rightarrow> smp_sys \<Rightarrow> smp_sys \<Rightarrow> u8 \<Rightarrow> bytes" where
  "phase2_key em es m s counter = rev (bt_f5 counter (rev (dhkey m)) (rev (rand m)) (rev (rand s))
     (rev (smp_collect_local_ble_address em m)) (rev (smp_collect_local_ble_address es s)))"

lemma length_phase2_key [simp]: "length (phase2_key em es m s c) = 16"
  by (simp add: phase2_key_def bt_f5_def)

lemma f5_both:
  assumes "linked em es m s" "mirrored m s" "smp_role m = HCI_ROLE_MASTER" "smp_role s = HCI_ROLE_SLAVE"
  shows "smp_calculate_f5_mackey_and_long_term_key em m =
      (True, ticks 3 (m\<lparr>mac_key := phase2_key em es m s 0, ltk := phase2_key em es m s 1\<rparr>))"
    "smp_calculate_f5_mackey_and_long_term_key es s =
      (True, ticks 3 (s\<lparr>mac_key := phase2_key em es m s 0, ltk := phase2_key em es m s 1\<rparr>))"
proof -
  have w: "smp_wf m" "smp_wf s" "env_wf em" "env_wf es" "\<forall>t k. e_mem em t k" "\<forall>t k. e_mem es t k"
    using assms(1) by (simp_all add: linked_def)
  have r: "rrand m = rand s" "rrand s = rand m" "dhkey s = dhkey m" using assms(2) by (simp_all add: mirrored_def)
  note adr = peer_address [OF assms(1)] peer_address [OF linked_sym [OF assms(1)]]
  note v = f5_value
  show "smp_calculate_f5_mackey_and_long_term_key em m =
      (True, ticks 3 (m\<lparr>mac_key := phase2_key em es m s 0, ltk := phase2_key em es m s 1\<rparr>))"
    using assms(3) w by (simp add: smp_calculate_f5_mackey_and_long_term_key_def Let_def adr r v own_address phase2_key_def)
  show "smp_calculate_f5_mackey_and_long_term_key es s =
      (True, ticks 3 (s\<lparr>mac_key := phase2_key em es m s 0, ltk := phase2_key em es m s 1\<rparr>))"
    using assms(4) w by (simp add: smp_calculate_f5_mackey_and_long_term_key_def Let_def adr r v own_address phase2_key_def)
qed

text \<open>What remains of a block when its DHKey check is computed.\<close>

lemma local_check:
  assumes "smp_calculate_f5_mackey_and_long_term_key e s = (True, ticks 3 (s\<lparr>mac_key := mk, ltk := lk\<rparr>))"
    "smp_wf s" "env_wf e" "\<forall>t k. e_mem e t k" "length mk = 16"
    "\<And>buf. smp_collect_peer_ble_address e buf s = peer" "length peer = 7"
  shows "smp_calculate_local_dhkey_check_act e s = ticks 4 (s\<lparr>mac_key := mk, ltk := lk,
     dhkey_check := rev (bt_f6 (rev mk) (rev (rand s)) (rev (rrand s)) (rev (peer_random s))
       (rev (smp_collect_local_io_capabilities s)) (rev (smp_collect_local_ble_address e s)) (rev peer))\<rparr>)"
proof -
  let ?u = "ticks 3 (s\<lparr>mac_key := mk, ltk := lk\<rparr>)"
  have io: "smp_collect_local_io_capabilities ?u = smp_collect_local_io_capabilities s" "length (smp_collect_local_io_capabilities s) = 3"
    by (simp_all add: smp_collect_local_io_capabilities_def ticks_def)
  have loc: "smp_collect_local_ble_address e ?u = smp_collect_local_ble_address e s"
    by (simp add: smp_collect_local_ble_address_def ticks_def)
  have peer: "smp_collect_peer_ble_address e buf ?u = peer" for buf
    using assms(6) [of buf] by (simp add: smp_collect_peer_ble_address_def ticks_def)
  show ?thesis
    unfolding smp_calculate_local_dhkey_check_act_def assms(1) Let_def prod.case peer loc io(1)
    using assms(2-5,7) io(2) by (simp add: f6_value own_address ticks_def tick_def)
qed

lemma peer_check:
  assumes "smp_wf s" "env_wf e" "\<forall>t k. e_mem e t k" "\<And>buf. smp_collect_peer_ble_address e buf s = peer" "length peer = 7"
  shows "smp_calculate_peer_dhkey_check_act e sm s =
    sm SMP_SC_KEY_READY_EVT (Key SMP_KEY_TYPE_PEER_DHK_CHCK
      (rev (bt_f6 (rev (mac_key s)) (rev (rrand s)) (rev (rand s)) (rev (local_random s))
       (rev (smp_collect_peer_io_capabilities s)) (rev peer) (rev (smp_collect_local_ble_address e s))))) (tick s)"
proof -
  have io: "length (smp_collect_peer_io_capabilities s) = 3" by (simp add: smp_collect_peer_io_capabilities_def)
  show ?thesis
    unfolding smp_calculate_peer_dhkey_check_act_def Let_def assms(4)
    using assms(1-3,5) io by (simp add: f6_value own_address)
qed

text \<open>The block after its own check is computed looks to the peer as before.\<close>

lemma check_peer_eq:
  assumes "linked ea eb a b" "mirrored a b" "smp_role a \<noteq> smp_role b" "smp_role a \<le> 1" "smp_role b \<le> 1"
  shows "\<exists>c mk lk. dhkey_check (smp_calculate_local_dhkey_check_act ea a) = c \<and>
    mac_key (smp_calculate_local_dhkey_check_act ea a) = mk \<and> mac_key (smp_calculate_local_dhkey_check_act eb b) = mk \<and>
    ltk (smp_calculate_local_dhkey_check_act ea a) = lk \<and> ltk (smp_calculate_local_dhkey_check_act eb b) = lk \<and>
    smp_calculate_peer_dhkey_check_act eb sm (smp_calculate_local_dhkey_check_act eb b) =
      sm SMP_SC_KEY_READY_EVT (Key SMP_KEY_TYPE_PEER_DHK_CHCK c) (tick (smp_calculate_local_dhkey_check_act eb b))"
proof -
  have w: "smp_wf a" "smp_wf b" "env_wf ea" "env_wf eb" "\<forall>t k. e_mem ea t k" "\<forall>t k. e_mem eb t k"
    using assms(1) by (simp_all add: linked_def)
  have roles: "smp_role a = 0 \<and> smp_role b = 1 \<or> smp_role a = 1 \<and> smp_role b = 0"
  proof -
    have "x = 0 \<or> x = 1" if "x \<le> 1" for x :: u8 using that by (auto simp: word_le_nat_alt word_unat_eq_iff)
    then show ?thesis using assms(3-5) by metis
  qed
  obtain mk lk where f5: "smp_calculate_f5_mackey_and_long_term_key ea a = (True, ticks 3 (a\<lparr>mac_key := mk, ltk := lk\<rparr>))"
    "smp_calculate_f5_mackey_and_long_term_key eb b = (True, ticks 3 (b\<lparr>mac_key := mk, ltk := lk\<rparr>))" "length mk = 16"
    using roles f5_both [OF assms(1,2)] f5_both [OF linked_sym [OF assms(1)] mirrored_sym [OF assms(2)]] length_phase2_key by metis
  note pa = peer_address [OF assms(1)] and pb = peer_address [OF linked_sym [OF assms(1)]]
  note la = local_check [OF f5(1) w(1,3,5) f5(3) pa own_address [OF w(4)]]
  note lb = local_check [OF f5(2) w(2,4,6) f5(3) pb own_address [OF w(3)]]
  let ?b = "smp_calculate_local_dhkey_check_act eb b"
  have b: "mac_key ?b = mk" "rrand ?b = rrand b" "rand ?b = rand b" "local_random ?b = local_random b"
    "smp_collect_peer_io_capabilities ?b = smp_collect_peer_io_capabilities b"
    "smp_collect_local_ble_address eb ?b = smp_collect_local_ble_address eb b"
    "\<And>buf. smp_collect_peer_ble_address eb buf ?b = smp_collect_peer_ble_address eb buf b"
    unfolding lb by (simp_all add: ticks_def smp_collect_peer_io_capabilities_def smp_collect_local_ble_address_def
        smp_collect_peer_ble_address_def)
  have wb: "smp_wf ?b" by (rule smp.wf_dhkey_checks(1) [OF w(4,2)])
  have io: "smp_collect_peer_io_capabilities b = smp_collect_local_io_capabilities a"
    using assms(2) by (simp add: smp_collect_peer_io_capabilities_def smp_collect_local_io_capabilities_def mirrored_def)
  have "smp_calculate_peer_dhkey_check_act eb sm ?b =
      sm SMP_SC_KEY_READY_EVT (Key SMP_KEY_TYPE_PEER_DHK_CHCK (dhkey_check (smp_calculate_local_dhkey_check_act ea a))) (tick ?b)"
    using peer_check [OF wb w(4,6) _ own_address [OF w(3)], of a sm] assms(2)
    by (simp add: b io pb la ticks_def mirrored_def)
  moreover have "mac_key (smp_calculate_local_dhkey_check_act ea a) = mk" "ltk (smp_calculate_local_dhkey_check_act ea a) = lk"
    "ltk ?b = lk"
    unfolding la lb by (simp_all add: ticks_def)
  ultimately show ?thesis using b(1) by blast
qed

lemma local_check_keys:
  assumes "smp_calculate_f5_mackey_and_long_term_key e s = (ok, u)"
  shows "mac_key (smp_calculate_local_dhkey_check_act e s) = mac_key u" "ltk (smp_calculate_local_dhkey_check_act e s) = ltk u"
  using assms by (simp_all add: smp_calculate_local_dhkey_check_act_def case_prod_unfold Let_def tick_def)

text \<open>
  C1: Both sides derive the same MacKey and the same LTK, those of f5 of the specification, and each side's
  expected check value is the DHKey check the other side sends.
\<close>
theorem phase2_agrees:
  assumes "linked em es m s" "mirrored m s" "smp_role m = HCI_ROLE_MASTER" "smp_role s = HCI_ROLE_SLAVE"
  shows "let m' = smp_calculate_local_dhkey_check_act em m; s' = smp_calculate_local_dhkey_check_act es s in
    mac_key m' = phase2_key em es m s 0 \<and> mac_key s' = phase2_key em es m s 0 \<and>
    ltk m' = phase2_key em es m s 1 \<and> ltk s' = phase2_key em es m s 1 \<and>
    smp_calculate_peer_dhkey_check_act em sm m' =
      sm SMP_SC_KEY_READY_EVT (Key SMP_KEY_TYPE_PEER_DHK_CHCK (dhkey_check s')) (tick m') \<and>
    smp_calculate_peer_dhkey_check_act es sm' s' =
      sm' SMP_SC_KEY_READY_EVT (Key SMP_KEY_TYPE_PEER_DHK_CHCK (dhkey_check m')) (tick s')"
proof -
  have r: "smp_role m \<noteq> smp_role s" "smp_role s \<noteq> smp_role m" "smp_role m \<le> 1" "smp_role s \<le> 1" using assms(3,4) by simp_all
  note k = local_check_keys [OF f5_both(1) [OF assms]] local_check_keys [OF f5_both(2) [OF assms]]
  show ?thesis
    using check_peer_eq [OF assms(1,2) r(1,3,4), of sm'] check_peer_eq [OF linked_sym [OF assms(1)] mirrored_sym [OF assms(2)] r(2,4,3), of sm]
    by (auto simp: Let_def k ticks_def)
qed

lemma phase2_agrees_witness:
  "let m' = smp_calculate_local_dhkey_check_act wit_peer_env wit_master; s' = smp_calculate_local_dhkey_check_act wit_peer_env wit_slave in
    ltk m' = ltk s' \<and> smp_calculate_peer_dhkey_check_act wit_peer_env (\<lambda>ev d s. s) m' = tick m'"
  using phase2_agrees [OF wit_linked wit_mirrored, of "\<lambda>ev d s. s" "\<lambda>ev d s. s"] by (simp add: wit_roles Let_def)

section \<open>Legacy pairing\<close>

text \<open>The functions c1 and s1 of the specification (volume 3, part H, 2.2.3 and 2.2.4).\<close>

definition be_aes :: "bytes \<Rightarrow> bytes \<Rightarrow> bytes" where
  "be_aes k x = rev (aes_block (rev k) (rev x))"

definition bt_c1 :: "bytes \<Rightarrow> bytes \<Rightarrow> bytes \<Rightarrow> bytes \<Rightarrow> u8 \<Rightarrow> bytes \<Rightarrow> u8 \<Rightarrow> bytes \<Rightarrow> bytes" where
  "bt_c1 k r preq pres iat ia rat ra =
     (let p1 = pres @ preq @ [rat] @ [iat]; p2 = replicate 4 0 @ ia @ ra in
      be_aes k (map2 (XOR) (be_aes k (map2 (XOR) r p1)) p2))"

definition bt_s1 :: "bytes \<Rightarrow> bytes \<Rightarrow> bytes \<Rightarrow> bytes" where
  "bt_s1 k r1 r2 = be_aes k (drop 8 r1 @ drop 8 r2)"

text \<open>The confirm value that a side computes for a random value \<open>r\<close>.\<close>

definition confirm_value :: "smp_env \<Rightarrow> smp_sys \<Rightarrow> bytes \<Rightarrow> bytes" where
  "confirm_value e s r =
     (let (la, lt) = e_local_addr e (pairing_bda s); (pa, pt) = the (e_remote_addr e (pairing_bda s)) in
      rev (if smp_role s = HCI_ROLE_MASTER
        then bt_c1 (rev (tk s)) (rev r) (rev (smp_concatenate_local SMP_OPCODE_PAIRING_REQ s))
               (rev (smp_concatenate_peer SMP_OPCODE_PAIRING_RSP s)) lt la pt pa
        else bt_c1 (rev (tk s)) (rev r) (rev (smp_concatenate_peer SMP_OPCODE_PAIRING_REQ s))
               (rev (smp_concatenate_local SMP_OPCODE_PAIRING_RSP s)) pt pa lt la))"

lemma enc_at_block: "length key = 16 \<Longrightarrow> length p = 16 \<Longrightarrow> \<forall>t k. e_mem e t k \<Longrightarrow> enc_at e t key p 16 = Some (aes_block key p)"
  by (simp add: enc_at_value padded_def)

lemma rev_map2_xor: "length a = length b \<Longrightarrow> rev (map2 (XOR) a b) = map2 (XOR) (rev a) (rev b)" for a b :: bytes
  by (simp add: zip_rev rev_map)

lemma map2_xor_commute: "map2 (XOR) a b = map2 (XOR) b a" for a b :: bytes
  by (induction a b rule: list_induct2') (simp_all add: xor.commute)

lemma be_aes_xor: "length a = length b \<Longrightarrow> be_aes (rev k) (map2 (XOR) (rev a) (rev b)) = rev (aes_block k (map2 (XOR) b a))"
  by (simp add: be_aes_def flip: rev_map2_xor) (simp add: map2_xor_commute)

lemma calculate_comfirm_value:
  assumes "smp_wf s" "env_wf e" "\<forall>t k. e_mem e t k" "e_remote_addr e (pairing_bda s) = Some (pa, pt)"
    "e_local_addr e (pairing_bda s) = (la, lt)" "length r = 16"
  shows "smp_calculate_comfirm e sm r s =
    (let u = ticks 2 (s\<lparr>local_bda := la, addr_type := lt\<rparr>); c = confirm_value e s r in
     if rand_enc_proc_state s = SMP_GEN_CONFIRM then smp_process_confirm sm c u
     else if rand_enc_proc_state s = SMP_GEN_COMPARE then smp_process_compare sm c u else u)"
    "length (confirm_value e s r) = 16"
proof -
  have l: "length la = 6" "length pa = 6"
    using assms(2,4,5) by (metis env_wf_def fst_conv)+
  define p1 where "p1 = (if smp_role s = HCI_ROLE_MASTER
    then [lt, pt] @ smp_concatenate_local SMP_OPCODE_PAIRING_REQ s @ smp_concatenate_peer SMP_OPCODE_PAIRING_RSP s
    else [pt, lt] @ smp_concatenate_peer SMP_OPCODE_PAIRING_REQ s @ smp_concatenate_local SMP_OPCODE_PAIRING_RSP s)"
  define p2 where "p2 = (if smp_role s = HCI_ROLE_MASTER then rev pa @ rev la else rev la @ rev pa) @ zeros 4"
  let ?s = "s\<lparr>local_bda := la, addr_type := lt\<rparr>"
  have g1: "smp_gen_p1_4_confirm e buf s = (p1, ?s)" for buf
    using assms(4,5) by (simp add: smp_gen_p1_4_confirm_def p1_def Let_def smp_concatenate_local_def smp_concatenate_peer_def)
  have g2: "smp_gen_p2_4_confirm e buf (s\<lparr>local_bda := la, addr_type := lt, s_clock := t\<rparr>) = p2" for buf t
    using assms(4) l by (simp add: smp_gen_p2_4_confirm_def p2_def put_bda_def)
  have len: "length p1 = 16" "length p2 = 16" "length (tk s) = 16"
    using l assms(1) by (simp_all add: p1_def p2_def smp_concatenate_local_def smp_concatenate_peer_def)
  let ?x = "aes_block (tk s) (map2 (XOR) p1 r)"
  have x: "length ?x = 16" using len assms(6) by (simp add: length_aes_block)
  have "confirm_value e s r = rev (be_aes (rev (tk s)) (map2 (XOR) (be_aes (rev (tk s)) (map2 (XOR) (rev r) (rev p1))) (rev p2)))"
    by (simp add: confirm_value_def bt_c1_def Let_def assms(4,5) p1_def p2_def zeros_def)
  also have "be_aes (rev (tk s)) (map2 (XOR) (rev r) (rev p1)) = rev ?x"
    using len assms(6) by (intro be_aes_xor) simp
  also have "be_aes (rev (tk s)) (map2 (XOR) (rev ?x) (rev p2)) = rev (aes_block (tk s) (map2 (XOR) p2 ?x))"
    using len x by (intro be_aes_xor) simp
  finally have c: "aes_block (tk s) (map2 (XOR) p2 ?x) = confirm_value e s r" by simp
  show "length (confirm_value e s r) = 16"
    using len x by (simp add: length_aes_block flip: c)
  show "smp_calculate_comfirm e sm r s =
    (let u = ticks 2 (s\<lparr>local_bda := la, addr_type := lt\<rparr>); c = confirm_value e s r in
     if rand_enc_proc_state s = SMP_GEN_CONFIRM then smp_process_confirm sm c u
     else if rand_enc_proc_state s = SMP_GEN_COMPARE then smp_process_compare sm c u else u)"
    using assms(1,3,6) len x c
    by (simp add: smp_calculate_comfirm_def smp_calculate_comfirm_cont_def g1 g2 Let_def enc_at_block smp_xor_128_block
        tick_def ticks_def)
qed

lemma confirm_values:
  assumes "smp_wf s" "env_wf e" "\<forall>t k. e_mem e t k" "e_remote_addr e (pairing_bda s) = Some (pa, pt)"
    "e_local_addr e (pairing_bda s) = (la, lt)"
  shows "smp_generate_confirm e sm s = sm SMP_KEY_READY_EVT (Key SMP_KEY_TYPE_CFM (confirm_value e s (rand s)))
      ((ticks 2 (s\<lparr>rand_enc_proc_state := SMP_GEN_CONFIRM, local_bda := la, addr_type := lt\<rparr>))\<lparr>confirm := confirm_value e s (rand s)\<rparr>)"
    "smp_generate_compare_act e sm s = sm SMP_KEY_READY_EVT (Key SMP_KEY_TYPE_CMP (confirm_value e s (rrand s)))
      (ticks 2 (s\<lparr>rand_enc_proc_state := SMP_GEN_COMPARE, local_bda := la, addr_type := lt\<rparr>))"
proof -
  have w: "smp_wf (s\<lparr>rand_enc_proc_state := x\<rparr>)" for x using assms(1) by simp
  have v: "confirm_value e (s\<lparr>rand_enc_proc_state := x\<rparr>) r = confirm_value e s r" for x r
    by (simp add: confirm_value_def smp_concatenate_local_def smp_concatenate_peer_def case_prod_unfold Let_def)
  have n: "length (confirm_value e s (rand s)) = 16" using calculate_comfirm_value(2) [OF assms(1-5)] assms(1) by simp
  have adr: "e_remote_addr e (pairing_bda (s\<lparr>rand_enc_proc_state := x\<rparr>)) = Some (pa, pt)"
    "e_local_addr e (pairing_bda (s\<lparr>rand_enc_proc_state := x\<rparr>)) = (la, lt)" for x
    using assms(4,5) by simp_all
  note c = calculate_comfirm_value(1) [OF w assms(2,3) adr]
  show "smp_generate_confirm e sm s = sm SMP_KEY_READY_EVT (Key SMP_KEY_TYPE_CFM (confirm_value e s (rand s)))
      ((ticks 2 (s\<lparr>rand_enc_proc_state := SMP_GEN_CONFIRM, local_bda := la, addr_type := lt\<rparr>))\<lparr>confirm := confirm_value e s (rand s)\<rparr>)"
    using assms(1) n by (simp add: smp_generate_confirm_def Let_def c v smp_process_confirm_def ticks_def)
  show "smp_generate_compare_act e sm s = sm SMP_KEY_READY_EVT (Key SMP_KEY_TYPE_CMP (confirm_value e s (rrand s)))
      (ticks 2 (s\<lparr>rand_enc_proc_state := SMP_GEN_COMPARE, local_bda := la, addr_type := lt\<rparr>))"
    using assms(1) by (simp add: smp_generate_compare_act_def Let_def c v smp_process_compare_def ticks_def)
qed

text \<open>The two sides see the same pairing commands and addresses.\<close>

lemma confirm_value_peer:
  assumes "linked ea eb a b" "mirrored a b" "smp_role a = HCI_ROLE_MASTER \<and> smp_role b = HCI_ROLE_SLAVE \<or>
      smp_role a = HCI_ROLE_SLAVE \<and> smp_role b = HCI_ROLE_MASTER"
  shows "confirm_value ea a r = confirm_value eb b r"
proof -
  have "smp_concatenate_local c a = smp_concatenate_peer c b" "smp_concatenate_peer c a = smp_concatenate_local c b" "tk a = tk b" for c
    using assms(2) by (simp_all add: mirrored_def smp_concatenate_local_def smp_concatenate_peer_def)
  then show ?thesis
    using assms(1,3) by (auto simp: confirm_value_def linked_def case_prod_unfold Let_def)
qed

lemma stk_value:
  assumes "smp_wf s" "\<forall>t k. e_mem e t k" "\<not> le_secure_connections_mode_is_used s"
  shows "smp_generate_stk_act e sm s = sm SMP_KEY_READY_EVT (Key SMP_KEY_TYPE_STK (smp_mask_enc_key (loc_enc_size s)
    (rev (if smp_role s = HCI_ROLE_MASTER then bt_s1 (rev (tk s)) (rev (rrand s)) (rev (rand s))
          else bt_s1 (rev (tk s)) (rev (rand s)) (rev (rrand s)))))) (tick s)"
proof -
  have d: "drop 8 (rev x) = rev (take 8 x)" if "length x = 16" for x :: bytes
    using that by (simp add: rev_take)
  show ?thesis
    using assms by (simp add: smp_generate_stk_act_def smp_calculate_legacy_short_term_key_def Let_def enc_at_block
        smp_process_stk_def bt_s1_def be_aes_def d tick_def flip: rev_append)
qed

text \<open>
  C23: In legacy pairing the value that one side sends as its confirm value is c1 of the specification over
  its random value, and the other side computes the same for its comparison once it has that random value;
  when the key sizes agree both derive the same short term key, s1 of the slave's and the master's random
  values cut to that size.
\<close>
theorem legacy_values_agree:
  assumes "linked em es m s" "mirrored m s" "smp_role m = HCI_ROLE_MASTER" "smp_role s = HCI_ROLE_SLAVE"
  shows "(\<exists>m' s'. smp_generate_confirm em sm m = sm SMP_KEY_READY_EVT (Key SMP_KEY_TYPE_CFM (confirm m')) m' \<and>
      confirm m' = confirm_value em m (rand m) \<and>
      smp_generate_compare_act es sm' s = sm' SMP_KEY_READY_EVT (Key SMP_KEY_TYPE_CMP (confirm m')) s') \<and>
    (\<exists>m' s'. smp_generate_confirm es sm' s = sm' SMP_KEY_READY_EVT (Key SMP_KEY_TYPE_CFM (confirm s')) s' \<and>
      confirm s' = confirm_value em m (rand s) \<and>
      smp_generate_compare_act em sm m = sm SMP_KEY_READY_EVT (Key SMP_KEY_TYPE_CMP (confirm s')) m') \<and>
    (\<not> le_secure_connections_mode_is_used m \<longrightarrow> \<not> le_secure_connections_mode_is_used s \<longrightarrow> loc_enc_size m = loc_enc_size s \<longrightarrow>
      (let k = smp_mask_enc_key (loc_enc_size m) (rev (bt_s1 (rev (tk m)) (rev (rand s)) (rev (rand m)))) in
       smp_generate_stk_act em sm m = sm SMP_KEY_READY_EVT (Key SMP_KEY_TYPE_STK k) (tick m) \<and>
       smp_generate_stk_act es sm' s = sm' SMP_KEY_READY_EVT (Key SMP_KEY_TYPE_STK k) (tick s)))"
proof -
  have w: "smp_wf m" "smp_wf s" "env_wf em" "env_wf es" "\<forall>t k. e_mem em t k" "\<forall>t k. e_mem es t k"
    and adr: "e_remote_addr em (pairing_bda m) = Some (e_local_addr es (pairing_bda s))"
      "e_remote_addr es (pairing_bda s) = Some (e_local_addr em (pairing_bda m))"
    using assms(1) by (simp_all add: linked_def)
  obtain la lt pa pt where a: "e_local_addr em (pairing_bda m) = (la, lt)" "e_local_addr es (pairing_bda s) = (pa, pt)"
    by fastforce
  note cm = confirm_values [OF w(1,3,5) adr(1) [unfolded a] a(1)] and cs = confirm_values [OF w(2,4,6) adr(2) [unfolded a] a(2)]
  have eq: "confirm_value es s x = confirm_value em m x" for x using confirm_value_peer [OF assms(1,2), of x] assms(3,4) by simp
  have r: "rrand m = rand s" "rrand s = rand m" "tk s = tk m" using assms(2) by (simp_all add: mirrored_def)
  let ?m = "(ticks 2 (m\<lparr>rand_enc_proc_state := SMP_GEN_CONFIRM, local_bda := la, addr_type := lt\<rparr>))\<lparr>confirm := confirm_value em m (rand m)\<rparr>"
  let ?s = "(ticks 2 (s\<lparr>rand_enc_proc_state := SMP_GEN_CONFIRM, local_bda := pa, addr_type := pt\<rparr>))\<lparr>confirm := confirm_value em m (rand s)\<rparr>"
  have "confirm ?m = confirm_value em m (rand m)" "confirm ?s = confirm_value em m (rand s)" by simp_all
  then have confirms: "(\<exists>m' s'. smp_generate_confirm em sm m = sm SMP_KEY_READY_EVT (Key SMP_KEY_TYPE_CFM (confirm m')) m' \<and>
      confirm m' = confirm_value em m (rand m) \<and>
      smp_generate_compare_act es sm' s = sm' SMP_KEY_READY_EVT (Key SMP_KEY_TYPE_CMP (confirm m')) s')"
    "(\<exists>m' s'. smp_generate_confirm es sm' s = sm' SMP_KEY_READY_EVT (Key SMP_KEY_TYPE_CFM (confirm s')) s' \<and>
      confirm s' = confirm_value em m (rand s) \<and>
      smp_generate_compare_act em sm m = sm SMP_KEY_READY_EVT (Key SMP_KEY_TYPE_CMP (confirm s')) m')"
    using cm [of sm] cs [of sm'] by (metis eq r)+
  show ?thesis
    using confirms stk_value [OF w(1,5), of sm] stk_value [OF w(2,6), of sm'] assms(3,4) by (simp add: r Let_def)
qed

lemma legacy_values_agree_witness:
  "\<exists>m' s'. smp_generate_confirm wit_peer_env (\<lambda>ev d s. s) wit_master = m' \<and>
      confirm m' = confirm_value wit_peer_env wit_master (rand wit_master) \<and>
      smp_generate_compare_act wit_peer_env (\<lambda>ev d s. s) wit_slave = s'"
  using legacy_values_agree [OF wit_linked wit_mirrored, of "\<lambda>ev d s. s" "\<lambda>ev d s. s"] by (simp add: wit_roles)

end
