(* ===== verification/SmpPasskey.thy ===== *)
theory SmpPasskey
  imports SmpPeers
begin

text \<open>
  Passkey entry: the random passkey, and what the check of the rounds is worth against a peer that sends the
  device's own values back.
\<close>

unbundle bit_operations_syntax

section \<open>The random passkey\<close>

lemma masked_20: "v AND NOT 0xfff00000 = take_bit 20 (v :: u32)"
proof -
  have m: "(NOT 0xfff00000 :: u32) = mask 20" by (simp add: mask_eq_exp_minus_1)
  show ?thesis unfolding m by (simp only: take_bit_eq_mask)
qed

text \<open>
  The passkey made of the controller's random bytes has at most six digits: it is the low twenty bits of
  the first four bytes, and half of them where they exceed six digits.
\<close>
theorem random_passkey_value:
  assumes "4 \<le> length buf"
  shows "let v = be_num (rev (take 4 buf)) mod 2 ^ 20 in
    unat (random_passkey buf) = (if v \<le> 999999 then v else v div 2) \<and> unat (random_passkey buf) \<le> 999999"
proof -
  let ?v = "unat (take_bit 20 (get_u32 buf))"
  have "unat (get_u32 (rev (rev (take 4 buf)))) = be_num (rev (take 4 buf))" using assms by (intro unat_get_u32) simp
  then have "unat (get_u32 buf) = be_num (rev (take 4 buf))" using get_u32_take [OF assms] by simp
  moreover have "?v = take_bit 20 (unat (get_u32 buf))" by (rule unsigned_take_bit_eq)
  ultimately have v: "?v = be_num (rev (take 4 buf)) mod 2 ^ 20" by (simp only: take_bit_eq_mod)
  have "?v < 2 ^ 20" unfolding v by (rule mod_less_divisor) simp
  then show ?thesis
    using unat_passkey_truncate [of "take_bit 20 (get_u32 buf)"] unfolding v [symmetric] Let_def random_passkey_def masked_20 by auto
qed

lemma random_passkey_value_witness: "unat (random_passkey [0x40, 0x42, 0xFF, 0xFF, 0, 0, 0, 0]) = 500000"
  using random_passkey_value [of "[0x40, 0x42, 0xFF, 0xFF, 0, 0, 0, 0]"] by (simp add: be_num_def)

section \<open>Reflection\<close>

text \<open>
  C40: A peer that sends back the device's own public key, its commitment and its random value passes the
  check in every round of passkey entry, whatever the passkey: the master goes on to the next round, and
  after the twentieth to phase 2.
\<close>
theorem reflected_commitment_accepted:
  assumes "smp_wf a" "\<forall>t k. e_mem e t k" "sc_model (selected_association_model a) = 2" "smp_role a = HCI_ROLE_MASTER"
    "peer_publ_key a = loc_publ_key a" "local_random a = peer_random a" "unat (round a) < 128"
    "remote_commitment a = commitment (smp_calculate_local_commitment e a)" "rrand a = rand a"
  shows "fst (smp_check_commitment e a) \<and> smp_process_peer_nonce_act e sm br a =
    (let s = (tick a)\<lparr>round := round a + 1\<rparr> in
     if round a + 1 < 20 then smp_start_nonce_generation e sm
       ((smp_set_state SMP_STATE_SEC_CONN_PHS1_START s)\<lparr>flags := flags s AND NOT SMP_PAIR_FLAG_HAVE_PEER_COMM\<rparr>)
     else sm SMP_SC_PHASE1_CMPLT_EVT No_Data s)"
proof -
  have m: "selected_association_model a = SMP_MODEL_SEC_CONN_PASSKEY_ENT \<or> selected_association_model a = SMP_MODEL_SEC_CONN_PASSKEY_DISP"
    using assms(3) by (auto simp: sc_model_def split: if_splits)
  obtain z where z: "smp_calculate_random_input (peer_random a) (round a) = Some z"
    using random_input_defined [OF assms(7)] assms(1) by fastforce
  have c: "remote_commitment a = commitment_value a"
    using local_commitment_value [OF assms(1,2) _ assms(7)] assms(3,8) by simp
  have p: "smp_calculate_peer_commitment e buf a = (commitment_value a, tick a)" for buf
    using m z assms(2,5,6,9) typed_keys [OF assms(1)] assms(1)
    by (auto simp: smp_calculate_peer_commitment_def commitment_value_def Let_def f4_value)
  then have ok: "smp_check_commitment e a = (True, tick a)"
    using c by (simp add: smp_check_commitment_def tick_def)
  then show ?thesis
    using m assms(4) by (auto simp: smp_process_peer_nonce_act_def Let_def tick_def)
qed

lemma reflected_commitment_accepted_witness:
  "fst (smp_check_commitment wit_peer_env (wit_master\<lparr>remote_commitment := commitment_value wit_master\<rparr>))"
proof -
  let ?a = "wit_master\<lparr>remote_commitment := commitment_value wit_master\<rparr>"
  have l: "length (commitment_value wit_master) = 16" by (simp add: commitment_value_def Let_def)
  have w: "smp_wf ?a" using wit_linked l by (simp add: linked_def smp_wf_arrays)
  have m: "\<forall>t k. e_mem wit_peer_env t k" by (simp add: wit_peer_env_def wit_env_def)
  have r: "sc_model (selected_association_model ?a) = 2" "unat (round ?a) < 128" "smp_role ?a = HCI_ROLE_MASTER"
    by (simp_all add: wit_roles sc_model_def)
  have k: "peer_publ_key ?a = loc_publ_key ?a" "local_random ?a = peer_random ?a" "rrand ?a = rand ?a"
    by (simp_all add: wit_master_def smp_start_def tSMP_CB.extend_def zero_smp_cb_def)
  have "commitment_value (wit_master\<lparr>remote_commitment := x\<rparr>) = commitment_value wit_master" for x
    by (simp add: commitment_value_def Let_def)
  then have "remote_commitment ?a = commitment (smp_calculate_local_commitment wit_peer_env ?a)"
    using local_commitment_value [OF w m _ r(2)] r(1) by simp
  then show ?thesis using reflected_commitment_accepted [OF w m r(1,3) k(1,2) r(2) _ k(3)] by blast
qed

end
