(* ===== verification/SmpCommands.thy ===== *)
theory SmpCommands
  imports SmpEntry
begin

text \<open>
  Commands on their way from one device to the other: what \<open>smp_cmd_build_act\<close> writes passes the length
  check of the receiver, and the receiver reads the fields back that were sent.
\<close>

unbundle bit_operations_syntax

section \<open>Building\<close>

text \<open>The command without its code, by the index of its builder.\<close>

definition cmd_body :: "smp_env \<Rightarrow> u8 \<Rightarrow> smp_sys \<Rightarrow> bytes" where
  "cmd_body e c s =
     (if c = SMP_OPCODE_PAIRING_REQ \<or> c = SMP_OPCODE_PAIRING_RSP
      then [local_io_capability s, loc_oob_flag s, loc_auth_req s, loc_enc_size s, local_i_key s, local_r_key s]
      else if c = SMP_OPCODE_CONFIRM then confirm s
      else if c = SMP_OPCODE_RAND then rand s
      else if c = SMP_OPCODE_PAIRING_FAILED then [failure s]
      else if c = SMP_OPCODE_ENCRYPT_INFO then ltk s
      else if c = SMP_OPCODE_MASTER_ID then put_u16 (ediv s) @ enc_rand s
      else if c = SMP_OPCODE_IDENTITY_INFO then e_irk e
      else if c = SMP_OPCODE_ID_ADDR then 0 # rev (e_controller_addr e)
      else if c = SMP_OPCODE_SIGN_INFO then csrk s
      else if c = SMP_OPCODE_SEC_REQ then [loc_auth_req s]
      else if c = SMP_OPCODE_PAIR_PUBLIC_KEY then pk_x (loc_publ_key s) @ pk_y (loc_publ_key s)
      else if c = SMP_OPCODE_PAIR_DHKEY_CHECK then dhkey_check s
      else if c = SMP_OPCODE_PAIR_KEYPR_NOTIF then [local_keypress_notification s]
      else commitment s)"

definition cmd_codes :: "u8 list" where
  "cmd_codes = [1, 2, 3, 4, 5, 6, 7, 8, 9, 10, 11, 12, 13, 14, 15]"

lemma cmd_codes: "1 \<le> c \<Longrightarrow> c \<le> SMP_OPCODE_PAIR_COMMITM \<Longrightarrow> c \<in> set cmd_codes"
proof -
  assume "1 \<le> c" "c \<le> SMP_OPCODE_PAIR_COMMITM"
  then have "unat c \<in> set [1..<16]" by (auto simp: word_le_nat_alt)
  then show ?thesis by (auto simp: cmd_codes_def upt_rec word_unat_eq_iff)
qed

text \<open>A commitment is sent as a confirm value.\<close>

definition sent_code :: "u8 \<Rightarrow> u8" where
  "sent_code c = (if c = SMP_OPCODE_PAIR_COMMITM then SMP_OPCODE_CONFIRM else c)"

lemma built_commands:
  assumes "smp_wf s" "\<forall>t k. e_mem e t k" "length (e_irk e) = 16" "length (e_controller_addr e) = 6"
  shows "list_all (\<lambda>c. \<exists>act. rd smp_cmd_build_act (unat c) = Some (Some act) \<and> act e c s = Some (sent_code c # cmd_body e c s) \<and>
    rd smp_cmd_size_per_spec (unat (sent_code c)) = Some (of_nat (length (cmd_body e c s) + 1)) \<and> length (cmd_body e c s) < 65) cmd_codes"
  using assms(2-4) assms(1) smp_wf_lengths(21) [OF assms(1)]
  by (simp add: cmd_codes_def smp_cmd_build_act_def cmd_body_def sent_code_def smp_cmd_size_per_spec_def rd_def cmd_buf_def key_wf_def
      put_bda_def smp_build_pairing_cmd_def smp_build_confirm_cmd_def smp_build_rand_cmd_def smp_build_pairing_fail_def
      smp_build_encrypt_info_cmd_def smp_build_master_id_cmd_def smp_build_identity_info_cmd_def smp_build_id_addr_cmd_def
      smp_build_signing_info_cmd_def smp_build_security_request_def smp_build_pair_public_key_cmd_def
      smp_build_pair_dhkey_check_cmd_def smp_build_pairing_keypress_notification_cmd_def smp_build_pairing_commitment_cmd_def)

section \<open>Receiving\<close>

text \<open>The length check compares a byte: it sees the length of the packet modulo 256.\<close>

lemma length_check:
  assumes "rd smp_cmd_size_per_spec (unat c) = Some sz" "unat sz = n"
  shows "smp_command_has_valid_fixed_length (s\<lparr>rcvd_cmd_code := c, rcvd_cmd_len := of_nat l\<rparr>) \<longleftrightarrow> l mod 256 = n"
  using assms by (auto simp: smp_command_has_valid_fixed_length_def word_unat_eq_iff unat_of_nat)

definition size_of_cmd :: "u8 \<Rightarrow> nat" where
  "size_of_cmd c = (case rd smp_cmd_size_per_spec (unat c) of Some sz \<Rightarrow> unat sz | None \<Rightarrow> 0)"

text \<open>The code that reaches the machine: with LE Secure Connections a confirm value is a commitment.\<close>

definition received_code :: "u8 \<Rightarrow> smp_sys \<Rightarrow> u8" where
  "received_code c r = (if c = SMP_OPCODE_CONFIRM \<and> peer_auth_req r AND SMP_SC_SUPPORT_BIT \<noteq> 0 \<and>
     loc_auth_req r AND SMP_SC_SUPPORT_BIT \<noteq> 0 then SMP_OPCODE_PAIR_COMMITM else c)"

definition received_state :: "smp_env \<Rightarrow> u8 \<Rightarrow> nat \<Rightarrow> smp_sys \<Rightarrow> smp_sys" where
  "received_state e c len r =
     (let idle = (smp_state r = SMP_STATE_IDLE \<and> smp_br_state r = SMP_BR_STATE_IDLE \<and> flags r AND SMP_PAIR_FLAGS_WE_STARTED_DD = 0);
          u = (if (c = SMP_OPCODE_PAIRING_REQ \<or> c = SMP_OPCODE_SEC_REQ) \<and> idle then r\<lparr>smp_role := e_ble_role e (pairing_bda r)\<rparr> else r) in
      (out Out_Timer_Start (out Out_Timer_Stop u))\<lparr>rcvd_cmd_code := received_code c r, rcvd_cmd_len := of_nat len\<rparr>)"

lemma received:
  assumes "1 \<le> c" "c \<le> SMP_OPCODE_MAX"
  shows "smp_data_received e sm (pairing_bda r) (c # p) r = sm (received_code c r) (Cmd p) (received_state e c (length p + 1) r)"
proof -
  have "\<not> SMP_OPCODE_MAX < c" "\<not> c < SMP_OPCODE_MIN" using assms by (simp_all only: not_less)
  moreover have "received_code c (r\<lparr>smp_role := x\<rparr>) = received_code c r" for x by (simp add: received_code_def)
  moreover have "r\<lparr>smp_role := x, pairing_bda := pairing_bda r\<rparr> = r\<lparr>smp_role := x\<rparr>" for x
    by (cases r) simp
  ultimately show ?thesis
    by (cases "(c = 1 \<or> c = 11) \<and> smp_state r = 0 \<and> smp_br_state r = 0 \<and> flags r AND 1 = 0")
      (auto simp: smp_data_received_def received_state_def received_code_def Let_def out_def)
qed

lemma received_code_size: "1 \<le> c \<Longrightarrow> c \<le> SMP_OPCODE_MAX \<Longrightarrow> size_of_cmd (received_code c r) = size_of_cmd c"
  by (auto simp: received_code_def size_of_cmd_def smp_cmd_size_per_spec_def rd_def)

lemma received_code_valid:
  assumes "1 \<le> c" "c \<le> SMP_OPCODE_MAX"
  shows "smp_command_has_valid_fixed_length (received_state e c l r) \<longleftrightarrow> l mod 256 = size_of_cmd c"
proof -
  have "unat (received_code c r) < 16" using assms by (simp add: received_code_def word_le_nat_alt)
  then obtain sz where "rd smp_cmd_size_per_spec (unat (received_code c r)) = Some sz"
    by (auto simp: rd_def smp_cmd_size_per_spec_def)
  moreover from this have "unat sz = size_of_cmd c" using received_code_size [OF assms, of r] by (simp add: size_of_cmd_def)
  ultimately show ?thesis unfolding received_state_def Let_def by (rule length_check)
qed

lemma drop_put_u16: "drop 2 (put_u16 x @ ys) = ys" "length (put_u16 x) = 2"
  by (simp_all add: put_u16_def)

lemma get_put_u16: "get_u16 (put_u16 x @ ys) = x"
proof -
  have "bit (get_u16 (put_u16 x @ ys)) n \<longleftrightarrow> bit x n" if "n < 16" for n
  proof -
    have "get_u16 (put_u16 x @ ys) = ucast (ucast x :: u8) OR push_bit 8 (ucast (ucast (drop_bit 8 x) :: u8))"
      unfolding get_u16_def put_u16_def
      by (simp, intro disjunctive_add) (auto simp: bit_simps)
    then show ?thesis using that by (auto simp: bit_simps)
  qed
  then show ?thesis by (intro bit_word_eqI) simp
qed

section \<open>The actions of the receiver\<close>

lemma command_bytes: "length p = off + n + k \<Longrightarrow> data_bytes off n (Cmd p) = Some (take n (drop off p))"
  by (simp add: data_bytes_def)

text \<open>With a length that passes, only the pairing commands and the keypress notification have a range to be checked.\<close>

lemma invalid_parameters:
  assumes "c \<in> set cmd_codes" "rcvd_cmd_code u = c" "smp_command_has_valid_fixed_length u"
  shows "smp_command_has_invalid_parameters u \<longleftrightarrow>
    (if c = SMP_OPCODE_PAIRING_REQ \<or> c = SMP_OPCODE_PAIRING_RSP then \<not> smp_pairing_request_response_parameters_are_valid u
     else c = SMP_OPCODE_PAIR_KEYPR_NOTIF \<and> \<not> smp_pairing_keypress_notification_is_valid u)"
  using assms
  by (auto simp: cmd_codes_def smp_command_has_invalid_parameters_def smp_cmd_len_is_valid_def smp_cmd_param_ranges_are_valid_def
      smp_parameter_unconditionally_valid_def)

lemma fixed_length_fields:
  "rcvd_cmd_code u = rcvd_cmd_code t \<Longrightarrow> rcvd_cmd_len u = rcvd_cmd_len t \<Longrightarrow>
    smp_command_has_valid_fixed_length u = smp_command_has_valid_fixed_length t"
  by (auto simp: smp_command_has_valid_fixed_length_def split: option.splits)

lemma plain_valid:
  assumes "rcvd_cmd_code t \<in> {3, 4, 12, 13, 15}" "smp_command_has_valid_fixed_length t"
  shows "\<not> smp_command_has_invalid_parameters t"
  using assms(1) invalid_parameters [of "rcvd_cmd_code t" t, OF _ refl assms(2)] by (auto simp: cmd_codes_def)

text \<open>The state in which the parameters of a pairing command are checked.\<close>

definition told_pairing :: "smp_sys \<Rightarrow> smp_sys \<Rightarrow> smp_sys" where
  "told_pairing s t =
     (if s_dev t (pairing_bda t) \<noteq> None \<and> smp_role t = HCI_ROLE_SLAVE then out (Out_Clear_Keys (pairing_bda t)) t else t)\<lparr>
       flags := flags t OR SMP_PAIR_FLAG_ENC_AFTER_PAIR,
       peer_io_caps := local_io_capability s, peer_oob_flag := loc_oob_flag s, peer_auth_req := loc_auth_req s,
       peer_enc_size := loc_enc_size s, peer_i_key := local_i_key s, peer_r_key := local_r_key s\<rparr>"

definition pairing_sendable :: "smp_sys \<Rightarrow> bool" where
  "pairing_sendable s \<longleftrightarrow> local_io_capability s < SMP_IO_CAP_MAX \<and> loc_oob_flag s \<in> {SMP_OOB_NONE, SMP_OOB_PRESENT} \<and>
     loc_auth_req s AND 3 \<in> {SMP_AUTH_NO_BOND, SMP_AUTH_BOND} \<and> SMP_ENCR_KEY_SIZE_MIN \<le> loc_enc_size s \<and>
     loc_enc_size s \<le> SMP_ENCR_KEY_SIZE_MAX"

lemma told_pairing_valid:
  assumes "pairing_sendable s" "rcvd_cmd_code t \<in> {1, 2}" "smp_command_has_valid_fixed_length t"
  shows "\<not> smp_command_has_invalid_parameters (told_pairing s t)"
proof -
  let ?u = "told_pairing s t"
  have u: "rcvd_cmd_code ?u = rcvd_cmd_code t" "smp_command_has_valid_fixed_length ?u"
    using assms(3) fixed_length_fields [of ?u t] by (simp_all add: told_pairing_def out_def)
  have "smp_pairing_request_response_parameters_are_valid ?u"
    using assms(1) by (auto simp: smp_pairing_request_response_parameters_are_valid_def pairing_sendable_def told_pairing_def Let_def
        not_le not_less)
  then show ?thesis using assms(2) u invalid_parameters [of "rcvd_cmd_code t" ?u] by (auto simp: cmd_codes_def)
qed

lemma takes_pairing:
  assumes "rcvd_cmd_code t \<in> {1, 2}" "smp_command_has_valid_fixed_length t" "pairing_sendable s"
    "p = [local_io_capability s, loc_oob_flag s, loc_auth_req s, loc_enc_size s, local_i_key s, local_r_key s]"
  shows "smp_action er sm br smp_proc_pair_cmd (Cmd p) t =
      (let u = (told_pairing s t)\<lparr>accept_specified_sec_auth := e_accept_auth_enable er, origin_loc_auth_req := e_auth_req er\<rparr>;
           both = u\<lparr>local_i_key := local_i_key t AND local_i_key s, local_r_key := local_r_key t AND local_r_key s\<rparr> in
       if smp_role t = HCI_ROLE_SLAVE then
         if flags t AND SMP_PAIR_FLAGS_WE_STARTED_DD = 0
         then u\<lparr>local_i_key := local_i_key s, local_r_key := local_r_key s, cb_evt := SMP_SEC_REQUEST_EVT\<rparr>
         else security_checks er sm (\<lambda>u.
                if selected_association_model u = SMP_MODEL_SEC_CONN_OOB then snd (smp_request_oob_data sm u)
                else smp_send_pair_rsp_act er sm br u) (select_model both)
       else security_checks er sm (\<lambda>u.
              if selected_association_model u = SMP_MODEL_SEC_CONN_OOB then snd (smp_request_oob_data sm u)
              else smp_decide_association_model_act er sm u) (select_model u))"
proof -
  let ?o = "(if s_dev t (pairing_bda t) \<noteq> None \<and> smp_role t = HCI_ROLE_SLAVE then out (Out_Clear_Keys (pairing_bda t)) t else t)
    \<lparr>flags := flags t OR SMP_PAIR_FLAG_ENC_AFTER_PAIR\<rparr>"
  have read: "read_pair_cmd p ?o = told_pairing s t" by (simp add: assms(4) read_pair_cmd_def told_pairing_def)
  have "data_bytes 0 6 (Cmd p) = Some p" by (simp add: assms(4) data_bytes_def)
  moreover have "(flags t OR 16) AND 1 = flags t AND 1"
    by (simp add: bit.conj_disj_distrib2)
  moreover have "flags (if b then out x t else t) = flags t" for b x by (simp add: out_def)
  ultimately show ?thesis
    using told_pairing_valid [OF assms(3,1,2)] read
    by (simp add: smp_action_def smp_proc_pair_cmd_act_def Let_def) (simp add: told_pairing_def out_def Let_def)
qed

lemma takes_values:
  assumes "smp_command_has_valid_fixed_length t" "length v = 16"
  shows "rcvd_cmd_code t = SMP_OPCODE_CONFIRM \<Longrightarrow> smp_action er sm br smp_proc_confirm (Cmd v) t =
      t\<lparr>rconfirm := v, flags := flags t OR SMP_PAIR_FLAGS_CMD_CONFIRM\<rparr>"
    "rcvd_cmd_code t = SMP_OPCODE_RAND \<Longrightarrow> smp_action er sm br smp_proc_rand (Cmd v) t = t\<lparr>rrand := v\<rparr>"
    "rcvd_cmd_code t = SMP_OPCODE_PAIR_DHKEY_CHECK \<Longrightarrow> smp_action er sm br smp_process_dhkey_check (Cmd v) t =
      t\<lparr>remote_dhkey_check := v, flags := flags t OR SMP_PAIR_FLAG_HAVE_PEER_DHK_CHK\<rparr>"
    "rcvd_cmd_code t = SMP_OPCODE_PAIR_COMMITM \<Longrightarrow> smp_action er sm br smp_process_pairing_commitment (Cmd v) t =
      t\<lparr>flags := flags t OR SMP_PAIR_FLAG_HAVE_PEER_COMM, remote_commitment := v\<rparr>"
  using plain_valid [OF _ assms(1)] assms(2)
  by (simp_all add: smp_action_def smp_proc_confirm_act_def smp_proc_rand_act_def smp_process_dhkey_check_act_def
      smp_process_pairing_commitment_act_def checked_def copied_def copied_if_def data_bytes_def)

lemma takes_public_key:
  assumes "smp_command_has_valid_fixed_length t" "rcvd_cmd_code t = SMP_OPCODE_PAIR_PUBLIC_KEY"
    "length (pk_x k) = 32" "length (pk_y k) = 32" "ECC_CheckPointIsInElliCur_P256 (key_point k)"
  shows "smp_action er sm br smp_process_pairing_public_key (Cmd (pk_x k @ pk_y k)) t =
      smp_wait_for_both_public_keys_act sm (t\<lparr>peer_publ_key := k, flags := flags t OR SMP_PAIR_FLAG_HAVE_PEER_PUBL_KEY\<rparr>)"
proof -
  have k: "(peer_publ_key t)\<lparr>pk_x := pk_x k, pk_y := pk_y k\<rparr> = k" by (cases k) simp
  show ?thesis
    using plain_valid [OF _ assms(1)] assms(2-5)
    by (simp add: k smp_action_def smp_process_pairing_public_key_act_def checked_def copied_def data_bytes_def Let_def)
qed

lemma takes_keypress:
  assumes "smp_command_has_valid_fixed_length t" "rcvd_cmd_code t = SMP_OPCODE_PAIR_KEYPR_NOTIF"
    "peer_keypress_notification t < BTM_SP_KEY_OUT_OF_RANGE"
  shows "smp_action er sm br smp_process_keypress_notification (Cmd [v]) t =
      t\<lparr>status := v, peer_keypress_notification := v, cb_evt := SMP_PEER_KEYPR_NOT_EVT\<rparr>"
proof -
  have "\<not> smp_command_has_invalid_parameters (t\<lparr>status := v\<rparr>)"
    using assms invalid_parameters [of 14 "t\<lparr>status := v\<rparr>"] fixed_length_fields [of "t\<lparr>status := v\<rparr>" t]
    by (simp add: cmd_codes_def smp_pairing_keypress_notification_is_valid_def not_le)
  then show ?thesis by (simp add: smp_action_def smp_process_keypress_notification_act_def checked_def rd_def)
qed

lemma takes_keys:
  shows "length v = 16 \<Longrightarrow> smp_action er sm br smp_proc_enc_info (Cmd v) t = smp_key_distribution_act er sm br (t\<lparr>ltk := v\<rparr>)"
    "length v = 8 \<Longrightarrow> smp_action er sm br smp_proc_master_id (Cmd (put_u16 x @ v)) t = smp_key_distribution_act er sm br
       (save_if_bond BTM_LE_KEY_PENC (Penc_Key (ltk t) v x (sec_level t) (loc_enc_size t)) (smp_update_key_mask SMP_SEC_KEY_TYPE_ENC True t))"
    "length v = 16 \<Longrightarrow> smp_action er sm br smp_proc_id_info (Cmd v) t = distribute_by_transport er sm br (t\<lparr>tk := v\<rparr>)"
    "length v = 6 \<Longrightarrow> smp_action er sm br smp_proc_id_addr (Cmd (y # rev v)) t = distribute_by_transport er sm br
       (save_if_bond BTM_LE_KEY_PID (Pid_Key y v (take 16 (tk t)))
          ((smp_update_key_mask SMP_SEC_KEY_TYPE_ID True t)\<lparr>id_addr_rcvd := True, id_addr_type := y, id_addr := v\<rparr>))"
    "length v = 16 \<Longrightarrow> smp_action er sm br smp_proc_srk_info (Cmd v) t = distribute_by_transport er sm br
       (save_if_bond BTM_LE_KEY_PCSRK (Pcsrk_Key (sec_level t) 0 v) (smp_update_key_mask SMP_SEC_KEY_TYPE_CSRK True t))"
  by (simp_all add: smp_action_def smp_proc_enc_info_act_def smp_proc_master_id_act_def smp_proc_id_info_act_def
      smp_proc_id_addr_act_def smp_proc_srk_info_act_def copied_def data_bytes_def get_put_u16 smp_update_key_mask_def Let_def
      drop_put_u16)

lemma takes_requests:
  shows "smp_action er sm br smp_proc_pair_fail (Cmd [v]) t = t\<lparr>status := v\<rparr>"
    "e_sec_check er (pairing_bda t) v = BTM_BLE_SEC_REQ_ACT_PAIR \<Longrightarrow> e_security_mode er \<noteq> BTM_SEC_MODE_SC \<Longrightarrow>
      smp_action er sm br smp_proc_sec_req (Cmd [v]) t =
        t\<lparr>secure_connections_only_mode_required := False, peer_auth_req := v, local_i_key := SMP_SEC_DEFAULT_KEY,
          local_r_key := SMP_SEC_DEFAULT_KEY, cb_evt := SMP_SEC_REQUEST_EVT\<rparr>"
  by (simp_all add: smp_action_def smp_proc_pair_fail_act_def smp_proc_sec_req_act_def rd_def Let_def)

section \<open>Properties\<close>

text \<open>
  C39: A packet passes the length check exactly when its length modulo 256 is the size of its command: the
  received length is kept in one byte, so that a packet with 256 bytes too many is accepted.
\<close>
theorem received_length_modulo:
  assumes "1 \<le> c" "c \<le> SMP_OPCODE_MAX"
  shows "\<exists>r'. smp_data_received e sm (pairing_bda r) (c # p) r = sm (received_code c r) (Cmd p) r' \<and>
    (smp_command_has_valid_fixed_length r' \<longleftrightarrow> (length p + 1) mod 256 = size_of_cmd c)"
  using received [OF assms, of e sm r p] received_code_valid [OF assms, of e "length p + 1" r] by blast

lemma received_length_modulo_witness:
  "\<exists>r'. smp_data_received wit_env (\<lambda>ev d s. s) (pairing_bda (smp_start (\<lambda>a. None))) (SMP_OPCODE_RAND # replicate 272 0) (smp_start (\<lambda>a. None)) = r' \<and>
    smp_command_has_valid_fixed_length r'"
  using received_length_modulo [of SMP_OPCODE_RAND wit_env "\<lambda>ev d s. s" "smp_start (\<lambda>a. None)" "replicate 272 0"]
  by (simp add: size_of_cmd_def smp_cmd_size_per_spec_def rd_def)




end
