(* ===== verification/SmpEnd.thy ===== *)
theory SmpEnd
  imports SmpEntry
begin

text \<open>
  How a pairing that fails ends.  The failure is sent to the peer and the completion waits until L2CAP has
  reported all packets as sent; a master then tells the application and clears the control block, a slave
  ignores the event and does neither.
\<close>

unbundle bit_operations_syntax

section \<open>A failure\<close>

text \<open>All allocations and transmissions succeed.\<close>

definition env_up :: "smp_env \<Rightarrow> bool" where
  "env_up e \<longleftrightarrow> (\<forall>t k. e_mem e t k) \<and> (\<forall>t. e_send_ok e t)"

lemma send_failure:
  assumes "env_up e"
  shows "smp_send_cmd e sm br SMP_OPCODE_PAIRING_FAILED s =
    (True, out Out_Timer_Start (out Out_Timer_Stop (out (Out_L2cap (if smp_over_br s then L2CAP_SMP_BR_CID else L2CAP_SMP_CID)
       (pairing_bda s) [SMP_OPCODE_PAIRING_FAILED, failure s]) (s\<lparr>total_tx_unacked := total_tx_unacked s + 1\<rparr>))))"
  using assms by (simp add: smp_send_cmd_def smp_cmd_build_act_def smp_build_pairing_fail_def cmd_buf_def env_up_def
      smp_send_msg_to_L2CAP_def Let_def)

text \<open>The block after a failure for a reason that is sent.\<close>

definition failed :: "u8 \<Rightarrow> smp_sys \<Rightarrow> smp_sys" where
  "failed r s = (out Out_Timer_Start (out Out_Timer_Stop (out (Out_L2cap L2CAP_SMP_CID (pairing_bda s) [SMP_OPCODE_PAIRING_FAILED, r])
     (s\<lparr>smp_state := SMP_STATE_IDLE, status := r, failure := r, total_tx_unacked := total_tx_unacked s + 1\<rparr>))))
       \<lparr>wait_for_authorization_complete := True\<rparr>"

lemma failure_step:
  assumes "env_up e" "smp_role s < 2" "smp_state s < SMP_STATE_MAX" "\<not> smp_resting (smp_role s) (smp_state s)"
    "\<not> smp_over_br s" "r \<noteq> 0" "r \<le> SMP_MAX_FAIL_RSN_PER_SPEC" "total_tx_unacked s + 1 \<noteq> 0"
  shows "sm_of e (Suc n) SMP_AUTH_CMPL_EVT (Status r) s = failed r s"
proof -
  let ?act = "smp_action e (sm_of e n) (br_of e n)"
  have "smp_sm_event ?act s SMP_AUTH_CMPL_EVT (Status r) =
      Some (?act smp_pairing_cmpl (Status r) (?act smp_send_pair_fail (Status r) (s\<lparr>smp_state := SMP_STATE_IDLE\<rparr>)))"
    using smp_abort [OF assms(2-4), of ?act "Status r"] by simp
  moreover have "?act smp_send_pair_fail (Status r) (s\<lparr>smp_state := SMP_STATE_IDLE\<rparr>) = failed r s"
    using assms(5-7) by (simp add: smp_action_def smp_send_pair_fail_act_def send_cmd_def send_failure [OF assms(1)] Let_def failed_def out_def)
  moreover have "?act smp_pairing_cmpl (Status r) (failed r s) = failed r s"
    using assms(8) by (simp add: smp_action_def smp_pairing_cmpl_act_def failed_def out_def)
  ultimately show ?thesis by simp
qed

section \<open>The master\<close>

lemma master_idle_lookup:
  "smp_lookup 0 SMP_STATE_IDLE SMP_AUTH_CMPL_EVT = Some (Some [SMP_PAIRING_CMPL, SMP_SM_NO_ACTION, SMP_STATE_IDLE])"
  by (simp add: smp_lookup_def smp_entry_table_def rd1_def rd_def [of smp_master_entry_map] rd_def [of "_ # _"] abort_entries
      smp_state_table_def smp_master_idle_table_def)

lemma master_completes:
  assumes "smp_role u = 0" "smp_state u = SMP_STATE_IDLE" "total_tx_unacked u = 0"
  shows "sm_of e (Suc n) SMP_AUTH_CMPL_EVT d u = smp_proc_pairing_cmpl u"
proof -
  have ok: "row_ok (smp_state u) [SMP_PAIRING_CMPL, SMP_SM_NO_ACTION, SMP_STATE_IDLE]"
    using assms(2) by (simp add: row_ok_def smp_before_def)
  let ?act = "smp_action e (sm_of e n) (br_of e n)"
  have "smp_sm_event ?act u SMP_AUTH_CMPL_EVT d = Some (?act smp_pairing_cmpl d (u\<lparr>smp_state := 0\<rparr>))"
    using smp_sm_event_row [where cb = u and act = ?act and d = d, unfolded assms(1,2), OF master_idle_lookup ok [unfolded assms(2)]]
    by (simp add: smp_row_actions_def abort_actions)
  moreover have "u\<lparr>smp_state := smp_state u\<rparr> = u" by simp
  then have "u\<lparr>smp_state := 0\<rparr> = u" unfolding assms(2) .
  ultimately show ?thesis
    using assms(3) by (simp add: smp_action_def smp_pairing_cmpl_act_def)
qed

text \<open>The acknowledgements that L2CAP reports for the channel.\<close>

definition acked :: "smp_env \<Rightarrow> nat \<Rightarrow> u16 list \<Rightarrow> smp_sys \<Rightarrow> smp_sys" where
  "acked e n ks s = foldl (\<lambda>u k. smp_enter e n (Tx_Complete L2CAP_SMP_CID k) u) s ks"

lemma master_acked:
  assumes "smp_role u = 0" "smp_state u = SMP_STATE_IDLE" "wait_for_authorization_complete u"
    "0 \<notin> set ks" "ks \<noteq> []" "sum_list (map unat ks) = unat (total_tx_unacked u)"
  shows "acked e (Suc n) ks u = smp_proc_pairing_cmpl (u\<lparr>total_tx_unacked := 0\<rparr>)"
  using assms
proof (induction ks arbitrary: u)
  case (Cons k ks)
  let ?u = "u\<lparr>total_tx_unacked := total_tx_unacked u - k\<rparr>"
  have le: "k \<le> total_tx_unacked u" using Cons.prems(6) by (simp add: word_le_nat_alt)
  then have left: "unat (total_tx_unacked u - k) = sum_list (map unat ks)"
    using Cons.prems(6) by (simp add: unat_sub)
  have step: "acked e (Suc n) (k # ks) u = acked e (Suc n) ks (smp_tx_complete_callback (sm_of e (Suc n)) (br_of e (Suc n)) L2CAP_SMP_CID k u)"
    by (simp add: acked_def smp_enter_def)
  show ?case
  proof (cases ks)
    case Nil
    then have z: "total_tx_unacked u - k = 0" using left by (simp add: word_unat_eq_iff)
    have "sm_of e (Suc n) SMP_AUTH_CMPL_EVT (Status SMP_SUCCESS) ?u = smp_proc_pairing_cmpl ?u"
      by (rule master_completes) (use Cons.prems(1,2) z in simp_all)
    then show ?thesis
      using step le z Cons.prems(3) Nil by (simp add: smp_tx_complete_callback_def acked_def)
  next
    case (Cons k' ks')
    then have "0 < sum_list (map unat ks)" using Cons.prems(4) by (auto simp: unat_gt_0)
    then have nz: "total_tx_unacked u - k \<noteq> 0" using left by (metis less_irrefl unat_0)
    then have "smp_tx_complete_callback (sm_of e (Suc n)) (br_of e (Suc n)) L2CAP_SMP_CID k u = ?u"
      using le by (simp add: smp_tx_complete_callback_def Let_def)
    then show ?thesis
      using step Cons.IH [of ?u] Cons.prems left Cons by simp
  qed
qed simp

lemma completed_failure:
  assumes "smp_role u = 0" "status u \<noteq> SMP_SUCCESS" "p_callback u"
  shows "\<exists>c. last (s_out (smp_proc_pairing_cmpl u)) = Out_Callback SMP_COMPLT_EVT (pairing_bda u) (Evt_Cmpl c) \<and>
    cm_reason c = status u \<and> smp_state (smp_proc_pairing_cmpl u) = SMP_STATE_IDLE \<and>
    pairing_bda (smp_proc_pairing_cmpl u) = zeros 6 \<and> flags (smp_proc_pairing_cmpl u) = 0 \<and> p_callback (smp_proc_pairing_cmpl u)"
proof -
  have c: "smp_state (smp_cb_cleanup x) = 0" "pairing_bda (smp_cb_cleanup x) = zeros 6" "flags (smp_cb_cleanup x) = 0"
    "p_callback (smp_cb_cleanup x) = p_callback x" for x
    by (simp_all add: smp_cb_cleanup_def tSMP_CB.extend_def zero_smp_cb_def)
  have k: "p_callback (smp_remove_fixed_channel x) = p_callback x" for x
    by (simp add: smp_remove_fixed_channel_def out_def)
  show ?thesis
    using assms by (simp add: smp_proc_pairing_cmpl_def Let_def smp_reset_control_value_def out_def c k) 
qed


definition wit_pairing :: smp_sys where
  "wit_pairing = (smp_start (\<lambda>a. None))\<lparr>smp_state := SMP_STATE_CONFIRM, p_callback := True, pairing_bda := [1, 2, 3, 4, 5, 6],
     flags := SMP_PAIR_FLAGS_WE_STARTED_DD, total_tx_unacked := 2\<rparr>"

lemma wit_pairing: "smp_role wit_pairing = 0" "smp_state wit_pairing = SMP_STATE_CONFIRM" "\<not> smp_over_br wit_pairing"
  "p_callback wit_pairing" "total_tx_unacked wit_pairing = 2" "pairing_bda wit_pairing = [1, 2, 3, 4, 5, 6]"
  "flags wit_pairing = SMP_PAIR_FLAGS_WE_STARTED_DD" "s_out wit_pairing = []"
  by (simp_all add: wit_pairing_def smp_start_def tSMP_CB.extend_def zero_smp_cb_def)

lemma wit_pairing_wait: "\<not> wait_for_authorization_complete wit_pairing"
  by (simp add: wit_pairing_def smp_start_def tSMP_CB.extend_def zero_smp_cb_def)

lemma wit_env_up: "env_up wit_env"
  by (simp add: env_up_def wit_env_def)


section \<open>The slave\<close>

lemma slave_idle_lookup:
  "smp_lookup 1 SMP_STATE_IDLE SMP_AUTH_CMPL_EVT = Some None" "smp_lookup 1 SMP_STATE_IDLE SMP_L2CAP_DISCONN_EVT = Some None"
  by (simp_all add: smp_lookup_def smp_entry_table_def rd1_def rd_def [of smp_slave_entry_map] rd_def [of "_ # _"] abort_entries)

lemma slave_ignores:
  assumes "smp_role u = 1" "smp_state u = SMP_STATE_IDLE" "ev = SMP_AUTH_CMPL_EVT \<or> ev = SMP_L2CAP_DISCONN_EVT"
  shows "sm_of e (Suc n) ev d u = u"
proof -
  have "smp_lookup (smp_role u) (smp_state u) ev = Some None" using slave_idle_lookup assms by auto
  then show ?thesis by (simp add: smp_sm_event_ignored)
qed

text \<open>What may still happen: acknowledgements, the response timer, the loss of a link.\<close>

definition ending :: "smp_call \<Rightarrow> bool" where
  "ending c = (case c of Tx_Complete cid k \<Rightarrow> cid = L2CAP_SMP_CID | Timeout \<Rightarrow> True | Connected a up r t \<Rightarrow> \<not> up | _ \<Rightarrow> False)"

definition told :: "smp_sys \<Rightarrow> smp_out list" where
  "told s = filter (\<lambda>x. case x of Out_Callback ev a d \<Rightarrow> True | _ \<Rightarrow> False) (s_out s)"

text \<open>A block in which the failure of a slave is stuck.\<close>

definition stuck :: "smp_sys \<Rightarrow> smp_sys \<Rightarrow> bool" where
  "stuck s z \<longleftrightarrow> smp_role z = 1 \<and> smp_state z = SMP_STATE_IDLE \<and> \<not> smp_over_br z \<and> told z = told s \<and>
     pairing_bda z = pairing_bda s \<and> flags z = flags s"

lemma stuck_failed: "smp_role s = 1 \<Longrightarrow> \<not> smp_over_br s \<Longrightarrow> stuck s (failed r s)"
  by (simp add: stuck_def failed_def out_def told_def)

lemma stuck_enter:
  assumes "stuck s z" "ending c"
  shows "stuck s (smp_enter e (Suc n) c z)"
proof -
  have s: "smp_role z = 1" "smp_state z = SMP_STATE_IDLE" "\<not> smp_over_br z" using assms(1) by (simp_all add: stuck_def)
  have total: "stuck s (z\<lparr>total_tx_unacked := t\<rparr>)" "smp_role (z\<lparr>total_tx_unacked := t\<rparr>) = 1"
    "smp_state (z\<lparr>total_tx_unacked := t\<rparr>) = SMP_STATE_IDLE" for t
    using assms(1) by (simp_all add: stuck_def told_def)
  have free: "stuck s (out Out_Timer_Free z)" "smp_role (out Out_Timer_Free z) = 1" "smp_state (out Out_Timer_Free z) = SMP_STATE_IDLE"
    using assms(1) by (simp_all add: stuck_def told_def out_def)
  note ig = slave_ignores [of _ SMP_AUTH_CMPL_EVT e n] slave_ignores [of _ SMP_L2CAP_DISCONN_EVT e n]
  show ?thesis
  proof (cases c)
    case (Tx_Complete cid k)
    then have "cid = L2CAP_SMP_CID" using assms(2) by (simp add: ending_def)
    then show ?thesis
      using Tx_Complete assms(1) s total ig by (simp add: smp_enter_def smp_tx_complete_callback_def Let_def del: smp_events.simps)
  next
    case Timeout
    then show ?thesis
      using assms(1) s ig by (simp add: smp_enter_def smp_rsp_timeout_def auth_cmpl_def del: smp_events.simps)
  next
    case (Connected a up r t)
    then have "\<not> up" using assms(2) by (simp add: ending_def)
    then show ?thesis
      using Connected assms(1) free ig by (simp add: smp_enter_def smp_connect_callback_def Let_def del: smp_events.simps)
  qed (use assms(2) in \<open>simp_all add: ending_def\<close>)
qed



section \<open>A timeout\<close>

lemma timeout_step:
  assumes "smp_role s < 2" "smp_state s < SMP_STATE_MAX" "\<not> smp_resting (smp_role s) (smp_state s)"
    "\<not> smp_over_br s" "total_tx_unacked s \<noteq> 0"
  shows "smp_enter e (Suc n) Timeout s = s\<lparr>smp_state := SMP_STATE_IDLE, status := SMP_RSP_TIMEOUT, failure := SMP_RSP_TIMEOUT\<rparr>"
proof -
  let ?act = "smp_action e (sm_of e n) (br_of e n)"
  let ?z = "s\<lparr>smp_state := SMP_STATE_IDLE, status := SMP_RSP_TIMEOUT, failure := SMP_RSP_TIMEOUT\<rparr>"
  have "smp_sm_event ?act s SMP_AUTH_CMPL_EVT (Status SMP_RSP_TIMEOUT) =
      Some (?act smp_pairing_cmpl (Status SMP_RSP_TIMEOUT) (?act smp_send_pair_fail (Status SMP_RSP_TIMEOUT) (s\<lparr>smp_state := SMP_STATE_IDLE\<rparr>)))"
    using smp_abort [OF assms(1-3), of ?act "Status SMP_RSP_TIMEOUT"] by simp
  moreover have "?act smp_send_pair_fail (Status SMP_RSP_TIMEOUT) (s\<lparr>smp_state := SMP_STATE_IDLE\<rparr>) = ?z"
    by (simp add: smp_action_def smp_send_pair_fail_act_def Let_def)
  moreover have "?act smp_pairing_cmpl (Status SMP_RSP_TIMEOUT) ?z = ?z"
    using assms(5) by (simp add: smp_action_def smp_pairing_cmpl_act_def)
  ultimately show ?thesis
    using assms(4) by (simp add: smp_enter_def smp_rsp_timeout_def auth_cmpl_def)
qed

lemma acked_not_waiting:
  assumes "\<not> wait_for_authorization_complete s"
  shows "\<exists>t. acked e n ks s = s\<lparr>total_tx_unacked := t\<rparr>"
  using assms
proof (induction ks arbitrary: s)
  case Nil
  show ?case by (rule exI [of _ "total_tx_unacked s"]) (simp add: acked_def)
next
  case (Cons k ks)
  let ?s = "s\<lparr>total_tx_unacked := if k \<le> total_tx_unacked s then total_tx_unacked s - k else total_tx_unacked s\<rparr>"
  have "acked e n (k # ks) s = acked e n ks ?s"
    using Cons.prems by (simp add: acked_def smp_enter_def smp_tx_complete_callback_def Let_def)
  moreover obtain t where "acked e n ks ?s = ?s\<lparr>total_tx_unacked := t\<rparr>"
    using Cons.IH [of ?s] Cons.prems by auto
  ultimately have "acked e n (k # ks) s = s\<lparr>total_tx_unacked := t\<rparr>" by simp
  then show ?case ..
qed

text \<open>
  When the response timer of a pairing over LE runs out while L2CAP has not acknowledged all packets, the
  timeout is never reported: its reason is not sent to the peer, so that nothing waits for the acknowledgements,
  and the completion is skipped because of the packets that are out.  The machine is idle, for master and slave,
  but whatever acknowledgements follow, the application is not told, the block is not cleared, and if the local
  device had started the pairing, every later request to pair is answered with \<open>SMP_BUSY\<close>.
\<close>
theorem timeout_unreported:
  assumes "smp_role s < 2" "smp_state s < SMP_STATE_MAX" "\<not> smp_resting (smp_role s) (smp_state s)"
    "\<not> smp_over_br s" "total_tx_unacked s \<noteq> 0" "\<not> wait_for_authorization_complete s"
  shows "let z = acked e (Suc n) ks (smp_enter e (Suc n) Timeout s) in
    smp_state z = SMP_STATE_IDLE \<and> s_out z = s_out s \<and> pairing_bda z = pairing_bda s \<and> flags z = flags s \<and>
    (flags s AND SMP_PAIR_FLAGS_WE_STARTED_DD \<noteq> 0 \<longrightarrow> SMP_Pair e sm a z = (SMP_BUSY, z))"
proof -
  let ?z = "s\<lparr>smp_state := SMP_STATE_IDLE, status := SMP_RSP_TIMEOUT, failure := SMP_RSP_TIMEOUT\<rparr>"
  obtain t where "acked e (Suc n) ks ?z = ?z\<lparr>total_tx_unacked := t\<rparr>"
    using acked_not_waiting [of ?z e "Suc n" ks] assms(6) by auto
  then show ?thesis
    unfolding timeout_step [OF assms(1-5)] Let_def by (simp add: SMP_Pair_def)
qed

lemma timeout_unreported_witness:
  "let z = acked wit_env (Suc 3) [1, 1] (smp_enter wit_env (Suc 3) Timeout wit_pairing) in
    smp_state z = SMP_STATE_IDLE \<and> s_out z = [] \<and> SMP_Pair wit_env (sm_of wit_env 3) [1, 2, 3, 4, 5, 6] z = (SMP_BUSY, z)"
  using timeout_unreported [of wit_pairing wit_env 3 "[1, 1]" "sm_of wit_env 3" "[1, 2, 3, 4, 5, 6]"]
  by (simp add: wit_pairing smp_resting_def wit_pairing_wait Let_def del: smp_events.simps)

end
