(* ===== verification/SmpKeyDist.thy ===== *)
theory SmpKeyDist
  imports SmpEnd
begin

text \<open>
  The distribution of keys calls itself once for each kind of key.  \<open>key_dist\<close> bounds the depth; the theory
  shows that the bound is never reached, so that the functions satisfy the recursion of the code.
\<close>

unbundle bit_operations_syntax

section \<open>What is left to distribute\<close>

definition own_keys :: "smp_sys \<Rightarrow> u8" where
  "own_keys s = (if smp_role s = HCI_ROLE_SLAVE then local_r_key s else local_i_key s)"

definition keys_left :: "smp_sys \<Rightarrow> nat" where
  "keys_left s = card {i. i < 4 \<and> bit (own_keys s) i}"

lemma keys_left_le: "keys_left s \<le> 4"
proof -
  have "{i. i < 4 \<and> bit (own_keys s) i} \<subseteq> {..<4}" by auto
  then have "card {i. i < 4 \<and> bit (own_keys s) i} \<le> card {..<4::nat}" by (rule card_mono [rotated]) simp
  then show ?thesis by (simp add: keys_left_def)
qed

lemma cleared_less:
  fixes x k :: u8
  assumes "x AND k \<noteq> 0" "k AND 15 = k"
  shows "card {i. i < 4 \<and> bit (x AND NOT k) i} < card {i. i < 4 \<and> bit x i}"
proof (rule psubset_card_mono)
  obtain i where i: "bit (x AND k) i" using assms(1) by (auto simp: bit_eq_iff)
  then have "bit (k AND 15) i" unfolding assms(2) by (simp add: bit_simps)
  then have "bit (15 :: u8) i" by (simp add: bit_simps)
  moreover have "(15 :: u8) = mask 4" by (simp add: mask_eq_exp_minus_1)
  ultimately have "i < 4" by (simp add: bit_simps)
  moreover have "bit x i" "bit k i" using i by (simp_all add: bit_simps)
  ultimately have "i \<in> {i. i < 4 \<and> bit x i}" "i \<notin> {i. i < 4 \<and> bit (x AND NOT k) i}" by (auto simp: bit_simps)
  moreover have "{i. i < 4 \<and> bit (x AND NOT k) i} \<subseteq> {i. i < 4 \<and> bit x i}" by (auto simp: bit_simps)
  ultimately show "{i. i < 4 \<and> bit (x AND NOT k) i} \<subset> {i. i < 4 \<and> bit x i}" by blast
qed simp

text \<open>What is done besides masking keeps the masks and the role.\<close>

definition same_keys :: "smp_sys \<Rightarrow> smp_sys \<Rightarrow> bool" where
  "same_keys s u \<longleftrightarrow> smp_role u = smp_role s \<and> local_i_key u = local_i_key s \<and> local_r_key u = local_r_key s"

lemma same_keys_own: "same_keys s u \<Longrightarrow> own_keys u = own_keys s"
  by (simp add: same_keys_def own_keys_def)

lemma same_keys_left: "same_keys s u \<Longrightarrow> keys_left u = keys_left s"
  by (simp add: same_keys_def keys_left_def own_keys_def)

lemma same_keys_out [simp]: "same_keys s (out x u) \<longleftrightarrow> same_keys s u" "same_keys s (save_if_bond ty k u) \<longleftrightarrow> same_keys s u"
  by (simp_all add: same_keys_def out_def save_if_bond_def)

lemma key_commands: "c \<in> {6, 7, 8, 9, 10} \<Longrightarrow> \<exists>act. rd smp_cmd_build_act (unat c) = Some (Some act) \<and> (\<forall>e s. env_up e \<longrightarrow> (\<exists>p. act e c s = Some p))"
  by (auto simp: smp_cmd_build_act_def cmd_buf_def env_up_def smp_build_encrypt_info_cmd_def smp_build_master_id_cmd_def
      smp_build_identity_info_cmd_def smp_build_id_addr_cmd_def smp_build_signing_info_cmd_def)

lemma key_sent:
  assumes "env_up e" "c \<in> {6, 7, 8, 9, 10 :: u8}"
  shows "\<exists>u. smp_send_cmd e sm br c s = (True, u) \<and> same_keys s u"
proof -
  obtain act p where a: "rd smp_cmd_build_act (unat c) = Some (Some act)" "act e c s = Some p"
    using key_commands [OF assms(2)] assms(1) by blast
  have "c \<le> SMP_OPCODE_MAX + 1" using assms(2) by auto
  then show ?thesis
    using a assms(1) by (simp add: smp_send_cmd_def smp_send_msg_to_L2CAP_def Let_def env_up_def out_def same_keys_def)
qed

lemma same_keys_trans: "same_keys s t \<Longrightarrow> same_keys t u \<Longrightarrow> same_keys s u"
  by (simp add: same_keys_def)

lemma same_keys_refl: "same_keys s s"
  by (simp add: same_keys_def)

lemma masked_left:
  assumes "own_keys s AND k \<noteq> 0" "k AND 15 = k" "same_keys (smp_update_key_mask k False s) u"
  shows "keys_left u < keys_left s"
proof -
  have "own_keys (smp_update_key_mask k False s) = own_keys s AND NOT k"
    by (simp add: own_keys_def smp_update_key_mask_def Let_def)
  then show ?thesis
    using cleared_less [OF assms(1,2)] same_keys_left [OF assms(3)] by (simp add: keys_left_def)
qed

section \<open>The functions that are picked\<close>

definition agree_below :: "nat \<Rightarrow> (smp_sys \<Rightarrow> smp_sys) \<Rightarrow> (smp_sys \<Rightarrow> smp_sys) \<Rightarrow> bool" where
  "agree_below n f g \<longleftrightarrow> (\<forall>u. keys_left u < n \<longrightarrow> f u = g u)"

lemma agree_by_transport:
  "agree_below n f f' \<Longrightarrow> agree_below n g g' \<Longrightarrow>
    agree_below n (smp_key_distribution_by_transport f g) (smp_key_distribution_by_transport f' g')"
  by (simp add: agree_below_def smp_key_distribution_by_transport_def)

lemma ltk_agrees:
  assumes "own_keys s AND 1 \<noteq> 0" "agree_below (keys_left s) f f'" "agree_below (keys_left s) g g'"
  shows "smp_generate_ltk e sm f g s = smp_generate_ltk e sm f' g' s"
proof -
  have k: "same_keys s (snd (smp_calculate_long_term_key_from_link_key e s))"
    by (simp add: smp_calculate_long_term_key_from_link_key_def Let_def case_prod_unfold same_keys_def tick_def split: option.split)
  have less: "keys_left (smp_update_key_mask 1 False (smp_save_secure_connections_long_term_key u)) < keys_left s" if "same_keys s u" for u
  proof -
    let ?t = "smp_save_secure_connections_long_term_key u"
    have t: "same_keys s ?t" using that by (simp add: smp_save_secure_connections_long_term_key_def)
    then have "own_keys ?t AND 1 \<noteq> 0" using assms(1) same_keys_own by simp
    then show ?thesis using masked_left [OF _ _ same_keys_refl, of ?t 1] same_keys_left [OF t] by simp
  qed
  show ?thesis
    using assms(2,3) less [OF k] less [OF same_keys_refl]
    by (auto simp: smp_generate_ltk_def smp_br_process_link_key_def smp_process_secure_connection_long_term_key_def
        case_prod_unfold Let_def agree_below_def split: option.split)
qed

lemma id_info_agrees:
  assumes "env_up e" "own_keys s AND 2 \<noteq> 0" "agree_below (keys_left s) f f'"
  shows "smp_send_id_info_act e sm br f s = smp_send_id_info_act e sm br f' s"
proof -
  let ?m = "smp_update_key_mask 2 False s"
  obtain u where u: "smp_send_cmd e sm br 8 ?m = (True, u)" "same_keys ?m u" using key_sent [OF assms(1), of 8] by blast
  obtain v where v: "smp_send_cmd e sm br 9 u = (True, v)" "same_keys u v" using key_sent [OF assms(1), of 9] by blast
  have "same_keys ?m (save_if_bond BTM_LE_KEY_LID Lid_Key v)" using u(2) v(2) same_keys_trans by simp
  then have "keys_left (save_if_bond BTM_LE_KEY_LID Lid_Key v) < keys_left s"
    using masked_left [OF assms(2)] by simp
  then show ?thesis using assms(3) by (simp add: smp_send_id_info_act_def Let_def send_cmd_def u v agree_below_def)
qed

lemma csrk_agrees:
  assumes "env_up e" "own_keys s AND 4 \<noteq> 0" "agree_below (keys_left s) f f'"
  shows "smp_generate_csrk e sm br f s = smp_generate_csrk e sm br f' s"
proof -
  have info: "smp_send_csrk_info e sm br f t = smp_send_csrk_info e sm br f' t" if t: "same_keys s t" for t
  proof -
    let ?m = "smp_update_key_mask 4 False t"
    obtain u where u: "smp_send_cmd e sm br 10 ?m = (True, u)" "same_keys ?m u" using key_sent [OF assms(1), of 10] by blast
    have "own_keys t AND 4 \<noteq> 0" using assms(2) same_keys_own [OF t] by simp
    then have "keys_left (out x u) < keys_left s" for x
      using masked_left [of t 4 "out x u"] u(2) same_keys_left [OF t] by simp
    then show ?thesis using assms(3) by (simp add: smp_send_csrk_info_def u agree_below_def)
  qed
  have "same_keys s (tick (s\<lparr>pcb_div := x, csrk := y\<rparr>))" for x y by (simp add: same_keys_def tick_def)
  then show ?thesis
    using info by (simp add: smp_generate_csrk_def smp_compute_csrk_def split: option.split)
qed

lemma derive_agrees:
  assumes "own_keys s AND 8 \<noteq> 0" "agree_below (keys_left s) f f'"
  shows "smp_set_derive_link_key f s = smp_set_derive_link_key f' s"
proof -
  let ?d = "s\<lparr>derive_lk := True\<rparr>"
  have "own_keys ?d = own_keys s" by (simp add: own_keys_def)
  then have "own_keys ?d AND 8 \<noteq> 0" "keys_left ?d = keys_left s" using assms(1) by (simp_all add: keys_left_def)
  then have "keys_left (smp_update_key_mask 8 False ?d) < keys_left s"
    using masked_left [of ?d 8, OF _ _ same_keys_refl] by simp
  then show ?thesis using assms(2) by (simp add: smp_set_derive_link_key_def agree_below_def)
qed

lemma pick_agrees:
  assumes "env_up e" "agree_below (keys_left s) f f'" "agree_below (keys_left s) g g'"
  shows "smp_key_pick_key e sm br f g s = smp_key_pick_key e sm br f' g' s"
  using ltk_agrees [OF _ assms(2,3)] id_info_agrees [OF assms(1) _ agree_by_transport [OF assms(2,3)]]
    csrk_agrees [OF assms(1) _ agree_by_transport [OF assms(2,3)]] derive_agrees [OF _ assms(2)]
  by (simp add: smp_key_pick_key_def smp_distribute_act_def own_keys_def flip: own_keys_def)

section \<open>The calls\<close>

text \<open>
  The calls of the two distributions unfolded to a depth, with any functions \<open>beyond\<close> in the place of the
  calls that are deeper.
\<close>

primrec key_calls ::
    "smp_env \<Rightarrow> smp_event_fun \<Rightarrow> smp_event_fun \<Rightarrow> (bool \<Rightarrow> smp_sys \<Rightarrow> smp_sys) \<Rightarrow> nat \<Rightarrow> bool \<Rightarrow> smp_sys \<Rightarrow> smp_sys" where
  "key_calls e sm br beyond 0 = beyond"
| "key_calls e sm br beyond (Suc n) = (\<lambda>over_br.
     if over_br then br_select_next_key_step e sm br (key_calls e sm br beyond n False) (key_calls e sm br beyond n True)
     else key_distribution_step e sm br (key_calls e sm br beyond n False) (key_calls e sm br beyond n True))"

lemma key_dist_calls: "key_dist e sm br n over_br = key_calls e sm br (\<lambda>_. bad) n over_br"
proof (induction n arbitrary: over_br)
  case (Suc n)
  show ?case by (rule ext) (simp add: Suc.IH)
qed (simp add: fun_eq_iff)

lemma steps_agree:
  assumes "env_up e" "agree_below (keys_left s) f f'" "agree_below (keys_left s) g g'"
  shows "key_distribution_step e sm br f g s = key_distribution_step e sm br f' g' s"
    "br_select_next_key_step e sm br f g s = br_select_next_key_step e sm br f' g' s"
  using pick_agrees [OF assms] by (simp_all add: key_distribution_step_def br_select_next_key_step_def)

lemma calls_agree:
  assumes "env_up e" "keys_left s < n" "keys_left s < m"
  shows "key_calls e sm br x n over_br s = key_calls e sm br y m over_br s"
  using assms(2,3)
proof (induction n arbitrary: m s over_br)
  case (Suc n)
  then obtain k where m: "m = Suc k" by (cases m) auto
  have "agree_below (keys_left s) (key_calls e sm br x n c) (key_calls e sm br y k c)" for c
    unfolding agree_below_def
  proof (intro allI impI)
    fix u assume "keys_left u < keys_left s"
    then show "key_calls e sm br x n c u = key_calls e sm br y k c u"
      using Suc.IH [of u k c] Suc.prems m by simp
  qed
  then show ?case using steps_agree [OF assms(1)] by (simp add: m)
qed simp

lemma acts_are_calls:
  assumes "env_up e" "4 < n"
  shows "smp_key_distribution_act e sm br s = key_calls e sm br beyond n False s"
    "smp_br_select_next_key_act e sm br s = key_calls e sm br beyond n True s"
  using assms(2) keys_left_le [of s]
  by (auto simp: smp_key_distribution_act_def smp_br_select_next_key_act_def key_dist_calls intro!: calls_agree [OF assms(1)])

lemma solution_is_calls:
  assumes "\<And>u. dist u = key_distribution_step e sm br dist next u" "\<And>u. next u = br_select_next_key_step e sm br dist next u"
  shows "key_calls e sm br (\<lambda>b. if b then next else dist) n = (\<lambda>b. if b then next else dist)"
proof -
  have "key_distribution_step e sm br dist next = dist" "br_select_next_key_step e sm br dist next = next"
    using assms by (simp_all add: fun_eq_iff)
  then show ?thesis by (induction n) (auto intro!: ext)
qed

text \<open>
  C22: While packets can be sent, the distribution of keys ends: the calls of itself are at most five deep, for
  the result is the same whatever would be done by a sixth.  The two distributions are therefore the only
  functions that satisfy the recursive equations of the code.
\<close>
theorem key_distribution_ends:
  assumes "env_up e"
  shows "smp_key_distribution_act e sm br s = key_calls e sm br beyond 5 False s \<and>
    smp_br_select_next_key_act e sm br s = key_calls e sm br beyond 5 True s \<and>
    ((\<forall>u. dist u = key_distribution_step e sm br dist next u) \<and> (\<forall>u. next u = br_select_next_key_step e sm br dist next u) \<longleftrightarrow>
       dist = smp_key_distribution_act e sm br \<and> next = smp_br_select_next_key_act e sm br)"
proof (intro conjI iffI)
  show "smp_key_distribution_act e sm br s = key_calls e sm br beyond 5 False s"
    "smp_br_select_next_key_act e sm br s = key_calls e sm br beyond 5 True s"
    by (rule acts_are_calls [OF assms], simp)+
next
  assume *: "(\<forall>u. dist u = key_distribution_step e sm br dist next u) \<and> (\<forall>u. next u = br_select_next_key_step e sm br dist next u)"
  have "key_calls e sm br (\<lambda>b. if b then next else dist) 5 = (\<lambda>b. if b then next else dist)"
    using * by (intro solution_is_calls) blast+
  then show "dist = smp_key_distribution_act e sm br" "next = smp_br_select_next_key_act e sm br"
    using acts_are_calls [OF assms, of 5 sm br _ "\<lambda>b. if b then next else dist"] by (simp_all add: fun_eq_iff)
next
  have eq: "key_calls e sm br (\<lambda>_. bad) 5 False = smp_key_distribution_act e sm br"
    "key_calls e sm br (\<lambda>_. bad) 5 True = smp_br_select_next_key_act e sm br"
    using acts_are_calls [OF assms, of 5 sm br] by (simp_all add: fun_eq_iff)
  assume "dist = smp_key_distribution_act e sm br \<and> next = smp_br_select_next_key_act e sm br"
  then have d: "dist = smp_key_distribution_act e sm br" "next = smp_br_select_next_key_act e sm br" by simp_all
  show "\<forall>u. dist u = key_distribution_step e sm br dist next u" "\<forall>u. next u = br_select_next_key_step e sm br dist next u"
    using acts_are_calls [OF assms, of "Suc 5" sm br _ "\<lambda>_. bad"] unfolding key_calls.simps(2) eq d by simp_all
qed

lemma key_distribution_ends_witness:
  "key_calls wit_env (\<lambda>ev d s. s) (\<lambda>ev d s. s) (\<lambda>_. bad) 5 False wit_pairing =
   key_calls wit_env (\<lambda>ev d s. s) (\<lambda>ev d s. s) (\<lambda>_ s. s) 5 False wit_pairing"
  using key_distribution_ends [OF wit_env_up, of "\<lambda>ev d s. s" "\<lambda>ev d s. s" wit_pairing "\<lambda>_. bad"]
    key_distribution_ends [OF wit_env_up, of "\<lambda>ev d s. s" "\<lambda>ev d s. s" wit_pairing "\<lambda>_ s. s"]
  by simp

end
