(* ===== verification/SmpFips.thy ===== *)
theory SmpFips
  imports SmpCmacProofs
begin

text \<open>
  The cipher of \<open>stack/smp/aes.c\<close> is AES.  The theory writes down FIPS 197 as it stands: the field, the S-box
  by inversion in the field and an affine map, the four transformations of the state, the key expansion and
  the cipher.  The tables of the code are then shown to be the standard's S-box and multiples, the
  prepared schedule its key expansion, and the encryption its cipher, for the three lengths of a key.
\<close>

unbundle bit_operations_syntax

section \<open>The field (FIPS 197, 4)\<close>

definition xtime :: "u8 \<Rightarrow> u8" where
  "xtime b = push_bit 1 b XOR (if bit b 7 then 0x1b else 0)"

text \<open>A product is the sum of the multiples \<open>x ^ i * b\<close> for the bits of \<open>a\<close>.\<close>

fun gf_mult_bits :: "nat \<Rightarrow> u8 \<Rightarrow> u8 \<Rightarrow> u8" where
  "gf_mult_bits 0 a b = 0"
| "gf_mult_bits (Suc n) a b = (if a AND 1 = 0 then 0 else b) XOR gf_mult_bits n (drop_bit 1 a) (xtime b)"

definition gf_mult :: "u8 \<Rightarrow> u8 \<Rightarrow> u8" where
  "gf_mult a b = gf_mult_bits 8 a b"

text \<open>The multiplicative inverse; 0 is its own.\<close>

definition gf_inverse :: "u8 \<Rightarrow> u8" where
  "gf_inverse b = (case find (\<lambda>c. gf_mult b c = 1) (map word_of_nat [0..<256]) of Some c \<Rightarrow> c | None \<Rightarrow> 0)"

lemma xtime_gf2: "xtime = gf2"
  by (rule ext) (simp add: xtime_def gf2_shift)

lemma gf_mult_bits_linear: "gf_mult_bits n a (x XOR y) = gf_mult_bits n a x XOR gf_mult_bits n a y"
  by (induction n arbitrary: a x y) (simp_all add: xtime_gf2 gf2_xor ac_simps)

lemma gf_mult_bits_zero [simp]: "gf_mult_bits n a 0 = 0" "gf_mult_bits n 0 b = 0"
proof -
  show "gf_mult_bits n a 0 = 0" using gf_mult_bits_linear [of n a 0 0] by simp
  show "gf_mult_bits n 0 b = 0" by (induction n arbitrary: b) simp_all
qed

lemma gf_mult_bits_xtime: "gf_mult_bits n a (xtime b) = xtime (gf_mult_bits n a b)"
proof (induction n arbitrary: a b)
  case 0
  show ?case by (simp add: xtime_def)
next
  case (Suc n)
  have z: "xtime 0 = 0" by (simp add: xtime_def)
  show ?case by (simp add: Suc.IH z) (simp add: xtime_gf2 gf2_xor)
qed

lemma gf_mult_commutes: "gf_mult_bits n a (gf_mult_bits m b y) = gf_mult_bits m b (gf_mult_bits n a y)"
proof (induction n arbitrary: a y)
  case (Suc n)
  have "gf_mult_bits n (drop_bit 1 a) (xtime (gf_mult_bits m b y)) = gf_mult_bits m b (gf_mult_bits n (drop_bit 1 a) (xtime y))"
    using Suc.IH [of "drop_bit 1 a" "xtime y"] by (simp only: gf_mult_bits_xtime)
  then show ?case by (simp add: gf_mult_bits_linear)
qed simp

lemma gf_mult_bits_power:
  "k + n \<le> 8 \<Longrightarrow> gf_mult_bits n a (push_bit k 1) = push_bit k (take_bit n a)"
proof (induction n arbitrary: k a)
  case (Suc n)
  have "gf_mult_bits n (drop_bit 1 a) (xtime (push_bit k 1)) = push_bit (Suc k) (take_bit n (drop_bit 1 a))"
  proof (cases "n = 0")
    case False
    then have "k < 7" using Suc.prems by simp
    then have "\<not> bit (push_bit k 1 :: u8) 7" by (simp only: bit_push_bit_iff bit_1_iff) simp
    then have "xtime (push_bit k 1) = push_bit (Suc k) 1" by (simp add: xtime_def)
    then show ?thesis using Suc.IH [of "Suc k" "drop_bit 1 a"] Suc.prems by simp
  qed simp
  moreover have "(if a AND 1 = 0 then 0 else push_bit k 1) = push_bit k (take_bit 1 a)"
    by (simp add: and_one_eq take_bit_Suc mod_2_eq_odd)
  moreover have "take_bit (Suc n) a = take_bit 1 a XOR push_bit 1 (take_bit n (drop_bit 1 a))"
  proof (rule bit_word_eqI)
    fix i assume "i < LENGTH(8)"
    then show "bit (take_bit (Suc n) a) i \<longleftrightarrow> bit (take_bit 1 a XOR push_bit 1 (take_bit n (drop_bit 1 a))) i"
      unfolding bit_xor_iff bit_push_bit_iff bit_take_bit_iff bit_drop_bit_eq comp_def by (cases i) auto
  qed
  then have "push_bit k (take_bit (Suc n) a) = push_bit k (take_bit 1 a) XOR push_bit (Suc k) (take_bit n (drop_bit 1 a))"
    by (simp only: push_bit_xor push_bit_push_bit) simp
  ultimately show ?case by (simp only: gf_mult_bits.simps)
qed simp

lemma gf_mult_1: "gf_mult a 1 = a"
  using gf_mult_bits_power [of 0 8 a] by (simp add: gf_mult_def take_bit_word_eq_self)

lemma inverse_unique:
  assumes "gf_mult b c = 1" "gf_mult b c' = 1"
  shows "c = c'"
proof -
  have "c = gf_mult c (gf_mult b c')" using assms(2) by (simp add: gf_mult_1)
  also have "\<dots> = gf_mult b (gf_mult c' (gf_mult c 1))"
    unfolding gf_mult_1 by (metis gf_mult_1 gf_mult_commutes gf_mult_def)
  also have "\<dots> = gf_mult c' (gf_mult b c)"
    unfolding gf_mult_1 by (metis gf_mult_commutes gf_mult_def)
  finally show ?thesis using assms(1) by (simp add: gf_mult_1)
qed

section \<open>The S-box (FIPS 197, 5.1.1)\<close>

definition rotl8 :: "nat \<Rightarrow> u8 \<Rightarrow> u8" where
  "rotl8 n b = push_bit n b OR drop_bit (8 - n) b"

definition affine :: "u8 \<Rightarrow> u8" where
  "affine b = b XOR rotl8 1 b XOR rotl8 2 b XOR rotl8 3 b XOR rotl8 4 b XOR 0x63"

definition sub_byte :: "u8 \<Rightarrow> u8" where
  "sub_byte x = affine (gf_inverse x)"

text \<open>The inverses, found by trial, are checked here.\<close>

definition inverses :: "u8 list" where
  "inverses = [
     0x00, 0x01, 0x8d, 0xf6, 0xcb, 0x52, 0x7b, 0xd1, 0xe8, 0x4f, 0x29, 0xc0, 0xb0, 0xe1, 0xe5, 0xc7,
     0x74, 0xb4, 0xaa, 0x4b, 0x99, 0x2b, 0x60, 0x5f, 0x58, 0x3f, 0xfd, 0xcc, 0xff, 0x40, 0xee, 0xb2,
     0x3a, 0x6e, 0x5a, 0xf1, 0x55, 0x4d, 0xa8, 0xc9, 0xc1, 0x0a, 0x98, 0x15, 0x30, 0x44, 0xa2, 0xc2,
     0x2c, 0x45, 0x92, 0x6c, 0xf3, 0x39, 0x66, 0x42, 0xf2, 0x35, 0x20, 0x6f, 0x77, 0xbb, 0x59, 0x19,
     0x1d, 0xfe, 0x37, 0x67, 0x2d, 0x31, 0xf5, 0x69, 0xa7, 0x64, 0xab, 0x13, 0x54, 0x25, 0xe9, 0x09,
     0xed, 0x5c, 0x05, 0xca, 0x4c, 0x24, 0x87, 0xbf, 0x18, 0x3e, 0x22, 0xf0, 0x51, 0xec, 0x61, 0x17,
     0x16, 0x5e, 0xaf, 0xd3, 0x49, 0xa6, 0x36, 0x43, 0xf4, 0x47, 0x91, 0xdf, 0x33, 0x93, 0x21, 0x3b,
     0x79, 0xb7, 0x97, 0x85, 0x10, 0xb5, 0xba, 0x3c, 0xb6, 0x70, 0xd0, 0x06, 0xa1, 0xfa, 0x81, 0x82,
     0x83, 0x7e, 0x7f, 0x80, 0x96, 0x73, 0xbe, 0x56, 0x9b, 0x9e, 0x95, 0xd9, 0xf7, 0x02, 0xb9, 0xa4,
     0xde, 0x6a, 0x32, 0x6d, 0xd8, 0x8a, 0x84, 0x72, 0x2a, 0x14, 0x9f, 0x88, 0xf9, 0xdc, 0x89, 0x9a,
     0xfb, 0x7c, 0x2e, 0xc3, 0x8f, 0xb8, 0x65, 0x48, 0x26, 0xc8, 0x12, 0x4a, 0xce, 0xe7, 0xd2, 0x62,
     0x0c, 0xe0, 0x1f, 0xef, 0x11, 0x75, 0x78, 0x71, 0xa5, 0x8e, 0x76, 0x3d, 0xbd, 0xbc, 0x86, 0x57,
     0x0b, 0x28, 0x2f, 0xa3, 0xda, 0xd4, 0xe4, 0x0f, 0xa9, 0x27, 0x53, 0x04, 0x1b, 0xfc, 0xac, 0xe6,
     0x7a, 0x07, 0xae, 0x63, 0xc5, 0xdb, 0xe2, 0xea, 0x94, 0x8b, 0xc4, 0xd5, 0x9d, 0xf8, 0x90, 0x6b,
     0xb1, 0x0d, 0xd6, 0xeb, 0xc6, 0x0e, 0xcf, 0xad, 0x08, 0x4e, 0xd7, 0xe3, 0x5d, 0x50, 0x1e, 0xb3,
     0x5b, 0x23, 0x38, 0x34, 0x68, 0x46, 0x03, 0x8c, 0xdd, 0x9c, 0x7d, 0xa0, 0xcd, 0x1a, 0x41, 0x1c]"

lemma affine_inverses: "map affine inverses = sbox"
  by code_simp

definition inverse_at :: "nat \<Rightarrow> nat \<Rightarrow> bool" where
  "inverse_at m n = list_all2 (\<lambda>x c. gf_mult x c = 1) (map word_of_nat [m..<m + n]) (take n (drop m inverses))"

lemma inverse_at_nth:
  assumes "inverse_at m n" "m \<le> i" "i < m + n"
  shows "gf_mult (word_of_nat i) (inverses ! i) = 1"
proof -
  have l: "length inverses = 256" by (simp add: inverses_def)
  have "length (take n (drop m inverses)) = n" using assms(1) by (auto simp: inverse_at_def dest: list_all2_lengthD)
  then have "m + n \<le> 256 \<or> n = 0" using l by auto
  then show ?thesis
    using assms l list_all2_nthD [of "\<lambda>x c. gf_mult x c = 1" "map word_of_nat [m..<m + n]" "take n (drop m inverses)" "i - m"]
    by (auto simp: inverse_at_def)
qed

lemma inverses_0: "inverse_at 1 63" by code_simp
lemma inverses_1: "inverse_at 64 64" by code_simp
lemma inverses_2: "inverse_at 128 64" by code_simp
lemma inverses_3: "inverse_at 192 64" by code_simp

lemma gf_mult_inverses:
  assumes "x \<noteq> 0"
  shows "gf_mult x (inverses ! unat x) = 1"
proof -
  have "1 \<le> unat x" "unat x < 256" using assms unat_u8_lt [of x] by (simp_all add: Suc_le_eq unat_gt_0)
  then consider "1 \<le> unat x \<and> unat x < 1 + 63" | "64 \<le> unat x \<and> unat x < 64 + 64" | "128 \<le> unat x \<and> unat x < 128 + 64" | "192 \<le> unat x \<and> unat x < 192 + 64"
    by linarith
  then have "gf_mult (word_of_nat (unat x)) (inverses ! unat x) = 1"
    by cases (use inverse_at_nth inverses_0 inverses_1 inverses_2 inverses_3 in blast)+
  then show ?thesis by simp
qed

lemma gf_inverse_at: "gf_inverse x = inverses ! unat x"
proof (cases "x = 0")
  case True
  have "find (\<lambda>c. gf_mult x c = 1) ys = None" for ys by (induction ys) (simp_all add: True gf_mult_def)
  then show ?thesis by (simp add: gf_inverse_def True inverses_def)
next
  case False
  let ?c = "inverses ! unat x"
  have "?c \<in> set (map word_of_nat [0..<256])"
  proof -
    have "?c = word_of_nat (unat ?c)" by simp
    then show ?thesis using unat_u8_lt [of ?c] unfolding set_map set_upt by (intro image_eqI [of _ _ "unat ?c"]) simp_all
  qed
  then have "find (\<lambda>c. gf_mult x c = 1) (map word_of_nat [0..<256]) \<noteq> None"
    using gf_mult_inverses [OF False] unfolding find_None_iff by blast
  then obtain d where d: "find (\<lambda>c. gf_mult x c = 1) (map word_of_nat [0..<256]) = Some d" by blast
  then have "gf_mult x d = 1" unfolding find_Some_iff by auto
  then show ?thesis using inverse_unique [OF _ gf_mult_inverses [OF False]] d by (simp add: gf_inverse_def)
qed

lemma s_box_sub_byte: "s_box x = sub_byte x"
proof -
  have "sbox ! unat x = affine (inverses ! unat x)"
    unfolding affine_inverses [symmetric] using unat_u8_lt [of x] by (intro nth_map) (simp add: inverses_def)
  then show ?thesis by (simp add: s_box_def sub_byte_def gf_inverse_at)
qed

lemma gf_mult_bits_23: "gf_mult_bits (Suc (Suc n)) 2 x = xtime x" "gf_mult_bits (Suc (Suc n)) 3 x = x XOR xtime x"
  by simp_all

lemma xtime_byte: "gf_mult 2 x = gf2 x" "gf_mult 3 x = gf2 x XOR x"
proof -
  have "8 = Suc (Suc 6)" by simp
  then show "gf_mult 2 x = gf2 x" "gf_mult 3 x = gf2 x XOR x"
    unfolding gf_mult_def xtime_gf2 [symmetric] by (simp_all only: gf_mult_bits_23 xor.commute)
qed

section \<open>The transformations of the state (FIPS 197, 3.4 and 5.1)\<close>

type_synonym aes_state = "nat \<Rightarrow> nat \<Rightarrow> u8"

definition state_in :: "bytes \<Rightarrow> aes_state" where
  "state_in b r c = b ! (r + 4 * c)"

definition state_out :: "aes_state \<Rightarrow> bytes" where
  "state_out s = map (\<lambda>i. s (i mod 4) (i div 4)) [0..<16]"

definition SubBytes :: "aes_state \<Rightarrow> aes_state" where
  "SubBytes s r c = sub_byte (s r c)"

definition ShiftRows :: "aes_state \<Rightarrow> aes_state" where
  "ShiftRows s r c = s r ((c + r) mod 4)"

definition MixColumns :: "aes_state \<Rightarrow> aes_state" where
  "MixColumns s r c = gf_mult 2 (s r c) XOR gf_mult 3 (s ((r + 1) mod 4) c) XOR s ((r + 2) mod 4) c XOR s ((r + 3) mod 4) c"

definition AddRoundKey :: "(nat \<Rightarrow> bytes) \<Rightarrow> nat \<Rightarrow> aes_state \<Rightarrow> aes_state" where
  "AddRoundKey w l s r c = s r c XOR w (4 * l + c) ! r"

definition Cipher :: "nat \<Rightarrow> (nat \<Rightarrow> bytes) \<Rightarrow> bytes \<Rightarrow> bytes" where
  "Cipher Nr w b =
     (let s = AddRoundKey w 0 (state_in b);
          s = fold (\<lambda>l s. AddRoundKey w l (MixColumns (ShiftRows (SubBytes s)))) [1..<Nr] s in
      state_out (AddRoundKey w Nr (ShiftRows (SubBytes s))))"

section \<open>The key expansion (FIPS 197, 5.2)\<close>

definition xor_word :: "bytes \<Rightarrow> bytes \<Rightarrow> bytes" where
  "xor_word a b = map2 (XOR) a b"

definition Rcon :: "nat \<Rightarrow> bytes" where
  "Rcon j = [(xtime ^^ (j - 1)) 1, 0, 0, 0]"

function key_word :: "nat \<Rightarrow> bytes \<Rightarrow> nat \<Rightarrow> bytes" where
  "key_word Nk key i =
     (if i < Nk \<or> Nk = 0 then take 4 (drop (4 * i) key)
      else let temp = key_word Nk key (i - 1);
               temp = (if i mod Nk = 0 then xor_word (map sub_byte (rotate1 temp)) (Rcon (i div Nk))
                       else if 6 < Nk \<and> i mod Nk = 4 then map sub_byte temp
                       else temp) in
           xor_word (key_word Nk key (i - Nk)) temp)"
  by pat_completeness auto
termination
  by (relation "measure (\<lambda>(Nk, key, i). i)") auto

declare key_word.simps [simp del]

definition AES :: "bytes \<Rightarrow> bytes \<Rightarrow> bytes" where
  "AES key b = (let Nk = length key div 4 in Cipher (Nk + 6) (key_word Nk key) b)"

section \<open>The rounds of the code\<close>

definition agrees :: "aes_state \<Rightarrow> bytes \<Rightarrow> bool" where
  "agrees s st \<longleftrightarrow> length st = 16 \<and> (\<forall>r < 4. \<forall>c < 4. s r c = st ! (r + 4 * c))"

lemma all_less_4: "(\<forall>i < 4 :: nat. P i) \<longleftrightarrow> P 0 \<and> P 1 \<and> P 2 \<and> P 3"
  by (auto simp: numeral_eq_Suc less_Suc_eq)

lemma agrees_in: "length b = 16 \<Longrightarrow> agrees (state_in b) b"
  by (simp add: agrees_def state_in_def)

lemma agrees_out: "agrees s st \<Longrightarrow> state_out s = st"
  by (intro nth_equalityI) (simp_all add: agrees_def state_out_def)

lemma agrees_shift: "agrees s st \<Longrightarrow> agrees (ShiftRows (SubBytes s)) (shift_sub_rows st)"
  by (simp add: agrees_def all_less_4 ShiftRows_def SubBytes_def shift_sub_rows_def s_box_sub_byte flip: numeral_2_eq_2 numeral_3_eq_3)

lemma agrees_mix: "agrees s st \<Longrightarrow> agrees (MixColumns (ShiftRows (SubBytes s))) (mix_sub_columns st)"
  by (simp add: agrees_def all_less_4 MixColumns_def ShiftRows_def SubBytes_def mix_sub_columns_def xtime_byte gfm2_sb_gf2 gfm3_sb_gf2
      s_box_sub_byte ac_simps flip: numeral_2_eq_2 numeral_3_eq_3)

definition key_matches :: "(nat \<Rightarrow> bytes) \<Rightarrow> nat \<Rightarrow> bytes \<Rightarrow> bool" where
  "key_matches w l k \<longleftrightarrow> 16 \<le> length k \<and> (\<forall>c < 4. \<forall>r < 4. k ! (r + 4 * c) = w (4 * l + c) ! r)"

lemma agrees_key:
  assumes "agrees s st" "key_matches w l k"
  shows "agrees (AddRoundKey w l s) (xor_block st k)"
proof -
  have "r + 4 * c < 16" if "r < 4" "c < 4" for r c :: nat using that by simp
  then show ?thesis using assms by (auto simp: agrees_def key_matches_def AddRoundKey_def xor_block_def N_BLOCK_def)
qed

lemma agrees_rounds:
  assumes "\<And>l. l \<in> set ls \<Longrightarrow> key_matches w l (key l)" "agrees s st"
  shows "agrees (fold (\<lambda>l s. AddRoundKey w l (MixColumns (ShiftRows (SubBytes s)))) ls s)
    (fold (\<lambda>l s. add_round_key (mix_sub_columns s) (key l)) ls st)"
  using assms
proof (induction ls arbitrary: s st)
  case (Cons l ls)
  have "agrees (AddRoundKey w l (MixColumns (ShiftRows (SubBytes s)))) (add_round_key (mix_sub_columns st) (key l))"
    unfolding add_round_key_def using Cons.prems by (intro agrees_key agrees_mix) simp_all
  with Cons show ?case by simp
qed simp

lemma encrypt_cipher:
  assumes "rnd ctx \<noteq> 0" "length b = 16" "\<And>l. l \<le> rnd ctx \<Longrightarrow> key_matches w l (round_key ctx l)"
  shows "bluedroid_aes_encrypt b ctx = Some (Cipher (rnd ctx) w b)"
proof -
  have k0: "key_matches w 0 (ksch ctx)" using assms(3) [of 0] by (simp add: round_key_def)
  let ?s = "fold (\<lambda>r s1. add_round_key (mix_sub_columns s1) (round_key ctx r)) [1..<rnd ctx] (copy_and_key b (ksch ctx))"
  let ?t = "fold (\<lambda>l s. AddRoundKey w l (MixColumns (ShiftRows (SubBytes s)))) [1..<rnd ctx] (AddRoundKey w 0 (state_in b))"
  have "agrees ?t ?s"
    using assms(3) agrees_key [OF agrees_in [OF assms(2)] k0] by (intro agrees_rounds) (simp_all add: copy_and_key_xor [OF assms(2)])
  then have "agrees (AddRoundKey w (rnd ctx) (ShiftRows (SubBytes ?t))) (copy_and_key (shift_sub_rows ?s) (round_key ctx (rnd ctx)))"
    using agrees_key [OF agrees_shift] assms(3) by (simp add: copy_and_key_xor)
  from agrees_out [OF this] show ?thesis using assms(1) by (simp add: bluedroid_aes_encrypt_def Cipher_def Let_def)
qed

section \<open>The schedule of the code\<close>

lemma length_key_word: "4 * Nk = length key \<Longrightarrow> 0 < Nk \<Longrightarrow> length (key_word Nk key i) = 4"
proof (induction Nk key i rule: key_word.induct)
  case (1 Nk key i)
  show ?case
  proof (cases "i < Nk \<or> Nk = 0")
    case True
    then show ?thesis using 1(3,4) by (auto simp: key_word.simps [of Nk key i])
  next
    case False
    then have "length (key_word Nk key (i - 1)) = 4" "length (key_word Nk key (i - Nk)) = 4"
      using "1.IH" 1(3,4) by blast+
    then show ?thesis using False by (simp add: key_word.simps [of Nk key i] xor_word_def Rcon_def Let_def)
  qed
qed

text \<open>The words before \<open>i\<close> and the round constant, while the schedule is written.\<close>

definition expanded :: "nat \<Rightarrow> bytes \<Rightarrow> nat \<Rightarrow> u8 \<times> bytes \<Rightarrow> bool" where
  "expanded Nk key i s \<longleftrightarrow> length (snd s) = 240 \<and> fst s = (xtime ^^ ((i - 1) div Nk)) 1 \<and>
     (\<forall>j < i. take 4 (drop (4 * j) (snd s)) = key_word Nk key j)"

lemma taken_nth:
  assumes "take 4 (drop (4 * j) k) = [a, b, c, d]"
  shows "k ! (4 * j) = a" "k ! (4 * j + 1) = b" "k ! (4 * j + 2) = c" "k ! (4 * j + 3) = d"
proof -
  have "length (take 4 (drop (4 * j) k)) = 4" unfolding assms by simp
  then have l: "4 * j + 4 \<le> length k" by simp
  have "take 4 (drop (4 * j) k) ! n = k ! (4 * j + n)" if "n < 4" for n using l that by simp
  from this [of 0] this [of 1] this [of 2] this [of 3]
  show "k ! (4 * j) = a" "k ! (4 * j + 1) = b" "k ! (4 * j + 2) = c" "k ! (4 * j + 3) = d" unfolding assms by simp_all
qed

lemma take_drop_4:
  assumes "4 * j + 4 \<le> length k"
  shows "take 4 (drop (4 * j) k) = [k ! (4 * j), k ! (4 * j + 1), k ! (4 * j + 2), k ! (4 * j + 3)]"
  by (rule nth_equalityI) (use assms in \<open>auto simp: less_Suc_eq numeral_eq_Suc\<close>)

lemma word_4:
  assumes "length w = 4"
  obtains a b c d where "w = [a, b, c, d]"
  using assms by (auto simp: numeral_eq_Suc length_Suc_conv)

lemma put_word:
  assumes "4 * i + 4 \<le> length k"
  shows "take 4 (drop (4 * j) (k[4 * i := a, 4 * i + 1 := b, 4 * i + 2 := c, 4 * i + 3 := d])) =
    (if j = i then [a, b, c, d] else take 4 (drop (4 * j) k))"
proof (cases "j = i")
  case True
  then show ?thesis using assms by (simp add: take_drop_4)
next
  case False
  have "4 * j + n \<noteq> 4 * i + m" if "n < 4" "m < 4" for n m using False that by presburger
  then show ?thesis using False by (intro nth_equalityI) (auto simp: nth_list_update)
qed

lemma step_expanded:
  assumes "expanded Nk key i (rc, k)" "4 * Nk = length key" "0 < Nk" "Nk \<le> i" "i < 60"
  shows "expanded Nk key (Suc i) (key_step (4 * Nk) (4 * i) (rc, k))"
proof -
  obtain t0 t1 t2 t3 where t: "key_word Nk key (i - 1) = [t0, t1, t2, t3]" using word_4 [OF length_key_word [OF assms(2,3)]] .
  obtain u0 u1 u2 u3 where u: "key_word Nk key (i - Nk) = [u0, u1, u2, u3]" using word_4 [OF length_key_word [OF assms(2,3)]] .
  have k: "length k = 240" and rc: "rc = (xtime ^^ ((i - 1) div Nk)) 1"
    and w: "j < i \<Longrightarrow> take 4 (drop (4 * j) k) = key_word Nk key j" for j
    using assms(1) by (simp_all add: expanded_def)
  have i: "0 < i" using assms(3,4) by simp
  have at: "4 * i - 4 = 4 * (i - 1)" "4 * i - 3 = 4 * (i - 1) + 1" "4 * i - 2 = 4 * (i - 1) + 2" "4 * i - 1 = 4 * (i - 1) + 3"
    "4 * i - 4 * Nk = 4 * (i - Nk)" using i by simp_all
  have "i - 1 < i" "i - Nk < i" using i assms(3) by simp_all
  note rd = taken_nth [OF w [OF this(1), unfolded t]] taken_nth [OF w [OF this(2), unfolded u]]
  have md: "4 * i mod (4 * Nk) = 4 * (i mod Nk)" by (rule mult_mod_right [symmetric])
  let ?w = "key_word Nk key i"
  have kw: "?w = (if i mod Nk = 0 then [u0 XOR (s_box t1 XOR rc), u1 XOR s_box t2, u2 XOR s_box t3, u3 XOR s_box t0]
      else if 6 < Nk \<and> i mod Nk = 4 then [u0 XOR s_box t0, u1 XOR s_box t1, u2 XOR s_box t2, u3 XOR s_box t3]
      else [u0 XOR t0, u1 XOR t1, u2 XOR t2, u3 XOR t3])"
  proof -
    have "i div Nk - 1 = (i - 1) div Nk" if "i mod Nk = 0"
    proof -
      have "i div Nk = Suc ((i - 1) div Nk)" using div_Suc [of "i - 1" Nk] i that by simp
      then show ?thesis by simp
    qed
    then show ?thesis
      using assms(3,4) by (simp add: key_word.simps [of Nk key i] Let_def t [unfolded One_nat_def] u xor_word_def Rcon_def s_box_sub_byte rc)
  qed
  have rc': "(xtime ^^ (i div Nk)) 1 = (if i mod Nk = 0 then ucast (gf_f2 (ucast rc)) else rc)"
  proof (cases "i mod Nk = 0")
    case True
    then have "i div Nk = Suc ((i - 1) div Nk)" using div_Suc [of "i - 1" Nk] i by simp
    then show ?thesis using True by (simp add: rc xtime_gf2 gf2_def)
  next
    case False
    then have "(i - 1) div Nk = i div Nk" using i div_Suc [of "i - 1" Nk] by simp
    then show ?thesis using False by (simp add: rc)
  qed
  have step: "key_step (4 * Nk) (4 * i) (rc, k) = ((xtime ^^ (i div Nk)) 1,
      k[4 * i := ?w ! 0, 4 * i + 1 := ?w ! 1, 4 * i + 2 := ?w ! 2, 4 * i + 3 := ?w ! 3])"
  proof -
    have c: "4 * (i mod Nk) = 0 \<longleftrightarrow> i mod Nk = 0" "24 < 4 * Nk \<longleftrightarrow> 6 < Nk" "4 * (i mod Nk) = 16 \<longleftrightarrow> i mod Nk = 4" by simp_all
    consider (rot) "i mod Nk = 0" | (sub) "i mod Nk \<noteq> 0" "6 < Nk \<and> i mod Nk = 4" | (plain) "i mod Nk \<noteq> 0" "\<not> (6 < Nk \<and> i mod Nk = 4)" by blast
    then show ?thesis
    proof cases
      case rot
      then show ?thesis unfolding key_step_def Let_def prod.case at md rd kw rc' c by (simp only: if_True prod.case) simp
    next
      case sub
      then show ?thesis unfolding key_step_def Let_def prod.case at md rd kw rc' c by (simp only: if_True if_False prod.case) simp
    next
      case plain
      then show ?thesis unfolding key_step_def Let_def prod.case at md rd kw rc' c by (simp only: if_False prod.case) simp
    qed
  qed
  have "4 * i + 4 \<le> length k" using k assms(5) by simp
  note put = put_word [OF this]
  obtain w0 w1 w2 w3 where w4: "?w = [w0, w1, w2, w3]" using word_4 [OF length_key_word [OF assms(2,3)]] .
  have "[?w ! 0, ?w ! 1, ?w ! 2, ?w ! 3] = ?w" unfolding w4 by simp
  then show ?thesis
    unfolding expanded_def step fst_conv snd_conv put using w k by (auto simp: less_Suc_eq)
qed

lemma loop_expanded:
  assumes "expanded Nk key Nk s" "4 * Nk = length key" "0 < Nk" "Nk + n \<le> 60"
  shows "expanded Nk key (Nk + n) (key_loop (4 * Nk) (map (\<lambda>i. 4 * Nk + 4 * i) [0..<n]) s)"
  using assms(4)
proof (induction n)
  case (Suc n)
  have app: "key_loop m (xs @ ys) s = key_loop m ys (key_loop m xs s)" for m xs ys and s :: "u8 \<times> bytes"
    by (induction xs arbitrary: s) simp_all
  let ?s = "key_loop (4 * Nk) (map (\<lambda>i. 4 * Nk + 4 * i) [0..<n]) s"
  have "4 * Nk + 4 * n = 4 * (Nk + n)" by simp
  then have "expanded Nk key (Suc (Nk + n)) (key_step (4 * Nk) (4 * Nk + 4 * n) ?s)"
    using step_expanded [of Nk key "Nk + n" "fst ?s" "snd ?s"] Suc assms(2,3) by simp
  then show ?case by (simp add: app)
qed (use assms(1) in simp)

lemma set_key_expanded:
  assumes "keylen \<in> {16, 24, 32, 128, 192}" "length key = aes_key_size keylen" "length (ksch ctx) = 240"
    "bt_aes_set_key key keylen ctx = (ret, ctx')"
  shows "rnd ctx' = length key div 4 + 6 \<and> (\<forall>j < 4 * (rnd ctx' + 1). take 4 (drop (4 * j) (ksch ctx')) = key_word (length key div 4) key j)"
proof -
  let ?n = "aes_key_size keylen" and ?Nk = "length key div 4"
  have n: "?n = 16 \<or> ?n = 24 \<or> ?n = 32" by (simp add: aes_key_size_def)
  then have nk: "4 * ?Nk = length key" "4 * ?Nk = ?n" "0 < ?Nk" using assms(2) by auto
  let ?k = "take ?n key @ drop ?n (ksch ctx)"
  let ?m = "((?n + 28) * 4 - ?n) div 4"
  let ?ccs = "map (\<lambda>i. ?n + 4 * i) [0..<?m]"
  have sel: "(if keylen = 16 \<or> keylen = 128 then Some 16 else if keylen = 24 \<or> keylen = 192 then Some 24
      else if keylen = 32 then Some (32 :: nat) else None) = Some ?n"
    using assms(1) by (auto simp: aes_key_size_def)
  obtain rc k where k: "key_loop ?n ?ccs (1, ?k) = (rc, k)" by fastforce
  have c: "ctx' = ctx\<lparr>ksch := k, rnd := (?n + 28) * 4 div 16 - 1\<rparr>"
    using assms(4) k unfolding bt_aes_set_key_def sel by (simp add: Let_def)
  have "expanded ?Nk key ?Nk (1, ?k)"
  proof -
    have "length ?k = 240" using assms(2,3) n by auto
    moreover have "(?Nk - 1) div ?Nk = 0" using nk(3) by simp
    moreover have "take 4 (drop (4 * j) ?k) = key_word ?Nk key j" if "j < ?Nk" for j
    proof -
      have "key_word ?Nk key j = take 4 (drop (4 * j) key)" using that by (simp add: key_word.simps [of ?Nk key j])
      moreover have "4 * j + 4 \<le> length key" using that nk(1) by simp
      ultimately show ?thesis using assms(2) by simp
    qed
    ultimately show ?thesis by (simp add: expanded_def)
  qed
  moreover have "?Nk + ?m \<le> 60" using n nk(2) by auto
  ultimately have "expanded ?Nk key (?Nk + ?m) (rc, k)" using loop_expanded [of ?Nk key "(1, ?k)" ?m] nk k by simp
  moreover have "?Nk + ?m = 4 * ((?n + 28) * 4 div 16 - 1 + 1)" "(?n + 28) * 4 div 16 - 1 = ?Nk + 6" using n nk(2) by auto
  ultimately show ?thesis unfolding c expanded_def by simp
qed

lemma aes_encrypt_AES:
  assumes "keylen \<in> {16, 24, 32, 128, 192}" "length key = aes_key_size keylen" "length (ksch ctx) = 240"
    "bt_aes_set_key key keylen ctx = (ret, ctx')" "length b = 16"
  shows "bluedroid_aes_encrypt b ctx' = Some (AES key b)"
proof -
  note e = set_key_expanded [OF assms(1-4)]
  let ?w = "key_word (length key div 4) key"
  have "4 * (length key div 4) = length key" "0 < length key div 4" using assms(2) by (auto simp: aes_key_size_def)
  note len = length_key_word [OF this]
  have kd: "keyed ctx'" using set_key_keyed [OF assms(1-4)] by simp
  have "key_matches ?w l (round_key ctx' l)" if l: "l \<le> rnd ctx'" for l
  proof -
    have "round_key ctx' l ! (r + 4 * c) = ?w (4 * l + c) ! r" if "c < 4" "r < 4" for c r
    proof -
      have j: "4 * l + c < 4 * (rnd ctx' + 1)" using l that by simp
      then have t: "take 4 (drop (4 * (4 * l + c)) (ksch ctx')) = ?w (4 * l + c)" using e by blast
      have "length (take 4 (drop (4 * (4 * l + c)) (ksch ctx'))) = 4" unfolding t by (rule len)
      then have "4 * (4 * l + c) + 4 \<le> length (ksch ctx')" by simp
      then have "?w (4 * l + c) ! r = ksch ctx' ! (4 * (4 * l + c) + r)" using that unfolding t [symmetric] by simp
      moreover have "round_key ctx' l ! (r + 4 * c) = ksch ctx' ! (l * 16 + (r + 4 * c))"
        using \<open>4 * (4 * l + c) + 4 \<le> length (ksch ctx')\<close> that by (simp add: round_key_def N_BLOCK_def)
      ultimately show ?thesis by (simp add: algebra_simps)
    qed
    then show ?thesis using length_round_key [OF kd l] by (simp add: key_matches_def)
  qed
  from encrypt_cipher [OF _ assms(5) this] show ?thesis
    using kd e by (simp add: keyed_def AES_def Let_def)
qed

text \<open>The block cipher under the authentication codes of \<open>SmpCmacProofs\<close> and \<open>SmpSpec\<close>.\<close>

lemma aes_128_AES:
  assumes "length b = 16" "length key = 16"
  shows "fst (bluedroid_aes_encrypt_128 b key) = AES key b"
proof -
  have l: "length (ksch stack_context) = 240" by (simp add: stack_context_def)
  obtain r u where u: "bt_aes_set_key key 16 stack_context = (r, u)" by fastforce
  have "bluedroid_aes_encrypt b u = Some (AES key b)"
    using assms by (intro aes_encrypt_AES [OF _ _ l u]) (simp_all add: aes_key_size_def)
  then show ?thesis using encrypt_128_schedule [OF assms(2) l u, of b] by simp
qed

lemma aes_word_AES: "length key = 16 \<Longrightarrow> aes_word key w = be128 (AES (rev key) (rev (bytes128 w)))"
  by (simp add: aes_word_def aes_block_def be128_def aes_128_AES)

section \<open>Property\<close>

text \<open>
  C16: With a key of 128, 192 or 256 bits set by \<open>bt_aes_set_key\<close>, \<open>bluedroid_aes_encrypt\<close> is the cipher of
  FIPS 197 and \<open>bluedroid_aes_decrypt\<close> takes it back; the encryption with round keys made on the fly and
  \<open>SMP_Encrypt\<close>, on arrays with the least significant byte first, are the cipher for 128 bits.
\<close>
theorem aes_is_fips197:
  assumes "keylen \<in> {16, 24, 32, 128, 192}" "length key = aes_key_size keylen" "length (ksch ctx) = 240"
    "length b = 16" "length k = 16"
  shows "(let ctx' = snd (bt_aes_set_key key keylen ctx) in
      bluedroid_aes_encrypt b ctx' = Some (AES key b) \<and> bluedroid_aes_decrypt (AES key b) ctx' = Some b) \<and>
    fst (bluedroid_aes_encrypt_128 b k) = AES k b \<and>
    map_option enc_param_buf (SMP_Encrypt True k 16 b 16) = Some (rev (AES (rev k) (rev b)))"
proof -
  obtain ret ctx' where c: "bt_aes_set_key key keylen ctx = (ret, ctx')" by fastforce
  have e: "bluedroid_aes_encrypt b ctx' = Some (AES key b)" by (rule aes_encrypt_AES [OF assms(1-3) c assms(4)])
  moreover have "keyed ctx'" using set_key_keyed [OF assms(1-3) c] by simp
  ultimately have d: "bluedroid_aes_decrypt (AES key b) ctx' = Some b" using decrypt_encrypt [OF _ assms(4)] by fastforce
  then show ?thesis using assms(4,5) e c by (simp add: encrypt_data aes_block_def aes_128_AES)
qed

lemma aes_is_fips197_witness:
  "fst (bluedroid_aes_encrypt_128 (replicate 16 7) (replicate 16 9)) = AES (replicate 16 9) (replicate 16 7) \<and>
   bluedroid_aes_encrypt (replicate 16 7) (snd (bt_aes_set_key (replicate 24 9) 24 \<lparr>ksch = replicate 240 0, rnd = 0\<rparr>)) =
     Some (AES (replicate 24 9) (replicate 16 7))"
  using aes_is_fips197 [of 24 "replicate 24 9" "\<lparr>ksch = replicate 240 0, rnd = 0\<rparr>" "replicate 16 7" "replicate 16 9"]
  by (simp add: aes_key_size_def Let_def)

end
