(* ===== verification/Spec2Isabelle.thy ===== *)
theory Spec2Isabelle
  imports OsiQueue RfcPeers RfcCredit HciReassembly SmpPasskey SmpCommands SmpKeyDist SmpFips
begin

text \<open>
  A verification of core parts of the Bluetooth host stack in \<open>src/bluedroid\<close>: the containers of the
  operating system layer, the fragmentation of packets in the HCI layer, all of RFCOMM, and the security manager
  (SMP) with all of its cryptography.  The definitions are shallow translations of the C
  functions and carry their names (a name that HOL or an enumeration already uses has the suffix \<open>_act\<close>).

  \<^bold>\<open>The program\<close>

  The controller's packets reach the host through the HCI layer (\<open>hci/packet_fragmenter.c\<close> cuts outgoing ACL
  packets to the controller's buffer size and puts incoming fragments together, keeping the partial packets in
  an \<open>osi/hash_map.c\<close>), whose tasks are coupled by queues (\<open>osi/fixed_queue.c\<close> over \<open>osi/list.c\<close> and two
  semaphores).  L2CAP hands the data to its clients.  RFCOMM (\<open>stack/rfcomm\<close>) multiplexes serial ports: for
  each peer a multiplexer (\<open>rfc_mx_fsm.c\<close>) with its L2CAP channel, for each connection a port
  (\<open>rfc_port_fsm.c\<close>, \<open>port_rfc.c\<close>), which the application uses through \<open>port_api.c\<close>.  Frames
  (\<open>rfc_ts_frames.c\<close>) carry the data, credits and commands; commands wait while L2CAP is congested.  The
  security manager (\<open>stack/smp\<close>) pairs devices: \<open>smp_l2c.c\<close> receives commands and turns them into events of
  one of two table-driven state machines (\<open>smp_main.c\<close> for LE, \<open>smp_br_main.c\<close> for pairing over BR/EDR),
  whose rows run the actions of \<open>smp_act.c\<close>; these build and check commands (\<open>smp_utils.c\<close>), compute keys
  (\<open>smp_keys.c\<close>, over \<open>smp_cmac.c\<close>, \<open>aes.c\<close> and the P-256 arithmetic of \<open>p_256_*.c\<close>) and raise further
  events.  The application enters through \<open>smp_api.c\<close>.

  \<^bold>\<open>Theories and sources\<close>

  \<^item> \<open>Prelude\<close>: byte buffers, reads that may leave them, facts proved by evaluating all 256 bytes.
  \<^item> \<open>OsiList\<close>: \<open>osi/list.c\<close> over a heap of node cells; the allocator is a parameter.  Every operation returns
    and implements the HOL list operation, with its frame and the nodes it frees.  The loops are
    \<open>partial_function\<close>s, so that an endless one would be \<open>None\<close>.
  \<^item> \<open>OsiQueue\<close>: \<open>osi/fixed_queue.c\<close> and \<open>osi/semaphore.c\<close>, sequentially and as interleavings of threads
    (\<open>fq_step\<close>, one step per atomic section).  The contract of a bounded queue is the locale \<open>bounded_fifo\<close>.
  \<^item> \<open>OsiHashMap\<close>: \<open>osi/hash_map.c\<close>, \<open>osi/hash_functions.c\<close>; every sequence of operations refines a map.
  \<^item> \<open>HciFragmenter\<close>, \<open>HciReassembly\<close>: \<open>hci/packet_fragmenter.c\<close>; the partial packets are in the hash map of
    \<open>OsiHashMap\<close>, whose contract is the locale \<open>dictionary\<close>.  Fragments of a peer are reassembled, for any interleaving of
    connections; the wrap-around of the 16-bit lengths is written out.
  \<^item> \<open>RfcFcs\<close>, \<open>RfcFrames\<close>, \<open>RfcParse\<close>, \<open>RfcRoundTrip\<close>, \<open>RfcPeers\<close>: the check sequence and command queue of
    \<open>stack/rfcomm/rfc_utils.c\<close> and all of \<open>rfc_ts_frames.c\<close>.  What one role sends, the other parses.  What a
    parsed message leads to is an \<open>mx_action\<close>, which \<open>rfc_mx_action\<close> of \<open>RfcL2cap\<close> carries out.
  \<^item> \<open>RfcSys\<close>: the control blocks of RFCOMM, their pools, the timers (\<open>rfc_utils.c\<close>, \<open>port_utils.c\<close>).  \<open>RfcPort\<close>:
    closing, flow control and data (\<open>rfc_port_if.c\<close>, \<open>port_utils.c\<close>, \<open>port_rfc.c\<close>).  \<open>RfcMachines\<close>: the port
    machine.  \<open>RfcMux\<close>: the multiplexer machine.  \<open>RfcL2cap\<close>: the handlers of its messages, the callbacks of
    L2CAP (\<open>rfc_l2cap_if.c\<close>), of the timers and of the security check.  \<open>RfcApi\<close>: \<open>port_api.c\<close>.
  \<^item> \<open>RfcInv\<close>, \<open>RfcSafety\<close>: the invariant \<open>rfc_inv\<close> of the tables, one rule per operation in the collection
    \<open>rfc_intros\<close>; \<open>rfc_reachable\<close> is what any sequence of calls (\<open>rfc_call\<close>, \<open>rfc_step\<close>) makes of the initial
    state; which calls can bring a port behind the security check.
  \<^item> \<open>RfcCredit\<close>: the two ends of a connection with credit based flow control (\<open>credit_run\<close>), built from the
    functions the handlers use on a port; \<open>credit_handlers\<close> says that the handlers do just these steps.
  \<^item> \<open>MpArith\<close>, \<open>MpMod\<close>, \<open>MpModSum\<close>, \<open>MpFastMod\<close>, \<open>MpReduce\<close>, \<open>MpInv\<close>: \<open>p_256_multprecision.c\<close> and
    \<open>p_256_curvepara.c\<close>.  Numbers are lists of 32-bit words (\<open>DWORD\<close>, the target's \<open>unsigned long\<close>), least
    significant first.  The value of every routine is proved; for the reduction modulo the prime with the
    exact side condition, outside of which two products are shown to come out wrong.
  \<^item> \<open>EccPoint\<close>, \<open>EccCheck\<close>: \<open>p_256_ecc_pp.c\<close>: points, the signed digits of a multiplier, the public key check.
  \<^item> \<open>SmpAes\<close>, \<open>SmpAesProofs\<close>, \<open>SmpAesRound\<close>, \<open>SmpAesOtf\<close>: \<open>aes.c\<close> in the configuration of its headers.  The
    tables are those of the field operations; decryption inverts encryption; prepared and on-the-fly key
    schedules agree.  \<open>SmpFips\<close> writes down FIPS 197 (the field, the S-box by inversion, the key expansion, the
    cipher); the encryption of the code is that cipher for the three lengths of a key (\<open>aes_128_AES\<close>,
    \<open>aes_word_AES\<close> carry this to the block cipher under the authentication code and the toolbox).
  \<^item> \<open>SmpCmac\<close>, \<open>SmpCmacProofs\<close>: \<open>SMP_Encrypt\<close> and \<open>smp_cmac.c\<close>.  The code is AES-CMAC of RFC 4493, stated
    over 128-bit words with the RFC's subkeys.
  \<^item> \<open>SmpToolbox\<close>, \<open>SmpSpec\<close>: f4, g2, f5, f6 and h6 of \<open>smp_keys.c\<close>, and the same functions as the Bluetooth
    specification writes them, most significant byte first.
  \<^item> \<open>SmpMain\<close>, \<open>SmpBr\<close>: the tables and drivers of the two machines.  \<open>SmpSafety\<close>: what the tables guarantee:
    every entry is inside its table, and messages with keys are processed while bonding only, whatever
    the actions do.
  \<^item> \<open>SmpCb\<close>: the control block \<open>tSMP_CB\<close> field by field, and around it (\<open>smp_sys\<close>) the device records, the list
    of calls that left the security manager, and a clock that tells computations apart.
  \<^item> \<open>SmpUtils\<close>, \<open>SmpKeys\<close>, \<open>SmpAct\<close>: \<open>smp_utils.c\<close>, \<open>smp_keys.c\<close>, \<open>smp_act.c\<close>, one definition per function
    with all its branches.  The two machines are the parameters \<open>sm\<close> and \<open>br\<close>.
  \<^item> \<open>SmpRun\<close>: ties the knot: \<open>smp_action\<close> fills the action table, \<open>smp_events\<close> is the machines with their
    actions; \<open>smp_rand_back\<close>, the callbacks of \<open>smp_l2c.c\<close>, the link.  \<open>SmpApi\<close>: \<open>smp_api.c\<close>.
  \<^item> \<open>SmpWf\<close>, \<open>SmpEntry\<close>: the type invariant \<open>smp_wf\<close> of the control block.  The locale \<open>wf_machines\<close> assumes
    that the machines keep it and proves it of every action; it is interpreted on \<open>smp_events\<close>.
    \<open>smp_reachable\<close> is what any sequence of calls makes of the initial block.
  \<^item> \<open>SmpPeers\<close>: two devices that hold as the peer's what the other holds as its own (\<open>mirrored\<close>) and know each
    other's addresses (\<open>linked\<close>): models that fit, equal numbers, commitments, confirm values, keys, checks.
  \<^item> \<open>SmpPasskey\<close>, \<open>SmpCommands\<close>, \<open>SmpEnd\<close>, \<open>SmpKeyDist\<close>: passkeys and the reflection of public keys; commands
    from one device through the actions of the other; how a pairing that fails ends, and when it is never
    reported; the end of the distribution of keys.

  \<^bold>\<open>Conventions\<close>

  A \<open>UINT8\<close>, \<open>UINT16\<close> or \<open>UINT32\<close> is a word of its width and wraps around.  An array is a list of bytes; a
  read or write outside a buffer is \<open>None\<close>, or in the security manager the mark \<open>s_bad\<close> and in RFCOMM the mark
  \<open>rs_bad\<close>, after which the model says nothing of the code.  Locks and semaphores of the platform are counters and atomic sections.

  Parameters of the model are: the answers of the allocator (\<open>alloc\<close>, \<open>hm_mem\<close>, \<open>mem\<close>, \<open>e_mem\<close>); the congestion
  of L2CAP; for the port and multiplexer machines of RFCOMM the record \<open>rfc_env\<close> (congestion, memory, the channel
  that \<open>L2CA_ConnectReq\<close> returns, packet sizes, the clock, whether the application takes data); and for the
  security manager the record \<open>smp_env\<close>: whether packets and requests for random
  numbers are taken, the addresses, identity keys, versions and roles of the device database, the result of
  starting encryption, the content of uninitialised arrays, and the application's callback, which answers with
  data and does not call back into the security manager.  Random numbers arrive as arguments of
  \<open>smp_rand_back\<close>.  The application's callbacks of RFCOMM are recorded and do not call back into it; L2CAP may
  report congestion from within a write, and the result of a security check is an event of its own.  No property assumes more of them than its statement says; the witnesses use the concrete
  environments \<open>wit_env\<close> and \<open>wit_peer_env\<close>.

  \<^bold>\<open>Bounds\<close>

  \<open>smp_events e n\<close> runs events nested up to depth \<open>n\<close>; the properties hold for every \<open>n\<close>, or for every \<open>n\<close>
  from the depth that the statement names, and show that the run did reach its end.  Key distribution
  is a recursion with the depth 17; \<open>key_distribution_ends\<close> proves that while packets can be sent five calls
  are enough, since each clears a bit of the masks.  The loop that writes bytes to a port runs as many rounds
  as there are bytes, the loop that sends the queue of a port one more than it has buffers.  All other loops are structural, have a measure or are \<open>partial_function\<close>s whose
  termination is proved.

  \<^bold>\<open>Not modelled\<close>

  The group law of \<open>ECC_Double\<close> and \<open>ECC_Add\<close> is not proved (the definitions are there): that the two sides
  of a pairing have the same DHKey is a hypothesis of \<open>mirrored\<close>.  The self test and the debug prints of the
  security manager, and the configurations of \<open>aes.c\<close> that are not compiled, are left out.  The Bluetooth manager
  (\<open>stack/btm\<close>), L2CAP, SDP, GATT, the audio and control profiles, the application layer (\<open>bta\<close>, \<open>btc\<close>, \<open>api\<close>) and the timers, tasks and storage of \<open>osi\<close> are independent
  components around these; what the modelled code needs of them is a parameter.  The connection of \<open>RfcCredit\<close> leaves out
  \<open>PORT_FlowControl_MaxCredit\<close>, which grants credits for buffers that were not taken.  \<open>external/sbc\<close> is third-party code.
\<close>

end
